(* ===== verification/Fw_Prelude.thy ===== *)
theory Fw_Prelude
  imports Main "HOL-Library.Word" "HOL-Library.State_Monad"
begin

text \<open>
  What every other theory of the development uses: the machine integers of the C code, the state
  monad in which its functions are written, the weakest-precondition calculus their proofs use,
  and the little-endian and big-endian byte codecs of the structures the code lays over memory.
\<close>

unbundle bit_operations_syntax

section \<open>Machine integers\<close>

type_synonym u8 = "8 word"
type_synonym u16 = "16 word"
type_synonym u32 = "32 word"
type_synonym u64 = "64 word"
type_synonym bytes = "8 word list"

text \<open>
  \<open>unat\<close> of a sum or product of 32-bit values under the absence of a wrap, the form in which every
  bounds check of the code is used.
\<close>

named_theorems nowrap \<open>arithmetic on 32-bit values that do not wrap\<close>

lemma unat_add_nowrap [nowrap]:
  fixes a b :: u32
  assumes "unat a + unat b < 2 ^ 32"
  shows "unat (a + b) = unat a + unat b"
  using assms by (simp add: unat_word_ariths)

lemma unat_mult_nowrap [nowrap]:
  fixes a b :: u32
  assumes "unat a * unat b < 2 ^ 32"
  shows "unat (a * b) = unat a * unat b"
  using assms by (simp add: unat_word_ariths)

lemma unat_sub_nowrap [nowrap]:
  fixes a b :: u32
  assumes "b \<le> a"
  shows "unat (a - b) = unat a - unat b"
  using assms by (rule unat_sub)

lemma unat_lt_u32 [simp]: "unat (a :: u32) < 4294967296"
  using unsigned_less [of a] by simp

lemma unat_lt_u8 [simp]: "unat (a :: u8) < 256"
  using unsigned_less [of a] by simp

lemma unat_lt_u16 [simp]: "unat (a :: u16) < 65536"
  using unsigned_less [of a] by simp

section \<open>The state monad and its weakest preconditions\<close>

text \<open>
  A C function that reads and writes the globals of its file is a value of the state monad of
  \<open>HOL-Library.State_Monad\<close>. \<open>gets\<close> reads a field, \<open>modify\<close> writes one.
\<close>

definition gets :: "('s \<Rightarrow> 'a) \<Rightarrow> ('s, 'a) state" where
  "gets f = State (\<lambda>s. (f s, s))"

definition modify :: "('s \<Rightarrow> 's) \<Rightarrow> ('s, unit) state" where
  "modify f = State (\<lambda>s. ((), f s))"

definition when_m :: "bool \<Rightarrow> ('s, unit) state \<Rightarrow> ('s, unit) state" where
  "when_m b m = (if b then m else State_Monad.return ())"

lemma run_state_gets [simp]: "run_state (gets f) s = (f s, s)"
  by (simp add: gets_def)

lemma run_state_modify [simp]: "run_state (modify f) s = ((), f s)"
  by (simp add: modify_def)

lemma run_state_when_m [simp]:
  "run_state (when_m b m) s = (if b then run_state m s else ((), s))"
  by (simp add: when_m_def)

text \<open>
  \<open>wp m Q s\<close>: running \<open>m\<close> from \<open>s\<close> gives a result and a state that satisfy \<open>Q\<close>. The functions are
  deterministic and total, so this is at once the weakest precondition and the strongest statement
  about the run. The equations of \<open>wp_simps\<close> push it through the monad's operations.
\<close>

definition wp :: "('s, 'a) state \<Rightarrow> ('a \<Rightarrow> 's \<Rightarrow> bool) \<Rightarrow> 's \<Rightarrow> bool" where
  "wp m Q s = (case run_state m s of (r, t) \<Rightarrow> Q r t)"

named_theorems wp_simps \<open>weakest preconditions of the monad's operations\<close>

lemma wp_bind [wp_simps]: "wp (State_Monad.bind m f) Q s = wp m (\<lambda>r. wp (f r) Q) s"
  by (simp add: wp_def split: prod.splits)

lemma wp_return [wp_simps]: "wp (State_Monad.return x) Q s = Q x s"
  by (simp add: wp_def)

lemma wp_gets [wp_simps]: "wp (gets f) Q s = Q (f s) s"
  by (simp add: wp_def)

lemma wp_get [wp_simps]: "wp State_Monad.get Q s = Q s s"
  by (simp add: wp_def)

lemma wp_modify [wp_simps]: "wp (modify f) Q s = Q () (f s)"
  by (simp add: wp_def)

lemma wp_when_m [wp_simps]: "wp (when_m b m) Q s = (if b then wp m Q s else Q () s)"
  by (simp add: wp_def)

lemma wp_if [wp_simps]: "wp (if b then m else n) Q s = (if b then wp m Q s else wp n Q s)"
  by simp

lemma wp_case_option [wp_simps]:
  "wp (case x of None \<Rightarrow> m | Some y \<Rightarrow> f y) Q s =
     (case x of None \<Rightarrow> wp m Q s | Some y \<Rightarrow> wp (f y) Q s)"
  by (simp split: option.splits)

lemma wp_case_prod [wp_simps]:
  "wp (case x of (a, b) \<Rightarrow> f a b) Q s = (case x of (a, b) \<Rightarrow> wp (f a b) Q s)"
  by (simp split: prod.splits)

lemma wp_Let [wp_simps]: "wp (let x = a in f x) Q s = (let x = a in wp (f x) Q s)"
  by (simp add: Let_def)

lemma wp_iff: "wp m Q s \<longleftrightarrow> (\<forall>r t. run_state m s = (r, t) \<longrightarrow> Q r t)"
  by (simp add: wp_def split: prod.splits)

lemma wp_all: "(\<And>r t. Q r t) \<Longrightarrow> wp m Q s"
  by (simp add: wp_iff)

lemma wp_mono: "wp m P s \<Longrightarrow> (\<And>r t. P r t \<Longrightarrow> Q r t) \<Longrightarrow> wp m Q s"
  by (simp add: wp_def split: prod.splits)

lemma wp_conj: "wp m P s \<Longrightarrow> wp m Q s \<Longrightarrow> wp m (\<lambda>r t. P r t \<and> Q r t) s"
  by (simp add: wp_def split: prod.splits)

lemma wp_run: "run_state m s = (r, t) \<Longrightarrow> wp m Q s = Q r t"
  by (simp add: wp_def)

lemma wpD: "wp m Q s \<Longrightarrow> run_state m s = (r, t) \<Longrightarrow> Q r t"
  by (simp add: wp_def)

lemma wpI: "(\<And>r t. run_state m s = (r, t) \<Longrightarrow> Q r t) \<Longrightarrow> wp m Q s"
  by (simp add: wp_iff)

text \<open>Symbolic execution: the equations that run a body whose calls have known results.\<close>

named_theorems run_simps \<open>running the monad's operations\<close>

lemma run_bind [run_simps]:
  "run_state (State_Monad.bind m f) s = (case run_state m s of (r, t) \<Rightarrow> run_state (f r) t)"
  by (simp add: State_Monad.bind_def)

lemma run_if [run_simps]:
  "run_state (if b then m else n) s = (if b then run_state m s else run_state n s)"
  by simp

lemma run_get [run_simps]: "run_state State_Monad.get s = (s, s)"
  by simp

lemma run_return [run_simps]: "run_state (State_Monad.return x) s = (x, s)"
  by simp

text \<open>
  \<open>keeps m I\<close>: the function \<open>m\<close> keeps the predicate \<open>I\<close> of the state; what every invariant of the
  development is stated with. The rules of \<open>keeps_intros\<close> follow the shape of a body.
\<close>

definition keeps :: "('s \<Rightarrow> bool) \<Rightarrow> ('s, 'a) state \<Rightarrow> bool" where
  "keeps I m \<longleftrightarrow> (\<forall>s. I s \<longrightarrow> I (snd (run_state m s)))"

named_theorems keeps_intros \<open>preservation of a state predicate, by the shape of the function\<close>

lemma keeps_bind [keeps_intros]:
  "keeps I m \<Longrightarrow> (\<And>x. keeps I (f x)) \<Longrightarrow> keeps I (State_Monad.bind m f)"
  by (fastforce simp: keeps_def split: prod.splits)

lemma keeps_return [keeps_intros]: "keeps I (State_Monad.return x)"
  by (simp add: keeps_def)

lemma keeps_gets [keeps_intros]: "keeps I (gets f)"
  by (simp add: keeps_def)

lemma keeps_get [keeps_intros]: "keeps I State_Monad.get"
  by (simp add: keeps_def)

lemma keeps_modify: "(\<And>s. I s \<Longrightarrow> I (f s)) \<Longrightarrow> keeps I (modify f)"
  by (simp add: keeps_def)

lemma keeps_when_m [keeps_intros]: "(b \<Longrightarrow> keeps I m) \<Longrightarrow> keeps I (when_m b m)"
  by (auto simp: keeps_def)

lemma keeps_if [keeps_intros]:
  "(b \<Longrightarrow> keeps I m) \<Longrightarrow> (\<not> b \<Longrightarrow> keeps I n) \<Longrightarrow> keeps I (if b then m else n)"
  by simp

lemma keeps_case_option [keeps_intros]:
  "(x = None \<Longrightarrow> keeps I m) \<Longrightarrow> (\<And>y. x = Some y \<Longrightarrow> keeps I (f y)) \<Longrightarrow>
   keeps I (case x of None \<Rightarrow> m | Some y \<Rightarrow> f y)"
  by (cases x) simp_all

lemma keeps_case_prod [keeps_intros]:
  "(\<And>a b. x = (a, b) \<Longrightarrow> keeps I (f a b)) \<Longrightarrow> keeps I (case x of (a, b) \<Rightarrow> f a b)"
  by (cases x) simp

lemma keeps_case_sum [keeps_intros]:
  "(\<And>a. x = Inl a \<Longrightarrow> keeps I (f a)) \<Longrightarrow> (\<And>b. x = Inr b \<Longrightarrow> keeps I (g b)) \<Longrightarrow>
   keeps I (case x of Inl a \<Rightarrow> f a | Inr b \<Rightarrow> g b)"
  by (cases x) simp_all

lemma keeps_Let [keeps_intros]: "(\<And>x. keeps I (f x)) \<Longrightarrow> keeps I (let x = a in f x)"
  by (simp add: Let_def)

lemma keepsD: "keeps I m \<Longrightarrow> I s \<Longrightarrow> run_state m s = (r, t) \<Longrightarrow> I t"
  by (fastforce simp: keeps_def)

lemma keeps_wp: "keeps I m \<longleftrightarrow> (\<forall>s. I s \<longrightarrow> wp m (\<lambda>_. I) s)"
  by (simp add: keeps_def wp_def split_beta)

end
