(* ===== verification/Fw_Codec.thy ===== *)
theory Fw_Codec
  imports Fw_Prelude
begin

text \<open>
  Byte layouts. The C code overlays its structures on buffers read from flash, RRAM or the SPI bus;
  here each layout is a pair of an encoder and a decoder, and the contract every client uses (fixed
  width, decoding what was encoded) is the locale \<open>codec\<close>, interpreted below on the 32-bit and
  16-bit integers in both byte orders and, in the theories that own them, on the structures.
\<close>

section \<open>The interface\<close>

locale codec =
  fixes enc :: "'a \<Rightarrow> bytes" and dec :: "bytes \<Rightarrow> 'a" and width :: nat and wf :: "'a \<Rightarrow> bool"
  assumes length_enc: "wf x \<Longrightarrow> length (enc x) = width"
    and dec_enc: "wf x \<Longrightarrow> dec (enc x) = x"
begin

lemma enc_inject: "wf x \<Longrightarrow> wf y \<Longrightarrow> enc x = enc y \<longleftrightarrow> x = y"
  by (metis dec_enc)

lemma dec_prefix: "wf x \<Longrightarrow> dec (take width (enc x @ rest)) = x"
  by (simp add: length_enc dec_enc)

lemma dec_field:
  assumes "wf x" and "length pre = off"
  shows "dec (take width (drop off (pre @ enc x @ rest))) = x"
  using assms by (simp add: length_enc dec_enc)

lemma length_concat_enc: "(\<forall>x \<in> set xs. wf x) \<Longrightarrow> length (concat (map enc xs)) = width * length xs"
  by (induction xs) (auto simp: length_enc)

lemma dec_array:
  assumes "\<forall>x \<in> set xs. wf x" and "i < length xs"
  shows "dec (take width (drop (i * width) (concat (map enc xs) @ rest))) = xs ! i"
  using assms
proof (induction xs arbitrary: i)
  case Nil
  then show ?case by simp
next
  case (Cons x xs)
  show ?case
  proof (cases i)
    case 0
    with Cons.prems show ?thesis by (simp add: length_enc dec_enc)
  next
    case (Suc j)
    have "drop (Suc j * width) (concat (map enc (x # xs)) @ rest) =
        drop (j * width) (concat (map enc xs) @ rest)"
      using Cons.prems by (simp add: length_enc)
    with Suc Cons show ?thesis by simp
  qed
qed

end

text \<open>A codec whose decoder loses nothing: re-encoding a decoded buffer gives the buffer back.\<close>

locale bij_codec = codec +
  assumes enc_dec: "length bs = width \<Longrightarrow> enc (dec bs) = bs"
begin

lemma dec_inject: "length bs = width \<Longrightarrow> length cs = width \<Longrightarrow> dec bs = dec cs \<longleftrightarrow> bs = cs"
  by (metis enc_dec)

end

section \<open>Integers\<close>

definition le32 :: "bytes \<Rightarrow> u32" where
  "le32 bs = ucast (bs ! 0) OR push_bit 8 (ucast (bs ! 1)) OR push_bit 16 (ucast (bs ! 2))
     OR push_bit 24 (ucast (bs ! 3))"

definition bytes_le32 :: "u32 \<Rightarrow> bytes" where
  "bytes_le32 w = [ucast w, ucast (drop_bit 8 w), ucast (drop_bit 16 w), ucast (drop_bit 24 w)]"

definition le16 :: "bytes \<Rightarrow> u16" where
  "le16 bs = ucast (bs ! 0) OR push_bit 8 (ucast (bs ! 1))"

definition bytes_le16 :: "u16 \<Rightarrow> bytes" where
  "bytes_le16 w = [ucast w, ucast (drop_bit 8 w)]"

definition le32_at :: "bytes \<Rightarrow> nat \<Rightarrow> u32" where
  "le32_at bs off = le32 (take 4 (drop off bs))"

definition le16_at :: "bytes \<Rightarrow> nat \<Rightarrow> u16" where
  "le16_at bs off = le16 (take 2 (drop off bs))"

lemma length_bytes_le32 [simp]: "length (bytes_le32 w) = 4"
  by (simp add: bytes_le32_def)

lemma length_bytes_le16 [simp]: "length (bytes_le16 w) = 2"
  by (simp add: bytes_le16_def)

lemma bit_u8 [simp]: "8 \<le> n \<Longrightarrow> \<not> bit (b :: u8) n"
  by (auto dest: bit_imp_le_length)

lemma bit_u8_D: "bit (b :: u8) n \<Longrightarrow> n < 8"
  using bit_u8 not_less by blast

lemma bit_le32:
  "bit (le32 [a, b, c, d]) n \<longleftrightarrow> n < 32 \<and>
     (if n < 8 then bit a n else if n < 16 then bit b (n - 8)
      else if n < 24 then bit c (n - 16) else bit d (n - 24))"
  by (auto simp: le32_def bit_simps dest: bit_u8_D)

lemma le32_bytes_le32 [simp]: "le32 (bytes_le32 w) = w"
  unfolding bytes_le32_def
  by (rule bit_eqI) (auto simp: bit_le32 bit_simps)

lemma le16_bytes_le16 [simp]: "le16 (bytes_le16 w) = w"
  unfolding le16_def bytes_le16_def
  by (rule bit_eqI) (auto simp: bit_simps not_less)

lemma list4: "length bs = 4 \<longleftrightarrow> (\<exists>a b c d. bs = [a, b, c, d])"
  by (auto simp: length_Suc_conv eval_nat_numeral)

lemma list2: "length bs = 2 \<longleftrightarrow> (\<exists>a b. bs = [a, b])"
  by (auto simp: length_Suc_conv eval_nat_numeral)

lemma bytes_le32_le32: "length bs = 4 \<Longrightarrow> bytes_le32 (le32 bs) = bs"
  unfolding list4
  by (auto simp: le32_def bytes_le32_def bit_eq_iff bit_simps dest: bit_u8_D)

lemma bytes_le16_le16: "length bs = 2 \<Longrightarrow> bytes_le16 (le16 bs) = bs"
  unfolding list2
  by (auto simp: le16_def bytes_le16_def bit_eq_iff bit_simps dest: bit_u8_D)

interpretation u32_le: bij_codec bytes_le32 le32 4 "\<lambda>_. True"
  by unfold_locales (simp_all add: bytes_le32_le32)

interpretation u16_le: bij_codec bytes_le16 le16 2 "\<lambda>_. True"
  by unfold_locales (simp_all add: bytes_le16_le16)

end
