(* ===== verification/Flash_Adapter.thy ===== *)
theory Flash_Adapter
  imports Fw_Codec
begin

text \<open>
  \<open>src/common/mcumgr_qcom/src/flash_adapter.c\<close>: the block interface over the Zephyr flash driver.
  The driver, the RRAM routines, the heap and SHA-256 are not code of the repository: they are the
  fields of the record \<open>platform\<close>, a parameter of every function that calls them. What the code
  relies on about the flash driver is the predicate \<open>nor_flash\<close>; the contract the adapter gives its
  client, the firmware upgrade memory module, is the locale \<open>nor_device\<close>.
\<close>

section \<open>The platform below the repository\<close>

text \<open>
  \<open>'d\<close> is the state of the world outside the modelled globals (flash, RRAM, heap). A read returns
  its status and the byte left at each offset of the buffer; a write or an erase returns its status
  and the new world; an allocation says whether it gave memory. \<open>rram_load\<close> is the memory-mapped
  load through which the descriptor table at \<open>FDT_START\<close> is read.
\<close>

record 'd platform =
  flash_node_okay :: bool
  device_is_ready :: "'d \<Rightarrow> bool"
  flash_get_size :: "'d \<Rightarrow> int \<times> u64"
  flash_read :: "'d \<Rightarrow> u32 \<Rightarrow> u32 \<Rightarrow> int \<times> (nat \<Rightarrow> u8)"
  flash_write :: "'d \<Rightarrow> u32 \<Rightarrow> bytes \<Rightarrow> int \<times> 'd"
  flash_erase :: "'d \<Rightarrow> u32 \<Rightarrow> u32 \<Rightarrow> int \<times> 'd"
  rram_load :: "'d \<Rightarrow> u32 \<Rightarrow> u8"
  nt_rram_read :: "'d \<Rightarrow> u32 \<Rightarrow> u32 \<Rightarrow> int \<times> (nat \<Rightarrow> u8)"
  nt_rram_write :: "'d \<Rightarrow> u32 \<Rightarrow> bytes \<Rightarrow> int \<times> 'd"
  k_malloc :: "'d \<Rightarrow> nat \<Rightarrow> bool \<times> 'd"
  sha256 :: "bytes \<Rightarrow> bytes"

section \<open>State and operations\<close>

text \<open>
  The adapter's globals, with the world. \<open>flash_adapter_dev\<close> says whether the device pointer is set.
  Two ghost fields record what a C function cannot return: \<open>faulted\<close> is set where the code would
  dereference a null or out-of-range pointer or use a variable it never wrote, and \<open>stuck\<close> where a
  loop of the model used up its fuel; nothing computed after either point means anything.
\<close>

record 'd flash_st =
  world :: 'd
  faulted :: bool
  stuck :: bool
  flash_adapter_dev :: bool
  flash_initialized :: bool
  density_in_blocks :: u32

definition FLASH_DEVICE_DONE :: int where
  "FLASH_DEVICE_DONE = 0"

definition FLASH_DEVICE_FAIL :: int where
  "FLASH_DEVICE_FAIL = 1"

definition BLOCK_SIZE_IN_BYTES :: u32 where
  "BLOCK_SIZE_IN_BYTES = 4096"

definition fault :: "(('d, 'z) flash_st_scheme, unit) state" where
  "fault = modify (\<lambda>s. s\<lparr>faulted := True\<rparr>)"

definition out_of_fuel :: "(('d, 'z) flash_st_scheme, unit) state" where
  "out_of_fuel = modify (\<lambda>s. s\<lparr>stuck := True\<rparr>)"

definition flash_adapter_init :: "'d platform \<Rightarrow> (('d, 'z) flash_st_scheme, int) state" where
  "flash_adapter_init P = do {
     s \<leftarrow> State_Monad.get;
     if flash_initialized s then State_Monad.return FLASH_DEVICE_DONE
     else if \<not> flash_node_okay P then State_Monad.return FLASH_DEVICE_FAIL
     else do {
       modify (\<lambda>s. s\<lparr>flash_adapter_dev := True\<rparr>);
       if \<not> device_is_ready P (world s) then State_Monad.return FLASH_DEVICE_FAIL
       else do {
         let (ret, flash_size_64) = flash_get_size P (world s);
         let flash_size = (if ret = 0 then (ucast flash_size_64 :: u32) else 4 * 1024 * 1024);
         modify (\<lambda>s. s\<lparr>density_in_blocks := flash_size div BLOCK_SIZE_IN_BYTES,
                       flash_initialized := True\<rparr>);
         State_Monad.return FLASH_DEVICE_DONE
       }
     }
   }"

text \<open>\<open>None\<close> is the null pointer; \<open>Some d\<close> the configuration with density \<open>d\<close>.\<close>

definition flash_adapter_get_config ::
  "'d platform \<Rightarrow> (('d, 'z) flash_st_scheme, u32 option) state" where
  "flash_adapter_get_config P = do {
     ready \<leftarrow> gets flash_initialized;
     ret \<leftarrow> (if \<not> ready then flash_adapter_init P else State_Monad.return FLASH_DEVICE_DONE);
     if ret \<noteq> FLASH_DEVICE_DONE then State_Monad.return None
     else do { d \<leftarrow> gets density_in_blocks; State_Monad.return (Some d) }
   }"

text \<open>
  The buffer argument of a read only matters by being null or not; its new content is returned,
  \<open>None\<close> where the buffer is left as it was.
\<close>

definition flash_adapter_read ::
  "'d platform \<Rightarrow> u32 \<Rightarrow> u32 \<Rightarrow> bool \<Rightarrow> (('d, 'z) flash_st_scheme, int \<times> bytes option) state" where
  "flash_adapter_read P address nbytes buffer_ok = do {
     s \<leftarrow> State_Monad.get;
     if \<not> flash_initialized s \<or> \<not> flash_adapter_dev s \<or> \<not> buffer_ok
     then State_Monad.return (FLASH_DEVICE_FAIL, None)
     else do {
       let (ret, buf) = flash_read P (world s) address nbytes;
       State_Monad.return
         (if ret \<noteq> 0 then FLASH_DEVICE_FAIL else FLASH_DEVICE_DONE,
          Some (map buf [0..<unat nbytes]))
     }
   }"

definition flash_adapter_write ::
  "'d platform \<Rightarrow> u32 \<Rightarrow> u32 \<Rightarrow> bytes option \<Rightarrow> (('d, 'z) flash_st_scheme, int) state" where
  "flash_adapter_write P address nbytes buffer = do {
     s \<leftarrow> State_Monad.get;
     case buffer of
       None \<Rightarrow> State_Monad.return FLASH_DEVICE_FAIL
     | Some bs \<Rightarrow>
         if \<not> flash_initialized s \<or> \<not> flash_adapter_dev s
         then State_Monad.return FLASH_DEVICE_FAIL
         else do {
           let (ret, w) = flash_write P (world s) address (take (unat nbytes) bs);
           modify (\<lambda>s. s\<lparr>world := w\<rparr>);
           State_Monad.return (if ret \<noteq> 0 then FLASH_DEVICE_FAIL else FLASH_DEVICE_DONE)
         }
   }"

definition flash_adapter_erase ::
  "'d platform \<Rightarrow> u32 \<Rightarrow> u32 \<Rightarrow> (('d, 'z) flash_st_scheme, int) state" where
  "flash_adapter_erase P start_block num_blocks = do {
     s \<leftarrow> State_Monad.get;
     if \<not> flash_initialized s \<or> \<not> flash_adapter_dev s
     then State_Monad.return FLASH_DEVICE_FAIL
     else do {
       let address = start_block * BLOCK_SIZE_IN_BYTES;
       let nbytes = num_blocks * BLOCK_SIZE_IN_BYTES;
       let (ret, w) = flash_erase P (world s) address nbytes;
       modify (\<lambda>s. s\<lparr>world := w\<rparr>);
       State_Monad.return (if ret \<noteq> 0 then FLASH_DEVICE_FAIL else FLASH_DEVICE_DONE)
     }
   }"

section \<open>The contract of the driver and the interface of the adapter\<close>

text \<open>
  NOR flash: a read returns the cells, an erase sets whole bytes, a program can only clear bits. A
  failed program or erase may leave anything inside its range and nothing outside it. \<open>cells\<close> is the
  view of the world as the device's array of bytes.
\<close>

definition slice :: "(nat \<Rightarrow> u8) \<Rightarrow> nat \<Rightarrow> nat \<Rightarrow> bytes" where
  "slice c a n = map (\<lambda>i. c (a + i)) [0..<n]"

definition prog_cells :: "(nat \<Rightarrow> u8) \<Rightarrow> nat \<Rightarrow> bytes \<Rightarrow> nat \<Rightarrow> u8" where
  "prog_cells c a bs = (\<lambda>i. if a \<le> i \<and> i < a + length bs then c i AND bs ! (i - a) else c i)"

definition erase_cells :: "(nat \<Rightarrow> u8) \<Rightarrow> nat \<Rightarrow> nat \<Rightarrow> nat \<Rightarrow> u8" where
  "erase_cells c a n = (\<lambda>i. if a \<le> i \<and> i < a + n then 0xFF else c i)"

definition nor_flash :: "'d platform \<Rightarrow> ('d \<Rightarrow> nat \<Rightarrow> u8) \<Rightarrow> bool" where
  "nor_flash P cells \<longleftrightarrow>
     (\<forall>w a n buf. flash_read P w a n = (0, buf) \<longrightarrow> (\<forall>i < unat n. buf i = cells w (unat a + i))) \<and>
     (\<forall>w a bs v. flash_write P w a bs = (0, v) \<longrightarrow> cells v = prog_cells (cells w) (unat a) bs) \<and>
     (\<forall>w a bs r v i. flash_write P w a bs = (r, v) \<longrightarrow>
        i < unat a \<or> unat a + length bs \<le> i \<longrightarrow> cells v i = cells w i) \<and>
     (\<forall>w a n v. flash_erase P w a n = (0, v) \<longrightarrow> cells v = erase_cells (cells w) (unat a) (unat n)) \<and>
     (\<forall>w a n r v i. flash_erase P w a n = (r, v) \<longrightarrow>
        i < unat a \<or> unat a + unat n \<le> i \<longrightarrow> cells v i = cells w i)"

lemma length_slice [simp]: "length (slice c a n) = n"
  by (simp add: slice_def)

lemma nth_slice [simp]: "i < n \<Longrightarrow> slice c a n ! i = c (a + i)"
  by (simp add: slice_def)

lemma take_drop_slice: "off + m \<le> n \<Longrightarrow> take m (drop off (slice c a n)) = slice c (a + off) m"
  by (rule nth_equalityI) (auto simp: add.assoc)

lemma slice_cong: "(\<And>i. i < n \<Longrightarrow> c (a + i) = d (a + i)) \<Longrightarrow> slice c a n = slice d a n"
  by (simp add: slice_def)

lemma slice_prog_same: "slice (prog_cells c a bs) a (length bs) = map2 (AND) (slice c a (length bs)) bs"
  by (rule nth_equalityI) (auto simp: prog_cells_def)

lemma slice_prog_other:
  "b + n \<le> a \<or> a + length bs \<le> b \<Longrightarrow> slice (prog_cells c a bs) b n = slice c b n"
  by (rule slice_cong) (auto simp: prog_cells_def)

lemma and_ff: "255 AND b = (b :: u8)"
proof -
  have "(255 :: u8) = - 1" by simp
  then show ?thesis by (metis and.left_neutral)
qed

lemma slice_prog_erased:
  assumes "\<And>i. i < length bs \<Longrightarrow> c (a + i) = 0xFF"
  shows "slice (prog_cells c a bs) a (length bs) = bs"
proof (rule nth_equalityI)
  fix i
  assume "i < length (slice (prog_cells c a bs) a (length bs))"
  then show "slice (prog_cells c a bs) a (length bs) ! i = bs ! i"
    using assms by (simp add: prog_cells_def and_ff)
qed simp

lemma slice_erase_inside:
  "a \<le> b \<Longrightarrow> b + n \<le> a + m \<Longrightarrow> slice (erase_cells c a m) b n = replicate n 0xFF"
  by (rule nth_equalityI) (auto simp: erase_cells_def)

lemma slice_erase_other:
  "b + n \<le> a \<or> a + m \<le> b \<Longrightarrow> slice (erase_cells c a m) b n = slice c b n"
  by (rule slice_cong) (auto simp: erase_cells_def)

text \<open>
  The interface the firmware upgrade memory module relies on: a read leaves the state alone and
  gives the cells; a program and an erase that report success have the NOR effect, and no call
  changes a cell outside its range.
\<close>

locale nor_device =
  fixes ready :: "'s \<Rightarrow> bool" and cells :: "'s \<Rightarrow> nat \<Rightarrow> u8"
    and rd :: "u32 \<Rightarrow> u32 \<Rightarrow> ('s, int \<times> bytes option) state"
    and wr :: "u32 \<Rightarrow> u32 \<Rightarrow> bytes option \<Rightarrow> ('s, int) state"
    and er :: "u32 \<Rightarrow> u32 \<Rightarrow> ('s, int) state"
  assumes rd_state: "run_state (rd a n) s = (x, t) \<Longrightarrow> t = s"
    and rd_done: "ready s \<Longrightarrow> run_state (rd a n) s = ((0, b), t) \<Longrightarrow>
      b = Some (slice (cells s) (unat a) (unat n))"
    and wr_ready: "ready s \<Longrightarrow> run_state (wr a n b) s = (r, t) \<Longrightarrow> ready t"
    and wr_done: "ready s \<Longrightarrow> length bs = unat n \<Longrightarrow> run_state (wr a n (Some bs)) s = (0, t) \<Longrightarrow>
      cells t = prog_cells (cells s) (unat a) bs"
    and wr_frame: "ready s \<Longrightarrow> length bs = unat n \<Longrightarrow> run_state (wr a n (Some bs)) s = (r, t) \<Longrightarrow>
      i < unat a \<or> unat a + unat n \<le> i \<Longrightarrow> cells t i = cells s i"
    and er_ready: "ready s \<Longrightarrow> run_state (er blk cnt) s = (r, t) \<Longrightarrow> ready t"
    and er_done: "ready s \<Longrightarrow> unat blk * 4096 < 2 ^ 32 \<Longrightarrow> unat cnt * 4096 < 2 ^ 32 \<Longrightarrow>
      run_state (er blk cnt) s = (0, t) \<Longrightarrow>
      cells t = erase_cells (cells s) (unat blk * 4096) (unat cnt * 4096)"
    and er_frame: "ready s \<Longrightarrow> unat blk * 4096 < 2 ^ 32 \<Longrightarrow> unat cnt * 4096 < 2 ^ 32 \<Longrightarrow>
      run_state (er blk cnt) s = (r, t) \<Longrightarrow>
      i < unat blk * 4096 \<or> unat blk * 4096 + unat cnt * 4096 \<le> i \<Longrightarrow> cells t i = cells s i"
begin

lemma rd_wp: "ready s \<Longrightarrow> wp (rd a n) (\<lambda>(r, b) t. t = s \<and>
    (r = 0 \<longrightarrow> b = Some (slice (cells s) (unat a) (unat n)))) s"
  by (rule wpI) (auto dest: rd_state rd_done)

lemma read_back:
  assumes "ready s" and "length bs = unat n" and "run_state (wr a n (Some bs)) s = (0, t)"
    and "run_state (rd a n) t = ((0, b), u)"
  shows "b = Some (map2 (AND) (slice (cells s) (unat a) (unat n)) bs)"
  using rd_done [OF wr_ready [OF assms(1,3)] assms(4)] wr_done [OF assms(1-3)] assms(2)
  by (metis slice_prog_same)

lemma read_back_erased:
  assumes "ready s" and "length bs = unat n" and "run_state (wr a n (Some bs)) s = (0, t)"
    and "run_state (rd a n) t = ((0, b), u)"
    and "\<And>i. i < unat n \<Longrightarrow> cells s (unat a + i) = 0xFF"
  shows "b = Some bs"
  using rd_done [OF wr_ready [OF assms(1,3)] assms(4)] wr_done [OF assms(1-3)] assms(2,5)
  by (metis slice_prog_erased)

lemma read_other:
  assumes "ready s" and "length bs = unat n" and "run_state (wr a n (Some bs)) s = (r, t)"
    and "run_state (rd a' m) t = ((0, b), u)"
    and "unat a' + unat m \<le> unat a \<or> unat a + unat n \<le> unat a'"
  shows "b = Some (slice (cells s) (unat a') (unat m))"
proof -
  have "cells t (unat a' + i) = cells s (unat a' + i)" if "i < unat m" for i
    using wr_frame [OF assms(1-3), of "unat a' + i"] that assms(5) by auto
  then show ?thesis
    using rd_done [OF wr_ready [OF assms(1,3)] assms(4)] slice_cong by metis
qed

lemma bits_only_clear:
  assumes "ready s" and "length bs = unat n" and "run_state (wr a n (Some bs)) s = (0, t)"
  shows "cells t i AND cells s i = cells t i"
  using wr_done [OF assms] by (simp add: prog_cells_def and.commute and.left_commute)

end

text \<open>The adapter provides it, over any driver that keeps the NOR contract.\<close>

definition adapter_ready ::
  "'d platform \<Rightarrow> ('d \<Rightarrow> nat \<Rightarrow> u8) \<Rightarrow> ('d, 'z) flash_st_scheme \<Rightarrow> bool" where
  "adapter_ready P cells s \<longleftrightarrow> nor_flash P cells \<and> flash_initialized s \<and> flash_adapter_dev s"

lemma block_bytes:
  "unat b * 4096 < 2 ^ 32 \<Longrightarrow> unat (b * BLOCK_SIZE_IN_BYTES) = unat b * 4096"
  unfolding BLOCK_SIZE_IN_BYTES_def by (subst unat_mult_nowrap) simp_all

interpretation adapter: nor_device "adapter_ready P cells" "\<lambda>s. cells (world s)"
  "\<lambda>a n. flash_adapter_read P a n True" "flash_adapter_write P" "flash_adapter_erase P"
  for P :: "'d platform" and cells
proof unfold_locales
  fix a n s x t
  show "run_state (flash_adapter_read P a n True) s = (x, t) \<Longrightarrow> t = s"
    by (auto simp: flash_adapter_read_def split: if_splits prod.splits)
next
  fix a n s b t
  show "adapter_ready P cells s \<Longrightarrow> run_state (flash_adapter_read P a n True) s = ((0, b), t) \<Longrightarrow>
    b = Some (slice (cells (world s)) (unat a) (unat n))"
    by (auto simp: flash_adapter_read_def adapter_ready_def nor_flash_def slice_def
        FLASH_DEVICE_FAIL_def FLASH_DEVICE_DONE_def split: if_splits prod.splits)
next
  fix a n s b r t
  show "adapter_ready P cells s \<Longrightarrow> run_state (flash_adapter_write P a n b) s = (r, t) \<Longrightarrow>
    adapter_ready P cells t"
    by (auto simp: flash_adapter_write_def adapter_ready_def split: if_splits prod.splits option.splits)
next
  fix a n s bs t
  show "adapter_ready P cells s \<Longrightarrow> length bs = unat n \<Longrightarrow>
    run_state (flash_adapter_write P a n (Some bs)) s = (0, t) \<Longrightarrow>
    cells (world t) = prog_cells (cells (world s)) (unat a) bs"
    by (auto simp: flash_adapter_write_def adapter_ready_def nor_flash_def
        FLASH_DEVICE_FAIL_def FLASH_DEVICE_DONE_def split: if_splits prod.splits)
next
  fix a n s bs r t i
  show "adapter_ready P cells s \<Longrightarrow> length bs = unat n \<Longrightarrow>
    run_state (flash_adapter_write P a n (Some bs)) s = (r, t) \<Longrightarrow>
    i < unat a \<or> unat a + unat n \<le> i \<Longrightarrow> cells (world t) i = cells (world s) i"
    by (auto simp: flash_adapter_write_def adapter_ready_def nor_flash_def split: if_splits prod.splits)
next
  fix s b m r t
  show "adapter_ready P cells s \<Longrightarrow> run_state (flash_adapter_erase P b m) s = (r, t) \<Longrightarrow>
    adapter_ready P cells t"
    by (auto simp: flash_adapter_erase_def adapter_ready_def split: if_splits prod.splits)
next
  fix s b m t
  show "adapter_ready P cells s \<Longrightarrow> unat b * 4096 < 2 ^ 32 \<Longrightarrow> unat m * 4096 < 2 ^ 32 \<Longrightarrow>
    run_state (flash_adapter_erase P b m) s = (0, t) \<Longrightarrow>
    cells (world t) = erase_cells (cells (world s)) (unat b * 4096) (unat m * 4096)"
    by (auto simp: flash_adapter_erase_def adapter_ready_def nor_flash_def block_bytes
        FLASH_DEVICE_FAIL_def FLASH_DEVICE_DONE_def split: if_splits prod.splits)
next
  fix s b m r t i
  show "adapter_ready P cells s \<Longrightarrow> unat b * 4096 < 2 ^ 32 \<Longrightarrow> unat m * 4096 < 2 ^ 32 \<Longrightarrow>
    run_state (flash_adapter_erase P b m) s = (r, t) \<Longrightarrow>
    i < unat b * 4096 \<or> unat b * 4096 + unat m * 4096 \<le> i \<Longrightarrow>
    cells (world t) i = cells (world s) i"
    by (auto simp: flash_adapter_erase_def adapter_ready_def nor_flash_def block_bytes
        split: if_splits prod.splits)
qed

section \<open>A driver that does not fail\<close>

text \<open>
  \<open>flash_reliable P sz\<close>: every request inside the first \<open>sz\<close> bytes succeeds. The theorems that say what
  an operation returns, and not only what follows when it returns success, have it as a hypothesis.
\<close>

definition flash_reliable :: "'d platform \<Rightarrow> nat \<Rightarrow> bool" where
  "flash_reliable P sz \<longleftrightarrow>
     (\<forall>w a n. unat a + unat n \<le> sz \<longrightarrow> fst (flash_read P w a n) = 0) \<and>
     (\<forall>w a bs. unat a + length bs \<le> sz \<longrightarrow> fst (flash_write P w a bs) = 0) \<and>
     (\<forall>w a n. unat a + unat n \<le> sz \<longrightarrow> fst (flash_erase P w a n) = 0)"

definition programmed :: "'d platform \<Rightarrow> u32 \<Rightarrow> bytes \<Rightarrow> ('d, 'z) flash_st_scheme \<Rightarrow> ('d, 'z) flash_st_scheme" where
  "programmed P a bs s = s\<lparr>world := snd (flash_write P (world s) a bs)\<rparr>"

definition erased :: "'d platform \<Rightarrow> u32 \<Rightarrow> u32 \<Rightarrow> ('d, 'z) flash_st_scheme \<Rightarrow> ('d, 'z) flash_st_scheme" where
  "erased P b n s =
     s\<lparr>world := snd (flash_erase P (world s) (b * BLOCK_SIZE_IN_BYTES) (n * BLOCK_SIZE_IN_BYTES))\<rparr>"

lemma run_read_reliable:
  assumes "adapter_ready P cells s" and "flash_reliable P sz" and "unat a + unat n \<le> sz"
  shows "run_state (flash_adapter_read P a n True) s =
    ((FLASH_DEVICE_DONE, Some (slice (cells (world s)) (unat a) (unat n))), s)"
proof -
  from assms(2,3) obtain buf where b: "flash_read P (world s) a n = (0, buf)"
    unfolding flash_reliable_def by (metis prod.collapse)
  with assms(1) have "map buf [0..<unat n] = slice (cells (world s)) (unat a) (unat n)"
    unfolding adapter_ready_def nor_flash_def slice_def by fastforce
  with b assms(1) show ?thesis
    by (simp add: flash_adapter_read_def adapter_ready_def)
qed

lemma run_write_reliable:
  assumes "adapter_ready P cells s" and "flash_reliable P sz" and "unat a + unat n \<le> sz"
    and "length bs = unat n"
  shows "run_state (flash_adapter_write P a n (Some bs)) s = (FLASH_DEVICE_DONE, programmed P a bs s)"
    and "cells (world (programmed P a bs s)) = prog_cells (cells (world s)) (unat a) bs"
proof -
  from assms(2-4) obtain w where w: "flash_write P (world s) a bs = (0, w)"
    unfolding flash_reliable_def by (metis prod.collapse)
  with assms show "run_state (flash_adapter_write P a n (Some bs)) s = (FLASH_DEVICE_DONE, programmed P a bs s)"
    by (simp add: flash_adapter_write_def adapter_ready_def programmed_def)
  from w assms(1) show "cells (world (programmed P a bs s)) = prog_cells (cells (world s)) (unat a) bs"
    unfolding adapter_ready_def nor_flash_def programmed_def by simp
qed

lemma run_erase_reliable:
  assumes "adapter_ready P cells s" and "flash_reliable P sz"
    and "unat b * 4096 + unat n * 4096 \<le> sz" and "sz < 2 ^ 32"
  shows "run_state (flash_adapter_erase P b n) s = (FLASH_DEVICE_DONE, erased P b n s)"
    and "cells (world (erased P b n s)) = erase_cells (cells (world s)) (unat b * 4096) (unat n * 4096)"
proof -
  from assms have u: "unat (b * BLOCK_SIZE_IN_BYTES) = unat b * 4096"
    "unat (n * BLOCK_SIZE_IN_BYTES) = unat n * 4096" by (auto intro: block_bytes)
  with assms(2,3) obtain w where
    w: "flash_erase P (world s) (b * BLOCK_SIZE_IN_BYTES) (n * BLOCK_SIZE_IN_BYTES) = (0, w)"
    unfolding flash_reliable_def by (metis prod.collapse)
  with assms(1) show "run_state (flash_adapter_erase P b n) s = (FLASH_DEVICE_DONE, erased P b n s)"
    by (simp add: flash_adapter_erase_def adapter_ready_def erased_def Let_def)
  from w assms(1) u
  show "cells (world (erased P b n s)) = erase_cells (cells (world s)) (unat b * 4096) (unat n * 4096)"
    unfolding adapter_ready_def nor_flash_def erased_def by (metis (no_types, lifting) snd_conv select_convs(1) surjective update_convs(1))
qed

lemma adapter_ready_programmed [simp]: "adapter_ready P cells (programmed P a bs s) = adapter_ready P cells s"
  by (simp add: adapter_ready_def programmed_def)

lemma adapter_ready_erased [simp]: "adapter_ready P cells (erased P b n s) = adapter_ready P cells s"
  by (simp add: adapter_ready_def erased_def)

end
