(* ===== verification/Fw_Types.thy ===== *)
theory Fw_Types
  imports Flash_Adapter
begin

text \<open>
  The data of \<open>src/common/mcumgr_qcom\<close>: status codes and structures of \<open>include/fw_upgrade_mem.h\<close>,
  the firmware descriptor (FWD) laid out in flash, the firmware descriptor table (FDT) laid out in
  RRAM, and the globals of \<open>src/fw_upgrade_mem.c\<close> as the record \<open>mem_st\<close>.
\<close>

section \<open>Status codes\<close>

datatype (plugins only: code) fw_status =
    FW_UPGRADE_OK_E
  | FW_UPGRADE_ERROR_E
  | FW_UPGRADE_ERR_INVALID_PARAM_E
  | FW_UPGRADE_ERR_NOT_INIT_E
  | FW_UPGRADE_ERR_INCOMPLETE_E
  | FW_UPGRADE_ERR_SESSION_IN_PROGRESS_E
  | FW_UPGRADE_ERR_SESSION_NOT_START_E
  | FW_UPGRADE_ERR_SESSION_NOT_READY_FOR_SUSPEND_E
  | FW_UPGRADE_ERR_SESSION_NOT_SUSPEND_E
  | FW_UPGRADE_ERR_SESSION_RESUME_NOT_SUPPORT_E
  | FW_UPGRADE_ERR_SESSION_CANCELLED_E
  | FW_UPGRADE_ERR_SESSION_SUSPEND_E
  | FW_UPGRADE_ERR_INTERFACE_NAME_TOO_LONG_E
  | FW_UPGRADE_ERR_URL_TOO_LONG_E
  | FW_UPGRADE_ERR_FLASH_NOT_SUPPORT_FW_UPGRADE_E
  | FW_UPGRADE_ERR_FLASH_INIT_TIMEOUT_E
  | FW_UPGRADE_ERR_FLASH_READ_FAIL_E
  | FW_UPGRADE_ERR_FLASH_WRITE_FAIL_E
  | FW_UPGRADE_ERR_FLASH_ERASE_FAIL_E
  | FW_UPGRADE_ERR_FLASH_NOT_ENOUGH_SPACE_E
  | FW_UPGRADE_ERR_FLASH_CREATE_PARTITION_E
  | FW_UPGRADE_ERR_FLASH_IMAGE_NOT_FOUND_E
  | FW_UPGRADE_ERR_FLASH_ERASE_PARTITION_E
  | FW_UPGRADE_ERR_FLASH_WRITE_PARTITION_E
  | FW_UPGRADE_ERR_GET_PARTITION_NULL_E
  | FW_UPGRADE_ERR_REACH_MAX_IMAGE_ENTRY_E
  | FW_UPGRADE_ERR_IMAGE_UNUSED_E
  | FW_UPGRADE_ERR_IMAGE_NOT_FOUND_E
  | FW_UPGRADE_ERR_IMAGE_DOWNLOAD_FAIL_E
  | FW_UPGRADE_ERR_INCORRECT_IMAGE_CHECKSUM_E
  | FW_UPGRADE_ERR_SERVER_RSP_TIMEOUT_E
  | FW_UPGRADE_ERR_INVALID_FILENAME_E
  | FW_UPGRADE_ERR_INCORRECT_IMAGE_HDR_E
  | FW_UPGRADE_ERR_INSUFFICIENT_MEMORY_E
  | FW_UPGRADE_ERR_INCORRECT_SIGNATURE_E
  | FW_UPGRADE_ERR_INCORRCT_VERSION_E
  | FW_UPGRADE_ERR_INCORRECT_NUM_IMAGES_E
  | FW_UPGRADE_ERR_INCORRECT_IMAGE_LENGTH_E
  | FW_UPGRADE_ERR_INCORRECT_HASH_TYPE_E
  | FW_UPGRADE_ERR_INCORRECT_IMAGE_ID_E
  | FW_UPGRADE_ERR_SBL_ONLY_NOT_SUPPORT_E
  | FW_UPGRADE_ERR_SBL_NOT_SUPPORT_UPGRADE_E
  | FW_UPGRADE_ERR_SBL_NOT_ENOUGH_SPACE_E
  | FW_UPGRADE_ERR_INVALID_FDT_E
  | FW_UPGRADE_ERR_BATTERY_LEVEL_TOO_LOW_E
  | FW_UPGRADE_ERR_CRYPTO_FAIL_E
  | FW_UPGRADE_ERR_PLUGIN_ENTRY_EMPTY_E
  | FW_UPGRADE_ERR_TRIAL_IS_RUNNING_E
  | FW_UPGRADE_ERR_FILE_NOT_FOUND_E
  | FW_UPGRADE_ERR_FILE_OPEN_ERROR_E
  | FW_UPGRADE_ERR_FILE_NAME_TOO_LONG_E
  | FW_UPGRADE_ERR_FILE_WRITE_ERROR_E
  | FW_UPGRADE_ERR_MOUNT_FILE_SYSTEM_ERROR_E
  | FW_UPGRADE_ERR_CREATE_THREAD_ERROR_E
  | FW_UPGRADE_ERR_PRESERVE_LAST_FAILED_E

datatype fwd_info =
    FW_UPGRADE_FWD_MAGIC_E
  | FW_UPGRADE_FWD_VERSION_E
  | FW_UPGRADE_FWD_RANK_E
  | FW_UPGRADE_FWD_STATUS_E
  | FW_UPGRADE_FWD_TOTAL_IMAGE_E

section \<open>Constants\<close>

definition FW_UPGRADE_MAX_FWD :: u8 where "FW_UPGRADE_MAX_FWD = 3"
definition FW_UPGRADE_INVALID_FWD :: u8 where "FW_UPGRADE_INVALID_FWD = 0xFF"
definition FW_UPGRADE_MAX_HANDLES :: nat where "FW_UPGRADE_MAX_HANDLES = 10"
definition MAX_FW_IMAGE_ENTRIES :: nat where "MAX_FW_IMAGE_ENTRIES = 30"
definition FW_UPGRADE_MAGIC_V1 :: u32 where "FW_UPGRADE_MAGIC_V1 = 0x54445746"
definition FW_UPGRADE_FWD_RANK_TRIAL :: u32 where "FW_UPGRADE_FWD_RANK_TRIAL = 0xFFFFFFFF"
definition FW_UPGRADE_FWD_RANK_GOLDEN :: u32 where "FW_UPGRADE_FWD_RANK_GOLDEN = 0"
definition FW_UPGRADE_FWD_STATUS_VALID :: u8 where "FW_UPGRADE_FWD_STATUS_VALID = 0x01"
definition FW_UPGRADE_FWD_STATUS_INVALID :: u8 where "FW_UPGRADE_FWD_STATUS_INVALID = 0x00"
definition FW_UPGRADE_FWD_STATUS_UNUSED :: u8 where "FW_UPGRADE_FWD_STATUS_UNUSED = 0xFF"
definition FW_UPGRADE_FWD_TRIAL_UNUSED :: u8 where "FW_UPGRADE_FWD_TRIAL_UNUSED = 0xFF"
definition FW_UPGRADE_FWD_IMAGE_UNUSED :: u32 where "FW_UPGRADE_FWD_IMAGE_UNUSED = 0xFFFFFFFF"
definition FW_UPGRADE_FWD_BOOT_TYPE_GOLDEN :: u32 where "FW_UPGRADE_FWD_BOOT_TYPE_GOLDEN = 1"
definition FW_UPGRADE_FWD_BOOT_TYPE_CURRENT :: u32 where "FW_UPGRADE_FWD_BOOT_TYPE_CURRENT = 2"
definition FW_UPGRADE_FWD_BOOT_TYPE_TRIAL :: u32 where "FW_UPGRADE_FWD_BOOT_TYPE_TRIAL = 4"
definition SBL_IMG_ID :: u32 where "SBL_IMG_ID = 1"
definition FS1_IMG_ID :: u32 where "FS1_IMG_ID = 5"
definition APP_IMG_ID :: u32 where "APP_IMG_ID = 10"
definition RAMDUMP_IMG_ID :: u32 where "RAMDUMP_IMG_ID = 99"
definition USERDATA_IMG_ID :: u32 where "USERDATA_IMG_ID = 101"
definition FS2_IMG_ID :: u32 where "FS2_IMG_ID = 128"
definition FLASH_ERASED_VALUE :: u32 where "FLASH_ERASED_VALUE = 0xFFFFFFFF"
definition FDT_START :: u32 where "FDT_START = 0x208000"
definition SBL_MEM_SIZE :: u32 where "SBL_MEM_SIZE = 0x8000"
definition FDT_SIGNATURE :: u32 where "FDT_SIGNATURE = 0x54445746"
definition FDT_MAX_ENTRY :: u32 where "FDT_MAX_ENTRY = 1024 div 32 - 1"

lemmas fw_consts =
  FW_UPGRADE_MAX_FWD_def FW_UPGRADE_INVALID_FWD_def FW_UPGRADE_MAX_HANDLES_def
  MAX_FW_IMAGE_ENTRIES_def FW_UPGRADE_MAGIC_V1_def FW_UPGRADE_FWD_RANK_TRIAL_def
  FW_UPGRADE_FWD_RANK_GOLDEN_def FW_UPGRADE_FWD_STATUS_VALID_def FW_UPGRADE_FWD_STATUS_INVALID_def
  FW_UPGRADE_FWD_STATUS_UNUSED_def FW_UPGRADE_FWD_TRIAL_UNUSED_def FW_UPGRADE_FWD_IMAGE_UNUSED_def
  FW_UPGRADE_FWD_BOOT_TYPE_GOLDEN_def FW_UPGRADE_FWD_BOOT_TYPE_CURRENT_def
  FW_UPGRADE_FWD_BOOT_TYPE_TRIAL_def SBL_IMG_ID_def FS1_IMG_ID_def APP_IMG_ID_def
  RAMDUMP_IMG_ID_def USERDATA_IMG_ID_def FS2_IMG_ID_def FLASH_ERASED_VALUE_def FDT_START_def
  SBL_MEM_SIZE_def FDT_SIGNATURE_def FDT_MAX_ENTRY_def BLOCK_SIZE_IN_BYTES_def

section \<open>The firmware descriptor in flash\<close>

record image_entry =
  image_id :: u32
  start_block :: u32
  total_blocks :: u32
  img_version :: u32

record fwd =
  fwd_signature :: u32
  fwd_version :: u32
  fwd_rank :: u32
  fwd_status :: u8
  total_images :: u8
  reserved :: bytes
  image_entries :: "image_entry list"

definition enc_image_entry :: "image_entry \<Rightarrow> bytes" where
  "enc_image_entry e = bytes_le32 (image_id e) @ bytes_le32 (start_block e)
     @ bytes_le32 (total_blocks e) @ bytes_le32 (img_version e)"

definition dec_image_entry :: "bytes \<Rightarrow> image_entry" where
  "dec_image_entry bs = \<lparr>image_id = le32_at bs 0, start_block = le32_at bs 4,
     total_blocks = le32_at bs 8, img_version = le32_at bs 12\<rparr>"

definition fwd_wf :: "fwd \<Rightarrow> bool" where
  "fwd_wf f \<longleftrightarrow> length (reserved f) = 18 \<and> length (image_entries f) = 30"

definition enc_fwd :: "fwd \<Rightarrow> bytes" where
  "enc_fwd f = bytes_le32 (fwd_signature f) @ bytes_le32 (fwd_version f) @ bytes_le32 (fwd_rank f)
     @ [fwd_status f, total_images f] @ reserved f @ concat (map enc_image_entry (image_entries f))"

definition dec_fwd :: "bytes \<Rightarrow> fwd" where
  "dec_fwd bs = \<lparr>fwd_signature = le32_at bs 0, fwd_version = le32_at bs 4, fwd_rank = le32_at bs 8,
     fwd_status = bs ! 12, total_images = bs ! 13, reserved = take 18 (drop 14 bs),
     image_entries = map (\<lambda>i. dec_image_entry (take 16 (drop (32 + 16 * i) bs))) [0..<30]\<rparr>"

definition sizeof_fwd :: u32 where "sizeof_fwd = 512"
definition sizeof_image_entry :: u32 where "sizeof_image_entry = 16"
definition offsetof_image_entries :: u32 where "offsetof_image_entries = 32"

lemma le32_at_append [simp]:
  "le32_at (bytes_le32 w @ bs) 0 = w"
  "length pre = off \<Longrightarrow> le32_at (pre @ bytes_le32 w @ bs) off = w"
  by (simp_all add: le32_at_def)

lemma le32_at_Suc: "length pre \<le> off \<Longrightarrow> le32_at (pre @ bs) off = le32_at bs (off - length pre)"
  by (simp add: le32_at_def)

lemma length_enc_image_entry [simp]: "length (enc_image_entry e) = 16"
  by (simp add: enc_image_entry_def)

lemma dec_enc_image_entry [simp]: "dec_image_entry (enc_image_entry e) = e"
  by (simp add: dec_image_entry_def enc_image_entry_def le32_at_Suc le32_at_def)

lemma take_drop_glue: "take n (drop m bs) @ drop (m + n) bs = drop m bs"
  by (metis append_take_drop_id add.commute drop_drop)

lemma split16: "length bs = 16 \<Longrightarrow>
    take 4 bs @ take 4 (drop 4 bs) @ take 4 (drop 8 bs) @ drop 12 bs = bs"
  using take_drop_glue [of 4 8 bs] take_drop_glue [of 4 4 bs] by simp

lemma enc_dec_image_entry: "length bs = 16 \<Longrightarrow> enc_image_entry (dec_image_entry bs) = bs"
  by (simp add: enc_image_entry_def dec_image_entry_def le32_at_def bytes_le32_le32 split16)

interpretation image_entry_codec: bij_codec enc_image_entry dec_image_entry 16 "\<lambda>_. True"
  by unfold_locales (simp_all add: enc_dec_image_entry)

lemma length_enc_fwd: "fwd_wf f \<Longrightarrow> length (enc_fwd f) = 512"
  by (simp add: enc_fwd_def fwd_wf_def image_entry_codec.length_concat_enc)

lemma dec_enc_fwd: "fwd_wf f \<Longrightarrow> dec_fwd (enc_fwd f) = f"
proof -
  assume wf: "fwd_wf f"
  let ?h = "bytes_le32 (fwd_signature f) @ bytes_le32 (fwd_version f) @ bytes_le32 (fwd_rank f)
     @ [fwd_status f, total_images f] @ reserved f"
  let ?c = "concat (map enc_image_entry (image_entries f))"
  have h: "length ?h = 32" and e: "enc_fwd f = ?h @ ?c"
    using wf by (simp_all add: fwd_wf_def enc_fwd_def)
  have "dec_image_entry (take 16 (drop (32 + 16 * i) (?h @ ?c))) = image_entries f ! i" if "i < 30" for i
  proof -
    have "drop (32 + 16 * i) (h @ c) = drop (i * 16) (c @ [])" if "length h = 32" for h c :: bytes
      using that by (simp add: mult.commute)
    from this [OF h] have "drop (32 + 16 * i) (?h @ ?c) = drop (i * 16) (?c @ [])" .
    then show ?thesis
      using image_entry_codec.dec_array [of "image_entries f" i "[]"] wf that
      by (simp add: fwd_wf_def)
  qed
  then have "map (\<lambda>i. dec_image_entry (take 16 (drop (32 + 16 * i) (enc_fwd f)))) [0..<30] = image_entries f"
    using wf unfolding e by (intro nth_equalityI) (simp_all add: fwd_wf_def)
  then show ?thesis
    using wf by (simp add: dec_fwd_def) (simp add: enc_fwd_def fwd_wf_def le32_at_Suc le32_at_def nth_append)
qed

interpretation fwd_codec: codec enc_fwd dec_fwd 512 fwd_wf
  by unfold_locales (simp_all add: length_enc_fwd dec_enc_fwd)

end
