(* ===== verification/Fw_Fdt.thy ===== *)
theory Fw_Fdt
  imports Fw_Types
begin

text \<open>
  The firmware descriptor table (FDT) at \<open>FDT_START\<close> in RRAM, written by the boot loader and by
  \<open>src/common/mcumgr_qcom/src/fw_upgrade_mem.c\<close>: which firmware runs, and the state of the second
  boot loader (SBL) slots. The code reads it through a pointer, here through \<open>rram_load\<close>, and
  rewrites one 32-byte entry at a time with \<open>nt_rram_write\<close>.
\<close>

section \<open>Layout\<close>

record fdt_hdr =
  hdr_signature :: u32
  hdr_num_fde :: u32

record fdt_entry =
  fde_id :: u32
  fde_rank :: u32
  fde_format :: u32
  fde_addr :: u32
  fde_state :: u32
  fde_version :: u32
  fde_reserve :: bytes

definition FDE_IMG_ID_SBL :: u32 where "FDE_IMG_ID_SBL = 0"
definition FDE_IMG_ID_APP :: u32 where "FDE_IMG_ID_APP = 2"
definition FDE_IMG_RANK_AGED :: u32 where "FDE_IMG_RANK_AGED = 0"
definition FDE_IMG_RANK_GOLDEN :: u32 where "FDE_IMG_RANK_GOLDEN = 1"
definition FDE_IMG_RANK_CURRENT :: u32 where "FDE_IMG_RANK_CURRENT = 2"
definition FDE_IMG_RANK_TRIAL :: u32 where "FDE_IMG_RANK_TRIAL = 3"
definition FDE_IMG_STATE_INVALID :: u32 where "FDE_IMG_STATE_INVALID = 0"
definition FDE_IMG_STATE_NEW :: u32 where "FDE_IMG_STATE_NEW = 3"

lemmas fde_consts =
  FDE_IMG_ID_SBL_def FDE_IMG_ID_APP_def FDE_IMG_RANK_AGED_def FDE_IMG_RANK_GOLDEN_def
  FDE_IMG_RANK_CURRENT_def FDE_IMG_RANK_TRIAL_def FDE_IMG_STATE_INVALID_def FDE_IMG_STATE_NEW_def

definition fde_wf :: "fdt_entry \<Rightarrow> bool" where
  "fde_wf e \<longleftrightarrow> length (fde_reserve e) = 8"

definition enc_fde :: "fdt_entry \<Rightarrow> bytes" where
  "enc_fde e = bytes_le32 (fde_id e) @ bytes_le32 (fde_rank e) @ bytes_le32 (fde_format e)
     @ bytes_le32 (fde_addr e) @ bytes_le32 (fde_state e) @ bytes_le32 (fde_version e) @ fde_reserve e"

definition dec_fde :: "bytes \<Rightarrow> fdt_entry" where
  "dec_fde bs = \<lparr>fde_id = le32_at bs 0, fde_rank = le32_at bs 4, fde_format = le32_at bs 8,
     fde_addr = le32_at bs 12, fde_state = le32_at bs 16, fde_version = le32_at bs 20,
     fde_reserve = drop 24 bs\<rparr>"

lemma length_enc_fde [simp]: "fde_wf e \<Longrightarrow> length (enc_fde e) = 32"
  by (simp add: enc_fde_def fde_wf_def)

lemma dec_enc_fde [simp]: "dec_fde (enc_fde e) = e"
  by (simp add: dec_fde_def enc_fde_def le32_at_Suc le32_at_def)

interpretation fde_codec: codec enc_fde dec_fde 32 fde_wf
  by unfold_locales simp_all

definition rram_bytes :: "'d platform \<Rightarrow> 'd \<Rightarrow> u32 \<Rightarrow> nat \<Rightarrow> bytes" where
  "rram_bytes P w a n = map (\<lambda>i. rram_load P w (a + of_nat i)) [0..<n]"

definition fdt_header :: "'d platform \<Rightarrow> 'd \<Rightarrow> fdt_hdr" where
  "fdt_header P w = \<lparr>hdr_signature = le32 (rram_bytes P w FDT_START 4),
     hdr_num_fde = le32 (rram_bytes P w (FDT_START + 4) 4)\<rparr>"

definition fde_address :: "nat \<Rightarrow> u32" where
  "fde_address i = FDT_START + 32 + 32 * of_nat i"

definition fde_at :: "'d platform \<Rightarrow> 'd \<Rightarrow> nat \<Rightarrow> fdt_entry" where
  "fde_at P w i = dec_fde (rram_bytes P w (fde_address i) 32)"

definition num_fde :: "'d platform \<Rightarrow> 'd \<Rightarrow> nat" where
  "num_fde P w = unat (hdr_num_fde (fdt_header P w))"

section \<open>Operations\<close>

text \<open>The check every function of the table starts with.\<close>

definition fdt_valid :: "'d platform \<Rightarrow> 'd \<Rightarrow> bool" where
  "fdt_valid P w \<longleftrightarrow> hdr_signature (fdt_header P w) = FDT_SIGNATURE
     \<and> hdr_num_fde (fdt_header P w) \<noteq> 0 \<and> \<not> hdr_num_fde (fdt_header P w) > FDT_MAX_ENTRY"

text \<open>The scan \<open>for (i = 0; i < num_fde; i++) if (...) break;\<close>.\<close>

definition find_fde :: "'d platform \<Rightarrow> 'd \<Rightarrow> (fdt_entry \<Rightarrow> bool) \<Rightarrow> nat option" where
  "find_fde P w p = find (\<lambda>i. p (fde_at P w i)) [0..<num_fde P w]"

definition write_fde ::
  "'d platform \<Rightarrow> nat \<Rightarrow> fdt_entry \<Rightarrow> (('d, 'z) flash_st_scheme, int) state" where
  "write_fde P i e = do {
     s \<leftarrow> State_Monad.get;
     let (r, w) = nt_rram_write P (world s) (fde_address i) (enc_fde e);
     modify (\<lambda>s. s\<lparr>world := w\<rparr>);
     State_Monad.return r
   }"

definition fw_upgrade_reject_sbl_trial_fde ::
  "'d platform \<Rightarrow> (('d, 'z) flash_st_scheme, fw_status) state" where
  "fw_upgrade_reject_sbl_trial_fde P = do {
     w \<leftarrow> gets world;
     if \<not> fdt_valid P w then State_Monad.return FW_UPGRADE_ERR_INVALID_FDT_E
     else case find_fde P w (\<lambda>e. fde_id e = FDE_IMG_ID_SBL \<and> fde_rank e = FDE_IMG_RANK_TRIAL) of
       None \<Rightarrow> State_Monad.return FW_UPGRADE_ERR_INVALID_FDT_E
     | Some i \<Rightarrow> do {
         r \<leftarrow> write_fde P i ((fde_at P w i)\<lparr>fde_rank := FDE_IMG_RANK_AGED,
                fde_state := FDE_IMG_STATE_INVALID\<rparr>);
         State_Monad.return (if r \<noteq> 0 then FW_UPGRADE_ERROR_E else FW_UPGRADE_OK_E)
       }
   }"

text \<open>
  The two out-parameters of \<open>fw_upgrade_get_active_fwd\<close> come back as options, \<open>None\<close> where they are
  not written. \<open>want_boot_type\<close> says whether the first pointer is not null: an entry of unknown rank
  is refused only then.
\<close>

definition fw_upgrade_get_active_fwd ::
  "'d platform \<Rightarrow> bool \<Rightarrow> bool \<Rightarrow>
   (('d, 'z) flash_st_scheme, u8 \<times> u32 option \<times> u32 option) state" where
  "fw_upgrade_get_active_fwd P want_boot_type want_valid = do {
     w \<leftarrow> gets world;
     if \<not> fdt_valid P w then State_Monad.return (FW_UPGRADE_INVALID_FWD, None, None)
     else case find_fde P w (\<lambda>e. fde_id e = FDE_IMG_ID_APP) of
       None \<Rightarrow> State_Monad.return (FW_UPGRADE_INVALID_FWD, None, None)
     | Some i \<Rightarrow>
         let e = fde_at P w i;
             boot = (if fde_rank e = FDE_IMG_RANK_GOLDEN then Some FW_UPGRADE_FWD_BOOT_TYPE_GOLDEN
                     else if fde_rank e = FDE_IMG_RANK_CURRENT then Some FW_UPGRADE_FWD_BOOT_TYPE_CURRENT
                     else if fde_rank e = FDE_IMG_RANK_TRIAL then Some FW_UPGRADE_FWD_BOOT_TYPE_TRIAL
                     else None)
         in if want_boot_type \<and> boot = None
            then State_Monad.return (FW_UPGRADE_INVALID_FWD, None, None)
            else State_Monad.return (ucast (fde_addr e),
                   if want_boot_type then boot else None,
                   if want_valid then Some (ucast (fde_reserve e ! 0)) else None)
   }"

text \<open>\<open>None\<close> for the out-parameters of the next function: a null pointer was passed (\<open>ptrs_ok\<close> false).\<close>

definition fw_upgrade_select_sbl_trial_fde ::
  "'d platform \<Rightarrow> bool \<Rightarrow> (('d, 'z) flash_st_scheme, fw_status \<times> (u32 \<times> u32 \<times> u32) option) state" where
  "fw_upgrade_select_sbl_trial_fde P ptrs_ok = do {
     w \<leftarrow> gets world;
     if \<not> ptrs_ok then State_Monad.return (FW_UPGRADE_ERR_INVALID_PARAM_E, None)
     else if \<not> fdt_valid P w then State_Monad.return (FW_UPGRADE_ERR_INVALID_FDT_E, None)
     else case find_fde P w (\<lambda>e. fde_id e = FDE_IMG_ID_SBL \<and> fde_rank e = FDE_IMG_RANK_AGED) of
       None \<Rightarrow> State_Monad.return (FW_UPGRADE_ERROR_E, None)
     | Some i \<Rightarrow> State_Monad.return (FW_UPGRADE_OK_E,
                   Some (of_nat i, fde_addr (fde_at P w i), SBL_MEM_SIZE))
   }"

definition fw_upgrade_set_sbl_trial_fde ::
  "'d platform \<Rightarrow> u32 \<Rightarrow> u32 \<Rightarrow> (('d, 'z) flash_st_scheme, fw_status) state" where
  "fw_upgrade_set_sbl_trial_fde P sbl_trial_idx version = do {
     w \<leftarrow> gets world;
     if \<not> fdt_valid P w then State_Monad.return FW_UPGRADE_ERR_INVALID_FDT_E
     else let e = fde_at P w (unat sbl_trial_idx) in
       if sbl_trial_idx \<ge> hdr_num_fde (fdt_header P w) \<or> fde_id e \<noteq> FDE_IMG_ID_SBL
          \<or> fde_rank e \<noteq> FDE_IMG_RANK_AGED
       then State_Monad.return FW_UPGRADE_ERR_INVALID_PARAM_E
       else do {
         r \<leftarrow> write_fde P (unat sbl_trial_idx) (e\<lparr>fde_rank := FDE_IMG_RANK_TRIAL,
                fde_state := FDE_IMG_STATE_NEW, fde_version := version\<rparr>);
         State_Monad.return (if r \<noteq> 0 then FW_UPGRADE_ERROR_E else FW_UPGRADE_OK_E)
       }
   }"

text \<open>
  The result of \<open>fw_upgrade_set_force_boot\<close> is a status, except for an invalid table, where the
  code returns \<open>FW_UPGRADE_INVALID_FWD\<close> (0xFF), which is no status code: \<open>Inr\<close>.
\<close>

definition fw_upgrade_set_force_boot ::
  "'d platform \<Rightarrow> u8 \<Rightarrow> (('d, 'z) flash_st_scheme, fw_status + u8) state" where
  "fw_upgrade_set_force_boot P force_boot_fwd = do {
     w \<leftarrow> gets world;
     if \<not> fdt_valid P w then State_Monad.return (Inr FW_UPGRADE_INVALID_FWD)
     else case find_fde P w (\<lambda>e. fde_id e = FDE_IMG_ID_APP) of
       None \<Rightarrow> State_Monad.return (Inl FW_UPGRADE_ERR_INVALID_FDT_E)
     | Some i \<Rightarrow> do {
         let e = fde_at P w i;
         r \<leftarrow> write_fde P i (e\<lparr>fde_reserve := (fde_reserve e)[1 := force_boot_fwd]\<rparr>);
         State_Monad.return (Inl (if r \<noteq> 0 then FW_UPGRADE_ERROR_E else FW_UPGRADE_OK_E))
       }
   }"

section \<open>What a write of an entry changes\<close>

text \<open>
  The contract of \<open>nt_rram_write\<close>: a successful write stores the bytes at the address, and nothing
  else changes.
\<close>

definition rram_memory :: "'d platform \<Rightarrow> bool" where
  "rram_memory P \<longleftrightarrow> (\<forall>w a bs v x. nt_rram_write P w a bs = (0, v) \<longrightarrow>
     rram_load P v x = (if unat (x - a) < length bs then bs ! unat (x - a) else rram_load P w x))"

lemma unat_of_nat_sub:
  assumes "X < 2 ^ 32" and "A < 2 ^ 32"
  shows "unat (of_nat X - of_nat A :: u32) = (if A \<le> X then X - A else 2 ^ 32 + X - A)"
proof (cases "A \<le> X")
  case True
  then have "of_nat X - of_nat A = (of_nat (X - A) :: u32)" by (simp add: of_nat_diff)
  then have "unat (of_nat X - of_nat A :: u32) = unat (of_nat (X - A) :: u32)" by (simp only:)
  also have "\<dots> = X - A" using assms by (simp add: unat_of_nat del: of_nat_diff)
  finally show ?thesis using True by simp
next
  case False
  then have "of_nat X - of_nat A = (of_nat (2 ^ 32 + X - A) :: u32)"
    using assms by (simp add: of_nat_diff)
  then have "unat (of_nat X - of_nat A :: u32) = unat (of_nat (2 ^ 32 + X - A) :: u32)"
    by (simp only:)
  also have "\<dots> = 2 ^ 32 + X - A" using False assms by (simp add: unat_of_nat del: of_nat_diff)
  finally show ?thesis using False by simp
qed

lemma rram_bytes_of_nat:
  "rram_bytes P w (of_nat A) n = map (\<lambda>i. rram_load P w (of_nat (A + i))) [0..<n]"
  by (simp add: rram_bytes_def)

lemma rram_bytes_write_same:
  assumes "rram_memory P" and "nt_rram_write P w (of_nat A) bs = (0, v)" and "A + length bs < 2 ^ 32"
  shows "rram_bytes P v (of_nat A) (length bs) = bs"
proof (rule nth_equalityI)
  fix i
  assume i: "i < length (rram_bytes P v (of_nat A) (length bs))"
  then have "unat (of_nat (A + i) - of_nat A :: u32) = i"
    using assms(3) by (subst unat_of_nat_sub) (auto simp: rram_bytes_def)
  then show "rram_bytes P v (of_nat A) (length bs) ! i = bs ! i"
    using i assms(1,2) unfolding rram_memory_def rram_bytes_of_nat by auto
qed (simp add: rram_bytes_def)

lemma rram_bytes_write_other:
  assumes "rram_memory P" and "nt_rram_write P w (of_nat A) bs = (0, v)"
    and "A + length bs < 2 ^ 32" and "B + n < 2 ^ 32" and "B + n \<le> A \<or> A + length bs \<le> B"
  shows "rram_bytes P v (of_nat B) n = rram_bytes P w (of_nat B) n"
proof -
  have "rram_load P v (of_nat (B + i)) = rram_load P w (of_nat (B + i))" if "i < n" for i
  proof -
    have "\<not> unat (of_nat (B + i) - of_nat A :: u32) < length bs"
      using that assms(3-5) by (subst unat_of_nat_sub) auto
    then show ?thesis using assms(1,2) unfolding rram_memory_def by auto
  qed
  then show ?thesis unfolding rram_bytes_of_nat by auto
qed

lemma fde_address_nat: "fde_address i = of_nat (0x208000 + 32 + 32 * i)"
  by (simp add: fde_address_def FDT_START_def)

lemma fdt_valid_num: "fdt_valid P w \<Longrightarrow> 0 < num_fde P w \<and> num_fde P w \<le> 31"
  by (auto simp: fdt_valid_def num_fde_def FDT_MAX_ENTRY_def word_le_nat_alt not_less unat_gt_0)

lemma find_fde_Some:
  "find_fde P w p = Some i \<Longrightarrow> i < num_fde P w \<and> p (fde_at P w i) \<and> (\<forall>j<i. \<not> p (fde_at P w j))"
  unfolding find_fde_def by (auto simp: find_Some_iff)

lemma find_fde_None: "find_fde P w p = None \<longleftrightarrow> (\<forall>i < num_fde P w. \<not> p (fde_at P w i))"
  unfolding find_fde_def by (auto simp: find_None_iff)

lemma find_fde_SomeI:
  assumes "i < num_fde P w" and "p (fde_at P w i)" and "\<And>j. j < i \<Longrightarrow> \<not> p (fde_at P w j)"
  shows "find_fde P w p = Some i"
  using assms unfolding find_fde_def find_Some_iff by (intro exI [of _ i]) auto

text \<open>One write of an entry: that entry is the new one, the others and the header are as before.\<close>

lemma fde_at_wf: "fde_wf (fde_at P w i)"
  by (simp add: fde_at_def dec_fde_def fde_wf_def rram_bytes_def)

lemma write_fde_effect:
  assumes "rram_memory P" and "fde_wf e" and "i < 31"
    and "run_state (write_fde P i e) s = (0, t)"
  shows "fde_at P (world t) i = e"
    and "j < 31 \<Longrightarrow> j \<noteq> i \<Longrightarrow> fde_at P (world t) j = fde_at P (world s) j"
    and "fdt_header P (world t) = fdt_header P (world s)"
    and "t = s\<lparr>world := world t\<rparr>"
proof -
  from assms(4) have w: "nt_rram_write P (world s) (of_nat (0x208000 + 32 + 32 * i)) (enc_fde e) = (0, world t)"
    and t: "t = s\<lparr>world := world t\<rparr>"
    unfolding write_fde_def fde_address_nat [symmetric] by (auto split: prod.splits)
  have len: "length (enc_fde e) = 32" using assms(2) by simp
  show "fde_at P (world t) i = e"
    using rram_bytes_write_same [OF assms(1) w] assms(3) len
    unfolding fde_at_def fde_address_nat by simp
  show "j < 31 \<Longrightarrow> j \<noteq> i \<Longrightarrow> fde_at P (world t) j = fde_at P (world s) j"
    using rram_bytes_write_other [OF assms(1) w, of "0x208000 + 32 + 32 * j" 32] assms(3) len
    unfolding fde_at_def fde_address_nat by force
  have h: "rram_bytes P (world t) (of_nat 0x208000) 4 = rram_bytes P (world s) (of_nat 0x208000) 4"
    "rram_bytes P (world t) (of_nat (0x208000 + 4)) 4 = rram_bytes P (world s) (of_nat (0x208000 + 4)) 4"
    using assms(3) len by (intro rram_bytes_write_other [OF assms(1) w]; simp)+
  then show "fdt_header P (world t) = fdt_header P (world s)"
    unfolding fdt_header_def FDT_START_def by simp
  show "t = s\<lparr>world := world t\<rparr>" by (rule t)
qed

end
