(* ===== verification/Fw_Fwd.thy ===== *)
theory Fw_Fwd
  imports Fw_Fdt
begin

text \<open>
  \<open>src/common/mcumgr_qcom/src/fw_upgrade_mem.c\<close>, first part: its globals, the initialisation, and the
  reads, writes and erases of the fields of a firmware descriptor (FWD).
\<close>

section \<open>Globals\<close>

record partition_client =
  ref_count :: u8
  fwd_idx :: u8
  img_idx :: u8
  img_id :: u32
  client_version :: u32
  img_start :: u32
  img_size :: u32

record mem_info =
  mem_start :: u32
  mem_size :: u32
  fwd_region_size :: u32
  block_size :: u32

record 'd mem_st = "'d flash_st" +
  fu_initialized :: bool
  partition_handles :: "partition_client list"
  fw_upgrade_mem_params :: "mem_info option"
  FWD_SUPPORT_NUM :: u32

text \<open>\<open>fw_upgrade_mem_params->...\<close>: a read through a null pointer faults.\<close>

definition get_mem_info :: "(('d, 'z) mem_st_scheme, mem_info) state" where
  "get_mem_info = do {
     p \<leftarrow> gets fw_upgrade_mem_params;
     case p of
       Some m \<Rightarrow> State_Monad.return m
     | None \<Rightarrow> do { fault; State_Monad.return \<lparr>mem_start = 0, mem_size = 0, fwd_region_size = 0, block_size = 0\<rparr> }
   }"

definition fw_upgrade_validation :: "(('d, 'z) mem_st_scheme, fw_status) state" where
  "fw_upgrade_validation = do {
     b \<leftarrow> gets fu_initialized;
     State_Monad.return (if b then FW_UPGRADE_OK_E else FW_UPGRADE_ERROR_E)
   }"

section \<open>Initialisation\<close>

definition fw_upgrade_get_partition_base_on_golden ::
  "'d platform \<Rightarrow> (('d, 'z) mem_st_scheme, u8) state" where
  "fw_upgrade_get_partition_base_on_golden P = do {
     w \<leftarrow> gets world;
     if \<not> fdt_valid P w then State_Monad.return 1
     else if find_fde P w (\<lambda>e. fde_id e = FDE_IMG_ID_APP \<and> fde_rank e = FDE_IMG_RANK_GOLDEN) \<noteq> None
     then State_Monad.return 3
     else do {
       m \<leftarrow> get_mem_info;
       let start_addr = mem_start m + fwd_region_size m * 0;
       (r, buf) \<leftarrow> flash_adapter_read P start_addr sizeof_fwd True;
       if r \<noteq> FLASH_DEVICE_DONE then State_Monad.return 1
       else case buf of
         None \<Rightarrow> State_Monad.return 1
       | Some bs \<Rightarrow>
           let f = dec_fwd bs in
           if fwd_signature f = FW_UPGRADE_MAGIC_V1 \<and> fwd_rank f = FW_UPGRADE_FWD_RANK_GOLDEN
           then State_Monad.return 3 else State_Monad.return 2
     }
   }"

text \<open>\<open>k_malloc\<close> of the platform with its effect on the world.\<close>

definition malloc :: "'d platform \<Rightarrow> nat \<Rightarrow> (('d, 'z) flash_st_scheme, bool) state" where
  "malloc P n = do {
     s \<leftarrow> State_Monad.get;
     let (ok, w) = k_malloc P (world s) n;
     modify (\<lambda>s. s\<lparr>world := w\<rparr>);
     State_Monad.return ok
   }"

definition fw_upgrade_init :: "'d platform \<Rightarrow> (('d, 'z) mem_st_scheme, fw_status) state" where
  "fw_upgrade_init P = do {
     inited \<leftarrow> gets fu_initialized;
     already \<leftarrow> (if inited then do { c \<leftarrow> flash_adapter_get_config P; State_Monad.return (c \<noteq> None) }
                 else State_Monad.return False);
     if already then State_Monad.return FW_UPGRADE_OK_E
     else do {
       r \<leftarrow> flash_adapter_init P;
       if r \<noteq> FLASH_DEVICE_DONE then State_Monad.return FW_UPGRADE_ERROR_E
       else do {
         config \<leftarrow> flash_adapter_get_config P;
         case config of
           None \<Rightarrow> State_Monad.return FW_UPGRADE_ERROR_E
         | Some density \<Rightarrow> do {
             p \<leftarrow> gets fw_upgrade_mem_params;
             ok \<leftarrow> (if p = None then malloc P 16 else State_Monad.return True);
             if \<not> ok then State_Monad.return FW_UPGRADE_ERR_INSUFFICIENT_MEMORY_E
             else do {
               modify (\<lambda>s. s\<lparr>fw_upgrade_mem_params := Some \<lparr>mem_start = 0,
                   mem_size = density * BLOCK_SIZE_IN_BYTES,
                   fwd_region_size = BLOCK_SIZE_IN_BYTES, block_size = BLOCK_SIZE_IN_BYTES\<rparr>\<rparr>);
               modify (\<lambda>s. s\<lparr>partition_handles := map (\<lambda>h. h\<lparr>ref_count := 0\<rparr>) (partition_handles s)\<rparr>);
               num \<leftarrow> fw_upgrade_get_partition_base_on_golden P;
               modify (\<lambda>s. s\<lparr>FWD_SUPPORT_NUM := ucast num\<rparr>);
               n \<leftarrow> gets FWD_SUPPORT_NUM;
               if n \<noteq> 2 \<and> n \<noteq> 3 then State_Monad.return FW_UPGRADE_ERR_FLASH_NOT_SUPPORT_FW_UPGRADE_E
               else do {
                 modify (\<lambda>s. s\<lparr>fu_initialized := True\<rparr>);
                 State_Monad.return FW_UPGRADE_OK_E
               }
             }
           }
       }
     }
   }"

definition fw_upgrade_get_mem_block_size ::
  "(('d, 'z) mem_st_scheme, fw_status \<times> u32 option) state" where
  "fw_upgrade_get_mem_block_size = do {
     v \<leftarrow> fw_upgrade_validation;
     if v \<noteq> FW_UPGRADE_OK_E then State_Monad.return (FW_UPGRADE_ERR_NOT_INIT_E, None)
     else do { m \<leftarrow> get_mem_info; State_Monad.return (FW_UPGRADE_OK_E, Some (block_size m)) }
   }"

section \<open>Fields of a descriptor\<close>

definition fw_upgrade_erase_fwd :: "'d platform \<Rightarrow> u8 \<Rightarrow> (('d, 'z) mem_st_scheme, fw_status) state" where
  "fw_upgrade_erase_fwd P idx = do {
     v \<leftarrow> fw_upgrade_validation;
     if v \<noteq> FW_UPGRADE_OK_E then State_Monad.return FW_UPGRADE_ERR_NOT_INIT_E
     else if idx \<ge> FW_UPGRADE_MAX_FWD then State_Monad.return FW_UPGRADE_ERR_INVALID_PARAM_E
     else do {
       r \<leftarrow> flash_adapter_erase P (ucast idx) 1;
       State_Monad.return (if r \<noteq> FLASH_DEVICE_DONE then FW_UPGRADE_ERROR_E else FW_UPGRADE_OK_E)
     }
   }"

text \<open>The \<open>switch (info)\<close> of the three functions below: offset and size of the field.\<close>

fun fwd_field :: "fwd_info \<Rightarrow> u32 \<times> u32" where
  "fwd_field FW_UPGRADE_FWD_MAGIC_E = (0, 4)"
| "fwd_field FW_UPGRADE_FWD_VERSION_E = (4, 4)"
| "fwd_field FW_UPGRADE_FWD_RANK_E = (8, 4)"
| "fwd_field FW_UPGRADE_FWD_STATUS_E = (12, 1)"
| "fwd_field FW_UPGRADE_FWD_TOTAL_IMAGE_E = (13, 1)"

definition fwd_field_addr :: "mem_info \<Rightarrow> u8 \<Rightarrow> fwd_info \<Rightarrow> u32" where
  "fwd_field_addr m idx info = mem_start m + fwd_region_size m * ucast idx + fst (fwd_field info)"

definition fw_upgrade_get_fwd_info_addr ::
  "u8 \<Rightarrow> fwd_info \<Rightarrow> bool \<Rightarrow> (('d, 'z) mem_st_scheme, fw_status \<times> u32 option) state" where
  "fw_upgrade_get_fwd_info_addr idx info ptr_ok = do {
     v \<leftarrow> fw_upgrade_validation;
     if v \<noteq> FW_UPGRADE_OK_E then State_Monad.return (FW_UPGRADE_ERR_NOT_INIT_E, None)
     else if idx \<ge> FW_UPGRADE_MAX_FWD then State_Monad.return (FW_UPGRADE_ERR_INVALID_PARAM_E, None)
     else if ptr_ok
     then do { m \<leftarrow> get_mem_info; State_Monad.return (FW_UPGRADE_OK_E, Some (fwd_field_addr m idx info)) }
     else State_Monad.return (FW_UPGRADE_OK_E, None)
   }"

definition fw_upgrade_set_fwd_info ::
  "'d platform \<Rightarrow> u8 \<Rightarrow> fwd_info \<Rightarrow> bytes \<Rightarrow> (('d, 'z) mem_st_scheme, fw_status) state" where
  "fw_upgrade_set_fwd_info P idx info value = do {
     v \<leftarrow> fw_upgrade_validation;
     if v \<noteq> FW_UPGRADE_OK_E then State_Monad.return FW_UPGRADE_ERR_NOT_INIT_E
     else if idx \<ge> FW_UPGRADE_MAX_FWD then State_Monad.return FW_UPGRADE_ERR_INVALID_PARAM_E
     else do {
       m \<leftarrow> get_mem_info;
       r \<leftarrow> flash_adapter_write P (fwd_field_addr m idx info) (snd (fwd_field info)) (Some value);
       State_Monad.return (if r \<noteq> FLASH_DEVICE_DONE then FW_UPGRADE_ERROR_E else FW_UPGRADE_OK_E)
     }
   }"

definition fw_upgrade_get_fwd_info ::
  "'d platform \<Rightarrow> u8 \<Rightarrow> fwd_info \<Rightarrow> (('d, 'z) mem_st_scheme, fw_status \<times> bytes option) state" where
  "fw_upgrade_get_fwd_info P idx info = do {
     v \<leftarrow> fw_upgrade_validation;
     if v \<noteq> FW_UPGRADE_OK_E then State_Monad.return (FW_UPGRADE_ERR_NOT_INIT_E, None)
     else if idx \<ge> FW_UPGRADE_MAX_FWD then State_Monad.return (FW_UPGRADE_ERR_INVALID_PARAM_E, None)
     else do {
       m \<leftarrow> get_mem_info;
       (r, buf) \<leftarrow> flash_adapter_read P (fwd_field_addr m idx info) (snd (fwd_field info)) True;
       State_Monad.return (if r \<noteq> FLASH_DEVICE_DONE then FW_UPGRADE_ERROR_E else FW_UPGRADE_OK_E, buf)
     }
   }"

end
