(* ===== verification/Fw_Partition.thy ===== *)
theory Fw_Partition
  imports Fw_Fwd
begin

text \<open>
  \<open>src/common/mcumgr_qcom/src/fw_upgrade_mem.c\<close>, second part: the table of ten partition handles, and
  the partitions (image entries) of a firmware descriptor behind them.
\<close>

section \<open>Handles\<close>

text \<open>
  A handle is a pointer into \<open>partition_handles\<close>: \<open>None\<close> is the null pointer, \<open>Some i\<close> is
  \<open>&partition_handles[i]\<close>. The code makes no other pointer of that type.
\<close>

type_synonym hdl = "nat option"

definition handle_entry :: "nat \<Rightarrow> (('d, 'z) mem_st_scheme, partition_client) state" where
  "handle_entry i = gets (\<lambda>s. partition_handles s ! i)"

definition update_handle ::
  "nat \<Rightarrow> (partition_client \<Rightarrow> partition_client) \<Rightarrow> (('d, 'z) mem_st_scheme, unit) state" where
  "update_handle i f =
     modify (\<lambda>s. s\<lparr>partition_handles := (partition_handles s)[i := f (partition_handles s ! i)]\<rparr>)"

text \<open>The recurring \<open>((fu_partition_client_t *)hdl)->ref_count = 0\<close>.\<close>

definition release :: "hdl \<Rightarrow> (('d, 'z) mem_st_scheme, unit) state" where
  "release h = (case h of None \<Rightarrow> fault | Some i \<Rightarrow> update_handle i (\<lambda>c. c\<lparr>ref_count := 0\<rparr>))"

text \<open>A field of the structure a handle points to; reading through null faults.\<close>

definition hdl_get :: "hdl \<Rightarrow> (('d, 'z) mem_st_scheme, partition_client) state" where
  "hdl_get h = (case h of
     Some i \<Rightarrow> handle_entry i
   | None \<Rightarrow> do { fault; State_Monad.return \<lparr>ref_count = 0, fwd_idx = 0, img_idx = 0, img_id = 0,
                client_version = 0, img_start = 0, img_size = 0\<rparr> })"

definition free_handle :: "partition_client list \<Rightarrow> nat option" where
  "free_handle hs = find (\<lambda>i. ref_count (hs ! i) = 0) [0..<FW_UPGRADE_MAX_HANDLES]"

definition fw_upgrade_get_partition_client_entry :: "(('d, 'z) mem_st_scheme, hdl) state" where
  "fw_upgrade_get_partition_client_entry = gets (\<lambda>s. free_handle (partition_handles s))"

definition handle_valid :: "partition_client list \<Rightarrow> hdl \<Rightarrow> bool" where
  "handle_valid hs h \<longleftrightarrow> list_ex (\<lambda>i. h = Some i \<and> ref_count (hs ! i) > 0) [0..<FW_UPGRADE_MAX_HANDLES]"

definition fw_upgrade_partition_handle_validation ::
  "hdl \<Rightarrow> (('d, 'z) mem_st_scheme, fw_status) state" where
  "fw_upgrade_partition_handle_validation h = gets (\<lambda>s.
     if handle_valid (partition_handles s) h then FW_UPGRADE_OK_E else FW_UPGRADE_ERROR_E)"

text \<open>\<open>buffer_ok\<close>: the buffer pointer is not null.\<close>

definition fw_upgrade_mem_parameters_validation ::
  "hdl \<Rightarrow> u32 \<Rightarrow> u32 \<Rightarrow> bool \<Rightarrow> (('d, 'z) mem_st_scheme, fw_status) state" where
  "fw_upgrade_mem_parameters_validation h byte_offset byte_count buffer_ok =
     (if h = None \<or> \<not> buffer_ok \<or> byte_count = 0 then State_Monad.return FW_UPGRADE_ERR_INVALID_PARAM_E
      else do {
        v \<leftarrow> fw_upgrade_partition_handle_validation h;
        if v \<noteq> FW_UPGRADE_OK_E then State_Monad.return FW_UPGRADE_ERR_INVALID_PARAM_E
        else do {
          c \<leftarrow> hdl_get h;
          let limit = img_start c + img_size c;
          State_Monad.return
            (if img_start c + byte_offset + byte_count > limit
             then FW_UPGRADE_ERR_INVALID_PARAM_E else FW_UPGRADE_OK_E)
        }
      })"

section \<open>Partitions of a descriptor\<close>

definition fwd_start :: "mem_info \<Rightarrow> u8 \<Rightarrow> u32" where
  "fwd_start m idx = mem_start m + fwd_region_size m * ucast idx"

text \<open>
  Filling a handle from an image entry: the SBL entry holds byte values, every other entry blocks.
\<close>

definition client_of_entry ::
  "mem_info \<Rightarrow> u8 \<Rightarrow> nat \<Rightarrow> u32 \<Rightarrow> image_entry \<Rightarrow> partition_client" where
  "client_of_entry m idx i iid e =
     \<lparr>ref_count = 1, fwd_idx = idx, img_idx = of_nat i, img_id = iid, client_version = img_version e,
      img_start = (if iid \<noteq> SBL_IMG_ID then start_block e * block_size m else start_block e),
      img_size = (if iid \<noteq> SBL_IMG_ID then total_blocks e * block_size m else total_blocks e)\<rparr>"

definition read_fwd :: "'d platform \<Rightarrow> u32 \<Rightarrow> (('d, 'z) flash_st_scheme, fwd option) state" where
  "read_fwd P start_addr = do {
     (r, buf) \<leftarrow> flash_adapter_read P start_addr sizeof_fwd True;
     State_Monad.return (if r \<noteq> FLASH_DEVICE_DONE then None else map_option dec_fwd buf)
   }"

definition find_entry :: "fwd \<Rightarrow> u32 \<Rightarrow> nat option" where
  "find_entry f iid = find (\<lambda>i. image_id (image_entries f ! i) = iid) [0..<MAX_FW_IMAGE_ENTRIES]"

definition fw_upgrade_create_partition ::
  "'d platform \<Rightarrow> u8 \<Rightarrow> u32 \<Rightarrow> u32 \<Rightarrow> u32 \<Rightarrow> u32 \<Rightarrow> (('d, 'z) mem_st_scheme, fw_status \<times> hdl) state" where
  "fw_upgrade_create_partition P idx iid version start nbytes = do {
     v \<leftarrow> fw_upgrade_validation;
     if v \<noteq> FW_UPGRADE_OK_E then State_Monad.return (FW_UPGRADE_ERR_NOT_INIT_E, None)
     else if idx \<ge> FW_UPGRADE_MAX_FWD then State_Monad.return (FW_UPGRADE_ERR_INVALID_PARAM_E, None)
     else do {
       m \<leftarrow> get_mem_info;
       if iid \<noteq> SBL_IMG_ID \<and> (start mod block_size m \<noteq> 0 \<or> nbytes mod block_size m \<noteq> 0)
       then State_Monad.return (FW_UPGRADE_ERR_INVALID_PARAM_E, None)
       else do {
         entry \<leftarrow> fw_upgrade_get_partition_client_entry;
         case entry of
           None \<Rightarrow> State_Monad.return (FW_UPGRADE_ERROR_E, None)
         | Some k \<Rightarrow> do {
             f \<leftarrow> read_fwd P (fwd_start m idx);
             case f of
               None \<Rightarrow> State_Monad.return (FW_UPGRADE_ERROR_E, None)
             | Some f \<Rightarrow>
                 (case find_entry f FW_UPGRADE_FWD_IMAGE_UNUSED of
                    None \<Rightarrow> State_Monad.return (FW_UPGRADE_ERROR_E, None)
                  | Some i \<Rightarrow> do {
                      let start_addr = fwd_start m idx + 32 + of_nat i * sizeof_image_entry;
                      let e = \<lparr>image_id = iid,
                        start_block = (if iid \<noteq> SBL_IMG_ID then start div block_size m else start),
                        total_blocks = (if iid \<noteq> SBL_IMG_ID then nbytes div block_size m else nbytes),
                        img_version = version\<rparr>;
                      r \<leftarrow> flash_adapter_write P start_addr sizeof_image_entry (Some (enc_image_entry e));
                      if r \<noteq> FLASH_DEVICE_DONE then State_Monad.return (FW_UPGRADE_ERROR_E, None)
                      else do {
                        update_handle k (\<lambda>_. \<lparr>ref_count = 1, fwd_idx = idx, img_idx = of_nat i,
                          img_id = iid, client_version = version, img_start = start, img_size = nbytes\<rparr>);
                        State_Monad.return (FW_UPGRADE_OK_E, Some k)
                      }
                    })
           }
       }
     }
   }"

definition fw_upgrade_first_partition ::
  "'d platform \<Rightarrow> u8 \<Rightarrow> (('d, 'z) mem_st_scheme, fw_status \<times> hdl) state" where
  "fw_upgrade_first_partition P idx = do {
     v \<leftarrow> fw_upgrade_validation;
     if v \<noteq> FW_UPGRADE_OK_E then State_Monad.return (FW_UPGRADE_ERR_NOT_INIT_E, None)
     else if idx \<ge> FW_UPGRADE_MAX_FWD then State_Monad.return (FW_UPGRADE_ERR_INVALID_PARAM_E, None)
     else do {
       entry \<leftarrow> fw_upgrade_get_partition_client_entry;
       case entry of
         None \<Rightarrow> State_Monad.return (FW_UPGRADE_ERROR_E, None)
       | Some k \<Rightarrow> do {
           m \<leftarrow> get_mem_info;
           f \<leftarrow> read_fwd P (fwd_start m idx);
           case f of
             None \<Rightarrow> State_Monad.return (FW_UPGRADE_ERROR_E, None)
           | Some f \<Rightarrow>
               if total_images f = 0 then State_Monad.return (FW_UPGRADE_ERROR_E, None)
               else do {
                 let e = image_entries f ! 0;
                 update_handle k (\<lambda>_. client_of_entry m idx 0 (image_id e) e);
                 State_Monad.return (FW_UPGRADE_OK_E, Some k)
               }
         }
     }
   }"

definition fw_upgrade_next_partition ::
  "'d platform \<Rightarrow> hdl \<Rightarrow> (('d, 'z) mem_st_scheme, fw_status \<times> hdl) state" where
  "fw_upgrade_next_partition P cur = do {
     v \<leftarrow> fw_upgrade_validation;
     if v \<noteq> FW_UPGRADE_OK_E then State_Monad.return (FW_UPGRADE_ERR_NOT_INIT_E, None)
     else do {
       hv \<leftarrow> fw_upgrade_partition_handle_validation cur;
       if hv \<noteq> FW_UPGRADE_OK_E then State_Monad.return (FW_UPGRADE_ERR_INVALID_PARAM_E, None)
       else do {
         h \<leftarrow> hdl_get cur;
         entry \<leftarrow> fw_upgrade_get_partition_client_entry;
         case entry of
           None \<Rightarrow> State_Monad.return (FW_UPGRADE_ERR_GET_PARTITION_NULL_E, None)
         | Some k \<Rightarrow> do {
             m \<leftarrow> get_mem_info;
             f \<leftarrow> read_fwd P (fwd_start m (fwd_idx h));
             case f of
               None \<Rightarrow> State_Monad.return (FW_UPGRADE_ERR_FLASH_READ_FAIL_E, None)
             | Some f \<Rightarrow>
                 let i = unat (img_idx h) + 1 in
                 if i \<ge> MAX_FW_IMAGE_ENTRIES
                 then State_Monad.return (FW_UPGRADE_ERR_REACH_MAX_IMAGE_ENTRY_E, None)
                 else if image_id (image_entries f ! i) = FW_UPGRADE_FWD_IMAGE_UNUSED
                 then State_Monad.return (FW_UPGRADE_ERR_IMAGE_UNUSED_E, None)
                 else do {
                   let e = image_entries f ! i;
                   update_handle k (\<lambda>_. client_of_entry m (fwd_idx h) i (image_id e) e);
                   State_Monad.return (FW_UPGRADE_OK_E, Some k)
                 }
           }
       }
     }
   }"

definition fw_upgrade_find_partition ::
  "'d platform \<Rightarrow> u8 \<Rightarrow> u32 \<Rightarrow> (('d, 'z) mem_st_scheme, fw_status \<times> hdl) state" where
  "fw_upgrade_find_partition P idx iid = do {
     v \<leftarrow> fw_upgrade_validation;
     if v \<noteq> FW_UPGRADE_OK_E then State_Monad.return (FW_UPGRADE_ERR_NOT_INIT_E, None)
     else if idx \<ge> FW_UPGRADE_MAX_FWD
     then State_Monad.return (FW_UPGRADE_ERR_REACH_MAX_IMAGE_ENTRY_E, None)
     else do {
       entry \<leftarrow> fw_upgrade_get_partition_client_entry;
       case entry of
         None \<Rightarrow> State_Monad.return (FW_UPGRADE_ERR_GET_PARTITION_NULL_E, None)
       | Some k \<Rightarrow> do {
           m \<leftarrow> get_mem_info;
           f \<leftarrow> read_fwd P (fwd_start m idx);
           case f of
             None \<Rightarrow> State_Monad.return (FW_UPGRADE_ERR_FLASH_READ_FAIL_E, None)
           | Some f \<Rightarrow>
               (case find_entry f iid of
                  None \<Rightarrow> State_Monad.return (FW_UPGRADE_ERR_REACH_MAX_IMAGE_ENTRY_E, None)
                | Some i \<Rightarrow> do {
                    update_handle k (\<lambda>_. client_of_entry m idx i iid (image_entries f ! i));
                    State_Monad.return (FW_UPGRADE_OK_E, Some k)
                  })
         }
     }
   }"

section \<open>Writing to a partition's header and data\<close>

definition fw_upgrade_set_image_id :: "'d platform \<Rightarrow> hdl \<Rightarrow> u32 \<Rightarrow> (('d, 'z) mem_st_scheme, fw_status) state" where
  "fw_upgrade_set_image_id P h iid = do {
     v \<leftarrow> fw_upgrade_validation;
     if v \<noteq> FW_UPGRADE_OK_E then State_Monad.return FW_UPGRADE_ERR_NOT_INIT_E
     else do {
       hv \<leftarrow> fw_upgrade_partition_handle_validation h;
       if h = None \<or> hv \<noteq> FW_UPGRADE_OK_E then State_Monad.return FW_UPGRADE_ERR_INVALID_PARAM_E
       else do {
         c \<leftarrow> hdl_get h;
         if fwd_idx c \<ge> FW_UPGRADE_MAX_FWD then State_Monad.return FW_UPGRADE_ERR_INVALID_PARAM_E
         else do {
           m \<leftarrow> get_mem_info;
           let start_addr = fwd_start m (fwd_idx c) + offsetof_image_entries
             + (ucast (img_idx c) * sizeof_image_entry + 0);
           r \<leftarrow> flash_adapter_write P start_addr 4 (Some (bytes_le32 iid));
           if r \<noteq> FLASH_DEVICE_DONE then State_Monad.return FW_UPGRADE_ERROR_E
           else do { update_handle (the h) (\<lambda>c. c\<lparr>img_id := iid\<rparr>); State_Monad.return FW_UPGRADE_OK_E }
         }
       }
     }
   }"

definition fw_upgrade_set_image_version ::
  "'d platform \<Rightarrow> hdl \<Rightarrow> u32 \<Rightarrow> (('d, 'z) mem_st_scheme, fw_status) state" where
  "fw_upgrade_set_image_version P h version = do {
     v \<leftarrow> fw_upgrade_validation;
     if v \<noteq> FW_UPGRADE_OK_E then State_Monad.return FW_UPGRADE_ERR_NOT_INIT_E
     else do {
       hv \<leftarrow> fw_upgrade_partition_handle_validation h;
       if h = None \<or> hv \<noteq> FW_UPGRADE_OK_E then State_Monad.return FW_UPGRADE_ERR_INVALID_PARAM_E
       else do {
         c \<leftarrow> hdl_get h;
         if fwd_idx c \<ge> FW_UPGRADE_MAX_FWD then State_Monad.return FW_UPGRADE_ERR_INVALID_PARAM_E
         else do {
           m \<leftarrow> get_mem_info;
           let start_addr = fwd_start m (fwd_idx c) + offsetof_image_entries
             + (ucast (img_idx c) * sizeof_image_entry + 12);
           r \<leftarrow> flash_adapter_write P start_addr 4 (Some (bytes_le32 version));
           if r \<noteq> FLASH_DEVICE_DONE then State_Monad.return FW_UPGRADE_ERROR_E
           else do {
             update_handle (the h) (\<lambda>c. c\<lparr>client_version := version\<rparr>);
             State_Monad.return FW_UPGRADE_OK_E
           }
         }
       }
     }
   }"

text \<open>
  Only a size of 0 is accepted, and not for the APP or SBL image. The id is compared after its
  truncation to the local \<open>uint8_t img_id\<close>.
\<close>

definition fw_upgrade_set_image_size ::
  "'d platform \<Rightarrow> hdl \<Rightarrow> u32 \<Rightarrow> (('d, 'z) mem_st_scheme, fw_status) state" where
  "fw_upgrade_set_image_size P h new_size = do {
     v \<leftarrow> fw_upgrade_validation;
     if v \<noteq> FW_UPGRADE_OK_E then State_Monad.return FW_UPGRADE_ERR_NOT_INIT_E
     else do {
       hv \<leftarrow> fw_upgrade_partition_handle_validation h;
       if h = None \<or> new_size \<noteq> 0 \<or> hv \<noteq> FW_UPGRADE_OK_E
       then State_Monad.return FW_UPGRADE_ERR_INVALID_PARAM_E
       else do {
         c \<leftarrow> hdl_get h;
         if fwd_idx c \<ge> FW_UPGRADE_MAX_FWD then State_Monad.return FW_UPGRADE_ERR_INVALID_PARAM_E
         else do {
           let id8 = (ucast (img_id c) :: u8);
           if ucast id8 = APP_IMG_ID \<or> ucast id8 = SBL_IMG_ID
           then State_Monad.return FW_UPGRADE_ERR_INVALID_PARAM_E
           else do {
             m \<leftarrow> get_mem_info;
             let start_addr = fwd_start m (fwd_idx c) + offsetof_image_entries
               + (ucast (img_idx c) * sizeof_image_entry + 8);
             r \<leftarrow> flash_adapter_write P start_addr 4 (Some (bytes_le32 new_size));
             if r \<noteq> FLASH_DEVICE_DONE then State_Monad.return FW_UPGRADE_ERROR_E
             else do {
               update_handle (the h) (\<lambda>c. c\<lparr>img_size := 0\<rparr>);
               State_Monad.return FW_UPGRADE_OK_E
             }
           }
         }
       }
     }
   }"

definition fw_upgrade_erase_partition ::
  "'d platform \<Rightarrow> hdl \<Rightarrow> u32 \<Rightarrow> u32 \<Rightarrow> (('d, 'z) mem_st_scheme, fw_status) state" where
  "fw_upgrade_erase_partition P h offset nbytes = do {
     hv \<leftarrow> fw_upgrade_partition_handle_validation h;
     if hv \<noteq> FW_UPGRADE_OK_E then State_Monad.return FW_UPGRADE_ERR_INVALID_PARAM_E
     else do {
       c \<leftarrow> hdl_get h;
       if img_id c = SBL_IMG_ID then State_Monad.return FW_UPGRADE_OK_E
       else do {
         m \<leftarrow> get_mem_info;
         if nbytes = 0 \<or> nbytes mod block_size m \<noteq> 0 \<or> offset mod block_size m \<noteq> 0
         then State_Monad.return FW_UPGRADE_ERR_INVALID_PARAM_E
         else if offset + nbytes > img_size c
         then State_Monad.return FW_UPGRADE_ERR_INVALID_PARAM_E
         else do {
           let first = (img_start c + offset) div block_size m;
           let count = nbytes div block_size m;
           r \<leftarrow> flash_adapter_erase P first count;
           State_Monad.return (if r \<noteq> FLASH_DEVICE_DONE then FW_UPGRADE_ERROR_E else FW_UPGRADE_OK_E)
         }
       }
     }
   }"

text \<open>\<open>nt_rram_write\<close> of the platform with its effect on the world.\<close>

definition rram_write :: "'d platform \<Rightarrow> u32 \<Rightarrow> bytes \<Rightarrow> (('d, 'z) flash_st_scheme, int) state" where
  "rram_write P a bs = do {
     s \<leftarrow> State_Monad.get;
     let (r, w) = nt_rram_write P (world s) a bs;
     modify (\<lambda>s. s\<lparr>world := w\<rparr>);
     State_Monad.return r
   }"

text \<open>
  \<open>aligned\<close> says whether the source buffer's address is a multiple of 4; if not, an SBL image goes
  through a bounce buffer. \<open>buf\<close> is \<open>None\<close> for a null pointer, else the bytes to write, of which
  there are \<open>nbytes\<close>.
\<close>

definition fw_upgrade_write_partition ::
  "'d platform \<Rightarrow> hdl \<Rightarrow> u32 \<Rightarrow> bytes option \<Rightarrow> bool \<Rightarrow> u32 \<Rightarrow> (('d, 'z) mem_st_scheme, fw_status) state" where
  "fw_upgrade_write_partition P h offset buf aligned nbytes = do {
     v \<leftarrow> fw_upgrade_mem_parameters_validation h offset nbytes (buf \<noteq> None);
     if v \<noteq> FW_UPGRADE_OK_E then State_Monad.return FW_UPGRADE_ERR_INVALID_PARAM_E
     else do {
       c \<leftarrow> hdl_get h;
       let start_addr = img_start c + offset;
       let bs = take (unat nbytes) (the buf);
       if img_id c = SBL_IMG_ID then
         (if \<not> aligned then do {
            ok \<leftarrow> malloc P (unat nbytes);
            if \<not> ok then State_Monad.return FW_UPGRADE_ERR_INSUFFICIENT_MEMORY_E
            else do {
              r \<leftarrow> rram_write P start_addr bs;
              State_Monad.return (if r \<noteq> 0 then FW_UPGRADE_ERROR_E else FW_UPGRADE_OK_E)
            }
          } else do {
            r \<leftarrow> rram_write P start_addr bs;
            State_Monad.return (if r \<noteq> 0 then FW_UPGRADE_ERROR_E else FW_UPGRADE_OK_E)
          })
       else do {
         r \<leftarrow> flash_adapter_write P start_addr nbytes buf;
         State_Monad.return (if r \<noteq> FLASH_DEVICE_DONE then FW_UPGRADE_ERROR_E else FW_UPGRADE_OK_E)
       }
     }
   }"

text \<open>Besides the status: the buffer, \<open>None\<close> where it is left as it was, and \<open>*nbytes\<close>.\<close>

definition fw_upgrade_read_partition ::
  "'d platform \<Rightarrow> hdl \<Rightarrow> u32 \<Rightarrow> bool \<Rightarrow> u32 \<Rightarrow>
   (('d, 'z) mem_st_scheme, fw_status \<times> bytes option \<times> u32) state" where
  "fw_upgrade_read_partition P h offset buf_ok max_bytes = do {
     v \<leftarrow> fw_upgrade_mem_parameters_validation h offset max_bytes buf_ok;
     if v \<noteq> FW_UPGRADE_OK_E then State_Monad.return (FW_UPGRADE_ERR_INVALID_PARAM_E, None, 0)
     else do {
       c \<leftarrow> hdl_get h;
       let start_addr = img_start c + offset;
       if img_id c = SBL_IMG_ID then do {
         w \<leftarrow> gets world;
         let (r, f) = nt_rram_read P w start_addr max_bytes;
         let bs = map f [0..<unat max_bytes];
         State_Monad.return
           (if r \<noteq> 0 then (FW_UPGRADE_ERROR_E, Some bs, 0) else (FW_UPGRADE_OK_E, Some bs, max_bytes))
       } else do {
         (r, buf) \<leftarrow> flash_adapter_read P start_addr max_bytes buf_ok;
         State_Monad.return
           (if r \<noteq> FLASH_DEVICE_DONE then (FW_UPGRADE_ERROR_E, buf, 0) else (FW_UPGRADE_OK_E, buf, max_bytes))
       }
     }
   }"

end
