(* ===== verification/Fw_Trial.thy ===== *)
theory Fw_Trial
  imports Fw_Partition
begin

text \<open>
  \<open>src/common/mcumgr_qcom/src/fw_upgrade_mem.c\<close>, third part: which descriptor runs, which is on trial
  and where the next one may be programmed; accepting and rejecting the trial.
\<close>

section \<open>Address computations\<close>

text \<open>
  One of the four blocks of \<open>fw_upgrade_get_first_programming_image_start_address\<close>, for the reserved
  image \<open>iid\<close> of the running descriptor: the larger of \<open>img_start\<close> and the end of that image.
\<close>

definition past_image ::
  "'d platform \<Rightarrow> u8 \<Rightarrow> u32 \<Rightarrow> u32 \<Rightarrow> (('d, 'z) mem_st_scheme, u32) state" where
  "past_image P cur iid acc = do {
     (ret, h) \<leftarrow> fw_upgrade_find_partition P cur iid;
     if ret = FW_UPGRADE_OK_E then do {
       c \<leftarrow> hdl_get h;
       release h;
       let img1_start = img_start c + img_size c;
       State_Monad.return (if img1_start > acc then img1_start else acc)
     } else State_Monad.return acc
   }"

definition fw_upgrade_get_first_programming_image_start_address ::
  "'d platform \<Rightarrow> (('d, 'z) mem_st_scheme, u32) state" where
  "fw_upgrade_get_first_programming_image_start_address P = do {
     (cur, _, _) \<leftarrow> fw_upgrade_get_active_fwd P False False;
     a1 \<leftarrow> past_image P cur FS1_IMG_ID 0;
     a2 \<leftarrow> past_image P cur FS2_IMG_ID a1;
     a3 \<leftarrow> past_image P cur RAMDUMP_IMG_ID a2;
     a4 \<leftarrow> past_image P cur USERDATA_IMG_ID a3;
     m \<leftarrow> get_mem_info;
     let img1_start = ucast FW_UPGRADE_MAX_FWD * fwd_region_size m;
     State_Monad.return (if img1_start > a4 then img1_start else a4)
   }"

text \<open>
  The \<open>while\<close> loop of \<open>fw_upgrade_get_imageSet_end_addr\<close>; it walks at most the 30 image entries of a
  descriptor, so a fuel of 30 is never used up.
\<close>

definition first_end :: "partition_client \<Rightarrow> u32" where
  "first_end c = (if img_id c \<noteq> SBL_IMG_ID then img_start c + img_size c else 0)"

definition end_max :: "partition_client \<Rightarrow> u32 \<Rightarrow> u32" where
  "end_max c end_addr = (let rtn_addr = img_start c + img_size c in
     if img_id c \<noteq> SBL_IMG_ID \<and> rtn_addr > end_addr then rtn_addr else end_addr)"

primrec imageSet_walk :: "'d platform \<Rightarrow> nat \<Rightarrow> hdl \<Rightarrow> u32 \<Rightarrow> (('d, 'z) mem_st_scheme, u32) state" where
  "imageSet_walk P 0 h end_addr = do { out_of_fuel; State_Monad.return end_addr }"
| "imageSet_walk P (Suc fuel) h end_addr = do {
     (ret, h') \<leftarrow> fw_upgrade_next_partition P h;
     if ret = FW_UPGRADE_OK_E then do {
       release h;
       c \<leftarrow> hdl_get h';
       imageSet_walk P fuel h' (end_max c end_addr)
     } else do {
       release h;
       State_Monad.return end_addr
     }
   }"

definition imageSet_fuel :: nat where
  "imageSet_fuel = MAX_FW_IMAGE_ENTRIES"

definition fw_upgrade_get_imageSet_end_addr ::
  "'d platform \<Rightarrow> u8 \<Rightarrow> (('d, 'z) mem_st_scheme, fw_status \<times> u32 option) state" where
  "fw_upgrade_get_imageSet_end_addr P fwd_num = do {
     (_, buf) \<leftarrow> fw_upgrade_get_fwd_info P fwd_num FW_UPGRADE_FWD_MAGIC_E;
     let magic = (case buf of None \<Rightarrow> 0 | Some bs \<Rightarrow> le32 bs);
     if magic = FW_UPGRADE_MAGIC_V1 then do {
       (ret, h) \<leftarrow> fw_upgrade_first_partition P fwd_num;
       if ret = FW_UPGRADE_OK_E then do {
         c \<leftarrow> hdl_get h;
         end_addr \<leftarrow> imageSet_walk P imageSet_fuel h (first_end c);
         State_Monad.return (FW_UPGRADE_OK_E, Some end_addr)
       } else State_Monad.return (FW_UPGRADE_ERROR_E, None)
     } else State_Monad.return (FW_UPGRADE_ERROR_E, None)
   }"

section \<open>Which descriptor is current, which is on trial\<close>

record fwd_summary =
  sum_magic :: u32
  sum_rank :: u32
  sum_status :: u8
  sum_images :: u8

text \<open>
  The four reads at the head of both scans; \<open>None\<close> where one of them fails and the code goes to its
  end label.
\<close>

definition read_fwd_summary ::
  "'d platform \<Rightarrow> u8 \<Rightarrow> (('d, 'z) mem_st_scheme, fwd_summary option) state" where
  "read_fwd_summary P i = do {
     (r1, b1) \<leftarrow> fw_upgrade_get_fwd_info P i FW_UPGRADE_FWD_MAGIC_E;
     if r1 \<noteq> FW_UPGRADE_OK_E then State_Monad.return None else do {
     (r2, b2) \<leftarrow> fw_upgrade_get_fwd_info P i FW_UPGRADE_FWD_RANK_E;
     if r2 \<noteq> FW_UPGRADE_OK_E then State_Monad.return None else do {
     (r3, b3) \<leftarrow> fw_upgrade_get_fwd_info P i FW_UPGRADE_FWD_STATUS_E;
     if r3 \<noteq> FW_UPGRADE_OK_E then State_Monad.return None else do {
     (r4, b4) \<leftarrow> fw_upgrade_get_fwd_info P i FW_UPGRADE_FWD_TOTAL_IMAGE_E;
     if r4 \<noteq> FW_UPGRADE_OK_E then State_Monad.return None else
     State_Monad.return (Some \<lparr>sum_magic = le32 (the b1), sum_rank = le32 (the b2),
       sum_status = the b3 ! 0, sum_images = the b4 ! 0\<rparr>) }}}
   }"

definition fwd_usable :: "fwd_summary \<Rightarrow> bool" where
  "fwd_usable d \<longleftrightarrow> sum_magic d = FW_UPGRADE_MAGIC_V1 \<and> sum_status d = FW_UPGRADE_FWD_STATUS_VALID
     \<and> sum_images d > 0 \<and> sum_images d \<noteq> 0xFF"

text \<open>
  The loop of \<open>fw_upgrade_get_current_index\<close> over \<open>i, i + 1, ..., config - 1\<close>; the index is \<open>uint8_t\<close>
  where it is passed on, and \<open>config\<close> is at most 3. \<open>None\<close>: a read failed.
\<close>

fun scan_current ::
  "'d platform \<Rightarrow> u8 list \<Rightarrow> (('d, 'z) mem_st_scheme, u8 option) state" where
  "scan_current P [] = State_Monad.return (Some FW_UPGRADE_FWD_STATUS_UNUSED)"
| "scan_current P (i # is) = do {
     d \<leftarrow> read_fwd_summary P i;
     case d of
       None \<Rightarrow> State_Monad.return None
     | Some d \<Rightarrow>
         if fwd_usable d \<and> sum_rank d \<noteq> FW_UPGRADE_FWD_RANK_TRIAL \<and> sum_rank d > 0
         then State_Monad.return (Some i)
         else scan_current P is
   }"

definition u8_upto :: "nat \<Rightarrow> nat \<Rightarrow> u8 list" where
  "u8_upto a b = map of_nat [a..<b]"

definition fw_upgrade_get_current_index ::
  "'d platform \<Rightarrow> (('d, 'z) mem_st_scheme, fw_status \<times> u8) state" where
  "fw_upgrade_get_current_index P = do {
     r \<leftarrow> fw_upgrade_init P;
     if r \<noteq> FW_UPGRADE_OK_E then State_Monad.return (FW_UPGRADE_ERROR_E, FW_UPGRADE_FWD_STATUS_UNUSED)
     else do {
       config \<leftarrow> gets FWD_SUPPORT_NUM;
       c \<leftarrow> scan_current P (u8_upto 0 (unat config));
       State_Monad.return (case c of
         None \<Rightarrow> (FW_UPGRADE_ERROR_E, FW_UPGRADE_FWD_STATUS_UNUSED)
       | Some cur \<Rightarrow> (if cur \<noteq> FW_UPGRADE_FWD_STATUS_UNUSED then FW_UPGRADE_OK_E
                      else FW_UPGRADE_ERROR_E, cur))
     }
   }"

text \<open>The three out-parameters of \<open>fw_upgrade_get_trial_active_fwd_index\<close>.\<close>

record trial_index =
  ti_trial :: u8
  ti_current :: u8
  ti_rank :: u32

definition trial_step :: "u8 \<Rightarrow> fwd_summary \<Rightarrow> trial_index \<Rightarrow> trial_index" where
  "trial_step i d t =
     (if fwd_usable d then
        if sum_rank d = FW_UPGRADE_FWD_RANK_TRIAL then t\<lparr>ti_trial := i\<rparr>
        else if sum_rank d > ti_rank t then t\<lparr>ti_rank := sum_rank d, ti_current := i\<rparr>
        else t
      else t)"

fun scan_trial ::
  "'d platform \<Rightarrow> u8 list \<Rightarrow> trial_index \<Rightarrow> (('d, 'z) mem_st_scheme, bool \<times> trial_index) state" where
  "scan_trial P [] t = State_Monad.return (True, t)"
| "scan_trial P (i # is) t = do {
     d \<leftarrow> read_fwd_summary P i;
     case d of
       None \<Rightarrow> State_Monad.return (False, t)
     | Some d \<Rightarrow> scan_trial P is (trial_step i d t)
   }"

definition fw_upgrade_get_trial_active_fwd_index ::
  "'d platform \<Rightarrow> (('d, 'z) mem_st_scheme, fw_status \<times> trial_index) state" where
  "fw_upgrade_get_trial_active_fwd_index P = do {
     let t0 = \<lparr>ti_trial = FW_UPGRADE_FWD_TRIAL_UNUSED, ti_current = 0, ti_rank = 0\<rparr>;
     r \<leftarrow> fw_upgrade_init P;
     if r \<noteq> FW_UPGRADE_OK_E then State_Monad.return (FW_UPGRADE_ERROR_E, t0)
     else do {
       config \<leftarrow> gets FWD_SUPPORT_NUM;
       if config = 1 then State_Monad.return (FW_UPGRADE_ERROR_E, t0)
       else do {
         (ok, is, t) \<leftarrow>
           (if config = 2 then State_Monad.return (True, u8_upto 0 2, t0)
            else do {
              (r, b) \<leftarrow> fw_upgrade_get_fwd_info P 0 FW_UPGRADE_FWD_RANK_E;
              State_Monad.return (if r \<noteq> FW_UPGRADE_OK_E then (False, [], t0)
                                  else (True, u8_upto 1 3, t0\<lparr>ti_rank := le32 (the b)\<rparr>))
            });
         if \<not> ok then State_Monad.return (FW_UPGRADE_ERROR_E, t)
         else do {
           (done, t') \<leftarrow> scan_trial P is t;
           State_Monad.return (if done \<and> ti_trial t' \<noteq> FW_UPGRADE_FWD_TRIAL_UNUSED
             then FW_UPGRADE_OK_E else FW_UPGRADE_ERROR_E, t')
         }
       }
     }
   }"

section \<open>Accept, reject, select\<close>

text \<open>
  \<open>fwd_boot_type\<close> is a local without initialiser: when \<open>fw_upgrade_get_active_fwd\<close> does not write it,
  the comparison reads an indeterminate value (a fault).
\<close>

definition fw_upgrade_accept_trial_fwd :: "'d platform \<Rightarrow> (('d, 'z) mem_st_scheme, fw_status) state" where
  "fw_upgrade_accept_trial_fwd P = do {
     (ret, t) \<leftarrow> fw_upgrade_get_trial_active_fwd_index P;
     if ret = FW_UPGRADE_OK_E then do {
       (_, boot, _) \<leftarrow> fw_upgrade_get_active_fwd P True False;
       case boot of
         None \<Rightarrow> do { fault; State_Monad.return FW_UPGRADE_ERROR_E }
       | Some fwd_boot_type \<Rightarrow>
           if fwd_boot_type = FW_UPGRADE_FWD_BOOT_TYPE_TRIAL then do {
             let rank = ti_rank t + 1;
             ret \<leftarrow> fw_upgrade_set_fwd_info P (ti_trial t) FW_UPGRADE_FWD_RANK_E (bytes_le32 rank);
             config \<leftarrow> gets FWD_SUPPORT_NUM;
             if ret = FW_UPGRADE_OK_E \<and> (config = 2 \<or> (config = 3 \<and> ti_current t \<noteq> 0))
             then fw_upgrade_set_fwd_info P (ti_current t) FW_UPGRADE_FWD_STATUS_E
                    [FW_UPGRADE_FWD_STATUS_INVALID]
             else State_Monad.return ret
           } else State_Monad.return FW_UPGRADE_ERROR_E
     } else State_Monad.return ret
   }"

definition fw_upgrade_reject_trial_fwd :: "'d platform \<Rightarrow> (('d, 'z) mem_st_scheme, fw_status) state" where
  "fw_upgrade_reject_trial_fwd P = do {
     (ret, t) \<leftarrow> fw_upgrade_get_trial_active_fwd_index P;
     if ret \<noteq> FW_UPGRADE_OK_E then State_Monad.return ret
     else do {
       ret \<leftarrow> fw_upgrade_set_fwd_info P (ti_trial t) FW_UPGRADE_FWD_STATUS_E
                [FW_UPGRADE_FWD_STATUS_INVALID];
       if ret \<noteq> FW_UPGRADE_OK_E then State_Monad.return ret
       else do {
         ret \<leftarrow> fw_upgrade_set_fwd_info P (ti_trial t) FW_UPGRADE_FWD_RANK_E (bytes_le32 1);
         if ret \<noteq> FW_UPGRADE_OK_E then State_Monad.return ret
         else do {
           (ret, h) \<leftarrow> fw_upgrade_find_partition P (ti_trial t) SBL_IMG_ID;
           if ret = FW_UPGRADE_OK_E then fw_upgrade_reject_sbl_trial_fde P
           else if ret = FW_UPGRADE_ERR_REACH_MAX_IMAGE_ENTRY_E
           then State_Monad.return FW_UPGRADE_OK_E
           else State_Monad.return ret
         }
       }
     }
   }"

text \<open>The region \<open>(*start_address, *size)\<close> of each layout, as arithmetic on 32-bit values.\<close>

definition region_two :: "mem_info \<Rightarrow> u32 \<Rightarrow> u8 \<Rightarrow> u32 \<times> u32" where
  "region_two m img_first idx =
     (let blocks = (mem_size m - (img_first - mem_start m)) div block_size m;
          sz = blocks div 2 * block_size m
      in (img_first + ucast idx * sz, sz))"

definition region_three :: "mem_info \<Rightarrow> u32 \<Rightarrow> u32 \<Rightarrow> u8 \<Rightarrow> u32 \<times> u32" where
  "region_three m config end_addr idx =
     (let blocks = (mem_size m - (end_addr - mem_start m)) div block_size m;
          sz = blocks div (config - 1) * block_size m
      in (end_addr + (ucast idx - 1) * sz, sz))"

text \<open>
  The status with \<open>*fwd_index\<close>, \<open>*start_address\<close> and \<open>*size\<close>; \<open>None\<close> where they are left as they were.
  The status of \<open>fw_upgrade_get_trial_active_fwd_index\<close> is ignored.
\<close>

definition fw_upgrade_select_trial_fwd ::
  "'d platform \<Rightarrow> (('d, 'z) mem_st_scheme, fw_status \<times> u8 option \<times> u32 option \<times> u32 option) state" where
  "fw_upgrade_select_trial_fwd P = do {
     config \<leftarrow> gets FWD_SUPPORT_NUM;
     if config = 1 then State_Monad.return (FW_UPGRADE_ERROR_E, None, None, None)
     else do {
       m \<leftarrow> get_mem_info;
       img_first \<leftarrow> fw_upgrade_get_first_programming_image_start_address P;
       (_, t) \<leftarrow> fw_upgrade_get_trial_active_fwd_index P;
       if config = 2 then do {
         let idx = (if ti_current t = 0 then 1 else 0);
         let (start, sz) = region_two m img_first idx;
         if idx = 1 then do {
           (r, e) \<leftarrow> fw_upgrade_get_imageSet_end_addr P 0;
           if r \<noteq> FW_UPGRADE_OK_E
           then State_Monad.return (FW_UPGRADE_ERROR_E, Some idx, Some start, Some sz)
           else let end_addr = the e in
             if start < end_addr
             then State_Monad.return (FW_UPGRADE_OK_E, Some idx, Some end_addr, Some (sz - (end_addr - start)))
             else State_Monad.return (FW_UPGRADE_OK_E, Some idx, Some start, Some sz)
         } else State_Monad.return (FW_UPGRADE_OK_E, Some idx, Some start, Some sz)
       } else do {
         let idx = (if ti_current t = 0 then 1 else if ti_current t = 1 then 2 else 1);
         (r, e) \<leftarrow> fw_upgrade_get_imageSet_end_addr P 0;
         if r \<noteq> FW_UPGRADE_OK_E
         then State_Monad.return (FW_UPGRADE_ERROR_E, Some idx, None, None)
         else let (start, sz) = region_three m config (the e) idx in
           State_Monad.return (FW_UPGRADE_OK_E, Some idx, Some start, Some sz)
       }
     }
   }"

text \<open>
  The loop of \<open>fw_upgrade_display_fwd\<close> over the partitions of one descriptor, which only logs; what
  it does to the state is to take and release handles.
\<close>

primrec display_walk :: "'d platform \<Rightarrow> nat \<Rightarrow> hdl \<Rightarrow> (('d, 'z) mem_st_scheme, unit) state" where
  "display_walk P 0 h = out_of_fuel"
| "display_walk P (Suc fuel) h = do {
     (ret, h') \<leftarrow> fw_upgrade_next_partition P h;
     if ret = FW_UPGRADE_OK_E then do { release h; display_walk P fuel h' }
     else release h
   }"

text \<open>One round of its outer loop; \<open>magic\<close> keeps its old value where the read leaves it alone.\<close>

definition display_one :: "'d platform \<Rightarrow> u8 \<Rightarrow> u32 \<Rightarrow> (('d, 'z) mem_st_scheme, u32) state" where
  "display_one P idx magic = do {
     (_, b) \<leftarrow> fw_upgrade_get_fwd_info P idx FW_UPGRADE_FWD_MAGIC_E;
     let magic = (case b of None \<Rightarrow> magic | Some bs \<Rightarrow> le32 bs);
     _ \<leftarrow> fw_upgrade_get_fwd_info P idx FW_UPGRADE_FWD_RANK_E;
     _ \<leftarrow> fw_upgrade_get_fwd_info P idx FW_UPGRADE_FWD_VERSION_E;
     _ \<leftarrow> fw_upgrade_get_fwd_info P idx FW_UPGRADE_FWD_STATUS_E;
     _ \<leftarrow> fw_upgrade_get_fwd_info P idx FW_UPGRADE_FWD_TOTAL_IMAGE_E;
     if magic = FW_UPGRADE_MAGIC_V1 then do {
       (ret, h) \<leftarrow> fw_upgrade_first_partition P idx;
       if ret = FW_UPGRADE_OK_E
       then do { display_walk P imageSet_fuel h; State_Monad.return magic }
       else State_Monad.return magic
     } else State_Monad.return magic
   }"

text \<open>
  The logged \<open>boot_type\<close> is another local without initialiser: it is read whatever
  \<open>fw_upgrade_get_active_fwd\<close> returned.
\<close>

definition fw_upgrade_display_fwd :: "'d platform \<Rightarrow> (('d, 'z) mem_st_scheme, int) state" where
  "fw_upgrade_display_fwd P = do {
     (_, boot, _) \<leftarrow> fw_upgrade_get_active_fwd P True True;
     when_m (boot = None) fault;
     m0 \<leftarrow> display_one P 0 0;
     m1 \<leftarrow> display_one P 1 m0;
     m2 \<leftarrow> display_one P 2 m1;
     State_Monad.return 0
   }"

end
