(* ===== verification/Fw_View.thy ===== *)
theory Fw_View
  imports Fw_Trial
begin

text \<open>
  The flash as the memory module's client sees it: an array of descriptors. \<open>fwd_of c i\<close> is the
  descriptor in block \<open>i\<close> of the cells \<open>c\<close>. Over a driver that does not fail, every read of the module
  is a function of that view; these equations, in \<open>run_simps\<close>, are what the functional properties of
  the module are proved with.
\<close>

section \<open>The view\<close>

definition fwd_of :: "(nat \<Rightarrow> u8) \<Rightarrow> nat \<Rightarrow> fwd" where
  "fwd_of c i = dec_fwd (slice c (4096 * i) 512)"

definition std_params :: "u32 \<Rightarrow> mem_info" where
  "std_params M = \<lparr>mem_start = 0, mem_size = M, fwd_region_size = BLOCK_SIZE_IN_BYTES,
     block_size = BLOCK_SIZE_IN_BYTES\<rparr>"

lemma std_params_simps [simp]:
  "mem_start (std_params M) = 0" "mem_size (std_params M) = M"
  "fwd_region_size (std_params M) = 4096" "block_size (std_params M) = 4096"
  by (simp_all add: std_params_def BLOCK_SIZE_IN_BYTES_def)

text \<open>The module after a successful \<open>fw_upgrade_init\<close>, over a driver that does not fail.\<close>

definition mem_ready ::
  "'d platform \<Rightarrow> ('d \<Rightarrow> nat \<Rightarrow> u8) \<Rightarrow> u32 \<Rightarrow> ('d, 'z) mem_st_scheme \<Rightarrow> bool" where
  "mem_ready P cells M s \<longleftrightarrow> adapter_ready P cells s \<and> flash_reliable P (unat M)
     \<and> 0x3000 \<le> unat M \<and> fu_initialized s \<and> fw_upgrade_mem_params s = Some (std_params M)
     \<and> length (partition_handles s) = FW_UPGRADE_MAX_HANDLES"

lemma mem_readyD:
  assumes "mem_ready P cells M s"
  shows "adapter_ready P cells s" and "flash_reliable P (unat M)" and "0x3000 \<le> unat M"
    and "fu_initialized s" and "fw_upgrade_mem_params s = Some (std_params M)"
    and "length (partition_handles s) = FW_UPGRADE_MAX_HANDLES" and "flash_initialized s"
  using assms by (auto simp: mem_ready_def adapter_ready_def)

lemma mem_ready_handles [simp]:
  "length hs = length (partition_handles s) \<Longrightarrow>
   mem_ready P cells M (s\<lparr>partition_handles := hs\<rparr>) = mem_ready P cells M s"
  by (simp add: mem_ready_def adapter_ready_def)

lemma mem_ready_programmed [simp]: "mem_ready P cells M (programmed P a bs s) = mem_ready P cells M s"
  by (simp add: mem_ready_def programmed_def adapter_ready_def)

lemma programmed_simps [simp]:
  "FWD_SUPPORT_NUM (programmed P a v s) = FWD_SUPPORT_NUM s"
  "partition_handles (programmed P a v s) = partition_handles s"
  "faulted (programmed P a v s) = faulted s"
  "stuck (programmed P a v s) = stuck s"
  by (simp_all add: programmed_def)

lemma mem_ready_erased [simp]: "mem_ready P cells M (erased P b n s) = mem_ready P cells M s"
  by (simp add: mem_ready_def erased_def adapter_ready_def)

section \<open>Running the accessors\<close>

lemma run_validation: "fu_initialized s \<Longrightarrow> run_state fw_upgrade_validation s = (FW_UPGRADE_OK_E, s)"
  by (simp add: fw_upgrade_validation_def run_simps)

lemma run_mem_info: "fw_upgrade_mem_params s = Some m \<Longrightarrow> run_state get_mem_info s = (m, s)"
  by (simp add: get_mem_info_def run_simps)

lemma run_init: "fu_initialized s \<Longrightarrow> flash_initialized s \<Longrightarrow>
    run_state (fw_upgrade_init P) s = (FW_UPGRADE_OK_E, s)"
  by (simp add: fw_upgrade_init_def flash_adapter_get_config_def run_simps)

section \<open>Addresses\<close>

lemma unat_ucast_u8_u32 [simp]: "unat (ucast (i :: u8) :: u32) = unat i"
  by (simp add: unsigned_ucast_eq take_bit_nat_eq_self order.strict_trans [OF unat_lt_u8])

lemma unat_mul_idx: "unat ((4096 :: u32) * ucast (i :: u8)) = 4096 * unat i"
proof -
  have "4096 * unat i < 4294967296" using unat_lt_u8 [of i] by linarith
  then show ?thesis by (subst unat_mult_nowrap) simp_all
qed

lemma unat_fwd_start [simp]: "unat (fwd_start (std_params M) i) = 4096 * unat i"
  by (simp add: fwd_start_def unat_mul_idx)

lemma unat_fwd_field_addr:
  "unat (fwd_field_addr (std_params M) i info) = 4096 * unat i + unat (fst (fwd_field info))"
proof -
  have "unat (fst (fwd_field info)) < 16" by (cases info) simp_all
  then have "4096 * unat i + unat (fst (fwd_field info)) < 4294967296"
    using unat_lt_u8 [of i] by linarith
  then show ?thesis
    unfolding fwd_field_addr_def by (subst unat_add_nowrap) (simp_all add: unat_mul_idx)
qed

lemma unat_lt_3: "(i :: u8) < 3 \<longleftrightarrow> unat i < 3"
  by (simp add: word_less_nat_alt)

section \<open>Reading descriptors\<close>

lemma run_get_fwd_info:
  assumes "mem_ready P cells M s" and "i < 3"
  shows "run_state (fw_upgrade_get_fwd_info P i info) s =
    ((FW_UPGRADE_OK_E, Some (slice (cells (world s)) (4096 * unat i + unat (fst (fwd_field info)))
        (unat (snd (fwd_field info))))), s)"
proof -
  note r = mem_readyD [OF assms(1)]
  have "unat (fst (fwd_field info)) + unat (snd (fwd_field info)) \<le> 4096"
    by (cases info) simp_all
  then have "unat (fwd_field_addr (std_params M) i info) + unat (snd (fwd_field info)) \<le> unat M"
    using r(3) assms(2) by (simp add: unat_fwd_field_addr unat_lt_3)
  from run_read_reliable [OF r(1,2) this] show ?thesis
    using assms(2) r(4,5)
    by (simp add: fw_upgrade_get_fwd_info_def run_simps run_validation run_mem_info
        FW_UPGRADE_MAX_FWD_def FLASH_DEVICE_DONE_def unat_fwd_field_addr not_le [symmetric])
qed

lemma run_read_fwd:
  assumes "mem_ready P cells M s" and "i < 3"
  shows "run_state (read_fwd P (fwd_start (std_params M) i)) s =
    (Some (fwd_of (cells (world s)) (unat i)), s)"
proof -
  note r = mem_readyD [OF assms(1)]
  have "unat (fwd_start (std_params M) i) + unat sizeof_fwd \<le> unat M"
    using r(3) assms(2) by (simp add: unat_lt_3 sizeof_fwd_def)
  from run_read_reliable [OF r(1,2) this] show ?thesis
    by (simp add: read_fwd_def run_simps fwd_of_def sizeof_fwd_def FLASH_DEVICE_DONE_def)
qed

lemma le32_at_slice: "off + 4 \<le> n \<Longrightarrow> le32_at (slice c a n) off = le32 (slice c (a + off) 4)"
  by (simp add: le32_at_def take_drop_slice)

lemma fwd_of_fields:
  "le32 (slice c (4096 * i) 4) = fwd_signature (fwd_of c i)"
  "le32 (slice c (4096 * i + 4) 4) = fwd_version (fwd_of c i)"
  "le32 (slice c (4096 * i + 8) 4) = fwd_rank (fwd_of c i)"
  "slice c (4096 * i + 12) 1 ! 0 = fwd_status (fwd_of c i)"
  "slice c (4096 * i + 13) 1 ! 0 = total_images (fwd_of c i)"
  by (simp_all add: fwd_of_def dec_fwd_def le32_at_slice)

lemma fwd_of_slices:
  "fwd_of c i = \<lparr>fwd_signature = le32 (slice c (4096 * i) 4), fwd_version = le32 (slice c (4096 * i + 4) 4),
     fwd_rank = le32 (slice c (4096 * i + 8) 4), fwd_status = c (4096 * i + 12),
     total_images = c (4096 * i + 13), reserved = slice c (4096 * i + 14) 18,
     image_entries = map (\<lambda>k. dec_image_entry (slice c (4096 * i + (32 + 16 * k)) 16)) [0..<30]\<rparr>"
  by (simp add: fwd_of_def dec_fwd_def le32_at_slice take_drop_slice)

lemma prog_cells_at:
  "prog_cells c a bs i = (if a \<le> i \<and> i < a + length bs then c i AND bs ! (i - a) else c i)"
  by (simp add: prog_cells_def)

definition summary_of :: "fwd \<Rightarrow> fwd_summary" where
  "summary_of f = \<lparr>sum_magic = fwd_signature f, sum_rank = fwd_rank f, sum_status = fwd_status f,
     sum_images = total_images f\<rparr>"

lemma summary_of_simps [simp]:
  "sum_magic (summary_of f) = fwd_signature f" "sum_rank (summary_of f) = fwd_rank f"
  "sum_status (summary_of f) = fwd_status f" "sum_images (summary_of f) = total_images f"
  by (simp_all add: summary_of_def)

lemma run_read_fwd_summary:
  assumes "mem_ready P cells M s" and "i < 3"
  shows "run_state (read_fwd_summary P i) s = (Some (summary_of (fwd_of (cells (world s)) (unat i))), s)"
  using fwd_of_fields [of "cells (world s)" "unat i"]
  by (simp add: read_fwd_summary_def run_simps run_get_fwd_info [OF assms] summary_of_def)

section \<open>The scans\<close>

text \<open>The functional content of the loop over the candidate descriptors.\<close>

fun trial_fold :: "(u8 \<Rightarrow> fwd) \<Rightarrow> u8 list \<Rightarrow> trial_index \<Rightarrow> trial_index" where
  "trial_fold d [] t = t"
| "trial_fold d (i # is) t = trial_fold d is (trial_step i (summary_of (d i)) t)"

abbreviation desc :: "('d \<Rightarrow> nat \<Rightarrow> u8) \<Rightarrow> ('d, 'z) flash_st_scheme \<Rightarrow> u8 \<Rightarrow> fwd" where
  "desc cells s i \<equiv> fwd_of (cells (world s)) (unat i)"

lemma run_scan_trial:
  assumes "mem_ready P cells M s" and "\<forall>i \<in> set is. i < 3"
  shows "run_state (scan_trial P is t) s = ((True, trial_fold (desc cells s) is t), s)"
  using assms(2)
  by (induction "is" arbitrary: t) (simp_all add: run_simps run_read_fwd_summary [OF assms(1)])

definition trial_search :: "u32 \<Rightarrow> (u8 \<Rightarrow> fwd) \<Rightarrow> trial_index" where
  "trial_search config d = trial_fold d (if config = 2 then [0, 1] else [1, 2])
     \<lparr>ti_trial = FW_UPGRADE_FWD_TRIAL_UNUSED, ti_current = 0,
      ti_rank = if config = 2 then 0 else fwd_rank (d 0)\<rparr>"

lemma u8_upto_simps [simp]: "u8_upto 0 2 = [0, 1]" "u8_upto (Suc 0) 3 = [1, 2]" "u8_upto 0 3 = [0, 1, 2]"
  by (simp_all add: u8_upto_def upt_rec)

lemma run_get_trial_active:
  assumes "mem_ready P cells M s" and "FWD_SUPPORT_NUM s \<noteq> 1"
  shows "run_state (fw_upgrade_get_trial_active_fwd_index P) s =
    ((if ti_trial (trial_search (FWD_SUPPORT_NUM s) (desc cells s)) \<noteq> FW_UPGRADE_FWD_TRIAL_UNUSED
      then FW_UPGRADE_OK_E else FW_UPGRADE_ERROR_E,
      trial_search (FWD_SUPPORT_NUM s) (desc cells s)), s)"
  using fwd_of_fields(3) [of "cells (world s)" 0] mem_readyD [OF assms(1)] assms(2)
  by (simp add: fw_upgrade_get_trial_active_fwd_index_def Let_def run_simps run_init trial_search_def
      run_get_fwd_info [OF assms(1)] run_scan_trial [OF assms(1)] del: scan_trial.simps)

section \<open>A simulated board\<close>

text \<open>
  A platform to run the model on: a 4 MB NOR flash, a byte-addressed RRAM, a heap that never runs
  out and a checksum in the place of SHA-256. It is not part of the program; the theorems hold for
  every platform with the stated contracts, and this one shows that the contracts can be met.
\<close>

record sim_world =
  sim_flash :: "nat \<Rightarrow> u8"
  sim_rram :: "u32 \<Rightarrow> u8"

definition sim_flash_size :: nat where
  "sim_flash_size = 0x400000"

definition sim :: "sim_world platform" where
  "sim = \<lparr>
     flash_node_okay = True,
     device_is_ready = (\<lambda>_. True),
     flash_get_size = (\<lambda>_. (0, of_nat sim_flash_size)),
     flash_read = (\<lambda>w a n. (if unat a + unat n \<le> sim_flash_size then 0 else - 22,
                            \<lambda>i. sim_flash w (unat a + i))),
     flash_write = (\<lambda>w a bs. if unat a + length bs \<le> sim_flash_size
       then (0, w\<lparr>sim_flash := prog_cells (sim_flash w) (unat a) bs\<rparr>) else (- 22, w)),
     flash_erase = (\<lambda>w a n. if unat a + unat n \<le> sim_flash_size
       then (0, w\<lparr>sim_flash := erase_cells (sim_flash w) (unat a) (unat n)\<rparr>) else (- 22, w)),
     rram_load = (\<lambda>w a. sim_rram w a),
     nt_rram_read = (\<lambda>w a n. (0, \<lambda>i. sim_rram w (a + of_nat i))),
     nt_rram_write = (\<lambda>w a bs. (0, w\<lparr>sim_rram := (\<lambda>x.
       if unat (x - a) < length bs then bs ! unat (x - a) else sim_rram w x)\<rparr>)),
     k_malloc = (\<lambda>w n. (True, w)),
     sha256 = (\<lambda>bs. replicate 32 (sum_list bs))\<rparr>"

lemma sim_nor_flash: "nor_flash sim sim_flash"
  by (auto simp: nor_flash_def sim_def prog_cells_def erase_cells_def split: if_splits)

lemma sim_rram_memory: "rram_memory sim"
  by (auto simp: rram_memory_def sim_def)

lemma sim_reliable: "sz \<le> sim_flash_size \<Longrightarrow> flash_reliable sim sz"
  by (auto simp: flash_reliable_def sim_def)

section \<open>Memory images\<close>

text \<open>A flash that holds the given descriptors in its first blocks and is erased elsewhere.\<close>

definition flash_image :: "fwd list \<Rightarrow> nat \<Rightarrow> u8" where
  "flash_image fs a = (if a div 4096 < length fs \<and> a mod 4096 < 512
     then enc_fwd (fs ! (a div 4096)) ! (a mod 4096) else 0xFF)"

lemma fwd_of_flash_image:
  assumes "i < length fs" and "fwd_wf (fs ! i)"
  shows "fwd_of (flash_image fs) i = fs ! i"
proof -
  have "slice (flash_image fs) (4096 * i) 512 = enc_fwd (fs ! i)"
    using assms by (intro nth_equalityI) (simp_all add: flash_image_def length_enc_fwd)
  then show ?thesis by (simp add: fwd_of_def dec_enc_fwd assms(2))
qed

lemma flash_image_erased:
  "length fs * 4096 \<le> a \<Longrightarrow> flash_image fs a = 0xFF"
  "512 \<le> a mod 4096 \<Longrightarrow> flash_image fs a = 0xFF"
  by (auto simp: flash_image_def less_mult_imp_div_less)

text \<open>A descriptor table in RRAM.\<close>

definition fdt_image :: "fdt_entry list \<Rightarrow> bytes" where
  "fdt_image es = bytes_le32 FDT_SIGNATURE @ bytes_le32 (of_nat (length es)) @ replicate 24 0
     @ concat (map enc_fde es)"

definition rram_of :: "bytes \<Rightarrow> u32 \<Rightarrow> u8" where
  "rram_of bs a = (let k = unat (a - FDT_START) in if k < length bs then bs ! k else 0)"

lemma rram_bytes_rram_of:
  assumes "off + n \<le> length bs" and "length bs \<le> 0x1000" and "sim_rram w = rram_of bs"
  shows "rram_bytes sim w (FDT_START + of_nat off) n = take n (drop off bs)"
proof (rule nth_equalityI)
  fix i
  assume i: "i < length (rram_bytes sim w (FDT_START + of_nat off) n)"
  then have "i < n" by (simp add: rram_bytes_def)
  moreover from this assms(1,2) have "unat (of_nat off + of_nat i :: u32) = off + i"
    by (simp add: of_nat_add [symmetric] unat_of_nat del: of_nat_add)
  ultimately show "rram_bytes sim w (FDT_START + of_nat off) n ! i = take n (drop off bs) ! i"
    using assms by (simp add: rram_bytes_def sim_def rram_of_def Let_def)
qed (use assms(1) in \<open>simp add: rram_bytes_def\<close>)

lemma fdt_image_facts:
  assumes "sim_rram w = rram_of (fdt_image es)" and "length es \<le> 31" and "\<forall>e \<in> set es. fde_wf e"
  shows "fdt_header sim w = \<lparr>hdr_signature = FDT_SIGNATURE, hdr_num_fde = of_nat (length es)\<rparr>"
    and "num_fde sim w = length es"
    and "i < length es \<Longrightarrow> fde_at sim w i = es ! i"
proof -
  have len: "length (fdt_image es) = 32 + 32 * length es"
    using assms(3) by (simp add: fdt_image_def fde_codec.length_concat_enc)
  have h0: "rram_bytes sim w (FDT_START + of_nat 0) 4 = bytes_le32 FDT_SIGNATURE"
    using rram_bytes_rram_of [OF _ _ assms(1), of 0 4] assms(2) len by (simp add: fdt_image_def)
  have h4: "rram_bytes sim w (FDT_START + of_nat 4) 4 = bytes_le32 (of_nat (length es))"
    using rram_bytes_rram_of [OF _ _ assms(1), of 4 4] assms(2) len by (simp add: fdt_image_def)
  from h0 h4 show hdr: "fdt_header sim w = \<lparr>hdr_signature = FDT_SIGNATURE, hdr_num_fde = of_nat (length es)\<rparr>"
    by (simp add: fdt_header_def)
  show "num_fde sim w = length es"
    using assms(2) by (simp add: num_fde_def hdr unat_of_nat)
  assume i: "i < length es"
  have "rram_bytes sim w (FDT_START + of_nat (32 + 32 * i)) 32 = take 32 (drop (32 + 32 * i) (fdt_image es))"
    using i assms(2) len by (intro rram_bytes_rram_of [OF _ _ assms(1)]) simp_all
  also have "drop (32 + 32 * i) (fdt_image es) = drop (i * 32) (concat (map enc_fde es) @ [])"
    by (simp add: fdt_image_def mult.commute)
  finally show "fde_at sim w i = es ! i"
    using fde_codec.dec_array [OF assms(3) i, of "[]"] by (simp add: fde_at_def fde_address_def add.assoc)
qed

section \<open>A ready state\<close>

definition no_client :: partition_client where
  "no_client = \<lparr>ref_count = 0, fwd_idx = 0, img_idx = 0, img_id = 0, client_version = 0,
     img_start = 0, img_size = 0\<rparr>"

definition sim_state :: "fwd list \<Rightarrow> fdt_entry list \<Rightarrow> u32 \<Rightarrow> sim_world mem_st" where
  "sim_state fs es config = \<lparr>world = \<lparr>sim_flash = flash_image fs, sim_rram = rram_of (fdt_image es)\<rparr>,
     faulted = False, stuck = False, flash_adapter_dev = True, flash_initialized = True,
     density_in_blocks = 1024, fu_initialized = True, partition_handles = replicate 10 no_client,
     fw_upgrade_mem_params = Some (std_params 0x400000), FWD_SUPPORT_NUM = config\<rparr>"

lemma sim_state_ready: "mem_ready sim sim_flash 0x400000 (sim_state fs es config)"
  by (simp add: mem_ready_def adapter_ready_def sim_state_def sim_nor_flash sim_reliable
      sim_flash_size_def FW_UPGRADE_MAX_HANDLES_def)

text \<open>Sample descriptors and table entries.\<close>

definition sample_fwd :: "u32 \<Rightarrow> u8 \<Rightarrow> image_entry list \<Rightarrow> fwd" where
  "sample_fwd rank status es = \<lparr>fwd_signature = FW_UPGRADE_MAGIC_V1, fwd_version = 1, fwd_rank = rank,
     fwd_status = status, total_images = of_nat (length es), reserved = replicate 18 0xFF,
     image_entries = es @ replicate (30 - length es)
       \<lparr>image_id = 0xFFFFFFFF, start_block = 0xFFFFFFFF, total_blocks = 0xFFFFFFFF, img_version = 0xFFFFFFFF\<rparr>\<rparr>"

lemma sample_fwd_wf [simp]: "length es \<le> 30 \<Longrightarrow> fwd_wf (sample_fwd r st es)"
  by (simp add: fwd_wf_def sample_fwd_def)

definition sample_fde :: "u32 \<Rightarrow> u32 \<Rightarrow> u32 \<Rightarrow> fdt_entry" where
  "sample_fde iid rank addr = \<lparr>fde_id = iid, fde_rank = rank, fde_format = 0, fde_addr = addr,
     fde_state = 0, fde_version = 0, fde_reserve = replicate 8 0\<rparr>"

lemma sample_fde_wf [simp]: "fde_wf (sample_fde iid rank addr)"
  by (simp add: fde_wf_def sample_fde_def)

lemma desc_sim_state:
  "k < length fs \<Longrightarrow> fwd_wf (fs ! k) \<Longrightarrow> fwd_of (sim_flash (world (sim_state fs es n))) k = fs ! k"
  by (simp add: sim_state_def fwd_of_flash_image)

lemma sim_state_simps [simp]:
  "FWD_SUPPORT_NUM (sim_state fs es n) = n" "faulted (sim_state fs es n) = False"
  "partition_handles (sim_state fs es n) = replicate 10 no_client"
  by (simp_all add: sim_state_def)

lemma fdt_sim_state:
  assumes "length es \<le> 31" and "\<forall>e \<in> set es. fde_wf e"
  shows "fdt_header sim (world (sim_state fs es n)) = \<lparr>hdr_signature = FDT_SIGNATURE, hdr_num_fde = of_nat (length es)\<rparr>"
    and "num_fde sim (world (sim_state fs es n)) = length es"
    and "i < length es \<Longrightarrow> fde_at sim (world (sim_state fs es n)) i = es ! i"
  by (rule fdt_image_facts [OF _ assms]; simp add: sim_state_def)+

end
