(* ===== verification/Fw_Partition_Proofs.thy ===== *)
theory Fw_Partition_Proofs
  imports Fw_View
begin

text \<open>
  Partitions and handles: the table of handles as a pool with the usual contract, the operations of
  \<open>Fw_Partition\<close> as functions of the descriptors in flash, and what a program of an image entry does
  to them.
\<close>

section \<open>The pool of handles\<close>

text \<open>
  What a client of the table relies on: a handle taken is none of the live ones, taking and releasing
  change only that handle's liveness, and a full table gives none.
\<close>

locale handle_pool =
  fixes live :: "'t \<Rightarrow> nat set" and free :: "'t \<Rightarrow> nat option"
    and put :: "nat \<Rightarrow> 'c \<Rightarrow> 't \<Rightarrow> 't" and drop_h :: "nat \<Rightarrow> 't \<Rightarrow> 't"
    and good :: "'t \<Rightarrow> bool" and used :: "'c \<Rightarrow> bool" and n :: nat
  assumes live_bound: "good t \<Longrightarrow> live t \<subseteq> {..<n}"
    and free_Some: "good t \<Longrightarrow> free t = Some k \<Longrightarrow> k < n \<and> k \<notin> live t"
    and free_None: "good t \<Longrightarrow> free t = None \<longleftrightarrow> live t = {..<n}"
    and put_live: "good t \<Longrightarrow> k < n \<Longrightarrow> used c \<Longrightarrow> live (put k c t) = insert k (live t)"
    and put_good: "good t \<Longrightarrow> good (put k c t)"
    and drop_live: "good t \<Longrightarrow> live (drop_h k t) = live t - {k}"
    and drop_good: "good t \<Longrightarrow> good (drop_h k t)"
begin

lemma finite_live: "good t \<Longrightarrow> finite (live t)"
  using live_bound finite_subset by blast

lemma card_live: "good t \<Longrightarrow> card (live t) \<le> n"
  using card_mono [OF finite_lessThan live_bound] by simp

lemma free_ex: "good t \<Longrightarrow> card (live t) < n \<Longrightarrow> \<exists>k. free t = Some k"
  using free_None by (cases "free t") auto

lemma free_card: "good t \<Longrightarrow> free t \<noteq> None \<Longrightarrow> card (live t) < n"
  using psubset_card_mono [of "{..<n}" "live t"] live_bound free_None by fastforce

lemma acquire_card: "good t \<Longrightarrow> free t = Some k \<Longrightarrow> used c \<Longrightarrow> card (live (put k c t)) = Suc (card (live t))"
  using free_Some finite_live by (simp add: put_live)

lemma acquire_release: "good t \<Longrightarrow> free t = Some k \<Longrightarrow> used c \<Longrightarrow> live (drop_h k (put k c t)) = live t"
  using free_Some by (simp add: put_live put_good drop_live)

text \<open>Moving from a live handle to a fresh one, as the walks over a descriptor do.\<close>

lemma move_live:
  assumes "good t" and "free t = Some k" and "used c" and "j \<in> live t"
  shows "live (drop_h j (put k c t)) = insert k (live t - {j})"
    and "card (live (drop_h j (put k c t))) = card (live t)"
proof -
  have k: "k < n" "k \<notin> live t" using free_Some [OF assms(1,2)] by simp_all
  then have "j \<noteq> k" using assms(4) by auto
  with k show l: "live (drop_h j (put k c t)) = insert k (live t - {j})"
    using assms by (auto simp: put_live put_good drop_live)
  show "card (live (drop_h j (put k c t))) = card (live t)"
    unfolding l using k assms(4) finite_live [OF assms(1)] card_Suc_Diff1 [OF finite_live [OF assms(1)] assms(4)]
    by simp
qed

end

definition live_handles :: "partition_client list \<Rightarrow> nat set" where
  "live_handles hs = {i. i < length hs \<and> ref_count (hs ! i) \<noteq> 0}"

definition put_handle :: "nat \<Rightarrow> partition_client \<Rightarrow> partition_client list \<Rightarrow> partition_client list" where
  "put_handle k c hs = hs[k := c]"

definition drop_handle :: "nat \<Rightarrow> partition_client list \<Rightarrow> partition_client list" where
  "drop_handle k hs = hs[k := (hs ! k)\<lparr>ref_count := 0\<rparr>]"

lemma free_handle_Some:
  "free_handle hs = Some k \<Longrightarrow> k < 10 \<and> ref_count (hs ! k) = 0 \<and> (\<forall>j<k. ref_count (hs ! j) \<noteq> 0)"
  unfolding free_handle_def FW_UPGRADE_MAX_HANDLES_def by (auto simp: find_Some_iff)

lemma free_handle_None: "free_handle hs = None \<longleftrightarrow> (\<forall>k<10. ref_count (hs ! k) \<noteq> 0)"
  unfolding free_handle_def FW_UPGRADE_MAX_HANDLES_def by (auto simp: find_None_iff)

interpretation handles: handle_pool live_handles free_handle put_handle drop_handle
  "\<lambda>hs. length hs = 10" "\<lambda>c. ref_count c \<noteq> 0" 10
proof unfold_locales
  fix t :: "partition_client list" and k and c :: partition_client
  assume t: "length t = 10"
  then show "live_handles t \<subseteq> {..<10}" by (auto simp: live_handles_def)
  show "free_handle t = Some k \<Longrightarrow> k < 10 \<and> k \<notin> live_handles t"
    by (auto simp: live_handles_def dest: free_handle_Some)
  show "free_handle t = None \<longleftrightarrow> live_handles t = {..<10}"
    using t by (auto simp: live_handles_def free_handle_None)
  show "k < 10 \<Longrightarrow> ref_count c \<noteq> 0 \<Longrightarrow> live_handles (put_handle k c t) = insert k (live_handles t)"
    using t by (auto simp: live_handles_def put_handle_def nth_list_update)
  show "live_handles (drop_handle k t) = live_handles t - {k}"
    using t by (cases "k < 10") (auto simp: live_handles_def drop_handle_def nth_list_update split: if_splits)
qed (simp_all add: put_handle_def drop_handle_def)

lemma handle_valid_iff:
  "length hs = 10 \<Longrightarrow> handle_valid hs h \<longleftrightarrow> (\<exists>k \<in> live_handles hs. h = Some k)"
  by (auto simp: handle_valid_def live_handles_def list_ex_iff FW_UPGRADE_MAX_HANDLES_def word_gt_0)

section \<open>Running the partition operations\<close>

definition with_handle :: "nat \<Rightarrow> partition_client \<Rightarrow> ('d, 'z) mem_st_scheme \<Rightarrow> ('d, 'z) mem_st_scheme" where
  "with_handle k c s = s\<lparr>partition_handles := put_handle k c (partition_handles s)\<rparr>"

definition without_handle :: "nat \<Rightarrow> ('d, 'z) mem_st_scheme \<Rightarrow> ('d, 'z) mem_st_scheme" where
  "without_handle k s = s\<lparr>partition_handles := drop_handle k (partition_handles s)\<rparr>"

lemma with_handle_simps [simp]:
  "world (with_handle k c s) = world s" "world (without_handle k s) = world s"
  "partition_handles (with_handle k c s) = put_handle k c (partition_handles s)"
  "partition_handles (without_handle k s) = drop_handle k (partition_handles s)"
  "FWD_SUPPORT_NUM (with_handle k c s) = FWD_SUPPORT_NUM s"
  "FWD_SUPPORT_NUM (without_handle k s) = FWD_SUPPORT_NUM s"
  "faulted (with_handle k c s) = faulted s" "faulted (without_handle k s) = faulted s"
  "stuck (with_handle k c s) = stuck s" "stuck (without_handle k s) = stuck s"
  by (simp_all add: with_handle_def without_handle_def)

lemma mem_ready_with_handle [simp]:
  "mem_ready P cells M (with_handle k c s) = mem_ready P cells M s"
  "mem_ready P cells M (without_handle k s) = mem_ready P cells M s"
  by (simp_all add: with_handle_def without_handle_def put_handle_def drop_handle_def)

lemma put_handle_nth [simp]: "k < length hs \<Longrightarrow> put_handle k c hs ! k = c"
  by (simp add: put_handle_def)

lemma length_put_drop [simp]:
  "length (put_handle k c hs) = length hs" "length (drop_handle k hs) = length hs"
  by (simp_all add: put_handle_def drop_handle_def)

lemma ref_count_client [simp]: "ref_count (client_of_entry m i e iid x) = 1"
  by (simp add: client_of_entry_def)

lemma run_handle_ops:
  "run_state fw_upgrade_get_partition_client_entry s = (free_handle (partition_handles s), s)"
  "run_state (update_handle k (\<lambda>_. c)) s = ((), with_handle k c s)"
  "run_state (release (Some k)) s = ((), without_handle k s)"
  "run_state (hdl_get (Some k)) s = (partition_handles s ! k, s)"
  "run_state (fw_upgrade_partition_handle_validation h) s =
     (if handle_valid (partition_handles s) h then FW_UPGRADE_OK_E else FW_UPGRADE_ERROR_E, s)"
  by (simp_all add: fw_upgrade_get_partition_client_entry_def update_handle_def release_def hdl_get_def
      handle_entry_def fw_upgrade_partition_handle_validation_def with_handle_def without_handle_def
      put_handle_def drop_handle_def)

text \<open>
  What the three lookups return, as functions of the handle table and the descriptor: which entry they
  settle on, if any, and with which error.
\<close>

definition take_client ::
  "u32 \<Rightarrow> u8 \<Rightarrow> fwd \<Rightarrow> nat \<Rightarrow> ('d, 'z) mem_st_scheme \<Rightarrow> (fw_status \<times> hdl) \<times> ('d, 'z) mem_st_scheme" where
  "take_client M idx f i s = (case free_handle (partition_handles s) of
     None \<Rightarrow> ((FW_UPGRADE_ERROR_E, None), s)
   | Some k \<Rightarrow> ((FW_UPGRADE_OK_E, Some k),
       with_handle k (client_of_entry (std_params M) idx i (image_id (image_entries f ! i)) (image_entries f ! i)) s))"

lemma find_entry_Some:
  "find_entry f iid = Some i \<Longrightarrow> i < 30 \<and> image_id (image_entries f ! i) = iid
     \<and> (\<forall>j<i. image_id (image_entries f ! j) \<noteq> iid)"
  unfolding find_entry_def MAX_FW_IMAGE_ENTRIES_def by (auto simp: find_Some_iff)

lemma find_entry_None: "find_entry f iid = None \<longleftrightarrow> (\<forall>i<30. image_id (image_entries f ! i) \<noteq> iid)"
  unfolding find_entry_def MAX_FW_IMAGE_ENTRIES_def by (auto simp: find_None_iff)

lemma find_entry_SomeI:
  assumes "i < 30" and "image_id (image_entries f ! i) = iid"
    and "\<And>j. j < i \<Longrightarrow> image_id (image_entries f ! j) \<noteq> iid"
  shows "find_entry f iid = Some i"
  using assms unfolding find_entry_def find_Some_iff MAX_FW_IMAGE_ENTRIES_def
  by (intro exI [of _ i]) auto

lemma run_find_partition:
  assumes "mem_ready P cells M s" and "idx < 3"
  shows "run_state (fw_upgrade_find_partition P idx iid) s =
    (if free_handle (partition_handles s) = None then ((FW_UPGRADE_ERR_GET_PARTITION_NULL_E, None), s)
     else case find_entry (desc cells s idx) iid of
       None \<Rightarrow> ((FW_UPGRADE_ERR_REACH_MAX_IMAGE_ENTRY_E, None), s)
     | Some i \<Rightarrow> take_client M idx (desc cells s idx) i s)"
  using mem_readyD(4,5) [OF assms(1)] assms(2)
  by (auto simp: fw_upgrade_find_partition_def run_simps run_validation run_handle_ops run_mem_info
      run_read_fwd [OF assms] FW_UPGRADE_MAX_FWD_def not_le [symmetric] take_client_def
      dest: find_entry_Some split: option.splits)

lemma run_first_partition:
  assumes "mem_ready P cells M s" and "idx < 3"
  shows "run_state (fw_upgrade_first_partition P idx) s =
    (if total_images (desc cells s idx) = 0 then ((FW_UPGRADE_ERROR_E, None), s)
     else take_client M idx (desc cells s idx) 0 s)"
  using mem_readyD(4,5) [OF assms(1)] assms(2)
  by (auto simp: fw_upgrade_first_partition_def run_simps run_validation run_handle_ops run_mem_info
      run_read_fwd [OF assms] FW_UPGRADE_MAX_FWD_def not_le [symmetric] take_client_def Let_def
      split: option.splits)

definition next_index :: "fwd \<Rightarrow> nat \<Rightarrow> fw_status + nat" where
  "next_index f i = (if Suc i \<ge> 30 then Inl FW_UPGRADE_ERR_REACH_MAX_IMAGE_ENTRY_E
     else if image_id (image_entries f ! Suc i) = FW_UPGRADE_FWD_IMAGE_UNUSED
     then Inl FW_UPGRADE_ERR_IMAGE_UNUSED_E else Inr (Suc i))"

lemma run_next_partition:
  assumes "mem_ready P cells M s" and "h \<in> live_handles (partition_handles s)"
    and "c = partition_handles s ! h" and "fwd_idx c < 3"
  shows "run_state (fw_upgrade_next_partition P (Some h)) s =
    (if free_handle (partition_handles s) = None then ((FW_UPGRADE_ERR_GET_PARTITION_NULL_E, None), s)
     else case next_index (desc cells s (fwd_idx c)) (unat (img_idx c)) of
       Inl e \<Rightarrow> ((e, None), s)
     | Inr i \<Rightarrow> take_client M (fwd_idx c) (desc cells s (fwd_idx c)) i s)"
proof -
  have "handle_valid (partition_handles s) (Some h)"
    using mem_readyD(6) [OF assms(1)] assms(2) by (simp add: handle_valid_iff FW_UPGRADE_MAX_HANDLES_def)
  then show ?thesis
    using mem_readyD(4,5) [OF assms(1)] run_read_fwd [OF assms(1,4)]
    by (auto simp: fw_upgrade_next_partition_def run_simps run_validation run_handle_ops run_mem_info
        assms(3) take_client_def next_index_def MAX_FW_IMAGE_ENTRIES_def Let_def
        split: option.splits)
qed

section \<open>Creating a partition\<close>

definition blank_entry :: image_entry where
  "blank_entry = \<lparr>image_id = 0xFFFFFFFF, start_block = 0xFFFFFFFF, total_blocks = 0xFFFFFFFF,
     img_version = 0xFFFFFFFF\<rparr>"

lemma enc_blank_entry: "enc_image_entry blank_entry = replicate 16 0xFF"
  by code_simp

lemma fwd_of_entry:
  "k < 30 \<Longrightarrow> image_entries (fwd_of c i) ! k = dec_image_entry (slice c (4096 * i + (32 + 16 * k)) 16)"
  by (simp add: fwd_of_def dec_fwd_def take_drop_slice)

lemma length_image_entries [simp]: "length (image_entries (fwd_of c i)) = 30"
  by (simp add: fwd_of_def dec_fwd_def)

lemma blank_entry_cells:
  assumes "k < 30" and "image_entries (fwd_of c i) ! k = blank_entry" and "x < 16"
  shows "c (4096 * i + (32 + 16 * k) + x) = 0xFF"
proof -
  have "slice c (4096 * i + (32 + 16 * k)) 16 = enc_image_entry blank_entry"
    using assms(1,2) by (metis fwd_of_entry image_entry_codec.enc_dec length_slice)
  then have "slice c (4096 * i + (32 + 16 * k)) 16 ! x = replicate 16 0xFF ! x"
    by (simp only: enc_blank_entry)
  with assms(3) show ?thesis by simp
qed

lemma fwd_of_prog_entry:
  assumes "k < 30" and "image_entries (fwd_of c i) ! k = blank_entry"
  shows "fwd_of (prog_cells c (4096 * i + (32 + 16 * k)) (enc_image_entry e)) j =
     (if j = i then (fwd_of c i)\<lparr>image_entries := (image_entries (fwd_of c i))[k := e]\<rparr> else fwd_of c j)"
proof (cases "j = i")
  case True
  let ?a = "4096 * i + (32 + 16 * k)" and ?c = "prog_cells c (4096 * i + (32 + 16 * k)) (enc_image_entry e)"
  have new: "slice ?c ?a 16 = enc_image_entry e"
    using slice_prog_erased [of "enc_image_entry e" c ?a] blank_entry_cells [OF assms] by simp
  have "image_entries (fwd_of ?c i) = (image_entries (fwd_of c i))[k := e]"
  proof (rule nth_equalityI)
    fix n
    assume "n < length (image_entries (fwd_of ?c i))"
    then have n: "n < 30" by simp
    have "slice ?c (4096 * i + (32 + 16 * n)) 16 = slice c (4096 * i + (32 + 16 * n)) 16" if "n \<noteq> k"
      using that by (intro slice_prog_other) (simp, arith)
    with n new show "image_entries (fwd_of ?c i) ! n = (image_entries (fwd_of c i))[k := e] ! n"
      by (cases "n = k") (simp_all add: fwd_of_entry)
  qed simp
  moreover have "fwd_of ?c i = (fwd_of c i)\<lparr>image_entries := image_entries (fwd_of ?c i)\<rparr>"
    by (simp add: fwd_of_slices slice_prog_other prog_cells_at)
  ultimately show ?thesis using True by metis
next
  case False
  then have "4096 * j + 512 \<le> 4096 * i + (32 + 16 * k) \<or> 4096 * i + (32 + 16 * k) + 16 \<le> 4096 * j"
    using assms(1) by arith
  with False show ?thesis by (simp add: fwd_of_def slice_prog_other)
qed

definition new_entry :: "u32 \<Rightarrow> u32 \<Rightarrow> u32 \<Rightarrow> u32 \<Rightarrow> image_entry" where
  "new_entry iid version start nbytes = \<lparr>image_id = iid,
     start_block = (if iid \<noteq> SBL_IMG_ID then start div BLOCK_SIZE_IN_BYTES else start),
     total_blocks = (if iid \<noteq> SBL_IMG_ID then nbytes div BLOCK_SIZE_IN_BYTES else nbytes),
     img_version = version\<rparr>"

definition entry_addr :: "u8 \<Rightarrow> nat \<Rightarrow> u32" where
  "entry_addr idx i = fwd_start (std_params 0) idx + 32 + of_nat i * sizeof_image_entry"

lemma fwd_start_std: "fwd_start (std_params M) idx = fwd_start (std_params 0) idx"
  by (simp add: fwd_start_def)

lemma unat_entry_addr:
  assumes "i < 30"
  shows "unat (entry_addr idx i) = 4096 * unat idx + (32 + 16 * i)"
proof -
  have n: "4096 * unat idx + 32 + i * 16 < 4294967296" using assms unat_lt_u8 [of idx] by linarith
  then have a: "unat (fwd_start (std_params 0) idx + 32) = 4096 * unat idx + 32"
    by (subst unat_add_nowrap) simp_all
  have b: "unat (of_nat i * 16 :: u32) = i * 16"
    using assms by (subst unat_mult_nowrap) (simp_all add: unat_of_nat)
  show ?thesis
    using n unfolding entry_addr_def sizeof_image_entry_def by (subst unat_add_nowrap) (simp_all add: a b)
qed

lemma run_create_partition:
  assumes "mem_ready P cells M s" and "idx < 3"
    and "iid \<noteq> SBL_IMG_ID \<Longrightarrow> start mod 4096 = 0 \<and> nbytes mod 4096 = 0"
    and "free_handle (partition_handles s) = Some k"
    and "find_entry (desc cells s idx) FW_UPGRADE_FWD_IMAGE_UNUSED = Some i"
  shows "run_state (fw_upgrade_create_partition P idx iid version start nbytes) s =
    ((FW_UPGRADE_OK_E, Some k),
     with_handle k \<lparr>ref_count = 1, fwd_idx = idx, img_idx = of_nat i, img_id = iid,
         client_version = version, img_start = start, img_size = nbytes\<rparr>
       (programmed P (entry_addr idx i) (enc_image_entry (new_entry iid version start nbytes)) s))"
    and "cells (world (programmed P (entry_addr idx i) (enc_image_entry (new_entry iid version start nbytes)) s)) =
      prog_cells (cells (world s)) (4096 * unat idx + (32 + 16 * i)) (enc_image_entry (new_entry iid version start nbytes))"
proof -
  note r = mem_readyD [OF assms(1)]
  have i: "i < 30" using find_entry_Some [OF assms(5)] by simp
  have l: "length (enc_image_entry (new_entry iid version start nbytes)) = unat sizeof_image_entry"
    by (simp add: sizeof_image_entry_def)
  have "unat idx \<le> 2" using assms(2) by (simp add: unat_lt_3)
  then have b: "unat (entry_addr idx i) + unat sizeof_image_entry \<le> unat M"
    using r(3) i by (simp add: unat_entry_addr sizeof_image_entry_def)
  note w = run_write_reliable [OF r(1,2) b l]
  show "run_state (fw_upgrade_create_partition P idx iid version start nbytes) s =
    ((FW_UPGRADE_OK_E, Some k),
     with_handle k \<lparr>ref_count = 1, fwd_idx = idx, img_idx = of_nat i, img_id = iid,
         client_version = version, img_start = start, img_size = nbytes\<rparr>
       (programmed P (entry_addr idx i) (enc_image_entry (new_entry iid version start nbytes)) s))"
    using r(4,5) w(1) assms(2-5) run_read_fwd [OF assms(1,2)]
    by (cases "iid = SBL_IMG_ID")
      (simp_all add: fw_upgrade_create_partition_def run_simps run_validation run_handle_ops run_mem_info
      FW_UPGRADE_MAX_FWD_def not_le [symmetric] entry_addr_def fwd_start_std [of M] FLASH_DEVICE_DONE_def
      new_entry_def BLOCK_SIZE_IN_BYTES_def)
  from w(2) i show "cells (world (programmed P (entry_addr idx i) (enc_image_entry (new_entry iid version start nbytes)) s)) =
      prog_cells (cells (world s)) (4096 * unat idx + (32 + 16 * i)) (enc_image_entry (new_entry iid version start nbytes))"
    by (simp add: unat_entry_addr)
qed

lemma find_entry_new:
  assumes "find_entry f iid = None" and "k < 30" and "length (image_entries f) = 30" and "image_id e = iid"
  shows "find_entry (f\<lparr>image_entries := (image_entries f)[k := e]\<rparr>) iid = Some k"
  using assms unfolding find_entry_None by (intro find_entry_SomeI) (auto simp: nth_list_update)

lemma block_round: "(x :: u32) mod 4096 = 0 \<Longrightarrow> x div 4096 * 4096 = x"
  by (metis add.right_neutral div_mult_mod_eq)

lemma client_of_new_entry:
  assumes "iid \<noteq> SBL_IMG_ID \<Longrightarrow> start mod 4096 = 0 \<and> nbytes mod 4096 = 0"
  shows "client_of_entry (std_params M) idx i iid (new_entry iid version start nbytes) =
    \<lparr>ref_count = 1, fwd_idx = idx, img_idx = of_nat i, img_id = iid, client_version = version,
     img_start = start, img_size = nbytes\<rparr>"
  using assms by (simp add: client_of_entry_def new_entry_def BLOCK_SIZE_IN_BYTES_def block_round)

text \<open>
  C13: create and find agree. When \<open>fw_upgrade_create_partition\<close> succeeds for an image the descriptor
  does not hold yet, and the free entry it takes is erased, then \<open>fw_upgrade_find_partition\<close> finds that
  image under the same descriptor with exactly the id, version, start and size given, through another
  handle; every other descriptor and entry in flash is as it was. The block arithmetic of the entry
  (byte sizes divided by the block size, bytes for the SBL image) loses nothing.
\<close>

theorem create_then_find:
  assumes "mem_ready P cells M s" and "idx < 3"
    and "run_state (fw_upgrade_create_partition P idx iid version start nbytes) s = ((FW_UPGRADE_OK_E, Some k), t)"
    and "find_entry (fwd_of (cells (world s)) (unat idx)) iid = None"
    and "find_entry (fwd_of (cells (world s)) (unat idx)) FW_UPGRADE_FWD_IMAGE_UNUSED = Some i"
    and "image_entries (fwd_of (cells (world s)) (unat idx)) ! i = blank_entry"
    and "free_handle (partition_handles t) = Some k'"
  shows "\<exists>u. run_state (fw_upgrade_find_partition P idx iid) t = ((FW_UPGRADE_OK_E, Some k'), u)
      \<and> partition_handles u ! k' = \<lparr>ref_count = 1, fwd_idx = idx, img_idx = of_nat i, img_id = iid,
           client_version = version, img_start = start, img_size = nbytes\<rparr>
      \<and> partition_handles t ! k = partition_handles u ! k' \<and> k' \<noteq> k
      \<and> fwd_of (cells (world t)) (unat idx) = (fwd_of (cells (world s)) (unat idx))
          \<lparr>image_entries := (image_entries (fwd_of (cells (world s)) (unat idx)))
             [i := new_entry iid version start nbytes]\<rparr>
      \<and> (\<forall>j. j \<noteq> unat idx \<longrightarrow> fwd_of (cells (world t)) j = fwd_of (cells (world s)) j)"
proof -
  let ?f = "fwd_of (cells (world s)) (unat idx)" and ?e = "new_entry iid version start nbytes"
  note r = mem_readyD [OF assms(1)]
  have i: "i < 30" using find_entry_Some [OF assms(5)] by simp
  have al: "iid \<noteq> SBL_IMG_ID \<Longrightarrow> start mod 4096 = 0 \<and> nbytes mod 4096 = 0"
    using assms(2,3) r(4,5)
    by (auto simp: fw_upgrade_create_partition_def run_simps run_validation run_mem_info
        FW_UPGRADE_MAX_FWD_def not_le [symmetric] split: if_splits)
  obtain k0 where k0: "free_handle (partition_handles s) = Some k0"
    using assms(2,3) r(4,5)
    by (cases "free_handle (partition_handles s)")
       (auto simp: fw_upgrade_create_partition_def run_simps run_validation run_mem_info run_handle_ops
        FW_UPGRADE_MAX_FWD_def not_le [symmetric] split: if_splits)
  note c = run_create_partition [OF assms(1,2) al k0 assms(5), where version = version]
  from c(1) assms(3) have k: "k0 = k" and t: "t = with_handle k \<lparr>ref_count = 1, fwd_idx = idx,
      img_idx = of_nat i, img_id = iid, client_version = version, img_start = start, img_size = nbytes\<rparr>
      (programmed P (entry_addr idx i) (enc_image_entry ?e) s)" by auto
  have mt: "mem_ready P cells M t" using assms(1) by (simp add: t)
  have flash: "fwd_of (cells (world t)) j = (if j = unat idx then ?f\<lparr>image_entries := (image_entries ?f)[i := ?e]\<rparr>
      else fwd_of (cells (world s)) j)" for j
    using fwd_of_prog_entry [OF i assms(6), of ?e j] by (simp add: t c(2))
  have fe: "find_entry (desc cells t idx) iid = Some i"
    using find_entry_new [OF assms(4) i] by (simp add: flash new_entry_def)
  have ne: "k' \<noteq> k" and kb: "k < length (partition_handles s)" "k' < length (partition_handles s)"
    using free_handle_Some [OF assms(7)] free_handle_Some [OF k0] r(6) k
    by (auto simp: t FW_UPGRADE_MAX_HANDLES_def)
  show ?thesis
    using run_find_partition [OF mt assms(2), of iid] fe assms(7) i kb ne client_of_new_entry [OF al]
    by (simp add: take_client_def flash) (simp add: t new_entry_def)
qed

text \<open>One descriptor with an application image, and room for more.\<close>

definition partition_state :: "sim_world mem_st" where
  "partition_state = sim_state
     [sample_fwd 5 FW_UPGRADE_FWD_STATUS_VALID
        [\<lparr>image_id = 10, start_block = 3, total_blocks = 100, img_version = 1\<rparr>]] [] 2"

lemma partition_state_facts:
  "mem_ready sim sim_flash 0x400000 partition_state"
  "partition_handles partition_state = replicate 10 no_client"
  "fwd_of (sim_flash (world partition_state)) 0 = sample_fwd 5 FW_UPGRADE_FWD_STATUS_VALID
     [\<lparr>image_id = 10, start_block = 3, total_blocks = 100, img_version = 1\<rparr>]"
  unfolding partition_state_def by (rule sim_state_ready) (simp_all add: desc_sim_state)

lemma free_handle_replicate: "ref_count c = 0 \<Longrightarrow> free_handle (replicate 10 c) = Some 0"
  by (simp add: free_handle_def FW_UPGRADE_MAX_HANDLES_def find_Some_iff)
     (rule exI [of _ 0], simp)

lemma create_then_find_witness:
  "\<exists>t u. run_state (fw_upgrade_create_partition sim 0 5 7 0x100000 0x2000) partition_state =
       ((FW_UPGRADE_OK_E, Some 0), t)
     \<and> run_state (fw_upgrade_find_partition sim 0 5) t = ((FW_UPGRADE_OK_E, Some 1), u)
     \<and> img_size (partition_handles u ! 1) = 0x2000"
proof -
  note f = partition_state_facts
  let ?f = "fwd_of (sim_flash (world partition_state)) 0"
  have none: "find_entry ?f 5 = None" and free: "find_entry ?f FW_UPGRADE_FWD_IMAGE_UNUSED = Some 1"
    and blank: "image_entries ?f ! 1 = blank_entry"
    by (auto simp: f(3) sample_fwd_def find_entry_None FW_UPGRADE_FWD_IMAGE_UNUSED_def nth_Cons
        blank_entry_def intro!: find_entry_SomeI split: nat.splits)
  have h: "free_handle (partition_handles partition_state) = Some 0"
    by (simp add: f(2) free_handle_replicate no_client_def)
  obtain t where c: "run_state (fw_upgrade_create_partition sim 0 5 7 0x100000 0x2000) partition_state =
      ((FW_UPGRADE_OK_E, Some 0), t)" and t: "partition_handles t = put_handle 0 \<lparr>ref_count = 1, fwd_idx = 0,
        img_idx = 1, img_id = 5, client_version = 7, img_start = 0x100000, img_size = 0x2000\<rparr>
        (replicate 10 no_client)"
    using run_create_partition(1) [OF f(1), where idx = 0 and iid = 5 and start = "0x100000" and nbytes = "0x2000"
        and k = 0 and i = 1 and version = 7] h free
    by (simp add: f(2))
  have "free_handle (partition_handles t) = Some 1"
    by (simp add: t put_handle_def free_handle_def FW_UPGRADE_MAX_HANDLES_def upt_rec no_client_def)
  from create_then_find [OF f(1) _ c _ _ _ this, where i = 1] none free blank show ?thesis
    using c by auto
qed

section \<open>Walking the partitions of a descriptor\<close>

text \<open>The entries a walk visits: the first, and every further one up to the first unused.\<close>

definition present :: "fwd \<Rightarrow> nat \<Rightarrow> bool" where
  "present f i \<longleftrightarrow> i < 30 \<and> (\<forall>j. 0 < j \<and> j \<le> i \<longrightarrow> image_id (image_entries f ! j) \<noteq> FW_UPGRADE_FWD_IMAGE_UNUSED)"

definition entry_end :: "fwd \<Rightarrow> nat \<Rightarrow> u32" where
  "entry_end f i = start_block (image_entries f ! i) * BLOCK_SIZE_IN_BYTES
     + total_blocks (image_entries f ! i) * BLOCK_SIZE_IN_BYTES"

definition entry_is_sbl :: "fwd \<Rightarrow> nat \<Rightarrow> bool" where
  "entry_is_sbl f i \<longleftrightarrow> image_id (image_entries f ! i) = SBL_IMG_ID"

text \<open>What the walk from entry \<open>i\<close> adds to the end address found so far.\<close>

definition end_step :: "fwd \<Rightarrow> nat \<Rightarrow> u32 \<Rightarrow> u32" where
  "end_step f i acc = (if \<not> entry_is_sbl f i \<and> entry_end f i > acc then entry_end f i else acc)"

function ends_from :: "fwd \<Rightarrow> nat \<Rightarrow> u32 \<Rightarrow> u32" where
  "ends_from f i acc = (case next_index f i of Inl e \<Rightarrow> acc | Inr j \<Rightarrow> ends_from f j (end_step f j acc))"
  by auto
termination
  by (relation "measure (\<lambda>(f, i, acc). 30 - i)") (auto simp: next_index_def split: if_splits)

declare ends_from.simps [simp del]

lemma next_index_Inr: "next_index f i = Inr j \<longleftrightarrow> j = Suc i \<and> j < 30
    \<and> image_id (image_entries f ! j) \<noteq> FW_UPGRADE_FWD_IMAGE_UNUSED"
  by (auto simp: next_index_def)

lemma ends_from_ge:
  "acc \<le> ends_from f i acc"
  "i < j \<Longrightarrow> present f j \<Longrightarrow> \<not> entry_is_sbl f j \<Longrightarrow> entry_end f j \<le> ends_from f i acc"
proof (induction f i acc rule: ends_from.induct)
  case (1 f i acc)
  { case 1
    show ?case
      using "1.IH"(1) by (subst ends_from.simps) (auto simp: end_step_def split: sum.splits intro: order.trans less_imp_le)
  next
    case 2
    then have n: "next_index f i = Inr (Suc i)"
      by (auto simp: next_index_Inr present_def)
    note ih = "1.IH" [OF n]
    have "entry_end f j \<le> ends_from f (Suc i) (end_step f (Suc i) acc)"
    proof (cases "j = Suc i")
      case True
      then have "entry_end f j \<le> end_step f (Suc i) acc" using 2 by (auto simp: end_step_def not_less)
      with ih(1) show ?thesis by (rule order.trans [rotated])
    next
      case False
      with 2 show ?thesis by (intro ih(2)) simp_all
    qed
    then show ?case by (subst ends_from.simps) (simp add: n)
  }
qed

lemma present_0 [simp]: "present f 0"
  by (simp add: present_def)

lemma present_Suc:
  "present f i \<Longrightarrow> Suc i < 30 \<Longrightarrow> image_id (image_entries f ! Suc i) \<noteq> FW_UPGRADE_FWD_IMAGE_UNUSED \<Longrightarrow>
   present f (Suc i)"
  by (auto simp: present_def le_Suc_eq)

lemma ends_from_attained:
  assumes "present f i"
  shows "ends_from f i acc = acc \<or>
   (\<exists>j. i < j \<and> present f j \<and> \<not> entry_is_sbl f j \<and> ends_from f i acc = entry_end f j)"
  using assms
proof (induction f i acc rule: ends_from.induct)
  case (1 f i acc)
  show ?case
  proof (cases "next_index f i")
    case (Inl e)
    then show ?thesis by (simp add: ends_from.simps [of f i])
  next
    case (Inr j)
    then have j: "j = Suc i" "present f j"
      using present_Suc [OF "1.prems"] by (auto simp: next_index_Inr)
    from "1.IH" [OF Inr j(2)] show ?thesis
      using j by (auto simp: ends_from.simps [of f i] Inr end_step_def split: if_splits dest: Suc_lessD)
  qed
qed

lemma client_end [simp]:
  "img_id (client_of_entry (std_params M) idx i (image_id e) e) = image_id e"
  "fwd_idx (client_of_entry m idx i iid e) = idx"
  "img_idx (client_of_entry m idx i iid e) = of_nat i"
  by (simp_all add: client_of_entry_def)

lemma client_end_addr:
  "image_id (image_entries f ! i) \<noteq> SBL_IMG_ID \<Longrightarrow>
   img_start (client_of_entry (std_params M) idx i (image_id (image_entries f ! i)) (image_entries f ! i))
   + img_size (client_of_entry (std_params M) idx i (image_id (image_entries f ! i)) (image_entries f ! i))
   = entry_end f i"
  by (simp add: client_of_entry_def entry_end_def BLOCK_SIZE_IN_BYTES_def)

lemma first_end_client:
  "first_end (client_of_entry (std_params M) idx i (image_id (image_entries f ! i)) (image_entries f ! i))
   = (if entry_is_sbl f i then 0 else entry_end f i)"
  using client_end_addr [of f i M idx] by (simp add: first_end_def entry_is_sbl_def)

lemma end_max_client:
  "end_max (client_of_entry (std_params M) idx i (image_id (image_entries f ! i)) (image_entries f ! i)) acc
   = end_step f i acc"
  using client_end_addr [of f i M idx] by (auto simp: end_max_def Let_def end_step_def entry_is_sbl_def)

lemma imageSet_walk_spec:
  assumes "mem_ready P cells M s" and "idx < 3" and "f = desc cells s idx"
    and "h \<in> live_handles (partition_handles s)" and "free_handle (partition_handles s) \<noteq> None"
    and "partition_handles s ! h = client_of_entry (std_params M) idx i (image_id (image_entries f ! i)) (image_entries f ! i)"
    and "i < 30" and "30 \<le> fuel + i"
  shows "\<exists>hs. run_state (imageSet_walk P fuel (Some h) acc) s = (ends_from f i acc, s\<lparr>partition_handles := hs\<rparr>)
    \<and> length hs = 10 \<and> live_handles hs = live_handles (partition_handles s) - {h}"
  using assms
proof (induction fuel arbitrary: s h i acc)
  case 0
  then show ?case by simp
next
  case (Suc fuel)
  note m = Suc.prems(1)
  from mem_readyD(6) [OF m] have len: "length (partition_handles s) = 10"
    by (simp add: FW_UPGRADE_MAX_HANDLES_def)
  obtain k where k: "free_handle (partition_handles s) = Some k" using Suc.prems(5) by auto
  have idx: "fwd_idx (partition_handles s ! h) < 3" "unat (img_idx (partition_handles s ! h)) = i"
    "fwd_idx (partition_handles s ! h) = idx"
    using Suc.prems(2,6,7) by (simp_all add: unat_of_nat)
  note nx = run_next_partition [OF m Suc.prems(4) refl idx(1), unfolded idx, folded Suc.prems(3)]
  show ?case
  proof (cases "next_index f i")
    case (Inl e)
    then have "e \<noteq> FW_UPGRADE_OK_E" by (auto simp: next_index_def split: if_splits)
    with nx k Inl len show ?thesis
      by (auto simp: run_simps run_handle_ops ends_from.simps [of f i] without_handle_def handles.drop_live)
  next
    case (Inr j)
    then have j: "j = Suc i" "j < 30" by (auto simp: next_index_Inr)
    let ?c = "client_of_entry (std_params M) idx j (image_id (image_entries f ! j)) (image_entries f ! j)"
    let ?s = "without_handle h (with_handle k ?c s)"
    have lk: "k < 10" "k \<notin> live_handles (partition_handles s)"
      using handles.free_Some [OF len k] by simp_all
    have hk: "h < 10" "h \<noteq> k" using Suc.prems(4) lk handles.live_bound [OF len] by auto
    have live: "live_handles (partition_handles ?s) = insert k (live_handles (partition_handles s) - {h})"
      using handles.move_live(1) [OF len k, of ?c h] Suc.prems(4) by simp
    have card: "card (live_handles (partition_handles ?s)) < 10"
      using handles.move_live(2) [OF len k, of ?c h] handles.free_card [OF len Suc.prems(5)] Suc.prems(4) by simp
    have "free_handle (partition_handles ?s) \<noteq> None"
      using handles.free_ex [of "partition_handles ?s"] card len by simp
    moreover have at: "partition_handles ?s ! k = ?c"
      using lk hk len by (simp add: drop_handle_def put_handle_def nth_list_update)
    moreover have "mem_ready P cells M ?s" "f = desc cells ?s idx" "k \<in> live_handles (partition_handles ?s)"
      using m Suc.prems(3) live by simp_all
    ultimately obtain hs where hs: "run_state (imageSet_walk P fuel (Some k) (end_step f j acc)) ?s =
        (ends_from f j (end_step f j acc), ?s\<lparr>partition_handles := hs\<rparr>)" "length hs = 10"
        "live_handles hs = live_handles (partition_handles ?s) - {k}"
      using Suc.IH [of ?s k j] Suc.prems(2,8) j by auto
    have "run_state (imageSet_walk P (Suc fuel) (Some h) acc) s = run_state (imageSet_walk P fuel (Some k) (end_step f j acc)) ?s"
      using nx k Inr lk hk len at
      by (simp add: run_simps run_handle_ops take_client_def end_max_client)
    moreover have "ends_from f i acc = ends_from f j (end_step f j acc)"
      by (simp add: ends_from.simps [of f i] Inr)
    moreover have "?s\<lparr>partition_handles := hs\<rparr> = s\<lparr>partition_handles := hs\<rparr>"
      by (simp add: without_handle_def with_handle_def)
    ultimately show ?thesis
      using hs live lk by (intro exI [of _ hs]) simp
  qed
qed

lemma run_imageSet_end:
  assumes "mem_ready P cells M s" and "idx < 3" and "f = desc cells s idx"
    and "fwd_signature f = FW_UPGRADE_MAGIC_V1" and "total_images f \<noteq> 0"
    and "card (live_handles (partition_handles s)) < 9"
  shows "\<exists>hs. run_state (fw_upgrade_get_imageSet_end_addr P idx) s =
      ((FW_UPGRADE_OK_E, Some (ends_from f 0 (if entry_is_sbl f 0 then 0 else entry_end f 0))),
       s\<lparr>partition_handles := hs\<rparr>)
    \<and> length hs = 10 \<and> live_handles hs = live_handles (partition_handles s)"
proof -
  have len: "length (partition_handles s) = 10"
    using mem_readyD(6) [OF assms(1)] by (simp add: FW_UPGRADE_MAX_HANDLES_def)
  obtain k where k: "free_handle (partition_handles s) = Some k"
    using handles.free_ex [OF len] assms(6) by fastforce
  let ?c = "client_of_entry (std_params M) idx 0 (image_id (image_entries f ! 0)) (image_entries f ! 0)"
  let ?s = "with_handle k ?c s"
  have lk: "k < 10" "k \<notin> live_handles (partition_handles s)"
    using handles.free_Some [OF len k] by simp_all
  have live: "live_handles (partition_handles ?s) = insert k (live_handles (partition_handles s))"
    using handles.put_live [OF len lk(1), of ?c] by simp
  have free: "free_handle (partition_handles ?s) \<noteq> None"
    using handles.free_ex [of "partition_handles ?s"] handles.acquire_card [OF len k, of ?c] assms(6) len by simp
  obtain hs where hs: "run_state (imageSet_walk P imageSet_fuel (Some k)
        (if entry_is_sbl f 0 then 0 else entry_end f 0)) ?s =
      (ends_from f 0 (if entry_is_sbl f 0 then 0 else entry_end f 0), ?s\<lparr>partition_handles := hs\<rparr>)"
      "length hs = 10" "live_handles hs = live_handles (partition_handles ?s) - {k}"
    using imageSet_walk_spec [of P cells M ?s idx f k 0 imageSet_fuel "if entry_is_sbl f 0 then 0 else entry_end f 0"]
      assms(1-3) lk len live free
    by (simp add: imageSet_fuel_def MAX_FW_IMAGE_ENTRIES_def) blast
  have g: "run_state (fw_upgrade_get_fwd_info P idx FW_UPGRADE_FWD_MAGIC_E) s =
      ((FW_UPGRADE_OK_E, Some (slice (cells (world s)) (4096 * unat idx) 4)), s)"
    using run_get_fwd_info [OF assms(1,2), of FW_UPGRADE_FWD_MAGIC_E] by simp
  have "run_state (fw_upgrade_get_imageSet_end_addr P idx) s =
      ((FW_UPGRADE_OK_E, Some (ends_from f 0 (if entry_is_sbl f 0 then 0 else entry_end f 0))),
       ?s\<lparr>partition_handles := hs\<rparr>)"
    using assms(4,5) k hs(1) lk(1) len
    by (simp add: fw_upgrade_get_imageSet_end_addr_def run_simps g fwd_of_fields run_handle_ops
        run_first_partition [OF assms(1,2)] take_client_def first_end_client assms(3) [symmetric])
  with hs(2,3) live lk show ?thesis by (intro exI [of _ hs]) (simp add: with_handle_def)
qed

text \<open>
  \<open>fw_upgrade_get_imageSet_end_addr\<close> on a programmed descriptor returns, whenever two handles are
  free, the end of the last image: no entry before the first unused one ends later (the SBL, which lies
  elsewhere, aside), and the value is the end of one of these entries, or 0 if all are SBL entries. The
  walk comes to its end within its bound, takes no handle for good, and changes nothing else.
\<close>

theorem imageSet_end_addr_max:
  assumes "mem_ready P cells M s" and "idx < 3" and "f = fwd_of (cells (world s)) (unat idx)"
    and "fwd_signature f = FW_UPGRADE_MAGIC_V1" and "total_images f \<noteq> 0"
    and "card (live_handles (partition_handles s)) < 9"
  shows "\<exists>e hs. run_state (fw_upgrade_get_imageSet_end_addr P idx) s =
        ((FW_UPGRADE_OK_E, Some e), s\<lparr>partition_handles := hs\<rparr>)
      \<and> live_handles hs = live_handles (partition_handles s)
      \<and> (\<forall>i. present f i \<and> \<not> entry_is_sbl f i \<longrightarrow> entry_end f i \<le> e)
      \<and> (e = 0 \<or> (\<exists>i. present f i \<and> \<not> entry_is_sbl f i \<and> e = entry_end f i))"
proof -
  let ?a = "if entry_is_sbl f 0 then 0 else entry_end f 0"
  have "entry_end f i \<le> ends_from f 0 ?a" if "present f i" "\<not> entry_is_sbl f i" for i
    using ends_from_ge(1) [of ?a f 0] ends_from_ge(2) [of 0 i f ?a] that by (cases "i = 0") auto
  moreover have "ends_from f 0 ?a = 0 \<or> (\<exists>i. present f i \<and> \<not> entry_is_sbl f i \<and> ends_from f 0 ?a = entry_end f i)"
    using ends_from_attained [of f 0 ?a] by (cases "entry_is_sbl f 0") (auto intro: exI [of _ "0 :: nat"])
  ultimately show ?thesis
    using run_imageSet_end [OF assms] by metis
qed

lemma imageSet_end_addr_max_witness:
  "\<exists>e hs. run_state (fw_upgrade_get_imageSet_end_addr sim 0) partition_state =
        ((FW_UPGRADE_OK_E, Some e), partition_state\<lparr>partition_handles := hs\<rparr>) \<and> 0x67000 \<le> e"
proof -
  let ?f = "fwd_of (sim_flash (world partition_state)) 0"
  have l: "live_handles (partition_handles partition_state) = {}"
    by (auto simp: partition_state_facts live_handles_def no_client_def nth_replicate)
  have "present ?f 0" "\<not> entry_is_sbl ?f 0" "entry_end ?f 0 = 0x67000"
    by (auto simp: present_def partition_state_facts entry_is_sbl_def entry_end_def sample_fwd_def fw_consts)
  moreover have "fwd_signature ?f = FW_UPGRADE_MAGIC_V1" "total_images ?f \<noteq> 0"
    by (simp_all add: partition_state_facts sample_fwd_def)
  ultimately show ?thesis
    using imageSet_end_addr_max [OF partition_state_facts(1), of 0 ?f] by (simp add: l) (metis present_0)
qed

section \<open>Allocation of handles\<close>

text \<open>
  The discipline of the handle table, over any driver: the four operations that hand out a handle take
  one that is free, and an operation that fails leaves the table as it was.
\<close>

text \<open>What an operation with status \<open>r\<close> and handle \<open>h\<close> may have done to the table.\<close>

definition allocates :: "partition_client list \<Rightarrow> fw_status \<times> hdl \<Rightarrow> partition_client list \<Rightarrow> bool" where
  "allocates hs x hs' \<longleftrightarrow>
     (if fst x = FW_UPGRADE_OK_E
      then \<exists>k c. snd x = Some k \<and> free_handle hs = Some k \<and> ref_count c = 1 \<and> hs' = put_handle k c hs
      else snd x = None \<and> hs' = hs)"

lemma allocates_fail: "r \<noteq> FW_UPGRADE_OK_E \<Longrightarrow> allocates hs (r, None) hs"
  by (simp add: allocates_def)

lemma allocates_put:
  "free_handle hs = Some k \<Longrightarrow> ref_count c = 1 \<Longrightarrow> allocates hs (FW_UPGRADE_OK_E, Some k) (hs[k := c])"
  by (auto simp: allocates_def put_handle_def)

lemma client_of_entry_live [simp]: "ref_count (client_of_entry m idx i iid e) = 1"
  by (simp add: client_of_entry_def)

lemma wp_read_fwd: "wp (read_fwd P a) Q s = Q (fst (run_state (read_fwd P a) s)) s"
proof -
  have "snd (run_state (read_fwd P a) s) = s"
    by (auto simp: read_fwd_def run_simps flash_adapter_read_def split: prod.splits)
  then show ?thesis by (simp add: wp_def split_beta)
qed

lemma wp_flash_write_handles:
  "(\<And>r w. Q r (s\<lparr>world := w\<rparr>)) \<Longrightarrow> wp (flash_adapter_write P a n b) Q (s :: ('d, 'z) mem_st_scheme)"
proof (rule wpI)
  fix r t
  assume q: "\<And>r w. Q r (s\<lparr>world := w\<rparr>)" and run: "run_state (flash_adapter_write P a n b) s = (r, t)"
  then have "\<exists>w. t = s\<lparr>world := w\<rparr>"
    by (auto simp: flash_adapter_write_def run_simps split: option.splits if_splits prod.splits)
      (metis mem_st.surjective flash_st.update_convs(1) flash_st.surjective)+
  with q show "Q r t" by auto
qed

lemma wp_mem_info:
  "(\<And>m u. partition_handles u = partition_handles s \<Longrightarrow> Q m u) \<Longrightarrow> wp get_mem_info Q s"
  by (auto simp: get_mem_info_def wp_simps fault_def split: option.splits)

lemma wp_update_handle [wp_simps]:
  "wp (update_handle k f) Q s = Q () (s\<lparr>partition_handles := (partition_handles s)[k := f (partition_handles s ! k)]\<rparr>)"
  by (simp add: update_handle_def wp_simps)

lemmas wp_accessors = fw_upgrade_validation_def fw_upgrade_get_partition_client_entry_def
  fw_upgrade_partition_handle_validation_def

lemma find_allocates:
  "wp (fw_upgrade_find_partition P idx iid) (\<lambda>x t. allocates (partition_handles s) x (partition_handles t)) s"
  unfolding fw_upgrade_find_partition_def wp_accessors
  by (auto simp: wp_simps wp_read_fwd allocates_fail allocates_put split: option.splits intro!: wp_mem_info)


lemma first_allocates:
  "wp (fw_upgrade_first_partition P idx) (\<lambda>x t. allocates (partition_handles s) x (partition_handles t)) s"
  unfolding fw_upgrade_first_partition_def wp_accessors
  by (auto simp: wp_simps wp_read_fwd allocates_fail allocates_put Let_def split: option.splits intro!: wp_mem_info)

lemma wp_hdl_get:
  "(\<And>c u. partition_handles u = partition_handles s \<Longrightarrow> Q c u) \<Longrightarrow> wp (hdl_get h) Q s"
  by (auto simp: hdl_get_def handle_entry_def wp_simps fault_def split: option.splits)

lemma next_allocates:
  "wp (fw_upgrade_next_partition P cur) (\<lambda>x t. allocates (partition_handles s) x (partition_handles t)) s"
  unfolding fw_upgrade_next_partition_def wp_accessors
  by (auto simp: wp_simps wp_read_fwd allocates_fail allocates_put Let_def split: option.splits
      intro!: wp_mem_info wp_hdl_get)

lemma create_allocates:
  "wp (fw_upgrade_create_partition P idx iid ver start n)
     (\<lambda>x t. allocates (partition_handles s) x (partition_handles t)) s"
  unfolding fw_upgrade_create_partition_def wp_accessors
  by (auto simp: wp_simps wp_read_fwd allocates_fail allocates_put Let_def split: option.splits
      intro!: wp_mem_info wp_flash_write_handles)

lemma allocates_live:
  assumes "length hs = 10" and "allocates hs x hs'"
  shows "length hs' = 10" and "fst x = FW_UPGRADE_OK_E \<Longrightarrow>
      \<exists>k. snd x = Some k \<and> k \<notin> live_handles hs \<and> live_handles hs' = insert k (live_handles hs)
        \<and> card (live_handles hs') = Suc (card (live_handles hs)) \<and> (\<forall>j. j \<noteq> k \<longrightarrow> hs' ! j = hs ! j)"
    and "fst x \<noteq> FW_UPGRADE_OK_E \<Longrightarrow> hs' = hs"
proof -
  from assms show "length hs' = 10" by (auto simp: allocates_def put_handle_def split: if_splits)
  from assms(2) show "fst x \<noteq> FW_UPGRADE_OK_E \<Longrightarrow> hs' = hs" by (simp add: allocates_def)
  assume "fst x = FW_UPGRADE_OK_E"
  with assms(2) obtain k c where k: "snd x = Some k" "free_handle hs = Some k" and c1: "ref_count c = 1"
    and hs': "hs' = put_handle k c hs" by (auto simp: allocates_def)
  from c1 have c: "ref_count c \<noteq> 0" by simp
  have "k < 10" "k \<notin> live_handles hs" using handles.free_Some [OF assms(1) k(2)] by simp_all
  moreover have "live_handles hs' = insert k (live_handles hs)"
    unfolding hs' by (rule handles.put_live [OF assms(1) calculation(1) c])
  moreover have "card (live_handles hs') = Suc (card (live_handles hs))"
    unfolding hs' by (rule handles.acquire_card [OF assms(1) k(2) c])
  ultimately show "\<exists>k. snd x = Some k \<and> k \<notin> live_handles hs \<and> live_handles hs' = insert k (live_handles hs)
        \<and> card (live_handles hs') = Suc (card (live_handles hs)) \<and> (\<forall>j. j \<noteq> k \<longrightarrow> hs' ! j = hs ! j)"
    using k(1) by (auto simp: hs' put_handle_def)
qed

text \<open>
  Over any driver, each of the four operations that hand out a partition handle (find, first, next,
  create) either succeeds with a handle that was not in use, makes exactly that one live and leaves every
  other handle alone, or fails and leaves the table of handles as it was.
\<close>

theorem handle_allocation:
  assumes "length (partition_handles s) = 10"
    and "run_state (fw_upgrade_find_partition P idx iid) s = (x, t)
       \<or> run_state (fw_upgrade_first_partition P idx) s = (x, t)
       \<or> run_state (fw_upgrade_next_partition P cur) s = (x, t)
       \<or> run_state (fw_upgrade_create_partition P idx iid ver start n) s = (x, t)"
  shows "(fst x = FW_UPGRADE_OK_E \<longrightarrow> (\<exists>k. snd x = Some k \<and> k \<notin> live_handles (partition_handles s)
        \<and> live_handles (partition_handles t) = insert k (live_handles (partition_handles s))
        \<and> (\<forall>j. j \<noteq> k \<longrightarrow> partition_handles t ! j = partition_handles s ! j)))
    \<and> (fst x \<noteq> FW_UPGRADE_OK_E \<longrightarrow> partition_handles t = partition_handles s)"
proof -
  have "allocates (partition_handles s) x (partition_handles t)"
    using assms(2) find_allocates first_allocates next_allocates create_allocates by (elim disjE) (rule wpD; assumption)+
  from allocates_live [OF assms(1) this] show ?thesis by blast
qed

theorem handle_allocation_witness:
  "\<exists>x t. run_state (fw_upgrade_find_partition sim 0 10) (sim_state [] [] 3) = (x, t)
     \<and> (fst x \<noteq> FW_UPGRADE_OK_E \<longrightarrow> partition_handles t = replicate 10 no_client)"
proof -
  have l: "length (partition_handles (sim_state [] [] 3)) = 10" by simp
  obtain x t where r: "run_state (fw_upgrade_find_partition sim 0 10) (sim_state [] [] 3) = (x, t)"
    by (metis prod.exhaust)
  from handle_allocation [OF l disjI1 [OF r]] r show ?thesis by auto
qed

end
