(* ===== verification/Fw_Trial_Proofs.thy ===== *)
theory Fw_Trial_Proofs
  imports Fw_Partition_Proofs
begin

text \<open>
  Accepting, rejecting and placing the trial firmware: what the operations of \<open>Fw_Trial\<close> do to the
  descriptors in flash. NOR programming only clears bits, so the code may rewrite a field without an
  erase exactly because the rank of a trial is all ones and the invalid status is zero.
\<close>

section \<open>Programming a field of a descriptor\<close>

lemma le32_and:
  assumes "length as = 4" and "length bs = 4"
  shows "le32 (map2 (AND) as bs) = le32 as AND le32 bs"
proof -
  from assms obtain a b c d e f g h where "as = [a, b, c, d]" and "bs = [e, f, g, h]"
    unfolding list4 by blast
  then show ?thesis by (auto intro!: bit_eqI simp: bit_le32 bit_and_iff)
qed

lemma fwd_of_prog_rank:
  "fwd_of (prog_cells c (4096 * i + 8) (bytes_le32 r)) j =
     (if j = i then (fwd_of c i)\<lparr>fwd_rank := fwd_rank (fwd_of c i) AND r\<rparr> else fwd_of c j)"
proof (cases "j = i")
  case True
  have "slice (prog_cells c (4096 * i + 8) (bytes_le32 r)) (4096 * i + 8) 4 =
      map2 (AND) (slice c (4096 * i + 8) 4) (bytes_le32 r)"
    using slice_prog_same [of c "4096 * i + 8" "bytes_le32 r"] by simp
  with True show ?thesis
    by (simp add: fwd_of_slices slice_prog_other le32_and prog_cells_at)
next
  case False
  then have "4096 * j + 512 \<le> 4096 * i + 8 \<or> 4096 * i + 8 + 4 \<le> 4096 * j" by arith
  with False show ?thesis by (simp add: fwd_of_def slice_prog_other)
qed

lemma fwd_of_prog_status:
  "fwd_of (prog_cells c (4096 * i + 12) [b]) j =
     (if j = i then (fwd_of c i)\<lparr>fwd_status := fwd_status (fwd_of c i) AND b\<rparr> else fwd_of c j)"
proof (cases "j = i")
  case True
  then show ?thesis
    by (simp add: fwd_of_slices slice_prog_other prog_cells_at)
next
  case False
  then have "4096 * j + 512 \<le> 4096 * i + 12 \<or> 4096 * i + 12 + 1 \<le> 4096 * j" by arith
  with False show ?thesis by (simp add: fwd_of_def slice_prog_other)
qed

text \<open>\<open>fw_upgrade_set_fwd_info\<close> over a driver that does not fail.\<close>

lemma run_set_fwd_info:
  assumes "mem_ready P cells M s" and "i < 3" and "length v = unat (snd (fwd_field info))"
  shows "run_state (fw_upgrade_set_fwd_info P i info v) s =
      (FW_UPGRADE_OK_E, programmed P (fwd_field_addr (std_params M) i info) v s)"
    and "cells (world (programmed P (fwd_field_addr (std_params M) i info) v s)) =
      prog_cells (cells (world s)) (4096 * unat i + unat (fst (fwd_field info))) v"
proof -
  note r = mem_readyD [OF assms(1)]
  have "unat (fst (fwd_field info)) + unat (snd (fwd_field info)) \<le> 4096"
    by (cases info) simp_all
  then have "unat (fwd_field_addr (std_params M) i info) + unat (snd (fwd_field info)) \<le> unat M"
    using r(3) assms(2) by (simp add: unat_fwd_field_addr unat_lt_3)
  note w = run_write_reliable [OF r(1,2) this assms(3)]
  from w(1) show "run_state (fw_upgrade_set_fwd_info P i info v) s =
      (FW_UPGRADE_OK_E, programmed P (fwd_field_addr (std_params M) i info) v s)"
    using assms(2) r(4,5)
    by (simp add: fw_upgrade_set_fwd_info_def run_simps run_validation run_mem_info
        FW_UPGRADE_MAX_FWD_def FLASH_DEVICE_DONE_def not_le [symmetric])
  from w(2) show "cells (world (programmed P (fwd_field_addr (std_params M) i info) v s)) =
      prog_cells (cells (world s)) (4096 * unat i + unat (fst (fwd_field info))) v"
    by (simp add: unat_fwd_field_addr)
qed

text \<open>Its two uses: a new rank and a new status, seen through the descriptors.\<close>

definition ranked :: "'d platform \<Rightarrow> u32 \<Rightarrow> u8 \<Rightarrow> u32 \<Rightarrow> ('d, 'z) mem_st_scheme \<Rightarrow> ('d, 'z) mem_st_scheme" where
  "ranked P M i r = programmed P (fwd_field_addr (std_params M) i FW_UPGRADE_FWD_RANK_E) (bytes_le32 r)"

definition marked :: "'d platform \<Rightarrow> u32 \<Rightarrow> u8 \<Rightarrow> u8 \<Rightarrow> ('d, 'z) mem_st_scheme \<Rightarrow> ('d, 'z) mem_st_scheme" where
  "marked P M i b = programmed P (fwd_field_addr (std_params M) i FW_UPGRADE_FWD_STATUS_E) [b]"

lemma ranked_marked_simps [simp]:
  "FWD_SUPPORT_NUM (ranked P M i r s) = FWD_SUPPORT_NUM s"
  "FWD_SUPPORT_NUM (marked P M i b s) = FWD_SUPPORT_NUM s"
  "partition_handles (ranked P M i r s) = partition_handles s"
  "partition_handles (marked P M i b s) = partition_handles s"
  "faulted (ranked P M i r s) = faulted s" "faulted (marked P M i b s) = faulted s"
  "mem_ready P cells M (ranked P M' i r s) = mem_ready P cells M s"
  "mem_ready P cells M (marked P M' i b s) = mem_ready P cells M s"
  by (simp_all add: ranked_def marked_def)

lemma run_set_rank:
  assumes "mem_ready P cells M s" and "i < 3"
  shows "run_state (fw_upgrade_set_fwd_info P i FW_UPGRADE_FWD_RANK_E (bytes_le32 r)) s =
      (FW_UPGRADE_OK_E, ranked P M i r s)"
    and "fwd_of (cells (world (ranked P M i r s))) j =
      (if j = unat i then (fwd_of (cells (world s)) j)\<lparr>fwd_rank := fwd_rank (fwd_of (cells (world s)) j) AND r\<rparr>
       else fwd_of (cells (world s)) j)"
  using run_set_fwd_info [OF assms, of "bytes_le32 r" FW_UPGRADE_FWD_RANK_E]
    fwd_of_prog_rank [of "cells (world s)" "unat i" r]
  by (simp_all add: ranked_def)

lemma run_set_status:
  assumes "mem_ready P cells M s" and "i < 3"
  shows "run_state (fw_upgrade_set_fwd_info P i FW_UPGRADE_FWD_STATUS_E [b]) s =
      (FW_UPGRADE_OK_E, marked P M i b s)"
    and "fwd_of (cells (world (marked P M i b s))) j =
      (if j = unat i then (fwd_of (cells (world s)) j)\<lparr>fwd_status := fwd_status (fwd_of (cells (world s)) j) AND b\<rparr>
       else fwd_of (cells (world s)) j)"
  using run_set_fwd_info [OF assms, of "[b]" FW_UPGRADE_FWD_STATUS_E]
    fwd_of_prog_status [of "cells (world s)" "unat i" b]
  by (simp_all add: marked_def)

text \<open>The bytes of a field, and that programming it changes no other.\<close>

definition field_at :: "u8 \<Rightarrow> fwd_info \<Rightarrow> nat set" where
  "field_at i info = {4096 * unat i + unat (fst (fwd_field info))
     ..< 4096 * unat i + unat (fst (fwd_field info)) + unat (snd (fwd_field info))}"

lemma ranked_other:
  assumes "mem_ready P cells M s" and "i < 3" and "x \<notin> field_at i FW_UPGRADE_FWD_RANK_E"
  shows "cells (world (ranked P M i r s)) x = cells (world s) x"
  using run_set_fwd_info(2) [OF assms(1,2), of "bytes_le32 r" FW_UPGRADE_FWD_RANK_E] assms(3)
  by (auto simp: ranked_def prog_cells_def field_at_def)

lemma marked_other:
  assumes "mem_ready P cells M s" and "i < 3" and "x \<notin> field_at i FW_UPGRADE_FWD_STATUS_E"
  shows "cells (world (marked P M i b s)) x = cells (world s) x"
  using run_set_fwd_info(2) [OF assms(1,2), of "[b]" FW_UPGRADE_FWD_STATUS_E] assms(3)
  by (auto simp: marked_def prog_cells_def field_at_def)

section \<open>Accepting the trial\<close>

text \<open>The boot type of the running firmware, as the FDT gives it.\<close>

definition running_boot :: "'d platform \<Rightarrow> 'd \<Rightarrow> u32 option" where
  "running_boot P w = (if \<not> fdt_valid P w then None
     else case find_fde P w (\<lambda>e. fde_id e = FDE_IMG_ID_APP) of
       None \<Rightarrow> None
     | Some i \<Rightarrow>
         (if fde_rank (fde_at P w i) = FDE_IMG_RANK_GOLDEN then Some FW_UPGRADE_FWD_BOOT_TYPE_GOLDEN
          else if fde_rank (fde_at P w i) = FDE_IMG_RANK_CURRENT then Some FW_UPGRADE_FWD_BOOT_TYPE_CURRENT
          else if fde_rank (fde_at P w i) = FDE_IMG_RANK_TRIAL then Some FW_UPGRADE_FWD_BOOT_TYPE_TRIAL
          else None))"

lemma run_active_fwd_boot:
  "\<exists>x v. run_state (fw_upgrade_get_active_fwd P True b) s = ((x, running_boot P (world s), v), s)"
  by (auto simp: fw_upgrade_get_active_fwd_def running_boot_def run_simps Let_def split: option.splits)

lemma trial_step_cases:
  "trial_step i d t = t \<or> trial_step i d t = t\<lparr>ti_trial := i\<rparr> \<or>
   trial_step i d t = t\<lparr>ti_rank := sum_rank d, ti_current := i\<rparr>"
  by (simp add: trial_step_def)

lemma trial_search_bounds:
  shows "ti_current (trial_search n d) < 3"
    and "ti_trial (trial_search n d) \<noteq> 0xFF \<Longrightarrow> ti_trial (trial_search n d) < 3"
proof -
  have step: "ti_current (trial_step i x t) < 3 \<and> (ti_trial (trial_step i x t) \<noteq> 0xFF \<longrightarrow> ti_trial (trial_step i x t) < 3)"
    if "ti_current t < 3 \<and> (ti_trial t \<noteq> 0xFF \<longrightarrow> ti_trial t < 3)" "i < 3" for i x t
    using that by (auto simp: trial_step_def)
  have fold: "ti_current (trial_fold d is t) < 3 \<and> (ti_trial (trial_fold d is t) \<noteq> 0xFF \<longrightarrow> ti_trial (trial_fold d is t) < 3)"
    if "ti_current t < 3 \<and> (ti_trial t \<noteq> 0xFF \<longrightarrow> ti_trial t < 3)" "\<forall>i \<in> set is. i < 3" for "is" t
    using that
  proof (induction "is" arbitrary: t)
    case (Cons a as)
    then have "a < 3" by simp
    with step [OF Cons.prems(1)] Cons show ?case by simp
  qed simp
  have "ti_current (trial_search n d) < 3 \<and> (ti_trial (trial_search n d) \<noteq> 0xFF \<longrightarrow> ti_trial (trial_search n d) < 3)"
    unfolding trial_search_def by (rule fold) (simp_all add: FW_UPGRADE_FWD_TRIAL_UNUSED_def)
  then show "ti_current (trial_search n d) < 3"
    and "ti_trial (trial_search n d) \<noteq> 0xFF \<Longrightarrow> ti_trial (trial_search n d) < 3" by simp_all
qed

text \<open>The state an accepted trial leaves behind.\<close>

definition accepted :: "'d platform \<Rightarrow> u32 \<Rightarrow> trial_index \<Rightarrow> ('d, 'z) mem_st_scheme \<Rightarrow> ('d, 'z) mem_st_scheme" where
  "accepted P M ts s =
     (let s' = ranked P M (ti_trial ts) (ti_rank ts + 1) s
      in if FWD_SUPPORT_NUM s = 2 \<or> (FWD_SUPPORT_NUM s = 3 \<and> ti_current ts \<noteq> 0)
         then marked P M (ti_current ts) FW_UPGRADE_FWD_STATUS_INVALID s' else s')"

lemma run_accept:
  assumes "mem_ready P cells M s" and "FWD_SUPPORT_NUM s \<noteq> 1"
    and "ts = trial_search (FWD_SUPPORT_NUM s) (desc cells s)"
    and "ti_trial ts \<noteq> FW_UPGRADE_FWD_TRIAL_UNUSED"
  shows "run_state (fw_upgrade_accept_trial_fwd P) s =
    (if running_boot P (world s) = Some FW_UPGRADE_FWD_BOOT_TYPE_TRIAL
     then (FW_UPGRADE_OK_E, accepted P M ts s)
     else (FW_UPGRADE_ERROR_E, if running_boot P (world s) = None then s\<lparr>faulted := True\<rparr> else s))"
proof -
  have b: "ti_trial ts < 3" "ti_current ts < 3"
    using trial_search_bounds [of "FWD_SUPPORT_NUM s" "desc cells s"] assms(3,4)
    by (simp_all add: FW_UPGRADE_FWD_TRIAL_UNUSED_def)
  obtain x v where a: "run_state (fw_upgrade_get_active_fwd P True False) s = ((x, running_boot P (world s), v), s)"
    using run_active_fwd_boot by blast
  have r1: "run_state (fw_upgrade_set_fwd_info P (ti_trial ts) FW_UPGRADE_FWD_RANK_E (bytes_le32 (ti_rank ts + 1))) s =
      (FW_UPGRADE_OK_E, ranked P M (ti_trial ts) (ti_rank ts + 1) s)"
    by (rule run_set_rank(1) [OF assms(1) b(1)])
  have r2: "run_state (fw_upgrade_set_fwd_info P (ti_current ts) FW_UPGRADE_FWD_STATUS_E [FW_UPGRADE_FWD_STATUS_INVALID])
      (ranked P M (ti_trial ts) (ti_rank ts + 1) s) =
      (FW_UPGRADE_OK_E, marked P M (ti_current ts) FW_UPGRADE_FWD_STATUS_INVALID
         (ranked P M (ti_trial ts) (ti_rank ts + 1) s))"
    using assms(1) by (intro run_set_status(1) [OF _ b(2)]) simp
  show ?thesis
    unfolding fw_upgrade_accept_trial_fwd_def accepted_def
    by (auto simp add: run_simps run_get_trial_active [OF assms(1,2)] assms(3) [symmetric] assms(4) a r1 r2 Let_def
        fault_def split: option.splits)
qed

lemma desc_ranked:
  assumes "mem_ready P cells M s" and "i < 3"
  shows "desc cells (ranked P M i r s) j =
    (if j = i then (desc cells s j)\<lparr>fwd_rank := fwd_rank (desc cells s j) AND r\<rparr> else desc cells s j)"
  using run_set_rank(2) [OF assms, of r "unat j"] by (simp add: unat_arith_simps)

lemma desc_marked:
  assumes "mem_ready P cells M s" and "i < 3"
  shows "desc cells (marked P M i b s) j =
    (if j = i then (desc cells s j)\<lparr>fwd_status := fwd_status (desc cells s j) AND b\<rparr> else desc cells s j)"
  using run_set_status(2) [OF assms, of b "unat j"] by (simp add: unat_arith_simps)

text \<open>The scan after the promotion, on descriptors alone.\<close>

lemma trial_fold_inv:
  assumes "Q t" and "\<And>i t. Q t \<Longrightarrow> Q (trial_step i (summary_of (d i)) t)"
  shows "Q (trial_fold d is t)"
  using assms(1) by (induction "is" arbitrary: t) (simp_all add: assms(2))

lemma trial_fold_mono: "ti_rank t \<le> ti_rank (trial_fold d is t)"
proof (induction "is" arbitrary: t)
  case (Cons i "is")
  have "ti_rank t \<le> ti_rank (trial_step i (summary_of (d i)) t)"
    by (simp add: trial_step_def less_imp_le)
  with Cons show ?case by (metis order.trans trial_fold.simps(2))
qed simp

lemma trial_fold_le:
  assumes "j \<in> set is" and "fwd_usable (summary_of (d j))"
    and "fwd_rank (d j) \<noteq> FW_UPGRADE_FWD_RANK_TRIAL"
  shows "fwd_rank (d j) \<le> ti_rank (trial_fold d is t)"
  using assms(1)
proof (induction "is" arbitrary: t)
  case (Cons i "is")
  have "fwd_rank (d j) \<le> ti_rank (trial_step j (summary_of (d j)) t)"
    using assms(2,3) by (auto simp: trial_step_def)
  with Cons show ?case by (cases "j = i") (auto intro: order.trans [OF _ trial_fold_mono])
qed simp

lemma trial_search_trial:
  assumes "ti_trial (trial_search n d) \<noteq> FW_UPGRADE_FWD_TRIAL_UNUSED"
  shows "fwd_rank (d (ti_trial (trial_search n d))) = FW_UPGRADE_FWD_RANK_TRIAL
    \<and> fwd_usable (summary_of (d (ti_trial (trial_search n d))))"
proof -
  let ?Q = "\<lambda>t. ti_trial t \<noteq> FW_UPGRADE_FWD_TRIAL_UNUSED \<longrightarrow>
    fwd_rank (d (ti_trial t)) = FW_UPGRADE_FWD_RANK_TRIAL \<and> fwd_usable (summary_of (d (ti_trial t)))"
  have "?Q (trial_search n d)"
    unfolding trial_search_def
    by (rule trial_fold_inv) (simp_all add: trial_step_def)
  with assms show ?thesis by simp
qed

lemma trial_search_le:
  assumes "j \<in> (if n = 2 then {0, 1} else {1, 2})" and "fwd_usable (summary_of (d j))"
    and "fwd_rank (d j) \<noteq> FW_UPGRADE_FWD_RANK_TRIAL"
  shows "fwd_rank (d j) \<le> ti_rank (trial_search n d)"
  unfolding trial_search_def using assms by (intro trial_fold_le) (auto split: if_splits)

lemma trial_search_promoted:
  assumes u: "j \<in> (if n = 2 then {0, 1} else {1, 2})"
    and win: "fwd_usable (summary_of (d j))" "fwd_rank (d j) = r" "r \<noteq> FW_UPGRADE_FWD_RANK_TRIAL"
    and least: "\<And>k. k \<in> (if n = 2 then {0, 1} else {1, 2}) \<Longrightarrow> k \<noteq> j \<Longrightarrow> fwd_usable (summary_of (d k)) \<Longrightarrow>
        fwd_rank (d k) \<noteq> FW_UPGRADE_FWD_RANK_TRIAL \<Longrightarrow> fwd_rank (d k) < r"
    and base: "if n = 2 then 0 < r else fwd_rank (d 0) < r"
  shows "ti_current (trial_search n d) = j \<and> ti_rank (trial_search n d) = r"
proof (cases "n = 2")
  case True
  with u have "j = 0 \<or> j = 1" by simp
  then show ?thesis
  proof
    assume "j = 0"
    with True win base least [of 1] show ?thesis by (auto simp: trial_search_def trial_step_def)
  next
    assume "j = 1"
    with True win base least [of 0] show ?thesis by (auto simp: trial_search_def trial_step_def)
  qed
next
  case False
  with u have "j = 1 \<or> j = 2" by simp
  then show ?thesis
  proof
    assume "j = 1"
    with False win base least [of 2] show ?thesis by (auto simp: trial_search_def trial_step_def)
  next
    assume "j = 2"
    with False win base least [of 1] show ?thesis by (auto simp: trial_search_def trial_step_def)
  qed
qed

lemma and_ones32: "(0xFFFFFFFF :: u32) AND r = r"
proof -
  have "(0xFFFFFFFF :: u32) = - 1" by simp
  then show ?thesis by (metis and.left_neutral)
qed

lemma succ_rank:
  assumes "(r :: u32) < 0xFFFFFFFE"
  shows "r < r + 1" and "r + 1 \<noteq> 0xFFFFFFFF" and "0 < r + 1"
proof -
  from assms have "unat r < 0xFFFFFFFE" by (simp add: word_less_nat_alt)
  moreover from this have "unat (r + 1) = unat r + 1" by (subst unat_add_nowrap) simp_all
  ultimately show "r < r + 1" "0 < r + 1" "r + 1 \<noteq> 0xFFFFFFFF"
    by (auto simp: word_less_nat_alt)
qed

lemma trial_search_candidates:
  assumes "ti_trial (trial_search n d) \<noteq> FW_UPGRADE_FWD_TRIAL_UNUSED"
  shows "ti_trial (trial_search n d) \<in> (if n = 2 then {0, 1} else {1, 2})"
proof -
  have fold: "ti_trial (trial_fold d is t) = ti_trial t \<or> ti_trial (trial_fold d is t) \<in> set is" for "is" t
  proof (induction "is" arbitrary: t)
    case (Cons i "is")
    have "ti_trial (trial_step i (summary_of (d i)) t) \<in> {ti_trial t, i}" by (simp add: trial_step_def)
    with Cons [of "trial_step i (summary_of (d i)) t"] show ?case by auto
  qed simp
  let ?t = "\<lparr>ti_trial = FW_UPGRADE_FWD_TRIAL_UNUSED, ti_current = 0, ti_rank = if n = 2 then 0 else fwd_rank (d 0)\<rparr>"
  from fold [of "[0, 1]" ?t] fold [of "[1, 2]" ?t] show ?thesis
    using assms unfolding trial_search_def by (auto split: if_splits simp del: trial_fold.simps)
qed

lemma trial_search_rank_ge: "n \<noteq> 2 \<Longrightarrow> fwd_rank (d 0) \<le> ti_rank (trial_search n d)"
  using trial_fold_mono [of "\<lparr>ti_trial = FW_UPGRADE_FWD_TRIAL_UNUSED, ti_current = 0, ti_rank = fwd_rank (d 0)\<rparr>" d "[1, 2]"]
  by (simp add: trial_search_def del: trial_fold.simps)

lemma trial_search_accepted:
  assumes n: "n = 2 \<or> n = 3"
    and ts: "ts = trial_search n d" "ti_trial ts \<noteq> FW_UPGRADE_FWD_TRIAL_UNUSED"
    and r: "ti_rank ts < 0xFFFFFFFE" and ne: "ti_current ts \<noteq> ti_trial ts"
    and d': "d' (ti_trial ts) = (d (ti_trial ts))\<lparr>fwd_rank := ti_rank ts + 1\<rparr>"
      "\<And>k. k \<noteq> ti_trial ts \<Longrightarrow> d' k = d k \<or> (d' k = (d k)\<lparr>fwd_status := 0\<rparr>)"
  shows "ti_current (trial_search n d') = ti_trial ts \<and> ti_rank (trial_search n d') = ti_rank ts + 1"
proof (rule trial_search_promoted)
  note t = trial_search_trial [of n d] trial_search_candidates [of n d]
  show "ti_trial ts \<in> (if n = 2 then {0, 1} else {1, 2})" using t(2) ts by simp
  show "fwd_usable (summary_of (d' (ti_trial ts)))"
    unfolding d'(1) using t(1) ts by (simp add: fwd_usable_def)
  show "fwd_rank (d' (ti_trial ts)) = ti_rank ts + 1" by (simp add: d'(1))
  show "ti_rank ts + 1 \<noteq> FW_UPGRADE_FWD_RANK_TRIAL"
    using succ_rank(2) [OF r] by (simp add: FW_UPGRADE_FWD_RANK_TRIAL_def)
  fix k
  assume k: "k \<in> (if n = 2 then {0, 1} else {1, 2})" "k \<noteq> ti_trial ts" "fwd_usable (summary_of (d' k))"
    "fwd_rank (d' k) \<noteq> FW_UPGRADE_FWD_RANK_TRIAL"
  then have "d' k = d k" using d'(2) [OF k(2)] by (auto simp: fwd_usable_def FW_UPGRADE_FWD_STATUS_VALID_def)
  then have "fwd_rank (d k) \<le> ti_rank ts"
    using trial_search_le [of k n d] k ts by simp
  with succ_rank(1) [OF r] show "fwd_rank (d' k) < ti_rank ts + 1"
    by (simp add: \<open>d' k = d k\<close>)
next
  show "if n = 2 then 0 < ti_rank ts + 1 else fwd_rank (d' 0) < ti_rank ts + 1"
  proof (cases "n = 2")
    case True
    with succ_rank(3) [OF r] show ?thesis by simp
  next
    case False
    then have "ti_trial ts \<noteq> 0" using trial_search_candidates [of n d] ts by auto
    then have "fwd_rank (d' 0) = fwd_rank (d 0)" using d'(2) [of 0] by auto
    with False trial_search_rank_ge [of n d] ts succ_rank(1) [OF r] show ?thesis by simp
  qed
qed

text \<open>
  C1: accepting the trial firmware promotes it. If a trial descriptor was found next to a different
  current one, whose rank is below the largest usable value, and \<open>fw_upgrade_accept_trial_fwd\<close>
  reports success, then a new look at the flash finds the former trial as the current firmware with
  the next rank, which is in its descriptor; the former current one is marked invalid unless it is the
  golden image (descriptor 0 of three). No byte of the flash outside these two fields has changed, and
  nothing faulted.
\<close>

theorem accept_trial_promotes:
  assumes "mem_ready P cells M s" and "FWD_SUPPORT_NUM s = 2 \<or> FWD_SUPPORT_NUM s = 3"
    and "run_state (fw_upgrade_get_trial_active_fwd_index P) s = ((FW_UPGRADE_OK_E, ts), s)"
    and "ti_rank ts < 0xFFFFFFFE" and "ti_current ts \<noteq> ti_trial ts"
    and "run_state (fw_upgrade_accept_trial_fwd P) s = (FW_UPGRADE_OK_E, t)"
  shows "\<exists>st ts'. run_state (fw_upgrade_get_trial_active_fwd_index P) t = ((st, ts'), t)
      \<and> ti_current ts' = ti_trial ts \<and> ti_rank ts' = ti_rank ts + 1
      \<and> (if FWD_SUPPORT_NUM s = 2 \<or> ti_current ts \<noteq> 0
         then fwd_status (fwd_of (cells (world t)) (unat (ti_current ts))) = FW_UPGRADE_FWD_STATUS_INVALID
         else fwd_of (cells (world t)) 0 = fwd_of (cells (world s)) 0)
      \<and> fwd_rank (fwd_of (cells (world t)) (unat (ti_trial ts))) = ti_rank ts + 1
      \<and> (\<forall>x. x \<notin> field_at (ti_trial ts) FW_UPGRADE_FWD_RANK_E \<and>
             (x \<notin> field_at (ti_current ts) FW_UPGRADE_FWD_STATUS_E \<or> FWD_SUPPORT_NUM s = 3 \<and> ti_current ts = 0) \<longrightarrow>
           cells (world t) x = cells (world s) x)
      \<and> faulted t = faulted s"
proof -
  let ?n = "FWD_SUPPORT_NUM s" and ?d = "desc cells s" and ?d' = "desc cells t"
  from assms(2) have n1: "?n \<noteq> 1" by auto
  from assms(3) have ts: "ts = trial_search ?n ?d" "ti_trial ts \<noteq> FW_UPGRADE_FWD_TRIAL_UNUSED"
    unfolding run_get_trial_active [OF assms(1) n1] by (auto split: if_splits)
  from assms(6) have t: "t = accepted P M ts s"
    unfolding run_accept [OF assms(1) n1 ts] by (auto split: if_splits)
  have b: "ti_trial ts < 3" "ti_current ts < 3"
    using trial_search_bounds [of ?n ?d] ts by (simp_all add: FW_UPGRADE_FWD_TRIAL_UNUSED_def)
  have tr: "fwd_rank (?d (ti_trial ts)) = 0xFFFFFFFF"
    using trial_search_trial [of ?n ?d] ts by (simp add: FW_UPGRADE_FWD_RANK_TRIAL_def)
  have m: "mem_ready P cells M (ranked P M (ti_trial ts) (ti_rank ts + 1) s)"
    using assms(1) by simp
  have d': "?d' j = (if j = ti_trial ts then (?d j)\<lparr>fwd_rank := ti_rank ts + 1\<rparr>
      else if j = ti_current ts \<and> (?n = 2 \<or> ti_current ts \<noteq> 0) then (?d j)\<lparr>fwd_status := 0\<rparr> else ?d j)" for j
    using assms(2,5) tr b
    by (auto simp: t accepted_def Let_def desc_ranked [OF assms(1)] desc_marked [OF m] and_ones32
        FW_UPGRADE_FWD_STATUS_INVALID_def)
  have mt: "mem_ready P cells M t" and nt: "FWD_SUPPORT_NUM t = ?n" and ft: "faulted t = faulted s"
    using assms(1) by (simp_all add: t accepted_def Let_def)
  obtain st where g: "run_state (fw_upgrade_get_trial_active_fwd_index P) t = ((st, trial_search ?n ?d'), t)"
    using run_get_trial_active [OF mt] n1 nt by auto
  have p: "ti_current (trial_search ?n ?d') = ti_trial ts \<and> ti_rank (trial_search ?n ?d') = ti_rank ts + 1"
    using assms(5) by (intro trial_search_accepted [OF assms(2) ts assms(4,5)]) (auto simp: d')
  have q: "if ?n = 2 \<or> ti_current ts \<noteq> 0
      then fwd_status (?d' (ti_current ts)) = FW_UPGRADE_FWD_STATUS_INVALID else ?d' 0 = ?d 0"
    using assms(2,5) d' [of 0] by (auto simp: d' FW_UPGRADE_FWD_STATUS_INVALID_def)
  have rank: "fwd_rank (?d' (ti_trial ts)) = ti_rank ts + 1"
    by (simp add: d')
  have frame: "\<forall>x. x \<notin> field_at (ti_trial ts) FW_UPGRADE_FWD_RANK_E \<and>
      (x \<notin> field_at (ti_current ts) FW_UPGRADE_FWD_STATUS_E \<or> ?n = 3 \<and> ti_current ts = 0) \<longrightarrow>
      cells (world t) x = cells (world s) x"
    using assms(2) by (auto simp: t accepted_def Let_def ranked_other [OF assms(1) b(1)] marked_other [OF m b(2)])
  show ?thesis
    by (rule exI [of _ st], rule exI [of _ "trial_search ?n ?d'"], intro conjI g p [THEN conjunct1]
        p [THEN conjunct2] ft q [unfolded unat_0] rank frame)
qed

text \<open>Two descriptors: 0 is current with rank 5, 1 is on trial and running.\<close>

definition trial_state :: "sim_world mem_st" where
  "trial_state = sim_state
     [sample_fwd 5 FW_UPGRADE_FWD_STATUS_VALID
        [\<lparr>image_id = 10, start_block = 3, total_blocks = 100, img_version = 1\<rparr>],
      sample_fwd FW_UPGRADE_FWD_RANK_TRIAL FW_UPGRADE_FWD_STATUS_VALID
        [\<lparr>image_id = 10, start_block = 520, total_blocks = 100, img_version = 2\<rparr>]]
     [sample_fde FDE_IMG_ID_APP FDE_IMG_RANK_TRIAL 1] 2"

lemma trial_state_search:
  "trial_search 2 (desc sim_flash trial_state) = \<lparr>ti_trial = 1, ti_current = 0, ti_rank = 5\<rparr>"
  by (simp add: trial_search_def trial_state_def desc_sim_state trial_step_def fwd_usable_def sample_fwd_def
      fwd_wf_def fw_consts)

lemma trial_state_boot: "running_boot sim (world trial_state) = Some FW_UPGRADE_FWD_BOOT_TYPE_TRIAL"
  by (simp add: running_boot_def fdt_valid_def find_fde_def trial_state_def fdt_sim_state sample_fde_def
      fde_wf_def fde_consts fw_consts)

lemma accept_trial_promotes_witness:
  "\<exists>t st ts'. run_state (fw_upgrade_accept_trial_fwd sim) trial_state = (FW_UPGRADE_OK_E, t)
     \<and> run_state (fw_upgrade_get_trial_active_fwd_index sim) t = ((st, ts'), t)
     \<and> ti_current ts' = 1 \<and> ti_rank ts' = 6"
proof -
  let ?ts = "\<lparr>ti_trial = 1, ti_current = 0, ti_rank = 5\<rparr>"
  have m: "mem_ready sim sim_flash 0x400000 trial_state" and n: "FWD_SUPPORT_NUM trial_state = 2"
    unfolding trial_state_def by (rule sim_state_ready) simp
  have g: "run_state (fw_upgrade_get_trial_active_fwd_index sim) trial_state = ((FW_UPGRADE_OK_E, ?ts), trial_state)"
    using run_get_trial_active [OF m] by (simp add: n trial_state_search fw_consts)
  obtain t where a: "run_state (fw_upgrade_accept_trial_fwd sim) trial_state = (FW_UPGRADE_OK_E, t)"
    using run_accept [OF m, of ?ts] by (simp add: n trial_state_search trial_state_boot fw_consts)
  from accept_trial_promotes [OF m _ g _ _ a] show ?thesis
    by (auto simp: n a)
qed

section \<open>Rejecting the trial\<close>

text \<open>RRAM and flash are different memories: a write to one leaves the other alone.\<close>

definition memories_separate :: "'d platform \<Rightarrow> ('d \<Rightarrow> nat \<Rightarrow> u8) \<Rightarrow> bool" where
  "memories_separate P cells \<longleftrightarrow>
     (\<forall>w a bs. cells (snd (nt_rram_write P w a bs)) = cells w) \<and>
     (\<forall>w a bs x. rram_load P (snd (flash_write P w a bs)) x = rram_load P w x)"

lemma sim_memories_separate: "memories_separate sim sim_flash"
  by (simp add: memories_separate_def sim_def)

lemma reject_sbl_frame:
  assumes "memories_separate P cells"
  shows "\<exists>r w. run_state (fw_upgrade_reject_sbl_trial_fde P) s = (r, s\<lparr>world := w\<rparr>)
    \<and> cells w = cells (world s)"
proof (cases "find_fde P (world s) (\<lambda>e. fde_id e = FDE_IMG_ID_SBL \<and> fde_rank e = FDE_IMG_RANK_TRIAL)")
  case None
  then show ?thesis by (auto simp: fw_upgrade_reject_sbl_trial_fde_def run_simps intro: exI [of _ "world s"])
next
  case (Some i)
  then show ?thesis
    using assms unfolding memories_separate_def fw_upgrade_reject_sbl_trial_fde_def write_fde_def
    by (auto simp: run_simps split: prod.splits intro: exI [of _ "world s"]) (metis snd_conv)+
qed

text \<open>Status and rank of a rejected trial; then the rest of the function only moves handles and RRAM.\<close>

definition rejected :: "'d platform \<Rightarrow> u32 \<Rightarrow> u8 \<Rightarrow> ('d, 'z) mem_st_scheme \<Rightarrow> ('d, 'z) mem_st_scheme" where
  "rejected P M i s = ranked P M i 1 (marked P M i FW_UPGRADE_FWD_STATUS_INVALID s)"

lemma mem_ready_world:
  "mem_ready P cells M (s\<lparr>world := w\<rparr>) = mem_ready P cells M s"
  by (simp add: mem_ready_def adapter_ready_def)

lemma reject_run:
  assumes "mem_ready P cells M s" and "FWD_SUPPORT_NUM s \<noteq> 1" and "memories_separate P cells"
    and "ts = trial_search (FWD_SUPPORT_NUM s) (desc cells s)"
    and "ti_trial ts \<noteq> FW_UPGRADE_FWD_TRIAL_UNUSED"
    and "run_state (fw_upgrade_reject_trial_fwd P) s = (r, t)"
  shows "mem_ready P cells M t" and "cells (world t) = cells (world (rejected P M (ti_trial ts) s))"
    and "FWD_SUPPORT_NUM t = FWD_SUPPORT_NUM s" and "faulted t = faulted s"
proof -
  have b: "ti_trial ts < 3"
    using trial_search_bounds [of "FWD_SUPPORT_NUM s" "desc cells s"] assms(4,5)
    by (simp add: FW_UPGRADE_FWD_TRIAL_UNUSED_def)
  let ?s = "rejected P M (ti_trial ts) s"
  have m: "mem_ready P cells M ?s" using assms(1) by (simp add: rejected_def)
  have m': "mem_ready P cells M (marked P M (ti_trial ts) FW_UPGRADE_FWD_STATUS_INVALID s)" using assms(1) by simp
  note steps = run_set_status(1) [OF assms(1) b] run_set_rank(1) [OF m' b]
  have "\<exists>hs w. t = ?s\<lparr>partition_handles := hs, world := w\<rparr> \<and> length hs = length (partition_handles ?s)
      \<and> cells w = cells (world ?s)"
  proof -
    obtain x h u where f: "run_state (fw_upgrade_find_partition P (ti_trial ts) SBL_IMG_ID) ?s = ((x, h), u)"
      by (metis prod.exhaust)
    have u: "\<exists>hs. u = ?s\<lparr>partition_handles := hs\<rparr> \<and> length hs = length (partition_handles ?s)"
      using run_find_partition [OF m b, of SBL_IMG_ID] f
      by (auto simp: take_client_def with_handle_def split: if_splits option.splits
          intro: exI [of _ "partition_handles ?s"])
    have "run_state (fw_upgrade_reject_trial_fwd P) s =
      (if x = FW_UPGRADE_OK_E then run_state (fw_upgrade_reject_sbl_trial_fde P) u
       else (if x = FW_UPGRADE_ERR_REACH_MAX_IMAGE_ENTRY_E then FW_UPGRADE_OK_E else x, u))"
      using f by (simp add: fw_upgrade_reject_trial_fwd_def run_simps run_get_trial_active [OF assms(1,2)]
          assms(4) [symmetric] assms(5) steps rejected_def)
    moreover obtain y w where "run_state (fw_upgrade_reject_sbl_trial_fde P) u = (y, u\<lparr>world := w\<rparr>)"
      "cells w = cells (world u)" using reject_sbl_frame [OF assms(3)] by blast
    ultimately have "t = u\<lparr>world := if x = FW_UPGRADE_OK_E then w else world u\<rparr>"
      "cells (if x = FW_UPGRADE_OK_E then w else world u) = cells (world u)"
      using assms(6) by (simp_all split: if_splits)
    then obtain w' where "t = u\<lparr>world := w'\<rparr>" "cells w' = cells (world u)" by blast
    moreover obtain hs where "u = ?s\<lparr>partition_handles := hs\<rparr>" "length hs = length (partition_handles ?s)"
      using u by blast
    ultimately show ?thesis by (intro exI [of _ hs] exI [of _ w']) simp
  qed
  then obtain hs w where t: "t = ?s\<lparr>partition_handles := hs, world := w\<rparr>" "length hs = length (partition_handles ?s)"
    "cells w = cells (world ?s)" by blast
  then show "cells (world t) = cells (world (rejected P M (ti_trial ts) s))"
    and "FWD_SUPPORT_NUM t = FWD_SUPPORT_NUM s" and "faulted t = faulted s" by (simp_all add: rejected_def)
  show "mem_ready P cells M t" using m t by (simp add: mem_ready_world)
qed

lemma desc_rejected:
  assumes "mem_ready P cells M s" and "i < 3" and "fwd_rank (desc cells s i) = 0xFFFFFFFF"
  shows "desc cells (rejected P M i s) j = (if j = i
    then (desc cells s j)\<lparr>fwd_status := FW_UPGRADE_FWD_STATUS_INVALID, fwd_rank := 1\<rparr> else desc cells s j)"
proof -
  have m: "mem_ready P cells M (marked P M i FW_UPGRADE_FWD_STATUS_INVALID s)" using assms(1) by simp
  show ?thesis
    using assms(3) unfolding rejected_def desc_ranked [OF m assms(2)] desc_marked [OF assms(1,2)]
    by (auto simp: FW_UPGRADE_FWD_STATUS_INVALID_def and_ones32)
qed

text \<open>Without its trial, a scan finds the same current firmware.\<close>

lemma trial_fold_without:
  assumes "fwd_rank (d j) = FW_UPGRADE_FWD_RANK_TRIAL" and "\<And>k. k \<noteq> j \<Longrightarrow> d' k = d k"
    and "\<not> fwd_usable (summary_of (d' j))" and "ti_current t = ti_current t'" and "ti_rank t = ti_rank t'"
  shows "ti_current (trial_fold d' is t) = ti_current (trial_fold d is t')
    \<and> ti_rank (trial_fold d' is t) = ti_rank (trial_fold d is t')"
  using assms(4,5)
proof (induction "is" arbitrary: t t')
  case (Cons i "is")
  have "ti_current (trial_step i (summary_of (d' i)) t) = ti_current (trial_step i (summary_of (d i)) t')
    \<and> ti_rank (trial_step i (summary_of (d' i)) t) = ti_rank (trial_step i (summary_of (d i)) t')"
    using assms(1-3) Cons.prems by (cases "i = j") (simp_all add: trial_step_def)
  with Cons.IH show ?case by simp
qed simp

lemma trial_fold_not:
  assumes "\<not> fwd_usable (summary_of (d j))" and "ti_trial t \<noteq> j"
  shows "ti_trial (trial_fold d is t) \<noteq> j"
  using assms(2)
proof (induction "is" arbitrary: t)
  case (Cons i "is")
  have "ti_trial (trial_step i (summary_of (d i)) t) \<noteq> j"
    using assms(1) Cons.prems by (cases "i = j") (auto simp: trial_step_def)
  with Cons.IH show ?case by simp
qed simp

text \<open>
  rejecting the trial firmware withdraws it. Whatever \<open>fw_upgrade_reject_trial_fwd\<close> returns once a
  trial descriptor was found, that descriptor is left marked invalid with rank 1, no other descriptor
  changes, and a new look at the flash finds the same current firmware and rank and no longer this trial.
\<close>

theorem reject_trial_withdraws:
  assumes "mem_ready P cells M s" and "FWD_SUPPORT_NUM s \<noteq> 1" and "memories_separate P cells"
    and "run_state (fw_upgrade_get_trial_active_fwd_index P) s = ((FW_UPGRADE_OK_E, ts), s)"
    and "run_state (fw_upgrade_reject_trial_fwd P) s = (r, t)"
  shows "\<exists>st ts'. run_state (fw_upgrade_get_trial_active_fwd_index P) t = ((st, ts'), t)
      \<and> ti_trial ts' \<noteq> ti_trial ts \<and> ti_current ts' = ti_current ts \<and> ti_rank ts' = ti_rank ts
      \<and> (\<forall>j :: u8. fwd_of (cells (world t)) (unat j) = (if j = ti_trial ts
           then (fwd_of (cells (world s)) (unat j))\<lparr>fwd_status := FW_UPGRADE_FWD_STATUS_INVALID, fwd_rank := 1\<rparr>
           else fwd_of (cells (world s)) (unat j)))
      \<and> faulted t = faulted s"
proof -
  let ?n = "FWD_SUPPORT_NUM s" and ?d = "desc cells s" and ?d' = "desc cells t"
  from assms(4) have ts: "ts = trial_search ?n ?d" "ti_trial ts \<noteq> FW_UPGRADE_FWD_TRIAL_UNUSED"
    unfolding run_get_trial_active [OF assms(1,2)] by (auto split: if_splits)
  note t = reject_run [OF assms(1-3) ts assms(5)]
  have b: "ti_trial ts < 3" using trial_search_bounds [of ?n ?d] ts by (simp add: FW_UPGRADE_FWD_TRIAL_UNUSED_def)
  have tr: "fwd_rank (?d (ti_trial ts)) = 0xFFFFFFFF"
    using trial_search_trial [of ?n ?d] ts by (simp add: FW_UPGRADE_FWD_RANK_TRIAL_def)
  have d': "?d' j = (if j = ti_trial ts
    then (?d j)\<lparr>fwd_status := FW_UPGRADE_FWD_STATUS_INVALID, fwd_rank := 1\<rparr> else ?d j)" for j
    unfolding t(2) by (rule desc_rejected [OF assms(1) b tr])
  have nu: "\<not> fwd_usable (summary_of (?d' (ti_trial ts)))"
    by (simp add: d' fwd_usable_def FW_UPGRADE_FWD_STATUS_INVALID_def FW_UPGRADE_FWD_STATUS_VALID_def)
  obtain st where g: "run_state (fw_upgrade_get_trial_active_fwd_index P) t = ((st, trial_search ?n ?d'), t)"
    using run_get_trial_active [OF t(1)] assms(2) t(3) by auto
  have "ti_trial ts = 0 \<longrightarrow> ?n = 2" using trial_search_candidates [of ?n ?d] ts by (auto split: if_splits)
  then have r0: "?n \<noteq> 2 \<longrightarrow> fwd_rank (?d' 0) = fwd_rank (?d 0)" using d' [of 0] by auto
  have same: "ti_current (trial_search ?n ?d') = ti_current (trial_search ?n ?d)
      \<and> ti_rank (trial_search ?n ?d') = ti_rank (trial_search ?n ?d)"
    unfolding trial_search_def
    using tr r0 by (intro trial_fold_without [where j = "ti_trial ts"] nu) (auto simp: d' FW_UPGRADE_FWD_RANK_TRIAL_def)
  have gone: "ti_trial (trial_search ?n ?d') \<noteq> ti_trial ts"
    unfolding trial_search_def using ts(2) by (intro trial_fold_not nu) simp
  show ?thesis
    using same gone t(4) d' g ts(1) by (intro exI [of _ st] exI [of _ "trial_search ?n ?d'"]) auto
qed

lemma reject_trial_withdraws_witness:
  "\<exists>r t st ts'. run_state (fw_upgrade_reject_trial_fwd sim) trial_state = (r, t)
     \<and> run_state (fw_upgrade_get_trial_active_fwd_index sim) t = ((st, ts'), t)
     \<and> ti_trial ts' \<noteq> 1 \<and> ti_current ts' = 0 \<and> ti_rank ts' = 5"
proof -
  have m: "mem_ready sim sim_flash 0x400000 trial_state" and n: "FWD_SUPPORT_NUM trial_state = 2"
    unfolding trial_state_def by (rule sim_state_ready) simp
  have g: "run_state (fw_upgrade_get_trial_active_fwd_index sim) trial_state =
      ((FW_UPGRADE_OK_E, \<lparr>ti_trial = 1, ti_current = 0, ti_rank = 5\<rparr>), trial_state)"
    using run_get_trial_active [OF m] by (simp add: n trial_state_search fw_consts)
  obtain r t where a: "run_state (fw_upgrade_reject_trial_fwd sim) trial_state = (r, t)" by fastforce
  show ?thesis
    using reject_trial_withdraws [OF m _ sim_memories_separate g a] a by (auto simp: n)
qed

end
