(* ===== verification/Fw_Select_Proofs.thy ===== *)
theory Fw_Select_Proofs
  imports Fw_Trial_Proofs
begin

text \<open>
  Where the next trial firmware is placed: the region \<open>fw_upgrade_select_trial_fwd\<close> returns lies in the
  flash, is made of whole blocks, and never meets the region of the firmware that stays.
\<close>

section \<open>The walks before the choice\<close>

lemma run_find_partition_bad:
  assumes "mem_ready P cells M s" and "\<not> idx < 3"
  shows "run_state (fw_upgrade_find_partition P idx iid) s = ((FW_UPGRADE_ERR_REACH_MAX_IMAGE_ENTRY_E, None), s)"
  using mem_readyD(4) [OF assms(1)] assms(2)
  by (simp add: fw_upgrade_find_partition_def run_simps run_validation FW_UPGRADE_MAX_FWD_def not_less)

text \<open>\<open>same_but_handles s t\<close>: only the table of handles changed, and the same handles are live.\<close>

definition same_but_handles :: "('d, 'z) mem_st_scheme \<Rightarrow> ('d, 'z) mem_st_scheme \<Rightarrow> bool" where
  "same_but_handles s t \<longleftrightarrow> (\<exists>hs. t = s\<lparr>partition_handles := hs\<rparr> \<and> length hs = length (partition_handles s)
     \<and> live_handles hs = live_handles (partition_handles s))"

lemma same_but_handles_refl [simp]: "same_but_handles s s"
  unfolding same_but_handles_def by (rule exI [of _ "partition_handles s"]) simp

lemma same_but_handles_trans: "same_but_handles s t \<Longrightarrow> same_but_handles t u \<Longrightarrow> same_but_handles s u"
  by (auto simp: same_but_handles_def)

lemma same_but_handlesD:
  assumes "same_but_handles s t"
  shows "world t = world s" and "mem_ready P cells M t = mem_ready P cells M s"
    and "FWD_SUPPORT_NUM t = FWD_SUPPORT_NUM s" and "faulted t = faulted s" and "stuck t = stuck s"
    and "live_handles (partition_handles t) = live_handles (partition_handles s)"
    and "fw_upgrade_mem_params t = fw_upgrade_mem_params s"
proof -
  from assms obtain hs where "t = s\<lparr>partition_handles := hs\<rparr>" "length hs = length (partition_handles s)"
    "live_handles hs = live_handles (partition_handles s)" unfolding same_but_handles_def by blast
  then show "world t = world s" and "mem_ready P cells M t = mem_ready P cells M s"
    and "FWD_SUPPORT_NUM t = FWD_SUPPORT_NUM s" and "faulted t = faulted s" and "stuck t = stuck s"
    and "live_handles (partition_handles t) = live_handles (partition_handles s)"
    and "fw_upgrade_mem_params t = fw_upgrade_mem_params s" by simp_all
qed

lemma run_active_fwd_state: "snd (run_state (fw_upgrade_get_active_fwd P a b) s) = s"
  by (simp add: fw_upgrade_get_active_fwd_def run_simps Let_def split: option.splits)

lemma past_image_spec:
  assumes "mem_ready P cells M s"
  shows "\<exists>a t. run_state (past_image P cur iid acc) s = (a, t) \<and> same_but_handles s t \<and> acc \<le> a"
proof (cases "cur < 3 \<and> free_handle (partition_handles s) \<noteq> None
    \<and> find_entry (desc cells s cur) iid \<noteq> None")
  case False
  then obtain e where e: "e \<noteq> FW_UPGRADE_OK_E"
    "run_state (fw_upgrade_find_partition P cur iid) s = ((e, None), s)"
    using run_find_partition [OF assms, of cur iid] run_find_partition_bad [OF assms, of cur iid]
    by (cases "cur < 3") (auto split: if_splits)
  then show ?thesis by (simp add: past_image_def run_simps)
next
  case True
  then obtain k i where k: "free_handle (partition_handles s) = Some k"
    and i: "find_entry (desc cells s cur) iid = Some i" by auto
  have len: "length (partition_handles s) = 10"
    using mem_readyD(6) [OF assms] by (simp add: FW_UPGRADE_MAX_HANDLES_def)
  let ?c = "client_of_entry (std_params M) cur i (image_id (image_entries (desc cells s cur) ! i))
    (image_entries (desc cells s cur) ! i)"
  have f: "run_state (fw_upgrade_find_partition P cur iid) s = ((FW_UPGRADE_OK_E, Some k), with_handle k ?c s)"
    using run_find_partition [OF assms, of cur iid] True k i by (simp add: take_client_def)
  have "same_but_handles s (without_handle k (with_handle k ?c s))"
    using handles.acquire_release [OF len k, of ?c] len
    unfolding same_but_handles_def with_handle_def without_handle_def by (auto intro!: exI)
  moreover have "run_state (past_image P cur iid acc) s = (let e = img_start ?c + img_size ?c in
      if e > acc then e else acc, without_handle k (with_handle k ?c s))"
    using handles.free_Some [OF len k] len
    by (simp add: past_image_def run_simps f run_handle_ops Let_def)
  moreover have "acc \<le> (let e = img_start ?c + img_size ?c in if e > acc then e else acc)"
    by (simp add: Let_def less_imp_le)
  ultimately show ?thesis by blast
qed

lemma first_address_spec:
  assumes "mem_ready P cells M s"
  shows "\<exists>a t. run_state (fw_upgrade_get_first_programming_image_start_address P) s = (a, t)
    \<and> same_but_handles s t \<and> 0x3000 \<le> a"
proof -
  obtain cur x y where g: "run_state (fw_upgrade_get_active_fwd P False False) s = ((cur, x, y), s)"
    by (metis run_active_fwd_state prod.collapse)
  obtain a1 t1 where 1: "run_state (past_image P cur FS1_IMG_ID 0) s = (a1, t1)" "same_but_handles s t1"
    using past_image_spec [OF assms] by blast
  have m1: "mem_ready P cells M t1" using assms same_but_handlesD(2) [OF 1(2)] by blast
  obtain a2 t2 where 2: "run_state (past_image P cur FS2_IMG_ID a1) t1 = (a2, t2)" "same_but_handles t1 t2"
    using past_image_spec [OF m1] by blast
  have m2: "mem_ready P cells M t2" using m1 same_but_handlesD(2) [OF 2(2)] by blast
  obtain a3 t3 where 3: "run_state (past_image P cur RAMDUMP_IMG_ID a2) t2 = (a3, t3)" "same_but_handles t2 t3"
    using past_image_spec [OF m2] by blast
  have m3: "mem_ready P cells M t3" using m2 same_but_handlesD(2) [OF 3(2)] by blast
  obtain a4 t4 where 4: "run_state (past_image P cur USERDATA_IMG_ID a3) t3 = (a4, t4)" "same_but_handles t3 t4"
    using past_image_spec [OF m3] by blast
  have m4: "mem_ready P cells M t4" using m3 same_but_handlesD(2) [OF 4(2)] by blast
  have "same_but_handles s t4"
    using 1(2) 2(2) 3(2) 4(2) same_but_handles_trans by blast
  then show ?thesis
    using mem_readyD(5) [OF m4]
    by (auto simp: fw_upgrade_get_first_programming_image_start_address_def run_simps g 1(1) 2(1) 3(1) 4(1)
        run_mem_info FW_UPGRADE_MAX_FWD_def not_less intro: less_imp_le)
qed

section \<open>The regions\<close>

lemma block_floor:
  fixes n :: u32
  assumes "0 < k"
  shows "unat (n div 4096 div k * 4096) = unat n div 4096 div unat k * 4096"
    and "unat (n div 4096 div k * 4096) * unat k \<le> unat n"
proof -
  have "unat n div 4096 div unat k * 4096 \<le> unat n"
    by (metis div_le_dividend le_trans div_mult2_eq mult.commute times_div_less_eq_dividend)
  then have "unat n div 4096 div unat k * 4096 < 4294967296" using unat_lt_u32 [of n] by linarith
  then show e: "unat (n div 4096 div k * 4096) = unat n div 4096 div unat k * 4096"
    by (subst unat_mult_nowrap) (simp_all add: unat_div)
  have "unat n div 4096 div unat k * unat k \<le> unat n div 4096"
    by simp
  then have "unat n div 4096 div unat k * unat k * 4096 \<le> unat n div 4096 * 4096"
    by simp
  also have "\<dots> \<le> unat n" by simp
  finally show "unat (n div 4096 div k * 4096) * unat k \<le> unat n"
    unfolding e by (simp add: ac_simps)
qed

text \<open>
  The two slots behind the golden image and the two halves of a flash without one: whole blocks, inside
  the flash, one after the other.
\<close>

lemma region_three_slots:
  assumes "unat e \<le> unat M" and "region_three (std_params M) 3 e 1 = (a1, n1)"
    and "region_three (std_params M) 3 e 2 = (a2, n2)"
  shows "n1 = n2" and "4096 dvd unat n1" and "a1 = e" and "unat a2 = unat e + unat n1"
    and "unat a2 + unat n2 \<le> unat M" and "unat n1 = (unat M - unat e) div 4096 div 2 * 4096"
proof -
  have sub: "unat (M - e) = unat M - unat e" using assms(1) by (simp add: unat_sub word_le_nat_alt)
  from assms(2,3) have n: "n1 = (M - e) div 4096 div 2 * 4096" "n2 = n1" "a1 = e" "a2 = e + n1"
    by (auto simp: region_three_def Let_def)
  have un: "unat n1 = (unat M - unat e) div 4096 div 2 * 4096" and le: "2 * unat n1 \<le> unat M - unat e"
    using block_floor [of 2 "M - e"] by (simp_all add: n(1) sub)
  show "n1 = n2" "a1 = e" by (simp_all add: n)
  show "unat n1 = (unat M - unat e) div 4096 div 2 * 4096" by (rule un)
  show "4096 dvd unat n1" by (simp add: un)
  show a2: "unat a2 = unat e + unat n1"
  proof -
    have "unat e + unat n1 < 4294967296" using le unat_lt_u32 [of M] assms(1) by linarith
    then show ?thesis unfolding n(4) by (subst unat_add_nowrap) simp_all
  qed
  show "unat a2 + unat n2 \<le> unat M" using le assms(1) by (simp add: a2 n(2))
qed

lemma region_two_slots:
  assumes "unat e \<le> unat M" and "region_two (std_params M) e 0 = (a1, n1)"
    and "region_two (std_params M) e 1 = (a2, n2)"
  shows "n1 = n2" and "4096 dvd unat n1" and "a1 = e" and "unat a2 = unat e + unat n1"
    and "unat a2 + unat n2 \<le> unat M" and "unat n1 = (unat M - unat e) div 4096 div 2 * 4096"
proof -
  have "region_three (std_params M) 3 e 1 = (a1, n1)" "region_three (std_params M) 3 e 2 = (a2, n2)"
    using assms(2,3) by (auto simp: region_two_def region_three_def Let_def)
  from region_three_slots [OF assms(1) this] show "n1 = n2" and "4096 dvd unat n1" and "a1 = e"
    and "unat a2 = unat e + unat n1" and "unat a2 + unat n2 \<le> unat M"
    and "unat n1 = (unat M - unat e) div 4096 div 2 * 4096" by blast+
qed

section \<open>The choice\<close>

lemma run_select_three:
  assumes "mem_ready P cells M s" and "FWD_SUPPORT_NUM s = 3"
    and "f = fwd_of (cells (world s)) 0" and "fwd_signature f = FW_UPGRADE_MAGIC_V1"
    and "total_images f \<noteq> 0" and "card (live_handles (partition_handles s)) < 9"
    and "e = ends_from f 0 (if entry_is_sbl f 0 then 0 else entry_end f 0)"
    and "cur = ti_current (trial_search 3 (desc cells s))"
    and "idx = (if cur = 0 then 1 else if cur = 1 then 2 else 1)"
  shows "\<exists>t. run_state (fw_upgrade_select_trial_fwd P) s = ((FW_UPGRADE_OK_E, Some idx,
      Some (fst (region_three (std_params M) 3 e idx)), Some (snd (region_three (std_params M) 3 e idx))), t)
    \<and> same_but_handles s t"
proof -
  obtain a u where fa: "run_state (fw_upgrade_get_first_programming_image_start_address P) s = (a, u)"
    "same_but_handles s u" using first_address_spec [OF assms(1)] by blast
  note u = same_but_handlesD [OF fa(2)]
  have mu: "mem_ready P cells M u" using assms(1) u(2) by blast
  obtain st where g: "run_state (fw_upgrade_get_trial_active_fwd_index P) u = ((st, trial_search 3 (desc cells s)), u)"
    using run_get_trial_active [OF mu] assms(2) u(1,3) by simp
  have fu: "f = desc cells u 0" using assms(3) by (simp add: u(1))
  obtain hs where en: "run_state (fw_upgrade_get_imageSet_end_addr P 0) u =
      ((FW_UPGRADE_OK_E, Some e), u\<lparr>partition_handles := hs\<rparr>)" "length hs = 10"
      "live_handles hs = live_handles (partition_handles u)"
    using run_imageSet_end [OF mu _ fu assms(4,5)] assms(6) unfolding u(6) assms(7) [symmetric] by auto
  have len: "length (partition_handles u) = 10"
    using mem_readyD(6) [OF mu] by (simp add: FW_UPGRADE_MAX_HANDLES_def)
  have "same_but_handles u (u\<lparr>partition_handles := hs\<rparr>)"
    using en(2,3) len unfolding same_but_handles_def by (intro exI [of _ hs]) simp
  then have "same_but_handles s (u\<lparr>partition_handles := hs\<rparr>)" using fa(2) same_but_handles_trans by blast
  moreover have "run_state (fw_upgrade_select_trial_fwd P) s = ((FW_UPGRADE_OK_E, Some idx,
      Some (fst (region_three (std_params M) 3 e idx)), Some (snd (region_three (std_params M) 3 e idx))),
      u\<lparr>partition_handles := hs\<rparr>)"
    unfolding assms(9)
    by (simp add: fw_upgrade_select_trial_fwd_def run_simps assms(2) run_mem_info [OF mem_readyD(5) [OF assms(1)]]
        fa(1) g en(1) assms(8) [symmetric] split: prod.splits)
  ultimately show ?thesis by blast
qed

text \<open>
  Where the images of a descriptor end and where one begins, the second boot loader left aside: it lives in
  a region of its own.
\<close>

definition images_end :: "fwd \<Rightarrow> nat" where
  "images_end f = Max (insert 0 ((\<lambda>i. unat (entry_end f i)) ` {i. present f i \<and> \<not> entry_is_sbl f i}))"

definition entry_begin :: "fwd \<Rightarrow> nat \<Rightarrow> u32" where
  "entry_begin f i = start_block (image_entries f ! i) * BLOCK_SIZE_IN_BYTES"

lemma finite_present: "finite {i. present f i \<and> \<not> entry_is_sbl f i}"
  by (rule finite_subset [of _ "{..<30}"]) (auto simp: present_def)

lemma entry_end_le_images: "present f i \<Longrightarrow> \<not> entry_is_sbl f i \<Longrightarrow> unat (entry_end f i) \<le> images_end f"
  unfolding images_end_def by (intro Max_ge) (auto simp: finite_present)

lemma ends_from_images_end: "unat (ends_from f 0 (if entry_is_sbl f 0 then 0 else entry_end f 0)) = images_end f"
proof -
  let ?a = "if entry_is_sbl f 0 then 0 else entry_end f 0"
  have p: "present f 0" by (simp add: present_def)
  have le: "unat (entry_end f i) \<le> unat (ends_from f 0 ?a)" if "present f i" "\<not> entry_is_sbl f i" for i
    using ends_from_ge(1) [of ?a f 0] ends_from_ge(2) [of 0 i f ?a] that
    by (cases "i = 0") (auto simp: word_le_nat_alt)
  have "unat (ends_from f 0 ?a) \<in> insert 0 ((\<lambda>i. unat (entry_end f i)) ` {i. present f i \<and> \<not> entry_is_sbl f i})"
    using ends_from_attained [OF p, of ?a] p by (cases "entry_is_sbl f 0") auto
  then show ?thesis
    unfolding images_end_def by (intro sym [OF Max_eqI]) (use le in \<open>auto simp: finite_present\<close>)
qed

text \<open>
  C33: with a golden image, the trial goes to the slot that does not run, in the flash behind the golden
  image. If the golden images end inside the flash, \<open>fw_upgrade_select_trial_fwd\<close> picks descriptor 2 if
  descriptor 1 runs and descriptor 1 otherwise. The flash from the end of the golden images on, less a rest of
  less than two blocks, is cut into two halves of whole blocks: the first is the region of descriptor 1, the
  second that of descriptor 2. Handles, flash and RRAM are left as they were.
\<close>

theorem select_trial_three:
  assumes "mem_ready P cells M s" and "FWD_SUPPORT_NUM s = 3"
    and "f = fwd_of (cells (world s)) 0" and "fwd_signature f = FW_UPGRADE_MAGIC_V1"
    and "total_images f \<noteq> 0" and "card (live_handles (partition_handles s)) < 9"
    and "images_end f \<le> unat M"
  shows "\<exists>st ts idx start sz t. run_state (fw_upgrade_get_trial_active_fwd_index P) s = ((st, ts), s)
      \<and> run_state (fw_upgrade_select_trial_fwd P) s = ((FW_UPGRADE_OK_E, Some idx, Some start, Some sz), t)
      \<and> idx = (if ti_current ts = 1 then 2 else 1) \<and> idx \<noteq> ti_current ts
      \<and> unat sz = (unat M - images_end f) div 4096 div 2 * 4096
      \<and> unat start = images_end f + (if idx = 1 then 0 else unat sz)
      \<and> unat start + unat sz \<le> unat M
      \<and> (\<forall>i. present f i \<and> \<not> entry_is_sbl f i \<longrightarrow> unat (entry_end f i) \<le> unat start)
      \<and> same_but_handles s t"
proof -
  let ?e = "ends_from f 0 (if entry_is_sbl f 0 then 0 else entry_end f 0)"
  let ?ts = "trial_search 3 (desc cells s)"
  define idx where "idx = (if ti_current ?ts = 0 then 1 else if ti_current ?ts = 1 then 2 else 1 :: u8)"
  have e: "unat ?e = images_end f" by (rule ends_from_images_end)
  obtain st where g: "run_state (fw_upgrade_get_trial_active_fwd_index P) s = ((st, ?ts), s)"
    using run_get_trial_active [OF assms(1)] assms(2) by simp
  obtain a1 a2 n1 n2 where r: "region_three (std_params M) 3 ?e 1 = (a1, n1)" "region_three (std_params M) 3 ?e 2 = (a2, n2)"
    by (metis prod.exhaust)
  note slots = region_three_slots [OF assms(7) [folded e] r, unfolded e]
  obtain t where t: "run_state (fw_upgrade_select_trial_fwd P) s = ((FW_UPGRADE_OK_E, Some idx,
      Some (if idx = 1 then a1 else a2), Some n1), t)" "same_but_handles s t"
    using run_select_three [OF assms(1-6) refl refl refl] r slots(1) unfolding idx_def by (auto split: if_splits)
  have idx: "idx = (if ti_current ?ts = 1 then 2 else 1)" "idx \<noteq> ti_current ?ts" by (auto simp: idx_def)
  have start: "unat (if idx = 1 then a1 else a2) = images_end f + (if idx = 1 then 0 else unat n1)"
    using slots(3,4) e by simp
  moreover have "unat (if idx = 1 then a1 else a2) + unat n1 \<le> unat M"
    using slots(1,3,4,5) e by auto
  moreover have "\<forall>i. present f i \<and> \<not> entry_is_sbl f i \<longrightarrow> unat (entry_end f i) \<le> unat (if idx = 1 then a1 else a2)"
    unfolding start using entry_end_le_images trans_le_add1 by blast
  ultimately show ?thesis
    using g t idx slots(6)
    by (intro exI [of _ st] exI [of _ ?ts] exI [of _ idx] exI [of _ "if idx = 1 then a1 else a2"] exI [of _ n1]
        exI [of _ t] conjI)
qed

text \<open>A golden image, a current firmware in slot 1 and an empty slot 2.\<close>

definition golden_state :: "sim_world mem_st" where
  "golden_state = sim_state
     [sample_fwd FW_UPGRADE_FWD_RANK_GOLDEN FW_UPGRADE_FWD_STATUS_VALID
        [\<lparr>image_id = 10, start_block = 3, total_blocks = 100, img_version = 1\<rparr>],
      sample_fwd 4 FW_UPGRADE_FWD_STATUS_VALID
        [\<lparr>image_id = 10, start_block = 103, total_blocks = 100, img_version = 2\<rparr>],
      sample_fwd 3 FW_UPGRADE_FWD_STATUS_INVALID []] [] 3"

lemma golden_state_facts:
  "mem_ready sim sim_flash 0x400000 golden_state" "FWD_SUPPORT_NUM golden_state = 3"
  "fwd_of (sim_flash (world golden_state)) 0 = sample_fwd FW_UPGRADE_FWD_RANK_GOLDEN FW_UPGRADE_FWD_STATUS_VALID
        [\<lparr>image_id = 10, start_block = 3, total_blocks = 100, img_version = 1\<rparr>]"
  "live_handles (partition_handles golden_state) = {}"
  unfolding golden_state_def
  by (rule sim_state_ready) (auto simp: desc_sim_state live_handles_def no_client_def nth_replicate)

lemma images_end_le: "(\<And>i. present f i \<Longrightarrow> \<not> entry_is_sbl f i \<Longrightarrow> unat (entry_end f i) \<le> n) \<Longrightarrow> images_end f \<le> n"
  unfolding images_end_def by (auto simp: finite_present)

text \<open>A descriptor whose second entry is unused has one image.\<close>

lemma present_first: "image_id (image_entries f ! 1) = FW_UPGRADE_FWD_IMAGE_UNUSED \<Longrightarrow> present f i \<Longrightarrow> i = 0"
  by (auto simp: present_def dest: spec [of _ 1])

lemma select_trial_three_witness:
  "\<exists>idx start sz t. run_state (fw_upgrade_select_trial_fwd sim) golden_state =
      ((FW_UPGRADE_OK_E, Some idx, Some start, Some sz), t)
    \<and> unat start + unat sz \<le> 0x400000 \<and> same_but_handles golden_state t"
proof -
  let ?f = "fwd_of (sim_flash (world golden_state)) 0"
  have "image_id (image_entries ?f ! 1) = FW_UPGRADE_FWD_IMAGE_UNUSED"
    by (simp add: golden_state_facts sample_fwd_def FW_UPGRADE_FWD_IMAGE_UNUSED_def)
  note only = present_first [OF this]
  have "images_end ?f \<le> unat (0x400000 :: u32)"
    by (intro images_end_le) (drule only, simp add: golden_state_facts entry_end_def sample_fwd_def fw_consts)
  moreover have "fwd_signature ?f = FW_UPGRADE_MAGIC_V1" "total_images ?f \<noteq> 0"
    by (simp_all add: golden_state_facts sample_fwd_def)
  ultimately show ?thesis
    using select_trial_three [OF golden_state_facts(1,2) refl] golden_state_facts(4)
    by (simp add: unat_arith_simps) meson
qed

text \<open>Without a golden image: the choice between the two halves of the flash.\<close>

lemma run_select_two:
  assumes "mem_ready P cells M s" and "FWD_SUPPORT_NUM s = 2"
    and "f = fwd_of (cells (world s)) 0" and "fwd_signature f = FW_UPGRADE_MAGIC_V1"
    and "total_images f \<noteq> 0" and "card (live_handles (partition_handles s)) < 9"
    and "e = ends_from f 0 (if entry_is_sbl f 0 then 0 else entry_end f 0)"
    and "idx = (if ti_current (trial_search 2 (desc cells s)) = 0 then 1 else 0)"
    and "run_state (fw_upgrade_get_first_programming_image_start_address P) s = (a, u)"
    and "region_two (std_params M) a idx = (b, n)"
  shows "\<exists>t. run_state (fw_upgrade_select_trial_fwd P) s = ((FW_UPGRADE_OK_E, Some idx,
      Some (if idx = 1 \<and> b < e then e else b), Some (if idx = 1 \<and> b < e then n - (e - b) else n)), t)
    \<and> same_but_handles s t"
proof -
  have su: "same_but_handles s u" using first_address_spec [OF assms(1)] assms(9) by auto
  note u = same_but_handlesD [OF su]
  have mu: "mem_ready P cells M u" using assms(1) u(2) by blast
  obtain st where g: "run_state (fw_upgrade_get_trial_active_fwd_index P) u = ((st, trial_search 2 (desc cells s)), u)"
    using run_get_trial_active [OF mu] assms(2) u(1,3) by simp
  have fu: "f = desc cells u 0" using assms(3) by (simp add: u(1))
  obtain hs where en: "run_state (fw_upgrade_get_imageSet_end_addr P 0) u =
      ((FW_UPGRADE_OK_E, Some e), u\<lparr>partition_handles := hs\<rparr>)" "length hs = 10"
      "live_handles hs = live_handles (partition_handles u)"
    using run_imageSet_end [OF mu _ fu assms(4,5)] assms(6) unfolding u(6) assms(7) [symmetric] by auto
  have len: "length (partition_handles u) = 10"
    using mem_readyD(6) [OF mu] by (simp add: FW_UPGRADE_MAX_HANDLES_def)
  have "same_but_handles u (u\<lparr>partition_handles := hs\<rparr>)"
    using en(2,3) len unfolding same_but_handles_def by (intro exI [of _ hs]) simp
  then have st: "same_but_handles s (u\<lparr>partition_handles := hs\<rparr>)" using su same_but_handles_trans by blast
  note run = fw_upgrade_select_trial_fwd_def run_simps assms(2,9,10) run_mem_info [OF mem_readyD(5) [OF assms(1)]] g en(1)
  show ?thesis
  proof (cases "idx = 1")
    case True
    then have "ti_current (trial_search 2 (desc cells s)) = 0" using assms(8) by (auto split: if_splits)
    with True assms(10) st show ?thesis
      by (intro exI [of _ "u\<lparr>partition_handles := hs\<rparr>"]) (simp add: run)
  next
    case False
    then have "ti_current (trial_search 2 (desc cells s)) \<noteq> 0" "idx = 0" using assms(8) by (auto split: if_splits)
    with assms(10) su show ?thesis by (intro exI [of _ u]) (simp add: run)
  qed
qed

text \<open>
  C34: without a golden image the flash behind the reserved images is cut into two halves, and the trial goes
  to the half that does not run. If the reserved images end at \<open>a\<close> inside the flash, those of descriptor 0 end
  before the second half does and those of descriptor 1 begin in it, the region \<open>fw_upgrade_select_trial_fwd\<close>
  returns is the first half, or the second from its start or the end of descriptor 0 on, whichever comes later.
  It lies inside the flash and meets no image of the other descriptor, which keeps running.
\<close>

theorem select_trial_two:
  assumes "mem_ready P cells M s" and "FWD_SUPPORT_NUM s = 2"
    and "f = fwd_of (cells (world s)) 0" and "fwd_signature f = FW_UPGRADE_MAGIC_V1"
    and "total_images f \<noteq> 0" and "card (live_handles (partition_handles s)) < 9"
    and "run_state (fw_upgrade_get_first_programming_image_start_address P) s = (a, u)"
    and "unat a \<le> unat M" and "half = (unat M - unat a) div 4096 div 2 * 4096"
    and "images_end f \<le> unat a + half + half"
    and "\<And>i. present (fwd_of (cells (world s)) 1) i \<Longrightarrow> \<not> entry_is_sbl (fwd_of (cells (world s)) 1) i \<Longrightarrow>
      unat a + half \<le> unat (entry_begin (fwd_of (cells (world s)) 1) i)"
  shows "\<exists>st ts idx start sz t. run_state (fw_upgrade_get_trial_active_fwd_index P) s = ((st, ts), s)
      \<and> run_state (fw_upgrade_select_trial_fwd P) s = ((FW_UPGRADE_OK_E, Some idx, Some start, Some sz), t)
      \<and> idx = (if ti_current ts = 0 then 1 else 0)
      \<and> unat start = (if idx = 0 then unat a else max (unat a + half) (images_end f))
      \<and> unat start + unat sz = unat a + (if idx = 0 then half else half + half)
      \<and> unat start + unat sz \<le> unat M
      \<and> (\<forall>i. present (fwd_of (cells (world s)) (unat (1 - idx))) i \<and>
             \<not> entry_is_sbl (fwd_of (cells (world s)) (unat (1 - idx))) i \<longrightarrow>
           unat (entry_end (fwd_of (cells (world s)) (unat (1 - idx))) i) \<le> unat start \<or>
           unat start + unat sz \<le> unat (entry_begin (fwd_of (cells (world s)) (unat (1 - idx))) i))
      \<and> same_but_handles s t"
proof -
  let ?e = "ends_from f 0 (if entry_is_sbl f 0 then 0 else entry_end f 0)"
  let ?ts = "trial_search 2 (desc cells s)"
  obtain b0 n0 b n where r: "region_two (std_params M) a 0 = (b0, n0)" "region_two (std_params M) a 1 = (b, n)"
    by (metis prod.exhaust)
  note slots = region_two_slots [OF assms(8) r]
  have half: "unat n = half" "unat b = unat a + half" "unat n0 = half" "unat a + half + half \<le> unat M"
    using slots assms(9) by auto
  have e: "unat ?e = images_end f" by (rule ends_from_images_end)
  obtain st where g: "run_state (fw_upgrade_get_trial_active_fwd_index P) s = ((st, ?ts), s)"
    using run_get_trial_active [OF assms(1)] assms(2) by simp
  note sel = run_select_two [OF assms(1-6) refl refl assms(7)]
  show ?thesis
  proof (cases "ti_current ?ts = 0")
    case True
    let ?start = "if b < ?e then ?e else b" and ?sz = "if b < ?e then n - (?e - b) else n"
    obtain t where t: "run_state (fw_upgrade_select_trial_fwd P) s =
        ((FW_UPGRADE_OK_E, Some 1, Some ?start, Some ?sz), t)" "same_but_handles s t"
      using sel [of b n] True r by auto
    have lt: "unat (n - (?e - b)) = unat n - (unat ?e - unat b)" if "b < ?e"
    proof -
      have "unat (?e - b) = unat ?e - unat b" using that by (simp add: unat_sub)
      with assms(10) half e show ?thesis by (subst unat_sub) (simp_all add: word_le_nat_alt)
    qed
    have start: "unat ?start = max (unat a + half) (images_end f)" "unat ?start + unat ?sz = unat a + half + half"
      using half e lt assms(10) by (auto simp: word_less_nat_alt)
    have "\<forall>i. present f i \<and> \<not> entry_is_sbl f i \<longrightarrow> unat (entry_end f i) \<le> unat ?start"
      unfolding start(1) using entry_end_le_images max.coboundedI2 by blast
    then show ?thesis
      using start half(4) assms(3) g t
      by (intro exI [of _ st] exI [of _ ?ts] exI [of _ "1 :: u8"] exI [of _ ?start] exI [of _ ?sz] exI [of _ t] conjI)
        (use True in \<open>simp_all split del: if_split\<close>)
  next
    case False
    obtain t where t: "run_state (fw_upgrade_select_trial_fwd P) s = ((FW_UPGRADE_OK_E, Some 0, Some b0, Some n0), t)"
        "same_but_handles s t"
      using sel [of b0 n0] False r by auto
    show ?thesis
      using g t False slots half assms(11)
      by (intro exI [of _ st] exI [of _ ?ts] exI [of _ "0 :: u8"] exI [of _ b0] exI [of _ n0] exI [of _ t]) auto
  qed
qed

lemma select_trial_two_witness:
  "\<exists>idx start sz t. run_state (fw_upgrade_select_trial_fwd sim) trial_state =
      ((FW_UPGRADE_OK_E, Some idx, Some start, Some sz), t)
    \<and> unat start + unat sz \<le> 0x400000 \<and> same_but_handles trial_state t"
proof -
  have m: "mem_ready sim sim_flash 0x400000 trial_state" and n: "FWD_SUPPORT_NUM trial_state = 2"
    unfolding trial_state_def by (rule sim_state_ready) simp
  let ?f = "fwd_of (sim_flash (world trial_state)) 0"
  have f: "?f = sample_fwd 5 FW_UPGRADE_FWD_STATUS_VALID
        [\<lparr>image_id = 10, start_block = 3, total_blocks = 100, img_version = 1\<rparr>]"
    and l: "live_handles (partition_handles trial_state) = {}"
    unfolding trial_state_def by (auto simp: desc_sim_state live_handles_def no_client_def nth_replicate)
  have app: "\<exists>x y. run_state (fw_upgrade_get_active_fwd sim False False) trial_state = ((1, x, y), trial_state)"
    by (simp add: fw_upgrade_get_active_fwd_def run_simps fdt_valid_def find_fde_def trial_state_def fdt_sim_state
        sample_fde_def fde_wf_def fde_consts fw_consts)
  have f1: "fwd_of (sim_flash (world trial_state)) (Suc 0) = sample_fwd FW_UPGRADE_FWD_RANK_TRIAL FW_UPGRADE_FWD_STATUS_VALID
        [\<lparr>image_id = 10, start_block = 520, total_blocks = 100, img_version = 2\<rparr>]"
    unfolding trial_state_def by (simp add: desc_sim_state)
  have none: "find_entry (fwd_of (sim_flash (world trial_state)) 1) iid = None" if "iid \<noteq> 10" "iid \<noteq> 0xFFFFFFFF" for iid
    using that by (auto simp: find_entry_None f1 sample_fwd_def nth_Cons')
  have no_handle: "run_state (past_image sim 1 iid acc) trial_state = (acc, trial_state)" if "iid \<noteq> 10" "iid \<noteq> 0xFFFFFFFF" for iid acc
    using none [OF that] run_find_partition [OF m, of 1 iid]
    by (cases "free_handle (partition_handles trial_state)") (simp_all add: past_image_def run_simps)
  have fst: "run_state (fw_upgrade_get_first_programming_image_start_address sim) trial_state = (0x3000, trial_state)"
    using app by (auto simp: fw_upgrade_get_first_programming_image_start_address_def run_simps no_handle
        run_mem_info [OF mem_readyD(5) [OF m]] fw_consts)
  have one: "image_id (image_entries ?f ! 1) = FW_UPGRADE_FWD_IMAGE_UNUSED"
      "image_id (image_entries (fwd_of (sim_flash (world trial_state)) 1) ! 1) = FW_UPGRADE_FWD_IMAGE_UNUSED"
    by (simp_all add: f f1 sample_fwd_def FW_UPGRADE_FWD_IMAGE_UNUSED_def)
  have ends: "images_end ?f \<le> 0x201000"
    by (intro images_end_le) (drule present_first [OF one(1)], simp add: f entry_end_def sample_fwd_def fw_consts)
  have begins: "0x201000 \<le> unat (entry_begin (fwd_of (sim_flash (world trial_state)) 1) i)"
    if "present (fwd_of (sim_flash (world trial_state)) 1) i" for i
    using present_first [OF one(2) that] by (simp add: f1 entry_begin_def sample_fwd_def fw_consts)
  have sig: "fwd_signature ?f = FW_UPGRADE_MAGIC_V1" "total_images ?f \<noteq> 0" by (simp_all add: f sample_fwd_def)
  have half: "(0x1FE000 :: nat) = (unat (0x400000 :: u32) - unat (0x3000 :: u32)) div 4096 div 2 * 4096" by simp
  show ?thesis
    using select_trial_two [OF m n refl sig _ fst _ half] l ends begins by simp meson
qed

end
