(* ===== verification/Fw_Session_Types.thy ===== *)
theory Fw_Session_Types
  imports Fw_Trial
begin

text \<open>
  \<open>src/common/mcumgr_qcom/include/fw_upgrade.h\<close> and the head of \<open>src/fw_upgrade.c\<close>: the session's
  context, the image headers of a configuration file, the globals of the session, and the accessors.
\<close>

section \<open>Enumerations\<close>

datatype session_status =
    FW_UPGRADE_SESSION_NOT_START_E
  | FW_UPGRADE_SESSION_RUNNING_E
  | FW_UPGRADE_SESSION_SUSPEND_E
  | FW_UPGRADE_SESSION_CANCEL_E
  | FW_UPGRADE_SESSION_ERROR_E

text \<open>\<open>FW_UPGRADE_STATE_CONNECT_E\<close> is a second name of \<open>FW_UPGRADE_STATE_CONNECT_SERVER_E\<close>.\<close>

datatype (plugins only: code) upgrade_state =
    FW_UPGRADE_STATE_NOT_START_E
  | FW_UPGRADE_STATE_GET_TRIAL_INFO_E
  | FW_UPGRADE_STATE_ERASE_FWD_E
  | FW_UPGRADE_STATE_ERASE_FLASH_E
  | FW_UPGRADE_STATE_ERASE_SECOND_FS_E
  | FW_UPGRADE_STATE_PREPARE_FS_E
  | FW_UPGRADE_STATE_ERASE_IMAGE_E
  | FW_UPGRADE_STATE_PREPARE_CONNECT_E
  | FW_UPGRADE_STATE_CONNECT_E
  | FW_UPGRADE_STATE_RESUME_SERVICE_E
  | FW_UPGRADE_STATE_RESUME_SERVER_E
  | FW_UPGRADE_STATE_RECEIVE_DATA_E
  | FW_UPGRADE_STATE_DISCONNECT_SERVER_E
  | FW_UPGRADE_STATE_PROCESS_CONFIG_FILE_E
  | FW_UPGRADE_STATE_PROCESS_IMAGE_E
  | FW_UPGRADE_STATE_DUPLICATE_IMAGES_E
  | FW_UPGRADE_STATE_DUPLICATE_FS_E
  | FW_UPGRADE_STATE_FINISH_E

section \<open>Structures\<close>

definition FW_UPGRADE_BUF_SIZE :: u32 where "FW_UPGRADE_BUF_SIZE = 2048"
definition FW_UPGRADE_HASH_LEN :: nat where "FW_UPGRADE_HASH_LEN = 32"
definition FW_UPGRADE_MAX_IMAGES_NUM :: nat where "FW_UPGRADE_MAX_IMAGES_NUM = 30"
definition FW_UPGRADE_FORAMT_PARTIAL_UPGRADE :: u32 where "FW_UPGRADE_FORAMT_PARTIAL_UPGRADE = 1"
definition FW_UPGRADE_FLAG_AUTO_REBOOT :: u32 where "FW_UPGRADE_FLAG_AUTO_REBOOT = 1"
definition FW_UPGRADE_FLAG_DUPLICATE_ACTIVE_FS :: u32 where "FW_UPGRADE_FLAG_DUPLICATE_ACTIVE_FS = 2"

lemmas session_consts =
  FW_UPGRADE_BUF_SIZE_def FW_UPGRADE_HASH_LEN_def FW_UPGRADE_MAX_IMAGES_NUM_def
  FW_UPGRADE_FORAMT_PARTIAL_UPGRADE_def FW_UPGRADE_FLAG_AUTO_REBOOT_def
  FW_UPGRADE_FLAG_DUPLICATE_ACTIVE_FS_def

record imageSet_hdr =
  is_magic :: u32
  is_version :: u32
  is_format :: u32
  is_length :: u32
  num_images :: u8

record image_hdr =
  ih_magic :: u32
  ih_image_id :: u32
  ih_version :: u32
  image_file :: bytes
  disk_size :: u32
  image_length :: u32
  hash_type :: u32
  ih_hash :: bytes

text \<open>Both structures are packed: 17 and 184 bytes.\<close>

definition sizeof_imageSet_hdr :: u32 where "sizeof_imageSet_hdr = 17"
definition sizeof_image_hdr :: u32 where "sizeof_image_hdr = 184"

definition dec_imageSet_hdr :: "bytes \<Rightarrow> imageSet_hdr" where
  "dec_imageSet_hdr bs = \<lparr>is_magic = le32_at bs 0, is_version = le32_at bs 4, is_format = le32_at bs 8,
     is_length = le32_at bs 12, num_images = bs ! 16\<rparr>"

definition enc_imageSet_hdr :: "imageSet_hdr \<Rightarrow> bytes" where
  "enc_imageSet_hdr h = bytes_le32 (is_magic h) @ bytes_le32 (is_version h) @ bytes_le32 (is_format h)
     @ bytes_le32 (is_length h) @ [num_images h]"

definition dec_image_hdr :: "bytes \<Rightarrow> image_hdr" where
  "dec_image_hdr bs = \<lparr>ih_magic = le32_at bs 0, ih_image_id = le32_at bs 4, ih_version = le32_at bs 8,
     image_file = take 128 (drop 12 bs), disk_size = le32_at bs 140, image_length = le32_at bs 144,
     hash_type = le32_at bs 148, ih_hash = take 32 (drop 152 bs)\<rparr>"

definition enc_image_hdr :: "image_hdr \<Rightarrow> bytes" where
  "enc_image_hdr h = bytes_le32 (ih_magic h) @ bytes_le32 (ih_image_id h) @ bytes_le32 (ih_version h)
     @ image_file h @ bytes_le32 (disk_size h) @ bytes_le32 (image_length h)
     @ bytes_le32 (hash_type h) @ ih_hash h"

definition image_hdr_wf :: "image_hdr \<Rightarrow> bool" where
  "image_hdr_wf h \<longleftrightarrow> length (image_file h) = 128 \<and> length (ih_hash h) = 32"

lemma dec_enc_imageSet_hdr [simp]: "dec_imageSet_hdr (enc_imageSet_hdr h) = h"
  by (simp add: dec_imageSet_hdr_def enc_imageSet_hdr_def le32_at_Suc le32_at_def nth_append)

lemma length_enc_imageSet_hdr [simp]: "length (enc_imageSet_hdr h) = 17"
  by (simp add: enc_imageSet_hdr_def)

interpretation imageSet_hdr_codec: codec enc_imageSet_hdr dec_imageSet_hdr 17 "\<lambda>_. True"
  by unfold_locales simp_all

lemma length_enc_image_hdr [simp]: "image_hdr_wf h \<Longrightarrow> length (enc_image_hdr h) = 184"
  by (simp add: enc_image_hdr_def image_hdr_wf_def)

lemma dec_enc_image_hdr: "image_hdr_wf h \<Longrightarrow> dec_image_hdr (enc_image_hdr h) = h"
  by (simp add: dec_image_hdr_def enc_image_hdr_def image_hdr_wf_def le32_at_Suc le32_at_def)

interpretation image_hdr_codec: codec enc_image_hdr dec_image_hdr 184 image_hdr_wf
  by unfold_locales (simp_all add: dec_enc_image_hdr)

record upgrade_context =
  error_code :: fw_status
  is_first :: u8
  buf_len :: u32
  buf_offset :: u32
  image_index :: u32
  image_wrt_count :: u32
  image_wrt_length :: u32
  cxt_total_images :: u32
  file_read_count :: u32
  hidden_images_count :: u32
  upgrade_state :: upgrade_state
  session_status :: session_status
  download_flag :: "u8 list"
  cxt_flags :: u32
  cxt_format :: u32
  trial_mem_start :: u32
  trial_mem_size :: u32
  trial_fwd_idx :: u8
  trial_sbl_start :: u32
  trial_sbl_size :: u32
  trial_sbl_idx :: u32
  tmp_buffer :: bool
  partition_hdl :: hdl
  digest_ctx :: "bytes option"
  config_buf :: "bytes option"

text \<open>
  \<open>tmp_buffer\<close> is only allocated and freed; \<open>digest_ctx\<close> holds the bytes given to the hash since its
  last start, the message whose digest \<open>mbedtls_sha256_finish\<close> returns. \<open>None\<close> is the null pointer.
\<close>

definition zero_context :: upgrade_context where
  "zero_context = \<lparr>error_code = FW_UPGRADE_OK_E, is_first = 0, buf_len = 0, buf_offset = 0,
     image_index = 0, image_wrt_count = 0, image_wrt_length = 0, cxt_total_images = 0,
     file_read_count = 0, hidden_images_count = 0, upgrade_state = FW_UPGRADE_STATE_NOT_START_E,
     session_status = FW_UPGRADE_SESSION_NOT_START_E, download_flag = replicate 30 0, cxt_flags = 0,
     cxt_format = 0, trial_mem_start = 0, trial_mem_size = 0, trial_fwd_idx = 0, trial_sbl_start = 0,
     trial_sbl_size = 0, trial_sbl_idx = 0, tmp_buffer = False, partition_hdl = None,
     digest_ctx = None, config_buf = None\<rparr>"

text \<open>The globals of \<open>fw_upgrade.c\<close>; \<open>reset_scheduled\<close> is the pending \<open>fw_upgrade_reset_work\<close>.\<close>

record 'd session_st = "'d mem_st" +
  sess_cxt :: "upgrade_context option"
  image_hdrs :: "image_hdr list option"
  mutex_init :: bool
  reset_scheduled :: bool

section \<open>Accessors\<close>

text \<open>\<open>fw_upgrade_cxt->f\<close>; through null it faults.\<close>

definition cxt :: "(('d, 'z) session_st_scheme, upgrade_context) state" where
  "cxt = do {
     c \<leftarrow> gets sess_cxt;
     case c of Some c \<Rightarrow> State_Monad.return c
     | None \<Rightarrow> do { fault; State_Monad.return zero_context }
   }"

definition upd_cxt :: "(upgrade_context \<Rightarrow> upgrade_context) \<Rightarrow> (('d, 'z) session_st_scheme, unit) state" where
  "upd_cxt f = do {
     c \<leftarrow> gets sess_cxt;
     case c of Some c \<Rightarrow> modify (\<lambda>s. s\<lparr>sess_cxt := Some (f c)\<rparr>)
     | None \<Rightarrow> fault
   }"

text \<open>
  The setter asserts a context before it checks for one; the assertion is compiled out of a release.
\<close>

definition fw_upgrade_set_state :: "upgrade_state \<Rightarrow> (('d, 'z) session_st_scheme, unit) state" where
  "fw_upgrade_set_state st =
     modify (\<lambda>s. s\<lparr>sess_cxt := map_option (\<lambda>c. c\<lparr>upgrade_state := st\<rparr>) (sess_cxt s)\<rparr>)"

definition fw_upgrade_get_state :: "(('d, 'z) session_st_scheme, upgrade_state) state" where
  "fw_upgrade_get_state = gets (\<lambda>s. if \<not> mutex_init s then FW_UPGRADE_STATE_NOT_START_E
     else case sess_cxt s of None \<Rightarrow> FW_UPGRADE_STATE_NOT_START_E | Some c \<Rightarrow> upgrade_state c)"

definition fw_upgrade_get_session_status :: "(('d, 'z) session_st_scheme, session_status) state" where
  "fw_upgrade_get_session_status = gets (\<lambda>s. if \<not> mutex_init s then FW_UPGRADE_SESSION_NOT_START_E
     else case sess_cxt s of None \<Rightarrow> FW_UPGRADE_SESSION_NOT_START_E | Some c \<Rightarrow> session_status c)"

definition fw_upgrade_set_session_status :: "session_status \<Rightarrow> (('d, 'z) session_st_scheme, fw_status) state" where
  "fw_upgrade_set_session_status st = do {
     m \<leftarrow> gets mutex_init;
     c \<leftarrow> gets sess_cxt;
     if \<not> m \<or> c = None then State_Monad.return FW_UPGRADE_ERR_SESSION_NOT_START_E
     else do { upd_cxt (\<lambda>c. c\<lparr>session_status := st\<rparr>); State_Monad.return FW_UPGRADE_OK_E }
   }"

definition fw_upgrade_set_error_code :: "fw_status \<Rightarrow> (('d, 'z) session_st_scheme, unit) state" where
  "fw_upgrade_set_error_code e =
     modify (\<lambda>s. s\<lparr>sess_cxt := map_option (\<lambda>c. c\<lparr>error_code := e\<rparr>) (sess_cxt s)\<rparr>)"

text \<open>The message digest calls on \<open>fw_upgrade_cxt->digest_ctx\<close>.\<close>

definition digest_start :: "(('d, 'z) session_st_scheme, unit) state" where
  "digest_start = do {
     c \<leftarrow> cxt;
     if digest_ctx c = None then fault else upd_cxt (\<lambda>c. c\<lparr>digest_ctx := Some []\<rparr>)
   }"

definition digest_update :: "bytes \<Rightarrow> (('d, 'z) session_st_scheme, unit) state" where
  "digest_update bs = do {
     c \<leftarrow> cxt;
     case digest_ctx c of None \<Rightarrow> fault | Some m \<Rightarrow> upd_cxt (\<lambda>c. c\<lparr>digest_ctx := Some (m @ bs)\<rparr>)
   }"

definition digest_finish :: "'d platform \<Rightarrow> (('d, 'z) session_st_scheme, bytes) state" where
  "digest_finish P = do {
     c \<leftarrow> cxt;
     case digest_ctx c of
       None \<Rightarrow> do { fault; State_Monad.return [] }
     | Some m \<Rightarrow> State_Monad.return (sha256 P m)
   }"

text \<open>
  \<open>fw_upgrade_get_mem_block_size(&block_size)\<close> with its status ignored: if it fails, the caller goes on
  with an uninitialised local.
\<close>

definition get_block_size :: "(('d, 'z) session_st_scheme, u32) state" where
  "get_block_size = do {
     (_, b) \<leftarrow> fw_upgrade_get_mem_block_size;
     case b of Some n \<Rightarrow> State_Monad.return n | None \<Rightarrow> do { fault; State_Monad.return 0 }
   }"

definition image_hdr_at :: "nat \<Rightarrow> (('d, 'z) session_st_scheme, image_hdr) state" where
  "image_hdr_at i = do {
     hs \<leftarrow> gets image_hdrs;
     case hs of
       Some hs \<Rightarrow> if i < length hs then State_Monad.return (hs ! i)
                   else do { fault; State_Monad.return (dec_image_hdr []) }
     | None \<Rightarrow> do { fault; State_Monad.return (dec_image_hdr []) }
   }"

end
