(* ===== verification/Fw_Session.thy ===== *)
theory Fw_Session
  imports Fw_Session_Types
begin

text \<open>
  \<open>src/common/mcumgr_qcom/src/fw_upgrade.c\<close>: opening, suspending, closing and finishing an upgrade session.
\<close>

section \<open>Closing\<close>

text \<open>
  \<open>fw_upgrade_session_fin\<close>. The test of \<open>fw_upgrade_sess_cxt->tmp_buffer\<close> is not guarded by a test of the
  pointer: without a context it faults.
\<close>

definition fw_upgrade_session_fin :: "(('d, 'z) session_st_scheme, fw_status) state" where
  "fw_upgrade_session_fin = do {
     c \<leftarrow> gets sess_cxt;
     when_m (c \<noteq> None) (upd_cxt (\<lambda>c. c\<lparr>config_buf := None\<rparr>));
     upd_cxt (\<lambda>c. c\<lparr>tmp_buffer := False\<rparr>);
     modify (\<lambda>s. s\<lparr>image_hdrs := None\<rparr>);
     c \<leftarrow> gets sess_cxt;
     case c of
       None \<Rightarrow> State_Monad.return FW_UPGRADE_OK_E
     | Some c \<Rightarrow> do {
         when_m (partition_hdl c \<noteq> None) (release (partition_hdl c));
         modify (\<lambda>s. s\<lparr>sess_cxt := None\<rparr>);
         State_Monad.return FW_UPGRADE_OK_E
       }
   }"

definition fw_upgrade_session_prepare_suspend :: "(('d, 'z) session_st_scheme, fw_status) state" where
  "fw_upgrade_session_prepare_suspend = do {
     c \<leftarrow> gets sess_cxt;
     case c of
       None \<Rightarrow> State_Monad.return FW_UPGRADE_OK_E
     | Some c \<Rightarrow> do {
         when_m (partition_hdl c \<noteq> None) (release (partition_hdl c));
         upd_cxt (\<lambda>c. c\<lparr>partition_hdl := None, digest_ctx := None\<rparr>);
         State_Monad.return FW_UPGRADE_OK_E
       }
   }"

section \<open>Opening\<close>

text \<open>The label \<open>session_init_end\<close>.\<close>

definition session_init_end :: "fw_status \<Rightarrow> (('d, 'z) session_st_scheme, fw_status) state" where
  "session_init_end ret = do {
     fw_upgrade_set_error_code ret;
     _ \<leftarrow> fw_upgrade_session_fin;
     State_Monad.return ret
   }"

text \<open>The assignments of the default settings.\<close>

definition default_context :: "upgrade_context \<Rightarrow> upgrade_context" where
  "default_context c = c\<lparr>partition_hdl := None,
     cxt_flags := FW_UPGRADE_FLAG_AUTO_REBOOT OR FW_UPGRADE_FLAG_DUPLICATE_ACTIVE_FS,
     is_first := 1, cxt_format := 1, buf_len := 0, buf_offset := 0, file_read_count := 0,
     image_index := 0, image_wrt_count := 0, image_wrt_length := 0, cxt_total_images := 0,
     hidden_images_count := 0, config_buf := None, download_flag := replicate 30 1\<rparr>"

text \<open>
  \<open>fw_upgrade_session_init\<close>. A context left by an earlier session is cleared but for its two buffers;
  the handle it may still hold is not released. The sizes of the allocations are those of the
  structures, which only the allocator sees.
\<close>

definition fw_upgrade_session_init :: "'d platform \<Rightarrow> (('d, 'z) session_st_scheme, fw_status) state" where
  "fw_upgrade_session_init P = do {
     r \<leftarrow> fw_upgrade_init P;
     if r \<noteq> FW_UPGRADE_OK_E then session_init_end FW_UPGRADE_ERR_FLASH_INIT_TIMEOUT_E
     else do {
       modify (\<lambda>s. s\<lparr>mutex_init := True\<rparr>);
       old \<leftarrow> gets sess_cxt;
       ok \<leftarrow> (case old of
         None \<Rightarrow> do {
           ok \<leftarrow> malloc P 156;
           when_m ok (modify (\<lambda>s. s\<lparr>sess_cxt := Some zero_context\<rparr>));
           State_Monad.return ok }
       | Some c \<Rightarrow> do {
           modify (\<lambda>s. s\<lparr>sess_cxt := Some (zero_context\<lparr>tmp_buffer := tmp_buffer c, digest_ctx := digest_ctx c\<rparr>)\<rparr>);
           State_Monad.return True });
       if \<not> ok then session_init_end FW_UPGRADE_ERR_INSUFFICIENT_MEMORY_E
       else do {
         c \<leftarrow> cxt;
         ok \<leftarrow> (if \<not> tmp_buffer c then malloc P (unat FW_UPGRADE_BUF_SIZE) else State_Monad.return True);
         if \<not> ok then do {
           modify (\<lambda>s. s\<lparr>sess_cxt := None\<rparr>);
           State_Monad.return FW_UPGRADE_ERR_INSUFFICIENT_MEMORY_E
         } else do {
           upd_cxt (\<lambda>c. c\<lparr>tmp_buffer := True\<rparr>);
           fw_upgrade_set_state FW_UPGRADE_STATE_NOT_START_E;
           _ \<leftarrow> fw_upgrade_set_session_status FW_UPGRADE_SESSION_RUNNING_E;
           fw_upgrade_set_error_code FW_UPGRADE_OK_E;
           upd_cxt default_context;
           c \<leftarrow> cxt;
           ok \<leftarrow> (if digest_ctx c = None then malloc P 112 else State_Monad.return True);
           if \<not> ok then session_init_end FW_UPGRADE_ERR_INSUFFICIENT_MEMORY_E
           else do {
             upd_cxt (\<lambda>c. c\<lparr>digest_ctx := Some []\<rparr>);
             digest_start;
             _ \<leftarrow> fw_upgrade_set_session_status FW_UPGRADE_SESSION_RUNNING_E;
             State_Monad.return FW_UPGRADE_OK_E
           }
         }
       }
     }
   }"

section \<open>Finishing\<close>

text \<open>
  The "everything is good" block: the trial descriptor becomes valid, and if it has an SBL image, its
  slot in the descriptor table goes on trial. The handle of that image is not released.
\<close>

definition finalize_valid :: "'d platform \<Rightarrow> (('d, 'z) session_st_scheme, unit) state" where
  "finalize_valid P = do {
     c \<leftarrow> cxt;
     _ \<leftarrow> fw_upgrade_set_fwd_info P (trial_fwd_idx c) FW_UPGRADE_FWD_STATUS_E [FW_UPGRADE_FWD_STATUS_VALID];
     (resp, h) \<leftarrow> fw_upgrade_find_partition P (trial_fwd_idx c) SBL_IMG_ID;
     if resp = FW_UPGRADE_OK_E then do {
       p \<leftarrow> hdl_get h;
       _ \<leftarrow> fw_upgrade_set_sbl_trial_fde P (trial_sbl_idx c) (client_version p);
       State_Monad.return ()
     } else State_Monad.return ()
   }"

definition fw_upgrade_session_finalize ::
  "'d platform \<Rightarrow> fw_status \<Rightarrow> (('d, 'z) session_st_scheme, fw_status) state" where
  "fw_upgrade_session_finalize P ret0 = do {
     c \<leftarrow> gets sess_cxt;
     if c = None then State_Monad.return FW_UPGRADE_ERR_SESSION_NOT_START_E
     else do {
       ss \<leftarrow> fw_upgrade_get_session_status;
       st \<leftarrow> fw_upgrade_get_state;
       let ret = (if ss = FW_UPGRADE_SESSION_CANCEL_E then FW_UPGRADE_ERR_SESSION_CANCELLED_E
                  else if ret0 = FW_UPGRADE_OK_E \<and> st \<noteq> FW_UPGRADE_STATE_FINISH_E
                  then FW_UPGRADE_ERR_INCOMPLETE_E else ret0);
       fw_upgrade_set_error_code ret;
       when_m (ret = FW_UPGRADE_OK_E \<and> st = FW_UPGRADE_STATE_FINISH_E) (finalize_valid P);
       ss \<leftarrow> fw_upgrade_get_session_status;
       if ss = FW_UPGRADE_SESSION_SUSPEND_E then do {
         _ \<leftarrow> fw_upgrade_session_prepare_suspend;
         State_Monad.return FW_UPGRADE_ERR_SESSION_SUSPEND_E
       } else do {
         c \<leftarrow> cxt;
         _ \<leftarrow> fw_upgrade_session_fin;
         when_m (cxt_flags c AND FW_UPGRADE_FLAG_AUTO_REBOOT \<noteq> 0)
           (modify (\<lambda>s. s\<lparr>reset_scheduled := True\<rparr>));
         State_Monad.return ret
       }
     }
   }"

definition fw_upgrade_session_done :: "'d platform \<Rightarrow> u32 \<Rightarrow> (('d, 'z) session_st_scheme, fw_status) state" where
  "fw_upgrade_session_done P result = do {
     (ret, t) \<leftarrow> fw_upgrade_get_trial_active_fwd_index P;
     if ret = FW_UPGRADE_OK_E then do {
       r \<leftarrow> (if result \<noteq> 0 then fw_upgrade_accept_trial_fwd P else fw_upgrade_reject_trial_fwd P);
       State_Monad.return (if r = FW_UPGRADE_OK_E then FW_UPGRADE_OK_E else FW_UPGRADE_ERROR_E)
     } else State_Monad.return FW_UPGRADE_ERROR_E
   }"

end
