(* ===== verification/Fw_Config.thy ===== *)
theory Fw_Config
  imports Fw_Session
begin

text \<open>
  \<open>fw_upgrade_process_config_file\<close> of \<open>src/common/mcumgr_qcom/src/fw_upgrade.c\<close>, one definition per stage,
  in the order of the code. A stage returns \<open>Inl ret\<close> where the code goes to \<open>parse_img_hdr_end\<close> with
  that status (also with success, to wait for more data), else \<open>Inr\<close> its result.
\<close>

section \<open>Receiving the file\<close>

text \<open>
  The first packet. \<open>buf\<close> is what the buffer pointer points to; a read past its end faults. Of the
  fresh \<open>config_buf\<close> only the copied prefix has a known content; the rest, filled by later packets
  before it is read, stands as zeros.
\<close>

definition cfg_first :: "'d platform \<Rightarrow> bytes \<Rightarrow> (('d, 'z) session_st_scheme, fw_status + unit) state" where
  "cfg_first P buf = do {
     c \<leftarrow> cxt;
     if buf_len c < sizeof_imageSet_hdr
     then State_Monad.return (Inl FW_UPGRADE_ERR_INCORRECT_IMAGE_HDR_E)
     else do {
       when_m (length buf < unat (buf_len c)) fault;
       let h = dec_imageSet_hdr buf;
       if \<not> (num_images h > 0 \<and> unat (num_images h) \<le> FW_UPGRADE_MAX_IMAGES_NUM)
       then State_Monad.return (Inl FW_UPGRADE_ERR_INCORRECT_IMAGE_HDR_E)
       else if is_magic h = 0 \<or> is_length h = 0 \<or> is_format h = 0
       then State_Monad.return (Inl FW_UPGRADE_ERR_INCORRECT_IMAGE_HDR_E)
       else do {
         upd_cxt (\<lambda>c. c\<lparr>cxt_format := is_format h\<rparr>);
         let len = is_length h;
         if len \<noteq> sizeof_imageSet_hdr + ucast (num_images h) * sizeof_image_hdr + of_nat FW_UPGRADE_HASH_LEN
         then State_Monad.return (Inl FW_UPGRADE_ERR_INCORRECT_IMAGE_HDR_E)
         else do {
           ok \<leftarrow> malloc P (unat len);
           if \<not> ok then State_Monad.return (Inl FW_UPGRADE_ERR_INSUFFICIENT_MEMORY_E)
           else do {
             let off = min (buf_len c) len;
             upd_cxt (\<lambda>c. c\<lparr>buf_offset := off,
               config_buf := Some (take (unat off) buf @ replicate (unat len - unat off) 0)\<rparr>);
             if buf_len c < len then do {
               upd_cxt (\<lambda>c. c\<lparr>image_wrt_count := buf_len c\<rparr>);
               fw_upgrade_set_state FW_UPGRADE_STATE_RECEIVE_DATA_E;
               State_Monad.return (Inl FW_UPGRADE_OK_E)
             } else State_Monad.return (Inr ())
           }
         }
       }
     }
   }"

text \<open>\<open>memcpy(dst + at, src, length src)\<close> inside an object; past its end it faults.\<close>

definition overwrite :: "bytes \<Rightarrow> nat \<Rightarrow> bytes \<Rightarrow> bytes" where
  "overwrite dst at src = take at dst @ src @ drop (at + length src) dst"

text \<open>A further packet.\<close>

definition cfg_next :: "bytes \<Rightarrow> (('d, 'z) session_st_scheme, fw_status + unit) state" where
  "cfg_next buf = do {
     c \<leftarrow> cxt;
     let cb = the (config_buf c);
     let h = dec_imageSet_hdr cb;
     let len = min (buf_len c) (is_length h - image_wrt_count c);
     when_m (length buf < unat len \<or> length cb < unat (image_wrt_count c) + unat len) fault;
     upd_cxt (\<lambda>c. c\<lparr>config_buf := Some (overwrite cb (unat (image_wrt_count c)) (take (unat len) buf)),
       image_wrt_count := image_wrt_count c + len, buf_offset := len\<rparr>);
     if image_wrt_count c + len < is_length h then do {
       fw_upgrade_set_state FW_UPGRADE_STATE_RECEIVE_DATA_E;
       State_Monad.return (Inl FW_UPGRADE_OK_E)
     } else State_Monad.return (Inr ())
   }"

section \<open>Checking it\<close>

text \<open>The digest of all but the last 32 bytes is compared with them.\<close>

definition cfg_hash_offset :: "imageSet_hdr \<Rightarrow> u32" where
  "cfg_hash_offset h = sizeof_imageSet_hdr + ucast (num_images h) * sizeof_image_hdr"

definition cfg_verify :: "'d platform \<Rightarrow> (('d, 'z) session_st_scheme, fw_status + imageSet_hdr) state" where
  "cfg_verify P = do {
     c \<leftarrow> cxt;
     let cb = the (config_buf c);
     let h = dec_imageSet_hdr cb;
     let off = unat (cfg_hash_offset h);
     when_m (length cb < off + FW_UPGRADE_HASH_LEN) fault;
     digest_start;
     digest_update (take off cb);
     hash \<leftarrow> digest_finish P;
     State_Monad.return (if take FW_UPGRADE_HASH_LEN (drop off cb) \<noteq> hash
       then Inl FW_UPGRADE_ERR_INCORRECT_IMAGE_CHECKSUM_E else Inr h)
   }"

text \<open>Magic, version and number of images go to the trial descriptor in flash.\<close>

definition cfg_write_fwd :: "'d platform \<Rightarrow> imageSet_hdr \<Rightarrow> (('d, 'z) session_st_scheme, fw_status + unit) state" where
  "cfg_write_fwd P h = do {
     c \<leftarrow> cxt;
     r \<leftarrow> fw_upgrade_set_fwd_info P (trial_fwd_idx c) FW_UPGRADE_FWD_MAGIC_E (bytes_le32 (is_magic h));
     if r \<noteq> FW_UPGRADE_OK_E then State_Monad.return (Inl FW_UPGRADE_ERR_FLASH_WRITE_FAIL_E)
     else do {
       r \<leftarrow> fw_upgrade_set_fwd_info P (trial_fwd_idx c) FW_UPGRADE_FWD_VERSION_E (bytes_le32 (is_version h));
       if r \<noteq> FW_UPGRADE_OK_E then State_Monad.return (Inl FW_UPGRADE_ERR_FLASH_WRITE_FAIL_E)
       else do {
         let total = num_images h + ucast (hidden_images_count c);
         r \<leftarrow> fw_upgrade_set_fwd_info P (trial_fwd_idx c) FW_UPGRADE_FWD_TOTAL_IMAGE_E [total];
         if r \<noteq> FW_UPGRADE_OK_E then State_Monad.return (Inl FW_UPGRADE_ERR_FLASH_WRITE_FAIL_E)
         else State_Monad.return (Inr ())
       }
     }
   }"

definition dec_image_hdrs :: "bytes \<Rightarrow> nat \<Rightarrow> image_hdr list" where
  "dec_image_hdrs bs n = map (\<lambda>i. dec_image_hdr (take 184 (drop (i * 184) bs))) [0..<n]"

definition cfg_save :: "'d platform \<Rightarrow> imageSet_hdr \<Rightarrow> (('d, 'z) session_st_scheme, fw_status + unit) state" where
  "cfg_save P h = do {
     upd_cxt (\<lambda>c. c\<lparr>cxt_total_images := ucast (num_images h)\<rparr>);
     c \<leftarrow> cxt;
     ok \<leftarrow> malloc P (unat (num_images h) * 184);
     if \<not> ok then do {
       modify (\<lambda>s. s\<lparr>image_hdrs := None\<rparr>);
       State_Monad.return (Inl FW_UPGRADE_ERR_INSUFFICIENT_MEMORY_E)
     } else do {
       modify (\<lambda>s. s\<lparr>image_hdrs := Some (dec_image_hdrs (drop 17 (the (config_buf c))) (unat (num_images h)))\<rparr>);
       State_Monad.return (Inr ())
     }
   }"

section \<open>The image entries\<close>

text \<open>
  The locals of the loop over the entries. Its body is a function of them and of the entry, which it may
  rewrite (a disk size is rounded up to whole blocks); \<open>None\<close> stands for the error
  \<open>FW_UPGRADE_ERR_INCORRECT_IMAGE_HDR_E\<close>.
\<close>

record entry_sums =
  sum_len :: u32
  sum_disk :: u32
  sbl_exist :: bool
  app_exist :: bool
  sbl_disk :: u32

definition round_disk :: "u32 \<Rightarrow> u32 \<Rightarrow> u32" where
  "round_disk bs n = (if n mod bs \<noteq> 0 then n + bs else n) div bs * bs"

definition entry_bad :: "image_hdr \<Rightarrow> bool" where
  "entry_bad e \<longleftrightarrow> ih_image_id e = 0 \<or> ih_magic e = 0 \<or> hash_type e = 0 \<or> disk_size e = 0
     \<or> disk_size e < image_length e"

definition entry_adjust :: "u32 \<Rightarrow> image_hdr \<Rightarrow> image_hdr" where
  "entry_adjust bs e = (if ih_image_id e \<noteq> SBL_IMG_ID then e\<lparr>disk_size := round_disk bs (disk_size e)\<rparr> else e)"

definition entry_add :: "image_hdr \<Rightarrow> entry_sums \<Rightarrow> entry_sums" where
  "entry_add e v =
     (let v1 = (if ih_image_id e \<noteq> FS1_IMG_ID \<and> ih_image_id e \<noteq> FS2_IMG_ID \<and> ih_image_id e \<noteq> SBL_IMG_ID
                then v\<lparr>sum_disk := sum_disk v + disk_size e, sum_len := sum_len v + image_length e\<rparr> else v);
          v2 = (if ih_image_id e = SBL_IMG_ID then v1\<lparr>sbl_exist := True, sbl_disk := disk_size e\<rparr> else v1)
      in if ih_image_id e = APP_IMG_ID then v2\<lparr>app_exist := True\<rparr> else v2)"

fun check_entries :: "u32 \<Rightarrow> image_hdr list \<Rightarrow> entry_sums \<Rightarrow> image_hdr list \<times> entry_sums option" where
  "check_entries bs [] v = ([], Some v)"
| "check_entries bs (e # es) v =
     (if entry_bad e then (e # es, None)
      else let e' = entry_adjust bs e in
        if ih_image_id e' = SBL_IMG_ID \<and> image_length e' > disk_size e' then (e' # es, None)
        else let (es', r) = check_entries bs es (entry_add e' v) in (e' # es', r))"

definition cfg_check_entries :: "(('d, 'z) session_st_scheme, fw_status + entry_sums) state" where
  "cfg_check_entries = do {
     bs \<leftarrow> get_block_size;
     hs \<leftarrow> gets image_hdrs;
     let (hs', r) = check_entries bs (case hs of None \<Rightarrow> [] | Some hs \<Rightarrow> hs)
       \<lparr>sum_len = 0, sum_disk = 0, sbl_exist = False, app_exist = False, sbl_disk = 0\<rparr>;
     modify (\<lambda>s. s\<lparr>image_hdrs := Some hs'\<rparr>);
     State_Monad.return (case r of None \<Rightarrow> Inl FW_UPGRADE_ERR_INCORRECT_IMAGE_HDR_E | Some v \<Rightarrow> Inr v)
   }"

text \<open>The checks on the sums, and the choice of the SBL slot.\<close>

definition cfg_check_sums :: "'d platform \<Rightarrow> entry_sums \<Rightarrow> (('d, 'z) session_st_scheme, fw_status + unit) state" where
  "cfg_check_sums P v = do {
     c \<leftarrow> cxt;
     if sbl_exist v \<and> \<not> app_exist v
     then State_Monad.return (Inl FW_UPGRADE_ERR_SBL_ONLY_NOT_SUPPORT_E)
     else if sum_disk v > trial_mem_size c
     then State_Monad.return (Inl FW_UPGRADE_ERR_FLASH_NOT_ENOUGH_SPACE_E)
     else if sum_len v > sum_disk v
     then State_Monad.return (Inl FW_UPGRADE_ERR_INCORRECT_IMAGE_HDR_E)
     else do {
       (r, out) \<leftarrow> fw_upgrade_select_sbl_trial_fde P True;
       (case out of
          Some (i, start, sz) \<Rightarrow> upd_cxt (\<lambda>c. c\<lparr>trial_sbl_idx := i, trial_sbl_start := start, trial_sbl_size := sz\<rparr>)
        | None \<Rightarrow> State_Monad.return ());
       c \<leftarrow> cxt;
       if r \<noteq> FW_UPGRADE_OK_E then State_Monad.return (Inl FW_UPGRADE_ERR_SBL_NOT_SUPPORT_UPGRADE_E)
       else if sbl_disk v > trial_sbl_size c
       then State_Monad.return (Inl FW_UPGRADE_ERR_SBL_NOT_ENOUGH_SPACE_E)
       else State_Monad.return (Inr ())
     }
   }"

section \<open>What to download\<close>

text \<open>
  Partial upgrade: hashing one partition of the running firmware, block by block. The status of the
  read is ignored; the hash takes the \<open>nbytes\<close> it reports. The block size divides the sizes of the
  partitions hashed here, so \<open>div + 1\<close> rounds are enough.
\<close>

primrec hash_partition ::
  "'d platform \<Rightarrow> nat \<Rightarrow> hdl \<Rightarrow> u32 \<Rightarrow> u32 \<Rightarrow> u32 \<Rightarrow> (('d, 'z) session_st_scheme, unit) state" where
  "hash_partition P 0 h bs nbytes offset = (if offset < nbytes then out_of_fuel else State_Monad.return ())"
| "hash_partition P (Suc fuel) h bs nbytes offset =
     (if offset < nbytes then do {
        (_, buf, n) \<leftarrow> fw_upgrade_read_partition P h offset True bs;
        digest_update (take (unat n) (case buf of None \<Rightarrow> [] | Some b \<Rightarrow> b));
        hash_partition P fuel h bs nbytes (offset + bs)
      } else State_Monad.return ())"

definition block_fuel :: "u32 \<Rightarrow> u32 \<Rightarrow> nat" where
  "block_fuel nbytes bs = unat nbytes div unat bs + 1"

definition set_download :: "nat \<Rightarrow> u8 \<Rightarrow> (('d, 'z) session_st_scheme, unit) state" where
  "set_download i v = upd_cxt (\<lambda>c. c\<lparr>download_flag := (download_flag c)[i := v]\<rparr>)"

definition check_download ::
  "'d platform \<Rightarrow> u8 \<Rightarrow> u32 \<Rightarrow> nat \<Rightarrow> (('d, 'z) session_st_scheme, unit) state" where
  "check_download P active bs i = do {
     set_download i 1;
     e \<leftarrow> image_hdr_at i;
     if ih_image_id e \<noteq> FS1_IMG_ID \<and> ih_image_id e \<noteq> FS2_IMG_ID \<and> ih_image_id e \<noteq> SBL_IMG_ID then do {
       (r, h) \<leftarrow> fw_upgrade_find_partition P active (ih_image_id e);
       if r \<noteq> FW_UPGRADE_OK_E then State_Monad.return ()
       else do {
         digest_start;
         p \<leftarrow> hdl_get h;
         hash_partition P (block_fuel (img_size p) bs) h bs (img_size p) 0;
         release h;
         hash \<leftarrow> digest_finish P;
         when_m (ih_hash e = hash) (set_download i 0)
       }
     } else State_Monad.return ()
   }"

fun check_downloads ::
  "'d platform \<Rightarrow> u8 \<Rightarrow> u32 \<Rightarrow> nat list \<Rightarrow> (('d, 'z) session_st_scheme, unit) state" where
  "check_downloads P active bs [] = State_Monad.return ()"
| "check_downloads P active bs (i # is) = do {
     check_download P active bs i;
     check_downloads P active bs is
   }"

definition cfg_partial :: "'d platform \<Rightarrow> (('d, 'z) session_st_scheme, fw_status) state" where
  "cfg_partial P = do {
     bs \<leftarrow> get_block_size;
     (active, _, _) \<leftarrow> fw_upgrade_get_active_fwd P False False;
     ok \<leftarrow> malloc P (unat bs);
     if \<not> ok then State_Monad.return FW_UPGRADE_ERR_INSUFFICIENT_MEMORY_E
     else do {
       c \<leftarrow> cxt;
       check_downloads P active bs [0..<unat (cxt_total_images c)];
       upd_cxt (\<lambda>c. c\<lparr>is_first := 0\<rparr>);
       fw_upgrade_set_state FW_UPGRADE_STATE_DISCONNECT_SERVER_E;
       State_Monad.return FW_UPGRADE_OK_E
     }
   }"

text \<open>All-in-one upgrade: the images follow the file, perhaps in the same packet.\<close>

definition cfg_all_in_one :: "(('d, 'z) session_st_scheme, fw_status) state" where
  "cfg_all_in_one = do {
     upd_cxt (\<lambda>c. c\<lparr>is_first := 0\<rparr>);
     c \<leftarrow> cxt;
     fw_upgrade_set_state (if buf_offset c \<ge> buf_len c
       then FW_UPGRADE_STATE_RECEIVE_DATA_E else FW_UPGRADE_STATE_PROCESS_IMAGE_E);
     State_Monad.return FW_UPGRADE_OK_E
   }"

section \<open>The whole function\<close>

text \<open>The stages after the file is complete, up to the choice of the upgrade format.\<close>

definition cfg_parse :: "'d platform \<Rightarrow> (('d, 'z) session_st_scheme, fw_status + unit) state" where
  "cfg_parse P = do {
     r1 \<leftarrow> cfg_verify P;
     case r1 of Inl e \<Rightarrow> State_Monad.return (Inl e)
     | Inr h \<Rightarrow> do {
         r2 \<leftarrow> cfg_write_fwd P h;
         case r2 of Inl e \<Rightarrow> State_Monad.return (Inl e)
         | Inr _ \<Rightarrow> do {
             r3 \<leftarrow> cfg_save P h;
             case r3 of Inl e \<Rightarrow> State_Monad.return (Inl e)
             | Inr _ \<Rightarrow> do {
                 r4 \<leftarrow> cfg_check_entries;
                 case r4 of Inl e \<Rightarrow> State_Monad.return (Inl e)
                 | Inr v \<Rightarrow> do {
                     r5 \<leftarrow> cfg_check_sums P v;
                     case r5 of Inl e \<Rightarrow> State_Monad.return (Inl e)
                     | Inr _ \<Rightarrow> do {
                         upd_cxt (\<lambda>c. c\<lparr>file_read_count := is_length h, config_buf := None\<rparr>);
                         State_Monad.return (Inr ())
                       }
                   }
               }
           }
       }
   }"

text \<open>The label \<open>parse_img_hdr_end\<close>: a failed file is dropped.\<close>

definition cfg_end :: "fw_status \<Rightarrow> (('d, 'z) session_st_scheme, fw_status) state" where
  "cfg_end ret = do {
     when_m (ret \<noteq> FW_UPGRADE_OK_E) (upd_cxt (\<lambda>c. c\<lparr>config_buf := None\<rparr>));
     State_Monad.return ret
   }"

definition fw_upgrade_process_config_file ::
  "'d platform \<Rightarrow> bytes \<Rightarrow> (('d, 'z) session_st_scheme, fw_status) state" where
  "fw_upgrade_process_config_file P buf = do {
     c0 \<leftarrow> gets sess_cxt;
     case c0 of
       None \<Rightarrow> State_Monad.return FW_UPGRADE_ERR_SESSION_NOT_START_E
     | Some c0 \<Rightarrow> do {
         r0 \<leftarrow> (if config_buf c0 = None then cfg_first P buf else cfg_next buf);
         case r0 of
           Inl e \<Rightarrow> cfg_end e
         | Inr _ \<Rightarrow> do {
             r \<leftarrow> cfg_parse P;
             case r of
               Inl e \<Rightarrow> cfg_end e
             | Inr _ \<Rightarrow> do {
                 c \<leftarrow> cxt;
                 if cxt_format c \<noteq> FW_UPGRADE_FORAMT_PARTIAL_UPGRADE then cfg_all_in_one
                 else cfg_partial P
               }
           }
       }
   }"

end
