(* ===== verification/Fw_Receive.thy ===== *)
theory Fw_Receive
  imports Fw_Config
begin

text \<open>
  Receiving the images of an upgrade: \<open>fw_upgrade_verify_image_hash\<close> and
  \<open>fw_upgrade_process_receive_image\<close> of \<open>src/common/mcumgr_qcom/src/fw_upgrade.c\<close>. The body of the
  receive loop is cut where the code has its comments: opening the next image, writing a chunk,
  completing the image, erasing ahead.
\<close>

section \<open>The hash of an image\<close>

definition fw_upgrade_verify_image_hash ::
  "'d platform \<Rightarrow> image_hdr \<Rightarrow> (('d, 'z) session_st_scheme, fw_status) state" where
  "fw_upgrade_verify_image_hash P e = do {
     c0 \<leftarrow> gets sess_cxt;
     case c0 of
       None \<Rightarrow> State_Monad.return FW_UPGRADE_ERR_SESSION_NOT_START_E
     | Some c \<Rightarrow> do {
         let len = disk_size e - image_length e;
         ok \<leftarrow> (if cxt_format c = FW_UPGRADE_FORAMT_PARTIAL_UPGRADE \<and> len > 0
                then malloc P (unat len) else State_Monad.return True);
         if \<not> ok then State_Monad.return FW_UPGRADE_ERR_INSUFFICIENT_MEMORY_E
         else do {
           when_m (cxt_format c = FW_UPGRADE_FORAMT_PARTIAL_UPGRADE \<and> len > 0)
             (digest_update (replicate (unat len) 0xFF));
           hash \<leftarrow> digest_finish P;
           State_Monad.return (if ih_hash e \<noteq> hash then FW_UPGRADE_ERR_INCORRECT_IMAGE_CHECKSUM_E
             else FW_UPGRADE_OK_E)
         }
       }
   }"

section \<open>Opening an image\<close>

text \<open>What a round of the loop tells it to do next: leave with a status, or start over.\<close>

datatype round = Break fw_status | Continue

text \<open>
  Calls of the memory module whose handle goes straight into \<open>fw_upgrade_cxt->partition_hdl\<close>; it is
  written only on success, as the out-parameter is.
\<close>

definition find_into_cxt :: "'d platform \<Rightarrow> u8 \<Rightarrow> u32 \<Rightarrow> (('d, 'z) session_st_scheme, fw_status) state" where
  "find_into_cxt P idx iid = do {
     (r, h) \<leftarrow> fw_upgrade_find_partition P idx iid;
     when_m (r = FW_UPGRADE_OK_E) (upd_cxt (\<lambda>c. c\<lparr>partition_hdl := h\<rparr>));
     State_Monad.return r
   }"

definition create_into_cxt ::
  "'d platform \<Rightarrow> u8 \<Rightarrow> u32 \<Rightarrow> u32 \<Rightarrow> u32 \<Rightarrow> u32 \<Rightarrow> (('d, 'z) session_st_scheme, fw_status) state" where
  "create_into_cxt P idx iid version start nbytes = do {
     (r, h) \<leftarrow> fw_upgrade_create_partition P idx iid version start nbytes;
     when_m (r = FW_UPGRADE_OK_E) (upd_cxt (\<lambda>c. c\<lparr>partition_hdl := h\<rparr>));
     State_Monad.return r
   }"

text \<open>\<open>partition_hdl->ref_count = 0; partition_hdl = NULL;\<close>\<close>

definition close_partition :: "(('d, 'z) session_st_scheme, unit) state" where
  "close_partition = do {
     c \<leftarrow> cxt;
     release (partition_hdl c);
     upd_cxt (\<lambda>c. c\<lparr>partition_hdl := None\<rparr>)
   }"

text \<open>The partition of the file system image: it takes the place of the running firmware's FS2.\<close>

definition rx_create_fs :: "'d platform \<Rightarrow> image_hdr \<Rightarrow> (('d, 'z) session_st_scheme, fw_status) state" where
  "rx_create_fs P e = do {
     (active, _, _) \<leftarrow> fw_upgrade_get_active_fwd P False False;
     r \<leftarrow> find_into_cxt P active FS2_IMG_ID;
     if r \<noteq> FW_UPGRADE_OK_E then State_Monad.return FW_UPGRADE_ERR_FLASH_IMAGE_NOT_FOUND_E
     else do {
       c \<leftarrow> cxt;
       p \<leftarrow> hdl_get (partition_hdl c);
       close_partition;
       if disk_size e > img_size p then State_Monad.return FW_UPGRADE_ERR_INCORRECT_IMAGE_LENGTH_E
       else do {
         c \<leftarrow> cxt;
         r \<leftarrow> create_into_cxt P (trial_fwd_idx c) (ih_image_id e) (ih_version e) (img_start p) (img_size p);
         State_Monad.return (if r \<noteq> FW_UPGRADE_OK_E then FW_UPGRADE_ERR_FLASH_CREATE_PARTITION_E
           else FW_UPGRADE_OK_E)
       }
     }
   }"

definition rx_create_image :: "'d platform \<Rightarrow> u32 \<Rightarrow> image_hdr \<Rightarrow> (('d, 'z) session_st_scheme, fw_status) state" where
  "rx_create_image P bs e = do {
     c \<leftarrow> cxt;
     let startAddr = (if ih_image_id e = SBL_IMG_ID then trial_sbl_start c else trial_mem_start c);
     r \<leftarrow> create_into_cxt P (trial_fwd_idx c) (ih_image_id e) (ih_version e) startAddr (disk_size e);
     if r \<noteq> FW_UPGRADE_OK_E then State_Monad.return FW_UPGRADE_ERR_FLASH_CREATE_PARTITION_E
     else do {
       c \<leftarrow> cxt;
       r \<leftarrow> fw_upgrade_erase_partition P (partition_hdl c) 0 bs;
       State_Monad.return (if r \<noteq> FW_UPGRADE_OK_E then FW_UPGRADE_ERR_FLASH_ERASE_PARTITION_E
         else FW_UPGRADE_OK_E)
     }
   }"

text \<open>The address behind a finished image, except for the images with a place of their own.\<close>

definition advance_trial_mem :: "image_hdr \<Rightarrow> upgrade_context \<Rightarrow> upgrade_context" where
  "advance_trial_mem e c = (if ih_image_id e \<noteq> FS1_IMG_ID \<and> ih_image_id e \<noteq> SBL_IMG_ID
     then c\<lparr>trial_mem_start := trial_mem_start c + disk_size e\<rparr> else c)"

definition next_image :: "upgrade_context \<Rightarrow> upgrade_context" where
  "next_image c = c\<lparr>image_index := image_index c + 1, image_wrt_length := 0\<rparr>"

text \<open>
  \<open>if (image_wrt_length == 0) {...}\<close>: \<open>None\<close> where control falls through to writing, else what the
  block makes the loop do.
\<close>

definition rx_open :: "'d platform \<Rightarrow> u32 \<Rightarrow> image_hdr \<Rightarrow> (('d, 'z) session_st_scheme, round option) state" where
  "rx_open P bs e = do {
     upd_cxt (\<lambda>c. c\<lparr>image_wrt_count := 0, image_wrt_length := image_length e\<rparr>);
     r \<leftarrow> (if ih_image_id e = FS1_IMG_ID then rx_create_fs P e else rx_create_image P bs e);
     if r \<noteq> FW_UPGRADE_OK_E then State_Monad.return (Some (Break r))
     else do {
       c \<leftarrow> cxt;
       if cxt_format c \<noteq> FW_UPGRADE_FORAMT_PARTIAL_UPGRADE \<and> image_length e = 0 then do {
         close_partition;
         upd_cxt (\<lambda>c. next_image (advance_trial_mem e c));
         c \<leftarrow> cxt;
         if image_index c \<ge> cxt_total_images c then do {
           fw_upgrade_set_state FW_UPGRADE_STATE_DUPLICATE_FS_E;
           State_Monad.return (Some (Break FW_UPGRADE_OK_E))
         } else State_Monad.return (Some Continue)
       } else do {
         digest_start;
         State_Monad.return None
       }
     }
   }"

section \<open>Writing a chunk\<close>

text \<open>
  The blocks a chunk of \<open>n\<close> bytes at \<open>count\<close> enters for the first time, as offset and size to erase:
  the block of its first byte is erased already. \<open>None\<close>: the chunk stays in that block.
\<close>

definition blocks_ahead :: "u32 \<Rightarrow> u32 \<Rightarrow> u32 \<Rightarrow> (u32 \<times> u32) option" where
  "blocks_ahead bs count n =
     (if count div bs \<noteq> (count + n - 1) div bs then
        (let first_block = count div bs + 1;
             last = (count + n) div bs;
             last_block = (if (count + n) mod bs \<noteq> 0 then last + 1 else last)
         in Some (first_block * bs, (last_block - first_block) * bs))
      else None)"

text \<open>
  \<open>off\<close> is \<open>internal_offset\<close>, \<open>n\<close> is \<open>write_len\<close>; a chunk that leaves the buffer faults. The result is the
  new \<open>internal_offset\<close>. \<open>al\<close> says whether the chunk's address is a multiple of 4.
\<close>

definition rx_write ::
  "'d platform \<Rightarrow> (u32 \<Rightarrow> bool) \<Rightarrow> u32 \<Rightarrow> bytes \<Rightarrow> u32 \<Rightarrow> u32 \<Rightarrow>
   (('d, 'z) session_st_scheme, fw_status \<times> u32) state" where
  "rx_write P al bs buffer off n = do {
     when_m (length buffer < unat off + unat n) fault;
     let chunk = take (unat n) (drop (unat off) buffer);
     digest_update chunk;
     c \<leftarrow> cxt;
     r \<leftarrow> (case blocks_ahead bs (image_wrt_count c) n of
             None \<Rightarrow> State_Monad.return FW_UPGRADE_OK_E
           | Some (a, k) \<Rightarrow> fw_upgrade_erase_partition P (partition_hdl c) a k);
     if r \<noteq> FW_UPGRADE_OK_E then State_Monad.return (FW_UPGRADE_ERR_FLASH_ERASE_PARTITION_E, off)
     else do {
       r \<leftarrow> fw_upgrade_write_partition P (partition_hdl c) (image_wrt_count c) (Some chunk) (al off) n;
       if r \<noteq> FW_UPGRADE_OK_E then State_Monad.return (FW_UPGRADE_ERR_FLASH_WRITE_PARTITION_E, off)
       else do {
         upd_cxt (\<lambda>c. c\<lparr>file_read_count := file_read_count c + n, image_wrt_count := image_wrt_count c + n\<rparr>);
         State_Monad.return (FW_UPGRADE_OK_E, off + n)
       }
     }
   }"

section \<open>Completing an image\<close>

text \<open>\<open>Some\<close> where the loop is left.\<close>

definition rx_complete :: "'d platform \<Rightarrow> image_hdr \<Rightarrow> (('d, 'z) session_st_scheme, fw_status option) state" where
  "rx_complete P e = do {
     r \<leftarrow> fw_upgrade_verify_image_hash P e;
     if r \<noteq> FW_UPGRADE_OK_E then do {
       c \<leftarrow> cxt;
       when_m (partition_hdl c \<noteq> None) close_partition;
       State_Monad.return (Some r)
     } else do {
       close_partition;
       upd_cxt (\<lambda>c. next_image (advance_trial_mem e c));
       c \<leftarrow> cxt;
       if cxt_format c = FW_UPGRADE_FORAMT_PARTIAL_UPGRADE then do {
         fw_upgrade_set_state FW_UPGRADE_STATE_DISCONNECT_SERVER_E;
         State_Monad.return None
       } else if image_index c \<ge> cxt_total_images c then do {
         fw_upgrade_set_state FW_UPGRADE_STATE_DUPLICATE_FS_E;
         State_Monad.return (Some FW_UPGRADE_OK_E)
       } else State_Monad.return None
     }
   }"

text \<open>Erasing the next block when the image goes on at a block boundary.\<close>

definition rx_erase_next :: "'d platform \<Rightarrow> u32 \<Rightarrow> (('d, 'z) session_st_scheme, fw_status) state" where
  "rx_erase_next P bs = do {
     c \<leftarrow> cxt;
     if image_wrt_count c mod bs = 0 \<and> image_wrt_length c > 0 then do {
       r \<leftarrow> fw_upgrade_erase_partition P (partition_hdl c) (image_wrt_count c) bs;
       State_Monad.return (if r \<noteq> FW_UPGRADE_OK_E then FW_UPGRADE_ERR_FLASH_ERASE_PARTITION_E
         else FW_UPGRADE_OK_E)
     } else State_Monad.return FW_UPGRADE_OK_E
   }"

section \<open>The loop\<close>

text \<open>The end of a round, after a chunk was written.\<close>

definition rx_after :: "'d platform \<Rightarrow> u32 \<Rightarrow> image_hdr \<Rightarrow> (('d, 'z) session_st_scheme, round) state" where
  "rx_after P bs e = do {
     c \<leftarrow> cxt;
     x \<leftarrow> (if image_wrt_count c \<ge> image_wrt_length c then rx_complete P e else State_Monad.return None);
     case x of
       Some r \<Rightarrow> State_Monad.return (Break r)
     | None \<Rightarrow> do {
         r \<leftarrow> rx_erase_next P bs;
         c \<leftarrow> cxt;
         State_Monad.return
           (if r \<noteq> FW_UPGRADE_OK_E then Break r
            else if cxt_format c = FW_UPGRADE_FORAMT_PARTIAL_UPGRADE then Break FW_UPGRADE_OK_E
            else Continue)
       }
   }"

definition rx_chunk ::
  "'d platform \<Rightarrow> (u32 \<Rightarrow> bool) \<Rightarrow> u32 \<Rightarrow> bytes \<Rightarrow> image_hdr \<Rightarrow> u32 \<Rightarrow>
   (('d, 'z) session_st_scheme, round \<times> u32) state" where
  "rx_chunk P al bs buffer e off = do {
     c \<leftarrow> cxt;
     let left = image_wrt_length c - image_wrt_count c;
     if cxt_format c = FW_UPGRADE_FORAMT_PARTIAL_UPGRADE \<and> buf_len c > left
     then State_Monad.return (Break FW_UPGRADE_ERR_INCORRECT_IMAGE_LENGTH_E, 0)
     else do {
       let (off1, n) = (if cxt_format c = FW_UPGRADE_FORAMT_PARTIAL_UPGRADE then (0, buf_len c)
                        else (off, min (buf_len c - off) left));
       (r, off2) \<leftarrow> rx_write P al bs buffer off1 n;
       if r \<noteq> FW_UPGRADE_OK_E then State_Monad.return (Break r, off2)
       else do { x \<leftarrow> rx_after P bs e; State_Monad.return (x, off2) }
     }
   }"

definition rx_round ::
  "'d platform \<Rightarrow> (u32 \<Rightarrow> bool) \<Rightarrow> u32 \<Rightarrow> bytes \<Rightarrow> u32 \<Rightarrow>
   (('d, 'z) session_st_scheme, round \<times> u32) state" where
  "rx_round P al bs buffer off = do {
     c \<leftarrow> cxt;
     if cxt_format c \<noteq> FW_UPGRADE_FORAMT_PARTIAL_UPGRADE \<and> off \<ge> buf_len c
     then State_Monad.return (Break FW_UPGRADE_OK_E, off)
     else do {
       e \<leftarrow> image_hdr_at (unat (image_index c));
       x \<leftarrow> (if image_wrt_length c = 0 then rx_open P bs e else State_Monad.return None);
       case x of
         Some r \<Rightarrow> State_Monad.return (r, off)
       | None \<Rightarrow> rx_chunk P al bs buffer e off
     }
   }"

primrec rx_loop ::
  "'d platform \<Rightarrow> (u32 \<Rightarrow> bool) \<Rightarrow> nat \<Rightarrow> u32 \<Rightarrow> bytes \<Rightarrow> u32 \<Rightarrow>
   (('d, 'z) session_st_scheme, fw_status \<times> u32) state" where
  "rx_loop P al 0 bs buffer off = do { out_of_fuel; State_Monad.return (FW_UPGRADE_OK_E, off) }"
| "rx_loop P al (Suc fuel) bs buffer off = do {
     (x, off') \<leftarrow> rx_round P al bs buffer off;
     case x of
       Break r \<Rightarrow> State_Monad.return (r, off')
     | Continue \<Rightarrow> rx_loop P al fuel bs buffer off'
   }"

text \<open>
  Every round of an all-in-one upgrade that goes on has consumed a byte of the packet or stepped over an
  empty image, of which there are at most 255; one round is all of a partial one.
\<close>

definition rx_fuel :: "bytes \<Rightarrow> nat" where
  "rx_fuel buffer = length buffer + 257"

definition fw_upgrade_process_receive_image ::
  "'d platform \<Rightarrow> (u32 \<Rightarrow> bool) \<Rightarrow> bytes \<Rightarrow> (('d, 'z) session_st_scheme, fw_status) state" where
  "fw_upgrade_process_receive_image P al buffer = do {
     c0 \<leftarrow> gets sess_cxt;
     case c0 of
       None \<Rightarrow> State_Monad.return FW_UPGRADE_ERR_SESSION_NOT_START_E
     | Some c \<Rightarrow> do {
         bs \<leftarrow> get_block_size;
         (r, off) \<leftarrow> rx_loop P al (rx_fuel buffer) bs buffer (buf_offset c);
         upd_cxt (\<lambda>c. c\<lparr>buf_offset := off\<rparr>);
         State_Monad.return r
       }
   }"

end
