(* ===== verification/Fw_Frame.thy ===== *)
theory Fw_Frame
  imports Fw_Trial
begin

text \<open>
  What the memory module leaves alone. Its functions read and write the fields of their own record only,
  so a predicate that does not depend on those fields is kept by every one of them: the locale
  \<open>mem_frame\<close>, one lemma per function, interpreted on the part of the state that the layers above add.
\<close>

section \<open>The interface\<close>

locale mem_frame =
  fixes I :: "('d, 'z) mem_st_scheme \<Rightarrow> bool"
  assumes frame_world: "I (s\<lparr>world := w\<rparr>) = I s"
    and frame_ghost: "I (s\<lparr>faulted := b\<rparr>) = I s" "I (s\<lparr>stuck := b\<rparr>) = I s"
    and frame_adapter: "I (s\<lparr>flash_adapter_dev := b\<rparr>) = I s" "I (s\<lparr>flash_initialized := b\<rparr>) = I s"
      "I (s\<lparr>density_in_blocks := n\<rparr>) = I s"
    and frame_mem: "I (s\<lparr>fu_initialized := b\<rparr>) = I s" "I (s\<lparr>partition_handles := hs\<rparr>) = I s"
      "I (s\<lparr>fw_upgrade_mem_params := p\<rparr>) = I s" "I (s\<lparr>FWD_SUPPORT_NUM := n\<rparr>) = I s"
begin

lemmas frame = frame_world frame_ghost frame_adapter frame_mem

lemma keeps_upd: "(\<And>s. I (f s) = I s) \<Longrightarrow> keeps I (modify f)"
  by (rule keeps_modify) simp

section \<open>The adapter and the boot table\<close>

lemma keeps_fault [keeps_intros]: "keeps I fault"
  by (unfold fault_def) (rule keeps_upd, simp add: frame)

lemma keeps_out_of_fuel [keeps_intros]: "keeps I out_of_fuel"
  by (unfold out_of_fuel_def) (rule keeps_upd, simp add: frame)

lemma keeps_set_world [keeps_intros]: "keeps I (modify (\<lambda>s. s\<lparr>world := w\<rparr>))"
  by (rule keeps_upd) (simp add: frame)

lemma keeps_set_dev [keeps_intros]: "keeps I (modify (\<lambda>s. s\<lparr>flash_adapter_dev := b\<rparr>))"
  by (rule keeps_upd) (simp add: frame)

lemma keeps_set_density [keeps_intros]:
  "keeps I (modify (\<lambda>s. s\<lparr>density_in_blocks := n, flash_initialized := b\<rparr>))"
proof (rule keeps_upd)
  fix s
  show "I (s\<lparr>density_in_blocks := n, flash_initialized := b\<rparr>) = I s"
    by (simp only: frame)
qed

lemma keeps_flash_adapter_init [keeps_intros]: "keeps I (flash_adapter_init P)"
  by (unfold flash_adapter_init_def Let_def) (intro keeps_intros)

lemma keeps_flash_adapter_get_config [keeps_intros]: "keeps I (flash_adapter_get_config P)"
  by (unfold flash_adapter_get_config_def) (intro keeps_intros)

lemma keeps_flash_adapter_read [keeps_intros]: "keeps I (flash_adapter_read P a n b)"
  by (unfold flash_adapter_read_def Let_def) (intro keeps_intros)

lemma keeps_flash_adapter_write [keeps_intros]: "keeps I (flash_adapter_write P a n b)"
  by (unfold flash_adapter_write_def Let_def) (intro keeps_intros)

lemma keeps_flash_adapter_erase [keeps_intros]: "keeps I (flash_adapter_erase P a n)"
  by (unfold flash_adapter_erase_def Let_def) (intro keeps_intros)

lemma keeps_write_fde [keeps_intros]: "keeps I (write_fde P i e)"
  by (unfold write_fde_def Let_def) (intro keeps_intros)

lemma keeps_reject_sbl [keeps_intros]: "keeps I (fw_upgrade_reject_sbl_trial_fde P)"
  by (unfold fw_upgrade_reject_sbl_trial_fde_def Let_def) (intro keeps_intros)

lemma keeps_get_active [keeps_intros]: "keeps I (fw_upgrade_get_active_fwd P b v)"
  by (unfold fw_upgrade_get_active_fwd_def Let_def) (intro keeps_intros)

lemma keeps_select_sbl [keeps_intros]: "keeps I (fw_upgrade_select_sbl_trial_fde P b)"
  by (unfold fw_upgrade_select_sbl_trial_fde_def) (intro keeps_intros)

lemma keeps_set_sbl [keeps_intros]: "keeps I (fw_upgrade_set_sbl_trial_fde P i v)"
  by (unfold fw_upgrade_set_sbl_trial_fde_def Let_def) (intro keeps_intros)

lemma keeps_set_force_boot [keeps_intros]: "keeps I (fw_upgrade_set_force_boot P k)"
  by (unfold fw_upgrade_set_force_boot_def Let_def) (intro keeps_intros)

section \<open>Descriptors\<close>

lemma keeps_get_mem_info [keeps_intros]: "keeps I (get_mem_info)"
  by (unfold get_mem_info_def Let_def) (intro keeps_intros)

lemma keeps_validation [keeps_intros]: "keeps I (fw_upgrade_validation)"
  by (unfold fw_upgrade_validation_def Let_def) (intro keeps_intros)

lemma keeps_golden [keeps_intros]: "keeps I (fw_upgrade_get_partition_base_on_golden P)"
  by (unfold fw_upgrade_get_partition_base_on_golden_def Let_def) (intro keeps_intros)

lemma keeps_malloc [keeps_intros]: "keeps I (malloc P n)"
  by (unfold malloc_def Let_def) (intro keeps_intros)

lemma keeps_set_params [keeps_intros]: "keeps I (modify (\<lambda>s. s\<lparr>fw_upgrade_mem_params := p\<rparr>))"
  by (rule keeps_upd) (simp add: frame)

lemma keeps_set_handles [keeps_intros]: "keeps I (modify (\<lambda>s. s\<lparr>partition_handles := f s\<rparr>))"
  by (rule keeps_upd) (simp add: frame)

lemma keeps_set_num [keeps_intros]: "keeps I (modify (\<lambda>s. s\<lparr>FWD_SUPPORT_NUM := n\<rparr>))"
  by (rule keeps_upd) (simp add: frame)

lemma keeps_set_init [keeps_intros]: "keeps I (modify (\<lambda>s. s\<lparr>fu_initialized := b\<rparr>))"
  by (rule keeps_upd) (simp add: frame)

lemma keeps_init [keeps_intros]: "keeps I (fw_upgrade_init P)"
  by (unfold fw_upgrade_init_def Let_def) (intro keeps_intros)

lemma keeps_block_size [keeps_intros]: "keeps I (fw_upgrade_get_mem_block_size)"
  by (unfold fw_upgrade_get_mem_block_size_def Let_def) (intro keeps_intros)

lemma keeps_erase_fwd [keeps_intros]: "keeps I (fw_upgrade_erase_fwd P i)"
  by (unfold fw_upgrade_erase_fwd_def Let_def) (intro keeps_intros)

lemma keeps_get_addr [keeps_intros]: "keeps I (fw_upgrade_get_fwd_info_addr i info b)"
  by (unfold fw_upgrade_get_fwd_info_addr_def Let_def) (intro keeps_intros)

lemma keeps_set_info [keeps_intros]: "keeps I (fw_upgrade_set_fwd_info P i info v)"
  by (unfold fw_upgrade_set_fwd_info_def Let_def) (intro keeps_intros)

lemma keeps_get_info [keeps_intros]: "keeps I (fw_upgrade_get_fwd_info P i info)"
  by (unfold fw_upgrade_get_fwd_info_def Let_def) (intro keeps_intros)

section \<open>Partitions\<close>

lemma keeps_handle_entry [keeps_intros]: "keeps I (handle_entry i)"
  by (unfold handle_entry_def Let_def) (intro keeps_intros)

lemma keeps_update_handle [keeps_intros]: "keeps I (update_handle i f)"
  by (unfold update_handle_def Let_def) (intro keeps_intros)

lemma keeps_release [keeps_intros]: "keeps I (release h)"
  by (unfold release_def Let_def) (intro keeps_intros)

lemma keeps_hdl_get [keeps_intros]: "keeps I (hdl_get h)"
  by (unfold hdl_get_def Let_def) (intro keeps_intros)

lemma keeps_client_entry [keeps_intros]: "keeps I (fw_upgrade_get_partition_client_entry)"
  by (unfold fw_upgrade_get_partition_client_entry_def Let_def) (intro keeps_intros)

lemma keeps_handle_validation [keeps_intros]: "keeps I (fw_upgrade_partition_handle_validation h)"
  by (unfold fw_upgrade_partition_handle_validation_def Let_def) (intro keeps_intros)

lemma keeps_parameters [keeps_intros]: "keeps I (fw_upgrade_mem_parameters_validation h off n b)"
  by (unfold fw_upgrade_mem_parameters_validation_def Let_def) (intro keeps_intros)

lemma keeps_read_fwd [keeps_intros]: "keeps I (read_fwd P a)"
  by (unfold read_fwd_def Let_def) (intro keeps_intros)

lemma keeps_create [keeps_intros]: "keeps I (fw_upgrade_create_partition P i iid v a n)"
  by (unfold fw_upgrade_create_partition_def Let_def) (intro keeps_intros)

lemma keeps_first [keeps_intros]: "keeps I (fw_upgrade_first_partition P i)"
  by (unfold fw_upgrade_first_partition_def Let_def) (intro keeps_intros)

lemma keeps_next [keeps_intros]: "keeps I (fw_upgrade_next_partition P h)"
  by (unfold fw_upgrade_next_partition_def Let_def) (intro keeps_intros)

lemma keeps_find [keeps_intros]: "keeps I (fw_upgrade_find_partition P i iid)"
  by (unfold fw_upgrade_find_partition_def Let_def) (intro keeps_intros)

lemma keeps_set_id [keeps_intros]: "keeps I (fw_upgrade_set_image_id P h iid)"
  by (unfold fw_upgrade_set_image_id_def Let_def) (intro keeps_intros)

lemma keeps_set_version [keeps_intros]: "keeps I (fw_upgrade_set_image_version P h v)"
  by (unfold fw_upgrade_set_image_version_def Let_def) (intro keeps_intros)

lemma keeps_set_size [keeps_intros]: "keeps I (fw_upgrade_set_image_size P h v)"
  by (unfold fw_upgrade_set_image_size_def Let_def) (intro keeps_intros)

lemma keeps_erase_partition [keeps_intros]: "keeps I (fw_upgrade_erase_partition P h off n)"
  by (unfold fw_upgrade_erase_partition_def Let_def) (intro keeps_intros)

lemma keeps_rram_write [keeps_intros]: "keeps I (rram_write P a bs)"
  by (unfold rram_write_def Let_def) (intro keeps_intros)

lemma keeps_write_partition [keeps_intros]: "keeps I (fw_upgrade_write_partition P h off b al n)"
  by (unfold fw_upgrade_write_partition_def Let_def) (intro keeps_intros)

lemma keeps_read_partition [keeps_intros]: "keeps I (fw_upgrade_read_partition P h off b n)"
  by (unfold fw_upgrade_read_partition_def Let_def) (intro keeps_intros)

section \<open>The trial image\<close>

lemma keeps_past_image [keeps_intros]: "keeps I (past_image P c iid a)"
  by (unfold past_image_def Let_def) (intro keeps_intros)

lemma keeps_first_address [keeps_intros]: "keeps I (fw_upgrade_get_first_programming_image_start_address P)"
  by (unfold fw_upgrade_get_first_programming_image_start_address_def Let_def) (intro keeps_intros)

lemma keeps_walk [keeps_intros]: "keeps I (imageSet_walk P fuel h a)"
proof (induction fuel arbitrary: h a)
  case 0
  show ?case by (simp only: imageSet_walk.simps) (intro keeps_intros)
next
  case (Suc fuel)
  show ?case by (simp only: imageSet_walk.simps Let_def) (intro keeps_intros Suc)
qed

lemma keeps_end_addr [keeps_intros]: "keeps I (fw_upgrade_get_imageSet_end_addr P i)"
  by (unfold fw_upgrade_get_imageSet_end_addr_def Let_def) (intro keeps_intros)

lemma keeps_summary [keeps_intros]: "keeps I (read_fwd_summary P i)"
  by (unfold read_fwd_summary_def Let_def) (intro keeps_intros)

lemma keeps_scan_current [keeps_intros]: "keeps I (scan_current P is)"
  by (induction "is") (simp_all only: scan_current.simps Let_def, (intro keeps_intros | assumption)+)

lemma keeps_scan_trial [keeps_intros]: "keeps I (scan_trial P is t)"
  by (induction "is" arbitrary: t) (simp_all only: scan_trial.simps Let_def, (intro keeps_intros | assumption)+)

lemma keeps_current_index [keeps_intros]: "keeps I (fw_upgrade_get_current_index P)"
  by (unfold fw_upgrade_get_current_index_def Let_def) (intro keeps_intros)

lemma keeps_trial_index [keeps_intros]: "keeps I (fw_upgrade_get_trial_active_fwd_index P)"
  by (unfold fw_upgrade_get_trial_active_fwd_index_def Let_def) (intro keeps_intros)

lemma keeps_accept [keeps_intros]: "keeps I (fw_upgrade_accept_trial_fwd P)"
  by (unfold fw_upgrade_accept_trial_fwd_def Let_def) (intro keeps_intros)

lemma keeps_reject [keeps_intros]: "keeps I (fw_upgrade_reject_trial_fwd P)"
  by (unfold fw_upgrade_reject_trial_fwd_def Let_def) (intro keeps_intros)

lemma keeps_select [keeps_intros]: "keeps I (fw_upgrade_select_trial_fwd P)"
  by (unfold fw_upgrade_select_trial_fwd_def Let_def) (intro keeps_intros)

lemma keeps_display_walk [keeps_intros]: "keeps I (display_walk P fuel h)"
proof (induction fuel arbitrary: h)
  case 0
  show ?case by (simp only: display_walk.simps) (intro keeps_intros)
next
  case (Suc fuel)
  show ?case by (simp only: display_walk.simps Let_def) (intro keeps_intros Suc)
qed

lemma keeps_display_one [keeps_intros]: "keeps I (display_one P i k)"
  by (unfold display_one_def Let_def) (intro keeps_intros)

lemma keeps_display [keeps_intros]: "keeps I (fw_upgrade_display_fwd P)"
  by (unfold fw_upgrade_display_fwd_def Let_def) (intro keeps_intros)

end

section \<open>The layers above\<close>

text \<open>The part of the state a higher layer adds is not touched.\<close>

interpretation above: mem_frame "\<lambda>s. mem_st.more s = z" for z
  by unfold_locales simp_all

end
