(* ===== verification/Fw_Process.thy ===== *)
theory Fw_Process
  imports Fw_Receive
begin

text \<open>
  The state machine of an upgrade session, \<open>fw_upgrade_session_process\<close> of
  \<open>src/common/mcumgr_qcom/src/fw_upgrade.c\<close>, with the copies of file system and images it makes. One
  definition per \<open>case\<close> of the switch; the loop runs them until a packet is consumed, a step fails or
  the session ends.
\<close>

section \<open>Copies\<close>

text \<open>The two handles may alias no other; a copy goes block by block: read, erase, write.\<close>

primrec copy_fs ::
  "'d platform \<Rightarrow> nat \<Rightarrow> hdl \<Rightarrow> hdl \<Rightarrow> u32 \<Rightarrow> u32 \<Rightarrow> u32 \<Rightarrow> (('d, 'z) session_st_scheme, fw_status) state" where
  "copy_fs P 0 h1 h2 bs nbytes offset =
     (if offset < nbytes then do { out_of_fuel; State_Monad.return FW_UPGRADE_OK_E }
      else State_Monad.return FW_UPGRADE_OK_E)"
| "copy_fs P (Suc fuel) h1 h2 bs nbytes offset =
     (if offset < nbytes then do {
        (r, buf, _) \<leftarrow> fw_upgrade_read_partition P h1 offset True bs;
        if r \<noteq> FW_UPGRADE_OK_E then State_Monad.return FW_UPGRADE_ERR_FLASH_READ_FAIL_E
        else do {
          r \<leftarrow> fw_upgrade_erase_partition P h2 offset bs;
          if r \<noteq> FW_UPGRADE_OK_E then State_Monad.return FW_UPGRADE_ERR_FLASH_ERASE_PARTITION_E
          else do {
            r \<leftarrow> fw_upgrade_write_partition P h2 offset buf True bs;
            if r \<noteq> FW_UPGRADE_OK_E then State_Monad.return FW_UPGRADE_ERR_FLASH_WRITE_PARTITION_E
            else copy_fs P fuel h1 h2 bs nbytes (offset + bs)
          }
        }
      } else State_Monad.return FW_UPGRADE_OK_E)"

definition release_if :: "hdl \<Rightarrow> (('d, 'z) mem_st_scheme, unit) state" where
  "release_if h = when_m (h \<noteq> None) (release h)"

definition fw_upgrade_process_duplicate_fs ::
  "'d platform \<Rightarrow> u32 \<Rightarrow> (('d, 'z) session_st_scheme, fw_status) state" where
  "fw_upgrade_process_duplicate_fs P flgs = do {
     bs \<leftarrow> get_block_size;
     ok \<leftarrow> malloc P (unat bs);
     if \<not> ok then State_Monad.return FW_UPGRADE_ERR_INSUFFICIENT_MEMORY_E
     else do {
       (a1, _, _) \<leftarrow> fw_upgrade_get_active_fwd P False False;
       (r1, h1) \<leftarrow> fw_upgrade_find_partition P a1 FS1_IMG_ID;
       if r1 \<noteq> FW_UPGRADE_OK_E then do {
         release_if h1; State_Monad.return FW_UPGRADE_ERR_FLASH_IMAGE_NOT_FOUND_E
       } else do {
         (a2, _, _) \<leftarrow> fw_upgrade_get_active_fwd P False False;
         (r2, h2) \<leftarrow> fw_upgrade_find_partition P a2 FS2_IMG_ID;
         if r2 \<noteq> FW_UPGRADE_OK_E then do {
           release_if h1; release_if h2; State_Monad.return FW_UPGRADE_ERR_FLASH_IMAGE_NOT_FOUND_E
         } else do {
           p \<leftarrow> hdl_get h1;
           r \<leftarrow> copy_fs P (block_fuel (img_size p) bs) h1 h2 bs (img_size p) 0;
           release_if h1;
           release_if h2;
           State_Monad.return r
         }
       }
     }
   }"

text \<open>
  The inner loop of \<open>fw_upgrade_process_duplicate_images\<close>: here the status of the read is ignored; a
  buffer that was never written by a read holds unknown bytes, for which the model faults. \<open>last\<close> is
  the content of the buffer from the last read.
\<close>

primrec copy_image ::
  "'d platform \<Rightarrow> nat \<Rightarrow> hdl \<Rightarrow> u32 \<Rightarrow> u32 \<Rightarrow> u32 \<Rightarrow> bytes option \<Rightarrow>
   (('d, 'z) session_st_scheme, fw_status \<times> bytes option) state" where
  "copy_image P 0 h bs nbytes offset kept =
     (if offset < nbytes then do { out_of_fuel; State_Monad.return (FW_UPGRADE_OK_E, kept) }
      else State_Monad.return (FW_UPGRADE_OK_E, kept))"
| "copy_image P (Suc fuel) h bs nbytes offset kept =
     (if offset < nbytes then do {
        (_, buf, _) \<leftarrow> fw_upgrade_read_partition P h offset True bs;
        let kept = (if buf = None then kept else buf);
        when_m (kept = None) fault;
        c \<leftarrow> cxt;
        r \<leftarrow> fw_upgrade_erase_partition P (partition_hdl c) offset bs;
        if r \<noteq> FW_UPGRADE_OK_E then State_Monad.return (FW_UPGRADE_ERR_FLASH_ERASE_PARTITION_E, kept)
        else do {
          r \<leftarrow> fw_upgrade_write_partition P (partition_hdl c) offset kept True bs;
          if r \<noteq> FW_UPGRADE_OK_E then State_Monad.return (FW_UPGRADE_ERR_FLASH_WRITE_PARTITION_E, kept)
          else copy_image P fuel h bs nbytes (offset + bs) kept
        }
      } else State_Monad.return (FW_UPGRADE_OK_E, kept))"

text \<open>
  The outer loop. \<open>ret\<close> is carried through: an error of the inner loop leaves only that loop, and the
  next images are still copied. \<open>Some\<close> handle in the result: the outer loop was left with \<open>hdl\<close> open.
\<close>

fun dup_images ::
  "'d platform \<Rightarrow> u8 \<Rightarrow> u32 \<Rightarrow> nat list \<Rightarrow> fw_status \<Rightarrow> bytes option \<Rightarrow>
   (('d, 'z) session_st_scheme, fw_status \<times> hdl) state" where
  "dup_images P active bs [] ret kept = State_Monad.return (ret, None)"
| "dup_images P active bs (i # is) ret kept = do {
     c \<leftarrow> cxt;
     e \<leftarrow> image_hdr_at i;
     if download_flag c ! i = 0 \<and> ih_image_id e \<noteq> FS1_IMG_ID \<and> ih_image_id e \<noteq> FS2_IMG_ID
        \<and> ih_image_id e \<noteq> SBL_IMG_ID then do {
       (r, h) \<leftarrow> fw_upgrade_find_partition P active (ih_image_id e);
       if r \<noteq> FW_UPGRADE_OK_E then State_Monad.return (FW_UPGRADE_ERR_INCORRECT_IMAGE_HDR_E, None)
       else do {
         r \<leftarrow> create_into_cxt P (trial_fwd_idx c) (ih_image_id e) (ih_version e) (trial_mem_start c) (disk_size e);
         if r \<noteq> FW_UPGRADE_OK_E then State_Monad.return (FW_UPGRADE_ERR_FLASH_CREATE_PARTITION_E, h)
         else do {
           (r, kept) \<leftarrow> copy_image P (block_fuel (disk_size e) bs) h bs (disk_size e) 0 kept;
           release h;
           close_partition;
           upd_cxt (\<lambda>c. c\<lparr>trial_mem_start := trial_mem_start c + disk_size e\<rparr>);
           dup_images P active bs is (if r \<noteq> FW_UPGRADE_OK_E then r else ret) kept
         }
       }
     } else dup_images P active bs is ret kept
   }"

definition fw_upgrade_process_duplicate_images ::
  "'d platform \<Rightarrow> (('d, 'z) session_st_scheme, fw_status) state" where
  "fw_upgrade_process_duplicate_images P = do {
     c0 \<leftarrow> gets sess_cxt;
     case c0 of
       None \<Rightarrow> State_Monad.return FW_UPGRADE_ERR_SESSION_NOT_START_E
     | Some c \<Rightarrow> do {
         bs \<leftarrow> get_block_size;
         (active, _, _) \<leftarrow> fw_upgrade_get_active_fwd P False False;
         ok \<leftarrow> malloc P (unat bs);
         (ret, h) \<leftarrow> (if \<not> ok then State_Monad.return (FW_UPGRADE_ERR_INSUFFICIENT_MEMORY_E, None)
                     else dup_images P active bs [0..<unat (cxt_total_images c)] FW_UPGRADE_OK_E None);
         c \<leftarrow> cxt;
         when_m (partition_hdl c \<noteq> None) close_partition;
         release_if h;
         State_Monad.return ret
       }
   }"

section \<open>The steps of the state machine\<close>

text \<open>
  The locals of \<open>fw_upgrade_session_process\<close>: the status, whether the loop goes on, and \<open>buffer\<close>, a
  pointer into the packet given by its offset (\<open>None\<close>: null).
\<close>

record session_locals =
  l_ret :: fw_status
  l_run :: bool
  l_buffer :: "nat option"

definition stop_with :: "fw_status \<Rightarrow> session_locals \<Rightarrow> session_locals" where
  "stop_with e l = l\<lparr>l_ret := e, l_run := False\<rparr>"

text \<open>\<open>fw_upgrade_find_partition(fw_upgrade_get_active_fwd(NULL, NULL), iid, &partition_hdl)\<close>.\<close>

definition find_active :: "'d platform \<Rightarrow> u32 \<Rightarrow> (('d, 'z) session_st_scheme, fw_status) state" where
  "find_active P iid = do {
     (active, _, _) \<leftarrow> fw_upgrade_get_active_fwd P False False;
     find_into_cxt P active iid
   }"

definition step_get_trial_info ::
  "'d platform \<Rightarrow> session_locals \<Rightarrow> (('d, 'z) session_st_scheme, session_locals) state" where
  "step_get_trial_info P l = do {
     (r, idx, start, sz) \<leftarrow> fw_upgrade_select_trial_fwd P;
     upd_cxt (\<lambda>c. c\<lparr>trial_fwd_idx := (case idx of None \<Rightarrow> trial_fwd_idx c | Some i \<Rightarrow> i),
       trial_mem_start := (case start of None \<Rightarrow> trial_mem_start c | Some a \<Rightarrow> a),
       trial_mem_size := (case sz of None \<Rightarrow> trial_mem_size c | Some n \<Rightarrow> n)\<rparr>);
     if r \<noteq> FW_UPGRADE_OK_E
     then State_Monad.return (stop_with FW_UPGRADE_ERR_FLASH_NOT_SUPPORT_FW_UPGRADE_E l)
     else do {
       (active, _, _) \<leftarrow> fw_upgrade_get_active_fwd P False False;
       c \<leftarrow> cxt;
       if active = trial_fwd_idx c
       then State_Monad.return (stop_with FW_UPGRADE_ERR_TRIAL_IS_RUNNING_E l)
       else do { fw_upgrade_set_state FW_UPGRADE_STATE_ERASE_FWD_E; State_Monad.return l }
     }
   }"

text \<open>\<open>no_fs\<close> is the build option \<open>CONFIG_FW_UPGRADE_NO_FS\<close>.\<close>

definition step_erase_fwd ::
  "'d platform \<Rightarrow> bool \<Rightarrow> session_locals \<Rightarrow> (('d, 'z) session_st_scheme, session_locals) state" where
  "step_erase_fwd P no_fs l = do {
     c \<leftarrow> cxt;
     r \<leftarrow> fw_upgrade_erase_fwd P (trial_fwd_idx c);
     if r \<noteq> FW_UPGRADE_OK_E then State_Monad.return (stop_with FW_UPGRADE_ERR_FLASH_ERASE_FAIL_E l)
     else do {
       fw_upgrade_set_state (if no_fs then FW_UPGRADE_STATE_PREPARE_FS_E
                             else FW_UPGRADE_STATE_ERASE_SECOND_FS_E);
       State_Monad.return l
     }
   }"

definition step_erase_second_fs ::
  "'d platform \<Rightarrow> session_locals \<Rightarrow> (('d, 'z) session_st_scheme, session_locals) state" where
  "step_erase_second_fs P l = do {
     r \<leftarrow> find_active P FS2_IMG_ID;
     if r \<noteq> FW_UPGRADE_OK_E then State_Monad.return (stop_with FW_UPGRADE_ERR_FLASH_IMAGE_NOT_FOUND_E l)
     else do {
       c \<leftarrow> cxt;
       p \<leftarrow> hdl_get (partition_hdl c);
       _ \<leftarrow> fw_upgrade_get_mem_block_size;
       r \<leftarrow> fw_upgrade_erase_partition P (partition_hdl c) 0 (img_size p);
       if r \<noteq> FW_UPGRADE_OK_E then State_Monad.return (stop_with FW_UPGRADE_ERR_FLASH_ERASE_PARTITION_E l)
       else do {
         close_partition;
         fw_upgrade_set_state FW_UPGRADE_STATE_PREPARE_FS_E;
         State_Monad.return l
       }
     }
   }"

text \<open>
  Creating an image of id \<open>iid\<close> in the trial descriptor over the region of the open partition, which is
  closed first: what the three blocks of \<open>FW_UPGRADE_STATE_PREPARE_FS_E\<close> share.
\<close>

definition carry_over ::
  "'d platform \<Rightarrow> u32 \<Rightarrow> (('d, 'z) session_st_scheme, fw_status) state" where
  "carry_over P iid = do {
     c \<leftarrow> cxt;
     p \<leftarrow> hdl_get (partition_hdl c);
     close_partition;
     c \<leftarrow> cxt;
     r \<leftarrow> create_into_cxt P (trial_fwd_idx c) iid (client_version p) (img_start p) (img_size p);
     if r \<noteq> FW_UPGRADE_OK_E then State_Monad.return FW_UPGRADE_ERR_FLASH_CREATE_PARTITION_E
     else do {
       upd_cxt (\<lambda>c. c\<lparr>hidden_images_count := hidden_images_count c + 1\<rparr>);
       close_partition;
       State_Monad.return FW_UPGRADE_OK_E
     }
   }"

definition prepare_fs1 :: "'d platform \<Rightarrow> bool \<Rightarrow> (('d, 'z) session_st_scheme, fw_status) state" where
  "prepare_fs1 P no_fs =
     (if no_fs then State_Monad.return FW_UPGRADE_OK_E
      else do {
        r \<leftarrow> find_active P FS1_IMG_ID;
        if r \<noteq> FW_UPGRADE_OK_E then State_Monad.return FW_UPGRADE_ERR_FLASH_IMAGE_NOT_FOUND_E
        else carry_over P FS2_IMG_ID
      })"

text \<open>A used RAM dump (its magic number is not erased) is erased before it is carried over.\<close>

definition prepare_ramdump :: "'d platform \<Rightarrow> (('d, 'z) session_st_scheme, fw_status) state" where
  "prepare_ramdump P = do {
     r \<leftarrow> find_active P RAMDUMP_IMG_ID;
     if r \<noteq> FW_UPGRADE_OK_E then State_Monad.return FW_UPGRADE_OK_E
     else do {
       c \<leftarrow> cxt;
       p \<leftarrow> hdl_get (partition_hdl c);
       (r, buf, n) \<leftarrow> fw_upgrade_read_partition P (partition_hdl c) 0 True 4;
       if r \<noteq> FW_UPGRADE_OK_E \<or> n \<noteq> 4 then State_Monad.return FW_UPGRADE_ERR_FLASH_ERASE_PARTITION_E
       else do {
         r \<leftarrow> (if (case buf of None \<Rightarrow> 0 | Some b \<Rightarrow> le32 b) \<noteq> FLASH_ERASED_VALUE
              then fw_upgrade_erase_partition P (partition_hdl c) 0 (img_size p)
              else State_Monad.return FW_UPGRADE_OK_E);
         if r \<noteq> FW_UPGRADE_OK_E then State_Monad.return FW_UPGRADE_ERR_FLASH_ERASE_PARTITION_E
         else carry_over P RAMDUMP_IMG_ID
       }
     }
   }"

definition prepare_userdata :: "'d platform \<Rightarrow> (('d, 'z) session_st_scheme, fw_status) state" where
  "prepare_userdata P = do {
     r \<leftarrow> find_active P USERDATA_IMG_ID;
     if r \<noteq> FW_UPGRADE_OK_E then State_Monad.return FW_UPGRADE_OK_E
     else carry_over P USERDATA_IMG_ID
   }"

definition step_prepare_fs ::
  "'d platform \<Rightarrow> bool \<Rightarrow> session_locals \<Rightarrow> (('d, 'z) session_st_scheme, session_locals) state" where
  "step_prepare_fs P no_fs l = do {
     r1 \<leftarrow> prepare_fs1 P no_fs;
     if r1 \<noteq> FW_UPGRADE_OK_E then State_Monad.return (stop_with r1 l)
     else do {
       r2 \<leftarrow> prepare_ramdump P;
       if r2 \<noteq> FW_UPGRADE_OK_E then State_Monad.return (stop_with r2 l)
       else do {
         r3 \<leftarrow> prepare_userdata P;
         if r3 \<noteq> FW_UPGRADE_OK_E then State_Monad.return (stop_with r3 l)
         else do {
           fw_upgrade_set_state FW_UPGRADE_STATE_PREPARE_CONNECT_E;
           State_Monad.return l
         }
       }
     }
   }"

text \<open>The loop over \<open>download_flag\<close>: the first index from \<open>i\<close> on to download, or \<open>n\<close>.\<close>

definition next_download :: "u8 list \<Rightarrow> u32 \<Rightarrow> u32 \<Rightarrow> u32" where
  "next_download fl n i = (case find (\<lambda>k. fl ! k \<noteq> 0) [unat i..<unat n] of
     Some k \<Rightarrow> of_nat k | None \<Rightarrow> max i n)"

definition step_prepare_connect ::
  "'d platform \<Rightarrow> session_locals \<Rightarrow> (('d, 'z) session_st_scheme, session_locals) state" where
  "step_prepare_connect P l = do {
     c \<leftarrow> cxt;
     if is_first c \<noteq> 0 then do { fw_upgrade_set_state FW_UPGRADE_STATE_CONNECT_E; State_Monad.return l }
     else do {
       upd_cxt (\<lambda>c. c\<lparr>image_index := next_download (download_flag c) (cxt_total_images c) (image_index c)\<rparr>);
       c \<leftarrow> cxt;
       e \<leftarrow> image_hdr_at (unat (image_index c));
       if ih_image_id e = FS1_IMG_ID \<and> image_length e = 0 then do {
         r \<leftarrow> find_active P FS2_IMG_ID;
         if r \<noteq> FW_UPGRADE_OK_E then State_Monad.return (stop_with FW_UPGRADE_ERR_FLASH_IMAGE_NOT_FOUND_E l)
         else do {
           c \<leftarrow> cxt;
           p \<leftarrow> hdl_get (partition_hdl c);
           close_partition;
           if disk_size e > img_size p
           then State_Monad.return (stop_with FW_UPGRADE_ERR_INCORRECT_IMAGE_LENGTH_E l)
           else do {
             r \<leftarrow> create_into_cxt P (trial_fwd_idx c) (ih_image_id e) (ih_version e) (img_start p) (img_size p);
             if r \<noteq> FW_UPGRADE_OK_E
             then State_Monad.return (stop_with FW_UPGRADE_ERR_FLASH_CREATE_PARTITION_E l)
             else do {
               close_partition;
               upd_cxt (\<lambda>c. c\<lparr>image_index := image_index c + 1\<rparr>);
               fw_upgrade_set_state FW_UPGRADE_STATE_PREPARE_CONNECT_E;
               State_Monad.return l
             }
           }
         }
       } else do {
         fw_upgrade_set_state (if image_index c \<ge> cxt_total_images c
           then FW_UPGRADE_STATE_DUPLICATE_IMAGES_E else FW_UPGRADE_STATE_CONNECT_E);
         State_Monad.return l
       }
     }
   }"

text \<open>
  Resuming. No code sets this state; the hash of what was written is rebuilt through \<open>buffer\<close>, where a
  failed read only leaves the inner loop. A read through the packet pointer overwrites the packet, which
  the caller owns; only the message digest of what was read matters here.
\<close>

primrec resume_hash ::
  "'d platform \<Rightarrow> nat \<Rightarrow> bool \<Rightarrow> u32 \<Rightarrow> u32 \<Rightarrow> (('d, 'z) session_st_scheme, bool) state" where
  "resume_hash P 0 buf_ok cnt done = (if done < cnt then do { out_of_fuel; State_Monad.return True }
     else State_Monad.return True)"
| "resume_hash P (Suc fuel) buf_ok cnt done =
     (if done < cnt then do {
        let len = (if cnt - done > FW_UPGRADE_BUF_SIZE then FW_UPGRADE_BUF_SIZE else cnt - done);
        c \<leftarrow> cxt;
        (r, buf, n) \<leftarrow> fw_upgrade_read_partition P (partition_hdl c) done buf_ok len;
        if r \<noteq> FW_UPGRADE_OK_E then State_Monad.return False
        else do {
          digest_update (take (unat n) (case buf of None \<Rightarrow> [] | Some b \<Rightarrow> b));
          resume_hash P fuel buf_ok cnt (done + n)
        }
      } else State_Monad.return True)"

definition step_resume_service ::
  "'d platform \<Rightarrow> session_locals \<Rightarrow> (('d, 'z) session_st_scheme, session_locals) state" where
  "step_resume_service P l = do {
     c0 \<leftarrow> gets sess_cxt;
     case c0 of
       None \<Rightarrow> State_Monad.return (stop_with FW_UPGRADE_ERR_SESSION_NOT_START_E l)
     | Some c \<Rightarrow> do {
         e \<leftarrow> image_hdr_at (unat (image_index c));
         r \<leftarrow> find_into_cxt P (trial_fwd_idx c) (ih_image_id e);
         if r \<noteq> FW_UPGRADE_OK_E
         then State_Monad.return (stop_with FW_UPGRADE_ERR_FLASH_IMAGE_NOT_FOUND_E l)
         else do {
           ok \<leftarrow> malloc P 112;
           upd_cxt (\<lambda>c. c\<lparr>digest_ctx := (if ok then Some [] else None)\<rparr>);
           if \<not> ok then State_Monad.return (stop_with FW_UPGRADE_ERR_INSUFFICIENT_MEMORY_E l)
           else do {
             c \<leftarrow> cxt;
             ok \<leftarrow> resume_hash P (unat (image_wrt_count c) + 1) (l_buffer l \<noteq> None) (image_wrt_count c) 0;
             fw_upgrade_set_state FW_UPGRADE_STATE_RESUME_SERVER_E;
             State_Monad.return (if ok then l else stop_with FW_UPGRADE_ERR_FLASH_READ_FAIL_E l)
           }
         }
       }
   }"

definition step_receive_data ::
  "u32 \<Rightarrow> session_locals \<Rightarrow> (('d, 'z) session_st_scheme, session_locals) state" where
  "step_receive_data len l = do {
     c \<leftarrow> cxt;
     let received = len - buf_offset c;
     let l = l\<lparr>l_buffer := Some (unat (buf_offset c)), l_ret := FW_UPGRADE_OK_E\<rparr>;
     if received > 0 then do {
       upd_cxt (\<lambda>c. c\<lparr>buf_len := received, buf_offset := 0\<rparr>);
       fw_upgrade_set_state (if is_first c = 1 then FW_UPGRADE_STATE_PROCESS_CONFIG_FILE_E
                             else FW_UPGRADE_STATE_PROCESS_IMAGE_E);
       State_Monad.return l
     } else State_Monad.return (l\<lparr>l_run := False\<rparr>)
   }"

text \<open>A null \<open>buffer\<close> would be read: the empty packet of the model faults on the first byte.\<close>

definition step_process_config_file ::
  "'d platform \<Rightarrow> bytes \<Rightarrow> session_locals \<Rightarrow> (('d, 'z) session_st_scheme, session_locals) state" where
  "step_process_config_file P data l = do {
     ret \<leftarrow> fw_upgrade_process_config_file P (case l_buffer l of None \<Rightarrow> [] | Some k \<Rightarrow> drop k data);
     State_Monad.return (l\<lparr>l_ret := ret, l_run := l_run l \<and> ret = FW_UPGRADE_OK_E\<rparr>)
   }"

text \<open>The image data is passed as the whole packet, not from \<open>buffer\<close>.\<close>

definition step_process_image ::
  "'d platform \<Rightarrow> (u32 \<Rightarrow> bool) \<Rightarrow> bytes \<Rightarrow> session_locals \<Rightarrow> (('d, 'z) session_st_scheme, session_locals) state" where
  "step_process_image P al data l = do {
     ret \<leftarrow> fw_upgrade_process_receive_image P al data;
     if ret \<noteq> FW_UPGRADE_OK_E then State_Monad.return (stop_with ret l)
     else do {
       st \<leftarrow> fw_upgrade_get_state;
       when_m (st = FW_UPGRADE_STATE_PROCESS_IMAGE_E) (fw_upgrade_set_state FW_UPGRADE_STATE_RECEIVE_DATA_E);
       State_Monad.return (l\<lparr>l_ret := ret\<rparr>)
     }
   }"

definition step_duplicate_images ::
  "'d platform \<Rightarrow> session_locals \<Rightarrow> (('d, 'z) session_st_scheme, session_locals) state" where
  "step_duplicate_images P l = do {
     ret \<leftarrow> fw_upgrade_process_duplicate_images P;
     if ret \<noteq> FW_UPGRADE_OK_E then State_Monad.return (stop_with ret l)
     else do {
       fw_upgrade_set_state FW_UPGRADE_STATE_DUPLICATE_FS_E;
       State_Monad.return (l\<lparr>l_ret := ret\<rparr>)
     }
   }"

definition step_duplicate_fs ::
  "'d platform \<Rightarrow> session_locals \<Rightarrow> (('d, 'z) session_st_scheme, session_locals) state" where
  "step_duplicate_fs P l = do {
     c \<leftarrow> cxt;
     ret \<leftarrow> (if cxt_flags c AND FW_UPGRADE_FLAG_DUPLICATE_ACTIVE_FS \<noteq> 0
            then fw_upgrade_process_duplicate_fs P (cxt_flags c)
            else State_Monad.return (l_ret l));
     if cxt_flags c AND FW_UPGRADE_FLAG_DUPLICATE_ACTIVE_FS \<noteq> 0 \<and> ret \<noteq> FW_UPGRADE_OK_E
     then State_Monad.return (stop_with ret l)
     else do {
       fw_upgrade_set_state FW_UPGRADE_STATE_FINISH_E;
       State_Monad.return (l\<lparr>l_ret := ret\<rparr>)
     }
   }"

definition step_finish ::
  "'d platform \<Rightarrow> session_locals \<Rightarrow> (('d, 'z) session_st_scheme, session_locals) state" where
  "step_finish P l = do {
     _ \<leftarrow> fw_upgrade_session_finalize P FW_UPGRADE_OK_E;
     State_Monad.return (l\<lparr>l_run := False\<rparr>)
   }"

definition goto_state ::
  "upgrade_state \<Rightarrow> session_locals \<Rightarrow> (('d, 'z) session_st_scheme, session_locals) state" where
  "goto_state st l = do { fw_upgrade_set_state st; State_Monad.return l }"

fun session_step ::
  "'d platform \<Rightarrow> bool \<Rightarrow> (u32 \<Rightarrow> bool) \<Rightarrow> bytes \<Rightarrow> upgrade_state \<Rightarrow> session_locals \<Rightarrow>
   (('d, 'z) session_st_scheme, session_locals) state" where
  "session_step P no_fs al data FW_UPGRADE_STATE_NOT_START_E l = goto_state FW_UPGRADE_STATE_GET_TRIAL_INFO_E l"
| "session_step P no_fs al data FW_UPGRADE_STATE_GET_TRIAL_INFO_E l = step_get_trial_info P l"
| "session_step P no_fs al data FW_UPGRADE_STATE_ERASE_FWD_E l = step_erase_fwd P no_fs l"
| "session_step P no_fs al data FW_UPGRADE_STATE_ERASE_SECOND_FS_E l = step_erase_second_fs P l"
| "session_step P no_fs al data FW_UPGRADE_STATE_PREPARE_FS_E l = step_prepare_fs P no_fs l"
| "session_step P no_fs al data FW_UPGRADE_STATE_PREPARE_CONNECT_E l = step_prepare_connect P l"
| "session_step P no_fs al data FW_UPGRADE_STATE_CONNECT_E l = goto_state FW_UPGRADE_STATE_RECEIVE_DATA_E l"
| "session_step P no_fs al data FW_UPGRADE_STATE_RESUME_SERVICE_E l = step_resume_service P l"
| "session_step P no_fs al data FW_UPGRADE_STATE_RESUME_SERVER_E l = goto_state FW_UPGRADE_STATE_RECEIVE_DATA_E l"
| "session_step P no_fs al data FW_UPGRADE_STATE_RECEIVE_DATA_E l = step_receive_data (of_nat (length data)) l"
| "session_step P no_fs al data FW_UPGRADE_STATE_PROCESS_CONFIG_FILE_E l = step_process_config_file P data l"
| "session_step P no_fs al data FW_UPGRADE_STATE_PROCESS_IMAGE_E l = step_process_image P al data l"
| "session_step P no_fs al data FW_UPGRADE_STATE_DISCONNECT_SERVER_E l = goto_state FW_UPGRADE_STATE_PREPARE_CONNECT_E l"
| "session_step P no_fs al data FW_UPGRADE_STATE_DUPLICATE_IMAGES_E l = step_duplicate_images P l"
| "session_step P no_fs al data FW_UPGRADE_STATE_DUPLICATE_FS_E l = step_duplicate_fs P l"
| "session_step P no_fs al data FW_UPGRADE_STATE_FINISH_E l = step_finish P l"
| "session_step P no_fs al data FW_UPGRADE_STATE_ERASE_FLASH_E l = State_Monad.return l"
| "session_step P no_fs al data FW_UPGRADE_STATE_ERASE_IMAGE_E l = State_Monad.return l"

section \<open>The loop\<close>

definition session_continues :: "u32 \<Rightarrow> session_locals \<Rightarrow> (('d, 'z) session_st_scheme, bool) state" where
  "session_continues len l =
     (if \<not> l_run l then State_Monad.return False
      else do {
        ss \<leftarrow> fw_upgrade_get_session_status;
        st \<leftarrow> fw_upgrade_get_state;
        c \<leftarrow> cxt;
        State_Monad.return ((ss = FW_UPGRADE_SESSION_RUNNING_E \<and> buf_offset c \<le> len)
          \<or> st = FW_UPGRADE_STATE_DUPLICATE_IMAGES_E \<or> st = FW_UPGRADE_STATE_DUPLICATE_FS_E
          \<or> st = FW_UPGRADE_STATE_FINISH_E)
      })"

primrec session_loop ::
  "'d platform \<Rightarrow> bool \<Rightarrow> (u32 \<Rightarrow> bool) \<Rightarrow> bytes \<Rightarrow> nat \<Rightarrow> session_locals \<Rightarrow>
   (('d, 'z) session_st_scheme, session_locals) state" where
  "session_loop P no_fs al data 0 l = do { out_of_fuel; State_Monad.return l }"
| "session_loop P no_fs al data (Suc fuel) l = do {
     go \<leftarrow> session_continues (of_nat (length data)) l;
     if go then do {
       st \<leftarrow> fw_upgrade_get_state;
       l' \<leftarrow> session_step P no_fs al data st l;
       session_loop P no_fs al data fuel l'
     } else State_Monad.return l
   }"

definition session_fuel :: "bytes \<Rightarrow> nat" where
  "session_fuel data = 64 + 4 * length data"

definition fw_upgrade_session_process ::
  "'d platform \<Rightarrow> bool \<Rightarrow> (u32 \<Rightarrow> bool) \<Rightarrow> u32 \<Rightarrow> bytes \<Rightarrow> (('d, 'z) session_st_scheme, fw_status) state" where
  "fw_upgrade_session_process P no_fs al offset data = do {
     r \<leftarrow> (if offset = 0 then fw_upgrade_session_init P else State_Monad.return FW_UPGRADE_OK_E);
     if r \<noteq> FW_UPGRADE_OK_E then State_Monad.return FW_UPGRADE_ERR_SESSION_NOT_START_E
     else do {
       c \<leftarrow> gets sess_cxt;
       if c = None then State_Monad.return FW_UPGRADE_ERR_SESSION_NOT_START_E
       else do {
         upd_cxt (\<lambda>c. c\<lparr>buf_offset := 0\<rparr>);
         l \<leftarrow> session_loop P no_fs al data (session_fuel data)
               \<lparr>l_ret = FW_UPGRADE_OK_E, l_run = True, l_buffer = None\<rparr>;
         State_Monad.return (l_ret l)
       }
     }
   }"

end
