(* ===== verification/Fw_Session_Frame.thy ===== *)
theory Fw_Session_Frame
  imports Fw_Frame Fw_Process
begin

text \<open>
  What the session layer leaves alone: the same as \<open>Fw_Frame\<close> one layer up. A predicate that depends on
  no field of the memory module or of the session is kept by every function of \<open>fw_upgrade.c\<close>, the
  whole upload step \<open>fw_upgrade_session_process\<close> included.
\<close>

lemma keeps_case_round [keeps_intros]:
  "(\<And>r. x = Break r \<Longrightarrow> keeps I (f r)) \<Longrightarrow> (x = Continue \<Longrightarrow> keeps I g) \<Longrightarrow>
   keeps I (case x of Break r \<Rightarrow> f r | Continue \<Rightarrow> g)"
  by (cases x) simp_all

section \<open>The interface\<close>

locale session_frame = mem_frame I
  for I :: "('d, 'z) session_st_scheme \<Rightarrow> bool" +
  assumes frame_session: "I (s\<lparr>sess_cxt := c\<rparr>) = I s" "I (s\<lparr>image_hdrs := hs\<rparr>) = I s"
      "I (s\<lparr>mutex_init := b\<rparr>) = I s" "I (s\<lparr>reset_scheduled := b\<rparr>) = I s"
begin

lemma keeps_set_cxt [keeps_intros]: "keeps I (modify (\<lambda>s. s\<lparr>sess_cxt := f s\<rparr>))"
  by (rule keeps_upd) (simp only: frame_session)

lemma keeps_set_hdrs [keeps_intros]: "keeps I (modify (\<lambda>s. s\<lparr>image_hdrs := hs\<rparr>))"
  by (rule keeps_upd) (simp only: frame_session)

lemma keeps_set_mutex [keeps_intros]: "keeps I (modify (\<lambda>s. s\<lparr>mutex_init := b\<rparr>))"
  by (rule keeps_upd) (simp only: frame_session)

lemma keeps_set_reset [keeps_intros]: "keeps I (modify (\<lambda>s. s\<lparr>reset_scheduled := b\<rparr>))"
  by (rule keeps_upd) (simp only: frame_session)

section \<open>Accessors and lifetime\<close>

lemma keeps_cxt [keeps_intros]: "keeps I (cxt)"
  by (unfold cxt_def Let_def) (intro keeps_intros)

lemma keeps_upd_cxt [keeps_intros]: "keeps I (upd_cxt f)"
  by (unfold upd_cxt_def Let_def) (intro keeps_intros)

lemma keeps_set_state [keeps_intros]: "keeps I (fw_upgrade_set_state st)"
  by (unfold fw_upgrade_set_state_def Let_def) (intro keeps_intros)

lemma keeps_get_state [keeps_intros]: "keeps I (fw_upgrade_get_state)"
  by (unfold fw_upgrade_get_state_def Let_def) (intro keeps_intros)

lemma keeps_get_status [keeps_intros]: "keeps I (fw_upgrade_get_session_status)"
  by (unfold fw_upgrade_get_session_status_def Let_def) (intro keeps_intros)

lemma keeps_set_status [keeps_intros]: "keeps I (fw_upgrade_set_session_status st)"
  by (unfold fw_upgrade_set_session_status_def Let_def) (intro keeps_intros)

lemma keeps_set_error [keeps_intros]: "keeps I (fw_upgrade_set_error_code e)"
  by (unfold fw_upgrade_set_error_code_def Let_def) (intro keeps_intros)

lemma keeps_digest_start [keeps_intros]: "keeps I (digest_start)"
  by (unfold digest_start_def Let_def) (intro keeps_intros)

lemma keeps_digest_update [keeps_intros]: "keeps I (digest_update bs)"
  by (unfold digest_update_def Let_def) (intro keeps_intros)

lemma keeps_digest_finish [keeps_intros]: "keeps I (digest_finish P)"
  by (unfold digest_finish_def Let_def) (intro keeps_intros)

lemma keeps_get_block_size [keeps_intros]: "keeps I (get_block_size)"
  by (unfold get_block_size_def Let_def) (intro keeps_intros)

lemma keeps_image_hdr_at [keeps_intros]: "keeps I (image_hdr_at i)"
  by (unfold image_hdr_at_def Let_def) (intro keeps_intros)

lemma keeps_fin [keeps_intros]: "keeps I (fw_upgrade_session_fin)"
  by (unfold fw_upgrade_session_fin_def Let_def) (intro keeps_intros)

lemma keeps_prepare_suspend [keeps_intros]: "keeps I (fw_upgrade_session_prepare_suspend)"
  by (unfold fw_upgrade_session_prepare_suspend_def Let_def) (intro keeps_intros)

lemma keeps_init_end [keeps_intros]: "keeps I (session_init_end r)"
  by (unfold session_init_end_def Let_def) (intro keeps_intros)

lemma keeps_session_init [keeps_intros]: "keeps I (fw_upgrade_session_init P)"
  by (unfold fw_upgrade_session_init_def Let_def) (intro keeps_intros)

lemma keeps_finalize_valid [keeps_intros]: "keeps I (finalize_valid P)"
  by (unfold finalize_valid_def Let_def) (intro keeps_intros)

lemma keeps_finalize [keeps_intros]: "keeps I (fw_upgrade_session_finalize P r)"
  by (unfold fw_upgrade_session_finalize_def Let_def) (intro keeps_intros)

lemma keeps_done [keeps_intros]: "keeps I (fw_upgrade_session_done P r)"
  by (unfold fw_upgrade_session_done_def Let_def) (intro keeps_intros)

section \<open>The configuration file\<close>

lemma keeps_cfg_first [keeps_intros]: "keeps I (cfg_first P buf)"
  by (unfold cfg_first_def Let_def) (intro keeps_intros)

lemma keeps_cfg_next [keeps_intros]: "keeps I (cfg_next buf)"
  by (unfold cfg_next_def Let_def) (intro keeps_intros)

lemma keeps_cfg_verify [keeps_intros]: "keeps I (cfg_verify P)"
  by (unfold cfg_verify_def Let_def) (intro keeps_intros)

lemma keeps_cfg_write_fwd [keeps_intros]: "keeps I (cfg_write_fwd P h)"
  by (unfold cfg_write_fwd_def Let_def) (intro keeps_intros)

lemma keeps_cfg_save [keeps_intros]: "keeps I (cfg_save P h)"
  by (unfold cfg_save_def Let_def) (intro keeps_intros)

lemma keeps_cfg_check_entries [keeps_intros]: "keeps I (cfg_check_entries)"
  by (unfold cfg_check_entries_def Let_def) (intro keeps_intros)

lemma keeps_cfg_check_sums [keeps_intros]: "keeps I (cfg_check_sums P v)"
  by (unfold cfg_check_sums_def Let_def) (intro keeps_intros)

lemma keeps_hash_partition [keeps_intros]: "keeps I (hash_partition P fuel h bs n off)"
proof (induction fuel arbitrary: off)
  case 0
  show ?case by (simp only: hash_partition.simps) (intro keeps_intros)
next
  case (Suc fuel)
  show ?case by (simp only: hash_partition.simps Let_def) (intro keeps_intros Suc)
qed

lemma keeps_set_download [keeps_intros]: "keeps I (set_download i v)"
  by (unfold set_download_def Let_def) (intro keeps_intros)

lemma keeps_check_download [keeps_intros]: "keeps I (check_download P a bs i)"
  by (unfold check_download_def Let_def) (intro keeps_intros)

lemma keeps_check_downloads [keeps_intros]: "keeps I (check_downloads P a bs is)"
  by (induction "is") (simp_all only: check_downloads.simps, (intro keeps_intros | assumption)+)

lemma keeps_cfg_partial [keeps_intros]: "keeps I (cfg_partial P)"
  by (unfold cfg_partial_def Let_def) (intro keeps_intros)

lemma keeps_cfg_all_in_one [keeps_intros]: "keeps I (cfg_all_in_one)"
  by (unfold cfg_all_in_one_def Let_def) (intro keeps_intros)

lemma keeps_cfg_parse [keeps_intros]: "keeps I (cfg_parse P)"
  by (unfold cfg_parse_def Let_def) (intro keeps_intros)

lemma keeps_cfg_end [keeps_intros]: "keeps I (cfg_end r)"
  by (unfold cfg_end_def Let_def) (intro keeps_intros)

lemma keeps_config_file [keeps_intros]: "keeps I (fw_upgrade_process_config_file P buf)"
  by (unfold fw_upgrade_process_config_file_def Let_def) (intro keeps_intros)

section \<open>The images\<close>

lemma keeps_verify_hash [keeps_intros]: "keeps I (fw_upgrade_verify_image_hash P e)"
  by (unfold fw_upgrade_verify_image_hash_def Let_def) (intro keeps_intros)

lemma keeps_find_into [keeps_intros]: "keeps I (find_into_cxt P i iid)"
  by (unfold find_into_cxt_def Let_def) (intro keeps_intros)

lemma keeps_create_into [keeps_intros]: "keeps I (create_into_cxt P i iid v a n)"
  by (unfold create_into_cxt_def Let_def) (intro keeps_intros)

lemma keeps_close [keeps_intros]: "keeps I (close_partition)"
  by (unfold close_partition_def Let_def) (intro keeps_intros)

lemma keeps_rx_create_fs [keeps_intros]: "keeps I (rx_create_fs P e)"
  by (unfold rx_create_fs_def Let_def) (intro keeps_intros)

lemma keeps_rx_create_image [keeps_intros]: "keeps I (rx_create_image P bs e)"
  by (unfold rx_create_image_def Let_def) (intro keeps_intros)

lemma keeps_rx_open [keeps_intros]: "keeps I (rx_open P bs e)"
  by (unfold rx_open_def Let_def) (intro keeps_intros)

lemma keeps_rx_write [keeps_intros]: "keeps I (rx_write P al bs b off n)"
  by (unfold rx_write_def Let_def) (intro keeps_intros)

lemma keeps_rx_complete [keeps_intros]: "keeps I (rx_complete P e)"
  by (unfold rx_complete_def Let_def) (intro keeps_intros)

lemma keeps_rx_erase_next [keeps_intros]: "keeps I (rx_erase_next P bs)"
  by (unfold rx_erase_next_def Let_def) (intro keeps_intros)

lemma keeps_rx_after [keeps_intros]: "keeps I (rx_after P bs e)"
  by (unfold rx_after_def Let_def) (intro keeps_intros)

lemma keeps_rx_chunk [keeps_intros]: "keeps I (rx_chunk P al bs b e off)"
  by (unfold rx_chunk_def Let_def) (intro keeps_intros)

lemma keeps_rx_round [keeps_intros]: "keeps I (rx_round P al bs b off)"
  by (unfold rx_round_def Let_def) (intro keeps_intros)

lemma keeps_rx_loop [keeps_intros]: "keeps I (rx_loop P al fuel bs b off)"
proof (induction fuel arbitrary: off)
  case 0
  show ?case by (simp only: rx_loop.simps) (intro keeps_intros)
next
  case (Suc fuel)
  show ?case by (simp only: rx_loop.simps Let_def) (intro keeps_intros Suc)
qed

lemma keeps_receive [keeps_intros]: "keeps I (fw_upgrade_process_receive_image P al b)"
  by (unfold fw_upgrade_process_receive_image_def Let_def) (intro keeps_intros)

section \<open>The state machine\<close>

lemma keeps_copy_fs [keeps_intros]: "keeps I (copy_fs P fuel h1 h2 bs n off)"
proof (induction fuel arbitrary: off)
  case 0
  show ?case by (simp only: copy_fs.simps) (intro keeps_intros)
next
  case (Suc fuel)
  show ?case by (simp only: copy_fs.simps Let_def) (intro keeps_intros Suc)
qed

lemma keeps_release_if [keeps_intros]: "keeps I (release_if h)"
  by (unfold release_if_def Let_def) (intro keeps_intros)

lemma keeps_duplicate_fs [keeps_intros]: "keeps I (fw_upgrade_process_duplicate_fs P fl)"
  by (unfold fw_upgrade_process_duplicate_fs_def Let_def) (intro keeps_intros)

lemma keeps_copy_image [keeps_intros]: "keeps I (copy_image P fuel h bs n off kept)"
proof (induction fuel arbitrary: off kept)
  case 0
  show ?case by (simp only: copy_image.simps) (intro keeps_intros)
next
  case (Suc fuel)
  show ?case by (simp only: copy_image.simps Let_def) (intro keeps_intros Suc)
qed

lemma keeps_dup_images [keeps_intros]: "keeps I (dup_images P a bs is r kept)"
  by (induction "is" arbitrary: r kept) (simp_all only: dup_images.simps, (intro keeps_intros | assumption)+)

lemma keeps_duplicate_images [keeps_intros]: "keeps I (fw_upgrade_process_duplicate_images P)"
  by (unfold fw_upgrade_process_duplicate_images_def Let_def) (intro keeps_intros)

lemma keeps_find_active [keeps_intros]: "keeps I (find_active P iid)"
  by (unfold find_active_def Let_def) (intro keeps_intros)

lemma keeps_step_get_trial_info [keeps_intros]: "keeps I (step_get_trial_info P l)"
  by (unfold step_get_trial_info_def Let_def) (intro keeps_intros)

lemma keeps_step_erase_fwd [keeps_intros]: "keeps I (step_erase_fwd P no_fs l)"
  by (unfold step_erase_fwd_def Let_def) (intro keeps_intros)

lemma keeps_step_erase_second_fs [keeps_intros]: "keeps I (step_erase_second_fs P l)"
  by (unfold step_erase_second_fs_def Let_def) (intro keeps_intros)

lemma keeps_carry_over [keeps_intros]: "keeps I (carry_over P iid)"
  by (unfold carry_over_def Let_def) (intro keeps_intros)

lemma keeps_prepare_fs1 [keeps_intros]: "keeps I (prepare_fs1 P no_fs)"
  by (unfold prepare_fs1_def Let_def) (intro keeps_intros)

lemma keeps_prepare_ramdump [keeps_intros]: "keeps I (prepare_ramdump P)"
  by (unfold prepare_ramdump_def Let_def) (intro keeps_intros)

lemma keeps_prepare_userdata [keeps_intros]: "keeps I (prepare_userdata P)"
  by (unfold prepare_userdata_def Let_def) (intro keeps_intros)

lemma keeps_step_prepare_fs [keeps_intros]: "keeps I (step_prepare_fs P no_fs l)"
  by (unfold step_prepare_fs_def Let_def) (intro keeps_intros)

lemma keeps_step_prepare_connect [keeps_intros]: "keeps I (step_prepare_connect P l)"
  by (unfold step_prepare_connect_def Let_def) (intro keeps_intros)

lemma keeps_resume_hash [keeps_intros]: "keeps I (resume_hash P fuel b n d)"
proof (induction fuel arbitrary: d)
  case 0
  show ?case by (simp only: resume_hash.simps) (intro keeps_intros)
next
  case (Suc fuel)
  show ?case by (simp only: resume_hash.simps Let_def) (intro keeps_intros Suc)
qed

lemma keeps_step_resume [keeps_intros]: "keeps I (step_resume_service P l)"
  by (unfold step_resume_service_def Let_def) (intro keeps_intros)

lemma keeps_step_receive [keeps_intros]: "keeps I (step_receive_data len l)"
  by (unfold step_receive_data_def Let_def) (intro keeps_intros)

lemma keeps_step_config [keeps_intros]: "keeps I (step_process_config_file P data l)"
  by (unfold step_process_config_file_def Let_def) (intro keeps_intros)

lemma keeps_step_image [keeps_intros]: "keeps I (step_process_image P al data l)"
  by (unfold step_process_image_def Let_def) (intro keeps_intros)

lemma keeps_step_dup_images [keeps_intros]: "keeps I (step_duplicate_images P l)"
  by (unfold step_duplicate_images_def Let_def) (intro keeps_intros)

lemma keeps_step_dup_fs [keeps_intros]: "keeps I (step_duplicate_fs P l)"
  by (unfold step_duplicate_fs_def Let_def) (intro keeps_intros)

lemma keeps_step_finish [keeps_intros]: "keeps I (step_finish P l)"
  by (unfold step_finish_def Let_def) (intro keeps_intros)

lemma keeps_goto [keeps_intros]: "keeps I (goto_state st l)"
  by (unfold goto_state_def Let_def) (intro keeps_intros)

lemma keeps_session_step [keeps_intros]: "keeps I (session_step P no_fs al data st l)"
  by (cases st) (simp_all only: session_step.simps, (intro keeps_intros)+)

lemma keeps_continues [keeps_intros]: "keeps I (session_continues n l)"
  by (unfold session_continues_def Let_def) (intro keeps_intros)

lemma keeps_session_loop [keeps_intros]: "keeps I (session_loop P no_fs al data fuel l)"
proof (induction fuel arbitrary: l)
  case 0
  show ?case by (simp only: session_loop.simps) (intro keeps_intros)
next
  case (Suc fuel)
  show ?case by (simp only: session_loop.simps Let_def) (intro keeps_intros Suc)
qed

lemma keeps_session_process [keeps_intros]: "keeps I (fw_upgrade_session_process P no_fs al off data)"
  by (unfold fw_upgrade_session_process_def Let_def) (intro keeps_intros)

end

section \<open>The layers above\<close>

interpretation above_session: session_frame "\<lambda>s. session_st.more s = z" for z
  by unfold_locales simp_all

end
