(* ===== verification/Fw_Io_Proofs.thy ===== *)
theory Fw_Io_Proofs
  imports Fw_View
begin

text \<open>
  Erasing, writing and reading through a partition handle, and the fields of a descriptor: what each
  access does over a driver that does not fail, and what no access can do over any driver.
\<close>

section \<open>The partition behind a handle\<close>

text \<open>A flash partition (any image but the second bootloader) that lies inside the device.\<close>

definition flash_partition :: "u32 \<Rightarrow> ('d, 'z) mem_st_scheme \<Rightarrow> nat \<Rightarrow> partition_client \<Rightarrow> bool" where
  "flash_partition M s k c \<longleftrightarrow> k < FW_UPGRADE_MAX_HANDLES \<and> partition_handles s ! k = c \<and> ref_count c > 0
     \<and> img_id c \<noteq> SBL_IMG_ID \<and> unat (img_start c) + unat (img_size c) \<le> unat M
     \<and> unat (img_start c) mod 4096 = 0"

text \<open>A nonempty range of a partition.\<close>

definition in_partition :: "partition_client \<Rightarrow> u32 \<Rightarrow> u32 \<Rightarrow> bool" where
  "in_partition c off n \<longleftrightarrow> n \<noteq> 0 \<and> unat off + unat n \<le> unat (img_size c)"

lemma handle_valid_Some: "k < FW_UPGRADE_MAX_HANDLES \<Longrightarrow> ref_count (hs ! k) > 0 \<Longrightarrow> handle_valid hs (Some k)"
  by (auto simp: handle_valid_def list_ex_iff)

lemma flash_partition_valid:
  "flash_partition M s k c \<Longrightarrow> handle_valid (partition_handles s) (Some k)"
  by (auto simp: flash_partition_def intro: handle_valid_Some)

lemma flash_partition_world [simp]:
  "flash_partition M (s\<lparr>world := w\<rparr>) k c = flash_partition M s k c"
  "flash_partition M (programmed P a bs s) k c = flash_partition M s k c"
  "flash_partition M (erased P b n s) k c = flash_partition M s k c"
  by (simp_all add: flash_partition_def programmed_def erased_def)

lemma unat_plus: "unat a + unat b < 4294967296 \<Longrightarrow> unat ((a :: u32) + b) = unat a + unat b"
  by (rule unat_add_nowrap) simp

lemma partition_range:
  assumes "flash_partition M s k c" and "in_partition c off n"
  shows "unat (img_start c + off) = unat (img_start c) + unat off"
    and "unat (img_start c + off) + unat n \<le> unat (img_start c) + unat (img_size c)"
    and "unat (img_start c) + unat (img_size c) \<le> unat M"
    and "\<not> img_start c + off + n > img_start c + img_size c"
    and "\<not> off + n > img_size c"
proof -
  from assms have b: "unat (img_start c) + unat (img_size c) \<le> unat M" "unat off + unat n \<le> unat (img_size c)"
    by (auto simp: flash_partition_def in_partition_def)
  have M: "unat M < 4294967296" by (rule unat_lt_u32)
  show 1: "unat (img_start c + off) = unat (img_start c) + unat off"
    using b M by (intro unat_plus) linarith
  show "unat (img_start c + off) + unat n \<le> unat (img_start c) + unat (img_size c)" using 1 b by simp
  show "unat (img_start c) + unat (img_size c) \<le> unat M" by (rule b(1))
  have 2: "unat (img_start c + off + n) = unat (img_start c) + unat off + unat n"
    unfolding 1 [symmetric] by (rule unat_plus) (use b M 1 in linarith)
  have 3: "unat (img_start c + img_size c) = unat (img_start c) + unat (img_size c)"
    using b M by (intro unat_plus) linarith
  show "\<not> img_start c + off + n > img_start c + img_size c"
    using 2 3 b by (simp add: not_less word_le_nat_alt)
  have "unat (off + n) = unat off + unat n"
    using b M by (intro unat_plus) linarith
  then show "\<not> off + n > img_size c" using b by (simp add: not_less word_le_nat_alt)
qed

section \<open>Running the accesses\<close>

lemma run_handle_validation:
  "run_state (fw_upgrade_partition_handle_validation h) s =
     (if handle_valid (partition_handles s) h then FW_UPGRADE_OK_E else FW_UPGRADE_ERROR_E, s)"
  by (simp add: fw_upgrade_partition_handle_validation_def)

lemma run_hdl_get: "run_state (hdl_get (Some k)) s = (partition_handles s ! k, s)"
  by (simp add: hdl_get_def handle_entry_def)

lemma run_parameters:
  assumes "flash_partition M s k c" and "in_partition c off n"
  shows "run_state (fw_upgrade_mem_parameters_validation (Some k) off n True) s = (FW_UPGRADE_OK_E, s)"
  using assms flash_partition_valid [OF assms(1)] partition_range(4) [OF assms]
  by (simp add: fw_upgrade_mem_parameters_validation_def run_simps run_handle_validation run_hdl_get
      in_partition_def flash_partition_def)

lemma run_write_partition:
  assumes "mem_ready P cells M s" and "flash_partition M s k c" and "in_partition c off n"
    and "length bs = unat n"
  shows "run_state (fw_upgrade_write_partition P (Some k) off (Some bs) al n) s =
      (FW_UPGRADE_OK_E, programmed P (img_start c + off) bs s)"
    and "cells (world (programmed P (img_start c + off) bs s)) =
      prog_cells (cells (world s)) (unat (img_start c) + unat off) bs"
proof -
  note r = partition_range [OF assms(2,3)] mem_readyD [OF assms(1)]
  have fits: "unat (img_start c + off) + unat n \<le> unat M" using r(2,3) by simp
  have c: "partition_handles s ! k = c" "img_id c \<noteq> SBL_IMG_ID"
    using assms(2) by (auto simp: flash_partition_def)
  note w = run_write_reliable [OF r(6,7) fits assms(4)]
  show "run_state (fw_upgrade_write_partition P (Some k) off (Some bs) al n) s =
      (FW_UPGRADE_OK_E, programmed P (img_start c + off) bs s)"
    using run_parameters [OF assms(2,3)] c w(1)
    by (simp add: fw_upgrade_write_partition_def run_simps run_hdl_get Let_def)
  show "cells (world (programmed P (img_start c + off) bs s)) =
      prog_cells (cells (world s)) (unat (img_start c) + unat off) bs"
    using w(2) r(1) by simp
qed

lemma run_read_partition:
  assumes "mem_ready P cells M s" and "flash_partition M s k c" and "in_partition c off n"
  shows "run_state (fw_upgrade_read_partition P (Some k) off True n) s =
      ((FW_UPGRADE_OK_E, Some (slice (cells (world s)) (unat (img_start c) + unat off) (unat n)), n), s)"
proof -
  note r = partition_range [OF assms(2,3)] mem_readyD [OF assms(1)]
  have fits: "unat (img_start c + off) + unat n \<le> unat M" using r(2,3) by simp
  have c: "partition_handles s ! k = c" "img_id c \<noteq> SBL_IMG_ID"
    using assms(2) by (auto simp: flash_partition_def)
  show ?thesis
    using run_parameters [OF assms(2,3)] c run_read_reliable [OF r(6,7) fits] r(1)
    by (simp add: fw_upgrade_read_partition_def run_simps run_hdl_get Let_def FLASH_DEVICE_DONE_def)
qed

lemma unat_numeral_4096: "unat (4096 :: u32) = 4096"
  by simp

lemma unat_div_4096: "unat ((x :: u32) div 4096) = unat x div 4096"
  by (simp add: unat_div)

lemma blocks_exact: "(a :: nat) mod 4096 = 0 \<Longrightarrow> a div 4096 * 4096 = a"
  by (metis add_0_right div_mult_mod_eq)

lemma blocks_add: "(a :: nat) mod 4096 = 0 \<Longrightarrow> b mod 4096 = 0 \<Longrightarrow> (a + b) mod 4096 = 0"
  by (metis mod_add_eq add_0 mod_0)

lemma mod_4096_zero: "unat (x :: u32) mod 4096 = 0 \<Longrightarrow> x mod 4096 = 0"
  by (metis unat_mod unat_eq_zero unat_numeral_4096)

lemma run_erase_partition:
  assumes "mem_ready P cells M s" and "flash_partition M s k c" and "in_partition c off n"
    and "unat off mod 4096 = 0" and "unat n mod 4096 = 0"
  shows "run_state (fw_upgrade_erase_partition P (Some k) off n) s =
      (FW_UPGRADE_OK_E, erased P ((img_start c + off) div 4096) (n div 4096) s)"
    and "cells (world (erased P ((img_start c + off) div 4096) (n div 4096) s)) =
      erase_cells (cells (world s)) (unat (img_start c) + unat off) (unat n)"
proof -
  note r = partition_range [OF assms(2,3)] mem_readyD [OF assms(1)]
  have c: "partition_handles s ! k = c" "img_id c \<noteq> SBL_IMG_ID" "unat (img_start c) mod 4096 = 0"
    using assms(2) by (auto simp: flash_partition_def)
  have n: "n \<noteq> 0" using assms(3) by (simp add: in_partition_def)
  have al: "(unat (img_start c) + unat off) mod 4096 = 0" by (rule blocks_add [OF c(3) assms(4)])
  have first: "unat ((img_start c + off) div 4096) * 4096 = unat (img_start c) + unat off"
    unfolding unat_div_4096 r(1) by (rule blocks_exact [OF al])
  have count: "unat (n div 4096) * 4096 = unat n"
    unfolding unat_div_4096 by (rule blocks_exact [OF assms(5)])
  have m: "off mod 4096 = 0" "n mod 4096 = 0"
    using assms(4,5) by (simp_all add: mod_4096_zero)
  have fits: "unat ((img_start c + off) div 4096) * 4096 + unat (n div 4096) * 4096 \<le> unat M"
    using first count r(1,2,3) by simp
  note e = run_erase_reliable [OF r(6,7) fits]
  show "run_state (fw_upgrade_erase_partition P (Some k) off n) s =
      (FW_UPGRADE_OK_E, erased P ((img_start c + off) div 4096) (n div 4096) s)"
    using c m n r(5) e(1) flash_partition_valid [OF assms(2)] run_mem_info [OF r(10)]
    by (simp add: fw_upgrade_erase_partition_def run_simps run_handle_validation run_hdl_get Let_def)
  show "cells (world (erased P ((img_start c + off) div 4096) (n div 4096) s)) =
      erase_cells (cells (world s)) (unat (img_start c) + unat off) (unat n)"
    using e(2) first count by simp
qed


section \<open>Erase, write, read\<close>

text \<open>The sequence in which an upgrade uses a partition.\<close>

definition erase_write_read ::
  "'d platform \<Rightarrow> nat \<Rightarrow> u32 \<Rightarrow> u32 \<Rightarrow> u32 \<Rightarrow> bytes \<Rightarrow> u32 \<Rightarrow>
   (('d, 'z) mem_st_scheme, fw_status \<times> fw_status \<times> fw_status \<times> bytes option \<times> u32) state" where
  "erase_write_read P k off0 n0 off bs n = do {
     e \<leftarrow> fw_upgrade_erase_partition P (Some k) off0 n0;
     w \<leftarrow> fw_upgrade_write_partition P (Some k) off (Some bs) True n;
     r \<leftarrow> fw_upgrade_read_partition P (Some k) off True n;
     State_Monad.return (e, w, r)
   }"

lemma slice_prog_erase:
  assumes "a0 \<le> a" and "a + length bs \<le> a0 + m"
  shows "slice (prog_cells (erase_cells c a0 m) a bs) a (length bs) = bs"
  by (rule slice_prog_erased) (use assms in \<open>simp add: erase_cells_def\<close>)

text \<open>
  C37: Data written to an erased part of a flash partition is read back unchanged through the same
  handle: erasing whole blocks, writing anywhere inside them and reading the same range all succeed,
  the read returns the bytes written, and no byte of the flash outside the erased blocks changes.
\<close>

theorem partition_round_trip:
  assumes "mem_ready P cells M s" and "flash_partition M s k c"
    and "in_partition c off0 n0" and "unat off0 mod 4096 = 0" and "unat n0 mod 4096 = 0"
    and "in_partition c off n" and "unat off0 \<le> unat off" and "unat off + unat n \<le> unat off0 + unat n0"
    and "length bs = unat n"
  shows "\<exists>t. run_state (erase_write_read P k off0 n0 off bs n) s =
      ((FW_UPGRADE_OK_E, FW_UPGRADE_OK_E, FW_UPGRADE_OK_E, Some bs, n), t)
    \<and> (\<forall>i. i < unat (img_start c) + unat off0 \<or> unat (img_start c) + unat off0 + unat n0 \<le> i \<longrightarrow>
         cells (world t) i = cells (world s) i)"
proof -
  let ?s1 = "erased P ((img_start c + off0) div 4096) (n0 div 4096) s"
  let ?s2 = "programmed P (img_start c + off) bs ?s1"
  note e = run_erase_partition [OF assms(1-5)]
  have 1: "mem_ready P cells M ?s1" "flash_partition M ?s1 k c" using assms(1,2) by simp_all
  note w = run_write_partition [OF 1 assms(6,9)]
  have 2: "mem_ready P cells M ?s2" "flash_partition M ?s2 k c" using 1 by simp_all
  note r = run_read_partition [OF 2 assms(6)]
  have same: "slice (cells (world ?s2)) (unat (img_start c) + unat off) (unat n) = bs"
    unfolding w(2) e(2) assms(9) [symmetric]
    by (rule slice_prog_erase) (use assms(7-9) in simp_all)
  have frame: "cells (world ?s2) i = cells (world s) i"
    if "i < unat (img_start c) + unat off0 \<or> unat (img_start c) + unat off0 + unat n0 \<le> i" for i
    using that assms(7-9) unfolding w(2) e(2) by (auto simp: prog_cells_def erase_cells_def)
  have "run_state (erase_write_read P k off0 n0 off bs n) s =
      ((FW_UPGRADE_OK_E, FW_UPGRADE_OK_E, FW_UPGRADE_OK_E, Some bs, n), ?s2)"
    unfolding erase_write_read_def by (simp only: run_simps e(1) w(1) r same prod.case)
  with frame show ?thesis by blast
qed

definition sample_client :: partition_client where
  "sample_client = \<lparr>ref_count = 1, fwd_idx = 0, img_idx = 0, img_id = 10, client_version = 1,
     img_start = 0x10000, img_size = 0x2000\<rparr>"

definition io_state :: "sim_world mem_st" where
  "io_state = (sim_state [] [] 3)\<lparr>partition_handles := sample_client # replicate 9 no_client\<rparr>"

lemma io_state_ready: "mem_ready sim sim_flash 0x400000 io_state"
  using sim_state_ready [of "[]" "[]" 3] by (simp add: io_state_def)

lemma io_state_partition: "flash_partition 0x400000 io_state 0 sample_client"
  by (simp add: flash_partition_def io_state_def sample_client_def FW_UPGRADE_MAX_HANDLES_def SBL_IMG_ID_def
      word_less_nat_alt)

theorem partition_round_trip_witness:
  "\<exists>t. run_state (erase_write_read sim 0 0x1000 0x1000 0x1004 [1, 2, 3] 3) io_state =
     ((FW_UPGRADE_OK_E, FW_UPGRADE_OK_E, FW_UPGRADE_OK_E, Some [1, 2, 3], 3), t)"
  using partition_round_trip [OF io_state_ready io_state_partition, of "0x1000" "0x1000" "0x1004" 3 "[1, 2, 3]"]
  by (auto simp: in_partition_def sample_client_def)

section \<open>What a write or an erase cannot touch\<close>

lemma run_parameters_ok:
  assumes "run_state (fw_upgrade_mem_parameters_validation h off n ok) s = (FW_UPGRADE_OK_E, t)"
  shows "t = s" and "\<exists>k. h = Some k \<and> k < FW_UPGRADE_MAX_HANDLES
    \<and> \<not> img_start (partition_handles s ! k) + off + n > img_start (partition_handles s ! k) + img_size (partition_handles s ! k)"
  using assms
  by (auto simp: fw_upgrade_mem_parameters_validation_def run_simps run_handle_validation run_hdl_get
      handle_valid_def list_ex_iff Let_def split: if_splits)

lemma parameters_keep_state: "snd (run_state (fw_upgrade_mem_parameters_validation h off n ok) s) = s"
  by (cases h) (auto simp: fw_upgrade_mem_parameters_validation_def run_simps run_handle_validation run_hdl_get
      Let_def)

text \<open>
  C38: Whatever the driver does, a write through a handle of a flash partition changes no byte of the
  flash outside that partition, as long as the address arithmetic of the bounds check does not wrap
  around 32 bits; a refused write changes nothing.
\<close>

theorem write_partition_confined:
  assumes "adapter_ready P cells s" and "c = partition_handles s ! k" and "img_id c \<noteq> SBL_IMG_ID"
    and "length bs = unat n"
    and "unat (img_start c) + unat off + unat n < 2 ^ 32" and "unat (img_start c) + unat (img_size c) < 2 ^ 32"
    and "run_state (fw_upgrade_write_partition P (Some k) off (Some bs) al n) s = (r, t)"
    and "i < unat (img_start c) \<or> unat (img_start c) + unat (img_size c) \<le> i"
  shows "cells (world t) i = cells (world s) i"
proof -
  obtain v s' where v: "run_state (fw_upgrade_mem_parameters_validation (Some k) off n True) s = (v, s')"
    by (metis prod.exhaust)
  have s': "s' = s" using parameters_keep_state [of "Some k" off n True s] v by simp
  show ?thesis
  proof (cases "v = FW_UPGRADE_OK_E")
    case False
    with assms(7) v s' have "t = s" by (simp add: fw_upgrade_write_partition_def run_simps split: if_splits)
    then show ?thesis by simp
  next
    case True
    from run_parameters_ok(2) [OF v [unfolded True]] assms(2)
    have le: "\<not> img_start c + off + n > img_start c + img_size c" by auto
    have 1: "unat (img_start c + off) = unat (img_start c) + unat off"
      by (rule unat_plus) (use assms(5) in simp)
    have 2: "unat (img_start c + off + n) = unat (img_start c) + unat off + unat n"
      unfolding 1 [symmetric] by (rule unat_plus) (use assms(5) 1 in simp)
    have 3: "unat (img_start c + img_size c) = unat (img_start c) + unat (img_size c)"
      by (rule unat_plus) (use assms(6) in simp)
    have inside: "unat (img_start c) + unat off + unat n \<le> unat (img_start c) + unat (img_size c)"
      using le unfolding not_less word_le_nat_alt 2 3 by simp
    obtain q u where w: "run_state (flash_adapter_write P (img_start c + off) n (Some bs)) s = (q, u)"
      by (metis prod.exhaust)
    have "t = u"
      using assms(2,3,7) v w s' True
      by (simp add: fw_upgrade_write_partition_def run_simps run_hdl_get Let_def)
    moreover have "cells (world u) i = cells (world s) i"
      using adapter.wr_frame [OF assms(1,4) w] inside assms(8) 1 by force
    ultimately show ?thesis by simp
  qed
qed

theorem write_partition_confined_witness:
  "sim_flash (world (snd (run_state (fw_upgrade_write_partition sim (Some 0) 0x1FFC (Some [1, 2, 3]) True 3) io_state))) 0x12000
     = sim_flash (world io_state) 0x12000"
proof -
  have a: "adapter_ready sim sim_flash io_state" by (rule mem_readyD(1) [OF io_state_ready])
  show ?thesis
    by (rule write_partition_confined [where c = sample_client and k = 0 and al = True, OF a _ _ _ _ _ prod.collapse [symmetric]])
      (simp_all add: io_state_def sample_client_def SBL_IMG_ID_def)
qed

text \<open>
  Whatever the driver does, an erase through a handle of a flash partition that starts on a block
  changes no byte of the flash outside that partition, as long as the sum of offset and length does not
  wrap around 32 bits.
\<close>

theorem erase_partition_confined:
  assumes "adapter_ready P cells s" and "fw_upgrade_mem_params s = Some (std_params M)"
    and "c = partition_handles s ! k" and "unat (img_start c) mod 4096 = 0"
    and "unat off + unat n < 2 ^ 32" and "unat (img_start c) + unat (img_size c) < 2 ^ 32"
    and "run_state (fw_upgrade_erase_partition P (Some k) off n) s = (r, t)"
    and "i < unat (img_start c) \<or> unat (img_start c) + unat (img_size c) \<le> i"
  shows "cells (world t) i = cells (world s) i"
proof (cases "t = s")
  case False
  let ?first = "(img_start c + off) div 4096" and ?count = "n div 4096"
  obtain q u where e: "run_state (flash_adapter_erase P ?first ?count) s = (q, u)" by (metis prod.exhaust)
  from False assms(3,7) e have t: "t = u" and m: "off mod 4096 = 0" "n mod 4096 = 0"
    and le: "\<not> off + n > img_size c"
    by (auto simp: fw_upgrade_erase_partition_def run_simps run_handle_validation run_hdl_get Let_def
        run_mem_info [OF assms(2)] split: if_splits)
  have 1: "unat (off + n) = unat off + unat n" by (rule unat_plus) (use assms(5) in simp)
  have in_img: "unat off + unat n \<le> unat (img_size c)"
    using le unfolding not_less word_le_nat_alt 1 by simp
  have 2: "unat (img_start c + off) = unat (img_start c) + unat off"
    by (rule unat_plus) (use assms(6) in_img in simp)
  have "unat off mod 4096 = unat (off mod 4096)" "unat n mod 4096 = unat (n mod 4096)"
    by (simp_all only: unat_mod unat_numeral_4096)
  then have m': "unat off mod 4096 = 0" "unat n mod 4096 = 0" using m by simp_all
  have first: "unat ?first * 4096 = unat (img_start c) + unat off"
    unfolding unat_div_4096 2 by (rule blocks_exact [OF blocks_add [OF assms(4) m'(1)]])
  have count: "unat ?count * 4096 = unat n"
    unfolding unat_div_4096 by (rule blocks_exact [OF m'(2)])
  have "cells (world u) i = cells (world s) i"
    by (rule adapter.er_frame [OF assms(1) _ _ e]) (use first count in_img assms(6,8) in auto)
  with t show ?thesis by simp
qed simp

theorem erase_partition_confined_witness:
  "sim_flash (world (snd (run_state (fw_upgrade_erase_partition sim (Some 0) 0x1000 0x1000) io_state))) 0x12000
     = sim_flash (world io_state) 0x12000"
proof -
  have a: "adapter_ready sim sim_flash io_state" "fw_upgrade_mem_params io_state = Some (std_params 0x400000)"
    using mem_readyD [OF io_state_ready] by simp_all
  show ?thesis
    by (rule erase_partition_confined [where c = sample_client and k = 0, OF a _ _ _ _ prod.collapse [symmetric]])
      (simp_all add: io_state_def sample_client_def)
qed

lemma wraps_below:
  assumes "(a :: nat) < m" and "b < m"
  shows "(a + b) mod m < a \<longleftrightarrow> m \<le> a + b"
proof (cases "a + b < m")
  case False
  then have "(a + b) mod m = a + b - m"
    using assms by (simp add: le_mod_geq)
  with False assms show ?thesis
    by linarith
qed simp

text \<open>
  C40: The bounds check alone does not confine a write, because its 32-bit sums wrap around: a write through a
  live handle of a flash partition is accepted if and only if the wrapped end of the range does not lie behind
  the wrapped end of the partition; it then programs the bytes at the wrapped start address, which lies before
  the partition if and only if the sum of start and offset reaches \<open>2 ^ 32\<close>. A write that is not accepted
  changes nothing. (The wrapped range lies inside the flash, which works.)
\<close>

theorem write_bounds_wrap:
  assumes "mem_ready P cells M s" and "k < FW_UPGRADE_MAX_HANDLES" and "c = partition_handles s ! k"
    and "ref_count c > 0" and "img_id c \<noteq> SBL_IMG_ID" and "n \<noteq> 0" and "length bs = unat n"
    and "unat (img_start c + off) + unat n \<le> unat M"
    and "run_state (fw_upgrade_write_partition P (Some k) off (Some bs) al n) s = (r, t)"
  shows "(r = FW_UPGRADE_OK_E \<longleftrightarrow> (unat (img_start c) + unat off + unat n) mod 2 ^ 32 \<le> (unat (img_start c) + unat (img_size c)) mod 2 ^ 32)
    \<and> cells (world t) = (if r = FW_UPGRADE_OK_E
        then prog_cells (cells (world s)) ((unat (img_start c) + unat off) mod 2 ^ 32) bs else cells (world s))
    \<and> ((unat (img_start c) + unat off) mod 2 ^ 32 < unat (img_start c) \<longleftrightarrow> 2 ^ 32 \<le> unat (img_start c) + unat off)"
proof -
  note m = mem_readyD [OF assms(1)]
  have sums: "unat (img_start c + off) = (unat (img_start c) + unat off) mod 2 ^ 32"
    "unat (img_start c + off + n) = (unat (img_start c) + unat off + unat n) mod 2 ^ 32"
    "unat (img_start c + img_size c) = (unat (img_start c) + unat (img_size c)) mod 2 ^ 32"
    by (simp_all add: unat_word_ariths mod_add_left_eq)
  have v: "handle_valid (partition_handles s) (Some k)"
    using assms(2-4) by (intro handle_valid_Some) simp_all
  have check: "run_state (fw_upgrade_mem_parameters_validation (Some k) off n True) s =
      (if img_start c + off + n \<le> img_start c + img_size c then FW_UPGRADE_OK_E else FW_UPGRADE_ERR_INVALID_PARAM_E, s)"
    using v assms(3,6) by (simp add: fw_upgrade_mem_parameters_validation_def run_simps run_handle_validation run_hdl_get
        Let_def not_le)
  note w = run_write_reliable [OF m(1,2) assms(8,7)]
  have "(r, t) = (if img_start c + off + n \<le> img_start c + img_size c
      then (FW_UPGRADE_OK_E, programmed P (img_start c + off) bs s) else (FW_UPGRADE_ERR_INVALID_PARAM_E, s))"
    unfolding assms(9) [symmetric]
    using check w(1) assms(3,5) by (simp add: fw_upgrade_write_partition_def run_simps run_hdl_get Let_def)
  then have "r = FW_UPGRADE_OK_E \<longleftrightarrow> img_start c + off + n \<le> img_start c + img_size c"
    "cells (world t) = (if r = FW_UPGRADE_OK_E then prog_cells (cells (world s)) (unat (img_start c + off)) bs
      else cells (world s))"
    using w(2) by (auto split: if_splits)
  moreover have "(unat (img_start c) + unat off) mod 2 ^ 32 < unat (img_start c) \<longleftrightarrow> 2 ^ 32 \<le> unat (img_start c) + unat off"
    by (rule wraps_below) (use unat_lt_u32 [of "img_start c"] unat_lt_u32 [of off] in simp_all)
  ultimately show ?thesis
    unfolding word_le_nat_alt sums by blast
qed

theorem write_bounds_wrap_witness:
  "let out = run_state (fw_upgrade_write_partition sim (Some 0) 0xFFFFF000 (Some [0]) True 1) io_state in
     fst out = FW_UPGRADE_OK_E \<and> sim_flash (world io_state) 0xF000 = 0xFF \<and> sim_flash (world (snd out)) 0xF000 = 0
     \<and> 0xF000 < unat (img_start sample_client)"
proof -
  obtain r t where run: "run_state (fw_upgrade_write_partition sim (Some 0) 0xFFFFF000 (Some [0]) True 1) io_state = (r, t)"
    by (metis prod.exhaust)
  have c: "sample_client = partition_handles io_state ! 0"
    by (simp add: io_state_def)
  have "(0 :: nat) < FW_UPGRADE_MAX_HANDLES"
    by (simp add: FW_UPGRADE_MAX_HANDLES_def)
  from write_bounds_wrap [OF io_state_ready this c _ _ _ _ _ run]
  have "r = FW_UPGRADE_OK_E" "sim_flash (world t) = prog_cells (sim_flash (world io_state)) 0xF000 [0]"
    by (simp_all add: sample_client_def SBL_IMG_ID_def)
  moreover have "sim_flash (world io_state) = flash_image []"
    by (simp add: io_state_def sim_state_def)
  ultimately show ?thesis
    by (simp add: run Let_def prog_cells_def flash_image_def sample_client_def)
qed

section \<open>The fields of a descriptor\<close>

lemma run_set_field:
  assumes "mem_ready P cells M s" and "i < 3" and "length v = unat (snd (fwd_field info))"
  shows "run_state (fw_upgrade_set_fwd_info P i info v) s =
      (FW_UPGRADE_OK_E, programmed P (fwd_field_addr (std_params M) i info) v s)"
    and "cells (world (programmed P (fwd_field_addr (std_params M) i info) v s)) =
      prog_cells (cells (world s)) (4096 * unat i + unat (fst (fwd_field info))) v"
proof -
  note r = mem_readyD [OF assms(1)]
  have "unat (fst (fwd_field info)) + unat (snd (fwd_field info)) \<le> 4096"
    by (cases info) simp_all
  then have fits: "unat (fwd_field_addr (std_params M) i info) + unat (snd (fwd_field info)) \<le> unat M"
    using r(3) assms(2) by (simp add: unat_fwd_field_addr unat_lt_3)
  note w = run_write_reliable [OF r(1,2) fits assms(3)]
  show "run_state (fw_upgrade_set_fwd_info P i info v) s =
      (FW_UPGRADE_OK_E, programmed P (fwd_field_addr (std_params M) i info) v s)"
    using assms(2) r(4,5) w(1)
    by (simp add: fw_upgrade_set_fwd_info_def run_simps run_validation run_mem_info
        FW_UPGRADE_MAX_FWD_def not_le [symmetric])
  show "cells (world (programmed P (fwd_field_addr (std_params M) i info) v s)) =
      prog_cells (cells (world s)) (4096 * unat i + unat (fst (fwd_field info))) v"
    using w(2) by (simp add: unat_fwd_field_addr)
qed

text \<open>The bytes of a field: what the reading operation returns.\<close>

definition field_bytes :: "(nat \<Rightarrow> u8) \<Rightarrow> u8 \<Rightarrow> fwd_info \<Rightarrow> bytes" where
  "field_bytes c i info = slice c (4096 * unat i + unat (fst (fwd_field info))) (unat (snd (fwd_field info)))"

lemma fields_disjoint:
  assumes "i \<noteq> j \<or> info \<noteq> info'"
  shows "4096 * unat i + unat (fst (fwd_field info)) + unat (snd (fwd_field info)) \<le> 4096 * unat j + unat (fst (fwd_field info'))
    \<or> 4096 * unat j + unat (fst (fwd_field info')) + unat (snd (fwd_field info')) \<le> 4096 * unat i + unat (fst (fwd_field info))"
proof (cases "i = j")
  case True
  with assms show ?thesis by (cases info; cases info') simp_all
next
  case False
  then have "unat i < unat j \<or> unat j < unat i" by (metis nat_neq_iff word_unat_eq_iff)
  moreover have "unat (fst (fwd_field x)) + unat (snd (fwd_field x)) \<le> 14" for x by (cases x) simp_all
  then have "unat (fst (fwd_field info)) + unat (snd (fwd_field info)) \<le> 14"
    "unat (fst (fwd_field info')) + unat (snd (fwd_field info')) \<le> 14" by blast+
  ultimately show ?thesis by linarith
qed

text \<open>
  Writing a field of a descriptor and reading it back gives the bitwise conjunction of the old
  and the new value (a flash write only clears bits; on an erased field it is the new value), and
  every other field of every descriptor reads as before.
\<close>

theorem set_fwd_info_effect:
  assumes "mem_ready P cells M s" and "i < 3" and "length v = unat (snd (fwd_field info))"
  shows "\<exists>t. run_state (fw_upgrade_set_fwd_info P i info v) s = (FW_UPGRADE_OK_E, t)
    \<and> (\<forall>j < 3. \<forall>info'. run_state (fw_upgrade_get_fwd_info P j info') t =
         ((FW_UPGRADE_OK_E, Some (if j = i \<and> info' = info then map2 (AND) (field_bytes (cells (world s)) i info) v
            else field_bytes (cells (world s)) j info')), t))"
proof -
  let ?t = "programmed P (fwd_field_addr (std_params M) i info) v s"
  note w = run_set_field [OF assms]
  have "run_state (fw_upgrade_get_fwd_info P j info') ?t =
         ((FW_UPGRADE_OK_E, Some (if j = i \<and> info' = info then map2 (AND) (field_bytes (cells (world s)) i info) v
            else field_bytes (cells (world s)) j info')), ?t)" if j: "j < 3" for j info'
  proof -
    have ready: "mem_ready P cells M ?t" using assms(1) by simp
    have "field_bytes (cells (world ?t)) j info' = (if j = i \<and> info' = info
        then map2 (AND) (field_bytes (cells (world s)) i info) v else field_bytes (cells (world s)) j info')"
    proof (cases "j = i \<and> info' = info")
      case True
      then show ?thesis unfolding field_bytes_def w(2) by (simp add: slice_prog_same flip: assms(3))
    next
      case False
      with fields_disjoint [of i j info info'] show ?thesis
        unfolding field_bytes_def w(2) by (auto simp: slice_prog_other assms(3))
    qed
    then show ?thesis using run_get_fwd_info [OF ready j] by (simp add: field_bytes_def)
  qed
  with w(1) show ?thesis by blast
qed

theorem set_fwd_info_effect_witness:
  "\<exists>t. run_state (fw_upgrade_set_fwd_info sim 1 FW_UPGRADE_FWD_STATUS_E [1]) io_state = (FW_UPGRADE_OK_E, t)
     \<and> run_state (fw_upgrade_get_fwd_info sim 1 FW_UPGRADE_FWD_STATUS_E) t = ((FW_UPGRADE_OK_E, Some [1]), t)"
proof -
  have "field_bytes (sim_flash (world io_state)) 1 FW_UPGRADE_FWD_STATUS_E = [0xFF]"
    by (simp add: field_bytes_def slice_def io_state_def sim_state_def flash_image_def)
  with set_fwd_info_effect [OF io_state_ready, of 1 "[1]" FW_UPGRADE_FWD_STATUS_E] show ?thesis
    by (force simp: word_less_nat_alt)
qed

lemma le32_ff: "le32 (replicate 4 0xFF) = 0xFFFFFFFF"
proof -
  have "replicate 4 (0xFF :: u8) = [0xFF, 0xFF, 0xFF, 0xFF]" by (simp add: eval_nat_numeral)
  then show ?thesis by (simp add: le32_def)
qed

lemma run_erase_fwd:
  assumes "mem_ready P cells M s" and "i < 3"
  shows "run_state (fw_upgrade_erase_fwd P i) s = (FW_UPGRADE_OK_E, erased P (ucast i) 1 s)"
    and "cells (world (erased P (ucast i) 1 s)) = erase_cells (cells (world s)) (4096 * unat i) 4096"
proof -
  note r = mem_readyD [OF assms(1)]
  have fits: "unat (ucast i :: u32) * 4096 + unat (1 :: u32) * 4096 \<le> unat M"
    using r(3) assms(2) by (simp add: unat_lt_3)
  have small: "unat M < 2 ^ 32" by simp
  note e = run_erase_reliable [OF r(1,2) fits small]
  show "cells (world (erased P (ucast i) 1 s)) = erase_cells (cells (world s)) (4096 * unat i) 4096"
    using e(2) by (simp add: mult.commute)
  show "run_state (fw_upgrade_erase_fwd P i) s = (FW_UPGRADE_OK_E, erased P (ucast i) 1 s)"
    using assms(2) r(4) e(1)
    by (simp add: fw_upgrade_erase_fwd_def run_simps run_validation FW_UPGRADE_MAX_FWD_def not_le [symmetric])
qed

lemma erased_field:
  assumes "d = erase_cells c (4096 * unat i) 4096"
  shows "field_bytes d i info = replicate (unat (snd (fwd_field info))) 0xFF"
  unfolding field_bytes_def assms by (rule slice_erase_inside) (cases info; simp)+

lemma erased_unusable:
  assumes "d = erase_cells c (4096 * unat (i :: u8)) 4096"
  shows "\<not> fwd_usable (summary_of (fwd_of d (unat i)))"
proof -
  have "fwd_signature (fwd_of d (unat i)) = 0xFFFFFFFF"
    using erased_field [OF assms, of FW_UPGRADE_FWD_MAGIC_E] fwd_of_fields(1) [of d "unat i"]
    by (simp add: field_bytes_def le32_ff)
  then show ?thesis by (simp add: fwd_usable_def FW_UPGRADE_MAGIC_V1_def)
qed

lemma erased_other:
  assumes "j \<noteq> i"
  shows "fwd_of (erase_cells c (4096 * unat i) 4096) (unat (j :: u8)) = fwd_of c (unat j)"
proof -
  have "unat j \<noteq> unat i" using assms by (simp add: word_unat_eq_iff)
  then have "4096 * unat j + 512 \<le> 4096 * unat i \<or> 4096 * unat i + 4096 \<le> 4096 * unat j" by linarith
  then show ?thesis unfolding fwd_of_def by (simp add: slice_erase_other)
qed

text \<open>
  Erasing a descriptor leaves every field of it erased, so that it no longer counts as usable, and
  leaves the other two descriptors as they were.
\<close>

theorem erase_fwd_clears:
  assumes "mem_ready P cells M s" and "i < 3"
  shows "\<exists>t. run_state (fw_upgrade_erase_fwd P i) s = (FW_UPGRADE_OK_E, t) \<and> mem_ready P cells M t
    \<and> (\<forall>info. field_bytes (cells (world t)) i info = replicate (unat (snd (fwd_field info))) 0xFF)
    \<and> run_state (read_fwd_summary P i) t = (Some (summary_of (desc cells t i)), t)
    \<and> \<not> fwd_usable (summary_of (desc cells t i))
    \<and> (\<forall>j < 3. j \<noteq> i \<longrightarrow> desc cells t j = desc cells s j)"
proof -
  let ?t = "erased P (ucast i) 1 s"
  note e = run_erase_fwd [OF assms]
  have ready: "mem_ready P cells M ?t" using assms(1) by simp
  show ?thesis
    using e(1) ready erased_field [OF e(2)] run_read_fwd_summary [OF ready assms(2)] erased_unusable [OF e(2)]
      erased_other
    by (intro exI [of _ ?t] conjI) (simp_all add: e(2))
qed

theorem erase_fwd_clears_witness:
  "\<exists>t. run_state (fw_upgrade_erase_fwd sim 2) io_state = (FW_UPGRADE_OK_E, t)
     \<and> \<not> fwd_usable (summary_of (desc sim_flash t 2))"
  using erase_fwd_clears [OF io_state_ready, of 2] by (auto simp: word_less_nat_alt)

end
