(* ===== verification/Fw_Fdt_Proofs.thy ===== *)
theory Fw_Fdt_Proofs
  imports Fw_View
begin

text \<open>
  The boot table in RRAM over its life in an upgrade: the entry of the aged second bootloader is
  selected, marked as the trial with the new version, and taken back when the trial is rejected.
\<close>

section \<open>One entry at a time\<close>

text \<open>The table with entry \<open>i\<close> replaced: what each of the writers below leaves behind.\<close>

definition table_update :: "'d platform \<Rightarrow> 'd \<Rightarrow> nat \<Rightarrow> fdt_entry \<Rightarrow> 'd \<Rightarrow> bool" where
  "table_update P w i e v \<longleftrightarrow> fdt_header P v = fdt_header P w
     \<and> (\<forall>j < 31. fde_at P v j = (if j = i then e else fde_at P w j))"

lemma write_fde_table:
  assumes "rram_memory P" and "fde_wf e" and "i < 31" and "run_state (write_fde P i e) s = (0, t)"
  shows "table_update P (world s) i e (world t)"
  using write_fde_effect [OF assms] by (auto simp: table_update_def)

lemma table_update_header:
  assumes "table_update P w i e v"
  shows "fdt_valid P v = fdt_valid P w" and "num_fde P v = num_fde P w"
  using assms by (simp_all add: table_update_def fdt_valid_def num_fde_def)

lemma fde_wf_update [simp]:
  "fde_wf e \<Longrightarrow> fde_wf (e\<lparr>fde_rank := r, fde_state := st\<rparr>)"
  "fde_wf e \<Longrightarrow> fde_wf (e\<lparr>fde_rank := r, fde_state := st, fde_version := v\<rparr>)"
  "fde_wf e \<Longrightarrow> fde_wf (e\<lparr>fde_reserve := (fde_reserve e)[k := b]\<rparr>)"
  by (simp_all add: fde_wf_def)

lemma fde_trial_undone:
  "e\<lparr>fde_rank := r, fde_state := st, fde_version := v\<rparr>\<lparr>fde_rank := r', fde_state := st'\<rparr> =
     e\<lparr>fde_rank := r', fde_state := st', fde_version := v\<rparr>"
  by (cases e) simp

lemma run_set_sbl_trial:
  assumes "rram_memory P" and "run_state (fw_upgrade_set_sbl_trial_fde P n ver) s = (FW_UPGRADE_OK_E, t)"
  shows "fdt_valid P (world s)" and "unat n < num_fde P (world s)"
    and "fde_id (fde_at P (world s) (unat n)) = FDE_IMG_ID_SBL"
    and "fde_rank (fde_at P (world s) (unat n)) = FDE_IMG_RANK_AGED"
    and "table_update P (world s) (unat n) ((fde_at P (world s) (unat n))\<lparr>fde_rank := FDE_IMG_RANK_TRIAL,
           fde_state := FDE_IMG_STATE_NEW, fde_version := ver\<rparr>) (world t)"
proof -
  let ?e = "(fde_at P (world s) (unat n))\<lparr>fde_rank := FDE_IMG_RANK_TRIAL,
           fde_state := FDE_IMG_STATE_NEW, fde_version := ver\<rparr>"
  from assms(2) have v: "fdt_valid P (world s)"
    and n: "n < hdr_num_fde (fdt_header P (world s))"
    and i: "fde_id (fde_at P (world s) (unat n)) = FDE_IMG_ID_SBL"
    and r: "fde_rank (fde_at P (world s) (unat n)) = FDE_IMG_RANK_AGED"
    and w: "run_state (write_fde P (unat n) ?e) s = (0, t)"
    unfolding fw_upgrade_set_sbl_trial_fde_def
    by (auto simp: run_simps Let_def not_le split: if_splits prod.splits)
  from n have n': "unat n < num_fde P (world s)" by (simp add: num_fde_def word_less_nat_alt)
  then have "unat n < 31" using fdt_valid_num [OF v] by simp
  from write_fde_table [OF assms(1) _ this w]
  show "table_update P (world s) (unat n) ?e (world t)" by (simp add: fde_at_wf)
  show "fdt_valid P (world s)" by (rule v)
  show "unat n < num_fde P (world s)" by (rule n')
  show "fde_id (fde_at P (world s) (unat n)) = FDE_IMG_ID_SBL" by (rule i)
  show "fde_rank (fde_at P (world s) (unat n)) = FDE_IMG_RANK_AGED" by (rule r)
qed

lemma run_reject_sbl_trial:
  assumes "rram_memory P" and "run_state (fw_upgrade_reject_sbl_trial_fde P) s = (FW_UPGRADE_OK_E, t)"
  shows "\<exists>i. find_fde P (world s) (\<lambda>e. fde_id e = FDE_IMG_ID_SBL \<and> fde_rank e = FDE_IMG_RANK_TRIAL) = Some i
     \<and> table_update P (world s) i ((fde_at P (world s) i)\<lparr>fde_rank := FDE_IMG_RANK_AGED,
           fde_state := FDE_IMG_STATE_INVALID\<rparr>) (world t)"
proof -
  from assms(2) obtain i where v: "fdt_valid P (world s)"
    and i: "find_fde P (world s) (\<lambda>e. fde_id e = FDE_IMG_ID_SBL \<and> fde_rank e = FDE_IMG_RANK_TRIAL) = Some i"
    and w: "run_state (write_fde P i ((fde_at P (world s) i)\<lparr>fde_rank := FDE_IMG_RANK_AGED,
           fde_state := FDE_IMG_STATE_INVALID\<rparr>)) s = (0, t)"
    unfolding fw_upgrade_reject_sbl_trial_fde_def
    by (auto simp: run_simps split: if_splits prod.splits option.splits)
  have "i < 31" using find_fde_Some [OF i] fdt_valid_num [OF v] by simp
  with i write_fde_table [OF assms(1) _ _ w] show ?thesis by (simp add: fde_at_wf)
qed

lemma run_select_sbl_trial:
  assumes "run_state (fw_upgrade_select_sbl_trial_fde P ok) s = ((FW_UPGRADE_OK_E, Some (n, a, sz)), t)"
  shows "t = s" and "fdt_valid P (world s)" and "sz = SBL_MEM_SIZE"
    and "find_fde P (world s) (\<lambda>e. fde_id e = FDE_IMG_ID_SBL \<and> fde_rank e = FDE_IMG_RANK_AGED) = Some (unat n)"
    and "a = fde_addr (fde_at P (world s) (unat n))"
proof -
  from assms obtain i where t: "t = s" and v: "fdt_valid P (world s)" and sz: "sz = SBL_MEM_SIZE"
    and i: "find_fde P (world s) (\<lambda>e. fde_id e = FDE_IMG_ID_SBL \<and> fde_rank e = FDE_IMG_RANK_AGED) = Some i"
    and n: "n = of_nat i" and a: "a = fde_addr (fde_at P (world s) i)"
    unfolding fw_upgrade_select_sbl_trial_fde_def
    by (auto simp: run_simps split: if_splits option.splits)
  from find_fde_Some [OF i] fdt_valid_num [OF v] have "i < 2 ^ 32" by simp
  with n have "unat n = i" by (simp add: unat_of_nat)
  with t v sz i a show "t = s" "fdt_valid P (world s)" "sz = SBL_MEM_SIZE"
    "find_fde P (world s) (\<lambda>e. fde_id e = FDE_IMG_ID_SBL \<and> fde_rank e = FDE_IMG_RANK_AGED) = Some (unat n)"
    "a = fde_addr (fde_at P (world s) (unat n))" by simp_all
qed

section \<open>The life of a bootloader trial\<close>

text \<open>
  Selecting, setting and rejecting the trial of the second bootloader is a round trip on the boot
  table: if no trial was pending, all three calls concern one entry, the first aged bootloader entry,
  which is a trial with the new version in between, and in the end is aged and invalid again, at the
  same address and with every other entry as it was.
\<close>

theorem sbl_trial_round_trip:
  assumes "rram_memory P"
    and "\<forall>j < num_fde P (world s).
           \<not> (fde_id (fde_at P (world s) j) = FDE_IMG_ID_SBL \<and> fde_rank (fde_at P (world s) j) = FDE_IMG_RANK_TRIAL)"
    and "run_state (fw_upgrade_select_sbl_trial_fde P True) s = ((FW_UPGRADE_OK_E, Some (n, a, sz)), s1)"
    and "run_state (fw_upgrade_set_sbl_trial_fde P n ver) s1 = (FW_UPGRADE_OK_E, s2)"
    and "run_state (fw_upgrade_reject_sbl_trial_fde P) s2 = (FW_UPGRADE_OK_E, s3)"
  shows "fde_at P (world s2) (unat n) = (fde_at P (world s) (unat n))\<lparr>fde_rank := FDE_IMG_RANK_TRIAL,
           fde_state := FDE_IMG_STATE_NEW, fde_version := ver\<rparr>
    \<and> fde_addr (fde_at P (world s2) (unat n)) = a
    \<and> table_update P (world s) (unat n) ((fde_at P (world s) (unat n))\<lparr>fde_rank := FDE_IMG_RANK_AGED,
           fde_state := FDE_IMG_STATE_INVALID, fde_version := ver\<rparr>) (world s3)"
proof -
  note sel = run_select_sbl_trial [OF assms(3)]
  note set = run_set_sbl_trial [OF assms(1,4), unfolded sel(1)]
  have n31: "unat n < 31" using set(2) fdt_valid_num [OF set(1)] by simp
  have mid: "fde_at P (world s2) (unat n) = (fde_at P (world s) (unat n))\<lparr>fde_rank := FDE_IMG_RANK_TRIAL,
           fde_state := FDE_IMG_STATE_NEW, fde_version := ver\<rparr>"
    using set(5) n31 by (simp add: table_update_def)
  let ?trial = "\<lambda>e. fde_id e = FDE_IMG_ID_SBL \<and> fde_rank e = FDE_IMG_RANK_TRIAL"
  have other: "\<not> ?trial (fde_at P (world s2) j)" if "j < unat n" for j
  proof -
    from that n31 have "fde_at P (world s2) j = fde_at P (world s) j"
      using set(5) by (simp add: table_update_def)
    with that set(2) assms(2) show ?thesis by simp
  qed
  have found: "find_fde P (world s2) ?trial = Some (unat n)"
    using table_update_header(2) [OF set(5)] set(2,3) mid other
    by (intro find_fde_SomeI) simp_all
  have undone: "(fde_at P (world s2) (unat n))\<lparr>fde_rank := FDE_IMG_RANK_AGED, fde_state := FDE_IMG_STATE_INVALID\<rparr> =
      (fde_at P (world s) (unat n))\<lparr>fde_rank := FDE_IMG_RANK_AGED,
           fde_state := FDE_IMG_STATE_INVALID, fde_version := ver\<rparr>"
    by (simp only: mid fde_trial_undone)
  from run_reject_sbl_trial [OF assms(1,5)] found
  have "table_update P (world s2) (unat n) ((fde_at P (world s) (unat n))\<lparr>fde_rank := FDE_IMG_RANK_AGED,
           fde_state := FDE_IMG_STATE_INVALID, fde_version := ver\<rparr>) (world s3)"
    unfolding undone [symmetric] by auto
  then have "table_update P (world s) (unat n) ((fde_at P (world s) (unat n))\<lparr>fde_rank := FDE_IMG_RANK_AGED,
           fde_state := FDE_IMG_STATE_INVALID, fde_version := ver\<rparr>) (world s3)"
    using set(5) by (simp add: table_update_def)
  with mid sel(5) show ?thesis by simp
qed

lemma sim_write_fde:
  "run_state (write_fde sim i e) s = (0, s\<lparr>world := snd (nt_rram_write sim (world s) (fde_address i) (enc_fde e))\<rparr>)"
  by (simp add: write_fde_def run_simps sim_def)

text \<open>A table whose entry 1 is the aged bootloader, entry 2 the current one.\<close>

definition sbl_state :: "sim_world mem_st" where
  "sbl_state = sim_state [] [sample_fde 2 2 1, sample_fde 0 0 0x20000, sample_fde 0 2 0x28000] 3"

lemma sbl_state_fdt:
  "fdt_valid sim (world sbl_state)" "num_fde sim (world sbl_state) = 3"
  "fdt_header sim (world sbl_state) = \<lparr>hdr_signature = FDT_SIGNATURE, hdr_num_fde = 3\<rparr>"
  "fde_at sim (world sbl_state) 0 = sample_fde 2 2 1"
  "fde_at sim (world sbl_state) 1 = sample_fde 0 0 0x20000"
  "fde_at sim (world sbl_state) (Suc 0) = sample_fde 0 0 0x20000"
  "fde_at sim (world sbl_state) 2 = sample_fde 0 2 0x28000"
  using fdt_sim_state [where es = "[sample_fde 2 2 1, sample_fde 0 0 0x20000, sample_fde 0 2 0x28000]"
      and fs = "[]" and n = 3]
  by (simp_all add: sbl_state_def fdt_valid_def FDT_MAX_ENTRY_def)

lemma sample_fde_simps [simp]:
  "fde_id (sample_fde i r a) = i" "fde_rank (sample_fde i r a) = r" "fde_addr (sample_fde i r a) = a"
  by (simp_all add: sample_fde_def)

definition sbl_trial_set :: "sim_world mem_st" where
  "sbl_trial_set = snd (run_state (fw_upgrade_set_sbl_trial_fde sim 1 7) sbl_state)"

definition sbl_trial_rejected :: "sim_world mem_st" where
  "sbl_trial_rejected = snd (run_state (fw_upgrade_reject_sbl_trial_fde sim) sbl_trial_set)"

lemma sbl_select: "run_state (fw_upgrade_select_sbl_trial_fde sim True) sbl_state =
    ((FW_UPGRADE_OK_E, Some (1, 0x20000, SBL_MEM_SIZE)), sbl_state)"
proof -
  have "find_fde sim (world sbl_state) (\<lambda>e. fde_id e = FDE_IMG_ID_SBL \<and> fde_rank e = FDE_IMG_RANK_AGED) = Some 1"
    by (simp add: find_fde_def sbl_state_fdt upt_rec FDE_IMG_ID_SBL_def FDE_IMG_RANK_AGED_def)
  then show ?thesis
    by (simp add: fw_upgrade_select_sbl_trial_fde_def run_simps sbl_state_fdt)
qed

lemma sbl_set: "run_state (fw_upgrade_set_sbl_trial_fde sim 1 7) sbl_state = (FW_UPGRADE_OK_E, sbl_trial_set)"
proof -
  have "fst (run_state (fw_upgrade_set_sbl_trial_fde sim 1 7) sbl_state) = FW_UPGRADE_OK_E"
    by (simp add: sim_write_fde fw_upgrade_set_sbl_trial_fde_def run_simps sbl_state_fdt FDE_IMG_ID_SBL_def
        FDE_IMG_RANK_AGED_def Let_def word_le_nat_alt)
  then show ?thesis by (simp add: sbl_trial_set_def prod_eq_iff)
qed

lemma sbl_reject: "run_state (fw_upgrade_reject_sbl_trial_fde sim) sbl_trial_set = (FW_UPGRADE_OK_E, sbl_trial_rejected)"
proof -
  note u = run_set_sbl_trial(5) [OF sim_rram_memory sbl_set]
  have "find_fde sim (world sbl_trial_set) (\<lambda>e. fde_id e = FDE_IMG_ID_SBL \<and> fde_rank e = FDE_IMG_RANK_TRIAL) = Some 1"
    using u table_update_header [OF u] unfolding find_fde_def table_update_def
    by (simp add: sbl_state_fdt upt_rec FDE_IMG_ID_SBL_def FDE_IMG_RANK_TRIAL_def)
  then have "fst (run_state (fw_upgrade_reject_sbl_trial_fde sim) sbl_trial_set) = FW_UPGRADE_OK_E"
    using table_update_header [OF u]
    by (simp add: sim_write_fde fw_upgrade_reject_sbl_trial_fde_def run_simps sbl_state_fdt)
  then show ?thesis by (simp add: sbl_trial_rejected_def prod_eq_iff)
qed

theorem sbl_trial_round_trip_witness:
  "fde_rank (fde_at sim (world sbl_trial_set) 1) = FDE_IMG_RANK_TRIAL
   \<and> fde_addr (fde_at sim (world sbl_trial_set) 1) = 0x20000
   \<and> table_update sim (world sbl_state) 1 ((sample_fde 0 0 0x20000)\<lparr>fde_rank := FDE_IMG_RANK_AGED,
        fde_state := FDE_IMG_STATE_INVALID, fde_version := 7\<rparr>) (world sbl_trial_rejected)"
proof -
  have "\<forall>j < num_fde sim (world sbl_state).
      \<not> (fde_id (fde_at sim (world sbl_state) j) = FDE_IMG_ID_SBL \<and> fde_rank (fde_at sim (world sbl_state) j) = FDE_IMG_RANK_TRIAL)"
  proof (intro allI impI)
    fix j assume "j < num_fde sim (world sbl_state)"
    then have "j = 0 \<or> j = 1 \<or> j = 2" by (auto simp: sbl_state_fdt)
    then show "\<not> (fde_id (fde_at sim (world sbl_state) j) = FDE_IMG_ID_SBL \<and> fde_rank (fde_at sim (world sbl_state) j) = FDE_IMG_RANK_TRIAL)"
      by (elim disjE) (simp_all add: sbl_state_fdt FDE_IMG_RANK_TRIAL_def)
  qed
  from sbl_trial_round_trip [OF sim_rram_memory this sbl_select sbl_set sbl_reject]
  show ?thesis by (simp add: sbl_state_fdt)
qed

section \<open>The forced boot request\<close>

text \<open>
  Requesting a forced boot writes one byte of the first application entry of the boot table and
  leaves the answer of the search for the running image (index, boot type and validity mask) as it was.
\<close>

theorem force_boot_keeps_active:
  assumes "rram_memory P"
    and "run_state (fw_upgrade_set_force_boot P k) s = (Inl FW_UPGRADE_OK_E, t)"
  shows "fst (run_state (fw_upgrade_get_active_fwd P b v) t) = fst (run_state (fw_upgrade_get_active_fwd P b v) s)
    \<and> (\<exists>i < num_fde P (world s). fde_id (fde_at P (world s) i) = FDE_IMG_ID_APP
         \<and> table_update P (world s) i ((fde_at P (world s) i)\<lparr>fde_reserve :=
              (fde_reserve (fde_at P (world s) i))[1 := k]\<rparr>) (world t))"
proof -
  let ?app = "\<lambda>e. fde_id e = FDE_IMG_ID_APP"
  from assms(2) obtain i where valid: "fdt_valid P (world s)" and i: "find_fde P (world s) ?app = Some i"
    and w: "run_state (write_fde P i ((fde_at P (world s) i)\<lparr>fde_reserve :=
              (fde_reserve (fde_at P (world s) i))[1 := k]\<rparr>)) s = (0, t)"
    unfolding fw_upgrade_set_force_boot_def
    by (auto simp: run_simps Let_def split: if_splits prod.splits option.splits)
  note f = find_fde_Some [OF i]
  have i31: "i < 31" using f fdt_valid_num [OF valid] by simp
  have u: "table_update P (world s) i ((fde_at P (world s) i)\<lparr>fde_reserve :=
              (fde_reserve (fde_at P (world s) i))[1 := k]\<rparr>) (world t)"
    by (rule write_fde_table [OF assms(1) _ i31 w]) (simp add: fde_at_wf)
  have "find_fde P (world t) ?app = Some i"
    using u f i31 table_update_header(2) [OF u] by (intro find_fde_SomeI) (auto simp: table_update_def)
  with i u i31 table_update_header [OF u] have "fst (run_state (fw_upgrade_get_active_fwd P b v) t) =
      fst (run_state (fw_upgrade_get_active_fwd P b v) s)"
    by (simp add: fw_upgrade_get_active_fwd_def run_simps Let_def table_update_def)
  with f u show ?thesis by auto
qed

theorem force_boot_keeps_active_witness:
  "fst (run_state (fw_upgrade_get_active_fwd sim True True)
     (snd (run_state (fw_upgrade_set_force_boot sim 2) sbl_state))) = (1, Some FW_UPGRADE_FWD_BOOT_TYPE_CURRENT, Some 0)"
proof -
  have app: "find_fde sim (world sbl_state) (\<lambda>e. fde_id e = FDE_IMG_ID_APP) = Some 0"
    by (simp add: find_fde_def sbl_state_fdt upt_rec FDE_IMG_ID_APP_def)
  then have "fst (run_state (fw_upgrade_set_force_boot sim 2) sbl_state) = Inl FW_UPGRADE_OK_E"
    by (simp add: sim_write_fde fw_upgrade_set_force_boot_def run_simps sbl_state_fdt Let_def)
  then have "run_state (fw_upgrade_set_force_boot sim 2) sbl_state =
      (Inl FW_UPGRADE_OK_E, snd (run_state (fw_upgrade_set_force_boot sim 2) sbl_state))"
    by (simp add: prod_eq_iff)
  from force_boot_keeps_active [OF sim_rram_memory this, of True True] app show ?thesis
    by (simp add: fw_upgrade_get_active_fwd_def run_simps sbl_state_fdt FDE_IMG_RANK_GOLDEN_def
        FDE_IMG_RANK_CURRENT_def sample_fde_def Let_def)
qed

end
