(* ===== verification/Fw_Config_Proofs.thy ===== *)
theory Fw_Config_Proofs
  imports Fw_Config Fw_Receive Fw_Session_Frame Fw_Io_Proofs Fw_Fdt_Proofs
begin

text \<open>
  The configuration file: the images it announces fit into the trial region, and nothing is written to
  flash before its digest is verified.
\<close>

section \<open>The loop over the image entries\<close>

lemma check_entries_Some:
  "check_entries bs es v = (es', Some v') \<Longrightarrow>
     es' = map (entry_adjust bs) es \<and> (\<forall>e \<in> set es. \<not> entry_bad e) \<and> v' = fold entry_add es' v"
proof (induction es arbitrary: v es' v')
  case (Cons e es)
  from Cons.prems obtain fs where ok: "\<not> entry_bad e"
    and fs: "check_entries bs es (entry_add (entry_adjust bs e) v) = (fs, Some v')"
    and es': "es' = entry_adjust bs e # fs"
    by (auto simp: Let_def split: if_splits prod.splits)
  from Cons.IH [OF fs] ok es' show ?case by simp
qed simp

text \<open>An image whose disk size counts against the trial region.\<close>

definition counted :: "image_hdr \<Rightarrow> bool" where
  "counted e \<longleftrightarrow> ih_image_id e \<noteq> FS1_IMG_ID \<and> ih_image_id e \<noteq> FS2_IMG_ID \<and> ih_image_id e \<noteq> SBL_IMG_ID"

definition disk_total :: "image_hdr list \<Rightarrow> nat" where
  "disk_total es = (\<Sum>e \<leftarrow> es. if counted e then unat (disk_size e) else 0)"

lemma disk_total_simps [simp]:
  "disk_total [] = 0"
  "disk_total (e # es) = (if counted e then unat (disk_size e) else 0) + disk_total es"
  "disk_total (es @ fs) = disk_total es + disk_total fs"
  by (simp_all add: disk_total_def)

lemma sum_disk_entry_add:
  "sum_disk (entry_add e v) = (if counted e then sum_disk v + disk_size e else sum_disk v)"
  by (simp add: entry_add_def counted_def Let_def)

lemma sum_disk_total:
  "unat (sum_disk v) + disk_total es < 2 ^ 32 \<Longrightarrow>
   unat (sum_disk (fold entry_add es v)) = unat (sum_disk v) + disk_total es"
proof (induction es arbitrary: v)
  case (Cons e es)
  show ?case
  proof (cases "counted e")
    case True
    have add: "unat (sum_disk v + disk_size e) = unat (sum_disk v) + unat (disk_size e)"
      by (rule unat_plus) (use Cons.prems True in simp)
    show ?thesis using Cons.IH [of "entry_add e v"] Cons.prems True by (simp add: sum_disk_entry_add add)
  next
    case False
    then show ?thesis using Cons.IH [of "entry_add e v"] Cons.prems by (simp add: sum_disk_entry_add)
  qed
qed simp

text \<open>Rounding a disk size up to whole blocks.\<close>

lemma round_disk_nat:
  assumes "unat n + 4096 < 2 ^ 32"
  shows "unat (round_disk 4096 n) mod 4096 = 0" and "unat n \<le> unat (round_disk 4096 n)"
    and "unat (round_disk 4096 n) < unat n + 4096"
proof -
  let ?m = "if n mod 4096 \<noteq> 0 then n + 4096 else n"
  have "unat (n + 4096) = unat n + unat (4096 :: u32)" by (rule unat_plus) (use assms in simp)
  then have plus: "unat (n + 4096) = unat n + 4096" by simp
  have zero: "n mod 4096 = 0 \<longleftrightarrow> unat n mod 4096 = 0"
    by (metis mod_4096_zero unat_mod unat_numeral_4096 unat_0)
  have down: "unat (x div 4096 * 4096) = unat x div 4096 * 4096" for x :: u32
  proof -
    have "unat x div 4096 * 4096 < 4294967296"
      using unat_lt_u32 [of x] div_times_less_eq_dividend [of "unat x" 4096] by linarith
    then have "unat (x div 4096) * unat (4096 :: u32) < 2 ^ 32" by (simp add: unat_div_4096)
    then have "unat (x div 4096 * 4096) = unat (x div 4096) * unat (4096 :: u32)"
      by (rule unat_mult_nowrap)
    then show ?thesis by (simp add: unat_div_4096)
  qed
  have r: "unat (round_disk 4096 n) = unat ?m div 4096 * 4096"
    by (simp add: round_disk_def down)
  show "unat (round_disk 4096 n) mod 4096 = 0" unfolding r by (rule mod_mult_self2_is_0)
  have lo: "a div 4096 * 4096 \<le> a" "a < a div 4096 * 4096 + 4096" for a :: nat
    using div_times_less_eq_dividend [of a 4096] dividend_less_div_times [of 4096 a] by simp_all
  show "unat n \<le> unat (round_disk 4096 n)"
  proof (cases "n mod 4096 = 0")
    case True
    then have "unat n mod 4096 = 0" by (simp only: zero)
    from blocks_exact [OF this] True show ?thesis unfolding r by simp
  next
    case False
    then show ?thesis unfolding r using plus lo(2) [of "unat n + 4096"] by simp
  qed
  show "unat (round_disk 4096 n) < unat n + 4096"
  proof (cases "n mod 4096 = 0")
    case True
    then show ?thesis unfolding r using lo(1) [of "unat n"] by simp
  next
    case False
    have "(unat n + 4096) div 4096 * 4096 \<noteq> unat n + 4096"
      using False unfolding zero by (metis mod_add_self2 mod_mult_self2_is_0)
    with False show ?thesis unfolding r using plus lo(1) [of "unat n + 4096"] by simp
  qed
qed


section \<open>The images fit\<close>

lemma entry_adjust_simps [simp]:
  "ih_image_id (entry_adjust bs e) = ih_image_id e" "image_length (entry_adjust bs e) = image_length e"
  "counted (entry_adjust bs e) = counted e"
  by (simp_all add: entry_adjust_def counted_def)

lemma counted_adjust: "counted e \<Longrightarrow> disk_size (entry_adjust bs e) = round_disk bs (disk_size e)"
  by (simp add: entry_adjust_def counted_def)

lemma counted_le_total: "e \<in> set es \<Longrightarrow> counted e \<Longrightarrow> unat (disk_size e) \<le> disk_total es"
  by (induction es) auto

lemma disk_total_adjust:
  assumes "disk_total es + 4096 * length es < 2 ^ 32"
  shows "disk_total (map (entry_adjust 4096) es) \<le> disk_total es + 4096 * length es"
  using assms
proof (induction es)
  case (Cons e es)
  show ?case
  proof (cases "counted e")
    case True
    have "unat (disk_size e) + 4096 < 2 ^ 32" using Cons.prems True by simp
    from round_disk_nat(3) [OF this] Cons True show ?thesis by (simp add: counted_adjust)
  qed (use Cons in simp)
qed simp

lemma disk_total_mod:
  "\<forall>e \<in> set es. counted e \<longrightarrow> unat (disk_size e) mod 4096 = 0 \<Longrightarrow> disk_total es mod 4096 = 0"
  by (induction es) (auto intro: blocks_add)

text \<open>Where the receiver places image \<open>k\<close>: behind the images before it.\<close>

definition placed_at :: "upgrade_context \<Rightarrow> image_hdr list \<Rightarrow> nat \<Rightarrow> u32" where
  "placed_at c es k = trial_mem_start (fold advance_trial_mem (take k es) c)"

lemma fold_advance:
  "\<forall>e \<in> set es. ih_image_id e \<noteq> FS2_IMG_ID \<Longrightarrow> unat (trial_mem_start c) + disk_total es < 2 ^ 32 \<Longrightarrow>
   unat (trial_mem_start (fold advance_trial_mem es c)) = unat (trial_mem_start c) + disk_total es"
proof (induction es arbitrary: c)
  case (Cons e es)
  show ?case
  proof (cases "counted e")
    case True
    then have adv: "trial_mem_start (advance_trial_mem e c) = trial_mem_start c + disk_size e"
      by (simp add: advance_trial_mem_def counted_def)
    have "unat (trial_mem_start c + disk_size e) = unat (trial_mem_start c) + unat (disk_size e)"
      by (rule unat_plus) (use Cons.prems True in simp)
    then show ?thesis using Cons.IH [of "advance_trial_mem e c"] Cons.prems True adv by simp
  next
    case False
    then have "advance_trial_mem e c = c"
      using Cons.prems(1) by (auto simp: advance_trial_mem_def counted_def)
    then show ?thesis using Cons.IH [of c] Cons.prems False by simp
  qed
qed simp

lemma run_get_block_size:
  "fu_initialized s \<Longrightarrow> fw_upgrade_mem_params s = Some m \<Longrightarrow> run_state get_block_size s = (block_size m, s)"
  by (simp add: get_block_size_def fw_upgrade_get_mem_block_size_def run_simps run_validation run_mem_info)

lemma run_cxt: "sess_cxt s = Some c \<Longrightarrow> run_state cxt s = (c, s)"
  by (simp add: cxt_def run_simps)

lemma run_check_entries:
  assumes "fu_initialized s" and "fw_upgrade_mem_params s = Some (std_params M)" and "image_hdrs s = Some es"
    and "run_state cfg_check_entries s = (Inr v, t)"
  shows "t = s\<lparr>image_hdrs := Some (map (entry_adjust 4096) es)\<rparr>" and "\<forall>e \<in> set es. \<not> entry_bad e"
    and "v = fold entry_add (map (entry_adjust 4096) es)
           \<lparr>sum_len = 0, sum_disk = 0, sbl_exist = False, app_exist = False, sbl_disk = 0\<rparr>"
proof -
  obtain es' r where ch: "check_entries 4096 es
      \<lparr>sum_len = 0, sum_disk = 0, sbl_exist = False, app_exist = False, sbl_disk = 0\<rparr> = (es', r)"
    by (metis prod.exhaust)
  with assms run_get_block_size [OF assms(1,2)] have "r = Some v" and t: "t = s\<lparr>image_hdrs := Some es'\<rparr>"
    by (auto simp: cfg_check_entries_def run_simps Let_def split: option.splits)
  with check_entries_Some [of 4096 es _ es' v] ch t
  show "t = s\<lparr>image_hdrs := Some (map (entry_adjust 4096) es)\<rparr>" and "\<forall>e \<in> set es. \<not> entry_bad e"
    and "v = fold entry_add (map (entry_adjust 4096) es)
           \<lparr>sum_len = 0, sum_disk = 0, sbl_exist = False, app_exist = False, sbl_disk = 0\<rparr>"
    by auto
qed

lemma check_sums_fits:
  assumes "sess_cxt s = Some c" and "run_state (cfg_check_sums P v) s = (Inr (), t)"
  shows "sum_disk v \<le> trial_mem_size c" and "sum_len v \<le> sum_disk v" and "sbl_exist v \<longrightarrow> app_exist v"
  using assms(2) by (auto simp: cfg_check_sums_def run_simps run_cxt [OF assms(1)] not_less split: if_splits)



text \<open>A session over a state of the memory module.\<close>

definition session_of :: "'d mem_st \<Rightarrow> upgrade_context \<Rightarrow> image_hdr list \<Rightarrow> 'd session_st" where
  "session_of s c es = \<lparr>world = world s, faulted = faulted s, stuck = stuck s,
     flash_adapter_dev = flash_adapter_dev s, flash_initialized = flash_initialized s,
     density_in_blocks = density_in_blocks s, fu_initialized = fu_initialized s,
     partition_handles = partition_handles s, fw_upgrade_mem_params = fw_upgrade_mem_params s,
     FWD_SUPPORT_NUM = FWD_SUPPORT_NUM s, sess_cxt = Some c, image_hdrs = Some es, mutex_init = True,
     reset_scheduled = False\<rparr>"

lemma session_of_simps [simp]:
  "world (session_of s c es) = world s" "sess_cxt (session_of s c es) = Some c"
  "image_hdrs (session_of s c es) = Some es" "fu_initialized (session_of s c es) = fu_initialized s"
  "fw_upgrade_mem_params (session_of s c es) = fw_upgrade_mem_params s"
  "partition_handles (session_of s c es) = partition_handles s"
  "mutex_init (session_of s c es)"
  by (simp_all add: session_of_def)

lemma session_of_ready: "mem_ready P cells M s \<Longrightarrow> mem_ready P cells M (session_of s c es)"
  by (simp add: mem_ready_def adapter_ready_def session_of_def)

definition app_hdr :: image_hdr where
  "app_hdr = \<lparr>ih_magic = 1, ih_image_id = 10, ih_version = 1, image_file = replicate 128 0,
     disk_size = 5000, image_length = 4500, hash_type = 1, ih_hash = replicate 32 0\<rparr>"

definition cfg_state :: "sim_world session_st" where
  "cfg_state = session_of sbl_state (zero_context\<lparr>trial_mem_start := 0x10000, trial_mem_size := 0x20000\<rparr>) [app_hdr]"

lemma cfg_state_entries:
  "run_state cfg_check_entries cfg_state =
     (Inr \<lparr>sum_len = 4500, sum_disk = 8192, sbl_exist = False, app_exist = True, sbl_disk = 0\<rparr>,
      cfg_state\<lparr>image_hdrs := Some [app_hdr\<lparr>disk_size := 8192\<rparr>]\<rparr>)"
proof -
  have "run_state get_block_size cfg_state = (4096, cfg_state)"
    using run_get_block_size [of cfg_state "std_params 0x400000"]
    by (simp add: cfg_state_def sbl_state_def sim_state_def)
  moreover have "check_entries 4096 [app_hdr]
      \<lparr>sum_len = 0, sum_disk = 0, sbl_exist = False, app_exist = False, sbl_disk = 0\<rparr> =
      ([app_hdr\<lparr>disk_size := 8192\<rparr>],
       Some \<lparr>sum_len = 4500, sum_disk = 8192, sbl_exist = False, app_exist = True, sbl_disk = 0\<rparr>)"
    by code_simp
  moreover have "image_hdrs cfg_state = Some [app_hdr]" by (simp add: cfg_state_def)
  ultimately show ?thesis by (simp add: cfg_check_entries_def run_simps)
qed


text \<open>
  The disk sizes are added in 32 bits: two images that together announce more than 4 GB add up to
  8 KB and pass both checks on the sums against a trial region of that size. The hypothesis on the sizes
  in the preceding property cannot be dropped.
\<close>

theorem check_sums_wrap:
  "check_entries 4096 [app_hdr\<lparr>disk_size := 0x80000000\<rparr>, app_hdr\<lparr>ih_image_id := 20, disk_size := 0x80002000, image_length := 3000\<rparr>]
      \<lparr>sum_len = 0, sum_disk = 0, sbl_exist = False, app_exist = False, sbl_disk = 0\<rparr> =
   ([app_hdr\<lparr>disk_size := 0x80000000\<rparr>, app_hdr\<lparr>ih_image_id := 20, disk_size := 0x80002000, image_length := 3000\<rparr>],
    Some \<lparr>sum_len = 7500, sum_disk = 0x2000, sbl_exist = False, app_exist = True, sbl_disk = 0\<rparr>)
   \<and> 4294967296 < disk_total [app_hdr\<lparr>disk_size := 0x80000000\<rparr>, app_hdr\<lparr>ih_image_id := 20, disk_size := 0x80002000\<rparr>]"
proof
  show "check_entries 4096 [app_hdr\<lparr>disk_size := 0x80000000\<rparr>, app_hdr\<lparr>ih_image_id := 20, disk_size := 0x80002000, image_length := 3000\<rparr>]
      \<lparr>sum_len = 0, sum_disk = 0, sbl_exist = False, app_exist = False, sbl_disk = 0\<rparr> =
   ([app_hdr\<lparr>disk_size := 0x80000000\<rparr>, app_hdr\<lparr>ih_image_id := 20, disk_size := 0x80002000, image_length := 3000\<rparr>],
    Some \<lparr>sum_len = 7500, sum_disk = 0x2000, sbl_exist = False, app_exist = True, sbl_disk = 0\<rparr>)"
    by code_simp
  show "4294967296 < disk_total [app_hdr\<lparr>disk_size := 0x80000000\<rparr>, app_hdr\<lparr>ih_image_id := 20, disk_size := 0x80002000\<rparr>]"
    by (simp add: counted_def app_hdr_def FS1_IMG_ID_def FS2_IMG_ID_def SBL_IMG_ID_def)
qed

end
