(* ===== verification/Fw_Gate_Proofs.thy ===== *)
theory Fw_Gate_Proofs
  imports Fw_Config_Proofs
begin

text \<open>
  The gates of an upgrade: nothing reaches the flash before the digest of the configuration file is
  verified, and an image counts as complete only if the digest of its data is the announced one.
\<close>

section \<open>Stepping through the session's accessors\<close>

lemma wp_cxt: "sess_cxt s = Some c \<Longrightarrow> wp cxt Q s = Q c s"
  by (simp add: cxt_def wp_simps)

lemma wp_upd_cxt: "sess_cxt s = Some c \<Longrightarrow> wp (upd_cxt f) Q s = Q () (s\<lparr>sess_cxt := Some (f c)\<rparr>)"
  by (simp add: upd_cxt_def wp_simps)

lemma wp_set_state: "sess_cxt s = Some c \<Longrightarrow>
    wp (fw_upgrade_set_state st) Q s = Q () (s\<lparr>sess_cxt := Some (c\<lparr>upgrade_state := st\<rparr>)\<rparr>)"
  by (simp add: fw_upgrade_set_state_def wp_simps)

lemma wp_fault [wp_simps]: "wp fault Q s = Q () (s\<lparr>faulted := True\<rparr>)"
  by (simp add: fault_def wp_simps)

lemma wp_true: "wp m (\<lambda>_ _. True) s"
  by (simp add: wp_def split_beta)

lemma wp_malloc: "(\<And>ok. Q ok (s\<lparr>world := snd (k_malloc P (world s) n)\<rparr>)) \<Longrightarrow> wp (malloc P n) Q s"
  by (simp add: malloc_def wp_simps split_beta Let_def)

section \<open>The configuration file\<close>

text \<open>The file as far as it is known after a packet.\<close>

definition file_after :: "upgrade_context \<Rightarrow> bytes \<Rightarrow> bytes" where
  "file_after c buf = (case config_buf c of
     None \<Rightarrow> (let len = is_length (dec_imageSet_hdr buf); off = min (buf_len c) len
              in take (unat off) buf @ replicate (unat len - unat off) 0)
   | Some cb \<Rightarrow> overwrite cb (unat (image_wrt_count c))
       (take (unat (min (buf_len c) (is_length (dec_imageSet_hdr cb) - image_wrt_count c))) buf))"

text \<open>Every byte of the length its header announces has arrived with the packet.\<close>

definition file_complete :: "upgrade_context \<Rightarrow> bytes \<Rightarrow> bool" where
  "file_complete c buf \<longleftrightarrow> (case config_buf c of
     None \<Rightarrow> is_length (dec_imageSet_hdr buf) \<le> buf_len c
   | Some cb \<Rightarrow> is_length (dec_imageSet_hdr cb) \<le> image_wrt_count c
       + min (buf_len c) (is_length (dec_imageSet_hdr cb) - image_wrt_count c))"

text \<open>The digest at its end is that of what precedes it.\<close>

definition file_verified :: "'d platform \<Rightarrow> bytes \<Rightarrow> bool" where
  "file_verified P cb \<longleftrightarrow> (let off = unat (cfg_hash_offset (dec_imageSet_hdr cb))
     in take FW_UPGRADE_HASH_LEN (drop off cb) = sha256 P (take off cb))"

text \<open>The allocator does not touch the flash.\<close>

definition heap_apart :: "'d platform \<Rightarrow> ('d \<Rightarrow> nat \<Rightarrow> u8) \<Rightarrow> bool" where
  "heap_apart P cells \<longleftrightarrow> (\<forall>w n. cells (snd (k_malloc P w n)) = cells w)"

definition received :: "('d \<Rightarrow> nat \<Rightarrow> u8) \<Rightarrow> ('d, 'z) session_st_scheme \<Rightarrow> upgrade_context \<Rightarrow> bytes \<Rightarrow>
    fw_status + unit \<Rightarrow> ('d, 'z) session_st_scheme \<Rightarrow> bool" where
  "received cells s c buf r t \<longleftrightarrow> cells (world t) = cells (world s)
     \<and> (r = Inr () \<longrightarrow> file_complete c buf \<and> (\<exists>c'. sess_cxt t = Some c' \<and> config_buf c' = Some (file_after c buf)
          \<and> digest_ctx c' = digest_ctx c))"


lemmas step_simps = wp_simps wp_cxt wp_upd_cxt wp_set_state Let_def

lemma cfg_first_received:
  assumes "heap_apart P cells" and "sess_cxt s = Some c" and "config_buf c = None"
  shows "wp (cfg_first P buf) (received cells s c buf) s"
  using assms
  apply (simp add: cfg_first_def step_simps cong: if_cong)
  apply (intro conjI impI)
  apply (simp_all add: step_simps cong: if_cong)
  apply (simp_all add: received_def)
  apply (rule_tac [!] wp_malloc)
  apply (simp_all add: step_simps cong: if_cong)
  apply (auto simp: heap_apart_def received_def file_after_def file_complete_def Let_def not_less)
  done

lemma cfg_next_received:
  assumes "sess_cxt s = Some c" and "config_buf c = Some cb"
  shows "wp (cfg_next buf) (received cells s c buf) s"
  using assms
  apply (simp add: cfg_next_def step_simps cong: if_cong)
  apply (simp add: received_def file_after_def file_complete_def Let_def not_less)
  done


lemma hash_len_pos: "FW_UPGRADE_HASH_LEN \<noteq> 0"
  by (simp add: FW_UPGRADE_HASH_LEN_def)

lemma cfg_verify_gate:
  assumes "sess_cxt s = Some c" and "config_buf c = Some cb" and "digest_ctx c \<noteq> None"
  shows "wp (cfg_verify P) (\<lambda>r t. world t = world s \<and> sess_cxt t \<noteq> None
    \<and> (\<forall>h. r = Inr h \<longrightarrow> file_verified P cb)) s"
proof -
  obtain y where "digest_ctx c = Some y" using assms by auto
  with assms(1,2) have "run_state (cfg_verify P) s = (let off = unat (cfg_hash_offset (dec_imageSet_hdr cb));
      c' = c\<lparr>digest_ctx := Some (take off cb)\<rparr>;
      s' = (if length cb < off + FW_UPGRADE_HASH_LEN then s\<lparr>faulted := True\<rparr> else s)
    in (if take FW_UPGRADE_HASH_LEN (drop off cb) \<noteq> sha256 P (take off cb)
        then Inl FW_UPGRADE_ERR_INCORRECT_IMAGE_CHECKSUM_E else Inr (dec_imageSet_hdr cb), s'\<lparr>sess_cxt := Some c'\<rparr>))"
    by (simp add: cfg_verify_def run_simps run_cxt upd_cxt_def Let_def digest_start_def digest_update_def
      digest_finish_def fault_def cong: if_cong)
  thus ?thesis by (simp add: wp_def Let_def file_verified_def)
qed


text \<open>The file is complete and ends in its own digest.\<close>

definition passed :: "'d platform \<Rightarrow> upgrade_context \<Rightarrow> bytes \<Rightarrow> bool" where
  "passed P c buf \<longleftrightarrow> file_complete c buf \<and> file_verified P (file_after c buf)"

text \<open>What a run of the function may do to the flash.\<close>

definition writes_gated :: "'d platform \<Rightarrow> ('d \<Rightarrow> nat \<Rightarrow> u8) \<Rightarrow> ('d, 'z) session_st_scheme \<Rightarrow> upgrade_context \<Rightarrow>
    bytes \<Rightarrow> ('d, 'z) session_st_scheme \<Rightarrow> bool" where
  "writes_gated P cells s c buf t \<longleftrightarrow> cells (world t) = cells (world s) \<or> passed P c buf"

lemma wp_sum_split:
  assumes "wp m Q s" and "\<And>e t. Q (Inl e) t \<Longrightarrow> wp (f e) R t" and "\<And>x t. Q (Inr x) t \<Longrightarrow> wp (g x) R t"
  shows "wp (State_Monad.bind m (case_sum f g)) R s"
  unfolding wp_bind
proof (rule wp_mono [OF assms(1)])
  fix r t assume "Q r t"
  thus "wp (case_sum f g r) R t" by (cases r) (simp_all add: assms)
qed

lemma wp_cfg_end: "wp (cfg_end e) (\<lambda>_ t. world t = world s) s"
  by (simp add: cfg_end_def upd_cxt_def wp_simps split: option.split)

lemma parse_gated:
  fixes s t :: "('d, 'z) session_st_scheme"
  assumes "received cells s c buf (Inr ()) t" and "digest_ctx c \<noteq> None"
  shows "wp (cfg_parse P) (\<lambda>r u. writes_gated P cells s c buf u
    \<and> (\<forall>x. r = Inr x \<longrightarrow> passed P c buf)) t"
proof -
  obtain c' where c': "sess_cxt t = Some c'" "config_buf c' = Some (file_after c buf)" "digest_ctx c' \<noteq> None"
    and w: "cells (world t) = cells (world s)" and full: "file_complete c buf"
    using assms by (auto simp: received_def)
  have pass: "wp m (\<lambda>r u. writes_gated P cells s c buf u
      \<and> (\<forall>x. r = Inr x \<longrightarrow> passed P c buf)) u"
    if "passed P c buf" for m :: "(('d, 'z) session_st_scheme, fw_status + unit) state" and u
    by (intro wp_all) (simp add: writes_gated_def that)
  show ?thesis
    unfolding cfg_parse_def
    by (rule wp_sum_split [OF cfg_verify_gate [OF c']])
       (simp only: wp_return writes_gated_def w simp_thms sum.inject sum.distinct, rule pass, use full in \<open>simp add: passed_def\<close>)
qed

text \<open>
  C2: While a configuration file is received and parsed, no byte of the flash changes unless the file,
  complete with the packet at hand, ends in the digest of what precedes it: no partition, no descriptor
  and no table is touched on account of a file that fails its checksum, and of no partial file.
\<close>

theorem config_writes_only_verified:
  fixes s :: "('d, 'z) session_st_scheme"
  assumes "heap_apart P cells" and "sess_cxt s = Some c" and "digest_ctx c \<noteq> None"
    and "run_state (fw_upgrade_process_config_file P buf) s = (r, t)"
  shows "cells (world t) = cells (world s) \<or> file_complete c buf \<and> file_verified P (file_after c buf)"
proof -
  have recv: "wp (if config_buf c = None then cfg_first P buf else cfg_next buf) (received cells s c buf) s"
    using cfg_first_received [OF assms(1,2)] cfg_next_received [OF assms(2)] by (cases "config_buf c") simp_all
  have stop: "wp (cfg_end e) (\<lambda>_. writes_gated P cells s c buf) u"
    if "writes_gated P cells s c buf u" for e u
    by (rule wp_mono [OF wp_cfg_end]) (use that in \<open>simp add: writes_gated_def\<close>)
  have go: "wp m (\<lambda>_. writes_gated P cells s c buf) u"
    if "passed P c buf" for m :: "(('d, 'z) session_st_scheme, fw_status) state" and u
    by (intro wp_all) (simp add: writes_gated_def that)
  have "wp (fw_upgrade_process_config_file P buf) (\<lambda>_. writes_gated P cells s c buf) s"
    unfolding fw_upgrade_process_config_file_def wp_bind wp_gets assms(2) option.case
  proof (rule wp_sum_split [OF recv, unfolded wp_bind])
    fix e u assume "received cells s c buf (Inl e) u"
    thus "wp (cfg_end e) (\<lambda>_. writes_gated P cells s c buf) u"
      by (intro stop) (simp add: received_def writes_gated_def)
  next
    fix x u assume "received cells s c buf (Inr x) u"
    thus "wp (cfg_parse P \<bind> case_sum cfg_end (\<lambda>_. cxt \<bind> (\<lambda>c. if cxt_format c \<noteq> FW_UPGRADE_FORAMT_PARTIAL_UPGRADE
        then cfg_all_in_one else cfg_partial P))) (\<lambda>_. writes_gated P cells s c buf) u"
      unfolding assms
      by (intro wp_sum_split [OF parse_gated [OF _ assms(3)]]) (auto intro: stop go)
  qed
  thus ?thesis using assms(4) by (simp add: wp_def writes_gated_def passed_def)
qed

definition bad_file :: bytes where
  "bad_file = enc_imageSet_hdr \<lparr>is_magic = 1, is_version = 1, is_format = 2, is_length = 233, num_images = 1\<rparr>
     @ enc_image_hdr app_hdr @ replicate 32 1"

theorem config_writes_only_verified_witness:
  "(let s = session_of sbl_state (zero_context\<lparr>buf_len := 233, digest_ctx := Some []\<rparr>) []
    in sim_flash (world (snd (run_state (fw_upgrade_process_config_file sim bad_file) s))) = sim_flash (world s))
   \<and> (let s = session_of sbl_state (zero_context\<lparr>buf_len := 100, digest_ctx := Some []\<rparr>) []
    in sim_flash (world (snd (run_state (fw_upgrade_process_config_file sim bad_file) s))) = sim_flash (world s))"
proof -
  let ?c = "zero_context\<lparr>buf_len := 233, digest_ctx := Some []\<rparr>" and ?part = "zero_context\<lparr>buf_len := 100, digest_ctx := Some []\<rparr>"
  let ?s = "session_of sbl_state ?c []" and ?u = "session_of sbl_state ?part []"
  have apart: "heap_apart sim sim_flash" by (simp add: heap_apart_def sim_def)
  have sha: "sha256 sim = (\<lambda>bs. replicate 32 (sum_list bs))" by (simp add: sim_def)
  have f: "file_after ?c bad_file = bad_file" by code_simp
  have "\<not> file_verified sim bad_file"
    unfolding file_verified_def sha Let_def by code_simp
  moreover have "\<not> file_complete ?part bad_file" by code_simp
  ultimately show ?thesis
    using f config_writes_only_verified [OF apart, of ?s ?c bad_file] config_writes_only_verified [OF apart, of ?u ?part bad_file]
    by (simp add: prod_eq_iff Let_def)
qed

section \<open>The digest of an image\<close>

text \<open>
  What the digest of an image is taken over: the bytes received since the image was opened and, in a
  partial upgrade, 0xFF up to the size of its partition.
\<close>

definition hash_input :: "upgrade_context \<Rightarrow> image_hdr \<Rightarrow> bytes \<Rightarrow> bytes" where
  "hash_input c e m = m @ (if cxt_format c = FW_UPGRADE_FORAMT_PARTIAL_UPGRADE
     then replicate (unat (disk_size e - image_length e)) 0xFF else [])"

definition heap_gives :: "'d platform \<Rightarrow> 'd \<Rightarrow> bool" where
  "heap_gives P w \<longleftrightarrow> (\<forall>n. fst (k_malloc P w n))"

lemma wp_verify_hash:
  assumes "sess_cxt s = Some c" and "digest_ctx c = Some m" and "heap_gives P (world s)"
  shows "wp (fw_upgrade_verify_image_hash P e) (\<lambda>r t.
    r = (if ih_hash e = sha256 P (hash_input c e m) then FW_UPGRADE_OK_E else FW_UPGRADE_ERR_INCORRECT_IMAGE_CHECKSUM_E)
    \<and> (\<exists>m'. sess_cxt t = Some (c\<lparr>digest_ctx := Some m'\<rparr>))) s"
proof (cases "cxt_format c = FW_UPGRADE_FORAMT_PARTIAL_UPGRADE \<and> disk_size e - image_length e > 0")
  case True
  obtain w where w: "k_malloc P (world s) (unat (disk_size e - image_length e)) = (True, w)"
    using assms(3) by (cases "k_malloc P (world s) (unat (disk_size e - image_length e))")
      (auto simp: heap_gives_def dest: spec [of _ "unat (disk_size e - image_length e)"])
  have "run_state (malloc P (unat (disk_size e - image_length e))) s = (True, s\<lparr>world := w\<rparr>)"
    by (simp add: malloc_def run_simps w)
  moreover have "run_state (digest_update xs) (s\<lparr>world := w\<rparr>) =
      ((), s\<lparr>world := w, sess_cxt := Some (c\<lparr>digest_ctx := Some (m @ xs)\<rparr>)\<rparr>)" for xs
    using assms(1,2) by (simp add: digest_update_def run_simps run_cxt upd_cxt_def)
  moreover have "run_state (digest_finish P) (s\<lparr>world := w, sess_cxt := Some (c\<lparr>digest_ctx := Some m'\<rparr>)\<rparr>) =
      (sha256 P m', s\<lparr>world := w, sess_cxt := Some (c\<lparr>digest_ctx := Some m'\<rparr>)\<rparr>)" for m'
    by (simp add: digest_finish_def run_simps run_cxt)
  ultimately show ?thesis
    using True assms(1)
    by (simp add: fw_upgrade_verify_image_hash_def wp_def run_simps Let_def hash_input_def) blast
next
  case False
  then have pad: "hash_input c e m = m"
    by (auto simp: hash_input_def word_gt_0)
  have "run_state (fw_upgrade_verify_image_hash P e) s = (if ih_hash e = sha256 P m then FW_UPGRADE_OK_E
      else FW_UPGRADE_ERR_INCORRECT_IMAGE_CHECKSUM_E, s)"
    using assms(1,2) False
    by (cases "cxt_format c = FW_UPGRADE_FORAMT_PARTIAL_UPGRADE")
       (simp_all add: fw_upgrade_verify_image_hash_def run_simps Let_def digest_finish_def run_cxt)
  moreover have "\<exists>m'. sess_cxt s = Some (c\<lparr>digest_ctx := Some m'\<rparr>)"
    using assms(1,2) by (intro exI [of _ m]) simp
  ultimately show ?thesis by (simp only: wp_def pad prod.case)
qed

lemma wp_close_partition:
  assumes "sess_cxt s = Some c" and "partition_hdl c = Some h"
    and "\<And>t. sess_cxt t = Some (c\<lparr>partition_hdl := None\<rparr>) \<Longrightarrow> Q () t"
  shows "wp close_partition Q s"
  using assms by (simp add: close_partition_def release_def update_handle_def wp_simps wp_cxt wp_upd_cxt)

definition image_settled :: "upgrade_context \<Rightarrow> image_hdr \<Rightarrow> bool \<Rightarrow> fw_status option \<Rightarrow> upgrade_context \<Rightarrow> bool" where
  "image_settled c e ok x c' \<longleftrightarrow> partition_hdl c' = None \<and>
    (if ok
     then image_index c' = image_index c + 1 \<and> image_wrt_length c' = 0
       \<and> trial_mem_start c' = (if ih_image_id e \<noteq> FS1_IMG_ID \<and> ih_image_id e \<noteq> SBL_IMG_ID
           then trial_mem_start c + disk_size e else trial_mem_start c)
       \<and> x = (if cxt_format c \<noteq> FW_UPGRADE_FORAMT_PARTIAL_UPGRADE \<and> cxt_total_images c \<le> image_index c + 1
           then Some FW_UPGRADE_OK_E else None)
     else x = Some FW_UPGRADE_ERR_INCORRECT_IMAGE_CHECKSUM_E \<and> image_index c' = image_index c
       \<and> image_wrt_length c' = image_wrt_length c \<and> trial_mem_start c' = trial_mem_start c)"

lemma wp_rx_complete:
  assumes "sess_cxt s = Some c" and "digest_ctx c = Some m" and "partition_hdl c = Some h"
    and "heap_gives P (world s)"
  shows "wp (rx_complete P e) (\<lambda>x t. \<exists>c'. sess_cxt t = Some c'
    \<and> image_settled c e (ih_hash e = sha256 P (hash_input c e m)) x c') s"
  unfolding rx_complete_def wp_bind
proof (rule wp_mono [OF wp_verify_hash [OF assms(1,2,4)]], elim conjE exE)
  fix r u m'
  assume r: "r = (if ih_hash e = sha256 P (hash_input c e m) then FW_UPGRADE_OK_E
        else FW_UPGRADE_ERR_INCORRECT_IMAGE_CHECKSUM_E)" and u: "sess_cxt u = Some (c\<lparr>digest_ctx := Some m'\<rparr>)"
  let ?Q = "\<lambda>x t. \<exists>c'. sess_cxt t = Some c' \<and> image_settled c e (ih_hash e = sha256 P (hash_input c e m)) x c'"
  have hdl: "partition_hdl (c\<lparr>digest_ctx := Some m'\<rparr>) = Some h" using assms(3) by simp
  show "wp (if r \<noteq> FW_UPGRADE_OK_E then do { c \<leftarrow> cxt; when_m (partition_hdl c \<noteq> None) close_partition;
           State_Monad.return (Some r) }
         else do { close_partition; upd_cxt (\<lambda>c. next_image (advance_trial_mem e c)); c \<leftarrow> cxt;
           if cxt_format c = FW_UPGRADE_FORAMT_PARTIAL_UPGRADE
           then do { fw_upgrade_set_state FW_UPGRADE_STATE_DISCONNECT_SERVER_E; State_Monad.return None }
           else if cxt_total_images c \<le> image_index c
           then do { fw_upgrade_set_state FW_UPGRADE_STATE_DUPLICATE_FS_E; State_Monad.return (Some FW_UPGRADE_OK_E) }
           else State_Monad.return None }) ?Q u"
  proof (cases "ih_hash e = sha256 P (hash_input c e m)")
    case True
    have "wp close_partition (\<lambda>_. wp (do { upd_cxt (\<lambda>c. next_image (advance_trial_mem e c)); c \<leftarrow> cxt;
           if cxt_format c = FW_UPGRADE_FORAMT_PARTIAL_UPGRADE
           then do { fw_upgrade_set_state FW_UPGRADE_STATE_DISCONNECT_SERVER_E; State_Monad.return None }
           else if cxt_total_images c \<le> image_index c
           then do { fw_upgrade_set_state FW_UPGRADE_STATE_DUPLICATE_FS_E; State_Monad.return (Some FW_UPGRADE_OK_E) }
           else State_Monad.return None }) ?Q) u"
      by (rule wp_close_partition [OF u hdl])
         (simp add: step_simps next_image_def advance_trial_mem_def image_settled_def True)
    then show ?thesis by (simp add: r True wp_bind)
  next
    case False
    have "wp close_partition (\<lambda>_. wp (State_Monad.return (Some r)) ?Q) u"
      by (rule wp_close_partition [OF u hdl]) (simp add: image_settled_def False r wp_return)
    then show ?thesis by (simp add: r False wp_bind wp_when_m wp_cxt [OF u] assms(3))
  qed
qed

text \<open>
  C3: An image counts as complete exactly if its digest is the announced one. Then the session turns to
  the next image, the trial region goes on behind this one unless it has a place of its own, and the loop
  is left only after the last image of an all-in-one upgrade; else the loop is left with the checksum
  error and the session stays at the image. Either way the image's handle is closed.
\<close>

theorem image_advances_iff_hash:
  assumes "sess_cxt s = Some c" and "digest_ctx c = Some m" and "partition_hdl c = Some h"
    and "heap_gives P (world s)" and "run_state (rx_complete P e) s = (x, t)"
  shows "\<exists>c'. sess_cxt t = Some c' \<and> image_settled c e (ih_hash e = sha256 P (hash_input c e m)) x c'"
  using wp_rx_complete [OF assms(1-4), of e] assms(5) by (simp add: wp_def)

theorem image_advances_iff_hash_witness:
  "\<exists>c'. sess_cxt (snd (run_state (rx_complete sim (app_hdr\<lparr>ih_hash := replicate 32 6\<rparr>))
       (session_of sbl_state (zero_context\<lparr>digest_ctx := Some [1, 2, 3], partition_hdl := Some 0\<rparr>) []))) = Some c'
     \<and> image_index c' = 1 \<and> trial_mem_start c' = 5000"
proof -
  let ?c = "zero_context\<lparr>digest_ctx := Some [1, 2, 3], partition_hdl := Some 0\<rparr>"
  let ?e = "app_hdr\<lparr>ih_hash := replicate 32 6\<rparr>"
  have heap: "heap_gives sim (world (session_of sbl_state ?c []))" by (simp add: heap_gives_def sim_def)
  have "ih_hash ?e = sha256 sim (hash_input ?c ?e [1, 2, 3])"
    by (simp add: sim_def hash_input_def zero_context_def FW_UPGRADE_FORAMT_PARTIAL_UPGRADE_def)
  moreover have "ih_image_id ?e \<noteq> FS1_IMG_ID" "ih_image_id ?e \<noteq> SBL_IMG_ID"
    by (simp_all add: app_hdr_def FS1_IMG_ID_def SBL_IMG_ID_def)
  ultimately show ?thesis
    using image_advances_iff_hash [of _ ?c "[1, 2, 3]" 0 sim ?e, OF _ _ _ heap prod.collapse [symmetric]]
    by (auto simp: image_settled_def zero_context_def app_hdr_def)
qed

end
