(* ===== verification/Fw_Image_Proofs.thy ===== *)
theory Fw_Image_Proofs
  imports Fw_Gate_Proofs
begin

text \<open>
  Receiving an image: every chunk is written into blocks that are erased just ahead of it, so that the
  partition holds exactly the bytes received, and the digest that decides about the image is taken over
  what the partition holds.
\<close>

section \<open>The blocks a chunk enters\<close>

lemma unat_minus_one: "x \<noteq> 0 \<Longrightarrow> unat ((x :: u32) - 1) = unat x - 1"
  by (metis unat_minus_one)

text \<open>The end of the block that holds the byte before \<open>x\<close>, for a positive \<open>x\<close>.\<close>

definition block_end :: "nat \<Rightarrow> nat" where
  "block_end x = ((x - 1) div 4096 + 1) * 4096"

lemma block_end_bounds:
  assumes "0 < x"
  shows "x \<le> block_end x" and "block_end x < x + 4096"
proof -
  have "x - 1 < 4096 + (x - 1) div 4096 * 4096" "(x - 1) div 4096 * 4096 \<le> x - 1"
    by (rule dividend_less_div_times, simp, rule div_times_less_eq_dividend)
  then show "x \<le> block_end x" "block_end x < x + 4096"
    using assms by (simp_all add: block_end_def)
qed

lemma block_end_le:
  assumes "0 < x" "x \<le> S" "S mod 4096 = 0"
  shows "block_end x \<le> S"
proof -
  obtain q where q: "S = q * 4096"
    using assms(3) by (metis blocks_exact)
  then have "(x - 1) div 4096 < q"
    using assms(1,2) by (subst div_less_iff_less_mult) simp_all
  then show ?thesis
    using mult_le_mono1 [of "(x - 1) div 4096 + 1" q 4096] by (simp add: block_end_def q)
qed

lemma block_end_mod [simp]: "block_end x mod 4096 = 0"
  by (simp add: block_end_def)

lemma ceil_blocks:
  fixes x :: nat
  assumes "0 < x"
  shows "(if x mod 4096 \<noteq> 0 then x div 4096 + 1 else x div 4096) = (x - 1) div 4096 + 1"
proof -
  obtain y where "x = Suc y"
    using assms by (cases x) auto
  then show ?thesis
    by (simp add: div_Suc)
qed

lemma blocks_ahead_None:
  assumes "unat count + unat n < 2 ^ 32" "0 < unat n" "blocks_ahead 4096 count n = None"
  shows "block_end (unat count + unat n) = (unat count div 4096 + 1) * 4096"
proof -
  have sum: "unat (count + n) = unat count + unat n"
    using assms(1) by (rule unat_add_nowrap)
  then have "unat (count + n - 1) = unat count + unat n - 1"
    using assms(2) by (subst unat_minus_one) auto
  moreover have "count div 4096 = (count + n - 1) div 4096"
    using assms(3) by (simp add: blocks_ahead_def Let_def split: if_splits)
  ultimately have "unat count div 4096 = (unat count + unat n - 1) div 4096"
    by (metis unat_div_4096)
  then show ?thesis
    by (simp add: block_end_def)
qed

lemma blocks_ahead_Some:
  assumes "unat count + unat n \<le> S" "S < 2 ^ 32" "S mod 4096 = 0" "0 < unat n"
    and "blocks_ahead 4096 count n = Some (a, k)"
  shows "unat a = (unat count div 4096 + 1) * 4096"
    and "unat a + unat k = block_end (unat count + unat n)"
    and "unat a < unat count + unat n"
proof -
  let ?x = "unat count + unat n"
  have sum: "unat (count + n) = ?x"
    using assms(1,2) by (intro unat_add_nowrap) simp
  then have "unat (count + n - 1) = ?x - 1"
    using assms(4) by (subst unat_minus_one) auto
  moreover have "count div 4096 \<noteq> (count + n - 1) div 4096"
    using assms(5) by (auto simp: blocks_ahead_def)
  ultimately have ne: "unat count div 4096 \<noteq> (?x - 1) div 4096"
    by (metis unat_div_4096 word_unat_eq_iff)
  define f where "f = count div 4096 + 1"
  define l where "l = (if (count + n) mod 4096 \<noteq> 0 then (count + n) div 4096 + 1 else (count + n) div 4096)"
  have ak: "a = f * 4096" "k = (l - f) * 4096"
    using assms(5) ne by (auto simp: blocks_ahead_def f_def l_def Let_def split: if_splits)
  have small: "unat (y :: u32) div 4096 < 1048576" for y
    by (rule less_mult_imp_div_less) simp
  have next_block: "unat (y div 4096 + 1) = unat y div 4096 + 1" for y :: u32
    using small [of y] by (subst unat_add_nowrap) (simp_all add: unat_div_4096)
  have uf: "unat f = unat count div 4096 + 1"
    unfolding f_def by (rule next_block)
  have "unat ((count + n) div 4096 + 1) = ?x div 4096 + 1"
    unfolding next_block sum ..
  moreover have "(count + n) mod 4096 = 0 \<longleftrightarrow> ?x mod 4096 = 0"
    using unat_eq_zero [of "(count + n) mod 4096"] unfolding unat_mod unat_numeral_4096 sum by (rule sym)
  moreover have "unat ((count + n) div 4096) = ?x div 4096"
    unfolding unat_div_4096 sum ..
  ultimately have "unat l = (if ?x mod 4096 \<noteq> 0 then ?x div 4096 + 1 else ?x div 4096)"
    by (cases "?x mod 4096 = 0") (simp_all only: l_def if_True if_False refl simp_thms)
  also have "\<dots> = (?x - 1) div 4096 + 1"
    using assms(4) by (intro ceil_blocks) linarith
  finally have ul: "unat l = (?x - 1) div 4096 + 1" .
  have "unat count \<le> ?x - 1"
    using assms(4) by linarith
  then have lt: "unat count div 4096 < (?x - 1) div 4096"
    using ne div_le_mono le_neq_implies_less by blast
  then have fl: "unat f < unat l" "f \<le> l"
    unfolding word_le_nat_alt uf ul by linarith+
  have "unat f * 4096 \<le> (?x - 1) div 4096 * 4096"
    using lt unfolding uf by (intro mult_le_mono1) linarith
  also have "\<dots> \<le> ?x - 1"
    by (rule div_times_less_eq_dividend)
  finally have at: "unat f * 4096 < ?x"
    using assms(4) by linarith
  have e: "unat l * 4096 = block_end ?x"
    by (simp add: ul block_end_def)
  have le: "block_end ?x \<le> S"
    using assms by (intro block_end_le) simp_all
  show a: "unat a = (unat count div 4096 + 1) * 4096"
    unfolding ak(1) using uf at assms(1,2) by (subst unat_mult_nowrap) simp_all
  have "unat (l - f) = unat l - unat f"
    using fl(2) by (rule unat_sub_nowrap)
  moreover have "(unat l - unat f) * 4096 < 2 ^ 32"
    using e le assms(2) by (simp add: diff_mult_distrib)
  ultimately have "unat k = unat l * 4096 - unat f * 4096"
    unfolding ak(2) by (subst unat_mult_nowrap) (simp_all add: diff_mult_distrib)
  then show "unat a + unat k = block_end ?x"
    using a uf fl(1) e by simp
  show "unat a < ?x"
    using a uf at by simp
qed

section \<open>What a partition holds\<close>

text \<open>
  The partition \<open>p\<close> starts with the bytes \<open>got\<close>, and behind them it is erased up to the offset \<open>e\<close>.
\<close>

definition holds_upto :: "(nat \<Rightarrow> u8) \<Rightarrow> partition_client \<Rightarrow> bytes \<Rightarrow> nat \<Rightarrow> bool" where
  "holds_upto c p got e \<longleftrightarrow> length got \<le> e
     \<and> slice c (unat (img_start p)) (length got) = got
     \<and> (\<forall>i. length got \<le> i \<and> i < e \<longrightarrow> c (unat (img_start p) + i) = 0xFF)"

lemma holds_upto_erase:
  assumes "holds_upto c p got e"
  shows "holds_upto (erase_cells c (unat (img_start p) + e) m) p got (e + m)"
proof -
  have "slice (erase_cells c (unat (img_start p) + e) m) (unat (img_start p)) (length got) =
      slice c (unat (img_start p)) (length got)"
    using assms by (intro slice_erase_other) (simp add: holds_upto_def)
  then show ?thesis
    using assms by (auto simp: holds_upto_def erase_cells_def)
qed

lemma slice_plus: "slice c a (n + m) = slice c a n @ slice c (a + n) m"
  by (rule nth_equalityI) (auto simp: nth_append)

lemma holds_upto_prog:
  assumes "holds_upto c p got e" "length got + length ch \<le> e"
  shows "holds_upto (prog_cells c (unat (img_start p) + length got) ch) p (got @ ch) e"
proof -
  let ?st = "unat (img_start p)"
  let ?c = "prog_cells c (?st + length got) ch"
  have "slice ?c (?st + length got) (length ch) = ch"
    using assms by (intro slice_prog_erased) (auto simp: holds_upto_def add.assoc)
  moreover have "slice ?c ?st (length got) = got"
    using assms(1) by (subst slice_prog_other) (simp_all add: holds_upto_def)
  ultimately have "slice ?c ?st (length (got @ ch)) = got @ ch"
    by (simp add: slice_plus)
  then show ?thesis
    using assms by (auto simp: holds_upto_def prog_cells_def)
qed

text \<open>What a step that works on one partition leaves alone.\<close>

definition confined :: "('d \<Rightarrow> nat \<Rightarrow> u8) \<Rightarrow> partition_client \<Rightarrow> ('d, 'z) session_st_scheme \<Rightarrow>
    ('d, 'z) session_st_scheme \<Rightarrow> bool" where
  "confined cells p s t \<longleftrightarrow> faulted t = faulted s \<and> stuck t = stuck s \<and> image_hdrs t = image_hdrs s
     \<and> mutex_init t = mutex_init s
     \<and> (\<forall>i. i < unat (img_start p) \<or> unat (img_start p) + unat (img_size p) \<le> i \<longrightarrow>
          cells (world t) i = cells (world s) i)"

lemma confined_refl [simp]: "confined cells p s s"
  by (simp add: confined_def)

lemma confined_trans: "confined cells p s t \<Longrightarrow> confined cells p t u \<Longrightarrow> confined cells p s u"
  by (simp add: confined_def)

text \<open>
  The boot table lies in another memory: programming and erasing the flash, and allocating, leave it alone.
  Between two states only the flash was worked on: the boot table is the same and no further handle is live.
\<close>

definition flash_apart :: "'d platform \<Rightarrow> bool" where
  "flash_apart P \<longleftrightarrow> (\<forall>w a bs. rram_load P (snd (flash_write P w a bs)) = rram_load P w)
     \<and> (\<forall>w a n. rram_load P (snd (flash_erase P w a n)) = rram_load P w)
     \<and> (\<forall>w n. rram_load P (snd (k_malloc P w n)) = rram_load P w)"

definition no_new_handle :: "partition_client list \<Rightarrow> partition_client list \<Rightarrow> bool" where
  "no_new_handle hs hs' \<longleftrightarrow> length hs' = length hs
     \<and> (\<forall>j < length hs. ref_count (hs ! j) = 0 \<longrightarrow> ref_count (hs' ! j) = 0)"

definition flash_only :: "'d platform \<Rightarrow> ('d, 'z) session_st_scheme \<Rightarrow> ('d, 'z) session_st_scheme \<Rightarrow> bool" where
  "flash_only P s t \<longleftrightarrow> no_new_handle (partition_handles s) (partition_handles t)
     \<and> (flash_apart P \<longrightarrow> rram_load P (world t) = rram_load P (world s))"

lemma no_new_handle_refl [simp]: "no_new_handle hs hs"
  by (simp add: no_new_handle_def)

lemma no_new_handle_freed: "ref_count x = 0 \<Longrightarrow> no_new_handle hs (hs[k := x])"
  unfolding no_new_handle_def by (metis length_list_update nth_list_update_eq nth_list_update_neq)

lemma flash_only_refl [simp]: "flash_only P s s"
  by (simp add: flash_only_def)

lemma flash_only_trans: "flash_only P s t \<Longrightarrow> flash_only P t u \<Longrightarrow> flash_only P s u"
  by (simp add: flash_only_def no_new_handle_def)

lemma flash_only_programmed [simp]: "flash_only P s (programmed P a bs s)"
  by (simp add: flash_only_def programmed_def flash_apart_def)

lemma flash_only_erased [simp]: "flash_only P s (erased P a n s)"
  by (simp add: flash_only_def erased_def flash_apart_def)

lemma flash_only_cxt [simp]:
  "flash_only P s (t\<lparr>sess_cxt := x\<rparr>) = flash_only P s t"
  "flash_only P (s\<lparr>sess_cxt := x\<rparr>) t = flash_only P s t"
  by (simp_all add: flash_only_def)

section \<open>Writing a chunk\<close>

text \<open>
  The session is in the middle of an image: \<open>got\<close> are the bytes received, which the partition holds and
  the digest has seen, and the rest of the block is erased.
\<close>

definition receiving :: "'d platform \<Rightarrow> ('d \<Rightarrow> nat \<Rightarrow> u8) \<Rightarrow> u32 \<Rightarrow> nat \<Rightarrow> partition_client \<Rightarrow>
    upgrade_context \<Rightarrow> bytes \<Rightarrow> ('d, 'z) session_st_scheme \<Rightarrow> bool" where
  "receiving P cells M k p c got s \<longleftrightarrow> mem_ready P cells M s \<and> flash_partition M s k p
     \<and> unat (img_size p) mod 4096 = 0
     \<and> sess_cxt s = Some c \<and> partition_hdl c = Some k \<and> digest_ctx c = Some got
     \<and> unat (image_wrt_count c) = length got \<and> length got < unat (image_wrt_length c)
     \<and> unat (image_wrt_length c) \<le> unat (img_size p)
     \<and> holds_upto (cells (world s)) p got (block_end (length got + 1))"

lemma receivingD:
  assumes "receiving P cells M k p c got s"
  shows "mem_ready P cells M s" "flash_partition M s k p" "unat (img_size p) mod 4096 = 0"
    "sess_cxt s = Some c" "partition_hdl c = Some k" "digest_ctx c = Some got"
    "unat (image_wrt_count c) = length got" "length got < unat (image_wrt_length c)"
    "unat (image_wrt_length c) \<le> unat (img_size p)"
    "holds_upto (cells (world s)) p got (block_end (length got + 1))"
  using assms by (simp_all add: receiving_def)

lemma ready_cxt [simp]:
  "mem_ready P cells M (s\<lparr>sess_cxt := x\<rparr>) = mem_ready P cells M s"
  "flash_partition M (s\<lparr>sess_cxt := x\<rparr>) k p = flash_partition M s k p"
  by (simp_all add: mem_ready_def adapter_ready_def flash_partition_def)

lemma session_programmed [simp]:
  "sess_cxt (programmed P a bs s) = sess_cxt s" "image_hdrs (programmed P a bs s) = image_hdrs s"
  "mutex_init (programmed P a bs s) = mutex_init s"
  by (simp_all add: programmed_def)

lemma session_erased [simp]:
  "sess_cxt (erased P a m s) = sess_cxt s" "image_hdrs (erased P a m s) = image_hdrs s"
  "mutex_init (erased P a m s) = mutex_init s"
  "faulted (erased P a m s) = faulted s" "stuck (erased P a m s) = stuck s"
  "partition_handles (erased P a m s) = partition_handles s"
  by (simp_all add: erased_def)

lemma run_digest_update:
  "sess_cxt s = Some c \<Longrightarrow> digest_ctx c = Some m \<Longrightarrow>
   run_state (digest_update bs) s = ((), s\<lparr>sess_cxt := Some (c\<lparr>digest_ctx := Some (m @ bs)\<rparr>)\<rparr>)"
  by (simp add: digest_update_def run_simps run_cxt upd_cxt_def)

lemma run_upd_cxt:
  "sess_cxt s = Some c \<Longrightarrow> run_state (upd_cxt f) s = ((), s\<lparr>sess_cxt := Some (f c)\<rparr>)"
  by (simp add: upd_cxt_def run_simps)

text \<open>Erasing the blocks ahead brings the erased part to the end of the chunk's last block.\<close>

lemma erase_ahead:
  assumes ready: "mem_ready P cells M s" and part: "flash_partition M s k p"
    and size: "unat (img_size p) mod 4096 = 0"
    and holds: "holds_upto (cells (world s)) p got (block_end (length got + 1))"
    and count: "unat count = length got" and n: "0 < unat n" and fit: "length got + unat n \<le> unat (img_size p)"
  obtains t where
    "run_state (case blocks_ahead 4096 count n of None \<Rightarrow> State_Monad.return FW_UPGRADE_OK_E
       | Some (a, m) \<Rightarrow> fw_upgrade_erase_partition P (Some k) a m) s = (FW_UPGRADE_OK_E, t)"
    "mem_ready P cells M t" "flash_partition M t k p" "confined cells p s t" "flash_only P s t"
    "sess_cxt t = sess_cxt s" "partition_handles t = partition_handles s"
    "holds_upto (cells (world t)) p got (block_end (length got + unat n))"
proof (cases "blocks_ahead 4096 count n")
  case None
  then have "block_end (length got + unat n) = block_end (length got + 1)"
    using blocks_ahead_None [OF _ n None] count fit unat_lt_u32 [of "img_size p"]
    by (simp add: block_end_def)
  with None holds show ?thesis
    using ready part by (intro that [of s]) simp_all
next
  case (Some am)
  obtain a m where am: "am = (a, m)"
    by (cases am)
  have cn: "unat count + unat n = length got + unat n"
    using count by simp
  note b = blocks_ahead_Some [OF fit [folded cn] _ size n Some [unfolded am]]
  have a: "unat a = block_end (length got + 1)" "unat a + unat m = block_end (length got + unat n)"
    "unat a < length got + unat n"
    using b count by (simp_all add: block_end_def)
  have le: "block_end (length got + unat n) \<le> unat (img_size p)" "length got + unat n \<le> block_end (length got + unat n)"
    using n fit size by (intro block_end_le block_end_bounds; simp)+
  have al: "unat a mod 4096 = 0" "unat m mod 4096 = 0"
  proof -
    show "unat a mod 4096 = 0"
      unfolding a(1) by simp
    moreover have "unat m = block_end (length got + unat n) - unat a"
      using a(2) by simp
    ultimately show "unat m mod 4096 = 0"
      using block_end_mod [of "length got + unat n"] by (metis mod_0_imp_dvd dvd_diff_nat dvd_imp_mod_0)
  qed
  have inside: "in_partition p a m"
    using a le by (auto simp: in_partition_def)
  note e = run_erase_partition [OF ready part inside al]
  let ?t = "erased P ((img_start p + a) div 4096) (m div 4096) s"
  show ?thesis
  proof (rule that [of ?t])
    show "holds_upto (cells (world ?t)) p got (block_end (length got + unat n))"
      using holds_upto_erase [OF holds, of "unat m"] a by (simp add: e(2))
    show "confined cells p s ?t"
      using a le by (auto simp: confined_def e(2) erase_cells_def)
  qed (use Some am e(1) ready part in simp_all)
qed

text \<open>A chunk is written behind the bytes received, into erased blocks.\<close>

lemma run_rx_write:
  assumes rec: "receiving P cells M k p c got s" and n: "0 < unat n"
    and left: "length got + unat n \<le> unat (image_wrt_length c)"
    and inside: "unat off + unat n \<le> length buffer"
  defines "chunk \<equiv> take (unat n) (drop (unat off) buffer)"
  obtains t where
    "run_state (rx_write P al 4096 buffer off n) s = ((FW_UPGRADE_OK_E, off + n), t)"
    "mem_ready P cells M t" "flash_partition M t k p" "confined cells p s t" "flash_only P s t"
    "sess_cxt t = Some (c\<lparr>digest_ctx := Some (got @ chunk),
       file_read_count := file_read_count c + n, image_wrt_count := image_wrt_count c + n\<rparr>)"
    "partition_handles t = partition_handles s"
    "holds_upto (cells (world t)) p (got @ chunk) (block_end (length got + unat n))"
proof -
  note r = receivingD [OF rec]
  let ?c1 = "c\<lparr>digest_ctx := Some (got @ chunk)\<rparr>"
  define s1 where "s1 = s\<lparr>sess_cxt := Some ?c1\<rparr>"
  have len: "length chunk = unat n"
    using inside by (simp add: chunk_def)
  have fit: "length got + unat n \<le> unat (img_size p)"
    using left r(9) by linarith
  have s1: "mem_ready P cells M s1" "flash_partition M s1 k p" "sess_cxt s1 = Some ?c1"
    "holds_upto (cells (world s1)) p got (block_end (length got + 1))"
    "partition_handles s1 = partition_handles s" "confined cells p s s1"
    using r by (simp_all add: s1_def confined_def)
  obtain s2 where erase: "run_state (case blocks_ahead 4096 (image_wrt_count c) n of
        None \<Rightarrow> State_Monad.return FW_UPGRADE_OK_E
      | Some (a, m) \<Rightarrow> fw_upgrade_erase_partition P (Some k) a m) s1 = (FW_UPGRADE_OK_E, s2)"
    and s2: "mem_ready P cells M s2" "flash_partition M s2 k p" "confined cells p s1 s2" "flash_only P s1 s2"
      "sess_cxt s2 = sess_cxt s1" "partition_handles s2 = partition_handles s1"
      "holds_upto (cells (world s2)) p got (block_end (length got + unat n))"
    using erase_ahead [OF s1(1,2) r(3) s1(4) r(7) n fit] by blast
  have range: "in_partition p (image_wrt_count c) n"
    using n fit r(7) by (auto simp: in_partition_def)
  note w = run_write_partition [OF s2(1,2) range len]
  let ?s3 = "programmed P (img_start p + image_wrt_count c) chunk s2"
  let ?f = "\<lambda>c. c\<lparr>file_read_count := file_read_count c + n, image_wrt_count := image_wrt_count c + n\<rparr>"
  let ?t = "?s3\<lparr>sess_cxt := Some (?f ?c1)\<rparr>"
  have cxt2: "sess_cxt s2 = Some ?c1"
    using s2(5) s1(3) by simp
  have run: "run_state (rx_write P al 4096 buffer off n) s = ((FW_UPGRADE_OK_E, off + n), ?t)"
    unfolding rx_write_def
    using inside r(5) run_digest_update [OF r(4,6)] run_cxt [OF s1(3)] erase w(1) [of "al off"]
      run_upd_cxt [of ?s3 ?c1 ?f] cxt2 run_cxt [OF cxt2]
    by (simp add: run_simps chunk_def [symmetric] s1_def [symmetric] not_less
        cong: option.case_cong prod.case_cong)
  have holds: "holds_upto (cells (world ?s3)) p (got @ chunk) (block_end (length got + unat n))"
    unfolding w(2) r(7) using s2(7) block_end_bounds(1) [of "length got + unat n"] n len
    by (intro holds_upto_prog) simp_all
  have "confined cells p s2 ?t"
    using fit len by (auto simp: confined_def w(2) r(7) prog_cells_def)
  then have conf: "confined cells p s ?t"
    by (rule confined_trans [OF s1(6) confined_trans [OF s2(3)]])
  have only: "flash_only P s ?t"
    using flash_only_trans [OF s2(4) flash_only_programmed] by (simp add: s1_def)
  show ?thesis
  proof (rule that [of ?t])
    show "holds_upto (cells (world ?t)) p (got @ chunk) (block_end (length got + unat n))"
      using holds by simp
  qed (fact run conf only | simp add: s2(1,2,6) s1(5))+
qed

section \<open>After the chunk\<close>

text \<open>If the image goes on at a block boundary, the next block is erased.\<close>

lemma run_rx_erase_next:
  assumes ready: "mem_ready P cells M s" "flash_partition M s k p" and size: "unat (img_size p) mod 4096 = 0"
    and cxt: "sess_cxt s = Some c" "partition_hdl c = Some k"
    and count: "unat (image_wrt_count c) = length got" "0 < length got"
    and goes_on: "length got < unat (image_wrt_length c)" "unat (image_wrt_length c) \<le> unat (img_size p)"
    and holds: "holds_upto (cells (world s)) p got (block_end (length got))"
  obtains t where "run_state (rx_erase_next P 4096) s = (FW_UPGRADE_OK_E, t)"
    "mem_ready P cells M t" "flash_partition M t k p" "confined cells p s t" "flash_only P s t"
    "sess_cxt t = Some c" "partition_handles t = partition_handles s"
    "holds_upto (cells (world t)) p got (block_end (length got + 1))"
proof (cases "image_wrt_count c mod 4096 = 0")
  case False
  then have ne: "length got mod 4096 \<noteq> 0"
    using count(1) by (metis mod_4096_zero)
  have "block_end (length got + 1) = block_end (length got)"
    using ceil_blocks [OF count(2)] ne by (simp add: block_end_def)
  then show ?thesis
    using False ready cxt holds
    by (intro that [of s]) (simp_all add: rx_erase_next_def run_simps run_cxt [OF cxt(1)])
next
  case True
  have at: "length got mod 4096 = 0"
    using True count(1) unat_mod [of "image_wrt_count c" 4096] by (simp add: unat_numeral_4096)
  have e: "block_end (length got) = length got" "block_end (length got + 1) = length got + 4096"
    using ceil_blocks [OF count(2)] at blocks_exact [OF at] by (simp_all add: block_end_def)
  have le: "length got + 4096 \<le> unat (img_size p)"
    using block_end_le [of "length got + 1" "unat (img_size p)"] e goes_on size by simp
  have inside: "in_partition p (image_wrt_count c) 4096"
    using le count(1) by (simp add: in_partition_def)
  have al: "unat (image_wrt_count c) mod 4096 = 0" "unat (4096 :: u32) mod 4096 = 0"
    using at count(1) by simp_all
  note er = run_erase_partition [OF ready inside al]
  let ?t = "erased P ((img_start p + image_wrt_count c) div 4096) (4096 div 4096) s"
  show ?thesis
  proof (rule that [of ?t])
    have "0 < image_wrt_length c"
      using goes_on by (simp add: word_less_nat_alt)
    then show "run_state (rx_erase_next P 4096) s = (FW_UPGRADE_OK_E, ?t)"
      using True er(1) cxt by (simp add: rx_erase_next_def run_simps run_cxt [OF cxt(1)])
    show "holds_upto (cells (world ?t)) p got (block_end (length got + 1))"
      unfolding er(2) using holds_upto_erase [OF holds, of 4096] e count(1) by simp
    show "confined cells p s ?t"
      unfolding confined_def er(2) using le count(1) by (auto simp: erase_cells_def)
  qed (use ready cxt in simp_all)
qed

text \<open>Completing the image of an all-in-one upgrade touches neither flash nor heap.\<close>

definition settled :: "image_hdr \<Rightarrow> upgrade_context \<Rightarrow> upgrade_context" where
  "settled e c = (let c' = next_image (advance_trial_mem e (c\<lparr>partition_hdl := None\<rparr>)) in
     if image_index c' \<ge> cxt_total_images c' then c'\<lparr>upgrade_state := FW_UPGRADE_STATE_DUPLICATE_FS_E\<rparr> else c')"

lemma run_close_partition:
  assumes "sess_cxt s = Some c" "partition_hdl c = Some k"
  shows "\<exists>hs. no_new_handle (partition_handles s) hs \<and> run_state close_partition s =
    ((), s\<lparr>partition_handles := hs, sess_cxt := Some (c\<lparr>partition_hdl := None\<rparr>)\<rparr>)"
  using assms
  by (cases s) (auto simp: close_partition_def run_simps run_cxt release_def update_handle_def upd_cxt_def
      intro!: no_new_handle_freed)

lemma run_rx_complete:
  assumes cxt: "sess_cxt s = Some c" "partition_hdl c = Some k" "digest_ctx c = Some got"
    and format: "cxt_format c \<noteq> FW_UPGRADE_FORAMT_PARTIAL_UPGRADE"
  shows "\<exists>hs. no_new_handle (partition_handles s) hs \<and> run_state (rx_complete P e) s =
    (if ih_hash e = sha256 P got
     then (if image_index c + 1 \<ge> cxt_total_images c then Some FW_UPGRADE_OK_E else None,
           s\<lparr>partition_handles := hs, sess_cxt := Some (settled e c)\<rparr>)
     else (Some FW_UPGRADE_ERR_INCORRECT_IMAGE_CHECKSUM_E,
           s\<lparr>partition_handles := hs, sess_cxt := Some (c\<lparr>partition_hdl := None\<rparr>)\<rparr>))"
proof -
  obtain hs where hs: "no_new_handle (partition_handles s) hs" and close: "run_state close_partition s =
      ((), s\<lparr>partition_handles := hs, sess_cxt := Some (c\<lparr>partition_hdl := None\<rparr>)\<rparr>)"
    using run_close_partition [OF cxt(1,2)] by blast
  have verify: "run_state (fw_upgrade_verify_image_hash P e) s =
      (if ih_hash e \<noteq> sha256 P got then FW_UPGRADE_ERR_INCORRECT_IMAGE_CHECKSUM_E else FW_UPGRADE_OK_E, s)"
    using cxt format by (simp add: fw_upgrade_verify_image_hash_def run_simps Let_def digest_finish_def run_cxt)
  have cxt': "sess_cxt (s\<lparr>partition_handles := hs, sess_cxt := Some c'\<rparr>) = Some c'" for c'
    by simp
  have fmt: "cxt_format (next_image (advance_trial_mem e c')) = cxt_format c'"
    "cxt_total_images (next_image (advance_trial_mem e c')) = cxt_total_images c'"
    "image_index (next_image (advance_trial_mem e c')) = image_index c' + 1" for c'
    by (simp_all add: next_image_def advance_trial_mem_def)
  show ?thesis
  proof (intro exI [of _ hs] conjI hs, cases "ih_hash e = sha256 P got")
    case True
    then show "run_state (rx_complete P e) s = (if ih_hash e = sha256 P got
     then (if image_index c + 1 \<ge> cxt_total_images c then Some FW_UPGRADE_OK_E else None,
           s\<lparr>partition_handles := hs, sess_cxt := Some (settled e c)\<rparr>)
     else (Some FW_UPGRADE_ERR_INCORRECT_IMAGE_CHECKSUM_E,
           s\<lparr>partition_handles := hs, sess_cxt := Some (c\<lparr>partition_hdl := None\<rparr>)\<rparr>))"
      using format by (simp add: rx_complete_def run_simps verify close run_upd_cxt run_cxt fmt settled_def
          fw_upgrade_set_state_def Let_def)
  next
    case False
    then show "run_state (rx_complete P e) s = (if ih_hash e = sha256 P got
     then (if image_index c + 1 \<ge> cxt_total_images c then Some FW_UPGRADE_OK_E else None,
           s\<lparr>partition_handles := hs, sess_cxt := Some (settled e c)\<rparr>)
     else (Some FW_UPGRADE_ERR_INCORRECT_IMAGE_CHECKSUM_E,
           s\<lparr>partition_handles := hs, sess_cxt := Some (c\<lparr>partition_hdl := None\<rparr>)\<rparr>))"
      using cxt by (simp add: rx_complete_def run_simps verify close run_cxt)
  qed
qed

section \<open>A round of the receive loop\<close>

text \<open>The part of the packet that belongs to the image.\<close>

definition next_chunk :: "upgrade_context \<Rightarrow> bytes \<Rightarrow> bytes \<Rightarrow> u32 \<Rightarrow> bytes" where
  "next_chunk c got buffer off = take (unat (image_wrt_length c) - length got)
     (take (unat (buf_len c) - unat off) (drop (unat off) buffer))"

definition counted_in :: "upgrade_context \<Rightarrow> bytes \<Rightarrow> bytes \<Rightarrow> upgrade_context" where
  "counted_in c got ch = c\<lparr>digest_ctx := Some (got @ ch),
     file_read_count := file_read_count c + of_nat (length ch),
     image_wrt_count := image_wrt_count c + of_nat (length ch)\<rparr>"

lemma counted_in_simps [simp]:
  "partition_hdl (counted_in c got ch) = partition_hdl c" "cxt_format (counted_in c got ch) = cxt_format c"
  "image_wrt_length (counted_in c got ch) = image_wrt_length c" "digest_ctx (counted_in c got ch) = Some (got @ ch)"
  "image_index (counted_in c got ch) = image_index c" "cxt_total_images (counted_in c got ch) = cxt_total_images c"
  "buf_len (counted_in c got ch) = buf_len c" "is_first (counted_in c got ch) = is_first c"
  "upgrade_state (counted_in c got ch) = upgrade_state c" "session_status (counted_in c got ch) = session_status c"
  by (simp_all add: counted_in_def)

text \<open>The packet and the position in it: an all-in-one upgrade with bytes left.\<close>

definition packet_left :: "upgrade_context \<Rightarrow> bytes \<Rightarrow> u32 \<Rightarrow> bool" where
  "packet_left c buffer off \<longleftrightarrow> cxt_format c \<noteq> FW_UPGRADE_FORAMT_PARTIAL_UPGRADE
     \<and> off < buf_len c \<and> unat (buf_len c) \<le> length buffer"

lemma chunk_length:
  assumes "packet_left c buffer off" "unat (image_wrt_count c) = length got" "length got < unat (image_wrt_length c)"
  defines "n \<equiv> min (buf_len c - off) (image_wrt_length c - image_wrt_count c)"
  shows "unat n = length (next_chunk c got buffer off)" "0 < unat n"
    "take (unat n) (drop (unat off) buffer) = next_chunk c got buffer off"
    "unat off + unat n \<le> unat (buf_len c)" "length got + unat n \<le> unat (image_wrt_length c)"
    "unat (off + n) = unat off + unat n" "n = of_nat (length (next_chunk c got buffer off))"
proof -
  have b: "unat off < unat (buf_len c)" "unat (buf_len c) \<le> length buffer"
    using assms(1) by (simp_all add: packet_left_def word_less_nat_alt)
  have l: "image_wrt_count c \<le> image_wrt_length c"
    using assms(2,3) by (simp add: word_le_nat_alt)
  have u: "unat (buf_len c - off) = unat (buf_len c) - unat off"
    "unat (image_wrt_length c - image_wrt_count c) = unat (image_wrt_length c) - length got"
    using b l assms(2) by (simp_all add: unat_sub_nowrap word_le_nat_alt)
  have n: "unat n = min (unat (buf_len c) - unat off) (unat (image_wrt_length c) - length got)"
    unfolding n_def min_def using u by (auto simp: word_le_nat_alt)
  show len: "unat n = length (next_chunk c got buffer off)"
    using n b by (simp add: next_chunk_def min.commute)
  show "0 < unat n"
    using n b assms(3) by simp
  show "take (unat n) (drop (unat off) buffer) = next_chunk c got buffer off"
    by (simp add: n next_chunk_def min.commute)
  show le: "unat off + unat n \<le> unat (buf_len c)" "length got + unat n \<le> unat (image_wrt_length c)"
    using n b assms(3) by linarith+
  then show "unat (off + n) = unat off + unat n"
    using unat_lt_u32 [of "buf_len c"] by (intro unat_plus) linarith
  show "n = of_nat (length (next_chunk c got buffer off))"
    unfolding len [symmetric] by simp
qed

text \<open>The image goes on behind the packet, or the packet holds its last byte.\<close>

lemma run_rx_chunk:
  assumes rec: "receiving P cells M k p c got s" and left: "packet_left c buffer off"
  defines "ch \<equiv> next_chunk c got buffer off"
  obtains t where "mem_ready P cells M t" "confined cells p s t" "flash_only P s t"
    "slice (cells (world t)) (unat (img_start p)) (length (got @ ch)) = got @ ch"
    "if length (got @ ch) < unat (image_wrt_length c)
     then run_state (rx_chunk P al 4096 buffer e off) s = ((Continue, off + of_nat (length ch)), t)
       \<and> receiving P cells M k p (counted_in c got ch) (got @ ch) t
     else length (got @ ch) = unat (image_wrt_length c) \<and>
       run_state (rx_chunk P al 4096 buffer e off) s =
         ((if ih_hash e \<noteq> sha256 P (got @ ch) then Break FW_UPGRADE_ERR_INCORRECT_IMAGE_CHECKSUM_E
           else if image_index c + 1 \<ge> cxt_total_images c then Break FW_UPGRADE_OK_E else Continue,
           off + of_nat (length ch)), t)
       \<and> sess_cxt t = Some (if ih_hash e = sha256 P (got @ ch) then settled e (counted_in c got ch)
           else (counted_in c got ch)\<lparr>partition_hdl := None\<rparr>)"
proof -
  note r = receivingD [OF rec]
  define n where "n = min (buf_len c - off) (image_wrt_length c - image_wrt_count c)"
  note l = chunk_length [OF left r(7,8), folded n_def, folded ch_def]
  have inside: "unat off + unat n \<le> length buffer"
    using l(4) left by (simp add: packet_left_def)
  obtain u where wrote: "run_state (rx_write P al 4096 buffer off n) s = ((FW_UPGRADE_OK_E, off + n), u)"
    and u: "mem_ready P cells M u" "flash_partition M u k p" "confined cells p s u" "flash_only P s u"
      "sess_cxt u = Some (counted_in c got ch)" "partition_handles u = partition_handles s"
      "holds_upto (cells (world u)) p (got @ ch) (block_end (length got + unat n))"
    using run_rx_write [OF rec l(2) l(5) inside] unfolding l(3) counted_in_def l(7) [symmetric] by blast
  have hold: "holds_upto (cells (world u)) p (got @ ch) (block_end (length (got @ ch)))"
    using u(7) l(1) by simp
  have "unat (image_wrt_count c + n) = unat (image_wrt_count c) + unat n"
    using r(7) l(5) unat_lt_u32 [of "image_wrt_length c"] by (intro unat_plus) linarith
  then have count: "unat (image_wrt_count (counted_in c got ch)) = length (got @ ch)"
    using r(7) l(1) by (simp add: counted_in_def l(7) [symmetric])
  have fmt: "cxt_format c \<noteq> FW_UPGRADE_FORAMT_PARTIAL_UPGRADE"
    using left by (simp add: packet_left_def)
  have chunk: "run_state (rx_chunk P al 4096 buffer e off) s =
      (case run_state (rx_after P 4096 e) u of (x, t) \<Rightarrow> ((x, off + of_nat (length ch)), t))"
    using fmt wrote by (simp add: rx_chunk_def run_simps run_cxt [OF r(4)] Let_def n_def [symmetric] l(7) [symmetric]
        split: prod.splits)
  show ?thesis
  proof (cases "length (got @ ch) < unat (image_wrt_length c)")
    case True
    have pos: "0 < length (got @ ch)"
      using l(1,2) by simp
    have more: "\<not> image_wrt_count (counted_in c got ch) \<ge> image_wrt_length (counted_in c got ch)"
      using True count by (simp add: word_le_nat_alt)
    have goes: "partition_hdl (counted_in c got ch) = Some k"
      "length (got @ ch) < unat (image_wrt_length (counted_in c got ch))"
      "unat (image_wrt_length (counted_in c got ch)) \<le> unat (img_size p)"
      using r(5,9) True by simp_all
    obtain t where next_t: "run_state (rx_erase_next P 4096) u = (FW_UPGRADE_OK_E, t)"
      and t: "mem_ready P cells M t" "flash_partition M t k p" "confined cells p u t" "flash_only P u t"
        "sess_cxt t = Some (counted_in c got ch)" "partition_handles t = partition_handles u"
        "holds_upto (cells (world t)) p (got @ ch) (block_end (length (got @ ch) + 1))"
      by (rule run_rx_erase_next [OF u(1,2) r(3) u(5) goes(1) count pos goes(2,3) hold])
    have "run_state (rx_after P 4096 e) u = (Continue, t)"
      using fmt more next_t by (simp add: rx_after_def run_simps run_cxt [OF u(5)] run_cxt [OF t(5)])
    moreover have "receiving P cells M k p (counted_in c got ch) (got @ ch) t"
      using t r count True by (simp add: receiving_def)
    moreover have "confined cells p s t"
      by (rule confined_trans [OF u(3) t(3)])
    moreover have "flash_only P s t"
      by (rule flash_only_trans [OF u(4) t(4)])
    ultimately show ?thesis
      using t chunk True by (intro that [of t]) (simp_all add: holds_upto_def)
  next
    case False
    then have full: "length (got @ ch) = unat (image_wrt_length c)"
      using l(1,5) by simp
    have reached: "image_wrt_count (counted_in c got ch) \<ge> image_wrt_length (counted_in c got ch)"
      using full count by (simp add: word_le_nat_alt)
    have hdl: "partition_hdl (counted_in c got ch) = Some k" "digest_ctx (counted_in c got ch) = Some (got @ ch)"
      "cxt_format (counted_in c got ch) \<noteq> FW_UPGRADE_FORAMT_PARTIAL_UPGRADE"
      using r(5) fmt by simp_all
    obtain hs where hs: "no_new_handle (partition_handles u) hs" and comp: "run_state (rx_complete P e) u =
      (if ih_hash e = sha256 P (got @ ch)
       then (if image_index c + 1 \<ge> cxt_total_images c then Some FW_UPGRADE_OK_E else None,
             u\<lparr>partition_handles := hs, sess_cxt := Some (settled e (counted_in c got ch))\<rparr>)
       else (Some FW_UPGRADE_ERR_INCORRECT_IMAGE_CHECKSUM_E,
             u\<lparr>partition_handles := hs, sess_cxt := Some ((counted_in c got ch)\<lparr>partition_hdl := None\<rparr>)\<rparr>))"
      using run_rx_complete [OF u(5) hdl, of P e] by auto
    let ?c' = "if ih_hash e = sha256 P (got @ ch) then settled e (counted_in c got ch)
      else (counted_in c got ch)\<lparr>partition_hdl := None\<rparr>"
    let ?t = "u\<lparr>partition_handles := hs, sess_cxt := Some ?c'\<rparr>"
    have zero: "image_wrt_length (settled e (counted_in c got ch)) = 0"
      "cxt_format (settled e (counted_in c got ch)) = cxt_format c"
      by (simp_all add: settled_def next_image_def advance_trial_mem_def Let_def)
    have "run_state (rx_after P 4096 e) u =
        (if ih_hash e \<noteq> sha256 P (got @ ch) then Break FW_UPGRADE_ERR_INCORRECT_IMAGE_CHECKSUM_E
         else if image_index c + 1 \<ge> cxt_total_images c then Break FW_UPGRADE_OK_E else Continue, ?t)"
      using fmt reached zero
      by (simp add: rx_after_def rx_erase_next_def run_simps run_cxt [OF u(5)] comp run_cxt)
    then have "run_state (rx_chunk P al 4096 buffer e off) s =
        ((if ih_hash e \<noteq> sha256 P (got @ ch) then Break FW_UPGRADE_ERR_INCORRECT_IMAGE_CHECKSUM_E
          else if image_index c + 1 \<ge> cxt_total_images c then Break FW_UPGRADE_OK_E else Continue,
          off + of_nat (length ch)), ?t)"
      by (simp add: chunk)
    moreover have "confined cells p s ?t"
      using u(3) by (simp add: confined_def)
    moreover have "flash_only P s ?t"
      using u(4) hs by (simp add: flash_only_def no_new_handle_def)
    moreover have "mem_ready P cells M ?t"
      using u(1) hs by (simp add: mem_ready_def adapter_ready_def no_new_handle_def)
    ultimately show ?thesis
      using False full hold by (intro that [of ?t]) (simp_all add: holds_upto_def)
  qed
qed

section \<open>A packet\<close>

lemma run_image_hdr_at:
  "image_hdrs s = Some hs \<Longrightarrow> i < length hs \<Longrightarrow> run_state (image_hdr_at i) s = (hs ! i, s)"
  by (simp add: image_hdr_at_def run_simps)

lemma run_rx_round:
  assumes "sess_cxt s = Some c" "image_hdrs s = Some hs" "unat (image_index c) < length hs"
    and "packet_left c buffer off" "image_wrt_length c \<noteq> 0"
  shows "run_state (rx_round P al bs buffer off) s =
    run_state (rx_chunk P al bs buffer (hs ! unat (image_index c)) off) s"
proof -
  have "\<not> buf_len c \<le> off"
    using assms(4) by (auto simp: packet_left_def)
  then show ?thesis
    using assms(5) run_image_hdr_at [OF assms(2,3)]
    by (simp add: rx_round_def run_simps run_cxt [OF assms(1)])
qed

text \<open>What one call of the receiver does with a packet that ends before or with the image.\<close>

lemma run_receive_packet:
  assumes rec: "receiving P cells M k p c got s"
    and hdrs: "image_hdrs s = Some hs" "unat (image_index c) < length hs"
    and format: "cxt_format c \<noteq> FW_UPGRADE_FORAMT_PARTIAL_UPGRADE"
    and packet: "buf_offset c = 0" "unat (buf_len c) = length data" "data \<noteq> []"
    and fits: "length got + length data \<le> unat (image_wrt_length c)"
  defines "e \<equiv> hs ! unat (image_index c)" and "got' \<equiv> got @ data"
  obtains t where "mem_ready P cells M t" "confined cells p s t" "flash_only P s t"
    "slice (cells (world t)) (unat (img_start p)) (length got') = got'"
    "if length got' < unat (image_wrt_length c)
     then run_state (fw_upgrade_process_receive_image P al data) s = (FW_UPGRADE_OK_E, t)
       \<and> receiving P cells M k p ((counted_in c got data)\<lparr>buf_offset := buf_len c\<rparr>) got' t
     else cxt_total_images c \<le> image_index c + 1 \<longrightarrow>
       run_state (fw_upgrade_process_receive_image P al data) s =
         (if ih_hash e \<noteq> sha256 P got' then FW_UPGRADE_ERR_INCORRECT_IMAGE_CHECKSUM_E else FW_UPGRADE_OK_E, t)
       \<and> sess_cxt t = Some ((if ih_hash e = sha256 P got' then settled e (counted_in c got data)
           else (counted_in c got data)\<lparr>partition_hdl := None\<rparr>)\<lparr>buf_offset := buf_len c\<rparr>)"
proof -
  note r = receivingD [OF rec]
  have left: "packet_left c data 0"
    using format packet by (auto simp: packet_left_def word_less_nat_alt)
  have ch: "next_chunk c got data 0 = data"
    using packet fits by (simp add: next_chunk_def)
  have nz: "image_wrt_length c \<noteq> 0"
    using r(8) by auto
  have len: "(of_nat (length data) :: u32) = buf_len c"
    unfolding packet(2) [symmetric] by simp
  have bs: "run_state get_block_size s = (4096, s)"
    using run_get_block_size [OF mem_readyD(4,5) [OF r(1)]] by simp
  obtain n where fuel: "rx_fuel data = Suc (Suc n)"
    by (simp add: rx_fuel_def numeral_eq_Suc)
  let ?f = "\<lambda>c. c\<lparr>buf_offset := buf_len c\<rparr>"
  obtain u where u: "mem_ready P cells M u" "confined cells p s u" "flash_only P s u"
      "slice (cells (world u)) (unat (img_start p)) (length got') = got'"
    and step: "if length got' < unat (image_wrt_length c)
     then run_state (rx_chunk P al 4096 data e 0) s = ((Continue, buf_len c), u)
       \<and> receiving P cells M k p (counted_in c got data) got' u
     else length got' = unat (image_wrt_length c) \<and>
       run_state (rx_chunk P al 4096 data e 0) s =
         ((if ih_hash e \<noteq> sha256 P got' then Break FW_UPGRADE_ERR_INCORRECT_IMAGE_CHECKSUM_E
           else if image_index c + 1 \<ge> cxt_total_images c then Break FW_UPGRADE_OK_E else Continue, buf_len c), u)
       \<and> sess_cxt u = Some (if ih_hash e = sha256 P got' then settled e (counted_in c got data)
           else (counted_in c got data)\<lparr>partition_hdl := None\<rparr>)"
    using run_rx_chunk [OF rec left, of al e] unfolding ch len add_0_left got'_def by blast
  note round = run_rx_round [OF r(4) hdrs left nz, of P al 4096, folded e_def]
  show ?thesis
  proof (cases "length got' < unat (image_wrt_length c)")
    case True
    then have cont: "run_state (rx_chunk P al 4096 data e 0) s = ((Continue, buf_len c), u)"
      and rec': "receiving P cells M k p (counted_in c got data) got' u"
      using step by simp_all
    note c' = receivingD(4) [OF rec']
    have "run_state (rx_round P al 4096 data (buf_len c)) u = ((Break FW_UPGRADE_OK_E, buf_len c), u)"
      using format by (simp add: rx_round_def run_simps run_cxt [OF c'])
    then have loop: "run_state (rx_loop P al (rx_fuel data) 4096 data 0) s = ((FW_UPGRADE_OK_E, buf_len c), u)"
      by (simp add: fuel run_simps round cont)
    let ?t = "u\<lparr>sess_cxt := Some ((counted_in c got data)\<lparr>buf_offset := buf_len c\<rparr>)\<rparr>"
    have "run_state (fw_upgrade_process_receive_image P al data) s = (FW_UPGRADE_OK_E, ?t)"
      by (simp add: fw_upgrade_process_receive_image_def run_simps r(4) bs packet(1) loop run_upd_cxt [OF c'])
    moreover have "receiving P cells M k p ((counted_in c got data)\<lparr>buf_offset := buf_len c\<rparr>) got' ?t"
      using rec' by (simp add: receiving_def)
    ultimately show ?thesis
      using True u by (intro that [of ?t]) (simp_all add: confined_def)
  next
    case False
    let ?c' = "if ih_hash e = sha256 P got' then settled e (counted_in c got data)
      else (counted_in c got data)\<lparr>partition_hdl := None\<rparr>"
    have cxt: "sess_cxt u = Some ?c'"
      using False step by simp
    let ?t = "u\<lparr>sess_cxt := Some (?c'\<lparr>buf_offset := buf_len c\<rparr>)\<rparr>"
    have "run_state (fw_upgrade_process_receive_image P al data) s =
        (if ih_hash e \<noteq> sha256 P got' then FW_UPGRADE_ERR_INCORRECT_IMAGE_CHECKSUM_E else FW_UPGRADE_OK_E, ?t)"
      if last: "cxt_total_images c \<le> image_index c + 1"
    proof -
      have "run_state (rx_chunk P al 4096 data e 0) s =
          ((Break (if ih_hash e \<noteq> sha256 P got' then FW_UPGRADE_ERR_INCORRECT_IMAGE_CHECKSUM_E
            else FW_UPGRADE_OK_E), buf_len c), u)"
        using False step last by simp
      then have "run_state (rx_loop P al (rx_fuel data) 4096 data 0) s =
          ((if ih_hash e \<noteq> sha256 P got' then FW_UPGRADE_ERR_INCORRECT_IMAGE_CHECKSUM_E
            else FW_UPGRADE_OK_E, buf_len c), u)"
        by (simp add: fuel run_simps round)
      then show ?thesis
        by (simp add: fw_upgrade_process_receive_image_def run_simps r(4) bs packet(1) run_upd_cxt [OF cxt])
    qed
    then show ?thesis
      using False u by (intro that [of ?t]) (simp_all add: confined_def)
  qed
qed

end
