(* ===== verification/Fw_Packet_Proofs.thy ===== *)
theory Fw_Packet_Proofs
  imports Fw_Image_Proofs Fw_Select_Proofs
begin

text \<open>
  The packets of an image at the level of a session: each call of \<open>fw_upgrade_session_process\<close> stores its
  packet behind the previous ones, and the last one decides by the digest of what the partition holds.
\<close>

section \<open>A session in the middle of an image\<close>

definition mid_image :: "'d platform \<Rightarrow> ('d \<Rightarrow> nat \<Rightarrow> u8) \<Rightarrow> u32 \<Rightarrow> nat \<Rightarrow> partition_client \<Rightarrow>
    image_hdr list \<Rightarrow> upgrade_context \<Rightarrow> bytes \<Rightarrow> ('d, 'z) session_st_scheme \<Rightarrow> bool" where
  "mid_image P cells M k p hs c got s \<longleftrightarrow> receiving P cells M k p c got s
     \<and> mutex_init s \<and> image_hdrs s = Some hs \<and> unat (image_index c) < length hs
     \<and> cxt_format c \<noteq> FW_UPGRADE_FORAMT_PARTIAL_UPGRADE \<and> is_first c \<noteq> 1
     \<and> upgrade_state c = FW_UPGRADE_STATE_RECEIVE_DATA_E \<and> session_status c = FW_UPGRADE_SESSION_RUNNING_E"

lemma mid_imageD:
  assumes "mid_image P cells M k p hs c got s"
  shows "receiving P cells M k p c got s" "sess_cxt s = Some c" "mutex_init s" "image_hdrs s = Some hs"
    "unat (image_index c) < length hs" "cxt_format c \<noteq> FW_UPGRADE_FORAMT_PARTIAL_UPGRADE" "is_first c \<noteq> 1"
    "upgrade_state c = FW_UPGRADE_STATE_RECEIVE_DATA_E" "session_status c = FW_UPGRADE_SESSION_RUNNING_E"
  using assms by (simp_all add: mid_image_def receiving_def)

text \<open>The context fields a reception depends on.\<close>

lemma receiving_fields:
  assumes "receiving P cells M k p c got s" "partition_hdl c' = partition_hdl c" "digest_ctx c' = digest_ctx c"
    "image_wrt_count c' = image_wrt_count c" "image_wrt_length c' = image_wrt_length c"
  shows "receiving P cells M k p c' got (s\<lparr>sess_cxt := Some c'\<rparr>)"
  using assms by (simp add: receiving_def)

lemma run_getters:
  assumes "sess_cxt s = Some c" "mutex_init s"
  shows "run_state fw_upgrade_get_state s = (upgrade_state c, s)"
    "run_state fw_upgrade_get_session_status s = (session_status c, s)"
  using assms by (simp_all add: fw_upgrade_get_state_def fw_upgrade_get_session_status_def run_simps)

lemma run_set_state:
  "sess_cxt s = Some c \<Longrightarrow>
   run_state (fw_upgrade_set_state st) s = ((), s\<lparr>sess_cxt := Some (c\<lparr>upgrade_state := st\<rparr>)\<rparr>)"
  by (simp add: fw_upgrade_set_state_def run_simps)

lemma run_continues:
  assumes "sess_cxt s = Some c" "mutex_init s"
  shows "run_state (session_continues n l) s = (l_run l \<and> (session_status c = FW_UPGRADE_SESSION_RUNNING_E
      \<and> buf_offset c \<le> n \<or> upgrade_state c = FW_UPGRADE_STATE_DUPLICATE_IMAGES_E
      \<or> upgrade_state c = FW_UPGRADE_STATE_DUPLICATE_FS_E \<or> upgrade_state c = FW_UPGRADE_STATE_FINISH_E), s)"
  using assms by (simp add: session_continues_def run_simps run_getters run_cxt)

text \<open>One turn of the loop, in a state in which it goes on.\<close>

lemma run_session_turn:
  assumes "sess_cxt s = Some c" "mutex_init s" "l_run l" "session_status c = FW_UPGRADE_SESSION_RUNNING_E"
    "buf_offset c \<le> of_nat (length data)"
    and "run_state (session_step P no_fs al data (upgrade_state c) l) s = (l', t)"
  shows "run_state (session_loop P no_fs al data (Suc fuel) l) s =
    run_state (session_loop P no_fs al data fuel l') t"
  using assms by (simp add: run_simps run_getters run_continues)

lemma run_session_stop:
  assumes "\<not> l_run l"
  shows "run_state (session_loop P no_fs al data (Suc fuel) l) s = (l, s)"
  using assms by (simp add: run_simps session_continues_def)

text \<open>A packet arrives: its length goes into the context and the session turns to the image.\<close>

lemma run_receive_data:
  assumes "sess_cxt s = Some c" "buf_offset c = 0" "n \<noteq> 0" "is_first c \<noteq> 1"
  shows "run_state (step_receive_data n l) s =
    (l\<lparr>l_buffer := Some 0, l_ret := FW_UPGRADE_OK_E\<rparr>,
     s\<lparr>sess_cxt := Some (c\<lparr>buf_len := n, buf_offset := 0, upgrade_state := FW_UPGRADE_STATE_PROCESS_IMAGE_E\<rparr>)\<rparr>)"
  using assms by (simp add: step_receive_data_def run_simps run_cxt Let_def run_upd_cxt run_set_state word_gt_0)

lemma run_receive_nothing:
  assumes "sess_cxt s = Some c" "buf_offset c = n"
  shows "run_state (step_receive_data n l) s =
    (l\<lparr>l_buffer := Some (unat n), l_ret := FW_UPGRADE_OK_E, l_run := False\<rparr>, s)"
  using assms by (simp add: step_receive_data_def run_simps run_cxt Let_def)

text \<open>A packet in reception: what the session has made of the context when it turns to the image.\<close>

definition packet_in :: "bytes \<Rightarrow> upgrade_context \<Rightarrow> upgrade_context" where
  "packet_in data c = c\<lparr>buf_len := of_nat (length data), buf_offset := 0,
     upgrade_state := FW_UPGRADE_STATE_PROCESS_IMAGE_E\<rparr>"

definition packet_locals :: session_locals where
  "packet_locals = \<lparr>l_ret = FW_UPGRADE_OK_E, l_run = True, l_buffer = Some 0\<rparr>"

lemma packet_locals_simps [simp]: "l_run packet_locals" "l_ret packet_locals = FW_UPGRADE_OK_E"
  by (simp_all add: packet_locals_def)

lemma packet_in_simps [simp]:
  "buf_len (packet_in data c) = of_nat (length data)" "buf_offset (packet_in data c) = 0"
  "upgrade_state (packet_in data c) = FW_UPGRADE_STATE_PROCESS_IMAGE_E"
  "session_status (packet_in data c) = session_status c" "is_first (packet_in data c) = is_first c"
  "cxt_format (packet_in data c) = cxt_format c" "image_index (packet_in data c) = image_index c"
  "image_wrt_length (packet_in data c) = image_wrt_length c" "image_wrt_count (packet_in data c) = image_wrt_count c"
  "cxt_total_images (packet_in data c) = cxt_total_images c" "digest_ctx (packet_in data c) = digest_ctx c"
  "partition_hdl (packet_in data c) = partition_hdl c" "cxt_flags (packet_in data c) = cxt_flags c"
  "trial_fwd_idx (packet_in data c) = trial_fwd_idx c"
  by (simp_all add: packet_in_def)

lemma packet_size:
  assumes "length data < 4294967296" "data \<noteq> []"
  shows "unat (of_nat (length data) :: u32) = length data" "(of_nat (length data) :: u32) \<noteq> 0"
  using assms by (auto simp: unat_of_nat word_unat_eq_iff)

lemma session_to_image:
  assumes mid: "mid_image P cells M k p hs c got s"
    and packet: "offset \<noteq> 0" "data \<noteq> []" "length data < 4294967296"
  shows "run_state (fw_upgrade_session_process P no_fs al offset data) s =
    (case run_state (step_process_image P al data packet_locals) (s\<lparr>sess_cxt := Some (packet_in data c)\<rparr>) of
       (l, t) \<Rightarrow> case run_state (session_loop P no_fs al data (62 + 4 * length data) l) t of (l', u) \<Rightarrow> (l_ret l', u))"
proof -
  note m = mid_imageD [OF mid]
  define c1 where "c1 = c\<lparr>buf_offset := 0\<rparr>"
  define s1 where "s1 = s\<lparr>sess_cxt := Some c1\<rparr>"
  define s2 where "s2 = s\<lparr>sess_cxt := Some (packet_in data c)\<rparr>"
  have s1: "sess_cxt s1 = Some c1" "mutex_init s1" "session_status c1 = FW_UPGRADE_SESSION_RUNNING_E"
    "upgrade_state c1 = FW_UPGRADE_STATE_RECEIVE_DATA_E" "is_first c1 \<noteq> 1" "buf_offset c1 = 0"
    using m by (simp_all add: s1_def c1_def)
  have s2: "sess_cxt s2 = Some (packet_in data c)" "mutex_init s2"
    using m by (simp_all add: s2_def)
  let ?l = "\<lparr>l_ret = FW_UPGRADE_OK_E, l_run = True, l_buffer = None\<rparr>"
  have step1: "run_state (session_step P no_fs al data (upgrade_state c1) ?l) s1 = (packet_locals, s2)"
    unfolding s1(4) session_step.simps
    using run_receive_data [OF s1(1,6) packet_size(2) [OF packet(3,2)] s1(5), of ?l]
    by (simp add: packet_locals_def s2_def s1_def c1_def packet_in_def)
  have le: "buf_offset c1 \<le> of_nat (length data)" "buf_offset (packet_in data c) \<le> of_nat (length data)"
    by (simp_all add: s1(6))
  have fuel: "session_fuel data = Suc (Suc (62 + 4 * length data))"
    by (simp add: session_fuel_def)
  obtain l t where image: "run_state (step_process_image P al data packet_locals) s2 = (l, t)"
    by (rule prod.exhaust)
  then have step2: "run_state (session_step P no_fs al data (upgrade_state (packet_in data c)) packet_locals) s2 = (l, t)"
    by simp
  have "run_state (session_loop P no_fs al data (session_fuel data) ?l) s1 =
      run_state (session_loop P no_fs al data (62 + 4 * length data) l) t"
    unfolding fuel using m s1 s2 le
    by (subst run_session_turn [OF _ _ _ _ _ step1], simp_all only: session_locals.simps)
       (subst run_session_turn [OF _ _ _ _ _ step2], simp_all)
  then show ?thesis
    using packet(1) m(2) image [unfolded s2_def]
    by (simp add: fw_upgrade_session_process_def run_simps run_upd_cxt s1_def c1_def split: prod.split
        del: session_loop.simps)
qed

lemma receiving_packet:
  assumes "mid_image P cells M k p hs c got s"
  shows "receiving P cells M k p (packet_in data c) got (s\<lparr>sess_cxt := Some (packet_in data c)\<rparr>)"
  using mid_imageD(1) [OF assms] by (rule receiving_fields) simp_all

section \<open>The packets inside an image\<close>

lemma session_packet:
  assumes mid: "mid_image P cells M k p hs c got s"
    and packet: "offset \<noteq> 0" "data \<noteq> []"
    and inside: "length got + length data < unat (image_wrt_length c)"
  obtains c' t where "run_state (fw_upgrade_session_process P no_fs al offset data) s = (FW_UPGRADE_OK_E, t)"
    "mid_image P cells M k p hs c' (got @ data) t" "confined cells p s t"
    "image_wrt_length c' = image_wrt_length c" "image_index c' = image_index c"
    "cxt_total_images c' = cxt_total_images c" "cxt_flags c' = cxt_flags c" "trial_fwd_idx c' = trial_fwd_idx c"
proof -
  note m = mid_imageD [OF mid]
  have small: "length data < 4294967296"
    using inside unat_lt_u32 [of "image_wrt_length c"] by linarith
  note size = packet_size [OF small packet(2)]
  let ?n = "of_nat (length data) :: u32"
  let ?s2 = "s\<lparr>sess_cxt := Some (packet_in data c)\<rparr>"
  define c3 where "c3 = (counted_in (packet_in data c) got data)\<lparr>buf_offset := ?n\<rparr>"
  obtain t where conf: "confined cells p ?s2 t"
    and recv: "run_state (fw_upgrade_process_receive_image P al data) ?s2 = (FW_UPGRADE_OK_E, t)"
    and rec3: "receiving P cells M k p c3 (got @ data) t"
    using run_receive_packet [OF receiving_packet [OF mid, of data], of hs data al] m inside size packet(2)
    unfolding c3_def by (auto simp: less_imp_le)
  define c4 where "c4 = c3\<lparr>upgrade_state := FW_UPGRADE_STATE_RECEIVE_DATA_E\<rparr>"
  define u where "u = t\<lparr>sess_cxt := Some c4\<rparr>"
  note t = receivingD(4) [OF rec3]
  have t_init: "mutex_init t" "image_hdrs t = Some hs"
    using conf m by (simp_all add: confined_def)
  have u: "sess_cxt u = Some c4" "mutex_init u" "session_status c4 = FW_UPGRADE_SESSION_RUNNING_E"
    "upgrade_state c4 = FW_UPGRADE_STATE_RECEIVE_DATA_E" "buf_offset c4 = ?n"
    using m t_init by (simp_all add: u_def c4_def c3_def)
  have image: "run_state (step_process_image P al data packet_locals) ?s2 = (packet_locals, u)"
    by (simp add: step_process_image_def run_simps recv run_getters [OF t t_init(1)] run_set_state [OF t]
        u_def c4_def, simp add: c3_def packet_locals_def)
  define l' where "l' = packet_locals\<lparr>l_buffer := Some (unat ?n), l_ret := FW_UPGRADE_OK_E, l_run := False\<rparr>"
  have l': "\<not> l_run l'" "l_ret l' = FW_UPGRADE_OK_E"
    and last: "run_state (session_step P no_fs al data (upgrade_state c4) packet_locals) u = (l', u)"
    unfolding u(4) session_step.simps run_receive_nothing [OF u(1,5)] by (simp_all add: l'_def)
  have fuel: "62 + 4 * length data = Suc (Suc (60 + 4 * length data))"
    by simp
  have "run_state (session_loop P no_fs al data (62 + 4 * length data) packet_locals) u = (l', u)"
    unfolding fuel using run_session_stop [OF l'(1), of P no_fs al data "60 + 4 * length data" u] u
    by (subst run_session_turn [OF _ _ _ _ _ last]) (simp_all del: session_loop.simps)
  then have "run_state (fw_upgrade_session_process P no_fs al offset data) s = (FW_UPGRADE_OK_E, u)"
    using session_to_image [OF mid packet small, of no_fs al] image l'(2) by (simp del: session_loop.simps)
  moreover have "mid_image P cells M k p hs c4 (got @ data) u"
    using receiving_fields [OF rec3, of c4] u t_init m
    by (simp add: mid_image_def u_def) (simp add: c4_def c3_def)
  moreover have "confined cells p s u"
    using conf by (simp add: confined_def u_def)
  ultimately show ?thesis
    by (rule that) (simp_all add: c4_def c3_def counted_in_def)
qed

text \<open>The packets of an image, each with its offset in the upload and the alignment of its buffer.\<close>

type_synonym packet = "u32 \<times> (u32 \<Rightarrow> bool) \<times> bytes"

primrec feed :: "'d platform \<Rightarrow> bool \<Rightarrow> packet list \<Rightarrow> (('d, 'z) session_st_scheme, fw_status list) state" where
  "feed P no_fs [] = State_Monad.return []"
| "feed P no_fs (x # xs) = do {
     r \<leftarrow> fw_upgrade_session_process P no_fs (fst (snd x)) (fst x) (snd (snd x));
     rs \<leftarrow> feed P no_fs xs;
     State_Monad.return (r # rs)
   }"

definition payload :: "packet list \<Rightarrow> bytes" where
  "payload xs = concat (map (\<lambda>x. snd (snd x)) xs)"

lemma payload_simps [simp]: "payload [] = []" "payload (x # xs) = snd (snd x) @ payload xs"
  by (simp_all add: payload_def)

text \<open>
  C4: While the image lasts, every packet is accepted, the partition holds exactly the bytes received, in
  order and from its start, whatever the sizes of the packets, and no byte outside it changes.
\<close>

theorem image_packets_stored:
  assumes "mid_image P cells M k p hs c got s"
    and "\<forall>x \<in> set xs. fst x \<noteq> 0 \<and> snd (snd x) \<noteq> []"
    and "length got + length (payload xs) < unat (image_wrt_length c)"
  shows "\<exists>c' t. run_state (feed P no_fs xs) s = (replicate (length xs) FW_UPGRADE_OK_E, t)
    \<and> mid_image P cells M k p hs c' (got @ payload xs) t \<and> confined cells p s t
    \<and> slice (cells (world t)) (unat (img_start p)) (length got + length (payload xs)) = got @ payload xs"
  using assms
proof (induction xs arbitrary: s c got)
  case Nil
  then have "slice (cells (world s)) (unat (img_start p)) (length got) = got"
    by (simp add: mid_image_def receiving_def holds_upto_def)
  with Nil show ?case
    by (auto simp: run_simps)
next
  case (Cons x xs)
  obtain off al data where x: "x = (off, al, data)"
    by (cases x)
  have inside: "length got + length data < unat (image_wrt_length c)"
    using Cons.prems(3) by (simp add: x)
  have "off \<noteq> 0" "data \<noteq> []"
    using Cons.prems(2) by (simp_all add: x)
  from session_packet [OF Cons.prems(1) this inside, of no_fs al]
  obtain c1 s1 where head: "run_state (fw_upgrade_session_process P no_fs al off data) s = (FW_UPGRADE_OK_E, s1)"
      "mid_image P cells M k p hs c1 (got @ data) s1" "confined cells p s s1"
      "image_wrt_length c1 = image_wrt_length c"
    by metis
  have left: "\<forall>x \<in> set xs. fst x \<noteq> 0 \<and> snd (snd x) \<noteq> []"
    "length (got @ data) + length (payload xs) < unat (image_wrt_length c1)"
    using Cons.prems(2,3) head(4) by (simp_all add: x)
  obtain c2 t where rest: "run_state (feed P no_fs xs) s1 = (replicate (length xs) FW_UPGRADE_OK_E, t)"
      "mid_image P cells M k p hs c2 ((got @ data) @ payload xs) t" "confined cells p s1 t"
      "slice (cells (world t)) (unat (img_start p)) (length (got @ data) + length (payload xs)) = (got @ data) @ payload xs"
    using Cons.IH [OF head(2) left] by blast
  have "run_state (feed P no_fs (x # xs)) s = (replicate (length (x # xs)) FW_UPGRADE_OK_E, t)"
    using head(1) rest(1) by (simp add: run_simps x)
  moreover have "confined cells p s t"
    by (rule confined_trans [OF head(3) rest(3)])
  ultimately show ?case
    using rest(2,4) by (auto simp: x add.assoc)
qed

text \<open>An image of \<open>n\<close> bytes about to be received into the sample partition.\<close>

definition packet_cxt :: "u32 \<Rightarrow> upgrade_context" where
  "packet_cxt n = zero_context\<lparr>upgrade_state := FW_UPGRADE_STATE_RECEIVE_DATA_E,
     session_status := FW_UPGRADE_SESSION_RUNNING_E, image_wrt_length := n, cxt_total_images := 1,
     partition_hdl := Some 0, digest_ctx := Some [], trial_fwd_idx := 1\<rparr>"

definition packet_state :: "u32 \<Rightarrow> sim_world session_st" where
  "packet_state n = session_of io_state (packet_cxt n) [app_hdr\<lparr>ih_hash := replicate 32 6\<rparr>]"

lemma packet_state_mid:
  assumes "0 < n" "n \<le> 0x2000"
  shows "mid_image sim sim_flash 0x400000 0 sample_client [app_hdr\<lparr>ih_hash := replicate 32 6\<rparr>]
    (packet_cxt n) [] (packet_state n)"
proof -
  have "flash_partition 0x400000 (packet_state n) 0 sample_client"
    using io_state_partition by (simp add: flash_partition_def packet_state_def)
  moreover have "mem_ready sim sim_flash 0x400000 (packet_state n)"
    unfolding packet_state_def by (rule session_of_ready [OF io_state_ready])
  moreover have "holds_upto (sim_flash (world (packet_state n))) sample_client [] (block_end 1)"
    by (simp add: holds_upto_def slice_def packet_state_def io_state_def sim_state_def flash_image_def)
  moreover have "0 < unat n" "unat n \<le> 8192"
    using assms by (simp_all add: word_less_nat_alt word_le_nat_alt)
  ultimately show ?thesis
    by (simp add: mid_image_def receiving_def packet_cxt_def zero_context_def packet_state_def sample_client_def
        FW_UPGRADE_FORAMT_PARTIAL_UPGRADE_def)
qed

theorem image_packets_stored_witness:
  "slice (sim_flash (world (snd (run_state (feed sim False
       [(1, \<lambda>_. True, replicate 3000 7), (3001, \<lambda>_. True, replicate 1400 9)]) (packet_state 5000))))) 0x10000 4400 =
     replicate 3000 7 @ replicate 1400 9"
proof -
  let ?xs = "[(1, \<lambda>_. True, replicate 3000 7), (3001, \<lambda>_. True, replicate 1400 9)] :: packet list"
  have mid: "mid_image sim sim_flash 0x400000 0 sample_client [app_hdr\<lparr>ih_hash := replicate 32 6\<rparr>]
      (packet_cxt 5000) [] (packet_state 5000)"
    by (rule packet_state_mid) simp_all
  have ok: "\<forall>x \<in> set ?xs. fst x \<noteq> 0 \<and> snd (snd x) \<noteq> []"
    by simp
  have fits: "length ([] :: bytes) + length (payload ?xs) < unat (image_wrt_length (packet_cxt 5000))"
    by (simp add: packet_cxt_def)
  show ?thesis
    using image_packets_stored [OF mid ok fits, of False] by (auto simp: sample_client_def)
qed

section \<open>The end of a session\<close>

text \<open>Writing the boot table leaves the flash alone: another memory.\<close>

definition rram_apart :: "'d platform \<Rightarrow> ('d \<Rightarrow> nat \<Rightarrow> u8) \<Rightarrow> bool" where
  "rram_apart P cells \<longleftrightarrow> (\<forall>w a bs. cells (snd (nt_rram_write P w a bs)) = cells w)"

lemma keeps_cells_find:
  "keeps (\<lambda>s :: ('a, 'b) mem_st_scheme. cells (world s) = C) (fw_upgrade_find_partition P i iid)"
proof -
  have upd: "keeps (\<lambda>s. cells (world s) = C) (modify f)" if "\<And>s. world (f s) = world s"
    for f :: "('a, 'b) mem_st_scheme \<Rightarrow> ('a, 'b) mem_st_scheme"
    by (rule keeps_modify) (simp add: that)
  show ?thesis
    unfolding fw_upgrade_find_partition_def fw_upgrade_validation_def fw_upgrade_get_partition_client_entry_def
      get_mem_info_def read_fwd_def flash_adapter_read_def update_handle_def handle_entry_def fault_def Let_def
    by (intro keeps_intros upd) simp_all
qed

lemma keeps_cells_hdl_get: "keeps (\<lambda>s. cells (world s) = C) (hdl_get h)"
  unfolding hdl_get_def handle_entry_def fault_def by (intro keeps_intros keeps_modify) simp_all

lemma keeps_cells_set_sbl:
  assumes "rram_apart P cells"
  shows "keeps (\<lambda>s :: ('a, 'b) flash_st_scheme. cells (world s) = C) (fw_upgrade_set_sbl_trial_fde P n v)"
proof -
  have "keeps (\<lambda>s :: ('a, 'b) flash_st_scheme. cells (world s) = C) (write_fde P i e)" for i e
  proof (unfold keeps_wp, intro allI impI)
    fix s :: "('a, 'b) flash_st_scheme"
    assume "cells (world s) = C"
    moreover have "cells w = cells (world s)" if "nt_rram_write P (world s) (fde_address i) (enc_fde e) = (r, w)"
      for r w using assms that unfolding rram_apart_def by (metis snd_conv)
    ultimately show "wp (write_fde P i e) (\<lambda>_ s. cells (world s) = C) s"
      by (auto simp: write_fde_def wp_simps split: prod.split)
  qed
  then show ?thesis
    unfolding fw_upgrade_set_sbl_trial_fde_def Let_def by (intro keeps_intros)
qed

lemma keeps_conj: "keeps I m \<Longrightarrow> keeps J m \<Longrightarrow> keeps (\<lambda>s. I s \<and> J s) m"
  by (simp add: keeps_def)

lemma more_fields:
  assumes "mem_st.more t = mem_st.more s"
  shows "sess_cxt t = sess_cxt s" "mutex_init t = mutex_init s" "image_hdrs t = image_hdrs s"
    "reset_scheduled t = reset_scheduled s"
  using assms by (cases s; cases t; simp)+

text \<open>The descriptor becomes valid, whether or not it names a second bootloader.\<close>

lemma run_finalize_valid:
  assumes ready: "mem_ready P cells M s" and apart: "rram_apart P cells"
    and cxt: "sess_cxt s = Some c" and idx: "trial_fwd_idx c < 3"
  obtains t where "run_state (finalize_valid P) s = ((), t)" "mem_st.more t = mem_st.more s"
    "cells (world t) = prog_cells (cells (world s))
      (4096 * unat (trial_fwd_idx c) + unat (fst (fwd_field FW_UPGRADE_FWD_STATUS_E))) [FW_UPGRADE_FWD_STATUS_VALID]"
proof -
  let ?C = "prog_cells (cells (world s))
      (4096 * unat (trial_fwd_idx c) + unat (fst (fwd_field FW_UPGRADE_FWD_STATUS_E))) [FW_UPGRADE_FWD_STATUS_VALID]"
  let ?J = "\<lambda>t. cells (world t) = ?C \<and> mem_st.more t = mem_st.more s"
  have len: "length [FW_UPGRADE_FWD_STATUS_VALID] = unat (snd (fwd_field FW_UPGRADE_FWD_STATUS_E))"
    by simp
  note w = run_set_field [OF ready idx len]
  define s1 where "s1 = programmed P (fwd_field_addr (std_params M) (trial_fwd_idx c) FW_UPGRADE_FWD_STATUS_E)
    [FW_UPGRADE_FWD_STATUS_VALID] s"
  define rest where "rest = (do {
     (resp, h) \<leftarrow> fw_upgrade_find_partition P (trial_fwd_idx c) SBL_IMG_ID;
     if resp = FW_UPGRADE_OK_E then do {
       p \<leftarrow> hdl_get h;
       _ \<leftarrow> fw_upgrade_set_sbl_trial_fde P (trial_sbl_idx c) (client_version p);
       State_Monad.return ()
     } else State_Monad.return ()
   } :: (('a, 'b) session_st_scheme, unit) state)"
  have "keeps ?J rest"
    unfolding rest_def
    by (intro keeps_intros keeps_conj keeps_cells_find keeps_cells_hdl_get keeps_cells_set_sbl [OF apart]
        above.keeps_find above.keeps_hdl_get above.keeps_set_sbl)
  moreover have "?J s1"
    using w(2) by (simp add: s1_def programmed_def)
  ultimately have "?J (snd (run_state rest s1))"
    by (simp add: keeps_def)
  moreover have "run_state (finalize_valid P) s = run_state rest s1"
    by (simp add: finalize_valid_def run_simps run_cxt [OF cxt] w(1) [folded s1_def] rest_def)
  ultimately show ?thesis
    by (intro that [of "snd (run_state rest s1)"]) (simp_all add: prod_eq_iff)
qed

lemma run_finish:
  assumes ready: "mem_ready P cells M s" and apart: "rram_apart P cells"
    and cxt: "sess_cxt s = Some c" "mutex_init s" "upgrade_state c = FW_UPGRADE_STATE_FINISH_E"
      "session_status c = FW_UPGRADE_SESSION_RUNNING_E"
    and idx: "trial_fwd_idx c < 3"
  obtains t where "run_state (step_finish P l) s = (l\<lparr>l_run := False\<rparr>, t)" "sess_cxt t = None"
    "image_hdrs t = None"
    "reset_scheduled t \<longleftrightarrow> reset_scheduled s \<or> cxt_flags c AND FW_UPGRADE_FLAG_AUTO_REBOOT \<noteq> 0"
    "cells (world t) = prog_cells (cells (world s))
      (4096 * unat (trial_fwd_idx c) + unat (fst (fwd_field FW_UPGRADE_FWD_STATUS_E))) [FW_UPGRADE_FWD_STATUS_VALID]"
proof -
  define c1 where "c1 = c\<lparr>error_code := FW_UPGRADE_OK_E\<rparr>"
  define s1 where "s1 = s\<lparr>sess_cxt := Some c1\<rparr>"
  have s1: "mem_ready P cells M s1" "sess_cxt s1 = Some c1" "mutex_init s1"
    using ready cxt by (simp_all add: s1_def)
  have c1: "trial_fwd_idx c1 < 3" "session_status c1 = FW_UPGRADE_SESSION_RUNNING_E" "trial_fwd_idx c1 = trial_fwd_idx c"
    "cxt_flags c1 = cxt_flags c"
    using idx cxt by (simp_all add: c1_def)
  obtain s2 where valid: "run_state (finalize_valid P) s1 = ((), s2)" and more: "mem_st.more s2 = mem_st.more s1"
    and cells: "cells (world s2) = prog_cells (cells (world s1))
      (4096 * unat (trial_fwd_idx c1) + unat (fst (fwd_field FW_UPGRADE_FWD_STATUS_E))) [FW_UPGRADE_FWD_STATUS_VALID]"
    by (rule run_finalize_valid [OF s1(1) apart s1(2) c1(1)])
  note s2 = more_fields [OF more, unfolded s1(2)]
  have s2_init: "mutex_init s2"
    using s2(2) s1(3) by simp
  obtain hs where fin: "run_state fw_upgrade_session_fin s2 = (FW_UPGRADE_OK_E,
      s2\<lparr>partition_handles := hs, image_hdrs := None, sess_cxt := None\<rparr>)"
  proof (cases "partition_hdl c1")
    case None
    with s2(1) that [of "partition_handles s2"] show ?thesis
      by (cases s2) (simp add: fw_upgrade_session_fin_def run_simps upd_cxt_def)
  next
    case (Some h)
    with s2(1) that show ?thesis
      by (cases s2) (auto simp: fw_upgrade_session_fin_def run_simps upd_cxt_def release_def update_handle_def)
  qed
  let ?t = "s2\<lparr>partition_handles := hs, image_hdrs := None, sess_cxt := None\<rparr>"
  have err: "run_state (fw_upgrade_set_error_code FW_UPGRADE_OK_E) s = ((), s1)"
    using cxt(1) by (simp add: fw_upgrade_set_error_code_def run_simps s1_def c1_def)
  let ?u = "if cxt_flags c AND FW_UPGRADE_FLAG_AUTO_REBOOT \<noteq> 0 then ?t\<lparr>reset_scheduled := True\<rparr> else ?t"
  have "run_state (step_finish P l) s = (l\<lparr>l_run := False\<rparr>, ?u)"
    by (simp add: step_finish_def fw_upgrade_session_finalize_def run_simps run_getters [OF cxt(1,2)] cxt Let_def
        err valid run_getters [OF s2(1) s2_init] run_cxt [OF s2(1)] fin c1)
  then show ?thesis
    using s2 cells by (intro that [of ?u]) (simp_all add: s1_def c1)
qed

section \<open>Copying the file system\<close>

definition regions_apart :: "partition_client \<Rightarrow> partition_client \<Rightarrow> bool" where
  "regions_apart a b \<longleftrightarrow> unat (img_start a) + unat (img_size a) \<le> unat (img_start b)
     \<or> unat (img_start b) + unat (img_size b) \<le> unat (img_start a)"

lemma run_copy_fs:
  assumes "mem_ready P cells M s" "flash_partition M s k1 c1" "flash_partition M s k2 c2"
    and "unat (img_size c1) \<le> unat (img_size c2)" "regions_apart c1 c2"
    and "unat off + 4096 * m = unat (img_size c1)" "unat off mod 4096 = 0" "m \<le> fuel"
  shows "\<exists>t. run_state (copy_fs P fuel (Some k1) (Some k2) 4096 (img_size c1) off) s = (FW_UPGRADE_OK_E, t)
    \<and> mem_ready P cells M t \<and> partition_handles t = partition_handles s \<and> mem_st.more t = mem_st.more s
    \<and> (\<forall>i. i < unat (img_start c2) + unat off \<or> unat (img_start c2) + unat (img_size c1) \<le> i \<longrightarrow>
         cells (world t) i = cells (world s) i)
    \<and> (\<forall>i. unat off \<le> i \<and> i < unat (img_size c1) \<longrightarrow>
         cells (world t) (unat (img_start c2) + i) = cells (world s) (unat (img_start c1) + i))"
  using assms
proof (induction m arbitrary: s off fuel)
  case 0
  then have "\<not> off < img_size c1"
    by (simp add: word_less_nat_alt)
  with 0 show ?case
    by (cases fuel) (auto simp: run_simps)
next
  case (Suc m)
  obtain f where f: "fuel = Suc f" "m \<le> f"
    using Suc.prems(8) by (cases fuel) auto
  let ?a1 = "unat (img_start c1)" and ?a2 = "unat (img_start c2)" and ?o = "unat off"
  have lt: "off < img_size c1" and inside: "?o + 4096 \<le> unat (img_size c1)"
    using Suc.prems(6) by (simp_all add: word_less_nat_alt)
  then have in1: "in_partition c1 off 4096" and in2: "in_partition c2 off 4096"
    using Suc.prems(4) by (simp_all add: in_partition_def)
  define bs where "bs = slice (cells (world s)) (?a1 + ?o) 4096"
  define s1 where "s1 = erased P ((img_start c2 + off) div 4096) (4096 div 4096) s"
  define s2 where "s2 = programmed P (img_start c2 + off) bs s1"
  have len_bs: "length bs = 4096"
    by (simp add: bs_def)
  have al: "unat (4096 :: u32) mod 4096 = 0" and len: "length bs = unat (4096 :: u32)"
    by (simp_all add: bs_def)
  note rd = run_read_partition [OF Suc.prems(1,2) in1, unfolded unat_numeral_4096, folded bs_def]
  note er = run_erase_partition [OF Suc.prems(1,3) in2 Suc.prems(7) al, folded s1_def, unfolded unat_numeral_4096]
  have p1: "mem_ready P cells M s1" "flash_partition M s1 k2 c2"
    using Suc.prems(1,3) by (simp_all add: s1_def)
  note wr = run_write_partition [OF p1 in2 len, folded s2_def]
  have after: "cells (world s2) = prog_cells (erase_cells (cells (world s)) (?a2 + ?o) 4096) (?a2 + ?o) bs"
    unfolding wr(2) er(2) ..
  have here: "cells (world s2) (?a2 + i) = cells (world s) (?a1 + i)" if "?o \<le> i" "i < ?o + 4096" for i
  proof -
    define j where "j = i - ?o"
    have j: "i = ?o + j" "j < 4096"
      using that unfolding j_def by linarith+
    then have "bs ! j = cells (world s) (?a1 + i)"
      by (simp add: bs_def add.assoc)
    with j show ?thesis
      using len_bs unfolding after by (simp add: prog_cells_def erase_cells_def and_ff add.assoc)
  qed
  have other: "cells (world s2) i = cells (world s) i" if "i < ?a2 + ?o \<or> ?a2 + ?o + 4096 \<le> i" for i
    using that unfolding after by (auto simp: prog_cells_def erase_cells_def bs_def)
  have "?o + unat (4096 :: u32) < 4294967296"
    using inside unat_lt_u32 [of "img_size c1"] unfolding unat_numeral_4096 by linarith
  from unat_plus [OF this] have off': "unat (off + 4096) = ?o + 4096"
    by simp
  have "mem_ready P cells M s2" "flash_partition M s2 k1 c1" "flash_partition M s2 k2 c2"
    "unat (off + 4096) + 4096 * m = unat (img_size c1)" "unat (off + 4096) mod 4096 = 0"
    using Suc.prems by (simp_all add: s1_def s2_def off')
  from Suc.IH [OF this(1-3) Suc.prems(4,5) this(4,5) f(2)] obtain t where
    run: "run_state (copy_fs P f (Some k1) (Some k2) 4096 (img_size c1) (off + 4096)) s2 = (FW_UPGRADE_OK_E, t)"
    and t: "mem_ready P cells M t" "partition_handles t = partition_handles s2" "mem_st.more t = mem_st.more s2"
      "\<forall>i. i < ?a2 + (?o + 4096) \<or> ?a2 + unat (img_size c1) \<le> i \<longrightarrow> cells (world t) i = cells (world s2) i"
      "\<forall>i. ?o + 4096 \<le> i \<and> i < unat (img_size c1) \<longrightarrow> cells (world t) (?a2 + i) = cells (world s2) (?a1 + i)"
    unfolding off' by blast
  have "run_state (copy_fs P fuel (Some k1) (Some k2) 4096 (img_size c1) off) s = (FW_UPGRADE_OK_E, t)"
    using lt rd er(1) wr(1) run by (simp add: f(1) run_simps)
  moreover have "cells (world t) i = cells (world s) i" if "i < ?a2 + ?o \<or> ?a2 + unat (img_size c1) \<le> i" for i
    using that t(4) other [of i] inside by auto
  moreover have "cells (world t) (?a2 + i) = cells (world s) (?a1 + i)" if i: "?o \<le> i" "i < unat (img_size c1)" for i
  proof (cases "i < ?o + 4096")
    case True
    with i t(4) here show ?thesis by auto
  next
    case False
    then have "cells (world t) (?a2 + i) = cells (world s2) (?a1 + i)"
      using i t(5) by auto
    also have "\<dots> = cells (world s) (?a1 + i)"
      using Suc.prems(4,5) i False inside by (intro other) (auto simp: regions_apart_def)
    finally show ?thesis .
  qed
  ultimately show ?case
    using t(1-3) by (auto simp: s1_def s2_def programmed_def erased_def intro!: exI [of _ t])
qed

text \<open>
  The descriptor the boot table names as active, and the two file systems it lists, as the session finds them.
\<close>

definition active_fwd :: "'d platform \<Rightarrow> 'd \<Rightarrow> u8" where
  "active_fwd P w = (if fdt_valid P w
     then case find_fde P w (\<lambda>e. fde_id e = FDE_IMG_ID_APP) of
            None \<Rightarrow> FW_UPGRADE_INVALID_FWD
          | Some i \<Rightarrow> ucast (fde_addr (fde_at P w i))
     else FW_UPGRADE_INVALID_FWD)"

definition listed :: "u32 \<Rightarrow> u8 \<Rightarrow> fwd \<Rightarrow> u32 \<Rightarrow> partition_client option" where
  "listed M a f iid = (if a < 3
     then map_option (\<lambda>i. client_of_entry (std_params M) a i iid (image_entries f ! i)) (find_entry f iid) else None)"

definition file_systems :: "'d platform \<Rightarrow> ('d \<Rightarrow> nat \<Rightarrow> u8) \<Rightarrow> u32 \<Rightarrow> 'd \<Rightarrow> (partition_client \<times> partition_client) option" where
  "file_systems P cells M w = (let a = active_fwd P w; f = fwd_of (cells w) (unat a) in
     case (listed M a f FS1_IMG_ID, listed M a f FS2_IMG_ID) of
       (Some c1, Some c2) \<Rightarrow> Some (c1, c2)
     | _ \<Rightarrow> None)"

lemma run_active_fwd:
  "run_state (fw_upgrade_get_active_fwd P False False) s = ((active_fwd P (world s), None, None), s)"
  by (simp add: fw_upgrade_get_active_fwd_def active_fwd_def run_simps Let_def split: option.split)

lemma active_fwd_cong:
  assumes "rram_load P w = rram_load P w'"
  shows "active_fwd P w = active_fwd P w'"
proof -
  have "rram_bytes P w = rram_bytes P w'"
    using assms by (intro ext) (simp add: rram_bytes_def)
  then have "fdt_header P w = fdt_header P w'" "fde_at P w = fde_at P w'"
    by (simp_all add: fdt_header_def fde_at_def fun_eq_iff)
  then show ?thesis
    by (simp only: active_fwd_def fdt_valid_def find_fde_def num_fde_def)
qed

lemma run_find_listed:
  assumes "mem_ready P cells M s" "free_handle (partition_handles s) = Some k"
  shows "run_state (fw_upgrade_find_partition P a iid) s =
    (case listed M a (fwd_of (cells (world s)) (unat a)) iid of
       None \<Rightarrow> ((FW_UPGRADE_ERR_REACH_MAX_IMAGE_ENTRY_E, None), s)
     | Some c \<Rightarrow> ((FW_UPGRADE_OK_E, Some k), with_handle k c s))"
  using run_find_partition [OF assms(1), of a iid] run_find_partition_bad [OF assms(1), of a iid] assms(2)
  by (auto simp: listed_def take_client_def split: option.split dest: find_entry_Some)

text \<open>Where the two lie: in the flash, behind the descriptors, apart from each other, the second not smaller.\<close>

definition fs_layout :: "u32 \<Rightarrow> partition_client \<Rightarrow> partition_client \<Rightarrow> bool" where
  "fs_layout M c1 c2 \<longleftrightarrow> (\<forall>c \<in> {c1, c2}. 12288 \<le> unat (img_start c) \<and> unat (img_start c) + unat (img_size c) \<le> unat M)
     \<and> unat (img_size c1) \<le> unat (img_size c2) \<and> regions_apart c1 c2"

lemma run_release_if: "run_state (release_if (Some k)) s = ((), without_handle k s)" "run_state (release_if None) s = ((), s)"
  by (simp_all add: release_if_def when_m_def run_simps run_handle_ops)

lemma listedD:
  assumes "listed M a f iid = Some c" "iid \<noteq> SBL_IMG_ID"
  shows "ref_count c \<noteq> 0" "img_id c = iid" "unat (img_start c) mod 4096 = 0" "unat (img_size c) mod 4096 = 0"
    "0 < ref_count c"
proof -
  have "unat (x * 4096 :: u32) mod 4096 = 0" for x
    by (simp add: unat_word_ariths mod_mod_cancel)
  then show "ref_count c \<noteq> 0" "img_id c = iid" "unat (img_start c) mod 4096 = 0" "unat (img_size c) mod 4096 = 0"
    "0 < ref_count c"
    using assms by (auto simp: listed_def client_of_entry_def split: if_splits)
qed

lemma two_free_handles:
  assumes "length hs = 10" "card (live_handles hs) \<le> 8"
  shows "\<exists>k < 10. free_handle hs = Some k
    \<and> (\<forall>c. ref_count c \<noteq> 0 \<longrightarrow> (\<exists>j < 10. j \<noteq> k \<and> free_handle (put_handle k c hs) = Some j))"
proof -
  obtain k where k: "free_handle hs = Some k"
    using handles.free_ex [OF assms(1)] assms(2) by auto
  have "\<exists>j < 10. j \<noteq> k \<and> free_handle (put_handle k c hs) = Some j" if c: "ref_count c \<noteq> 0" for c
  proof -
    have len: "length (put_handle k c hs) = 10"
      by (simp add: assms(1))
    obtain j where j: "free_handle (put_handle k c hs) = Some j"
      using handles.free_ex [OF len] handles.acquire_card [OF assms(1) k c] assms(2) by auto
    then show ?thesis
      using handles.free_Some [OF len j] handles.put_live [OF assms(1) _ c] handles.free_Some [OF assms(1) k] by auto
  qed
  with k show ?thesis
    using handles.free_Some [OF assms(1) k] by auto
qed

definition heap_never_full :: "'d platform \<Rightarrow> ('d \<Rightarrow> nat \<Rightarrow> u8) \<Rightarrow> bool" where
  "heap_never_full P cells \<longleftrightarrow> (\<forall>w n. fst (k_malloc P w n) \<and> cells (snd (k_malloc P w n)) = cells w)"

lemma run_duplicate_fs:
  assumes ready: "mem_ready P cells M s" and heap: "heap_never_full P cells" and apart: "flash_apart P"
    and room: "card (live_handles (partition_handles s)) \<le> 8"
    and layout: "\<And>c1 c2. file_systems P cells M (world s) = Some (c1, c2) \<Longrightarrow> fs_layout M c1 c2"
  shows "\<exists>t. run_state (fw_upgrade_process_duplicate_fs P fl) s =
      (if file_systems P cells M (world s) = None then FW_UPGRADE_ERR_FLASH_IMAGE_NOT_FOUND_E else FW_UPGRADE_OK_E, t)
    \<and> mem_ready P cells M t \<and> mem_st.more t = mem_st.more s
    \<and> (case file_systems P cells M (world s) of
         None \<Rightarrow> cells (world t) = cells (world s)
       | Some (c1, c2) \<Rightarrow>
           (\<forall>i. i < unat (img_start c2) \<or> unat (img_start c2) + unat (img_size c1) \<le> i \<longrightarrow>
              cells (world t) i = cells (world s) i)
           \<and> (\<forall>i < unat (img_size c1). cells (world t) (unat (img_start c2) + i) = cells (world s) (unat (img_start c1) + i)))"
proof -
  let ?a = "active_fwd P (world s)" and ?hs = "partition_handles s"
  let ?f = "fwd_of (cells (world s)) (unat ?a)"
  note r = mem_readyD [OF ready]
  define s1 where "s1 = s\<lparr>world := snd (k_malloc P (world s) 4096)\<rparr>"
  have size: "run_state get_block_size s = (4096, s)"
    using run_get_block_size [OF r(4,5)] by simp
  have got: "run_state (malloc P 4096) s = (True, s1)"
    using heap by (simp add: malloc_def run_simps s1_def heap_never_full_def prod_eq_iff split: prod.split)
  have s1: "mem_ready P cells M s1" "cells (world s1) = cells (world s)" "active_fwd P (world s1) = ?a"
    "partition_handles s1 = ?hs" "mem_st.more s1 = mem_st.more s"
    using ready heap apart active_fwd_cong [of P "snd (k_malloc P (world s) 4096)" "world s"]
    by (simp_all add: s1_def heap_never_full_def flash_apart_def mem_ready_def adapter_ready_def)
  have len: "length ?hs = 10"
    using r(6) by (simp add: FW_UPGRADE_MAX_HANDLES_def)
  obtain k where k: "free_handle ?hs = Some k" "k < 10"
    and second: "\<forall>c. ref_count c \<noteq> 0 \<longrightarrow> (\<exists>j < 10. j \<noteq> k \<and> free_handle (put_handle k c ?hs) = Some j)"
    using two_free_handles [OF len room] by auto
  note find1 = run_find_listed [OF s1(1), of k ?a FS1_IMG_ID, unfolded s1(2,4), OF k(1)]
  note start = fw_upgrade_process_duplicate_fs_def run_simps size got run_active_fwd s1(3) find1
  show ?thesis
  proof (cases "listed M ?a ?f FS1_IMG_ID")
    case None
    then show ?thesis
      using s1 by (simp add: start run_release_if file_systems_def Let_def)
  next
    case (Some c1)
    note c1 = listedD [OF Some]
    define s2 where "s2 = with_handle k c1 s1"
    have s2: "mem_ready P cells M s2" "world s2 = world s1" "partition_handles s2 = put_handle k c1 ?hs"
      "mem_st.more s2 = mem_st.more s"
      using s1 by (simp_all add: s2_def with_handle_def put_handle_def)
    obtain j where j: "j < 10" "j \<noteq> k" "free_handle (put_handle k c1 ?hs) = Some j"
      using second c1(1) by (auto simp: FS1_IMG_ID_def SBL_IMG_ID_def)
    note find2 = run_find_listed [OF s2(1), of j ?a FS2_IMG_ID, unfolded s2(2,3) s1(2), OF j(3)]
    show ?thesis
    proof (cases "listed M ?a ?f FS2_IMG_ID")
      case None
      then show ?thesis
        using s1 s2 Some find2 run_active_fwd [of P s2]
        by (simp add: start run_release_if file_systems_def Let_def s2_def [symmetric], simp add: without_handle_def)
    next
      case (Some c2)
      note c2 = listedD [OF Some]
      define s3 where "s3 = with_handle j c2 s2"
      have fs: "file_systems P cells M (world s) = Some (c1, c2)"
        using Some \<open>listed M ?a ?f FS1_IMG_ID = Some c1\<close> by (simp add: file_systems_def Let_def)
      note lay = layout [OF fs]
      have s3: "mem_ready P cells M s3" "world s3 = world s1" "mem_st.more s3 = mem_st.more s"
        "partition_handles s3 ! k = c1" "partition_handles s3 ! j = c2"
        using s2 j k len by (simp_all add: s3_def with_handle_def put_handle_def)
      have part: "flash_partition M s3 k c1" "flash_partition M s3 j c2"
        using s3 c1 c2 j k lay
        by (auto simp: flash_partition_def fs_layout_def FW_UPGRADE_MAX_HANDLES_def FS1_IMG_ID_def FS2_IMG_ID_def
            SBL_IMG_ID_def)
      have "unat (img_size c1) = 4096 * (unat (img_size c1) div 4096)"
        using blocks_exact [of "unat (img_size c1)"] c1(4) by (simp add: FS1_IMG_ID_def SBL_IMG_ID_def mult.commute)
      then have "unat (0 :: u32) + 4096 * (unat (img_size c1) div 4096) = unat (img_size c1)"
        by simp
      from run_copy_fs [OF s3(1) part _ _ this, of "block_fuel (img_size c1) 4096"] lay obtain t where
        copy: "run_state (copy_fs P (block_fuel (img_size c1) 4096) (Some k) (Some j) 4096 (img_size c1) 0) s3 =
          (FW_UPGRADE_OK_E, t)"
        and t: "mem_ready P cells M t" "partition_handles t = partition_handles s3" "mem_st.more t = mem_st.more s3"
          "\<forall>i. i < unat (img_start c2) \<or> unat (img_start c2) + unat (img_size c1) \<le> i \<longrightarrow>
             cells (world t) i = cells (world s) i"
          "\<forall>i < unat (img_size c1). cells (world t) (unat (img_start c2) + i) = cells (world s) (unat (img_start c1) + i)"
        unfolding s3(2) s1(2) by (auto simp: fs_layout_def block_fuel_def)
      define u where "u = without_handle j (without_handle k t)"
      have "run_state (fw_upgrade_process_duplicate_fs P fl) s = (FW_UPGRADE_OK_E, u)"
        using find2 copy s3(4)
        by (simp add: start run_release_if run_handle_ops s2(2) Some \<open>listed M ?a ?f FS1_IMG_ID = Some c1\<close>
            s2_def [symmetric] s3_def [symmetric] u_def)
      then show ?thesis
        using t s3(3) by (simp add: fs u_def) (simp add: without_handle_def)
    qed
  qed
qed

section \<open>The last packet of an upgrade\<close>

lemma session_last_packet:
  assumes mid: "mid_image P cells M k p hs c got s"
    and packet: "offset \<noteq> 0" "data \<noteq> []"
    and full: "length got + length data = unat (image_wrt_length c)"
    and last: "cxt_total_images c \<le> image_index c + 1"
  defines "e \<equiv> hs ! unat (image_index c)"
  obtains t where "mem_ready P cells M t" "confined cells p s t" "flash_only P s t"
    "slice (cells (world t)) (unat (img_start p)) (length (got @ data)) = got @ data"
    "if ih_hash e = sha256 P (got @ data)
     then run_state (step_process_image P al data packet_locals) (s\<lparr>sess_cxt := Some (packet_in data c)\<rparr>) = (packet_locals, t)
       \<and> sess_cxt t = Some ((settled e (counted_in (packet_in data c) got data))\<lparr>buf_offset := of_nat (length data)\<rparr>)
     else run_state (fw_upgrade_session_process P no_fs al offset data) s = (FW_UPGRADE_ERR_INCORRECT_IMAGE_CHECKSUM_E, t)"
proof -
  note m = mid_imageD [OF mid]
  have small: "length data < 4294967296"
    using full unat_lt_u32 [of "image_wrt_length c"] by linarith
  note size = packet_size [OF small packet(2)]
  let ?s2 = "s\<lparr>sess_cxt := Some (packet_in data c)\<rparr>"
  have pre: "image_hdrs ?s2 = Some hs" "unat (image_index (packet_in data c)) < length hs"
    "cxt_format (packet_in data c) \<noteq> FW_UPGRADE_FORAMT_PARTIAL_UPGRADE" "buf_offset (packet_in data c) = 0"
    "unat (buf_len (packet_in data c)) = length data" "data \<noteq> []"
    "length got + length data \<le> unat (image_wrt_length (packet_in data c))"
    using m size packet(2) full by simp_all
  obtain t where t: "mem_ready P cells M t" "confined cells p ?s2 t" "flash_only P ?s2 t"
      "slice (cells (world t)) (unat (img_start p)) (length (got @ data)) = got @ data"
    and recv: "run_state (fw_upgrade_process_receive_image P al data) ?s2 =
      (if ih_hash e \<noteq> sha256 P (got @ data) then FW_UPGRADE_ERR_INCORRECT_IMAGE_CHECKSUM_E else FW_UPGRADE_OK_E, t)"
    and cxt: "sess_cxt t = Some ((if ih_hash e = sha256 P (got @ data) then settled e (counted_in (packet_in data c) got data)
           else (counted_in (packet_in data c) got data)\<lparr>partition_hdl := None\<rparr>)\<lparr>buf_offset := of_nat (length data)\<rparr>)"
    by (rule run_receive_packet [OF receiving_packet [OF mid, of data] pre, of al])
       (simp only: packet_in_simps full length_append less_irrefl if_False last simp_thms e_def)
  have conf: "confined cells p s t"
    using t(2) by (simp add: confined_def)
  have init: "mutex_init t"
    using conf m by (simp add: confined_def)
  have ended: "upgrade_state (settled e (counted_in (packet_in data c) got data)) = FW_UPGRADE_STATE_DUPLICATE_FS_E"
    using last by (simp add: settled_def next_image_def advance_trial_mem_def Let_def)
  show ?thesis
  proof (cases "ih_hash e = sha256 P (got @ data)")
    case True
    define c' where "c' = (settled e (counted_in (packet_in data c) got data))\<lparr>buf_offset := of_nat (length data)\<rparr>"
    have cxt': "sess_cxt t = Some c'"
      using cxt True by (simp add: c'_def)
    have ended': "upgrade_state c' = FW_UPGRADE_STATE_DUPLICATE_FS_E"
      using ended by (simp add: c'_def)
    have "run_state (fw_upgrade_process_receive_image P al data) ?s2 = (FW_UPGRADE_OK_E, t)"
      using recv True by simp
    then have "run_state (step_process_image P al data packet_locals) ?s2 = (packet_locals, t)"
      by (simp add: step_process_image_def run_simps run_getters [OF cxt' init] ended' packet_locals_def)
    with True show ?thesis
      using t(1,3,4) conf cxt by (intro that [of t]) simp_all
  next
    case False
    have image: "run_state (step_process_image P al data packet_locals) ?s2 =
        (stop_with FW_UPGRADE_ERR_INCORRECT_IMAGE_CHECKSUM_E packet_locals, t)"
      using recv False by (simp add: step_process_image_def run_simps)
    have fuel: "62 + 4 * length data = Suc (61 + 4 * length data)"
      by simp
    have stop: "\<not> l_run (stop_with r l)" "l_ret (stop_with r l) = r" for r l
      by (simp_all add: stop_with_def)
    have "run_state (fw_upgrade_session_process P no_fs al offset data) s =
        (FW_UPGRADE_ERR_INCORRECT_IMAGE_CHECKSUM_E, t)"
      unfolding session_to_image [OF mid packet small] image prod.case fuel run_session_stop [OF stop(1)]
      by (simp add: stop)
    with False show ?thesis
      using t(1,3,4) conf by (intro that [of t]) simp_all
  qed
qed

lemma run_duplicate_fs_off:
  assumes "sess_cxt s = Some c" "cxt_flags c AND FW_UPGRADE_FLAG_DUPLICATE_ACTIVE_FS = 0"
  shows "run_state (step_duplicate_fs P l) s =
    (l, s\<lparr>sess_cxt := Some (c\<lparr>upgrade_state := FW_UPGRADE_STATE_FINISH_E\<rparr>)\<rparr>)"
  using assms by (simp add: step_duplicate_fs_def run_simps run_cxt run_set_state)

lemma confined_field:
  assumes "confined cells p s t" "i < 3" "12288 \<le> unat (img_start p)"
  shows "field_bytes (cells (world t)) i info = field_bytes (cells (world s)) i info"
proof -
  have "unat i \<le> 2"
    using assms(2) by (simp add: word_less_nat_alt)
  moreover have "unat (fst (fwd_field info)) + unat (snd (fwd_field info)) \<le> 14"
    by (cases info) simp_all
  ultimately show ?thesis
    using assms(1,3) unfolding field_bytes_def confined_def by (intro nth_equalityI) auto
qed

lemma run_duplicate_fs_on:
  assumes "sess_cxt s = Some c" "cxt_flags c AND FW_UPGRADE_FLAG_DUPLICATE_ACTIVE_FS \<noteq> 0"
    and "run_state (fw_upgrade_process_duplicate_fs P (cxt_flags c)) s = (e, t)" "sess_cxt t = Some c"
  shows "run_state (step_duplicate_fs P l) s = (if e = FW_UPGRADE_OK_E
    then (l\<lparr>l_ret := e\<rparr>, t\<lparr>sess_cxt := Some (c\<lparr>upgrade_state := FW_UPGRADE_STATE_FINISH_E\<rparr>)\<rparr>)
    else (stop_with e l, t))"
  using assms by (simp add: step_duplicate_fs_def run_simps run_cxt run_set_state)

text \<open>Once the copy is made, or there is none to make, the session is finished in the same call.\<close>

lemma run_to_finish:
  assumes cxt: "sess_cxt s = Some c" "mutex_init s" "upgrade_state c = FW_UPGRADE_STATE_DUPLICATE_FS_E"
      "session_status c = FW_UPGRADE_SESSION_RUNNING_E" "buf_offset c \<le> of_nat (length data)"
    and apart: "rram_apart P cells" and idx: "trial_fwd_idx c < 3" and run: "l_run l"
    and copied: "run_state (step_duplicate_fs P l) s =
        (l, s1\<lparr>sess_cxt := Some (c\<lparr>upgrade_state := FW_UPGRADE_STATE_FINISH_E\<rparr>)\<rparr>)"
      "mem_ready P cells M s1" "mutex_init s1"
  obtains t where
    "run_state (session_loop P no_fs al data (62 + 4 * length data) l) s = (l\<lparr>l_run := False\<rparr>, t)"
    "sess_cxt t = None"
    "cells (world t) = prog_cells (cells (world s1))
      (4096 * unat (trial_fwd_idx c) + unat (fst (fwd_field FW_UPGRADE_FWD_STATUS_E))) [FW_UPGRADE_FWD_STATUS_VALID]"
proof -
  define c1 where "c1 = c\<lparr>upgrade_state := FW_UPGRADE_STATE_FINISH_E\<rparr>"
  define s2 where "s2 = s1\<lparr>sess_cxt := Some c1\<rparr>"
  have s2: "mem_ready P cells M s2" "sess_cxt s2 = Some c1" "mutex_init s2" "upgrade_state c1 = FW_UPGRADE_STATE_FINISH_E"
    "session_status c1 = FW_UPGRADE_SESSION_RUNNING_E" "trial_fwd_idx c1 < 3" "trial_fwd_idx c1 = trial_fwd_idx c"
    "buf_offset c1 \<le> of_nat (length data)" "cells (world s2) = cells (world s1)"
    using copied(2,3) cxt idx by (simp_all add: s2_def c1_def)
  have step1: "run_state (session_step P no_fs al data (upgrade_state c) l) s = (l, s2)"
    unfolding cxt(3) session_step.simps copied(1) s2_def c1_def ..
  obtain t where finish: "run_state (step_finish P l) s2 = (l\<lparr>l_run := False\<rparr>, t)" and t: "sess_cxt t = None"
    "cells (world t) = prog_cells (cells (world s2))
      (4096 * unat (trial_fwd_idx c1) + unat (fst (fwd_field FW_UPGRADE_FWD_STATUS_E))) [FW_UPGRADE_FWD_STATUS_VALID]"
    using run_finish [OF s2(1) apart s2(2-6), of l] by blast
  have step2: "run_state (session_step P no_fs al data (upgrade_state c1) l) s2 = (l\<lparr>l_run := False\<rparr>, t)"
    unfolding s2(4) session_step.simps by (rule finish)
  have fuel: "62 + 4 * length data = Suc (Suc (Suc (59 + 4 * length data)))"
    by simp
  have stop: "\<not> l_run (l\<lparr>l_run := False\<rparr>)"
    by simp
  have "run_state (session_loop P no_fs al data (62 + 4 * length data) l) s = (l\<lparr>l_run := False\<rparr>, t)"
    unfolding fuel run_session_turn [OF cxt(1,2) run cxt(4,5) step1] run_session_turn [OF s2(2,3) run s2(5,8) step2]
    by (rule run_session_stop [OF stop])
  with t show ?thesis
    by (intro that [of t]) (simp_all add: s2)
qed

text \<open>A step that fails ends the call with its error.\<close>

lemma run_to_error:
  assumes cxt: "sess_cxt s = Some c" "mutex_init s" "session_status c = FW_UPGRADE_SESSION_RUNNING_E"
      "buf_offset c \<le> of_nat (length data)" and run: "l_run l"
    and step: "run_state (session_step P no_fs al data (upgrade_state c) l) s = (stop_with e l, t)"
  shows "run_state (session_loop P no_fs al data (62 + 4 * length data) l) s = (stop_with e l, t)"
proof -
  have fuel: "62 + 4 * length data = Suc (Suc (60 + 4 * length data))"
    by simp
  have stop: "\<not> l_run (stop_with e l)"
    by (simp add: stop_with_def)
  show ?thesis
    unfolding fuel run_session_turn [OF cxt(1,2) run cxt(3,4) step] by (rule run_session_stop [OF stop])
qed

text \<open>Receiving an image into a partition behind the descriptors changes nothing of what the boot table leads to.\<close>

lemma confined_file_systems:
  assumes "confined cells p s t" "12288 \<le> unat (img_start p)" "rram_load P (world t) = rram_load P (world s)"
  shows "file_systems P cells M (world t) = file_systems P cells M (world s)"
proof -
  have "fwd_of (cells (world t)) (unat a) = fwd_of (cells (world s)) (unat a)" if "a < 3" for a :: u8
  proof -
    have "unat a \<le> 2"
      using that by (simp add: word_less_nat_alt)
    then have "slice (cells (world t)) (4096 * unat a) 512 = slice (cells (world s)) (4096 * unat a) 512"
      using assms(1,2) unfolding confined_def by (intro nth_equalityI) auto
    then show ?thesis
      by (simp add: fwd_of_def)
  qed
  then have "listed M a (fwd_of (cells (world t)) (unat a)) iid = listed M a (fwd_of (cells (world s)) (unat a)) iid"
    for a iid by (simp add: listed_def)
  then show ?thesis
    using active_fwd_cong [OF assms(3)] by (simp only: file_systems_def Let_def)
qed

lemma no_new_handle_live: "no_new_handle hs hs' \<Longrightarrow> live_handles hs' \<subseteq> live_handles hs"
  by (auto simp: no_new_handle_def live_handles_def)

lemma regions_apart_slice:
  assumes "regions_apart p f" "confined cells p s t" "n \<le> unat (img_size f)"
  shows "slice (cells (world t)) (unat (img_start f)) n = slice (cells (world s)) (unat (img_start f)) n"
  using assms unfolding regions_apart_def confined_def by (intro nth_equalityI) auto

text \<open>
  How a session ends after the digest was right, from \<open>t\<close> with the status \<open>r\<close> in \<open>v\<close>: \<open>u\<close> is the flash after the
  copy of the file system, if one is to be made.
\<close>

definition ends_upgrade :: "('d \<Rightarrow> nat \<Rightarrow> u8) \<Rightarrow> bool \<Rightarrow> (partition_client \<times> partition_client) option \<Rightarrow> nat \<Rightarrow>
    ('d, 'z) session_st_scheme \<Rightarrow> fw_status \<Rightarrow> ('d, 'z) session_st_scheme \<Rightarrow> bool" where
  "ends_upgrade cells flag fs status t r v \<longleftrightarrow> (if flag \<and> fs = None
     then r = FW_UPGRADE_ERR_FLASH_IMAGE_NOT_FOUND_E \<and> sess_cxt v \<noteq> None \<and> cells (world v) = cells (world t)
     else \<exists>u. r = FW_UPGRADE_OK_E \<and> sess_cxt v = None
       \<and> cells (world v) = prog_cells u status [FW_UPGRADE_FWD_STATUS_VALID]
       \<and> (if flag then \<forall>f1 f2. fs = Some (f1, f2) \<longrightarrow>
            (\<forall>i. i < unat (img_start f2) \<or> unat (img_start f2) + unat (img_size f1) \<le> i \<longrightarrow> u i = cells (world t) i)
            \<and> (\<forall>i < unat (img_size f1). u (unat (img_start f2) + i) = cells (world t) (unat (img_start f1) + i))
          else u = cells (world t)))"

lemma run_after_image:
  assumes ready: "mem_ready P cells M t" and apart: "rram_apart P cells" "flash_apart P" "heap_never_full P cells"
    and cxt: "sess_cxt t = Some c" "mutex_init t" "upgrade_state c = FW_UPGRADE_STATE_DUPLICATE_FS_E"
      "session_status c = FW_UPGRADE_SESSION_RUNNING_E" "buf_offset c \<le> of_nat (length data)"
    and idx: "trial_fwd_idx c < 3" and room: "card (live_handles (partition_handles t)) \<le> 8"
    and layout: "\<And>f1 f2. file_systems P cells M (world t) = Some (f1, f2) \<Longrightarrow> fs_layout M f1 f2"
  shows "\<exists>l v. run_state (session_loop P no_fs al data (62 + 4 * length data) packet_locals) t = (l, v)
    \<and> ends_upgrade cells (cxt_flags c AND FW_UPGRADE_FLAG_DUPLICATE_ACTIVE_FS \<noteq> 0) (file_systems P cells M (world t))
        (4096 * unat (trial_fwd_idx c) + unat (fst (fwd_field FW_UPGRADE_FWD_STATUS_E))) t (l_ret l) v"
    (is "\<exists>l v. _ = (l, v) \<and> ends_upgrade cells ?flag ?fs ?status t (l_ret l) v")
proof (cases ?flag)
  case False
  then have "run_state (step_duplicate_fs P packet_locals) t =
      (packet_locals, t\<lparr>sess_cxt := Some (c\<lparr>upgrade_state := FW_UPGRADE_STATE_FINISH_E\<rparr>)\<rparr>)"
    using run_duplicate_fs_off [OF cxt(1)] by simp
  from run_to_finish [OF cxt apart(1) idx packet_locals_simps(1) this ready cxt(2)] obtain v where
    "run_state (session_loop P no_fs al data (62 + 4 * length data) packet_locals) t = (packet_locals\<lparr>l_run := False\<rparr>, v)"
    "sess_cxt v = None" "cells (world v) = prog_cells (cells (world t)) ?status [FW_UPGRADE_FWD_STATUS_VALID]"
    by metis
  with False show ?thesis
    by (intro exI [of _ "packet_locals\<lparr>l_run := False\<rparr>"] exI [of _ v]) (auto simp: ends_upgrade_def)
next
  case True
  obtain t1 where dup: "run_state (fw_upgrade_process_duplicate_fs P (cxt_flags c)) t =
      (if ?fs = None then FW_UPGRADE_ERR_FLASH_IMAGE_NOT_FOUND_E else FW_UPGRADE_OK_E, t1)"
    and t1: "mem_ready P cells M t1" "mem_st.more t1 = mem_st.more t"
      "case ?fs of None \<Rightarrow> cells (world t1) = cells (world t)
       | Some (f1, f2) \<Rightarrow>
           (\<forall>i. i < unat (img_start f2) \<or> unat (img_start f2) + unat (img_size f1) \<le> i \<longrightarrow>
              cells (world t1) i = cells (world t) i)
           \<and> (\<forall>i < unat (img_size f1). cells (world t1) (unat (img_start f2) + i) = cells (world t) (unat (img_start f1) + i))"
    using run_duplicate_fs [OF ready apart(3,2) room layout] by blast
  note more = more_fields [OF t1(2), unfolded cxt(1)]
  note step = run_duplicate_fs_on [OF cxt(1) True dup more(1), of packet_locals]
  show ?thesis
  proof (cases ?fs)
    case None
    have "run_state (session_loop P no_fs al data (62 + 4 * length data) packet_locals) t =
        (stop_with FW_UPGRADE_ERR_FLASH_IMAGE_NOT_FOUND_E packet_locals, t1)"
      using step None by (intro run_to_error [OF cxt(1,2,4,5)]) (simp_all add: cxt(3))
    then show ?thesis
      using None True t1 more(1)
      by (intro exI [of _ "stop_with FW_UPGRADE_ERR_FLASH_IMAGE_NOT_FOUND_E packet_locals"] exI [of _ t1])
         (auto simp: stop_with_def ends_upgrade_def)
  next
    case (Some fp)
    have "run_state (step_duplicate_fs P packet_locals) t =
        (packet_locals, t1\<lparr>sess_cxt := Some (c\<lparr>upgrade_state := FW_UPGRADE_STATE_FINISH_E\<rparr>)\<rparr>)"
      using step Some by (simp add: packet_locals_def)
    moreover have "mutex_init t1"
      using more(2) cxt(2) by simp
    ultimately obtain v where
      "run_state (session_loop P no_fs al data (62 + 4 * length data) packet_locals) t = (packet_locals\<lparr>l_run := False\<rparr>, v)"
      "sess_cxt v = None" "cells (world v) = prog_cells (cells (world t1)) ?status [FW_UPGRADE_FWD_STATUS_VALID]"
      using run_to_finish [OF cxt apart(1) idx packet_locals_simps(1) _ t1(1)] by metis
    then show ?thesis
      using Some True t1(3)
      by (intro exI [of _ "packet_locals\<lparr>l_run := False\<rparr>"] exI [of _ v]) (auto simp: ends_upgrade_def split: prod.splits)
  qed
qed

text \<open>The status byte of the trial descriptor, the image and the file system in such an end.\<close>

lemma ends_upgrade_fields:
  assumes ends: "ends_upgrade cells flag fs (4096 * unat i + unat (fst (fwd_field FW_UPGRADE_FWD_STATUS_E))) t r v"
    and works: "\<not> (flag \<and> fs = None)" and idx: "i < 3" and p: "12288 \<le> unat (img_start p)" "n \<le> unat (img_size p)"
    and layout: "\<And>f1 f2. fs = Some (f1, f2) \<Longrightarrow> fs_layout M f1 f2 \<and> regions_apart p f2"
  shows "slice (cells (world v)) (unat (img_start p)) n = slice (cells (world t)) (unat (img_start p)) n"
    and "field_bytes (cells (world v)) i FW_UPGRADE_FWD_STATUS_E =
      map (\<lambda>b. b AND FW_UPGRADE_FWD_STATUS_VALID) (field_bytes (cells (world t)) i FW_UPGRADE_FWD_STATUS_E)"
    and "flag \<Longrightarrow> fs = Some (f1, f2) \<Longrightarrow>
      slice (cells (world v)) (unat (img_start f2)) (unat (img_size f1)) =
      slice (cells (world t)) (unat (img_start f1)) (unat (img_size f1))"
proof -
  let ?status = "4096 * unat i + unat (fst (fwd_field FW_UPGRADE_FWD_STATUS_E))"
  have i: "unat i \<le> 2"
    using idx by (simp add: word_less_nat_alt)
  obtain u where v: "cells (world v) = prog_cells u ?status [FW_UPGRADE_FWD_STATUS_VALID]"
    and u: "if flag then \<forall>f1 f2. fs = Some (f1, f2) \<longrightarrow>
            (\<forall>i. i < unat (img_start f2) \<or> unat (img_start f2) + unat (img_size f1) \<le> i \<longrightarrow> u i = cells (world t) i)
            \<and> (\<forall>i < unat (img_size f1). u (unat (img_start f2) + i) = cells (world t) (unat (img_start f1) + i))
          else u = cells (world t)"
    using ends works unfolding ends_upgrade_def by auto
  have low: "u j = cells (world t) j" if "j < 12288" for j
    using u works layout that by (cases flag; cases fs) (auto simp: fs_layout_def)
  have image: "u j = cells (world t) j" if "unat (img_start p) \<le> j" "j < unat (img_start p) + n" for j
    using u works layout that p by (cases flag; cases fs) (force simp: fs_layout_def regions_apart_def)+
  have "slice (cells (world v)) (unat (img_start p)) n = slice u (unat (img_start p)) n"
    unfolding v using i p by (intro slice_prog_other) simp
  then show "slice (cells (world v)) (unat (img_start p)) n = slice (cells (world t)) (unat (img_start p)) n"
    using image by (auto simp: list_eq_iff_nth_eq)
  show "field_bytes (cells (world v)) i FW_UPGRADE_FWD_STATUS_E =
      map (\<lambda>b. b AND FW_UPGRADE_FWD_STATUS_VALID) (field_bytes (cells (world t)) i FW_UPGRADE_FWD_STATUS_E)"
    using low i unfolding field_bytes_def v by (simp add: slice_def prog_cells_def)
  assume "flag" "fs = Some (f1, f2)"
  then show "slice (cells (world v)) (unat (img_start f2)) (unat (img_size f1)) =
      slice (cells (world t)) (unat (img_start f1)) (unat (img_size f1))"
    using u layout i unfolding v
    by (subst slice_prog_other) (auto simp: fs_layout_def list_eq_iff_nth_eq)
qed

text \<open>
  C6: The last packet of an upgrade decides. If the announced digest is not that of exactly the bytes the
  partition then holds, the call fails with the checksum error and the descriptor keeps the status it had. If
  it is, the flag every session is opened with makes the session copy the first file system of the active
  descriptor over the second: when the descriptor lists both, the second then holds the first, the session ends
  with success and the trial descriptor is marked valid; when it does not, the call fails, the descriptor keeps
  its status and the session stays open.
\<close>

theorem last_packet_decides:
  assumes mid: "mid_image P cells M k p hs c got s"
    and apart: "rram_apart P cells" "flash_apart P" "heap_never_full P cells"
    and packet: "offset \<noteq> 0" "data \<noteq> []"
    and full: "length got + length data = unat (image_wrt_length c)"
    and last: "cxt_total_images c \<le> image_index c + 1"
    and trial: "trial_fwd_idx c < 3" "12288 \<le> unat (img_start p)"
    and room: "card (live_handles (partition_handles s)) \<le> 8"
    and layout: "\<And>f1 f2. file_systems P cells M (world s) = Some (f1, f2) \<Longrightarrow>
      fs_layout M f1 f2 \<and> regions_apart p f1 \<and> regions_apart p f2"
  shows "\<exists>r t. run_state (fw_upgrade_session_process P no_fs al offset data) s = (r, t)
    \<and> slice (cells (world t)) (unat (img_start p)) (length (got @ data)) = got @ data
    \<and> (if ih_hash (hs ! unat (image_index c)) \<noteq> sha256 P (got @ data)
       then r = FW_UPGRADE_ERR_INCORRECT_IMAGE_CHECKSUM_E
         \<and> field_bytes (cells (world t)) (trial_fwd_idx c) FW_UPGRADE_FWD_STATUS_E =
           field_bytes (cells (world s)) (trial_fwd_idx c) FW_UPGRADE_FWD_STATUS_E
       else if cxt_flags c AND FW_UPGRADE_FLAG_DUPLICATE_ACTIVE_FS \<noteq> 0 \<and> file_systems P cells M (world s) = None
       then r = FW_UPGRADE_ERR_FLASH_IMAGE_NOT_FOUND_E \<and> sess_cxt t \<noteq> None
         \<and> field_bytes (cells (world t)) (trial_fwd_idx c) FW_UPGRADE_FWD_STATUS_E =
           field_bytes (cells (world s)) (trial_fwd_idx c) FW_UPGRADE_FWD_STATUS_E
       else r = FW_UPGRADE_OK_E \<and> sess_cxt t = None
         \<and> field_bytes (cells (world t)) (trial_fwd_idx c) FW_UPGRADE_FWD_STATUS_E =
           map (\<lambda>b. b AND FW_UPGRADE_FWD_STATUS_VALID) (field_bytes (cells (world s)) (trial_fwd_idx c) FW_UPGRADE_FWD_STATUS_E)
         \<and> (cxt_flags c AND FW_UPGRADE_FLAG_DUPLICATE_ACTIVE_FS \<noteq> 0 \<longrightarrow>
             (\<forall>f1 f2. file_systems P cells M (world s) = Some (f1, f2) \<longrightarrow>
                slice (cells (world t)) (unat (img_start f2)) (unat (img_size f1)) =
                slice (cells (world s)) (unat (img_start f1)) (unat (img_size f1)))))"
proof -
  let ?e = "hs ! unat (image_index c)"
  let ?st = FW_UPGRADE_FWD_STATUS_E
  let ?fs = "file_systems P cells M (world s)"
  let ?flag = "cxt_flags c AND FW_UPGRADE_FLAG_DUPLICATE_ACTIVE_FS \<noteq> 0"
  note m = mid_imageD [OF mid]
  have small: "length data < 4294967296"
    using full unat_lt_u32 [of "image_wrt_length c"] by linarith
  obtain t where t: "mem_ready P cells M t" "confined cells p s t" "flash_only P s t"
    "slice (cells (world t)) (unat (img_start p)) (length (got @ data)) = got @ data"
    and out: "if ih_hash ?e = sha256 P (got @ data)
     then run_state (step_process_image P al data packet_locals) (s\<lparr>sess_cxt := Some (packet_in data c)\<rparr>) = (packet_locals, t)
       \<and> sess_cxt t = Some ((settled ?e (counted_in (packet_in data c) got data))\<lparr>buf_offset := of_nat (length data)\<rparr>)
     else run_state (fw_upgrade_session_process P no_fs al offset data) s = (FW_UPGRADE_ERR_INCORRECT_IMAGE_CHECKSUM_E, t)"
    by (rule session_last_packet [OF mid packet full last])
  note same = confined_field [OF t(2) trial, of ?st]
  show ?thesis
  proof (cases "ih_hash ?e = sha256 P (got @ data)")
    case False
    with out t(4) same show ?thesis
      by auto
  next
    case True
    define c1 where "c1 = (settled ?e (counted_in (packet_in data c) got data))\<lparr>buf_offset := of_nat (length data)\<rparr>"
    have image: "run_state (step_process_image P al data packet_locals) (s\<lparr>sess_cxt := Some (packet_in data c)\<rparr>) =
        (packet_locals, t)" and cxt: "sess_cxt t = Some c1"
      using out True by (simp_all add: c1_def)
    have init: "mutex_init t"
      using t(2) m by (simp add: confined_def)
    have c1: "upgrade_state c1 = FW_UPGRADE_STATE_DUPLICATE_FS_E" "session_status c1 = FW_UPGRADE_SESSION_RUNNING_E"
      "buf_offset c1 \<le> of_nat (length data)" "trial_fwd_idx c1 < 3" "trial_fwd_idx c1 = trial_fwd_idx c"
      "cxt_flags c1 = cxt_flags c"
      using m last trial
      by (simp_all add: c1_def settled_def next_image_def advance_trial_mem_def Let_def counted_in_def)
    have rram: "rram_load P (world t) = rram_load P (world s)" and hs: "no_new_handle (partition_handles s) (partition_handles t)"
      using t(3) apart(2) by (simp_all add: flash_only_def)
    have fs: "file_systems P cells M (world t) = ?fs"
      by (rule confined_file_systems [OF t(2) trial(2) rram])
    have "finite (live_handles (partition_handles s))"
      by (simp add: live_handles_def)
    then have room': "card (live_handles (partition_handles t)) \<le> 8"
      using room card_mono [OF _ no_new_handle_live [OF hs]] by linarith
    have lay: "fs_layout M f1 f2" if "file_systems P cells M (world t) = Some (f1, f2)" for f1 f2
      using layout that fs by simp
    obtain l v where loop: "run_state (session_loop P no_fs al data (62 + 4 * length data) packet_locals) t = (l, v)"
      and ends: "ends_upgrade cells ?flag ?fs (4096 * unat (trial_fwd_idx c) + unat (fst (fwd_field ?st))) t (l_ret l) v"
      using run_after_image [OF t(1) apart cxt init c1(1-4) room' lay, of no_fs al] unfolding c1(5,6) fs by auto
    have session: "run_state (fw_upgrade_session_process P no_fs al offset data) s = (l_ret l, v)"
      unfolding session_to_image [OF mid packet small] image prod.case loop by simp
    have long: "length (got @ data) \<le> unat (img_size p)"
      using receivingD(9) [OF m(1)] full by simp
    show ?thesis
    proof (cases "?flag \<and> ?fs = None")
      case none: True
      then show ?thesis
        using True ends t(4) same session by (auto simp: ends_upgrade_def)
    next
      case False
      have lay': "fs_layout M f1 f2 \<and> regions_apart p f2" if "?fs = Some (f1, f2)" for f1 f2
        using layout [OF that] by simp
      note v = ends_upgrade_fields [OF ends False trial long lay', unfolded same t(4)]
      have kept: "slice (cells (world t)) (unat (img_start f1)) (unat (img_size f1)) =
          slice (cells (world s)) (unat (img_start f1)) (unat (img_size f1))" if "?fs = Some (f1, f2)" for f1 f2
        using layout [OF that] by (intro regions_apart_slice [OF _ t(2)]) simp_all
      have "l_ret l = FW_UPGRADE_OK_E" "sess_cxt v = None"
        using ends False by (auto simp: ends_upgrade_def)
      then show ?thesis
        using True False session v kept by auto
    qed
  qed
qed

text \<open>
  The same image under the flags of a new session, on a board whose active descriptor lists both file systems:
  one block behind the image and two blocks further on.
\<close>

definition fs_cxt :: upgrade_context where
  "fs_cxt = (packet_cxt 3)\<lparr>cxt_flags := FW_UPGRADE_FLAG_AUTO_REBOOT OR FW_UPGRADE_FLAG_DUPLICATE_ACTIVE_FS\<rparr>"

definition fs_mem :: "sim_world mem_st" where
  "fs_mem = (sim_state
     [sample_fwd 5 FW_UPGRADE_FWD_STATUS_VALID
        [\<lparr>image_id = FS1_IMG_ID, start_block = 32, total_blocks = 1, img_version = 1\<rparr>,
         \<lparr>image_id = FS2_IMG_ID, start_block = 40, total_blocks = 2, img_version = 1\<rparr>]]
     [sample_fde FDE_IMG_ID_APP FDE_IMG_RANK_CURRENT 0] 3)\<lparr>partition_handles := sample_client # replicate 9 no_client\<rparr>"

definition fs_state :: "sim_world session_st" where
  "fs_state = session_of fs_mem fs_cxt [app_hdr\<lparr>ih_hash := replicate 32 6\<rparr>]"

lemma fs_state_mid:
  "mid_image sim sim_flash 0x400000 0 sample_client [app_hdr\<lparr>ih_hash := replicate 32 6\<rparr>] fs_cxt [] fs_state"
proof -
  have "flash_partition 0x400000 fs_state 0 sample_client"
    by (simp add: flash_partition_def fs_state_def fs_mem_def sample_client_def FW_UPGRADE_MAX_HANDLES_def
        SBL_IMG_ID_def word_less_nat_alt)
  moreover have "mem_ready sim sim_flash 0x400000 fs_mem"
    unfolding fs_mem_def by (subst mem_ready_handles) (simp_all add: sim_state_ready)
  then have "mem_ready sim sim_flash 0x400000 fs_state"
    unfolding fs_state_def by (rule session_of_ready)
  moreover have "holds_upto (sim_flash (world fs_state)) sample_client [] (block_end 1)"
    by (simp add: holds_upto_def slice_def fs_state_def fs_mem_def sim_state_def flash_image_erased sample_client_def)
  ultimately show ?thesis
    by (simp add: mid_image_def receiving_def fs_cxt_def packet_cxt_def zero_context_def fs_state_def sample_client_def
        FW_UPGRADE_FORAMT_PARTIAL_UPGRADE_def)
qed

lemma fs_state_systems:
  obtains f1 f2 where "file_systems sim sim_flash 0x400000 (world fs_state) = Some (f1, f2)"
    "img_start f1 = 0x20000" "img_size f1 = 0x1000" "img_start f2 = 0x28000" "img_size f2 = 0x2000"
proof -
  have fdt: "active_fwd sim (world fs_state) = 0"
    by (simp add: active_fwd_def fdt_valid_def find_fde_def fs_state_def fs_mem_def fdt_sim_state sample_fde_def fde_wf_def
        fde_consts fw_consts)
  have d: "fwd_of (sim_flash (world fs_state)) 0 = sample_fwd 5 FW_UPGRADE_FWD_STATUS_VALID
        [\<lparr>image_id = FS1_IMG_ID, start_block = 32, total_blocks = 1, img_version = 1\<rparr>,
         \<lparr>image_id = FS2_IMG_ID, start_block = 40, total_blocks = 2, img_version = 1\<rparr>]"
    by (simp add: fs_state_def fs_mem_def desc_sim_state)
  have "find_entry (fwd_of (sim_flash (world fs_state)) 0) FS1_IMG_ID = Some 0"
    by (rule find_entry_SomeI) (simp_all add: d sample_fwd_def)
  moreover have "find_entry (fwd_of (sim_flash (world fs_state)) 0) FS2_IMG_ID = Some 1"
    by (rule find_entry_SomeI) (simp_all add: d sample_fwd_def FS1_IMG_ID_def FS2_IMG_ID_def)
  ultimately show ?thesis
    by (intro that) (simp_all add: file_systems_def Let_def fdt listed_def client_of_entry_def,
        simp_all add: d sample_fwd_def FS1_IMG_ID_def FS2_IMG_ID_def SBL_IMG_ID_def)
qed

theorem last_packet_decides_witness:
  "\<exists>t. run_state (fw_upgrade_session_process sim False (\<lambda>_. True) 1 [1, 2, 3]) fs_state = (FW_UPGRADE_OK_E, t)
     \<and> slice (sim_flash (world t)) 0x10000 3 = [1, 2, 3]
     \<and> field_bytes (sim_flash (world t)) 1 FW_UPGRADE_FWD_STATUS_E = [FW_UPGRADE_FWD_STATUS_VALID]"
proof -
  have apart: "rram_apart sim sim_flash" "flash_apart sim" "heap_never_full sim sim_flash"
    by (simp_all add: rram_apart_def flash_apart_def heap_never_full_def sim_def)
  obtain f1 f2 where fs: "file_systems sim sim_flash 0x400000 (world fs_state) = Some (f1, f2)"
    "img_start f1 = 0x20000" "img_size f1 = 0x1000" "img_start f2 = 0x28000" "img_size f2 = 0x2000"
    by (rule fs_state_systems)
  have "x = 0" if "x \<in> live_handles (partition_handles fs_state)" for x
    using that by (cases x) (auto simp: live_handles_def fs_state_def fs_mem_def no_client_def)
  then have "live_handles (partition_handles fs_state) \<subseteq> {0}"
    by blast
  then have room: "card (live_handles (partition_handles fs_state)) \<le> 8"
    using card_mono [of "{0}" "live_handles (partition_handles fs_state)"] by simp
  have layout: "fs_layout 0x400000 g1 g2 \<and> regions_apart sample_client g1 \<and> regions_apart sample_client g2"
    if "file_systems sim sim_flash 0x400000 (world fs_state) = Some (g1, g2)" for g1 g2
    using that fs by (simp add: fs_layout_def regions_apart_def sample_client_def)
  have "sha256 sim [1, 2, 3] = replicate 32 6"
    by (simp add: sim_def)
  moreover have "field_bytes (sim_flash (world fs_state)) 1 FW_UPGRADE_FWD_STATUS_E = [0xFF]"
    by (simp add: field_bytes_def slice_def fs_state_def fs_mem_def sim_state_def flash_image_erased)
  ultimately show ?thesis
    using last_packet_decides [OF fs_state_mid apart, of 1 "[1, 2, 3]" False "\<lambda>_. True"] room layout fs(1)
    by (simp add: fs_cxt_def packet_cxt_def zero_context_def sample_client_def app_hdr_def word_less_nat_alt
        FW_UPGRADE_FWD_STATUS_VALID_def numeral_3_eq_3 [symmetric]) blast
qed

end
