(* ===== verification/Img_Mgmt.thy ===== *)
theory Img_Mgmt
  imports Fw_Process
begin

text \<open>
  \<open>src/common/mcumgr_qcom/src/qcom_img_mgmt.c\<close>: the handlers of the MCUmgr image group. The CBOR codec is a
  library: a request arrives as the result of \<open>zcbor_map_decode_bulk\<close> (its return code, the number of
  decoded keys, the values of the keys), and a response is the list of items put, each accepted or not by
  the encoder \<open>enc_ok\<close>, a parameter.
\<close>

section \<open>Types\<close>

datatype mgmt_err =
    MGMT_ERR_EOK
  | MGMT_ERR_EUNKNOWN
  | MGMT_ERR_ENOMEM
  | MGMT_ERR_EINVAL
  | MGMT_ERR_ETIMEOUT
  | MGMT_ERR_ENOENT
  | MGMT_ERR_EBADSTATE
  | MGMT_ERR_EBUSY

fun mgmt_code :: "mgmt_err \<Rightarrow> u32" where
  "mgmt_code MGMT_ERR_EOK = 0"
| "mgmt_code MGMT_ERR_EUNKNOWN = 1"
| "mgmt_code MGMT_ERR_ENOMEM = 2"
| "mgmt_code MGMT_ERR_EINVAL = 3"
| "mgmt_code MGMT_ERR_ETIMEOUT = 4"
| "mgmt_code MGMT_ERR_ENOENT = 5"
| "mgmt_code MGMT_ERR_EBADSTATE = 6"
| "mgmt_code MGMT_ERR_EBUSY = 10"

datatype cbor =
    Tstr string
  | Uint u32
  | Cbool bool
  | List_start u32
  | List_end u32
  | Map_start
  | Map_end

type_synonym encoder = "cbor list \<Rightarrow> cbor \<Rightarrow> bool"

text \<open>The globals of the file, with the output of the response being built.\<close>

record 'd img_st = "'d session_st" +
  upload_offset :: u32
  img_flash_dev :: bool
  img_reset_scheduled :: bool
  cbor_out :: "cbor list"

text \<open>One call of the encoder, and a conjunction \<open>put && put && ...\<close> of them.\<close>

definition zcbor_put :: "encoder \<Rightarrow> cbor \<Rightarrow> (('d, 'z) img_st_scheme, bool) state" where
  "zcbor_put enc_ok x = do {
     out \<leftarrow> gets cbor_out;
     if enc_ok out x then do { modify (\<lambda>s. s\<lparr>cbor_out := out @ [x]\<rparr>); State_Monad.return True }
     else State_Monad.return False
   }"

fun zcbor_puts :: "encoder \<Rightarrow> cbor list \<Rightarrow> (('d, 'z) img_st_scheme, bool) state" where
  "zcbor_puts enc_ok [] = State_Monad.return True"
| "zcbor_puts enc_ok (x # xs) = do {
     ok \<leftarrow> zcbor_put enc_ok x;
     if ok then zcbor_puts enc_ok xs else State_Monad.return False
   }"

definition put_rc :: "encoder \<Rightarrow> mgmt_err \<Rightarrow> (('d, 'z) img_st_scheme, bool) state" where
  "put_rc enc_ok e = zcbor_puts enc_ok [Tstr ''rc'', Uint (mgmt_code e)]"

definition put_rc_off :: "encoder \<Rightarrow> u32 \<Rightarrow> (('d, 'z) img_st_scheme, bool) state" where
  "put_rc_off enc_ok off = zcbor_puts enc_ok [Tstr ''rc'', Uint 0, Tstr ''off'', Uint off]"

definition eok_if :: "bool \<Rightarrow> mgmt_err" where
  "eok_if ok = (if ok then MGMT_ERR_EOK else MGMT_ERR_ENOMEM)"

section \<open>State of the slots\<close>

record slot_flags =
  sf_bootable :: bool
  sf_active :: bool
  sf_confirmed :: bool
  sf_permanent :: bool
  sf_pending :: bool

text \<open>
  The flags of one slot. \<open>have_trial\<close> is \<open>ret == FW_UPGRADE_OK_E\<close>, \<open>t\<close> the indices the search returned,
  \<open>active\<close> the running descriptor.
\<close>

definition slot_flags_of ::
  "bool \<Rightarrow> trial_index \<Rightarrow> u8 \<Rightarrow> u8 \<Rightarrow> fwd_summary \<Rightarrow> slot_flags" where
  "slot_flags_of have_trial t active slot d =
     (if sum_magic d = FW_UPGRADE_MAGIC_V1 \<and> sum_status d = FW_UPGRADE_FWD_STATUS_VALID
         \<and> sum_images d > 0 \<and> sum_images d \<noteq> 0xFF
      then \<lparr>sf_bootable = True, sf_active = (slot = active),
            sf_confirmed = (\<not> (have_trial \<and> slot = ti_trial t)
              \<and> (slot = ti_current t \<or> sum_rank d = FW_UPGRADE_FWD_RANK_GOLDEN)),
            sf_permanent = (\<not> (have_trial \<and> slot = ti_trial t) \<and> sum_rank d = FW_UPGRADE_FWD_RANK_GOLDEN),
            sf_pending = (have_trial \<and> slot = ti_trial t)\<rparr>
      else \<lparr>sf_bootable = False, sf_active = False, sf_confirmed = False, sf_permanent = False,
            sf_pending = False\<rparr>)"

text \<open>\<open>snprintf("%u")\<close>.\<close>

fun decimal :: "nat \<Rightarrow> string" where
  "decimal n = (if n < 10 then [char_of (48 + n)] else decimal (n div 10) @ [char_of (48 + n mod 10)])"

declare decimal.simps [simp del]

definition version_string :: "u32 \<Rightarrow> string" where
  "version_string v = decimal (unat v) @ ''.0.0''"

definition slot_items :: "u8 \<Rightarrow> u32 \<Rightarrow> slot_flags \<Rightarrow> cbor list" where
  "slot_items slot version f = [Map_start, Tstr ''slot'', Uint (ucast slot)]
     @ (if sf_bootable f
        then [Tstr ''version'', Tstr (version_string version), Tstr ''bootable'', Cbool (sf_bootable f),
              Tstr ''pending'', Cbool (sf_pending f), Tstr ''confirmed'', Cbool (sf_confirmed f),
              Tstr ''active'', Cbool (sf_active f), Tstr ''permanent'', Cbool (sf_permanent f)]
        else [])
     @ [Map_end]"

text \<open>The loop over the slots; a slot that cannot be read is left out. \<open>False\<close>: an encode failed.\<close>

fun state_slots ::
  "'d platform \<Rightarrow> encoder \<Rightarrow> bool \<Rightarrow> trial_index \<Rightarrow> u8 \<Rightarrow> u8 list \<Rightarrow> (('d, 'z) img_st_scheme, bool) state" where
  "state_slots P enc_ok have_trial t active [] = State_Monad.return True"
| "state_slots P enc_ok have_trial t active (slot # slots) = do {
     d \<leftarrow> read_fwd_summary P slot;
     case d of
       None \<Rightarrow> state_slots P enc_ok have_trial t active slots
     | Some d \<Rightarrow> do {
         (r, b) \<leftarrow> fw_upgrade_get_fwd_info P slot FW_UPGRADE_FWD_VERSION_E;
         let version = (if r \<noteq> FW_UPGRADE_OK_E then 0 else le32 (the b));
         ok \<leftarrow> zcbor_puts enc_ok (slot_items slot version (slot_flags_of have_trial t active slot d));
         if \<not> ok then State_Monad.return False
         else state_slots P enc_ok have_trial t active slots
       }
   }"

definition qcom_img_mgmt_state_read ::
  "'d platform \<Rightarrow> encoder \<Rightarrow> (('d, 'z) img_st_scheme, mgmt_err) state" where
  "qcom_img_mgmt_state_read P enc_ok = do {
     rc \<leftarrow> fw_upgrade_init P;
     if rc \<noteq> FW_UPGRADE_OK_E then State_Monad.return MGMT_ERR_EUNKNOWN
     else do {
       _ \<leftarrow> fw_upgrade_display_fwd P;
       config \<leftarrow> gets FWD_SUPPORT_NUM;
       (ret, t) \<leftarrow> fw_upgrade_get_trial_active_fwd_index P;
       (active, _, _) \<leftarrow> fw_upgrade_get_active_fwd P False False;
       ok \<leftarrow> zcbor_puts enc_ok [Tstr ''images'', List_start config];
       if \<not> ok then State_Monad.return MGMT_ERR_ENOMEM
       else do {
         ok \<leftarrow> state_slots P enc_ok (ret = FW_UPGRADE_OK_E) t active (u8_upto 0 (unat config));
         if \<not> ok then State_Monad.return MGMT_ERR_ENOMEM
         else do {
           ok \<leftarrow> zcbor_puts enc_ok [List_end config, Tstr ''splitStatus'', Uint 0];
           State_Monad.return (eok_if ok)
         }
       }
     }
   }"

section \<open>Confirming\<close>

text \<open>
  \<open>decode_rc\<close> is what \<open>zcbor_map_decode_bulk\<close> returned (0 for success, as the library documents). The
  code stores it in a \<open>bool\<close> and takes false for failure.
\<close>

definition qcom_img_mgmt_state_write ::
  "'d platform \<Rightarrow> encoder \<Rightarrow> int \<Rightarrow> bool \<Rightarrow> (('d, 'z) img_st_scheme, mgmt_err) state" where
  "qcom_img_mgmt_state_write P enc_ok decode_rc confirm = do {
     let ok = (decode_rc \<noteq> 0);
     if \<not> ok then State_Monad.return MGMT_ERR_EINVAL
     else do {
       ret \<leftarrow> (if confirm then fw_upgrade_session_done P 1 else State_Monad.return FW_UPGRADE_OK_E);
       if confirm \<and> ret \<noteq> FW_UPGRADE_OK_E then do {
         _ \<leftarrow> put_rc enc_ok MGMT_ERR_EUNKNOWN;
         State_Monad.return MGMT_ERR_EUNKNOWN
       } else do {
         when_m confirm (modify (\<lambda>s. s\<lparr>img_reset_scheduled := True\<rparr>));
         ok \<leftarrow> put_rc enc_ok MGMT_ERR_EOK;
         State_Monad.return (eok_if ok)
       }
     }
   }"

section \<open>Upload\<close>

text \<open>The error mapping behind the label \<open>err\<close>.\<close>

definition upload_error :: "fw_status \<Rightarrow> mgmt_err" where
  "upload_error rc =
     (if rc = FW_UPGRADE_ERR_INCORRECT_IMAGE_CHECKSUM_E \<or> rc = FW_UPGRADE_ERR_INSUFFICIENT_MEMORY_E
         \<or> rc = FW_UPGRADE_ERR_FLASH_NOT_ENOUGH_SPACE_E then MGMT_ERR_ENOMEM
      else if rc = FW_UPGRADE_ERR_INVALID_PARAM_E \<or> rc = FW_UPGRADE_ERR_INCORRECT_IMAGE_HDR_E
         \<or> rc = FW_UPGRADE_ERR_INCORRECT_IMAGE_LENGTH_E then MGMT_ERR_EINVAL
      else if rc = FW_UPGRADE_ERR_FLASH_WRITE_FAIL_E \<or> rc = FW_UPGRADE_ERR_FLASH_ERASE_FAIL_E
         \<or> rc = FW_UPGRADE_ERR_FLASH_READ_FAIL_E then MGMT_ERR_EUNKNOWN
      else if rc = FW_UPGRADE_ERR_SESSION_IN_PROGRESS_E \<or> rc = FW_UPGRADE_ERR_TRIAL_IS_RUNNING_E
      then MGMT_ERR_EBUSY
      else if rc = FW_UPGRADE_ERR_SESSION_NOT_START_E \<or> rc = FW_UPGRADE_ERR_NOT_INIT_E
      then MGMT_ERR_EBADSTATE
      else if rc = FW_UPGRADE_ERR_SERVER_RSP_TIMEOUT_E \<or> rc = FW_UPGRADE_ERR_FLASH_INIT_TIMEOUT_E
      then MGMT_ERR_ETIMEOUT
      else MGMT_ERR_EUNKNOWN)"

text \<open>
  What a segment is against the expected offset: a duplicate to acknowledge, a gap, or bytes to pass on,
  given by how many to skip. The sums are those of \<open>uint32_t\<close>, and of \<open>size_t\<close> on this 32-bit target.
\<close>

datatype segment = Seg_duplicate | Seg_gap | Seg_process u32

definition classify_segment :: "u32 \<Rightarrow> u32 \<Rightarrow> u32 \<Rightarrow> segment" where
  "classify_segment expected off len =
     (if off < expected then
        if off + len \<le> expected then Seg_duplicate else Seg_process (expected - off)
      else if off > expected then Seg_gap
      else Seg_process 0)"

definition upload_reply :: "encoder \<Rightarrow> u32 \<Rightarrow> (('d, 'z) img_st_scheme, mgmt_err) state" where
  "upload_reply enc_ok off = do {
     ok \<leftarrow> put_rc_off enc_ok off;
     State_Monad.return (eok_if ok)
   }"

definition qcom_img_mgmt_upload ::
  "'d platform \<Rightarrow> bool \<Rightarrow> (u32 \<Rightarrow> bool) \<Rightarrow> encoder \<Rightarrow> int \<Rightarrow> u32 \<Rightarrow> bytes \<Rightarrow>
   (('d, 'z) img_st_scheme, mgmt_err) state" where
  "qcom_img_mgmt_upload P no_fs al enc_ok decode_rc off data = do {
     if decode_rc \<noteq> 0 then State_Monad.return MGMT_ERR_EINVAL
     else do {
       when_m (off = 0) (modify (\<lambda>s. s\<lparr>upload_offset := 0\<rparr>));
       expected \<leftarrow> gets upload_offset;
       let len = (of_nat (length data) :: u32);
       case classify_segment expected off len of
         Seg_duplicate \<Rightarrow> upload_reply enc_ok expected
       | Seg_gap \<Rightarrow> upload_reply enc_ok expected
       | Seg_process skip \<Rightarrow>
           if len - skip > 0 then do {
             rc \<leftarrow> fw_upgrade_session_process P no_fs al expected (drop (unat skip) data);
             if rc \<noteq> FW_UPGRADE_OK_E then do {
               _ \<leftarrow> put_rc enc_ok (upload_error rc);
               State_Monad.return (upload_error rc)
             } else do {
               modify (\<lambda>s. s\<lparr>upload_offset := expected + (len - skip)\<rparr>);
               upload_reply enc_ok (off + len)
             }
           } else upload_reply enc_ok (off + len)
     }
   }"

section \<open>Erase\<close>

text \<open>
  The slot of the request counts only if the decoder returned a nonzero code. The handler then maps the
  status twice: to a positive MCUmgr code first, and that against \<open>-EPERM\<close> and \<open>-ENOENT\<close>, which it never is.
\<close>

definition erase_slot :: "int \<Rightarrow> nat \<Rightarrow> u32 \<Rightarrow> u32" where
  "erase_slot decode_rc decoded slot = (if decode_rc = 0 \<or> decoded = 0 then 1 else slot)"

definition erase_rc :: "fw_status \<Rightarrow> int" where
  "erase_rc rc = (if rc = FW_UPGRADE_OK_E then 0
     else if rc = FW_UPGRADE_ERR_INVALID_PARAM_E then 3
     else if rc = FW_UPGRADE_ERR_NOT_INIT_E then 5
     else if rc = FW_UPGRADE_ERROR_E then 4
     else 1)"

definition erase_error :: "int \<Rightarrow> mgmt_err" where
  "erase_error rc = (if rc = - 1 then MGMT_ERR_EBADSTATE else if rc = - 2 then MGMT_ERR_ENOENT
     else MGMT_ERR_EUNKNOWN)"

definition qcom_img_mgmt_erase ::
  "'d platform \<Rightarrow> encoder \<Rightarrow> int \<Rightarrow> nat \<Rightarrow> u32 \<Rightarrow> (('d, 'z) img_st_scheme, mgmt_err) state" where
  "qcom_img_mgmt_erase P enc_ok decode_rc decoded req_slot = do {
     let slot = erase_slot decode_rc decoded req_slot;
     config \<leftarrow> gets FWD_SUPPORT_NUM;
     if slot \<ge> config then do {
       _ \<leftarrow> put_rc enc_ok MGMT_ERR_EINVAL;
       State_Monad.return MGMT_ERR_EINVAL
     } else do {
       r \<leftarrow> fw_upgrade_init P;
       rc \<leftarrow> (if r \<noteq> FW_UPGRADE_OK_E then State_Monad.return 3
             else do { e \<leftarrow> fw_upgrade_erase_fwd P (ucast slot); State_Monad.return (erase_rc e) });
       if rc \<noteq> 0 then do {
         _ \<leftarrow> put_rc enc_ok (erase_error rc);
         State_Monad.return (erase_error rc)
       } else do {
         ok \<leftarrow> put_rc enc_ok MGMT_ERR_EOK;
         State_Monad.return (eok_if ok)
       }
     }
   }"

section \<open>Initialisation\<close>

text \<open>\<open>False\<close> is the null pointer; a device found not ready is still stored, and returned next time.\<close>

definition get_flash_device :: "'d platform \<Rightarrow> (('d, 'z) img_st_scheme, bool) state" where
  "get_flash_device P = do {
     s \<leftarrow> State_Monad.get;
     if img_flash_dev s then State_Monad.return True
     else if \<not> flash_node_okay P then State_Monad.return False
     else do {
       modify (\<lambda>s. s\<lparr>img_flash_dev := True\<rparr>);
       State_Monad.return (device_is_ready P (world s))
     }
   }"

definition qcom_img_mgmt_init :: "'d platform \<Rightarrow> (('d, 'z) img_st_scheme, int) state" where
  "qcom_img_mgmt_init P = do {
     modify (\<lambda>s. s\<lparr>upload_offset := 0\<rparr>);
     _ \<leftarrow> get_flash_device P;
     State_Monad.return 0
   }"

end
