(* ===== verification/Img_Mgmt_Proofs.thy ===== *)
theory Img_Mgmt_Proofs
  imports Img_Mgmt Fw_Session_Frame Fw_Packet_Proofs
begin

text \<open>
  The MCUmgr handlers: an upload passes the bytes of the image on in order and once each, the flags of
  a slot are consistent, and what the confirm and erase handlers do with the return code of the decoder.
\<close>

section \<open>The response\<close>

lemma wp_zcbor_puts:
  "(\<And>ok out. Q ok (s\<lparr>cbor_out := out\<rparr>)) \<Longrightarrow> wp (zcbor_puts enc_ok xs) Q s"
proof (induction xs arbitrary: s)
  case Nil
  from Nil [of True "cbor_out s"] show ?case by (simp add: wp_simps)
next
  case (Cons x xs)
  from Cons.prems [of False "cbor_out s"]
  have no: "Q False s" by simp
  have rec: "wp (zcbor_puts enc_ok xs) Q (s\<lparr>cbor_out := cbor_out s @ [x]\<rparr>)"
    by (rule Cons.IH) (use Cons.prems in simp)
  with no show ?case by (simp add: wp_simps zcbor_put_def)
qed

lemma wp_put_rc: "(\<And>ok out. Q ok (s\<lparr>cbor_out := out\<rparr>)) \<Longrightarrow> wp (put_rc enc_ok e) Q s"
  unfolding put_rc_def by (rule wp_zcbor_puts)

lemma wp_upload_reply: "(\<And>r out. Q r (s\<lparr>cbor_out := out\<rparr>)) \<Longrightarrow> wp (upload_reply enc_ok off) Q s"
  unfolding upload_reply_def put_rc_off_def wp_bind wp_return by (rule wp_zcbor_puts)

section \<open>Upload\<close>

text \<open>\<open>data\<close> is the segment of the image \<open>D\<close> at \<open>off\<close>: what a correct client sends.\<close>

definition segment_of :: "bytes \<Rightarrow> u32 \<Rightarrow> bytes \<Rightarrow> bool" where
  "segment_of D off data \<longleftrightarrow> unat off + length data \<le> length D
     \<and> data = take (length data) (drop (unat off) D)"

lemma segment_drop:
  assumes "segment_of D off data" and "unat off \<le> e" and "e \<le> unat off + length data"
  shows "drop (e - unat off) data = take (unat off + length data - e) (drop e D)"
proof -
  have "drop (e - unat off) data = drop (e - unat off) (take (length data) (drop (unat off) D))"
    using assms(1) by (simp add: segment_of_def)
  also have "\<dots> = take (length data - (e - unat off)) (drop (e - unat off + unat off) D)"
    by (simp add: drop_take)
  finally show ?thesis using assms(2,3) by (simp add: Nat.diff_diff_right add.commute)
qed

text \<open>What the classification means for a segment of an image shorter than \<open>2 ^ 32\<close>.\<close>

lemma classify_segment_spec:
  assumes "unat off + unat len < 2 ^ 32"
  shows "classify_segment e off len =
    (if unat e < unat off then Seg_gap
     else if unat off + unat len \<le> unat e \<and> off \<noteq> e then Seg_duplicate
     else Seg_process (e - off))"
proof (cases "off = e")
  case False
  then have "unat off \<noteq> unat e" by (simp add: word_unat_eq_iff)
  with False assms unat_add_nowrap [of off len] show ?thesis
    by (auto simp: classify_segment_def word_less_nat_alt word_le_nat_alt)
qed (simp add: classify_segment_def)

lemma session_keeps_offset:
  "run_state (fw_upgrade_session_process P no_fs al off data) s = (rc, u) \<Longrightarrow>
   upload_offset u = upload_offset s \<and> cbor_out u = cbor_out s"
proof -
  assume "run_state (fw_upgrade_session_process P no_fs al off data) s = (rc, u)"
  then have "session_st.more u = session_st.more s"
    by (rule keepsD [OF above_session.keeps_session_process refl])
  then show ?thesis by (cases u, cases s) simp
qed

text \<open>
  One request of a client that sends segments of one image is handled in exactly one of two ways. Either
  nothing but the response changes and the expected offset stays (a duplicate, a gap or an empty segment), or
  the upgrade session is run on exactly the next bytes of the image from the expected offset on, and that
  offset moves past them if and only if the session accepted them.
\<close>

lemma upload_request:
  assumes "segment_of D off data" and "length D < 2 ^ 32"
    and "e = (if off = 0 then 0 else upload_offset s)"
    and "run_state (qcom_img_mgmt_upload P no_fs al enc_ok 0 off data) s = (r, t)"
  shows "t = s\<lparr>upload_offset := e, cbor_out := cbor_out t\<rparr>
      \<and> (unat off + length data \<le> unat e \<or> unat e < unat off)
    \<or> (\<exists>n rc u. 0 < n \<and> unat off \<le> unat e \<and> unat e + n = unat off + length data
        \<and> run_state (fw_upgrade_session_process P no_fs al e (take n (drop (unat e) D))) (s\<lparr>upload_offset := e\<rparr>) = (rc, u)
        \<and> t = u\<lparr>upload_offset := (if rc = FW_UPGRADE_OK_E then e + of_nat n else e), cbor_out := cbor_out t\<rparr>
        \<and> (rc \<noteq> FW_UPGRADE_OK_E \<longrightarrow> r = upload_error rc))"
    (is "?idle \<or> ?fed")
proof -
  let ?s = "s\<lparr>upload_offset := e\<rparr>" and ?len = "of_nat (length data) :: u32"
  have start: "run_state (when_m (off = 0) (modify (\<lambda>s. s\<lparr>upload_offset := 0\<rparr>))) s = ((), ?s)"
    using assms(3) by simp
  have small: "unat off + length data \<le> length D" using assms(1) by (simp add: segment_of_def)
  have len: "unat ?len = length data" using small assms(2) by (simp add: unat_of_nat)
  note cls = classify_segment_spec [of off ?len e, unfolded len]
  have fits: "unat off + length data < 2 ^ 32" using small assms(2) by simp
  have run: "wp (case classify_segment e off ?len of
         Seg_duplicate \<Rightarrow> upload_reply enc_ok e
       | Seg_gap \<Rightarrow> upload_reply enc_ok e
       | Seg_process skip \<Rightarrow>
           if ?len - skip > 0 then do {
             rc \<leftarrow> fw_upgrade_session_process P no_fs al e (drop (unat skip) data);
             if rc \<noteq> FW_UPGRADE_OK_E then do {
               _ \<leftarrow> put_rc enc_ok (upload_error rc);
               State_Monad.return (upload_error rc)
             } else do {
               modify (\<lambda>s. s\<lparr>upload_offset := e + (?len - skip)\<rparr>);
               upload_reply enc_ok (off + ?len)
             }
           } else upload_reply enc_ok (off + ?len)) (\<lambda>r' t'. r' = r \<and> t' = t) ?s"
    using assms(4) start
    by (simp add: wp_def qcom_img_mgmt_upload_def run_bind Let_def cong: segment.case_cong if_cong)
  show ?thesis
  proof (cases "unat off \<le> unat e \<and> unat e < unat off + length data")
    case False
    have "classify_segment e off ?len = Seg_gap \<or> classify_segment e off ?len = Seg_duplicate
        \<or> classify_segment e off ?len = Seg_process 0 \<and> ?len = 0"
      using False cls [OF fits] by (cases "off = e") (auto simp: word_unat_eq_iff [symmetric])
    then have "wp (upload_reply enc_ok (if classify_segment e off ?len = Seg_process 0 then off + ?len else e))
        (\<lambda>r' t'. r' = r \<and> t' = t) ?s"
      using run by auto
    moreover have "wp (upload_reply enc_ok x) (\<lambda>r' t'. t' = s\<lparr>upload_offset := e, cbor_out := cbor_out t'\<rparr>) ?s" for x
      by (rule wp_upload_reply) simp
    ultimately have "t = s\<lparr>upload_offset := e, cbor_out := cbor_out t\<rparr>"
      by (fastforce simp: wp_def split: prod.splits)
    then show ?thesis using False by auto
  next
    case True
    define n where "n = unat off + length data - unat e"
    then have n: "0 < n" "unat e + n = unat off + length data" using True by simp_all
    have le: "off \<le> e" using True by (simp add: word_le_nat_alt)
    have skip: "unat (e - off) = unat e - unat off" by (rule unat_sub [OF le])
    have "?len - (e - off) = of_nat n"
    proof -
      have "unat (?len - (e - off)) = length data - (unat e - unat off)"
        using True len skip by (subst unat_sub) (auto simp: word_le_nat_alt)
      then show ?thesis using n(2) True fits by (simp add: word_unat_eq_iff unat_of_nat)
    qed
    moreover have "drop (unat (e - off)) data = take n (drop (unat e) D)"
      unfolding skip n_def using True by (intro segment_drop [OF assms(1)]) simp_all
    moreover have "(of_nat n :: u32) > 0"
      using n fits by (simp add: word_less_nat_alt unat_of_nat)
    moreover have "classify_segment e off ?len = Seg_process (e - off)"
      using True cls [OF fits] by auto
    moreover obtain rc u where p: "run_state (fw_upgrade_session_process P no_fs al e (take n (drop (unat e) D))) ?s = (rc, u)"
      by (metis prod.exhaust)
    ultimately have run': "wp (if rc \<noteq> FW_UPGRADE_OK_E then do {
               _ \<leftarrow> put_rc enc_ok (upload_error rc);
               State_Monad.return (upload_error rc)
             } else do {
               modify (\<lambda>s. s\<lparr>upload_offset := e + of_nat n\<rparr>);
               upload_reply enc_ok (off + ?len)
             }) (\<lambda>r' t'. r' = r \<and> t' = t) u"
      using run by (simp add: wp_bind wp_run [OF p] cong: if_cong)
    have keep: "upload_offset u = e" using session_keeps_offset [OF p] by simp
    have "wp (if rc \<noteq> FW_UPGRADE_OK_E then do {
               _ \<leftarrow> put_rc enc_ok (upload_error rc);
               State_Monad.return (upload_error rc)
             } else do {
               modify (\<lambda>s. s\<lparr>upload_offset := e + of_nat n\<rparr>);
               upload_reply enc_ok (off + ?len)
             }) (\<lambda>r' t'. t' = u\<lparr>upload_offset := (if rc = FW_UPGRADE_OK_E then e + of_nat n else e), cbor_out := cbor_out t'\<rparr>
                 \<and> (rc \<noteq> FW_UPGRADE_OK_E \<longrightarrow> r' = upload_error rc)) u"
      using keep by (auto simp: wp_simps intro!: wp_put_rc wp_upload_reply)
    with run' have "t = u\<lparr>upload_offset := (if rc = FW_UPGRADE_OK_E then e + of_nat n else e), cbor_out := cbor_out t\<rparr>
        \<and> (rc \<noteq> FW_UPGRADE_OK_E \<longrightarrow> r = upload_error rc)"
      by (auto simp: wp_def split: prod.splits)
    with n p True show ?thesis by blast
  qed
qed


text \<open>A client's requests: offset, alignment of the buffer, segment.\<close>

type_synonym request = "u32 \<times> (u32 \<Rightarrow> bool) \<times> bytes"

primrec upload_all :: "'d platform \<Rightarrow> bool \<Rightarrow> encoder \<Rightarrow> request list \<Rightarrow> (('d, 'z) img_st_scheme, mgmt_err list) state" where
  "upload_all P no_fs enc_ok [] = State_Monad.return []"
| "upload_all P no_fs enc_ok (x # xs) = do {
     r \<leftarrow> qcom_img_mgmt_upload P no_fs (fst (snd x)) enc_ok 0 (fst x) (snd (snd x));
     rs \<leftarrow> upload_all P no_fs enc_ok xs;
     State_Monad.return (r # rs)
   }"

text \<open>
  What such a run does to the session: responses are written, and the session is called, always with the offset
  the module expects; the bytes and the result of each call are listed. An accepted call moves the offset by its
  length, and nothing else moves it.
\<close>

type_synonym session_call = "bytes \<times> fw_status"

inductive session_calls :: "'d platform \<Rightarrow> bool \<Rightarrow> ('d, 'z) img_st_scheme \<Rightarrow> session_call list \<Rightarrow> ('d, 'z) img_st_scheme \<Rightarrow> bool"
  for P no_fs where
  none: "session_calls P no_fs s [] s"
| reply: "session_calls P no_fs (s\<lparr>cbor_out := out\<rparr>) cs t \<Longrightarrow> session_calls P no_fs s cs t"
| call: "run_state (fw_upgrade_session_process P no_fs al (upload_offset s) b) s = (rc, u) \<Longrightarrow>
     session_calls P no_fs
       (u\<lparr>upload_offset := (if rc = FW_UPGRADE_OK_E then upload_offset s + of_nat (length b) else upload_offset s)\<rparr>) cs t \<Longrightarrow>
     session_calls P no_fs s ((b, rc) # cs) t"

text \<open>
  Which calls the requests ask for, from the expected offset \<open>e\<close> on: a request whose segment reaches over
  that offset is one call with the rest of the segment, and any other request is none.
\<close>

fun passed_on :: "bytes \<Rightarrow> nat \<Rightarrow> request list \<Rightarrow> session_call list \<Rightarrow> bool" where
  "passed_on D e [] cs = (cs = [])"
| "passed_on D e ((off, al, data) # xs) cs =
    (if unat off \<le> e \<and> e < unat off + length data then
       (case cs of [] \<Rightarrow> False
        | (b, rc) # ds \<Rightarrow> b = take (unat off + length data - e) (drop e D)
            \<and> passed_on D (if rc = FW_UPGRADE_OK_E then unat off + length data else e) xs ds)
     else passed_on D e xs cs)"

definition accepted_bytes :: "session_call list \<Rightarrow> bytes" where
  "accepted_bytes cs = concat (map fst (filter (\<lambda>c. snd c = FW_UPGRADE_OK_E) cs))"

lemma accepted_simps [simp]:
  "accepted_bytes [] = []" "accepted_bytes ((b, rc) # cs) = (if rc = FW_UPGRADE_OK_E then b @ accepted_bytes cs else accepted_bytes cs)"
  by (simp_all add: accepted_bytes_def)

text \<open>So the session gets the bytes of the image in order, and none of those it accepted again.\<close>

lemma accepted_passed_on:
  assumes "passed_on D e xs cs" and "\<forall>x \<in> set xs. segment_of D (fst x) (snd (snd x))"
  shows "accepted_bytes cs = take (length (accepted_bytes cs)) (drop e D)"
  using assms
proof (induction D e xs cs rule: passed_on.induct)
  case (2 D e off al data xs cs)
  show ?case
  proof (cases "unat off \<le> e \<and> e < unat off + length data")
    case True
    let ?n = "unat off + length data - e"
    obtain b rc ds where cs: "cs = (b, rc) # ds" "b = take ?n (drop e D)"
      "passed_on D (if rc = FW_UPGRADE_OK_E then unat off + length data else e) xs ds"
      using 2(3) True by (auto split: list.splits)
    have rest: "accepted_bytes ds = take (length (accepted_bytes ds))
        (drop (if rc = FW_UPGRADE_OK_E then unat off + length data else e) D)"
      using 2(1) [OF True cs(1) refl cs(3)] 2(4) by simp
    have end_at: "e + ?n = unat off + length data"
      using True by simp
    have len: "length b = ?n"
      using 2(4) True cs(2) by (auto simp: segment_of_def)
    show ?thesis
    proof (cases "rc = FW_UPGRADE_OK_E")
      case ok: True
      then have "accepted_bytes ds = take (length (accepted_bytes ds)) (drop ?n (drop e D))"
        using rest True by (simp add: add.commute)
      then have "b @ accepted_bytes ds = take (?n + length (accepted_bytes ds)) (drop e D)"
        unfolding take_add cs(2) by simp
      then show ?thesis
        unfolding cs(1) accepted_simps ok simp_thms if_True length_append len .
    next
      case False
      with rest show ?thesis
        by (simp add: cs(1))
    qed
  next
    case False
    with 2 show ?thesis
      by auto
  qed
qed simp

lemma upload_request_calls:
  assumes "segment_of D off data" and "length D < 2 ^ 32"
    and "e = (if off = 0 then 0 else upload_offset s)"
    and "run_state (qcom_img_mgmt_upload P no_fs al enc_ok 0 off data) s = (r, t)"
  shows "\<exists>cs. session_calls P no_fs (s\<lparr>upload_offset := e\<rparr>) cs t
    \<and> unat (upload_offset t) = unat e + length (accepted_bytes cs)
    \<and> (\<forall>xs ds. passed_on D (unat (upload_offset t)) xs ds \<longrightarrow> passed_on D (unat e) ((off, al, data) # xs) (cs @ ds))"
proof -
  let ?s = "s\<lparr>upload_offset := e\<rparr>"
  from upload_request [OF assms] consider
      "t = s\<lparr>upload_offset := e, cbor_out := cbor_out t\<rparr>" "\<not> (unat off \<le> unat e \<and> unat e < unat off + length data)"
    | n rc u where "0 < n" "unat e + n = unat off + length data"
        "run_state (fw_upgrade_session_process P no_fs al e (take n (drop (unat e) D))) ?s = (rc, u)"
        "unat off \<le> unat e"
        "t = u\<lparr>upload_offset := (if rc = FW_UPGRADE_OK_E then e + of_nat n else e), cbor_out := cbor_out t\<rparr>"
    by (auto simp: not_le not_less)
  then show ?thesis
  proof cases
    case 1
    have "session_calls P no_fs ?s [] t"
      by (rule session_calls.reply [where out = "cbor_out t"], subst 1(1)) (rule session_calls.none)
    moreover have "upload_offset t = e"
      by (subst 1(1)) simp
    ultimately show ?thesis
      using 1(2) by (intro exI [of _ "[]"]) auto
  next
    case 2
    let ?b = "take n (drop (unat e) D)"
    have len: "length ?b = n" and small: "unat e + n < 2 ^ 32"
      using 2(2) assms(1,2) by (auto simp: segment_of_def)
    let ?u = "u\<lparr>upload_offset := (if rc = FW_UPGRADE_OK_E then e + of_nat n else e)\<rparr>"
    have off: "upload_offset ?s = e"
      by simp
    have "session_calls P no_fs ?u [] t"
      by (rule session_calls.reply [where out = "cbor_out t"], subst 2(5)) (rule session_calls.none)
    then have "session_calls P no_fs (u\<lparr>upload_offset := (if rc = FW_UPGRADE_OK_E
        then upload_offset ?s + of_nat (length ?b) else upload_offset ?s)\<rparr>) [] t"
      unfolding off len .
    moreover have "run_state (fw_upgrade_session_process P no_fs al (upload_offset ?s) ?b) ?s = (rc, u)"
      using 2(3) by simp
    ultimately have "session_calls P no_fs ?s [(?b, rc)] t"
      by (rule session_calls.call [rotated])
    moreover have "unat (e + of_nat n) = unat e + n"
      using small by (subst unat_add_nowrap) (simp_all add: unat_of_nat)
    then have "unat (upload_offset t) = unat e + (if rc = FW_UPGRADE_OK_E then n else 0)"
      by (subst 2(5)) simp
    moreover have "unat off + length data - unat e = n"
      using 2(2) by simp
    ultimately show ?thesis
      using len 2(1,2,4) by (intro exI [of _ "[(?b, rc)]"]) auto
  qed
qed

lemma session_calls_append:
  "session_calls P no_fs s cs t \<Longrightarrow> session_calls P no_fs t ds u \<Longrightarrow> session_calls P no_fs s (cs @ ds) u"
  by (induction rule: session_calls.induct) (auto intro: session_calls.intros)

lemma accepted_append [simp]: "accepted_bytes (cs @ ds) = accepted_bytes cs @ accepted_bytes ds"
  by (simp add: accepted_bytes_def)

lemma upload_all_calls:
  assumes "\<forall>x \<in> set xs. fst x \<noteq> 0 \<and> segment_of D (fst x) (snd (snd x))" and "length D < 2 ^ 32"
    and "run_state (upload_all P no_fs enc_ok xs) s = (rs, t)"
  shows "\<exists>cs. session_calls P no_fs s cs t \<and> passed_on D (unat (upload_offset s)) xs cs
    \<and> unat (upload_offset t) = unat (upload_offset s) + length (accepted_bytes cs)"
  using assms(1,3)
proof (induction xs arbitrary: s rs)
  case Nil
  then show ?case
    by (intro exI [of _ "[]"]) (auto simp: run_simps intro: session_calls.none)
next
  case (Cons x xs)
  obtain r u where x: "run_state (qcom_img_mgmt_upload P no_fs (fst (snd x)) enc_ok 0 (fst x) (snd (snd x))) s = (r, u)"
    by (metis prod.exhaust)
  obtain rs' where xs: "run_state (upload_all P no_fs enc_ok xs) u = (rs', t)"
    using Cons.prems(2) x by (auto simp: run_simps split: prod.splits)
  have seg: "segment_of D (fst x) (snd (snd x))" "fst x \<noteq> 0"
    using Cons.prems(1) by simp_all
  obtain cs where cs: "session_calls P no_fs s cs u"
    "unat (upload_offset u) = unat (upload_offset s) + length (accepted_bytes cs)"
    "\<And>xs ds. passed_on D (unat (upload_offset u)) xs ds \<Longrightarrow>
      passed_on D (unat (upload_offset s)) ((fst x, fst (snd x), snd (snd x)) # xs) (cs @ ds)"
    using upload_request_calls [OF seg(1) assms(2) refl x] seg(2) by auto
  obtain ds where "session_calls P no_fs u ds t" "passed_on D (unat (upload_offset u)) xs ds"
    "unat (upload_offset t) = unat (upload_offset u) + length (accepted_bytes ds)"
    using Cons.IH [OF _ xs] Cons.prems(1) by auto
  with cs(1,2) cs(3) [of xs ds] show ?case
    by (intro exI [of _ "cs @ ds"]) (auto intro: session_calls_append)
qed

text \<open>
  C35: A client sends segments of one image, in any order, with repetitions and gaps, only its first request
  possibly at offset 0, where the upload starts over. Then the upgrade session is called exactly for the
  requests that reach over the offset expected then, each time with the bytes from that offset on; the offset
  moves past them if and only if the session accepts them; and the bytes accepted are exactly those of the image
  from the first expected offset to the last, in order, each of them once.
\<close>

theorem upload_in_order:
  assumes "\<forall>y \<in> set (x # xs). segment_of D (fst y) (snd (snd y))" and "\<forall>y \<in> set xs. fst y \<noteq> 0" and "length D < 2 ^ 32"
    and "e = (if fst x = 0 then 0 else upload_offset s)"
    and "run_state (upload_all P no_fs enc_ok (x # xs)) s = (rs, t)"
  shows "\<exists>cs. session_calls P no_fs (s\<lparr>upload_offset := e\<rparr>) cs t \<and> passed_on D (unat e) (x # xs) cs
    \<and> unat e \<le> unat (upload_offset t)
    \<and> accepted_bytes cs = take (unat (upload_offset t) - unat e) (drop (unat e) D)"
proof -
  obtain r u where x: "run_state (qcom_img_mgmt_upload P no_fs (fst (snd x)) enc_ok 0 (fst x) (snd (snd x))) s = (r, u)"
    by (metis prod.exhaust)
  obtain rs' where xs: "run_state (upload_all P no_fs enc_ok xs) u = (rs', t)"
    using assms(5) x by (auto simp: run_simps split: prod.splits)
  have seg: "segment_of D (fst x) (snd (snd x))" "\<forall>y \<in> set xs. fst y \<noteq> 0 \<and> segment_of D (fst y) (snd (snd y))"
    using assms(1,2) by simp_all
  obtain cs where cs: "session_calls P no_fs (s\<lparr>upload_offset := e\<rparr>) cs u"
    "unat (upload_offset u) = unat e + length (accepted_bytes cs)"
    "\<And>xs ds. passed_on D (unat (upload_offset u)) xs ds \<Longrightarrow>
      passed_on D (unat e) ((fst x, fst (snd x), snd (snd x)) # xs) (cs @ ds)"
    using upload_request_calls [OF seg(1) assms(3,4) x] by blast
  obtain ds where ds: "session_calls P no_fs u ds t" "passed_on D (unat (upload_offset u)) xs ds"
    "unat (upload_offset t) = unat (upload_offset u) + length (accepted_bytes ds)"
    using upload_all_calls [OF seg(2) assms(3) xs] by blast
  have calls: "passed_on D (unat e) (x # xs) (cs @ ds)"
    using cs(3) [OF ds(2)] by simp
  have "unat (upload_offset t) = unat e + length (accepted_bytes (cs @ ds))"
    using cs(2) ds(3) by simp
  then show ?thesis
    using session_calls_append [OF cs(1) ds(1)] calls accepted_passed_on [OF calls assms(1)]
    by (intro exI [of _ "cs @ ds"]) simp
qed

definition img_of :: "'d mem_st \<Rightarrow> 'd img_st" where
  "img_of s = \<lparr>world = world s, faulted = faulted s, stuck = stuck s, flash_adapter_dev = flash_adapter_dev s,
     flash_initialized = flash_initialized s, density_in_blocks = density_in_blocks s,
     fu_initialized = fu_initialized s, partition_handles = partition_handles s,
     fw_upgrade_mem_params = fw_upgrade_mem_params s, FWD_SUPPORT_NUM = FWD_SUPPORT_NUM s,
     sess_cxt = None, image_hdrs = None, mutex_init = False, reset_scheduled = False,
     upload_offset = 0, img_flash_dev = True, img_reset_scheduled = False, cbor_out = []\<rparr>"

lemma img_of_ready: "mem_ready P cells M s \<Longrightarrow> mem_ready P cells M (img_of s)"
  by (simp add: mem_ready_def adapter_ready_def img_of_def)

text \<open>A request inside an image that is being received: the session accepts the new bytes.\<close>

lemma mid_image_reply:
  "mid_image P cells M k p hs c got s \<Longrightarrow> mid_image P cells M k p hs c got (s\<lparr>upload_offset := x, cbor_out := out\<rparr>)"
  by (simp add: mid_image_def receiving_def flash_partition_def mem_ready_def adapter_ready_def)

lemma upload_accepted:
  assumes mid: "mid_image P cells M k p hs c got s" and seg: "segment_of D off data" "length D < 2 ^ 32"
    and off: "off \<noteq> 0" "unat off \<le> unat (upload_offset s)" "unat (upload_offset s) < unat off + length data"
    and room: "length got + length data < unat (image_wrt_length c)"
  obtains r c' t where "run_state (qcom_img_mgmt_upload P no_fs al enc_ok 0 off data) s = (r, t)"
    "mid_image P cells M k p hs c' (got @ take (unat off + length data - unat (upload_offset s)) (drop (unat (upload_offset s)) D)) t"
    "unat (upload_offset t) = unat off + length data" "image_wrt_length c' = image_wrt_length c"
proof -
  let ?e = "upload_offset s"
  obtain r t where run: "run_state (qcom_img_mgmt_upload P no_fs al enc_ok 0 off data) s = (r, t)"
    by (metis prod.exhaust)
  obtain n rc u where u: "0 < n" "unat ?e + n = unat off + length data"
      "run_state (fw_upgrade_session_process P no_fs al ?e (take n (drop (unat ?e) D))) s = (rc, u)"
      "t = u\<lparr>upload_offset := (if rc = FW_UPGRADE_OK_E then ?e + of_nat n else ?e), cbor_out := cbor_out t\<rparr>"
    using upload_request [OF seg _ run, of ?e] off by auto
  let ?b = "take n (drop (unat ?e) D)"
  have len: "length ?b = n" and small: "unat ?e + n < 2 ^ 32" and n: "unat off + length data - unat ?e = n"
    using u(2) seg by (auto simp: segment_of_def)
  have fed: "?e \<noteq> 0" "?b \<noteq> []"
    using off(1,2) len u(1) by (auto simp: word_le_nat_alt [symmetric])
  have "length got + length ?b < unat (image_wrt_length c)"
    using room len u(2) off(2) by simp
  from session_packet [OF mid fed this, of no_fs al] obtain c' t' where
      s: "run_state (fw_upgrade_session_process P no_fs al ?e ?b) s = (FW_UPGRADE_OK_E, t')"
        "mid_image P cells M k p hs c' (got @ ?b) t'" "image_wrt_length c' = image_wrt_length c"
    by metis
  have t: "t = t'\<lparr>upload_offset := ?e + of_nat n, cbor_out := cbor_out t\<rparr>"
    using u(3,4) s(1) by simp
  have "unat (?e + of_nat n) = unat off + length data"
    using small u(2) by (subst unat_add_nowrap) (simp_all add: unat_of_nat)
  then have "unat (upload_offset t) = unat off + length data"
    by (subst t) simp
  moreover have "mid_image P cells M k p hs c' (got @ ?b) t"
    by (subst t) (rule mid_image_reply [OF s(2)])
  ultimately show ?thesis
    using run s(3) n by (intro that [of r t c']) simp_all
qed

text \<open>Four requests in the middle of an image: the next bytes, an overlap, a gap and a repetition.\<close>

definition sample_image :: bytes where
  "sample_image = [5, 6, 7, 8, 9, 10, 11, 12]"

definition sample_requests :: "request list" where
  "sample_requests = [(2, \<lambda>_. True, [7, 8]), (3, \<lambda>_. True, [8, 9]), (6, \<lambda>_. True, [11, 12]), (2, \<lambda>_. True, [7, 8])]"

definition upload_state :: "sim_world img_st" where
  "upload_state = (img_of io_state)\<lparr>sess_cxt := Some (packet_cxt 5000),
     image_hdrs := Some [app_hdr\<lparr>ih_hash := replicate 32 6\<rparr>], mutex_init := True, upload_offset := 2\<rparr>"

lemma upload_state_mid:
  "mid_image sim sim_flash 0x400000 0 sample_client [app_hdr\<lparr>ih_hash := replicate 32 6\<rparr>] (packet_cxt 5000) [] upload_state"
proof -
  have "flash_partition 0x400000 upload_state 0 sample_client"
    using io_state_partition by (simp add: flash_partition_def upload_state_def img_of_def)
  moreover have "mem_ready sim sim_flash 0x400000 upload_state"
    using img_of_ready [OF io_state_ready] by (simp add: upload_state_def mem_ready_def adapter_ready_def)
  moreover have "holds_upto (sim_flash (world upload_state)) sample_client [] (block_end 1)"
    by (simp add: holds_upto_def slice_def upload_state_def img_of_def io_state_def sim_state_def flash_image_def)
  ultimately show ?thesis
    by (simp add: mid_image_def receiving_def packet_cxt_def zero_context_def upload_state_def sample_client_def
        FW_UPGRADE_FORAMT_PARTIAL_UPGRADE_def)
qed

lemma upload_ignored:
  assumes "segment_of D off data" "length D < 2 ^ 32" "off \<noteq> 0"
    and "\<not> (unat off \<le> unat (upload_offset s) \<and> unat (upload_offset s) < unat off + length data)"
  obtains r out where
    "run_state (qcom_img_mgmt_upload P no_fs al enc_ok 0 off data) s = (r, s\<lparr>cbor_out := out\<rparr>)"
proof -
  obtain r t where run: "run_state (qcom_img_mgmt_upload P no_fs al enc_ok 0 off data) s = (r, t)"
    by (metis prod.exhaust)
  have "t = s\<lparr>cbor_out := cbor_out t\<rparr>"
    using upload_request [OF assms(1,2) _ run, of "upload_offset s"] assms(3,4) by auto
  with run show ?thesis
    by (metis that)
qed

lemma sample_requests_run:
  obtains rs t c where "run_state (upload_all sim False (\<lambda>_ _. True) sample_requests) upload_state = (rs, t)"
    "unat (upload_offset t) = 5"
    "mid_image sim sim_flash 0x400000 0 sample_client [app_hdr\<lparr>ih_hash := replicate 32 6\<rparr>] c [7, 8, 9] t"
proof -
  let ?up = "qcom_img_mgmt_upload sim False (\<lambda>_. True) (\<lambda>_ _. True) 0"
  have size: "length sample_image < 2 ^ 32" and start: "unat (upload_offset upload_state) = 2"
    by (simp_all add: sample_image_def upload_state_def)
  have segs: "segment_of sample_image 2 [7, 8]" "segment_of sample_image 3 [8, 9]" "segment_of sample_image 6 [11, 12]"
    by (simp_all add: segment_of_def sample_image_def)
  obtain r1 c1 t1 where 1: "run_state (?up 2 [7, 8]) upload_state = (r1, t1)"
      "mid_image sim sim_flash 0x400000 0 sample_client [app_hdr\<lparr>ih_hash := replicate 32 6\<rparr>] c1 [7, 8] t1"
      "unat (upload_offset t1) = 4" "image_wrt_length c1 = 5000"
    by (rule upload_accepted [OF upload_state_mid segs(1) size])
      (simp_all add: start sample_image_def packet_cxt_def)
  obtain r2 c2 t2 where 2: "run_state (?up 3 [8, 9]) t1 = (r2, t2)"
      "mid_image sim sim_flash 0x400000 0 sample_client [app_hdr\<lparr>ih_hash := replicate 32 6\<rparr>] c2 [7, 8, 9] t2"
      "unat (upload_offset t2) = 5"
    by (rule upload_accepted [OF 1(2) segs(2) size]) (simp_all add: 1(3,4) sample_image_def)
  have gap: "\<not> (unat (6 :: u32) \<le> unat (upload_offset t2) \<and> unat (upload_offset t2) < unat (6 :: u32) + length [11 :: u8, 12])"
    using 2(3) by simp
  obtain r3 o3 where 3: "run_state (?up 6 [11, 12]) t2 = (r3, t2\<lparr>cbor_out := o3\<rparr>)"
    by (rule upload_ignored [OF segs(3) size _ gap]) simp_all
  let ?t3 = "t2\<lparr>cbor_out := o3\<rparr>"
  have again: "\<not> (unat (2 :: u32) \<le> unat (upload_offset ?t3) \<and> unat (upload_offset ?t3) < unat (2 :: u32) + length [7 :: u8, 8])"
    using 2(3) by simp
  obtain r4 o4 where 4: "run_state (?up 2 [7, 8]) ?t3 = (r4, ?t3\<lparr>cbor_out := o4\<rparr>)"
    by (rule upload_ignored [OF segs(1) size _ again]) simp_all
  have "run_state (upload_all sim False (\<lambda>_ _. True) sample_requests) upload_state =
      ([r1, r2, r3, r4], t2\<lparr>upload_offset := upload_offset t2, cbor_out := o4\<rparr>)"
    using 1(1) 2(1) 3 4 by (simp add: sample_requests_def run_simps)
  then show ?thesis
    by (rule that [OF _ _ mid_image_reply [OF 2(2)]]) (simp add: 2(3))
qed

theorem upload_in_order_witness:
  "let t = snd (run_state (upload_all sim False (\<lambda>_ _. True) sample_requests) upload_state) in
     upload_offset t = 5 \<and> slice (sim_flash (world t)) 0x10000 3 = [7, 8, 9]
     \<and> (\<exists>cs. session_calls sim False upload_state cs t \<and> passed_on sample_image 2 sample_requests cs
          \<and> accepted_bytes cs = [7, 8, 9])"
proof -
  obtain rs t c where run: "run_state (upload_all sim False (\<lambda>_ _. True) sample_requests) upload_state = (rs, t)"
      "unat (upload_offset t) = 5"
      "mid_image sim sim_flash 0x400000 0 sample_client [app_hdr\<lparr>ih_hash := replicate 32 6\<rparr>] c [7, 8, 9] t"
    by (rule sample_requests_run)
  obtain x xs where xs: "sample_requests = x # xs"
    by (simp add: sample_requests_def)
  have segs: "\<forall>y \<in> set (x # xs). segment_of sample_image (fst y) (snd (snd y))" "\<forall>y \<in> set xs. fst y \<noteq> 0" "fst x \<noteq> 0"
    using xs by (auto simp: sample_requests_def segment_of_def sample_image_def)
  have "\<exists>cs. session_calls sim False (upload_state\<lparr>upload_offset := 2\<rparr>) cs t \<and> passed_on sample_image (unat (2 :: u32)) (x # xs) cs
      \<and> unat (2 :: u32) \<le> unat (upload_offset t)
      \<and> accepted_bytes cs = take (unat (upload_offset t) - unat (2 :: u32)) (drop (unat (2 :: u32)) sample_image)"
    by (rule upload_in_order [OF segs(1,2) _ _ run(1) [unfolded xs]])
      (use segs(3) in \<open>simp_all add: sample_image_def upload_state_def\<close>)
  moreover have "upload_state\<lparr>upload_offset := 2\<rparr> = upload_state"
    by (simp add: upload_state_def)
  ultimately have "\<exists>cs. session_calls sim False upload_state cs t \<and> passed_on sample_image 2 sample_requests cs
      \<and> accepted_bytes cs = [7, 8, 9]"
    using run(2) by (simp add: xs sample_image_def)
  moreover have "upload_offset t = 5"
    using run(2) by (simp add: word_unat_eq_iff)
  moreover have "slice (sim_flash (world t)) 0x10000 3 = [7, 8, 9]"
    using mid_imageD(1) [OF run(3)] by (simp add: receiving_def holds_upto_def sample_client_def numeral_3_eq_3)
  ultimately show ?thesis
    using run(1) by (simp add: Let_def)
qed

section \<open>State\<close>

text \<open>
  The flags a slot is reported with are consistent: only a bootable slot carries any, a pending slot
  (the trial) is neither confirmed nor permanent, a permanent slot is confirmed, and at most one slot is
  pending and at most one active.
\<close>

theorem slot_flags_consistent:
  assumes "f = slot_flags_of have_trial t active slot d" and "f' = slot_flags_of have_trial t active slot' d'"
  shows "(sf_active f \<or> sf_confirmed f \<or> sf_permanent f \<or> sf_pending f \<longrightarrow> sf_bootable f)
    \<and> (sf_pending f \<longrightarrow> \<not> sf_confirmed f \<and> \<not> sf_permanent f)
    \<and> (sf_permanent f \<longrightarrow> sf_confirmed f)
    \<and> (sf_bootable f \<longleftrightarrow> fwd_usable d)
    \<and> (slot \<noteq> slot' \<longrightarrow> \<not> (sf_pending f \<and> sf_pending f') \<and> \<not> (sf_active f \<and> sf_active f'))"
  unfolding assms by (auto simp: slot_flags_of_def fwd_usable_def)

theorem slot_flags_consistent_witness:
  "\<not> sf_confirmed (slot_flags_of True \<lparr>ti_trial = 1, ti_current = 0, ti_rank = 5\<rparr> 1 1
      (summary_of (sample_fwd 0xFFFFFFFF 1 [\<lparr>image_id = 10, start_block = 3, total_blocks = 1, img_version = 1\<rparr>])))"
proof -
  let ?d = "summary_of (sample_fwd 0xFFFFFFFF 1 [\<lparr>image_id = 10, start_block = 3, total_blocks = 1, img_version = 1\<rparr>])"
  have "sf_pending (slot_flags_of True \<lparr>ti_trial = 1, ti_current = 0, ti_rank = 5\<rparr> 1 1 ?d)"
    by (simp add: slot_flags_of_def summary_of_def sample_fwd_def FW_UPGRADE_FWD_STATUS_VALID_def word_gt_0)
  then show ?thesis
    using slot_flags_consistent [OF refl refl, of True "\<lparr>ti_trial = 1, ti_current = 0, ti_rank = 5\<rparr>" 1 1 ?d 0 ?d]
    by simp
qed

section \<open>Confirm and erase\<close>

text \<open>
  A confirm request that decodes without an error is refused as invalid and changes nothing: the
  handler takes the decoder's success code 0 for failure.
\<close>

theorem confirm_refused:
  "run_state (qcom_img_mgmt_state_write P enc_ok 0 confirm) s = (MGMT_ERR_EINVAL, s)"
  by (simp add: qcom_img_mgmt_state_write_def)

text \<open>
  An erase request that decodes without an error erases descriptor 1, whatever slot it names, and
  leaves descriptors 0 and 2 as they were.
\<close>

theorem erase_always_slot_one:
  assumes "mem_ready P cells M s" and "1 < FWD_SUPPORT_NUM s"
  shows "\<exists>t. snd (run_state (qcom_img_mgmt_erase P enc_ok 0 decoded slot) s) = t
    \<and> \<not> fwd_usable (summary_of (desc cells t 1)) \<and> desc cells t 0 = desc cells s 0 \<and> desc cells t 2 = desc cells s 2"
proof -
  note r = mem_readyD [OF assms(1)]
  let ?t = "erased P (ucast (1 :: u8)) 1 s"
  have one: "(1 :: u8) < 3" by (simp add: word_less_nat_alt)
  note e = run_erase_fwd [OF assms(1) one]
  have c: "cells (world ?t) = erase_cells (cells (world s)) 4096 4096" using e(2) by simp
  have "wp (qcom_img_mgmt_erase P enc_ok 0 decoded slot) (\<lambda>_ u. world u = world ?t) s"
    using assms(2) e(1)
    by (auto simp: qcom_img_mgmt_erase_def erase_slot_def Let_def wp_simps wp_run [OF run_init [OF r(4,7)]]
        wp_def [of "fw_upgrade_erase_fwd P 1"] erase_rc_def not_le [symmetric] intro!: wp_put_rc)
  then have w: "world (snd (run_state (qcom_img_mgmt_erase P enc_ok 0 decoded slot) s)) = world ?t"
    by (simp add: wp_def split_beta)
  show ?thesis
    using erased_unusable [OF e(2)] erased_other [of 0 1] erased_other [of 2 1] c by (simp add: w)
qed

theorem erase_always_slot_one_witness:
  "\<not> fwd_usable (summary_of (desc sim_flash
     (snd (run_state (qcom_img_mgmt_erase sim (\<lambda>_ _. True) 0 1 2) (img_of (sim_state [] [] 3)))) 1))"
proof -
  have "mem_ready sim sim_flash 0x400000 (img_of (sim_state [] [] 3))"
    by (rule img_of_ready [OF sim_state_ready])
  from erase_always_slot_one [OF this, of "\<lambda>_ _. True" 1 2] show ?thesis
    by (simp add: img_of_def word_less_nat_alt)
qed

end
