(* ===== verification/Qcspi.thy ===== *)
theory Qcspi
  imports Fw_Codec
begin

text \<open>
  The SPI driver of the QCC730 host: \<open>qcspi_protocol.h\<close> and \<open>qcspi_driver.c\<close> of
  \<open>src/qcspi_app/qcc730_host/Service/qcspi\<close>. The platform and OS services it calls (the board's SPI
  transfer, delays, locks) are the fields of a record; logging is left out.
\<close>

section \<open>The services below the host\<close>

text \<open>The kernel objects of the host by their role; the number is the ring they belong to.\<close>

datatype osal_object = Qcspi_Mutex | Tx_Lock nat | Rx_Lock nat | Tx_Sem nat | Rx_Sem nat

text \<open>
  \<open>'w\<close> is the state of everything below: the board, the kernel and the slave on the bus. A transfer is
  given the bytes to send and whether the chip select stays asserted, and returns the status and the
  bytes received, as many as were sent. A new work item is known by a number.
\<close>

record 'w host_port =
  qc_platform_init :: "'w \<Rightarrow> int \<times> 'w"
  qc_platform_spi_transceive :: "'w \<Rightarrow> bytes \<Rightarrow> bool \<Rightarrow> int \<times> bytes \<times> 'w"
  qc_osal_usleep :: "'w \<Rightarrow> u32 \<Rightarrow> 'w"
  qc_osal_msleep :: "'w \<Rightarrow> u32 \<Rightarrow> 'w"
  qc_osal_mutex_init :: "'w \<Rightarrow> osal_object \<Rightarrow> int \<times> 'w"
  qc_osal_mutex_lock :: "'w \<Rightarrow> osal_object \<Rightarrow> u32 \<Rightarrow> int \<times> 'w"
  qc_osal_mutex_unlock :: "'w \<Rightarrow> osal_object \<Rightarrow> int \<times> 'w"
  qc_osal_sem_init :: "'w \<Rightarrow> osal_object \<Rightarrow> u32 \<Rightarrow> int \<times> 'w"
  qc_osal_sem_take :: "'w \<Rightarrow> osal_object \<Rightarrow> u32 \<Rightarrow> int \<times> 'w"
  qc_osal_sem_give :: "'w \<Rightarrow> osal_object \<Rightarrow> int \<times> 'w"
  qc_osal_work_queue_init :: "'w \<Rightarrow> int \<times> 'w"
  qc_osal_work_init :: "'w \<Rightarrow> (int \<times> nat) \<times> 'w"
  qc_osal_work_submit :: "'w \<Rightarrow> nat option \<Rightarrow> int \<times> 'w"

record 'w host_st =
  hw :: 'w

text \<open>A call of a service with the state of the world threaded through.\<close>

definition below :: "('w \<Rightarrow> 'a \<times> 'w) \<Rightarrow> (('w, 'z) host_st_scheme, 'a) state" where
  "below f = do {
     w \<leftarrow> gets hw;
     let (x, w') = f w;
     modify (\<lambda>s. s\<lparr>hw := w'\<rparr>);
     State_Monad.return x
   }"

definition delay_us :: "'w host_port \<Rightarrow> u32 \<Rightarrow> (('w, 'z) host_st_scheme, unit) state" where
  "delay_us P us = modify (\<lambda>s. s\<lparr>hw := qc_osal_usleep P (hw s) us\<rparr>)"

definition delay_ms :: "'w host_port \<Rightarrow> u32 \<Rightarrow> (('w, 'z) host_st_scheme, unit) state" where
  "delay_ms P ms = modify (\<lambda>s. s\<lparr>hw := qc_osal_msleep P (hw s) ms\<rparr>)"

definition mutex_lock :: "'w host_port \<Rightarrow> osal_object \<Rightarrow> u32 \<Rightarrow> (('w, 'z) host_st_scheme, int) state" where
  "mutex_lock P m timeout = below (\<lambda>w. qc_osal_mutex_lock P w m timeout)"

definition mutex_unlock :: "'w host_port \<Rightarrow> osal_object \<Rightarrow> (('w, 'z) host_st_scheme, unit) state" where
  "mutex_unlock P m = do { _ \<leftarrow> below (\<lambda>w. qc_osal_mutex_unlock P w m); State_Monad.return () }"

section \<open>Constants\<close>

definition SPI_CMDCODE_NOP :: u8 where "SPI_CMDCODE_NOP = 0x00"
definition SPI_CMDCODE_WREN :: u8 where "SPI_CMDCODE_WREN = 0x06"
definition SPI_CMDCODE_RESET_REQUEST_BYTE0 :: u8 where "SPI_CMDCODE_RESET_REQUEST_BYTE0 = 0xDA"
definition SPI_CMDCODE_RESET_REQUEST_BYTE1 :: u8 where "SPI_CMDCODE_RESET_REQUEST_BYTE1 = 0xBA"
definition SPI_CMDCODE_REQUEST_BYTE2 :: u8 where "SPI_CMDCODE_REQUEST_BYTE2 = 0x80"
definition SPI_CMDCODE_RDSR :: u8 where "SPI_CMDCODE_RDSR = 0x05"
definition SPI_CMDCODE_RDID :: u8 where "SPI_CMDCODE_RDID = 0x9F"
definition SPI_CMDCODE_FREAD :: u8 where "SPI_CMDCODE_FREAD = 0x0B"
definition SPI_CMDCODE_WRITE :: u8 where "SPI_CMDCODE_WRITE = 0x02"
definition SPI_CMDCODE_IRR :: u8 where "SPI_CMDCODE_IRR = 0x81"
definition SPI_CMDCODE_IRW :: u8 where "SPI_CMDCODE_IRW = 0x82"
definition SPI_SLAVE_RDSR :: u8 where "SPI_SLAVE_RDSR = 0x05"
definition SPI_SLAVE_CONFIG :: u8 where "SPI_SLAVE_CONFIG = 0x0C"
definition SPI_SLAVE_TRNS_LEN :: u8 where "SPI_SLAVE_TRNS_LEN = 0x50"
definition QCSPI_ID1 :: u8 where "QCSPI_ID1 = 0x7F"
definition QCSPI_ID2 :: u8 where "QCSPI_ID2 = 0x90"
definition QCSPI_MAX_INIT_TRY_TIMES :: nat where "QCSPI_MAX_INIT_TRY_TIMES = 50"
definition QCSPI_READ_DUMMY_BYTES :: nat where "QCSPI_READ_DUMMY_BYTES = 10"
definition QCSPI_MAX_TRANSFER_SIZE :: u16 where "QCSPI_MAX_TRANSFER_SIZE = 1500"
definition QCSPI_STATUS_BUSY_BIT :: nat where "QCSPI_STATUS_BUSY_BIT = 24"

definition QCSPI_CONFIG_HOST_IRQ_INT0_EN :: "u32 \<Rightarrow> u32" where
  "QCSPI_CONFIG_HOST_IRQ_INT0_EN s = push_bit 5 s"

definition QC_OSAL_EINVAL :: int where "QC_OSAL_EINVAL = 1"
definition QC_OSAL_ENODEV :: int where "QC_OSAL_ENODEV = 3"
definition QC_OSAL_EAGAIN :: int where "QC_OSAL_EAGAIN = 4"
definition QC_OSAL_ETIMEDOUT :: int where "QC_OSAL_ETIMEDOUT = 5"
definition QC_OSAL_EMSGSIZE :: int where "QC_OSAL_EMSGSIZE = 6"
definition QC_OSAL_EALREADY :: int where "QC_OSAL_EALREADY = 7"
definition QC_OSAL_TIMEOUT_NO_WAIT :: u32 where "QC_OSAL_TIMEOUT_NO_WAIT = 0"
definition QC_OSAL_TIMEOUT_FOREVER :: u32 where "QC_OSAL_TIMEOUT_FOREVER = - 1"

lemmas osal_errors = QC_OSAL_EINVAL_def QC_OSAL_ENODEV_def QC_OSAL_EAGAIN_def QC_OSAL_ETIMEDOUT_def
  QC_OSAL_EMSGSIZE_def QC_OSAL_EALREADY_def

section \<open>Transfers\<close>

definition spi_transceive :: "'w host_port \<Rightarrow> bytes \<Rightarrow> bool \<Rightarrow> (('w, 'z) host_st_scheme, int \<times> bytes) state" where
  "spi_transceive P tx hold = below (\<lambda>w. case qc_platform_spi_transceive P w tx hold of (r, rx, w') \<Rightarrow> ((r, rx), w'))"

definition qcspi_transfer_sg :: "'w host_port \<Rightarrow> bytes \<Rightarrow> (('w, 'z) host_st_scheme, int \<times> bytes) state" where
  "qcspi_transfer_sg P tx = spi_transceive P tx True"

definition qcspi_transfer :: "'w host_port \<Rightarrow> bytes \<Rightarrow> (('w, 'z) host_st_scheme, int \<times> bytes) state" where
  "qcspi_transfer P tx = spi_transceive P tx False"

definition qcspi_word_to_byte_big_endian :: "u32 \<Rightarrow> bytes" where
  "qcspi_word_to_byte_big_endian w =
     [ucast (drop_bit 24 w AND 0xFF), ucast (drop_bit 16 w AND 0xFF), ucast (drop_bit 8 w AND 0xFF), ucast (w AND 0xFF)]"

text \<open>\<open>(b[0] << 24) | (b[1] << 16) | (b[2] << 8) | b[3]\<close>, the word of four received bytes.\<close>

definition be32 :: "bytes \<Rightarrow> u32" where
  "be32 b = push_bit 24 (ucast (b ! 0)) OR push_bit 16 (ucast (b ! 1)) OR push_bit 8 (ucast (b ! 2)) OR ucast (b ! 3)"

section \<open>Registers\<close>

text \<open>The register operations write their out-parameter only on success.\<close>

definition qcspi_RDSR :: "'w host_port \<Rightarrow> (('w, 'z) host_st_scheme, int \<times> u32 option) state" where
  "qcspi_RDSR P = do {
     _ \<leftarrow> mutex_lock P Qcspi_Mutex QC_OSAL_TIMEOUT_FOREVER;
     (r, rx) \<leftarrow> qcspi_transfer P [SPI_SLAVE_RDSR, 0, 0, 0, 0];
     mutex_unlock P Qcspi_Mutex;
     State_Monad.return (if r < 0 then (r, None) else (0, Some (be32 (drop 1 rx))))
   }"

definition qcspi_IRR :: "'w host_port \<Rightarrow> u8 \<Rightarrow> (('w, 'z) host_st_scheme, int \<times> u32 option) state" where
  "qcspi_IRR P reg = do {
     _ \<leftarrow> mutex_lock P Qcspi_Mutex QC_OSAL_TIMEOUT_FOREVER;
     (r, rx) \<leftarrow> qcspi_transfer P [SPI_CMDCODE_IRR, reg, 0, 0, 0, 0, 0, 0];
     mutex_unlock P Qcspi_Mutex;
     State_Monad.return (if r < 0 then (r, None) else (0, Some (be32 (drop 4 rx))))
   }"

definition qcspi_IRW :: "'w host_port \<Rightarrow> u8 \<Rightarrow> u32 \<Rightarrow> (('w, 'z) host_st_scheme, int) state" where
  "qcspi_IRW P reg val = do {
     _ \<leftarrow> mutex_lock P Qcspi_Mutex QC_OSAL_TIMEOUT_FOREVER;
     (r, _) \<leftarrow> qcspi_transfer P (SPI_CMDCODE_IRW # reg # qcspi_word_to_byte_big_endian val);
     mutex_unlock P Qcspi_Mutex;
     State_Monad.return (if r < 0 then r else 0)
   }"

section \<open>Aligned reads and writes\<close>

text \<open>
  The loop after a transfer polls the status until the slave is no longer busy; it gives up at the 49th
  poll. \<open>retry\<close> is the value of the counter before the test of the loop.
\<close>

function qcspi_wait :: "'w host_port \<Rightarrow> nat \<Rightarrow> (('w, 'z) host_st_scheme, int) state" where
  "qcspi_wait P retry =
     (if retry < QCSPI_MAX_INIT_TRY_TIMES then do {
        (r, status) \<leftarrow> qcspi_RDSR P;
        if r = 0 \<and> \<not> bit (case status of None \<Rightarrow> 0 | Some v \<Rightarrow> v) QCSPI_STATUS_BUSY_BIT then State_Monad.return 0
        else if retry + 1 = QCSPI_MAX_INIT_TRY_TIMES - 1 then State_Monad.return (- QC_OSAL_ETIMEDOUT)
        else do { delay_us P 10; qcspi_wait P (retry + 1) }
      } else State_Monad.return 0)"
  by pat_completeness auto

termination
  by (relation "measure (\<lambda>(P, retry). QCSPI_MAX_INIT_TRY_TIMES - retry)") auto

declare qcspi_wait.simps [simp del]

definition fread_header :: "u32 \<Rightarrow> bytes" where
  "fread_header a = SPI_CMDCODE_FREAD # qcspi_word_to_byte_big_endian a @ replicate QCSPI_READ_DUMMY_BYTES 0xA5"

text \<open>The bytes received go to the caller's buffer whatever the status; \<open>size << 16\<close> is an \<open>int\<close> shift.\<close>

definition qcspi_read :: "'w host_port \<Rightarrow> u16 \<Rightarrow> u32 \<Rightarrow> (('w, 'z) host_st_scheme, int \<times> bytes) state" where
  "qcspi_read P sz a =
     (if sz > QCSPI_MAX_TRANSFER_SIZE then State_Monad.return (- QC_OSAL_EINVAL, [])
      else do {
        _ \<leftarrow> qcspi_IRW P SPI_SLAVE_TRNS_LEN (push_bit 16 (ucast sz));
        _ \<leftarrow> mutex_lock P Qcspi_Mutex QC_OSAL_TIMEOUT_FOREVER;
        (r, _) \<leftarrow> qcspi_transfer_sg P (fread_header a);
        if r < 0 then do {
          mutex_unlock P Qcspi_Mutex;
          State_Monad.return (r, [])
        } else do {
          (r, rx) \<leftarrow> qcspi_transfer P (replicate (unat sz) 0);
          mutex_unlock P Qcspi_Mutex;
          if r < 0 then State_Monad.return (r, rx)
          else do { r \<leftarrow> qcspi_wait P 0; State_Monad.return (r, rx) }
        }
      })"

definition write_header :: "u32 \<Rightarrow> bytes" where
  "write_header a = SPI_CMDCODE_WRITE # qcspi_word_to_byte_big_endian a"

definition qcspi_write :: "'w host_port \<Rightarrow> u16 \<Rightarrow> u32 \<Rightarrow> bytes \<Rightarrow> (('w, 'z) host_st_scheme, int) state" where
  "qcspi_write P sz a bs =
     (if sz > QCSPI_MAX_TRANSFER_SIZE then State_Monad.return (- QC_OSAL_EINVAL)
      else do {
        _ \<leftarrow> mutex_lock P Qcspi_Mutex QC_OSAL_TIMEOUT_FOREVER;
        (r, _) \<leftarrow> qcspi_transfer_sg P (write_header a);
        if r < 0 then do {
          mutex_unlock P Qcspi_Mutex;
          State_Monad.return r
        } else do {
          (r, _) \<leftarrow> qcspi_transfer P (take (unat sz) bs);
          mutex_unlock P Qcspi_Mutex;
          if r < 0 then State_Monad.return r else qcspi_wait P 0
        }
      })"

section \<open>Reads and writes of any alignment\<close>

definition word_aligned :: "u32 \<Rightarrow> u16 \<Rightarrow> bool" where
  "word_aligned a n \<longleftrightarrow> a AND 3 = 0 \<and> n mod 4 = 0"

text \<open>How many of \<open>n\<close> bytes at \<open>a\<close> lie in the word of \<open>a\<close>.\<close>

definition first_part :: "u32 \<Rightarrow> u16 \<Rightarrow> u32" where
  "first_part a n = (if 4 - (a AND 3) > ucast n then ucast n else 4 - (a AND 3))"

text \<open>The words in the middle, in bytes.\<close>

definition middle_part :: "u16 \<Rightarrow> u32 \<Rightarrow> u32" where
  "middle_part n got = (ucast n - got) AND 0xFFFFFFFC"

text \<open>The last word: what is left of the \<open>n\<close> bytes after the \<open>got\<close> in \<open>out\<close>.\<close>

definition read_last :: "'w host_port \<Rightarrow> u16 \<Rightarrow> u32 \<Rightarrow> u32 \<Rightarrow> bytes \<Rightarrow> (('w, 'z) host_st_scheme, int \<times> bytes) state" where
  "read_last P n got w out = do {
     (r, d) \<leftarrow> qcspi_read P 4 w;
     if r < 0 then State_Monad.return (r, out)
     else State_Monad.return (0, out @ take (unat (ucast n - got)) d)
   }"

definition qcspi_read_addr_align ::
  "'w host_port \<Rightarrow> u16 \<Rightarrow> u32 \<Rightarrow> (('w, 'z) host_st_scheme, int \<times> bytes) state" where
  "qcspi_read_addr_align P n a =
     (if word_aligned a n then qcspi_read P n a
      else do {
        let w = a AND 0xFFFFFFFC;
        (r, d) \<leftarrow> qcspi_read P 4 w;
        if r < 0 then State_Monad.return (r, [])
        else do {
          let got = first_part a n;
          let out = take (unat got) (drop (unat (a AND 3)) d);
          let w = w + 4;
          if got \<ge> ucast n then State_Monad.return (0, out)
          else if ucast n \<ge> got + 4 then do {
            let sz = middle_part n got;
            (r, d) \<leftarrow> qcspi_read P (ucast sz) w;
            if r < 0 then State_Monad.return (r, out)
            else if got + sz \<ge> ucast n then State_Monad.return (0, out @ d)
            else read_last P n (got + sz) (w + sz) (out @ d)
          } else read_last P n got w out
        }
      })"

text \<open>\<open>memcpy(dst + at, src, length src)\<close>.\<close>

definition splice :: "bytes \<Rightarrow> nat \<Rightarrow> bytes \<Rightarrow> bytes" where
  "splice dst at src = take at dst @ src @ drop (at + length src) dst"

definition write_last :: "'w host_port \<Rightarrow> u16 \<Rightarrow> u32 \<Rightarrow> u32 \<Rightarrow> bytes \<Rightarrow> (('w, 'z) host_st_scheme, int) state" where
  "write_last P n got w bs = do {
     (r, d) \<leftarrow> qcspi_read P 4 w;
     if r < 0 then State_Monad.return r
     else qcspi_write P 4 w (splice d 0 (take (unat (ucast n - got)) (drop (unat got) bs)))
   }"

definition qcspi_write_addr_align ::
  "'w host_port \<Rightarrow> u16 \<Rightarrow> u32 \<Rightarrow> bytes \<Rightarrow> (('w, 'z) host_st_scheme, int) state" where
  "qcspi_write_addr_align P n a bs =
     (if word_aligned a n then qcspi_write P n a bs
      else do {
        let w = a AND 0xFFFFFFFC;
        (r, d) \<leftarrow> qcspi_read P 4 w;
        if r < 0 then State_Monad.return r
        else do {
          let got = first_part a n;
          _ \<leftarrow> qcspi_transfer P [SPI_CMDCODE_NOP];
          r \<leftarrow> qcspi_write P 4 w (splice d (unat (a AND 3)) (take (unat got) bs));
          if r < 0 then State_Monad.return r
          else if got \<ge> ucast n then State_Monad.return 0
          else do {
            let w = w + 4;
            if ucast n \<ge> got + 4 then do {
              let sz = middle_part n got;
              r \<leftarrow> qcspi_write P (ucast sz) w (drop (unat got) bs);
              if r < 0 then State_Monad.return r
              else if got + sz \<ge> ucast n then State_Monad.return 0
              else write_last P n (got + sz) (w + sz) bs
            } else write_last P n got w bs
          }
        }
      })"

section \<open>Interrupt, identification, reset and initialisation\<close>

definition qcspi_interrupt :: "'w host_port \<Rightarrow> (('w, 'z) host_st_scheme, int) state" where
  "qcspi_interrupt P = do {
     (r, v) \<leftarrow> qcspi_IRR P SPI_SLAVE_CONFIG;
     if r < 0 then State_Monad.return r
     else do {
       let config = (case v of None \<Rightarrow> 0 | Some c \<Rightarrow> c);
       (already, config) \<leftarrow>
         (if config AND QCSPI_CONFIG_HOST_IRQ_INT0_EN 1 \<noteq> 0 then do {
            delay_ms P 10;
            (r, v) \<leftarrow> qcspi_IRR P SPI_SLAVE_CONFIG;
            let config = (case v of None \<Rightarrow> config | Some c \<Rightarrow> c);
            State_Monad.return (r = 0 \<and> config AND QCSPI_CONFIG_HOST_IRQ_INT0_EN 1 \<noteq> 0, config)
          } else State_Monad.return (False, config));
       if already then State_Monad.return 0
       else do {
         r \<leftarrow> qcspi_IRW P SPI_SLAVE_CONFIG (config OR QCSPI_CONFIG_HOST_IRQ_INT0_EN 1);
         State_Monad.return (if r < 0 then r else 0)
       }
     }
   }"

text \<open>Only a transfer that returns exactly 0 writes the three bytes.\<close>

definition qcspi_get_slaveid :: "'w host_port \<Rightarrow> (('w, 'z) host_st_scheme, bytes option) state" where
  "qcspi_get_slaveid P = do {
     _ \<leftarrow> qcspi_transfer P [SPI_CMDCODE_NOP];
     delay_ms P 1;
     _ \<leftarrow> qcspi_transfer P [SPI_CMDCODE_WREN];
     delay_ms P 1;
     (r, rx) \<leftarrow> qcspi_transfer P [SPI_CMDCODE_RDID, 0, 0, 0, 0, 0, 0];
     State_Monad.return (if r = 0 then Some [rx ! 0, rx ! 1, rx ! 2] else None)
   }"

definition qcspi_reset :: "'w host_port \<Rightarrow> (('w, 'z) host_st_scheme, unit) state" where
  "qcspi_reset P = do {
     _ \<leftarrow> qcspi_transfer P
       [SPI_CMDCODE_RESET_REQUEST_BYTE0, SPI_CMDCODE_RESET_REQUEST_BYTE1, SPI_CMDCODE_REQUEST_BYTE2, 0x00];
     delay_ms P 1;
     _ \<leftarrow> qcspi_RDSR P;
     delay_ms P 1
   }"

text \<open>The last transfer sends three bytes; its answer is only logged.\<close>

definition qcspi_init :: "'w host_port \<Rightarrow> (('w, 'z) host_st_scheme, int) state" where
  "qcspi_init P = do {
     r \<leftarrow> below (qc_platform_init P);
     if r < 0 then State_Monad.return r
     else do {
       _ \<leftarrow> below (\<lambda>w. qc_osal_mutex_init P w Qcspi_Mutex);
       _ \<leftarrow> qcspi_transfer P [SPI_CMDCODE_NOP];
       _ \<leftarrow> qcspi_transfer P [SPI_CMDCODE_WREN];
       _ \<leftarrow> qcspi_transfer P [SPI_CMDCODE_RDSR, 0, 0];
       State_Monad.return 0
     }
   }"

end
