(* ===== verification/Qcspi_Transport.thy ===== *)
theory Qcspi_Transport
  imports Qcspi
begin

text \<open>
  The transport layer of the QCC730 host: \<open>qcspi_transport.c\<close> and the dispatching helpers of
  \<open>ring_transport.h\<close> in \<open>src/qcspi_app/qcc730_host/Service/transport\<close>. The table of functions the
  helpers look up is the constant \<open>qcspi_transport_api\<close>, so each helper is the QCSPI operation. A length
  is a 32-bit \<open>size_t\<close>, cut to 16 bits on its way down.
\<close>

definition EINVAL :: int where "EINVAL = 22"
definition ENODEV :: int where "ENODEV = 19"

record 'w transport_st = "'w host_st" +
  transport_initialized :: bool

text \<open>\<open>ptr\<close> says whether the data pointer is not null; the bytes read are the second result.\<close>

definition qcspi_transport_read ::
  "'w host_port \<Rightarrow> bool \<Rightarrow> u32 \<Rightarrow> u32 \<Rightarrow> (('w, 'z) transport_st_scheme, int \<times> bytes) state" where
  "qcspi_transport_read P ptr a len =
     (if \<not> ptr \<or> len = 0 then State_Monad.return (- EINVAL, [])
      else do {
        up \<leftarrow> gets transport_initialized;
        if \<not> up then State_Monad.return (- ENODEV, [])
        else do {
          (r, d) \<leftarrow> qcspi_read_addr_align P (ucast len) a;
          State_Monad.return (if r < 0 then r else 0, d)
        }
      })"

definition qcspi_transport_write ::
  "'w host_port \<Rightarrow> u32 \<Rightarrow> bytes option \<Rightarrow> u32 \<Rightarrow> (('w, 'z) transport_st_scheme, int) state" where
  "qcspi_transport_write P a data len =
     (case data of
        None \<Rightarrow> State_Monad.return (- EINVAL)
      | Some bs \<Rightarrow>
          if len = 0 then State_Monad.return (- EINVAL)
          else do {
            up \<leftarrow> gets transport_initialized;
            if \<not> up then State_Monad.return (- ENODEV)
            else do {
              r \<leftarrow> qcspi_write_addr_align P (ucast len) a bs;
              State_Monad.return (if r < 0 then r else 0)
            }
          })"

definition qcspi_transport_interrupt :: "'w host_port \<Rightarrow> (('w, 'z) transport_st_scheme, int) state" where
  "qcspi_transport_interrupt P = do {
     up \<leftarrow> gets transport_initialized;
     if \<not> up then State_Monad.return (- ENODEV)
     else do {
       r \<leftarrow> qcspi_interrupt P;
       State_Monad.return (if r < 0 then r else 0)
     }
   }"

definition qcspi_transport_reg_read ::
  "'w host_port \<Rightarrow> bool \<Rightarrow> u8 \<Rightarrow> (('w, 'z) transport_st_scheme, int \<times> u32 option) state" where
  "qcspi_transport_reg_read P ptr reg =
     (if \<not> ptr then State_Monad.return (- EINVAL, None)
      else do {
        up \<leftarrow> gets transport_initialized;
        if \<not> up then State_Monad.return (- ENODEV, None)
        else do {
          (r, v) \<leftarrow> qcspi_IRR P reg;
          State_Monad.return (if r < 0 then r else 0, v)
        }
      })"

definition qcspi_transport_reg_write ::
  "'w host_port \<Rightarrow> u8 \<Rightarrow> u32 \<Rightarrow> (('w, 'z) transport_st_scheme, int) state" where
  "qcspi_transport_reg_write P reg val = do {
     up \<leftarrow> gets transport_initialized;
     if \<not> up then State_Monad.return (- ENODEV)
     else do {
       r \<leftarrow> qcspi_IRW P reg val;
       State_Monad.return (if r < 0 then r else 0)
     }
   }"

definition qcspi_transport_reset :: "'w host_port \<Rightarrow> (('w, 'z) transport_st_scheme, int) state" where
  "qcspi_transport_reset P = do {
     up \<leftarrow> gets transport_initialized;
     if \<not> up then State_Monad.return (- ENODEV)
     else do { qcspi_reset P; State_Monad.return 0 }
   }"

definition qcspi_transport_init :: "'w host_port \<Rightarrow> (('w, 'z) transport_st_scheme, int) state" where
  "qcspi_transport_init P = do {
     up \<leftarrow> gets transport_initialized;
     if up then State_Monad.return 0
     else do {
       r \<leftarrow> qcspi_init P;
       if r < 0 then State_Monad.return r
       else do {
         sid \<leftarrow> qcspi_get_slaveid P;
         let slave_id = (case sid of None \<Rightarrow> [0, 0, 0] | Some b \<Rightarrow> b);
         if slave_id ! 1 = QCSPI_ID1 \<and> slave_id ! 2 = QCSPI_ID2 then do {
           modify (\<lambda>s. s\<lparr>transport_initialized := True\<rparr>);
           State_Monad.return 0
         } else State_Monad.return (- ENODEV)
       }
     }
   }"

definition qcspi_transport_deinit :: "(('w, 'z) transport_st_scheme, int) state" where
  "qcspi_transport_deinit = do {
     up \<leftarrow> gets transport_initialized;
     when_m up (modify (\<lambda>s. s\<lparr>transport_initialized := False\<rparr>));
     State_Monad.return 0
   }"

definition qcspi_transport_is_initialized :: "(('w, 'z) transport_st_scheme, bool) state" where
  "qcspi_transport_is_initialized = gets transport_initialized"

text \<open>Whether the device pointer returned is not null.\<close>

definition qcspi_transport_get_device :: "(('w, 'z) transport_st_scheme, bool) state" where
  "qcspi_transport_get_device = gets transport_initialized"

definition ring_transport_read ::
  "'w host_port \<Rightarrow> bool \<Rightarrow> u32 \<Rightarrow> u32 \<Rightarrow> (('w, 'z) transport_st_scheme, int \<times> bytes) state" where
  "ring_transport_read P ptr a len = qcspi_transport_read P ptr a len"

definition ring_transport_write ::
  "'w host_port \<Rightarrow> u32 \<Rightarrow> bytes option \<Rightarrow> u32 \<Rightarrow> (('w, 'z) transport_st_scheme, int) state" where
  "ring_transport_write P a data len = qcspi_transport_write P a data len"

definition ring_transport_interrupt :: "'w host_port \<Rightarrow> (('w, 'z) transport_st_scheme, int) state" where
  "ring_transport_interrupt P = qcspi_transport_interrupt P"

definition ring_transport_reg_read ::
  "'w host_port \<Rightarrow> bool \<Rightarrow> u8 \<Rightarrow> (('w, 'z) transport_st_scheme, int \<times> u32 option) state" where
  "ring_transport_reg_read P ptr reg = qcspi_transport_reg_read P ptr reg"

definition ring_transport_reg_write ::
  "'w host_port \<Rightarrow> u8 \<Rightarrow> u32 \<Rightarrow> (('w, 'z) transport_st_scheme, int) state" where
  "ring_transport_reg_write P reg val = qcspi_transport_reg_write P reg val"

definition ring_transport_reset :: "'w host_port \<Rightarrow> (('w, 'z) transport_st_scheme, int) state" where
  "ring_transport_reset P = qcspi_transport_reset P"

definition ring_transport_init :: "'w host_port \<Rightarrow> (('w, 'z) transport_st_scheme, int) state" where
  "ring_transport_init P = qcspi_transport_init P"

definition ring_transport_deinit :: "(('w, 'z) transport_st_scheme, int) state" where
  "ring_transport_deinit = qcspi_transport_deinit"

end
