(* ===== verification/Ring_Types.thy ===== *)
theory Ring_Types
  imports Qcspi_Transport
begin

text \<open>
  \<open>src/qcspi_app/qcc730_host/Service/ring/ring_service.h\<close> and the globals of \<open>ring_service_host.c\<close>: the
  descriptor and the control block with their packed layouts, the statistics and the service's state.
\<close>

definition MAX_RINGS :: nat where "MAX_RINGS = 8"
definition RING_STATUS_VALID :: u8 where "RING_STATUS_VALID = 1"
definition RING_DESC_FLAG_VALID :: u16 where "RING_DESC_FLAG_VALID = 1"
definition RING_MAGIC_NUMBER :: u32 where "RING_MAGIC_NUMBER = 0x52494E47"
definition RING_VERSION :: u32 where "RING_VERSION = 0x00020000"
definition RING_STATUS_INITIALIZED :: u32 where "RING_STATUS_INITIALIZED = 1"
definition CONFIG_RING_CTRL_BLOCK_ADDR :: u32 where "CONFIG_RING_CTRL_BLOCK_ADDR = 0x9fc00"

record ring_descriptor =
  buffer_addr :: u32
  desc_length :: u16
  desc_flags :: u16

definition sizeof_ring_descriptor :: u32 where "sizeof_ring_descriptor = 8"

definition enc_desc :: "ring_descriptor \<Rightarrow> bytes" where
  "enc_desc d = bytes_le32 (buffer_addr d) @ bytes_le16 (desc_length d) @ bytes_le16 (desc_flags d)"

definition dec_desc :: "bytes \<Rightarrow> ring_descriptor" where
  "dec_desc bs = \<lparr>buffer_addr = le32_at bs 0, desc_length = le16_at bs 4, desc_flags = le16_at bs 6\<rparr>"

lemma length_enc_desc [simp]: "length (enc_desc d) = 8"
  by (simp add: enc_desc_def)

lemma dec_enc_desc [simp]: "dec_desc (enc_desc d) = d"
  by (simp add: enc_desc_def dec_desc_def le32_at_def le16_at_def)

interpretation desc_codec: codec enc_desc dec_desc 8 "\<lambda>_. True"
  by unfold_locales simp_all

record ring_control_block =
  magic :: u32
  cb_version :: u32
  num_rings :: u32
  tx_desc_base :: "u32 list"
  tx_desc_count :: "u32 list"
  tx_wr_idx :: "u32 list"
  tx_rd_idx :: "u32 list"
  tx_buf_size :: "u32 list"
  tx_buf_base :: "u32 list"
  rx_desc_base :: "u32 list"
  rx_desc_count :: "u32 list"
  rx_wr_idx :: "u32 list"
  rx_rd_idx :: "u32 list"
  rx_buf_size :: "u32 list"
  rx_buf_base :: "u32 list"
  ring_status :: "u8 list"
  cb_status :: u32
  cb_reserved :: "u32 list"

definition sizeof_ring_control_block :: u32 where "sizeof_ring_control_block = 440"

text \<open>The \<open>k\<close>-th array of eight words behind the three words of the header.\<close>

definition words_at :: "bytes \<Rightarrow> nat \<Rightarrow> u32 list" where
  "words_at bs off = map (\<lambda>i. le32_at bs (off + 4 * i)) [0..<8]"

definition dec_ctrl :: "bytes \<Rightarrow> ring_control_block" where
  "dec_ctrl bs = \<lparr>magic = le32_at bs 0, cb_version = le32_at bs 4, num_rings = le32_at bs 8,
     tx_desc_base = words_at bs 12, tx_desc_count = words_at bs 44, tx_wr_idx = words_at bs 76,
     tx_rd_idx = words_at bs 108, tx_buf_size = words_at bs 140, tx_buf_base = words_at bs 172,
     rx_desc_base = words_at bs 204, rx_desc_count = words_at bs 236, rx_wr_idx = words_at bs 268,
     rx_rd_idx = words_at bs 300, rx_buf_size = words_at bs 332, rx_buf_base = words_at bs 364,
     ring_status = take 8 (drop 396 bs), cb_status = le32_at bs 404, cb_reserved = words_at bs 408\<rparr>"

text \<open>The offsets of the four arrays of indices.\<close>

definition offsetof_tx_wr_idx :: u32 where "offsetof_tx_wr_idx = 76"
definition offsetof_tx_rd_idx :: u32 where "offsetof_tx_rd_idx = 108"
definition offsetof_rx_wr_idx :: u32 where "offsetof_rx_wr_idx = 268"
definition offsetof_rx_rd_idx :: u32 where "offsetof_rx_rd_idx = 300"

record ring_stats =
  tx_count :: u32
  rx_count :: u32
  tx_errors :: u32
  rx_errors :: u32
  tx_overflows :: u32
  rx_overflows :: u32

definition zero_stats :: ring_stats where
  "zero_stats = \<lparr>tx_count = 0, rx_count = 0, tx_errors = 0, rx_errors = 0, tx_overflows = 0, rx_overflows = 0\<rparr>"

text \<open>
  \<open>g_ring_service\<close> and \<open>rx_works\<close>. The locks and semaphores of a ring are named by its number and live
  below the host; a work item is the handle \<open>qc_osal_work_init\<close> gave it, \<open>None\<close> before, with its ring.
  \<open>callback\<close> says whether one is registered. \<open>ring_fault\<close> is set where the code leaves the defined
  behaviour of C: an index outside an array, a division by zero, a read past the caller's buffer.
\<close>

record 'w ring_st = "'w transport_st" +
  ring_initialized :: bool
  g_num_rings :: u32
  ctrl_block_addr :: u32
  ctrl_cache :: ring_control_block
  rings :: "ring_stats list"
  callback :: bool
  rx_works :: "(nat option \<times> u8) list"
  ring_fault :: bool

definition ub :: "(('w, 'z) ring_st_scheme, unit) state" where
  "ub = modify (\<lambda>s. s\<lparr>ring_fault := True\<rparr>)"

definition upd_ctrl :: "(ring_control_block \<Rightarrow> ring_control_block) \<Rightarrow> (('w, 'z) ring_st_scheme, unit) state" where
  "upd_ctrl f = modify (\<lambda>s. s\<lparr>ctrl_cache := f (ctrl_cache s)\<rparr>)"

definition upd_stats :: "nat \<Rightarrow> (ring_stats \<Rightarrow> ring_stats) \<Rightarrow> (('w, 'z) ring_st_scheme, unit) state" where
  "upd_stats i f = modify (\<lambda>s. s\<lparr>rings := (rings s)[i := f (rings s ! i)]\<rparr>)"

end
