(* ===== verification/Ring_Service.thy ===== *)
theory Ring_Service
  imports Ring_Types
begin

text \<open>
  \<open>src/qcspi_app/qcc730_host/Service/ring/ring_service_host.c\<close>: the rings of fixed-size buffers in the
  memory of the slave through which host and slave exchange packets.
\<close>

section \<open>Small operations\<close>

text \<open>The checks that open every operation on a ring: 0 or the error.\<close>

definition ring_check :: "u8 \<Rightarrow> (('w, 'z) ring_st_scheme, int) state" where
  "ring_check i = do {
     up \<leftarrow> gets ring_initialized;
     c \<leftarrow> gets ctrl_cache;
     State_Monad.return (if \<not> up then - QC_OSAL_ENODEV
       else if unat i \<ge> MAX_RINGS then - QC_OSAL_EINVAL
       else if ring_status c ! unat i \<noteq> RING_STATUS_VALID then - QC_OSAL_EINVAL
       else 0)
   }"

definition ring_service_deinit :: "(('w, 'z) ring_st_scheme, unit) state" where
  "ring_service_deinit = do {
     up \<leftarrow> gets ring_initialized;
     when_m up (modify (\<lambda>s. s\<lparr>ring_initialized := False\<rparr>))
   }"

definition ring_register_callback :: "bool \<Rightarrow> (('w, 'z) ring_st_scheme, int) state" where
  "ring_register_callback cb = do {
     up \<leftarrow> gets ring_initialized;
     if \<not> up then State_Monad.return (- QC_OSAL_ENODEV)
     else do {
       modify (\<lambda>s. s\<lparr>callback := cb\<rparr>);
       State_Monad.return 0
     }
   }"

definition ring_get_stats :: "u8 \<Rightarrow> bool \<Rightarrow> (('w, 'z) ring_st_scheme, int \<times> ring_stats option) state" where
  "ring_get_stats i ptr = do {
     up \<leftarrow> gets ring_initialized;
     rs \<leftarrow> gets rings;
     State_Monad.return (if \<not> up then (- QC_OSAL_ENODEV, None)
       else if unat i \<ge> MAX_RINGS then (- QC_OSAL_EINVAL, None)
       else if \<not> ptr then (- QC_OSAL_EINVAL, None)
       else (0, Some (rs ! unat i)))
   }"

definition ring_get_num :: "(('w, 'z) ring_st_scheme, int) state" where
  "ring_get_num = do {
     up \<leftarrow> gets ring_initialized;
     n \<leftarrow> gets g_num_rings;
     State_Monad.return (if \<not> up then - QC_OSAL_ENODEV else sint n)
   }"

text \<open>Reading and writing one of the indices in the control block of the slave.\<close>

definition index_addr :: "u32 \<Rightarrow> u32 \<Rightarrow> u8 \<Rightarrow> u32" where
  "index_addr base off i = base + off + ucast i * 4"

definition read_index :: "'w host_port \<Rightarrow> u32 \<Rightarrow> u8 \<Rightarrow> (('w, 'z) ring_st_scheme, int \<times> u32) state" where
  "read_index P off i = do {
     base \<leftarrow> gets ctrl_block_addr;
     (r, d) \<leftarrow> ring_transport_read P True (index_addr base off i) 4;
     State_Monad.return (r, le32 d)
   }"

definition write_index :: "'w host_port \<Rightarrow> u32 \<Rightarrow> u8 \<Rightarrow> u32 \<Rightarrow> (('w, 'z) ring_st_scheme, int) state" where
  "write_index P off i v = do {
     base \<leftarrow> gets ctrl_block_addr;
     ring_transport_write P (index_addr base off i) (Some (bytes_le32 v)) 4
   }"

text \<open>Free descriptors of a ring the host writes, and filled ones of a ring it reads.\<close>

definition tx_space :: "u32 \<Rightarrow> u32 \<Rightarrow> u32 \<Rightarrow> u32" where
  "tx_space rd wr n = (if rd > wr then rd - wr - 1 else n - (wr - rd) - 1)"

definition rx_pending :: "u32 \<Rightarrow> u32 \<Rightarrow> u32 \<Rightarrow> u32" where
  "rx_pending wr rd n = (if wr \<ge> rd then wr - rd else n - (rd - wr))"

definition ring_get_tx_available :: "'w host_port \<Rightarrow> u8 \<Rightarrow> (('w, 'z) ring_st_scheme, int) state" where
  "ring_get_tx_available P i = do {
     e \<leftarrow> ring_check i;
     if e \<noteq> 0 then State_Monad.return e
     else do {
       r \<leftarrow> mutex_lock P (Tx_Lock (unat i)) QC_OSAL_TIMEOUT_FOREVER;
       if r < 0 then State_Monad.return r
       else do {
         (r, rd) \<leftarrow> read_index P offsetof_tx_rd_idx i;
         mutex_unlock P (Tx_Lock (unat i));
         c \<leftarrow> gets ctrl_cache;
         State_Monad.return (if r < 0 then r
           else sint (tx_space rd (tx_wr_idx c ! unat i) (tx_desc_count c ! unat i)))
       }
     }
   }"

definition ring_get_rx_available :: "'w host_port \<Rightarrow> u8 \<Rightarrow> (('w, 'z) ring_st_scheme, int) state" where
  "ring_get_rx_available P i = do {
     e \<leftarrow> ring_check i;
     if e \<noteq> 0 then State_Monad.return e
     else do {
       r \<leftarrow> mutex_lock P (Rx_Lock (unat i)) QC_OSAL_TIMEOUT_FOREVER;
       if r < 0 then State_Monad.return r
       else do {
         (r, wr) \<leftarrow> read_index P offsetof_rx_wr_idx i;
         mutex_unlock P (Rx_Lock (unat i));
         c \<leftarrow> gets ctrl_cache;
         State_Monad.return (if r < 0 then r
           else sint (rx_pending wr (rx_rd_idx c ! unat i) (rx_desc_count c ! unat i)))
       }
     }
   }"

section \<open>Notification of received data\<close>

text \<open>The interrupt of the slave: every ring is signalled, and its work item submitted if there is a callback.\<close>

fun notify_rings :: "'w host_port \<Rightarrow> nat list \<Rightarrow> (('w, 'z) ring_st_scheme, unit) state" where
  "notify_rings P [] = State_Monad.return ()"
| "notify_rings P (i # is) = do {
     when_m (i \<ge> MAX_RINGS) ub;
     _ \<leftarrow> below (\<lambda>w. qc_osal_sem_give P w (Rx_Sem i));
     cb \<leftarrow> gets callback;
     ws \<leftarrow> gets rx_works;
     when_m cb (do {
       _ \<leftarrow> below (\<lambda>w. qc_osal_work_submit P w (fst (ws ! i)));
       State_Monad.return ()
     });
     notify_rings P is
   }"

definition ring_rx_handler :: "'w host_port \<Rightarrow> (('w, 'z) ring_st_scheme, unit) state" where
  "ring_rx_handler P = do {
     up \<leftarrow> gets ring_initialized;
     n \<leftarrow> gets g_num_rings;
     if \<not> up then State_Monad.return () else notify_rings P [0..<unat n]
   }"

text \<open>
  The work of a ring. \<open>cb\<close> is the registered callback. Only the first \<open>num_rings\<close> items are searched; the
  model looks among the eight that exist.
\<close>

definition find_work :: "nat \<Rightarrow> u32 \<Rightarrow> (nat option \<times> u8) list \<Rightarrow> u8 option" where
  "find_work work n ws = map_option snd (find (\<lambda>x. fst x = Some work) (take (unat n) ws))"

definition rx_work_handler ::
  "'w host_port \<Rightarrow> (u8 \<Rightarrow> (('w, 'z) ring_st_scheme, unit) state) \<Rightarrow> nat \<Rightarrow> (('w, 'z) ring_st_scheme, unit) state" where
  "rx_work_handler P cb work = do {
     n \<leftarrow> gets g_num_rings;
     ws \<leftarrow> gets rx_works;
     case find_work work n ws of
       None \<Rightarrow> State_Monad.return ()
     | Some i \<Rightarrow> do {
         avail \<leftarrow> ring_get_rx_available P i;
         has_cb \<leftarrow> gets callback;
         when_m (avail > 0 \<and> has_cb) (cb i)
       }
   }"

section \<open>Sending\<close>

definition tx_done :: "'w host_port \<Rightarrow> u8 \<Rightarrow> int \<Rightarrow> (('w, 'z) ring_st_scheme, int) state" where
  "tx_done P i r = do { mutex_unlock P (Tx_Lock (unat i)); State_Monad.return r }"

text \<open>
  Looking for a free descriptor: the slave's read index is fetched only if the cached one leaves no
  room. \<open>Inl\<close> is the error to return with the lock held.
\<close>

definition tx_find_space :: "'w host_port \<Rightarrow> u8 \<Rightarrow> (('w, 'z) ring_st_scheme, int + u32) state" where
  "tx_find_space P i = do {
     c \<leftarrow> gets ctrl_cache;
     let rd = tx_rd_idx c ! unat i;
     let wr = tx_wr_idx c ! unat i;
     let n = tx_desc_count c ! unat i;
     x \<leftarrow> (if tx_space rd wr n = 0 then do {
            (r, rd) \<leftarrow> read_index P offsetof_tx_rd_idx i;
            if r < 0 then State_Monad.return (Inl r)
            else do {
              upd_ctrl (\<lambda>c. c\<lparr>tx_rd_idx := (tx_rd_idx c)[unat i := rd]\<rparr>);
              State_Monad.return (Inr rd)
            }
          } else State_Monad.return (Inr rd));
     State_Monad.return (case x of Inl r \<Rightarrow> Inl r
       | Inr rd \<Rightarrow> if tx_space rd wr n = 0 then Inl (- QC_OSAL_EAGAIN) else Inr wr)
   }"

text \<open>Filling the buffer and the descriptor at \<open>wr\<close>, then publishing the new write index.\<close>

definition tx_publish :: "'w host_port \<Rightarrow> u8 \<Rightarrow> u32 \<Rightarrow> bytes \<Rightarrow> u32 \<Rightarrow> (('w, 'z) ring_st_scheme, int) state" where
  "tx_publish P i wr data len = do {
     c \<leftarrow> gets ctrl_cache;
     let buf = tx_buf_base c ! unat i + wr * tx_buf_size c ! unat i;
     r \<leftarrow> ring_transport_write P buf (Some data) len;
     if r < 0 then State_Monad.return r
     else do {
       let desc = \<lparr>buffer_addr = buf, desc_length = ucast len, desc_flags = RING_DESC_FLAG_VALID\<rparr>;
       let da = tx_desc_base c ! unat i + wr * sizeof_ring_descriptor;
       r \<leftarrow> ring_transport_write P da (Some (enc_desc desc)) sizeof_ring_descriptor;
       if r < 0 then State_Monad.return r
       else do {
         when_m (tx_desc_count c ! unat i = 0) ub;
         let next = (wr + 1) mod (tx_desc_count c ! unat i);
         upd_ctrl (\<lambda>c. c\<lparr>tx_wr_idx := (tx_wr_idx c)[unat i := next]\<rparr>);
         r \<leftarrow> write_index P offsetof_tx_wr_idx i next;
         if r < 0 then State_Monad.return r
         else do {
           upd_stats (unat i) (\<lambda>st. st\<lparr>tx_count := tx_count st + 1\<rparr>);
           State_Monad.return 0
         }
       }
     }
   }"

text \<open>A failure to interrupt the slave is only logged.\<close>

definition ring_send :: "'w host_port \<Rightarrow> u8 \<Rightarrow> bytes option \<Rightarrow> u32 \<Rightarrow> u32 \<Rightarrow> (('w, 'z) ring_st_scheme, int) state" where
  "ring_send P i data len timeout = do {
     e \<leftarrow> ring_check i;
     c \<leftarrow> gets ctrl_cache;
     if e \<noteq> 0 then State_Monad.return e
     else case data of
       None \<Rightarrow> State_Monad.return (- QC_OSAL_EINVAL)
     | Some bs \<Rightarrow>
         if len = 0 then State_Monad.return (- QC_OSAL_EINVAL)
         else if len > tx_buf_size c ! unat i then State_Monad.return (- QC_OSAL_EMSGSIZE)
         else do {
           when_m (length bs < unat len) ub;
           r \<leftarrow> mutex_lock P (Tx_Lock (unat i)) timeout;
           if r < 0 then State_Monad.return r
           else do {
             x \<leftarrow> tx_find_space P i;
             case x of
               Inl r \<Rightarrow> tx_done P i r
             | Inr wr \<Rightarrow> do {
                 r \<leftarrow> tx_publish P i wr bs len;
                 _ \<leftarrow> tx_done P i r;
                 if r < 0 then State_Monad.return r
                 else do {
                   _ \<leftarrow> ring_transport_interrupt P;
                   State_Monad.return 0
                 }
               }
           }
         }
   }"

section \<open>Receiving\<close>

definition rx_done :: "'w host_port \<Rightarrow> u8 \<Rightarrow> int \<Rightarrow> (('w, 'z) ring_st_scheme, int \<times> bytes) state" where
  "rx_done P i r = do { mutex_unlock P (Rx_Lock (unat i)); State_Monad.return (r, []) }"

definition rx_error :: "'w host_port \<Rightarrow> u8 \<Rightarrow> int \<Rightarrow> (('w, 'z) ring_st_scheme, int \<times> bytes) state" where
  "rx_error P i r = do {
     upd_stats (unat i) (\<lambda>st. st\<lparr>rx_errors := rx_errors st + 1\<rparr>);
     rx_done P i r
   }"

text \<open>
  Waiting for data: \<open>Inl r\<close> returns \<open>r\<close> with the lock released, \<open>Inr rd\<close> goes on with the lock held. After
  the semaphore was taken the indices are read again, but not compared again.
\<close>

definition rx_await :: "'w host_port \<Rightarrow> u8 \<Rightarrow> u32 \<Rightarrow> (('w, 'z) ring_st_scheme, int + u32) state" where
  "rx_await P i timeout = do {
     (r, wr) \<leftarrow> read_index P offsetof_rx_wr_idx i;
     if r < 0 then do { mutex_unlock P (Rx_Lock (unat i)); State_Monad.return (Inl r) }
     else do {
       c \<leftarrow> gets ctrl_cache;
       let rd = rx_rd_idx c ! unat i;
       if rx_pending wr rd (rx_desc_count c ! unat i) = 0 then
         (if timeout = QC_OSAL_TIMEOUT_NO_WAIT
          then do { mutex_unlock P (Rx_Lock (unat i)); State_Monad.return (Inl 0) }
          else do {
            mutex_unlock P (Rx_Lock (unat i));
            r \<leftarrow> below (\<lambda>w. qc_osal_sem_take P w (Rx_Sem (unat i)) timeout);
            if r < 0 then State_Monad.return (Inl 0)
            else do {
              r \<leftarrow> mutex_lock P (Rx_Lock (unat i)) QC_OSAL_TIMEOUT_FOREVER;
              if r < 0 then State_Monad.return (Inl r)
              else do {
                (r, _) \<leftarrow> read_index P offsetof_rx_wr_idx i;
                if r < 0 then do { mutex_unlock P (Rx_Lock (unat i)); State_Monad.return (Inl r) }
                else do {
                  c \<leftarrow> gets ctrl_cache;
                  State_Monad.return (Inr (rx_rd_idx c ! unat i))
                }
              }
            }
          })
       else State_Monad.return (Inr rd)
     }
   }"

text \<open>Giving the slot at \<open>rd\<close> back: its descriptor is cleared, then the new read index published.\<close>

definition rx_release ::
  "'w host_port \<Rightarrow> u8 \<Rightarrow> u32 \<Rightarrow> ring_descriptor \<Rightarrow> bytes \<Rightarrow> (('w, 'z) ring_st_scheme, int \<times> bytes) state" where
  "rx_release P i rd desc data = do {
     c \<leftarrow> gets ctrl_cache;
     r \<leftarrow> ring_transport_write P (rx_desc_base c ! unat i + rd * sizeof_ring_descriptor)
       (Some (enc_desc (desc\<lparr>desc_flags := 0, desc_length := 0\<rparr>))) sizeof_ring_descriptor;
     if r < 0 then rx_done P i r
     else do {
       when_m (rx_desc_count c ! unat i = 0) ub;
       let next = (rd + 1) mod (rx_desc_count c ! unat i);
       upd_ctrl (\<lambda>c. c\<lparr>rx_rd_idx := (rx_rd_idx c)[unat i := next]\<rparr>);
       r \<leftarrow> write_index P offsetof_rx_rd_idx i next;
       if r < 0 then rx_done P i r
       else do {
         upd_stats (unat i) (\<lambda>st. st\<lparr>rx_count := rx_count st + 1\<rparr>);
         mutex_unlock P (Rx_Lock (unat i));
         State_Monad.return (sint (ucast (desc_length desc) :: u32), data)
       }
     }
   }"

definition rx_take :: "'w host_port \<Rightarrow> u8 \<Rightarrow> u32 \<Rightarrow> u32 \<Rightarrow> (('w, 'z) ring_st_scheme, int \<times> bytes) state" where
  "rx_take P i max_len rd = do {
     c \<leftarrow> gets ctrl_cache;
     (r, d) \<leftarrow> ring_transport_read P True (rx_desc_base c ! unat i + rd * sizeof_ring_descriptor)
       sizeof_ring_descriptor;
     if r < 0 then rx_done P i r
     else do {
       let desc = dec_desc d;
       if desc_flags desc AND RING_DESC_FLAG_VALID = 0 then rx_error P i (- QC_OSAL_EINVAL)
       else if ucast (desc_length desc) > max_len then rx_error P i (- QC_OSAL_EMSGSIZE)
       else do {
         (r, data) \<leftarrow> ring_transport_read P True (buffer_addr desc) (ucast (desc_length desc));
         if r < 0 then rx_done P i r
         else rx_release P i rd desc data
       }
     }
   }"

text \<open>\<open>ptr\<close> says whether the buffer pointer is not null; the second result is what was copied into it.\<close>

definition ring_recv ::
  "'w host_port \<Rightarrow> u8 \<Rightarrow> bool \<Rightarrow> u32 \<Rightarrow> u32 \<Rightarrow> (('w, 'z) ring_st_scheme, int \<times> bytes) state" where
  "ring_recv P i ptr max_len timeout = do {
     e \<leftarrow> ring_check i;
     if e \<noteq> 0 then State_Monad.return (e, [])
     else if \<not> ptr \<or> max_len = 0 then State_Monad.return (- QC_OSAL_EINVAL, [])
     else do {
       r \<leftarrow> mutex_lock P (Rx_Lock (unat i)) timeout;
       if r < 0 then State_Monad.return (r, [])
       else do {
         x \<leftarrow> rx_await P i timeout;
         case x of
           Inl r \<Rightarrow> State_Monad.return (r, [])
         | Inr rd \<Rightarrow> rx_take P i max_len rd
       }
     }
   }"

section \<open>Initialisation\<close>

text \<open>The locks and semaphores of the rings; the first failure ends the loop.\<close>

fun init_rings :: "'w host_port \<Rightarrow> ring_control_block \<Rightarrow> nat list \<Rightarrow> (('w, 'z) ring_st_scheme, int) state" where
  "init_rings P c [] = State_Monad.return 0"
| "init_rings P c (i # is) = do {
     when_m (i \<ge> MAX_RINGS) ub;
     r \<leftarrow> below (\<lambda>w. qc_osal_mutex_init P w (Tx_Lock i));
     if r < 0 then State_Monad.return r
     else do {
       r \<leftarrow> below (\<lambda>w. qc_osal_mutex_init P w (Rx_Lock i));
       if r < 0 then State_Monad.return r
       else do {
         r \<leftarrow> below (\<lambda>w. qc_osal_sem_init P w (Tx_Sem i) (tx_desc_count c ! i));
         if r < 0 then State_Monad.return r
         else do {
           r \<leftarrow> below (\<lambda>w. qc_osal_sem_init P w (Rx_Sem i) (rx_desc_count c ! i));
           if r < 0 then State_Monad.return r
           else do {
             upd_stats i (\<lambda>_. zero_stats);
             init_rings P c is
           }
         }
       }
     }
   }"

fun init_works :: "'w host_port \<Rightarrow> nat list \<Rightarrow> (('w, 'z) ring_st_scheme, int) state" where
  "init_works P [] = State_Monad.return 0"
| "init_works P (i # is) = do {
     when_m (i \<ge> MAX_RINGS) ub;
     ws \<leftarrow> gets rx_works;
     (r, h) \<leftarrow> below (qc_osal_work_init P);
     modify (\<lambda>s. s\<lparr>rx_works := ws[i := (if r < 0 then fst (ws ! i) else Some h, of_nat i)]\<rparr>);
     if r < 0 then State_Monad.return r else init_works P is
   }"

definition ring_service_host_init ::
  "'w host_port \<Rightarrow> u32 \<Rightarrow> bool \<Rightarrow> (('w, 'z) ring_st_scheme, int) state" where
  "ring_service_host_init P addr transport = do {
     up \<leftarrow> gets ring_initialized;
     if up then State_Monad.return (- QC_OSAL_EALREADY)
     else if \<not> transport then State_Monad.return (- QC_OSAL_EINVAL)
     else do {
       (r, d) \<leftarrow> ring_transport_read P True addr sizeof_ring_control_block;
       if r < 0 then State_Monad.return r
       else do {
         let c = dec_ctrl d;
         if magic c \<noteq> RING_MAGIC_NUMBER then State_Monad.return (- QC_OSAL_EINVAL)
         else if cb_status c AND RING_STATUS_INITIALIZED = 0 then State_Monad.return (- QC_OSAL_ENODEV)
         else do {
           modify (\<lambda>s. s\<lparr>ctrl_block_addr := addr, g_num_rings := num_rings c, ctrl_cache := c\<rparr>);
           r \<leftarrow> init_rings P c [0..<unat (num_rings c)];
           if r < 0 then State_Monad.return r
           else do {
             r \<leftarrow> below (qc_osal_work_queue_init P);
             if r < 0 then State_Monad.return r
             else do {
               r \<leftarrow> init_works P [0..<unat (num_rings c)];
               if r < 0 then State_Monad.return r
               else do {
                 modify (\<lambda>s. s\<lparr>ring_initialized := True\<rparr>);
                 State_Monad.return 0
               }
             }
           }
         }
       }
     }
   }"

definition init_qring :: "'w host_port \<Rightarrow> (('w, 'z) ring_st_scheme, int) state" where
  "init_qring P = do {
     r \<leftarrow> ring_transport_init P;
     if r \<noteq> 0 then State_Monad.return r
     else do {
       dev \<leftarrow> qcspi_transport_get_device;
       if dev then ring_service_host_init P CONFIG_RING_CTRL_BLOCK_ADDR True
       else State_Monad.return (- QC_OSAL_ENODEV)
     }
   }"

end
