(* ===== verification/Remote_Memory.thy ===== *)
theory Remote_Memory
  imports Fw_Codec
begin

text \<open>
  A byte-addressed memory reached over a bus, as what one reads from it and what writing does to it, and
  the interface through which the ring service sees the memory of the slave.
\<close>

section \<open>Ranges of bytes\<close>

definition mem_read :: "(u32 \<Rightarrow> u8) \<Rightarrow> u32 \<Rightarrow> nat \<Rightarrow> bytes" where
  "mem_read m a n = map (\<lambda>i. m (a + of_nat i)) [0..<n]"

definition mem_write :: "(u32 \<Rightarrow> u8) \<Rightarrow> u32 \<Rightarrow> bytes \<Rightarrow> u32 \<Rightarrow> u8" where
  "mem_write m a bs x = (if unat (x - a) < length bs then bs ! unat (x - a) else m x)"

lemma length_mem_read [simp]: "length (mem_read m a n) = n"
  by (simp add: mem_read_def)

lemma mem_read_nth [simp]: "i < n \<Longrightarrow> mem_read m a n ! i = m (a + of_nat i)"
  by (simp add: mem_read_def)

lemma mem_read_0 [simp]: "mem_read m a 0 = []"
  by (simp add: mem_read_def)

lemma mem_read_add: "mem_read m a (i + j) = mem_read m a i @ mem_read m (a + of_nat i) j"
  by (rule nth_equalityI) (auto simp: nth_append algebra_simps of_nat_diff)

lemma take_mem_read: "take k (mem_read m a n) = mem_read m a (min k n)"
  by (rule nth_equalityI) auto

lemma drop_mem_read: "k \<le> n \<Longrightarrow> drop k (mem_read m a n) = mem_read m (a + of_nat k) (n - k)"
  by (rule nth_equalityI) (auto simp: algebra_simps)

lemma mem_write_Nil [simp]: "mem_write m a [] = m"
  by (rule ext) (simp add: mem_write_def)

lemma unat_of_nat_u32: "n < 2 ^ 32 \<Longrightarrow> unat (of_nat n :: u32) = n"
  by (simp add: unat_of_nat)

lemma unat_shift:
  fixes x a :: u32
  assumes "k < 2 ^ 32"
  shows "unat (x - (a + of_nat k)) = (if k \<le> unat (x - a) then unat (x - a) - k else unat (x - a) + 2 ^ 32 - k)"
proof -
  have eq: "x - (a + of_nat k) = (x - a) - of_nat k" by simp
  show ?thesis
    unfolding eq using assms unat_of_nat_u32 [OF assms]
    by (cases "k \<le> unat (x - a)") (simp_all add: unat_sub_if_size word_size)
qed

text \<open>Adjacent writes are one write, and a write is read back.\<close>

lemma mem_write_append:
  assumes "length xs + length ys \<le> 2 ^ 32"
  shows "mem_write (mem_write m a xs) (a + of_nat (length xs)) ys = mem_write m a (xs @ ys)"
proof (cases "ys = []")
  case False
  with assms have k: "length xs < 2 ^ 32" by (cases ys) simp_all
  show ?thesis
  proof
    fix x
    show "mem_write (mem_write m a xs) (a + of_nat (length xs)) ys x = mem_write m a (xs @ ys) x"
      unfolding mem_write_def unat_shift [OF k] using assms by (auto simp: nth_append)
  qed
qed simp

lemma mem_read_write_same:
  assumes "length bs \<le> 2 ^ 32"
  shows "mem_read (mem_write m a bs) a (length bs) = bs"
  by (rule nth_equalityI) (use assms in \<open>simp_all add: mem_write_def unat_of_nat_u32\<close>)

text \<open>Two ranges that do not meet, on addresses that wrap around.\<close>

definition apart :: "u32 \<Rightarrow> nat \<Rightarrow> u32 \<Rightarrow> nat \<Rightarrow> bool" where
  "apart a n b k \<longleftrightarrow> (\<forall>i < n. k \<le> unat (a + of_nat i - b))"

lemma mem_read_write_other: "apart a n b (length bs) \<Longrightarrow> mem_read (mem_write m b bs) a n = mem_read m a n"
  by (rule nth_equalityI) (auto simp: mem_write_def apart_def)

text \<open>Below the wrap the ranges are intervals.\<close>

lemma apart_intervals:
  assumes "unat a + n \<le> 2 ^ 32" and "unat b + k \<le> 2 ^ 32" and "unat a + n \<le> unat b \<or> unat b + k \<le> unat a"
  shows "apart a n b k"
  unfolding apart_def
proof (intro allI impI)
  fix i
  assume i: "i < n"
  have u: "unat (a + of_nat i) = unat a + i"
    using assms(1) i unat_of_nat_u32 [of i] by (intro trans [OF unat_add_nowrap]) simp_all
  show "k \<le> unat (a + of_nat i - b)"
    using assms i u by (auto simp: unat_sub_if_size word_size)
qed

text \<open>Writing a word whose bytes are those of memory but for \<open>xs\<close> at \<open>off\<close> writes \<open>xs\<close>.\<close>

lemma mem_write_spliced:
  assumes "off + length xs \<le> n" and "n \<le> 2 ^ 32"
  shows "mem_write m w (take off (mem_read m w n) @ xs @ drop (off + length xs) (mem_read m w n)) =
    mem_write m (w + of_nat off) xs"
proof (cases "xs = []")
  case True
  then show ?thesis by (auto simp: fun_eq_iff mem_write_def)
next
  case False
  with assms have k: "off < 2 ^ 32" by (cases xs) simp_all
  show ?thesis
  proof
    fix x
    show "mem_write m w (take off (mem_read m w n) @ xs @ drop (off + length xs) (mem_read m w n)) x =
        mem_write m (w + of_nat off) xs x"
      unfolding mem_write_def unat_shift [OF k] using assms
      by (auto simp: nth_append)
  qed
qed

section \<open>The interface\<close>

text \<open>
  \<open>rd\<close> and \<open>wr\<close> reach the memory \<open>mem\<close> while the link is \<open>ready\<close>; they report success by a status that is
  not negative. A write that fails may have changed the range it was given, rounded to whole words, and
  nothing else. \<open>rest\<close> is the part of the state above the link.
\<close>

definition touched :: "u32 \<Rightarrow> nat \<Rightarrow> u32 \<Rightarrow> bool" where
  "touched a n x \<longleftrightarrow> (\<exists>i < n. x AND 0xFFFFFFFC = (a + of_nat i) AND 0xFFFFFFFC)"

locale remote_memory =
  fixes ready :: "'s \<Rightarrow> bool" and mem :: "'s \<Rightarrow> u32 \<Rightarrow> u8" and rest :: "'s \<Rightarrow> 'r"
    and rd :: "u32 \<Rightarrow> u32 \<Rightarrow> ('s, int \<times> bytes) state" and wr :: "u32 \<Rightarrow> bytes option \<Rightarrow> u32 \<Rightarrow> ('s, int) state"
  assumes rd: "ready s \<Longrightarrow> 0 < n \<Longrightarrow> unat n < 65536 \<Longrightarrow>
      wp (rd a n) (\<lambda>(r, d) t. ready t \<and> mem t = mem s \<and> rest t = rest s
        \<and> (0 \<le> r \<longrightarrow> d = mem_read (mem s) a (unat n))) s"
    and wr: "ready s \<Longrightarrow> 0 < n \<Longrightarrow> unat n < 65536 \<Longrightarrow> unat n \<le> length bs \<Longrightarrow>
      wp (wr a (Some bs) n) (\<lambda>r t. ready t \<and> rest t = rest s
        \<and> (0 \<le> r \<longrightarrow> mem t = mem_write (mem s) a (take (unat n) bs))
        \<and> (\<forall>x. \<not> touched a (unat n) x \<longrightarrow> mem t x = mem s x)) s"
begin

text \<open>A word written is read back.\<close>

lemma write_then_read:
  assumes "ready s" and "run_state (wr a (Some (bytes_le32 v)) 4) s = (r, t)" and "0 \<le> r"
    and "run_state (rd a 4) t = ((r', d), u)" and "0 \<le> r'"
  shows "le32 d = v \<and> mem u = mem t"
proof -
  have w: "ready t \<and> mem t = mem_write (mem s) a (bytes_le32 v)"
    using wpD [OF wr [OF assms(1), of 4 "bytes_le32 v" a] assms(2)] assms(3) by simp
  then show ?thesis
    using wpD [OF rd [of t 4 a] assms(4)] assms(5) mem_read_write_same [of "bytes_le32 v" "mem s" a] by simp
qed

end

end
