(* ===== verification/Ring_Queue.thy ===== *)
theory Ring_Queue
  imports Ring_Service Remote_Memory
begin

text \<open>
  What a ring is for: a queue of messages. Circular indices, the messages a ring's slots hold in the memory
  of the slave, and the abstract channel both directions implement.
\<close>

section \<open>The abstract channel\<close>

text \<open>
  A run of a channel: one side puts messages, the other takes them, and other steps happen. The lists are
  the messages put and taken so far.
\<close>

inductive channel_run ::
  "('s \<Rightarrow> 'm \<Rightarrow> 's \<Rightarrow> bool) \<Rightarrow> ('s \<Rightarrow> 'm \<Rightarrow> 's \<Rightarrow> bool) \<Rightarrow> ('s \<Rightarrow> 's \<Rightarrow> bool) \<Rightarrow> 's \<Rightarrow> 'm list \<Rightarrow> 'm list \<Rightarrow> 's \<Rightarrow> bool"
  for put_m take_m other s0
where
  start: "channel_run put_m take_m other s0 [] [] s0"
| put: "channel_run put_m take_m other s0 xs ys s \<Longrightarrow> put_m s m t \<Longrightarrow> channel_run put_m take_m other s0 (xs @ [m]) ys t"
| take: "channel_run put_m take_m other s0 xs ys s \<Longrightarrow> take_m s m t \<Longrightarrow> channel_run put_m take_m other s0 xs (ys @ [m]) t"
| other: "channel_run put_m take_m other s0 xs ys s \<Longrightarrow> other s t \<Longrightarrow> channel_run put_m take_m other s0 xs ys t"

locale fifo_channel =
  fixes inv :: "'s \<Rightarrow> bool" and queue :: "'s \<Rightarrow> 'm list"
    and put_m :: "'s \<Rightarrow> 'm \<Rightarrow> 's \<Rightarrow> bool" and take_m :: "'s \<Rightarrow> 'm \<Rightarrow> 's \<Rightarrow> bool" and other :: "'s \<Rightarrow> 's \<Rightarrow> bool"
  assumes put_law: "inv s \<Longrightarrow> put_m s m t \<Longrightarrow> inv t \<and> queue t = queue s @ [m]"
    and take_law: "inv s \<Longrightarrow> take_m s m t \<Longrightarrow> inv t \<and> queue s = m # queue t"
    and other_law: "inv s \<Longrightarrow> other s t \<Longrightarrow> inv t \<and> queue t = queue s"
begin

lemma delivered_in_order:
  assumes "channel_run put_m take_m other s0 xs ys s" and "inv s0"
  shows "inv s \<and> queue s0 @ xs = ys @ queue s"
  using assms
proof induction
  case (put xs ys s m t)
  then show ?case using put_law [of s m t] by simp
next
  case (take xs ys s m t)
  then show ?case using take_law [of s m t] by simp
next
  case (other xs ys s t)
  then show ?case using other_law [of s t] by simp
qed simp

end

section \<open>Circular indices\<close>

definition in_use :: "nat \<Rightarrow> nat \<Rightarrow> nat \<Rightarrow> nat" where
  "in_use n rd wr = (if rd \<le> wr then wr - rd else wr + n - rd)"

lemma in_use_less: "rd < n \<Longrightarrow> wr < n \<Longrightarrow> in_use n rd wr < n"
  by (auto simp: in_use_def)

lemma in_use_end: "rd < n \<Longrightarrow> wr < n \<Longrightarrow> (rd + in_use n rd wr) mod n = wr"
  by (auto simp: in_use_def)

lemma in_use_put:
  assumes "rd < n" "wr < n" "in_use n rd wr < n - 1"
  shows "in_use n rd ((wr + 1) mod n) = in_use n rd wr + 1"
proof (cases "wr + 1 = n")
  case True
  with assms show ?thesis by (auto simp: in_use_def split: if_splits)
next
  case False
  with assms show ?thesis by (auto simp: in_use_def split: if_splits)
qed

lemma in_use_take:
  assumes "rd < n" "wr < n" "0 < in_use n rd wr"
  shows "in_use n rd wr = Suc (in_use n ((rd + 1) mod n) wr)"
proof (cases "rd + 1 = n")
  case True
  with assms show ?thesis by (auto simp: in_use_def split: if_splits)
next
  case False
  with assms show ?thesis by (auto simp: in_use_def split: if_splits)
qed

lemma in_use_slot:
  assumes "rd < n" "wr < n" "j < in_use n rd wr"
  shows "(rd + j) mod n \<noteq> wr"
proof (cases "rd + j < n")
  case True
  with assms show ?thesis by (auto simp: in_use_def split: if_splits)
next
  case False
  then have "(rd + j) mod n = rd + j - n"
    using assms in_use_less [OF assms(1,2)] by (simp add: mod_if)
  with assms False show ?thesis by (auto simp: in_use_def split: if_splits)
qed

lemma in_use_empty: "rd < n \<Longrightarrow> wr < n \<Longrightarrow> in_use n rd wr = 0 \<longleftrightarrow> rd = wr"
  by (auto simp: in_use_def split: if_splits)

text \<open>The free and the filled descriptors the code computes are these numbers.\<close>

lemma unat_tx_space:
  assumes "unat rd < unat n" "unat wr < unat n"
  shows "unat (tx_space rd wr n) = unat n - 1 - in_use (unat n) (unat rd) (unat wr)"
proof -
  have "1 \<le> n - (wr - rd)" if "rd \<le> wr"
    using assms that by (simp add: word_le_nat_alt unat_sub_if_size) linarith
  then show ?thesis
    using assms
    by (auto simp: tx_space_def in_use_def word_less_nat_alt word_le_nat_alt unat_sub_if_size not_less not_le)
qed

lemma unat_rx_pending:
  assumes "unat rd < unat n" "unat wr < unat n"
  shows "unat (rx_pending wr rd n) = in_use (unat n) (unat rd) (unat wr)"
  using assms
  by (auto simp: rx_pending_def in_use_def word_less_nat_alt word_le_nat_alt unat_sub_if_size not_less not_le)

lemma unat_next_index:
  assumes "unat k < unat (n :: u32)"
  shows "unat ((k + 1) mod n) = (unat k + 1) mod unat n"
proof -
  have "unat k + 1 < 4294967296" using assms unat_lt_u32 [of n] by linarith
  then have "unat k + unat (1 :: u32) < 2 ^ 32" by simp
  then have "unat (k + 1) = unat k + 1" by (simp only: unat_add_nowrap) simp
  then show ?thesis by (simp add: unat_mod)
qed

section \<open>The slots of a ring in memory\<close>

text \<open>The descriptor at index \<open>k\<close> of the array at \<open>db\<close>, and the message it describes.\<close>

definition slot_addr :: "u32 \<Rightarrow> nat \<Rightarrow> u32" where
  "slot_addr db k = db + of_nat k * sizeof_ring_descriptor"

definition slot_desc :: "(u32 \<Rightarrow> u8) \<Rightarrow> u32 \<Rightarrow> nat \<Rightarrow> ring_descriptor" where
  "slot_desc m db k = dec_desc (mem_read m (slot_addr db k) 8)"

definition slot_data :: "(u32 \<Rightarrow> u8) \<Rightarrow> u32 \<Rightarrow> nat \<Rightarrow> bytes" where
  "slot_data m db k = mem_read m (buffer_addr (slot_desc m db k)) (unat (desc_length (slot_desc m db k)))"

definition ring_queue :: "(u32 \<Rightarrow> u8) \<Rightarrow> u32 \<Rightarrow> nat \<Rightarrow> nat \<Rightarrow> nat \<Rightarrow> bytes list" where
  "ring_queue m db n rd wr = map (\<lambda>j. slot_data m db ((rd + j) mod n)) [0..<in_use n rd wr]"

text \<open>A filled slot describes bytes of its own buffer.\<close>

definition slot_buf :: "u32 \<Rightarrow> u32 \<Rightarrow> nat \<Rightarrow> u32" where
  "slot_buf bb sz k = bb + of_nat k * sz"

definition slot_ok :: "(u32 \<Rightarrow> u8) \<Rightarrow> u32 \<Rightarrow> u32 \<Rightarrow> u32 \<Rightarrow> nat \<Rightarrow> bool" where
  "slot_ok m db bb sz k \<longleftrightarrow> buffer_addr (slot_desc m db k) = slot_buf bb sz k
     \<and> unat (desc_length (slot_desc m db k)) \<le> unat sz \<and> desc_flags (slot_desc m db k) AND RING_DESC_FLAG_VALID \<noteq> 0"

definition slots_ok :: "(u32 \<Rightarrow> u8) \<Rightarrow> u32 \<Rightarrow> u32 \<Rightarrow> u32 \<Rightarrow> nat \<Rightarrow> nat \<Rightarrow> nat \<Rightarrow> bool" where
  "slots_ok m db bb sz n rd wr \<longleftrightarrow> (\<forall>j < in_use n rd wr. slot_ok m db bb sz ((rd + j) mod n))"

lemma length_ring_queue [simp]: "length (ring_queue m db n rd wr) = in_use n rd wr"
  by (simp add: ring_queue_def)

lemma slot_desc_same:
  "mem_read m' (slot_addr db k) 8 = mem_read m (slot_addr db k) 8 \<Longrightarrow> slot_desc m' db k = slot_desc m db k"
  by (simp add: slot_desc_def)

lemma slot_same:
  assumes "mem_read m' (slot_addr db k) 8 = mem_read m (slot_addr db k) 8"
    and "mem_read m' (slot_buf bb sz k) (unat sz) = mem_read m (slot_buf bb sz k) (unat sz)"
    and "slot_ok m db bb sz k"
  shows "slot_ok m' db bb sz k \<and> slot_data m' db k = slot_data m db k"
proof -
  note d = slot_desc_same [OF assms(1)]
  have "take l (mem_read m' (slot_buf bb sz k) (unat sz)) = take l (mem_read m (slot_buf bb sz k) (unat sz))" for l
    using assms(2) by simp
  then show ?thesis
    using assms(3) d by (simp add: slot_ok_def slot_data_def take_mem_read min_def split: if_splits) metis
qed

text \<open>Adding a slot at the end and taking the one in front.\<close>

lemma ring_queue_put:
  assumes "rd < n" "wr < n" "in_use n rd wr < n - 1"
    and "\<And>k. k < n \<Longrightarrow> k \<noteq> wr \<Longrightarrow> slot_ok m db bb sz k \<Longrightarrow> slot_ok m' db bb sz k \<and> slot_data m' db k = slot_data m db k"
    and "slot_ok m' db bb sz wr" and "slots_ok m db bb sz n rd wr"
  shows "slots_ok m' db bb sz n rd ((wr + 1) mod n)
    \<and> ring_queue m' db n rd ((wr + 1) mod n) = ring_queue m db n rd wr @ [slot_data m' db wr]"
proof -
  have "slot_ok m' db bb sz ((rd + j) mod n) \<and> slot_data m' db ((rd + j) mod n) = slot_data m db ((rd + j) mod n)"
    if "j < in_use n rd wr" for j
    using assms that in_use_slot [OF assms(1,2) that] by (simp add: slots_ok_def)
  then show ?thesis
    using assms(5) in_use_put [OF assms(1-3)] in_use_end [OF assms(1,2)]
    by (auto simp: ring_queue_def slots_ok_def less_Suc_eq)
qed

lemma ring_queue_take:
  assumes "rd < n" "wr < n" "0 < in_use n rd wr"
    and "\<And>k. k < n \<Longrightarrow> k \<noteq> rd \<Longrightarrow> slot_ok m db bb sz k \<Longrightarrow> slot_ok m' db bb sz k \<and> slot_data m' db k = slot_data m db k"
    and "slots_ok m db bb sz n rd wr"
  shows "slots_ok m' db bb sz n ((rd + 1) mod n) wr
    \<and> ring_queue m db n rd wr = slot_data m db rd # ring_queue m' db n ((rd + 1) mod n) wr"
proof -
  have e: "(Suc rd mod n + j) mod n = Suc (rd + j) mod n" for j by (simp add: mod_add_left_eq)
  have "slot_ok m' db bb sz ((rd + Suc j) mod n) \<and> slot_data m' db ((rd + Suc j) mod n) = slot_data m db ((rd + Suc j) mod n)"
    if "Suc j < in_use n rd wr" for j
  proof (rule assms(4))
    have "Suc j < n" using that in_use_less [OF assms(1,2)] by simp
    then show "(rd + Suc j) mod n \<noteq> rd" using assms(1) by (auto simp: mod_if)
    show "slot_ok m db bb sz ((rd + Suc j) mod n)" using assms(5) that unfolding slots_ok_def by blast
  qed (use assms in simp)
  then show ?thesis
    using in_use_take [OF assms(1-3)] assms(1)
    by (auto simp: ring_queue_def slots_ok_def e upt_conv_Cons map_Suc_upt [symmetric] simp del: upt_Suc)
qed

lemma ring_queue_same:
  assumes "\<And>k. k < n \<Longrightarrow> k \<noteq> wr \<Longrightarrow> slot_ok m db bb sz k \<Longrightarrow> slot_ok m' db bb sz k \<and> slot_data m' db k = slot_data m db k"
    and "slots_ok m db bb sz n rd wr" and "rd < n" "wr < n"
  shows "slots_ok m' db bb sz n rd wr \<and> ring_queue m' db n rd wr = ring_queue m db n rd wr"
proof -
  have "slot_ok m' db bb sz ((rd + j) mod n) \<and> slot_data m' db ((rd + j) mod n) = slot_data m db ((rd + j) mod n)"
    if "j < in_use n rd wr" for j
    using assms that in_use_slot [OF assms(3,4) that] by (simp add: slots_ok_def)
  then show ?thesis by (simp add: ring_queue_def slots_ok_def)
qed

end
