(* ===== verification/Qcspi_Proofs.thy ===== *)
theory Qcspi_Proofs
  imports Qcspi_Transport Remote_Memory
begin

text \<open>
  The SPI driver against a slave on the bus: reads and writes of any alignment and length are reads and
  writes of the slave's memory, and every wait for the slave ends.
\<close>

section \<open>The slave\<close>

text \<open>
  What the driver relies on, beside the status codes: \<open>mem\<close> is the memory of the slave, \<open>idle\<close> says that the
  chip select is released. A command that is neither FREAD nor WRITE leaves the memory alone. After a
  read header the next transfer returns the memory at its word-aligned address, after a write header it
  stores its bytes there; if it fails, it may have stored anything in that range. A failed header
  releases the chip select, as both board ports do. Delays and locks leave the memory alone.
\<close>

definition keeps_memory :: "('w \<Rightarrow> 'm) \<Rightarrow> ('w \<Rightarrow> bool) \<Rightarrow> 'w \<Rightarrow> 'w \<Rightarrow> bool" where
  "keeps_memory mem idle w w' \<longleftrightarrow> (idle w \<longrightarrow> idle w' \<and> mem w' = mem w)"

definition services_apart :: "'w host_port \<Rightarrow> ('w \<Rightarrow> 'm) \<Rightarrow> ('w \<Rightarrow> bool) \<Rightarrow> bool" where
  "services_apart P mem idle \<longleftrightarrow> (\<forall>w us m n.
     keeps_memory mem idle w (qc_osal_usleep P w us) \<and> keeps_memory mem idle w (qc_osal_msleep P w us)
     \<and> keeps_memory mem idle w (snd (qc_osal_mutex_init P w m)) \<and> keeps_memory mem idle w (snd (qc_osal_mutex_lock P w m us))
     \<and> keeps_memory mem idle w (snd (qc_osal_mutex_unlock P w m)) \<and> keeps_memory mem idle w (snd (qc_osal_sem_init P w m us))
     \<and> keeps_memory mem idle w (snd (qc_osal_sem_give P w m)) \<and> keeps_memory mem idle w (snd (qc_osal_work_submit P w n)))"

definition spi_commands :: "'w host_port \<Rightarrow> ('w \<Rightarrow> u32 \<Rightarrow> u8) \<Rightarrow> ('w \<Rightarrow> bool) \<Rightarrow> bool" where
  "spi_commands P mem idle \<longleftrightarrow> (\<forall>w c tx r rx w'. idle w \<longrightarrow> c \<noteq> SPI_CMDCODE_FREAD \<longrightarrow> c \<noteq> SPI_CMDCODE_WRITE \<longrightarrow>
     qc_platform_spi_transceive P w (c # tx) False = (r, rx, w') \<longrightarrow>
     idle w' \<and> mem w' = mem w \<and> length rx = Suc (length tx))"

definition spi_reads :: "'w host_port \<Rightarrow> ('w \<Rightarrow> u32 \<Rightarrow> u8) \<Rightarrow> ('w \<Rightarrow> bool) \<Rightarrow> bool" where
  "spi_reads P mem idle \<longleftrightarrow> (\<forall>w a r rx w1. idle w \<longrightarrow>
     qc_platform_spi_transceive P w (fread_header a) True = (r, rx, w1) \<longrightarrow> mem w1 = mem w \<and> (r < 0 \<longrightarrow> idle w1) \<and>
     (\<forall>n r2 d w2. \<not> r < 0 \<longrightarrow> 0 < n \<longrightarrow> a AND 3 = 0 \<longrightarrow> n mod 4 = 0 \<longrightarrow>
       qc_platform_spi_transceive P w1 (replicate n 0) False = (r2, d, w2) \<longrightarrow>
       idle w2 \<and> mem w2 = mem w \<and> (\<not> r2 < 0 \<longrightarrow> d = mem_read (mem w) a n)))"

text \<open>What a read header sent at \<open>w\<close> and a transfer of \<open>n\<close> bytes behind it do.\<close>

definition reads_at :: "'w host_port \<Rightarrow> ('w \<Rightarrow> u32 \<Rightarrow> u8) \<Rightarrow> ('w \<Rightarrow> bool) \<Rightarrow> 'w \<Rightarrow> u32 \<Rightarrow> nat \<Rightarrow> bool" where
  "reads_at P mem idle w a n \<longleftrightarrow> (\<forall>r rx w1.
     qc_platform_spi_transceive P w (fread_header a) True = (r, rx, w1) \<longrightarrow> mem w1 = mem w \<and> (r < 0 \<longrightarrow> idle w1) \<and>
     (\<forall>r2 d w2. \<not> r < 0 \<longrightarrow> qc_platform_spi_transceive P w1 (replicate n 0) False = (r2, d, w2) \<longrightarrow>
       idle w2 \<and> mem w2 = mem w \<and> (\<not> r2 < 0 \<longrightarrow> d = mem_read (mem w) a n)))"

definition spi_writes :: "'w host_port \<Rightarrow> ('w \<Rightarrow> u32 \<Rightarrow> u8) \<Rightarrow> ('w \<Rightarrow> bool) \<Rightarrow> bool" where
  "spi_writes P mem idle \<longleftrightarrow> (\<forall>w a r rx w1. idle w \<longrightarrow>
     qc_platform_spi_transceive P w (write_header a) True = (r, rx, w1) \<longrightarrow> mem w1 = mem w \<and> (r < 0 \<longrightarrow> idle w1) \<and>
     (\<forall>bs r2 d w2. \<not> r < 0 \<longrightarrow> bs \<noteq> [] \<longrightarrow> a AND 3 = 0 \<longrightarrow> length bs mod 4 = 0 \<longrightarrow>
       qc_platform_spi_transceive P w1 bs False = (r2, d, w2) \<longrightarrow>
       idle w2 \<and> (\<not> r2 < 0 \<longrightarrow> mem w2 = mem_write (mem w) a bs)
       \<and> (\<forall>x. length bs \<le> unat (x - a) \<longrightarrow> mem w2 x = mem w x)))"

definition spi_slave :: "'w host_port \<Rightarrow> ('w \<Rightarrow> u32 \<Rightarrow> u8) \<Rightarrow> ('w \<Rightarrow> bool) \<Rightarrow> bool" where
  "spi_slave P mem idle \<longleftrightarrow> services_apart P mem idle \<and> spi_commands P mem idle
     \<and> spi_reads P mem idle \<and> spi_writes P mem idle"

text \<open>The commands and services alone, without reads and writes of the memory.\<close>

definition spi_bus :: "'w host_port \<Rightarrow> ('w \<Rightarrow> u32 \<Rightarrow> u8) \<Rightarrow> ('w \<Rightarrow> bool) \<Rightarrow> bool" where
  "spi_bus P mem idle \<longleftrightarrow> services_apart P mem idle \<and> spi_commands P mem idle"

lemma spi_slave_bus: "spi_slave P mem idle \<Longrightarrow> spi_bus P mem idle"
  by (simp add: spi_slave_def spi_bus_def)

text \<open>
  A slave that heeds the register \<open>TRNS_LEN\<close>: \<open>len\<close> is the value of the register, every write to it arrives, and
  a transfer behind a read header returns the memory only if it is as long as the register says. What it
  returns otherwise is left open.
\<close>

definition spi_length_register :: "'w host_port \<Rightarrow> ('w \<Rightarrow> u32 \<Rightarrow> u8) \<Rightarrow> ('w \<Rightarrow> u32) \<Rightarrow> ('w \<Rightarrow> bool) \<Rightarrow> bool" where
  "spi_length_register P mem len idle \<longleftrightarrow> (\<forall>w v r rx w'. idle w \<longrightarrow>
     qc_platform_spi_transceive P w (SPI_CMDCODE_IRW # SPI_SLAVE_TRNS_LEN # qcspi_word_to_byte_big_endian v) False = (r, rx, w') \<longrightarrow>
     idle w' \<and> mem w' = mem w \<and> len w' = v)"

definition spi_sized_reads :: "'w host_port \<Rightarrow> ('w \<Rightarrow> u32 \<Rightarrow> u8) \<Rightarrow> ('w \<Rightarrow> u32) \<Rightarrow> ('w \<Rightarrow> bool) \<Rightarrow> bool" where
  "spi_sized_reads P mem len idle \<longleftrightarrow> (\<forall>w a n. idle w \<longrightarrow> 0 < n \<longrightarrow> a AND 3 = 0 \<longrightarrow> n mod 4 = 0 \<longrightarrow>
     len w = push_bit 16 (of_nat n) \<longrightarrow> n < 65536 \<longrightarrow> reads_at P mem idle w a n)"

definition sized_slave :: "'w host_port \<Rightarrow> ('w \<Rightarrow> u32 \<Rightarrow> u8) \<Rightarrow> ('w \<Rightarrow> u32) \<Rightarrow> ('w \<Rightarrow> bool) \<Rightarrow> bool" where
  "sized_slave P mem len idle \<longleftrightarrow> services_apart P (\<lambda>w. (mem w, len w)) idle \<and> spi_commands P mem idle
     \<and> spi_length_register P mem len idle \<and> spi_sized_reads P mem len idle"

lemma sized_slave_bus: "sized_slave P mem len idle \<Longrightarrow> spi_bus P mem idle"
  by (auto simp: sized_slave_def spi_bus_def services_apart_def keeps_memory_def)

section \<open>Transfers that leave the memory alone\<close>

lemma wp_below: "wp (below f) Q s = (case f (hw s) of (x, w) \<Rightarrow> Q x (s\<lparr>hw := w\<rparr>))"
  by (simp add: below_def wp_simps Let_def split_beta)

text \<open>The states in which a step that keeps the memory may end.\<close>

definition same_mem :: "('w \<Rightarrow> 'm) \<Rightarrow> ('w \<Rightarrow> bool) \<Rightarrow> ('w, 'z) host_st_scheme \<Rightarrow> ('w, 'z) host_st_scheme \<Rightarrow> bool" where
  "same_mem mem idle s t \<longleftrightarrow> idle (hw t) \<and> mem (hw t) = mem (hw s) \<and> host_st.more t = host_st.more s"

lemma same_mem_refl: "idle (hw s) \<Longrightarrow> same_mem mem idle s s"
  by (simp add: same_mem_def)

lemma same_mem_trans: "same_mem mem idle s t \<Longrightarrow> same_mem mem idle t u \<Longrightarrow> same_mem mem idle s u"
  by (simp add: same_mem_def)

lemma same_mem_hw: "idle w \<Longrightarrow> mem w = mem (hw s) \<Longrightarrow> same_mem mem idle s (s\<lparr>hw := w\<rparr>)"
  by (simp add: same_mem_def)

text \<open>A step that keeps the memory, from a state that itself kept that of \<open>s\<close>.\<close>

definition quiet :: "('w \<Rightarrow> 'm) \<Rightarrow> ('w \<Rightarrow> bool) \<Rightarrow> (('w, 'z) host_st_scheme, 'a) state \<Rightarrow> ('a \<Rightarrow> bool) \<Rightarrow> bool" where
  "quiet mem idle m A \<longleftrightarrow> (\<forall>s. idle (hw s) \<longrightarrow> wp m (\<lambda>x t. same_mem mem idle s t \<and> A x) s)"

lemma quietD:
  assumes "quiet mem idle m A" and "same_mem mem idle s u"
    and "\<And>x t. same_mem mem idle s t \<Longrightarrow> A x \<Longrightarrow> Q x t"
  shows "wp m Q u"
proof -
  have "idle (hw u)" using assms(2) by (simp add: same_mem_def)
  then have "wp m (\<lambda>x t. same_mem mem idle u t \<and> A x) u"
    using assms(1) unfolding quiet_def by blast
  then show ?thesis
    by (rule wp_mono) (use assms(2,3) in \<open>blast intro: same_mem_trans\<close>)
qed

lemma quiet_below:
  "(\<And>w. keeps_memory mem idle w (snd (f w))) \<Longrightarrow> quiet mem idle (below f) (\<lambda>_. True)"
  by (simp add: quiet_def wp_below same_mem_def keeps_memory_def split_beta)

lemma quiet_apart:
  assumes "services_apart P mem idle"
  shows "quiet mem idle (mutex_lock P m timeout) (\<lambda>_. True)" and "quiet mem idle (mutex_unlock P m) (\<lambda>_. True)"
    and "quiet mem idle (delay_us P us) (\<lambda>_. True)" and "quiet mem idle (delay_ms P us) (\<lambda>_. True)"
proof -
  note k = assms [unfolded services_apart_def]
  show "quiet mem idle (mutex_lock P m timeout) (\<lambda>_. True)"
    using k by (simp add: mutex_lock_def quiet_below)
  show "quiet mem idle (mutex_unlock P m) (\<lambda>_. True)"
    using k by (simp add: mutex_unlock_def quiet_def wp_simps wp_below same_mem_def keeps_memory_def split_beta)
  show "quiet mem idle (delay_us P us) (\<lambda>_. True)" "quiet mem idle (delay_ms P us) (\<lambda>_. True)"
    using k by (simp_all add: delay_us_def delay_ms_def quiet_def wp_simps same_mem_def keeps_memory_def)
qed

lemma bus_services:
  assumes "spi_bus P mem idle"
  shows "quiet mem idle (mutex_lock P m timeout) (\<lambda>_. True)" and "quiet mem idle (mutex_unlock P m) (\<lambda>_. True)"
    and "quiet mem idle (delay_us P us) (\<lambda>_. True)" and "quiet mem idle (delay_ms P us) (\<lambda>_. True)"
  using assms by (simp_all add: spi_bus_def quiet_apart)

lemmas quiet_services = bus_services [OF spi_slave_bus]

lemma bus_command:
  assumes "spi_bus P mem idle" and "c \<noteq> SPI_CMDCODE_FREAD" and "c \<noteq> SPI_CMDCODE_WRITE"
  shows "quiet mem idle (qcspi_transfer P (c # tx)) (\<lambda>x. length (snd x) = Suc (length tx))"
  using assms
  by (auto simp: quiet_def qcspi_transfer_def spi_transceive_def wp_below same_mem_def spi_bus_def spi_commands_def
      split: prod.splits)

lemmas quiet_command = bus_command [OF spi_slave_bus]

text \<open>Building the quiet operations from the quiet steps.\<close>

lemma quiet_bind:
  fixes m :: "(('w, 'z) host_st_scheme, 'a) state"
  assumes "quiet mem idle m A" and "\<And>x. A x \<Longrightarrow> quiet mem idle (f x) B"
  shows "quiet mem idle (State_Monad.bind m f) B"
  unfolding quiet_def wp_bind
proof (intro allI impI)
  fix s :: "('w, 'z) host_st_scheme"
  assume "idle (hw s)"
  then show "wp m (\<lambda>r. wp (f r) (\<lambda>x t. same_mem mem idle s t \<and> B x)) s"
    by (intro quietD [OF assms(1) same_mem_refl] quietD [OF assms(2)]) simp_all
qed

lemma quiet_return: "A x \<Longrightarrow> quiet mem idle (State_Monad.return x) A"
  by (simp add: quiet_def wp_simps same_mem_refl)

lemma quiet_mono: "quiet mem idle m A \<Longrightarrow> (\<And>x. A x \<Longrightarrow> B x) \<Longrightarrow> quiet mem idle m B"
  by (auto simp: quiet_def intro: wp_mono)

lemma quiet_prod: "(\<And>a b. x = (a, b) \<Longrightarrow> quiet mem idle (f a b) A) \<Longrightarrow> quiet mem idle (case x of (a, b) \<Rightarrow> f a b) A"
  by (cases x) simp

lemma not_data_commands:
  "SPI_SLAVE_RDSR \<noteq> SPI_CMDCODE_FREAD" "SPI_SLAVE_RDSR \<noteq> SPI_CMDCODE_WRITE"
  "SPI_CMDCODE_IRR \<noteq> SPI_CMDCODE_FREAD" "SPI_CMDCODE_IRR \<noteq> SPI_CMDCODE_WRITE"
  "SPI_CMDCODE_IRW \<noteq> SPI_CMDCODE_FREAD" "SPI_CMDCODE_IRW \<noteq> SPI_CMDCODE_WRITE"
  "SPI_CMDCODE_NOP \<noteq> SPI_CMDCODE_FREAD" "SPI_CMDCODE_NOP \<noteq> SPI_CMDCODE_WRITE"
  by (simp_all add: SPI_SLAVE_RDSR_def SPI_CMDCODE_FREAD_def SPI_CMDCODE_WRITE_def SPI_CMDCODE_IRR_def
      SPI_CMDCODE_IRW_def SPI_CMDCODE_NOP_def)

lemma bus_RDSR: "spi_bus P mem idle \<Longrightarrow> quiet mem idle (qcspi_RDSR P) (\<lambda>_. True)"
  unfolding qcspi_RDSR_def
  by (rule quiet_bind bus_services bus_command quiet_prod quiet_return not_data_commands TrueI | assumption)+

lemma bus_IRR: "spi_bus P mem idle \<Longrightarrow> quiet mem idle (qcspi_IRR P reg) (\<lambda>_. True)"
  unfolding qcspi_IRR_def
  by (rule quiet_bind bus_services bus_command quiet_prod quiet_return not_data_commands TrueI | assumption)+

lemma bus_IRW: "spi_bus P mem idle \<Longrightarrow> quiet mem idle (qcspi_IRW P reg v) (\<lambda>_. True)"
  unfolding qcspi_IRW_def
  by (rule quiet_bind bus_services bus_command quiet_prod quiet_return not_data_commands TrueI | assumption)+

lemmas quiet_IRW = bus_IRW [OF spi_slave_bus]
lemmas quiet_IRR = bus_IRR [OF spi_slave_bus]

section \<open>Waiting for the slave\<close>

lemma bus_wait: "spi_bus P mem idle \<Longrightarrow> quiet mem idle (qcspi_wait P k) (\<lambda>r. r = 0 \<or> r = - QC_OSAL_ETIMEDOUT)"
proof (induction "QCSPI_MAX_INIT_TRY_TIMES - k" arbitrary: k rule: less_induct)
  case less
  then show ?case
    by (subst qcspi_wait.simps)
      (auto intro!: quiet_bind [OF bus_RDSR] quiet_bind [OF bus_services(3)] quiet_prod quiet_return)
qed

lemmas quiet_wait = bus_wait [OF spi_slave_bus]

section \<open>Aligned reads and writes\<close>

text \<open>The outcome of a read and of a write from the state \<open>s\<close>.\<close>

definition read_of ::
  "('w \<Rightarrow> u32 \<Rightarrow> u8) \<Rightarrow> ('w \<Rightarrow> bool) \<Rightarrow> ('w, 'z) host_st_scheme \<Rightarrow> u32 \<Rightarrow> nat \<Rightarrow> int \<times> bytes \<Rightarrow> ('w, 'z) host_st_scheme \<Rightarrow> bool" where
  "read_of mem idle s a n x t \<longleftrightarrow> same_mem mem idle s t \<and> (0 \<le> fst x \<longrightarrow> snd x = mem_read (mem (hw s)) a n)"

definition write_of ::
  "('w \<Rightarrow> u32 \<Rightarrow> u8) \<Rightarrow> ('w \<Rightarrow> bool) \<Rightarrow> ('w, 'z) host_st_scheme \<Rightarrow> u32 \<Rightarrow> bytes \<Rightarrow> int \<Rightarrow> ('w, 'z) host_st_scheme \<Rightarrow> bool" where
  "write_of mem idle s a bs r t \<longleftrightarrow> idle (hw t) \<and> host_st.more t = host_st.more s
     \<and> (0 \<le> r \<longrightarrow> mem (hw t) = mem_write (mem (hw s)) a bs)
     \<and> (\<forall>x. \<not> touched a (length bs) x \<longrightarrow> mem (hw t) x = mem (hw s) x)"

lemma unat_mod_4: "n mod 4 = 0 \<Longrightarrow> unat (n :: u16) mod 4 = 0"
  by (drule arg_cong [where f = unat]) (simp add: unat_mod)

lemma not_touched: "\<not> touched a n x \<Longrightarrow> n \<le> unat (x - a)"
  unfolding touched_def not_less [symmetric] by (auto dest: spec [of _ "unat (x - a)"])

lemma wp_spi_transceive:
  "wp (spi_transceive P tx hold) Q s =
     (case qc_platform_spi_transceive P (hw s) tx hold of (r, rx, w) \<Rightarrow> Q (r, rx) (s\<lparr>hw := w\<rparr>))"
  by (simp add: spi_transceive_def wp_below split_beta)

text \<open>The part of a read behind the write of the length.\<close>

lemma wp_read_data:
  fixes s u :: "('w, 'z) host_st_scheme"
  assumes bus: "spi_bus P mem idle" and u: "same_mem mem idle s u" and "reads_at P mem idle (hw u) a n"
  shows "wp (do {
       (r, _) \<leftarrow> qcspi_transfer_sg P (fread_header a);
       if r < 0 then do { mutex_unlock P Qcspi_Mutex; State_Monad.return (r, []) }
       else do {
         (r, rx) \<leftarrow> qcspi_transfer P (replicate n 0);
         mutex_unlock P Qcspi_Mutex;
         if r < 0 then State_Monad.return (r, rx)
         else do { r \<leftarrow> qcspi_wait P 0; State_Monad.return (r, rx) }
       }}) (read_of mem idle s a n) u"
proof -
  obtain r rx w1 where h: "qc_platform_spi_transceive P (hw u) (fread_header a) True = (r, rx, w1)"
    using prod_cases3 by blast
  obtain r2 d w2 where t: "qc_platform_spi_transceive P w1 (replicate n 0) False = (r2, d, w2)"
    using prod_cases3 by blast
  have u': "idle (hw u)" "mem (hw u) = mem (hw s)" "host_st.more u = host_st.more s"
    using u by (simp_all add: same_mem_def)
  note hd = assms(3) [unfolded reads_at_def, rule_format, OF h]
  show ?thesis
  proof (cases "r < 0")
    case True
    have "same_mem mem idle s (u\<lparr>hw := w1\<rparr>)" using hd u' True by (simp add: same_mem_def)
    then have "wp (mutex_unlock P Qcspi_Mutex) (\<lambda>_. wp (State_Monad.return (r, [])) (read_of mem idle s a n))
        (u\<lparr>hw := w1\<rparr>)"
      using True by (intro quietD [OF bus_services(2) [OF bus]]) (simp_all add: wp_simps read_of_def)
    with True show ?thesis by (simp add: qcspi_transfer_sg_def wp_bind wp_spi_transceive h)
  next
    case False
    have d: "idle w2 \<and> mem w2 = mem (hw s) \<and> (\<not> r2 < 0 \<longrightarrow> d = mem_read (mem (hw s)) a n)"
      using hd False t u'(2) by metis
    then have s2: "same_mem mem idle s (u\<lparr>hw := w2\<rparr>)" using u' by (simp add: same_mem_def)
    have "wp (mutex_unlock P Qcspi_Mutex) (\<lambda>_. wp (if r2 < 0 then State_Monad.return (r2, d)
         else do { r \<leftarrow> qcspi_wait P 0; State_Monad.return (r, d) }) (read_of mem idle s a n)) (u\<lparr>hw := w2\<rparr>)"
    proof (rule quietD [OF bus_services(2) [OF bus] s2])
      fix v
      assume v: "same_mem mem idle s v"
      show "wp (if r2 < 0 then State_Monad.return (r2, d)
         else do { r \<leftarrow> qcspi_wait P 0; State_Monad.return (r, d) }) (read_of mem idle s a n) v"
      proof (cases "r2 < 0")
        case True
        with v show ?thesis by (simp add: wp_simps read_of_def)
      next
        case False
        then show ?thesis
          using d by (auto simp: wp_bind wp_return read_of_def intro!: quietD [OF bus_wait [OF bus] v])
      qed
    qed
    with False show ?thesis
      by (simp add: qcspi_transfer_sg_def qcspi_transfer_def wp_bind wp_spi_transceive h t)
  qed
qed

lemma wp_qcspi_read:
  fixes s :: "('w, 'z) host_st_scheme"
  assumes slave: "spi_slave P mem idle" and idle: "idle (hw s)"
    and al: "a AND 3 = 0" "n mod 4 = 0" "0 < n"
  shows "wp (qcspi_read P n a) (read_of mem idle s a (unat n)) s"
proof (cases "n > QCSPI_MAX_TRANSFER_SIZE")
  case True
  then show ?thesis
    using idle by (simp add: qcspi_read_def wp_simps read_of_def same_mem_refl QC_OSAL_EINVAL_def)
next
  case False
  have n: "0 < unat n" "unat n mod 4 = 0"
    using al(2,3) by (simp_all add: unat_gt_0 unat_mod_4)
  have rds: "reads_at P mem idle (hw u) a (unat n)" if "same_mem mem idle s u" for u :: "('w, 'z) host_st_scheme"
  proof -
    have "idle (hw u)" using that by (simp add: same_mem_def)
    note rds = slave [unfolded spi_slave_def spi_reads_def, THEN conjunct2, THEN conjunct2, THEN conjunct1, rule_format, OF this]
    show ?thesis unfolding reads_at_def using n al(1) by (intro allI impI) (drule rds, simp)
  qed
  show ?thesis
    unfolding qcspi_read_def if_not_P [OF False]
    by (subst wp_bind, rule quietD [OF quiet_IRW [OF slave] same_mem_refl [of idle s, OF idle]], subst wp_bind,
        rule quietD [OF quiet_services(1) [OF slave]], assumption, rule wp_read_data [OF spi_slave_bus [OF slave]],
        assumption, rule rds)
qed

lemma wp_sized_read:
  fixes s :: "('w, 'z) host_st_scheme"
  assumes slave: "sized_slave P mem len idle" and idle: "idle (hw s)"
    and al: "a AND 3 = 0" "n mod 4 = 0" "0 < n"
  shows "wp (qcspi_read P n a) (read_of mem idle s a (unat n)) s"
proof (cases "n > QCSPI_MAX_TRANSFER_SIZE")
  case True
  then show ?thesis
    using idle by (simp add: qcspi_read_def wp_simps read_of_def same_mem_refl QC_OSAL_EINVAL_def)
next
  case False
  let ?v = "push_bit 16 (ucast n :: u32)" and ?view = "\<lambda>w. (mem w, len w)"
  have n: "0 < unat n" "unat n mod 4 = 0"
    using al(2,3) by (simp_all add: unat_gt_0 unat_mod_4)
  have apart: "services_apart P ?view idle" and reg: "spi_length_register P mem len idle"
    using slave by (simp_all add: sized_slave_def)
  have irw: "wp (qcspi_IRW P SPI_SLAVE_TRNS_LEN ?v) (\<lambda>_ u. same_mem mem idle s u \<and> len (hw u) = ?v) s"
  proof -
    have sent: "wp (qcspi_transfer P (SPI_CMDCODE_IRW # SPI_SLAVE_TRNS_LEN # qcspi_word_to_byte_big_endian ?v))
        (\<lambda>_ v. same_mem mem idle s v \<and> len (hw v) = ?v) u" if "same_mem ?view idle s u" for u
      using reg that
      by (auto simp: qcspi_transfer_def wp_spi_transceive spi_length_register_def same_mem_def split: prod.splits)
    have unlock: "wp (case x of (r, _) \<Rightarrow> do { mutex_unlock P Qcspi_Mutex; State_Monad.return (if r < 0 then r else 0) })
        (\<lambda>_ u. same_mem mem idle s u \<and> len (hw u) = ?v) u"
      if "same_mem mem idle s u \<and> len (hw u) = ?v" for x :: "int \<times> bytes" and u
    proof (cases x)
      case (Pair r rx)
      have "same_mem ?view idle u u" using that by (simp add: same_mem_def)
      then show ?thesis
        unfolding Pair prod.case wp_bind
        by (rule quietD [OF quiet_apart(2) [OF apart]]) (use that in \<open>simp add: wp_return same_mem_def\<close>)
    qed
    have lock: "wp (mutex_lock P Qcspi_Mutex QC_OSAL_TIMEOUT_FOREVER) (\<lambda>_ u. same_mem ?view idle s u) s"
      by (rule quietD [OF quiet_apart(1) [OF apart] same_mem_refl [of idle s, OF idle]])
    show ?thesis
      unfolding qcspi_IRW_def
      by (subst wp_bind, rule wp_mono [OF lock], subst wp_bind, rule wp_mono [OF sent], assumption, rule unlock, assumption)
  qed
  have rds: "reads_at P mem idle (hw u) a (unat n)" if "idle (hw u)" "len (hw u) = ?v" for u :: "('w, 'z) host_st_scheme"
    using slave that n al(1) unat_lt_u16 [of n] unfolding sized_slave_def spi_sized_reads_def by simp
  show ?thesis
    unfolding qcspi_read_def if_not_P [OF False]
  proof (subst wp_bind, rule wp_mono [OF irw], subst wp_bind)
    fix r u
    assume u: "same_mem mem idle s u \<and> len (hw u) = ?v"
    then have "same_mem ?view idle u u" by (simp add: same_mem_def)
    then show "wp (mutex_lock P Qcspi_Mutex QC_OSAL_TIMEOUT_FOREVER) (\<lambda>x. wp (do {
       (r, _) \<leftarrow> qcspi_transfer_sg P (fread_header a);
       if r < 0 then do { mutex_unlock P Qcspi_Mutex; State_Monad.return (r, []) }
       else do {
         (r, rx) \<leftarrow> qcspi_transfer P (replicate (unat n) 0);
         mutex_unlock P Qcspi_Mutex;
         if r < 0 then State_Monad.return (r, rx)
         else do { r \<leftarrow> qcspi_wait P 0; State_Monad.return (r, rx) }
       }}) (read_of mem idle s a (unat n))) u"
    proof (rule quietD [OF quiet_apart(1) [OF apart]])
      fix x v
      assume "same_mem ?view idle u v"
      with u have "same_mem mem idle s v" "idle (hw v)" "len (hw v) = ?v" by (simp_all add: same_mem_def)
      then show "wp (do {
       (r, _) \<leftarrow> qcspi_transfer_sg P (fread_header a);
       if r < 0 then do { mutex_unlock P Qcspi_Mutex; State_Monad.return (r, []) }
       else do {
         (r, rx) \<leftarrow> qcspi_transfer P (replicate (unat n) 0);
         mutex_unlock P Qcspi_Mutex;
         if r < 0 then State_Monad.return (r, rx)
         else do { r \<leftarrow> qcspi_wait P 0; State_Monad.return (r, rx) }
       }}) (read_of mem idle s a (unat n)) v"
        by (intro wp_read_data [OF sized_slave_bus [OF slave]] rds)
    qed
  qed
qed

lemma wp_qcspi_write:
  fixes s :: "('w, 'z) host_st_scheme"
  assumes slave: "spi_slave P mem idle" and idle: "idle (hw s)"
    and al: "a AND 3 = 0" "n mod 4 = 0" "0 < n" and len: "unat n \<le> length bs"
  shows "wp (qcspi_write P n a bs) (write_of mem idle s a (take (unat n) bs)) s"
proof (cases "n > QCSPI_MAX_TRANSFER_SIZE")
  case True
  then show ?thesis
    using idle by (simp add: qcspi_write_def wp_simps write_of_def QC_OSAL_EINVAL_def)
next
  case False
  note wrs = slave [unfolded spi_slave_def spi_writes_def, THEN conjunct2, THEN conjunct2, THEN conjunct2, rule_format]
  let ?bs = "take (unat n) bs"
  have n: "?bs \<noteq> []" "length ?bs mod 4 = 0"
    using al(2,3) len unat_gt_0 [of n] by (auto simp: unat_mod_4)
  have data: "wp (do {
       (r, _) \<leftarrow> qcspi_transfer_sg P (write_header a);
       if r < 0 then do { mutex_unlock P Qcspi_Mutex; State_Monad.return r }
       else do {
         (r, _) \<leftarrow> qcspi_transfer P ?bs;
         mutex_unlock P Qcspi_Mutex;
         if r < 0 then State_Monad.return r else qcspi_wait P 0
       }}) (write_of mem idle s a ?bs) u"
    if u: "same_mem mem idle s u" for u
  proof -
    obtain r rx w1 where h: "qc_platform_spi_transceive P (hw u) (write_header a) True = (r, rx, w1)"
      using prod_cases3 by blast
    obtain r2 d w2 where t: "qc_platform_spi_transceive P w1 ?bs False = (r2, d, w2)"
      using prod_cases3 by blast
    have u': "idle (hw u)" "mem (hw u) = mem (hw s)" "host_st.more u = host_st.more s"
      using u by (simp_all add: same_mem_def)
    note hd = wrs [OF u'(1) h]
    show ?thesis
    proof (cases "r < 0")
      case True
      have "same_mem mem idle s (u\<lparr>hw := w1\<rparr>)" using hd u' True by (simp add: same_mem_def)
      then have "wp (mutex_unlock P Qcspi_Mutex) (\<lambda>_. wp (State_Monad.return r) (write_of mem idle s a ?bs)) (u\<lparr>hw := w1\<rparr>)"
        using True by (intro quietD [OF quiet_services(2) [OF slave]]) (auto simp: wp_simps write_of_def same_mem_def)
      with True show ?thesis by (simp add: qcspi_transfer_sg_def wp_bind wp_spi_transceive h)
    next
      case False
      have "a AND 3 = 0" by (rule al)
      then have d: "idle w2 \<and> (\<not> r2 < 0 \<longrightarrow> mem w2 = mem_write (mem (hw s)) a ?bs)
          \<and> (\<forall>x. length ?bs \<le> unat (x - a) \<longrightarrow> mem w2 x = mem (hw s) x)"
        using hd False n t u'(2) by metis
      have out: "write_of mem idle s a ?bs r v" if "same_mem mem idle (u\<lparr>hw := w2\<rparr>) v" "0 \<le> r \<Longrightarrow> \<not> r2 < 0" for v r
        using that d u' by (auto simp: same_mem_def write_of_def dest!: not_touched)
      have s2: "same_mem mem idle (u\<lparr>hw := w2\<rparr>) (u\<lparr>hw := w2\<rparr>)" using d by (simp add: same_mem_def)
      have "wp (mutex_unlock P Qcspi_Mutex) (\<lambda>_. wp (if r2 < 0 then State_Monad.return r2 else qcspi_wait P 0)
          (write_of mem idle s a ?bs)) (u\<lparr>hw := w2\<rparr>)"
      proof (rule quietD [OF quiet_services(2) [OF slave] s2])
        fix v
        assume v: "same_mem mem idle (u\<lparr>hw := w2\<rparr>) v"
        show "wp (if r2 < 0 then State_Monad.return r2 else qcspi_wait P 0) (write_of mem idle s a ?bs) v"
          by (auto simp: wp_return intro!: out v quietD [OF quiet_wait [OF slave] v])
      qed
      with False show ?thesis
        by (simp add: qcspi_transfer_sg_def qcspi_transfer_def wp_bind wp_spi_transceive h t)
    qed
  qed
  show ?thesis
    unfolding qcspi_write_def if_not_P [OF False]
    by (subst wp_bind, rule quietD [OF quiet_services(1) [OF slave] same_mem_refl [of idle s, OF idle]],
        rule data, assumption)
qed

end
