(* ===== verification/Qcspi_Align_Proofs.thy ===== *)
theory Qcspi_Align_Proofs
  imports Qcspi_Proofs
begin

text \<open>
  Reads and writes of any alignment and length are made of aligned ones, with a read-modify-write of the
  first and the last word.
\<close>

section \<open>Words and parts of words\<close>

lemma unat_and_3: "unat ((x :: u32) AND 3) = unat x mod 4"
proof -
  have "x AND 3 = x mod 4"
    using take_bit_eq_mod [of 2 x] by (simp add: take_bit_eq_mask mask_eq_exp_minus_1)
  then show ?thesis by (simp add: unat_mod)
qed

lemma word_floor: "(a :: u32) AND 0xFFFFFFFC = a - (a AND 3)"
proof -
  have "NOT a AND (a AND 3) = 0" by (rule bit_eqI) (simp add: bit_simps)
  then have "a - (a AND 3) = a AND NOT (a AND 3)" by (rule disjunctive_diff_eq_and_not)
  also have "\<dots> = a AND NOT 3" by (rule bit_eqI) (auto simp add: bit_simps)
  also have "(NOT 3 :: u32) = 0xFFFFFFFC" by simp
  finally show ?thesis by simp
qed

lemma floor_aligned: "((a :: u32) AND 0xFFFFFFFC) AND 3 = 0"
  by (simp add: and.assoc)

lemma aligned_iff: "(a :: u32) AND 3 = 0 \<longleftrightarrow> unat a mod 4 = 0"
  using unat_and_3 [of a] unat_eq_0 [of "a AND 3"] by simp

lemma aligned_add: 
  assumes "(a :: u32) AND 3 = 0" "unat b mod 4 = 0" shows "(a + b) AND 3 = 0"
proof -
  have "unat (a + b) mod 4 = (unat a + unat b) mod 4"
    by (simp add: unat_word_ariths mod_mod_cancel)
  also have "\<dots> = 0" using assms mod_add_eq [of "unat a" 4 "unat b"] by (simp add: aligned_iff)
  finally show ?thesis by (simp add: aligned_iff)
qed

lemma floor_back: "((a :: u32) AND 0xFFFFFFFC) + of_nat (unat a mod 4) = a"
proof -
  have "of_nat (unat (a AND 3)) = a AND 3" by simp
  then have "of_nat (unat a mod 4) = a AND 3" by (simp only: unat_and_3)
  then show ?thesis by (simp add: word_floor)
qed

lemma unat_ucast_u16 [simp]: "unat (ucast (n :: u16) :: u32) = unat n"
  by (simp add: unsigned_ucast_eq take_bit_nat_eq_self_iff) (rule less_trans [OF unat_lt_u16], simp)

lemma unat_first_part: "unat (first_part a n) = min (4 - unat a mod 4) (unat n)"
proof -
  have "a AND 3 \<le> 4" using unat_and_3 [of a] by (simp add: word_le_nat_alt)
  then have s: "unat (4 - (a AND 3)) = 4 - unat a mod 4" by (simp add: unat_sub unat_and_3)
  show ?thesis by (simp add: first_part_def word_less_nat_alt s unat_ucast_u16 min_def)
qed

lemma unat_middle_part:
  assumes "unat k \<le> unat n"
  shows "unat (middle_part n k) = (unat n - unat k) div 4 * 4"
proof -
  let ?d = "ucast n - k"
  have d: "unat ?d = unat n - unat k" using assms by (simp add: unat_sub word_le_nat_alt)
  have "unat (?d AND 3) \<le> unat ?d" by (simp add: unat_and_3)
  then have "unat (?d - (?d AND 3)) = unat ?d - unat ?d mod 4" by (simp add: unat_sub word_le_nat_alt unat_and_3)
  then show ?thesis by (simp add: middle_part_def word_floor d minus_mod_eq_div_mult)
qed

section \<open>Reads and writes of any alignment\<close>

text \<open>What the accesses of any alignment need of the aligned reads from the states of a type.\<close>

definition read_right ::
  "'w host_port \<Rightarrow> ('w \<Rightarrow> u32 \<Rightarrow> u8) \<Rightarrow> ('w \<Rightarrow> bool) \<Rightarrow> ('w, 'z) host_st_scheme \<Rightarrow> bool" where
  "read_right P mem idle s \<longleftrightarrow> (\<forall>a n. idle (hw s) \<longrightarrow> a AND 3 = 0 \<longrightarrow> n mod 4 = 0 \<longrightarrow> 0 < n \<longrightarrow>
     wp (qcspi_read P n a) (read_of mem idle s a (unat n)) s)"

lemma reads_right: "spi_slave P mem idle \<Longrightarrow> read_right P mem idle s"
  by (simp add: read_right_def wp_qcspi_read)

lemma sized_reads_right: "sized_slave P mem len idle \<Longrightarrow> read_right P mem idle s"
  by (simp add: read_right_def wp_sized_read)

lemma wp_right_read_on:
  fixes s :: "('w, 'z) host_st_scheme"
  assumes "\<And>u :: ('w, 'z) host_st_scheme. read_right P mem idle u" and "same_mem mem idle s u"
    and "a AND 3 = 0" "n mod 4 = 0" "0 < n"
    and "\<And>r d t. same_mem mem idle s t \<Longrightarrow> (0 \<le> r \<Longrightarrow> d = mem_read (mem (hw s)) a (unat n)) \<Longrightarrow> Q (r, d) t"
  shows "wp (qcspi_read P n a) Q u"
proof -
  have "idle (hw u)" using assms(2) by (simp add: same_mem_def)
  then have "wp (qcspi_read P n a) (read_of mem idle u a (unat n)) u"
    using assms(1) [of u] assms(3-5) by (simp add: read_right_def)
  then show ?thesis
    by (rule wp_mono) (use assms(2) in \<open>auto simp: read_of_def same_mem_def intro!: assms(6)\<close>)
qed

lemmas wp_read_on = wp_right_read_on [OF reads_right]

lemma wp_read_last:
  fixes s :: "('w, 'z) host_st_scheme"
  assumes "\<And>u :: ('w, 'z) host_st_scheme. read_right P mem idle u" and "same_mem mem idle s u" and "w AND 3 = 0"
    and "unat k < unat n" and "unat n - unat k < 4" and "w = a + of_nat (unat k)" and "out = mem_read (mem (hw s)) a (unat k)"
  shows "wp (read_last P n k w out) (read_of mem idle s a (unat n)) u"
proof -
  have "unat (ucast n - k) = unat n - unat k" using assms(4) by (simp add: unat_sub word_le_nat_alt)
  moreover have "mem_read m a (unat n) = mem_read m a (unat k) @ mem_read m w (unat n - unat k)" for m
    using mem_read_add [of m a "unat k" "unat n - unat k"] assms(4,6) by simp
  ultimately show ?thesis
    unfolding read_last_def wp_bind
    by (intro wp_right_read_on [OF assms(1-3)])
       (use assms in \<open>auto simp: wp_simps read_of_def take_mem_read min_def\<close>)
qed

text \<open>Where the middle and the last part of an access of any alignment begin.\<close>

lemma first_step:
  assumes "unat (first_part a n) < unat n"
  shows "(a AND 0xFFFFFFFC) + 4 = a + of_nat (unat (first_part a n))"
proof -
  have "unat a mod 4 + unat (first_part a n) = 4" using unat_first_part [of a n] assms by simp
  then have four: "of_nat (unat a mod 4) + of_nat (unat (first_part a n)) = (4 :: u32)"
    by (simp only: of_nat_add [symmetric]) simp
  have "a + of_nat (unat (first_part a n)) = (a AND 0xFFFFFFFC) + (of_nat (unat a mod 4) + of_nat (unat (first_part a n)))"
    by (simp only: add.assoc [symmetric] floor_back)
  then show ?thesis by (simp only: four)
qed

lemma middle_facts:
  fixes a :: u32 and n :: u16
  defines "k \<equiv> first_part a n" and "w \<equiv> a AND 0xFFFFFFFC"
  defines "sz \<equiv> middle_part n k"
  assumes "k + 4 \<le> ucast n"
  shows "(ucast sz :: u16) mod 4 = 0" and "0 < (ucast sz :: u16)"
    and "unat k + unat (ucast sz :: u16) \<le> unat n" and "unat (k + sz) = unat k + unat (ucast sz :: u16)"
    and "unat n - unat (k + sz) < 4" and "(w + 4 + sz) AND 3 = 0" and "w + 4 + sz = a + of_nat (unat (k + sz))"
proof -
  have n16: "unat n < 65536" by simp
  have k: "unat k \<le> 4" "unat k \<le> unat n" using unat_first_part [of a n] by (simp_all add: k_def)
  have k4: "unat (k + 4) = unat k + 4" using k by (intro trans [OF unat_add_nowrap]) simp_all
  have fit: "4 \<le> unat n - unat k" using assms(4) k4 by (simp add: word_le_nat_alt)
  have S: "unat sz = (unat n - unat k) div 4 * 4" using k by (simp add: sz_def unat_middle_part)
  have S16: "unat (ucast sz :: u16) = unat sz"
    using S n16 by (simp add: unsigned_ucast_eq take_bit_nat_eq_self_iff del: unat_lt_u16)
  have ks: "unat (k + sz) = unat k + unat sz" using S k n16 by (intro unat_add_nowrap) (simp del: unat_lt_u16)
  have "unat (ucast sz :: u16) \<noteq> unat (0 :: u16)" using S S16 fit by simp
  moreover have "unat ((ucast sz :: u16) mod 4) = 0" using S S16 by (simp add: unat_mod)
  ultimately show "(ucast sz :: u16) mod 4 = 0" and "0 < (ucast sz :: u16)"
    by (auto simp only: unat_eq_0 word_gt_0)
  show "unat k + unat (ucast sz :: u16) \<le> unat n" using S S16 k by simp
  show "unat (k + sz) = unat k + unat (ucast sz :: u16)" using ks S16 by simp
  show "unat n - unat (k + sz) < 4" using ks S by presburger
  show "(w + 4 + sz) AND 3 = 0" using S by (intro aligned_add) (simp_all add: w_def floor_aligned aligned_add)
  have "w + 4 = a + of_nat (unat k)" using first_step [of a n] fit by (simp add: w_def k_def)
  then show "w + 4 + sz = a + of_nat (unat (k + sz))" by simp
qed

lemma wp_right_read_addr_align:
  fixes s :: "('w, 'z) host_st_scheme"
  assumes slave: "\<And>u :: ('w, 'z) host_st_scheme. read_right P mem idle u" and idle: "idle (hw s)" and n: "0 < n"
  shows "wp (qcspi_read_addr_align P n a) (read_of mem idle s a (unat n)) s"
proof (cases "word_aligned a n")
  case True
  then show ?thesis
    using slave [of s] idle n by (simp add: qcspi_read_addr_align_def word_aligned_def read_right_def)
next
  case False
  let ?m = "mem (hw s)" and ?w = "a AND 0xFFFFFFFC" and ?k = "first_part a n"
  let ?off = "unat a mod 4"
  have k: "unat ?k = min (4 - ?off) (unat n)" by (rule unat_first_part)
  have out: "take (unat ?k) (drop ?off (mem_read ?m ?w 4)) = mem_read ?m a (unat ?k)"
    using k floor_back [of a] by (simp add: drop_mem_read take_mem_read min_def)
  show ?thesis
    unfolding qcspi_read_addr_align_def if_not_P [OF False] Let_def
  proof (subst wp_bind, rule wp_right_read_on [OF slave same_mem_refl [of idle s, OF idle] floor_aligned], simp_all only: prod.case)
    fix r :: int and d t
    assume t: "same_mem mem idle s t" and rd: "0 \<le> r \<Longrightarrow> d = mem_read ?m ?w (unat (4 :: u16))"
    have d: "take (unat ?k) (drop (unat (a AND 3)) d) = mem_read ?m a (unat ?k)" if "\<not> r < 0"
    proof -
      have "d = mem_read ?m ?w 4" using that rd by simp
      then show ?thesis by (simp only: unat_and_3 out)
    qed
    let ?s = "middle_part n ?k" and ?out = "take (unat ?k) (drop (unat (a AND 3)) d)"
    have n16: "unat n < 65536" by simp
    have w4: "(?w + 4) AND 3 = 0" by (rule aligned_add [OF floor_aligned]) simp
    show "wp (if r < 0 then State_Monad.return (r, [])
       else if ucast n \<le> ?k then State_Monad.return (0, ?out)
       else if ?k + 4 \<le> ucast n then do {
         (r, d') \<leftarrow> qcspi_read P (ucast ?s) (?w + 4);
         if r < 0 then State_Monad.return (r, ?out)
         else if ucast n \<le> ?k + ?s then State_Monad.return (0, ?out @ d')
         else read_last P n (?k + ?s) (?w + 4 + ?s) (?out @ d')
       } else read_last P n ?k (?w + 4) ?out) (read_of mem idle s a (unat n)) t"
    proof (cases "r < 0")
      case True
      with t show ?thesis by (simp add: wp_return read_of_def)
    next
      case r: False
      note out = d [OF r]
      show ?thesis
      proof (cases "ucast n \<le> ?k")
        case True
        then have "unat ?k = unat n" using k by (simp add: word_le_nat_alt)
        with r True t out show ?thesis by (simp add: wp_return read_of_def)
      next
        case False
        then have lt: "unat ?k < unat n" by (simp add: word_le_nat_alt)
        note w = first_step [OF lt]
        have k4: "unat (?k + 4) = unat ?k + 4" using lt n16 by (intro trans [OF unat_add_nowrap]) (simp_all del: unat_lt_u16)
        show ?thesis
        proof (cases "?k + 4 \<le> ucast n")
          case F: False
          have "unat n - unat ?k < 4" using F k4 by (simp add: word_le_nat_alt)
          with r False F show ?thesis
            by (simp only: if_False) (rule wp_read_last [OF slave t w4 lt _ w out])
        next
          case T: True
          note mid = middle_facts [OF T]
          have "wp (qcspi_read P (ucast ?s) (?w + 4)) (\<lambda>x. wp (case x of (r, d') \<Rightarrow> if r < 0 then State_Monad.return (r, ?out)
              else if ucast n \<le> ?k + ?s then State_Monad.return (0, ?out @ d')
              else read_last P n (?k + ?s) (?w + 4 + ?s) (?out @ d')) (read_of mem idle s a (unat n))) t"
          proof (rule wp_right_read_on [OF slave t w4 mid(1,2)], simp only: prod.case)
            fix r' :: int and d' t'
            assume t': "same_mem mem idle s t'" and rd: "0 \<le> r' \<Longrightarrow> d' = mem_read ?m (?w + 4) (unat (ucast ?s :: u16))"
            have d': "?out @ d' = mem_read ?m a (unat (?k + ?s))" if "\<not> r' < 0"
            proof -
              have "d' = mem_read ?m (a + of_nat (unat ?k)) (unat (ucast ?s :: u16))" using that rd by (simp only: w not_less)
              then show ?thesis by (simp only: mid(4) mem_read_add out)
            qed
            show "wp (if r' < 0 then State_Monad.return (r', ?out)
              else if ucast n \<le> ?k + ?s then State_Monad.return (0, ?out @ d')
              else read_last P n (?k + ?s) (?w + 4 + ?s) (?out @ d')) (read_of mem idle s a (unat n)) t'"
            proof (cases "r' < 0")
              case True
              with t' show ?thesis by (simp add: wp_return read_of_def)
            next
              case r': False
              show ?thesis
              proof (cases "ucast n \<le> ?k + ?s")
                case True
                then have "unat (?k + ?s) = unat n" using mid(3,4) by (simp add: word_le_nat_alt)
                with r' True t' d' show ?thesis by (simp add: wp_return read_of_def)
              next
                case F: False
                have "unat (?k + ?s) < unat n" using F by (simp add: word_le_nat_alt)
                then show ?thesis
                  unfolding if_not_P [OF r'] if_not_P [OF F]
                  by (rule wp_read_last [OF slave t' mid(6) _ mid(5,7) d' [OF r']])
              qed
            qed
          qed
          then show ?thesis unfolding if_not_P [OF r] if_not_P [OF False] if_P [OF T] wp_bind .
        qed
      qed
    qed
  qed simp_all
qed

lemmas wp_read_addr_align = wp_right_read_addr_align [OF reads_right]
lemmas wp_sized_read_addr_align = wp_right_read_addr_align [OF sized_reads_right]

text \<open>The first \<open>k\<close> of the bytes of a write have reached the memory.\<close>

definition written ::
  "('w \<Rightarrow> u32 \<Rightarrow> u8) \<Rightarrow> ('w \<Rightarrow> bool) \<Rightarrow> ('w, 'z) host_st_scheme \<Rightarrow> u32 \<Rightarrow> bytes \<Rightarrow> nat \<Rightarrow> ('w, 'z) host_st_scheme \<Rightarrow> bool" where
  "written mem idle s a bs k t \<longleftrightarrow> idle (hw t) \<and> host_st.more t = host_st.more s
     \<and> mem (hw t) = mem_write (mem (hw s)) a (take k bs)"

lemma floor_word:
  assumes "(w :: u32) AND 3 = 0" and "i < 4"
  shows "(w + of_nat i) AND 0xFFFFFFFC = w"
proof -
  have i: "unat (of_nat i :: u32) = i" using assms(2) by (simp add: unat_of_nat)
  have "unat (w + of_nat i) mod 4 = (unat w + i) mod 4" by (simp add: unat_word_ariths mod_mod_cancel i)
  also have "\<dots> = i" using assms by (simp add: aligned_iff mod_add_left_eq [symmetric])
  finally have "unat ((w + of_nat i) AND 3) = unat (of_nat i :: u32)" by (simp only: unat_and_3 i)
  then have "(w + of_nat i) AND 3 = of_nat i" by (simp only: word_unat_eq_iff)
  then show ?thesis by (simp add: word_floor)
qed

lemma touched_word: "w AND 3 = 0 \<Longrightarrow> touched w 4 x \<longleftrightarrow> x AND 0xFFFFFFFC = w"
  unfolding touched_def by (auto simp: floor_word intro: exI [of _ 0])

lemma touched_part: "touched (a + of_nat k) n x \<Longrightarrow> k + n \<le> m \<Longrightarrow> touched a m x"
proof -
  assume "touched (a + of_nat k) n x" and m: "k + n \<le> m"
  then obtain i where "i < n" "x AND 0xFFFFFFFC = (a + of_nat (k + i)) AND 0xFFFFFFFC"
    by (auto simp: touched_def add.assoc)
  with m show ?thesis unfolding touched_def by (intro exI [of _ "k + i"]) simp
qed

text \<open>A write of a word or of some words continues the whole write.\<close>

lemma written_continues:
  assumes "written mem idle s a bs k u" and "write_of mem idle u a' bs' r t"
    and "mem_write (mem (hw u)) a' bs' = mem_write (mem (hw s)) a (take k' bs)"
    and "\<And>x. touched a' (length bs') x \<Longrightarrow> touched a n x" and "n \<le> length bs" and "k \<le> n"
  shows "0 \<le> r \<Longrightarrow> written mem idle s a bs k' t" and "r < 0 \<Longrightarrow> write_of mem idle s a (take n bs) r t"
proof -
  show "0 \<le> r \<Longrightarrow> written mem idle s a bs k' t"
    using assms(1-3) by (simp add: written_def write_of_def)
  assume "r < 0"
  moreover have "mem (hw u) x = mem (hw s) x" if "\<not> touched a n x" for x
    using not_touched [OF that] assms(1,5,6) by (simp add: written_def mem_write_def)
  moreover have "mem (hw t) x = mem (hw u) x" if "\<not> touched a n x" for x
    using that assms(2,4) by (auto simp: write_of_def)
  ultimately show "write_of mem idle s a (take n bs) r t"
    using assms(1,2,5) by (simp add: written_def write_of_def)
qed

lemma written_all:
  assumes "written mem idle s a bs n t" and "n \<le> length bs"
  shows "write_of mem idle s a (take n bs) r t"
proof -
  have "mem (hw t) x = mem (hw s) x" if "\<not> touched a n x" for x
    using not_touched [OF that] assms by (simp add: written_def mem_write_def)
  then show ?thesis using assms by (simp add: written_def write_of_def)
qed

lemma written_failed:
  assumes "written mem idle s a bs k t" and "k \<le> n" and "n \<le> length bs" and "r < 0"
  shows "write_of mem idle s a (take n bs) r t"
proof -
  have "mem (hw t) x = mem (hw s) x" if "\<not> touched a n x" for x
    using not_touched [OF that] assms by (simp add: written_def mem_write_def)
  then show ?thesis using assms by (simp add: written_def write_of_def)
qed

definition continued ::
  "('w \<Rightarrow> u32 \<Rightarrow> u8) \<Rightarrow> ('w \<Rightarrow> bool) \<Rightarrow> ('w, 'z) host_st_scheme \<Rightarrow> u32 \<Rightarrow> bytes \<Rightarrow> nat \<Rightarrow> nat \<Rightarrow> int \<Rightarrow> ('w, 'z) host_st_scheme \<Rightarrow> bool" where
  "continued mem idle s a bs n k r t \<longleftrightarrow> (0 \<le> r \<longrightarrow> written mem idle s a bs k t)
     \<and> (r < 0 \<longrightarrow> write_of mem idle s a (take n bs) r t)"

lemma wp_write_word:
  fixes s u :: "('w, 'z) host_st_scheme"
  assumes slave: "spi_slave P mem idle" and u: "written mem idle s a bs k u" and d: "d = mem_read (mem (hw u)) w 4"
    and w: "w AND 3 = 0" "w + of_nat off = a + of_nat k" and j: "0 < j" "off + j \<le> 4" "k + j \<le> n"
    and n: "n \<le> length bs" "n \<le> 65536"
  shows "wp (qcspi_write P 4 w (splice d off (take j (drop k bs)))) (continued mem idle s a bs n (k + j)) u"
proof -
  let ?xs = "take j (drop k bs)" and ?bs = "splice d off (take j (drop k bs))"
  have xs: "length ?xs = j" "take k bs @ ?xs = take (k + j) bs" using j n by (simp_all add: take_add)
  have len: "length ?bs = 4" using j d xs by (simp add: splice_def)
  have idle: "idle (hw u)" and m: "mem (hw u) = mem_write (mem (hw s)) a (take k bs)"
    using u by (simp_all add: written_def)
  have "mem_write (mem (hw u)) w ?bs = mem_write (mem (hw u)) (a + of_nat k) ?xs"
    using mem_write_spliced [of off ?xs 4 "mem (hw u)" w] j xs w(2) by (simp add: splice_def d)
  also have "\<dots> = mem_write (mem (hw s)) a (take (k + j) bs)"
    using mem_write_append [of "take k bs" ?xs "mem (hw s)" a] j n xs by (simp add: m)
  finally have eff: "mem_write (mem (hw u)) w ?bs = mem_write (mem (hw s)) a (take (k + j) bs)" .
  have inside: "touched a n x" if "touched w (length ?bs) x" for x
  proof -
    have "x AND 0xFFFFFFFC = w" using that touched_word [OF w(1)] by (simp add: len)
    also have "w = (w + of_nat off) AND 0xFFFFFFFC" using floor_word [OF w(1), of off] j by simp
    finally show ?thesis unfolding touched_def w(2) using j by (intro exI [of _ k]) simp
  qed
  have al: "(4 :: u16) mod 4 = 0" "0 < (4 :: u16)" "unat (4 :: u16) \<le> length ?bs" using len by simp_all
  have tk: "take (unat (4 :: u16)) ?bs = ?bs" using len by simp
  show ?thesis
  proof (rule wp_mono [OF wp_qcspi_write [OF slave idle w(1) al, unfolded tk]])
    fix r t
    assume "write_of mem idle u w ?bs r t"
    note c = written_continues [OF u this eff inside n(1)]
    show "continued mem idle s a bs n (k + j) r t"
      unfolding continued_def using c j by simp
  qed
qed

lemma wp_write_words:
  fixes s u :: "('w, 'z) host_st_scheme"
  assumes slave: "spi_slave P mem idle" and u: "written mem idle s a bs k u"
    and w: "w AND 3 = 0" "w = a + of_nat k" and sz: "sz mod 4 = 0" "0 < sz" "k + unat sz \<le> n"
    and n: "n \<le> length bs" "n \<le> 65536"
  shows "wp (qcspi_write P sz w (drop k bs)) (continued mem idle s a bs n (k + unat sz)) u"
proof -
  let ?xs = "take (unat sz) (drop k bs)"
  have xs: "length ?xs = unat sz" "take k bs @ ?xs = take (k + unat sz) bs" using sz n by (simp_all add: take_add)
  have idle: "idle (hw u)" and m: "mem (hw u) = mem_write (mem (hw s)) a (take k bs)"
    using u by (simp_all add: written_def)
  have eff: "mem_write (mem (hw u)) w ?xs = mem_write (mem (hw s)) a (take (k + unat sz) bs)"
    using mem_write_append [of "take k bs" ?xs "mem (hw s)" a] sz n xs by (simp add: m w(2))
  have inside: "touched a n x" if "touched w (length ?xs) x" for x
    using touched_part [of a k "length ?xs" x n] that sz xs by (simp add: w(2))
  have len: "unat sz \<le> length (drop k bs)" using sz n by simp
  show ?thesis
  proof (rule wp_mono [OF wp_qcspi_write [OF slave idle w(1) sz(1,2) len]])
    fix r t
    assume "write_of mem idle u w ?xs r t"
    note c = written_continues [OF u this eff inside n(1)]
    show "continued mem idle s a bs n (k + unat sz) r t"
      unfolding continued_def using c sz by simp
  qed
qed

lemma wp_write_last:
  fixes s u :: "('w, 'z) host_st_scheme"
  assumes slave: "spi_slave P mem idle" and u: "written mem idle s a bs (unat k) u" and w: "w AND 3 = 0" "w = a + of_nat (unat k)"
    and k: "unat k < unat n" "unat n - unat k < 4" and len: "unat n \<le> length bs"
  shows "wp (write_last P n k w bs) (write_of mem idle s a (take (unat n) bs)) u"
proof -
  have d: "unat (ucast n - k) = unat n - unat k" using k by (simp add: unat_sub word_le_nat_alt)
  have idle: "idle (hw u)" using u by (simp add: written_def)
  have n16: "unat n \<le> 65536" by (rule less_imp_le) simp
  show ?thesis
    unfolding write_last_def
  proof (subst wp_bind, rule wp_read_on [OF slave same_mem_refl [of idle u, OF idle] w(1)], simp_all only: prod.case)
    fix r :: int and d' t
    assume t: "same_mem mem idle u t" and rd: "0 \<le> r \<Longrightarrow> d' = mem_read (mem (hw u)) w (unat (4 :: u16))"
    have t': "written mem idle s a bs (unat k) t" using u t by (simp add: written_def same_mem_def)
    show "wp (if r < 0 then State_Monad.return r
        else qcspi_write P 4 w (splice d' 0 (take (unat (ucast n - k)) (drop (unat k) bs))))
      (write_of mem idle s a (take (unat n) bs)) t"
    proof (cases "r < 0")
      case True
      with written_failed [OF t' less_imp_le [OF k(1)] len] show ?thesis by (simp add: wp_return)
    next
      case False
      have "d' = mem_read (mem (hw t)) w 4" using False rd t by (simp add: same_mem_def)
      then have "wp (qcspi_write P 4 w (splice d' 0 (take (unat n - unat k) (drop (unat k) bs))))
          (continued mem idle s a bs (unat n) (unat k + (unat n - unat k))) t"
        using k len n16 by (intro wp_write_word [OF slave t' _ w(1)]) (simp_all add: w(2))
      then have "wp (qcspi_write P 4 w (splice d' 0 (take (unat n - unat k) (drop (unat k) bs))))
          (write_of mem idle s a (take (unat n) bs)) t"
        by (rule wp_mono) (use k written_all [OF _ len] in \<open>auto simp: continued_def not_less\<close>)
      with False show ?thesis by (simp add: d)
    qed
  qed simp_all
qed

lemma wp_write_addr_align:
  fixes s :: "('w, 'z) host_st_scheme"
  assumes slave: "spi_slave P mem idle" and idle: "idle (hw s)" and n: "0 < n" "unat n \<le> length bs"
  shows "wp (qcspi_write_addr_align P n a bs) (write_of mem idle s a (take (unat n) bs)) s"
proof (cases "word_aligned a n")
  case True
  then show ?thesis
    using wp_qcspi_write [OF slave idle _ _ n] by (simp add: qcspi_write_addr_align_def word_aligned_def)
next
  case False
  let ?m = "mem (hw s)" and ?w = "a AND 0xFFFFFFFC" and ?k = "first_part a n"
  let ?off = "unat a mod 4" and ?s = "middle_part n ?k"
  let ?Q = "write_of mem idle s a (take (unat n) bs)"
  have k: "unat ?k = min (4 - ?off) (unat n)" by (rule unat_first_part)
  have n16: "unat n \<le> 65536" "unat n < 65536" by (rule less_imp_le) simp_all
  have w4: "(?w + 4) AND 3 = 0" by (rule aligned_add [OF floor_aligned]) simp
  show ?thesis
    unfolding qcspi_write_addr_align_def if_not_P [OF False] Let_def
  proof (subst wp_bind, rule wp_read_on [OF slave same_mem_refl [of idle s, OF idle] floor_aligned], simp_all only: prod.case)
    fix r :: int and d t
    assume t: "same_mem mem idle s t" and rd: "0 \<le> r \<Longrightarrow> d = mem_read ?m ?w (unat (4 :: u16))"
    let ?tail = "\<lambda>r. if r < 0 then State_Monad.return r
         else if ucast n \<le> ?k then State_Monad.return 0
         else if ?k + 4 \<le> ucast n then do {
           r \<leftarrow> qcspi_write P (ucast ?s) (?w + 4) (drop (unat ?k) bs);
           if r < 0 then State_Monad.return r
           else if ucast n \<le> ?k + ?s then State_Monad.return 0
           else write_last P n (?k + ?s) (?w + 4 + ?s) bs
         } else write_last P n ?k (?w + 4) bs"
    have rest: "wp (?tail r) ?Q u" if "continued mem idle s a bs (unat n) (unat ?k) r u" for r u
    proof (cases "r < 0")
      case True
      with that show ?thesis by (simp add: wp_return continued_def)
    next
      case r: False
      then have u: "written mem idle s a bs (unat ?k) u" using that by (simp add: continued_def)
      show ?thesis
      proof (cases "ucast n \<le> ?k")
        case True
        then have "unat ?k = unat n" using k by (simp add: word_le_nat_alt)
        with r True written_all [OF _ n(2)] u show ?thesis by (simp add: wp_return)
      next
        case False
        then have lt: "unat ?k < unat n" by (simp add: word_le_nat_alt)
        note w = first_step [OF lt]
        have k4: "unat (?k + 4) = unat ?k + 4"
          using lt n16 by (intro trans [OF unat_add_nowrap]) (simp_all del: unat_lt_u16)
        show ?thesis
        proof (cases "?k + 4 \<le> ucast n")
          case F: False
          have "unat n - unat ?k < 4" using F k4 by (simp add: word_le_nat_alt)
          then show ?thesis
            unfolding if_not_P [OF r] if_not_P [OF False] if_not_P [OF F]
            by (rule wp_write_last [OF slave u w4 w lt _ n(2)])
        next
          case T: True
          note mid = middle_facts [OF T]
          have "wp (qcspi_write P (ucast ?s) (?w + 4) (drop (unat ?k) bs)) (\<lambda>r. wp (if r < 0 then State_Monad.return r
              else if ucast n \<le> ?k + ?s then State_Monad.return 0
              else write_last P n (?k + ?s) (?w + 4 + ?s) bs) ?Q) u"
          proof (rule wp_mono [OF wp_write_words [OF slave u w4 w mid(1,2) _ n(2) n16(1)]])
            show "unat ?k + unat (ucast ?s :: u16) \<le> unat n" by (rule mid)
            fix r' v
            assume v: "continued mem idle s a bs (unat n) (unat ?k + unat (ucast ?s :: u16)) r' v"
            show "wp (if r' < 0 then State_Monad.return r'
              else if ucast n \<le> ?k + ?s then State_Monad.return 0
              else write_last P n (?k + ?s) (?w + 4 + ?s) bs) ?Q v"
            proof (cases "r' < 0")
              case True
              with v show ?thesis by (simp add: wp_return continued_def)
            next
              case r': False
              then have v: "written mem idle s a bs (unat (?k + ?s)) v"
                using v by (simp add: continued_def mid)
              show ?thesis
              proof (cases "ucast n \<le> ?k + ?s")
                case True
                then have "unat (?k + ?s) = unat n" using mid(3,4) by (simp add: word_le_nat_alt)
                with r' True written_all [OF _ n(2)] v show ?thesis by (simp add: wp_return)
              next
                case F: False
                have "unat (?k + ?s) < unat n" using F by (simp add: word_le_nat_alt)
                then show ?thesis
                  unfolding if_not_P [OF r'] if_not_P [OF F]
                  by (rule wp_write_last [OF slave v mid(6,7) _ mid(5) n(2)])
              qed
            qed
          qed
          then show ?thesis unfolding if_not_P [OF r] if_not_P [OF False] if_P [OF T] wp_bind .
        qed
      qed
    qed
    have t0: "written mem idle s a bs 0 t" using t by (simp add: written_def same_mem_def)
    show "wp (if r < 0 then State_Monad.return r
       else do {
         _ \<leftarrow> qcspi_transfer P [SPI_CMDCODE_NOP];
         r \<leftarrow> qcspi_write P 4 ?w (splice d (unat (a AND 3)) (take (unat ?k) bs));
         ?tail r
       }) ?Q t"
    proof (cases "r < 0")
      case True
      with written_failed [OF t0 _ n(2)] show ?thesis by (simp add: wp_return)
    next
      case False
      then have d: "d = mem_read ?m ?w 4" using rd by (simp add: not_less)
      have "wp (qcspi_transfer P [SPI_CMDCODE_NOP]) (\<lambda>_. wp (do {
         r \<leftarrow> qcspi_write P 4 ?w (splice d (unat (a AND 3)) (take (unat ?k) bs));
         ?tail r }) ?Q) t"
      proof (rule quietD [OF quiet_command [OF slave not_data_commands(7,8)] t])
        fix x v
        assume v: "same_mem mem idle s v"
        then have v0: "written mem idle s a bs 0 v" and dv: "d = mem_read (mem (hw v)) ?w 4"
          using d by (simp_all add: written_def same_mem_def)
        have first: "wp (qcspi_write P 4 ?w (splice d (unat (a AND 3)) (take (unat ?k) (drop 0 bs))))
            (continued mem idle s a bs (unat n) (0 + unat ?k)) v"
          using k n n16 floor_back [of a] unat_gt_0 [of n]
          by (intro wp_write_word [OF slave v0 dv floor_aligned]) (simp_all add: unat_and_3 n16(1))
        show "wp (do {
         r \<leftarrow> qcspi_write P 4 ?w (splice d (unat (a AND 3)) (take (unat ?k) bs));
         ?tail r }) ?Q v"
          unfolding wp_bind by (rule wp_mono [OF first [unfolded drop_0 add_0]]) (rule rest)
      qed
      then show ?thesis unfolding if_not_P [OF False] wp_bind .
    qed
  qed simp_all
qed

section \<open>A prompt slave\<close>

text \<open>Every transfer succeeds and the status never shows the slave busy.\<close>

definition spi_prompt :: "'w host_port \<Rightarrow> bool" where
  "spi_prompt P \<longleftrightarrow> (\<forall>w tx hold. fst (qc_platform_spi_transceive P w tx hold) = 0)
     \<and> (\<forall>w. \<not> bit (be32 (drop 1 (fst (snd (qc_platform_spi_transceive P w [SPI_SLAVE_RDSR, 0, 0, 0, 0] False)))))
          QCSPI_STATUS_BUSY_BIT)"

lemma wp_prompt:
  assumes "spi_prompt P"
  shows "(\<And>rx t. Q (0, rx) t) \<Longrightarrow> wp (spi_transceive P tx hold) Q s"
    and "(\<And>r t. R r t) \<Longrightarrow> wp (mutex_lock P m timeout) R s"
    and "(\<And>t. V () t) \<Longrightarrow> wp (mutex_unlock P m) V s"
    and "(\<And>t. Z 0 t) \<Longrightarrow> wp (qcspi_wait P 0) Z s"
    and "(\<And>r t. R r t) \<Longrightarrow> wp (qcspi_IRW P reg v) R s"
proof -
  have t: "(\<And>rx t. Q (0, rx) t) \<Longrightarrow> wp (spi_transceive P tx hold) Q s" for Q tx hold and s :: "('a, 'b) host_st_scheme"
    using assms by (auto simp: spi_prompt_def wp_spi_transceive split: prod.splits) (metis fst_conv)
  then show "(\<And>rx t. Q (0, rx) t) \<Longrightarrow> wp (spi_transceive P tx hold) Q s" .
  show "(\<And>r t. R r t) \<Longrightarrow> wp (mutex_lock P m timeout) R s" "(\<And>t. V () t) \<Longrightarrow> wp (mutex_unlock P m) V s"
    "(\<And>r t. R r t) \<Longrightarrow> wp (qcspi_IRW P reg v) R s"
    by (auto intro: wp_all)
  assume z: "\<And>t. Z 0 t"
  have "wp (qcspi_RDSR P) (\<lambda>(r, st) _. r = 0 \<and> \<not> bit (case st of None \<Rightarrow> 0 | Some v \<Rightarrow> v) QCSPI_STATUS_BUSY_BIT) s"
    using assms
    by (auto simp: qcspi_RDSR_def mutex_lock_def mutex_unlock_def qcspi_transfer_def spi_transceive_def wp_simps wp_below
      spi_prompt_def split_beta)
  then show "wp (qcspi_wait P 0) Z s"
    by (subst qcspi_wait.simps) (auto simp: wp_bind QCSPI_MAX_INIT_TRY_TIMES_def wp_return z elim!: wp_mono)
qed

end
