(* ===== verification/Host_Link.thy ===== *)
theory Host_Link
  imports Qcspi_Align_Proofs
begin

text \<open>
  A slave to run the host model on: a memory behind the SPI commands, never busy, with locks that are
  always free and semaphores that never block. It is not part of the program; it shows that the
  contracts of the host proofs can be met.
\<close>

record slave_world =
  smem :: "u32 \<Rightarrow> u8"
  pending :: "(u8 \<times> u32) option"

definition slave_transceive :: "slave_world \<Rightarrow> bytes \<Rightarrow> bool \<Rightarrow> int \<times> bytes \<times> slave_world" where
  "slave_transceive w tx hold =
     (if hold then (0, replicate (length tx) 0, w\<lparr>pending := Some (tx ! 0, be32 (take 4 (drop 1 tx)))\<rparr>)
      else if tx = [SPI_SLAVE_RDSR, 0, 0, 0, 0] then (0, replicate 5 0, w)
      else (case pending w of
        Some (c, a) \<Rightarrow>
          if c = SPI_CMDCODE_FREAD then (0, mem_read (smem w) a (length tx), w\<lparr>pending := None\<rparr>)
          else (0, replicate (length tx) 0, w\<lparr>pending := None, smem := mem_write (smem w) a tx\<rparr>)
      | None \<Rightarrow> (0, if tx ! 0 = SPI_CMDCODE_RDID then take (length tx) ([0, QCSPI_ID1, QCSPI_ID2] @ replicate (length tx) 0)
                   else replicate (length tx) 0, w)))"

definition slave_port :: "slave_world host_port" where
  "slave_port = \<lparr>
     qc_platform_init = (\<lambda>w. (0, w)),
     qc_platform_spi_transceive = slave_transceive,
     qc_osal_usleep = (\<lambda>w _. w), qc_osal_msleep = (\<lambda>w _. w),
     qc_osal_mutex_init = (\<lambda>w _. (0, w)), qc_osal_mutex_lock = (\<lambda>w _ _. (0, w)),
     qc_osal_mutex_unlock = (\<lambda>w _. (0, w)), qc_osal_sem_init = (\<lambda>w _ _. (0, w)),
     qc_osal_sem_take = (\<lambda>w _ _. (0, w)), qc_osal_sem_give = (\<lambda>w _. (0, w)),
     qc_osal_work_queue_init = (\<lambda>w. (0, w)), qc_osal_work_init = (\<lambda>w. ((0, 0), w)),
     qc_osal_work_submit = (\<lambda>w _. (0, w))\<rparr>"

lemma ucast_low_byte: "(ucast (x AND 0xFF :: u32) :: u8) = ucast x"
proof -
  have eq: "(0xFF :: u32) = mask 8" by (simp add: mask_eq_exp_minus_1)
  show ?thesis unfolding eq by (rule bit_eqI) (simp add: bit_simps)
qed

lemma big_endian_rev: "qcspi_word_to_byte_big_endian w = rev (bytes_le32 w)"
  by (simp add: qcspi_word_to_byte_big_endian_def ucast_low_byte bytes_le32_def)

lemma be32_big_endian: "be32 (qcspi_word_to_byte_big_endian w) = w"
proof -
  have "be32 (rev (bytes_le32 w)) = le32 (bytes_le32 w)"
    by (simp add: be32_def le32_def bytes_le32_def ac_simps)
  then show ?thesis by (simp only: big_endian_rev le32_bytes_le32)
qed

lemma header_simps:
  "fread_header a ! 0 = SPI_CMDCODE_FREAD" "be32 (take 4 (drop (Suc 0) (fread_header a))) = a"
  "write_header a ! 0 = SPI_CMDCODE_WRITE" "be32 (take 4 (drop (Suc 0) (write_header a))) = a"
proof -
  have len: "length (qcspi_word_to_byte_big_endian a) = 4" by (simp add: qcspi_word_to_byte_big_endian_def)
  then show "be32 (take 4 (drop (Suc 0) (fread_header a))) = a" "be32 (take 4 (drop (Suc 0) (write_header a))) = a"
    by (simp_all add: fread_header_def write_header_def be32_big_endian)
qed (simp_all add: fread_header_def write_header_def)

abbreviation slave_idle :: "slave_world \<Rightarrow> bool" where
  "slave_idle w \<equiv> pending w = None"

lemma replicate_is_poll: "n mod 4 = 0 \<Longrightarrow> replicate n 0 \<noteq> [SPI_SLAVE_RDSR, 0, 0, 0, 0]"
  by (rule notI, drule arg_cong [where f = length]) simp

lemma slave_port_contract: "spi_slave slave_port smem slave_idle"
  unfolding spi_slave_def
proof (intro conjI)
  show "services_apart slave_port smem slave_idle"
    by (simp add: services_apart_def keeps_memory_def slave_port_def)
  show "spi_commands slave_port smem slave_idle"
    by (auto simp: spi_commands_def slave_port_def slave_transceive_def split: if_splits)
  have c: "SPI_CMDCODE_WRITE \<noteq> SPI_CMDCODE_FREAD" by (simp add: SPI_CMDCODE_WRITE_def SPI_CMDCODE_FREAD_def)
  show "spi_reads slave_port smem slave_idle"
    by (auto simp: spi_reads_def slave_port_def slave_transceive_def header_simps replicate_is_poll)
  show "spi_writes slave_port smem slave_idle"
    by (auto simp: spi_writes_def slave_port_def slave_transceive_def header_simps c mem_write_def)
qed

lemma slave_port_prompt: "spi_prompt slave_port"
proof -
  have "be32 (drop 1 (replicate 5 0)) = 0" by (simp add: be32_def numeral_eq_Suc)
  then show ?thesis
    by (auto simp: spi_prompt_def slave_port_def slave_transceive_def split: option.splits)
qed

section \<open>A slave that heeds the length register\<close>

text \<open>The same slave, which returns zeros behind a read header if the transfer is not as long as \<open>TRNS_LEN\<close> says.\<close>

record sized_world =
  sized_below :: slave_world
  trns_len :: u32

definition sized_transceive :: "sized_world \<Rightarrow> bytes \<Rightarrow> bool \<Rightarrow> int \<times> bytes \<times> sized_world" where
  "sized_transceive w tx hold =
     (if \<not> hold \<and> take 2 tx = [SPI_CMDCODE_IRW, SPI_SLAVE_TRNS_LEN] \<and> length tx = 6 \<and> pending (sized_below w) = None
      then (0, replicate 6 0, w\<lparr>trns_len := be32 (drop 2 tx)\<rparr>)
      else (case slave_transceive (sized_below w) tx hold of (r, rx, b) \<Rightarrow>
        (r, if \<not> hold \<and> pending (sized_below w) \<noteq> None \<and> trns_len w \<noteq> push_bit 16 (of_nat (length tx))
            then replicate (length tx) 0 else rx, w\<lparr>sized_below := b\<rparr>)))"

definition sized_port :: "sized_world host_port" where
  "sized_port = \<lparr>
     qc_platform_init = (\<lambda>w. (0, w)),
     qc_platform_spi_transceive = sized_transceive,
     qc_osal_usleep = (\<lambda>w _. w), qc_osal_msleep = (\<lambda>w _. w),
     qc_osal_mutex_init = (\<lambda>w _. (0, w)), qc_osal_mutex_lock = (\<lambda>w _ _. (0, w)),
     qc_osal_mutex_unlock = (\<lambda>w _. (0, w)), qc_osal_sem_init = (\<lambda>w _ _. (0, w)),
     qc_osal_sem_take = (\<lambda>w _ _. (0, w)), qc_osal_sem_give = (\<lambda>w _. (0, w)),
     qc_osal_work_queue_init = (\<lambda>w. (0, w)), qc_osal_work_init = (\<lambda>w. ((0, 0), w)),
     qc_osal_work_submit = (\<lambda>w _. (0, w))\<rparr>"

abbreviation sized_mem :: "sized_world \<Rightarrow> u32 \<Rightarrow> u8" where
  "sized_mem w \<equiv> smem (sized_below w)"

abbreviation sized_idle :: "sized_world \<Rightarrow> bool" where
  "sized_idle w \<equiv> pending (sized_below w) = None"

lemma sized_port_contract: "sized_slave sized_port sized_mem trns_len sized_idle"
  unfolding sized_slave_def
proof (intro conjI)
  show "services_apart sized_port (\<lambda>w. (sized_mem w, trns_len w)) sized_idle"
    by (simp add: services_apart_def keeps_memory_def sized_port_def)
  show "spi_commands sized_port sized_mem sized_idle"
    by (auto simp: spi_commands_def sized_port_def sized_transceive_def slave_transceive_def split: if_splits)
  have len: "length (qcspi_word_to_byte_big_endian v) = 4" for v
    by (simp add: qcspi_word_to_byte_big_endian_def)
  show "spi_length_register sized_port sized_mem trns_len sized_idle"
    by (auto simp: spi_length_register_def sized_port_def sized_transceive_def len be32_big_endian)
  show "spi_sized_reads sized_port sized_mem trns_len sized_idle"
    by (auto simp: spi_sized_reads_def reads_at_def sized_port_def sized_transceive_def slave_transceive_def header_simps
        replicate_is_poll)
qed

lemma sized_port_prompt: "spi_prompt sized_port"
proof -
  have "be32 (drop 1 (replicate 5 0)) = 0" "be32 [0, 0, 0, 0] = 0" by (simp_all add: be32_def numeral_eq_Suc)
  then show ?thesis
    by (auto simp: spi_prompt_def sized_port_def sized_transceive_def slave_transceive_def split: option.splits)
qed

text \<open>
  The writes of \<open>TRNS_LEN\<close> have to arrive: the driver only logs that one has failed, and the read then reports
  success with bytes that are not those of the memory.
\<close>

definition deaf_port :: "sized_world host_port" where
  "deaf_port = sized_port\<lparr>qc_platform_spi_transceive := \<lambda>w tx hold.
     if take 1 tx = [SPI_CMDCODE_IRW] then (- 5, replicate (length tx) 0, w) else sized_transceive w tx hold\<rparr>"

lemma lost_length_misread:
  "fst (run_state (qcspi_read deaf_port 4 0) \<lparr>hw = \<lparr>sized_below = \<lparr>smem = \<lambda>a. 7, pending = None\<rparr>, trns_len = 0\<rparr>\<rparr>) =
     (0, [0, 0, 0, 0])"
proof -
  have b: "be32 [0, 0, 0, 0] = 0" by (simp add: be32_def)
  have r: "replicate 4 x = [x, x, x, x]" "replicate 5 x = [x, x, x, x, x]" "replicate 2 x = [x, x]" for x :: u8
    by (simp_all add: numeral_eq_Suc)
  show ?thesis
    by (simp add: qcspi_read_def qcspi_IRW_def qcspi_transfer_def qcspi_transfer_sg_def spi_transceive_def mutex_lock_def
      mutex_unlock_def below_def run_simps deaf_port_def sized_port_def sized_transceive_def slave_transceive_def Let_def
      qcspi_wait.simps [of _ 0] qcspi_RDSR_def QCSPI_MAX_INIT_TRY_TIMES_def QCSPI_MAX_TRANSFER_SIZE_def fread_header_def
      qcspi_word_to_byte_big_endian_def SPI_CMDCODE_IRW_def SPI_CMDCODE_FREAD_def SPI_SLAVE_RDSR_def SPI_SLAVE_TRNS_LEN_def
      r b)
qed

section \<open>The link\<close>

text \<open>
  What the SPI link gives the layers above: reads and writes of the slave's memory at any alignment, an
  end to every wait, and the interface \<open>remote_memory\<close> for the ring service.
\<close>

section \<open>A prompt slave answers\<close>

lemma prompt_read:
  assumes "spi_prompt P" and "n \<le> QCSPI_MAX_TRANSFER_SIZE" and "\<And>d t. Q (0, d) t"
  shows "wp (qcspi_read P n a) Q s"
  using assms(2,3) unfolding qcspi_read_def
  by (auto simp: wp_bind wp_return qcspi_transfer_def qcspi_transfer_sg_def not_less intro!: wp_prompt [OF assms(1)])

lemma prompt_write:
  assumes "spi_prompt P" and "n \<le> QCSPI_MAX_TRANSFER_SIZE" and "\<And>t. Q 0 t"
  shows "wp (qcspi_write P n a bs) Q s"
  using assms(2,3) unfolding qcspi_write_def
  by (auto simp: wp_bind wp_return qcspi_transfer_def qcspi_transfer_sg_def not_less intro!: wp_prompt [OF assms(1)])

lemma middle_small:
  assumes "n \<le> QCSPI_MAX_TRANSFER_SIZE" and "first_part a n + 4 \<le> ucast n"
  shows "ucast (middle_part n (first_part a n)) \<le> QCSPI_MAX_TRANSFER_SIZE"
  using middle_facts(3) [OF assms(2)] assms(1) by (simp add: word_le_nat_alt)

lemma four_small: "(4 :: u16) \<le> QCSPI_MAX_TRANSFER_SIZE"
  by (simp add: QCSPI_MAX_TRANSFER_SIZE_def)

lemma prompt_read_addr_align:
  assumes P: "spi_prompt P" and n: "n \<le> QCSPI_MAX_TRANSFER_SIZE"
  shows "wp (qcspi_read_addr_align P n a) (\<lambda>x _. fst x = 0) s"
  unfolding qcspi_read_addr_align_def read_last_def Let_def
  by (auto simp: wp_bind wp_return intro!: prompt_read [OF P n] prompt_read [OF P four_small]
      prompt_read [OF P middle_small [OF n]])

lemma prompt_write_addr_align:
  assumes P: "spi_prompt P" and n: "n \<le> QCSPI_MAX_TRANSFER_SIZE"
  shows "wp (qcspi_write_addr_align P n a bs) (\<lambda>r _. r = 0) s"
  unfolding qcspi_write_addr_align_def write_last_def Let_def
  by (auto simp: wp_bind wp_return qcspi_transfer_def intro!: prompt_read [OF P four_small] prompt_write [OF P n]
      prompt_write [OF P four_small] prompt_write [OF P middle_small [OF n]] wp_prompt [OF P])

text \<open>
  C11: At any address and of any length, a read that reports success returns the bytes of the slave's
  memory, and no read changes that memory. The slave returns the memory for transfers of the length its register
  \<open>TRNS_LEN\<close> announces only, and every write to this register arrives; headers and data may fail.
\<close>

theorem read_any_alignment:
  assumes "sized_slave P mem len idle" and "idle (hw s)" and "0 < n"
    and "run_state (qcspi_read_addr_align P n a) s = ((r, d), t)"
  shows "idle (hw t) \<and> mem (hw t) = mem (hw s) \<and> (0 \<le> r \<longrightarrow> d = mem_read (mem (hw s)) a (unat n))"
  using wpD [OF wp_sized_read_addr_align [OF assms(1-3)] assms(4)] by (simp add: read_of_def same_mem_def)

text \<open>
  C9: At any address and of any length, a write that reports success stores exactly its bytes in the
  slave's memory; one that fails may have stored some of them, but changes no byte outside the words
  they lie in.
\<close>

theorem write_any_alignment:
  assumes "spi_slave P mem idle" and "idle (hw s)" and "0 < n" and "unat n \<le> length bs"
    and "run_state (qcspi_write_addr_align P n a bs) s = (r, t)"
  shows "idle (hw t) \<and> (0 \<le> r \<longrightarrow> mem (hw t) = mem_write (mem (hw s)) a (take (unat n) bs))
    \<and> (\<forall>x. \<not> touched a (unat n) x \<longrightarrow> mem (hw t) x = mem (hw s) x)"
  using wpD [OF wp_write_addr_align [OF assms(1-4)] assms(5)] assms(4)
  by (simp add: write_of_def min_def split: if_splits)

text \<open>
  Against a slave that answers, a write of up to 1500 bytes and a read of the same range both succeed
  and the read returns the bytes written, at any alignment; the other bytes of memory keep their values.
\<close>

theorem link_round_trip:
  assumes "spi_slave P mem idle" and "spi_prompt P" and "idle (hw s)" and "0 < n"
    and "n \<le> QCSPI_MAX_TRANSFER_SIZE" and "length bs = unat n"
    and "run_state (qcspi_write_addr_align P n a bs) s = (r, t)"
    and "run_state (qcspi_read_addr_align P n a) t = ((r', d), u)"
  shows "r = 0 \<and> r' = 0 \<and> d = bs \<and> (\<forall>x. unat n \<le> unat (x - a) \<longrightarrow> mem (hw u) x = mem (hw s) x)"
proof -
  have r: "r = 0" using wpD [OF prompt_write_addr_align [OF assms(2,5)] assms(7)] by simp
  have r': "r' = 0" using wpD [OF prompt_read_addr_align [OF assms(2,5)] assms(8)] by simp
  have "write_of mem idle s a bs r t"
    using wpD [OF wp_write_addr_align [OF assms(1,3,4)] assms(7)] assms(6) by simp
  with r have t: "idle (hw t)" "mem (hw t) = mem_write (mem (hw s)) a bs" by (simp_all add: write_of_def)
  have "read_of mem idle t a (unat n) (r', d) u"
    by (rule wpD [OF wp_read_addr_align [OF assms(1) t(1) assms(4)] assms(8)])
  moreover have "unat n \<le> 65536" by (rule less_imp_le) simp
  then have "length bs \<le> 2 ^ 32" using assms(6) by simp
  ultimately show ?thesis
    using r r' t assms(6) mem_read_write_same [of bs "mem (hw s)" a]
    by (simp add: read_of_def same_mem_def mem_write_def)
qed


lemma read_any_alignment_witness:
  "\<exists>r d t. run_state (qcspi_read_addr_align sized_port 3 6)
       \<lparr>hw = \<lparr>sized_below = \<lparr>smem = \<lambda>a. ucast a, pending = None\<rparr>, trns_len = 0\<rparr>\<rparr> = ((r, d), t)
    \<and> sized_idle (hw t) \<and> sized_mem (hw t) = (\<lambda>a. ucast a) \<and> r = 0 \<and> d = [6, 7, 8]"
proof -
  let ?s = "\<lparr>hw = \<lparr>sized_below = \<lparr>smem = \<lambda>a. ucast a, pending = None\<rparr>, trns_len = 0\<rparr>\<rparr> :: sized_world host_st"
  obtain r d t where run: "run_state (qcspi_read_addr_align sized_port 3 6) ?s = ((r, d), t)"
    by (metis prod.exhaust)
  have "r = 0"
    using wpD [OF prompt_read_addr_align [OF sized_port_prompt] run] by (simp add: QCSPI_MAX_TRANSFER_SIZE_def)
  then show ?thesis
    using read_any_alignment [OF sized_port_contract _ _ run] run by (simp add: mem_read_def upt_rec)
qed

lemma write_any_alignment_witness:
  "\<exists>r t. run_state (qcspi_write_addr_align slave_port 3 6 [1, 2, 3]) \<lparr>hw = \<lparr>smem = \<lambda>_. 0, pending = None\<rparr>\<rparr> = (r, t)
    \<and> slave_idle (hw t) \<and> r = 0 \<and> smem (hw t) 8 = 3 \<and> smem (hw t) 3 = 0"
proof -
  let ?s = "\<lparr>hw = \<lparr>smem = \<lambda>_. 0, pending = None\<rparr>\<rparr> :: slave_world host_st"
  obtain r t where run: "run_state (qcspi_write_addr_align slave_port 3 6 [1, 2, 3]) ?s = (r, t)"
    by (rule prod.exhaust)
  have "i = 0 \<or> i = 1 \<or> i = 2" if "i < 3" for i :: nat using that by linarith
  then have far: "\<not> touched 6 (unat (3 :: u16)) 3" by (fastforce simp: touched_def)
  have w: "slave_idle (hw t) \<and> (0 \<le> r \<longrightarrow> smem (hw t) = mem_write (\<lambda>_. 0) 6 (take (unat (3 :: u16)) [1, 2, 3]))
      \<and> (\<forall>x. \<not> touched 6 (unat (3 :: u16)) x \<longrightarrow> smem (hw t) x = 0)"
    using write_any_alignment [OF slave_port_contract _ _ _ run] by simp
  then have "smem (hw t) 3 = 0" using far by blast
  moreover have "r = 0"
    using wpD [OF prompt_write_addr_align [OF slave_port_prompt] run] by (simp add: QCSPI_MAX_TRANSFER_SIZE_def)
  moreover have "mem_write (\<lambda>_. 0) 6 (take (unat (3 :: u16)) [1, 2, 3]) 8 = 3" by (simp add: mem_write_def)
  ultimately show ?thesis using w run by simp
qed

lemma link_round_trip_witness:
  "\<exists>t u. run_state (qcspi_write_addr_align slave_port 3 6 [1, 2, 3]) \<lparr>hw = \<lparr>smem = \<lambda>_. 0, pending = None\<rparr>\<rparr> = (0, t)
    \<and> run_state (qcspi_read_addr_align slave_port 3 6) t = ((0, [1, 2, 3]), u)"
proof -
  let ?s = "\<lparr>hw = \<lparr>smem = \<lambda>_. 0, pending = None\<rparr>\<rparr> :: slave_world host_st"
  obtain r t where w: "run_state (qcspi_write_addr_align slave_port 3 6 [1, 2, 3]) ?s = (r, t)"
    by (rule prod.exhaust)
  obtain r' d u where g: "run_state (qcspi_read_addr_align slave_port 3 6) t = ((r', d), u)"
    by (metis prod.exhaust)
  show ?thesis
    using link_round_trip [OF slave_port_contract slave_port_prompt _ _ _ _ w g] w g
    by (simp add: QCSPI_MAX_TRANSFER_SIZE_def)
qed

section \<open>Every wait ends\<close>

text \<open>A slave none of whose polls shows it ready, and what one poll does to the world.\<close>

definition never_ready :: "'w host_port \<Rightarrow> bool" where
  "never_ready P \<longleftrightarrow> (\<forall>w. case qc_platform_spi_transceive P w [SPI_SLAVE_RDSR, 0, 0, 0, 0] False of
     (r, rx, _) \<Rightarrow> r < 0 \<or> bit (be32 (drop 1 rx)) QCSPI_STATUS_BUSY_BIT)"

definition poll_world :: "'w host_port \<Rightarrow> 'w \<Rightarrow> 'w" where
  "poll_world P w = snd (qc_osal_mutex_unlock P (snd (snd (qc_platform_spi_transceive P
     (snd (qc_osal_mutex_lock P w Qcspi_Mutex QC_OSAL_TIMEOUT_FOREVER)) [SPI_SLAVE_RDSR, 0, 0, 0, 0] False))) Qcspi_Mutex)"

definition poll_delay :: "'w host_port \<Rightarrow> 'w \<Rightarrow> 'w" where
  "poll_delay P w = qc_osal_usleep P (poll_world P w) 10"

lemma wp_RDSR_never_ready:
  assumes "never_ready P"
    and "\<And>r st. \<not> (r = 0 \<and> \<not> bit (case st of None \<Rightarrow> 0 | Some v \<Rightarrow> v) QCSPI_STATUS_BUSY_BIT) \<Longrightarrow>
      Q (r, st) (s\<lparr>hw := poll_world P (hw s)\<rparr>)"
  shows "wp (qcspi_RDSR P) Q s"
proof -
  let ?w = "snd (qc_osal_mutex_lock P (hw s) Qcspi_Mutex QC_OSAL_TIMEOUT_FOREVER)"
  obtain r rx w where t: "qc_platform_spi_transceive P ?w [SPI_SLAVE_RDSR, 0, 0, 0, 0] False = (r, rx, w)"
    using prod_cases3 by blast
  have b: "r < 0 \<or> bit (be32 (drop 1 rx)) QCSPI_STATUS_BUSY_BIT"
    using assms(1) t unfolding never_ready_def by (metis (no_types, lifting) case_prod_conv)
  show ?thesis
    using assms(2) [of r None] assms(2) [of 0 "Some (be32 (drop 1 rx))"] b
    by (auto simp: qcspi_RDSR_def mutex_lock_def mutex_unlock_def qcspi_transfer_def wp_bind wp_return wp_below wp_if
      wp_spi_transceive split_beta t poll_world_def)
qed

lemma wait_never_ready:
  fixes s :: "('w, 'z) host_st_scheme"
  assumes "never_ready P" and "retry + k + 2 = QCSPI_MAX_INIT_TRY_TIMES"
  shows "wp (qcspi_wait P retry)
    (\<lambda>r t. r = - QC_OSAL_ETIMEDOUT \<and> t = s\<lparr>hw := poll_world P ((poll_delay P ^^ k) (hw s))\<rparr>) s"
  using assms(2)
proof (induction k arbitrary: retry s)
  case 0
  have *: "retry < QCSPI_MAX_INIT_TRY_TIMES" "retry + 1 = QCSPI_MAX_INIT_TRY_TIMES - 1" using 0 by simp_all
  show ?case
    by (subst qcspi_wait.simps, unfold if_P [OF *(1)] if_P [OF *(2)] wp_bind,
        rule wp_RDSR_never_ready [OF assms(1)], simp only: prod.case if_False) (simp add: wp_return)
next
  case (Suc k)
  have *: "retry < QCSPI_MAX_INIT_TRY_TIMES" "retry + 1 \<noteq> QCSPI_MAX_INIT_TRY_TIMES - 1" using Suc.prems by simp_all
  have IH: "wp (qcspi_wait P (retry + 1)) (\<lambda>r u. r = - QC_OSAL_ETIMEDOUT \<and>
      u = t\<lparr>hw := poll_world P ((poll_delay P ^^ k) (hw t))\<rparr>) t" for t :: "('w, 'z) host_st_scheme"
    by (rule Suc.IH) (use Suc.prems in simp)
  show ?case
    by (subst qcspi_wait.simps, unfold if_P [OF *(1)] if_not_P [OF *(2)] wp_bind,
        rule wp_RDSR_never_ready [OF assms(1)], simp only: prod.case if_False wp_bind delay_us_def wp_modify,
        rule wp_mono [OF IH]) (simp add: poll_delay_def funpow_swap1)
qed

text \<open>
  If no poll of the status finds the slave ready, the wait after a transfer ends: it polls 49 times with
  48 delays of 10 microseconds in between, does nothing else, and reports a timeout.
\<close>

theorem qcspi_busy_timeout:
  assumes "never_ready P"
  shows "run_state (qcspi_wait P 0) s =
    (- QC_OSAL_ETIMEDOUT, s\<lparr>hw := poll_world P ((poll_delay P ^^ 48) (hw s))\<rparr>)"
proof -
  obtain r t where run: "run_state (qcspi_wait P 0) s = (r, t)" by (rule prod.exhaust)
  show ?thesis
    using wpD [OF wait_never_ready [OF assms, of 0 48] run] run by (simp add: QCSPI_MAX_INIT_TRY_TIMES_def)
qed

definition dead_port :: "slave_world host_port" where
  "dead_port = slave_port\<lparr>qc_platform_spi_transceive := \<lambda>w tx _. (-1, tx, w)\<rparr>"

lemma qcspi_busy_timeout_witness:
  "fst (run_state (qcspi_wait dead_port 0) \<lparr>hw = \<lparr>smem = \<lambda>_. 0, pending = None\<rparr>\<rparr>) = -5"
proof -
  have "never_ready dead_port" by (simp add: never_ready_def dead_port_def)
  then show ?thesis by (subst qcspi_busy_timeout) (simp_all add: QC_OSAL_ETIMEDOUT_def)
qed

section \<open>The link as a remote memory\<close>

lemma unat_transport_length: "unat (n :: u32) < 65536 \<Longrightarrow> unat (ucast n :: u16) = unat n"
  by (simp add: unsigned_ucast_eq take_bit_nat_eq_self_iff)

interpretation qcspi_link: remote_memory
  "\<lambda>s :: ('w, 'z) transport_st_scheme. spi_slave P mem idle \<and> idle (hw s) \<and> transport_initialized s"
  "\<lambda>s. mem (hw s)" host_st.more "ring_transport_read P True" "ring_transport_write P" for P mem idle
proof
  fix s :: "('w, 'z) transport_st_scheme" and n a :: u32
  assume s: "spi_slave P mem idle \<and> idle (hw s) \<and> transport_initialized s" and n: "0 < n" "unat n < 65536"
  note u = unat_transport_length [OF n(2)]
  have n': "0 < (ucast n :: u16)" using n u by (simp add: word_gt_0 unat_eq_0 [symmetric])
  have up: "transport_initialized t" if "host_st.more t = host_st.more s" for t :: "('w, 'z) transport_st_scheme"
    using that s by (cases s, cases t) simp
  show "wp (ring_transport_read P True a n) (\<lambda>(r, d) t. (spi_slave P mem idle \<and> idle (hw t) \<and> transport_initialized t)
      \<and> mem (hw t) = mem (hw s) \<and> host_st.more t = host_st.more s
      \<and> (0 \<le> r \<longrightarrow> d = mem_read (mem (hw s)) a (unat n))) s"
    using s n n' u up
    by (auto simp: ring_transport_read_def qcspi_transport_read_def wp_bind wp_return wp_gets read_of_def same_mem_def
        EINVAL_def ENODEV_def intro!: wp_mono [OF wp_read_addr_align])
  fix bs :: bytes
  assume len: "unat n \<le> length bs"
  show "wp (ring_transport_write P a (Some bs) n) (\<lambda>r t. (spi_slave P mem idle \<and> idle (hw t) \<and> transport_initialized t)
      \<and> host_st.more t = host_st.more s \<and> (0 \<le> r \<longrightarrow> mem (hw t) = mem_write (mem (hw s)) a (take (unat n) bs))
      \<and> (\<forall>x. \<not> touched a (unat n) x \<longrightarrow> mem (hw t) x = mem (hw s) x)) s"
    using s n n' u up len
    by (auto simp: ring_transport_write_def qcspi_transport_write_def wp_bind wp_return wp_gets write_of_def
        EINVAL_def ENODEV_def min_def intro!: wp_mono [OF wp_write_addr_align])
qed

end
