(* ===== verification/Ring_Layout.thy ===== *)
theory Ring_Layout
  imports Ring_Queue Host_Link
begin

text \<open>
  The ring service over the link: the layout of a ring in the memory of the slave, what a transfer to one
  part of it leaves alone, and rules that run the service's calls of the link and of the locks.
\<close>

section \<open>Changes confined to a range\<close>

definition within :: "nat \<Rightarrow> nat \<Rightarrow> (u32 \<Rightarrow> u8) \<Rightarrow> (u32 \<Rightarrow> u8) \<Rightarrow> bool" where
  "within A B m m' \<longleftrightarrow> (\<forall>x. m' x \<noteq> m x \<longrightarrow> A \<le> unat x \<and> unat x < B)"

lemma within_read:
  assumes "within A B m m'" and "unat a + n \<le> 2 ^ 32" and "unat a + n \<le> A \<or> B \<le> unat a"
  shows "mem_read m' a n = mem_read m a n"
proof (rule nth_equalityI)
  fix i
  assume "i < length (mem_read m' a n)"
  then have i: "i < n" by simp
  then have "unat (a + of_nat i) = unat a + i"
    using assms(2) unat_of_nat_u32 [of i] by (intro trans [OF unat_add_nowrap]) simp_all
  then have "m' (a + of_nat i) = m (a + of_nat i)"
    using assms(1,3) i unfolding within_def by (metis add_lessD1 leD le_less_trans less_le_trans nat_add_left_cancel_less trans_le_add1)
  with i show "mem_read m' a n ! i = mem_read m a n ! i" by simp
qed simp

lemma unat_floor: "unat ((x :: u32) AND 0xFFFFFFFC) = unat x - unat x mod 4"
proof -
  have "x AND 3 \<le> x" by (simp add: word_le_nat_alt unat_and_3)
  then show ?thesis by (simp add: word_floor unat_sub unat_and_3)
qed

lemma touched_inside:
  assumes "touched a n x" and "A \<le> unat a" "unat a + n \<le> B" "A mod 4 = 0" "B mod 4 = 0" "B \<le> 2 ^ 32"
  shows "A \<le> unat x \<and> unat x < B"
proof -
  obtain i where i: "i < n" "x AND 0xFFFFFFFC = (a + of_nat i) AND 0xFFFFFFFC"
    using assms(1) by (auto simp: touched_def)
  have u: "unat (a + of_nat i) = unat a + i"
    using assms(3,6) i(1) unat_of_nat_u32 [of i] by (intro trans [OF unat_add_nowrap]) simp_all
  have "unat x - unat x mod 4 = (unat a + i) - (unat a + i) mod 4"
    using arg_cong [where f = unat, OF i(2)] by (simp only: unat_floor u)
  then have q: "unat x div 4 = (unat a + i) div 4"
    by (simp only: minus_mod_eq_mult_div mult_cancel1) simp
  obtain k l where kl: "A = 4 * k" "B = 4 * l" using assms(4,5) by (auto elim!: dvdE simp: mod_eq_0_iff_dvd)
  then have "k \<le> (unat a + i) div 4" "(unat a + i) div 4 < l" using assms(2,3) i(1) by linarith+
  then show ?thesis unfolding q [symmetric] kl by linarith
qed

context remote_memory begin

text \<open>A write into an aligned range changes nothing outside it, even if it fails.\<close>

lemma wr_within:
  assumes "ready s" "0 < n" "unat n < 65536" "unat n \<le> length bs"
    and "A \<le> unat a" "unat a + unat n \<le> B" "A mod 4 = 0" "B mod 4 = 0" "B \<le> 2 ^ 32"
  shows "wp (wr a (Some bs) n) (\<lambda>r t. ready t \<and> rest t = rest s \<and> within A B (mem s) (mem t)
    \<and> (0 \<le> r \<longrightarrow> mem_read (mem t) a (unat n) = take (unat n) bs)) s"
proof (rule wp_mono [OF wr [OF assms(1-4), of a]])
  fix r t
  assume t: "ready t \<and> rest t = rest s \<and> (0 \<le> r \<longrightarrow> mem t = mem_write (mem s) a (take (unat n) bs))
    \<and> (\<forall>x. \<not> touched a (unat n) x \<longrightarrow> mem t x = mem s x)"
  have "within A B (mem s) (mem t)"
    unfolding within_def using t touched_inside [OF _ assms(5-9)] by blast
  moreover have "mem_read (mem_write (mem s) a (take (unat n) bs)) a (unat n) = take (unat n) bs"
    using mem_read_write_same [of "take (unat n) bs" "mem s" a] assms(3,4) by (simp add: min.absorb2)
  ultimately show "ready t \<and> rest t = rest s \<and> within A B (mem s) (mem t)
    \<and> (0 \<le> r \<longrightarrow> mem_read (mem t) a (unat n) = take (unat n) bs)"
    using t by simp
qed

end

section \<open>Running the calls\<close>

lemma same_rest: "host_st.more t = host_st.more s \<Longrightarrow> t = s\<lparr>hw := hw t\<rparr>"
  for s t :: "('w, 'z) host_st_scheme"
  by (cases s, cases t) simp

lemma unat_small_length: "unat (n :: u32) \<le> 1500 \<Longrightarrow> (ucast n :: u16) \<le> QCSPI_MAX_TRANSFER_SIZE"
  by (simp add: QCSPI_MAX_TRANSFER_SIZE_def word_le_nat_alt unat_transport_length)

text \<open>A transfer of at most 1500 bytes succeeds against a prompt slave.\<close>

lemma prompt_link:
  fixes s :: "('w, 'z) transport_st_scheme"
  assumes "spi_prompt P" "transport_initialized s" "0 < n" "unat n \<le> 1500"
  shows "wp (ring_transport_read P True a n) (\<lambda>x _. fst x = 0) s"
    and "wp (ring_transport_write P a (Some bs) n) (\<lambda>r _. r = 0) s"
  using assms(2,3)
  by (auto simp: ring_transport_read_def qcspi_transport_read_def ring_transport_write_def qcspi_transport_write_def
      wp_bind wp_return wp_gets intro!: wp_mono [OF prompt_read_addr_align [OF assms(1) unat_small_length [OF assms(4)]]]
      wp_mono [OF prompt_write_addr_align [OF assms(1) unat_small_length [OF assms(4)]]])

lemma wp_link_read:
  fixes s :: "('w, 'z) transport_st_scheme"
  assumes "spi_slave P mem idle" "idle (hw s)" "transport_initialized s" "0 < n" "unat n < 65536"
    and "\<And>r d w. idle w \<Longrightarrow> mem w = mem (hw s) \<Longrightarrow> (0 \<le> r \<Longrightarrow> d = mem_read (mem (hw s)) a (unat n)) \<Longrightarrow>
      (spi_prompt P \<Longrightarrow> unat n \<le> 1500 \<Longrightarrow> r = 0) \<Longrightarrow> Q (r, d) (s\<lparr>hw := w\<rparr>)"
  shows "wp (ring_transport_read P True a n) Q s"
proof (rule wpI)
  fix x :: "int \<times> bytes" and t :: "('w, 'z) transport_st_scheme"
  assume run: "run_state (ring_transport_read P True a n) s = (x, t)"
  obtain r d where x: "x = (r, d)" by (rule prod.exhaust)
  have t: "idle (hw t) \<and> mem (hw t) = mem (hw s) \<and> host_st.more t = host_st.more s
    \<and> (0 \<le> r \<longrightarrow> d = mem_read (mem (hw s)) a (unat n))"
    using wpD [OF qcspi_link.rd [of P mem idle s n a] run] assms(1-5) x by simp
  have "r = 0" if "spi_prompt P" "unat n \<le> 1500"
    using wpD [OF prompt_link(1) [OF that(1) assms(3,4) that(2)] run] x by simp
  moreover have "t = s\<lparr>hw := hw t\<rparr>" using t by (intro same_rest) simp
  ultimately show "Q x t" using assms(6) [of "hw t" r d] t x by metis
qed

lemma wp_link_write:
  fixes s :: "('w, 'z) transport_st_scheme"
  assumes "spi_slave P mem idle" "idle (hw s)" "transport_initialized s" "0 < n" "unat n < 65536" "unat n \<le> length bs"
    and "A \<le> unat a" "unat a + unat n \<le> B" "A mod 4 = 0" "B mod 4 = 0" "B \<le> 2 ^ 32"
    and "\<And>r w. idle w \<Longrightarrow> within A B (mem (hw s)) (mem w) \<Longrightarrow>
      (0 \<le> r \<Longrightarrow> mem_read (mem w) a (unat n) = take (unat n) bs) \<Longrightarrow>
      (spi_prompt P \<Longrightarrow> unat n \<le> 1500 \<Longrightarrow> r = 0) \<Longrightarrow> Q r (s\<lparr>hw := w\<rparr>)"
  shows "wp (ring_transport_write P a (Some bs) n) Q s"
proof (rule wpI)
  fix r :: int and t :: "('w, 'z) transport_st_scheme"
  assume run: "run_state (ring_transport_write P a (Some bs) n) s = (r, t)"
  have t: "idle (hw t) \<and> host_st.more t = host_st.more s
    \<and> within A B (mem (hw s)) (mem (hw t)) \<and> (0 \<le> r \<longrightarrow> mem_read (mem (hw t)) a (unat n) = take (unat n) bs)"
    using wpD [OF qcspi_link.wr_within [of P mem idle s, OF _ assms(4-11)] run] assms(1-3) by simp
  have "r = 0" if "spi_prompt P" "unat n \<le> 1500"
    using wpD [OF prompt_link(2) [OF that(1) assms(3,4) that(2)] run] by simp
  moreover have "t = s\<lparr>hw := hw t\<rparr>" using t by (intro same_rest) simp
  ultimately show "Q r t" using assms(12) [of "hw t" r] t by metis
qed

lemma wp_quiet:
  assumes "quiet mem idle m A" "idle (hw s)"
    and "\<And>x w. idle w \<Longrightarrow> mem w = mem (hw s) \<Longrightarrow> A x \<Longrightarrow> Q x (s\<lparr>hw := w\<rparr>)"
  shows "wp m Q s"
  using assms(3) by (auto intro!: quietD [OF assms(1) same_mem_refl [of idle s mem, OF assms(2)]]
    simp: same_mem_def dest!: same_rest) metis

text \<open>An interrupt to the slave and a failed attempt at one leave the memory alone.\<close>

lemma quiet_interrupt:
  assumes "spi_slave P mem idle"
  shows "quiet mem idle (qcspi_interrupt P) (\<lambda>_. True)"
  unfolding qcspi_interrupt_def Let_def
  by (auto intro!: quiet_bind [OF quiet_IRR [OF assms]] quiet_bind [OF quiet_IRW [OF assms]] quiet_bind [OF quiet_services(4) [OF assms]] quiet_prod quiet_return
    quiet_bind [where A = "\<lambda>_. True"])

section \<open>The layout of the rings\<close>

text \<open>
  Where a ring lies in the memory of the slave: its control words, its descriptors and its buffers are
  ranges that do not meet, so a transfer to one of them leaves the others alone.
\<close>

definition disjoint_ranges :: "nat \<Rightarrow> nat \<Rightarrow> nat \<Rightarrow> nat \<Rightarrow> bool" where
  "disjoint_ranges a n b k \<longleftrightarrow> a + n \<le> b \<or> b + k \<le> a"

definition ring_layout :: "u32 \<Rightarrow> u32 \<Rightarrow> u32 \<Rightarrow> u32 \<Rightarrow> u32 \<Rightarrow> bool" where
  "ring_layout cb db n bb sz \<longleftrightarrow>
     unat cb mod 4 = 0 \<and> unat db mod 4 = 0 \<and> unat bb mod 4 = 0 \<and> unat sz mod 4 = 0 \<and> 0 < unat n \<and> unat sz < 65536
     \<and> unat cb + 440 \<le> 2 ^ 32 \<and> unat db + 8 * unat n \<le> 2 ^ 32 \<and> unat bb + unat n * unat sz \<le> 2 ^ 32
     \<and> disjoint_ranges (unat cb) 440 (unat db) (8 * unat n)
     \<and> disjoint_ranges (unat cb) 440 (unat bb) (unat n * unat sz)
     \<and> disjoint_ranges (unat db) (8 * unat n) (unat bb) (unat n * unat sz)"

lemma slots_order: "(k :: nat) < k' \<Longrightarrow> k * z + z \<le> k' * z"
  using mult_le_mono1 [of "Suc k" k' z] by simp

lemma unat_slot_addr:
  assumes "ring_layout cb db n bb sz" "k < unat n"
  shows "unat (slot_addr db k) = unat db + 8 * k"
proof -
  have b: "unat db + 8 * k < 2 ^ 32" using assms by (simp add: ring_layout_def)
  then have k: "unat (of_nat k :: u32) = k" by (intro unat_of_nat_u32) simp
  have "unat (of_nat k * sizeof_ring_descriptor) = k * 8"
    using b k by (intro trans [OF unat_mult_nowrap]) (simp_all add: sizeof_ring_descriptor_def)
  then show ?thesis
    unfolding slot_addr_def using b by (intro trans [OF unat_add_nowrap]) simp_all
qed

lemma unat_slot_buf:
  assumes "ring_layout cb db n bb sz" "k < unat n"
  shows "unat (slot_buf bb sz k) = unat bb + k * unat sz"
proof -
  have n: "unat bb + unat n * unat sz \<le> 2 ^ 32" using assms(1) by (simp add: ring_layout_def)
  have b: "unat bb + k * unat sz < 2 ^ 32"
  proof (cases "unat sz = 0")
    case True
    then show ?thesis using unat_lt_u32 [of bb] by (simp del: unat_lt_u32)
  next
    case False
    then show ?thesis using n slots_order [OF assms(2), of "unat sz"] by linarith
  qed
  have k: "unat (of_nat k :: u32) = k"
    using assms(2) unat_lt_u32 [of n] by (intro unat_of_nat_u32) (simp del: unat_lt_u32)
  have "unat (of_nat k * sz) = k * unat sz"
    using b k by (intro trans [OF unat_mult_nowrap]) simp_all
  then show ?thesis
    unfolding slot_buf_def using b by (intro trans [OF unat_add_nowrap]) simp_all
qed

text \<open>The words of the control block that hold the indices.\<close>

definition index_offset :: "u32 \<Rightarrow> bool" where
  "index_offset off \<longleftrightarrow> off \<in> {offsetof_tx_wr_idx, offsetof_tx_rd_idx, offsetof_rx_wr_idx, offsetof_rx_rd_idx}"

lemma index_offsets [simp]:
  "index_offset offsetof_tx_wr_idx" "index_offset offsetof_tx_rd_idx"
  "index_offset offsetof_rx_wr_idx" "index_offset offsetof_rx_rd_idx"
  by (simp_all add: index_offset_def)

lemma offsets_differ:
  "offsetof_tx_rd_idx \<noteq> offsetof_tx_wr_idx" "offsetof_rx_wr_idx \<noteq> offsetof_rx_rd_idx"
  by (simp_all add: offsetof_tx_wr_idx_def offsetof_tx_rd_idx_def offsetof_rx_wr_idx_def offsetof_rx_rd_idx_def)

lemma unat_index_addr:
  assumes "unat cb + 440 \<le> 2 ^ 32" "index_offset off" "unat i < 8"
  shows "unat (index_addr cb off i) = unat cb + unat off + 4 * unat i" and "unat off + 4 * unat i + 4 \<le> 440"
    and "unat off mod 4 = 0"
proof -
  have off: "unat off \<le> 300 \<and> unat off mod 4 = 0"
    using assms(2) by (auto simp: index_offset_def offsetof_tx_wr_idx_def offsetof_tx_rd_idx_def
      offsetof_rx_wr_idx_def offsetof_rx_rd_idx_def)
  then show o: "unat off + 4 * unat i + 4 \<le> 440" "unat off mod 4 = 0" using assms(3) by simp_all
  have "unat (ucast i :: u32) = unat i"
    by (simp add: unsigned_ucast_eq take_bit_nat_eq_self_iff) (rule less_trans [OF unat_lt_u8], simp)
  then have "unat (ucast i * 4 :: u32) = unat i * 4"
    using assms(3) by (intro trans [OF unat_mult_nowrap]) simp_all
  moreover have "unat (cb + off) = unat cb + unat off" using assms(1) off by (intro unat_add_nowrap) simp
  ultimately show "unat (index_addr cb off i) = unat cb + unat off + 4 * unat i"
    unfolding index_addr_def using assms(1) o by (intro trans [OF unat_add_nowrap]) simp_all
qed

definition index_word :: "(u32 \<Rightarrow> u8) \<Rightarrow> u32 \<Rightarrow> u32 \<Rightarrow> u8 \<Rightarrow> u32" where
  "index_word m cb off i = le32 (mem_read m (index_addr cb off i) 4)"

section \<open>What a transfer leaves alone\<close>

text \<open>A slot is kept if its descriptor and its buffer read as before.\<close>

definition slot_kept :: "(u32 \<Rightarrow> u8) \<Rightarrow> (u32 \<Rightarrow> u8) \<Rightarrow> u32 \<Rightarrow> u32 \<Rightarrow> u32 \<Rightarrow> nat \<Rightarrow> bool" where
  "slot_kept m m' db bb sz k \<longleftrightarrow> mem_read m' (slot_addr db k) 8 = mem_read m (slot_addr db k) 8
     \<and> mem_read m' (slot_buf bb sz k) (unat sz) = mem_read m (slot_buf bb sz k) (unat sz)"

lemma slot_kept_trans: "slot_kept m m' db bb sz k \<Longrightarrow> slot_kept m' m'' db bb sz k \<Longrightarrow> slot_kept m m'' db bb sz k"
  by (simp add: slot_kept_def)

lemma slot_kept_same:
  "slot_kept m m' db bb sz k \<Longrightarrow> slot_ok m db bb sz k \<Longrightarrow> slot_ok m' db bb sz k \<and> slot_data m' db k = slot_data m db k"
  unfolding slot_kept_def by (elim conjE, rule slot_same)

text \<open>The ranges of a slot's descriptor, of its buffer and of a control word, for the rules of the link.\<close>

lemma ring_bounds:
  assumes "ring_layout cb db n bb sz"
  shows
  "unat cb mod 4 = 0" "unat db mod 4 = 0" "unat bb mod 4 = 0" "unat sz mod 4 = 0" "0 < unat n" "unat sz < 65536"
  "unat cb + 440 \<le> 2 ^ 32" "unat db + 8 * unat n \<le> 2 ^ 32" "unat bb + unat n * unat sz \<le> 2 ^ 32"
  using assms by (simp_all add: ring_layout_def)

lemma apart_ranges:
  assumes "ring_layout cb db n bb sz"
  shows
  "unat cb + 440 \<le> unat db \<or> unat db + 8 * unat n \<le> unat cb"
  "unat cb + 440 \<le> unat bb \<or> unat bb + unat n * unat sz \<le> unat cb"
  "unat db + 8 * unat n \<le> unat bb \<or> unat bb + unat n * unat sz \<le> unat db"
  using assms by (simp_all add: ring_layout_def disjoint_ranges_def)

lemma index_at:
  assumes "ring_layout cb db n bb sz" "index_offset off" "unat i < 8"
  shows "unat (index_addr cb off i) = unat cb + unat off + 4 * unat i" and "unat off + 4 * unat i + 4 \<le> 440"
    and "unat off mod 4 = 0"
  using unat_index_addr [OF ring_bounds(7) [OF assms(1)] assms(2,3)] by simp_all

lemma slot_in:
  assumes layout: "ring_layout cb db n bb sz" and k: "k < unat n"
  shows "unat (slot_addr db k) + 8 \<le> unat db + 8 * unat n" and "unat (slot_buf bb sz k) + unat sz \<le> unat bb + unat n * unat sz"
    and "unat (slot_addr db k) mod 4 = 0" and "unat (slot_buf bb sz k) mod 4 = 0"
    and "unat db \<le> unat (slot_addr db k)" and "unat bb \<le> unat (slot_buf bb sz k)"
  using k ring_bounds [OF layout] unat_slot_addr [OF layout k] unat_slot_buf [OF layout k] slots_order [OF k, of "unat sz"]
  by (auto simp: mod_eq_0_iff_dvd)

lemma index_in:
  assumes layout: "ring_layout cb db n bb sz" and "index_offset off" "unat i < 8"
  shows "unat cb \<le> unat (index_addr cb off i)" and "unat (index_addr cb off i) + 4 \<le> unat cb + 440"
    and "unat (index_addr cb off i) mod 4 = 0"
  using index_at [OF assms] ring_bounds [OF layout] by (auto simp: mod_eq_0_iff_dvd)

lemma slot_write_keeps:
  assumes layout: "ring_layout cb db n bb sz" and "within A B m m'" and "k0 < unat n" "k < unat n" "k \<noteq> k0"
    and "A = unat (slot_addr db k0) \<and> B = unat (slot_addr db k0) + 8 \<or>
      A = unat (slot_buf bb sz k0) \<and> B = unat (slot_buf bb sz k0) + unat sz"
  shows "slot_kept m m' db bb sz k"
proof -
  have o: "k * unat sz + unat sz \<le> k0 * unat sz \<or> k0 * unat sz + unat sz \<le> k * unat sz"
    using assms(5) slots_order [of k k0 "unat sz"] slots_order [of k0 k "unat sz"] by (meson linorder_neqE_nat)
  have "unat (slot_addr db k) + 8 \<le> 2 ^ 32" "unat (slot_buf bb sz k) + unat sz \<le> 2 ^ 32"
    using slot_in [OF layout assms(4)] ring_bounds [OF layout] by linarith+
  moreover have "unat (slot_addr db k) + 8 \<le> A \<or> B \<le> unat (slot_addr db k)"
    "unat (slot_buf bb sz k) + unat sz \<le> A \<or> B \<le> unat (slot_buf bb sz k)"
    using assms(5,6) unat_slot_addr [OF layout assms(4)] unat_slot_addr [OF layout assms(3)] unat_slot_buf [OF layout assms(4)] unat_slot_buf [OF layout assms(3)]
      slot_in [OF layout assms(4)] slot_in [OF layout assms(3)] apart_ranges(3) [OF layout] o by linarith+
  ultimately show ?thesis using within_read [OF assms(2)] by (simp add: slot_kept_def)
qed

lemma slot_write_keeps_index:
  assumes layout: "ring_layout cb db n bb sz" and "within A B m m'" and "k0 < unat n" "index_offset off" "unat i < 8"
    and "A = unat (slot_addr db k0) \<and> B = unat (slot_addr db k0) + 8 \<or>
      A = unat (slot_buf bb sz k0) \<and> B = unat (slot_buf bb sz k0) + unat sz"
  shows "index_word m' cb off i = index_word m cb off i"
proof -
  have "unat (index_addr cb off i) + 4 \<le> 2 ^ 32" using index_in [OF layout assms(4,5)] ring_bounds [OF layout] by linarith
  moreover have "unat (index_addr cb off i) + 4 \<le> A \<or> B \<le> unat (index_addr cb off i)"
    using assms(6) slot_in [OF layout assms(3)] index_in [OF layout assms(4,5)] apart_ranges [OF layout] by linarith
  ultimately show ?thesis using within_read [OF assms(2)] by (simp add: index_word_def)
qed

lemma index_write_keeps:
  assumes layout: "ring_layout cb db n bb sz" and "within (unat (index_addr cb off i)) (unat (index_addr cb off i) + 4) m m'"
    and "index_offset off" "unat i < 8" "k < unat n"
  shows "slot_kept m m' db bb sz k"
proof -
  have "unat (slot_addr db k) + 8 \<le> 2 ^ 32" "unat (slot_buf bb sz k) + unat sz \<le> 2 ^ 32"
    using slot_in [OF layout assms(5)] ring_bounds [OF layout] by linarith+
  moreover have "unat (slot_addr db k) + 8 \<le> unat (index_addr cb off i) \<or> unat (index_addr cb off i) + 4 \<le> unat (slot_addr db k)"
    "unat (slot_buf bb sz k) + unat sz \<le> unat (index_addr cb off i) \<or> unat (index_addr cb off i) + 4 \<le> unat (slot_buf bb sz k)"
    using slot_in [OF layout assms(5)] index_in [OF layout assms(3,4)] apart_ranges [OF layout] by linarith+
  ultimately show ?thesis using within_read [OF assms(2)] by (simp add: slot_kept_def)
qed

lemma index_write_keeps_index:
  assumes layout: "ring_layout cb db n bb sz" and "within (unat (index_addr cb off i)) (unat (index_addr cb off i) + 4) m m'"
    and "index_offset off" "index_offset off'" "off' \<noteq> off" "unat i < 8"
  shows "index_word m' cb off' i = index_word m cb off' i"
proof -
  have "unat (index_addr cb off' i) + 4 \<le> 2 ^ 32" using index_in [OF layout assms(4,6)] ring_bounds [OF layout] by linarith
  moreover have "unat off' + 4 \<le> unat off \<or> unat off + 4 \<le> unat off'"
    using assms(3-5) by (auto simp: index_offset_def offsetof_tx_wr_idx_def offsetof_tx_rd_idx_def
      offsetof_rx_wr_idx_def offsetof_rx_rd_idx_def)
  ultimately show ?thesis
    using within_read [OF assms(2)] index_at [OF layout assms(3,6)] index_at [OF layout assms(4,6)] by (auto simp: index_word_def)
qed

text \<open>A buffer write does not touch the descriptor of its own slot, nor a descriptor write the buffer.\<close>

lemma own_buffer_kept:
  assumes layout: "ring_layout cb db n bb sz" and "within (unat (slot_addr db k)) (unat (slot_addr db k) + 8) m m'" and "k < unat n"
  shows "mem_read m' (slot_buf bb sz k) (unat sz) = mem_read m (slot_buf bb sz k) (unat sz)"
  using slot_in [OF layout assms(3)] ring_bounds [OF layout] apart_ranges [OF layout] by (intro within_read [OF assms(2)]) linarith+

section \<open>Transfers to the parts of a ring\<close>

lemma wp_cases: "(b \<Longrightarrow> wp m Q s) \<Longrightarrow> (\<not> b \<Longrightarrow> wp n Q s) \<Longrightarrow> wp (if b then m else n) Q s"
  by simp

lemma wp_write_buffer:
  fixes s :: "('w, 'z) transport_st_scheme"
  assumes P: "spi_slave P mem idle" and s: "idle (hw s)" "transport_initialized s"
    and L: "ring_layout cb db n bb sz" and k: "k < unat n" and len: "0 < len" "len \<le> sz" "unat len \<le> length bs"
    and Q: "\<And>r w. idle w \<Longrightarrow> within (unat (slot_buf bb sz k)) (unat (slot_buf bb sz k) + unat sz) (mem (hw s)) (mem w) \<Longrightarrow>
      (0 \<le> r \<Longrightarrow> mem_read (mem w) (slot_buf bb sz k) (unat len) = take (unat len) bs) \<Longrightarrow>
      (spi_prompt P \<Longrightarrow> unat len \<le> 1500 \<Longrightarrow> r = 0) \<Longrightarrow> Q r (s\<lparr>hw := w\<rparr>)"
  shows "wp (ring_transport_write P (slot_buf bb sz k) (Some bs) len) Q s"
proof (rule wp_link_write [OF P s len(1) _ len(3), where A = "unat (slot_buf bb sz k)" and B = "unat (slot_buf bb sz k) + unat sz"])
  show "unat len < 65536" using len(2) ring_bounds(6) [OF L] by (simp add: word_le_nat_alt)
  show "unat (slot_buf bb sz k) + unat len \<le> unat (slot_buf bb sz k) + unat sz" using len(2) by (simp add: word_le_nat_alt)
  show "unat (slot_buf bb sz k) mod 4 = 0" "(unat (slot_buf bb sz k) + unat sz) mod 4 = 0"
    "unat (slot_buf bb sz k) + unat sz \<le> 2 ^ 32"
    using slot_in [OF L k] ring_bounds [OF L] by (simp_all add: mod_eq_0_iff_dvd)
qed (use Q in simp_all)

lemma wp_write_desc:
  fixes s :: "('w, 'z) transport_st_scheme"
  assumes P: "spi_slave P mem idle" and s: "idle (hw s)" "transport_initialized s"
    and L: "ring_layout cb db n bb sz" and k: "k < unat n"
    and Q: "\<And>r w. idle w \<Longrightarrow> within (unat (slot_addr db k)) (unat (slot_addr db k) + 8) (mem (hw s)) (mem w) \<Longrightarrow>
      (0 \<le> r \<Longrightarrow> mem_read (mem w) (slot_addr db k) 8 = enc_desc d) \<Longrightarrow> (spi_prompt P \<Longrightarrow> r = 0) \<Longrightarrow> Q r (s\<lparr>hw := w\<rparr>)"
  shows "wp (ring_transport_write P (slot_addr db k) (Some (enc_desc d)) sizeof_ring_descriptor) Q s"
proof (rule wp_link_write [OF P s, where A = "unat (slot_addr db k)" and B = "unat (slot_addr db k) + 8"])
  have "unat (slot_addr db k) + 8 \<le> 2 ^ 32" using slot_in [OF L k] ring_bounds [OF L] by linarith
  then show "unat (slot_addr db k) + 8 \<le> 2 ^ 32" .
  show "unat (slot_addr db k) mod 4 = 0" using slot_in [OF L k] by simp
  then show "(unat (slot_addr db k) + 8) mod 4 = 0" by (simp add: mod_eq_0_iff_dvd)
qed (use Q in \<open>simp_all add: sizeof_ring_descriptor_def\<close>)

lemma wp_write_index:
  fixes s :: "('w, 'z) ring_st_scheme"
  assumes P: "spi_slave P mem idle" and s: "idle (hw s)" "transport_initialized s"
    and L: "ring_layout (ctrl_block_addr s) db n bb sz" and off: "index_offset off" "unat i < 8"
    and Q: "\<And>r w. idle w \<Longrightarrow> within (unat (index_addr (ctrl_block_addr s) off i)) (unat (index_addr (ctrl_block_addr s) off i) + 4)
        (mem (hw s)) (mem w) \<Longrightarrow>
      (0 \<le> r \<Longrightarrow> index_word (mem w) (ctrl_block_addr s) off i = v) \<Longrightarrow> (spi_prompt P \<Longrightarrow> r = 0) \<Longrightarrow> Q r (s\<lparr>hw := w\<rparr>)"
  shows "wp (write_index P off i v) Q s"
  unfolding write_index_def wp_bind wp_gets
proof (rule wp_link_write [OF P s, where A = "unat (index_addr (ctrl_block_addr s) off i)"
      and B = "unat (index_addr (ctrl_block_addr s) off i) + 4"])
  have a: "unat (index_addr (ctrl_block_addr s) off i) + 4 \<le> 2 ^ 32" "unat (index_addr (ctrl_block_addr s) off i) mod 4 = 0"
    using index_in [OF L off] ring_bounds(7) [OF L] by linarith+
  show "unat (index_addr (ctrl_block_addr s) off i) + 4 \<le> 2 ^ 32" by (rule a)
  show "unat (index_addr (ctrl_block_addr s) off i) mod 4 = 0" by (rule a)
  then show "(unat (index_addr (ctrl_block_addr s) off i) + 4) mod 4 = 0" by (simp add: mod_eq_0_iff_dvd)
qed (use Q in \<open>simp_all add: index_word_def\<close>)

lemma wp_read_index:
  fixes s :: "('w, 'z) ring_st_scheme"
  assumes P: "spi_slave P mem idle" and s: "idle (hw s)" "transport_initialized s"
    and Q: "\<And>r w v. idle w \<Longrightarrow> mem w = mem (hw s) \<Longrightarrow>
      (0 \<le> r \<Longrightarrow> v = index_word (mem (hw s)) (ctrl_block_addr s) off i) \<Longrightarrow> (spi_prompt P \<Longrightarrow> r = 0) \<Longrightarrow> Q (r, v) (s\<lparr>hw := w\<rparr>)"
  shows "wp (read_index P off i) Q s"
  unfolding read_index_def wp_bind wp_gets
  by (rule wp_link_read [OF P s]) (auto simp: wp_return index_word_def intro: Q)

text \<open>Locks that are always free.\<close>

definition locks_free :: "'w host_port \<Rightarrow> bool" where
  "locks_free P \<longleftrightarrow> (\<forall>w l timeout. fst (qc_osal_mutex_lock P w l timeout) = 0)"

lemma wp_lock:
  fixes s :: "('w, 'z) host_st_scheme"
  assumes P: "spi_slave P mem idle" and s: "idle (hw s)"
    and Q: "\<And>r w. idle w \<Longrightarrow> mem w = mem (hw s) \<Longrightarrow> (locks_free P \<Longrightarrow> r = 0) \<Longrightarrow> Q r (s\<lparr>hw := w\<rparr>)"
  shows "wp (mutex_lock P l timeout) Q s"
proof -
  have "keeps_memory mem idle (hw s) (snd (qc_osal_mutex_lock P (hw s) l timeout))"
    using P by (simp add: spi_slave_def services_apart_def)
  then show ?thesis
    using s Q [of "snd (qc_osal_mutex_lock P (hw s) l timeout)" "fst (qc_osal_mutex_lock P (hw s) l timeout)"]
    by (simp add: mutex_lock_def wp_below split_beta keeps_memory_def locks_free_def)
qed

lemma wp_unlock:
  fixes s :: "('w, 'z) host_st_scheme"
  assumes P: "spi_slave P mem idle" and s: "idle (hw s)"
    and Q: "\<And>w. idle w \<Longrightarrow> mem w = mem (hw s) \<Longrightarrow> Q () (s\<lparr>hw := w\<rparr>)"
  shows "wp (mutex_unlock P l) Q s"
  by (rule wp_quiet [OF quiet_services(2) [OF P] s]) (simp add: Q)

lemma wp_ring_check:
  "wp (ring_check i) Q s = Q (if \<not> ring_initialized s then - QC_OSAL_ENODEV
     else if unat i \<ge> MAX_RINGS \<or> ring_status (ctrl_cache s) ! unat i \<noteq> RING_STATUS_VALID then - QC_OSAL_EINVAL else 0) s"
  by (simp add: ring_check_def wp_bind wp_gets wp_return)

lemma wp_interrupt:
  fixes s :: "('w, 'z) transport_st_scheme"
  assumes P: "spi_slave P mem idle" and s: "idle (hw s)"
    and Q: "\<And>r w. idle w \<Longrightarrow> mem w = mem (hw s) \<Longrightarrow> Q r (s\<lparr>hw := w\<rparr>)"
  shows "wp (ring_transport_interrupt P) Q s"
proof -
  have "s = s\<lparr>hw := hw s\<rparr>" by simp
  then have up: "Q r s" for r using Q [OF s refl] by metis
  show ?thesis
    by (auto simp: ring_transport_interrupt_def qcspi_transport_interrupt_def wp_bind wp_gets wp_return up Q
      intro!: wp_quiet [OF quiet_interrupt [OF P] s])
qed

end
