(* ===== verification/Ring_Rx_Proofs.thy ===== *)
theory Ring_Rx_Proofs
  imports Ring_Layout
begin

text \<open>
  Receiving: the receive ring is a queue whose tail the slave moves and whose head the host moves; the
  host owns the read index and keeps it in its cache.
\<close>

section \<open>The receive ring as a queue\<close>

definition rx_tail :: "(u32 \<Rightarrow> u8) \<Rightarrow> u32 \<Rightarrow> u8 \<Rightarrow> nat" where
  "rx_tail m cb i = unat (index_word m cb offsetof_rx_wr_idx i)"

definition rx_queue :: "(u32 \<Rightarrow> u8) \<Rightarrow> u32 \<Rightarrow> ring_control_block \<Rightarrow> u8 \<Rightarrow> bytes list" where
  "rx_queue m cb c i = ring_queue m (rx_desc_base c ! unat i) (unat (rx_desc_count c ! unat i))
     (unat (rx_rd_idx c ! unat i)) (rx_tail m cb i)"

definition rx_layout :: "u32 \<Rightarrow> ring_control_block \<Rightarrow> u8 \<Rightarrow> bool" where
  "rx_layout cb c i \<longleftrightarrow> unat i < 8 \<and> length (rx_rd_idx c) = 8
     \<and> ring_layout cb (rx_desc_base c ! unat i) (rx_desc_count c ! unat i) (rx_buf_base c ! unat i) (rx_buf_size c ! unat i)"

definition rx_inv :: "(u32 \<Rightarrow> u8) \<Rightarrow> u32 \<Rightarrow> ring_control_block \<Rightarrow> u8 \<Rightarrow> bool" where
  "rx_inv m cb c i \<longleftrightarrow> rx_layout cb c i
     \<and> (let n = unat (rx_desc_count c ! unat i); rd = unat (rx_rd_idx c ! unat i) in
        rd < n \<and> rx_tail m cb i < n
        \<and> slots_ok m (rx_desc_base c ! unat i) (rx_buf_base c ! unat i) (rx_buf_size c ! unat i) n rd (rx_tail m cb i))"

definition rx_published :: "(u32 \<Rightarrow> u8) \<Rightarrow> u32 \<Rightarrow> ring_control_block \<Rightarrow> u8 \<Rightarrow> bool" where
  "rx_published m cb c i \<longleftrightarrow> index_word m cb offsetof_rx_rd_idx i = rx_rd_idx c ! unat i"

text \<open>The message in front, and the ring after the host has taken it.\<close>

definition rx_first :: "(u32 \<Rightarrow> u8) \<Rightarrow> ring_control_block \<Rightarrow> u8 \<Rightarrow> bytes" where
  "rx_first m c i = slot_data m (rx_desc_base c ! unat i) (unat (rx_rd_idx c ! unat i))"

definition rx_advance :: "ring_control_block \<Rightarrow> u8 \<Rightarrow> ring_control_block" where
  "rx_advance c i = c\<lparr>rx_rd_idx := (rx_rd_idx c)[unat i := (rx_rd_idx c ! unat i + 1) mod (rx_desc_count c ! unat i)]\<rparr>"

lemma rx_inv_facts:
  assumes "rx_inv m cb c i"
  shows "unat i < 8" "length (rx_rd_idx c) = 8"
    "ring_layout cb (rx_desc_base c ! unat i) (rx_desc_count c ! unat i) (rx_buf_base c ! unat i) (rx_buf_size c ! unat i)"
    "unat (rx_rd_idx c ! unat i) < unat (rx_desc_count c ! unat i)" "rx_tail m cb i < unat (rx_desc_count c ! unat i)"
    "slots_ok m (rx_desc_base c ! unat i) (rx_buf_base c ! unat i) (rx_buf_size c ! unat i) (unat (rx_desc_count c ! unat i))
      (unat (rx_rd_idx c ! unat i)) (rx_tail m cb i)"
  using assms by (simp_all add: rx_inv_def rx_layout_def Let_def)

lemma rx_first_ok:
  assumes "rx_inv m cb c i" "rx_queue m cb c i \<noteq> []"
  shows "slot_ok m (rx_desc_base c ! unat i) (rx_buf_base c ! unat i) (rx_buf_size c ! unat i) (unat (rx_rd_idx c ! unat i))"
    and "length (rx_first m c i) = unat (desc_length (slot_desc m (rx_desc_base c ! unat i) (unat (rx_rd_idx c ! unat i))))"
proof -
  note f = rx_inv_facts [OF assms(1)]
  have "0 < in_use (unat (rx_desc_count c ! unat i)) (unat (rx_rd_idx c ! unat i)) (rx_tail m cb i)"
    using assms(2) by (simp add: rx_queue_def flip: length_greater_0_conv)
  then show "slot_ok m (rx_desc_base c ! unat i) (rx_buf_base c ! unat i) (rx_buf_size c ! unat i) (unat (rx_rd_idx c ! unat i))"
    using f(4,6) by (fastforce simp: slots_ok_def)
qed (simp add: rx_first_def slot_data_def)

text \<open>Clearing the descriptor in front and moving the index takes exactly the message in front.\<close>

lemma rx_advanced:
  assumes inv: "rx_inv m cb c i" and ne: "rx_queue m cb c i \<noteq> []"
    and w1: "within (unat (slot_addr (rx_desc_base c ! unat i) (unat (rx_rd_idx c ! unat i))))
      (unat (slot_addr (rx_desc_base c ! unat i) (unat (rx_rd_idx c ! unat i))) + 8) m m1"
    and w2: "within (unat (index_addr cb offsetof_rx_rd_idx i)) (unat (index_addr cb offsetof_rx_rd_idx i) + 4) m1 m2"
  shows "rx_inv m2 cb (rx_advance c i) i \<and> rx_queue m cb c i = rx_first m c i # rx_queue m2 cb (rx_advance c i) i
    \<and> rx_rd_idx (rx_advance c i) ! unat i \<noteq> rx_rd_idx c ! unat i"
proof -
  note f = rx_inv_facts [OF inv]
  let ?n = "unat (rx_desc_count c ! unat i)" and ?rd = "unat (rx_rd_idx c ! unat i)"
  have use: "0 < in_use ?n ?rd (rx_tail m cb i)"
    using ne by (simp add: rx_queue_def flip: length_greater_0_conv)
  have k: "slot_kept m m2 (rx_desc_base c ! unat i) (rx_buf_base c ! unat i) (rx_buf_size c ! unat i) k"
    if "k < ?n" "k \<noteq> ?rd" for k
    by (rule slot_kept_trans [OF slot_write_keeps [OF f(3) w1 f(4) that] index_write_keeps [OF f(3) w2 index_offsets(4) f(1) that(1)]])
      simp
  have t: "rx_tail m2 cb i = rx_tail m cb i"
    unfolding rx_tail_def
    using index_write_keeps_index [OF f(3) w2 index_offsets(4,3) offsets_differ(2) f(1)]
      slot_write_keeps_index [OF f(3) w1 f(4) index_offsets(3) f(1)] by simp
  note q = ring_queue_take [OF f(4,5) use slot_kept_same [OF k] f(6)]
  have nx: "unat ((rx_rd_idx c ! unat i + 1) mod (rx_desc_count c ! unat i)) = (?rd + 1) mod ?n"
    by (rule unat_next_index [OF f(4)])
  have "1 < ?n" using use in_use_less [OF f(4,5)] by linarith
  then have "(?rd + 1) mod ?n \<noteq> ?rd" using f(4) by (auto simp: mod_if)
  then have "(rx_rd_idx c ! unat i + 1) mod (rx_desc_count c ! unat i) \<noteq> rx_rd_idx c ! unat i" using nx by metis
  moreover have "(?rd + 1) mod ?n < ?n" using f(4) by simp
  ultimately show ?thesis
    using q f t nx by (simp add: rx_inv_def rx_layout_def Let_def rx_advance_def rx_queue_def rx_first_def)
qed

section \<open>Receiving\<close>

text \<open>The conditions under which a receive gets to look at the ring.\<close>

definition may_recv :: "('w, 'z) ring_st_scheme \<Rightarrow> u8 \<Rightarrow> u32 \<Rightarrow> bool" where
  "may_recv s i max_len \<longleftrightarrow> ring_initialized s \<and> ring_status (ctrl_cache s) ! unat i = RING_STATUS_VALID \<and> 0 < max_len"

definition ring_untouched :: "('w \<Rightarrow> u32 \<Rightarrow> u8) \<Rightarrow> ('w, 'z) ring_st_scheme \<Rightarrow> ('w, 'z) ring_st_scheme \<Rightarrow> bool" where
  "ring_untouched mem s t \<longleftrightarrow> mem (hw t) = mem (hw s) \<and> ctrl_cache t = ctrl_cache s"

text \<open>
  What a receive of at most \<open>max_len\<close> bytes ends in: the ring as it was or, at worst, with a damaged
  descriptor in front; or the message in front taken, and returned unless the last write failed.
\<close>

definition recv_post ::
  "'w host_port \<Rightarrow> ('w \<Rightarrow> u32 \<Rightarrow> u8) \<Rightarrow> ('w \<Rightarrow> bool) \<Rightarrow> ('w, 'z) ring_st_scheme \<Rightarrow> u8 \<Rightarrow> u32 \<Rightarrow> int \<times> bytes \<Rightarrow> ('w, 'z) ring_st_scheme \<Rightarrow> bool" where
  "recv_post P mem idle s i max_len x t \<longleftrightarrow> (let c = ctrl_cache s; cb = ctrl_block_addr s; m = mem (hw s); msg = rx_first m c i in
     idle (hw t) \<and> transport_initialized t \<and> ctrl_block_addr t = cb
     \<and> (fst x < 0 \<and> ctrl_cache t = c
        \<or> rx_inv (mem (hw t)) cb (ctrl_cache t) i \<and> rx_queue m cb c i = msg # rx_queue (mem (hw t)) cb (ctrl_cache t) i
          \<and> (0 \<le> fst x \<longrightarrow> fst x = int (length msg) \<and> msg \<noteq> [] \<and> snd x = msg \<and> rx_published (mem (hw t)) cb (ctrl_cache t) i))
     \<and> (spi_prompt P \<and> locks_free P \<and> may_recv s i max_len \<and> length msg \<le> 1500 \<longrightarrow>
          fst x = (if unat max_len < length msg then - QC_OSAL_EMSGSIZE else if msg = [] then - EINVAL else int (length msg))
          \<and> (fst x < 0 \<longrightarrow> ring_untouched mem s t)))"

lemma recv_post_stay:
  assumes "idle (hw t)" "transport_initialized t" "ctrl_block_addr t = ctrl_block_addr s" "ctrl_cache t = ctrl_cache s"
    and "fst x < 0" and "\<not> (spi_prompt P \<and> locks_free P \<and> may_recv s i max_len \<and> length (rx_first (mem (hw s)) (ctrl_cache s) i) \<le> 1500)"
  shows "recv_post P mem idle s i max_len x t"
  using assms by (auto simp: recv_post_def Let_def)

lemma sint_length: "sint (ucast (x :: u16) :: u32) = int (unat x)"
proof -
  have b: "0 \<le> uint x" "uint x < 2 ^ 16" using unsigned_less [of x, where 'a = int] by simp_all
  have u: "uint (ucast x :: u32) = uint x"
    using b by (simp add: unsigned_ucast_eq take_bit_int_eq_self_iff)
  have "signed_take_bit (LENGTH(32) - Suc 0) (uint x) = uint x"
  proof -
    have "- 2147483648 \<le> uint x" using b(1) by (rule order_trans [rotated]) simp
    moreover have "uint x < 2147483648" using b(2) by simp
    ultimately show ?thesis unfolding signed_take_bit_int_eq_self_iff by simp
  qed
  then show ?thesis unfolding sint_uint u by simp
qed

text \<open>Ending with the lock released.\<close>

lemma wp_rx_done:
  fixes s :: "('w, 'z) ring_st_scheme"
  assumes P: "spi_slave P mem idle" and s: "idle (hw s)"
    and Q: "\<And>w. idle w \<Longrightarrow> mem w = mem (hw s) \<Longrightarrow> Q (r, []) (s\<lparr>hw := w\<rparr>)"
  shows "wp (rx_done P i r) Q s"
  unfolding rx_done_def wp_bind wp_return by (rule wp_unlock [OF P s]) (rule Q)

lemma wp_rx_error:
  fixes s :: "('w, 'z) ring_st_scheme"
  assumes P: "spi_slave P mem idle" and s: "idle (hw s)" "transport_initialized s"
    and Q: "\<And>t. idle (hw t) \<Longrightarrow> mem (hw t) = mem (hw s) \<Longrightarrow> transport_initialized t \<Longrightarrow> ctrl_block_addr t = ctrl_block_addr s \<Longrightarrow>
      ctrl_cache t = ctrl_cache s \<Longrightarrow> Q (r, []) t"
  shows "wp (rx_error P i r) Q s"
  unfolding rx_error_def upd_stats_def wp_bind wp_modify
  by (rule wp_rx_done [OF P]) (use s Q in simp_all)

text \<open>A transfer of no bytes is refused by the transport.\<close>

lemma wp_read_nothing: "Q (- EINVAL, []) s \<Longrightarrow> wp (ring_transport_read P True a 0) Q s"
  by (simp add: ring_transport_read_def qcspi_transport_read_def wp_return)

lemma wp_rx_release:
  fixes s t :: "('w, 'z) ring_st_scheme"
  assumes P: "spi_slave P mem idle" and inv: "rx_inv (mem (hw s)) (ctrl_block_addr s) (ctrl_cache s) i"
    and ne: "rx_queue (mem (hw s)) (ctrl_block_addr s) (ctrl_cache s) i \<noteq> []"
    and t: "idle (hw t)" "transport_initialized t" "mem (hw t) = mem (hw s)" "ctrl_block_addr t = ctrl_block_addr s" "ctrl_cache t = ctrl_cache s"
    and desc: "unat (desc_length desc) = length (rx_first (mem (hw s)) (ctrl_cache s) i)"
    and data: "data = rx_first (mem (hw s)) (ctrl_cache s) i" "data \<noteq> []" "length data \<le> unat max_len"
  shows "wp (rx_release P i (rx_rd_idx (ctrl_cache s) ! unat i) desc data) (recv_post P mem idle s i max_len) t"
proof -
  define c where "c = ctrl_cache s"
  define cb where "cb = ctrl_block_addr s"
  define m where "m = mem (hw s)"
  note f = rx_inv_facts [OF inv, folded c_def cb_def m_def]
  let ?db = "rx_desc_base c ! unat i" and ?rd = "rx_rd_idx c ! unat i" and ?n = "rx_desc_count c ! unat i"
  have at: "?db + ?rd * sizeof_ring_descriptor = slot_addr ?db (unat ?rd)" by (simp add: slot_addr_def)
  have n0: "?n \<noteq> 0" using ring_bounds(5) [OF f(3)] by auto
  have u: "when_m (?n = 0) ub = (State_Monad.return () :: (('w, 'z) ring_st_scheme, unit) state)"
    using n0 by (simp add: when_m_def)
  have len: "sint (ucast (desc_length desc) :: u32) = int (length data)"
    by (simp add: sint_length desc data(1))
  show ?thesis
    unfolding rx_release_def wp_bind wp_gets t(5) c_def [symmetric] at
  proof (rule wp_write_desc [OF P t(1,2), where cb = cb and n = ?n and bb = "rx_buf_base c ! unat i" and sz = "rx_buf_size c ! unat i"],
      rule f(3), rule f(4), rule wp_cases, goal_cases)
    case (1 r w)
    then show ?case
      by (intro wp_rx_done [OF P]) (auto simp: t c_def intro!: recv_post_stay)
  next
    case (2 r w)
    note w1 = 2(2) [unfolded t(3), folded m_def]
    show ?case
      unfolding u wp_bind wp_return Let_def upd_ctrl_def wp_modify
    proof (rule wp_write_index [OF P, where db = ?db and n = ?n and bb = "rx_buf_base c ! unat i" and sz = "rx_buf_size c ! unat i"],
        goal_cases)
      case (6 r3 w3)
      have w3: "within (unat (index_addr cb offsetof_rx_rd_idx i)) (unat (index_addr cb offsetof_rx_rd_idx i) + 4) (mem w) (mem w3)"
        using 6(2) t(4) by (simp add: cb_def)
      note a = rx_advanced [OF inv [folded c_def cb_def m_def] ne [folded c_def cb_def m_def] w1 w3]
      have adv: "c\<lparr>rx_rd_idx := (rx_rd_idx c)[unat i := (?rd + 1) mod ?n]\<rparr> = rx_advance c i" by (simp add: rx_advance_def)
      have pub: "rx_published (mem w3) cb (rx_advance c i) i" if "\<not> r3 < 0"
        using 6(3) that t(4) f(1,2) by (simp add: rx_published_def rx_advance_def cb_def)
      have post: "recv_post P mem idle s i max_len (r', d) v"
        if "idle (hw v)" "mem (hw v) = mem w3" "transport_initialized v" "ctrl_block_addr v = cb" "ctrl_cache v = rx_advance c i"
          "r3 < 0 \<and> r' = r3 \<or> \<not> r3 < 0 \<and> r' = int (length data) \<and> d = data" for r' d v
        using that a data 6(4) pub
        by (auto simp: recv_post_def Let_def simp flip: c_def cb_def m_def)
      show ?case
        by (rule wp_cases) (auto simp: wp_bind wp_return upd_stats_def wp_modify len t(2) t(4) [folded cb_def]
          t(5) [folded c_def] adv 6(1) intro!: post wp_rx_done [OF P] wp_unlock [OF P])
    qed (use 2 t f in \<open>simp_all add: cb_def\<close>)
  qed
qed

text \<open>The outcome when nothing could be received: the ring is as it was.\<close>

lemma recv_post_refused:
  assumes "idle (hw t)" "transport_initialized t" "mem (hw t) = mem (hw s)" "ctrl_block_addr t = ctrl_block_addr s"
    "ctrl_cache t = ctrl_cache s" and "fst x < 0"
    and "fst x = (if unat max_len < length (rx_first (mem (hw s)) (ctrl_cache s) i) then - QC_OSAL_EMSGSIZE
      else if rx_first (mem (hw s)) (ctrl_cache s) i = [] then - EINVAL
      else int (length (rx_first (mem (hw s)) (ctrl_cache s) i)))"
  shows "recv_post P mem idle s i max_len x t"
  using assms by (simp add: recv_post_def Let_def ring_untouched_def)

lemma wp_rx_take:
  fixes s t :: "('w, 'z) ring_st_scheme"
  assumes P: "spi_slave P mem idle" and inv: "rx_inv (mem (hw s)) (ctrl_block_addr s) (ctrl_cache s) i"
    and ne: "rx_queue (mem (hw s)) (ctrl_block_addr s) (ctrl_cache s) i \<noteq> []"
    and t: "idle (hw t)" "transport_initialized t" "mem (hw t) = mem (hw s)" "ctrl_block_addr t = ctrl_block_addr s" "ctrl_cache t = ctrl_cache s"
  shows "wp (rx_take P i max_len (rx_rd_idx (ctrl_cache s) ! unat i)) (recv_post P mem idle s i max_len) t"
proof -
  define c where "c = ctrl_cache s"
  define m where "m = mem (hw s)"
  define desc where "desc = slot_desc m (rx_desc_base c ! unat i) (unat (rx_rd_idx c ! unat i))"
  define msg where "msg = rx_first m c i"
  note f = rx_inv_facts [OF inv, folded c_def m_def]
  note ok = rx_first_ok [OF inv ne, folded c_def m_def, folded msg_def desc_def]
  have at: "rx_desc_base c ! unat i + rx_rd_idx c ! unat i * sizeof_ring_descriptor = slot_addr (rx_desc_base c ! unat i) (unat (rx_rd_idx c ! unat i))"
    by (simp add: slot_addr_def)
  have err: "QC_OSAL_EMSGSIZE > 0" "EINVAL > 0" by (simp_all add: osal_errors EINVAL_def)
  have l: "unat (ucast (desc_length desc) :: u32) = length msg" using ok(2) by simp
  have l16: "length msg < 65536" unfolding ok(2) by simp
  have flag: "desc_flags desc AND RING_DESC_FLAG_VALID \<noteq> 0" using ok(1) by (simp add: slot_ok_def desc_def)
  have data: "mem_read m (buffer_addr desc) (length msg) = msg"
    by (simp add: ok(2) msg_def rx_first_def slot_data_def desc_def)
  show ?thesis
    unfolding rx_take_def wp_bind wp_gets t(5) c_def [symmetric] at
  proof (rule wp_link_read [OF P t(1,2)], goal_cases)
    case (3 r d w)
    note w3 = 3
    show ?case
      unfolding prod.case
    proof (rule wp_cases, goal_cases)
      case 1
      then show ?case
        by (intro wp_rx_done [OF P]) (use w3 in \<open>auto simp: t sizeof_ring_descriptor_def intro!: recv_post_stay\<close>)
    next
      case 2
      then have d: "dec_desc d = desc" using w3(3) t(3) by (simp add: desc_def slot_desc_def m_def sizeof_ring_descriptor_def)
      show ?case
        unfolding Let_def d if_not_P [OF flag]
      proof (rule wp_cases, goal_cases)
        case 1
        then have "unat max_len < length msg" by (simp add: word_less_nat_alt l del: unat_ucast_u16)
        then show ?case
          by (intro wp_rx_error [OF P]) (use w3 t err in \<open>auto simp: msg_def m_def c_def intro!: recv_post_refused\<close>)
      next
        case 2
        then have fits: "length msg \<le> unat max_len" by (simp add: word_less_nat_alt l del: unat_ucast_u16)
        show ?case
        proof (cases "msg = []")
          case True
          then have z: "(ucast (desc_length desc) :: u32) = 0" using l by (simp add: unat_eq_zero)
          show ?thesis
            unfolding z wp_bind
            by (rule wp_read_nothing, simp add: err, rule wp_rx_done [OF P])
              (use w3 t err True fits in \<open>auto simp: msg_def m_def c_def intro!: recv_post_refused\<close>)
        next
          case False
          then have pos: "0 < (ucast (desc_length desc) :: u32)" using l by (simp add: word_less_nat_alt del: unat_ucast_u16)
          show ?thesis
            unfolding wp_bind
          proof (rule wp_link_read [OF P _ _ pos], goal_cases)
            case (4 r2 d2 w2)
            note w4 = 4
            show ?case
              unfolding prod.case
            proof (rule wp_cases, goal_cases)
              case 1
              then show ?case
                by (intro wp_rx_done [OF P]) (use w3 w4 t l in \<open>auto simp: msg_def m_def c_def intro!: recv_post_stay\<close>)
            next
              case 2
              have "d2 = msg" using w4(3) w3(2) 2 t(3) data l by (simp add: m_def)
              then show ?case
                unfolding c_def
                by (intro wp_rx_release [OF P inv ne]) (use w3 w4 t False fits ok(2) in \<open>simp_all add: msg_def m_def c_def\<close>)
            qed
          qed (use w3 t l l16 in simp_all)
        qed
      qed
    qed
  qed (simp_all add: sizeof_ring_descriptor_def)
qed

text \<open>With a message in the ring the host does not wait; with none it returns at once if it must not wait.\<close>

lemma wp_rx_await:
  fixes s t :: "('w, 'z) ring_st_scheme"
  assumes P: "spi_slave P mem idle" and inv: "rx_inv (mem (hw s)) (ctrl_block_addr s) (ctrl_cache s) i"
    and t: "idle (hw t)" "transport_initialized t" "mem (hw t) = mem (hw s)" "ctrl_block_addr t = ctrl_block_addr s" "ctrl_cache t = ctrl_cache s"
    and now: "rx_queue (mem (hw s)) (ctrl_block_addr s) (ctrl_cache s) i \<noteq> [] \<or> timeout = QC_OSAL_TIMEOUT_NO_WAIT"
  shows "wp (rx_await P i timeout) (\<lambda>x u. idle (hw u) \<and> transport_initialized u \<and> mem (hw u) = mem (hw s)
    \<and> ctrl_block_addr u = ctrl_block_addr s \<and> ctrl_cache u = ctrl_cache s
    \<and> (case x of Inl r \<Rightarrow> r \<le> 0 \<and> (spi_prompt P \<longrightarrow> r = 0)
        \<and> (r = 0 \<longrightarrow> rx_queue (mem (hw s)) (ctrl_block_addr s) (ctrl_cache s) i = [])
      | Inr rd \<Rightarrow> rd = rx_rd_idx (ctrl_cache s) ! unat i
        \<and> rx_queue (mem (hw s)) (ctrl_block_addr s) (ctrl_cache s) i \<noteq> [])) t"
  unfolding rx_await_def wp_bind
proof (rule wp_read_index [OF P t(1,2)], unfold prod.case, rule wp_cases, goal_cases)
  case (1 r w v)
  then show ?case
    unfolding wp_bind wp_return by (intro wp_unlock [OF P]) (use t in auto)
next
  case (2 r w v)
  note f = rx_inv_facts [OF inv]
  have v: "unat v = rx_tail (mem (hw s)) (ctrl_block_addr s) i" using 2 t by (simp add: rx_tail_def)
  have "unat (rx_pending v (rx_rd_idx (ctrl_cache s) ! unat i) (rx_desc_count (ctrl_cache s) ! unat i)) = length (rx_queue (mem (hw s)) (ctrl_block_addr s) (ctrl_cache s) i)"
    using unat_rx_pending [OF f(4), of v] f(5) by (simp add: v rx_queue_def)
  then have p: "rx_pending v (rx_rd_idx (ctrl_cache s) ! unat i) (rx_desc_count (ctrl_cache s) ! unat i) = 0
      \<longleftrightarrow> rx_queue (mem (hw s)) (ctrl_block_addr s) (ctrl_cache s) i = []"
    by (simp add: unat_eq_0 [symmetric])
  have c: "ctrl_cache (t\<lparr>hw := w\<rparr>) = ctrl_cache s" using t by simp
  show ?case
  proof (cases "rx_queue (mem (hw s)) (ctrl_block_addr s) (ctrl_cache s) i = []")
    case True
    with now have "timeout = QC_OSAL_TIMEOUT_NO_WAIT" by simp
    with True p show ?thesis
      unfolding wp_gets Let_def c wp_bind
      by (simp add: wp_bind wp_return) (rule wp_unlock [OF P], use 2 t True in \<open>auto simp: wp_return\<close>)
  next
    case False
    with p show ?thesis
      unfolding wp_gets Let_def c wp_bind using 2 t by (simp add: wp_return)
  qed
qed

lemma wp_ring_recv:
  fixes s :: "('w, 'z) ring_st_scheme"
  assumes P: "spi_slave P mem idle" and s: "idle (hw s)" "transport_initialized s"
    and inv: "rx_inv (mem (hw s)) (ctrl_block_addr s) (ctrl_cache s) i"
    and now: "rx_queue (mem (hw s)) (ctrl_block_addr s) (ctrl_cache s) i \<noteq> [] \<or> timeout = QC_OSAL_TIMEOUT_NO_WAIT"
  shows "wp (ring_recv P i True max_len timeout) (\<lambda>x t.
    if rx_queue (mem (hw s)) (ctrl_block_addr s) (ctrl_cache s) i = []
    then idle (hw t) \<and> transport_initialized t \<and> ctrl_block_addr t = ctrl_block_addr s \<and> ring_untouched mem s t \<and> fst x \<le> 0
    else recv_post P mem idle s i max_len x t) s"
proof -
  let ?Q = "\<lambda>x t. if rx_queue (mem (hw s)) (ctrl_block_addr s) (ctrl_cache s) i = []
    then idle (hw t) \<and> transport_initialized t \<and> ctrl_block_addr t = ctrl_block_addr s \<and> ring_untouched mem s t \<and> fst x \<le> 0
    else recv_post P mem idle s i max_len x t"
  have i: "unat i < MAX_RINGS" using rx_inv_facts(1) [OF inv] by (simp add: MAX_RINGS_def)
  have err: "QC_OSAL_ENODEV > 0" "QC_OSAL_EINVAL > 0" by (simp_all add: osal_errors)
  have refuse: "wp (State_Monad.return (r, [])) ?Q (s\<lparr>hw := w\<rparr>)"
    if "idle w" "mem w = mem (hw s)" "r < 0" "\<not> (locks_free P \<and> may_recv s i max_len)" for r w
    using that s by (auto simp: wp_return ring_untouched_def intro!: recv_post_stay)
  have refuse0: "wp (State_Monad.return (r, [])) ?Q s" if "r < 0" "\<not> may_recv s i max_len" for r
    using refuse [of "hw s" r] that s by simp
  show ?thesis
    unfolding ring_recv_def wp_bind wp_ring_check
  proof (rule wp_cases, goal_cases)
    case 1
    then show ?case using err i by (intro refuse0) (auto simp: may_recv_def split: if_splits)
  next
    case 2
    show ?case
    proof (rule wp_cases, goal_cases)
      case 1
      then show ?case using err by (intro refuse0) (auto simp: may_recv_def)
    next
      case 2
      show ?case
        unfolding wp_bind
      proof (rule wp_lock [OF P s(1)], rule wp_cases, goal_cases)
        case (1 r w)
        then show ?case by (intro refuse) auto
      next
        case (2 r w)
        show ?case
          unfolding wp_bind
        proof (rule wp_mono [OF wp_rx_await [OF P inv _ _ _ _ _ now, of "s\<lparr>hw := w\<rparr>"]], goal_cases)
          case (6 x u)
          show ?case
          proof (cases x)
            case (Inl r)
            then show ?thesis
              using 6 by (auto simp: wp_return ring_untouched_def intro!: recv_post_stay)
          next
            case (Inr rd)
            then show ?thesis
              using 6 by (auto intro!: wp_rx_take [OF P inv])
          qed
        qed (use 2 s in simp_all)
      qed
    qed
  qed
qed

end
