(* ===== verification/Ring_Tx_Proofs.thy ===== *)
theory Ring_Tx_Proofs
  imports Ring_Layout
begin

text \<open>
  Sending: the transmit ring is a queue whose tail the host moves and whose head the slave moves. The host
  works with a cached copy of the slave's read index, which may be stale.
\<close>

section \<open>The transmit ring as a queue\<close>

text \<open>\<open>m\<close> is the memory of the slave, \<open>cb\<close> the address of the control block and \<open>c\<close> the host's cache of it.\<close>

definition tx_head :: "(u32 \<Rightarrow> u8) \<Rightarrow> u32 \<Rightarrow> u8 \<Rightarrow> nat" where
  "tx_head m cb i = unat (index_word m cb offsetof_tx_rd_idx i)"

definition tx_queue :: "(u32 \<Rightarrow> u8) \<Rightarrow> u32 \<Rightarrow> ring_control_block \<Rightarrow> u8 \<Rightarrow> bytes list" where
  "tx_queue m cb c i = ring_queue m (tx_desc_base c ! unat i) (unat (tx_desc_count c ! unat i)) (tx_head m cb i)
     (unat (tx_wr_idx c ! unat i))"

definition tx_layout :: "u32 \<Rightarrow> ring_control_block \<Rightarrow> u8 \<Rightarrow> bool" where
  "tx_layout cb c i \<longleftrightarrow> unat i < 8 \<and> length (tx_wr_idx c) = 8 \<and> length (tx_rd_idx c) = 8
     \<and> ring_layout cb (tx_desc_base c ! unat i) (tx_desc_count c ! unat i) (tx_buf_base c ! unat i) (tx_buf_size c ! unat i)"

text \<open>The cached read index never hides a filled slot: it counts at least those that are in use.\<close>

definition tx_inv :: "(u32 \<Rightarrow> u8) \<Rightarrow> u32 \<Rightarrow> ring_control_block \<Rightarrow> u8 \<Rightarrow> bool" where
  "tx_inv m cb c i \<longleftrightarrow> tx_layout cb c i
     \<and> (let n = unat (tx_desc_count c ! unat i); rd = tx_head m cb i; wr = unat (tx_wr_idx c ! unat i) in
        rd < n \<and> wr < n \<and> unat (tx_rd_idx c ! unat i) < n
        \<and> in_use n rd wr \<le> in_use n (unat (tx_rd_idx c ! unat i)) wr
        \<and> slots_ok m (tx_desc_base c ! unat i) (tx_buf_base c ! unat i) (tx_buf_size c ! unat i) n rd wr)"

definition tx_published :: "(u32 \<Rightarrow> u8) \<Rightarrow> u32 \<Rightarrow> ring_control_block \<Rightarrow> u8 \<Rightarrow> bool" where
  "tx_published m cb c i \<longleftrightarrow> index_word m cb offsetof_tx_wr_idx i = tx_wr_idx c ! unat i"

section \<open>Filling a slot\<close>

text \<open>The slot the host fills is not in use, so the queue stays as it is until the index moves.\<close>

lemma filling_keeps:
  assumes "ring_layout cb db n bb sz" and "within A B m m'" and "wr < unat n" "rd < unat n"
    and "A = unat (slot_addr db wr) \<and> B = unat (slot_addr db wr) + 8 \<or>
      A = unat (slot_buf bb sz wr) \<and> B = unat (slot_buf bb sz wr) + unat sz"
    and "slots_ok m db bb sz (unat n) rd wr"
  shows "slots_ok m' db bb sz (unat n) rd wr \<and> ring_queue m' db (unat n) rd wr = ring_queue m db (unat n) rd wr"
  using slot_kept_same [OF slot_write_keeps [OF assms(1,2,3)]] assms(5,6,4,3) by (intro ring_queue_same) simp_all

lemma filled_slot:
  assumes L: "ring_layout cb db n bb sz" and "k < unat n" and "within (unat (slot_addr db k)) (unat (slot_addr db k) + 8) m1 m2"
    and "mem_read m1 (slot_buf bb sz k) l = msg" "length msg = l" "l \<le> unat sz"
    and "mem_read m2 (slot_addr db k) 8 =
      enc_desc \<lparr>buffer_addr = slot_buf bb sz k, desc_length = of_nat l, desc_flags = RING_DESC_FLAG_VALID\<rparr>"
  shows "slot_ok m2 db bb sz k \<and> slot_data m2 db k = msg"
proof -
  have l: "unat (of_nat l :: u16) = l"
    using assms(6) ring_bounds(6) [OF L] by (simp add: unat_of_nat)
  have "mem_read m2 (slot_buf bb sz k) l = take l (mem_read m2 (slot_buf bb sz k) (unat sz))"
    using assms(6) by (simp add: take_mem_read min_def)
  also have "\<dots> = take l (mem_read m1 (slot_buf bb sz k) (unat sz))"
    by (simp only: own_buffer_kept [OF L assms(3,2)])
  also have "\<dots> = msg" using assms(4,6) by (simp add: take_mem_read min_def)
  finally show ?thesis
    using assms(6,7) l by (simp add: slot_ok_def slot_data_def slot_desc_def RING_DESC_FLAG_VALID_def)
qed

lemma put_slot:
  assumes L: "ring_layout cb db n bb sz" and i: "rd < unat n" "wr < unat n" "in_use (unat n) rd wr < unat n - 1"
    and ok: "slots_ok m db bb sz (unat n) rd wr"
    and w1: "within (unat (slot_buf bb sz wr)) (unat (slot_buf bb sz wr) + unat sz) m m1"
    and w2: "within (unat (slot_addr db wr)) (unat (slot_addr db wr) + 8) m1 m2"
    and msg: "mem_read m1 (slot_buf bb sz wr) l = msg" "length msg = l" "l \<le> unat sz"
    and desc: "mem_read m2 (slot_addr db wr) 8 =
      enc_desc \<lparr>buffer_addr = slot_buf bb sz wr, desc_length = of_nat l, desc_flags = RING_DESC_FLAG_VALID\<rparr>"
    and w3: "within (unat (index_addr cb off j)) (unat (index_addr cb off j) + 4) m2 m3"
    and j: "index_offset off" "unat j < 8"
  shows "slots_ok m3 db bb sz (unat n) rd ((wr + 1) mod unat n)
    \<and> ring_queue m3 db (unat n) rd ((wr + 1) mod unat n) = ring_queue m db (unat n) rd wr @ [msg]"
proof -
  have k3: "slot_kept m2 m3 db bb sz k" if "k < unat n" for k
    by (rule index_write_keeps [OF L w3 j that])
  have "slot_ok m3 db bb sz wr \<and> slot_data m3 db wr = msg"
    using filled_slot [OF L i(2) w2 msg desc] slot_kept_same [OF k3 [OF i(2)]] by metis
  moreover have "slot_kept m m3 db bb sz k" if "k < unat n" "k \<noteq> wr" for k
    using slot_kept_trans [OF slot_kept_trans [OF slot_write_keeps [OF L w1 i(2) that] slot_write_keeps [OF L w2 i(2) that]]
      k3 [OF that(1)]] by simp
  ultimately show ?thesis
    using ring_queue_put [OF i, of m db bb sz m3] ok slot_kept_same by metis
qed

section \<open>The operations\<close>

text \<open>What sending \<open>msg\<close> does to the ring: the host's write index tells whether the message was accepted.\<close>

definition sent ::
  "('w \<Rightarrow> u32 \<Rightarrow> u8) \<Rightarrow> ('w \<Rightarrow> bool) \<Rightarrow> ('w, 'z) ring_st_scheme \<Rightarrow> u8 \<Rightarrow> bytes \<Rightarrow> int \<Rightarrow> ('w, 'z) ring_st_scheme \<Rightarrow> bool" where
  "sent mem idle s i msg r t \<longleftrightarrow> (let m = mem (hw s); m' = mem (hw t); cb = ctrl_block_addr s; c = ctrl_cache s; c' = ctrl_cache t in
     idle (hw t) \<and> transport_initialized t \<and> ctrl_block_addr t = cb \<and> tx_inv m' cb c' i \<and> r \<le> 0
     \<and> (tx_wr_idx c' ! unat i = tx_wr_idx c ! unat i \<and> r < 0 \<and> tx_queue m' cb c' i = tx_queue m cb c i
          \<and> (tx_published m cb c i \<longrightarrow> tx_published m' cb c' i)
        \<or> tx_wr_idx c' ! unat i \<noteq> tx_wr_idx c ! unat i \<and> tx_queue m' cb c' i = tx_queue m cb c i @ [msg]
          \<and> (r = 0 \<longrightarrow> tx_published m' cb c' i)))"

text \<open>The ring as the host knows it is kept by \<open>m'\<close>: what a failed send leaves.\<close>

definition tx_kept :: "(u32 \<Rightarrow> u8) \<Rightarrow> (u32 \<Rightarrow> u8) \<Rightarrow> u32 \<Rightarrow> ring_control_block \<Rightarrow> u8 \<Rightarrow> bool" where
  "tx_kept m m' cb c i \<longleftrightarrow> tx_inv m' cb c i \<and> tx_queue m' cb c i = tx_queue m cb c i \<and> tx_head m' cb i = tx_head m cb i
     \<and> (tx_published m cb c i \<longrightarrow> tx_published m' cb c i)"

lemma tx_kept_refl: "tx_inv m cb c i \<Longrightarrow> tx_kept m m cb c i"
  by (simp add: tx_kept_def)

lemma tx_kept_trans: "tx_kept m m' cb c i \<Longrightarrow> tx_kept m' m'' cb c i \<Longrightarrow> tx_kept m m'' cb c i"
  by (simp add: tx_kept_def)

lemma filling_tx_kept:
  assumes inv: "tx_inv m cb c i" and w: "within A B m m'"
    and AB: "A = unat (slot_addr (tx_desc_base c ! unat i) (unat (tx_wr_idx c ! unat i)))
        \<and> B = unat (slot_addr (tx_desc_base c ! unat i) (unat (tx_wr_idx c ! unat i))) + 8 \<or>
      A = unat (slot_buf (tx_buf_base c ! unat i) (tx_buf_size c ! unat i) (unat (tx_wr_idx c ! unat i)))
        \<and> B = unat (slot_buf (tx_buf_base c ! unat i) (tx_buf_size c ! unat i) (unat (tx_wr_idx c ! unat i)))
          + unat (tx_buf_size c ! unat i)"
  shows "tx_kept m m' cb c i"
proof -
  have lay: "tx_layout cb c i" using inv by (simp add: tx_inv_def)
  then have L: "ring_layout cb (tx_desc_base c ! unat i) (tx_desc_count c ! unat i) (tx_buf_base c ! unat i) (tx_buf_size c ! unat i)"
    and i: "unat i < 8" by (simp_all add: tx_layout_def)
  have k: "tx_head m cb i < unat (tx_desc_count c ! unat i)" "unat (tx_wr_idx c ! unat i) < unat (tx_desc_count c ! unat i)"
    and ok: "slots_ok m (tx_desc_base c ! unat i) (tx_buf_base c ! unat i) (tx_buf_size c ! unat i)
      (unat (tx_desc_count c ! unat i)) (tx_head m cb i) (unat (tx_wr_idx c ! unat i))"
    using inv by (simp_all add: tx_inv_def Let_def)
  have idx: "index_word m' cb off i = index_word m cb off i" if "index_offset off" for off
    by (rule slot_write_keeps_index [OF L w k(2) that i AB])
  then have h: "tx_head m' cb i = tx_head m cb i" by (simp add: tx_head_def)
  note f = filling_keeps [OF L w k(2,1) AB ok]
  have "tx_inv m' cb c i" using inv f h by (simp add: tx_inv_def Let_def)
  moreover have "tx_queue m' cb c i = tx_queue m cb c i" using f h by (simp add: tx_queue_def)
  ultimately show ?thesis using idx h by (simp add: tx_kept_def tx_published_def)
qed

lemma sent_failed:
  assumes "idle w" "transport_initialized s" "r < 0"
    and "tx_kept (mem (hw s)) (mem w) (ctrl_block_addr s) (ctrl_cache s) i"
  shows "sent mem idle s i msg r (s\<lparr>hw := w\<rparr>)"
  using assms by (simp add: sent_def Let_def tx_kept_def)

lemma next_differs: "wr < n \<Longrightarrow> 1 < n \<Longrightarrow> (wr + 1) mod n \<noteq> (wr :: nat)"
  by (auto simp: mod_if)

lemma next_inv:
  assumes "tx_inv m cb c i"
    and "in_use (unat (tx_desc_count c ! unat i)) (unat (tx_rd_idx c ! unat i)) (unat (tx_wr_idx c ! unat i)) < unat (tx_desc_count c ! unat i) - 1"
    and "slots_ok m' (tx_desc_base c ! unat i) (tx_buf_base c ! unat i) (tx_buf_size c ! unat i) (unat (tx_desc_count c ! unat i))
      (tx_head m cb i) ((unat (tx_wr_idx c ! unat i) + 1) mod unat (tx_desc_count c ! unat i))"
    and "tx_head m' cb i = tx_head m cb i"
  shows "tx_inv m' cb (c\<lparr>tx_wr_idx := (tx_wr_idx c)[unat i := (tx_wr_idx c ! unat i + 1) mod (tx_desc_count c ! unat i)]\<rparr>) i"
proof -
  note L = assms(1) [unfolded tx_inv_def tx_layout_def Let_def]
  let ?n = "unat (tx_desc_count c ! unat i)" and ?wr = "unat (tx_wr_idx c ! unat i)"
  have "in_use ?n (tx_head m cb i) ((?wr + 1) mod ?n) \<le> in_use ?n (unat (tx_rd_idx c ! unat i)) ((?wr + 1) mod ?n)"
    using L assms(2) in_use_put [of "tx_head m cb i" ?n ?wr] in_use_put [of "unat (tx_rd_idx c ! unat i)" ?n ?wr] by simp
  moreover have "unat ((tx_wr_idx c ! unat i + 1) mod (tx_desc_count c ! unat i)) = (?wr + 1) mod ?n"
    using L by (intro unat_next_index) simp
  ultimately show ?thesis
    using L assms(3,4) by (simp add: tx_inv_def tx_layout_def Let_def)
qed

lemma sent_accepted:
  fixes s :: "('w, 'z) ring_st_scheme" and mem :: "'w \<Rightarrow> u32 \<Rightarrow> u8" and i :: u8
  defines "c \<equiv> ctrl_cache s" and "cb \<equiv> ctrl_block_addr s" and "m \<equiv> mem (hw s)"
  defines "n \<equiv> tx_desc_count c ! unat i" and "wr \<equiv> tx_wr_idx c ! unat i" and "db \<equiv> tx_desc_base c ! unat i"
  assumes w: "idle w" and inv: "tx_inv m cb c i"
    and room: "in_use (unat n) (unat (tx_rd_idx c ! unat i)) (unat wr) < unat n - 1"
    and q: "slots_ok (mem w) db (tx_buf_base c ! unat i) (tx_buf_size c ! unat i) (unat n) (tx_head m cb i) ((unat wr + 1) mod unat n)
      \<and> ring_queue (mem w) db (unat n) (tx_head m cb i) ((unat wr + 1) mod unat n) = tx_queue m cb c i @ [msg]"
    and h: "tx_head (mem w) cb i = tx_head m cb i"
    and r: "r \<le> 0" "r = 0 \<Longrightarrow> index_word (mem w) cb offsetof_tx_wr_idx i = (wr + 1) mod n"
    and t: "hw t = w" "transport_initialized t" "ctrl_block_addr t = cb"
      "ctrl_cache t = c\<lparr>tx_wr_idx := (tx_wr_idx c)[unat i := (wr + 1) mod n]\<rparr>"
  shows "sent mem idle s i msg r t"
proof -
  have i: "unat i < 8" "length (tx_wr_idx c) = 8" "unat wr < unat n"
    using inv by (simp_all add: tx_inv_def tx_layout_def Let_def n_def wr_def)
  note nx = unat_next_index [OF i(3)]
  have "1 < unat n" using room by simp
  then have "(wr + 1) mod n \<noteq> wr" using next_differs [OF i(3)] nx by metis
  moreover have "tx_inv (mem w) cb (c\<lparr>tx_wr_idx := (tx_wr_idx c)[unat i := (wr + 1) mod n]\<rparr>) i"
    unfolding n_def wr_def
    by (rule next_inv [OF inv]) (use room q h in \<open>simp_all add: n_def wr_def db_def\<close>)
  moreover have "tx_queue (mem w) cb (c\<lparr>tx_wr_idx := (tx_wr_idx c)[unat i := (wr + 1) mod n]\<rparr>) i = tx_queue m cb c i @ [msg]"
    using q h i nx unfolding tx_queue_def n_def db_def by simp
  ultimately show ?thesis
    using w r i t by (simp add: sent_def Let_def tx_published_def flip: c_def cb_def m_def wr_def)
qed

lemma wp_tx_publish:
  fixes s :: "('w, 'z) ring_st_scheme" and mem :: "'w \<Rightarrow> u32 \<Rightarrow> u8" and i :: u8
  defines "c \<equiv> ctrl_cache s" and "cb \<equiv> ctrl_block_addr s" and "m \<equiv> mem (hw s)"
  defines "n \<equiv> tx_desc_count c ! unat i" and "wr \<equiv> tx_wr_idx c ! unat i"
  assumes P: "spi_slave P mem idle" and s: "idle (hw s)" "transport_initialized s"
    and inv: "tx_inv m cb c i"
    and room: "in_use (unat n) (unat (tx_rd_idx c ! unat i)) (unat wr) < unat n - 1"
    and len: "0 < len" "len \<le> tx_buf_size c ! unat i" "unat len \<le> length data"
  shows "wp (tx_publish P i wr data len)
    (\<lambda>r t. sent mem idle s i (take (unat len) data) r t \<and> (spi_prompt P \<longrightarrow> unat len \<le> 1500 \<longrightarrow> r = 0)) s"
proof -
  define db where "db = tx_desc_base c ! unat i"
  define bb where "bb = tx_buf_base c ! unat i"
  define sz where "sz = tx_buf_size c ! unat i"
  define msg where "msg = take (unat len) data"
  note i = inv [unfolded tx_inv_def tx_layout_def Let_def, folded n_def wr_def db_def bb_def sz_def]
  note L = i [THEN conjunct1, THEN conjunct2, THEN conjunct2, THEN conjunct2]
  have rm: "in_use (unat n) (tx_head m cb i) (unat wr) < unat n - 1" using i room by simp
  have buf: "bb + wr * sz = slot_buf bb sz (unat wr)" "db + wr * sizeof_ring_descriptor = slot_addr db (unat wr)"
    by (simp_all add: slot_buf_def slot_addr_def)
  have n0: "n \<noteq> 0" using ring_bounds(5) [OF L] by auto
  have k: "unat wr < unat n" "tx_head m cb i < unat n" "unat i < 8" using i by simp_all
  have ok: "slots_ok m db bb sz (unat n) (tx_head m cb i) (unat wr)" using i by simp
  note fill = filling_tx_kept [where c = c and cb = cb and i = i, folded n_def wr_def db_def bb_def sz_def]
  have fail: "sent mem idle s i msg r (s\<lparr>hw := w\<rparr>)" if "idle w" "r < 0" "tx_kept m (mem w) cb c i" for r w
    using sent_failed [of idle w s r mem i msg] that s by (simp add: c_def cb_def m_def)
  have msg: "length msg = unat len" "unat len \<le> unat sz" using len by (simp_all add: msg_def sz_def word_le_nat_alt)
  show ?thesis
    unfolding tx_publish_def wp_bind wp_gets Let_def msg_def [symmetric] c_def [symmetric] db_def [symmetric]
      n_def [symmetric] wr_def [symmetric] bb_def [symmetric] sz_def [symmetric] buf
  proof (rule wp_write_buffer [OF P s L k(1) len(1) len(2) [folded sz_def] len(3)], rule wp_cases, goal_cases)
    case (1 r1 w1)
    then show ?case using fail [of w1 r1] fill [OF inv, of _ _ "mem w1"] by (auto simp: wp_return m_def)
  next
    case (2 r1 w1)
    note w1 = 2(2) [folded m_def]
    have m1: "mem_read (mem w1) (slot_buf bb sz (unat wr)) (unat len) = msg" using 2(3,5) by (simp add: msg_def)
    have k1: "tx_kept m (mem w1) cb c i" using fill [OF inv w1] by simp
    then have inv1: "tx_inv (mem w1) cb c i" by (simp add: tx_kept_def)
    show ?case
      unfolding wp_bind
    proof (rule wp_write_desc [OF P _ _ L k(1)], goal_cases)
      case (3 r2 w2)
      then have w2: "within (unat (slot_addr db (unat wr))) (unat (slot_addr db (unat wr)) + 8) (mem w1) (mem w2)" by simp
      have k2: "tx_kept m (mem w2) cb c i" by (rule tx_kept_trans [OF k1 fill [OF inv1 w2]]) simp
      show ?case
      proof (rule wp_cases, goal_cases)
        case 1
        then show ?case using 3(4) fail [OF 3(1) _ k2] by (auto simp: wp_return)
      next
        case 2
        have d: "mem_read (mem w2) (slot_addr db (unat wr)) 8 =
          enc_desc \<lparr>buffer_addr = slot_buf bb sz (unat wr), desc_length = of_nat (unat len), desc_flags = RING_DESC_FLAG_VALID\<rparr>"
          using 3(3) 2 by simp
        have u: "when_m (n = 0) ub = (State_Monad.return () :: (('w, 'z) ring_st_scheme, unit) state)"
          using n0 by (simp add: when_m_def)
        show ?case
          unfolding u wp_return wp_bind upd_ctrl_def wp_modify
        proof (rule wp_write_index [OF P, where db = db and n = n and bb = bb and sz = sz], goal_cases)
          case (6 r3 w3)
          then have w3: "within (unat (index_addr cb offsetof_tx_wr_idx i)) (unat (index_addr cb offsetof_tx_wr_idx i) + 4) (mem w2) (mem w3)"
            by (simp add: cb_def)
          have h: "tx_head (mem w3) cb i = tx_head m cb i"
            using k2 index_write_keeps_index [OF L w3 index_offsets(1,2) offsets_differ(1) k(3)] by (simp add: tx_kept_def tx_head_def)
          note q = put_slot [OF L k(2,1) rm ok w1 w2 m1 msg d w3 index_offsets(1) k(3)]
          have acc: "sent mem idle s i msg r t"
            if "r \<le> 0" "r = 0 \<longrightarrow> \<not> r3 < 0" "hw t = w3" "transport_initialized t" "ctrl_block_addr t = cb"
              "ctrl_cache t = c\<lparr>tx_wr_idx := (tx_wr_idx c)[unat i := (wr + 1) mod n]\<rparr>" for r t
            by (rule sent_accepted [where w = w3])
              (use that 6 s q h inv room in \<open>simp_all add: c_def n_def wr_def db_def bb_def sz_def cb_def m_def tx_queue_def\<close>)
          show ?case
            using 6(4) by (auto simp: wp_return wp_bind upd_stats_def wp_modify s c_def cb_def intro!: acc)
        qed (use 2 3 s L k in \<open>simp_all add: cb_def\<close>)
      qed
    qed (use 2 s in simp_all)
  qed
qed

section \<open>Finding a slot\<close>

definition found ::
  "'w host_port \<Rightarrow> ('w \<Rightarrow> u32 \<Rightarrow> u8) \<Rightarrow> ('w \<Rightarrow> bool) \<Rightarrow> ('w, 'z) ring_st_scheme \<Rightarrow> u8 \<Rightarrow> int + u32 \<Rightarrow> ('w, 'z) ring_st_scheme \<Rightarrow> bool" where
  "found P mem idle s i x t \<longleftrightarrow> (let c = ctrl_cache s; n = unat (tx_desc_count c ! unat i); wr = unat (tx_wr_idx c ! unat i) in
     idle (hw t) \<and> transport_initialized t \<and> mem (hw t) = mem (hw s) \<and> ctrl_block_addr t = ctrl_block_addr s
     \<and> (\<exists>R. ctrl_cache t = c\<lparr>tx_rd_idx := R\<rparr>) \<and> tx_inv (mem (hw t)) (ctrl_block_addr t) (ctrl_cache t) i
     \<and> (case x of
          Inl r \<Rightarrow> r < 0 \<and> (spi_prompt P \<longrightarrow> r = - QC_OSAL_EAGAIN \<and>
            in_use n (tx_head (mem (hw s)) (ctrl_block_addr s) i) wr = n - 1)
        | Inr k \<Rightarrow> k = tx_wr_idx c ! unat i \<and> in_use n (unat (tx_rd_idx (ctrl_cache t) ! unat i)) wr < n - 1))"

lemma tx_space_0:
  "unat rd < unat n \<Longrightarrow> unat wr < unat n \<Longrightarrow> tx_space rd wr n = 0 \<longleftrightarrow> in_use (unat n) (unat rd) (unat wr) = unat n - 1"
  using unat_tx_space [of rd n wr] in_use_less [of "unat rd" "unat n" "unat wr"] unat_eq_0 [of "tx_space rd wr n"] by linarith

lemma wp_tx_find_space:
  fixes s :: "('w, 'z) ring_st_scheme" and mem :: "'w \<Rightarrow> u32 \<Rightarrow> u8"
  assumes P: "spi_slave P mem idle" and s: "idle (hw s)" "transport_initialized s"
    and inv: "tx_inv (mem (hw s)) (ctrl_block_addr s) (ctrl_cache s) i"
  shows "wp (tx_find_space P i) (found P mem idle s i) s"
proof -
  define c where "c = ctrl_cache s"
  define n where "n = tx_desc_count c ! unat i"
  define wr where "wr = tx_wr_idx c ! unat i"
  define rd where "rd = index_word (mem (hw s)) (ctrl_block_addr s) offsetof_tx_rd_idx i"
  note i = inv [unfolded tx_inv_def tx_layout_def Let_def tx_head_def, folded c_def, folded n_def wr_def rd_def]
  have k: "unat rd < unat n" "unat wr < unat n" "unat (tx_rd_idx c ! unat i) < unat n" using i by simp_all
  have e: "QC_OSAL_EAGAIN > 0" by (simp add: QC_OSAL_EAGAIN_def)
  have keep: "found P mem idle s i x t" if "idle (hw t)" "transport_initialized t" "mem (hw t) = mem (hw s)"
      "ctrl_block_addr t = ctrl_block_addr s" "ctrl_cache t = c"
      "case x of Inl r \<Rightarrow> r < 0 \<and> (spi_prompt P \<longrightarrow> r = - QC_OSAL_EAGAIN \<and> in_use (unat n) (unat rd) (unat wr) = unat n - 1)
        | Inr v \<Rightarrow> v = wr \<and> in_use (unat n) (unat (tx_rd_idx c ! unat i)) (unat wr) < unat n - 1" for x t
    using that inv unfolding found_def Let_def
    by (intro conjI exI [of _ "tx_rd_idx c"]) (simp_all add: tx_head_def flip: c_def n_def wr_def rd_def split: sum.splits)
  have fresh: "found P mem idle s i (if tx_space rd wr n = 0 then Inl (- QC_OSAL_EAGAIN) else Inr wr) t"
    if "idle (hw t)" "transport_initialized t" "mem (hw t) = mem (hw s)" "ctrl_block_addr t = ctrl_block_addr s"
      "ctrl_cache t = c\<lparr>tx_rd_idx := (tx_rd_idx c)[unat i := rd]\<rparr>" for t
    using that i e tx_space_0 [OF k(1,2)] in_use_less [OF k(1,2)]
    by (auto simp: found_def Let_def tx_inv_def tx_layout_def tx_head_def simp flip: c_def n_def wr_def rd_def)
  show ?thesis
  proof (cases "tx_space (tx_rd_idx c ! unat i) wr n = 0")
    case False
    then have "in_use (unat n) (unat (tx_rd_idx c ! unat i)) (unat wr) < unat n - 1"
      using tx_space_0 [OF k(3,2)] in_use_less [OF k(3,2)] by simp
    with False show ?thesis
      using keep [of s "Inr wr"] s by (simp add: tx_find_space_def wp_bind wp_gets wp_return Let_def flip: c_def n_def wr_def)
  next
    case True
    show ?thesis
      unfolding tx_find_space_def wp_bind wp_gets Let_def c_def [symmetric] n_def [symmetric] wr_def [symmetric] if_P [OF True]
    proof (rule wp_read_index [OF P s], unfold prod.case, rule wp_cases, goal_cases)
      case (1 r w v)
      then show ?case
        using keep [of "s\<lparr>hw := w\<rparr>" "Inl r"] s by (auto simp: wp_return c_def)
    next
      case (2 r w v)
      then have "v = rd" by (simp add: rd_def)
      then show ?case
        using fresh [of "s\<lparr>hw := w, ctrl_cache := c\<lparr>tx_rd_idx := (tx_rd_idx c)[unat i := rd]\<rparr>\<rparr>"] 2(1,2) s
        by (simp add: wp_return wp_bind wp_modify upd_ctrl_def c_def split: if_splits)
    qed
  qed
qed

section \<open>Sending\<close>

lemma sent_after:
  assumes "mem (hw s') = mem (hw s)" "ctrl_block_addr s' = ctrl_block_addr s" "ctrl_cache s' = (ctrl_cache s)\<lparr>tx_rd_idx := R\<rparr>"
    and "sent mem idle s' i msg r t"
  shows "sent mem idle s i msg r t"
  using assms by (simp add: sent_def Let_def tx_queue_def tx_published_def)

lemma sent_error:
  assumes "idle (hw t)" "transport_initialized t" "mem (hw t) = mem (hw s)" "ctrl_block_addr t = ctrl_block_addr s"
    and "ctrl_cache t = (ctrl_cache s)\<lparr>tx_rd_idx := R\<rparr>" "tx_inv (mem (hw s)) (ctrl_block_addr s) (ctrl_cache t) i" "r < 0"
  shows "sent mem idle s i msg r t"
  using assms by (simp add: sent_def Let_def tx_queue_def tx_published_def)

lemma sent_hw:
  assumes "sent mem idle s i msg r t" "idle w" "mem w = mem (hw t)"
  shows "sent mem idle s i msg r (t\<lparr>hw := w\<rparr>)"
  using assms by (simp add: sent_def Let_def)

text \<open>The conditions under which a send gets to look for a slot.\<close>

definition may_send :: "('w, 'z) ring_st_scheme \<Rightarrow> u8 \<Rightarrow> u32 \<Rightarrow> bool" where
  "may_send s i len \<longleftrightarrow> ring_initialized s \<and> ring_status (ctrl_cache s) ! unat i = RING_STATUS_VALID
     \<and> 0 < len \<and> len \<le> tx_buf_size (ctrl_cache s) ! unat i \<and> unat len \<le> 1500"

definition tx_full :: "('w \<Rightarrow> u32 \<Rightarrow> u8) \<Rightarrow> ('w, 'z) ring_st_scheme \<Rightarrow> u8 \<Rightarrow> bool" where
  "tx_full mem s i \<longleftrightarrow> length (tx_queue (mem (hw s)) (ctrl_block_addr s) (ctrl_cache s) i)
     = unat (tx_desc_count (ctrl_cache s) ! unat i) - 1"

text \<open>What a send of the first \<open>len\<close> bytes of \<open>bs\<close> ends in.\<close>

definition send_post ::
  "'w host_port \<Rightarrow> ('w \<Rightarrow> u32 \<Rightarrow> u8) \<Rightarrow> ('w \<Rightarrow> bool) \<Rightarrow> ('w, 'z) ring_st_scheme \<Rightarrow> u8 \<Rightarrow> bytes \<Rightarrow> u32 \<Rightarrow> int \<Rightarrow> ('w, 'z) ring_st_scheme \<Rightarrow> bool" where
  "send_post P mem idle s i bs len r t \<longleftrightarrow> sent mem idle s i (take (unat len) bs) r t
    \<and> (spi_prompt P \<longrightarrow> locks_free P \<longrightarrow> may_send s i len \<longrightarrow> r = (if tx_full mem s i then - QC_OSAL_EAGAIN else 0))"

lemma send_post_hw:
  fixes s :: "('w, 'z) ring_st_scheme"
  assumes "send_post P mem idle (s\<lparr>hw := w\<rparr>) i bs len r t" "mem w = mem (hw s)"
  shows "send_post P mem idle s i bs len r t"
proof -
  note a = assms(1) [unfolded send_post_def]
  have "sent mem idle s i (take (unat len) bs) r t"
    by (rule sent_after [OF _ _ _ a [THEN conjunct1], where R = "tx_rd_idx (ctrl_cache s)"]) (simp_all add: assms(2))
  moreover have "may_send (s\<lparr>hw := w\<rparr>) i len = may_send s i len" "tx_full mem (s\<lparr>hw := w\<rparr>) i = tx_full mem s i"
    by (simp_all add: may_send_def tx_full_def assms(2))
  ultimately show ?thesis using a [THEN conjunct2] unfolding send_post_def by metis
qed

lemma wp_send_found:
  fixes s t :: "('w, 'z) ring_st_scheme"
  assumes P: "spi_slave P mem idle" and f: "found P mem idle s i (Inr wr) t"
    and len: "0 < len" "len \<le> tx_buf_size (ctrl_cache s) ! unat i" "unat len \<le> length bs"
  shows "wp (do { r \<leftarrow> tx_publish P i wr bs len; _ \<leftarrow> tx_done P i r;
      if r < 0 then State_Monad.return r
      else do { _ \<leftarrow> ring_transport_interrupt P; State_Monad.return 0 } }) (send_post P mem idle s i bs len) t"
proof -
  obtain R where R: "ctrl_cache t = (ctrl_cache s)\<lparr>tx_rd_idx := R\<rparr>" "idle (hw t)" "transport_initialized t"
    "mem (hw t) = mem (hw s)" "ctrl_block_addr t = ctrl_block_addr s" "tx_inv (mem (hw t)) (ctrl_block_addr t) (ctrl_cache t) i"
    using f by (auto simp: found_def Let_def)
  have wr: "wr = tx_wr_idx (ctrl_cache t) ! unat i"
    and room: "in_use (unat (tx_desc_count (ctrl_cache t) ! unat i)) (unat (tx_rd_idx (ctrl_cache t) ! unat i)) (unat wr)
      < unat (tx_desc_count (ctrl_cache t) ! unat i) - 1"
    using f R(1) by (simp_all add: found_def Let_def)
  have "in_use (unat (tx_desc_count (ctrl_cache t) ! unat i)) (tx_head (mem (hw s)) (ctrl_block_addr s) i) (unat wr)
      < unat (tx_desc_count (ctrl_cache t) ! unat i) - 1"
    using room R(4-6) wr by (simp add: tx_inv_def Let_def)
  then have not_full: "\<not> tx_full mem s i" using wr R(1) by (simp add: tx_full_def tx_queue_def)
  show ?thesis
    unfolding wp_bind wr
  proof (rule wp_mono [OF wp_tx_publish [OF P R(2,3) R(6) room [unfolded wr] len(1)]])
    fix r and u :: "('w, 'z) ring_st_scheme"
    assume u: "sent mem idle t i (take (unat len) bs) r u \<and> (spi_prompt P \<longrightarrow> unat len \<le> 1500 \<longrightarrow> r = 0)"
    then have su: "sent mem idle s i (take (unat len) bs) r u" using sent_after R(1,4,5) by blast
    then have iu: "idle (hw u)" "r \<le> 0" by (simp_all add: sent_def Let_def)
    show "wp (tx_done P i r) (\<lambda>_. wp (if r < 0 then State_Monad.return r
        else do { _ \<leftarrow> ring_transport_interrupt P; State_Monad.return 0 }) (send_post P mem idle s i bs len)) u"
      unfolding tx_done_def wp_bind wp_return
    proof (rule wp_unlock [OF P iu(1)], rule wp_cases, goal_cases)
      case (1 w)
      then show ?case using u sent_hw [OF su 1(1,2)] by (auto simp: wp_return may_send_def send_post_def)
    next
      case (2 w)
      then have "r = 0" using iu(2) by simp
      then show ?case
        unfolding wp_bind
        by (intro wp_interrupt [OF P]) (use 2 su not_full in \<open>auto simp: wp_return send_post_def intro!: sent_hw\<close>)
    qed
  qed (use len R(1) in simp_all)
qed

lemma wp_send_slot:
  fixes s :: "('w, 'z) ring_st_scheme" and mem :: "'w \<Rightarrow> u32 \<Rightarrow> u8"
  assumes P: "spi_slave P mem idle" and s: "idle (hw s)" "transport_initialized s"
    and inv: "tx_inv (mem (hw s)) (ctrl_block_addr s) (ctrl_cache s) i"
    and len: "0 < len" "len \<le> tx_buf_size (ctrl_cache s) ! unat i" "unat len \<le> length bs"
  shows "wp (do { x \<leftarrow> tx_find_space P i;
      case x of Inl r \<Rightarrow> tx_done P i r
      | Inr wr \<Rightarrow> do { r \<leftarrow> tx_publish P i wr bs len; _ \<leftarrow> tx_done P i r;
          if r < 0 then State_Monad.return r
          else do { _ \<leftarrow> ring_transport_interrupt P; State_Monad.return 0 } }}) (send_post P mem idle s i bs len) s"
  unfolding wp_bind
proof (rule wp_mono [OF wp_tx_find_space [OF P s inv]])
  fix x and t :: "('w, 'z) ring_st_scheme"
  assume f: "found P mem idle s i x t"
  then obtain R where R: "ctrl_cache t = (ctrl_cache s)\<lparr>tx_rd_idx := R\<rparr>" "idle (hw t)" "transport_initialized t"
    "mem (hw t) = mem (hw s)" "ctrl_block_addr t = ctrl_block_addr s" "tx_inv (mem (hw t)) (ctrl_block_addr t) (ctrl_cache t) i"
    by (auto simp: found_def Let_def)
  show "wp (case x of Inl r \<Rightarrow> tx_done P i r
      | Inr wr \<Rightarrow> do { r \<leftarrow> tx_publish P i wr bs len; _ \<leftarrow> tx_done P i r;
          if r < 0 then State_Monad.return r
          else do { _ \<leftarrow> ring_transport_interrupt P; State_Monad.return 0 } }) (send_post P mem idle s i bs len) t"
  proof (cases x)
    case (Inl r)
    show ?thesis
      unfolding Inl sum.case tx_done_def wp_bind wp_return
    proof (intro wp_unlock [OF P R(2)])
      fix w
      assume w: "idle w" "mem w = mem (hw t)"
      have r: "r < 0" "spi_prompt P \<longrightarrow> r = - QC_OSAL_EAGAIN \<and> tx_full mem s i"
        using f Inl by (simp_all add: found_def Let_def tx_full_def tx_queue_def)
      have "sent mem idle s i (take (unat len) bs) r (t\<lparr>hw := w\<rparr>)"
        by (rule sent_error [where R = R]) (use w R r(1) in simp_all)
      then show "send_post P mem idle s i bs len r (t\<lparr>hw := w\<rparr>)" using r(2) by (auto simp: send_post_def)
    qed
  next
    case (Inr wr)
    with f wp_send_found [OF P _ len] show ?thesis by simp
  qed
qed

lemma wp_ring_send:
  fixes s :: "('w, 'z) ring_st_scheme" and mem :: "'w \<Rightarrow> u32 \<Rightarrow> u8"
  assumes P: "spi_slave P mem idle" and s: "idle (hw s)" "transport_initialized s"
    and inv: "tx_inv (mem (hw s)) (ctrl_block_addr s) (ctrl_cache s) i" and len: "unat len \<le> length bs"
  shows "wp (ring_send P i (Some bs) len timeout) (send_post P mem idle s i bs len) s"
proof -
  have err: "QC_OSAL_ENODEV > 0" "QC_OSAL_EINVAL > 0" "QC_OSAL_EMSGSIZE > 0"
    by (simp_all add: osal_errors)
  have i: "unat i < MAX_RINGS" using inv by (simp add: tx_inv_def tx_layout_def MAX_RINGS_def)
  have stay: "wp (State_Monad.return r) (send_post P mem idle s i bs len) (s\<lparr>hw := w\<rparr>)"
    if "idle w" "mem w = mem (hw s)" "r < 0" "\<not> (locks_free P \<and> may_send s i len)" for r w
  proof -
    have "sent mem idle s i (take (unat len) bs) r (s\<lparr>hw := w\<rparr>)"
      by (rule sent_error [where R = "tx_rd_idx (ctrl_cache s)"]) (use that s inv in simp_all)
    then show ?thesis using that(4) by (auto simp: wp_return send_post_def)
  qed
  have refuse: "wp (State_Monad.return r) (send_post P mem idle s i bs len) s" if "r < 0" "\<not> may_send s i len" for r
    using stay [of "hw s" r] that s by simp
  show ?thesis
    unfolding ring_send_def wp_bind wp_ring_check wp_gets option.case
  proof (rule wp_cases, goal_cases)
    case 1
    then show ?case using err i by (intro refuse) (auto simp: may_send_def split: if_splits)
  next
    case 2
    show ?case
    proof (rule wp_cases [where b = "len = 0"], goal_cases)
      case 1
      then show ?case using err by (intro refuse) (auto simp: may_send_def)
    next
      case 2
      then have pos: "0 < len" by (simp add: word_gt_0)
      show ?case
      proof (rule wp_cases, goal_cases)
        case 1
        then show ?case using err by (intro refuse) (auto simp: may_send_def)
      next
        case 2
        then have fits: "len \<le> tx_buf_size (ctrl_cache s) ! unat i" by simp
        have u: "when_m (length bs < unat len) ub = (State_Monad.return () :: (('w, 'z) ring_st_scheme, unit) state)"
          using len by (simp add: when_m_def)
        show ?case
          unfolding wp_bind u wp_return
        proof (rule wp_lock [OF P s(1)], rule wp_cases, goal_cases)
          case (1 r w)
          then show ?case by (intro stay) auto
        next
          case (2 r w)
          show ?case
            by (rule wp_mono [OF wp_send_slot [OF P, of "s\<lparr>hw := w\<rparr>", OF _ _ _ pos _ len]])
              (use 2 s inv fits in \<open>simp_all add: send_post_hw\<close>)
        qed
      qed
    qed
  qed
qed

end
