(* ===== verification/Ring_Tx_Channel.thy ===== *)
theory Ring_Tx_Channel
  imports Ring_Tx_Proofs
begin

text \<open>
  The properties of sending: what one send does to the transmit ring, when it succeeds, and that host and
  slave together are a channel that delivers what was accepted, in order and once.
\<close>

section \<open>One send\<close>


text \<open>
  Against a slave that answers, with the lock free and a message of at most 1500 bytes that fits the
  buffers of a configured ring, a send succeeds exactly if the ring is not full; a full ring is reported as
  such at once.
\<close>

theorem ring_send_succeeds_iff_room:
  assumes "spi_slave P mem idle" and "spi_prompt P" and "locks_free P" and "idle (hw s)" and "transport_initialized s"
    and "tx_inv (mem (hw s)) (ctrl_block_addr s) (ctrl_cache s) i" and "unat len \<le> length bs" and "may_send s i len"
  shows "fst (run_state (ring_send P i (Some bs) len timeout) s) = (if tx_full mem s i then - QC_OSAL_EAGAIN else 0)"
proof -
  obtain r t where run: "run_state (ring_send P i (Some bs) len timeout) s = (r, t)" by (rule prod.exhaust)
  show ?thesis
    using wpD [OF wp_ring_send [OF assms(1,4-7)] run] assms(2,3,8) run by (simp add: send_post_def)
qed

section \<open>Host and slave\<close>

text \<open>
  The slave's part of the protocol: if the published write index differs from its read index, it takes the
  message at its read index, may change the descriptor and buffer of that slot, and advances the index.
\<close>

definition slave_takes ::
  "('w \<Rightarrow> u32 \<Rightarrow> u8) \<Rightarrow> ('w \<Rightarrow> bool) \<Rightarrow> u8 \<Rightarrow> ('w, 'z) ring_st_scheme \<Rightarrow> bytes \<Rightarrow> ('w, 'z) ring_st_scheme \<Rightarrow> bool" where
  "slave_takes mem idle i s msg t \<longleftrightarrow> (\<exists>w. let c = ctrl_cache s; cb = ctrl_block_addr s; m = mem (hw s);
       db = tx_desc_base c ! unat i; n = unat (tx_desc_count c ! unat i); rd = tx_head m cb i in
     t = s\<lparr>hw := w\<rparr> \<and> idle w \<and> rd \<noteq> unat (index_word m cb offsetof_tx_wr_idx i) \<and> msg = slot_data m db rd
     \<and> tx_head (mem w) cb i = (rd + 1) mod n
     \<and> index_word (mem w) cb offsetof_tx_wr_idx i = index_word m cb offsetof_tx_wr_idx i
     \<and> (\<forall>k < n. k \<noteq> rd \<longrightarrow> slot_kept m (mem w) db (tx_buf_base c ! unat i) (tx_buf_size c ! unat i) k))"

definition host_sends :: "'w host_port \<Rightarrow> u8 \<Rightarrow> ('w, 'z) ring_st_scheme \<Rightarrow> bytes \<Rightarrow> ('w, 'z) ring_st_scheme \<Rightarrow> bool" where
  "host_sends P i s msg t \<longleftrightarrow> (\<exists>bs len timeout. unat len \<le> length bs \<and> msg = take (unat len) bs
     \<and> run_state (ring_send P i (Some bs) len timeout) s = (0, t))"

text \<open>A send that failed before the host moved its write index.\<close>

definition host_refused :: "'w host_port \<Rightarrow> u8 \<Rightarrow> ('w, 'z) ring_st_scheme \<Rightarrow> ('w, 'z) ring_st_scheme \<Rightarrow> bool" where
  "host_refused P i s t \<longleftrightarrow> (\<exists>bs len timeout r. unat len \<le> length bs
     \<and> run_state (ring_send P i (Some bs) len timeout) s = (r, t)
     \<and> tx_wr_idx (ctrl_cache t) ! unat i = tx_wr_idx (ctrl_cache s) ! unat i)"

definition tx_ready :: "'w host_port \<Rightarrow> ('w \<Rightarrow> u32 \<Rightarrow> u8) \<Rightarrow> ('w \<Rightarrow> bool) \<Rightarrow> u8 \<Rightarrow> ('w, 'z) ring_st_scheme \<Rightarrow> bool" where
  "tx_ready P mem idle i s \<longleftrightarrow> spi_slave P mem idle \<and> idle (hw s) \<and> transport_initialized s
     \<and> tx_inv (mem (hw s)) (ctrl_block_addr s) (ctrl_cache s) i \<and> tx_published (mem (hw s)) (ctrl_block_addr s) (ctrl_cache s) i"

definition tx_pending :: "('w \<Rightarrow> u32 \<Rightarrow> u8) \<Rightarrow> u8 \<Rightarrow> ('w, 'z) ring_st_scheme \<Rightarrow> bytes list" where
  "tx_pending mem i s = tx_queue (mem (hw s)) (ctrl_block_addr s) (ctrl_cache s) i"

lemma slave_takes_front:
  assumes inv: "tx_inv m cb c i" and pub: "tx_published m cb c i" and ne: "tx_head m cb i \<noteq> unat (index_word m cb offsetof_tx_wr_idx i)"
    and h: "tx_head m' cb i = (tx_head m cb i + 1) mod unat (tx_desc_count c ! unat i)"
    and k: "\<forall>k < unat (tx_desc_count c ! unat i). k \<noteq> tx_head m cb i \<longrightarrow>
      slot_kept m m' (tx_desc_base c ! unat i) (tx_buf_base c ! unat i) (tx_buf_size c ! unat i) k"
  shows "tx_inv m' cb c i \<and> tx_queue m cb c i = slot_data m (tx_desc_base c ! unat i) (tx_head m cb i) # tx_queue m' cb c i"
proof -
  let ?n = "unat (tx_desc_count c ! unat i)" and ?wr = "unat (tx_wr_idx c ! unat i)"
  have i: "tx_head m cb i < ?n" "?wr < ?n"
      "in_use ?n (tx_head m cb i) ?wr \<le> in_use ?n (unat (tx_rd_idx c ! unat i)) ?wr"
    and ok: "slots_ok m (tx_desc_base c ! unat i) (tx_buf_base c ! unat i) (tx_buf_size c ! unat i) ?n (tx_head m cb i) ?wr"
    using inv by (simp_all add: tx_inv_def Let_def)
  have "tx_head m cb i \<noteq> ?wr" using ne pub by (simp add: tx_published_def)
  then have use: "0 < in_use ?n (tx_head m cb i) ?wr" using in_use_empty [OF i(1,2)] by simp
  note q = ring_queue_take [OF i(1,2) use slot_kept_same ok, OF k [rule_format]]
  have "(tx_head m cb i + 1) mod ?n < ?n" using i(1) by simp
  then show ?thesis
    using inv q h in_use_take [OF i(1,2) use] i(3) by (simp add: tx_inv_def Let_def tx_queue_def)
qed

interpretation tx_channel: fifo_channel "tx_ready P mem idle i" "tx_pending mem i" "host_sends P i" "slave_takes mem idle i"
  "host_refused P i" for P :: "'w host_port" and mem idle i
proof
  fix s t :: "('w, 'z) ring_st_scheme" and msg
  assume s: "tx_ready P mem idle i s"
  note post = wp_ring_send [of P mem idle s i, THEN wpD]
  show "tx_ready P mem idle i t \<and> tx_pending mem i t = tx_pending mem i s @ [msg]" if "host_sends P i s msg t"
    using that s post by (fastforce simp: host_sends_def tx_ready_def tx_pending_def send_post_def sent_def Let_def)
  show "tx_ready P mem idle i t \<and> tx_pending mem i t = tx_pending mem i s" if "host_refused P i s t"
    using that s post by (fastforce simp: host_refused_def tx_ready_def tx_pending_def send_post_def sent_def Let_def)
  show "tx_ready P mem idle i t \<and> tx_pending mem i s = msg # tx_pending mem i t" if step: "slave_takes mem idle i s msg t"
  proof -
    obtain w where w: "t = s\<lparr>hw := w\<rparr>" "idle w"
      and ne: "tx_head (mem (hw s)) (ctrl_block_addr s) i \<noteq> unat (index_word (mem (hw s)) (ctrl_block_addr s) offsetof_tx_wr_idx i)"
      and m: "msg = slot_data (mem (hw s)) (tx_desc_base (ctrl_cache s) ! unat i) (tx_head (mem (hw s)) (ctrl_block_addr s) i)"
      and h: "tx_head (mem w) (ctrl_block_addr s) i
        = (tx_head (mem (hw s)) (ctrl_block_addr s) i + 1) mod unat (tx_desc_count (ctrl_cache s) ! unat i)"
      and x: "index_word (mem w) (ctrl_block_addr s) offsetof_tx_wr_idx i
        = index_word (mem (hw s)) (ctrl_block_addr s) offsetof_tx_wr_idx i"
      and k: "\<forall>k < unat (tx_desc_count (ctrl_cache s) ! unat i). k \<noteq> tx_head (mem (hw s)) (ctrl_block_addr s) i \<longrightarrow>
        slot_kept (mem (hw s)) (mem w) (tx_desc_base (ctrl_cache s) ! unat i) (tx_buf_base (ctrl_cache s) ! unat i)
          (tx_buf_size (ctrl_cache s) ! unat i) k"
      using step unfolding slave_takes_def Let_def by blast
    show ?thesis
      using s w m x slave_takes_front [OF _ _ ne h k] by (simp add: tx_ready_def tx_pending_def tx_published_def)
  qed
qed

text \<open>
  C5: However sends of the host and steps of the slave alternate, with sends refused in between, the slave
  has received the accepted messages in the order they were sent, each once, and the rest are in the ring.
\<close>

theorem tx_delivers_in_order:
  assumes "tx_ready P mem idle i s0" and "tx_pending mem i s0 = []"
    and "channel_run (host_sends P i) (slave_takes mem idle i) (host_refused P i) s0 accepted received s"
  shows "accepted = received @ tx_pending mem i s \<and> tx_ready P mem idle i s"
  using tx_channel.delivered_in_order [OF assms(3,1)] assms(2) by simp

section \<open>A slave with rings\<close>

text \<open>
  A ring to run the host model on: one ring of four slots of 64 bytes in each direction, empty, in the
  memory of the slave of \<open>Host_Link\<close>. It is not part of the program; the witnesses use it.
\<close>

definition first_word :: "u32 \<Rightarrow> u32 list" where
  "first_word v = [v, 0, 0, 0, 0, 0, 0, 0]"

definition sim_cache :: ring_control_block where
  "sim_cache = \<lparr>magic = RING_MAGIC_NUMBER, cb_version = RING_VERSION, num_rings = 1,
     tx_desc_base = first_word 0x1000, tx_desc_count = first_word 4, tx_wr_idx = first_word 0, tx_rd_idx = first_word 0,
     tx_buf_size = first_word 64, tx_buf_base = first_word 0x2000,
     rx_desc_base = first_word 0x3000, rx_desc_count = first_word 4, rx_wr_idx = first_word 0, rx_rd_idx = first_word 0,
     rx_buf_size = first_word 64, rx_buf_base = first_word 0x4000,
     ring_status = [1, 0, 0, 0, 0, 0, 0, 0], cb_status = RING_STATUS_INITIALIZED, cb_reserved = first_word 0\<rparr>"

definition sim_ring :: "slave_world ring_st" where
  "sim_ring = \<lparr>hw = \<lparr>smem = \<lambda>_. 0, pending = None\<rparr>, transport_initialized = True, ring_initialized = True,
     g_num_rings = 1, ctrl_block_addr = CONFIG_RING_CTRL_BLOCK_ADDR, ctrl_cache = sim_cache,
     rings = replicate 8 zero_stats, callback = False, rx_works = replicate 8 (None, 0), ring_fault = False\<rparr>"

lemma sim_fields [simp]:
  "hw sim_ring = \<lparr>smem = \<lambda>_. 0, pending = None\<rparr>" "transport_initialized sim_ring" "ring_initialized sim_ring"
  "ctrl_block_addr sim_ring = CONFIG_RING_CTRL_BLOCK_ADDR" "ctrl_cache sim_ring = sim_cache"
  by (simp_all add: sim_ring_def)

lemma sim_cache_fields [simp]:
  "tx_desc_base sim_cache = first_word 0x1000" "tx_desc_count sim_cache = first_word 4"
  "tx_wr_idx sim_cache = first_word 0" "tx_rd_idx sim_cache = first_word 0"
  "tx_buf_size sim_cache = first_word 64" "tx_buf_base sim_cache = first_word 0x2000"
  "rx_desc_base sim_cache = first_word 0x3000" "rx_desc_count sim_cache = first_word 4"
  "rx_rd_idx sim_cache = first_word 0" "rx_buf_size sim_cache = first_word 64" "rx_buf_base sim_cache = first_word 0x4000"
  "ring_status sim_cache = [1, 0, 0, 0, 0, 0, 0, 0]"
  by (simp_all add: sim_cache_def)

lemma first_word_0 [simp]: "first_word v ! 0 = v" "length (first_word v) = 8"
  by (simp_all add: first_word_def)

lemma zero_index: "index_word (\<lambda>_. 0) cb off i = 0"
  by (simp add: index_word_def mem_read_def le32_def upt_rec)

lemma sim_layout:
  "ring_layout CONFIG_RING_CTRL_BLOCK_ADDR 0x1000 4 0x2000 64" "ring_layout CONFIG_RING_CTRL_BLOCK_ADDR 0x3000 4 0x4000 64"
  by (simp_all add: ring_layout_def disjoint_ranges_def CONFIG_RING_CTRL_BLOCK_ADDR_def)

lemma sim_tx_inv: "tx_inv (\<lambda>_. 0) CONFIG_RING_CTRL_BLOCK_ADDR sim_cache 0"
  by (simp add: tx_inv_def tx_layout_def Let_def sim_layout tx_head_def zero_index slots_ok_def in_use_def)

lemma sim_tx_empty: "tx_queue (\<lambda>_. 0) CONFIG_RING_CTRL_BLOCK_ADDR sim_cache 0 = []"
  by (simp add: tx_queue_def tx_head_def zero_index ring_queue_def in_use_def)

lemma sim_may_send: "may_send sim_ring 0 3"
  by (simp add: may_send_def RING_STATUS_VALID_def)

lemma sim_not_full: "\<not> tx_full smem sim_ring 0"
  by (simp add: tx_full_def sim_tx_empty)

lemma slave_locks_free: "locks_free slave_port"
  by (simp add: locks_free_def slave_port_def)

section \<open>Witnesses for sending\<close>

lemma ring_send_succeeds_iff_room_witness:
  "fst (run_state (ring_send slave_port 0 (Some [1, 2, 3]) 3 0) sim_ring) = 0"
  using ring_send_succeeds_iff_room [OF slave_port_contract slave_port_prompt slave_locks_free, of sim_ring 0 3 "[1, 2, 3]"]
  by (simp add: sim_tx_inv sim_may_send sim_not_full)

lemma sim_send: "fst (run_state (ring_send slave_port 0 (Some [1, 2, 3]) 3 0) sim_ring) = 0"
proof -
  obtain r t where run: "run_state (ring_send slave_port 0 (Some [1, 2, 3]) 3 0) sim_ring = (r, t)" by (rule prod.exhaust)
  have "send_post slave_port smem slave_idle sim_ring 0 [1, 2, 3] 3 r t"
    by (rule wpD [OF wp_ring_send [OF slave_port_contract] run]) (simp_all add: sim_tx_inv)
  with run show ?thesis
    by (simp add: send_post_def slave_port_prompt slave_locks_free sim_may_send sim_not_full)
qed


lemma tx_delivers_in_order_witness:
  "\<exists>t. channel_run (host_sends slave_port 0) (slave_takes smem slave_idle 0) (host_refused slave_port 0) sim_ring [[1, 2, 3]] [] t
    \<and> tx_pending smem 0 t = [[1, 2, 3]]"
proof -
  obtain t where run: "run_state (ring_send slave_port 0 (Some [1, 2, 3]) 3 0) sim_ring = (0, t)"
    using sim_send by (metis prod.collapse)
  have "host_sends slave_port 0 sim_ring [1, 2, 3] t"
    unfolding host_sends_def by (rule exI [of _ "[1, 2, 3]"], rule exI [of _ 3]) (use run in auto)
  then have c: "channel_run (host_sends slave_port 0) (slave_takes smem slave_idle 0) (host_refused slave_port 0) sim_ring
      ([] @ [[1, 2, 3]]) [] t"
    by (intro channel_run.put [OF channel_run.start])
  show ?thesis
    using tx_delivers_in_order [OF _ _ c] c
    by (auto simp: tx_ready_def tx_pending_def slave_port_contract sim_tx_inv sim_tx_empty tx_published_def zero_index)
qed

end
