(* ===== verification/Ring_Rx_Channel.thy ===== *)
theory Ring_Rx_Channel
  imports Ring_Rx_Proofs Ring_Tx_Channel
begin

text \<open>
  The properties of receiving: what one receive returns, which messages it leaves in the ring, and that
  slave and host together are a channel that delivers in order and once.
\<close>

section \<open>One receive\<close>

text \<open>
  A receive from a ring that holds a message and that does not report an error returns exactly the
  message in front and removes exactly it; one that reports an error has left the host's read index alone,
  or, if only its last write failed, has removed the message in front.
\<close>

theorem ring_recv_takes_front:
  assumes "spi_slave P mem idle" and "idle (hw s)" and "transport_initialized s"
    and "rx_inv (mem (hw s)) (ctrl_block_addr s) (ctrl_cache s) i"
    and "rx_queue (mem (hw s)) (ctrl_block_addr s) (ctrl_cache s) i = msg # msgs"
    and "run_state (ring_recv P i True max_len timeout) s = ((r, d), t)"
  shows "(0 \<le> r \<longrightarrow> d = msg \<and> r = int (length msg) \<and> rx_inv (mem (hw t)) (ctrl_block_addr s) (ctrl_cache t) i
        \<and> rx_queue (mem (hw t)) (ctrl_block_addr s) (ctrl_cache t) i = msgs \<and> rx_published (mem (hw t)) (ctrl_block_addr s) (ctrl_cache t) i)
    \<and> (r < 0 \<longrightarrow> ctrl_cache t = ctrl_cache s \<or> rx_queue (mem (hw t)) (ctrl_block_addr s) (ctrl_cache t) i = msgs)"
  using wpD [OF wp_ring_recv [OF assms(1-4), of timeout max_len] assms(6)] assms(5)
  by (auto simp: recv_post_def Let_def)

text \<open>
  Against a slave that answers, the outcome depends on the message in front alone: a message longer than
  the caller's buffer and an empty one are errors that leave the ring untouched, so that every later receive
  ends in the same way; any other message of up to 1500 bytes is received.
\<close>

theorem ring_recv_outcome:
  assumes "spi_slave P mem idle" and "spi_prompt P" and "locks_free P" and "idle (hw s)" and "transport_initialized s"
    and "rx_inv (mem (hw s)) (ctrl_block_addr s) (ctrl_cache s) i" and "may_recv s i max_len"
    and "rx_queue (mem (hw s)) (ctrl_block_addr s) (ctrl_cache s) i = msg # msgs" and "length msg \<le> 1500"
    and "run_state (ring_recv P i True max_len timeout) s = ((r, d), t)"
  shows "r = (if unat max_len < length msg then - QC_OSAL_EMSGSIZE else if msg = [] then - EINVAL else int (length msg))
    \<and> (r < 0 \<longrightarrow> ring_untouched mem s t)"
proof -
  have "rx_first (mem (hw s)) (ctrl_cache s) i = msg"
    using assms(8) wpD [OF wp_ring_recv [OF assms(1,4,5,6), of timeout max_len] assms(10)]
      in_use_take [OF rx_inv_facts(4,5) [OF assms(6)]] rx_inv_facts(4) [OF assms(6)]
    by (auto simp: rx_first_def rx_queue_def ring_queue_def Cons_eq_map_conv upt_eq_Cons_conv)
  then show ?thesis
    using wpD [OF wp_ring_recv [OF assms(1,4,5,6), of timeout max_len] assms(10)] assms(2,3,7-9)
    by (simp add: recv_post_def Let_def)
qed

section \<open>Slave and host\<close>

text \<open>
  The slave's part: while the published read index leaves room, it fills the slot at its write index with a
  message that fits the buffers and advances the index.
\<close>

definition slave_puts ::
  "('w \<Rightarrow> u32 \<Rightarrow> u8) \<Rightarrow> ('w \<Rightarrow> bool) \<Rightarrow> u8 \<Rightarrow> ('w, 'z) ring_st_scheme \<Rightarrow> bytes \<Rightarrow> ('w, 'z) ring_st_scheme \<Rightarrow> bool" where
  "slave_puts mem idle i s msg t \<longleftrightarrow> (\<exists>w. let c = ctrl_cache s; cb = ctrl_block_addr s; m = mem (hw s);
       db = rx_desc_base c ! unat i; bb = rx_buf_base c ! unat i; sz = rx_buf_size c ! unat i;
       n = unat (rx_desc_count c ! unat i); wr = rx_tail m cb i in
     t = s\<lparr>hw := w\<rparr> \<and> idle w \<and> in_use n (unat (index_word m cb offsetof_rx_rd_idx i)) wr < n - 1
     \<and> slot_ok (mem w) db bb sz wr \<and> slot_data (mem w) db wr = msg
     \<and> rx_tail (mem w) cb i = (wr + 1) mod n
     \<and> index_word (mem w) cb offsetof_rx_rd_idx i = index_word m cb offsetof_rx_rd_idx i
     \<and> (\<forall>k < n. k \<noteq> wr \<longrightarrow> slot_kept m (mem w) db bb sz k))"

definition rx_pending_of :: "('w \<Rightarrow> u32 \<Rightarrow> u8) \<Rightarrow> u8 \<Rightarrow> ('w, 'z) ring_st_scheme \<Rightarrow> bytes list" where
  "rx_pending_of mem i s = rx_queue (mem (hw s)) (ctrl_block_addr s) (ctrl_cache s) i"

text \<open>A receive that polls, or that need not wait; it got a message if its result is positive.\<close>

definition host_receives ::
  "'w host_port \<Rightarrow> ('w \<Rightarrow> u32 \<Rightarrow> u8) \<Rightarrow> u8 \<Rightarrow> ('w, 'z) ring_st_scheme \<Rightarrow> bytes \<Rightarrow> ('w, 'z) ring_st_scheme \<Rightarrow> bool" where
  "host_receives P mem i s msg t \<longleftrightarrow> (\<exists>max_len timeout r. (timeout = QC_OSAL_TIMEOUT_NO_WAIT \<or> rx_pending_of mem i s \<noteq> [])
     \<and> run_state (ring_recv P i True max_len timeout) s = ((r, msg), t) \<and> 0 < r)"

definition host_idles ::
  "'w host_port \<Rightarrow> ('w \<Rightarrow> u32 \<Rightarrow> u8) \<Rightarrow> u8 \<Rightarrow> ('w, 'z) ring_st_scheme \<Rightarrow> ('w, 'z) ring_st_scheme \<Rightarrow> bool" where
  "host_idles P mem i s t \<longleftrightarrow> (\<exists>max_len timeout x. (timeout = QC_OSAL_TIMEOUT_NO_WAIT \<or> rx_pending_of mem i s \<noteq> [])
     \<and> run_state (ring_recv P i True max_len timeout) s = (x, t) \<and> ring_untouched mem s t)"

definition rx_ready :: "'w host_port \<Rightarrow> ('w \<Rightarrow> u32 \<Rightarrow> u8) \<Rightarrow> ('w \<Rightarrow> bool) \<Rightarrow> u8 \<Rightarrow> ('w, 'z) ring_st_scheme \<Rightarrow> bool" where
  "rx_ready P mem idle i s \<longleftrightarrow> spi_slave P mem idle \<and> idle (hw s) \<and> transport_initialized s
     \<and> rx_inv (mem (hw s)) (ctrl_block_addr s) (ctrl_cache s) i \<and> rx_published (mem (hw s)) (ctrl_block_addr s) (ctrl_cache s) i"

lemma slave_puts_back:
  assumes inv: "rx_inv m cb c i" and pub: "rx_published m cb c i"
    and room: "in_use (unat (rx_desc_count c ! unat i)) (unat (index_word m cb offsetof_rx_rd_idx i)) (rx_tail m cb i)
      < unat (rx_desc_count c ! unat i) - 1"
    and ok: "slot_ok m' (rx_desc_base c ! unat i) (rx_buf_base c ! unat i) (rx_buf_size c ! unat i) (rx_tail m cb i)"
    and t: "rx_tail m' cb i = (rx_tail m cb i + 1) mod unat (rx_desc_count c ! unat i)"
    and k: "\<forall>k < unat (rx_desc_count c ! unat i). k \<noteq> rx_tail m cb i \<longrightarrow>
      slot_kept m m' (rx_desc_base c ! unat i) (rx_buf_base c ! unat i) (rx_buf_size c ! unat i) k"
  shows "rx_inv m' cb c i \<and> rx_queue m' cb c i = rx_queue m cb c i @ [slot_data m' (rx_desc_base c ! unat i) (rx_tail m cb i)]"
proof -
  note f = rx_inv_facts [OF inv]
  have r: "in_use (unat (rx_desc_count c ! unat i)) (unat (rx_rd_idx c ! unat i)) (rx_tail m cb i) < unat (rx_desc_count c ! unat i) - 1"
    using room pub by (simp add: rx_published_def)
  note q = ring_queue_put [OF f(4,5) r slot_kept_same ok f(6), OF k [rule_format]]
  have "(rx_tail m cb i + 1) mod unat (rx_desc_count c ! unat i) < unat (rx_desc_count c ! unat i)" using f(4) by simp
  then show ?thesis using inv q t by (simp add: rx_inv_def Let_def rx_queue_def)
qed

lemma host_receives_front:
  assumes "rx_ready P mem idle i s" and "host_receives P mem i s msg t"
  shows "rx_ready P mem idle i t \<and> rx_pending_of mem i s = msg # rx_pending_of mem i t"
proof -
  note s = assms(1) [unfolded rx_ready_def]
  obtain max_len timeout r where now: "rx_pending_of mem i s \<noteq> [] \<or> timeout = QC_OSAL_TIMEOUT_NO_WAIT" and r: "0 < r"
    and run: "run_state (ring_recv P i True max_len timeout) s = ((r, msg), t)"
    using assms(2) unfolding host_receives_def by blast
  note q = wpD [OF wp_ring_recv [of P mem idle s i timeout max_len] run]
  have ne: "rx_pending_of mem i s \<noteq> []" using q now s r by (auto simp: rx_pending_of_def)
  then have "recv_post P mem idle s i max_len (r, msg) t" using q s now by (simp add: rx_pending_of_def)
  then show ?thesis using s r unfolding recv_post_def Let_def rx_ready_def rx_pending_of_def by auto
qed

lemma host_idles_keeps:
  assumes "rx_ready P mem idle i s" and "host_idles P mem i s t"
  shows "rx_ready P mem idle i t \<and> rx_pending_of mem i t = rx_pending_of mem i s"
proof -
  note s = assms(1) [unfolded rx_ready_def]
  obtain max_len timeout x where now: "rx_pending_of mem i s \<noteq> [] \<or> timeout = QC_OSAL_TIMEOUT_NO_WAIT"
    and run: "run_state (ring_recv P i True max_len timeout) s = (x, t)" and u: "ring_untouched mem s t"
    using assms(2) unfolding host_idles_def by blast
  note q = wpD [OF wp_ring_recv [of P mem idle s i timeout max_len] run]
  have "idle (hw t) \<and> transport_initialized t \<and> ctrl_block_addr t = ctrl_block_addr s"
    using q s now unfolding rx_pending_of_def recv_post_def Let_def by (auto split: if_splits)
  then show ?thesis using s u by (simp add: rx_ready_def rx_pending_of_def ring_untouched_def)
qed

interpretation rx_channel: fifo_channel "rx_ready P mem idle i" "rx_pending_of mem i" "slave_puts mem idle i" "host_receives P mem i"
  "host_idles P mem i" for P :: "'w host_port" and mem idle i
proof
  fix s t :: "('w, 'z) ring_st_scheme" and msg
  assume s: "rx_ready P mem idle i s"
  show "rx_ready P mem idle i t \<and> rx_pending_of mem i s = msg # rx_pending_of mem i t" if "host_receives P mem i s msg t"
    by (rule host_receives_front [OF s that])
  show "rx_ready P mem idle i t \<and> rx_pending_of mem i t = rx_pending_of mem i s" if "host_idles P mem i s t"
    by (rule host_idles_keeps [OF s that])
  show "rx_ready P mem idle i t \<and> rx_pending_of mem i t = rx_pending_of mem i s @ [msg]" if step: "slave_puts mem idle i s msg t"
  proof -
    obtain w where w: "t = s\<lparr>hw := w\<rparr>" "idle w"
      and room: "in_use (unat (rx_desc_count (ctrl_cache s) ! unat i)) (unat (index_word (mem (hw s)) (ctrl_block_addr s) offsetof_rx_rd_idx i))
        (rx_tail (mem (hw s)) (ctrl_block_addr s) i) < unat (rx_desc_count (ctrl_cache s) ! unat i) - 1"
      and ok: "slot_ok (mem w) (rx_desc_base (ctrl_cache s) ! unat i) (rx_buf_base (ctrl_cache s) ! unat i)
        (rx_buf_size (ctrl_cache s) ! unat i) (rx_tail (mem (hw s)) (ctrl_block_addr s) i)"
      and m: "slot_data (mem w) (rx_desc_base (ctrl_cache s) ! unat i) (rx_tail (mem (hw s)) (ctrl_block_addr s) i) = msg"
      and h: "rx_tail (mem w) (ctrl_block_addr s) i
        = (rx_tail (mem (hw s)) (ctrl_block_addr s) i + 1) mod unat (rx_desc_count (ctrl_cache s) ! unat i)"
      and x: "index_word (mem w) (ctrl_block_addr s) offsetof_rx_rd_idx i
        = index_word (mem (hw s)) (ctrl_block_addr s) offsetof_rx_rd_idx i"
      and k: "\<forall>k < unat (rx_desc_count (ctrl_cache s) ! unat i). k \<noteq> rx_tail (mem (hw s)) (ctrl_block_addr s) i \<longrightarrow>
        slot_kept (mem (hw s)) (mem w) (rx_desc_base (ctrl_cache s) ! unat i) (rx_buf_base (ctrl_cache s) ! unat i)
          (rx_buf_size (ctrl_cache s) ! unat i) k"
      using step unfolding slave_puts_def Let_def by blast
    show ?thesis
      using s w m x slave_puts_back [OF _ _ room ok h k] by (simp add: rx_ready_def rx_pending_of_def rx_published_def)
  qed
qed

text \<open>
  C7: However the slave's puts and the host's receives alternate, with receives that find nothing or fail
  early in between, the host has received the slave's messages in order, each once, and the rest are in the
  ring.
\<close>

theorem rx_delivers_in_order:
  assumes "rx_ready P mem idle i s0" and "rx_pending_of mem i s0 = []"
    and "channel_run (slave_puts mem idle i) (host_receives P mem i) (host_idles P mem i) s0 put received s"
  shows "put = received @ rx_pending_of mem i s \<and> rx_ready P mem idle i s"
  using rx_channel.delivered_in_order [OF assms(3,1)] assms(2) by simp

section \<open>Waiting on an empty ring\<close>

text \<open>The semaphore can be taken, and taking it changes nothing on the slave.\<close>

definition sem_available :: "'w host_port \<Rightarrow> ('w \<Rightarrow> u32 \<Rightarrow> u8) \<Rightarrow> ('w \<Rightarrow> bool) \<Rightarrow> bool" where
  "sem_available P mem idle \<longleftrightarrow> (\<forall>w l timeout. 0 \<le> fst (qc_osal_sem_take P w l timeout)
     \<and> keeps_memory mem idle w (snd (qc_osal_sem_take P w l timeout)))"

definition woken_empty ::
  "('w \<Rightarrow> u32 \<Rightarrow> u8) \<Rightarrow> ('w \<Rightarrow> bool) \<Rightarrow> ('w, 'z) ring_st_scheme \<Rightarrow> ('w, 'z) ring_st_scheme \<Rightarrow> bool" where
  "woken_empty mem idle s t \<longleftrightarrow> idle (hw t) \<and> transport_initialized t \<and> ctrl_block_addr t = ctrl_block_addr s
     \<and> ring_untouched mem s t \<and> rings t = rings s"

lemma woken_hw: "transport_initialized s \<Longrightarrow> idle w \<Longrightarrow> mem w = mem (hw s) \<Longrightarrow> woken_empty mem idle s (s\<lparr>hw := w\<rparr>)"
  by (simp add: woken_empty_def ring_untouched_def)

lemma woken_step:
  "woken_empty mem idle s t \<Longrightarrow> idle w \<Longrightarrow> mem w = mem (hw t) \<Longrightarrow> woken_empty mem idle s (t\<lparr>hw := w\<rparr>)"
  by (simp add: woken_empty_def ring_untouched_def)

lemma wp_await_woken:
  fixes s t :: "('w, 'z) ring_st_scheme"
  assumes P: "spi_slave P mem idle" "spi_prompt P" "locks_free P" "sem_available P mem idle"
    and inv: "rx_inv (mem (hw s)) (ctrl_block_addr s) (ctrl_cache s) i"
    and empty: "rx_queue (mem (hw s)) (ctrl_block_addr s) (ctrl_cache s) i = []" and wait: "timeout \<noteq> QC_OSAL_TIMEOUT_NO_WAIT"
    and t: "woken_empty mem idle s t"
  shows "wp (rx_await P i timeout) (\<lambda>x u. x = Inr (rx_rd_idx (ctrl_cache s) ! unat i) \<and> woken_empty mem idle s u) t"
proof -
  note f = rx_inv_facts [OF inv]
  have W: "idle (hw u)" "transport_initialized u" "mem (hw u) = mem (hw s)" "ctrl_block_addr u = ctrl_block_addr s"
    "ctrl_cache u = ctrl_cache s" if "woken_empty mem idle s u" for u
    using that by (simp_all add: woken_empty_def ring_untouched_def)
  have p: "rx_pending (index_word (mem (hw s)) (ctrl_block_addr s) offsetof_rx_wr_idx i) (rx_rd_idx (ctrl_cache s) ! unat i)
      (rx_desc_count (ctrl_cache s) ! unat i) = 0"
    using unat_rx_pending [OF f(4), of "index_word (mem (hw s)) (ctrl_block_addr s) offsetof_rx_wr_idx i"] f(5) empty
    by (simp add: rx_queue_def rx_tail_def unat_eq_0 [symmetric] flip: length_0_conv)
  show ?thesis
    unfolding rx_await_def wp_bind
  proof (rule wp_read_index [OF P(1) W(1,2) [OF t]], goal_cases)
    case (1 r w v)
    then have v: "r = 0" "v = index_word (mem (hw s)) (ctrl_block_addr s) offsetof_rx_wr_idx i" "woken_empty mem idle s (t\<lparr>hw := w\<rparr>)"
      using P(2) W [OF t] woken_step [OF t] by simp_all
    then have z: "rx_pending v (rx_rd_idx (ctrl_cache (t\<lparr>hw := w\<rparr>)) ! unat i) (rx_desc_count (ctrl_cache (t\<lparr>hw := w\<rparr>)) ! unat i) = 0"
      using p W [OF t] by simp
    show ?case
      unfolding prod.case v(1) if_not_P [OF less_irrefl] wp_gets Let_def if_P [OF z] if_not_P [OF wait] wp_bind
    proof (rule wp_unlock [OF P(1) W(1) [OF v(3)]])
      fix w2
      assume w2: "idle w2" "mem w2 = mem (hw (t\<lparr>hw := w\<rparr>))"
      let ?x = "qc_osal_sem_take P w2 (Rx_Sem (unat i)) timeout"
      have x: "\<not> fst ?x < 0" "woken_empty mem idle s (t\<lparr>hw := snd ?x\<rparr>)"
        using P(4) w2 woken_step [OF t, of "snd ?x"] 1(1,2) by (auto simp: sem_available_def keeps_memory_def not_less)
      show "wp (below (\<lambda>w. qc_osal_sem_take P w (Rx_Sem (unat i)) timeout))
        (\<lambda>r. wp (if r < 0 then State_Monad.return (Inl 0)
          else do {
            r \<leftarrow> mutex_lock P (Rx_Lock (unat i)) QC_OSAL_TIMEOUT_FOREVER;
            if r < 0 then State_Monad.return (Inl r)
            else do {
              (r, _) \<leftarrow> read_index P offsetof_rx_wr_idx i;
              if r < 0 then do { mutex_unlock P (Rx_Lock (unat i)); State_Monad.return (Inl r) }
              else do { c \<leftarrow> gets ctrl_cache; State_Monad.return (Inr (rx_rd_idx c ! unat i)) }
            }
          }) (\<lambda>x u. x = Inr (rx_rd_idx (ctrl_cache s) ! unat i) \<and> woken_empty mem idle s u)) (t\<lparr>hw := w, hw := w2\<rparr>)"
        unfolding wp_below
      proof (simp add: split_beta x(1) wp_bind, rule wp_lock [OF P(1)], goal_cases)
        case (2 r w3)
        have v3: "r = 0" "woken_empty mem idle s (t\<lparr>hw := w3\<rparr>)"
          using 2 P(3) woken_step [OF x(2), of w3] by simp_all
        show ?case
          unfolding v3(1) if_not_P [OF less_irrefl] wp_bind
        proof (rule wp_read_index [OF P(1)], goal_cases)
          case (3 r w4 v4)
          then show ?case
            using P(2) woken_step [OF v3(2), of w4] W(5) [OF t] by (simp add: wp_bind wp_gets wp_return)
        qed (use 2 W(2) [OF t] in simp_all)
      qed (use W(1) [OF x(2)] in simp)
    qed
  qed
qed

lemma wp_take_cleared:
  fixes s t :: "('w, 'z) ring_st_scheme"
  assumes P: "spi_slave P mem idle" "spi_prompt P"
    and clear: "desc_flags (slot_desc (mem (hw s)) (rx_desc_base (ctrl_cache s) ! unat i) (unat (rx_rd_idx (ctrl_cache s) ! unat i)))
      AND RING_DESC_FLAG_VALID = 0"
    and t: "woken_empty mem idle s t"
  shows "wp (rx_take P i max_len (rx_rd_idx (ctrl_cache s) ! unat i)) (\<lambda>x u. fst x = - QC_OSAL_EINVAL \<and> ring_untouched mem s u
    \<and> rings u = (rings s)[unat i := (rings s ! unat i)\<lparr>rx_errors := rx_errors (rings s ! unat i) + 1\<rparr>]) t"
proof -
  have T: "idle (hw t)" "transport_initialized t" "mem (hw t) = mem (hw s)" "ctrl_cache t = ctrl_cache s" "rings t = rings s"
    using t by (simp_all add: woken_empty_def ring_untouched_def)
  have at: "rx_desc_base (ctrl_cache s) ! unat i + rx_rd_idx (ctrl_cache s) ! unat i * sizeof_ring_descriptor
      = slot_addr (rx_desc_base (ctrl_cache s) ! unat i) (unat (rx_rd_idx (ctrl_cache s) ! unat i))"
    by (simp add: slot_addr_def)
  show ?thesis
    unfolding rx_take_def wp_bind wp_gets T(4) at
  proof (rule wp_link_read [OF P(1) T(1,2)], goal_cases)
    case (3 r d w)
    then have "r = 0" "desc_flags (dec_desc d) AND RING_DESC_FLAG_VALID = 0"
      using P(2) clear T(3) by (simp_all add: sizeof_ring_descriptor_def slot_desc_def)
    then show ?case
      using 3(1,2) T by (auto simp: Let_def rx_error_def rx_done_def wp_bind wp_return upd_stats_def wp_modify ring_untouched_def
        intro!: wp_unlock [OF P(1)])
  qed (simp_all add: sizeof_ring_descriptor_def)
qed

text \<open>
  A receive that waits on an empty ring and finds the semaphore given, as every interrupt of the slave
  leaves it for every ring, does not go back to waiting: it reports an invalid argument and counts a receive
  error, though nothing is wrong with the ring.
\<close>

theorem ring_recv_spurious_wakeup:
  fixes s :: "('w, 'z) ring_st_scheme"
  assumes "spi_slave P mem idle" and "spi_prompt P" and "locks_free P" and "sem_available P mem idle"
    and "idle (hw s)" and "transport_initialized s" and "rx_inv (mem (hw s)) (ctrl_block_addr s) (ctrl_cache s) i"
    and "may_recv s i max_len" and "rx_queue (mem (hw s)) (ctrl_block_addr s) (ctrl_cache s) i = []"
    and "timeout \<noteq> QC_OSAL_TIMEOUT_NO_WAIT"
    and "desc_flags (slot_desc (mem (hw s)) (rx_desc_base (ctrl_cache s) ! unat i) (unat (rx_rd_idx (ctrl_cache s) ! unat i)))
      AND RING_DESC_FLAG_VALID = 0"
    and "run_state (ring_recv P i True max_len timeout) s = ((r, d), t)"
  shows "r = - QC_OSAL_EINVAL \<and> ring_untouched mem s t
    \<and> rings t = (rings s)[unat i := (rings s ! unat i)\<lparr>rx_errors := rx_errors (rings s ! unat i) + 1\<rparr>]"
proof -
  have i: "\<not> unat i \<ge> MAX_RINGS" using rx_inv_facts(1) [OF assms(7)] by (simp add: MAX_RINGS_def)
  have "wp (ring_recv P i True max_len timeout) (\<lambda>x u. fst x = - QC_OSAL_EINVAL \<and> ring_untouched mem s u
    \<and> rings u = (rings s)[unat i := (rings s ! unat i)\<lparr>rx_errors := rx_errors (rings s ! unat i) + 1\<rparr>]) s"
    unfolding ring_recv_def wp_bind wp_ring_check
  proof (rule wp_cases, use assms(8) i in \<open>simp add: may_recv_def\<close>, rule wp_cases, use assms(8) in \<open>simp add: may_recv_def\<close>,
      unfold wp_bind, rule wp_lock [OF assms(1,5)], goal_cases)
    case (1 r w)
    then have v: "r = 0" "woken_empty mem idle s (s\<lparr>hw := w\<rparr>)" using assms(3,6) by (simp_all add: woken_hw)
    show ?case
      unfolding v(1) if_not_P [OF less_irrefl] wp_bind
    proof (rule wp_mono [OF wp_await_woken [OF assms(1-4,7,9,10) v(2)]])
      fix x :: "int + u32" and u :: "('w, 'z) ring_st_scheme"
      assume "x = Inr (rx_rd_idx (ctrl_cache s) ! unat i) \<and> woken_empty mem idle s u"
      then show "wp (case x of Inl r \<Rightarrow> State_Monad.return (r, []) | Inr rd \<Rightarrow> rx_take P i max_len rd)
        (\<lambda>x u. fst x = - QC_OSAL_EINVAL \<and> ring_untouched mem s u
          \<and> rings u = (rings s)[unat i := (rings s ! unat i)\<lparr>rx_errors := rx_errors (rings s ! unat i) + 1\<rparr>]) u"
        using wp_take_cleared [OF assms(1,2,11)] by simp
    qed
  qed
  from wpD [OF this assms(12)] show ?thesis by simp
qed

section \<open>Witnesses\<close>

text \<open>The memory of the slave after it has put one message into the receive ring of \<open>sim_ring\<close>.\<close>

definition sim_rx_mem :: "u32 \<Rightarrow> u8" where
  "sim_rx_mem = mem_write (mem_write (mem_write (\<lambda>_. 0) 0x4000 [7, 8, 9]) 0x3000
     (enc_desc \<lparr>buffer_addr = 0x4000, desc_length = 3, desc_flags = RING_DESC_FLAG_VALID\<rparr>))
     (index_addr CONFIG_RING_CTRL_BLOCK_ADDR offsetof_rx_wr_idx 0) (bytes_le32 1)"

lemma sim_index_addrs:
  "index_addr CONFIG_RING_CTRL_BLOCK_ADDR offsetof_rx_wr_idx 0 = 0x9fd0c"
  "index_addr CONFIG_RING_CTRL_BLOCK_ADDR offsetof_rx_rd_idx 0 = 0x9fd2c"
  by (simp_all add: index_addr_def CONFIG_RING_CTRL_BLOCK_ADDR_def offsetof_rx_wr_idx_def offsetof_rx_rd_idx_def)

lemma sim_rx_reads:
  "mem_read sim_rx_mem 0x9fd0c 4 = bytes_le32 1"
  "mem_read sim_rx_mem 0x9fd2c 4 = [0, 0, 0, 0]"
  "mem_read sim_rx_mem 0x3000 8 = enc_desc \<lparr>buffer_addr = 0x4000, desc_length = 3, desc_flags = RING_DESC_FLAG_VALID\<rparr>"
  "mem_read sim_rx_mem 0x4000 3 = [7, 8, 9]"
proof -
  show "mem_read sim_rx_mem 0x9fd0c 4 = bytes_le32 1"
    unfolding sim_rx_mem_def sim_index_addrs using mem_read_write_same [of "bytes_le32 1"] by simp
  have "mem_read (\<lambda>_. 0) 0x9fd2c 4 = [0, 0, 0, 0 :: u8]" by (simp add: mem_read_def upt_rec)
  then show "mem_read sim_rx_mem 0x9fd2c 4 = [0, 0, 0, 0]"
    unfolding sim_rx_mem_def sim_index_addrs by (simp add: mem_read_write_other apart_intervals)
  show "mem_read sim_rx_mem 0x3000 8 = enc_desc \<lparr>buffer_addr = 0x4000, desc_length = 3, desc_flags = RING_DESC_FLAG_VALID\<rparr>"
    unfolding sim_rx_mem_def sim_index_addrs
    using mem_read_write_same [of "enc_desc \<lparr>buffer_addr = 0x4000, desc_length = 3, desc_flags = RING_DESC_FLAG_VALID\<rparr>"]
    by (simp add: mem_read_write_other apart_intervals)
  show "mem_read sim_rx_mem 0x4000 3 = [7, 8, 9]"
    unfolding sim_rx_mem_def sim_index_addrs
    using mem_read_write_same [of "[7, 8, 9]"] by (simp add: mem_read_write_other apart_intervals numeral_3_eq_3)
qed

lemma sim_rx_slot: "slot_ok sim_rx_mem 0x3000 0x4000 64 0" "slot_data sim_rx_mem 0x3000 0 = [7, 8, 9]"
  by (simp_all add: slot_ok_def slot_data_def slot_desc_def slot_addr_def slot_buf_def sim_rx_reads RING_DESC_FLAG_VALID_def)

lemma sim_rx_tail: "rx_tail sim_rx_mem CONFIG_RING_CTRL_BLOCK_ADDR 0 = 1"
  by (simp add: rx_tail_def index_word_def sim_index_addrs sim_rx_reads)

definition sim_rx :: "slave_world ring_st" where
  "sim_rx = sim_ring\<lparr>hw := \<lparr>smem = sim_rx_mem, pending = None\<rparr>\<rparr>"

lemma sim_rx_inv: "rx_inv sim_rx_mem CONFIG_RING_CTRL_BLOCK_ADDR sim_cache 0"
  by (simp add: rx_inv_def rx_layout_def Let_def sim_layout sim_rx_tail slots_ok_def in_use_def sim_rx_slot)

lemma sim_rx_queue: "rx_queue sim_rx_mem CONFIG_RING_CTRL_BLOCK_ADDR sim_cache 0 = [[7, 8, 9]]"
  by (simp add: rx_queue_def ring_queue_def in_use_def sim_rx_tail sim_rx_slot)

lemma sim_may_recv: "may_recv sim_rx 0 16" "may_recv sim_ring 0 16"
  by (simp_all add: may_recv_def sim_rx_def RING_STATUS_VALID_def)

lemma ring_recv_takes_front_witness:
  "\<exists>x t. run_state (ring_recv slave_port 0 True 16 0) sim_rx = (x, t)
    \<and> x = (3, [7, 8, 9]) \<and> rx_queue (smem (hw t)) CONFIG_RING_CTRL_BLOCK_ADDR (ctrl_cache t) 0 = []"
proof -
  obtain r d t where run: "run_state (ring_recv slave_port 0 True 16 0) sim_rx = ((r, d), t)" by (metis prod.exhaust)
  have "recv_post slave_port smem slave_idle sim_rx 0 16 (r, d) t"
    using wpD [OF wp_ring_recv [OF slave_port_contract _ _ _, of sim_rx 0 0] run] by (simp add: sim_rx_def sim_rx_inv sim_rx_queue)
  then have "r = 3"
    using sim_may_recv by (simp add: recv_post_def Let_def slave_port_prompt slave_locks_free)
      (simp add: sim_rx_def rx_first_def sim_rx_slot)
  then show ?thesis
    using ring_recv_takes_front [OF slave_port_contract _ _ _ _ run] run by (simp add: sim_rx_def sim_rx_inv sim_rx_queue)
qed

lemma ring_recv_outcome_witness: "fst (fst (run_state (ring_recv slave_port 0 True 2 0) sim_rx)) = - 6"
proof -
  obtain r d t where run: "run_state (ring_recv slave_port 0 True 2 0) sim_rx = ((r, d), t)" by (metis prod.exhaust)
  have "may_recv sim_rx 0 2" by (simp add: may_recv_def sim_rx_def RING_STATUS_VALID_def)
  then show ?thesis
    using ring_recv_outcome [OF slave_port_contract slave_port_prompt slave_locks_free _ _ _ _ _ _ run] run
    by (simp add: sim_rx_def sim_rx_inv sim_rx_queue QC_OSAL_EMSGSIZE_def)
qed

lemma sim_ring_rx_inv: "rx_inv (\<lambda>_. 0) CONFIG_RING_CTRL_BLOCK_ADDR sim_cache 0"
  by (simp add: rx_inv_def rx_layout_def Let_def sim_layout rx_tail_def zero_index slots_ok_def in_use_def)

lemma sim_ring_rx_empty: "rx_queue (\<lambda>_. 0) CONFIG_RING_CTRL_BLOCK_ADDR sim_cache 0 = []"
  by (simp add: rx_queue_def rx_tail_def zero_index ring_queue_def in_use_def)

lemma rx_delivers_in_order_witness:
  "\<exists>t. channel_run (slave_puts smem slave_idle 0) (host_receives slave_port smem 0) (host_idles slave_port smem 0) sim_ring [[7, 8, 9]] [] t
    \<and> rx_pending_of smem 0 t = [[7, 8, 9]]"
proof -
  have "k = 1 \<or> k = 2 \<or> k = 3" if "k < 4" "0 < k" for k :: nat using that by linarith
  then have "slot_kept (\<lambda>_. 0) sim_rx_mem 0x3000 0x4000 64 k" if "k < 4" "0 < k" for k
    using that
    by (fastforce simp: slot_kept_def sim_rx_mem_def sim_index_addrs slot_addr_def slot_buf_def sizeof_ring_descriptor_def
      mem_read_write_other apart_intervals)
  moreover have "le32 [0, 0, 0, 0] = 0" by (simp add: le32_def)
  ultimately have "slave_puts smem slave_idle 0 sim_ring [7, 8, 9] sim_rx"
    unfolding slave_puts_def Let_def
    by (intro exI [of _ "\<lparr>smem = sim_rx_mem, pending = None\<rparr>"])
      (simp add: sim_rx_def sim_rx_slot sim_rx_tail rx_tail_def zero_index in_use_def index_word_def [of sim_rx_mem] sim_index_addrs sim_rx_reads)
  then have c: "channel_run (slave_puts smem slave_idle 0) (host_receives slave_port smem 0) (host_idles slave_port smem 0) sim_ring
      ([] @ [[7, 8, 9]]) [] sim_rx"
    by (intro channel_run.put [OF channel_run.start])
  show ?thesis
    using rx_delivers_in_order [OF _ _ c] c
    by (auto simp: rx_ready_def rx_pending_of_def slave_port_contract sim_ring_rx_inv sim_ring_rx_empty rx_published_def zero_index)
qed

lemma ring_recv_spurious_wakeup_witness:
  "fst (fst (run_state (ring_recv slave_port 0 True 16 QC_OSAL_TIMEOUT_FOREVER) sim_ring)) = - 1"
proof -
  obtain r d t where run: "run_state (ring_recv slave_port 0 True 16 QC_OSAL_TIMEOUT_FOREVER) sim_ring = ((r, d), t)" by (metis prod.exhaust)
  have sem: "sem_available slave_port smem slave_idle" by (simp add: sem_available_def slave_port_def keeps_memory_def)
  have "desc_flags (slot_desc (\<lambda>_. 0) 0x3000 0) = 0"
    by (simp add: slot_desc_def dec_desc_def mem_read_def upt_rec le16_at_def le16_def)
  then show ?thesis
    using ring_recv_spurious_wakeup [OF slave_port_contract slave_port_prompt slave_locks_free sem _ _ _ sim_may_recv(2) _ _ _ run] run
    by (simp add: sim_ring_rx_inv sim_ring_rx_empty QC_OSAL_EINVAL_def QC_OSAL_TIMEOUT_FOREVER_def QC_OSAL_TIMEOUT_NO_WAIT_def)
qed

end
