(* ===== verification/Ring_Init_Proofs.thy ===== *)
theory Ring_Init_Proofs
  imports Ring_Rx_Channel
begin

text \<open>
  Starting the ring service: which control blocks are accepted, what the host keeps of them, and what the
  number of rings, which is not checked, can lead to; and the counts of free and filled descriptors.
\<close>

section \<open>The loops over the rings\<close>

definition services_ok :: "'w host_port \<Rightarrow> bool" where
  "services_ok P \<longleftrightarrow> (\<forall>w l n. 0 \<le> fst (qc_osal_mutex_init P w l) \<and> 0 \<le> fst (qc_osal_sem_init P w l n)
     \<and> 0 \<le> fst (qc_osal_work_queue_init P w) \<and> 0 \<le> fst (fst (qc_osal_work_init P w)))"

definition same_config :: "('w, 'z) ring_st_scheme \<Rightarrow> ('w, 'z) ring_st_scheme \<Rightarrow> bool" where
  "same_config s t \<longleftrightarrow> ring_initialized t = ring_initialized s \<and> g_num_rings t = g_num_rings s
     \<and> ctrl_block_addr t = ctrl_block_addr s \<and> ctrl_cache t = ctrl_cache s"

lemma same_config_simps [simp]:
  "same_config s s" "same_config s (t\<lparr>hw := w\<rparr>) = same_config s t" "same_config s (t\<lparr>rings := R\<rparr>) = same_config s t"
  "same_config s (t\<lparr>ring_fault := b\<rparr>) = same_config s t" "same_config s (t\<lparr>rx_works := ws\<rparr>) = same_config s t"
  by (simp_all add: same_config_def)

lemma same_config_trans: "same_config s t \<Longrightarrow> same_config t u \<Longrightarrow> same_config s u"
  by (simp add: same_config_def)

lemma wp_below_ok:
  assumes "\<And>w. 0 \<le> fst (f w)" and "\<And>r w. 0 \<le> r \<Longrightarrow> Q r (s\<lparr>hw := w\<rparr>)"
  shows "wp (below f) Q s"
  using assms by (simp add: wp_below split_beta)

text \<open>The rings of \<open>is\<close> are set up; each number from \<open>MAX_RINGS\<close> on made the loop leave the arrays.\<close>

definition rings_started :: "('w, 'z) ring_st_scheme \<Rightarrow> nat list \<Rightarrow> int \<Rightarrow> ('w, 'z) ring_st_scheme \<Rightarrow> bool" where
  "rings_started s is r t \<longleftrightarrow> r = 0 \<and> same_config s t \<and> length (rings t) = length (rings s)
     \<and> (ring_fault t \<longleftrightarrow> ring_fault s \<or> (\<exists>i \<in> set is. MAX_RINGS \<le> i))
     \<and> (\<forall>k < length (rings s). rings t ! k = (if k \<in> set is then zero_stats else rings s ! k))"

lemma wp_init_rings:
  fixes s :: "('w, 'z) ring_st_scheme"
  assumes P: "services_ok P"
  shows "wp (init_rings P c is) (rings_started s is) s"
proof (induction "is" arbitrary: s)
  case Nil
  then show ?case by (simp add: wp_return rings_started_def)
next
  case (Cons i "is")
  have next_ring: "wp (init_rings P c is) (rings_started s (i # is)) u"
    if "same_config s u" "rings u = (rings s)[i := zero_stats]" "ring_fault u \<longleftrightarrow> ring_fault s \<or> MAX_RINGS \<le> i"
    for u :: "('w, 'z) ring_st_scheme"
    by (rule wp_mono [OF Cons.IH]) (use that in \<open>auto simp: rings_started_def nth_list_update intro: same_config_trans\<close>)
  show ?case
    using P unfolding services_ok_def
    by (auto simp: wp_bind wp_when_m ub_def wp_modify upd_stats_def
        intro!: wp_below_ok [where f = "\<lambda>w. qc_osal_mutex_init P w l" for l] wp_below_ok [where f = "\<lambda>w. qc_osal_sem_init P w l n" for l n]
          next_ring)
qed

definition works_started :: "('w, 'z) ring_st_scheme \<Rightarrow> nat list \<Rightarrow> int \<Rightarrow> ('w, 'z) ring_st_scheme \<Rightarrow> bool" where
  "works_started s is r t \<longleftrightarrow> r = 0 \<and> same_config s t \<and> rings t = rings s
     \<and> (ring_fault t \<longleftrightarrow> ring_fault s \<or> (\<exists>i \<in> set is. MAX_RINGS \<le> i))"

lemma wp_init_works:
  fixes s :: "('w, 'z) ring_st_scheme"
  assumes P: "services_ok P"
  shows "wp (init_works P is) (works_started s is) s"
proof (induction "is" arbitrary: s)
  case Nil
  then show ?case by (simp add: wp_return works_started_def)
next
  case (Cons i "is")
  have next_work: "wp (init_works P is) (works_started s (i # is)) u"
    if "same_config s u" "rings u = rings s" "ring_fault u \<longleftrightarrow> ring_fault s \<or> MAX_RINGS \<le> i"
    for u :: "('w, 'z) ring_st_scheme"
    by (rule wp_mono [OF Cons.IH]) (use that in \<open>auto simp: works_started_def intro: same_config_trans\<close>)
  have "\<not> fst (fst (qc_osal_work_init P w)) < 0" for w using P by (simp add: services_ok_def not_less)
  then show ?case
    by (auto simp: wp_bind wp_when_m ub_def wp_modify wp_gets wp_below split_beta intro!: next_work)
qed

section \<open>Starting the service\<close>

text \<open>The control block as the slave has it at \<open>addr\<close>.\<close>

definition block_at :: "(u32 \<Rightarrow> u8) \<Rightarrow> u32 \<Rightarrow> ring_control_block" where
  "block_at m addr = dec_ctrl (mem_read m addr 440)"

definition init_verdict :: "bool \<Rightarrow> bool \<Rightarrow> ring_control_block \<Rightarrow> int" where
  "init_verdict up transport c = (if up then - QC_OSAL_EALREADY else if \<not> transport then - QC_OSAL_EINVAL
     else if magic c \<noteq> RING_MAGIC_NUMBER then - QC_OSAL_EINVAL
     else if cb_status c AND RING_STATUS_INITIALIZED = 0 then - QC_OSAL_ENODEV else 0)"

definition service_started ::
  "('w \<Rightarrow> u32 \<Rightarrow> u8) \<Rightarrow> ('w, 'z) ring_st_scheme \<Rightarrow> u32 \<Rightarrow> bool \<Rightarrow> int \<Rightarrow> ('w, 'z) ring_st_scheme \<Rightarrow> bool" where
  "service_started mem s addr transport r t \<longleftrightarrow> (let c = block_at (mem (hw s)) addr in
     r = init_verdict (ring_initialized s) transport c
     \<and> (r < 0 \<longrightarrow> same_config s t \<and> rings t = rings s \<and> ring_fault t = ring_fault s)
     \<and> (r = 0 \<longrightarrow> ring_initialized t \<and> ctrl_block_addr t = addr \<and> g_num_rings t = num_rings c \<and> ctrl_cache t = c
          \<and> (\<forall>k < length (rings s). k < unat (num_rings c) \<longrightarrow> rings t ! k = zero_stats)
          \<and> (ring_fault t \<longleftrightarrow> ring_fault s \<or> MAX_RINGS < unat (num_rings c))))"

lemma verdict_negative: "init_verdict up tr c < 0 \<longleftrightarrow> init_verdict up tr c \<noteq> 0"
  by (simp add: init_verdict_def osal_errors)

lemma overrun: "(\<exists>i \<in> {0..<n}. MAX_RINGS \<le> i) \<longleftrightarrow> MAX_RINGS < n"
  by (auto intro: bexI [of _ "MAX_RINGS"])

lemma wp_start_rings:
  fixes u :: "('w, 'z) ring_st_scheme"
  assumes P: "services_ok P"
  shows "wp (do {
      r \<leftarrow> init_rings P c [0..<n];
      if r < 0 then State_Monad.return r
      else do {
        r \<leftarrow> below (qc_osal_work_queue_init P);
        if r < 0 then State_Monad.return r
        else do {
          r \<leftarrow> init_works P [0..<n];
          if r < 0 then State_Monad.return r
          else do { modify (\<lambda>s. s\<lparr>ring_initialized := True\<rparr>); State_Monad.return 0 }
        }
      }}) (\<lambda>r t. r = 0 \<and> ring_initialized t \<and> same_config (u\<lparr>ring_initialized := True\<rparr>) t
        \<and> (\<forall>k < length (rings u). k < n \<longrightarrow> rings t ! k = zero_stats)
        \<and> (ring_fault t \<longleftrightarrow> ring_fault u \<or> MAX_RINGS < n)) u"
  unfolding wp_bind
proof (rule wp_mono [OF wp_init_rings [OF P]])
  fix r and t :: "('w, 'z) ring_st_scheme"
  assume "rings_started u [0..<n] r t"
  then have t: "r = 0" "same_config u t" "length (rings t) = length (rings u)" "ring_fault t \<longleftrightarrow> ring_fault u \<or> MAX_RINGS < n"
    "\<forall>k < length (rings u). k < n \<longrightarrow> rings t ! k = zero_stats"
    by (simp_all add: rings_started_def overrun)
  have q: "\<not> fst (qc_osal_work_queue_init P w) < 0" for w using P by (simp add: services_ok_def not_less)
  show "wp (if r < 0 then State_Monad.return r
      else do {
        r \<leftarrow> below (qc_osal_work_queue_init P);
        if r < 0 then State_Monad.return r
        else do {
          r \<leftarrow> init_works P [0..<n];
          if r < 0 then State_Monad.return r
          else do { modify (\<lambda>s. s\<lparr>ring_initialized := True\<rparr>); State_Monad.return 0 }
        }
      }) (\<lambda>r t. r = 0 \<and> ring_initialized t \<and> same_config (u\<lparr>ring_initialized := True\<rparr>) t
        \<and> (\<forall>k < length (rings u). k < n \<longrightarrow> rings t ! k = zero_stats)
        \<and> (ring_fault t \<longleftrightarrow> ring_fault u \<or> MAX_RINGS < n)) t"
    unfolding t(1) if_not_P [OF less_irrefl] wp_bind wp_below split_beta if_not_P [OF q]
    by (rule wp_mono [OF wp_init_works [OF P]])
      (use t in \<open>auto simp: works_started_def overrun wp_bind wp_modify wp_return same_config_def\<close>)
qed

lemma wp_ring_service_host_init:
  fixes s :: "('w, 'z) ring_st_scheme"
  assumes P: "spi_slave P mem idle" "spi_prompt P" "services_ok P" and s: "idle (hw s)" "transport_initialized s"
  shows "wp (ring_service_host_init P addr transport) (service_started mem s addr transport) s"
proof -
  define c where "c = block_at (mem (hw s)) addr"
  have refuse: "wp (State_Monad.return r) (service_started mem s addr transport) (s\<lparr>hw := w\<rparr>)"
    if "r = init_verdict (ring_initialized s) transport c" "r \<noteq> 0" for r w
    using that by (simp add: service_started_def Let_def wp_return c_def)
  have err: "QC_OSAL_EALREADY \<noteq> 0" "QC_OSAL_EINVAL \<noteq> 0" "QC_OSAL_ENODEV \<noteq> 0" by (simp_all add: osal_errors)
  show ?thesis
    unfolding ring_service_host_init_def wp_bind wp_gets
  proof (rule wp_cases, goal_cases)
    case 1
    then show ?case using refuse [of _ "hw s"] by (simp add: err init_verdict_def)
  next
    case up: 2
    show ?case
    proof (rule wp_cases, goal_cases)
      case 1
      then show ?case using refuse [of _ "hw s"] up by (simp add: err init_verdict_def)
    next
      case tr: 2
      show ?case
        unfolding wp_bind
      proof (rule wp_link_read [OF P(1) s], goal_cases)
        case (3 r d w)
        then have r: "r = 0" and d: "dec_ctrl d = c"
          using P(2) by (simp_all add: sizeof_ring_control_block_def block_at_def c_def)
        show ?case
          unfolding prod.case r if_not_P [OF less_irrefl] Let_def d
        proof (rule wp_cases, goal_cases)
          case 1
          then show ?case using up tr by (intro refuse) (auto simp: err init_verdict_def)
        next
          case magic: 2
          show ?case
          proof (rule wp_cases, goal_cases)
            case 1
            then show ?case using up tr magic by (intro refuse) (auto simp: err init_verdict_def)
          next
            case 2
            have v: "init_verdict (ring_initialized s) transport c = 0" using up tr magic 2 by (simp add: init_verdict_def)
            show ?case
              by (subst wp_bind, subst wp_modify, rule wp_mono [OF wp_start_rings [OF P(3)]])
                (use v in \<open>simp add: service_started_def Let_def same_config_def flip: c_def\<close>)
          qed
        qed
      qed (simp_all add: sizeof_ring_control_block_def)
    qed
  qed
qed

text \<open>
  Against a slave that answers and with the services of the system at hand, starting the service
  succeeds exactly for a first call with a transport and a control block that has the magic number and is
  marked initialised; then the host holds the slave's control block and zeroed statistics, and otherwise it
  changes nothing.
\<close>

theorem ring_init_outcome:
  assumes "spi_slave P mem idle" and "spi_prompt P" and "services_ok P" and "idle (hw s)" and "transport_initialized s"
    and "unat (num_rings (block_at (mem (hw s)) addr)) \<le> MAX_RINGS"
    and "run_state (ring_service_host_init P addr transport) s = (r, t)"
  shows "r = init_verdict (ring_initialized s) transport (block_at (mem (hw s)) addr)
    \<and> (r = 0 \<longrightarrow> ring_initialized t \<and> ctrl_block_addr t = addr \<and> ctrl_cache t = block_at (mem (hw s)) addr
        \<and> g_num_rings t = num_rings (block_at (mem (hw s)) addr)
        \<and> (\<forall>k < length (rings s). k < unat (g_num_rings t) \<longrightarrow> rings t ! k = zero_stats))
    \<and> (r \<noteq> 0 \<longrightarrow> same_config s t \<and> rings t = rings s) \<and> ring_fault t = ring_fault s"
  using wpD [OF wp_ring_service_host_init [OF assms(1-5), of addr transport] assms(7)] assms(6) verdict_negative
  unfolding service_started_def Let_def by (metis not_less)

text \<open>
  The number of rings the slave announces is not checked: with more than eight, starting the service
  succeeds after having written behind the arrays of the rings.
\<close>

theorem ring_init_overrun:
  assumes "spi_slave P mem idle" and "spi_prompt P" and "services_ok P" and "idle (hw s)" and "transport_initialized s"
    and "init_verdict (ring_initialized s) True (block_at (mem (hw s)) addr) = 0"
    and "MAX_RINGS < unat (num_rings (block_at (mem (hw s)) addr))"
  shows "\<exists>t. run_state (ring_service_host_init P addr True) s = (0, t) \<and> ring_fault t"
proof -
  obtain r t where run: "run_state (ring_service_host_init P addr True) s = (r, t)" by (rule prod.exhaust)
  show ?thesis
    using wpD [OF wp_ring_service_host_init [OF assms(1-5), of addr True] run] assms(6,7) run
    by (simp add: service_started_def Let_def)
qed

section \<open>Counts\<close>

lemma sint_small:
  fixes x :: u32
  assumes "unat x < 2 ^ 31"
  shows "sint x = int (unat x)"
proof -
  have "unat x < 2147483648" using assms by simp
  then have "uint x < 2147483648" unfolding uint_nat by linarith
  moreover have "- 2147483648 \<le> uint x" using uint_ge_0 [of x] by linarith
  ultimately have "signed_take_bit (LENGTH(32) - Suc 0) (uint x) = uint x"
    unfolding signed_take_bit_int_eq_self_iff by simp
  then show ?thesis unfolding sint_uint by simp
qed

lemma wp_counts:
  fixes s :: "('w, 'z) ring_st_scheme"
  assumes P: "spi_slave P mem idle" "spi_prompt P" "locks_free P" and s: "idle (hw s)" "transport_initialized s"
    and up: "ring_initialized s" "ring_status (ctrl_cache s) ! unat i = RING_STATUS_VALID" "unat i < MAX_RINGS"
  shows "wp (ring_get_tx_available P i) (\<lambda>r _. r = sint (tx_space (index_word (mem (hw s)) (ctrl_block_addr s) offsetof_tx_rd_idx i)
      (tx_wr_idx (ctrl_cache s) ! unat i) (tx_desc_count (ctrl_cache s) ! unat i))) s"
    and "wp (ring_get_rx_available P i) (\<lambda>r _. r = sint (rx_pending (index_word (mem (hw s)) (ctrl_block_addr s) offsetof_rx_wr_idx i)
      (rx_rd_idx (ctrl_cache s) ! unat i) (rx_desc_count (ctrl_cache s) ! unat i))) s"
  using P(2,3) s up unfolding ring_get_tx_available_def ring_get_rx_available_def
  by (auto simp: wp_bind wp_ring_check wp_gets wp_return
      intro!: wp_lock [OF P(1)] wp_read_index [OF P(1)] wp_unlock [OF P(1)])

text \<open>
  Against a slave that answers, the number of free descriptors the host reports is the capacity of the
  transmit ring less the messages in it, and the number of filled ones is that of the messages in the
  receive ring.
\<close>

theorem ring_counts:
  assumes "spi_slave P mem idle" and "spi_prompt P" and "locks_free P" and "idle (hw s)" and "transport_initialized s"
    and "ring_initialized s" and "ring_status (ctrl_cache s) ! unat i = RING_STATUS_VALID"
    and "tx_inv (mem (hw s)) (ctrl_block_addr s) (ctrl_cache s) i" and "rx_inv (mem (hw s)) (ctrl_block_addr s) (ctrl_cache s) i"
    and "unat (tx_desc_count (ctrl_cache s) ! unat i) \<le> 2 ^ 31" and "unat (rx_desc_count (ctrl_cache s) ! unat i) \<le> 2 ^ 31"
  shows "fst (run_state (ring_get_tx_available P i) s)
      = int (unat (tx_desc_count (ctrl_cache s) ! unat i)) - 1 - int (length (tx_queue (mem (hw s)) (ctrl_block_addr s) (ctrl_cache s) i))
    \<and> fst (run_state (ring_get_rx_available P i) s)
      = int (length (rx_queue (mem (hw s)) (ctrl_block_addr s) (ctrl_cache s) i))"
proof -
  have i: "unat i < MAX_RINGS" using rx_inv_facts(1) [OF assms(9)] by (simp add: MAX_RINGS_def)
  note w = wp_counts [OF assms(1-7) i, unfolded wp_def split_beta]
  have t: "tx_head (mem (hw s)) (ctrl_block_addr s) i < unat (tx_desc_count (ctrl_cache s) ! unat i)"
    "unat (tx_wr_idx (ctrl_cache s) ! unat i) < unat (tx_desc_count (ctrl_cache s) ! unat i)"
    using assms(8) by (simp_all add: tx_inv_def Let_def)
  note tu = unat_tx_space [OF t(1) [unfolded tx_head_def] t(2)] and tl = in_use_less [OF t]
  note ru = unat_rx_pending [OF rx_inv_facts(4) [OF assms(9)] rx_inv_facts(5) [OF assms(9), unfolded rx_tail_def]]
    and rl = in_use_less [OF rx_inv_facts(4,5) [OF assms(9)]]
  have "sint (tx_space (index_word (mem (hw s)) (ctrl_block_addr s) offsetof_tx_rd_idx i) (tx_wr_idx (ctrl_cache s) ! unat i)
      (tx_desc_count (ctrl_cache s) ! unat i))
    = int (unat (tx_desc_count (ctrl_cache s) ! unat i) - 1 - in_use (unat (tx_desc_count (ctrl_cache s) ! unat i))
        (tx_head (mem (hw s)) (ctrl_block_addr s) i) (unat (tx_wr_idx (ctrl_cache s) ! unat i)))"
    by (subst sint_small) (use tu assms(10) t(1) in \<open>simp_all add: tx_head_def del: of_nat_unat\<close>)
  moreover have "sint (rx_pending (index_word (mem (hw s)) (ctrl_block_addr s) offsetof_rx_wr_idx i) (rx_rd_idx (ctrl_cache s) ! unat i)
      (rx_desc_count (ctrl_cache s) ! unat i))
    = int (in_use (unat (rx_desc_count (ctrl_cache s) ! unat i)) (unat (rx_rd_idx (ctrl_cache s) ! unat i)) (rx_tail (mem (hw s)) (ctrl_block_addr s) i))"
    by (subst sint_small) (use ru rl assms(11) in \<open>simp_all add: rx_tail_def del: of_nat_unat\<close>)
  ultimately show ?thesis using w tl by (simp add: tx_queue_def rx_queue_def)
qed

section \<open>Witnesses\<close>

text \<open>A control block with the magic number, marked initialised, announcing \<open>n\<close> rings.\<close>

definition sim_block :: "u32 \<Rightarrow> bytes" where
  "sim_block n = bytes_le32 RING_MAGIC_NUMBER @ bytes_le32 RING_VERSION @ bytes_le32 n @ replicate 392 0
     @ bytes_le32 RING_STATUS_INITIALIZED @ replicate 32 0"

definition sim_boot :: "u32 \<Rightarrow> slave_world ring_st" where
  "sim_boot n = sim_ring\<lparr>hw := \<lparr>smem = mem_write (\<lambda>_. 0) CONFIG_RING_CTRL_BLOCK_ADDR (sim_block n), pending = None\<rparr>,
     ring_initialized := False\<rparr>"

lemma sim_block_at:
  "magic (block_at (smem (hw (sim_boot n))) CONFIG_RING_CTRL_BLOCK_ADDR) = RING_MAGIC_NUMBER"
  "num_rings (block_at (smem (hw (sim_boot n))) CONFIG_RING_CTRL_BLOCK_ADDR) = n"
  "cb_status (block_at (smem (hw (sim_boot n))) CONFIG_RING_CTRL_BLOCK_ADDR) = RING_STATUS_INITIALIZED"
proof -
  have l: "length (sim_block n) = 440" by (simp add: sim_block_def)
  have m: "mem_read (smem (hw (sim_boot n))) CONFIG_RING_CTRL_BLOCK_ADDR 440 = sim_block n"
    using mem_read_write_same [of "sim_block n" "\<lambda>_. 0" CONFIG_RING_CTRL_BLOCK_ADDR] l by (simp add: sim_boot_def)
  show "magic (block_at (smem (hw (sim_boot n))) CONFIG_RING_CTRL_BLOCK_ADDR) = RING_MAGIC_NUMBER"
    "num_rings (block_at (smem (hw (sim_boot n))) CONFIG_RING_CTRL_BLOCK_ADDR) = n"
    "cb_status (block_at (smem (hw (sim_boot n))) CONFIG_RING_CTRL_BLOCK_ADDR) = RING_STATUS_INITIALIZED"
    by (simp_all add: block_at_def m dec_ctrl_def sim_block_def le32_at_def)
qed

lemma sim_boot_fields [simp]:
  "slave_idle (hw (sim_boot n))" "transport_initialized (sim_boot n)" "\<not> ring_initialized (sim_boot n)"
  by (simp_all add: sim_boot_def sim_ring_def)

lemma sim_verdict: "init_verdict False True (block_at (smem (hw (sim_boot n))) CONFIG_RING_CTRL_BLOCK_ADDR) = 0"
  by (simp add: init_verdict_def sim_block_at RING_STATUS_INITIALIZED_def)

lemma slave_services_ok: "services_ok slave_port"
  by (simp add: services_ok_def slave_port_def)

lemma ring_init_outcome_witness:
  "\<exists>t. run_state (ring_service_host_init slave_port CONFIG_RING_CTRL_BLOCK_ADDR True) (sim_boot 1) = (0, t)
    \<and> ring_initialized t \<and> g_num_rings t = 1"
proof -
  obtain r t where run: "run_state (ring_service_host_init slave_port CONFIG_RING_CTRL_BLOCK_ADDR True) (sim_boot 1) = (r, t)"
    by (rule prod.exhaust)
  show ?thesis
    using ring_init_outcome [OF slave_port_contract slave_port_prompt slave_services_ok _ _ _ run] run
    by (simp add: sim_verdict sim_block_at MAX_RINGS_def)
qed

lemma ring_init_overrun_witness:
  "\<exists>t. run_state (ring_service_host_init slave_port CONFIG_RING_CTRL_BLOCK_ADDR True) (sim_boot 9) = (0, t) \<and> ring_fault t"
  by (rule ring_init_overrun [OF slave_port_contract slave_port_prompt slave_services_ok])
    (simp_all add: sim_verdict sim_block_at MAX_RINGS_def)

lemma ring_counts_witness:
  "fst (run_state (ring_get_tx_available slave_port 0) sim_rx) = 3 \<and> fst (run_state (ring_get_rx_available slave_port 0) sim_rx) = 1"
proof -
  have z: "index_word sim_rx_mem CONFIG_RING_CTRL_BLOCK_ADDR offsetof_tx_rd_idx 0 = 0"
  proof -
    have "index_addr CONFIG_RING_CTRL_BLOCK_ADDR offsetof_tx_rd_idx 0 = 0x9fc6c"
      by (simp add: index_addr_def CONFIG_RING_CTRL_BLOCK_ADDR_def offsetof_tx_rd_idx_def)
    then have "index_word sim_rx_mem CONFIG_RING_CTRL_BLOCK_ADDR offsetof_tx_rd_idx 0 = index_word (\<lambda>_. 0) CONFIG_RING_CTRL_BLOCK_ADDR offsetof_tx_rd_idx 0"
      unfolding index_word_def sim_rx_mem_def sim_index_addrs by (simp add: mem_read_write_other apart_intervals)
    then show ?thesis by (simp only: zero_index)
  qed
  have tx: "tx_inv sim_rx_mem CONFIG_RING_CTRL_BLOCK_ADDR sim_cache 0" "tx_queue sim_rx_mem CONFIG_RING_CTRL_BLOCK_ADDR sim_cache 0 = []"
    by (simp_all add: tx_inv_def tx_layout_def Let_def sim_layout tx_head_def z slots_ok_def in_use_def tx_queue_def ring_queue_def)
  show ?thesis
    using ring_counts [OF slave_port_contract slave_port_prompt slave_locks_free, of sim_rx 0] tx sim_rx_inv
    by (simp add: sim_rx_def sim_rx_queue RING_STATUS_VALID_def)
qed

end
