(* ===== verification/Os_Types.thy ===== *)
theory Os_Types
  imports Qcspi
begin

text \<open>
  What the two ports of the OS abstraction layer share: the error codes of
  \<open>src/qcspi_app/qcc730_host/Port/osal/qc_osal.h\<close> that the driver does not use, and the state they work
  on, the kernel below them and the wrapper structures they allocate.
\<close>

section \<open>Constants\<close>

definition QC_OSAL_ENOMEM :: int where "QC_OSAL_ENOMEM = 2"
definition QC_OSAL_E2BIG :: int where "QC_OSAL_E2BIG = 8"
definition QC_OSAL_EIO :: int where "QC_OSAL_EIO = 9"
definition QC_OSAL_EBUSY :: int where "QC_OSAL_EBUSY = 10"
definition QC_OSAL_ENOTSUP :: int where "QC_OSAL_ENOTSUP = 11"

lemmas all_osal_errors = osal_errors QC_OSAL_ENOMEM_def QC_OSAL_E2BIG_def QC_OSAL_EIO_def QC_OSAL_EBUSY_def
  QC_OSAL_ENOTSUP_def

definition QC_OSAL_LOG_LEVEL_ERR :: nat where "QC_OSAL_LOG_LEVEL_ERR = 0"
definition QC_OSAL_LOG_LEVEL_WRN :: nat where "QC_OSAL_LOG_LEVEL_WRN = 1"
definition QC_OSAL_LOG_LEVEL_INF :: nat where "QC_OSAL_LOG_LEVEL_INF = 2"
definition QC_OSAL_LOG_LEVEL_DBG :: nat where "QC_OSAL_LOG_LEVEL_DBG = 3"

section \<open>State\<close>

text \<open>Addresses of kernel objects, wrappers and functions; 0 is the null pointer.\<close>

type_synonym ptr = u32

text \<open>
  \<open>'k\<close> is the state of the kernel. \<open>calls\<close> lists the user functions the port has called, each with its
  argument, in order. \<open>os_fault\<close> is set where a handle does not point to a structure of its type.
\<close>

record 'k os_st =
  kernel :: 'k
  calls :: "(ptr \<times> ptr) list"
  os_fault :: bool

definition os_ub :: "(('k, 'z) os_st_scheme, unit) state" where
  "os_ub = modify (\<lambda>s. s\<lparr>os_fault := True\<rparr>)"

text \<open>A call of the kernel that returns something, and one that does not.\<close>

definition kcall :: "('k \<Rightarrow> 'a \<times> 'k) \<Rightarrow> (('k, 'z) os_st_scheme, 'a) state" where
  "kcall f = do {
     k \<leftarrow> gets kernel;
     let (x, k') = f k;
     modify (\<lambda>s. s\<lparr>kernel := k'\<rparr>);
     State_Monad.return x
   }"

definition kdo :: "('k \<Rightarrow> 'k) \<Rightarrow> (('k, 'z) os_st_scheme, unit) state" where
  "kdo f = modify (\<lambda>s. s\<lparr>kernel := f (kernel s)\<rparr>)"

text \<open>A user function is called; what it does is a parameter.\<close>

definition call_user ::
  "(ptr \<Rightarrow> ptr \<Rightarrow> (('k, 'z) os_st_scheme, unit) state) \<Rightarrow> ptr \<Rightarrow> ptr \<Rightarrow> (('k, 'z) os_st_scheme, unit) state" where
  "call_user user f arg = do {
     modify (\<lambda>s. s\<lparr>calls := calls s @ [(f, arg)]\<rparr>);
     user f arg
   }"

text \<open>The structure a handle points to; any other handle faults and reads as \<open>d\<close>.\<close>

definition deref :: "(('k, 'z) os_st_scheme \<Rightarrow> ptr \<Rightarrow> 'a option) \<Rightarrow> 'a \<Rightarrow> ptr \<Rightarrow> (('k, 'z) os_st_scheme, 'a) state" where
  "deref m d p = do {
     s \<leftarrow> State_Monad.get;
     case m s p of
       Some x \<Rightarrow> State_Monad.return x
     | None \<Rightarrow> do { os_ub; State_Monad.return d }
   }"

text \<open>A status code and the handle written to the out-parameter, if it was written.\<close>

type_synonym init_result = "int \<times> ptr option"

definition failed :: "int \<Rightarrow> (('k, 'z) os_st_scheme, init_result) state" where
  "failed e = State_Monad.return (- e, None)"

definition opened :: "ptr \<Rightarrow> (('k, 'z) os_st_scheme, init_result) state" where
  "opened h = State_Monad.return (0, Some h)"

section \<open>Running them\<close>

lemma run_kcall: "f (kernel s) = (x, k) \<Longrightarrow> run_state (kcall f) s = (x, s\<lparr>kernel := k\<rparr>)"
  by (simp add: kcall_def run_simps)

lemma run_kcall_if: "run_state (kcall f) s = (case f (kernel s) of (x, k) \<Rightarrow> (x, s\<lparr>kernel := k\<rparr>))"
  by (simp add: kcall_def run_simps split: prod.split)

lemma run_kdo: "run_state (kdo f) s = ((), s\<lparr>kernel := f (kernel s)\<rparr>)"
  by (simp add: kdo_def run_simps)

lemma run_deref: "m s p = Some x \<Longrightarrow> run_state (deref m d p) s = (x, s)"
  by (simp add: deref_def run_simps)

lemma run_opened: "run_state (failed e) s = ((- e, None), s)" "run_state (opened h) s = ((0, Some h), s)"
  by (simp_all add: failed_def opened_def run_simps)

lemmas os_simps = run_simps run_kcall_if run_kdo run_opened

end
