(* ===== verification/Os_Freertos.thy ===== *)
theory Os_Freertos
  imports Os_Types
begin

text \<open>
  The FreeRTOS port of the OS abstraction layer,
  \<open>src/qcspi_app/qcc730_host/Port/osal/freertos/qc_osal_freertos.c\<close>. FreeRTOS itself is a parameter, the
  record \<open>freertos\<close>. Names that the Zephyr port has too end in \<open>_fr\<close>.
\<close>

section \<open>The kernel\<close>

text \<open>
  The two task functions of the port. \<open>xQueueReceive\<close> returns the bytes of the item; \<open>nop\<close> is one turn of
  the busy wait, \<open>console\<close> the output of \<open>printf\<close>.
\<close>

datatype task_fn = Work_Queue_Task | Thread_Entry_Adapter

record 'k freertos =
  pvPortMalloc :: "'k \<Rightarrow> u32 \<Rightarrow> ptr \<times> 'k"
  vPortFree :: "'k \<Rightarrow> ptr \<Rightarrow> 'k"
  xSemaphoreCreateMutex :: "'k \<Rightarrow> ptr \<times> 'k"
  xSemaphoreCreateCounting :: "'k \<Rightarrow> u32 \<Rightarrow> u32 \<Rightarrow> ptr \<times> 'k"
  xSemaphoreTake :: "'k \<Rightarrow> ptr \<Rightarrow> u32 \<Rightarrow> int \<times> 'k"
  xSemaphoreGive :: "'k \<Rightarrow> ptr \<Rightarrow> int \<times> 'k"
  xQueueCreate :: "'k \<Rightarrow> u32 \<Rightarrow> u32 \<Rightarrow> ptr \<times> 'k"
  vQueueDelete :: "'k \<Rightarrow> ptr \<Rightarrow> 'k"
  xQueueSend :: "'k \<Rightarrow> ptr \<Rightarrow> bytes \<Rightarrow> u32 \<Rightarrow> int \<times> 'k"
  xQueueSendFromISR :: "'k \<Rightarrow> ptr \<Rightarrow> bytes \<Rightarrow> (int \<times> bool) \<times> 'k"
  xQueueReceive :: "'k \<Rightarrow> ptr \<Rightarrow> u32 \<Rightarrow> (int \<times> bytes) \<times> 'k"
  uxQueueMessagesWaiting :: "'k \<Rightarrow> ptr \<Rightarrow> u32"
  xTaskCreate :: "'k \<Rightarrow> task_fn \<Rightarrow> string \<Rightarrow> u32 \<Rightarrow> ptr \<Rightarrow> int \<Rightarrow> (int \<times> ptr) \<times> 'k"
  vTaskDelete :: "'k \<Rightarrow> ptr \<Rightarrow> 'k"
  vTaskDelay :: "'k \<Rightarrow> u32 \<Rightarrow> 'k"
  xTaskGetTickCount :: "'k \<Rightarrow> u32"
  xPortIsInsideInterrupt :: "'k \<Rightarrow> bool"
  portYIELD_FROM_ISR :: "'k \<Rightarrow> bool \<Rightarrow> 'k"
  taskYIELD :: "'k \<Rightarrow> 'k"
  nop :: "'k \<Rightarrow> 'k"
  console :: "'k \<Rightarrow> string \<Rightarrow> 'k"
  pdMS_TO_TICKS :: "u32 \<Rightarrow> u32"
  portMAX_DELAY :: u32
  portTICK_PERIOD_MS :: u32
  configCPU_CLOCK_HZ :: u32
  sizeof_StackType :: u32

definition pdTRUE :: int where "pdTRUE = 1"
definition pdPASS :: int where "pdPASS = 1"

section \<open>Errors\<close>

definition freertos_errno_to_osal :: "int \<Rightarrow> int" where
  "freertos_errno_to_osal e =
     (if e = 0 then 0
      else if e = 22 then - QC_OSAL_EINVAL
      else if e = 12 then - QC_OSAL_ENOMEM
      else if e = 19 then - QC_OSAL_ENODEV
      else if e = 11 then - QC_OSAL_EAGAIN
      else if e = 110 then - QC_OSAL_ETIMEDOUT
      else if e = 90 then - QC_OSAL_EMSGSIZE
      else if e = 114 then - QC_OSAL_EALREADY
      else if e = 7 then - QC_OSAL_E2BIG
      else if e = 5 then - QC_OSAL_EIO
      else if e = 16 then - QC_OSAL_EBUSY
      else if e = 95 then - QC_OSAL_ENOTSUP
      else - QC_OSAL_EIO)"

section \<open>The wrapper structures\<close>

record fr_work =
  work_handler :: ptr
  work_data :: ptr

record fr_work_q =
  wq_queue :: ptr
  wq_task :: ptr
  wq_running :: u8

record fr_queue =
  queue_handle :: ptr
  queue_msg_size :: u32

record fr_thread =
  task_handle :: ptr
  thread_stack :: ptr
  thread_entry :: ptr
  thread_arg :: ptr

definition sizeof_fr_work :: u32 where "sizeof_fr_work = 8"
definition sizeof_fr_work_q :: u32 where "sizeof_fr_work_q = 12"
definition sizeof_fr_queue :: u32 where "sizeof_fr_queue = 8"
definition sizeof_fr_thread :: u32 where "sizeof_fr_thread = 16"

text \<open>The structures by their address, and the log level.\<close>

record 'k fr_st = "'k os_st" +
  fr_works :: "ptr \<Rightarrow> fr_work option"
  fr_work_qs :: "ptr \<Rightarrow> fr_work_q option"
  fr_queues :: "ptr \<Rightarrow> fr_queue option"
  fr_threads :: "ptr \<Rightarrow> fr_thread option"
  g_log_level :: nat

abbreviation no_work :: fr_work where "no_work \<equiv> \<lparr>work_handler = 0, work_data = 0\<rparr>"
abbreviation no_work_q :: fr_work_q where "no_work_q \<equiv> \<lparr>wq_queue = 0, wq_task = 0, wq_running = 0\<rparr>"
abbreviation no_queue :: fr_queue where "no_queue \<equiv> \<lparr>queue_handle = 0, queue_msg_size = 0\<rparr>"
abbreviation no_thread :: fr_thread where
  "no_thread \<equiv> \<lparr>task_handle = 0, thread_stack = 0, thread_entry = 0, thread_arg = 0\<rparr>"

section \<open>Mutexes and semaphores\<close>

definition ticks_of :: "'k freertos \<Rightarrow> u32 \<Rightarrow> u32" where
  "ticks_of K timeout_ms = (if sint timeout_ms < 0 then portMAX_DELAY K
     else if timeout_ms = 0 then 0 else pdMS_TO_TICKS K timeout_ms)"

definition qc_osal_mutex_init_fr :: "'k freertos \<Rightarrow> bool \<Rightarrow> (('k, 'z) fr_st_scheme, init_result) state" where
  "qc_osal_mutex_init_fr K mutex =
     (if \<not> mutex then failed QC_OSAL_EINVAL
      else do {
        x \<leftarrow> kcall (xSemaphoreCreateMutex K);
        if x = 0 then failed QC_OSAL_ENOMEM else opened x
      })"

definition qc_osal_mutex_lock_fr :: "'k freertos \<Rightarrow> ptr \<Rightarrow> u32 \<Rightarrow> (('k, 'z) fr_st_scheme, int) state" where
  "qc_osal_mutex_lock_fr K mutex timeout_ms =
     (if mutex = 0 then State_Monad.return (- QC_OSAL_EINVAL)
      else do {
        r \<leftarrow> kcall (\<lambda>k. xSemaphoreTake K k mutex (ticks_of K timeout_ms));
        State_Monad.return (if r \<noteq> pdTRUE then - QC_OSAL_ETIMEDOUT else 0)
      })"

definition qc_osal_mutex_unlock_fr :: "'k freertos \<Rightarrow> ptr \<Rightarrow> (('k, 'z) fr_st_scheme, int) state" where
  "qc_osal_mutex_unlock_fr K mutex =
     (if mutex = 0 then State_Monad.return (- QC_OSAL_EINVAL)
      else do {
        r \<leftarrow> kcall (\<lambda>k. xSemaphoreGive K k mutex);
        State_Monad.return (if r \<noteq> pdTRUE then - QC_OSAL_EIO else 0)
      })"

definition qc_osal_sem_init_fr :: "'k freertos \<Rightarrow> bool \<Rightarrow> u32 \<Rightarrow> u32 \<Rightarrow> (('k, 'z) fr_st_scheme, init_result) state" where
  "qc_osal_sem_init_fr K sem initial_count max_count =
     (if \<not> sem then failed QC_OSAL_EINVAL
      else do {
        x \<leftarrow> kcall (\<lambda>k. xSemaphoreCreateCounting K k max_count initial_count);
        if x = 0 then failed QC_OSAL_ENOMEM else opened x
      })"

definition qc_osal_sem_take_fr :: "'k freertos \<Rightarrow> ptr \<Rightarrow> u32 \<Rightarrow> (('k, 'z) fr_st_scheme, int) state" where
  "qc_osal_sem_take_fr K sem timeout_ms =
     (if sem = 0 then State_Monad.return (- QC_OSAL_EINVAL)
      else do {
        r \<leftarrow> kcall (\<lambda>k. xSemaphoreTake K k sem (ticks_of K timeout_ms));
        State_Monad.return (if r \<noteq> pdTRUE then - QC_OSAL_ETIMEDOUT else 0)
      })"

definition qc_osal_sem_give_fr :: "'k freertos \<Rightarrow> ptr \<Rightarrow> (('k, 'z) fr_st_scheme, int) state" where
  "qc_osal_sem_give_fr K sem =
     (if sem = 0 then State_Monad.return (- QC_OSAL_EINVAL)
      else do {
        r \<leftarrow> kcall (\<lambda>k. xSemaphoreGive K k sem);
        State_Monad.return (if r \<noteq> pdTRUE then - QC_OSAL_EIO else 0)
      })"

section \<open>Time\<close>

definition qc_osal_msleep_fr :: "'k freertos \<Rightarrow> u32 \<Rightarrow> (('k, 'z) fr_st_scheme, unit) state" where
  "qc_osal_msleep_fr K ms = kdo (\<lambda>k. vTaskDelay K k (pdMS_TO_TICKS K ms))"

text \<open>\<open>while (count--)\<close>.\<close>

primrec busy_wait :: "'k freertos \<Rightarrow> nat \<Rightarrow> (('k, 'z) fr_st_scheme, unit) state" where
  "busy_wait K 0 = State_Monad.return ()"
| "busy_wait K (Suc count) = do { kdo (nop K); busy_wait K count }"

definition qc_osal_usleep_fr :: "'k freertos \<Rightarrow> u32 \<Rightarrow> (('k, 'z) fr_st_scheme, unit) state" where
  "qc_osal_usleep_fr K us = do {
     when_m (us \<ge> 1000) (kdo (\<lambda>k. vTaskDelay K k (pdMS_TO_TICKS K (us div 1000))));
     let us' = (if us \<ge> 1000 then us mod 1000 else us);
     when_m (us' > 0) (busy_wait K (unat (us' * (configCPU_CLOCK_HZ K div 1000000))))
   }"

definition qc_osal_uptime_get_ms_fr :: "'k freertos \<Rightarrow> (('k, 'z) fr_st_scheme, u32) state" where
  "qc_osal_uptime_get_ms_fr K = gets (\<lambda>s. xTaskGetTickCount K (kernel s) * portTICK_PERIOD_MS K)"

section \<open>Logging\<close>

definition log_level_str :: "string list" where
  "log_level_str = [''ERR'', ''WRN'', ''INF'', ''DBG'']"

definition qc_osal_log_set_level :: "nat \<Rightarrow> (('k, 'z) fr_st_scheme, unit) state" where
  "qc_osal_log_set_level level = modify (\<lambda>s. s\<lparr>g_log_level := level\<rparr>)"

definition qc_osal_log_get_level :: "(('k, 'z) fr_st_scheme, nat) state" where
  "qc_osal_log_get_level = gets g_log_level"

text \<open>
  \<open>msg\<close> is what \<open>vsnprintf\<close> makes of the format and its arguments. The buffer has 256 bytes, one for the
  terminating zero.
\<close>

definition qc_osal_log_fr :: "'k freertos \<Rightarrow> nat \<Rightarrow> string \<Rightarrow> (('k, 'z) fr_st_scheme, unit) state" where
  "qc_osal_log_fr K level msg = do {
     g \<leftarrow> gets g_log_level;
     if level > g then State_Monad.return ()
     else if level \<ge> length log_level_str then os_ub
     else do {
       let head = ''['' @ log_level_str ! level @ ''] '';
       let buf = head @ take (255 - length head) msg;
       kdo (\<lambda>k. console K k (buf @ [CHR 0x0D, CHR 0x0A]))
     }
   }"

section \<open>Memory\<close>

definition qc_osal_malloc_fr :: "'k freertos \<Rightarrow> u32 \<Rightarrow> (('k, 'z) fr_st_scheme, ptr) state" where
  "qc_osal_malloc_fr K n = kcall (\<lambda>k. pvPortMalloc K k n)"

definition qc_osal_free_fr :: "'k freertos \<Rightarrow> ptr \<Rightarrow> (('k, 'z) fr_st_scheme, unit) state" where
  "qc_osal_free_fr K p = kdo (\<lambda>k. vPortFree K k p)"

section \<open>Work queues\<close>

text \<open>A work item is queued as its address.\<close>

definition enc_ptr :: "ptr \<Rightarrow> bytes" where
  "enc_ptr = bytes_le32"

text \<open>One turn of the loop of \<open>work_queue_task\<close>, and the loop for at most \<open>n\<close> turns; it ends with the task.\<close>

definition work_queue_turn ::
  "'k freertos \<Rightarrow> (ptr \<Rightarrow> ptr \<Rightarrow> (('k, 'z) fr_st_scheme, unit) state) \<Rightarrow> ptr \<Rightarrow> (('k, 'z) fr_st_scheme, unit) state" where
  "work_queue_turn K user work_q = do {
     q \<leftarrow> deref fr_work_qs no_work_q work_q;
     (r, item) \<leftarrow> kcall (\<lambda>k. xQueueReceive K k (wq_queue q) (portMAX_DELAY K));
     when_m (r = pdTRUE) (do {
       let w = le32 item;
       when_m (w \<noteq> 0) (do {
         x \<leftarrow> deref fr_works no_work w;
         when_m (work_handler x \<noteq> 0) (call_user user (work_handler x) w)
       })
     })
   }"

primrec work_queue_task ::
  "'k freertos \<Rightarrow> (ptr \<Rightarrow> ptr \<Rightarrow> (('k, 'z) fr_st_scheme, unit) state) \<Rightarrow> nat \<Rightarrow> ptr \<Rightarrow> (('k, 'z) fr_st_scheme, unit) state" where
  "work_queue_task K user 0 work_q = State_Monad.return ()"
| "work_queue_task K user (Suc n) work_q = do {
     q \<leftarrow> deref fr_work_qs no_work_q work_q;
     if wq_running q \<noteq> 0 then do { work_queue_turn K user work_q; work_queue_task K user n work_q }
     else kdo (\<lambda>k. vTaskDelete K k 0)
   }"

definition qc_osal_work_init_fr :: "'k freertos \<Rightarrow> bool \<Rightarrow> ptr \<Rightarrow> (('k, 'z) fr_st_scheme, init_result) state" where
  "qc_osal_work_init_fr K work handler =
     (if \<not> work \<or> handler = 0 then failed QC_OSAL_EINVAL
      else do {
        w \<leftarrow> kcall (\<lambda>k. pvPortMalloc K k sizeof_fr_work);
        if w = 0 then failed QC_OSAL_ENOMEM
        else do {
          modify (\<lambda>s. s\<lparr>fr_works := (fr_works s)(w \<mapsto> \<lparr>work_handler = handler, work_data = 0\<rparr>)\<rparr>);
          opened w
        }
      })"

text \<open>
  The task is created with the handle field of the wrapper as out-parameter. A wrapper that is freed is a
  structure no more.
\<close>

definition free_work_q :: "'k freertos \<Rightarrow> ptr \<Rightarrow> (('k, 'z) fr_st_scheme, unit) state" where
  "free_work_q K w = do {
     kdo (\<lambda>k. vPortFree K k w);
     modify (\<lambda>s. s\<lparr>fr_work_qs := (fr_work_qs s)(w := None)\<rparr>)
   }"

definition qc_osal_work_queue_init_fr :: "'k freertos \<Rightarrow> bool \<Rightarrow> u32 \<Rightarrow> int \<Rightarrow> (('k, 'z) fr_st_scheme, init_result) state" where
  "qc_osal_work_queue_init_fr K work_q stack_size priority =
     (if \<not> work_q then failed QC_OSAL_EINVAL
      else do {
        w \<leftarrow> kcall (\<lambda>k. pvPortMalloc K k sizeof_fr_work_q);
        if w = 0 then failed QC_OSAL_ENOMEM
        else do {
          q \<leftarrow> kcall (\<lambda>k. xQueueCreate K k 16 4);
          if q = 0 then do { free_work_q K w; failed QC_OSAL_ENOMEM }
          else do {
            modify (\<lambda>s. s\<lparr>fr_work_qs := (fr_work_qs s)(w \<mapsto> \<lparr>wq_queue = q, wq_task = 0, wq_running = 1\<rparr>)\<rparr>);
            (r, t) \<leftarrow> kcall (\<lambda>k. xTaskCreate K k Work_Queue_Task ''work_queue''
                              (stack_size div sizeof_StackType K) w priority);
            if r \<noteq> pdPASS then do {
              kdo (\<lambda>k. vQueueDelete K k q);
              free_work_q K w;
              failed QC_OSAL_ENOMEM
            } else do {
              modify (\<lambda>s. s\<lparr>fr_work_qs := (fr_work_qs s)(w \<mapsto> \<lparr>wq_queue = q, wq_task = t, wq_running = 1\<rparr>)\<rparr>);
              opened w
            }
          }
        }
      })"

definition qc_osal_work_submit_fr :: "'k freertos \<Rightarrow> ptr \<Rightarrow> ptr \<Rightarrow> (('k, 'z) fr_st_scheme, int) state" where
  "qc_osal_work_submit_fr K work_q work =
     (if work_q = 0 \<or> work = 0 then State_Monad.return (- QC_OSAL_EINVAL)
      else do {
        q \<leftarrow> deref fr_work_qs no_work_q work_q;
        isr \<leftarrow> gets (\<lambda>s. xPortIsInsideInterrupt K (kernel s));
        r \<leftarrow> (if isr then do {
                (r, woken) \<leftarrow> kcall (\<lambda>k. xQueueSendFromISR K k (wq_queue q) (enc_ptr work));
                kdo (\<lambda>k. portYIELD_FROM_ISR K k woken);
                State_Monad.return r
              } else kcall (\<lambda>k. xQueueSend K k (wq_queue q) (enc_ptr work) 0));
        State_Monad.return (if r \<noteq> pdTRUE then - QC_OSAL_EAGAIN else 0)
      })"

section \<open>Message queues\<close>

definition qc_osal_queue_init_fr :: "'k freertos \<Rightarrow> bool \<Rightarrow> u32 \<Rightarrow> u32 \<Rightarrow> (('k, 'z) fr_st_scheme, init_result) state" where
  "qc_osal_queue_init_fr K queue max_msgs msg_size =
     (if \<not> queue \<or> max_msgs = 0 \<or> msg_size = 0 then failed QC_OSAL_EINVAL
      else do {
        w \<leftarrow> kcall (\<lambda>k. pvPortMalloc K k sizeof_fr_queue);
        if w = 0 then failed QC_OSAL_ENOMEM
        else do {
          q \<leftarrow> kcall (\<lambda>k. xQueueCreate K k max_msgs msg_size);
          if q = 0 then do { kdo (\<lambda>k. vPortFree K k w); failed QC_OSAL_ENOMEM }
          else do {
            modify (\<lambda>s. s\<lparr>fr_queues := (fr_queues s)(w \<mapsto> \<lparr>queue_handle = q, queue_msg_size = msg_size\<rparr>)\<rparr>);
            opened w
          }
        }
      })"

text \<open>The test \<open>!wrapper || !wrapper->queue_handle || ...\<close>: \<open>None\<close> where the arguments are invalid.\<close>

definition queue_of_fr :: "ptr \<Rightarrow> bool \<Rightarrow> (('k, 'z) fr_st_scheme, ptr option) state" where
  "queue_of_fr queue msg_ok =
     (if queue = 0 then State_Monad.return None
      else do {
        q \<leftarrow> deref fr_queues no_queue queue;
        State_Monad.return (if queue_handle q = 0 \<or> \<not> msg_ok then None else Some (queue_handle q))
      })"

definition qc_osal_queue_send_fr :: "'k freertos \<Rightarrow> ptr \<Rightarrow> bytes option \<Rightarrow> u32 \<Rightarrow> (('k, 'z) fr_st_scheme, int) state" where
  "qc_osal_queue_send_fr K queue msg timeout_ms = do {
     q \<leftarrow> queue_of_fr queue (msg \<noteq> None);
     case q of
       None \<Rightarrow> State_Monad.return (- QC_OSAL_EINVAL)
     | Some q \<Rightarrow> do {
         r \<leftarrow> kcall (\<lambda>k. xQueueSend K k q (the msg) (ticks_of K timeout_ms));
         State_Monad.return (if r \<noteq> pdTRUE then - QC_OSAL_ETIMEDOUT else 0)
       }
   }"

text \<open>The message is what the caller's buffer receives.\<close>

definition qc_osal_queue_recv_fr ::
  "'k freertos \<Rightarrow> ptr \<Rightarrow> bool \<Rightarrow> u32 \<Rightarrow> (('k, 'z) fr_st_scheme, int \<times> bytes option) state" where
  "qc_osal_queue_recv_fr K queue msg timeout_ms = do {
     q \<leftarrow> queue_of_fr queue msg;
     case q of
       None \<Rightarrow> State_Monad.return (- QC_OSAL_EINVAL, None)
     | Some q \<Rightarrow> do {
         (r, item) \<leftarrow> kcall (\<lambda>k. xQueueReceive K k q (ticks_of K timeout_ms));
         State_Monad.return (if r \<noteq> pdTRUE then (- QC_OSAL_ETIMEDOUT, None) else (0, Some item))
       }
   }"

definition qc_osal_queue_get_count_fr :: "'k freertos \<Rightarrow> ptr \<Rightarrow> (('k, 'z) fr_st_scheme, int) state" where
  "qc_osal_queue_get_count_fr K queue = do {
     q \<leftarrow> queue_of_fr queue True;
     case q of
       None \<Rightarrow> State_Monad.return (- QC_OSAL_EINVAL)
     | Some q \<Rightarrow> gets (\<lambda>s. sint (uxQueueMessagesWaiting K (kernel s) q))
   }"

definition qc_osal_queue_send_from_isr_fr :: "'k freertos \<Rightarrow> ptr \<Rightarrow> bytes option \<Rightarrow> (('k, 'z) fr_st_scheme, int) state" where
  "qc_osal_queue_send_from_isr_fr K queue msg = do {
     q \<leftarrow> queue_of_fr queue (msg \<noteq> None);
     case q of
       None \<Rightarrow> State_Monad.return (- QC_OSAL_EINVAL)
     | Some q \<Rightarrow> do {
         (r, woken) \<leftarrow> kcall (\<lambda>k. xQueueSendFromISR K k q (the msg));
         kdo (\<lambda>k. portYIELD_FROM_ISR K k woken);
         State_Monad.return (if r \<noteq> pdTRUE then - QC_OSAL_EAGAIN else 0)
       }
   }"

section \<open>Threads\<close>

text \<open>\<open>struct qc_osal_thread_config\<close>: no name is \<open>None\<close>.\<close>

record thread_config =
  cfg_name :: "string option"
  cfg_stack_size :: u32
  cfg_priority :: int
  cfg_entry :: ptr
  cfg_arg :: ptr

definition thread_entry_adapter_fr ::
  "'k freertos \<Rightarrow> (ptr \<Rightarrow> ptr \<Rightarrow> (('k, 'z) fr_st_scheme, unit) state) \<Rightarrow> ptr \<Rightarrow> (('k, 'z) fr_st_scheme, unit) state" where
  "thread_entry_adapter_fr K user wrapper = do {
     when_m (wrapper \<noteq> 0) (do {
       t \<leftarrow> deref fr_threads no_thread wrapper;
       when_m (thread_entry t \<noteq> 0) (call_user user (thread_entry t) (thread_arg t))
     });
     kdo (\<lambda>k. vTaskDelete K k 0)
   }"

definition free_thread :: "'k freertos \<Rightarrow> ptr \<Rightarrow> (('k, 'z) fr_st_scheme, unit) state" where
  "free_thread K w = do {
     kdo (\<lambda>k. vPortFree K k w);
     modify (\<lambda>s. s\<lparr>fr_threads := (fr_threads s)(w := None)\<rparr>)
   }"

definition qc_osal_thread_create_fr ::
  "'k freertos \<Rightarrow> bool \<Rightarrow> thread_config option \<Rightarrow> (('k, 'z) fr_st_scheme, init_result) state" where
  "qc_osal_thread_create_fr K thread config =
     (case config of
        None \<Rightarrow> failed QC_OSAL_EINVAL
      | Some c \<Rightarrow>
          if \<not> thread \<or> cfg_entry c = 0 then failed QC_OSAL_EINVAL
          else do {
            w \<leftarrow> kcall (\<lambda>k. pvPortMalloc K k sizeof_fr_thread);
            if w = 0 then failed QC_OSAL_ENOMEM
            else do {
              modify (\<lambda>s. s\<lparr>fr_threads := (fr_threads s)(w \<mapsto> \<lparr>task_handle = 0, thread_stack = 0,
                thread_entry = cfg_entry c, thread_arg = cfg_arg c\<rparr>)\<rparr>);
              (r, t) \<leftarrow> kcall (\<lambda>k. xTaskCreate K k Thread_Entry_Adapter
                                (case cfg_name c of None \<Rightarrow> ''thread'' | Some n \<Rightarrow> n)
                                (cfg_stack_size c div sizeof_StackType K) w (cfg_priority c));
              if r \<noteq> pdPASS then do { free_thread K w; failed QC_OSAL_ENOMEM }
              else do {
                modify (\<lambda>s. s\<lparr>fr_threads := (fr_threads s)(w \<mapsto> \<lparr>task_handle = t, thread_stack = 0,
                  thread_entry = cfg_entry c, thread_arg = cfg_arg c\<rparr>)\<rparr>);
                opened w
              }
            }
          })"

definition qc_osal_thread_delete_fr :: "'k freertos \<Rightarrow> ptr \<Rightarrow> (('k, 'z) fr_st_scheme, int) state" where
  "qc_osal_thread_delete_fr K thread =
     (if thread = 0 then State_Monad.return (- QC_OSAL_EINVAL)
      else do {
        t \<leftarrow> deref fr_threads no_thread thread;
        if task_handle t = 0 then State_Monad.return (- QC_OSAL_EINVAL)
        else do {
          kdo (\<lambda>k. vTaskDelete K k (task_handle t));
          free_thread K thread;
          State_Monad.return 0
        }
      })"

definition qc_osal_thread_yield_fr :: "'k freertos \<Rightarrow> (('k, 'z) fr_st_scheme, unit) state" where
  "qc_osal_thread_yield_fr K = kdo (taskYIELD K)"

end
