(* ===== verification/Os_Zephyr.thy ===== *)
theory Os_Zephyr
  imports Os_Freertos
begin

text \<open>
  The Zephyr port of the OS abstraction layer,
  \<open>src/qcspi_app/qcc730_host/Port/osal/zephyr/qc_osal_zephyr.c\<close>. Zephyr is a parameter, the record
  \<open>zephyr\<close>; its error numbers, which depend on the C library, are the record \<open>errnos\<close>. Names that the
  FreeRTOS port has too end in \<open>_z\<close>.
\<close>

section \<open>Errors\<close>

record errnos =
  e_inval :: int
  e_nomem :: int
  e_nodev :: int
  e_again :: int
  e_timedout :: int
  e_msgsize :: int
  e_already :: int
  e_2big :: int
  e_io :: int
  e_busy :: int
  e_notsup :: int

definition zephyr_errno_to_osal :: "errnos \<Rightarrow> int \<Rightarrow> int" where
  "zephyr_errno_to_osal E e =
     (if e = 0 then 0
      else if e = e_inval E then - QC_OSAL_EINVAL
      else if e = e_nomem E then - QC_OSAL_ENOMEM
      else if e = e_nodev E then - QC_OSAL_ENODEV
      else if e = e_again E then - QC_OSAL_EAGAIN
      else if e = e_timedout E then - QC_OSAL_ETIMEDOUT
      else if e = e_msgsize E then - QC_OSAL_EMSGSIZE
      else if e = e_already E then - QC_OSAL_EALREADY
      else if e = e_2big E then - QC_OSAL_E2BIG
      else if e = e_io E then - QC_OSAL_EIO
      else if e = e_busy E then - QC_OSAL_EBUSY
      else if e = e_notsup E then - QC_OSAL_ENOTSUP
      else - QC_OSAL_EIO)"

definition osal_to_zephyr_errno :: "errnos \<Rightarrow> int \<Rightarrow> int" where
  "osal_to_zephyr_errno E x =
     (if x = 0 then 0
      else if - x = QC_OSAL_EINVAL then e_inval E
      else if - x = QC_OSAL_ENOMEM then e_nomem E
      else if - x = QC_OSAL_ENODEV then e_nodev E
      else if - x = QC_OSAL_EAGAIN then e_again E
      else if - x = QC_OSAL_ETIMEDOUT then e_timedout E
      else if - x = QC_OSAL_EMSGSIZE then e_msgsize E
      else if - x = QC_OSAL_EALREADY then e_already E
      else if - x = QC_OSAL_E2BIG then e_2big E
      else if - x = QC_OSAL_EIO then e_io E
      else if - x = QC_OSAL_EBUSY then e_busy E
      else if - x = QC_OSAL_ENOTSUP then e_notsup E
      else e_io E)"

section \<open>The kernel\<close>

datatype k_timeout = K_FOREVER | K_NO_WAIT | K_MSEC u32

text \<open>
  The objects of Zephyr live in memory of the caller and are known by their address; those embedded in a
  wrapper are its first member and have its address. \<open>log_at\<close> is the output of the logging macros.
\<close>

datatype log_macro = LOG_ERR | LOG_WRN | LOG_INF | LOG_DBG

record 'k zephyr =
  k_malloc :: "'k \<Rightarrow> u32 \<Rightarrow> ptr \<times> 'k"
  k_free :: "'k \<Rightarrow> ptr \<Rightarrow> 'k"
  k_mutex_init :: "'k \<Rightarrow> ptr \<Rightarrow> int \<times> 'k"
  k_mutex_lock :: "'k \<Rightarrow> ptr \<Rightarrow> k_timeout \<Rightarrow> int \<times> 'k"
  k_mutex_unlock :: "'k \<Rightarrow> ptr \<Rightarrow> int \<times> 'k"
  k_sem_init :: "'k \<Rightarrow> ptr \<Rightarrow> u32 \<Rightarrow> u32 \<Rightarrow> int \<times> 'k"
  k_sem_take :: "'k \<Rightarrow> ptr \<Rightarrow> k_timeout \<Rightarrow> int \<times> 'k"
  k_sem_give :: "'k \<Rightarrow> ptr \<Rightarrow> 'k"
  k_msgq_init :: "'k \<Rightarrow> ptr \<Rightarrow> ptr \<Rightarrow> u32 \<Rightarrow> u32 \<Rightarrow> 'k"
  k_msgq_put :: "'k \<Rightarrow> ptr \<Rightarrow> bytes \<Rightarrow> k_timeout \<Rightarrow> int \<times> 'k"
  k_msgq_get :: "'k \<Rightarrow> ptr \<Rightarrow> k_timeout \<Rightarrow> (int \<times> bytes) \<times> 'k"
  k_msgq_num_used_get :: "'k \<Rightarrow> ptr \<Rightarrow> u32"
  k_thread_create :: "'k \<Rightarrow> ptr \<Rightarrow> ptr \<Rightarrow> u32 \<Rightarrow> ptr \<Rightarrow> int \<Rightarrow> ptr \<times> 'k"
  k_thread_name_set :: "'k \<Rightarrow> ptr \<Rightarrow> string \<Rightarrow> 'k"
  k_thread_abort :: "'k \<Rightarrow> ptr \<Rightarrow> 'k"
  k_yield :: "'k \<Rightarrow> 'k"
  k_work_init :: "'k \<Rightarrow> ptr \<Rightarrow> 'k"
  k_work_queue_init :: "'k \<Rightarrow> ptr \<Rightarrow> 'k"
  k_work_queue_start :: "'k \<Rightarrow> ptr \<Rightarrow> ptr \<Rightarrow> u32 \<Rightarrow> int \<Rightarrow> 'k"
  k_work_submit_to_queue :: "'k \<Rightarrow> ptr \<Rightarrow> ptr \<Rightarrow> int \<times> 'k"
  k_msleep :: "'k \<Rightarrow> u32 \<Rightarrow> 'k"
  k_usleep :: "'k \<Rightarrow> u32 \<Rightarrow> 'k"
  k_uptime_get_32 :: "'k \<Rightarrow> u32"
  log_at :: "'k \<Rightarrow> log_macro \<Rightarrow> string \<Rightarrow> 'k"
  sizeof_k_mutex :: u32
  sizeof_k_sem :: u32
  sizeof_queue_wrapper :: u32
  sizeof_thread_wrapper :: u32
  sizeof_work_wrapper :: u32
  sizeof_work_q_wrapper :: u32

section \<open>The wrapper structures\<close>

record z_queue =
  zq_buffer :: ptr
  zq_msg_size :: u32
  zq_max_msgs :: u32

record z_thread =
  zt_stack :: ptr
  zt_entry :: ptr
  zt_arg :: ptr

record 'k z_st = "'k os_st" +
  z_queues :: "ptr \<Rightarrow> z_queue option"
  z_threads :: "ptr \<Rightarrow> z_thread option"
  z_works :: "ptr \<Rightarrow> ptr option"
  z_work_qs :: "ptr \<Rightarrow> ptr option"

abbreviation no_zthread :: z_thread where "no_zthread \<equiv> \<lparr>zt_stack = 0, zt_entry = 0, zt_arg = 0\<rparr>"

text \<open>\<open>z_works\<close> holds the user's handler of a work item, \<open>z_work_qs\<close> the stack of a work queue.\<close>

definition timeout_of :: "u32 \<Rightarrow> k_timeout" where
  "timeout_of timeout_ms = (if sint timeout_ms < 0 then K_FOREVER
     else if timeout_ms = 0 then K_NO_WAIT else K_MSEC timeout_ms)"

text \<open>\<open>if (ret < 0) return zephyr_errno_to_osal(-ret); return 0;\<close>\<close>

definition osal_result :: "errnos \<Rightarrow> int \<Rightarrow> int" where
  "osal_result E r = (if r < 0 then zephyr_errno_to_osal E (- r) else 0)"

section \<open>Mutexes and semaphores\<close>

definition qc_osal_mutex_init_z :: "'k zephyr \<Rightarrow> errnos \<Rightarrow> bool \<Rightarrow> (('k, 'z) z_st_scheme, init_result) state" where
  "qc_osal_mutex_init_z K E mutex =
     (if \<not> mutex then failed QC_OSAL_EINVAL
      else do {
        m \<leftarrow> kcall (\<lambda>k. k_malloc K k (sizeof_k_mutex K));
        if m = 0 then failed QC_OSAL_ENOMEM
        else do {
          r \<leftarrow> kcall (\<lambda>k. k_mutex_init K k m);
          if r < 0 then do { kdo (\<lambda>k. k_free K k m); State_Monad.return (zephyr_errno_to_osal E (- r), None) }
          else opened m
        }
      })"

definition qc_osal_mutex_lock_z :: "'k zephyr \<Rightarrow> errnos \<Rightarrow> ptr \<Rightarrow> u32 \<Rightarrow> (('k, 'z) z_st_scheme, int) state" where
  "qc_osal_mutex_lock_z K E mutex timeout_ms =
     (if mutex = 0 then State_Monad.return (- QC_OSAL_EINVAL)
      else do {
        r \<leftarrow> kcall (\<lambda>k. k_mutex_lock K k mutex (timeout_of timeout_ms));
        State_Monad.return (osal_result E r)
      })"

definition qc_osal_mutex_unlock_z :: "'k zephyr \<Rightarrow> errnos \<Rightarrow> ptr \<Rightarrow> (('k, 'z) z_st_scheme, int) state" where
  "qc_osal_mutex_unlock_z K E mutex =
     (if mutex = 0 then State_Monad.return (- QC_OSAL_EINVAL)
      else do {
        r \<leftarrow> kcall (\<lambda>k. k_mutex_unlock K k mutex);
        State_Monad.return (osal_result E r)
      })"

definition qc_osal_sem_init_z :: "'k zephyr \<Rightarrow> errnos \<Rightarrow> bool \<Rightarrow> u32 \<Rightarrow> u32 \<Rightarrow> (('k, 'z) z_st_scheme, init_result) state" where
  "qc_osal_sem_init_z K E sem initial_count max_count =
     (if \<not> sem then failed QC_OSAL_EINVAL
      else do {
        p \<leftarrow> kcall (\<lambda>k. k_malloc K k (sizeof_k_sem K));
        if p = 0 then failed QC_OSAL_ENOMEM
        else do {
          r \<leftarrow> kcall (\<lambda>k. k_sem_init K k p initial_count max_count);
          if r < 0 then do { kdo (\<lambda>k. k_free K k p); State_Monad.return (zephyr_errno_to_osal E (- r), None) }
          else opened p
        }
      })"

definition qc_osal_sem_take_z :: "'k zephyr \<Rightarrow> errnos \<Rightarrow> ptr \<Rightarrow> u32 \<Rightarrow> (('k, 'z) z_st_scheme, int) state" where
  "qc_osal_sem_take_z K E sem timeout_ms =
     (if sem = 0 then State_Monad.return (- QC_OSAL_EINVAL)
      else do {
        r \<leftarrow> kcall (\<lambda>k. k_sem_take K k sem (timeout_of timeout_ms));
        State_Monad.return (osal_result E r)
      })"

definition qc_osal_sem_give_z :: "'k zephyr \<Rightarrow> ptr \<Rightarrow> (('k, 'z) z_st_scheme, int) state" where
  "qc_osal_sem_give_z K sem =
     (if sem = 0 then State_Monad.return (- QC_OSAL_EINVAL)
      else do { kdo (\<lambda>k. k_sem_give K k sem); State_Monad.return 0 })"

section \<open>Time, logging and memory\<close>

definition qc_osal_msleep_z :: "'k zephyr \<Rightarrow> u32 \<Rightarrow> (('k, 'z) z_st_scheme, unit) state" where
  "qc_osal_msleep_z K ms = kdo (\<lambda>k. k_msleep K k ms)"

definition qc_osal_usleep_z :: "'k zephyr \<Rightarrow> u32 \<Rightarrow> (('k, 'z) z_st_scheme, unit) state" where
  "qc_osal_usleep_z K us = kdo (\<lambda>k. k_usleep K k us)"

definition qc_osal_uptime_get_ms_z :: "'k zephyr \<Rightarrow> (('k, 'z) z_st_scheme, u32) state" where
  "qc_osal_uptime_get_ms_z K = gets (\<lambda>s. k_uptime_get_32 K (kernel s))"

definition qc_osal_log_z :: "'k zephyr \<Rightarrow> nat \<Rightarrow> string \<Rightarrow> (('k, 'z) z_st_scheme, unit) state" where
  "qc_osal_log_z K level msg = (let buf = take 255 msg in
     if level = QC_OSAL_LOG_LEVEL_ERR then kdo (\<lambda>k. log_at K k LOG_ERR buf)
     else if level = QC_OSAL_LOG_LEVEL_WRN then kdo (\<lambda>k. log_at K k LOG_WRN buf)
     else if level = QC_OSAL_LOG_LEVEL_INF then kdo (\<lambda>k. log_at K k LOG_INF buf)
     else if level = QC_OSAL_LOG_LEVEL_DBG then kdo (\<lambda>k. log_at K k LOG_DBG buf)
     else State_Monad.return ())"

definition qc_osal_malloc_z :: "'k zephyr \<Rightarrow> u32 \<Rightarrow> (('k, 'z) z_st_scheme, ptr) state" where
  "qc_osal_malloc_z K n = kcall (\<lambda>k. k_malloc K k n)"

definition qc_osal_free_z :: "'k zephyr \<Rightarrow> ptr \<Rightarrow> (('k, 'z) z_st_scheme, unit) state" where
  "qc_osal_free_z K p = kdo (\<lambda>k. k_free K k p)"

section \<open>Message queues\<close>

text \<open>The size of the buffer is a product of 32-bit numbers.\<close>

definition qc_osal_queue_init_z :: "'k zephyr \<Rightarrow> bool \<Rightarrow> u32 \<Rightarrow> u32 \<Rightarrow> (('k, 'z) z_st_scheme, init_result) state" where
  "qc_osal_queue_init_z K queue max_msgs msg_size =
     (if \<not> queue \<or> max_msgs = 0 \<or> msg_size = 0 then failed QC_OSAL_EINVAL
      else do {
        w \<leftarrow> kcall (\<lambda>k. k_malloc K k (sizeof_queue_wrapper K));
        if w = 0 then failed QC_OSAL_ENOMEM
        else do {
          b \<leftarrow> kcall (\<lambda>k. k_malloc K k (max_msgs * msg_size));
          if b = 0 then do { kdo (\<lambda>k. k_free K k w); failed QC_OSAL_ENOMEM }
          else do {
            modify (\<lambda>s. s\<lparr>z_queues := (z_queues s)(w \<mapsto> \<lparr>zq_buffer = b, zq_msg_size = msg_size, zq_max_msgs = max_msgs\<rparr>)\<rparr>);
            kdo (\<lambda>k. k_msgq_init K k w b msg_size max_msgs);
            opened w
          }
        }
      })"

definition qc_osal_queue_send_z :: "'k zephyr \<Rightarrow> ptr \<Rightarrow> bytes option \<Rightarrow> u32 \<Rightarrow> (('k, 'z) z_st_scheme, int) state" where
  "qc_osal_queue_send_z K queue msg timeout_ms =
     (if queue = 0 \<or> msg = None then State_Monad.return (- QC_OSAL_EINVAL)
      else do {
        r \<leftarrow> kcall (\<lambda>k. k_msgq_put K k queue (the msg) (timeout_of timeout_ms));
        State_Monad.return (if r \<noteq> 0 then - QC_OSAL_ETIMEDOUT else 0)
      })"

definition qc_osal_queue_recv_z ::
  "'k zephyr \<Rightarrow> ptr \<Rightarrow> bool \<Rightarrow> u32 \<Rightarrow> (('k, 'z) z_st_scheme, int \<times> bytes option) state" where
  "qc_osal_queue_recv_z K queue msg timeout_ms =
     (if queue = 0 \<or> \<not> msg then State_Monad.return (- QC_OSAL_EINVAL, None)
      else do {
        (r, item) \<leftarrow> kcall (\<lambda>k. k_msgq_get K k queue (timeout_of timeout_ms));
        State_Monad.return (if r \<noteq> 0 then (- QC_OSAL_ETIMEDOUT, None) else (0, Some item))
      })"

definition qc_osal_queue_get_count_z :: "'k zephyr \<Rightarrow> ptr \<Rightarrow> (('k, 'z) z_st_scheme, int) state" where
  "qc_osal_queue_get_count_z K queue =
     (if queue = 0 then State_Monad.return (- QC_OSAL_EINVAL)
      else gets (\<lambda>s. sint (k_msgq_num_used_get K (kernel s) queue)))"

definition qc_osal_queue_send_from_isr_z :: "'k zephyr \<Rightarrow> ptr \<Rightarrow> bytes option \<Rightarrow> (('k, 'z) z_st_scheme, int) state" where
  "qc_osal_queue_send_from_isr_z K queue msg =
     (if queue = 0 \<or> msg = None then State_Monad.return (- QC_OSAL_EINVAL)
      else do {
        r \<leftarrow> kcall (\<lambda>k. k_msgq_put K k queue (the msg) K_NO_WAIT);
        State_Monad.return (if r \<noteq> 0 then - QC_OSAL_EAGAIN else 0)
      })"

section \<open>Threads\<close>

definition thread_entry_adapter_z ::
  "(ptr \<Rightarrow> ptr \<Rightarrow> (('k, 'z) z_st_scheme, unit) state) \<Rightarrow> ptr \<Rightarrow> (('k, 'z) z_st_scheme, unit) state" where
  "thread_entry_adapter_z user wrapper =
     when_m (wrapper \<noteq> 0) (do {
       t \<leftarrow> deref z_threads no_zthread wrapper;
       when_m (zt_entry t \<noteq> 0) (call_user user (zt_entry t) (zt_arg t))
     })"

definition free_zthread :: "'k zephyr \<Rightarrow> ptr \<Rightarrow> ptr \<Rightarrow> (('k, 'z) z_st_scheme, unit) state" where
  "free_zthread K stack w = do {
     kdo (\<lambda>k. k_free K k stack);
     kdo (\<lambda>k. k_free K k w);
     modify (\<lambda>s. s\<lparr>z_threads := (z_threads s)(w := None)\<rparr>)
   }"

definition qc_osal_thread_create_z ::
  "'k zephyr \<Rightarrow> bool \<Rightarrow> thread_config option \<Rightarrow> (('k, 'z) z_st_scheme, init_result) state" where
  "qc_osal_thread_create_z K thread config =
     (case config of
        None \<Rightarrow> failed QC_OSAL_EINVAL
      | Some c \<Rightarrow>
          if \<not> thread \<or> cfg_entry c = 0 then failed QC_OSAL_EINVAL
          else if cfg_stack_size c = 0 then failed QC_OSAL_EINVAL
          else do {
            w \<leftarrow> kcall (\<lambda>k. k_malloc K k (sizeof_thread_wrapper K));
            if w = 0 then failed QC_OSAL_ENOMEM
            else do {
              stack \<leftarrow> kcall (\<lambda>k. k_malloc K k (cfg_stack_size c));
              if stack = 0 then do { kdo (\<lambda>k. k_free K k w); failed QC_OSAL_ENOMEM }
              else do {
                modify (\<lambda>s. s\<lparr>z_threads := (z_threads s)(w \<mapsto> \<lparr>zt_stack = stack, zt_entry = cfg_entry c, zt_arg = cfg_arg c\<rparr>)\<rparr>);
                tid \<leftarrow> kcall (\<lambda>k. k_thread_create K k w stack (cfg_stack_size c) w (cfg_priority c));
                if tid = 0 then do { free_zthread K stack w; failed QC_OSAL_ENOMEM }
                else do {
                  (case cfg_name c of None \<Rightarrow> State_Monad.return ()
                   | Some n \<Rightarrow> kdo (\<lambda>k. k_thread_name_set K k tid n));
                  opened w
                }
              }
            }
          })"

definition qc_osal_thread_delete_z :: "'k zephyr \<Rightarrow> ptr \<Rightarrow> (('k, 'z) z_st_scheme, int) state" where
  "qc_osal_thread_delete_z K thread =
     (if thread = 0 then State_Monad.return (- QC_OSAL_EINVAL)
      else do {
        kdo (\<lambda>k. k_thread_abort K k thread);
        t \<leftarrow> deref z_threads no_zthread thread;
        free_zthread K (zt_stack t) thread;
        State_Monad.return 0
      })"

definition qc_osal_thread_yield_z :: "'k zephyr \<Rightarrow> (('k, 'z) z_st_scheme, unit) state" where
  "qc_osal_thread_yield_z K = kdo (k_yield K)"

section \<open>Work queues\<close>

text \<open>The kernel calls this with the address of the work item, which is that of its wrapper.\<close>

definition work_handler_adapter ::
  "(ptr \<Rightarrow> ptr \<Rightarrow> (('k, 'z) z_st_scheme, unit) state) \<Rightarrow> ptr \<Rightarrow> (('k, 'z) z_st_scheme, unit) state" where
  "work_handler_adapter user work = do {
     h \<leftarrow> deref z_works 0 work;
     when_m (h \<noteq> 0) (call_user user h work)
   }"

definition qc_osal_work_init_z :: "'k zephyr \<Rightarrow> bool \<Rightarrow> ptr \<Rightarrow> (('k, 'z) z_st_scheme, init_result) state" where
  "qc_osal_work_init_z K work handler =
     (if \<not> work \<or> handler = 0 then failed QC_OSAL_EINVAL
      else do {
        w \<leftarrow> kcall (\<lambda>k. k_malloc K k (sizeof_work_wrapper K));
        if w = 0 then failed QC_OSAL_ENOMEM
        else do {
          modify (\<lambda>s. s\<lparr>z_works := (z_works s)(w \<mapsto> handler)\<rparr>);
          kdo (\<lambda>k. k_work_init K k w);
          opened w
        }
      })"

definition qc_osal_work_queue_init_z :: "'k zephyr \<Rightarrow> bool \<Rightarrow> u32 \<Rightarrow> int \<Rightarrow> (('k, 'z) z_st_scheme, init_result) state" where
  "qc_osal_work_queue_init_z K work_q stack_size priority =
     (if \<not> work_q then failed QC_OSAL_EINVAL
      else do {
        w \<leftarrow> kcall (\<lambda>k. k_malloc K k (sizeof_work_q_wrapper K));
        if w = 0 then failed QC_OSAL_ENOMEM
        else do {
          stack \<leftarrow> kcall (\<lambda>k. k_malloc K k stack_size);
          if stack = 0 then do { kdo (\<lambda>k. k_free K k w); failed QC_OSAL_ENOMEM }
          else do {
            modify (\<lambda>s. s\<lparr>z_work_qs := (z_work_qs s)(w \<mapsto> stack)\<rparr>);
            kdo (\<lambda>k. k_work_queue_init K k w);
            kdo (\<lambda>k. k_work_queue_start K k w stack stack_size priority);
            opened w
          }
        }
      })"

definition qc_osal_work_submit_z :: "'k zephyr \<Rightarrow> errnos \<Rightarrow> ptr \<Rightarrow> ptr \<Rightarrow> (('k, 'z) z_st_scheme, int) state" where
  "qc_osal_work_submit_z K E work_q work =
     (if work_q = 0 \<or> work = 0 then State_Monad.return (- QC_OSAL_EINVAL)
      else do {
        r \<leftarrow> kcall (\<lambda>k. k_work_submit_to_queue K k work_q work);
        State_Monad.return (osal_result E r)
      })"

end
