(* ===== verification/Os_Contracts.thy ===== *)
theory Os_Contracts
  imports Os_Zephyr
begin

text \<open>
  What the two kernels promise the ports: allocation hands out unused addresses, and a message queue is a
  bounded first-in first-out store. Calls that do not wait are described; a waiting one depends on the
  other threads.
\<close>

section \<open>A bounded queue\<close>

record msgq =
  mq_cap :: nat
  mq_size :: nat
  mq_items :: "bytes list"

definition mq_full :: "msgq \<Rightarrow> bool" where
  "mq_full q \<longleftrightarrow> mq_cap q \<le> length (mq_items q)"

definition mq_put :: "bytes \<Rightarrow> msgq \<Rightarrow> msgq" where
  "mq_put m q = (if mq_full q then q else q\<lparr>mq_items := mq_items q @ [take (mq_size q) m]\<rparr>)"

definition mq_drop :: "msgq \<Rightarrow> msgq" where
  "mq_drop q = q\<lparr>mq_items := tl (mq_items q)\<rparr>"

definition mq_new :: "u32 \<Rightarrow> u32 \<Rightarrow> msgq" where
  "mq_new n d = \<lparr>mq_cap = unat n, mq_size = unat d, mq_items = []\<rparr>"

section \<open>FreeRTOS\<close>

text \<open>The addresses in use, and the queues by their handles.\<close>

record 'k rtos_view =
  live :: "'k \<Rightarrow> ptr set"
  queues_of :: "'k \<Rightarrow> ptr \<Rightarrow> msgq option"

definition allocates :: "'k rtos_view \<Rightarrow> ('k \<Rightarrow> ptr \<times> 'k) \<Rightarrow> bool" where
  "allocates V f \<longleftrightarrow> (\<forall>k p k'. f k = (p, k') \<longrightarrow> queues_of V k' = queues_of V k \<and>
     (if p = 0 then live V k' = live V k else p \<notin> live V k \<and> live V k' = insert p (live V k)))"

definition leaves :: "'k rtos_view \<Rightarrow> ('k \<Rightarrow> 'k) \<Rightarrow> bool" where
  "leaves V f \<longleftrightarrow> (\<forall>k. live V (f k) = live V k \<and> queues_of V (f k) = queues_of V k)"

definition rtos_heap :: "'k freertos \<Rightarrow> 'k rtos_view \<Rightarrow> bool" where
  "rtos_heap K V \<longleftrightarrow> (\<forall>n. allocates V (\<lambda>k. pvPortMalloc K k n)) \<and> allocates V (xSemaphoreCreateMutex K)
     \<and> (\<forall>m i. allocates V (\<lambda>k. xSemaphoreCreateCounting K k m i))
     \<and> (\<forall>k p. live V (vPortFree K k p) = live V k - {p} \<and> queues_of V (vPortFree K k p) = queues_of V k)
     \<and> (\<forall>k f n d p i r t k'. xTaskCreate K k f n d p i = ((r, t), k') \<longrightarrow> queues_of V k' = queues_of V k \<and>
          (if r = pdPASS then t \<noteq> 0 \<and> t \<notin> live V k \<and> live V k' = insert t (live V k) else live V k' = live V k))"

definition rtos_create :: "'k freertos \<Rightarrow> 'k rtos_view \<Rightarrow> bool" where
  "rtos_create K V \<longleftrightarrow> (\<forall>k n d h k'. xQueueCreate K k n d = (h, k') \<longrightarrow>
     (if h = 0 then live V k' = live V k \<and> queues_of V k' = queues_of V k
      else h \<notin> live V k \<and> queues_of V k h = None \<and> live V k' = insert h (live V k)
        \<and> queues_of V k' = (queues_of V k)(h \<mapsto> mq_new n d)))
   \<and> (\<forall>k h. live V (vQueueDelete K k h) = live V k - {h}
        \<and> queues_of V (vQueueDelete K k h) = (queues_of V k)(h := None))"

definition rtos_send :: "'k freertos \<Rightarrow> 'k rtos_view \<Rightarrow> bool" where
  "rtos_send K V \<longleftrightarrow> (\<forall>k h m q. queues_of V k h = Some q \<longrightarrow>
     (\<exists>k'. xQueueSend K k h m 0 = (if mq_full q then 0 else 1, k')
       \<and> live V k' = live V k \<and> queues_of V k' = (queues_of V k)(h \<mapsto> mq_put m q)))"

definition rtos_send_isr :: "'k freertos \<Rightarrow> 'k rtos_view \<Rightarrow> bool" where
  "rtos_send_isr K V \<longleftrightarrow> (\<forall>k h m q. queues_of V k h = Some q \<longrightarrow>
     (\<exists>w k'. xQueueSendFromISR K k h m = ((if mq_full q then 0 else 1, w), k')
       \<and> live V k' = live V k \<and> queues_of V k' = (queues_of V k)(h \<mapsto> mq_put m q)))
   \<and> (\<forall>w. leaves V (\<lambda>k. portYIELD_FROM_ISR K k w))"

text \<open>A receive that may wait returns at once if there is a message.\<close>

definition rtos_receive :: "'k freertos \<Rightarrow> 'k rtos_view \<Rightarrow> bool" where
  "rtos_receive K V \<longleftrightarrow> (\<forall>k h t q. queues_of V k h = Some q \<longrightarrow> (t = 0 \<or> mq_items q \<noteq> []) \<longrightarrow>
     (\<exists>x k'. xQueueReceive K k h t = ((if mq_items q = [] then 0 else 1, x), k')
       \<and> (mq_items q \<noteq> [] \<longrightarrow> x = hd (mq_items q))
       \<and> live V k' = live V k \<and> queues_of V k' = (queues_of V k)(h \<mapsto> mq_drop q)))"

definition rtos_waiting :: "'k freertos \<Rightarrow> 'k rtos_view \<Rightarrow> bool" where
  "rtos_waiting K V \<longleftrightarrow> (\<forall>k h q. queues_of V k h = Some q \<longrightarrow>
     uxQueueMessagesWaiting K k h = of_nat (length (mq_items q)))"

definition rtos_queues :: "'k freertos \<Rightarrow> 'k rtos_view \<Rightarrow> bool" where
  "rtos_queues K V \<longleftrightarrow> rtos_create K V \<and> rtos_send K V \<and> rtos_send_isr K V \<and> rtos_receive K V \<and> rtos_waiting K V"

section \<open>Zephyr\<close>

text \<open>The blocks in use with their sizes, and the queues by their addresses.\<close>

record 'k zephyr_view =
  blocks :: "'k \<Rightarrow> ptr \<Rightarrow> nat option"
  msgqs :: "'k \<Rightarrow> ptr \<Rightarrow> msgq option"

definition zkeeps :: "'k zephyr_view \<Rightarrow> ('k \<Rightarrow> 'k) \<Rightarrow> bool" where
  "zkeeps V f \<longleftrightarrow> (\<forall>k. blocks V (f k) = blocks V k \<and> msgqs V (f k) = msgqs V k)"

definition zephyr_heap :: "'k zephyr \<Rightarrow> 'k zephyr_view \<Rightarrow> bool" where
  "zephyr_heap K V \<longleftrightarrow>
     (\<forall>k n p k'. k_malloc K k n = (p, k') \<longrightarrow> msgqs V k' = msgqs V k \<and>
        (if p = 0 then blocks V k' = blocks V k
         else blocks V k p = None \<and> blocks V k' = (blocks V k)(p \<mapsto> unat n)))
     \<and> (\<forall>k p. blocks V (k_free K k p) = (blocks V k)(p := None) \<and> msgqs V (k_free K k p) = msgqs V k)
     \<and> (\<forall>p. zkeeps V (\<lambda>k. snd (k_mutex_init K k p)))
     \<and> (\<forall>p i m. zkeeps V (\<lambda>k. snd (k_sem_init K k p i m)))
     \<and> (\<forall>w st n p i. zkeeps V (\<lambda>k. snd (k_thread_create K k w st n p i)))
     \<and> (\<forall>t n. zkeeps V (\<lambda>k. k_thread_name_set K k t n)) \<and> (\<forall>t. zkeeps V (\<lambda>k. k_thread_abort K k t))
     \<and> (\<forall>w. zkeeps V (\<lambda>k. k_work_init K k w)) \<and> (\<forall>w. zkeeps V (\<lambda>k. k_work_queue_init K k w))
     \<and> (\<forall>w st n i. zkeeps V (\<lambda>k. k_work_queue_start K k w st n i))"

text \<open>The buffer given to \<open>k_msgq_init\<close> must hold all messages.\<close>

definition zephyr_create :: "'k zephyr \<Rightarrow> 'k zephyr_view \<Rightarrow> bool" where
  "zephyr_create K V \<longleftrightarrow> (\<forall>k a b d n sz. blocks V k b = Some sz \<longrightarrow> unat n * unat d \<le> sz \<longrightarrow>
     blocks V (k_msgq_init K k a b d n) = blocks V k
     \<and> msgqs V (k_msgq_init K k a b d n) = (msgqs V k)(a \<mapsto> mq_new n d))"

definition zephyr_put :: "'k zephyr \<Rightarrow> 'k zephyr_view \<Rightarrow> bool" where
  "zephyr_put K V \<longleftrightarrow> (\<forall>k a m q. msgqs V k a = Some q \<longrightarrow>
     (\<exists>r k'. k_msgq_put K k a m K_NO_WAIT = (r, k') \<and> (r = 0 \<longleftrightarrow> \<not> mq_full q)
       \<and> blocks V k' = blocks V k \<and> msgqs V k' = (msgqs V k)(a \<mapsto> mq_put m q)))"

definition zephyr_get :: "'k zephyr \<Rightarrow> 'k zephyr_view \<Rightarrow> bool" where
  "zephyr_get K V \<longleftrightarrow> (\<forall>k a q. msgqs V k a = Some q \<longrightarrow>
     (\<exists>r x k'. k_msgq_get K k a K_NO_WAIT = ((r, x), k') \<and> (r = 0 \<longleftrightarrow> mq_items q \<noteq> [])
       \<and> (mq_items q \<noteq> [] \<longrightarrow> x = hd (mq_items q))
       \<and> blocks V k' = blocks V k \<and> msgqs V k' = (msgqs V k)(a \<mapsto> mq_drop q)))"

definition zephyr_used :: "'k zephyr \<Rightarrow> 'k zephyr_view \<Rightarrow> bool" where
  "zephyr_used K V \<longleftrightarrow> (\<forall>k a q. msgqs V k a = Some q \<longrightarrow> k_msgq_num_used_get K k a = of_nat (length (mq_items q)))"

definition zephyr_queues :: "'k zephyr \<Rightarrow> 'k zephyr_view \<Rightarrow> bool" where
  "zephyr_queues K V \<longleftrightarrow> zephyr_create K V \<and> zephyr_put K V \<and> zephyr_get K V \<and> zephyr_used K V"

section \<open>Their consequences one by one\<close>

lemma rtos_queuesD:
  assumes "rtos_queues K V" "queues_of V k h = Some q"
  shows "\<exists>k'. xQueueSend K k h m 0 = (if mq_full q then 0 else 1, k')
      \<and> live V k' = live V k \<and> queues_of V k' = (queues_of V k)(h \<mapsto> mq_put m q)"
    and "\<exists>w k'. xQueueSendFromISR K k h m = ((if mq_full q then 0 else 1, w), k')
      \<and> live V k' = live V k \<and> queues_of V k' = (queues_of V k)(h \<mapsto> mq_put m q)"
    and "t = 0 \<or> mq_items q \<noteq> [] \<Longrightarrow> \<exists>x k'. xQueueReceive K k h t = ((if mq_items q = [] then 0 else 1, x), k')
      \<and> (mq_items q \<noteq> [] \<longrightarrow> x = hd (mq_items q))
      \<and> live V k' = live V k \<and> queues_of V k' = (queues_of V k)(h \<mapsto> mq_drop q)"
    and "uxQueueMessagesWaiting K k h = of_nat (length (mq_items q))"
proof -
  have laws: "rtos_send K V" "rtos_send_isr K V" "rtos_receive K V" "rtos_waiting K V"
    using assms(1) by (simp_all add: rtos_queues_def)
  show "\<exists>k'. xQueueSend K k h m 0 = (if mq_full q then 0 else 1, k')
      \<and> live V k' = live V k \<and> queues_of V k' = (queues_of V k)(h \<mapsto> mq_put m q)"
    using laws(1) assms(2) unfolding rtos_send_def by blast
  show "\<exists>w k'. xQueueSendFromISR K k h m = ((if mq_full q then 0 else 1, w), k')
      \<and> live V k' = live V k \<and> queues_of V k' = (queues_of V k)(h \<mapsto> mq_put m q)"
    using laws(2) assms(2) unfolding rtos_send_isr_def by blast
  show "uxQueueMessagesWaiting K k h = of_nat (length (mq_items q))"
    using laws(4) assms(2) unfolding rtos_waiting_def by blast
  assume "t = 0 \<or> mq_items q \<noteq> []"
  with laws(3) assms(2) show "\<exists>x k'. xQueueReceive K k h t = ((if mq_items q = [] then 0 else 1, x), k')
      \<and> (mq_items q \<noteq> [] \<longrightarrow> x = hd (mq_items q))
      \<and> live V k' = live V k \<and> queues_of V k' = (queues_of V k)(h \<mapsto> mq_drop q)"
    unfolding rtos_receive_def by blast
qed

lemma rtos_yieldD:
  "rtos_queues K V \<Longrightarrow> live V (portYIELD_FROM_ISR K k w) = live V k"
  "rtos_queues K V \<Longrightarrow> queues_of V (portYIELD_FROM_ISR K k w) = queues_of V k"
  by (simp_all add: rtos_queues_def rtos_send_isr_def leaves_def)

lemma rtos_createD:
  assumes "rtos_queues K V" "xQueueCreate K k n d = (h, k')"
  shows "if h = 0 then live V k' = live V k \<and> queues_of V k' = queues_of V k
      else h \<notin> live V k \<and> queues_of V k h = None \<and> live V k' = insert h (live V k)
        \<and> queues_of V k' = (queues_of V k)(h \<mapsto> mq_new n d)"
proof -
  have "rtos_create K V"
    using assms(1) by (simp add: rtos_queues_def)
  then show ?thesis
    using assms(2) unfolding rtos_create_def by blast
qed

lemma rtos_deleteD:
  "rtos_queues K V \<Longrightarrow> live V (vQueueDelete K k h) = live V k - {h}"
  by (simp add: rtos_queues_def rtos_create_def)

lemma allocatesD:
  assumes "allocates V f" "f k = (p, k')"
  shows "queues_of V k' = queues_of V k"
    "if p = 0 then live V k' = live V k else p \<notin> live V k \<and> live V k' = insert p (live V k)"
  using assms unfolding allocates_def by blast+

lemma rtos_heapD:
  assumes "rtos_heap K V"
  shows "allocates V (\<lambda>k. pvPortMalloc K k n)" "allocates V (xSemaphoreCreateMutex K)"
    "allocates V (\<lambda>k. xSemaphoreCreateCounting K k m i)"
    "live V (vPortFree K k p) = live V k - {p}" "queues_of V (vPortFree K k p) = queues_of V k"
  using assms by (simp_all add: rtos_heap_def)

lemma rtos_taskD:
  assumes "rtos_heap K V" "xTaskCreate K k f nm d p pr = ((r, t), k')"
  shows "if r = pdPASS then t \<noteq> 0 \<and> t \<notin> live V k \<and> live V k' = insert t (live V k) else live V k' = live V k"
proof -
  have "\<forall>k f n d p i r t k'. xTaskCreate K k f n d p i = ((r, t), k') \<longrightarrow> queues_of V k' = queues_of V k \<and>
      (if r = pdPASS then t \<noteq> 0 \<and> t \<notin> live V k \<and> live V k' = insert t (live V k) else live V k' = live V k)"
    using assms(1) by (simp add: rtos_heap_def)
  then show ?thesis
    using assms(2) by blast
qed

lemma zephyr_queuesD:
  assumes "zephyr_queues K V" "msgqs V k a = Some q"
  shows "\<exists>r k'. k_msgq_put K k a m K_NO_WAIT = (r, k') \<and> (r = 0 \<longleftrightarrow> \<not> mq_full q)
       \<and> blocks V k' = blocks V k \<and> msgqs V k' = (msgqs V k)(a \<mapsto> mq_put m q)"
    and "\<exists>r x k'. k_msgq_get K k a K_NO_WAIT = ((r, x), k') \<and> (r = 0 \<longleftrightarrow> mq_items q \<noteq> [])
       \<and> (mq_items q \<noteq> [] \<longrightarrow> x = hd (mq_items q))
       \<and> blocks V k' = blocks V k \<and> msgqs V k' = (msgqs V k)(a \<mapsto> mq_drop q)"
    and "k_msgq_num_used_get K k a = of_nat (length (mq_items q))"
proof -
  have laws: "zephyr_put K V" "zephyr_get K V" "zephyr_used K V"
    using assms(1) by (simp_all add: zephyr_queues_def)
  show "\<exists>r k'. k_msgq_put K k a m K_NO_WAIT = (r, k') \<and> (r = 0 \<longleftrightarrow> \<not> mq_full q)
       \<and> blocks V k' = blocks V k \<and> msgqs V k' = (msgqs V k)(a \<mapsto> mq_put m q)"
    using laws(1) assms(2) unfolding zephyr_put_def by blast
  show "\<exists>r x k'. k_msgq_get K k a K_NO_WAIT = ((r, x), k') \<and> (r = 0 \<longleftrightarrow> mq_items q \<noteq> [])
       \<and> (mq_items q \<noteq> [] \<longrightarrow> x = hd (mq_items q))
       \<and> blocks V k' = blocks V k \<and> msgqs V k' = (msgqs V k)(a \<mapsto> mq_drop q)"
    using laws(2) assms(2) unfolding zephyr_get_def by blast
  show "k_msgq_num_used_get K k a = of_nat (length (mq_items q))"
    using laws(3) assms(2) unfolding zephyr_used_def by blast
qed

lemma zephyr_createD:
  assumes "zephyr_queues K V" "blocks V k b = Some sz" "unat n * unat d \<le> sz"
  shows "blocks V (k_msgq_init K k a b d n) = blocks V k"
    "msgqs V (k_msgq_init K k a b d n) = (msgqs V k)(a \<mapsto> mq_new n d)"
  using assms unfolding zephyr_queues_def zephyr_create_def by blast+

lemma zephyr_mallocD:
  assumes "zephyr_heap K V" "k_malloc K k n = (p, k')"
  shows "msgqs V k' = msgqs V k"
    "if p = 0 then blocks V k' = blocks V k else blocks V k p = None \<and> blocks V k' = (blocks V k)(p \<mapsto> unat n)"
proof -
  have "\<forall>k n p k'. k_malloc K k n = (p, k') \<longrightarrow> msgqs V k' = msgqs V k \<and>
        (if p = 0 then blocks V k' = blocks V k
         else blocks V k p = None \<and> blocks V k' = (blocks V k)(p \<mapsto> unat n))"
    using assms(1) by (simp add: zephyr_heap_def)
  then show "msgqs V k' = msgqs V k"
    "if p = 0 then blocks V k' = blocks V k else blocks V k p = None \<and> blocks V k' = (blocks V k)(p \<mapsto> unat n)"
    using assms(2) by blast+
qed

lemma zephyr_heapD:
  assumes "zephyr_heap K V"
  shows "blocks V (k_free K k p) = (blocks V k)(p := None)" "msgqs V (k_free K k p) = msgqs V k"
    "blocks V (snd (k_mutex_init K k p)) = blocks V k" "blocks V (snd (k_sem_init K k p i m)) = blocks V k"
    "blocks V (snd (k_thread_create K k w st n p j)) = blocks V k" "blocks V (k_thread_name_set K k t nm) = blocks V k"
    "blocks V (k_thread_abort K k t) = blocks V k" "blocks V (k_work_init K k w) = blocks V k"
    "blocks V (k_work_queue_init K k w) = blocks V k" "blocks V (k_work_queue_start K k w st n j) = blocks V k"
  using assms by (simp_all add: zephyr_heap_def zkeeps_def)

end
