(* ===== verification/Os_Queue.thy ===== *)
theory Os_Queue
  imports Os_Contracts
begin

text \<open>
  The message queues of the two ports: each is a bounded first-in first-out queue of messages of a fixed
  size, so that a program that does not wait cannot tell the ports apart. The interface is the locale
  \<open>osal_queue\<close>, interpreted for both ports.
\<close>

section \<open>The interface\<close>

record 's queue_port =
  port_init :: "bool \<Rightarrow> u32 \<Rightarrow> u32 \<Rightarrow> ('s, init_result) state"
  port_send :: "ptr \<Rightarrow> bytes option \<Rightarrow> u32 \<Rightarrow> ('s, int) state"
  port_send_isr :: "ptr \<Rightarrow> bytes option \<Rightarrow> ('s, int) state"
  port_recv :: "ptr \<Rightarrow> bool \<Rightarrow> u32 \<Rightarrow> ('s, int \<times> bytes option) state"
  port_count :: "ptr \<Rightarrow> ('s, int) state"

definition fr_queue_port :: "'k freertos \<Rightarrow> ('k, 'z) fr_st_scheme queue_port" where
  "fr_queue_port K = \<lparr>port_init = qc_osal_queue_init_fr K, port_send = qc_osal_queue_send_fr K,
     port_send_isr = qc_osal_queue_send_from_isr_fr K, port_recv = qc_osal_queue_recv_fr K,
     port_count = qc_osal_queue_get_count_fr K\<rparr>"

definition z_queue_port :: "'k zephyr \<Rightarrow> ('k, 'z) z_st_scheme queue_port" where
  "z_queue_port K = \<lparr>port_init = qc_osal_queue_init_z K, port_send = qc_osal_queue_send_z K,
     port_send_isr = qc_osal_queue_send_from_isr_z K, port_recv = qc_osal_queue_recv_z K,
     port_count = qc_osal_queue_get_count_z K\<rparr>"

text \<open>What a program does with queues, named by \<open>'n\<close>, and what it sees.\<close>

datatype 'n queue_op = Send 'n bytes | Send_Isr 'n bytes | Recv 'n | Count 'n

datatype answer = Status int | Message int "bytes option"

definition run_op :: "'s queue_port \<Rightarrow> ('n \<Rightarrow> ptr) \<Rightarrow> 'n queue_op \<Rightarrow> ('s, answer) state" where
  "run_op Q \<alpha> op = (case op of
     Send n m \<Rightarrow> do { r \<leftarrow> port_send Q (\<alpha> n) (Some m) QC_OSAL_TIMEOUT_NO_WAIT; State_Monad.return (Status r) }
   | Send_Isr n m \<Rightarrow> do { r \<leftarrow> port_send_isr Q (\<alpha> n) (Some m); State_Monad.return (Status r) }
   | Recv n \<Rightarrow> do { (r, m) \<leftarrow> port_recv Q (\<alpha> n) True QC_OSAL_TIMEOUT_NO_WAIT; State_Monad.return (Message r m) }
   | Count n \<Rightarrow> do { r \<leftarrow> port_count Q (\<alpha> n); State_Monad.return (Status r) })"

primrec run_ops :: "'s queue_port \<Rightarrow> ('n \<Rightarrow> ptr) \<Rightarrow> 'n queue_op list \<Rightarrow> ('s, answer list) state" where
  "run_ops Q \<alpha> [] = State_Monad.return []"
| "run_ops Q \<alpha> (op # ops) = do {
     a \<leftarrow> run_op Q \<alpha> op;
     as \<leftarrow> run_ops Q \<alpha> ops;
     State_Monad.return (a # as)
   }"

text \<open>The specification: bounded queues by name.\<close>

fun op_name :: "'n queue_op \<Rightarrow> 'n" where
  "op_name (Send n m) = n" | "op_name (Send_Isr n m) = n" | "op_name (Recv n) = n" | "op_name (Count n) = n"

fun spec_answer :: "msgq \<Rightarrow> 'n queue_op \<Rightarrow> answer" where
  "spec_answer q (Send n m) = Status (if mq_full q then - QC_OSAL_ETIMEDOUT else 0)"
| "spec_answer q (Send_Isr n m) = Status (if mq_full q then - QC_OSAL_EAGAIN else 0)"
| "spec_answer q (Recv n) = (case mq_items q of [] \<Rightarrow> Message (- QC_OSAL_ETIMEDOUT) None | x # _ \<Rightarrow> Message 0 (Some x))"
| "spec_answer q (Count n) = Status (int (length (mq_items q)))"

fun spec_queue :: "msgq \<Rightarrow> 'n queue_op \<Rightarrow> msgq" where
  "spec_queue q (Send n m) = mq_put m q"
| "spec_queue q (Send_Isr n m) = mq_put m q"
| "spec_queue q (Recv n) = mq_drop q"
| "spec_queue q (Count n) = q"

primrec spec_ops :: "('n \<Rightarrow> msgq) \<Rightarrow> 'n queue_op list \<Rightarrow> answer list" where
  "spec_ops qs [] = []"
| "spec_ops qs (op # ops) = spec_answer (qs (op_name op)) op
     # spec_ops (qs(op_name op := spec_queue (qs (op_name op)) op)) ops"

text \<open>A queue never holds more than it has room for, and its length fits an \<open>int\<close>.\<close>

definition mq_ok :: "msgq \<Rightarrow> bool" where
  "mq_ok q \<longleftrightarrow> length (mq_items q) \<le> mq_cap q \<and> mq_cap q < 2 ^ 31"

lemma mq_ok_step: "mq_ok q \<Longrightarrow> mq_ok (spec_queue q op)"
  by (cases op) (auto simp: mq_ok_def mq_put_def mq_drop_def mq_full_def)

lemma mq_ok_new: "n < 2 ^ 31 \<Longrightarrow> mq_ok (mq_new n d)"
  by (simp add: mq_ok_def mq_new_def word_less_nat_alt)

lemma count_fits: "mq_ok q \<Longrightarrow> sint (of_nat (length (mq_items q)) :: u32) = int (length (mq_items q))"
  by (simp add: mq_ok_def signed_of_nat signed_take_bit_int_eq_self)

text \<open>
  The laws of a port. \<open>valid\<close> is its well-formedness together with what it needs of the kernel; \<open>queues\<close>
  are the queues by their handles.
\<close>

locale osal_queue =
  fixes Q :: "'s queue_port" and valid :: "'s \<Rightarrow> bool" and queues :: "'s \<Rightarrow> ptr \<Rightarrow> msgq option"
  assumes send_law: "valid s \<Longrightarrow> queues s h = Some q \<Longrightarrow>
      \<exists>t. run_state (port_send Q h (Some m) QC_OSAL_TIMEOUT_NO_WAIT) s = (if mq_full q then - QC_OSAL_ETIMEDOUT else 0, t)
        \<and> valid t \<and> queues t = (queues s)(h \<mapsto> mq_put m q)"
    and isr_law: "valid s \<Longrightarrow> queues s h = Some q \<Longrightarrow>
      \<exists>t. run_state (port_send_isr Q h (Some m)) s = (if mq_full q then - QC_OSAL_EAGAIN else 0, t)
        \<and> valid t \<and> queues t = (queues s)(h \<mapsto> mq_put m q)"
    and recv_law: "valid s \<Longrightarrow> queues s h = Some q \<Longrightarrow>
      \<exists>t. run_state (port_recv Q h True QC_OSAL_TIMEOUT_NO_WAIT) s =
          (case mq_items q of [] \<Rightarrow> (- QC_OSAL_ETIMEDOUT, None) | x # _ \<Rightarrow> (0, Some x), t)
        \<and> valid t \<and> queues t = (queues s)(h \<mapsto> mq_drop q)"
    and count_law: "valid s \<Longrightarrow> queues s h = Some q \<Longrightarrow> mq_ok q \<Longrightarrow>
      run_state (port_count Q h) s = (int (length (mq_items q)), s)"
    and init_law: "valid s \<Longrightarrow> unat n * unat d < 2 ^ 32 \<Longrightarrow> run_state (port_init Q True n d) s = ((r, x), t) \<Longrightarrow>
      valid t \<and> (case x of None \<Rightarrow> r \<noteq> 0 \<and> queues t = queues s
        | Some h \<Rightarrow> r = 0 \<and> queues s h = None \<and> queues t = (queues s)(h \<mapsto> mq_new n d))"
begin

text \<open>The state of the port stands for the named queues.\<close>

definition stands :: "('n \<Rightarrow> ptr) \<Rightarrow> ('n \<Rightarrow> msgq) \<Rightarrow> 's \<Rightarrow> bool" where
  "stands \<alpha> qs s \<longleftrightarrow> valid s \<and> inj \<alpha> \<and> (\<forall>n. queues s (\<alpha> n) = Some (qs n)) \<and> (\<forall>n. mq_ok (qs n))"

lemma stands_step:
  assumes "stands \<alpha> qs s" "valid t" "queues t = (queues s)(\<alpha> n \<mapsto> spec_queue (qs n) op)"
  shows "stands \<alpha> (qs(n := spec_queue (qs n) op)) t"
  using assms unfolding stands_def by (auto simp: mq_ok_step inj_eq)

lemma run_op_spec:
  assumes s: "stands \<alpha> qs s"
  obtains t where "run_state (run_op Q \<alpha> op) s = (spec_answer (qs (op_name op)) op, t)"
    "stands \<alpha> (qs(op_name op := spec_queue (qs (op_name op)) op)) t"
proof -
  have v: "valid s" "queues s (\<alpha> n) = Some (qs n)" "mq_ok (qs n)" for n
    using s by (simp_all add: stands_def)
  show ?thesis
  proof (cases op)
    case (Send n m)
    with send_law [OF v(1,2), of n m] that stands_step [OF s, of _ n op] show ?thesis
      by (auto simp: run_op_def run_simps)
  next
    case (Send_Isr n m)
    with isr_law [OF v(1,2), of n m] that stands_step [OF s, of _ n op] show ?thesis
      by (auto simp: run_op_def run_simps)
  next
    case (Recv n)
    with recv_law [OF v(1,2), of n] that stands_step [OF s, of _ n op] show ?thesis
      by (auto simp: run_op_def run_simps split: list.splits)
  next
    case (Count n)
    then show ?thesis
      using count_law [OF v(1,2,3), of n] s by (intro that [of s]) (simp_all add: run_op_def run_simps)
  qed
qed

lemma run_ops_spec:
  assumes "stands \<alpha> qs s"
  shows "fst (run_state (run_ops Q \<alpha> ops) s) = spec_ops qs ops"
  using assms
proof (induction ops arbitrary: qs s)
  case Nil
  then show ?case
    by (simp add: run_simps)
next
  case (Cons op ops)
  obtain t where "run_state (run_op Q \<alpha> op) s = (spec_answer (qs (op_name op)) op, t)"
    "stands \<alpha> (qs(op_name op := spec_queue (qs (op_name op)) op)) t"
    by (rule run_op_spec [OF Cons.prems])
  with Cons.IH show ?case
    by (simp add: run_simps split_beta fun_upd_def)
qed

text \<open>A queue that was just created, used by any program that does not wait.\<close>

lemma fresh_queue_spec:
  assumes "valid s" "unat n * unat d < 2 ^ 32" "n < 2 ^ 31"
    and "run_state (port_init Q True n d) s = ((r, Some h), t)"
  shows "fst (run_state (run_ops Q (\<lambda>_ :: unit. h) ops) t) = spec_ops (\<lambda>_. mq_new n d) ops"
  using init_law [OF assms(1,2,4)] mq_ok_new [OF assms(3)]
  by (intro run_ops_spec) (simp add: stands_def inj_def)

end

end
