(* ===== verification/Os_Queue_Ports.thy ===== *)
theory Os_Queue_Ports
  imports Os_Queue
begin

text \<open>
  Both ports implement the interface \<open>osal_queue\<close> on kernels that keep their promises, and therefore agree.
\<close>

section \<open>The FreeRTOS port\<close>

text \<open>
  Every wrapper is an allocated block with a queue of its own.
\<close>

definition fr_wf :: "'k rtos_view \<Rightarrow> ('k, 'z) fr_st_scheme \<Rightarrow> bool" where
  "fr_wf V s \<longleftrightarrow>
     (\<forall>h w. fr_queues s h = Some w \<longrightarrow> h \<noteq> 0 \<and> h \<in> live V (kernel s) \<and> queue_handle w \<noteq> 0
        \<and> queues_of V (kernel s) (queue_handle w) \<noteq> None)
     \<and> (\<forall>h h' w w'. fr_queues s h = Some w \<longrightarrow> fr_queues s h' = Some w' \<longrightarrow> queue_handle w = queue_handle w' \<longrightarrow> h = h')"

definition fr_valid :: "'k freertos \<Rightarrow> 'k rtos_view \<Rightarrow> ('k, 'z) fr_st_scheme \<Rightarrow> bool" where
  "fr_valid K V s \<longleftrightarrow> rtos_heap K V \<and> rtos_queues K V \<and> fr_wf V s"

definition fr_queue_view :: "'k rtos_view \<Rightarrow> ('k, 'z) fr_st_scheme \<Rightarrow> ptr \<Rightarrow> msgq option" where
  "fr_queue_view V s h = (case fr_queues s h of None \<Rightarrow> None | Some w \<Rightarrow> queues_of V (kernel s) (queue_handle w))"

lemma fr_validD:
  assumes "fr_valid K V s" "fr_queue_view V s h = Some q"
  obtains w where "fr_queues s h = Some w" "h \<noteq> 0" "queue_handle w \<noteq> 0"
    "queues_of V (kernel s) (queue_handle w) = Some q"
  using assms by (auto simp: fr_valid_def fr_wf_def fr_queue_view_def split: option.splits)

text \<open>A kernel call that changes one queue and no allocation.\<close>

lemma fr_update:
  assumes "fr_valid K V s" "fr_queues s h = Some w" "live V k = live V (kernel s)"
    and "queues_of V k = (queues_of V (kernel s))(queue_handle w \<mapsto> q)"
  shows "fr_valid K V (s\<lparr>kernel := k\<rparr>)" "fr_queue_view V (s\<lparr>kernel := k\<rparr>) = (fr_queue_view V s)(h \<mapsto> q)"
proof -
  show "fr_valid K V (s\<lparr>kernel := k\<rparr>)"
    using assms(1,3,4) by (auto simp: fr_valid_def fr_wf_def)
  show "fr_queue_view V (s\<lparr>kernel := k\<rparr>) = (fr_queue_view V s)(h \<mapsto> q)"
  proof
    fix h'
    show "fr_queue_view V (s\<lparr>kernel := k\<rparr>) h' = ((fr_queue_view V s)(h \<mapsto> q)) h'"
      using assms by (cases "fr_queues s h'") (auto simp: fr_queue_view_def fr_valid_def fr_wf_def)
  qed
qed

lemma fr_same:
  assumes "live V k = live V (kernel s)" "queues_of V k = queues_of V (kernel s)"
  shows "fr_wf V (s\<lparr>kernel := k\<rparr>) = fr_wf V s" "fr_queue_view V (s\<lparr>kernel := k\<rparr>) = fr_queue_view V s"
  using assms by (simp_all add: fr_wf_def fr_queue_view_def fun_eq_iff split: option.split)

lemma run_queue_of_fr:
  assumes "fr_queues s h = Some w" "h \<noteq> 0" "queue_handle w \<noteq> 0"
  shows "run_state (queue_of_fr h b) s = (if b then Some (queue_handle w) else None, s)"
  using assms by (simp add: queue_of_fr_def run_simps run_deref [of fr_queues])

lemma ticks_of_zero [simp]: "ticks_of K 0 = 0"
  by (simp add: ticks_of_def)

lemma fr_send_law:
  assumes "fr_valid K V s" "fr_queue_view V s h = Some q"
  shows "\<exists>t. run_state (qc_osal_queue_send_fr K h (Some m) QC_OSAL_TIMEOUT_NO_WAIT) s =
      (if mq_full q then - QC_OSAL_ETIMEDOUT else 0, t)
    \<and> fr_valid K V t \<and> fr_queue_view V t = (fr_queue_view V s)(h \<mapsto> mq_put m q)"
proof -
  have rtos: "rtos_queues K V"
    using assms(1) by (simp add: fr_valid_def)
  obtain w where w: "fr_queues s h = Some w" "h \<noteq> 0" "queue_handle w \<noteq> 0"
    "queues_of V (kernel s) (queue_handle w) = Some q"
    by (rule fr_validD [OF assms])
  obtain k where k: "xQueueSend K (kernel s) (queue_handle w) m 0 = (if mq_full q then 0 else 1, k)"
    "live V k = live V (kernel s)" "queues_of V k = (queues_of V (kernel s))(queue_handle w \<mapsto> mq_put m q)"
    using rtos_queuesD(1) [OF rtos w(4)] by blast
  note u = fr_update [OF assms(1) w(1) k(2,3)]
  show ?thesis
    using u by (simp add: qc_osal_queue_send_fr_def os_simps run_queue_of_fr [OF w(1-3)] k(1)
        QC_OSAL_TIMEOUT_NO_WAIT_def pdTRUE_def)
qed

lemma fr_isr_law:
  assumes "fr_valid K V s" "fr_queue_view V s h = Some q"
  shows "\<exists>t. run_state (qc_osal_queue_send_from_isr_fr K h (Some m)) s =
      (if mq_full q then - QC_OSAL_EAGAIN else 0, t)
    \<and> fr_valid K V t \<and> fr_queue_view V t = (fr_queue_view V s)(h \<mapsto> mq_put m q)"
proof -
  have rtos: "rtos_queues K V"
    using assms(1) by (simp add: fr_valid_def)
  obtain w where w: "fr_queues s h = Some w" "h \<noteq> 0" "queue_handle w \<noteq> 0"
    "queues_of V (kernel s) (queue_handle w) = Some q"
    by (rule fr_validD [OF assms])
  obtain y k where k: "xQueueSendFromISR K (kernel s) (queue_handle w) m = ((if mq_full q then 0 else 1, y), k)"
    "live V k = live V (kernel s)" "queues_of V k = (queues_of V (kernel s))(queue_handle w \<mapsto> mq_put m q)"
    using rtos_queuesD(2) [OF rtos w(4)] by blast
  have "live V (portYIELD_FROM_ISR K k y) = live V (kernel s)"
    "queues_of V (portYIELD_FROM_ISR K k y) = (queues_of V (kernel s))(queue_handle w \<mapsto> mq_put m q)"
    using k rtos_yieldD [OF rtos] by simp_all
  note u = fr_update [OF assms(1) w(1) this]
  show ?thesis
    using u by (simp add: qc_osal_queue_send_from_isr_fr_def os_simps run_queue_of_fr [OF w(1-3)] k(1) pdTRUE_def)
qed

lemma fr_recv_law:
  assumes "fr_valid K V s" "fr_queue_view V s h = Some q"
  shows "\<exists>t. run_state (qc_osal_queue_recv_fr K h True QC_OSAL_TIMEOUT_NO_WAIT) s =
      (case mq_items q of [] \<Rightarrow> (- QC_OSAL_ETIMEDOUT, None) | x # _ \<Rightarrow> (0, Some x), t)
    \<and> fr_valid K V t \<and> fr_queue_view V t = (fr_queue_view V s)(h \<mapsto> mq_drop q)"
proof -
  have rtos: "rtos_queues K V"
    using assms(1) by (simp add: fr_valid_def)
  obtain w where w: "fr_queues s h = Some w" "h \<noteq> 0" "queue_handle w \<noteq> 0"
    "queues_of V (kernel s) (queue_handle w) = Some q"
    by (rule fr_validD [OF assms])
  obtain x k where k: "xQueueReceive K (kernel s) (queue_handle w) 0 = ((if mq_items q = [] then 0 else 1, x), k)"
    "mq_items q \<noteq> [] \<longrightarrow> x = hd (mq_items q)" "live V k = live V (kernel s)"
    "queues_of V k = (queues_of V (kernel s))(queue_handle w \<mapsto> mq_drop q)"
    using rtos_queuesD(3) [OF rtos w(4), of 0] by blast
  note u = fr_update [OF assms(1) w(1) k(3,4)]
  show ?thesis
    using u k(2) by (simp add: qc_osal_queue_recv_fr_def os_simps run_queue_of_fr [OF w(1-3)] k(1)
        QC_OSAL_TIMEOUT_NO_WAIT_def pdTRUE_def split: list.split)
qed

lemma fr_count_law:
  assumes "fr_valid K V s" "fr_queue_view V s h = Some q" "mq_ok q"
  shows "run_state (qc_osal_queue_get_count_fr K h) s = (int (length (mq_items q)), s)"
proof -
  obtain w where w: "fr_queues s h = Some w" "h \<noteq> 0" "queue_handle w \<noteq> 0"
    "queues_of V (kernel s) (queue_handle w) = Some q"
    by (rule fr_validD [OF assms(1,2)])
  have "rtos_queues K V"
    using assms(1) by (simp add: fr_valid_def)
  then have "uxQueueMessagesWaiting K (kernel s) (queue_handle w) = of_nat (length (mq_items q))"
    using w(4) by (rule rtos_queuesD(4))
  then show ?thesis
    using count_fits [OF assms(3)] by (simp add: qc_osal_queue_get_count_fr_def os_simps run_queue_of_fr [OF w(1-3)])
qed

lemma fr_init_law:
  assumes "fr_valid K V s" and "run_state (qc_osal_queue_init_fr K True n d) s = ((r, x), t)"
  shows "fr_valid K V t \<and> (case x of None \<Rightarrow> r \<noteq> 0 \<and> fr_queue_view V t = fr_queue_view V s
    | Some h \<Rightarrow> r = 0 \<and> fr_queue_view V s h = None \<and> fr_queue_view V t = (fr_queue_view V s)(h \<mapsto> mq_new n d))"
proof (cases "n = 0 \<or> d = 0")
  case True
  then show ?thesis
    using assms by (auto simp: qc_osal_queue_init_fr_def os_simps all_osal_errors)
next
  case False
  obtain w k where w: "pvPortMalloc K (kernel s) sizeof_fr_queue = (w, k)"
    by (rule prod.exhaust)
  obtain q k' where q: "xQueueCreate K k n d = (q, k')"
    by (rule prod.exhaust)
  have heap: "rtos_heap K V" "rtos_queues K V" "fr_wf V s"
    using assms(1) by (simp_all add: fr_valid_def)
  have mal: "queues_of V k = queues_of V (kernel s)"
    "if w = 0 then live V k = live V (kernel s) else w \<notin> live V (kernel s) \<and> live V k = insert w (live V (kernel s))"
    by (rule allocatesD [OF rtos_heapD(1) [OF heap(1)] w])+
  have cre: "if q = 0 then live V k' = live V k \<and> queues_of V k' = queues_of V k
     else q \<notin> live V k \<and> queues_of V k q = None \<and> live V k' = insert q (live V k)
       \<and> queues_of V k' = (queues_of V k)(q \<mapsto> mq_new n d)"
    by (rule rtos_createD [OF heap(2) q])
  have fre: "live V (vPortFree K k' w) = live V k' - {w}" "queues_of V (vPortFree K k' w) = queues_of V k'"
    by (rule rtos_heapD [OF heap(1)])+
  consider "w = 0" | "w \<noteq> 0" "q = 0" | "w \<noteq> 0" "q \<noteq> 0"
    by blast
  then show ?thesis
  proof cases
    case 1
    then have "t = s\<lparr>kernel := k\<rparr>" "r \<noteq> 0" "x = None"
      using assms(2) False w by (simp_all add: qc_osal_queue_init_fr_def os_simps all_osal_errors)
    then show ?thesis
      using heap mal 1 by (simp add: fr_valid_def fr_same)
  next
    case 2
    then have t: "t = s\<lparr>kernel := vPortFree K k' w\<rparr>" "r \<noteq> 0" "x = None"
      using assms(2) False w q by (simp_all add: qc_osal_queue_init_fr_def os_simps all_osal_errors)
    have "live V (vPortFree K k' w) = live V (kernel s)" "queues_of V (vPortFree K k' w) = queues_of V (kernel s)"
      using 2 mal cre fre by auto
    then show ?thesis
      using heap t by (simp add: fr_valid_def fr_same)
  next
    case 3
    let ?w = "\<lparr>queue_handle = q, queue_msg_size = d\<rparr>"
    have t: "t = s\<lparr>kernel := k', fr_queues := (fr_queues s)(w \<mapsto> ?w)\<rparr>" "r = 0" "x = Some w"
      using assms(2) False w q 3 by (simp_all add: qc_osal_queue_init_fr_def os_simps)
    have live: "live V k' = insert q (insert w (live V (kernel s)))"
      and qs: "queues_of V k' = (queues_of V (kernel s))(q \<mapsto> mq_new n d)"
      and new: "w \<notin> live V (kernel s)" "queues_of V (kernel s) q = None"
      using 3 mal cre by simp_all
    have free: "fr_queues s w = None"
      using heap(3) new(1) by (cases "fr_queues s w") (auto simp: fr_wf_def)
    have other: "queue_handle u \<noteq> q" if "fr_queues s h = Some u" for h u
      using heap(3) new(2) that unfolding fr_wf_def by metis
    have "fr_wf V t"
      using heap(3) 3 other by (auto simp: fr_wf_def t(1) live qs split: if_splits)
    moreover have "fr_queue_view V t = (fr_queue_view V s)(w \<mapsto> mq_new n d)"
      using other by (auto simp: fr_queue_view_def t(1) qs fun_eq_iff split: option.split)
    moreover have "fr_queue_view V s w = None"
      by (simp add: fr_queue_view_def free)
    ultimately show ?thesis
      using heap t by (simp add: fr_valid_def)
  qed
qed

interpretation fr_queue: osal_queue "fr_queue_port K" "fr_valid K V" "fr_queue_view V"
  for K :: "'k freertos" and V :: "'k rtos_view"
  by unfold_locales
    (simp_all only: fr_queue_port_def queue_port.select_convs fr_send_law fr_isr_law fr_recv_law fr_count_law fr_init_law)

section \<open>The Zephyr port\<close>

text \<open>Every queue of the port is an allocated wrapper with an initialised \<open>k_msgq\<close> in it.\<close>

definition z_wf :: "'k zephyr_view \<Rightarrow> ('k, 'z) z_st_scheme \<Rightarrow> bool" where
  "z_wf V s \<longleftrightarrow> (\<forall>h. z_queues s h \<noteq> None \<longrightarrow>
     h \<noteq> 0 \<and> blocks V (kernel s) h \<noteq> None \<and> msgqs V (kernel s) h \<noteq> None)"

definition z_valid :: "'k zephyr \<Rightarrow> 'k zephyr_view \<Rightarrow> ('k, 'z) z_st_scheme \<Rightarrow> bool" where
  "z_valid K V s \<longleftrightarrow> zephyr_heap K V \<and> zephyr_queues K V \<and> z_wf V s"

definition z_queue_view :: "'k zephyr_view \<Rightarrow> ('k, 'z) z_st_scheme \<Rightarrow> ptr \<Rightarrow> msgq option" where
  "z_queue_view V s h = (if z_queues s h = None then None else msgqs V (kernel s) h)"

lemma z_validD:
  assumes "z_valid K V s" "z_queue_view V s h = Some q"
  shows "z_queues s h \<noteq> None" "h \<noteq> 0" "msgqs V (kernel s) h = Some q" "zephyr_queues K V"
proof -
  show h: "z_queues s h \<noteq> None" "msgqs V (kernel s) h = Some q" "zephyr_queues K V"
    using assms by (simp_all add: z_valid_def z_queue_view_def split: if_splits)
  show "h \<noteq> 0"
    using assms(1) h(1) by (auto simp: z_valid_def z_wf_def)
qed

lemma z_update:
  assumes "z_valid K V s" "z_queues s h \<noteq> None" "blocks V k = blocks V (kernel s)"
    and "msgqs V k = (msgqs V (kernel s))(h \<mapsto> q)"
  shows "z_valid K V (s\<lparr>kernel := k\<rparr>)" "z_queue_view V (s\<lparr>kernel := k\<rparr>) = (z_queue_view V s)(h \<mapsto> q)"
  using assms by (auto simp: z_valid_def z_wf_def z_queue_view_def fun_eq_iff)

lemma z_same:
  assumes "blocks V k = blocks V (kernel s)" "msgqs V k = msgqs V (kernel s)"
  shows "z_wf V (s\<lparr>kernel := k\<rparr>) = z_wf V s" "z_queue_view V (s\<lparr>kernel := k\<rparr>) = z_queue_view V s"
  using assms by (simp_all add: z_wf_def z_queue_view_def fun_eq_iff)

lemma timeout_of_zero [simp]: "timeout_of 0 = K_NO_WAIT"
  by (simp add: timeout_of_def)

lemma z_send_law:
  assumes "z_valid K V s" "z_queue_view V s h = Some q"
  shows "\<exists>t. run_state (qc_osal_queue_send_z K h (Some m) QC_OSAL_TIMEOUT_NO_WAIT) s =
      (if mq_full q then - QC_OSAL_ETIMEDOUT else 0, t)
    \<and> z_valid K V t \<and> z_queue_view V t = (z_queue_view V s)(h \<mapsto> mq_put m q)"
proof -
  note h = z_validD [OF assms]
  obtain r k where k: "k_msgq_put K (kernel s) h m K_NO_WAIT = (r, k)" "r = 0 \<longleftrightarrow> \<not> mq_full q"
    "blocks V k = blocks V (kernel s)" "msgqs V k = (msgqs V (kernel s))(h \<mapsto> mq_put m q)"
    using zephyr_queuesD(1) [OF h(4,3)] by blast
  note u = z_update [OF assms(1) h(1) k(3,4)]
  show ?thesis
    using u h(2) k(1,2) by (simp add: qc_osal_queue_send_z_def os_simps QC_OSAL_TIMEOUT_NO_WAIT_def)
qed

lemma z_isr_law:
  assumes "z_valid K V s" "z_queue_view V s h = Some q"
  shows "\<exists>t. run_state (qc_osal_queue_send_from_isr_z K h (Some m)) s =
      (if mq_full q then - QC_OSAL_EAGAIN else 0, t)
    \<and> z_valid K V t \<and> z_queue_view V t = (z_queue_view V s)(h \<mapsto> mq_put m q)"
proof -
  note h = z_validD [OF assms]
  obtain r k where k: "k_msgq_put K (kernel s) h m K_NO_WAIT = (r, k)" "r = 0 \<longleftrightarrow> \<not> mq_full q"
    "blocks V k = blocks V (kernel s)" "msgqs V k = (msgqs V (kernel s))(h \<mapsto> mq_put m q)"
    using zephyr_queuesD(1) [OF h(4,3)] by blast
  note u = z_update [OF assms(1) h(1) k(3,4)]
  show ?thesis
    using u h(2) k(1,2) by (simp add: qc_osal_queue_send_from_isr_z_def os_simps)
qed

lemma z_recv_law:
  assumes "z_valid K V s" "z_queue_view V s h = Some q"
  shows "\<exists>t. run_state (qc_osal_queue_recv_z K h True QC_OSAL_TIMEOUT_NO_WAIT) s =
      (case mq_items q of [] \<Rightarrow> (- QC_OSAL_ETIMEDOUT, None) | x # _ \<Rightarrow> (0, Some x), t)
    \<and> z_valid K V t \<and> z_queue_view V t = (z_queue_view V s)(h \<mapsto> mq_drop q)"
proof -
  note h = z_validD [OF assms]
  obtain r x k where k: "k_msgq_get K (kernel s) h K_NO_WAIT = ((r, x), k)" "r = 0 \<longleftrightarrow> mq_items q \<noteq> []"
    "mq_items q \<noteq> [] \<longrightarrow> x = hd (mq_items q)"
    "blocks V k = blocks V (kernel s)" "msgqs V k = (msgqs V (kernel s))(h \<mapsto> mq_drop q)"
    using zephyr_queuesD(2) [OF h(4,3)] by blast
  note u = z_update [OF assms(1) h(1) k(4,5)]
  show ?thesis
    using u h(2) k(1-3) by (simp add: qc_osal_queue_recv_z_def os_simps QC_OSAL_TIMEOUT_NO_WAIT_def split: list.split)
qed

lemma z_count_law:
  assumes "z_valid K V s" "z_queue_view V s h = Some q" "mq_ok q"
  shows "run_state (qc_osal_queue_get_count_z K h) s = (int (length (mq_items q)), s)"
proof -
  note h = z_validD [OF assms(1,2)]
  show ?thesis
    using h(2) zephyr_queuesD(3) [OF h(4,3)] count_fits [OF assms(3)]
    by (simp add: qc_osal_queue_get_count_z_def os_simps)
qed

text \<open>
  A new queue works if the product of its measures does not wrap: then the buffer has room for all messages.
\<close>

lemma z_init_law:
  assumes "z_valid K V s" and "unat n * unat d < 2 ^ 32"
    and "run_state (qc_osal_queue_init_z K True n d) s = ((r, x), t)"
  shows "z_valid K V t \<and> (case x of None \<Rightarrow> r \<noteq> 0 \<and> z_queue_view V t = z_queue_view V s
    | Some h \<Rightarrow> r = 0 \<and> z_queue_view V s h = None \<and> z_queue_view V t = (z_queue_view V s)(h \<mapsto> mq_new n d))"
proof (cases "n = 0 \<or> d = 0")
  case True
  then show ?thesis
    using assms by (auto simp: qc_osal_queue_init_z_def os_simps all_osal_errors)
next
  case False
  obtain w k where w: "k_malloc K (kernel s) (sizeof_queue_wrapper K) = (w, k)"
    by (rule prod.exhaust)
  obtain b k' where b: "k_malloc K k (n * d) = (b, k')"
    by (rule prod.exhaust)
  have heap: "zephyr_heap K V" "zephyr_queues K V" "z_wf V s"
    using assms(1) by (simp_all add: z_valid_def)
  note mal = zephyr_mallocD [OF heap(1) w] and buf = zephyr_mallocD [OF heap(1) b]
  note fre = zephyr_heapD(1,2) [OF heap(1), of k' w]
  have prod: "unat (n * d) = unat n * unat d"
    using assms(2) by (intro unat_mult_nowrap) simp
  consider "w = 0" | "w \<noteq> 0" "b = 0" | "w \<noteq> 0" "b \<noteq> 0"
    by blast
  then show ?thesis
  proof cases
    case 1
    then have "t = s\<lparr>kernel := k\<rparr>" "r \<noteq> 0" "x = None"
      using assms(3) False w by (simp_all add: qc_osal_queue_init_z_def os_simps all_osal_errors)
    then show ?thesis
      using heap mal 1 by (simp add: z_valid_def z_same)
  next
    case 2
    then have t: "t = s\<lparr>kernel := k_free K k' w\<rparr>" "r \<noteq> 0" "x = None"
      using assms(3) False w b by (simp_all add: qc_osal_queue_init_z_def os_simps all_osal_errors)
    have "blocks V (k_free K k' w) = blocks V (kernel s)" "msgqs V (k_free K k' w) = msgqs V (kernel s)"
      using 2 mal buf fre by (auto simp: fun_upd_idem)
    then show ?thesis
      using heap t by (simp add: z_valid_def z_same)
  next
    case 3
    let ?w = "\<lparr>zq_buffer = b, zq_msg_size = d, zq_max_msgs = n\<rparr>"
    let ?k = "k_msgq_init K k' w b d n"
    have t: "t = s\<lparr>z_queues := (z_queues s)(w \<mapsto> ?w), kernel := ?k\<rparr>" "r = 0" "x = Some w"
      using assms(3) False w b 3 by (simp_all add: qc_osal_queue_init_z_def os_simps)
    have room: "blocks V k' b = Some (unat n * unat d)"
      using 3 buf prod by simp
    have k: "blocks V ?k = (blocks V (kernel s))(w \<mapsto> unat (sizeof_queue_wrapper K), b \<mapsto> unat n * unat d)"
      "msgqs V ?k = (msgqs V (kernel s))(w \<mapsto> mq_new n d)"
      using zephyr_createD [OF heap(2) room order_refl, of w] 3 mal buf prod by simp_all
    have free: "z_queues s w = None"
      using heap(3) mal(2) 3 by (auto simp: z_wf_def)
    have "z_wf V t"
      using heap(3) 3 by (auto simp: z_wf_def t(1) k)
    moreover have "z_queue_view V t = (z_queue_view V s)(w \<mapsto> mq_new n d)"
      by (auto simp: z_queue_view_def t(1) k fun_eq_iff)
    ultimately show ?thesis
      using heap t free by (simp add: z_valid_def z_queue_view_def)
  qed
qed

interpretation z_queue: osal_queue "z_queue_port K" "z_valid K V" "z_queue_view V"
  for K :: "'k zephyr" and V :: "'k zephyr_view"
  by unfold_locales
    (simp_all only: z_queue_port_def queue_port.select_convs z_send_law z_isr_law z_recv_law z_count_law z_init_law)

section \<open>The ports agree\<close>

text \<open>
  C14: A program that creates a message queue and uses it without waiting sees the same answers on both
  ports: those of a bounded first-in first-out queue. The measures of the queue must not wrap in 32 bits.
\<close>

theorem queue_ports_agree:
  assumes "rtos_heap F V" "rtos_queues F V" "fr_wf V s"
    and "zephyr_heap Z W" "zephyr_queues Z W" "z_wf W s'"
    and "unat n * unat d < 2 ^ 32" "n < 2 ^ 31"
    and "run_state (qc_osal_queue_init_fr F True n d) s = ((r, Some h), t)"
    and "run_state (qc_osal_queue_init_z Z True n d) s' = ((r', Some h'), t')"
  shows "fst (run_state (run_ops (fr_queue_port F) (\<lambda>_ :: unit. h) ops) t) = spec_ops (\<lambda>_. mq_new n d) ops
    \<and> fst (run_state (run_ops (z_queue_port Z) (\<lambda>_ :: unit. h') ops) t') = spec_ops (\<lambda>_. mq_new n d) ops"
proof -
  have valid: "fr_valid F V s" "z_valid Z W s'"
    using assms(1-6) by (simp_all add: fr_valid_def z_valid_def)
  have init: "run_state (port_init (fr_queue_port F) True n d) s = ((r, Some h), t)"
    "run_state (port_init (z_queue_port Z) True n d) s' = ((r', Some h'), t')"
    using assms(9,10) by (simp_all add: fr_queue_port_def z_queue_port_def)
  show ?thesis
    using fr_queue.fresh_queue_spec [OF valid(1) assms(7,8) init(1)]
      z_queue.fresh_queue_spec [OF valid(2) assms(7,8) init(2)] by blast
qed

end
