(* ===== verification/Os_Sim.thy ===== *)
theory Os_Sim
  imports Os_Contracts
begin

text \<open>
  A small FreeRTOS and a small Zephyr that keep the promises of \<open>Os_Contracts\<close>. They are not part of the
  program; they show that the contracts can be met. Memory is handed out upwards and not used again.
\<close>

section \<open>FreeRTOS\<close>

record rsim =
  rs_next :: ptr
  rs_used :: "ptr list"
  rs_queues :: "ptr \<Rightarrow> msgq option"

definition rs_alloc :: "rsim \<Rightarrow> ptr \<times> rsim" where
  "rs_alloc k = (if rs_next k = 0 \<or> rs_next k \<in> set (rs_used k) \<or> rs_queues k (rs_next k) \<noteq> None then (0, k)
     else (rs_next k, k\<lparr>rs_next := rs_next k + 16, rs_used := rs_next k # rs_used k\<rparr>))"

definition rs_free :: "rsim \<Rightarrow> ptr \<Rightarrow> rsim" where
  "rs_free k p = k\<lparr>rs_used := removeAll p (rs_used k)\<rparr>"

definition rs_set :: "rsim \<Rightarrow> ptr \<Rightarrow> msgq option \<Rightarrow> rsim" where
  "rs_set k h q = k\<lparr>rs_queues := (rs_queues k)(h := q)\<rparr>"

definition rs_put :: "rsim \<Rightarrow> ptr \<Rightarrow> bytes \<Rightarrow> int \<times> rsim" where
  "rs_put k h m = (case rs_queues k h of None \<Rightarrow> (0, k)
     | Some q \<Rightarrow> (if mq_full q then 0 else 1, rs_set k h (Some (mq_put m q))))"

definition rsim :: "rsim freertos" where
  "rsim = \<lparr>
     pvPortMalloc = (\<lambda>k n. rs_alloc k),
     vPortFree = rs_free,
     xSemaphoreCreateMutex = rs_alloc,
     xSemaphoreCreateCounting = (\<lambda>k m i. rs_alloc k),
     xSemaphoreTake = (\<lambda>k h t. (1, k)),
     xSemaphoreGive = (\<lambda>k h. (1, k)),
     xQueueCreate = (\<lambda>k n d. case rs_alloc k of (h, k') \<Rightarrow> (h, if h = 0 then k' else rs_set k' h (Some (mq_new n d)))),
     vQueueDelete = (\<lambda>k h. rs_set (rs_free k h) h None),
     xQueueSend = (\<lambda>k h m t. rs_put k h m),
     xQueueSendFromISR = (\<lambda>k h m. case rs_put k h m of (r, k') \<Rightarrow> ((r, False), k')),
     xQueueReceive = (\<lambda>k h t. case rs_queues k h of None \<Rightarrow> ((0, []), k)
       | Some q \<Rightarrow> ((if mq_items q = [] then 0 else 1, if mq_items q = [] then [] else hd (mq_items q)),
           rs_set k h (Some (mq_drop q)))),
     uxQueueMessagesWaiting = (\<lambda>k h. case rs_queues k h of None \<Rightarrow> 0 | Some q \<Rightarrow> of_nat (length (mq_items q))),
     xTaskCreate = (\<lambda>k f nm d p i. case rs_alloc k of (t, k') \<Rightarrow> ((if t = 0 then 0 else 1, t), k')),
     vTaskDelete = rs_free,
     vTaskDelay = (\<lambda>k n. k),
     xTaskGetTickCount = (\<lambda>k. 0),
     xPortIsInsideInterrupt = (\<lambda>k. False),
     portYIELD_FROM_ISR = (\<lambda>k w. k),
     taskYIELD = (\<lambda>k. k),
     nop = (\<lambda>k. k),
     console = (\<lambda>k s. k),
     pdMS_TO_TICKS = (\<lambda>n. n),
     portMAX_DELAY = 0xFFFFFFFF,
     portTICK_PERIOD_MS = 1,
     configCPU_CLOCK_HZ = 160000000,
     sizeof_StackType = 4\<rparr>"

definition rsim_view :: "rsim rtos_view" where
  "rsim_view = \<lparr>live = (\<lambda>k. set (rs_used k)), queues_of = rs_queues\<rparr>"

lemma rs_alloc_allocates: "allocates rsim_view rs_alloc"
  by (auto simp: allocates_def rs_alloc_def rsim_view_def split: if_splits)

lemma rsim_heap: "rtos_heap rsim rsim_view"
  unfolding rtos_heap_def
proof (intro conjI allI)
  show "allocates rsim_view (\<lambda>k. pvPortMalloc rsim k n)" "allocates rsim_view (xSemaphoreCreateMutex rsim)"
    "allocates rsim_view (\<lambda>k. xSemaphoreCreateCounting rsim k m i)" for n m i
    using rs_alloc_allocates by (simp_all add: rsim_def)
qed (auto simp: rsim_def rs_free_def rs_alloc_def rsim_view_def pdPASS_def split: if_splits)

lemma rsim_queues: "rtos_queues rsim rsim_view"
  unfolding rtos_queues_def
proof (intro conjI)
  show "rtos_create rsim rsim_view"
    by (auto simp: rtos_create_def rsim_def rsim_view_def rs_alloc_def rs_set_def rs_free_def split: if_splits)
  show "rtos_send rsim rsim_view" "rtos_send_isr rsim rsim_view"
    by (auto simp: rtos_send_def rtos_send_isr_def leaves_def rsim_def rsim_view_def rs_put_def rs_set_def)
  show "rtos_receive rsim rsim_view" "rtos_waiting rsim rsim_view"
    by (auto simp: rtos_receive_def rtos_waiting_def rsim_def rsim_view_def rs_set_def)
qed

section \<open>Zephyr\<close>

record zsim =
  zs_next :: ptr
  zs_blocks :: "ptr \<Rightarrow> nat option"
  zs_msgqs :: "ptr \<Rightarrow> msgq option"

definition zs_alloc :: "zsim \<Rightarrow> u32 \<Rightarrow> ptr \<times> zsim" where
  "zs_alloc k n = (if zs_next k = 0 \<or> zs_blocks k (zs_next k) \<noteq> None then (0, k)
     else (zs_next k, k\<lparr>zs_next := zs_next k + 16, zs_blocks := (zs_blocks k)(zs_next k \<mapsto> unat n)\<rparr>))"

definition zs_set :: "zsim \<Rightarrow> ptr \<Rightarrow> msgq option \<Rightarrow> zsim" where
  "zs_set k h q = k\<lparr>zs_msgqs := (zs_msgqs k)(h := q)\<rparr>"

definition zsim :: "zsim zephyr" where
  "zsim = \<lparr>
     k_malloc = zs_alloc,
     k_free = (\<lambda>k p. k\<lparr>zs_blocks := (zs_blocks k)(p := None)\<rparr>),
     k_mutex_init = (\<lambda>k p. (0, k)),
     k_mutex_lock = (\<lambda>k p t. (0, k)),
     k_mutex_unlock = (\<lambda>k p. (0, k)),
     k_sem_init = (\<lambda>k p i m. (if m = 0 then - 22 else 0, k)),
     k_sem_take = (\<lambda>k p t. (0, k)),
     k_sem_give = (\<lambda>k p. k),
     k_msgq_init = (\<lambda>k a b d n. zs_set k a (Some (mq_new n d))),
     k_msgq_put = (\<lambda>k a m t. case zs_msgqs k a of None \<Rightarrow> (- 22, k)
       | Some q \<Rightarrow> (if mq_full q then - 80 else 0, zs_set k a (Some (mq_put m q)))),
     k_msgq_get = (\<lambda>k a t. case zs_msgqs k a of None \<Rightarrow> ((- 22, []), k)
       | Some q \<Rightarrow> ((if mq_items q = [] then - 80 else 0, if mq_items q = [] then [] else hd (mq_items q)),
           zs_set k a (Some (mq_drop q)))),
     k_msgq_num_used_get = (\<lambda>k a. case zs_msgqs k a of None \<Rightarrow> 0 | Some q \<Rightarrow> of_nat (length (mq_items q))),
     k_thread_create = (\<lambda>k w st n p i. (w, k)),
     k_thread_name_set = (\<lambda>k t nm. k),
     k_thread_abort = (\<lambda>k t. k),
     k_yield = (\<lambda>k. k),
     k_work_init = (\<lambda>k w. k),
     k_work_queue_init = (\<lambda>k w. k),
     k_work_queue_start = (\<lambda>k w st n i. k),
     k_work_submit_to_queue = (\<lambda>k q w. (1, k)),
     k_msleep = (\<lambda>k n. k),
     k_usleep = (\<lambda>k n. k),
     k_uptime_get_32 = (\<lambda>k. 0),
     log_at = (\<lambda>k l s. k),
     sizeof_k_mutex = 20, sizeof_k_sem = 16, sizeof_queue_wrapper = 56, sizeof_thread_wrapper = 160,
     sizeof_work_wrapper = 20, sizeof_work_q_wrapper = 200\<rparr>"

definition zsim_view :: "zsim zephyr_view" where
  "zsim_view = \<lparr>blocks = zs_blocks, msgqs = zs_msgqs\<rparr>"

lemma zsim_heap: "zephyr_heap zsim zsim_view"
  by (auto simp: zephyr_heap_def zkeeps_def zsim_def zsim_view_def zs_alloc_def split: if_splits)

lemma zsim_queues: "zephyr_queues zsim zsim_view"
  unfolding zephyr_queues_def
proof (intro conjI)
  show "zephyr_create zsim zsim_view" "zephyr_put zsim zsim_view"
    by (auto simp: zephyr_create_def zephyr_put_def zsim_def zsim_view_def zs_set_def)
  show "zephyr_get zsim zsim_view" "zephyr_used zsim zsim_view"
    by (auto simp: zephyr_get_def zephyr_used_def zsim_def zsim_view_def zs_set_def)
qed

text \<open>The error numbers of Zephyr's own C library.\<close>

definition zephyr_errnos :: errnos where
  "zephyr_errnos = \<lparr>e_inval = 22, e_nomem = 12, e_nodev = 19, e_again = 11, e_timedout = 116, e_msgsize = 122,
     e_already = 120, e_2big = 7, e_io = 5, e_busy = 16, e_notsup = 134\<rparr>"

section \<open>States to start from\<close>

definition rsim_state :: "rsim fr_st" where
  "rsim_state = \<lparr>kernel = \<lparr>rs_next = 0x20000000, rs_used = [], rs_queues = (\<lambda>_. None)\<rparr>, calls = [], os_fault = False,
     fr_works = (\<lambda>_. None), fr_work_qs = (\<lambda>_. None), fr_queues = (\<lambda>_. None), fr_threads = (\<lambda>_. None),
     g_log_level = QC_OSAL_LOG_LEVEL_INF\<rparr>"

definition zsim_state :: "zsim z_st" where
  "zsim_state = \<lparr>kernel = \<lparr>zs_next = 0x20000000, zs_blocks = (\<lambda>_. None), zs_msgqs = (\<lambda>_. None)\<rparr>, calls = [],
     os_fault = False, z_queues = (\<lambda>_. None), z_threads = (\<lambda>_. None), z_works = (\<lambda>_. None), z_work_qs = (\<lambda>_. None)\<rparr>"

end
