(* ===== verification/Os_Proofs.thy ===== *)
theory Os_Proofs
  imports Os_Queue_Ports Os_Sim
begin

text \<open>
  The remaining guarantees of the two ports: error numbers are translated without loss, an initialisation
  that fails gives back what it took, a thread that is deleted gives back what its creation took, and the
  FreeRTOS work queue runs the items in the order in which they were submitted.
\<close>

theorem queue_ports_agree_witness:
  "\<exists>h t h' t'. run_state (qc_osal_queue_init_fr rsim True 2 4) rsim_state = ((0, Some h), t)
     \<and> run_state (qc_osal_queue_init_z zsim True 2 4) zsim_state = ((0, Some h'), t')
     \<and> fst (run_state (run_ops (fr_queue_port rsim) (\<lambda>_ :: unit. h) [Send () [1, 2, 3, 4], Recv (), Recv ()]) t) =
         [Status 0, Message 0 (Some [1, 2, 3, 4]), Message (- QC_OSAL_ETIMEDOUT) None]
     \<and> fst (run_state (run_ops (z_queue_port zsim) (\<lambda>_ :: unit. h') [Send () [1, 2, 3, 4], Recv (), Recv ()]) t') =
         [Status 0, Message 0 (Some [1, 2, 3, 4]), Message (- QC_OSAL_ETIMEDOUT) None]"
proof -
  obtain h t where fr: "run_state (qc_osal_queue_init_fr rsim True 2 4) rsim_state = ((0, Some h), t)"
    by (simp add: qc_osal_queue_init_fr_def os_simps rsim_def rsim_state_def rs_alloc_def rs_set_def)
  obtain h' t' where z: "run_state (qc_osal_queue_init_z zsim True 2 4) zsim_state = ((0, Some h'), t')"
    by (simp add: qc_osal_queue_init_z_def os_simps zsim_def zsim_state_def zs_alloc_def zs_set_def)
  have wf: "fr_wf rsim_view rsim_state" "z_wf zsim_view zsim_state"
    by (simp_all add: fr_wf_def z_wf_def rsim_state_def zsim_state_def)
  have "spec_ops (\<lambda>_ :: unit. mq_new 2 4) [Send () [1, 2, 3, 4], Recv (), Recv ()] =
      [Status 0, Message 0 (Some [1, 2, 3, 4]), Message (- QC_OSAL_ETIMEDOUT) None]"
    by (simp add: mq_new_def mq_put_def mq_full_def mq_drop_def)
  with queue_ports_agree [OF rsim_heap rsim_queues wf(1) zsim_heap zsim_queues wf(2) _ _ fr z,
      of "[Send () [1, 2, 3, 4], Recv (), Recv ()]"] fr z show ?thesis
    by (simp add: word_less_nat_alt)
qed

section \<open>Error numbers\<close>

definition errno_list :: "errnos \<Rightarrow> int list" where
  "errno_list E = [e_inval E, e_nomem E, e_nodev E, e_again E, e_timedout E, e_msgsize E, e_already E,
     e_2big E, e_io E, e_busy E, e_notsup E]"

text \<open>
  On Zephyr, an error number the layer knows survives the translation to the layer's codes and back,
  every other one comes back as an I/O error; a code of the layer survives the way through the error
  numbers.
\<close>

theorem errno_round_trip:
  assumes "distinct (0 # errno_list E)"
  shows "(\<forall>e. osal_to_zephyr_errno E (zephyr_errno_to_osal E e) = (if e \<in> set (0 # errno_list E) then e else e_io E))
    \<and> (\<forall>x \<in> {- 11..0}. zephyr_errno_to_osal E (osal_to_zephyr_errno E x) = x)"
proof (intro conjI allI ballI)
  fix e
  have known: "osal_to_zephyr_errno E (zephyr_errno_to_osal E e) = e" if "e \<in> set (0 # errno_list E)"
    using assms that
    by (auto simp: errno_list_def zephyr_errno_to_osal_def osal_to_zephyr_errno_def all_osal_errors)
  have unknown: "osal_to_zephyr_errno E (zephyr_errno_to_osal E e) = e_io E" if "e \<notin> set (0 # errno_list E)"
    using that by (simp add: errno_list_def zephyr_errno_to_osal_def osal_to_zephyr_errno_def all_osal_errors)
  show "osal_to_zephyr_errno E (zephyr_errno_to_osal E e) = (if e \<in> set (0 # errno_list E) then e else e_io E)"
    using known unknown by simp
next
  fix x :: int
  assume "x \<in> {- 11..0}"
  then have "x = 0 \<or> x = - 1 \<or> x = - 2 \<or> x = - 3 \<or> x = - 4 \<or> x = - 5 \<or> x = - 6 \<or> x = - 7 \<or> x = - 8
      \<or> x = - 9 \<or> x = - 10 \<or> x = - 11"
    unfolding atLeastAtMost_iff by presburger
  then show "zephyr_errno_to_osal E (osal_to_zephyr_errno E x) = x"
    using assms
    by (elim disjE) (auto simp: errno_list_def zephyr_errno_to_osal_def osal_to_zephyr_errno_def all_osal_errors)
qed

theorem errno_round_trip_witness:
  "osal_to_zephyr_errno zephyr_errnos (zephyr_errno_to_osal zephyr_errnos 116) = 116
   \<and> osal_to_zephyr_errno zephyr_errnos (zephyr_errno_to_osal zephyr_errnos 80) = 5"
proof -
  have "distinct (0 # errno_list zephyr_errnos)"
    by (simp add: errno_list_def zephyr_errnos_def)
  from errno_round_trip [OF this] show ?thesis
    by (simp add: errno_list_def zephyr_errnos_def)
qed

lemma errno_nonzero: "e \<noteq> 0 \<Longrightarrow> zephyr_errno_to_osal E e < 0"
  by (simp add: zephyr_errno_to_osal_def all_osal_errors)

section \<open>Initialisation\<close>

datatype init_call = Init_Mutex bool | Init_Sem bool u32 u32 | Init_Work bool ptr
  | Init_Work_Queue bool u32 int | Init_Queue bool u32 u32 | Create_Thread bool "thread_config option"

fun init_fr :: "'k freertos \<Rightarrow> init_call \<Rightarrow> (('k, 'z) fr_st_scheme, init_result) state" where
  "init_fr K (Init_Mutex b) = qc_osal_mutex_init_fr K b"
| "init_fr K (Init_Sem b i m) = qc_osal_sem_init_fr K b i m"
| "init_fr K (Init_Work b f) = qc_osal_work_init_fr K b f"
| "init_fr K (Init_Work_Queue b n p) = qc_osal_work_queue_init_fr K b n p"
| "init_fr K (Init_Queue b n d) = qc_osal_queue_init_fr K b n d"
| "init_fr K (Create_Thread b c) = qc_osal_thread_create_fr K b c"

fun init_z :: "'k zephyr \<Rightarrow> errnos \<Rightarrow> init_call \<Rightarrow> (('k, 'z) z_st_scheme, init_result) state" where
  "init_z K E (Init_Mutex b) = qc_osal_mutex_init_z K E b"
| "init_z K E (Init_Sem b i m) = qc_osal_sem_init_z K E b i m"
| "init_z K E (Init_Work b f) = qc_osal_work_init_z K b f"
| "init_z K E (Init_Work_Queue b n p) = qc_osal_work_queue_init_z K b n p"
| "init_z K E (Init_Queue b n d) = qc_osal_queue_init_z K b n d"
| "init_z K E (Create_Thread b c) = qc_osal_thread_create_z K b c"

text \<open>What an initialisation did to the set of allocated blocks.\<close>

definition init_clean :: "ptr set \<Rightarrow> init_result \<Rightarrow> ptr set \<Rightarrow> bool" where
  "init_clean before rx after \<longleftrightarrow> (case rx of
     (r, None) \<Rightarrow> r < 0 \<and> after = before
   | (r, Some h) \<Rightarrow> r = 0 \<and> h \<noteq> 0 \<and> h \<notin> before \<and> insert h before \<subseteq> after)"

lemma init_clean_failed [simp]: "init_clean A (- e, None) A \<longleftrightarrow> 0 < e"
  by (simp add: init_clean_def)

lemma init_clean_errno [simp]: "init_clean A (zephyr_errno_to_osal E (- r), None) A \<longleftrightarrow> r \<noteq> 0"
  using errno_nonzero [of "- r" E] by (auto simp: init_clean_def zephyr_errno_to_osal_def)

lemma positive_errors [simp]: "0 < QC_OSAL_EINVAL" "0 < QC_OSAL_ENOMEM"
  by (simp_all add: all_osal_errors)

lemma clean_fr:
  assumes heap: "rtos_heap K V" and queues: "rtos_queues K V"
    and run: "run_state (init_fr K c) s = (rx, t)"
  shows "init_clean (live V (kernel s)) rx (live V (kernel t))"
proof -
  note mal = allocatesD(2) [OF rtos_heapD(1) [OF heap]] and mut = allocatesD(2) [OF rtos_heapD(2) [OF heap]]
    and sem = allocatesD(2) [OF rtos_heapD(3) [OF heap]] and fre = rtos_heapD(4) [OF heap]
    and cre = rtos_createD [OF queues] and del = rtos_deleteD [OF queues] and task = rtos_taskD [OF heap]
  show ?thesis
  proof (cases c)
    case (Init_Mutex b)
    then show ?thesis
      using run by (auto simp: qc_osal_mutex_init_fr_def os_simps init_clean_def all_osal_errors
          split: prod.splits if_splits dest!: mut)
  next
    case (Init_Sem b i m)
    then show ?thesis
      using run by (auto simp: qc_osal_sem_init_fr_def os_simps init_clean_def all_osal_errors
          split: prod.splits if_splits dest!: sem)
  next
    case (Init_Work b f)
    then show ?thesis
      using run by (auto simp: qc_osal_work_init_fr_def os_simps init_clean_def all_osal_errors
          split: prod.splits if_splits dest!: mal)
  next
    case (Init_Work_Queue b n p)
    then show ?thesis
      using run by (auto simp: qc_osal_work_queue_init_fr_def free_work_q_def os_simps init_clean_def all_osal_errors
          fre del split: prod.splits if_splits dest!: mal cre task)
  next
    case (Init_Queue b n d)
    then show ?thesis
      using run by (auto simp: qc_osal_queue_init_fr_def os_simps init_clean_def all_osal_errors
          fre split: prod.splits if_splits dest!: mal cre)
  next
    case (Create_Thread b cfg)
    then show ?thesis
      using run by (auto simp: qc_osal_thread_create_fr_def free_thread_def os_simps init_clean_def all_osal_errors
          fre split: prod.splits if_splits option.splits dest!: mal task)
  qed
qed

lemma clean_z:
  assumes heap: "zephyr_heap K V" and queues: "zephyr_queues K V"
    and run: "run_state (init_z K E c) s = (rx, t)"
    and fits: "\<And>b n d. c = Init_Queue b n d \<Longrightarrow> unat n * unat d < 2 ^ 32"
  shows "init_clean (dom (blocks V (kernel s))) rx (dom (blocks V (kernel t)))"
proof -
  note mal = zephyr_mallocD(2) [OF heap] and keep = zephyr_heapD [OF heap]
  show ?thesis
  proof (cases c)
    case (Init_Mutex b)
    obtain w k where w: "k_malloc K (kernel s) (sizeof_k_mutex K) = (w, k)"
      by (rule prod.exhaust)
    obtain r k' where r: "k_mutex_init K k w = (r, k')"
      by (rule prod.exhaust)
    have "blocks V k' = blocks V k"
      using keep(3) [of k w] by (simp add: r)
    then show ?thesis
      using run Init_Mutex mal [OF w] errno_nonzero [of "- r" E]
      by (auto simp: qc_osal_mutex_init_z_def os_simps init_clean_def all_osal_errors w r keep split: if_splits)
  next
    case (Init_Sem b i m)
    obtain w k where w: "k_malloc K (kernel s) (sizeof_k_sem K) = (w, k)"
      by (rule prod.exhaust)
    obtain r k' where r: "k_sem_init K k w i m = (r, k')"
      by (rule prod.exhaust)
    have "blocks V k' = blocks V k"
      using keep(4) [of k w i m] by (simp add: r)
    then show ?thesis
      using run Init_Sem mal [OF w] errno_nonzero [of "- r" E]
      by (auto simp: qc_osal_sem_init_z_def os_simps init_clean_def all_osal_errors w r keep split: if_splits)
  next
    case (Init_Work b f)
    then show ?thesis
      using run by (auto simp: qc_osal_work_init_z_def os_simps init_clean_def all_osal_errors keep
          split: prod.splits if_splits dest!: mal)
  next
    case (Init_Work_Queue b n p)
    then show ?thesis
      using run by (auto simp: qc_osal_work_queue_init_z_def os_simps init_clean_def all_osal_errors keep
          split: prod.splits if_splits dest!: mal)
  next
    case (Init_Queue b n d)
    obtain w k where w: "k_malloc K (kernel s) (sizeof_queue_wrapper K) = (w, k)"
      by (rule prod.exhaust)
    obtain p k' where p: "k_malloc K k (n * d) = (p, k')"
      by (rule prod.exhaust)
    have "unat (n * d) = unat n * unat d"
      using fits [OF Init_Queue] by (intro unat_mult_nowrap) simp
    then have room: "blocks V (k_msgq_init K k' w p d n) = blocks V k'" if "p \<noteq> 0"
      using mal [OF p] that zephyr_createD(1) [OF queues, of k' p "unat n * unat d" n d w] by simp
    show ?thesis
      using run Init_Queue mal [OF w] mal [OF p] room
      by (auto simp: qc_osal_queue_init_z_def os_simps init_clean_def all_osal_errors w p keep split: if_splits)
  next
    case (Create_Thread b cfg)
    have made: "blocks V k' = blocks V k" if "k_thread_create K k w st n p j = (r, k')" for k w st n p j r k'
      using keep(5) [of k w st n p j] that by simp
    show ?thesis
      using run Create_Thread
      by (auto simp: qc_osal_thread_create_z_def free_zthread_def os_simps init_clean_def all_osal_errors
          keep split: prod.splits if_splits option.splits dest!: mal made)
  qed
qed

text \<open>
  C28: An initialisation that fails, on either port, reports an error, hands out no handle and has given
  back every block it allocated; one that succeeds hands out a handle that was not in use. On Zephyr the
  measures of a queue must not wrap.
\<close>

theorem failed_init_leaks_nothing:
  assumes "rtos_heap F V" "rtos_queues F V" "run_state (init_fr F c) s = (rx, t)"
    and "zephyr_heap Z W" "zephyr_queues Z W" "run_state (init_z Z E c) s' = (rx', t')"
    and "\<And>b n d. c = Init_Queue b n d \<Longrightarrow> unat n * unat d < 2 ^ 32"
  shows "init_clean (live V (kernel s)) rx (live V (kernel t))
    \<and> init_clean (dom (blocks W (kernel s'))) rx' (dom (blocks W (kernel t')))"
proof
  show "init_clean (live V (kernel s)) rx (live V (kernel t))"
    by (rule clean_fr [OF assms(1-3)])
  show "init_clean (dom (blocks W (kernel s'))) rx' (dom (blocks W (kernel t')))"
    by (rule clean_z [OF assms(4-6)]) (rule assms(7))
qed

theorem failed_init_leaks_nothing_witness:
  "\<exists>rx t rx' t'. run_state (init_fr rsim (Init_Sem True 1 0)) rsim_state = (rx, t)
     \<and> run_state (init_z zsim zephyr_errnos (Init_Sem True 1 0)) zsim_state = (rx', t')
     \<and> rx' = (- QC_OSAL_EINVAL, None) \<and> init_clean {} rx (set (rs_used (kernel t)))
     \<and> init_clean {} rx' (dom (zs_blocks (kernel t')))"
proof -
  obtain rx t where fr: "run_state (init_fr rsim (Init_Sem True 1 0)) rsim_state = (rx, t)"
    by (rule prod.exhaust)
  obtain rx' t' where z: "run_state (init_z zsim zephyr_errnos (Init_Sem True 1 0)) zsim_state = (rx', t')"
    by (rule prod.exhaust)
  have "rx' = (- QC_OSAL_EINVAL, None)"
    using z by (simp add: qc_osal_sem_init_z_def os_simps zsim_def zsim_state_def zs_alloc_def
        zephyr_errno_to_osal_def zephyr_errnos_def)
  with failed_init_leaks_nothing [OF rsim_heap rsim_queues fr zsim_heap zsim_queues z] fr z show ?thesis
    by (simp add: rsim_view_def zsim_view_def rsim_state_def zsim_state_def)
qed

section \<open>The FreeRTOS work queue\<close>

text \<open>The work queue \<open>h\<close> is running and holds the items \<open>ws\<close>, all of them initialised.\<close>

definition pending_works :: "'k freertos \<Rightarrow> 'k rtos_view \<Rightarrow> ptr \<Rightarrow> ptr list \<Rightarrow> ('k, 'z) fr_st_scheme \<Rightarrow> bool" where
  "pending_works K V h ws s \<longleftrightarrow> rtos_queues K V \<and> h \<noteq> 0 \<and> (\<exists>q. fr_work_qs s h = Some q \<and> wq_running q \<noteq> 0
     \<and> queues_of V (kernel s) (wq_queue q) = Some \<lparr>mq_cap = 16, mq_size = 4, mq_items = map enc_ptr ws\<rparr>)
     \<and> (\<forall>w \<in> set ws. w \<noteq> 0 \<and> (\<exists>x. fr_works s w = Some x \<and> work_handler x \<noteq> 0))"

lemma length_enc_ptr [simp]: "length (enc_ptr p) = 4"
  by (simp add: enc_ptr_def)

lemma le32_enc_ptr [simp]: "le32 (enc_ptr p) = p"
  by (simp add: enc_ptr_def)

definition initialised :: "ptr \<Rightarrow> ('k, 'z) fr_st_scheme \<Rightarrow> bool" where
  "initialised w s \<longleftrightarrow> w \<noteq> 0 \<and> (\<exists>x. fr_works s w = Some x \<and> work_handler x \<noteq> 0)"

lemma run_work_submit:
  assumes "pending_works K V h ws s" "initialised w s"
  obtains t where "run_state (qc_osal_work_submit_fr K h w) s = (if length ws < 16 then 0 else - QC_OSAL_EAGAIN, t)"
    "pending_works K V h (if length ws < 16 then ws @ [w] else ws) t" "calls t = calls s" "fr_works t = fr_works s"
proof -
  obtain q where q: "rtos_queues K V" "h \<noteq> 0" "fr_work_qs s h = Some q" "wq_running q \<noteq> 0"
    "queues_of V (kernel s) (wq_queue q) = Some \<lparr>mq_cap = 16, mq_size = 4, mq_items = map enc_ptr ws\<rparr>"
    using assms(1) by (auto simp: pending_works_def)
  let ?q = "\<lparr>mq_cap = 16, mq_size = 4, mq_items = map enc_ptr ws\<rparr>"
  have full: "mq_full ?q \<longleftrightarrow> \<not> length ws < 16"
    by (auto simp: mq_full_def)
  have put: "mq_put (enc_ptr w) ?q = ?q\<lparr>mq_items := map enc_ptr (if length ws < 16 then ws @ [w] else ws)\<rparr>"
    by (auto simp: mq_put_def mq_full_def)
  obtain k where "run_state (qc_osal_work_submit_fr K h w) s =
      (if length ws < 16 then 0 else - QC_OSAL_EAGAIN, s\<lparr>kernel := k\<rparr>)"
    "queues_of V k = (queues_of V (kernel s))(wq_queue q \<mapsto> mq_put (enc_ptr w) ?q)"
  proof (cases "xPortIsInsideInterrupt K (kernel s)")
    case True
    obtain y k where k: "xQueueSendFromISR K (kernel s) (wq_queue q) (enc_ptr w) = ((if mq_full ?q then 0 else 1, y), k)"
      "queues_of V k = (queues_of V (kernel s))(wq_queue q \<mapsto> mq_put (enc_ptr w) ?q)"
      using rtos_queuesD(2) [OF q(1,5)] by blast
    show ?thesis
      using True q(2) assms(2) k rtos_yieldD [OF q(1)]
      by (intro that [of "portYIELD_FROM_ISR K k y"])
         (simp_all add: qc_osal_work_submit_fr_def os_simps run_deref [of fr_work_qs] q(3) full pdTRUE_def initialised_def)
  next
    case False
    obtain k where k: "xQueueSend K (kernel s) (wq_queue q) (enc_ptr w) 0 = (if mq_full ?q then 0 else 1, k)"
      "queues_of V k = (queues_of V (kernel s))(wq_queue q \<mapsto> mq_put (enc_ptr w) ?q)"
      using rtos_queuesD(1) [OF q(1,5)] by blast
    show ?thesis
      using False q(2) assms(2) k
      by (intro that [of k])
         (simp_all add: qc_osal_work_submit_fr_def os_simps run_deref [of fr_work_qs] q(3) full pdTRUE_def initialised_def)
  qed
  then show ?thesis
    using assms q put by (intro that [of "s\<lparr>kernel := k\<rparr>"]) (auto simp: pending_works_def initialised_def)
qed

text \<open>
  What a handler may do, and what may happen while it runs: it may change the kernel and the state as it likes,
  but takes nothing out of the queue and unmakes no item; \<open>subs a\<close> are the items that come in until the handler of
  the item \<open>a\<close> returns, submitted by itself, by another task or in an interrupt.
\<close>

definition serves ::
  "'k freertos \<Rightarrow> 'k rtos_view \<Rightarrow> ptr \<Rightarrow> (ptr \<Rightarrow> ptr list) \<Rightarrow> (ptr \<Rightarrow> ptr \<Rightarrow> (('k, 'z) fr_st_scheme, unit) state) \<Rightarrow> bool" where
  "serves K V h subs user \<longleftrightarrow> (\<forall>f a s ws. pending_works K V h ws s \<and> length ws < 16 \<and> (\<forall>w \<in> set (subs a). initialised w s) \<longrightarrow>
     (\<exists>t. run_state (user f a) s = ((), t) \<and> pending_works K V h (ws @ take (16 - length ws) (subs a)) t
        \<and> calls t = calls s \<and> fr_works s \<subseteq>\<^sub>m fr_works t))"

lemma initialised_mono: "initialised w s \<Longrightarrow> fr_works s \<subseteq>\<^sub>m fr_works t \<Longrightarrow> initialised w t"
  unfolding initialised_def map_le_def by (metis domI)

lemma works_mono: "initialised w s \<Longrightarrow> fr_works s \<subseteq>\<^sub>m fr_works t \<Longrightarrow> fr_works t w = fr_works s w"
  unfolding initialised_def map_le_def by (metis domI)

text \<open>One turn of the task takes the first item and calls its handler with it.\<close>

lemma run_work_turn:
  assumes "pending_works K V h (w # ws) s" "serves K V h subs user" "length ws < 16" "\<forall>v \<in> set (subs w). initialised v s"
    and "fr_works s w = Some x"
  obtains t where "run_state (work_queue_task K user 1 h) s = ((), t)"
    "pending_works K V h (ws @ take (16 - length ws) (subs w)) t"
    "calls t = calls s @ [(work_handler x, w)]" "fr_works s \<subseteq>\<^sub>m fr_works t"
proof -
  obtain q where q: "rtos_queues K V" "h \<noteq> 0" "fr_work_qs s h = Some q" "wq_running q \<noteq> 0"
    "queues_of V (kernel s) (wq_queue q) = Some \<lparr>mq_cap = 16, mq_size = 4, mq_items = map enc_ptr (w # ws)\<rparr>"
    and w: "w \<noteq> 0" "work_handler x \<noteq> 0"
    using assms(1,5) by (auto simp: pending_works_def)
  let ?q = "\<lparr>mq_cap = 16, mq_size = 4, mq_items = map enc_ptr (w # ws)\<rparr>"
  obtain k where k: "xQueueReceive K (kernel s) (wq_queue q) (portMAX_DELAY K) = ((1, enc_ptr w), k)"
    "queues_of V k = (queues_of V (kernel s))(wq_queue q \<mapsto> mq_drop ?q)"
    using rtos_queuesD(3) [OF q(1,5), of "portMAX_DELAY K"] by auto
  let ?s1 = "s\<lparr>kernel := k, calls := calls s @ [(work_handler x, w)]\<rparr>"
  have "pending_works K V h ws ?s1"
    using assms(1) q(3) k(2) by (auto simp: pending_works_def mq_drop_def)
  moreover have "\<forall>v \<in> set (subs w). initialised v ?s1"
    using assms(4) by (simp add: initialised_def)
  ultimately obtain t where t: "run_state (user (work_handler x) w) ?s1 = ((), t)"
    "pending_works K V h (ws @ take (16 - length ws) (subs w)) t" "calls t = calls s @ [(work_handler x, w)]"
    "fr_works s \<subseteq>\<^sub>m fr_works t"
    using assms(2,3) [unfolded serves_def] by fastforce
  have "run_state (work_queue_turn K user h) s = ((), t)"
    using w k(1) t(1) assms(5)
    by (simp add: work_queue_turn_def os_simps run_deref [of fr_work_qs] run_deref [of fr_works] q(3) pdTRUE_def
        call_user_def)
  then have "run_state (work_queue_task K user 1 h) s = ((), t)"
    using q(3,4) by (simp add: os_simps run_deref [of fr_work_qs])
  with t show ?thesis
    by (intro that)
qed

text \<open>
  A schedule: submissions, from tasks or interrupts, and turns of the task of the queue, in any order. A turn is
  made with an item there; the task waits in the kernel as long as there is none.
\<close>

datatype work_step = Submit ptr | Turn

primrec run_works ::
  "'k freertos \<Rightarrow> (ptr \<Rightarrow> ptr \<Rightarrow> (('k, 'z) fr_st_scheme, unit) state) \<Rightarrow> ptr \<Rightarrow> work_step list \<Rightarrow> (('k, 'z) fr_st_scheme, int list) state" where
  "run_works K user h [] = State_Monad.return []"
| "run_works K user h (x # xs) = (case x of
     Submit w \<Rightarrow> do { r \<leftarrow> qc_osal_work_submit_fr K h w; rs \<leftarrow> run_works K user h xs; State_Monad.return (r # rs) }
   | Turn \<Rightarrow> do { work_queue_task K user 1 h; run_works K user h xs })"

text \<open>
  The specification, a bounded queue of items: the results of the submissions, the items accepted, the items
  handled and those left, all in order.
\<close>

fun works_spec :: "(ptr \<Rightarrow> ptr list) \<Rightarrow> ptr list \<Rightarrow> work_step list \<Rightarrow> (int list \<times> ptr list \<times> ptr list \<times> ptr list) option" where
  "works_spec subs q [] = Some ([], [], [], q)"
| "works_spec subs q (Submit w # xs) = (if length q < 16
     then map_option (\<lambda>(rs, as, hs, q'). (0 # rs, w # as, hs, q')) (works_spec subs (q @ [w]) xs)
     else map_option (\<lambda>(rs, as, hs, q'). (- QC_OSAL_EAGAIN # rs, as, hs, q')) (works_spec subs q xs))"
| "works_spec subs [] (Turn # xs) = None"
| "works_spec subs (w # q) (Turn # xs) = (let new = take (16 - length q) (subs w) in
     map_option (\<lambda>(rs, as, hs, q'). (rs, new @ as, w # hs, q')) (works_spec subs (q @ new) xs))"

lemma works_spec_fifo: "works_spec subs q xs = Some (rs, as, hs, q') \<Longrightarrow> hs @ q' = q @ as"
  by (induction subs q xs arbitrary: rs as hs q' rule: works_spec.induct) (auto simp: Let_def split: if_splits)

definition known :: "(ptr \<Rightarrow> ptr list) \<Rightarrow> work_step list \<Rightarrow> ptr set" where
  "known subs xs = {w. Submit w \<in> set xs} \<union> (\<Union>a. set (subs a))"

lemma works_spec_handled: "works_spec subs q xs = Some (rs, as, hs, q') \<Longrightarrow> set hs \<subseteq> set q \<union> known subs xs"
proof (induction subs q xs arbitrary: rs as hs q' rule: works_spec.induct)
  case (4 subs w q xs)
  let ?new = "take (16 - length q) (subs w)"
  obtain as1 hs1 where "works_spec subs (q @ ?new) xs = Some (rs, as1, hs1, q')" "hs = w # hs1"
    using "4.prems" by (auto simp: Let_def)
  with "4.IH" [OF refl] set_take_subset [of "16 - length q" "subs w"] show ?case
    by (fastforce simp: known_def)
qed (fastforce simp: known_def split: if_splits)+

text \<open>
  C20: Whatever the order of submissions and turns of its task, a FreeRTOS work queue is a queue of sixteen
  items: a submission is accepted while there is room and refused otherwise, and the task calls the handlers
  of the accepted items, each once and in the order in which they were accepted, also those that come in
  while a handler runs.
\<close>

theorem works_run_in_order:
  assumes "pending_works K V h q s" "length q \<le> 16" "\<forall>w \<in> known subs xs. initialised w s" "serves K V h subs user"
    and "works_spec subs q xs = Some (rs, as, hs, q')"
  shows "\<exists>t. run_state (run_works K user h xs) s = (rs, t) \<and> pending_works K V h q' t \<and> hs @ q' = q @ as
    \<and> calls t = calls s @ map (\<lambda>w. (work_handler (the (fr_works s w)), w)) hs"
proof -
  have "\<exists>t. run_state (run_works K user h xs) s = (rs, t) \<and> pending_works K V h q' t
    \<and> calls t = calls s @ map (\<lambda>w. (work_handler (the (fr_works s w)), w)) hs"
    using assms
  proof (induction subs q xs arbitrary: s rs as hs q' rule: works_spec.induct)
    case (1 subs q)
    then show ?case
      by (simp add: run_simps)
  next
    case (2 subs q w xs)
    let ?q = "if length q < 16 then q @ [w] else q"
    have w: "initialised w s"
      using "2.prems"(3) by (simp add: known_def)
    obtain u where u: "run_state (qc_osal_work_submit_fr K h w) s = (if length q < 16 then 0 else - QC_OSAL_EAGAIN, u)"
      "pending_works K V h ?q u" "calls u = calls s" "fr_works u = fr_works s"
      by (rule run_work_submit [OF "2.prems"(1) w])
    have prem: "\<forall>v \<in> known subs xs. initialised v u" "length ?q \<le> 16"
      using "2.prems"(2,3) u(4) by (auto simp: initialised_def known_def)
    show ?case
    proof (cases "length q < 16")
      case True
      then obtain rs1 as1 where spec: "works_spec subs (q @ [w]) xs = Some (rs1, as1, hs, q')" "rs = 0 # rs1"
        using "2.prems"(5) by auto
      with True "2.IH"(1) [of u rs1 as1 hs q'] u prem "2.prems"(4) show ?thesis
        by (auto simp: run_simps)
    next
      case False
      then obtain rs1 as1 where spec: "works_spec subs q xs = Some (rs1, as1, hs, q')" "rs = - QC_OSAL_EAGAIN # rs1"
        using "2.prems"(5) by auto
      with False "2.IH"(2) [of u rs1 as1 hs q'] u prem "2.prems"(4) show ?thesis
        by (auto simp: run_simps)
    qed
  next
    case (3 subs xs)
    then show ?case
      by simp
  next
    case (4 subs w q xs)
    let ?new = "take (16 - length q) (subs w)"
    obtain as1 hs1 where spec: "works_spec subs (q @ ?new) xs = Some (rs, as1, hs1, q')" "hs = w # hs1"
      using "4.prems"(5) by (auto simp: Let_def)
    obtain x where x: "fr_works s w = Some x"
      using "4.prems"(1) by (auto simp: pending_works_def)
    have room: "length q < 16" and subs: "\<forall>v \<in> set (subs w). initialised v s"
      using "4.prems"(2,3) by (auto simp: known_def)
    obtain u where u: "run_state (work_queue_task K user 1 h) s = ((), u)" "pending_works K V h (q @ ?new) u"
      "calls u = calls s @ [(work_handler x, w)]" "fr_works s \<subseteq>\<^sub>m fr_works u"
      by (rule run_work_turn [OF "4.prems"(1,4) room subs x])
    have prem: "\<forall>v \<in> known subs xs. initialised v u" "length (q @ ?new) \<le> 16"
      using "4.prems"(2,3) initialised_mono [OF _ u(4)] by (auto simp: known_def)
    obtain t where t: "run_state (run_works K user h xs) u = (rs, t)" "pending_works K V h q' t"
      "calls t = calls u @ map (\<lambda>w. (work_handler (the (fr_works u w)), w)) hs1"
      using "4.IH" [OF refl u(2) prem(2,1) "4.prems"(4) spec(1)] by blast
    have same: "fr_works u v = fr_works s v" if "v \<in> set hs1" for v
    proof -
      have "\<forall>v \<in> set q. initialised v s"
        using "4.prems"(1) by (auto simp: pending_works_def initialised_def)
      moreover have "\<forall>v \<in> known subs xs. initialised v s"
        using "4.prems"(3) by (simp add: known_def)
      ultimately have "initialised v s"
        using that works_spec_handled [OF spec(1)] set_take_subset [of "16 - length q" "subs w"] subs by fastforce
      then show ?thesis
        by (rule works_mono [OF _ u(4)])
    qed
    have "map (\<lambda>w. (work_handler (the (fr_works u w)), w)) hs1 = map (\<lambda>w. (work_handler (the (fr_works s w)), w)) hs1"
      using same by simp
    with t u(1,3) x spec(2) show ?case
      by (simp add: run_simps del: work_queue_task.simps One_nat_def)
  qed
  then show ?thesis
    using works_spec_fifo [OF assms(5)] by blast
qed

definition work_state :: "rsim fr_st" where
  "work_state = rsim_state\<lparr>kernel := \<lparr>rs_next = 0x20000100, rs_used = [32, 16],
       rs_queues = [32 \<mapsto> \<lparr>mq_cap = 16, mq_size = 4, mq_items = []\<rparr>]\<rparr>,
     fr_works := [64 \<mapsto> \<lparr>work_handler = 7, work_data = 0\<rparr>, 80 \<mapsto> \<lparr>work_handler = 9, work_data = 0\<rparr>],
     fr_work_qs := [16 \<mapsto> \<lparr>wq_queue = 32, wq_task = 48, wq_running = 1\<rparr>]\<rparr>"

text \<open>A handler that allocates, and submits the item 64 when it is called with the item 80.\<close>

definition busy_handler :: "ptr \<Rightarrow> ptr \<Rightarrow> (rsim fr_st, unit) state" where
  "busy_handler f a = do {
     when_m (a = 80) (do { _ \<leftarrow> qc_osal_work_submit_fr rsim 16 64; State_Monad.return () });
     _ \<leftarrow> qc_osal_malloc_fr rsim 8;
     State_Monad.return ()
   }"

lemma run_busy_malloc:
  assumes "pending_works rsim rsim_view h ws s"
  shows "\<exists>r t. run_state (qc_osal_malloc_fr rsim 8) s = (r, t) \<and> pending_works rsim rsim_view h ws t
    \<and> calls t = calls s \<and> fr_works t = fr_works s"
  using assms
  by (auto simp: qc_osal_malloc_fr_def os_simps rsim_def rs_alloc_def pending_works_def rsim_view_def split: prod.split)

lemma busy_handler_serves: "serves rsim rsim_view 16 (\<lambda>a. if a = 80 then [64] else []) busy_handler"
  unfolding serves_def
proof (intro allI impI, elim conjE)
  fix f a :: ptr and ws and s :: "rsim fr_st"
  let ?subs = "if a = 80 then [64] else []"
  assume s: "pending_works rsim rsim_view 16 ws s" "length ws < 16" "\<forall>w \<in> set ?subs. initialised w s"
  obtain u where u: "run_state (when_m (a = 80) (do { _ \<leftarrow> qc_osal_work_submit_fr rsim 16 64; State_Monad.return () })) s = ((), u)"
    "pending_works rsim rsim_view 16 (ws @ take (16 - length ws) ?subs) u" "calls u = calls s" "fr_works u = fr_works s"
  proof (cases "a = 80")
    case True
    then have w: "initialised 64 s"
      using s(3) by simp
    obtain u where "run_state (qc_osal_work_submit_fr rsim 16 64) s = (if length ws < 16 then 0 else - QC_OSAL_EAGAIN, u)"
      "pending_works rsim rsim_view 16 (if length ws < 16 then ws @ [64] else ws) u" "calls u = calls s" "fr_works u = fr_works s"
      by (rule run_work_submit [OF s(1) w])
    then show ?thesis
      using True s(2) by (intro that [of u]) (simp_all add: os_simps)
  next
    case False
    with s(1) show ?thesis
      by (intro that [of s]) (simp_all add: os_simps)
  qed
  obtain r t where "run_state (qc_osal_malloc_fr rsim 8) u = (r, t)"
    "pending_works rsim rsim_view 16 (ws @ take (16 - length ws) ?subs) t" "calls t = calls u" "fr_works t = fr_works u"
    using run_busy_malloc [OF u(2)] by blast
  with u show "\<exists>t. run_state (busy_handler f a) s = ((), t)
      \<and> pending_works rsim rsim_view 16 (ws @ take (16 - length ws) ?subs) t
      \<and> calls t = calls s \<and> fr_works s \<subseteq>\<^sub>m fr_works t"
    by (simp add: busy_handler_def run_simps)
qed

theorem works_run_in_order_witness:
  "\<exists>t. run_state (run_works rsim busy_handler 16 [Submit 80, Turn, Submit 80, Turn, Turn]) work_state = ([0, 0], t)
     \<and> pending_works rsim rsim_view 16 [64] t \<and> calls t = [(9, 80), (7, 64), (9, 80)]"
proof -
  let ?subs = "\<lambda>a :: ptr. if a = 80 then [64] else [] :: ptr list"
  let ?steps = "[Submit 80, Turn, Submit 80, Turn, Turn]"
  have pend: "pending_works rsim rsim_view 16 [] work_state"
    using rsim_queues by (simp add: pending_works_def work_state_def rsim_view_def)
  have init: "\<forall>w \<in> known ?subs ?steps. initialised w work_state"
    by (auto simp: known_def initialised_def work_state_def)
  have spec: "works_spec ?subs [] ?steps = Some ([0, 0], [80, 64, 80, 64], [80, 64, 80], [64])"
    by (simp add: Let_def)
  have "calls work_state = []" "work_handler (the (fr_works work_state 80)) = 9" "work_handler (the (fr_works work_state 64)) = 7"
    by (simp_all add: work_state_def rsim_state_def)
  with works_run_in_order [OF pend _ init busy_handler_serves spec] show ?thesis
    by (simp del: run_works.simps)
qed

end
