(* ===== verification/Stm32.thy ===== *)
theory Stm32
  imports Os_Zephyr
begin

text \<open>
  The platform layer for STM32 under both systems, \<open>qc_platform_stm32_zephyr.c\<close> (names ending in \<open>_z\<close>) and
  \<open>qc_platform_stm32_freertos.c\<close> (names ending in \<open>_fr\<close>) of
  \<open>src/qcspi_app/qcc730_host/Port/platform/stm32\<close>, with the SPI transport selected. The drivers of the
  board are parameters; messages printed are left out.
\<close>

definition QC_PLATFORM_EINVAL :: int where "QC_PLATFORM_EINVAL = 1"
definition QC_PLATFORM_ENODEV :: int where "QC_PLATFORM_ENODEV = 3"
definition QC_PLATFORM_EIO :: int where "QC_PLATFORM_EIO = 9"
definition QC_PLATFORM_EBUSY :: int where "QC_PLATFORM_EBUSY = 10"

lemmas platform_errors = QC_PLATFORM_EINVAL_def QC_PLATFORM_ENODEV_def QC_PLATFORM_EIO_def QC_PLATFORM_EBUSY_def

section \<open>Zephyr\<close>

text \<open>
  The drivers of Zephyr. \<open>gpio_pin_set_dt\<close> is given the logical level, which is active for \<open>True\<close>; a transfer
  is given the configured frequency and the bytes to send, and returns the status and what it wrote into the
  receive buffer.
\<close>

record 'k z_board =
  spi_is_ready :: "'k \<Rightarrow> bool"
  gpio_is_ready :: "'k \<Rightarrow> bool"
  gpio_pin_configure_dt :: "'k \<Rightarrow> int \<times> 'k"
  gpio_pin_set_dt :: "'k \<Rightarrow> bool \<Rightarrow> 'k"
  z_spi_transceive :: "'k \<Rightarrow> u32 \<Rightarrow> bytes \<Rightarrow> (int \<times> bytes) \<times> 'k"
  sizeof_stm32_ctx :: u32

record stm32_ctx_z =
  spi_frequency :: u32
  cs_initialized :: bool

record 'k pz_st = "'k os_st" +
  pz_ctxs :: "ptr \<Rightarrow> stm32_ctx_z option"

definition zephyr_errno_to_platform :: "errnos \<Rightarrow> int \<Rightarrow> int" where
  "zephyr_errno_to_platform E e =
     (if e = 0 then 0
      else if e = e_inval E then - QC_PLATFORM_EINVAL
      else if e = e_nodev E then - QC_PLATFORM_ENODEV
      else if e = e_io E then - QC_PLATFORM_EIO
      else if e = e_busy E then - QC_PLATFORM_EBUSY
      else - QC_PLATFORM_EIO)"

definition qc_platform_init_z ::
  "'k zephyr \<Rightarrow> 'k z_board \<Rightarrow> errnos \<Rightarrow> bool \<Rightarrow> (('k, 'z) pz_st_scheme, init_result) state" where
  "qc_platform_init_z K B E ctx =
     (if \<not> ctx then failed QC_PLATFORM_EINVAL
      else do {
        c \<leftarrow> kcall (\<lambda>k. k_malloc K k (sizeof_stm32_ctx B));
        if c = 0 then failed QC_PLATFORM_EIO
        else do {
          ready \<leftarrow> gets (\<lambda>s. spi_is_ready B (kernel s));
          if \<not> ready then do { kdo (\<lambda>k. k_free K k c); failed QC_PLATFORM_ENODEV }
          else do {
            ready \<leftarrow> gets (\<lambda>s. gpio_is_ready B (kernel s));
            if \<not> ready then do { kdo (\<lambda>k. k_free K k c); failed QC_PLATFORM_ENODEV }
            else do {
              r \<leftarrow> kcall (gpio_pin_configure_dt B);
              if r < 0 then do {
                kdo (\<lambda>k. k_free K k c);
                State_Monad.return (zephyr_errno_to_platform E (- r), None)
              } else do {
                modify (\<lambda>s. s\<lparr>pz_ctxs := (pz_ctxs s)(c \<mapsto> \<lparr>spi_frequency = 5000000, cs_initialized = True\<rparr>)\<rparr>);
                opened c
              }
            }
          }
        }
      })"

abbreviation no_ctx_z :: stm32_ctx_z where
  "no_ctx_z \<equiv> \<lparr>spi_frequency = 0, cs_initialized = False\<rparr>"

definition qc_platform_deinit_z ::
  "'k zephyr \<Rightarrow> 'k z_board \<Rightarrow> ptr \<Rightarrow> (('k, 'z) pz_st_scheme, int) state" where
  "qc_platform_deinit_z K B ctx =
     (if ctx = 0 then State_Monad.return (- QC_PLATFORM_EINVAL)
      else do {
        c \<leftarrow> deref pz_ctxs no_ctx_z ctx;
        when_m (cs_initialized c) (kdo (\<lambda>k. gpio_pin_set_dt B k False));
        kdo (\<lambda>k. k_free K k ctx);
        modify (\<lambda>s. s\<lparr>pz_ctxs := (pz_ctxs s)(ctx := None)\<rparr>);
        State_Monad.return 0
      })"

text \<open>
  \<open>tx\<close> are the bytes behind \<open>tx_buf\<close>, \<open>None\<close> for a null pointer; a length behind their end faults.
\<close>

definition qc_platform_spi_transceive_z ::
  "'k z_board \<Rightarrow> errnos \<Rightarrow> ptr \<Rightarrow> bytes option \<Rightarrow> bool \<Rightarrow> u32 \<Rightarrow> bool \<Rightarrow> (('k, 'z) pz_st_scheme, int \<times> bytes) state" where
  "qc_platform_spi_transceive_z B E ctx tx rx_ok len hold_cs =
     (if ctx = 0 \<or> tx = None \<or> \<not> rx_ok \<or> len = 0 then State_Monad.return (- QC_PLATFORM_EINVAL, [])
      else do {
        c \<leftarrow> deref pz_ctxs no_ctx_z ctx;
        if \<not> cs_initialized c then State_Monad.return (- QC_PLATFORM_ENODEV, [])
        else do {
          when_m (length (the tx) < unat len) os_ub;
          kdo (\<lambda>k. gpio_pin_set_dt B k True);
          (r, rx) \<leftarrow> kcall (\<lambda>k. z_spi_transceive B k (spi_frequency c) (take (unat len) (the tx)));
          when_m (\<not> hold_cs) (kdo (\<lambda>k. gpio_pin_set_dt B k False));
          if r < 0 then do {
            kdo (\<lambda>k. gpio_pin_set_dt B k False);
            State_Monad.return (zephyr_errno_to_platform E (- r), rx)
          } else State_Monad.return (0, rx)
        }
      })"

section \<open>FreeRTOS\<close>

datatype hal_status = HAL_OK | HAL_ERROR | HAL_BUSY | HAL_TIMEOUT

text \<open>
  The HAL. \<open>HAL_GPIO_WritePin\<close> sets the pin of the chip select high for \<open>True\<close>. The transfer functions
  take a 16-bit length, so that they see no more than its last 16 bits. \<open>HAL_SPI_GetState\<close> says whether
  the state is \<open>HAL_SPI_STATE_READY\<close>; \<open>dma_received\<close> is what the transfer by DMA has written.
\<close>

record 'k fr_board =
  hspi1_instance :: "'k \<Rightarrow> bool"
  HAL_GPIO_WritePin :: "'k \<Rightarrow> bool \<Rightarrow> 'k"
  HAL_SPI_TransmitReceive :: "'k \<Rightarrow> bytes \<Rightarrow> (hal_status \<times> bytes) \<times> 'k"
  HAL_SPI_TransmitReceive_DMA :: "'k \<Rightarrow> bytes \<Rightarrow> hal_status \<times> 'k"
  HAL_SPI_GetState :: "'k \<Rightarrow> bool \<times> 'k"
  HAL_GetTick :: "'k \<Rightarrow> u32 \<times> 'k"
  dma_received :: "'k \<Rightarrow> bytes"

definition sizeof_stm32_ctx_fr :: u32 where "sizeof_stm32_ctx_fr = 8"

text \<open>The flag of the contexts, and whether the wait for the DMA ran out of the turns given to it.\<close>

record 'k pf_st = "'k os_st" +
  pf_ctxs :: "ptr \<Rightarrow> bool option"
  pf_stuck :: bool

fun hal_status_to_platform :: "hal_status \<Rightarrow> int" where
  "hal_status_to_platform HAL_OK = 0"
| "hal_status_to_platform HAL_ERROR = - QC_PLATFORM_EIO"
| "hal_status_to_platform HAL_BUSY = - QC_PLATFORM_EBUSY"
| "hal_status_to_platform HAL_TIMEOUT = - QC_PLATFORM_EIO"

definition qc_platform_init_fr ::
  "'k freertos \<Rightarrow> 'k fr_board \<Rightarrow> bool \<Rightarrow> (('k, 'z) pf_st_scheme, init_result) state" where
  "qc_platform_init_fr K B ctx =
     (if \<not> ctx then failed QC_PLATFORM_EINVAL
      else do {
        c \<leftarrow> kcall (\<lambda>k. pvPortMalloc K k sizeof_stm32_ctx_fr);
        if c = 0 then failed QC_PLATFORM_EIO
        else do {
          inst \<leftarrow> gets (\<lambda>s. hspi1_instance B (kernel s));
          if \<not> inst then do { kdo (\<lambda>k. vPortFree K k c); failed QC_PLATFORM_ENODEV }
          else do {
            kdo (\<lambda>k. HAL_GPIO_WritePin B k True);
            modify (\<lambda>s. s\<lparr>pf_ctxs := (pf_ctxs s)(c \<mapsto> True)\<rparr>);
            opened c
          }
        }
      })"

definition qc_platform_deinit_fr ::
  "'k freertos \<Rightarrow> 'k fr_board \<Rightarrow> ptr \<Rightarrow> (('k, 'z) pf_st_scheme, int) state" where
  "qc_platform_deinit_fr K B ctx =
     (if ctx = 0 then State_Monad.return (- QC_PLATFORM_EINVAL)
      else do {
        kdo (\<lambda>k. HAL_GPIO_WritePin B k True);
        kdo (\<lambda>k. vPortFree K k ctx);
        modify (\<lambda>s. s\<lparr>pf_ctxs := (pf_ctxs s)(ctx := None)\<rparr>);
        State_Monad.return 0
      })"

text \<open>\<open>while (HAL_SPI_GetState(...) != HAL_SPI_STATE_READY)\<close>, for at most \<open>n\<close> turns.\<close>

primrec dma_wait :: "'k fr_board \<Rightarrow> nat \<Rightarrow> u32 \<Rightarrow> (('k, 'z) pf_st_scheme, int) state" where
  "dma_wait B 0 timeout = do { modify (\<lambda>s. s\<lparr>pf_stuck := True\<rparr>); State_Monad.return 0 }"
| "dma_wait B (Suc n) timeout = do {
     ready \<leftarrow> kcall (HAL_SPI_GetState B);
     if ready then State_Monad.return 0
     else do {
       now \<leftarrow> kcall (HAL_GetTick B);
       if now > timeout then State_Monad.return (hal_status_to_platform HAL_TIMEOUT)
       else dma_wait B n timeout
     }
   }"

definition spi_polled :: "'k fr_board \<Rightarrow> bytes \<Rightarrow> (('k, 'z) pf_st_scheme, int \<times> bytes) state" where
  "spi_polled B tx = do {
     (status, rx) \<leftarrow> kcall (\<lambda>k. HAL_SPI_TransmitReceive B k tx);
     State_Monad.return (if status \<noteq> HAL_OK then hal_status_to_platform status else 0, rx)
   }"

definition spi_by_dma :: "'k fr_board \<Rightarrow> nat \<Rightarrow> bytes \<Rightarrow> (('k, 'z) pf_st_scheme, int \<times> bytes) state" where
  "spi_by_dma B n tx = do {
     status \<leftarrow> kcall (\<lambda>k. HAL_SPI_TransmitReceive_DMA B k tx);
     if status \<noteq> HAL_OK then State_Monad.return (hal_status_to_platform status, [])
     else do {
       now \<leftarrow> kcall (HAL_GetTick B);
       r \<leftarrow> dma_wait B n (now + 1000);
       rx \<leftarrow> gets (\<lambda>s. dma_received B (kernel s));
       State_Monad.return (r, rx)
     }
   }"

definition qc_platform_spi_transceive_fr ::
  "'k fr_board \<Rightarrow> nat \<Rightarrow> ptr \<Rightarrow> bytes option \<Rightarrow> bool \<Rightarrow> u32 \<Rightarrow> bool \<Rightarrow> (('k, 'z) pf_st_scheme, int \<times> bytes) state" where
  "qc_platform_spi_transceive_fr B n ctx tx rx_ok len hold_cs =
     (if ctx = 0 then State_Monad.return (- QC_PLATFORM_EINVAL, [])
      else do {
        up \<leftarrow> deref pf_ctxs False ctx;
        if \<not> up then State_Monad.return (- QC_PLATFORM_EINVAL, [])
        else if tx = None \<or> \<not> rx_ok \<or> len = 0 then State_Monad.return (- QC_PLATFORM_EINVAL, [])
        else do {
          when_m (length (the tx) < unat len) os_ub;
          kdo (\<lambda>k. HAL_GPIO_WritePin B k False);
          let sent = take (unat (ucast len :: u16)) (the tx);
          (r, rx) \<leftarrow> (if len \<le> 16 then spi_polled B sent else spi_by_dma B n sent);
          when_m (r \<noteq> 0 \<or> \<not> hold_cs) (kdo (\<lambda>k. HAL_GPIO_WritePin B k True));
          State_Monad.return (r, rx)
        }
      })"

end
