(* ===== verification/Stm32_Proofs.thy ===== *)
theory Stm32_Proofs
  imports Stm32 Os_Sim
begin

text \<open>
  The chip select of the SPI bus stays asserted only behind a transfer that succeeded and asked for it, and
  the wait for a DMA transfer ends, except near the wrap of the millisecond counter.
\<close>

section \<open>The boards\<close>

text \<open>Only the GPIO calls move the chip select; \<open>asserted\<close> is its level.\<close>

definition z_cs :: "'k z_board \<Rightarrow> ('k \<Rightarrow> bool) \<Rightarrow> bool" where
  "z_cs B asserted \<longleftrightarrow> (\<forall>k b. asserted (gpio_pin_set_dt B k b) = b)
     \<and> (\<forall>k f tx x k'. z_spi_transceive B k f tx = (x, k') \<longrightarrow> asserted k' = asserted k)"

definition fr_cs :: "'k fr_board \<Rightarrow> ('k \<Rightarrow> bool) \<Rightarrow> bool" where
  "fr_cs B asserted \<longleftrightarrow> (\<forall>k b. asserted (HAL_GPIO_WritePin B k b) = (\<not> b))
     \<and> (\<forall>k tx x k'. HAL_SPI_TransmitReceive B k tx = (x, k') \<longrightarrow> asserted k' = asserted k)
     \<and> (\<forall>k tx x k'. HAL_SPI_TransmitReceive_DMA B k tx = (x, k') \<longrightarrow> asserted k' = asserted k)
     \<and> (\<forall>k x k'. HAL_SPI_GetState B k = (x, k') \<longrightarrow> asserted k' = asserted k)
     \<and> (\<forall>k x k'. HAL_GetTick B k = (x, k') \<longrightarrow> asserted k' = asserted k)"

text \<open>
  Time: \<open>cyc\<close> counts the cycles of the processor without end, of which there are \<open>R\<close> in a millisecond; the
  counter shows the last 32 bits of the milliseconds. Every call takes a cycle or more and less than a second.
\<close>

definition ticking :: "'k fr_board \<Rightarrow> nat \<Rightarrow> ('k \<Rightarrow> nat) \<Rightarrow> bool" where
  "ticking B R cyc \<longleftrightarrow> 0 < R
     \<and> (\<forall>k x k'. HAL_GetTick B k = (x, k') \<longrightarrow> x = of_nat (cyc k div R) \<and> cyc k < cyc k' \<and> cyc k' < cyc k + 1000 * R)
     \<and> (\<forall>k x k'. HAL_SPI_GetState B k = (x, k') \<longrightarrow> cyc k < cyc k' \<and> cyc k' < cyc k + 1000 * R)
     \<and> (\<forall>k b. cyc k < cyc (HAL_GPIO_WritePin B k b) \<and> cyc (HAL_GPIO_WritePin B k b) < cyc k + 1000 * R)
     \<and> (\<forall>k tx x k'. HAL_SPI_TransmitReceive_DMA B k tx = (x, k') \<longrightarrow> cyc k < cyc k' \<and> cyc k' < cyc k + 1000 * R)"

section \<open>The wait for the DMA\<close>

lemma dma_wait_cs:
  assumes "fr_cs B asserted"
  shows "asserted (kernel (snd (run_state (dma_wait B n timeout) s))) = asserted (kernel s)"
proof (induction n arbitrary: s)
  case 0
  then show ?case
    by (simp add: os_simps)
next
  case (Suc n)
  have st: "asserted k' = asserted k" if "HAL_SPI_GetState B k = (x, k')" for k x k'
    using assms that unfolding fr_cs_def by blast
  have tick: "asserted k' = asserted k" if "HAL_GetTick B k = (x, k')" for k x k'
    using assms that unfolding fr_cs_def by blast
  show ?case
    by (auto simp: os_simps Suc split: prod.split dest!: st tick)
qed

text \<open>Every turn that does not end the wait takes time, and none that begins after the timeout goes on.\<close>

lemma dma_wait_ends:
  assumes "ticking B R cyc" "T + 4000 < 2 ^ 32" "cyc (kernel s) < (T + 2001) * R" "(T + 1001) * R - cyc (kernel s) < n"
  shows "pf_stuck (snd (run_state (dma_wait B n (of_nat (T + 1000))) s)) = pf_stuck s"
  using assms(3,4)
proof (induction n arbitrary: s)
  case 0
  then show ?case
    by simp
next
  case (Suc n)
  obtain ready k where st: "HAL_SPI_GetState B (kernel s) = (ready, k)"
    by (rule prod.exhaust)
  obtain now k' where tick: "HAL_GetTick B k = (now, k')"
    by (rule prod.exhaust)
  have R: "0 < R" and k: "cyc (kernel s) < cyc k" "cyc k < cyc (kernel s) + 1000 * R"
    using assms(1) st unfolding ticking_def by blast+
  have now: "now = of_nat (cyc k div R)" "cyc k < cyc k'" "cyc k' < cyc k + 1000 * R"
    using assms(1) tick unfolding ticking_def by blast+
  have "cyc k < (T + 3001) * R"
    using k(2) Suc.prems(1) by (simp add: algebra_simps)
  then have small: "cyc k div R < T + 3001"
    using R by (simp add: less_mult_imp_div_less)
  show ?case
  proof (cases "ready \<or> now > of_nat (T + 1000)")
    case True
    then show ?thesis
      by (auto simp: os_simps st tick)
  next
    case False
    then have "cyc k div R \<le> T + 1000"
      using small assms(2) unat_of_nat [where 'a = 32, of "T + 1000"] unat_of_nat [where 'a = 32, of "cyc k div R"]
      by (simp add: now(1) not_less word_le_nat_alt del: of_nat_add)
    then have early: "cyc k < (T + 1001) * R"
      using R dividend_less_div_times [of R "cyc k"] mult_le_mono1 [of "cyc k div R" "T + 1000" R]
      by (simp add: algebra_simps)
    then have "cyc k' < (T + 2001) * R" "(T + 1001) * R - cyc k' < n"
      using now(2,3) k(1) Suc.prems(2) by (simp_all add: algebra_simps)
    then show ?thesis
      using Suc.IH [of "s\<lparr>kernel := k'\<rparr>"] False by (simp add: os_simps st tick)
  qed
qed

lemma spi_by_dma_ends:
  assumes "ticking B R cyc" "cyc (kernel s) + 5000 * R < 2 ^ 32 * R" "1001 * R \<le> n"
  shows "pf_stuck (snd (run_state (spi_by_dma B n tx) s)) = pf_stuck s"
proof -
  obtain status k1 where start: "HAL_SPI_TransmitReceive_DMA B (kernel s) tx = (status, k1)"
    by (rule prod.exhaust)
  obtain now k2 where tick: "HAL_GetTick B k1 = (now, k2)"
    by (rule prod.exhaust)
  let ?T = "cyc k1 div R"
  have R: "0 < R" and k1: "cyc k1 < cyc (kernel s) + 1000 * R"
    using assms(1) start unfolding ticking_def by blast+
  have k2: "now = of_nat ?T" "cyc k1 < cyc k2" "cyc k2 < cyc k1 + 1000 * R"
    using assms(1) tick unfolding ticking_def by blast+
  have T: "?T * R \<le> cyc k1" "cyc k1 < (?T + 1) * R"
    using R dividend_less_div_times [of R "cyc k1"] by (simp_all add: algebra_simps)
  have "(?T + 4000) * R < 2 ^ 32 * R"
    using T(1) k1 assms(2) unfolding add_mult_distrib by linarith
  then have "?T + 4000 < 2 ^ 32"
    by (simp only: mult_less_cancel2)
  moreover have "cyc k2 < (?T + 2001) * R"
    using T k2 by (simp add: algebra_simps)
  moreover have "(?T + 1001) * R - cyc k2 < n"
  proof -
    have "(?T + 1001) * R = ?T * R + 1001 * R"
      by (rule add_mult_distrib)
    then show ?thesis
      using T(1) k2(2) assms(3) R by linarith
  qed
  moreover have "now + 1000 = of_nat (?T + 1000)"
    by (simp add: k2(1))
  ultimately have "pf_stuck (snd (run_state (dma_wait B n (now + 1000)) (s\<lparr>kernel := k2\<rparr>))) = pf_stuck s"
    using dma_wait_ends [OF assms(1), of ?T "s\<lparr>kernel := k2\<rparr>" n] by simp
  then show ?thesis
    by (auto simp: spi_by_dma_def os_simps start tick split: prod.split)
qed

section \<open>The chip select\<close>

lemma z_transceive_cs:
  assumes "z_cs B asserted" "ctx \<noteq> 0" "pz_ctxs s ctx = Some c" "cs_initialized c" "len \<noteq> 0"
    and "run_state (qc_platform_spi_transceive_z B E ctx (Some tx) True len hold_cs) s = ((r, rx), s')"
  shows "asserted (kernel s') = (r = 0 \<and> hold_cs)"
proof -
  have set_cs: "asserted (gpio_pin_set_dt B k b) = b" for k b
    using assms(1) by (simp add: z_cs_def)
  have spi: "asserted k' = asserted k" if "z_spi_transceive B k f t = (x, k')" for k f t x k'
    using assms(1) that unfolding z_cs_def by blast
  show ?thesis
    using assms(2-6)
    by (auto simp: qc_platform_spi_transceive_z_def os_simps deref_def when_m_def set_cs platform_errors
        zephyr_errno_to_platform_def split: prod.splits if_splits dest!: spi)
qed

lemma fr_transceive_cs:
  assumes "fr_cs B asserted" "ctx \<noteq> 0" "pf_ctxs s ctx = Some True" "len \<noteq> 0"
    and "run_state (qc_platform_spi_transceive_fr B n ctx (Some tx) True len hold_cs) s = ((r, rx), s')"
  shows "asserted (kernel s') = (r = 0 \<and> hold_cs)"
proof -
  have pin: "asserted (HAL_GPIO_WritePin B k b) = (\<not> b)" for k b
    using assms(1) by (simp add: fr_cs_def)
  have spi: "asserted k' = asserted k" if "HAL_SPI_TransmitReceive B k t = (x, k')" for k t x k'
    using assms(1) that unfolding fr_cs_def by blast
  have dma: "asserted k' = asserted k" if "HAL_SPI_TransmitReceive_DMA B k t = (x, k')" for k t x k'
    using assms(1) that unfolding fr_cs_def by blast
  have tick: "asserted k' = asserted k" if "HAL_GetTick B k = (x, k')" for k x k'
    using assms(1) that unfolding fr_cs_def by blast
  have wait: "asserted (kernel t') = asserted (kernel t)" if "run_state (dma_wait B n to) t = (x, t')" for to t x t'
    using dma_wait_cs [OF assms(1), of n to t] that by simp
  have polled: "asserted (kernel t') = asserted (kernel t)" if "run_state (spi_polled B d) t = (x, t')" for d t x t'
    using that by (auto simp: spi_polled_def os_simps split: prod.splits dest!: spi)
  have by_dma: "asserted (kernel t') = asserted (kernel t)" if "run_state (spi_by_dma B n d) t = (x, t')" for d t x t'
    using that by (auto simp: spi_by_dma_def os_simps split: prod.splits if_splits dest!: wait dma tick)
  show ?thesis
    using assms(2-5)
    by (auto simp: qc_platform_spi_transceive_fr_def os_simps deref_def when_m_def Let_def pin
        split: prod.splits if_splits dest!: polled by_dma)
qed

section \<open>Boards that keep the promises\<close>

text \<open>
  A board on which a transfer by DMA takes three looks at its state and every call one of the two cycles of a
  millisecond, and which echoes what is sent. It is not part of the program.
\<close>

record board =
  selected :: bool
  clock :: nat
  busy :: nat
  echo :: bytes

definition sim_board :: "board fr_board" where
  "sim_board = \<lparr>
     hspi1_instance = (\<lambda>k. True),
     HAL_GPIO_WritePin = (\<lambda>k b. k\<lparr>selected := \<not> b, clock := clock k + 1\<rparr>),
     HAL_SPI_TransmitReceive = (\<lambda>k tx. ((HAL_OK, tx), k)),
     HAL_SPI_TransmitReceive_DMA = (\<lambda>k tx. (HAL_OK, k\<lparr>busy := 3, echo := tx, clock := clock k + 1\<rparr>)),
     HAL_SPI_GetState = (\<lambda>k. (busy k = 0, k\<lparr>busy := busy k - 1, clock := clock k + 1\<rparr>)),
     HAL_GetTick = (\<lambda>k. (of_nat (clock k div 2), k\<lparr>clock := clock k + 1\<rparr>)),
     dma_received = echo\<rparr>"

definition sim_board_z :: "board z_board" where
  "sim_board_z = \<lparr>
     spi_is_ready = (\<lambda>k. True),
     gpio_is_ready = (\<lambda>k. True),
     gpio_pin_configure_dt = (\<lambda>k. (0, k)),
     gpio_pin_set_dt = (\<lambda>k b. k\<lparr>selected := b\<rparr>),
     z_spi_transceive = (\<lambda>k f tx. ((if length tx > 2 then - 5 else 0, tx), k)),
     sizeof_stm32_ctx = 8\<rparr>"

definition sim_up :: "nat \<Rightarrow> board pf_st" where
  "sim_up t = \<lparr>kernel = \<lparr>selected = False, clock = t, busy = 0, echo = []\<rparr>, calls = [], os_fault = False,
     pf_ctxs = [0x20000000 \<mapsto> True], pf_stuck = False\<rparr>"

definition sim_up_z :: "board pz_st" where
  "sim_up_z = \<lparr>kernel = \<lparr>selected = False, clock = 0, busy = 0, echo = []\<rparr>, calls = [], os_fault = False,
     pz_ctxs = [0x20000000 \<mapsto> \<lparr>spi_frequency = 5000000, cs_initialized = True\<rparr>]\<rparr>"

lemma sim_board_keeps: "fr_cs sim_board selected" "ticking sim_board 2 clock" "z_cs sim_board_z selected"
  by (auto simp: fr_cs_def ticking_def z_cs_def sim_board_def sim_board_z_def)

section \<open>Properties\<close>

text \<open>
  C27: after a transfer on a context that was opened, the chip select is asserted exactly when the transfer
  succeeded and the caller asked to hold it; an error, a timeout of the DMA included, always releases the
  bus, under Zephyr and under FreeRTOS.
\<close>

theorem chip_select_released:
  assumes "z_cs BZ assertedz" "pz_ctxs sz ctx = Some c" "cs_initialized c"
    and "fr_cs BF assertedf" "pf_ctxs sf ctx = Some True"
    and "ctx \<noteq> 0" "len \<noteq> 0"
  shows "(case run_state (qc_platform_spi_transceive_z BZ E ctx (Some tx) True len hold_cs) sz of
        ((r, _), s') \<Rightarrow> assertedz (kernel s') = (r = 0 \<and> hold_cs))
     \<and> (case run_state (qc_platform_spi_transceive_fr BF n ctx (Some tx) True len hold_cs) sf of
        ((r, _), s') \<Rightarrow> assertedf (kernel s') = (r = 0 \<and> hold_cs))"
  using z_transceive_cs [OF assms(1,6,2,3,7)] fr_transceive_cs [OF assms(4,6,5,7)]
  by (auto split: prod.split)

theorem chip_select_released_witness:
  "(case run_state (qc_platform_spi_transceive_z sim_board_z zephyr_errnos 0x20000000 (Some [1, 2, 3]) True 3 True)
        sim_up_z of ((r, _), s') \<Rightarrow> selected (kernel s') = (r = 0))
   \<and> (case run_state (qc_platform_spi_transceive_fr sim_board 1002 0x20000000 (Some [1, 2, 3]) True 3 True)
        (sim_up 0) of ((r, _), s') \<Rightarrow> selected (kernel s') = (r = 0))"
  using chip_select_released [OF sim_board_keeps(3) _ _ sim_board_keeps(1), where sz = sim_up_z and ctx = "0x20000000"
      and sf = "sim_up 0" and len = 3 and E = zephyr_errnos and tx = "[1, 2, 3]" and hold_cs = True and n = 1002]
  by (simp add: sim_up_z_def sim_up_def)

text \<open>
  C39: a transfer under FreeRTOS returns: while the millisecond counter is not about to wrap, the loop that
  waits for the DMA ends, whether the DMA completes or not. The counter may stand still over many calls: it is
  the cycle counter of the processor, of \<open>R\<close> cycles in a millisecond, and a call takes a cycle or more and less
  than a second. The loop then makes no more than \<open>1001 * R\<close> turns.
\<close>

theorem spi_transfer_ends:
  assumes "ticking B R cyc" "cyc (kernel s) + 6000 * R < 2 ^ 32 * R" "1001 * R \<le> n"
  shows "pf_stuck (snd (run_state (qc_platform_spi_transceive_fr B n ctx tx rx_ok len hold_cs) s)) = pf_stuck s"
proof -
  have pin: "cyc (HAL_GPIO_WritePin B k b) < cyc k + 1000 * R" for k b
    using assms(1) unfolding ticking_def by blast
  have polled: "pf_stuck t' = pf_stuck t" if "run_state (spi_polled B d) t = (x, t')" for d t x t'
    using that by (auto simp: spi_polled_def os_simps split: prod.splits)
  have by_dma: "pf_stuck t' = pf_stuck t \<or> 2 ^ 32 * R \<le> cyc (kernel t) + 5000 * R"
    if "run_state (spi_by_dma B n d) t = (x, t')" for d t x t'
    using spi_by_dma_ends [OF assms(1) _ assms(3), of t d] that by (auto simp: not_less)
  have room: "\<not> 2 ^ 32 * R \<le> cyc (HAL_GPIO_WritePin B (kernel s) False) + 5000 * R"
    using pin [of "kernel s" False] assms(2) by simp
  obtain x s' where run: "run_state (qc_platform_spi_transceive_fr B n ctx tx rx_ok len hold_cs) s = (x, s')"
    by (rule prod.exhaust)
  then have "pf_stuck s' = pf_stuck s"
    using room
    by (auto simp: qc_platform_spi_transceive_fr_def os_simps os_ub_def deref_def when_m_def Let_def
        split: prod.splits if_splits option.splits dest!: polled by_dma)
  then show ?thesis
    by (simp add: run)
qed

theorem spi_transfer_ends_witness:
  "\<not> pf_stuck (snd (run_state (qc_platform_spi_transceive_fr sim_board 2002 0x20000000
     (Some (replicate 20 0xAA)) True 20 False) (sim_up 0)))"
  using spi_transfer_ends [OF sim_board_keeps(2), of "sim_up 0" 2002]
  by (simp add: sim_up_def)

text \<open>
  Within a second of the wrap of the millisecond counter the timeout of the DMA, a sum of 32 bits, lies
  in the past: a transfer that is not finished at the first look is given up as an error at once.
\<close>

theorem dma_timeout_wraps:
  assumes "HAL_SPI_TransmitReceive_DMA B (kernel s) tx = (HAL_OK, k1)" "HAL_GetTick B k1 = (now, k2)"
    and "HAL_SPI_GetState B k2 = (False, k3)" "HAL_GetTick B k3 = (later, k4)"
    and "2 ^ 32 - 1000 \<le> unat now" "now \<le> later" "0 < n"
  shows "run_state (spi_by_dma B n tx) s = ((- QC_PLATFORM_EIO, dma_received B k4), s\<lparr>kernel := k4\<rparr>)"
proof -
  obtain m where m: "n = Suc m"
    using assms(7) by (cases n) auto
  have "unat (now + 1000) = (unat now + 1000) mod 2 ^ 32"
    by (simp add: unat_word_ariths)
  moreover have "unat now < 4294967296"
    using unat_lt_u32 [of now] by simp
  ultimately have "unat (now + 1000) < unat now"
    using assms(5) by (simp add: le_mod_geq)
  then have "now + 1000 < later"
    using assms(6) by (simp add: word_less_nat_alt word_le_nat_alt)
  then show ?thesis
    by (simp add: spi_by_dma_def os_simps m assms(1-4))
qed

theorem dma_timeout_wraps_witness:
  "fst (fst (run_state (spi_by_dma sim_board 1 [1, 2, 3]) (sim_up (2 ^ 33 - 1000)))) = - QC_PLATFORM_EIO"
  using dma_timeout_wraps [of sim_board "sim_up (2 ^ 33 - 1000)" "[1, 2, 3]" _ _ _ _ _ _ 1]
  by (simp add: sim_up_def sim_board_def)

end
