(* ===== verification/Pm_Timer.thy ===== *)
theory Pm_Timer
  imports Fw_Prelude
begin

text \<open>
  The timer manager of the power service, \<open>src/common/pm_service/src/pm_timer.c\<close>: its data, the kernel
  services it uses, and the table of the system tasks that are suspended before sleep.
\<close>

section \<open>Objects\<close>

text \<open>
  A pointer is a 32-bit address, \<open>NULL\<close> the address 0. A kernel timer is known by its address, a tick
  count is the kernel's \<open>k_ticks_t\<close>, a signed 64-bit integer.
\<close>

type_synonym ptr = u32

abbreviation NULL :: ptr where "NULL \<equiv> 0"

type_synonym k_ticks = u64

definition K_NO_WAIT :: k_ticks where "K_NO_WAIT = 0"

definition INT64_MAX :: k_ticks where "INT64_MAX = 0x7FFFFFFFFFFFFFFF"

definition QC_EINVAL :: int where "QC_EINVAL = 22"
definition QC_ENOTSUP :: int where "QC_ENOTSUP = 134"

text \<open>The list node of a managed timer is its place in the list of the state below.\<close>

record pm_managed_timer =
  mt_timer :: ptr
  mt_name :: "string option"
  suspendable :: bool
  auto_restart :: bool
  saved_remaining :: k_ticks
  saved_period :: k_ticks
  was_running :: bool

definition zero_managed_timer :: pm_managed_timer where
  "zero_managed_timer = \<lparr>mt_timer = NULL, mt_name = None, suspendable = False, auto_restart = False,
     saved_remaining = 0, saved_period = 0, was_running = False\<rparr>"

text \<open>
  An entry of the kernel's list of timeouts: the ticks after the entry before it, the function called
  when it expires, and the address of the timer around it if it is part of one.
\<close>

record timeout_entry =
  dticks :: k_ticks
  timeout_fn :: ptr
  owner_timer :: ptr

record pm_system_timer_stats =
  active_count :: u32
  min_timeout :: k_ticks
  max_timeout :: k_ticks
  avg_timeout :: k_ticks
  total_ticks_sum :: u64

datatype idle_hook = On_idle_pre_sleep | On_idle_post_sleep

text \<open>A hook entry is its address and the function it was registered with.\<close>

type_synonym idle_hook_entry = "ptr \<times> idle_hook option"

section \<open>The kernel below\<close>

text \<open>
  \<open>'k\<close> is the state of the kernel. A thread is known by its address, a thread without a name has
  none. \<open>shell_transport_ctx\<close>, \<open>shell_transport_api\<close> and \<open>shell_rx_timer\<close> are the fields of the shell's
  UART transport; the two \<open>CONFIG\<close> fields are options of the build, and the fields at the end are the
  addresses the linker gives to the static objects of the file.
\<close>

record 'k pm_kernel =
  k_timer_remaining_ticks :: "'k \<Rightarrow> ptr \<Rightarrow> k_ticks"
  timer_period :: "'k \<Rightarrow> ptr \<Rightarrow> k_ticks"
  timer_fn :: "'k \<Rightarrow> ptr \<Rightarrow> ptr"
  timer_queued :: "'k \<Rightarrow> ptr \<Rightarrow> bool"
  k_timer_init :: "'k \<Rightarrow> ptr \<Rightarrow> 'k"
  k_timer_start :: "'k \<Rightarrow> ptr \<Rightarrow> k_ticks \<Rightarrow> k_ticks \<Rightarrow> 'k"
  k_timer_stop :: "'k \<Rightarrow> ptr \<Rightarrow> 'k"
  qurt_timer_Is_Active :: "'k \<Rightarrow> ptr \<Rightarrow> bool"
  timeout_list :: "'k \<Rightarrow> timeout_entry list"
  k_threads :: "'k \<Rightarrow> (ptr \<times> string option) list"
  k_thread_suspend :: "'k \<Rightarrow> ptr \<Rightarrow> 'k"
  k_thread_resume :: "'k \<Rightarrow> ptr \<Rightarrow> 'k"
  state_lock_is_active :: "'k \<Rightarrow> bool"
  state_lock_get :: "'k \<Rightarrow> 'k"
  state_lock_put :: "'k \<Rightarrow> 'k"
  pm_device_is_any_busy :: "'k \<Rightarrow> bool"
  k_calloc :: "'k \<Rightarrow> ptr \<times> 'k"
  k_free :: "'k \<Rightarrow> ptr \<Rightarrow> 'k"
  K_MSEC :: "u32 \<Rightarrow> k_ticks"
  shell_transport_ctx :: "'k \<Rightarrow> ptr"
  shell_transport_api :: "'k \<Rightarrow> ptr"
  shell_rx_timer :: "'k \<Rightarrow> ptr \<Rightarrow> ptr"
  CONFIG_POLLING :: bool
  CONFIG_AUTO_SLEEP :: bool
  pm_service_timer :: ptr
  dummy_timer :: ptr
  g_shell_uart_managed_timer :: ptr
  my_pre_sleep_hook_entry :: ptr
  my_post_sleep_hook_entry :: ptr

section \<open>The state of the file\<close>

text \<open>
  \<open>managed\<close> holds the managed timers by address, the allocated ones and the static one of the shell;
  an address that is not in its domain holds none. \<open>pm_timer_list\<close> are the addresses in the order of
  the list's nodes. \<open>pm_fault\<close> records what C leaves undefined: a null or dangling pointer followed, a
  node appended twice, an object freed that was not allocated.
\<close>

record 'k pm_st =
  kern :: 'k
  managed :: "ptr \<Rightarrow> pm_managed_timer option"
  pm_timer_list :: "ptr list"
  hash_table :: "string option list"
  g_timer_expiry_handler_fn :: ptr
  suspend_hooks :: "idle_hook_entry list"
  resume_hooks :: "idle_hook_entry list"
  os_default_tasks_suspended :: bool
  pm_check_interval_ms :: u32
  pm_fault :: bool

definition shell_rx_timer_name :: string where "shell_rx_timer_name = ''shell_uart_rx''"

definition HASH_SIZE :: nat where "HASH_SIZE = 32"

text \<open>The static initialisers.\<close>

definition pm_init_st :: "'k pm_kernel \<Rightarrow> 'k \<Rightarrow> 'k pm_st" where
  "pm_init_st K k = \<lparr>kern = k, managed = [g_shell_uart_managed_timer K \<mapsto> zero_managed_timer],
     pm_timer_list = [], hash_table = replicate HASH_SIZE None, g_timer_expiry_handler_fn = NULL,
     suspend_hooks = [], resume_hooks = [], os_default_tasks_suspended = False,
     pm_check_interval_ms = 180000, pm_fault = False\<rparr>"

text \<open>A call of a kernel service; the effects on the kernel are threaded through \<open>kern\<close>.\<close>

definition kcall :: "('k \<Rightarrow> 'k) \<Rightarrow> ('k pm_st, unit) state" where
  "kcall f = modify (\<lambda>s. s\<lparr>kern := f (kern s)\<rparr>)"

definition kget :: "('k \<Rightarrow> 'a) \<Rightarrow> ('k pm_st, 'a) state" where
  "kget f = gets (\<lambda>s. f (kern s))"

definition pm_ub :: "('k pm_st, unit) state" where
  "pm_ub = modify (\<lambda>s. s\<lparr>pm_fault := True\<rparr>)"

definition upd_managed :: "ptr \<Rightarrow> (pm_managed_timer \<Rightarrow> pm_managed_timer) \<Rightarrow> ('k pm_st, unit) state" where
  "upd_managed a f = modify (\<lambda>s. s\<lparr>managed := (managed s)(a := map_option f (managed s a))\<rparr>)"

section \<open>The table of system tasks\<close>

text \<open>A character is hashed as an unsigned byte; the string ends at its first NUL.\<close>

fun str_hash_from :: "u32 \<Rightarrow> string \<Rightarrow> u32" where
  "str_hash_from h [] = h"
| "str_hash_from h (c # cs) =
     (if c = CHR 0x00 then h else str_hash_from ((h * 31) XOR ucast (of_char c :: u8)) cs)"

definition str_hash :: "string \<Rightarrow> nat" where
  "str_hash s = unat (str_hash_from 0 s mod of_nat HASH_SIZE)"

definition os_default_tasks :: "string list" where
  "os_default_tasks = [''mcumgr smp'', ''smp_udp4'', ''zperf_work_q'', ''conn_mgr_monitor'',
     ''net_socket_service'', ''rx_q[0]'', ''net_mgmt'', ''tcp_work'']"

definition insert_task :: "string option list \<Rightarrow> string \<Rightarrow> string option list" where
  "insert_task tab n = tab[str_hash n := Some n]"

definition init_os_default_tasks :: "('k pm_st, unit) state" where
  "init_os_default_tasks = modify (\<lambda>s. s\<lparr>hash_table := foldl insert_task (hash_table s) os_default_tasks\<rparr>)"

definition if_os_default_tasks :: "string option list \<Rightarrow> string option \<Rightarrow> bool" where
  "if_os_default_tasks tab name = (case name of
     None \<Rightarrow> False
   | Some n \<Rightarrow> (case tab ! str_hash n of None \<Rightarrow> False | Some m \<Rightarrow> m = n))"

section \<open>The operations\<close>

text \<open>
  The operations of \<open>src/common/pm_service/src/pm_timer.c\<close>: registration, the hooks the idle thread runs
  before and after sleep, the statistics of the kernel's timeouts, and initialisation. The spin locks
  are not contended in the model and the log output is left out.
\<close>

section \<open>Registration\<close>

definition pm_timer_register ::
  "ptr \<Rightarrow> ptr \<Rightarrow> bool \<Rightarrow> bool \<Rightarrow> string option \<Rightarrow> ('k pm_st, int) state" where
  "pm_timer_register mt timer susp restart name =
     (if mt = NULL \<or> timer = NULL then State_Monad.return (- QC_EINVAL)
      else do {
        m \<leftarrow> gets (\<lambda>s. managed s mt);
        xs \<leftarrow> gets pm_timer_list;
        when_m (m = None \<or> mt \<in> set xs) pm_ub;
        upd_managed mt (\<lambda>m. m\<lparr>mt_timer := timer, mt_name := name, suspendable := susp,
          auto_restart := restart, was_running := False\<rparr>);
        modify (\<lambda>s. s\<lparr>pm_timer_list := pm_timer_list s @ [mt]\<rparr>);
        State_Monad.return 0
      })"

text \<open>The object is handed to \<open>pm_timer_register\<close> also when the allocation failed.\<close>

definition pm_timer_register_internal ::
  "'k pm_kernel \<Rightarrow> string option \<Rightarrow> ptr \<Rightarrow> ('k pm_st, unit) state" where
  "pm_timer_register_internal K name timer =
     (if name = None \<or> timer = NULL then State_Monad.return ()
      else do {
        a \<leftarrow> kget (\<lambda>k. fst (k_calloc K k));
        kcall (\<lambda>k. snd (k_calloc K k));
        when_m (a \<noteq> NULL) (modify (\<lambda>s. s\<lparr>managed := (managed s)(a \<mapsto> zero_managed_timer)\<rparr>));
        r \<leftarrow> pm_timer_register a timer True True name;
        State_Monad.return ()
      })"

definition free_managed :: "'k pm_kernel \<Rightarrow> ptr \<Rightarrow> ('k pm_st, unit) state" where
  "free_managed K a = do {
     when_m (a = g_shell_uart_managed_timer K) pm_ub;
     kcall (\<lambda>k. k_free K k a);
     modify (\<lambda>s. s\<lparr>managed := (managed s)(a := None)\<rparr>)
   }"

fun unregister_walk :: "'k pm_kernel \<Rightarrow> ptr \<Rightarrow> ptr list \<Rightarrow> ('k pm_st, unit) state" where
  "unregister_walk K timer [] = State_Monad.return ()"
| "unregister_walk K timer (a # as) = do {
     m \<leftarrow> gets (\<lambda>s. managed s a);
     case m of
       None \<Rightarrow> pm_ub
     | Some m \<Rightarrow>
         if mt_timer m = timer then do {
           modify (\<lambda>s. s\<lparr>pm_timer_list := remove1 a (pm_timer_list s)\<rparr>);
           free_managed K a
         } else unregister_walk K timer as
   }"

definition pm_timer_unregister :: "'k pm_kernel \<Rightarrow> ptr \<Rightarrow> ('k pm_st, int) state" where
  "pm_timer_unregister K timer = do {
     xs \<leftarrow> gets pm_timer_list;
     unregister_walk K timer xs;
     State_Monad.return 0
   }"

definition pm_timer_unregister_internal :: "'k pm_kernel \<Rightarrow> ptr \<Rightarrow> ('k pm_st, unit) state" where
  "pm_timer_unregister_internal K timer =
     (if timer = NULL then State_Monad.return ()
      else do { r \<leftarrow> pm_timer_unregister K timer; State_Monad.return () })"

definition pm_register_shell_uart_timer :: "'k pm_kernel \<Rightarrow> ('k pm_st, int) state" where
  "pm_register_shell_uart_timer K = do {
     ctx \<leftarrow> kget (shell_transport_ctx K);
     api \<leftarrow> kget (shell_transport_api K);
     if ctx = NULL then State_Monad.return (- QC_EINVAL)
     else if api = NULL then State_Monad.return (- QC_EINVAL)
     else if \<not> CONFIG_POLLING K then State_Monad.return (- QC_ENOTSUP)
     else do {
       rx_timer_ptr \<leftarrow> kget (\<lambda>k. shell_rx_timer K k ctx);
       period \<leftarrow> kget (\<lambda>k. timer_period K k rx_timer_ptr);
       upd_managed (g_shell_uart_managed_timer K) (\<lambda>m. m\<lparr>saved_period := period\<rparr>);
       pm_timer_register (g_shell_uart_managed_timer K) rx_timer_ptr True True (Some shell_rx_timer_name)
     }
   }"

definition my_app_init :: "'k pm_kernel \<Rightarrow> ('k pm_st, int) state" where
  "my_app_init K = do {
     kcall (state_lock_get K);
     r \<leftarrow> pm_register_shell_uart_timer K;
     State_Monad.return 0
   }"

section \<open>The tasks of the system\<close>

definition suspend_thread_cb :: "'k pm_kernel \<Rightarrow> ptr \<times> string option \<Rightarrow> ('k pm_st, unit) state" where
  "suspend_thread_cb K th = do {
     tab \<leftarrow> gets hash_table;
     when_m (if_os_default_tasks tab (snd th)) (kcall (\<lambda>k. k_thread_suspend K k (fst th)))
   }"

definition resume_thread_cb :: "'k pm_kernel \<Rightarrow> ptr \<times> string option \<Rightarrow> ('k pm_st, unit) state" where
  "resume_thread_cb K th = do {
     tab \<leftarrow> gets hash_table;
     when_m (if_os_default_tasks tab (snd th)) (kcall (\<lambda>k. k_thread_resume K k (fst th)))
   }"

text \<open>The kernel's loop over its threads, and the loops over the lists of the file.\<close>

fun for_each :: "('a \<Rightarrow> ('s, unit) state) \<Rightarrow> 'a list \<Rightarrow> ('s, unit) state" where
  "for_each f [] = State_Monad.return ()"
| "for_each f (x # xs) = do { f x; for_each f xs }"

definition suspend_all_os_default_tasks :: "'k pm_kernel \<Rightarrow> ('k pm_st, unit) state" where
  "suspend_all_os_default_tasks K = do {
     ths \<leftarrow> kget (k_threads K);
     for_each (suspend_thread_cb K) ths;
     modify (\<lambda>s. s\<lparr>os_default_tasks_suspended := True\<rparr>)
   }"

definition resume_all_os_default_tasks :: "'k pm_kernel \<Rightarrow> ('k pm_st, unit) state" where
  "resume_all_os_default_tasks K = do {
     ths \<leftarrow> kget (k_threads K);
     for_each (resume_thread_cb K) ths
   }"

section \<open>Before and after sleep\<close>

definition pre_sleep_timer :: "'k pm_kernel \<Rightarrow> ptr \<Rightarrow> ('k pm_st, unit) state" where
  "pre_sleep_timer K a = do {
     m \<leftarrow> gets (\<lambda>s. managed s a);
     case m of
       None \<Rightarrow> pm_ub
     | Some m \<Rightarrow>
         if \<not> suspendable m \<or> mt_timer m = NULL then State_Monad.return ()
         else do {
           remaining \<leftarrow> kget (\<lambda>k. k_timer_remaining_ticks K k (mt_timer m));
           upd_managed a (\<lambda>m. m\<lparr>saved_remaining := remaining\<rparr>);
           period \<leftarrow> kget (\<lambda>k. timer_period K k (mt_timer m));
           upd_managed a (\<lambda>m. m\<lparr>saved_period := period\<rparr>);
           queued \<leftarrow> kget (\<lambda>k. timer_queued K k (mt_timer m));
           if queued then do {
             kcall (\<lambda>k. k_timer_stop K k (mt_timer m));
             upd_managed a (\<lambda>m. m\<lparr>was_running := True\<rparr>)
           } else upd_managed a (\<lambda>m. m\<lparr>was_running := False\<rparr>)
         }
   }"

definition on_idle_pre_sleep :: "'k pm_kernel \<Rightarrow> ('k pm_st, unit) state" where
  "on_idle_pre_sleep K = do {
     locked \<leftarrow> kget (state_lock_is_active K);
     busy \<leftarrow> kget (pm_device_is_any_busy K);
     if \<not> locked \<and> \<not> busy then do {
       suspend_all_os_default_tasks K;
       xs \<leftarrow> gets pm_timer_list;
       for_each (pre_sleep_timer K) xs;
       active \<leftarrow> kget (\<lambda>k. qurt_timer_Is_Active K k (pm_service_timer K));
       when_m active (kcall (\<lambda>k. k_timer_stop K k (pm_service_timer K)))
     } else do {
       active \<leftarrow> kget (\<lambda>k. qurt_timer_Is_Active K k (pm_service_timer K));
       ms \<leftarrow> gets pm_check_interval_ms;
       when_m (CONFIG_AUTO_SLEEP K \<and> \<not> active)
         (kcall (\<lambda>k. k_timer_start K k (pm_service_timer K) (K_MSEC K ms) K_NO_WAIT))
     }
   }"

definition post_sleep_timer :: "'k pm_kernel \<Rightarrow> ptr \<Rightarrow> ('k pm_st, unit) state" where
  "post_sleep_timer K a = do {
     m \<leftarrow> gets (\<lambda>s. managed s a);
     case m of
       None \<Rightarrow> pm_ub
     | Some m \<Rightarrow>
         if \<not> was_running m \<or> mt_timer m = NULL then State_Monad.return ()
         else do {
           when_m (auto_restart m)
             (kcall (\<lambda>k. k_timer_start K k (mt_timer m) (saved_remaining m) (saved_period m)));
           upd_managed a (\<lambda>m. m\<lparr>was_running := False\<rparr>)
         }
   }"

definition on_idle_post_sleep :: "'k pm_kernel \<Rightarrow> ('k pm_st, unit) state" where
  "on_idle_post_sleep K = do {
     xs \<leftarrow> gets pm_timer_list;
     for_each (post_sleep_timer K) xs;
     suspended \<leftarrow> gets os_default_tasks_suspended;
     when_m suspended (do {
       resume_all_os_default_tasks K;
       modify (\<lambda>s. s\<lparr>os_default_tasks_suspended := False\<rparr>)
     })
   }"

definition pm_service_timer_cb :: "'k pm_kernel \<Rightarrow> ptr \<Rightarrow> ('k pm_st, unit) state" where
  "pm_service_timer_cb K timer = do {
     busy \<leftarrow> kget (pm_device_is_any_busy K);
     if \<not> busy then do {
       locked \<leftarrow> kget (state_lock_is_active K);
       when_m locked (kcall (state_lock_put K))
     } else do {
       ms \<leftarrow> gets pm_check_interval_ms;
       kcall (\<lambda>k. k_timer_start K k timer (K_MSEC K ms) K_NO_WAIT)
     }
   }"

section \<open>The hooks of the idle thread\<close>

definition idle_hook_register_suspend :: "ptr \<Rightarrow> idle_hook option \<Rightarrow> ('k pm_st, unit) state" where
  "idle_hook_register_suspend entry fn = do {
     hs \<leftarrow> gets suspend_hooks;
     when_m (entry \<in> fst ` set hs) pm_ub;
     modify (\<lambda>s. s\<lparr>suspend_hooks := suspend_hooks s @ [(entry, fn)]\<rparr>)
   }"

definition idle_hook_register_resume :: "ptr \<Rightarrow> idle_hook option \<Rightarrow> ('k pm_st, unit) state" where
  "idle_hook_register_resume entry fn = do {
     hs \<leftarrow> gets resume_hooks;
     when_m (entry \<in> fst ` set hs) pm_ub;
     modify (\<lambda>s. s\<lparr>resume_hooks := resume_hooks s @ [(entry, fn)]\<rparr>)
   }"

fun call_hook :: "'k pm_kernel \<Rightarrow> idle_hook option \<Rightarrow> ('k pm_st, unit) state" where
  "call_hook K None = State_Monad.return ()"
| "call_hook K (Some On_idle_pre_sleep) = on_idle_pre_sleep K"
| "call_hook K (Some On_idle_post_sleep) = on_idle_post_sleep K"

definition z_idle_hooks_run_suspend :: "'k pm_kernel \<Rightarrow> ('k pm_st, unit) state" where
  "z_idle_hooks_run_suspend K = do {
     hs \<leftarrow> gets suspend_hooks;
     for_each (\<lambda>h. call_hook K (snd h)) hs
   }"

definition z_idle_hooks_run_resume :: "'k pm_kernel \<Rightarrow> ('k pm_st, unit) state" where
  "z_idle_hooks_run_resume K = do {
     hs \<leftarrow> gets resume_hooks;
     for_each (\<lambda>h. call_hook K (snd h)) hs
   }"

section \<open>The timeouts of the kernel\<close>

text \<open>
  The loop state of the statistics: the ticks accumulated, the count, the least and greatest timeout
  as signed numbers, and the sum as an unsigned one.
\<close>

fun collect_walk :: "timeout_entry list \<Rightarrow> k_ticks \<Rightarrow> u32 \<Rightarrow> k_ticks \<Rightarrow> k_ticks \<Rightarrow> u64 \<Rightarrow>
    u32 \<times> k_ticks \<times> k_ticks \<times> u64" where
  "collect_walk [] acc count min_t max_t sum_t = (count, min_t, max_t, sum_t)"
| "collect_walk (e # es) acc count min_t max_t sum_t =
     (let t = acc + dticks e in
      collect_walk es t (count + 1) (if sint t < sint min_t then t else min_t)
        (if sint t > sint max_t then t else max_t) (sum_t + t))"

definition pm_timer_collect_system_stats :: "timeout_entry list \<Rightarrow> pm_system_timer_stats" where
  "pm_timer_collect_system_stats tos = (case collect_walk tos 0 0 INT64_MAX 0 0 of
     (count, min_t, max_t, sum_t) \<Rightarrow>
       if count > 0
       then \<lparr>active_count = count, min_timeout = min_t, max_timeout = max_t,
              avg_timeout = sum_t div ucast count, total_ticks_sum = sum_t\<rparr>
       else \<lparr>active_count = count, min_timeout = 0, max_timeout = 0, avg_timeout = 0,
              total_ticks_sum = sum_t\<rparr>)"

text \<open>The traversal with a callback that changes the caller's data, or none.\<close>

fun traverse_walk :: "(timeout_entry \<Rightarrow> k_ticks \<Rightarrow> 'u \<Rightarrow> 'u) option \<Rightarrow> timeout_entry list \<Rightarrow> k_ticks \<Rightarrow> 'u \<Rightarrow> 'u" where
  "traverse_walk cb [] acc u = u"
| "traverse_walk cb (e # es) acc u =
     traverse_walk cb es (acc + dticks e) (case cb of None \<Rightarrow> u | Some f \<Rightarrow> f e (acc + dticks e) u)"

definition pm_timer_traverse_system_timeouts ::
  "timeout_entry list \<Rightarrow> (timeout_entry \<Rightarrow> k_ticks \<Rightarrow> 'u \<Rightarrow> 'u) option \<Rightarrow> 'u \<Rightarrow> 'u" where
  "pm_timer_traverse_system_timeouts tos cb u = traverse_walk cb tos 0 u"

text \<open>
  The loop takes the next node before it stops the timer of the current one, so it visits the nodes
  that were in the list when it began.
\<close>

fun stop_walk :: "'k pm_kernel \<Rightarrow> ptr \<Rightarrow> timeout_entry list \<Rightarrow> u32 \<Rightarrow> ('k pm_st, u32) state" where
  "stop_walk K h [] n = State_Monad.return n"
| "stop_walk K h (e # es) n =
     (if timeout_fn e = h then do {
        kcall (\<lambda>k. k_timer_stop K k (owner_timer e));
        stop_walk K h es (n + 1)
      } else stop_walk K h es n)"

definition pm_timer_stop_all_k_timers :: "'k pm_kernel \<Rightarrow> ('k pm_st, u32) state" where
  "pm_timer_stop_all_k_timers K = do {
     h \<leftarrow> gets g_timer_expiry_handler_fn;
     if h = NULL then State_Monad.return 0
     else do {
       tos \<leftarrow> kget (timeout_list K);
       stop_walk K h tos 0
     }
   }"

section \<open>Initialisation\<close>

definition capture_handler :: "'k pm_kernel \<Rightarrow> ('k pm_st, unit) state" where
  "capture_handler K = do {
     kcall (\<lambda>k. k_timer_init K k (dummy_timer K));
     kcall (\<lambda>k. k_timer_start K k (dummy_timer K) (K_MSEC K 1) K_NO_WAIT);
     f \<leftarrow> kget (\<lambda>k. timer_fn K k (dummy_timer K));
     modify (\<lambda>s. s\<lparr>g_timer_expiry_handler_fn := f\<rparr>);
     kcall (\<lambda>k. k_timer_stop K k (dummy_timer K))
   }"

definition pm_timer_manager_init :: "'k pm_kernel \<Rightarrow> ('k pm_st, int) state" where
  "pm_timer_manager_init K = do {
     h \<leftarrow> gets g_timer_expiry_handler_fn;
     when_m (h = NULL) (capture_handler K);
     idle_hook_register_suspend (my_pre_sleep_hook_entry K) (Some On_idle_pre_sleep);
     idle_hook_register_resume (my_post_sleep_hook_entry K) (Some On_idle_post_sleep);
     init_os_default_tasks;
     State_Monad.return 0
   }"

end
