(* ===== verification/Pm_Task_Proofs.thy ===== *)
theory Pm_Task_Proofs
  imports Pm_Timer
begin

text \<open>
  The table of system tasks: what a lookup in a table filled by \<open>insert_task\<close> finds, and which threads
  the idle hook suspends therefore.
\<close>

section \<open>A table without chains\<close>

lemma str_hash_less: "str_hash n < HASH_SIZE"
proof -
  have "unat (x mod (32 :: u32)) < 32" for x
    by (simp add: unat_mod)
  then show ?thesis
    by (simp add: str_hash_def HASH_SIZE_def)
qed

lemma length_insert_task [simp]: "length (insert_task tab n) = length tab"
  by (simp add: insert_task_def)

lemma length_insert_tasks [simp]: "length (foldl insert_task tab ns) = length tab"
  by (induction ns arbitrary: tab) simp_all

lemma nth_insert_task:
  "h < length tab \<Longrightarrow> insert_task tab n ! h = (if str_hash n = h then Some n else tab ! h)"
  by (simp add: insert_task_def)

text \<open>The last of the names inserted with the same hash is in the slot.\<close>

lemma nth_insert_tasks:
  assumes "h < length tab"
  shows "foldl insert_task tab ns ! h =
    (case find (\<lambda>m. str_hash m = h) (rev ns) of None \<Rightarrow> tab ! h | Some m \<Rightarrow> Some m)"
proof (induction ns rule: rev_induct)
  case (snoc n ns)
  then show ?case
    using assms by (simp add: nth_insert_task)
qed simp

lemma lookup_insert_tasks:
  assumes "length tab = HASH_SIZE" "set tab \<subseteq> {None}"
  shows "if_os_default_tasks (foldl insert_task tab ns) (Some n) \<longleftrightarrow>
    find (\<lambda>m. str_hash m = str_hash n) (rev ns) = Some n"
proof -
  have "tab ! str_hash n \<in> set tab"
    using assms(1) str_hash_less by (metis nth_mem)
  then have "tab ! str_hash n = None"
    using assms(2) by blast
  moreover have "str_hash n < length tab"
    using assms(1) str_hash_less by simp
  ultimately show ?thesis
    by (cases "find (\<lambda>m. str_hash m = str_hash n) (rev ns)")
      (simp_all add: if_os_default_tasks_def nth_insert_tasks)
qed

section \<open>The tasks of the code\<close>

lemma task_hashes [simp]:
  "str_hash ''mcumgr smp'' = 13" "str_hash ''smp_udp4'' = 28" "str_hash ''zperf_work_q'' = 13"
  "str_hash ''conn_mgr_monitor'' = 22" "str_hash ''net_socket_service'' = 7"
  "str_hash ''rx_q[0]'' = 16" "str_hash ''net_mgmt'' = 23" "str_hash ''tcp_work'' = 19"
  by code_simp+

definition task_table :: "string option list" where
  "task_table = foldl insert_task (replicate HASH_SIZE None) os_default_tasks"

lemma lookup_task_table:
  "if_os_default_tasks task_table (Some n) \<longleftrightarrow> n \<in> set os_default_tasks - {''mcumgr smp''}"
proof -
  let ?f = "find (\<lambda>m. str_hash m = str_hash n) (rev os_default_tasks)"
  have "n \<in> set os_default_tasks" if "?f = Some n"
    using that by (metis find_Some_iff nth_mem set_rev)
  moreover have "?f = Some ''zperf_work_q''" if "n = ''mcumgr smp''"
    unfolding that by (simp add: os_default_tasks_def)
  moreover have "?f = Some n" if "n \<in> set os_default_tasks" "n \<noteq> ''mcumgr smp''"
    using that unfolding os_default_tasks_def by (elim set_ConsD [elim_format] disjE) simp_all
  ultimately have "?f = Some n \<longleftrightarrow> n \<in> set os_default_tasks - {''mcumgr smp''}"
    by auto
  then show ?thesis
    using lookup_insert_tasks [of "replicate HASH_SIZE None" os_default_tasks n]
    by (simp add: task_table_def set_replicate_conv_if)
qed

lemma hash_table_after_init:
  "hash_table (snd (run_state (pm_timer_manager_init K) (pm_init_st K k))) = task_table"
  by (simp add: pm_timer_manager_init_def run_simps capture_handler_def kcall_def kget_def pm_ub_def
      idle_hook_register_suspend_def idle_hook_register_resume_def init_os_default_tasks_def
      pm_init_st_def task_table_def)

section \<open>The threads suspended\<close>

text \<open>A loop whose body changes the kernel only folds the change over the list.\<close>

lemma for_each_kcall:
  assumes "\<And>x s. p x (hash_table s) \<Longrightarrow> run_state (f x) s = ((), s\<lparr>kern := g (kern s) x\<rparr>)"
    and "\<And>x s. \<not> p x (hash_table s) \<Longrightarrow> run_state (f x) s = ((), s)"
  shows "run_state (for_each f xs) (s :: 'k pm_st) =
    ((), s\<lparr>kern := foldl g (kern s) (filter (\<lambda>x. p x (hash_table s)) xs)\<rparr>)"
proof (induction xs arbitrary: s)
  case (Cons x xs)
  then show ?case
    by (cases "p x (hash_table s)") (simp_all add: run_simps assms)
qed simp

definition tasks_of :: "'k pm_kernel \<Rightarrow> string option list \<Rightarrow> 'k \<Rightarrow> ptr list" where
  "tasks_of K tab k = map fst (filter (\<lambda>th. if_os_default_tasks tab (snd th)) (k_threads K k))"

lemma foldl_fst: "foldl (\<lambda>k th. g k (fst th)) k ths = foldl g k (map fst ths)"
  by (induction ths arbitrary: k) simp_all

lemma run_suspend_all:
  "run_state (suspend_all_os_default_tasks K) s = ((), s\<lparr>
     kern := foldl (k_thread_suspend K) (kern s) (tasks_of K (hash_table s) (kern s)),
     os_default_tasks_suspended := True\<rparr>)"
proof -
  have "run_state (for_each (suspend_thread_cb K) xs) s = ((), s\<lparr>kern :=
      foldl (\<lambda>k th. k_thread_suspend K k (fst th)) (kern s)
        (filter (\<lambda>th. if_os_default_tasks (hash_table s) (snd th)) xs)\<rparr>)" for xs
    by (rule for_each_kcall) (simp_all add: suspend_thread_cb_def run_simps kcall_def)
  then show ?thesis
    by (simp add: suspend_all_os_default_tasks_def run_simps kget_def tasks_of_def foldl_fst)
qed

lemma run_resume_all:
  "run_state (resume_all_os_default_tasks K) s = ((), s\<lparr>
     kern := foldl (k_thread_resume K) (kern s) (tasks_of K (hash_table s) (kern s))\<rparr>)"
proof -
  have "run_state (for_each (resume_thread_cb K) xs) s = ((), s\<lparr>kern :=
      foldl (\<lambda>k th. k_thread_resume K k (fst th)) (kern s)
        (filter (\<lambda>th. if_os_default_tasks (hash_table s) (snd th)) xs)\<rparr>)" for xs
    by (rule for_each_kcall) (simp_all add: resume_thread_cb_def run_simps kcall_def)
  then show ?thesis
    by (simp add: resume_all_os_default_tasks_def run_simps kget_def tasks_of_def foldl_fst)
qed

text \<open>
  After initialisation the threads suspended before sleep are exactly the threads that carry one
  of the listed names except \<open>mcumgr smp\<close>, whose slot of the table is taken by \<open>zperf_work_q\<close>; they are
  suspended in the order of the kernel's thread list, and nothing else is done to the kernel.
\<close>

theorem suspends_listed_tasks:
  assumes "hash_table s = hash_table (snd (run_state (pm_timer_manager_init K) (pm_init_st K k)))"
  shows "kern (snd (run_state (suspend_all_os_default_tasks K) s)) =
    foldl (k_thread_suspend K) (kern s)
      (map fst (filter (\<lambda>th. snd th \<in> Some ` (set os_default_tasks - {''mcumgr smp''}))
        (k_threads K (kern s))))"
proof -
  have "if_os_default_tasks task_table name \<longleftrightarrow> name \<in> Some ` (set os_default_tasks - {''mcumgr smp''})"
    for name
    by (cases name) (simp add: if_os_default_tasks_def, simp only: lookup_task_table, blast)
  then show ?thesis
    by (simp only: run_suspend_all assms hash_table_after_init tasks_of_def snd_conv) simp
qed

end
