(* ===== verification/Pm_Idle_Proofs.thy ===== *)
theory Pm_Idle_Proofs
  imports Pm_Task_Proofs
begin

text \<open>
  The two hooks around sleep: in closed form, what the loops over the managed timers do to the kernel
  and to the timers' objects, and that a round of both restarts every timer that was stopped.
\<close>

section \<open>What the kernel guarantees\<close>

text \<open>What the hooks see of a kernel timer.\<close>

definition timer_view :: "'k pm_kernel \<Rightarrow> 'k \<Rightarrow> ptr \<Rightarrow> bool \<times> k_ticks \<times> k_ticks" where
  "timer_view K k t = (timer_queued K k t, k_timer_remaining_ticks K k t, timer_period K k t)"

text \<open>
  Stopping a timer takes it, and no other one, out of the queue; suspending a thread leaves the timers
  alone.
\<close>

definition kernel_laws :: "'k pm_kernel \<Rightarrow> bool" where
  "kernel_laws K \<longleftrightarrow>
     (\<forall>k t. \<not> timer_queued K (k_timer_stop K k t) t) \<and>
     (\<forall>k t u. u \<noteq> t \<longrightarrow> timer_view K (k_timer_stop K k t) u = timer_view K k u) \<and>
     (\<forall>k th u. timer_view K (k_thread_suspend K k th) u = timer_view K k u)"

lemma timer_view_eqD:
  assumes "timer_view K k t = timer_view K k' t"
  shows "timer_queued K k t = timer_queued K k' t"
    and "k_timer_remaining_ticks K k t = k_timer_remaining_ticks K k' t"
    and "timer_period K k t = timer_period K k' t"
  using assms by (simp_all add: timer_view_def)

lemma suspended_threads_view:
  "kernel_laws K \<Longrightarrow> timer_view K (foldl (k_thread_suspend K) k ths) u = timer_view K k u"
  by (induction ths arbitrary: k) (simp_all add: kernel_laws_def)

lemma stopped_timers_view:
  "kernel_laws K \<Longrightarrow> u \<notin> set ts \<Longrightarrow> timer_view K (foldl (k_timer_stop K) k ts) u = timer_view K k u"
  by (induction ts arbitrary: k) (simp_all add: kernel_laws_def)

lemma stopped_timers_not_queued:
  assumes "kernel_laws K"
  shows "t \<in> set ts \<or> \<not> timer_queued K k t \<Longrightarrow> \<not> timer_queued K (foldl (k_timer_stop K) k ts) t"
proof (induction ts arbitrary: k)
  case (Cons u ts)
  have "\<not> timer_queued K (k_timer_stop K k u) t" if "t = u \<or> \<not> timer_queued K k t"
    using that assms by (cases "t = u") (auto simp: kernel_laws_def timer_view_def)
  then show ?case
    using Cons by auto
qed simp

section \<open>The list of managed timers\<close>

definition the_mt :: "'k pm_st \<Rightarrow> ptr \<Rightarrow> pm_managed_timer" where
  "the_mt s a = the (managed s a)"

text \<open>
  Between two rounds: the list has no node twice, every node is an object with a timer, and none is
  marked as stopped.
\<close>

definition pm_wf :: "'k pm_st \<Rightarrow> bool" where
  "pm_wf s \<longleftrightarrow> distinct (pm_timer_list s) \<and>
     (\<forall>a\<in>set (pm_timer_list s). \<exists>m. managed s a = Some m \<and> mt_timer m \<noteq> NULL \<and> \<not> was_running m)"

lemma pm_wfD:
  assumes "pm_wf s" "a \<in> set (pm_timer_list s)"
  shows "managed s a = Some (the_mt s a)" "mt_timer (the_mt s a) \<noteq> NULL" "\<not> was_running (the_mt s a)"
  using assms by (auto simp: pm_wf_def the_mt_def)

definition upd_all :: "ptr list \<Rightarrow> (pm_managed_timer \<Rightarrow> pm_managed_timer) \<Rightarrow>
    (ptr \<Rightarrow> pm_managed_timer option) \<Rightarrow> ptr \<Rightarrow> pm_managed_timer option" where
  "upd_all xs f h = (\<lambda>b. if b \<in> set xs then map_option f (h b) else h b)"

lemma upd_all_Nil [simp]: "upd_all [] f h = h"
  by (simp add: upd_all_def)

lemma upd_all_Cons:
  "a \<notin> set xs \<Longrightarrow> upd_all xs f (h(a := map_option f (h a))) = upd_all (a # xs) f h"
  by (auto simp: upd_all_def fun_eq_iff)

section \<open>Before sleep\<close>

text \<open>What becomes of one managed timer, read in the kernel state \<open>k\<close>.\<close>

definition put_to_sleep :: "'k pm_kernel \<Rightarrow> 'k \<Rightarrow> pm_managed_timer \<Rightarrow> pm_managed_timer" where
  "put_to_sleep K k m = (if suspendable m
     then m\<lparr>saved_remaining := k_timer_remaining_ticks K k (mt_timer m),
            saved_period := timer_period K k (mt_timer m),
            was_running := timer_queued K k (mt_timer m)\<rparr>
     else m)"

definition to_stop :: "'k pm_kernel \<Rightarrow> 'k \<Rightarrow> pm_managed_timer list \<Rightarrow> ptr list" where
  "to_stop K k ms = map mt_timer (filter (\<lambda>m. suspendable m \<and> timer_queued K k (mt_timer m)) ms)"

lemma run_pre_sleep_timer:
  assumes "managed s a = Some m" "mt_timer m \<noteq> NULL"
  shows "run_state (pre_sleep_timer K a) s = ((), s\<lparr>
     kern := foldl (k_timer_stop K) (kern s) (to_stop K (kern s) [m]),
     managed := (managed s)(a := map_option (put_to_sleep K (kern s)) (managed s a))\<rparr>)"
  using assms by (cases m; cases s)
    (auto simp: pre_sleep_timer_def run_simps kget_def kcall_def upd_managed_def to_stop_def
      put_to_sleep_def fun_eq_iff)

lemma put_to_sleep_cong:
  "(suspendable m \<Longrightarrow> timer_view K k (mt_timer m) = timer_view K k' (mt_timer m)) \<Longrightarrow>
   put_to_sleep K k m = put_to_sleep K k' m"
  by (simp add: put_to_sleep_def timer_view_def)

lemma to_stop_cong:
  assumes "\<And>m. m \<in> set ms \<Longrightarrow> suspendable m \<Longrightarrow>
    timer_view K k (mt_timer m) = timer_view K k' (mt_timer m)"
  shows "to_stop K k ms = to_stop K k' ms"
proof -
  have "(suspendable m \<and> timer_queued K k (mt_timer m)) = (suspendable m \<and> timer_queued K k' (mt_timer m))"
    if "m \<in> set ms" for m
    using assms [OF that] by (auto simp: timer_view_def)
  then have "filter (\<lambda>m. suspendable m \<and> timer_queued K k (mt_timer m)) ms =
      filter (\<lambda>m. suspendable m \<and> timer_queued K k' (mt_timer m)) ms"
    by (rule filter_cong [OF refl])
  then show ?thesis
    by (simp add: to_stop_def)
qed

lemma upd_all_cong:
  "(\<And>b. b \<in> set xs \<Longrightarrow> map_option f (h b) = map_option g (h b)) \<Longrightarrow> upd_all xs f h = upd_all xs g h"
  by (simp add: upd_all_def fun_eq_iff)

text \<open>The loop, when no two suspendable managed timers wrap the same kernel timer.\<close>

definition timers_of :: "pm_managed_timer list \<Rightarrow> ptr list" where
  "timers_of ms = map mt_timer (filter suspendable ms)"

lemma run_pre_sleep_timers:
  assumes "kernel_laws K"
  shows "distinct xs \<Longrightarrow> \<forall>a\<in>set xs. \<exists>m. managed s a = Some m \<and> mt_timer m \<noteq> NULL \<Longrightarrow>
    distinct (timers_of (map (the_mt s) xs)) \<Longrightarrow>
    run_state (for_each (pre_sleep_timer K) xs) s = ((), s\<lparr>
      kern := foldl (k_timer_stop K) (kern s) (to_stop K (kern s) (map (the_mt s) xs)),
      managed := upd_all xs (put_to_sleep K (kern s)) (managed s)\<rparr>)"
proof (induction xs arbitrary: s)
  case (Cons a xs)
  then obtain m where m: "managed s a = Some m" "mt_timer m \<noteq> NULL"
    by auto
  define k' where "k' = foldl (k_timer_stop K) (kern s) (to_stop K (kern s) [m])"
  define h' where "h' = (managed s)(a := map_option (put_to_sleep K (kern s)) (managed s a))"
  define t where "t = s\<lparr>kern := k', managed := h'\<rparr>"
  have fields: "kern t = k'" "managed t = h'"
    by (simp_all add: t_def)
  have first: "run_state (pre_sleep_timer K a) s = ((), t)"
    using m by (simp add: run_pre_sleep_timer t_def k'_def h'_def)
  have kept: "h' b = managed s b" if "b \<in> set xs" for b
    using that Cons.prems(1) by (auto simp: h'_def)
  then have same: "map (the_mt t) xs = map (the_mt s) xs"
    by (simp add: the_mt_def fields)
  have keep: "timer_view K k' (mt_timer n) = timer_view K (kern s) (mt_timer n)"
    if "n \<in> set (map (the_mt s) xs)" "suspendable n" for n
    unfolding k'_def
  proof (rule stopped_timers_view [OF assms])
    have "mt_timer n \<in> set (timers_of (map (the_mt s) xs))"
      using that by (auto simp: timers_of_def)
    then show "mt_timer n \<notin> set (to_stop K (kern s) [m])"
      using Cons.prems(3) m by (auto simp: timers_of_def to_stop_def the_mt_def)
  qed
  have stop: "to_stop K k' (map (the_mt s) xs) = to_stop K (kern s) (map (the_mt s) xs)"
    by (rule to_stop_cong) (rule keep)
  have "upd_all xs (put_to_sleep K k') h' = upd_all xs (put_to_sleep K (kern s)) h'"
  proof (rule upd_all_cong)
    fix b assume b: "b \<in> set xs"
    have "put_to_sleep K k' (the_mt s b) = put_to_sleep K (kern s) (the_mt s b)"
      using b by (intro put_to_sleep_cong keep) simp_all
    then show "map_option (put_to_sleep K k') (h' b) = map_option (put_to_sleep K (kern s)) (h' b)"
      by (cases "managed s b") (simp_all add: kept [OF b] the_mt_def)
  qed
  also have "\<dots> = upd_all (a # xs) (put_to_sleep K (kern s)) (managed s)"
    unfolding h'_def using Cons.prems(1) by (intro upd_all_Cons) simp
  finally have objects: "upd_all xs (put_to_sleep K k') h' = \<dots>" .
  have "run_state (for_each (pre_sleep_timer K) xs) t = ((), t\<lparr>
      kern := foldl (k_timer_stop K) (kern t) (to_stop K (kern t) (map (the_mt t) xs)),
      managed := upd_all xs (put_to_sleep K (kern t)) (managed t)\<rparr>)"
  proof (rule Cons.IH)
    show "distinct (timers_of (map (the_mt t) xs))"
      using Cons.prems(3) unfolding same by (simp add: timers_of_def split: if_splits)
    show "\<forall>b\<in>set xs. \<exists>n. managed t b = Some n \<and> mt_timer n \<noteq> NULL"
      using Cons.prems(2) by (simp add: fields kept)
  qed (use Cons.prems in simp)
  then have rest: "run_state (for_each (pre_sleep_timer K) xs) t = ((), s\<lparr>
      kern := foldl (k_timer_stop K) k' (to_stop K (kern s) (map (the_mt s) xs)),
      managed := upd_all (a # xs) (put_to_sleep K (kern s)) (managed s)\<rparr>)"
    unfolding fields same stop objects by (simp add: t_def)
  have "to_stop K (kern s) (map (the_mt s) (a # xs)) =
      to_stop K (kern s) [m] @ to_stop K (kern s) (map (the_mt s) xs)"
    using m by (simp add: to_stop_def the_mt_def)
  then show ?case
    by (simp add: run_simps first rest k'_def)
qed (simp add: to_stop_def)

section \<open>After sleep\<close>

definition to_restart :: "pm_managed_timer list \<Rightarrow> (ptr \<times> k_ticks \<times> k_ticks) list" where
  "to_restart ms = map (\<lambda>m. (mt_timer m, saved_remaining m, saved_period m))
     (filter (\<lambda>m. was_running m \<and> auto_restart m) ms)"

definition start_all :: "'k pm_kernel \<Rightarrow> 'k \<Rightarrow> (ptr \<times> k_ticks \<times> k_ticks) list \<Rightarrow> 'k" where
  "start_all K = foldl (\<lambda>k (t, d, p). k_timer_start K k t d p)"

lemma start_all_simps [simp]:
  "start_all K k [] = k"
  "start_all K k ((t, d, p) # xs) = start_all K (k_timer_start K k t d p) xs"
  by (simp_all add: start_all_def)

lemma run_post_sleep_timers:
  "distinct xs \<Longrightarrow> \<forall>a\<in>set xs. \<exists>m. managed s a = Some m \<and> mt_timer m \<noteq> NULL \<Longrightarrow>
    run_state (for_each (post_sleep_timer K) xs) s = ((), s\<lparr>
      kern := start_all K (kern s) (to_restart (map (the_mt s) xs)),
      managed := upd_all xs (was_running_update (\<lambda>_. False)) (managed s)\<rparr>)"
proof (induction xs arbitrary: s)
  case (Cons a xs)
  then obtain m where m: "managed s a = Some m" "mt_timer m \<noteq> NULL"
    by auto
  define t where "t = s\<lparr>kern := start_all K (kern s) (to_restart [m]),
    managed := (managed s)(a := map_option (was_running_update (\<lambda>_. False)) (managed s a))\<rparr>"
  have first: "run_state (post_sleep_timer K a) s = ((), t)"
    using m by (cases m; cases s)
      (auto simp: t_def post_sleep_timer_def run_simps kcall_def upd_managed_def to_restart_def fun_eq_iff)
  have same: "map (the_mt t) xs = map (the_mt s) xs"
    using Cons.prems(1) by (auto simp: the_mt_def t_def)
  have "run_state (for_each (post_sleep_timer K) xs) t = ((), t\<lparr>
      kern := start_all K (kern t) (to_restart (map (the_mt t) xs)),
      managed := upd_all xs (was_running_update (\<lambda>_. False)) (managed t)\<rparr>)"
    using Cons.prems by (intro Cons.IH) (auto simp: t_def)
  also have "\<dots> = ((), s\<lparr>
      kern := start_all K (start_all K (kern s) (to_restart [m])) (to_restart (map (the_mt s) xs)),
      managed := upd_all (a # xs) (was_running_update (\<lambda>_. False)) (managed s)\<rparr>)"
    using upd_all_Cons [of a xs "was_running_update (\<lambda>_. False)" "managed s"] Cons.prems(1)
    unfolding same by (simp add: t_def)
  finally have rest: "run_state (for_each (post_sleep_timer K) xs) t = \<dots>" .
  have "to_restart (map (the_mt s) (a # xs)) = to_restart [m] @ to_restart (map (the_mt s) xs)"
    using m by (simp add: to_restart_def the_mt_def)
  moreover have "start_all K (start_all K k us) vs = start_all K k (us @ vs)" for k us vs
    by (simp add: start_all_def)
  ultimately show ?case
    by (simp add: run_simps first rest)
qed (simp add: to_restart_def)

section \<open>A round of sleep\<close>

definition may_sleep :: "'k pm_kernel \<Rightarrow> 'k pm_st \<Rightarrow> bool" where
  "may_sleep K s \<longleftrightarrow> \<not> state_lock_is_active K (kern s) \<and> \<not> pm_device_is_any_busy K (kern s)"

definition managed_timers :: "'k pm_st \<Rightarrow> pm_managed_timer list" where
  "managed_timers s = map (the_mt s) (pm_timer_list s)"

text \<open>The service timer is stopped last, if it is active.\<close>

definition stop_service :: "'k pm_kernel \<Rightarrow> 'k \<Rightarrow> 'k" where
  "stop_service K k = (if qurt_timer_Is_Active K k (pm_service_timer K)
     then k_timer_stop K k (pm_service_timer K) else k)"

definition tasks_suspended :: "'k pm_kernel \<Rightarrow> 'k pm_st \<Rightarrow> 'k" where
  "tasks_suspended K s = foldl (k_thread_suspend K) (kern s) (tasks_of K (hash_table s) (kern s))"

lemma run_on_idle_pre_sleep:
  assumes laws: "kernel_laws K" and wf: "pm_wf s" and "may_sleep K s"
    and timers: "distinct (timers_of (managed_timers s))"
  shows "run_state (on_idle_pre_sleep K) s = ((), s\<lparr>
    kern := stop_service K (foldl (k_timer_stop K) (tasks_suspended K s) (to_stop K (kern s) (managed_timers s))),
    managed := upd_all (pm_timer_list s) (put_to_sleep K (kern s)) (managed s),
    os_default_tasks_suspended := True\<rparr>)"
proof -
  define t where "t = s\<lparr>kern := tasks_suspended K s, os_default_tasks_suspended := True\<rparr>"
  have view: "timer_view K (kern t) u = timer_view K (kern s) u" for u
    by (simp add: t_def tasks_suspended_def suspended_threads_view [OF laws])
  have same: "the_mt t = the_mt s"
    by (simp add: fun_eq_iff the_mt_def t_def)
  have "run_state (for_each (pre_sleep_timer K) (pm_timer_list t)) t = ((), t\<lparr>
      kern := foldl (k_timer_stop K) (kern t) (to_stop K (kern t) (map (the_mt t) (pm_timer_list t))),
      managed := upd_all (pm_timer_list t) (put_to_sleep K (kern t)) (managed t)\<rparr>)"
  proof (rule run_pre_sleep_timers [OF laws])
    show "distinct (timers_of (map (the_mt t) (pm_timer_list t)))"
      using timers unfolding same by (simp add: t_def managed_timers_def)
  qed (use wf in \<open>auto simp: t_def pm_wf_def\<close>)
  moreover have "to_stop K (kern t) ms = to_stop K (kern s) ms" for ms
    by (rule to_stop_cong) (rule view)
  moreover have "put_to_sleep K (kern t) = put_to_sleep K (kern s)"
    by (rule ext, rule put_to_sleep_cong, rule view)
  ultimately have "run_state (for_each (pre_sleep_timer K) (pm_timer_list t)) t = ((), t\<lparr>
      kern := foldl (k_timer_stop K) (kern t) (to_stop K (kern s) (managed_timers s)),
      managed := upd_all (pm_timer_list s) (put_to_sleep K (kern s)) (managed s)\<rparr>)"
    unfolding same by (simp add: managed_timers_def) (simp add: t_def)
  moreover have "run_state (suspend_all_os_default_tasks K) s = ((), t)"
    by (simp add: run_suspend_all t_def tasks_suspended_def)
  ultimately show ?thesis
    using assms(3) unfolding on_idle_pre_sleep_def may_sleep_def
    by (simp add: run_simps kget_def kcall_def stop_service_def) (simp add: t_def)
qed

lemma run_on_idle_post_sleep:
  fixes K :: "'k pm_kernel"
  assumes "distinct (pm_timer_list s)"
    and "\<forall>a\<in>set (pm_timer_list s). \<exists>m. managed s a = Some m \<and> mt_timer m \<noteq> NULL"
  defines "k \<equiv> start_all K (kern s) (to_restart (managed_timers s))"
  shows "run_state (on_idle_post_sleep K) s = ((), s\<lparr>
    kern := (if os_default_tasks_suspended s
      then foldl (k_thread_resume K) k (tasks_of K (hash_table s) k) else k),
    managed := upd_all (pm_timer_list s) (was_running_update (\<lambda>_. False)) (managed s),
    os_default_tasks_suspended := False\<rparr>)"
  using run_post_sleep_timers [OF assms(1,2), of K]
  by (cases s) (simp add: on_idle_post_sleep_def run_simps run_resume_all k_def managed_timers_def)

end
