(* ===== verification/Pm_Round_Proofs.thy ===== *)
theory Pm_Round_Proofs
  imports Pm_Idle_Proofs
begin

text \<open>
  The timer manager as a whole: a round of sleep restarts what it stopped, and the list of managed
  timers stays sound under every sequence of registrations and rounds. A small kernel at the end shows
  that the assumptions can hold.
\<close>

section \<open>A round of sleep\<close>

lemma upd_all_in [simp]: "a \<in> set xs \<Longrightarrow> upd_all xs f h a = map_option f (h a)"
  by (simp add: upd_all_def)

definition registration :: "pm_managed_timer \<Rightarrow> ptr \<times> string option \<times> bool \<times> bool" where
  "registration m = (mt_timer m, mt_name m, suspendable m, auto_restart m)"

lemma registration_upd_all:
  "(\<And>m. registration (f m) = registration m) \<Longrightarrow>
   map_option registration (upd_all xs f h a) = map_option registration (h a)"
  by (cases "h a") (simp_all add: upd_all_def)

lemma registration_put_to_sleep: "registration (put_to_sleep K k m) = registration m"
  by (simp add: registration_def put_to_sleep_def)

lemma registration_woken: "registration (m\<lparr>was_running := b\<rparr>) = registration m"
  by (simp add: registration_def)

text \<open>The timers a round stops and restarts, with the time and period they are restarted with.\<close>

definition running_restartable :: "'k pm_kernel \<Rightarrow> 'k \<Rightarrow> pm_managed_timer list \<Rightarrow> (ptr \<times> k_ticks \<times> k_ticks) list" where
  "running_restartable K k ms =
     map (\<lambda>m. (mt_timer m, k_timer_remaining_ticks K k (mt_timer m), timer_period K k (mt_timer m)))
       (filter (\<lambda>m. suspendable m \<and> auto_restart m \<and> timer_queued K k (mt_timer m)) ms)"

lemma to_restart_put_to_sleep:
  "\<forall>m\<in>set ms. \<not> was_running m \<Longrightarrow>
   to_restart (map (put_to_sleep K k) ms) = running_restartable K k ms"
  by (induction ms) (auto simp: to_restart_def running_restartable_def put_to_sleep_def)

lemma not_queued_stop_service:
  "kernel_laws K \<Longrightarrow> \<not> timer_queued K k t \<Longrightarrow> \<not> timer_queued K (stop_service K k) t"
  using stopped_timers_not_queued [of K t "[pm_service_timer K]" k] by (simp add: stop_service_def)

text \<open>
  C23: When the system may sleep, the hook before sleep takes every suspendable managed timer out of
  the kernel's queue; whatever happens to the kernel during sleep, the hook after it starts exactly the
  timers that were running and are to be restarted, each with the remaining time and the period it had
  before sleep, in the order of the list, and resumes the system tasks. The registrations are as
  before, and no timer stays marked as stopped.
\<close>

theorem idle_round_restarts:
  assumes laws: "kernel_laws K" and wf: "pm_wf s" and sleep: "may_sleep K s"
    and timers: "distinct (timers_of (managed_timers s))"
    and s1: "s1 = snd (run_state (on_idle_pre_sleep K) s)"
    and s2: "s2 = snd (run_state (on_idle_post_sleep K) (s1\<lparr>kern := k\<rparr>))"
  shows "(\<forall>t\<in>set (timers_of (managed_timers s)). \<not> timer_queued K (kern s1) t) \<and>
    kern s2 = (let k' = start_all K k (running_restartable K (kern s) (managed_timers s))
      in foldl (k_thread_resume K) k' (tasks_of K (hash_table s) k')) \<and>
    pm_wf s2 \<and> pm_timer_list s2 = pm_timer_list s \<and> \<not> os_default_tasks_suspended s2 \<and>
    (\<forall>a. map_option registration (managed s2 a) = map_option registration (managed s a))"
proof -
  let ?xs = "pm_timer_list s" and ?f = "put_to_sleep K (kern s)" and ?g = "was_running_update (\<lambda>_. False)"
  have s1': "s1 = s\<lparr>
      kern := stop_service K (foldl (k_timer_stop K) (tasks_suspended K s) (to_stop K (kern s) (managed_timers s))),
      managed := upd_all ?xs ?f (managed s), os_default_tasks_suspended := True\<rparr>"
    by (simp add: s1 run_on_idle_pre_sleep [OF laws wf sleep timers])
  have nodes: "\<exists>m. managed (s1\<lparr>kern := k\<rparr>) a = Some m \<and> mt_timer m \<noteq> NULL" if "a \<in> set ?xs" for a
    using pm_wfD [OF wf that] that by (simp add: s1' put_to_sleep_def)
  have "the_mt (s1\<lparr>kern := k\<rparr>) a = ?f (the_mt s a)" if "a \<in> set ?xs" for a
    using pm_wfD(1) [OF wf that] that by (cases "managed s a") (simp_all add: the_mt_def s1')
  then have asleep: "managed_timers (s1\<lparr>kern := k\<rparr>) = map ?f (managed_timers s)"
    by (simp add: managed_timers_def s1')
  have "\<forall>m\<in>set (managed_timers s). \<not> was_running m"
    using pm_wfD(3) [OF wf] by (auto simp: managed_timers_def)
  note restarts = to_restart_put_to_sleep [OF this, of K "kern s"]
  have s2': "s2 = s1\<lparr>
      kern := (let k' = start_all K k (running_restartable K (kern s) (managed_timers s))
        in foldl (k_thread_resume K) k' (tasks_of K (hash_table s) k')),
      managed := upd_all ?xs ?g (upd_all ?xs ?f (managed s)), os_default_tasks_suspended := False\<rparr>"
    using run_on_idle_post_sleep [of "s1\<lparr>kern := k\<rparr>" K] nodes wf
    unfolding s2 asleep restarts by (simp add: s1' pm_wf_def Let_def)
  have "\<not> timer_queued K (kern s1) t" if "t \<in> set (timers_of (managed_timers s))" for t
  proof -
    have "timer_view K (tasks_suspended K s) u = timer_view K (kern s) u" for u
      by (simp add: tasks_suspended_def suspended_threads_view [OF laws])
    then have "t \<in> set (to_stop K (kern s) (managed_timers s)) \<or> \<not> timer_queued K (tasks_suspended K s) t"
      using that by (auto simp: timers_of_def to_stop_def timer_view_def)
    then show ?thesis
      by (simp add: s1' not_queued_stop_service [OF laws] stopped_timers_not_queued [OF laws])
  qed
  moreover have "pm_wf s2"
    using wf pm_wfD [OF wf] unfolding pm_wf_def by (simp add: s2' s1' put_to_sleep_def)
  moreover have "map_option registration (managed s2 a) = map_option registration (managed s a)" for a
    by (simp add: s2' registration_upd_all registration_put_to_sleep registration_woken)
  ultimately show ?thesis
    by (simp add: s2') (simp add: s1')
qed

section \<open>The list of managed timers\<close>

text \<open>
  What happens to the manager once it is initialised: registrations of timers by the timer library, with an
  allocator that gives out no object in use; rounds of sleep, in which the kernel may change in any way; and
  whatever else the kernel does.
\<close>

inductive pm_step :: "'k pm_kernel \<Rightarrow> 'k pm_st \<Rightarrow> 'k pm_st \<Rightarrow> bool" for K where
  register: "a = fst (k_calloc K (kern s)) \<Longrightarrow> a = NULL \<or> managed s a = None \<Longrightarrow>
     pm_step K s (snd (run_state (pm_timer_register_internal K name t) s))"
| sleep: "s1 = snd (run_state (z_idle_hooks_run_suspend K) s) \<Longrightarrow>
     pm_step K s (snd (run_state (z_idle_hooks_run_resume K) (s1\<lparr>kern := k\<rparr>)))"
| kernel: "pm_step K s (s\<lparr>kern := k\<rparr>)"

text \<open>The removal of the timer \<open>t\<close> finds the object of the shell's timer, which is static.\<close>

definition frees_static :: "'k pm_kernel \<Rightarrow> 'k pm_st \<Rightarrow> ptr \<Rightarrow> bool" where
  "frees_static K s t \<longleftrightarrow> find (\<lambda>a. mt_timer (the_mt s a) = t) (pm_timer_list s) = Some (g_shell_uart_managed_timer K)"

text \<open>
  The states reached: \<open>booted\<close> says whether \<open>my_app_init\<close>, which runs once while the system starts, has run,
  \<open>freed\<close> whether a removal found the object of the shell's timer. Any timer may be removed at any time.
\<close>

inductive pm_reach :: "'k pm_kernel \<Rightarrow> bool \<Rightarrow> bool \<Rightarrow> 'k pm_st \<Rightarrow> bool" for K where
  start: "pm_reach K False False (snd (run_state (pm_timer_manager_init K) (pm_init_st K k)))"
| boot: "pm_reach K False freed s \<Longrightarrow> pm_reach K True freed (snd (run_state (my_app_init K) s))"
| step: "pm_reach K booted freed s \<Longrightarrow> pm_step K s t \<Longrightarrow> pm_reach K booted freed t"
| unregister: "pm_reach K booted freed s \<Longrightarrow>
     pm_reach K booted (freed \<or> frees_static K s t) (snd (run_state (pm_timer_unregister_internal K t) s))"

definition pm_inv :: "'k pm_kernel \<Rightarrow> bool \<Rightarrow> 'k pm_st \<Rightarrow> bool" where
  "pm_inv K freed s \<longleftrightarrow> pm_wf s \<and> pm_fault s = freed \<and>
     suspend_hooks s = [(my_pre_sleep_hook_entry K, Some On_idle_pre_sleep)] \<and>
     resume_hooks s = [(my_post_sleep_hook_entry K, Some On_idle_post_sleep)]"

text \<open>Before \<open>my_app_init\<close> the object of the shell's timer is there and not in the list.\<close>

definition shell_unused :: "'k pm_kernel \<Rightarrow> 'k pm_st \<Rightarrow> bool" where
  "shell_unused K s \<longleftrightarrow> managed s (g_shell_uart_managed_timer K) \<noteq> None
     \<and> g_shell_uart_managed_timer K \<notin> set (pm_timer_list s)"

lemma pm_inv_init:
  fixes K k
  defines "s \<equiv> snd (run_state (pm_timer_manager_init K) (pm_init_st K k))"
  shows "pm_inv K False s" "shell_unused K s"
  by (simp_all add: s_def pm_inv_def shell_unused_def pm_wf_def pm_timer_manager_init_def run_simps capture_handler_def
      kcall_def kget_def idle_hook_register_suspend_def idle_hook_register_resume_def init_os_default_tasks_def
      pm_init_st_def)

lemma pm_inv_kern [simp]: "pm_inv K b (s\<lparr>kern := k\<rparr>) = pm_inv K b s" "shell_unused K (s\<lparr>kern := k\<rparr>) = shell_unused K s"
  by (simp_all add: pm_inv_def pm_wf_def shell_unused_def)

text \<open>Registration of an object that is in memory and not in the list.\<close>

lemma pm_inv_register:
  assumes "pm_inv K b s" "managed s a \<noteq> None" "a \<notin> set (pm_timer_list s)"
  shows "pm_inv K b (snd (run_state (pm_timer_register a t susp restart name) s))"
  using assms by (auto simp: pm_timer_register_def run_simps upd_managed_def pm_inv_def pm_wf_def)

lemma shell_unused_register:
  assumes "shell_unused K s" "a \<noteq> g_shell_uart_managed_timer K"
  shows "shell_unused K (snd (run_state (pm_timer_register a t susp restart name) s))"
  using assms by (auto simp: pm_timer_register_def run_simps upd_managed_def shell_unused_def pm_ub_def)

lemma pm_inv_managed:
  assumes "pm_inv K b s" "a \<notin> set (pm_timer_list s)"
  shows "pm_inv K b (s\<lparr>managed := (managed s)(a \<mapsto> m)\<rparr>)"
  using assms by (auto simp: pm_inv_def pm_wf_def)

lemma pm_inv_register_internal:
  fixes name x
  assumes inv: "pm_inv K b s" and "a = fst (k_calloc K (kern s))" "a = NULL \<or> managed s a = None"
  defines "t \<equiv> snd (run_state (pm_timer_register_internal K name x) s)"
  shows "pm_inv K b t" "shell_unused K s \<Longrightarrow> shell_unused K t"
proof -
  have "pm_inv K b t \<and> (shell_unused K s \<longrightarrow> shell_unused K t)"
  proof (cases "name = None \<or> x = NULL \<or> a = NULL")
    case True
    then show ?thesis
      using inv assms(2) by (auto simp: t_def pm_timer_register_internal_def pm_timer_register_def run_simps
          kget_def kcall_def)
  next
    case False
    define u where "u = s\<lparr>kern := snd (k_calloc K (kern s)), managed := (managed s)(a \<mapsto> zero_managed_timer)\<rparr>"
    have new: "a \<notin> set (pm_timer_list s)"
      using inv assms(3) False by (auto simp: pm_inv_def pm_wf_def)
    then have "pm_inv K b (snd (run_state (pm_timer_register a x True True name) u))"
      using pm_inv_managed [of K b "s\<lparr>kern := snd (k_calloc K (kern s))\<rparr>" a] inv
      by (intro pm_inv_register) (simp_all add: u_def)
    moreover have "shell_unused K (snd (run_state (pm_timer_register a x True True name) u))" if "shell_unused K s"
      using that assms(3) False by (intro shell_unused_register) (auto simp: u_def shell_unused_def)
    moreover have "t = snd (run_state (pm_timer_register a x True True name) u)"
      using False by (cases name) (simp_all add: t_def pm_timer_register_internal_def run_simps kget_def
          kcall_def assms(2) [symmetric] u_def split_beta)
    ultimately show ?thesis
      by simp
  qed
  then show "pm_inv K b t" "shell_unused K s \<Longrightarrow> shell_unused K t"
    by simp_all
qed

lemma pm_inv_my_app_init:
  assumes inv: "pm_inv K b s" and unused: "shell_unused K s"
  shows "pm_inv K b (snd (run_state (my_app_init K) s))"
proof -
  let ?a = "g_shell_uart_managed_timer K"
  obtain m where m: "managed s ?a = Some m"
    using unused by (auto simp: shell_unused_def)
  have "pm_inv K b (snd (run_state (pm_timer_register ?a t True True n) (s\<lparr>kern := k, managed := (managed s)(?a \<mapsto> m')\<rparr>)))"
    for t n k m'
    using pm_inv_managed [of K b "s\<lparr>kern := k\<rparr>" ?a] assms by (intro pm_inv_register) (simp_all add: shell_unused_def)
  then show ?thesis
    using inv m by (simp add: my_app_init_def pm_register_shell_uart_timer_def run_simps kget_def
        kcall_def upd_managed_def split_beta)
qed

text \<open>Removal: the first node whose timer it is leaves the list and its object is freed.\<close>

lemma run_unregister_walk:
  assumes "\<forall>a\<in>set xs. managed s a \<noteq> None"
  shows "snd (run_state (unregister_walk K t xs) s) =
    (case find (\<lambda>a. mt_timer (the_mt s a) = t) xs of
       None \<Rightarrow> s
     | Some a \<Rightarrow> s\<lparr>kern := k_free K (kern s) a, pm_timer_list := remove1 a (pm_timer_list s),
         managed := (managed s)(a := None),
         pm_fault := pm_fault s \<or> a = g_shell_uart_managed_timer K\<rparr>)"
  using assms
proof (induction xs)
  case (Cons a xs)
  then obtain m where "managed s a = Some m"
    by auto
  then show ?case
    using Cons by (cases s) (simp add: run_simps free_managed_def kcall_def pm_ub_def the_mt_def)
qed simp

lemma pm_inv_unregister:
  fixes t
  assumes inv: "pm_inv K b s"
  defines "u \<equiv> snd (run_state (pm_timer_unregister_internal K t) s)"
  shows "pm_inv K (b \<or> frees_static K s t) u" "shell_unused K s \<Longrightarrow> shell_unused K u"
proof -
  let ?xs = "pm_timer_list s"
  have wf: "pm_wf s"
    using inv by (simp add: pm_inv_def)
  then have "\<forall>a\<in>set ?xs. managed s a \<noteq> None"
    by (auto simp: pm_wf_def)
  note walk = run_unregister_walk [OF this, of K t]
  have none: "find (\<lambda>a. mt_timer (the_mt s a) = t) ?xs = None" if "t = NULL"
    using pm_wfD(2) [OF wf] that by (auto simp: find_None_iff)
  have u: "u = (if t = NULL then s else snd (run_state (unregister_walk K t ?xs) s))"
    by (simp add: u_def pm_timer_unregister_internal_def pm_timer_unregister_def run_simps split_beta)
  have "pm_inv K (b \<or> frees_static K s t) u \<and> (shell_unused K s \<longrightarrow> shell_unused K u)"
  proof (cases "find (\<lambda>a. mt_timer (the_mt s a) = t) ?xs")
    case None
    then show ?thesis
      using inv walk by (auto simp: u frees_static_def)
  next
    case (Some a)
    then have "t \<noteq> NULL"
      using none by auto
    moreover have "a \<in> set ?xs"
      using Some by (auto simp: find_Some_iff)
    ultimately show ?thesis
      using inv Some unfolding u walk by (auto simp: pm_inv_def pm_wf_def frees_static_def shell_unused_def)
  qed
  then show "pm_inv K (b \<or> frees_static K s t) u" "shell_unused K s \<Longrightarrow> shell_unused K u"
    by simp_all
qed

text \<open>A round of sleep, also when two managed timers wrap the same kernel timer.\<close>

definition nodes_kept :: "'k pm_kernel \<Rightarrow> 'k pm_st \<Rightarrow> 'k pm_st \<Rightarrow> bool" where
  "nodes_kept K s t \<longleftrightarrow> pm_timer_list t = pm_timer_list s \<and>
     (\<forall>a. map_option registration (managed t a) = map_option registration (managed s a)) \<and>
     pm_fault t = pm_fault s \<and> suspend_hooks t = suspend_hooks s \<and> resume_hooks t = resume_hooks s"

lemma nodes_kept_refl [simp]: "nodes_kept K s s"
  by (simp add: nodes_kept_def)

lemma nodes_kept_trans [trans]: "nodes_kept K s t \<Longrightarrow> nodes_kept K t u \<Longrightarrow> nodes_kept K s u"
  by (simp add: nodes_kept_def)

lemma nodes_kept_pre_sleep_timer:
  assumes "managed s a \<noteq> None"
  shows "nodes_kept K s (snd (run_state (pre_sleep_timer K a) s))"
  using assms by (auto simp: pre_sleep_timer_def run_simps kget_def kcall_def upd_managed_def
      nodes_kept_def registration_def cong: if_cong split: if_splits)

lemma nodes_kept_pre_sleep_timers:
  "\<forall>a\<in>set xs. managed s a \<noteq> None \<Longrightarrow> nodes_kept K s (snd (run_state (for_each (pre_sleep_timer K) xs) s))"
proof (induction xs arbitrary: s)
  case (Cons a xs)
  obtain t where t: "run_state (pre_sleep_timer K a) s = ((), t)"
    by (metis old.unit.exhaust surj_pair)
  then have first: "nodes_kept K s t"
    using nodes_kept_pre_sleep_timer [of s a K] Cons.prems by simp
  then have "\<forall>b\<in>set xs. managed t b \<noteq> None"
    using Cons.prems unfolding nodes_kept_def by (metis list.set_intros(2) option.map_disc_iff)
  then have "nodes_kept K t (snd (run_state (for_each (pre_sleep_timer K) xs) t))"
    by (rule Cons.IH)
  with first show ?case
    by (simp add: run_simps t) (rule nodes_kept_trans)
qed simp

lemma nodes_kept_on_idle_pre_sleep:
  assumes "\<forall>a\<in>set (pm_timer_list s). managed s a \<noteq> None"
  shows "nodes_kept K s (snd (run_state (on_idle_pre_sleep K) s))"
proof -
  define u where "u = s\<lparr>kern := tasks_suspended K s, os_default_tasks_suspended := True\<rparr>"
  obtain t where t: "run_state (for_each (pre_sleep_timer K) (pm_timer_list s)) u = ((), t)"
    by (metis old.unit.exhaust surj_pair)
  then have "nodes_kept K u t"
    using nodes_kept_pre_sleep_timers [of "pm_timer_list s" u K] assms by (simp add: u_def)
  then have "nodes_kept K s (t\<lparr>kern := k\<rparr>)" for k
    by (simp add: nodes_kept_def u_def)
  moreover have "nodes_kept K s (s\<lparr>kern := k\<rparr>)" for k
    by (simp add: nodes_kept_def)
  moreover have "run_state (suspend_all_os_default_tasks K) s = ((), u)" "pm_timer_list u = pm_timer_list s"
    by (simp_all add: run_suspend_all u_def tasks_suspended_def)
  moreover have "nodes_kept K s t"
    using \<open>nodes_kept K u t\<close> by (simp add: nodes_kept_def u_def)
  ultimately show ?thesis
    by (simp add: on_idle_pre_sleep_def run_simps kget_def kcall_def t cong: if_cong)
qed

lemma pm_inv_sleep:
  fixes k
  assumes inv: "pm_inv K b s" and s1: "s1 = snd (run_state (z_idle_hooks_run_suspend K) s)"
  defines "t \<equiv> snd (run_state (z_idle_hooks_run_resume K) (s1\<lparr>kern := k\<rparr>))"
  shows "pm_inv K b t" "shell_unused K s \<Longrightarrow> shell_unused K t"
proof -
  have wf: "pm_wf s"
    using inv by (simp add: pm_inv_def)
  then have "\<forall>a\<in>set (pm_timer_list s). managed s a \<noteq> None"
    by (auto simp: pm_wf_def)
  moreover have s1': "s1 = snd (run_state (on_idle_pre_sleep K) s)"
    using inv by (simp add: s1 z_idle_hooks_run_suspend_def run_simps pm_inv_def split_beta)
  ultimately have kept: "nodes_kept K s s1"
    by (simp add: nodes_kept_on_idle_pre_sleep)
  have nodes: "\<exists>m. managed s1 a = Some m \<and> mt_timer m \<noteq> NULL" if "a \<in> set (pm_timer_list s)" for a
  proof -
    note m = pm_wfD [OF wf that]
    have "map_option registration (managed s1 a) = map_option registration (managed s a)"
      using kept by (simp add: nodes_kept_def)
    then obtain m' where "managed s1 a = Some m'" "registration m' = registration (the_mt s a)"
      unfolding m(1) by auto
    then show ?thesis
      using m(2) by (simp add: registration_def)
  qed
  have lists: "pm_timer_list s1 = pm_timer_list s" "pm_fault s1 = pm_fault s"
    "suspend_hooks s1 = suspend_hooks s" "resume_hooks s1 = resume_hooks s"
    using kept by (simp_all add: nodes_kept_def)
  define u where "u = snd (run_state (on_idle_post_sleep K) (s1\<lparr>kern := k\<rparr>))"
  have t: "t = u"
    using inv by (simp add: t_def z_idle_hooks_run_resume_def run_simps pm_inv_def split_beta u_def lists)
  show "pm_inv K b t"
    unfolding t u_def
    using inv nodes by (subst run_on_idle_post_sleep)
      (auto simp: pm_inv_def pm_wf_def lists upd_all_def, fastforce+)
  assume unused: "shell_unused K s"
  then have "managed s1 (g_shell_uart_managed_timer K) \<noteq> None"
    using kept unfolding nodes_kept_def shell_unused_def by (metis option.map_disc_iff)
  then show "shell_unused K t"
    unfolding t u_def
    using unused nodes wf by (subst run_on_idle_post_sleep)
      (auto simp: shell_unused_def pm_wf_def lists upd_all_def)
qed

lemma pm_inv_step:
  assumes "pm_step K s t" "pm_inv K b s"
  shows "pm_inv K b t \<and> (shell_unused K s \<longrightarrow> shell_unused K t)"
  using assms
proof induction
  case (register a s name x)
  from pm_inv_register_internal [OF register(3,1,2)] show ?case
    by simp
next
  case (sleep s1 s k)
  from pm_inv_sleep [OF sleep(2,1)] show ?case
    by simp
qed simp

lemma pm_inv_reach: "pm_reach K booted freed s \<Longrightarrow> pm_inv K freed s \<and> (\<not> booted \<longrightarrow> shell_unused K s)"
proof (induction rule: pm_reach.induct)
  case (start k)
  then show ?case
    by (simp add: pm_inv_init)
next
  case (boot freed s)
  then show ?case
    by (simp add: pm_inv_my_app_init)
next
  case (step booted freed s t)
  from pm_inv_step [OF step(2)] step(3) show ?case
    by blast
next
  case (unregister booted freed s t)
  from pm_inv_unregister [of K freed s t] unregister(2) show ?case
    by blast
qed

text \<open>
  C24: In every state the initialised manager reaches, the list of managed timers has no node twice, every
  node is an object in memory that wraps a timer, no timer is marked as stopped outside a round of sleep, and
  both hooks are installed once. Something undefined has happened exactly if the timer of the shell, or one that
  is found at its object, was removed: then a static object was freed. Nothing else follows a null or dangling
  pointer or appends a node twice.
\<close>

theorem managed_list_sound:
  assumes "pm_reach K booted freed s"
  shows "distinct (pm_timer_list s) \<and>
    (\<forall>a\<in>set (pm_timer_list s). \<exists>m. managed s a = Some m \<and> mt_timer m \<noteq> NULL \<and> \<not> was_running m) \<and>
    suspend_hooks s = [(my_pre_sleep_hook_entry K, Some On_idle_pre_sleep)] \<and>
    resume_hooks s = [(my_post_sleep_hook_entry K, Some On_idle_post_sleep)] \<and> (pm_fault s \<longleftrightarrow> freed)"
  using pm_inv_reach [OF assms] by (simp add: pm_inv_def pm_wf_def)

section \<open>A simulated kernel\<close>

text \<open>
  A small kernel with timers, threads and an allocator. The properties of the timer manager are applied
  to it, so that their assumptions are seen to hold somewhere.
\<close>

record sim_kernel =
  sk_timers :: "ptr \<Rightarrow> bool \<times> k_ticks \<times> k_ticks"
  sk_threads :: "(ptr \<times> string option) list"
  sk_suspended :: "ptr list"
  sk_next :: ptr
  sk_locked :: bool

definition sim_pm_kernel :: "sim_kernel pm_kernel" where
  "sim_pm_kernel = \<lparr>
     k_timer_remaining_ticks = (\<lambda>k t. fst (snd (sk_timers k t))),
     timer_period = (\<lambda>k t. snd (snd (sk_timers k t))),
     timer_fn = (\<lambda>k t. 0x8000),
     timer_queued = (\<lambda>k t. fst (sk_timers k t)),
     k_timer_init = (\<lambda>k t. k\<lparr>sk_timers := (sk_timers k)(t := (False, 0, 0))\<rparr>),
     k_timer_start = (\<lambda>k t d p. k\<lparr>sk_timers := (sk_timers k)(t := (True, d, p))\<rparr>),
     k_timer_stop = (\<lambda>k t. k\<lparr>sk_timers := (sk_timers k)(t := (False, 0, snd (snd (sk_timers k t))))\<rparr>),
     qurt_timer_Is_Active = (\<lambda>k t. fst (sk_timers k t)),
     timeout_list = (\<lambda>k. []),
     k_threads = sk_threads,
     k_thread_suspend = (\<lambda>k th. k\<lparr>sk_suspended := sk_suspended k @ [th]\<rparr>),
     k_thread_resume = (\<lambda>k th. k\<lparr>sk_suspended := removeAll th (sk_suspended k)\<rparr>),
     state_lock_is_active = sk_locked,
     state_lock_get = (\<lambda>k. k\<lparr>sk_locked := True\<rparr>),
     state_lock_put = (\<lambda>k. k\<lparr>sk_locked := False\<rparr>),
     pm_device_is_any_busy = (\<lambda>k. False),
     k_calloc = (\<lambda>k. (sk_next k, k\<lparr>sk_next := sk_next k + 64\<rparr>)),
     k_free = (\<lambda>k a. k),
     K_MSEC = (\<lambda>ms. ucast ms),
     shell_transport_ctx = (\<lambda>k. 0x9000),
     shell_transport_api = (\<lambda>k. 0x9100),
     shell_rx_timer = (\<lambda>k ctx. ctx + 16),
     CONFIG_POLLING = True,
     CONFIG_AUTO_SLEEP = False,
     pm_service_timer = 0x100,
     dummy_timer = 0x200,
     g_shell_uart_managed_timer = 0x300,
     my_pre_sleep_hook_entry = 0x400,
     my_post_sleep_hook_entry = 0x410\<rparr>"

lemma sim_kernel_laws: "kernel_laws sim_pm_kernel"
  by (simp add: kernel_laws_def timer_view_def sim_pm_kernel_def)

definition sim_k0 :: sim_kernel where
  "sim_k0 = \<lparr>sk_timers = (\<lambda>t. if t = 0x1000 then (True, 500, 100) else (False, 0, 0)),
     sk_threads = [(1, Some ''mcumgr smp''), (2, Some ''tcp_work''), (3, None), (4, Some ''net_mgmt'')],
     sk_suspended = [], sk_next = 0x4000, sk_locked = False\<rparr>"

text \<open>The manager after initialisation, and with one running and one stopped timer registered.\<close>

definition sim_pm0 :: "sim_kernel pm_st" where
  "sim_pm0 = snd (run_state (pm_timer_manager_init sim_pm_kernel) (pm_init_st sim_pm_kernel sim_k0))"

definition sim_pm1 :: "sim_kernel pm_st" where
  "sim_pm1 = snd (run_state (pm_timer_register_internal sim_pm_kernel (Some ''beacon'') 0x1000) sim_pm0)"

definition sim_pm2 :: "sim_kernel pm_st" where
  "sim_pm2 = snd (run_state (pm_timer_register_internal sim_pm_kernel (Some ''retry'') 0x2000) sim_pm1)"

lemmas sim_run = run_simps K_NO_WAIT_def kget_def kcall_def pm_ub_def upd_managed_def sim_pm_kernel_def sim_k0_def

lemma sim_pm0_fields:
  "kern sim_pm0 = sim_k0\<lparr>sk_timers := (sk_timers sim_k0)(0x200 := (False, 0, 0))\<rparr>"
  "managed sim_pm0 = [0x300 \<mapsto> zero_managed_timer]" "pm_timer_list sim_pm0 = []"
  "hash_table sim_pm0 = task_table"
  by (simp_all add: sim_pm0_def pm_timer_manager_init_def capture_handler_def pm_init_st_def task_table_def
      idle_hook_register_suspend_def idle_hook_register_resume_def init_os_default_tasks_def sim_run)

definition sim_timer :: "ptr \<Rightarrow> string \<Rightarrow> pm_managed_timer" where
  "sim_timer t n = \<lparr>mt_timer = t, mt_name = Some n, suspendable = True, auto_restart = True,
     saved_remaining = 0, saved_period = 0, was_running = False\<rparr>"

lemma sim_pm1_fields:
  "kern sim_pm1 = (kern sim_pm0)\<lparr>sk_next := 0x4040\<rparr>"
  "managed sim_pm1 = [0x300 \<mapsto> zero_managed_timer, 0x4000 \<mapsto> sim_timer 0x1000 ''beacon'']"
  "pm_timer_list sim_pm1 = [0x4000]" "hash_table sim_pm1 = task_table"
  by (simp_all add: sim_pm1_def sim_pm0_fields pm_timer_register_internal_def pm_timer_register_def
      sim_timer_def zero_managed_timer_def sim_run)

lemma sim_pm2_fields:
  "kern sim_pm2 = (kern sim_pm0)\<lparr>sk_next := 0x4080\<rparr>"
  "managed sim_pm2 = [0x300 \<mapsto> zero_managed_timer, 0x4000 \<mapsto> sim_timer 0x1000 ''beacon'',
     0x4040 \<mapsto> sim_timer 0x2000 ''retry'']"
  "pm_timer_list sim_pm2 = [0x4000, 0x4040]" "hash_table sim_pm2 = task_table"
  by (simp_all add: sim_pm2_def sim_pm1_fields sim_pm0_fields pm_timer_register_internal_def
      pm_timer_register_def sim_timer_def zero_managed_timer_def sim_run)

lemma sim_pm2_managed_timers:
  "managed_timers sim_pm2 = [sim_timer 0x1000 ''beacon'', sim_timer 0x2000 ''retry'']"
  by (simp add: managed_timers_def the_mt_def sim_pm2_fields)

section \<open>The properties on this kernel\<close>

lemma suspends_listed_tasks_witness:
  "sk_suspended (kern (snd (run_state (suspend_all_os_default_tasks sim_pm_kernel) sim_pm0))) = [2, 4]"
  using suspends_listed_tasks [OF sim_pm0_def [THEN arg_cong [of _ _ hash_table]]]
  by (simp add: sim_pm0_fields sim_pm_kernel_def sim_k0_def os_default_tasks_def)

definition sim_pm_asleep :: "sim_kernel pm_st" where
  "sim_pm_asleep = snd (run_state (on_idle_pre_sleep sim_pm_kernel) sim_pm2)"

definition sim_pm_awake :: "sim_kernel pm_st" where
  "sim_pm_awake = snd (run_state (on_idle_post_sleep sim_pm_kernel) (sim_pm_asleep\<lparr>kern := kern sim_pm_asleep\<rparr>))"

lemma idle_round_restarts_witness:
  "\<not> fst (sk_timers (kern sim_pm_asleep) 0x1000) \<and>
   kern sim_pm_awake = (let k' = start_all sim_pm_kernel (kern sim_pm_asleep) [(0x1000, 500, 100)]
     in foldl (k_thread_resume sim_pm_kernel) k' (tasks_of sim_pm_kernel task_table k'))"
proof -
  have "pm_wf sim_pm2"
    by (simp add: pm_wf_def sim_pm2_fields sim_timer_def)
  moreover have "may_sleep sim_pm_kernel sim_pm2"
    by (simp add: may_sleep_def sim_pm2_fields sim_pm0_fields sim_pm_kernel_def sim_k0_def)
  moreover have timers: "timers_of (managed_timers sim_pm2) = [0x1000, 0x2000]"
    by (simp add: sim_pm2_managed_timers timers_of_def sim_timer_def)
  moreover have "running_restartable sim_pm_kernel (kern sim_pm2) (managed_timers sim_pm2) = [(0x1000, 500, 100)]"
    by (simp add: sim_pm2_managed_timers running_restartable_def sim_timer_def sim_pm2_fields
        sim_pm0_fields sim_pm_kernel_def sim_k0_def)
  ultimately show ?thesis
    using idle_round_restarts [OF sim_kernel_laws _ _ _ sim_pm_asleep_def sim_pm_awake_def]
    by (simp add: sim_pm2_fields) (simp add: sim_pm_kernel_def)
qed

text \<open>The shell's timer is registered, and removed.\<close>

definition sim_pm3 :: "sim_kernel pm_st" where
  "sim_pm3 = snd (run_state (my_app_init sim_pm_kernel) sim_pm2)"

lemma sim_pm3_fields:
  "pm_timer_list sim_pm3 = [0x4000, 0x4040, 0x300]" "mt_timer (the_mt sim_pm3 0x4000) = 0x1000"
  "mt_timer (the_mt sim_pm3 0x4040) = 0x2000" "mt_timer (the_mt sim_pm3 0x300) = 0x9010"
  by (simp_all add: sim_pm3_def my_app_init_def pm_register_shell_uart_timer_def pm_timer_register_def the_mt_def
      sim_timer_def sim_pm2_fields sim_pm0_fields sim_run)

lemma managed_list_sound_witness:
  "\<not> pm_fault sim_pm3 \<and> distinct (pm_timer_list sim_pm3)
   \<and> \<not> pm_fault (snd (run_state (pm_timer_unregister_internal sim_pm_kernel 0x1000) sim_pm3))
   \<and> pm_fault (snd (run_state (pm_timer_unregister_internal sim_pm_kernel 0x9010) sim_pm3))"
proof -
  have "pm_reach sim_pm_kernel False False sim_pm0"
    unfolding sim_pm0_def by (rule pm_reach.start)
  moreover have "pm_step sim_pm_kernel sim_pm0 sim_pm1"
    unfolding sim_pm1_def
    by (rule pm_step.register [OF refl]) (simp add: sim_pm0_fields sim_pm_kernel_def sim_k0_def)
  moreover have "pm_step sim_pm_kernel sim_pm1 sim_pm2"
    unfolding sim_pm2_def
    by (rule pm_step.register [OF refl])
      (simp add: sim_pm1_fields sim_pm0_fields sim_pm_kernel_def sim_k0_def)
  ultimately have "pm_reach sim_pm_kernel False False sim_pm2"
    by (blast intro: pm_reach.step)
  then have three: "pm_reach sim_pm_kernel True False sim_pm3"
    unfolding sim_pm3_def by (rule pm_reach.boot)
  have shell: "g_shell_uart_managed_timer sim_pm_kernel = 0x300"
    by (simp add: sim_pm_kernel_def)
  have "\<not> frees_static sim_pm_kernel sim_pm3 0x1000" "frees_static sim_pm_kernel sim_pm3 0x9010"
    by (simp_all add: frees_static_def sim_pm3_fields shell)
  then show ?thesis
    using managed_list_sound [OF three] managed_list_sound [OF pm_reach.unregister [OF three, of "0x1000"]]
      managed_list_sound [OF pm_reach.unregister [OF three, of "0x9010"]] by blast
qed

end
