(* ===== verification/Pm_Stats_Proofs.thy ===== *)
theory Pm_Stats_Proofs
  imports Pm_Timer
begin

text \<open>
  The statistics over the kernel's list of timeouts: the list stores differences, the statistics are
  those of the expiry times it stands for.
\<close>

fun expiries :: "int \<Rightarrow> timeout_entry list \<Rightarrow> int list" where
  "expiries t [] = []"
| "expiries t (e # es) = (t + sint (dticks e)) # expiries (t + sint (dticks e)) es"

lemma length_expiries [simp]: "length (expiries t es) = length es"
  by (induction es arbitrary: t) simp_all

lemma expiries_ge:
  "(\<forall>e\<in>set es. 0 \<le> sint (dticks e)) \<Longrightarrow> x \<in> set (expiries t es) \<Longrightarrow> t \<le> x"
  by (induction es arbitrary: t) (auto, fastforce)

lemma sint_add_small:
  fixes a b :: k_ticks
  assumes "0 \<le> sint a" "0 \<le> sint b" "sint a + sint b < 2 ^ 63"
  shows "sint (a + b) = sint a + sint b"
  using assms by (simp add: sint_word_ariths signed_take_bit_int_eq_self)

text \<open>One walk: the loop computes the folds over the expiry times as long as these fit.\<close>

lemma collect_walk_eq:
  assumes "\<forall>e\<in>set es. 0 \<le> sint (dticks e)" "0 \<le> sint acc" "\<forall>t\<in>set (expiries (sint acc) es). t < 2 ^ 63"
  shows "\<exists>mn' mx'. collect_walk es acc c mn mx su =
      (c + of_nat (length es), mn', mx', su + of_int (sum_list (expiries (sint acc) es))) \<and>
    sint mn' = fold min (expiries (sint acc) es) (sint mn) \<and>
    sint mx' = fold max (expiries (sint acc) es) (sint mx)"
  using assms
proof (induction es arbitrary: acc c mn mx su)
  case (Cons e es)
  let ?t = "acc + dticks e"
  let ?mn = "if sint ?t < sint mn then ?t else mn"
  let ?mx = "if sint ?t > sint mx then ?t else mx"
  have st: "sint ?t = sint acc + sint (dticks e)"
    using Cons.prems by (intro sint_add_small) simp_all
  have folds: "sint ?mn = min (sint ?t) (sint mn)" "sint ?mx = max (sint ?t) (sint mx)"
    by (auto simp: min_def max_def)
  have small: "\<forall>t\<in>set (expiries (sint ?t) es). t < 2 ^ 63"
    using Cons.prems(3) by (simp add: st)
  obtain mn' mx' where eq: "collect_walk es ?t (c + 1) ?mn ?mx (su + ?t) =
      (c + 1 + of_nat (length es), mn', mx', su + ?t + of_int (sum_list (expiries (sint ?t) es)))"
    and "sint mn' = fold min (expiries (sint ?t) es) (sint ?mn)"
    and "sint mx' = fold max (expiries (sint ?t) es) (sint ?mx)"
    using Cons.IH [OF _ _ small, of "c + 1" ?mn ?mx "su + ?t"] Cons.prems st by auto
  moreover have "of_int (sint ?t) = ?t"
    by simp
  ultimately show ?case
    using st by (intro exI [of _ mn'] exI [of _ mx']) (simp add: folds Let_def)
qed simp

lemma fold_min_Min: "xs \<noteq> [] \<Longrightarrow> \<forall>x\<in>set xs. x \<le> m \<Longrightarrow> fold min xs m = Min (set xs)" for m :: int
proof -
  assume a: "xs \<noteq> []" "\<forall>x\<in>set xs. x \<le> m"
  have "fold min xs m = Min (insert m (set xs))"
    by (metis Min.set_eq_fold list.simps(15))
  also have "\<dots> = min m (Min (set xs))"
    using a by simp
  also have "\<dots> = Min (set xs)"
    using a by (simp add: min_def) (meson List.finite_set Min_in set_empty antisym)
  finally show ?thesis .
qed

lemma fold_max_Max: "xs \<noteq> [] \<Longrightarrow> \<forall>x\<in>set xs. m \<le> x \<Longrightarrow> fold max xs m = Max (set xs)" for m :: int
proof -
  assume a: "xs \<noteq> []" "\<forall>x\<in>set xs. m \<le> x"
  have "fold max xs m = Max (insert m (set xs))"
    by (metis Max.set_eq_fold list.simps(15))
  also have "\<dots> = max m (Max (set xs))"
    using a by simp
  also have "\<dots> = Max (set xs)"
    using a by (simp add: max_def)
  finally show ?thesis .
qed

lemma sum_list_ge_member: "x \<in> set xs \<Longrightarrow> \<forall>y\<in>set xs. 0 \<le> y \<Longrightarrow> x \<le> sum_list xs" for x :: int
  by (induction xs) (auto simp: sum_list_nonneg add_increasing add_increasing2)

lemma sint_INT64_MAX: "sint INT64_MAX = 2 ^ 63 - 1"
  by (simp add: INT64_MAX_def)

text \<open>
  C29: The statistics of a list of timeouts with at least one entry are its length and the least,
  greatest, mean and total expiry time, measured from now, as long as the differences are not negative
  and the total fits into 63 bits.
\<close>

theorem stats_of_expiries:
  assumes "tos \<noteq> []" "\<forall>e\<in>set tos. 0 \<le> sint (dticks e)" "length tos < 2 ^ 32"
    and "sum_list (expiries 0 tos) < 2 ^ 63"
  shows "let st = pm_timer_collect_system_stats tos in
    unat (active_count st) = length tos \<and>
    sint (min_timeout st) = Min (set (expiries 0 tos)) \<and>
    sint (max_timeout st) = Max (set (expiries 0 tos)) \<and>
    uint (total_ticks_sum st) = sum_list (expiries 0 tos) \<and>
    uint (avg_timeout st) = sum_list (expiries 0 tos) div int (length tos)"
proof -
  let ?ts = "expiries 0 tos"
  have pos: "\<forall>t\<in>set ?ts. 0 \<le> t"
    using expiries_ge [OF assms(2)] by blast
  have small: "\<forall>t\<in>set ?ts. t < 2 ^ 63"
    using sum_list_ge_member pos assms(4) by (meson le_less_trans)
  obtain mn mx where walk: "collect_walk tos 0 0 INT64_MAX 0 0 = (of_nat (length tos), mn, mx, of_int (sum_list ?ts))"
    and mn: "sint mn = fold min ?ts (sint INT64_MAX)" and mx: "sint mx = fold max ?ts 0"
    using collect_walk_eq [OF assms(2), of 0 0 INT64_MAX 0 0] small by auto
  have ne: "?ts \<noteq> []"
    using assms(1) by (cases tos) simp_all
  have len: "unat (of_nat (length tos) :: u32) = length tos"
    using assms(3) by (simp add: unsigned_of_nat take_bit_nat_eq_self)
  have count: "(0 :: u32) < of_nat (length tos)"
    using len assms(1) by (simp add: word_less_nat_alt)
  have sum: "uint (of_int (sum_list ?ts) :: u64) = sum_list ?ts"
    using assms(4) pos by (simp add: uint_word_of_int_eq take_bit_int_eq_self sum_list_nonneg)
  have u32: "uint (of_nat (length tos) :: u32) = int (length tos)"
    unfolding uint_nat len ..
  have "uint (ucast w :: u64) = uint w" for w :: u32
    by (rule uint_up_ucast) (simp add: is_up_def source_size_def target_size_def)
  then have "uint (ucast (of_nat (length tos) :: u32) :: u64) = int (length tos)"
    using u32 by metis
  moreover have "fold min ?ts (sint INT64_MAX) = Min (set ?ts)"
    using small by (intro fold_min_Min ne) (auto simp: sint_INT64_MAX)
  moreover have "fold max ?ts 0 = Max (set ?ts)"
    using pos by (intro fold_max_Max ne) simp
  ultimately show ?thesis
    using count len mn mx sum
    by (simp add: pm_timer_collect_system_stats_def walk uint_div Let_def)
qed

definition three_timeouts :: "timeout_entry list" where
  "three_timeouts = [\<lparr>dticks = 10, timeout_fn = 1, owner_timer = 2\<rparr>,
     \<lparr>dticks = 5, timeout_fn = 1, owner_timer = 3\<rparr>, \<lparr>dticks = 20, timeout_fn = 7, owner_timer = 0\<rparr>]"

lemma stats_of_expiries_witness:
  "unat (active_count (pm_timer_collect_system_stats three_timeouts)) = 3 \<and>
   sint (max_timeout (pm_timer_collect_system_stats three_timeouts)) = 35 \<and>
   uint (avg_timeout (pm_timer_collect_system_stats three_timeouts)) = 20"
  using stats_of_expiries [of three_timeouts] by (simp add: three_timeouts_def Let_def)

end
