(* ===== verification/C_Text.thy ===== *)
theory C_Text
  imports Fw_Prelude
begin

text \<open>
  The functions of the C library on text that the shells of \<open>src/qcspi_app\<close> and \<open>src/common/shell\<close> use, and the pure helpers the
  three demo programs share: parsing of hexadecimal strings, joining of arguments, the test pattern, the
  test for printable data. A C string is a list of characters without the terminator.
\<close>

section \<open>The C library\<close>

abbreviation NUL :: char where "NUL \<equiv> CHR 0x00"

text \<open>The string at the front of a character array.\<close>

definition c_string :: "string \<Rightarrow> string" where
  "c_string = takeWhile (\<lambda>c. c \<noteq> NUL)"

definition isspace :: "char \<Rightarrow> bool" where
  "isspace c \<longleftrightarrow> c \<in> {CHR '' '', CHR 0x09, CHR 0x0A, CHR 0x0B, CHR 0x0C, CHR 0x0D}"

definition digit_value :: "char \<Rightarrow> nat option" where
  "digit_value c =
     (let n = of_char c
      in if 48 \<le> n \<and> n \<le> 57 then Some (n - 48)
         else if 97 \<le> n \<and> n \<le> 122 then Some (n - 87)
         else if 65 \<le> n \<and> n \<le> 90 then Some (n - 55)
         else None)"

definition is_digit :: "nat \<Rightarrow> char \<Rightarrow> bool" where
  "is_digit base c \<longleftrightarrow> (case digit_value c of None \<Rightarrow> False | Some d \<Rightarrow> d < base)"

fun digits_value :: "nat \<Rightarrow> nat \<Rightarrow> string \<Rightarrow> nat" where
  "digits_value base acc [] = acc"
| "digits_value base acc (c # cs) = digits_value base (acc * base + the (digit_value c)) cs"

text \<open>\<open>0x\<close> is a prefix only in front of a hexadecimal digit.\<close>

definition has_0x :: "string \<Rightarrow> bool" where
  "has_0x s \<longleftrightarrow> 2 < length s \<and> s ! 0 = CHR ''0'' \<and> (s ! 1 = CHR ''x'' \<or> s ! 1 = CHR ''X'') \<and> is_digit 16 (s ! 2)"

definition after_prefix :: "nat \<Rightarrow> string \<Rightarrow> nat \<times> string" where
  "after_prefix base s =
     (if (base = 0 \<or> base = 16) \<and> has_0x s then (16, drop 2 s)
      else if base = 0 then (if s \<noteq> [] \<and> hd s = CHR ''0'' then 8 else 10, s)
      else (base, s))"

text \<open>
  The value, saturated at \<open>ULONG_MAX\<close> of 32 bits and negated behind a minus sign, and what \<open>*endptr\<close>
  points to; without a digit that is the string itself.
\<close>

definition strtoul :: "string \<Rightarrow> nat \<Rightarrow> u32 \<times> string" where
  "strtoul s base =
     (let s1 = dropWhile isspace s;
          neg = (s1 \<noteq> [] \<and> hd s1 = CHR ''-'');
          s2 = (if s1 \<noteq> [] \<and> hd s1 \<in> {CHR ''-'', CHR ''+''} then tl s1 else s1);
          (b, s3) = after_prefix base s2;
          ds = takeWhile (is_digit b) s3;
          v = digits_value b 0 ds
      in if ds = [] then (0, s)
         else (if 2 ^ 32 \<le> v then - 1 else if neg then - of_nat v else of_nat v, dropWhile (is_digit b) s3))"

section \<open>Hexadecimal strings\<close>

definition strip_0x :: "string \<Rightarrow> string" where
  "strip_0x s = (if length s \<ge> 2 \<and> s ! 0 = CHR ''0'' \<and> (s ! 1 = CHR ''x'' \<or> s ! 1 = CHR ''X'') then drop 2 s else s)"

text \<open>
  The loop of \<open>hex_string_to_bytes\<close>: whether every pair was a number, and the bytes stored until the
  end or the first pair that was none.
\<close>

fun hex_pairs :: "string \<Rightarrow> bool \<times> bytes" where
  "hex_pairs (a # b # r) =
     (let (v, rest) = strtoul [a, b] 16
      in if rest \<noteq> [] \<or> v > 0xFF then (False, [])
         else (case hex_pairs r of (ok, bs) \<Rightarrow> (ok, ucast v # bs)))"
| "hex_pairs _ = (True, [])"

text \<open>
  The programs differ in their error numbers, \<open>einval\<close> and \<open>e2big\<close>. The result is the return value and what
  was stored into \<open>bytes\<close>.
\<close>

definition hex_to_bytes :: "int \<Rightarrow> int \<Rightarrow> string \<Rightarrow> nat \<Rightarrow> int \<times> bytes" where
  "hex_to_bytes einval e2big hex_str max_bytes =
     (let s = strip_0x hex_str
      in if length s mod 2 \<noteq> 0 then (- einval, [])
         else if length s div 2 > max_bytes then (- e2big, [])
         else (case hex_pairs s of (ok, bs) \<Rightarrow> (if ok then int (length s div 2) else - einval, bs)))"

section \<open>Buffers\<close>

definition chars :: "string \<Rightarrow> bytes" where
  "chars = map of_char"

text \<open>
  The loop that joins arguments with spaces in a buffer of 1500 bytes: an argument that leaves no room for
  the terminator ends it. \<open>first\<close> says that no argument was added yet.
\<close>

fun join_args :: "bool \<Rightarrow> string list \<Rightarrow> string \<Rightarrow> string" where
  "join_args first [] acc = acc"
| "join_args first (a # as) acc =
     (if length acc \<ge> 1499 \<or> length acc + length a + 1 > 1499 then acc
      else join_args False as (acc @ (if first then [] else '' '') @ a))"

definition pattern :: "nat \<Rightarrow> bytes" where
  "pattern n = map (\<lambda>i. of_nat i AND 0xFF) [0..<n]"

definition store :: "bytes \<Rightarrow> bytes \<Rightarrow> bytes" where
  "store buf bs = bs @ drop (length bs) buf"

definition is_printable :: "bytes \<Rightarrow> bool" where
  "is_printable data \<longleftrightarrow> (\<forall>b \<in> set data. b = 0 \<or> 0x20 \<le> b \<and> b \<le> 0x7E)"

section \<open>Properties of the parsers\<close>

text \<open>
  Parsing of hexadecimal strings: the digits \<open>strtoul\<close> takes, the effect of one pair, and the round trip
  with the text the demos print.
\<close>

section \<open>Hexadecimal digits\<close>

definition hex_digit :: "nat \<Rightarrow> char" where
  "hex_digit n = char_of (if n < 10 then 48 + n else 55 + n)"

definition hex_text :: "bytes \<Rightarrow> string" where
  "hex_text bs = concat (map (\<lambda>b. [hex_digit (unat b div 16), hex_digit (unat b mod 16)]) bs)"

lemma of_char_hex_digit:
  "n < 16 \<Longrightarrow> of_char (hex_digit n) = (if n < 10 then 48 + n else 55 + n)"
  by (simp add: hex_digit_def of_char_of)

lemma digit_value_hex [simp]: "n < 16 \<Longrightarrow> digit_value (hex_digit n) = Some n"
  by (simp add: digit_value_def of_char_hex_digit Let_def)

lemma is_digit_hex [simp]: "n < 16 \<Longrightarrow> is_digit 16 (hex_digit n)"
  by (simp add: is_digit_def)

lemma not_a_digit:
  "digit_value CHR '' '' = None" "digit_value CHR 0x09 = None" "digit_value CHR 0x0A = None" "digit_value CHR 0x0B = None"
  "digit_value CHR 0x0C = None" "digit_value CHR 0x0D = None" "digit_value CHR ''-'' = None" "digit_value CHR ''+'' = None"
  by (simp_all add: digit_value_def Let_def)

lemma hex_digit_plain [simp]:
  assumes "n < 16"
  shows "\<not> isspace (hex_digit n)" "hex_digit n \<noteq> CHR ''-''" "hex_digit n \<noteq> CHR ''+''" "hex_digit n \<noteq> CHR ''x''" "hex_digit n \<noteq> CHR ''X''"
proof -
  have *: "digit_value (hex_digit n) = Some n" "n \<noteq> 33" using assms by simp_all
  then show "\<not> isspace (hex_digit n)" "hex_digit n \<noteq> CHR ''-''" "hex_digit n \<noteq> CHR ''+''"
    by (auto simp: isspace_def not_a_digit)
  have "digit_value CHR ''x'' = Some 33" "digit_value CHR ''X'' = Some 33" by (simp_all add: digit_value_def Let_def)
  then show "hex_digit n \<noteq> CHR ''x''" "hex_digit n \<noteq> CHR ''X''" using * by (metis option.inject)+
qed

section \<open>Pairs of digits\<close>

lemma strtoul_pair:
  assumes "m < 16" "n < 16"
  shows "strtoul [hex_digit m, hex_digit n] 16 = (of_nat (m * 16 + n), [])"
  using assms by (simp add: strtoul_def after_prefix_def has_0x_def Let_def)

lemma unat_byte: "unat (b :: u8) \<le> 255"
  using unat_lt_u8 [of b] by linarith

lemma byte_of_pair: "(of_nat (unat b div 16 * 16 + unat b mod 16) :: u32) = ucast (b :: u8)"
  unfolding div_mult_mod_eq by simp

lemma strtoul_byte:
  "strtoul [hex_digit (unat b div 16), hex_digit (unat b mod 16)] 16 = (ucast b, [])" for b :: u8
proof -
  have "unat b div 16 < 16" using unat_byte [of b] by linarith
  then have "strtoul [hex_digit (unat b div 16), hex_digit (unat b mod 16)] 16
      = (of_nat (unat b div 16 * 16 + unat b mod 16), [])"
    by (rule strtoul_pair) simp
  then show ?thesis by (simp only: byte_of_pair)
qed

lemma hex_pairs_text [simp]: "hex_pairs (hex_text bs) = (True, bs)"
proof (induction bs)
  case (Cons b bs)
  have "\<not> (ucast b :: u32) > 0xFF" using unat_byte [of b] by (simp add: word_less_nat_alt unsigned_ucast_eq take_bit_nat_eq_self)
  moreover have "(ucast (ucast b :: u32) :: u8) = b"
    by (rule bit_word_eqI) (auto simp: bit_simps)
  ultimately show ?case using Cons by (simp add: hex_text_def strtoul_byte Let_def)
qed (simp add: hex_text_def)

lemma length_hex_text [simp]: "length (hex_text bs) = 2 * length bs"
  by (induction bs) (simp_all add: hex_text_def)

lemma strip_0x_text [simp]: "strip_0x (hex_text bs) = hex_text bs" "strip_0x (CHR ''0'' # CHR ''x'' # s) = s" "strip_0x (CHR ''0'' # CHR ''X'' # s) = s"
  by (cases bs; simp add: strip_0x_def hex_text_def) (simp_all add: strip_0x_def)

lemma hex_pairs_length: "hex_pairs s = (True, bs) \<Longrightarrow> length bs = length s div 2"
  by (induction s arbitrary: bs rule: hex_pairs.induct) (auto simp: Let_def split: prod.splits if_splits)

lemma hex_to_bytes_length:
  assumes "hex_to_bytes einval e2big s max_bytes = (n, bs)" "\<not> n < 0" "0 < einval" "0 < e2big"
  shows "n = int (length bs)" "length bs \<le> max_bytes"
  using assms hex_pairs_length [of "strip_0x s"] by (auto simp: hex_to_bytes_def Let_def split: if_splits prod.splits)

section \<open>The round trip\<close>

text \<open>
  The text of bytes as the programs print them, two capital digits for each, with or without a prefix, is
  read back as exactly these bytes if they fit.
\<close>

theorem hex_round_trip:
  assumes "length bs \<le> max_bytes" and "prefix = [] \<or> prefix = ''0x'' \<or> prefix = ''0X''"
  shows "hex_to_bytes einval e2big (prefix @ hex_text bs) max_bytes = (int (length bs), bs)"
  using assms by (auto simp: hex_to_bytes_def Let_def)

lemma hex_round_trip_witness: "hex_to_bytes 1 3 ''0x00FF7A'' 4 = (3, [0, 255, 122])"
proof -
  have "hex_text [0, 255, 122] = ''00FF7A''" by (simp add: hex_text_def hex_digit_def) code_simp
  then show ?thesis using hex_round_trip [of "[0, 255, 122]" 4 "''0x''" 1 3] by simp
qed

end
