(* ===== verification/Shell.thy ===== *)
theory Shell
  imports C_Text
begin

text \<open>
  The command shell of the FreeRTOS demo, \<open>src/qcspi_app/qcc730_host/App/freertos/shell.c\<close>, in the
  configuration without AT commands: the table of commands, the line editor, and the execution of a
  line. \<open>'f\<close> names the functions of the commands; what they do is a parameter. Output of \<open>printf\<close> is left
  out; what is written to the UART is recorded.
\<close>

definition SHELL_FUNC_LIST_MAX_SIZE :: nat where "SHELL_FUNC_LIST_MAX_SIZE = 20"
definition SHELL_CMD_MAX_SIZE :: nat where "SHELL_CMD_MAX_SIZE = 32"
definition SHELL_ARGC_MAX :: nat where "SHELL_ARGC_MAX = 8"
definition SHELL_BUFFER_SIZE :: nat where "SHELL_BUFFER_SIZE = 1500"

definition prompt_text :: string where "prompt_text = ''STM32 >> ''"

definition starting :: string where
  "starting = [CHR 0x0D, CHR 0x0A, CHR 0x0D, CHR 0x0A] @ ''==== command Shell ===='' @ [CHR 0x0D, CHR 0x0A]"

definition backspace :: string where "backspace = [CHR 0x08, CHR '' '', CHR 0x08]"

record 'f shell_func =
  sf_cmd :: string
  sf_func :: 'f
  sf_description :: string

text \<open>\<open>shell_fault\<close> is set where an array is left.\<close>

record 'f shell_st =
  shell_buf :: string
  shell_pos :: nat
  shell_func_list :: "'f shell_func list"
  uart_out :: string
  shell_fault :: bool

definition shell_ub :: "(('f, 'z) shell_st_scheme, unit) state" where
  "shell_ub = modify (\<lambda>s. s\<lparr>shell_fault := True\<rparr>)"

text \<open>\<open>T\<close> is the status of a transmission by the HAL.\<close>

definition uart_write :: "(string \<Rightarrow> int) \<Rightarrow> string \<Rightarrow> (('f, 'z) shell_st_scheme, u8) state" where
  "uart_write T s = do {
     modify (\<lambda>t. t\<lparr>uart_out := uart_out t @ s\<rparr>);
     State_Monad.return (if T s \<noteq> 0 then 1 else 0)
   }"

section \<open>The table of commands\<close>

definition cmd_shell_add :: "string \<Rightarrow> 'f \<Rightarrow> string \<Rightarrow> (('f, 'z) shell_st_scheme, u8) state" where
  "cmd_shell_add cmd f description = do {
     fs \<leftarrow> gets shell_func_list;
     if length fs < SHELL_FUNC_LIST_MAX_SIZE then do {
       modify (\<lambda>s. s\<lparr>shell_func_list := fs @ [\<lparr>sf_cmd = cmd, sf_func = f, sf_description = description\<rparr>]\<rparr>);
       State_Monad.return 0
     } else State_Monad.return (- 1)
   }"

text \<open>\<open>receive\<close> is the status with which the reception of characters was started, after the queue for them.\<close>

definition cmd_shell_init :: "(string \<Rightarrow> int) \<Rightarrow> int \<Rightarrow> 'f \<Rightarrow> (('f, 'z) shell_st_scheme, u8) state" where
  "cmd_shell_init T receive help = do {
     _ \<leftarrow> uart_write T (starting @ [NUL]);
     _ \<leftarrow> uart_write T (prompt_text @ [NUL]);
     _ \<leftarrow> cmd_shell_add ''help'' help ''show help'';
     State_Monad.return (if receive \<noteq> 0 then 1 else 0)
   }"

text \<open>\<open>strncmp\<close> is zero: the strings agree in their first \<open>n\<close> characters.\<close>

definition strncmp_same :: "string \<Rightarrow> string \<Rightarrow> nat \<Rightarrow> bool" where
  "strncmp_same a b n \<longleftrightarrow> take n a = take n b"

fun find_index :: "('a \<Rightarrow> bool) \<Rightarrow> 'a list \<Rightarrow> nat option" where
  "find_index p [] = None"
| "find_index p (x # xs) = (if p x then Some 0 else map_option Suc (find_index p xs))"

definition cmd_shell_find_command_index :: "string \<Rightarrow> nat \<Rightarrow> (('f, 'z) shell_st_scheme, u8 \<times> nat option) state" where
  "cmd_shell_find_command_index header len = do {
     fs \<leftarrow> gets shell_func_list;
     State_Monad.return (case find_index (\<lambda>f. strncmp_same (sf_cmd f) header len) fs of
       None \<Rightarrow> (- 1, None) | Some i \<Rightarrow> (0, Some i))
   }"

text \<open>The functions of the table are called by position; there is no function behind the last.\<close>

definition cmd_shell_exec_function_by_index ::
  "('f \<Rightarrow> string list \<Rightarrow> (('f, 'z) shell_st_scheme, int) state) \<Rightarrow> string list \<Rightarrow> nat \<Rightarrow> (('f, 'z) shell_st_scheme, u8) state" where
  "cmd_shell_exec_function_by_index call argv index = do {
     fs \<leftarrow> gets shell_func_list;
     if index < length fs then do {
       r \<leftarrow> call (sf_func (fs ! index)) argv;
       State_Monad.return (of_int r)
     } else do { shell_ub; State_Monad.return 0 }
   }"

section \<open>Executing a line\<close>

definition ends_line :: "char \<Rightarrow> bool" where
  "ends_line c \<longleftrightarrow> c \<in> {NUL, CHR 0x0D, CHR 0x0A}"

text \<open>The arguments: the line cut at its spaces, the rest behind \<open>n\<close> cuts being one argument.\<close>

primrec split_args :: "nat \<Rightarrow> string \<Rightarrow> string list" where
  "split_args 0 s = [s]"
| "split_args (Suc n) s = (case dropWhile (\<lambda>c. c \<noteq> CHR '' '') s of
     [] \<Rightarrow> [s] | _ # r \<Rightarrow> takeWhile (\<lambda>c. c \<noteq> CHR '' '') s # split_args n r)"

text \<open>What cutting the arguments leaves in the array: the first \<open>n\<close> spaces before its terminator become terminators.\<close>

fun cut_words :: "nat \<Rightarrow> string \<Rightarrow> string" where
  "cut_words n [] = []"
| "cut_words n (c # cs) = (if n = 0 \<or> c = NUL then c # cs
     else if c = CHR '' '' then NUL # cut_words (n - 1) cs else c # cut_words n cs)"

text \<open>
  \<open>cmd\<close> is the character array from the pointer given to its end. The copy of the first word into the
  header stops at a space or at its 32nd character, also behind the terminator; leaving the array \<open>cmd\<close>
  or \<open>header\<close> is undefined. The results of the functions are cut to 8 bits.
\<close>

definition header_of :: "string \<Rightarrow> string" where
  "header_of cmd = takeWhile (\<lambda>c. c \<noteq> CHR '' '') (take SHELL_CMD_MAX_SIZE cmd)"

definition header_leaves :: "string \<Rightarrow> bool" where
  "header_leaves cmd \<longleftrightarrow> length (header_of cmd) = SHELL_CMD_MAX_SIZE
     \<or> length cmd < SHELL_CMD_MAX_SIZE \<and> CHR '' '' \<notin> set cmd"

text \<open>
  The pointer \<open>cmd\<close> given to the function is that of the editor's buffer at its only call. The words are cut in
  the buffer itself, before the command is called with pointers to them.
\<close>

definition cmd_shell_exec ::
  "('f \<Rightarrow> string list \<Rightarrow> (('f, 'z) shell_st_scheme, int) state) \<Rightarrow> (('f, 'z) shell_st_scheme, u8) state" where
  "cmd_shell_exec call = do {
     buf \<leftarrow> gets shell_buf;
     when_m (NUL \<notin> set buf) shell_ub;
     if buf = [] \<or> ends_line (hd buf) then State_Monad.return 0
     else do {
       let blanks = takeWhile (\<lambda>c. c = CHR '' '' \<or> c = CHR 0x09) buf;
       let cmd = dropWhile (\<lambda>c. c = CHR '' '' \<or> c = CHR 0x09) buf;
       if cmd = [] \<or> ends_line (hd cmd) then State_Monad.return 0
       else do {
         when_m (header_leaves cmd) shell_ub;
         let header = c_string (header_of cmd);
         if header = [] then State_Monad.return 0
         else do {
           fs \<leftarrow> gets shell_func_list;
           case find (\<lambda>f. sf_cmd f = header) fs of
             None \<Rightarrow> State_Monad.return (- 1)
           | Some f \<Rightarrow> do {
               modify (\<lambda>s. s\<lparr>shell_buf := blanks @ cut_words (SHELL_ARGC_MAX - 1) cmd\<rparr>);
               r \<leftarrow> call (sf_func f) (split_args (SHELL_ARGC_MAX - 1) (c_string cmd));
               State_Monad.return (of_int r)
             }
         }
       }
     }
   }"

section \<open>The line editor\<close>

text \<open>\<open>c\<close> is the character the queue of the UART has delivered. Enter, backspace, any other character.\<close>

definition cmd_shell_char_received ::
  "(string \<Rightarrow> int) \<Rightarrow> ('f \<Rightarrow> string list \<Rightarrow> (('f, 'z) shell_st_scheme, int) state) \<Rightarrow> char \<Rightarrow>
   (('f, 'z) shell_st_scheme, u8) state" where
  "cmd_shell_char_received T call c =
     (if c = CHR 0x0D then do {
        _ \<leftarrow> cmd_shell_exec call;
        p \<leftarrow> gets shell_pos;
        when_m (p \<ge> SHELL_BUFFER_SIZE) shell_ub;
        modify (\<lambda>s. s\<lparr>shell_buf := replicate SHELL_BUFFER_SIZE NUL, shell_pos := 0\<rparr>);
        _ \<leftarrow> uart_write T (prompt_text @ [NUL]);
        State_Monad.return 0
      }
      else if c = CHR 0x08 then do {
        p \<leftarrow> gets shell_pos;
        when_m (p > 0) (do {
          modify (\<lambda>s. s\<lparr>shell_pos := p - 1\<rparr>);
          _ \<leftarrow> uart_write T backspace;
          State_Monad.return ()
        });
        State_Monad.return 0
      }
      else do {
        p \<leftarrow> gets shell_pos;
        when_m (p < SHELL_BUFFER_SIZE) (do {
          _ \<leftarrow> uart_write T [c];
          modify (\<lambda>s. s\<lparr>shell_buf := (shell_buf s)[p := c], shell_pos := p + 1\<rparr>)
        });
        State_Monad.return 0
      })"

end
