(* ===== verification/Shell_Proofs.thy ===== *)
theory Shell_Proofs
  imports Shell
begin

text \<open>
  A line typed into the shell of the FreeRTOS demo runs the command it names with the words of the line; a
  line of a single word does so after writing behind the header array, and a character that was deleted
  at the end of a line is executed all the same.
\<close>

section \<open>Keys\<close>

primrec type_keys ::
  "(string \<Rightarrow> int) \<Rightarrow> ('f \<Rightarrow> string list \<Rightarrow> (('f, 'z) shell_st_scheme, int) state) \<Rightarrow> string \<Rightarrow>
   (('f, 'z) shell_st_scheme, unit) state" where
  "type_keys T call [] = State_Monad.return ()"
| "type_keys T call (c # cs) = do { _ \<leftarrow> cmd_shell_char_received T call c; type_keys T call cs }"

definition plain :: "char \<Rightarrow> bool" where
  "plain c \<longleftrightarrow> c \<notin> {NUL, CHR 0x08, CHR 0x09, CHR 0x0A, CHR 0x0D}"

text \<open>The buffer with a text at its front, and the editor that holds it.\<close>

definition line_buf :: "string \<Rightarrow> string" where
  "line_buf l = l @ replicate (SHELL_BUFFER_SIZE - length l) NUL"

definition holding :: "string \<Rightarrow> ('f, 'z) shell_st_scheme \<Rightarrow> bool" where
  "holding l s \<longleftrightarrow> shell_buf s = line_buf l \<and> shell_pos s = length l"

lemma run_uart_write [simp]:
  "run_state (uart_write T x) s = (if T x \<noteq> 0 then 1 else 0, s\<lparr>uart_out := uart_out s @ x\<rparr>)"
  by (simp add: uart_write_def run_simps)

lemma line_buf_snoc: "length l < SHELL_BUFFER_SIZE \<Longrightarrow> (line_buf l)[length l := c] = line_buf (l @ [c])"
  by (simp add: line_buf_def list_update_append Suc_diff_Suc [symmetric])

lemma run_type_keys_append:
  "run_state (type_keys T call (xs @ ys)) s = run_state (type_keys T call ys) (snd (run_state (type_keys T call xs) s))"
  by (induction xs arbitrary: s) (simp_all add: run_simps split: prod.split)

lemma run_plain_key:
  assumes "plain c" "shell_pos s < SHELL_BUFFER_SIZE"
  shows "run_state (cmd_shell_char_received T call c) s = (0, s\<lparr>uart_out := uart_out s @ [c],
    shell_buf := (shell_buf s)[shell_pos s := c], shell_pos := shell_pos s + 1\<rparr>)"
  using assms by (simp add: cmd_shell_char_received_def plain_def run_simps)

lemma run_type_plain:
  assumes "\<forall>c \<in> set l. plain c" "holding pre s" "length pre + length l \<le> SHELL_BUFFER_SIZE"
  shows "run_state (type_keys T call l) s = ((), s\<lparr>uart_out := uart_out s @ l,
    shell_buf := line_buf (pre @ l), shell_pos := length pre + length l\<rparr>)"
  using assms
proof (induction l arbitrary: pre s)
  case Nil
  then show ?case
    by (simp add: run_simps holding_def)
next
  case (Cons c l)
  let ?s = "s\<lparr>uart_out := uart_out s @ [c], shell_buf := line_buf (pre @ [c]), shell_pos := length pre + 1\<rparr>"
  have room: "shell_pos s < SHELL_BUFFER_SIZE" "length pre < SHELL_BUFFER_SIZE"
    using Cons.prems by (simp_all add: holding_def)
  have "run_state (cmd_shell_char_received T call c) s = (0, ?s)"
    using Cons.prems run_plain_key [OF _ room(1), of c T call] by (simp add: holding_def line_buf_snoc [OF room(2)])
  moreover have "holding (pre @ [c]) ?s"
    by (simp add: holding_def)
  ultimately show ?case
    using Cons.IH [of "pre @ [c]" ?s] Cons.prems by (simp add: run_simps)
qed

section \<open>Lines\<close>

fun line_of :: "string list \<Rightarrow> string" where
  "line_of [] = []"
| "line_of [w] = w"
| "line_of (w # ws) = w @ CHR '' '' # line_of ws"

definition word_ok :: "string \<Rightarrow> bool" where
  "word_ok w \<longleftrightarrow> w \<noteq> [] \<and> (\<forall>c \<in> set w. plain c \<and> c \<noteq> CHR '' '')"

lemma set_line_of: "\<forall>w \<in> set ws. word_ok w \<Longrightarrow> c \<in> set (line_of ws) \<Longrightarrow> plain c"
  by (induction ws rule: line_of.induct) (auto simp: word_ok_def plain_def)

lemma takeWhile_word: "\<forall>c \<in> set w. P c \<Longrightarrow> \<not> P x \<Longrightarrow> takeWhile P (w @ x # r) = w"
  "\<forall>c \<in> set w. P c \<Longrightarrow> \<not> P x \<Longrightarrow> dropWhile P (w @ x # r) = x # r"
  by (induction w) auto

lemma split_line_of:
  assumes "\<forall>w \<in> set ws. word_ok w" "ws \<noteq> []" "length ws \<le> Suc n"
  shows "split_args n (line_of ws) = ws"
  using assms
proof (induction ws arbitrary: n rule: line_of.induct)
  case (2 w)
  then have none: "dropWhile (\<lambda>c. c \<noteq> CHR '' '') w = []"
    by (simp add: word_ok_def)
  show ?case
    by (cases n) (simp_all add: none)
next
  case (3 w v ws)
  then obtain m where n: "n = Suc m"
    by (cases n) auto
  have "\<forall>c \<in> set w. c \<noteq> CHR '' ''"
    using 3 by (simp add: word_ok_def)
  note cut = takeWhile_word [OF this, of "CHR '' ''"]
  show ?case
    using 3 by (simp add: n cut)
qed simp

lemma hd_line:
  assumes "word_ok w"
  shows "line_of (w # ws) \<noteq> []" "hd (line_of (w # ws)) = hd w" "hd w \<noteq> CHR '' ''" "hd w \<noteq> CHR 0x09" "\<not> ends_line (hd w)"
proof -
  have "w \<noteq> []" "plain (hd w)" "hd w \<noteq> CHR '' ''"
    using assms by (simp_all add: word_ok_def)
  then show "line_of (w # ws) \<noteq> []" "hd (line_of (w # ws)) = hd w" "hd w \<noteq> CHR '' ''" "hd w \<noteq> CHR 0x09"
    "\<not> ends_line (hd w)"
    by (cases ws; simp add: plain_def ends_line_def)+
qed

lemma header_of_line:
  assumes "word_ok w" "length w < SHELL_CMD_MAX_SIZE" "length (line_of (w # ws)) < SHELL_BUFFER_SIZE"
  defines "b \<equiv> line_buf (line_of (w # ws))"
  shows "c_string (header_of b) = w" "header_leaves b \<longleftrightarrow> ws = []"
proof -
  have w: "\<forall>c \<in> set w. c \<noteq> CHR '' ''" "\<forall>c \<in> set w. c \<noteq> NUL"
    using assms(1) by (simp_all add: word_ok_def plain_def)
  have "c_string (header_of b) = w \<and> (header_leaves b \<longleftrightarrow> ws = [])"
  proof (cases ws)
    case Nil
    obtain k where k: "SHELL_CMD_MAX_SIZE = length w + Suc k"
      using assms(2) less_iff_Suc_add by auto
    have "SHELL_CMD_MAX_SIZE \<le> SHELL_BUFFER_SIZE"
      by (simp add: SHELL_CMD_MAX_SIZE_def SHELL_BUFFER_SIZE_def)
    then obtain j where "SHELL_BUFFER_SIZE = SHELL_CMD_MAX_SIZE + j"
      using le_Suc_ex by blast
    then have j: "SHELL_BUFFER_SIZE - length w = Suc k + j"
      using k by linarith
    have "take SHELL_CMD_MAX_SIZE b = take (length w + Suc k) (w @ replicate (Suc k) NUL @ replicate j NUL)"
      unfolding b_def Nil line_buf_def by (simp only: line_of.simps j replicate_add k)
    also have "\<dots> = w @ NUL # replicate k NUL"
      by simp
    finally have "take SHELL_CMD_MAX_SIZE b = w @ NUL # replicate k NUL" .
    moreover have "takeWhile (\<lambda>c. c \<noteq> CHR '' '') (w @ NUL # replicate k NUL) = w @ NUL # replicate k NUL"
      unfolding takeWhile_eq_all_conv
    proof
      fix c
      assume "c \<in> set (w @ NUL # replicate k NUL)"
      then have "c \<in> set w \<or> c = NUL"
        by (auto simp: in_set_replicate)
      then show "c \<noteq> CHR '' ''"
        using w(1) by blast
    qed
    ultimately have h: "header_of b = w @ NUL # replicate k NUL"
      by (simp only: header_of_def)
    have "c_string (header_of b) = w"
      unfolding h c_string_def using takeWhile_word(1) [OF w(2)] by simp
    then show ?thesis
      by (simp add: Nil header_leaves_def h k)
  next
    case (Cons v vs)
    then obtain r where b: "b = w @ CHR '' '' # r"
      by (simp add: b_def line_buf_def)
    have "take SHELL_CMD_MAX_SIZE b = w @ CHR '' '' # take (SHELL_CMD_MAX_SIZE - length w - 1) r"
      using assms(2) by (simp add: b take_Cons')
    then have h: "header_of b = w"
      by (simp add: header_of_def takeWhile_word(1) [OF w(1)])
    have "c_string w = w"
      unfolding c_string_def using w(2) by (subst takeWhile_eq_all_conv) auto
    then show ?thesis
      unfolding header_leaves_def h using assms(2) by (simp add: Cons b)
  qed
  then show "c_string (header_of b) = w" "header_leaves b \<longleftrightarrow> ws = []"
    by auto
qed

lemma c_string_line_buf:
  assumes "\<forall>c \<in> set l. plain c" "length l < SHELL_BUFFER_SIZE"
  shows "c_string (line_buf l) = l" "NUL \<in> set (line_buf l)"
proof -
  have "\<forall>c \<in> set l. c \<noteq> NUL"
    using assms(1) by (auto simp: plain_def)
  moreover have "line_buf l = l @ NUL # replicate (SHELL_BUFFER_SIZE - length l - 1) NUL"
    using assms(2) by (cases "SHELL_BUFFER_SIZE - length l") (simp_all add: line_buf_def)
  ultimately show "c_string (line_buf l) = l" "NUL \<in> set (line_buf l)"
    by (simp_all add: c_string_def takeWhile_word(1))
qed

text \<open>The line as the command finds it in the buffer: every word with a terminator behind it.\<close>

fun cut_line :: "string list \<Rightarrow> string" where
  "cut_line [] = []"
| "cut_line [w] = w"
| "cut_line (w # ws) = w @ NUL # cut_line ws"

lemma cut_words_none: "cut_words 0 r = r"
  by (cases r) simp_all

lemma cut_words_word: "\<forall>c \<in> set w. plain c \<and> c \<noteq> CHR '' '' \<Longrightarrow> cut_words n (w @ r) = w @ cut_words n r"
  by (induction w) (auto simp: plain_def cut_words_none)

lemma cut_line_of:
  assumes "\<forall>w \<in> set ws. word_ok w" "length ws \<le> Suc n"
  shows "cut_words n (line_of ws @ replicate k NUL) = cut_line ws @ replicate k NUL"
  using assms
proof (induction ws arbitrary: n rule: line_of.induct)
  case 1
  show ?case
    by (cases k) simp_all
next
  case (2 w)
  moreover have "cut_words n (replicate k NUL) = replicate k NUL"
    by (cases k) simp_all
  ultimately show ?case
    by (simp add: cut_words_word word_ok_def)
next
  case (3 w v ws)
  then obtain m where n: "n = Suc m"
    by (cases n) auto
  with 3 show ?case
    by (simp add: cut_words_word word_ok_def n)
qed

lemma cut_line_buf:
  assumes "\<forall>w \<in> set ws. word_ok w" "length ws \<le> SHELL_ARGC_MAX"
  shows "cut_words (SHELL_ARGC_MAX - 1) (line_buf (line_of ws)) = line_buf (cut_line ws)"
proof -
  have "length (cut_line ws) = length (line_of ws)"
    by (induction ws rule: line_of.induct) simp_all
  with cut_line_of [OF assms(1), of "SHELL_ARGC_MAX - 1"] assms(2) show ?thesis
    by (simp add: line_buf_def SHELL_ARGC_MAX_def)
qed

text \<open>Running a line whose first word names a command.\<close>

lemma run_exec_line:
  assumes "\<forall>w \<in> set (w # ws). word_ok w" "length w < SHELL_CMD_MAX_SIZE" "length ws < SHELL_ARGC_MAX"
    and "length (line_of (w # ws)) < SHELL_BUFFER_SIZE" "find (\<lambda>f. sf_cmd f = w) (shell_func_list s) = Some f"
    and "shell_buf s = line_buf (line_of (w # ws))"
    and "run_state (call (sf_func f) (w # ws)) (s\<lparr>shell_fault := shell_fault s \<or> ws = [],
      shell_buf := line_buf (cut_line (w # ws))\<rparr>) = (r, t)"
  shows "run_state (cmd_shell_exec call) s = (of_int r, t)"
proof -
  let ?l = "line_of (w # ws)"
  have w: "word_ok w"
    using assms(1) by simp
  have plain: "\<forall>c \<in> set ?l. plain c"
    using set_line_of [OF assms(1)] by blast
  note cs = c_string_line_buf [OF plain assms(4)]
  note h = header_of_line [OF w assms(2,4)]
  have hd: "line_buf ?l \<noteq> []" "hd (line_buf ?l) = hd w"
    using hd_line(1,2) [OF w, of ws] by (simp_all add: line_buf_def)
  have skip: "dropWhile (\<lambda>c. c = CHR '' '' \<or> c = CHR 0x09) (line_buf ?l) = line_buf ?l"
    using hd hd_line(3,4) [OF w] by (cases "line_buf ?l") simp_all
  have none: "takeWhile (\<lambda>c. c = CHR '' '' \<or> c = CHR 0x09) (line_buf ?l) = []"
    using hd hd_line(3,4) [OF w] by (cases "line_buf ?l") simp_all
  have cut: "cut_words (SHELL_ARGC_MAX - 1) (line_buf ?l) = line_buf (cut_line (w # ws))"
    by (rule cut_line_buf) (use assms(1,3) in auto)
  have args: "split_args (SHELL_ARGC_MAX - 1) ?l = w # ws"
    by (rule split_line_of) (use assms(1,3) in \<open>auto simp: SHELL_ARGC_MAX_def\<close>)
  define l where "l = ?l"
  define b where "b = line_buf l"
  have "w \<noteq> []"
    using w by (simp add: word_ok_def)
  then show ?thesis
    unfolding l_def [symmetric] b_def [symmetric]
    using assms(5,7) assms(6) [folded l_def b_def] hd_line(5) [OF w] cs [folded l_def b_def] h [folded l_def b_def]
      hd [folded l_def b_def] skip [folded l_def b_def] none [folded l_def b_def] cut [folded l_def b_def]
      args [folded l_def]
    by (cases "ws = []") (simp_all add: cmd_shell_exec_def run_simps shell_ub_def)
qed

text \<open>Enter runs what the buffer holds, wherever the position is, and clears the editor.\<close>

lemma run_enter:
  assumes "run_state (cmd_shell_exec call) s = (x, t)" "shell_pos t < SHELL_BUFFER_SIZE"
  shows "run_state (cmd_shell_char_received T call (CHR 0x0D)) s =
    (0, t\<lparr>shell_buf := line_buf [], shell_pos := 0, uart_out := uart_out t @ prompt_text @ [NUL]\<rparr>)"
  using assms by (simp add: cmd_shell_char_received_def run_simps line_buf_def)

lemma run_backspace:
  assumes "0 < shell_pos s"
  shows "run_state (cmd_shell_char_received T call (CHR 0x08)) s =
    (0, s\<lparr>shell_pos := shell_pos s - 1, uart_out := uart_out s @ backspace\<rparr>)"
  using assms by (simp add: cmd_shell_char_received_def run_simps)

section \<open>Properties\<close>

text \<open>
  C25: Typing up to eight words separated by single spaces, the first of them shorter than 32 characters and the
  line shorter than the buffer, and Enter into the empty editor calls the function of the first command
  registered under the first word, once, with exactly these words, which lie in the buffer with a terminator
  behind each, and leaves the editor empty. If the line is a single word, the copy of the header has by then
  written behind its array, which is recorded as a fault.
\<close>

theorem shell_runs_line:
  assumes "holding [] s" "\<forall>v \<in> set (w # ws). word_ok v" "length w < SHELL_CMD_MAX_SIZE" "length ws < SHELL_ARGC_MAX"
    and "length (line_of (w # ws)) < SHELL_BUFFER_SIZE" "find (\<lambda>f. sf_cmd f = w) (shell_func_list s) = Some f"
    and "run_state (call (sf_func f) (w # ws)) (s\<lparr>uart_out := uart_out s @ line_of (w # ws),
      shell_pos := length (line_of (w # ws)), shell_fault := shell_fault s \<or> ws = [],
      shell_buf := line_buf (cut_line (w # ws))\<rparr>) = (r, t)" "shell_pos t < SHELL_BUFFER_SIZE"
  shows "run_state (type_keys T call (line_of (w # ws) @ [CHR 0x0D])) s =
    ((), t\<lparr>shell_buf := line_buf [], shell_pos := 0, uart_out := uart_out t @ prompt_text @ [NUL]\<rparr>)"
proof -
  define l where "l = line_of (w # ws)"
  let ?s = "s\<lparr>uart_out := uart_out s @ l, shell_buf := line_buf l, shell_pos := length l\<rparr>"
  have typed: "run_state (type_keys T call l) s = ((), ?s)"
    using run_type_plain [OF _ assms(1), of l T call] set_line_of [OF assms(2)] assms(5) by (auto simp: l_def)
  have "run_state (cmd_shell_exec call) ?s = (of_int r, t)"
    unfolding l_def by (rule run_exec_line [OF assms(2-5)]) (use assms(6,7) in simp_all)
  then show ?thesis
    unfolding l_def [symmetric] run_type_keys_append typed snd_conv
    using run_enter [of call ?s "of_int r" t T] assms(8) by (simp add: run_simps)
qed

text \<open>
  A backspace takes the last character from the screen but not from the line: Enter behind it still
  runs the command with the words as they were before, since the terminator is stored only after the line
  was executed.
\<close>

theorem deleted_character_executed:
  assumes "holding [] s" "\<forall>v \<in> set (w # ws). word_ok v" "length w < SHELL_CMD_MAX_SIZE" "length ws < SHELL_ARGC_MAX"
    and "length (line_of (w # ws)) < SHELL_BUFFER_SIZE" "find (\<lambda>f. sf_cmd f = w) (shell_func_list s) = Some f"
    and "run_state (call (sf_func f) (w # ws)) (s\<lparr>uart_out := uart_out s @ line_of (w # ws) @ backspace,
      shell_pos := length (line_of (w # ws)) - 1, shell_fault := shell_fault s \<or> ws = [],
      shell_buf := line_buf (cut_line (w # ws))\<rparr>) = (r, t)" "shell_pos t < SHELL_BUFFER_SIZE"
  shows "run_state (type_keys T call (line_of (w # ws) @ [CHR 0x08, CHR 0x0D])) s =
    ((), t\<lparr>shell_buf := line_buf [], shell_pos := 0, uart_out := uart_out t @ prompt_text @ [NUL]\<rparr>)"
proof -
  define l where "l = line_of (w # ws)"
  let ?s = "s\<lparr>uart_out := uart_out s @ l, shell_buf := line_buf l, shell_pos := length l\<rparr>"
  let ?t = "s\<lparr>uart_out := uart_out s @ l @ backspace, shell_buf := line_buf l, shell_pos := length l - 1\<rparr>"
  have typed: "run_state (type_keys T call l) s = ((), ?s)"
    using run_type_plain [OF _ assms(1), of l T call] set_line_of [OF assms(2)] assms(5) by (auto simp: l_def)
  have "0 < length l"
    using hd_line(1) [of w ws] assms(2) by (simp add: l_def)
  then have erase: "run_state (cmd_shell_char_received T call (CHR 0x08)) ?s = (0, ?t)"
    using run_backspace [of ?s T call] by simp
  have "run_state (cmd_shell_exec call) ?t = (of_int r, t)"
    unfolding l_def by (rule run_exec_line [OF assms(2-5)]) (use assms(6,7) in simp_all)
  then show ?thesis
    unfolding l_def [symmetric] run_type_keys_append typed snd_conv
    using run_enter [of call ?t "of_int r" t T] assms(8) by (simp add: run_simps erase)
qed

section \<open>A shell to try\<close>

datatype sample_fn = Help_Fn | Read_Fn

definition sample_shell :: "sample_fn shell_st" where
  "sample_shell = \<lparr>shell_buf = replicate 1500 NUL, shell_pos = 0,
     shell_func_list = [\<lparr>sf_cmd = ''help'', sf_func = Help_Fn, sf_description = []\<rparr>,
       \<lparr>sf_cmd = ''read'', sf_func = Read_Fn, sf_description = []\<rparr>], uart_out = [], shell_fault = False\<rparr>"

text \<open>Its commands report what they were called with on the UART.\<close>

definition sample_call :: "sample_fn \<Rightarrow> string list \<Rightarrow> (sample_fn shell_st, int) state" where
  "sample_call f args = do {
     modify (\<lambda>s. s\<lparr>uart_out := uart_out s @ (if f = Help_Fn then ''H'' else ''R'') @ concat args\<rparr>);
     State_Monad.return 0
   }"

lemma sample_holding: "holding [] sample_shell"
  by (simp add: holding_def sample_shell_def line_buf_def SHELL_BUFFER_SIZE_def)

theorem shell_runs_line_witness:
  "(let s = snd (run_state (type_keys (\<lambda>_. 0) sample_call (''read 16'' @ [CHR 0x0D])) sample_shell)
    in uart_out s = ''read 16'' @ ''Rread16'' @ prompt_text @ [NUL] \<and> \<not> shell_fault s)"
  using shell_runs_line [OF sample_holding, of "''read''" "[''16'']" _ sample_call _ _ "\<lambda>_. 0"]
  by (simp add: sample_call_def run_simps word_ok_def plain_def sample_shell_def SHELL_CMD_MAX_SIZE_def
      SHELL_ARGC_MAX_def SHELL_BUFFER_SIZE_def)

theorem deleted_character_executed_witness:
  "(let s = snd (run_state (type_keys (\<lambda>_. 0) sample_call (''read 16'' @ [CHR 0x08, CHR 0x0D])) sample_shell)
    in uart_out s = ''read 16'' @ backspace @ ''Rread16'' @ prompt_text @ [NUL])"
  using deleted_character_executed [OF sample_holding, of "''read''" "[''16'']" _ sample_call _ _ "\<lambda>_. 0"]
  by (simp add: sample_call_def run_simps word_ok_def plain_def sample_shell_def SHELL_CMD_MAX_SIZE_def
      SHELL_ARGC_MAX_def SHELL_BUFFER_SIZE_def)

end
