(* ===== verification/App_Common.thy ===== *)
theory App_Common
  imports C_Text Ring_Service
begin

text \<open>
  What the demo programs of \<open>src/qcspi_app\<close> have in common: over the operations and the state of each, the
  loops that empty a ring in the callback for received data, send with retries, and make up the burst
  test; and the buffers and parts of commands of the two programs of the host. A loop that the code does
  not bound takes fuel and gives \<open>None\<close> when it runs out.
\<close>

section \<open>Receiving until there is nothing left\<close>

text \<open>
  \<open>recv\<close> receives one packet without waiting. \<open>handle\<close> treats a packet of a length, \<open>after\<close> runs at the end of every turn
  that did not fail, with the number of packets so far; that number is the result.
\<close>

primrec drain ::
  "('s, int) state \<Rightarrow> (int \<Rightarrow> ('s, unit) state) \<Rightarrow> (nat \<Rightarrow> ('s, unit) state) \<Rightarrow> nat \<Rightarrow> nat \<Rightarrow>
   ('s, nat option) state" where
  "drain recv handle after 0 k = State_Monad.return None"
| "drain recv handle after (Suc n) k = do {
     r \<leftarrow> recv;
     if r > 0 then do { handle r; after (k + 1); drain recv handle after n (k + 1) }
     else do { when_m (r = 0) (after k); State_Monad.return (Some k) }
   }"

section \<open>Sending with retries\<close>

text \<open>
  At most \<open>n\<close> more attempts after \<open>k\<close> that found the ring full, which is the error \<open>eagain\<close>; the result is
  the last status and the number of attempts that found it full.
\<close>

primrec send_retrying :: "('s, int) state \<Rightarrow> ('s, unit) state \<Rightarrow> int \<Rightarrow> nat \<Rightarrow> nat \<Rightarrow> ('s, int \<times> nat) state" where
  "send_retrying send nap eagain 0 k = State_Monad.return (- eagain, k)"
| "send_retrying send nap eagain (Suc n) k = do {
     r \<leftarrow> send;
     if r = - eagain then do { nap; send_retrying send nap eagain n (k + 1) }
     else State_Monad.return (r, k)
   }"

section \<open>The burst test\<close>

record burst_counts =
  success_count :: u32
  fail_count :: u32
  packet_index :: u32
  burst_bytes :: u64

definition no_packets :: burst_counts where
  "no_packets = \<lparr>success_count = 0, fail_count = 0, packet_index = 0, burst_bytes = 0\<rparr>"

definition count_packet :: "u32 \<Rightarrow> int \<Rightarrow> burst_counts \<Rightarrow> burst_counts" where
  "count_packet sz r c =
     (if r < 0 then c\<lparr>fail_count := fail_count c + 1, packet_index := packet_index c + 1\<rparr>
      else c\<lparr>success_count := success_count c + 1, packet_index := packet_index c + 1,
             burst_bytes := burst_bytes c + ucast sz\<rparr>)"

text \<open>
  \<open>running\<close> is the flag another thread may clear, \<open>over\<close> the condition to end at, \<open>attempt\<close> sends a packet of
  \<open>sz\<close> bytes, and \<open>yield\<close> lets the other threads run.
\<close>

primrec burst_loop ::
  "('s, bool) state \<Rightarrow> (burst_counts \<Rightarrow> ('s, bool) state) \<Rightarrow> ('s, int) state \<Rightarrow> ('s, unit) state \<Rightarrow> u32 \<Rightarrow> nat \<Rightarrow>
   burst_counts \<Rightarrow> ('s, burst_counts option) state" where
  "burst_loop running over attempt yield sz 0 c = State_Monad.return None"
| "burst_loop running over attempt yield sz (Suc n) c = do {
     run \<leftarrow> running;
     if \<not> run then State_Monad.return (Some c)
     else do {
       stop \<leftarrow> over c;
       if stop then State_Monad.return (Some c)
       else do {
         r \<leftarrow> attempt;
         yield;
         burst_loop running over attempt yield sz n (count_packet sz r c)
       }
     }
   }"

section \<open>The programs of the host\<close>

definition RING_LOOPBACK :: u8 where "RING_LOOPBACK = 2"

text \<open>Their static buffers.\<close>

record 'w buffers_st = "'w ring_st" +
  send_buffer :: bytes
  recv_buffer :: bytes
  test_buffer :: bytes

text \<open>Reading an argument behind the last one is undefined.\<close>

definition arg :: "string list \<Rightarrow> nat \<Rightarrow> (('w, 'z) ring_st_scheme, string) state" where
  "arg argv i = do {
     when_m (i \<ge> length argv) ub;
     State_Monad.return (if i < length argv then argv ! i else [])
   }"

definition number :: "string list \<Rightarrow> nat \<Rightarrow> (('w, 'z) ring_st_scheme, u32) state" where
  "number argv i = do { a \<leftarrow> arg argv i; State_Monad.return (fst (strtoul a 0)) }"

definition recv_packet :: "'w host_port \<Rightarrow> u8 \<Rightarrow> (('w, 'z) buffers_st_scheme, int) state" where
  "recv_packet P ring_id = do {
     (r, d) \<leftarrow> ring_recv P ring_id True 1500 0;
     modify (\<lambda>s. s\<lparr>recv_buffer := store (recv_buffer s) d\<rparr>);
     State_Monad.return r
   }"

definition parse_into_send_buffer :: "int \<Rightarrow> int \<Rightarrow> string \<Rightarrow> (('w, 'z) buffers_st_scheme, int) state" where
  "parse_into_send_buffer einval e2big hex = do {
     let (len, bs) = hex_to_bytes einval e2big hex 1500;
     modify (\<lambda>s. s\<lparr>send_buffer := store (send_buffer s) bs\<rparr>);
     State_Monad.return len
   }"

definition send_to_ring :: "'w host_port \<Rightarrow> u8 \<Rightarrow> u32 \<Rightarrow> (('w, 'z) buffers_st_scheme, int) state" where
  "send_to_ring P ring_id len = do {
     b \<leftarrow> gets send_buffer;
     r \<leftarrow> ring_send P ring_id (Some b) len 1000;
     State_Monad.return (if r < 0 then r else 0)
   }"

text \<open>
  The commands that send on a ring, given its number and the argument behind it; the programs differ in
  their error numbers.
\<close>

definition with_ring :: "int \<Rightarrow> string list \<Rightarrow> (u8 \<Rightarrow> (('w, 'z) ring_st_scheme, int) state) \<Rightarrow> (('w, 'z) ring_st_scheme, int) state" where
  "with_ring einval argv f = do {
     n \<leftarrow> number argv 1;
     let ring_id = (ucast n :: u8);
     if unat ring_id \<ge> MAX_RINGS then State_Monad.return (- einval) else f ring_id
   }"

definition send_text :: "'w host_port \<Rightarrow> string list \<Rightarrow> u8 \<Rightarrow> (('w, 'z) buffers_st_scheme, int) state" where
  "send_text P words ring_id = do {
     let line = join_args True words [];
     modify (\<lambda>s. s\<lparr>send_buffer := store (send_buffer s) (chars line @ [0])\<rparr>);
     send_to_ring P ring_id (of_nat (length line))
   }"

definition send_hex :: "'w host_port \<Rightarrow> int \<Rightarrow> int \<Rightarrow> string list \<Rightarrow> u8 \<Rightarrow> (('w, 'z) buffers_st_scheme, int) state" where
  "send_hex P einval e2big argv ring_id = do {
     hex \<leftarrow> arg argv 2;
     byte_count \<leftarrow> parse_into_send_buffer einval e2big hex;
     if byte_count < 0 then State_Monad.return byte_count
     else send_to_ring P ring_id (of_int byte_count)
   }"

definition send_pattern :: "'w host_port \<Rightarrow> int \<Rightarrow> string list \<Rightarrow> u8 \<Rightarrow> (('w, 'z) buffers_st_scheme, int) state" where
  "send_pattern P einval argv ring_id = do {
     len \<leftarrow> number argv 2;
     if len = 0 \<or> len > 1500 then State_Monad.return (- einval)
     else do {
       modify (\<lambda>s. s\<lparr>send_buffer := store (send_buffer s) (pattern (unat len))\<rparr>);
       send_to_ring P ring_id len
     }
   }"

text \<open>The lines printed: the ring, its free and filled descriptors or an error, and its statistics.\<close>

type_synonym status_line = "u8 \<times> int \<times> int \<times> ring_stats option"

text \<open>The rings for which \<open>skip\<close> is the error of one of the counts are left out.\<close>

primrec status_lines ::
  "'w host_port \<Rightarrow> int \<Rightarrow> nat list \<Rightarrow> status_line list \<Rightarrow> (('w, 'z) ring_st_scheme, status_line list) state" where
  "status_lines P skip [] ls = State_Monad.return ls"
| "status_lines P skip (i # is) ls = do {
     tx_avail \<leftarrow> ring_get_tx_available P (of_nat i);
     rx_avail \<leftarrow> ring_get_rx_available P (of_nat i);
     if tx_avail = - skip \<or> rx_avail = - skip then status_lines P skip is ls
     else do {
       (r, st) \<leftarrow> ring_get_stats (of_nat i) True;
       status_lines P skip is (ls @ [(of_nat i, tx_avail, rx_avail, if r = 0 then st else None)])
     }
   }"

text \<open>
  The counter of the loop has 8 bits: with more than 255 rings, which the second result says, it never
  reaches their number.
\<close>

definition ring_status_lines :: "'w host_port \<Rightarrow> int \<Rightarrow> (('w, 'z) ring_st_scheme, status_line list \<times> bool) state" where
  "ring_status_lines P skip = do {
     ring_num \<leftarrow> ring_get_num;
     ls \<leftarrow> status_lines P skip [0..<nat (min ring_num 256)] [];
     State_Monad.return (ls, ring_num > 255)
   }"

text \<open>
  The transfer test: \<open>n\<close> transfers, then the figures, which divide by the elapsed time, if there is any, and
  then by the number of successes, which may be zero. \<open>eio\<close> is the error if a transfer failed.
\<close>

primrec transfer_rounds :: "('s, int) state \<Rightarrow> u32 \<Rightarrow> nat \<Rightarrow> burst_counts \<Rightarrow> ('s, burst_counts) state" where
  "transfer_rounds once sz 0 c = State_Monad.return c"
| "transfer_rounds once sz (Suc n) c = do { r \<leftarrow> once; transfer_rounds once sz n (count_packet sz r c) }"

definition transfer_result :: "int \<Rightarrow> u32 \<Rightarrow> burst_counts \<Rightarrow> (('w, 'z) ring_st_scheme, int) state" where
  "transfer_result eio elapsed c = do {
     when_m (elapsed > 0 \<and> success_count c = 0) ub;
     State_Monad.return (if fail_count c > 0 then - eio else 0)
   }"

definition write_test_buffer :: "'w host_port \<Rightarrow> u32 \<Rightarrow> u32 \<Rightarrow> (('w, 'z) buffers_st_scheme, int) state" where
  "write_test_buffer P addr sz = do { b \<leftarrow> gets test_buffer; ring_transport_write P addr (Some b) sz }"

section \<open>Properties of the loops\<close>

text \<open>
  What the loops of the demo programs do, proved once over their parts: the loop that empties a ring treats
  every message, a burst in packets sends as many as it should, and a retry happens only on its one error.
\<close>

section \<open>Receiving until there is nothing left\<close>

text \<open>
  The contract of the loop: \<open>J msgs got\<close> holds with the messages \<open>msgs\<close> still to come and the messages
  \<open>got\<close> treated, \<open>K m\<close> between receiving \<open>m\<close> and treating it.
\<close>

locale drained =
  fixes recv :: "('s, int) state" and handle :: "int \<Rightarrow> ('s, unit) state" and after :: "nat \<Rightarrow> ('s, unit) state"
    and J :: "bytes list \<Rightarrow> bytes list \<Rightarrow> 's \<Rightarrow> bool" and K :: "bytes \<Rightarrow> bytes list \<Rightarrow> bytes list \<Rightarrow> int \<Rightarrow> 's \<Rightarrow> bool"
  assumes recv_front: "J (m # ms) got s \<Longrightarrow> m \<noteq> [] \<Longrightarrow> length m \<le> 1500 \<Longrightarrow> wp recv (\<lambda>r t. 0 < r \<and> K m ms got r t) s"
    and recv_none: "J [] got s \<Longrightarrow> wp recv (\<lambda>r t. \<not> 0 < r \<and> J [] got t) s"
    and handled: "K m ms got r s \<Longrightarrow> wp (handle r) (\<lambda>_. J ms (got @ [m])) s"
    and after_turn: "J ms got s \<Longrightarrow> wp (after k) (\<lambda>_. J ms got) s"
begin

lemma drain_ends:
  "J msgs got s \<Longrightarrow> \<forall>m \<in> set msgs. m \<noteq> [] \<and> length m \<le> 1500 \<Longrightarrow> length msgs < n \<Longrightarrow>
   wp (drain recv handle after n k) (\<lambda>x t. x \<noteq> None \<and> J [] (got @ msgs) t) s"
proof (induction n arbitrary: msgs got k s)
  case (Suc n)
  show ?case
  proof (cases msgs)
    case Nil
    then show ?thesis
      using Suc.prems(1) unfolding drain.simps wp_bind
      by (intro wp_mono [OF recv_none]) (auto simp: wp_simps intro: wp_mono [OF after_turn])
  next
    case (Cons m ms)
    have m: "J (m # ms) got s" "m \<noteq> []" "length m \<le> 1500" using Suc.prems Cons by simp_all
    show ?thesis
      unfolding drain.simps wp_bind
    proof (rule wp_mono [OF recv_front [OF m]], elim conjE, unfold if_P wp_bind,
        rule wp_mono [OF handled], assumption, rule wp_mono [OF after_turn], assumption, goal_cases)
      case (1 r t v u x w)
      then show ?case using Suc.IH [of ms "got @ [m]" w "k + 1"] Suc.prems Cons by simp
    qed
  qed
qed simp

end

section \<open>The burst test\<close>

text \<open>The counts of \<open>k\<close> packets of \<open>sz\<close> bytes.\<close>

definition counted :: "u32 \<Rightarrow> u32 \<Rightarrow> burst_counts \<Rightarrow> bool" where
  "counted sz v c \<longleftrightarrow> packet_index c \<le> v \<and> unat (success_count c) + unat (fail_count c) = unat (packet_index c)
     \<and> burst_bytes c = of_nat (unat (success_count c) * unat sz)"

lemma unat_Suc_below: "a < b \<Longrightarrow> unat (a + 1) = Suc (unat a)" for a b :: u32
  using unat_add_nowrap [of a 1] unat_lt_u32 [of b] by (simp add: word_less_nat_alt del: unat_lt_u32)

lemma counted_packet:
  assumes "counted sz v c" "packet_index c < v"
  shows "counted sz v (count_packet sz r c)"
proof -
  have i: "unat (packet_index c + 1) = Suc (unat (packet_index c))" "packet_index c + 1 \<le> v"
    using unat_Suc_below [OF assms(2)] assms(2) by (simp_all add: word_less_nat_alt word_le_nat_alt)
  have s: "unat (success_count c) \<le> unat (packet_index c)" "unat (fail_count c) \<le> unat (packet_index c)"
    using assms(1) by (simp_all add: counted_def)
  then have "success_count c < v" "fail_count c < v" using assms(2) by (simp_all add: word_less_nat_alt)
  note u = this [THEN unat_Suc_below]
  have "(ucast (success_count c + 1) :: u64) = ucast (success_count c) + 1"
    using arg_cong [where f = "of_nat :: nat \<Rightarrow> u64", OF u(1)] by simp
  then show ?thesis
    using assms(1) i u by (simp add: counted_def count_packet_def algebra_simps)
qed

lemma burst_counts_up:
  assumes "\<And>s. I s \<Longrightarrow> wp running (\<lambda>r t. r \<and> I t) s"
    and "\<And>c s. I s \<Longrightarrow> wp (over c) (\<lambda>r t. (r \<longleftrightarrow> v \<le> packet_index c) \<and> I t) s"
    and "\<And>s. I s \<Longrightarrow> wp attempt (\<lambda>_. I) s" and "\<And>s. I s \<Longrightarrow> wp yield (\<lambda>_. I) s"
    and "I s" "counted sz v c" "unat v - unat (packet_index c) < n"
  shows "wp (burst_loop running over attempt yield sz n c)
    (\<lambda>x t. I t \<and> (\<exists>d. x = Some d \<and> counted sz v d \<and> packet_index d = v)) s"
  using assms(5-7)
proof (induction n arbitrary: c s)
  case (Suc n)
  show ?case
    unfolding burst_loop.simps wp_bind
  proof (rule wp_mono [OF assms(1) [OF Suc.prems(1)]], simp add: wp_bind, rule wp_mono [OF assms(2)], simp, goal_cases)
    case (1 run t stop u)
    show ?case
    proof (cases "v \<le> packet_index c")
      case True
      then show ?thesis using 1 Suc.prems(2) by (simp add: wp_return counted_def)
    next
      case False
      then have lt: "packet_index c < v" by simp
      have less: "unat v - unat (packet_index (count_packet sz r c)) < n" for r
        using unat_Suc_below [OF lt] lt Suc.prems(3) by (simp add: count_packet_def word_less_nat_alt)
      show ?thesis
        using 1 False Suc.IH [OF _ counted_packet [OF Suc.prems(2) lt] less]
        by (simp add: wp_bind) (auto simp: wp_bind intro!: wp_mono [OF assms(3)] wp_mono [OF assms(4)])
    qed
  qed
qed simp

section \<open>Retries\<close>

lemma send_retrying_first:
  "0 < n \<Longrightarrow> run_state (send_retrying send nap eagain n k) s = (case run_state send s of (r, t) \<Rightarrow>
    if r = - eagain then run_state (do { nap; send_retrying send nap eagain (n - 1) (k + 1) }) t else ((r, k), t))"
  by (cases n) (simp_all add: run_simps split: prod.split)

end
