(* ===== verification/App_Freertos.thy ===== *)
theory App_Freertos
  imports App_Common Os_Types
begin

text \<open>
  The demo of the host under FreeRTOS, \<open>src/qcspi_app/qcc730_host/App/freertos/qcc730_demo.c\<close> (names that
  other demos have as well end in \<open>_fr\<close>): the commands of its shell over the transport and the ring
  service, the callback for received data, and the burst test. What is only printed is left out, except
  that the packets shown are recorded.
\<close>

definition QCC730_MEM_START :: u32 where "QCC730_MEM_START = 0x10000"
definition QCC730_MEM_END :: u32 where "QCC730_MEM_END = 0x9FC00"
definition QCC730_REG_START :: u8 where "QCC730_REG_START = 0x00"
definition QCC730_REG_END :: u8 where "QCC730_REG_END = 0x60"
definition QCC730_REG_ALIGN :: u8 where "QCC730_REG_ALIGN = 4"

section \<open>State and services\<close>

text \<open>
  The services of the board and the kernel the demo calls itself. \<open>qc_osal_malloc\<close> says whether the
  allocation succeeded; \<open>chip_on\<close> sets the pin that powers the chip, \<open>irq_enable\<close> the interrupt line.
\<close>

record 'w app_port =
  host :: "'w host_port"
  qc_osal_uptime_get_ms :: "'w \<Rightarrow> u32"
  qc_osal_malloc :: "'w \<Rightarrow> u32 \<Rightarrow> bool \<times> 'w"
  qc_osal_free :: "'w \<Rightarrow> 'w"
  qc_osal_thread_create :: "'w \<Rightarrow> string \<Rightarrow> u32 \<Rightarrow> int \<Rightarrow> int \<times> 'w"
  chip_on :: "'w \<Rightarrow> bool \<Rightarrow> 'w"
  HAL_Delay :: "'w \<Rightarrow> u32 \<Rightarrow> 'w"
  irq_enable :: "'w \<Rightarrow> bool \<Rightarrow> 'w"

datatype burst_test_mode = BURST_MODE_COUNT | BURST_MODE_TIME | BURST_MODE_DATA

text \<open>The members of the union have the same type; \<open>bp_value\<close> is any of them.\<close>

record burst_test_params =
  bp_ring_id :: u8
  bp_mode :: burst_test_mode
  bp_value :: u32
  bp_size :: u32
  bp_running :: bool

text \<open>\<open>shown\<close> lists the packets \<open>print_received_data\<close> was called with, and how it showed them.\<close>

datatype display = As_String bytes | As_Hex bytes

record 'w demo_st = "'w buffers_st" +
  burst_params :: burst_test_params
  shown :: "display list"
  demo_stuck :: bool

definition service :: "('w \<Rightarrow> 'w) \<Rightarrow> (('w, 'z) demo_st_scheme, unit) state" where
  "service f = modify (\<lambda>s. s\<lparr>hw := f (hw s)\<rparr>)"

definition uptime :: "'w app_port \<Rightarrow> (('w, 'z) demo_st_scheme, u32) state" where
  "uptime A = gets (\<lambda>s. qc_osal_uptime_get_ms A (hw s))"

section \<open>Received data\<close>

definition print_received_data_fr :: "'w app_port \<Rightarrow> bytes \<Rightarrow> (('w, 'z) demo_st_scheme, unit) state" where
  "print_received_data_fr A data = do {
     delay_ms (host A) 5;
     modify (\<lambda>s. s\<lparr>shown := shown s @ [if is_printable data then As_String data else As_Hex data]\<rparr>)
   }"

text \<open>The loop takes \<open>n\<close> turns at most; only packets of the loopback ring are shown.\<close>

definition ring_host_rx_callback_fr :: "'w app_port \<Rightarrow> nat \<Rightarrow> u8 \<Rightarrow> (('w, 'z) demo_st_scheme, unit) state" where
  "ring_host_rx_callback_fr A n ring_id = do {
     x \<leftarrow> drain (recv_packet (host A) ring_id)
       (\<lambda>r. when_m (ring_id = RING_LOOPBACK) (do {
          b \<leftarrow> gets recv_buffer;
          print_received_data_fr A (take (nat r) b)
        }))
       (\<lambda>k. when_m (k > 0 \<and> k mod 10 = 0) (delay_ms (host A) 3)) n 0;
     when_m (x = None) (modify (\<lambda>s. s\<lparr>demo_stuck := True\<rparr>))
   }"

section \<open>Commands on the transport\<close>

definition cmd_qcspi_init_fr :: "'w app_port \<Rightarrow> string list \<Rightarrow> (('w, 'z) demo_st_scheme, int) state" where
  "cmd_qcspi_init_fr A argv = do {
     dev \<leftarrow> qcspi_transport_get_device;
     if \<not> dev then State_Monad.return (- QC_OSAL_ENODEV)
     else do { _ \<leftarrow> qcspi_get_slaveid (host A); State_Monad.return 0 }
   }"

definition validate_memory_range :: "u32 \<Rightarrow> u32 \<Rightarrow> int" where
  "validate_memory_range addr len =
     (if len = 0 then - QC_OSAL_EINVAL
      else if addr + len < addr then - QC_OSAL_EINVAL
      else if addr < QCC730_MEM_START \<or> addr \<ge> QCC730_MEM_END then - QC_OSAL_EINVAL
      else if addr + len > QCC730_MEM_END then - QC_OSAL_EINVAL
      else 0)"

definition cmd_qcspi_read_fr :: "'w app_port \<Rightarrow> string list \<Rightarrow> (('w, 'z) demo_st_scheme, int) state" where
  "cmd_qcspi_read_fr A argv =
     (if length argv \<noteq> 3 then State_Monad.return (- QC_OSAL_EINVAL)
      else do {
        dev \<leftarrow> qcspi_transport_get_device;
        if \<not> dev then State_Monad.return (- QC_OSAL_ENODEV)
        else do {
          addr \<leftarrow> number argv 1;
          len \<leftarrow> number argv 2;
          if len > 1500 then State_Monad.return (- QC_OSAL_EINVAL)
          else if addr + len - 1 > 0x9FFFF then State_Monad.return (- QC_OSAL_EINVAL)
          else do {
            (r, d) \<leftarrow> ring_transport_read (host A) True addr len;
            modify (\<lambda>s. s\<lparr>recv_buffer := store (recv_buffer s) d\<rparr>);
            State_Monad.return (if r < 0 then r else 0)
          }
        }
      })"

definition cmd_qcspi_write_fr :: "'w app_port \<Rightarrow> string list \<Rightarrow> (('w, 'z) demo_st_scheme, int) state" where
  "cmd_qcspi_write_fr A argv =
     (if length argv \<noteq> 3 then State_Monad.return (- QC_OSAL_EINVAL)
      else do {
        dev \<leftarrow> qcspi_transport_get_device;
        if \<not> dev then State_Monad.return (- QC_OSAL_ENODEV)
        else do {
          addr \<leftarrow> number argv 1;
          hex \<leftarrow> arg argv 2;
          len \<leftarrow> parse_into_send_buffer QC_OSAL_EINVAL QC_OSAL_E2BIG hex;
          if len < 0 then State_Monad.return len
          else do {
            let r = validate_memory_range addr (of_int len);
            if r < 0 then State_Monad.return r
            else do {
              b \<leftarrow> gets send_buffer;
              r \<leftarrow> ring_transport_write (host A) addr (Some b) (of_int len);
              State_Monad.return (if r < 0 then r else 0)
            }
          }
        }
      })"

definition validate_register_addr :: "u8 \<Rightarrow> int" where
  "validate_register_addr reg_addr =
     (if reg_addr < QCC730_REG_START \<or> reg_addr > QCC730_REG_END then - QC_OSAL_EINVAL
      else if reg_addr mod QCC730_REG_ALIGN \<noteq> 0 then - QC_OSAL_EINVAL
      else 0)"

text \<open>With the value that is printed.\<close>

definition cmd_qcspi_reg_read_fr :: "'w app_port \<Rightarrow> string list \<Rightarrow> (('w, 'z) demo_st_scheme, int \<times> u32 option) state" where
  "cmd_qcspi_reg_read_fr A argv =
     (if length argv \<noteq> 2 then State_Monad.return (- QC_OSAL_EINVAL, None)
      else do {
        dev \<leftarrow> qcspi_transport_get_device;
        if \<not> dev then State_Monad.return (- QC_OSAL_ENODEV, None)
        else do {
          a \<leftarrow> number argv 1;
          let reg_addr = (ucast a :: u8);
          let r = validate_register_addr reg_addr;
          if r < 0 then State_Monad.return (r, None)
          else do {
            (r, v) \<leftarrow> ring_transport_reg_read (host A) True reg_addr;
            State_Monad.return (if r < 0 then (r, None) else (0, v))
          }
        }
      })"

definition cmd_qcspi_reg_write_fr :: "'w app_port \<Rightarrow> string list \<Rightarrow> (('w, 'z) demo_st_scheme, int) state" where
  "cmd_qcspi_reg_write_fr A argv =
     (if length argv \<noteq> 3 then State_Monad.return (- QC_OSAL_EINVAL)
      else do {
        dev \<leftarrow> qcspi_transport_get_device;
        if \<not> dev then State_Monad.return (- QC_OSAL_ENODEV)
        else do {
          a \<leftarrow> number argv 1;
          reg_val \<leftarrow> number argv 2;
          let reg_addr = (ucast a :: u8);
          let r = validate_register_addr reg_addr;
          if r < 0 then State_Monad.return r
          else do {
            r \<leftarrow> ring_transport_reg_write (host A) reg_addr reg_val;
            State_Monad.return (if r < 0 then r else 0)
          }
        }
      })"

definition cmd_qcspi_interrupt_fr :: "'w app_port \<Rightarrow> string list \<Rightarrow> (('w, 'z) demo_st_scheme, int) state" where
  "cmd_qcspi_interrupt_fr A argv = do {
     dev \<leftarrow> qcspi_transport_get_device;
     if \<not> dev then State_Monad.return (- QC_OSAL_ENODEV)
     else do {
       r \<leftarrow> ring_transport_interrupt (host A);
       State_Monad.return (if r < 0 then r else 0)
     }
   }"

text \<open>
  \<open>qcc730_reset\<close> powers the chip off and on until the ring service starts, for at most \<open>n\<close> turns. The handle
  it gives to \<open>ring_transport_deinit\<close> was never set.
\<close>

primrec reset_turns :: "'w app_port \<Rightarrow> nat \<Rightarrow> (('w, 'z) demo_st_scheme, unit) state" where
  "reset_turns A 0 = modify (\<lambda>s. s\<lparr>demo_stuck := True\<rparr>)"
| "reset_turns A (Suc n) = do {
     service (\<lambda>w. chip_on A w False);
     service (\<lambda>w. HAL_Delay A w 300);
     service (\<lambda>w. chip_on A w True);
     service (\<lambda>w. HAL_Delay A w 300);
     service (\<lambda>w. HAL_Delay A w 1000);
     ub;
     _ \<leftarrow> ring_transport_deinit;
     ring_service_deinit;
     r \<leftarrow> init_qring (host A);
     if r < 0 then reset_turns A n else State_Monad.return ()
   }"

definition qcc730_reset :: "'w app_port \<Rightarrow> nat \<Rightarrow> (('w, 'z) demo_st_scheme, unit) state" where
  "qcc730_reset A n = do {
     service (\<lambda>w. irq_enable A w False);
     reset_turns A n;
     service (\<lambda>w. irq_enable A w True)
   }"

definition cmd_qcspi_reset_fr :: "'w app_port \<Rightarrow> nat \<Rightarrow> string list \<Rightarrow> (('w, 'z) demo_st_scheme, int) state" where
  "cmd_qcspi_reset_fr A n argv = do { qcc730_reset A n; State_Monad.return 0 }"

section \<open>The transfer test\<close>

definition transfer_once :: "'w app_port \<Rightarrow> bool \<Rightarrow> u32 \<Rightarrow> u32 \<Rightarrow> (('w, 'z) demo_st_scheme, int) state" where
  "transfer_once A is_tx addr sz =
     (if is_tx then write_test_buffer (host A) addr sz
      else do {
        (r, d) \<leftarrow> ring_transport_read (host A) True addr sz;
        modify (\<lambda>s. s\<lparr>test_buffer := store (test_buffer s) d\<rparr>);
        State_Monad.return r
      })"

definition cmd_qcspi_test_transfer_fr :: "'w app_port \<Rightarrow> string list \<Rightarrow> (('w, 'z) demo_st_scheme, int) state" where
  "cmd_qcspi_test_transfer_fr A argv =
     (if length argv \<noteq> 5 then State_Monad.return (- QC_OSAL_EINVAL)
      else do {
        dev \<leftarrow> qcspi_transport_get_device;
        if \<not> dev then State_Monad.return (- QC_OSAL_ENODEV)
        else do {
          direction \<leftarrow> arg argv 1;
          if direction \<noteq> ''tx'' \<and> direction \<noteq> ''rx'' then State_Monad.return (- QC_OSAL_EINVAL)
          else do {
            let is_tx = (direction = ''tx'');
            addr \<leftarrow> number argv 2;
            sz \<leftarrow> number argv 3;
            count \<leftarrow> number argv 4;
            if sz = 0 \<or> sz > 1500 then State_Monad.return (- QC_OSAL_EINVAL)
            else if count = 0 \<or> count > 100000 then State_Monad.return (- QC_OSAL_EINVAL)
            else if validate_memory_range addr sz < 0 then State_Monad.return (validate_memory_range addr sz)
            else do {
              when_m is_tx (modify (\<lambda>s. s\<lparr>test_buffer := store (test_buffer s) (pattern (unat sz))\<rparr>));
              start_time \<leftarrow> uptime A;
              c \<leftarrow> transfer_rounds (transfer_once A is_tx addr sz) sz (unat count) no_packets;
              now \<leftarrow> uptime A;
              transfer_result QC_OSAL_EIO (now - start_time) c
            }
          }
        }
      })"

section \<open>Commands on the rings\<close>

definition ring_status_fr :: "'w app_port \<Rightarrow> string list \<Rightarrow> (('w, 'z) demo_st_scheme, int \<times> status_line list) state" where
  "ring_status_fr A argv = do {
     (ls, endless) \<leftarrow> ring_status_lines (host A) QC_OSAL_EINVAL;
     when_m endless (modify (\<lambda>s. s\<lparr>demo_stuck := True\<rparr>));
     State_Monad.return (0, ls)
   }"

definition ring_send_cmd :: "'w app_port \<Rightarrow> string list \<Rightarrow> (('w, 'z) demo_st_scheme, int) state" where
  "ring_send_cmd A argv =
     (if length argv < 3 then State_Monad.return (- QC_OSAL_EINVAL)
      else with_ring QC_OSAL_EINVAL argv (send_text (host A) (drop 2 argv)))"

definition ring_send_hex :: "'w app_port \<Rightarrow> string list \<Rightarrow> (('w, 'z) demo_st_scheme, int) state" where
  "ring_send_hex A argv =
     (if length argv \<noteq> 3 then State_Monad.return (- QC_OSAL_EINVAL)
      else with_ring QC_OSAL_EINVAL argv (send_hex (host A) QC_OSAL_EINVAL QC_OSAL_E2BIG argv))"

definition ring_send_pattern :: "'w app_port \<Rightarrow> string list \<Rightarrow> (('w, 'z) demo_st_scheme, int) state" where
  "ring_send_pattern A argv =
     (if length argv \<noteq> 3 then State_Monad.return (- QC_OSAL_EINVAL)
      else with_ring QC_OSAL_EINVAL argv (send_pattern (host A) QC_OSAL_EINVAL argv))"

section \<open>The burst test\<close>

definition set_running :: "bool \<Rightarrow> (('w, 'z) demo_st_scheme, unit) state" where
  "set_running b = modify (\<lambda>s. s\<lparr>burst_params := (burst_params s)\<lparr>bp_running := b\<rparr>\<rparr>)"

text \<open>
  The end of the test as the parameters say at the moment; \<open>end_time\<close> was computed when the test started,
  and so was \<open>target_bytes\<close>.
\<close>

definition burst_over :: "'w app_port \<Rightarrow> u32 \<Rightarrow> u64 \<Rightarrow> burst_counts \<Rightarrow> (('w, 'z) demo_st_scheme, bool) state" where
  "burst_over A end_time target_bytes c = do {
     p \<leftarrow> gets burst_params;
     now \<leftarrow> uptime A;
     State_Monad.return (case bp_mode p of
       BURST_MODE_COUNT \<Rightarrow> packet_index c \<ge> bp_value p
     | BURST_MODE_TIME \<Rightarrow> now \<ge> end_time
     | BURST_MODE_DATA \<Rightarrow> burst_bytes c \<ge> target_bytes)
   }"

text \<open>
  The thread, for at most \<open>n\<close> turns of its loop; \<open>others\<close> is what the other threads do while it yields. The
  ring and the size are read once. The result is the counts it prints, \<open>None\<close> if it got no buffer.
\<close>

definition burst_test_thread_fr ::
  "'w app_port \<Rightarrow> (('w, 'z) demo_st_scheme, unit) state \<Rightarrow> nat \<Rightarrow> (('w, 'z) demo_st_scheme, burst_counts option) state" where
  "burst_test_thread_fr A others n = do {
     p \<leftarrow> gets burst_params;
     let sz = bp_size p;
     ok \<leftarrow> below (\<lambda>w. qc_osal_malloc A w sz);
     if \<not> ok then do { set_running False; State_Monad.return None }
     else do {
       let buf = pattern (unat sz);
       start_time \<leftarrow> uptime A;
       let end_time = (if bp_mode p = BURST_MODE_TIME then start_time + bp_value p * 1000 else 0);
       let target_bytes = (if bp_mode p = BURST_MODE_DATA then ucast (bp_value p) * 1024 * 1024 else 0);
       x \<leftarrow> burst_loop (gets (\<lambda>s. bp_running (burst_params s))) (burst_over A end_time target_bytes)
         (ring_send (host A) (bp_ring_id p) (Some buf) sz 10) others sz n no_packets;
       case x of
         None \<Rightarrow> do { modify (\<lambda>s. s\<lparr>demo_stuck := True\<rparr>); State_Monad.return None }
       | Some c \<Rightarrow> do {
           service (qc_osal_free A);
           set_running False;
           State_Monad.return (Some c)
         }
     }
   }"

definition mode_of :: "string \<Rightarrow> burst_test_mode option" where
  "mode_of s = (if s = ''count'' then Some BURST_MODE_COUNT
     else if s = ''time'' then Some BURST_MODE_TIME
     else if s = ''data'' then Some BURST_MODE_DATA else None)"

definition burst_limit :: "burst_test_mode \<Rightarrow> u32" where
  "burst_limit m = (case m of BURST_MODE_COUNT \<Rightarrow> 1000000 | BURST_MODE_TIME \<Rightarrow> 360000 | BURST_MODE_DATA \<Rightarrow> 10240)"

text \<open>Waiting for the test to stop, for at most \<open>n\<close> turns, while \<open>others\<close> run.\<close>

primrec stop_wait ::
  "'w app_port \<Rightarrow> (('w, 'z) demo_st_scheme, unit) state \<Rightarrow> nat \<Rightarrow> u32 \<Rightarrow> (('w, 'z) demo_st_scheme, unit) state" where
  "stop_wait A others 0 timeout = modify (\<lambda>s. s\<lparr>demo_stuck := True\<rparr>)"
| "stop_wait A others (Suc n) timeout = do {
     run \<leftarrow> gets (\<lambda>s. bp_running (burst_params s));
     now \<leftarrow> uptime A;
     if run \<and> now < timeout then do {
       delay_ms (host A) 100;
       others;
       stop_wait A others n timeout
     } else State_Monad.return ()
   }"

definition burst_stop ::
  "'w app_port \<Rightarrow> (('w, 'z) demo_st_scheme, unit) state \<Rightarrow> nat \<Rightarrow> (('w, 'z) demo_st_scheme, int) state" where
  "burst_stop A others n = do {
     run \<leftarrow> gets (\<lambda>s. bp_running (burst_params s));
     if \<not> run then State_Monad.return 0
     else do {
       set_running False;
       now \<leftarrow> uptime A;
       stop_wait A others n (now + 5000);
       State_Monad.return 0
     }
   }"

definition ring_send_burst ::
  "'w app_port \<Rightarrow> (('w, 'z) demo_st_scheme, unit) state \<Rightarrow> nat \<Rightarrow> string list \<Rightarrow> (('w, 'z) demo_st_scheme, int) state" where
  "ring_send_burst A others n argv =
     (if length argv < 2 then State_Monad.return (- QC_OSAL_EINVAL)
      else do {
        subcmd \<leftarrow> arg argv 1;
        if subcmd = ''stop'' then burst_stop A others n
        else do {
          p \<leftarrow> gets burst_params;
          if bp_running p then State_Monad.return (- QC_OSAL_EBUSY)
          else case mode_of subcmd of
            None \<Rightarrow> State_Monad.return (- QC_OSAL_EINVAL)
          | Some mode \<Rightarrow> do {
              r \<leftarrow> number argv 2;
              let ring_id = (ucast r :: u8);
              if unat ring_id \<ge> MAX_RINGS then State_Monad.return (- QC_OSAL_EINVAL)
              else do {
                param_value \<leftarrow> number argv 3;
                sz \<leftarrow> number argv 4;
                if sz = 0 \<or> sz > 1500 then State_Monad.return (- QC_OSAL_EINVAL)
                else if param_value = 0 \<or> param_value > burst_limit mode then State_Monad.return (- QC_OSAL_EINVAL)
                else do {
                  modify (\<lambda>s. s\<lparr>burst_params := \<lparr>bp_ring_id = ring_id, bp_mode = mode, bp_value = param_value,
                    bp_size = sz, bp_running = True\<rparr>\<rparr>);
                  r \<leftarrow> below (\<lambda>w. qc_osal_thread_create A w ''burst_test'' 4096 5);
                  if r \<noteq> 0 then do { set_running False; State_Monad.return r }
                  else State_Monad.return 0
                }
              }
            }
        }
      })"

section \<open>Start\<close>

text \<open>The start of \<open>vTaskShell\<close>, between the initialisation of the shell and the registration of the commands.\<close>

definition start_demo :: "'w app_port \<Rightarrow> nat \<Rightarrow> (('w, 'z) demo_st_scheme, unit) state" where
  "start_demo A n = do {
     qcc730_reset A n;
     _ \<leftarrow> ring_register_callback True;
     State_Monad.return ()
   }"

definition task_init_all :: "'w app_port \<Rightarrow> (('w, 'z) demo_st_scheme, int) state" where
  "task_init_all A = below (\<lambda>w. qc_osal_thread_create A w ''Shell'' 2048 5)"

end
