(* ===== verification/App_Write_Proofs.thy ===== *)
theory App_Write_Proofs
  imports App_Freertos C_Text Ring_Tx_Channel
begin

text \<open>
  What the commands of the FreeRTOS demo that write to the memory of the slave can change of it: the range
  check keeps them in the RAM below the control block of the rings.
\<close>

section \<open>Running the parts of a command\<close>

lemma wp_arg: "i < length argv \<Longrightarrow> wp (arg argv i) Q s = Q (argv ! i) s"
  by (simp add: arg_def wp_bind wp_return wp_when_m)

lemma wp_number: "i < length argv \<Longrightarrow> wp (number argv i) Q s = Q (fst (strtoul (argv ! i) 0)) s"
  by (simp add: number_def wp_arg wp_bind wp_return)

lemma wp_get_device: "wp qcspi_transport_get_device Q s = Q (transport_initialized s) s"
  by (simp add: qcspi_transport_get_device_def wp_gets)

lemma wp_parse:
  "wp (parse_into_send_buffer einval e2big hex) Q s =
    (let x = hex_to_bytes einval e2big hex 1500 in Q (fst x) (s\<lparr>send_buffer := store (send_buffer s) (snd x)\<rparr>))"
  by (simp add: parse_into_send_buffer_def wp_bind wp_return wp_modify Let_def split: prod.split)

lemma wp_uptime: "wp (uptime A) Q s = Q (qc_osal_uptime_get_ms A (hw s)) s"
  by (simp add: uptime_def wp_gets)

lemma wp_transfer_result: "(\<And>r f. Q r (s\<lparr>ring_fault := f\<rparr>)) \<Longrightarrow> wp (transfer_result eio elapsed c) Q s"
proof -
  assume Q: "\<And>r f. Q r (s\<lparr>ring_fault := f\<rparr>)"
  have "Q r s" for r using Q [of r "ring_fault s"] by simp
  then show ?thesis using Q by (simp add: transfer_result_def wp_bind wp_return ub_def wp_modify wp_when_m)
qed

lemma transfer_rounds_keeps:
  assumes "\<And>s. I s \<Longrightarrow> wp once (\<lambda>_. I) s" and "I s"
  shows "wp (transfer_rounds once sz n c) (\<lambda>_. I) s"
  using assms(2)
proof (induction n arbitrary: c s)
  case (Suc n)
  then show ?case by (auto simp: wp_bind intro: wp_mono [OF assms(1)])
qed (simp add: wp_return)

section \<open>The range check\<close>

lemma validated_range:
  assumes "\<not> validate_memory_range addr len < 0"
  shows "0 < len" "0x10000 \<le> unat addr" "unat addr + unat len \<le> 0x9FC00"
proof -
  have v: "len \<noteq> 0" "addr \<le> addr + len" "0x10000 \<le> addr" "addr + len \<le> 0x9FC00"
    using assms by (auto simp: validate_memory_range_def QCC730_MEM_START_def QCC730_MEM_END_def QC_OSAL_EINVAL_def not_less
      split: if_splits)
  show "0 < len" using v(1) by (simp add: word_gt_0)
  show "0x10000 \<le> unat addr" using v(3) by (simp add: word_le_nat_alt)
  have "unat (addr + len) = unat addr + unat len"
    using v(2) by (simp add: no_olen_add_nat unat_add_nowrap)
  then show "unat addr + unat len \<le> 0x9FC00" using v(4) by (simp add: word_le_nat_alt)
qed

text \<open>Idle, and changed in the checked range only.\<close>

definition confined :: "('w \<Rightarrow> u32 \<Rightarrow> u8) \<Rightarrow> ('w \<Rightarrow> bool) \<Rightarrow> (u32 \<Rightarrow> u8) \<Rightarrow> ('w, 'z) demo_st_scheme \<Rightarrow> bool" where
  "confined mem idle m s \<longleftrightarrow> idle (hw s) \<and> transport_initialized s \<and> within 0x10000 0x9FC00 m (mem (hw s))"

lemma within_trans: "within A B m m' \<Longrightarrow> within A B m' m'' \<Longrightarrow> within A B m m''"
  unfolding within_def by metis

lemma within_self: "within A B m m"
  by (simp add: within_def)

lemma write_confined:
  fixes s :: "('w, 'z) demo_st_scheme"
  assumes "spi_slave P mem idle" "confined mem idle m s" "\<not> validate_memory_range addr len < 0" "unat len \<le> 1500"
    and "unat len \<le> length bs"
  shows "wp (ring_transport_write P addr (Some bs) len) (\<lambda>_. confined mem idle m) s"
proof (rule wp_link_write [OF assms(1), where A = "0x10000" and B = "0x9FC00"], goal_cases)
  case (11 r w)
  then show ?case using assms(2) by (auto simp: confined_def intro: within_trans)
qed (use assms validated_range [OF assms(3)] in \<open>simp_all add: confined_def\<close>)

lemma read_confined:
  fixes s :: "('w, 'z) demo_st_scheme"
  assumes "spi_slave P mem idle" "confined mem idle m s" "\<not> validate_memory_range addr len < 0" "unat len \<le> 1500"
  shows "wp (ring_transport_read P True addr len) (\<lambda>_. confined mem idle m) s"
proof (rule wp_link_read [OF assms(1)], goal_cases)
  case (5 r d w)
  then show ?case using assms(2) by (simp add: confined_def)
qed (use assms validated_range [OF assms(3)] in \<open>simp_all add: confined_def\<close>)

section \<open>The commands\<close>

lemma cmd_write_confined:
  fixes s :: "('w, 'z) demo_st_scheme"
  assumes "spi_slave (host A) mem idle" "idle (hw s)" "length (send_buffer s) = 1500"
  shows "wp (cmd_qcspi_write_fr A argv) (\<lambda>_ t. idle (hw t) \<and> within 0x10000 0x9FC00 (mem (hw s)) (mem (hw t))) s"
proof (cases "length argv = 3 \<and> transport_initialized s")
  case True
  obtain len bs where h: "hex_to_bytes QC_OSAL_EINVAL QC_OSAL_E2BIG (argv ! 2) 1500 = (len, bs)" by (rule prod.exhaust)
  define t where "t = s\<lparr>send_buffer := store (send_buffer s) bs\<rparr>"
  have start: "confined mem idle (mem (hw s)) t"
    using True assms(2) by (simp add: confined_def t_def within_self)
  have run: "wp (ring_transport_write (host A) addr (Some (send_buffer t)) (of_int len)) (\<lambda>_. confined mem idle (mem (hw s))) t"
    if "\<not> len < 0" "\<not> validate_memory_range addr (of_int len) < 0" for addr
  proof (rule write_confined [OF assms(1) start that(2)])
    have l: "len = int (length bs)" "length bs \<le> 1500"
      using hex_to_bytes_length [OF h that(1)] by (simp_all add: QC_OSAL_EINVAL_def QC_OSAL_E2BIG_def)
    then have u: "unat (of_int len :: u32) = length bs" using unat_of_nat_u32 [of "length bs"] by simp
    then show "unat (of_int len :: u32) \<le> 1500" using l(2) by simp
    show "unat (of_int len :: u32) \<le> length (send_buffer t)"
      using u l(2) assms(3) by (simp add: t_def store_def)
  qed
  then show ?thesis
    using True start
    by (simp add: cmd_qcspi_write_fr_def wp_bind wp_return wp_gets wp_get_device wp_number wp_arg wp_parse h Let_def
      flip: t_def) (intro conjI impI; (rule wp_mono [OF run], assumption, assumption)?; simp add: confined_def wp_return)
next
  case False
  then show ?thesis
    using assms(2) by (auto simp: cmd_qcspi_write_fr_def wp_bind wp_return wp_get_device within_self)
qed

lemma once_confined:
  fixes s :: "('w, 'z) demo_st_scheme"
  assumes "spi_slave (host A) mem idle" "\<not> validate_memory_range addr len < 0" "unat len \<le> 1500"
    and "confined mem idle m s \<and> (is_tx \<longrightarrow> 1500 \<le> length (test_buffer s))"
  shows "wp (transfer_once A is_tx addr len) (\<lambda>_ t. confined mem idle m t \<and> (is_tx \<longrightarrow> 1500 \<le> length (test_buffer t))) s"
proof (cases is_tx)
  case True
  have "wp (ring_transport_write (host A) addr (Some (test_buffer s)) len) (\<lambda>_ t. confined mem idle m t \<and> 1500 \<le> length (test_buffer t)) s"
  proof (rule wp_link_write [OF assms(1), where A = "0x10000" and B = "0x9FC00"], goal_cases)
    case (11 r w)
    then show ?case using assms(4) True by (auto simp: confined_def intro: within_trans)
  qed (use assms True validated_range [OF assms(2)] in \<open>simp_all add: confined_def\<close>)
  then show ?thesis using True by (simp add: transfer_once_def write_test_buffer_def wp_bind wp_gets)
next
  case False
  then show ?thesis
    using read_confined [OF assms(1) _ assms(2,3), of m s] assms(4)
    by (auto simp: transfer_once_def wp_bind wp_return wp_modify confined_def elim!: wp_mono)
qed

lemma cmd_test_transfer_confined:
  fixes s :: "('w, 'z) demo_st_scheme"
  assumes "spi_slave (host A) mem idle" "idle (hw s)" "length (test_buffer s) = 1500"
  shows "wp (cmd_qcspi_test_transfer_fr A argv) (\<lambda>_ t. idle (hw t) \<and> within 0x10000 0x9FC00 (mem (hw s)) (mem (hw t))) s"
proof (cases "length argv = 5 \<and> transport_initialized s")
  case True
  define sz where "sz = fst (strtoul (argv ! 3) 0)"
  define addr where "addr = fst (strtoul (argv ! 2) 0)"
  have rounds: "wp (transfer_rounds (transfer_once A is_tx addr sz) sz n no_packets) (\<lambda>_. confined mem idle (mem (hw s))) t"
    if "\<not> validate_memory_range addr sz < 0" "\<not> 1500 < sz" "confined mem idle (mem (hw s)) t" "is_tx \<longrightarrow> 1500 \<le> length (test_buffer t)"
    for is_tx n and t :: "('w, 'z) demo_st_scheme"
    using that(3,4)
    by (intro wp_mono [OF transfer_rounds_keeps [OF once_confined [OF assms(1) that(1)]]])
      (use that(2) in \<open>auto simp: not_less word_le_nat_alt\<close>)
  have start: "confined mem idle (mem (hw s)) (s\<lparr>test_buffer := b\<rparr>)" "confined mem idle (mem (hw s)) s" for b
    using True assms(2) by (simp_all add: confined_def within_self)
  have len: "1500 \<le> length (store (test_buffer s) (pattern (unat sz)))" if "\<not> 1500 < sz"
    using that assms(3) by (simp add: store_def pattern_def not_less word_le_nat_alt)
  have final: "idle (hw t) \<and> within 0x10000 0x9FC00 (mem (hw s)) (mem (hw t))" if "confined mem idle (mem (hw s)) t" for t :: "('w, 'z) demo_st_scheme"
    using that by (simp add: confined_def)
  show ?thesis
    using True assms(2)
    by (simp add: cmd_qcspi_test_transfer_fr_def wp_bind wp_return wp_gets wp_get_device wp_number wp_arg Let_def wp_when_m
        wp_modify wp_uptime within_self flip: sz_def addr_def, intro conjI impI)
      (rule wp_mono [OF rounds]; simp add: start len wp_bind wp_uptime; intro wp_transfer_result; simp add: confined_def)+
next
  case False
  then show ?thesis
    using assms(2) by (auto simp: cmd_qcspi_test_transfer_fr_def wp_bind wp_return wp_get_device within_self)
qed

text \<open>
  C10: Whatever arguments they are given and whatever the link does, \<open>qcspi_write\<close> and
  \<open>qcspi_test_transfer\<close>, the two commands that write at an address typed by the user, change no byte of the
  slave's memory outside the RAM they check for: in particular none of the control block of the rings, which
  begins where that RAM ends. The commands of the rings, which write into that block by design, are not meant.
\<close>

theorem shell_writes_confined:
  assumes "spi_slave (host A) mem idle" and "idle (hw s)"
    and "length (send_buffer s) = 1500" and "length (test_buffer s) = 1500"
    and "cmd = cmd_qcspi_write_fr A \<or> cmd = cmd_qcspi_test_transfer_fr A"
    and "run_state (cmd argv) s = (r, t)"
  shows "\<forall>x. mem (hw t) x \<noteq> mem (hw s) x \<longrightarrow> QCC730_MEM_START \<le> x \<and> x < CONFIG_RING_CTRL_BLOCK_ADDR"
proof (intro allI impI)
  fix x
  assume x: "mem (hw t) x \<noteq> mem (hw s) x"
  have "idle (hw t) \<and> within 0x10000 0x9FC00 (mem (hw s)) (mem (hw t))"
    using wpD [OF cmd_write_confined [OF assms(1-3)]] wpD [OF cmd_test_transfer_confined [OF assms(1,2,4)]] assms(5,6)
    by metis
  then have "0x10000 \<le> unat x" "unat x < 0x9FC00" using x unfolding within_def by metis+
  then show "QCC730_MEM_START \<le> x \<and> x < CONFIG_RING_CTRL_BLOCK_ADDR"
    by (simp add: QCC730_MEM_START_def CONFIG_RING_CTRL_BLOCK_ADDR_def word_le_nat_alt word_less_nat_alt)
qed

section \<open>Witnesses\<close>

definition sim_app :: "slave_world app_port" where
  "sim_app = \<lparr>host = slave_port, qc_osal_uptime_get_ms = \<lambda>w. 0, qc_osal_malloc = \<lambda>w n. (True, w), qc_osal_free = \<lambda>w. w,
     qc_osal_thread_create = \<lambda>w name stack prio. (0, w), chip_on = \<lambda>w b. w, HAL_Delay = \<lambda>w n. w, irq_enable = \<lambda>w b. w\<rparr>"

lemma sim_app_host [simp]: "host sim_app = slave_port" "qc_osal_malloc sim_app w n = (True, w)" "qc_osal_free sim_app w = w"
    "qc_osal_uptime_get_ms sim_app w = 0"
  by (simp_all add: sim_app_def)

text \<open>The demo over a ring service.\<close>

definition demo_over :: "'w ring_st \<Rightarrow> burst_test_params \<Rightarrow> 'w demo_st" where
  "demo_over s p = ring_st.extend s \<lparr>send_buffer = replicate 1500 0, recv_buffer = replicate 1500 0,
     test_buffer = replicate 1500 0, burst_params = p, shown = [], demo_stuck = False\<rparr>"

lemma demo_over_fields [simp]:
  "hw (demo_over s p) = hw s" "transport_initialized (demo_over s p) = transport_initialized s"
  "ring_initialized (demo_over s p) = ring_initialized s" "ctrl_block_addr (demo_over s p) = ctrl_block_addr s"
  "ctrl_cache (demo_over s p) = ctrl_cache s" "send_buffer (demo_over s p) = replicate 1500 0"
  "recv_buffer (demo_over s p) = replicate 1500 0" "test_buffer (demo_over s p) = replicate 1500 0"
  "burst_params (demo_over s p) = p" "shown (demo_over s p) = []" "\<not> demo_stuck (demo_over s p)"
  by (simp_all add: demo_over_def ring_st.defs)

definition no_burst :: burst_test_params where
  "no_burst = \<lparr>bp_ring_id = 0, bp_mode = BURST_MODE_COUNT, bp_value = 0, bp_size = 0, bp_running = False\<rparr>"

lemma sim_address: "fst (strtoul ''0x20000'' 0) = 0x20000"
  by (simp add: strtoul_def after_prefix_def has_0x_def is_digit_def digit_value_def isspace_def Let_def)

lemma sim_hex: "hex_to_bytes QC_OSAL_EINVAL QC_OSAL_E2BIG ''A5'' 1500 = (1, [0xA5])"
proof -
  have "hex_text [0xA5] = ''A5''" by (simp add: hex_text_def hex_digit_def) code_simp
  then show ?thesis using hex_round_trip [of "[0xA5]" 1500 "[]"] by simp
qed

lemma shell_writes_confined_witness:
  "\<exists>t. run_state (cmd_qcspi_write_fr sim_app [''qcspi_write'', ''0x20000'', ''A5'']) (demo_over sim_ring no_burst) = (0, t)
    \<and> smem (hw t) 0x20000 = 0xA5 \<and> smem (hw t) 0x9FC00 = 0"
proof -
  let ?argv = "[''qcspi_write'', ''0x20000'', ''A5'']" and ?s = "demo_over sim_ring no_burst"
  obtain r t where run: "run_state (cmd_qcspi_write_fr sim_app ?argv) ?s = (r, t)" by (rule prod.exhaust)
  have "validate_memory_range 0x20000 1 = 0"
    by (simp add: validate_memory_range_def QCC730_MEM_START_def QCC730_MEM_END_def)
  then have "wp (cmd_qcspi_write_fr sim_app ?argv) (\<lambda>r t. r = 0 \<and> smem (hw t) 0x20000 = 0xA5) ?s"
    by (simp add: cmd_qcspi_write_fr_def wp_bind wp_return wp_gets wp_get_device wp_number wp_arg wp_parse sim_address sim_hex)
      (rule wp_link_write [OF slave_port_contract, where A = "0x20000" and B = "0x20004"];
       simp add: store_def slave_port_prompt mem_read_def upt_rec wp_return)
  then have "r = 0" "smem (hw t) 0x20000 = 0xA5" using run by (simp_all add: wp_def)
  moreover have "smem (hw t) 0x9FC00 = 0"
    using shell_writes_confined [where cmd = "cmd_qcspi_write_fr sim_app", OF _ _ _ _ _ run, of sim_app smem slave_idle] slave_port_contract
    by (auto simp: CONFIG_RING_CTRL_BLOCK_ADDR_def dest: spec [of _ "0x9FC00"])
  ultimately show ?thesis using run by simp
qed

end
