(* ===== verification/App_Zephyr.thy ===== *)
theory App_Zephyr
  imports App_Common
begin

text \<open>
  The demo of the host under Zephyr, \<open>src/qcspi_app/qcc730_host/App/zephyr/src/main.c\<close> (names that other
  demos have as well end in \<open>_z\<close>): the commands on the SPI bus, the transport and the rings, the callback
  for received data, the burst test, and the start. What is only printed is left out, except that the
  packets shown are recorded.
\<close>

definition MAX_BUFFER_SIZE :: nat where "MAX_BUFFER_SIZE = 256"

text \<open>The error numbers of Zephyr beside those of the transport.\<close>

definition E2BIG :: int where "E2BIG = 7"
definition EAGAIN :: int where "EAGAIN = 11"
definition EIO :: int where "EIO = 5"
definition EBUSY :: int where "EBUSY = 16"
definition ENOMEM :: int where "ENOMEM = 12"

lemmas zephyr_errors = EINVAL_def ENODEV_def E2BIG_def EAGAIN_def EIO_def EBUSY_def ENOMEM_def

section \<open>State and services\<close>

text \<open>
  The services of Zephyr the demo calls itself. A transfer on the bus is given the frequency and the bytes;
  \<open>thread_create\<close> says whether there is a thread.
\<close>

record 'w zapp_port =
  zhost :: "'w host_port"
  app_uptime :: "'w \<Rightarrow> u32"
  app_usleep :: "'w \<Rightarrow> u32 \<Rightarrow> 'w"
  app_msleep :: "'w \<Rightarrow> u32 \<Rightarrow> 'w"
  spi_mutex_lock :: "'w \<Rightarrow> 'w"
  spi_mutex_unlock :: "'w \<Rightarrow> 'w"
  bus_transceive :: "'w \<Rightarrow> u32 \<Rightarrow> bytes \<Rightarrow> (int \<times> bytes) \<times> 'w"
  completion_init :: "'w \<Rightarrow> 'w"
  completion_give :: "'w \<Rightarrow> 'w"
  completion_take :: "'w \<Rightarrow> u32 \<Rightarrow> int \<times> 'w"
  thread_create :: "'w \<Rightarrow> bool \<times> 'w"
  thread_abort :: "'w \<Rightarrow> 'w"
  led_configure :: "'w \<Rightarrow> int \<times> 'w"
  led_set :: "'w \<Rightarrow> bool \<Rightarrow> 'w"
  spi1_ready :: "'w \<Rightarrow> bool"
  ring_gpio_ready :: "'w \<Rightarrow> bool"
  ring_gpio_configure :: "'w \<Rightarrow> int \<times> 'w"
  ring_gpio_add_callback :: "'w \<Rightarrow> int \<times> 'w"
  ring_gpio_interrupt_configure :: "'w \<Rightarrow> int \<times> 'w"

record zburst_params =
  zb_ring_id :: u8
  zb_count :: u32
  zb_size :: u32
  zb_running :: bool

datatype zdisplay = Z_String bytes | Z_Hex bytes

text \<open>\<open>zshown\<close> lists the packets \<open>print_received_data\<close> was called with, and how it showed them.\<close>

record 'w zdemo_st = "'w buffers_st" +
  spi_tx_buffer :: bytes
  spi_rx_buffer :: bytes
  led_state :: bool
  spi_cfg_frequency :: u32
  zburst :: zburst_params
  zshown :: "zdisplay list"
  zdemo_stuck :: bool

definition zservice :: "('w \<Rightarrow> 'w) \<Rightarrow> (('w, 'z) zdemo_st_scheme, unit) state" where
  "zservice f = modify (\<lambda>s. s\<lparr>hw := f (hw s)\<rparr>)"

definition zuptime :: "'w zapp_port \<Rightarrow> (('w, 'z) zdemo_st_scheme, u32) state" where
  "zuptime A = gets (\<lambda>s. app_uptime A (hw s))"

section \<open>Commands on the bus\<close>

text \<open>The callers pass no more bytes than the buffers hold.\<close>

definition spi_tx_rx :: "'w zapp_port \<Rightarrow> bytes \<Rightarrow> (('w, 'z) zdemo_st_scheme, int \<times> bytes) state" where
  "spi_tx_rx A tx = do {
     zservice (spi_mutex_lock A);
     when_m (length tx > MAX_BUFFER_SIZE) ub;
     modify (\<lambda>s. s\<lparr>spi_tx_buffer := store (spi_tx_buffer s) tx,
       spi_rx_buffer := store (spi_rx_buffer s) (replicate (length tx) 0)\<rparr>);
     f \<leftarrow> gets spi_cfg_frequency;
     (r, rx) \<leftarrow> below (\<lambda>w. bus_transceive A w f tx);
     modify (\<lambda>s. s\<lparr>spi_rx_buffer := store (spi_rx_buffer s) (take (length tx) rx)\<rparr>);
     b \<leftarrow> gets spi_rx_buffer;
     zservice (spi_mutex_unlock A);
     State_Monad.return (if r < 0 then (r, []) else (0, take (length tx) b))
   }"

text \<open>With the bytes received, which are printed.\<close>

definition cmd_spi_send_hex :: "'w zapp_port \<Rightarrow> string list \<Rightarrow> (('w, 'z) zdemo_st_scheme, int \<times> bytes) state" where
  "cmd_spi_send_hex A argv =
     (if length argv \<noteq> 2 then State_Monad.return (- EINVAL, [])
      else do {
        hex \<leftarrow> arg argv 1;
        let (byte_count, tx) = hex_to_bytes EINVAL E2BIG hex MAX_BUFFER_SIZE;
        if byte_count < 0 then State_Monad.return (byte_count, [])
        else spi_tx_rx A tx
      })"

definition cmd_spi_config_freq :: "string list \<Rightarrow> (('w, 'z) zdemo_st_scheme, int) state" where
  "cmd_spi_config_freq argv =
     (if length argv \<noteq> 2 then State_Monad.return (- EINVAL)
      else do {
        a \<leftarrow> arg argv 1;
        let freq = fst (strtoul a 10);
        if freq = 0 \<or> freq > 20000000 then State_Monad.return (- EINVAL)
        else do { modify (\<lambda>s. s\<lparr>spi_cfg_frequency := freq\<rparr>); State_Monad.return 0 }
      })"

section \<open>Commands on the transport\<close>

definition cmd_qcspi_init_z :: "'w zapp_port \<Rightarrow> string list \<Rightarrow> (('w, 'z) zdemo_st_scheme, int) state" where
  "cmd_qcspi_init_z A argv = do {
     dev \<leftarrow> qcspi_transport_get_device;
     if \<not> dev then State_Monad.return (- ENODEV)
     else do { _ \<leftarrow> qcspi_get_slaveid (zhost A); State_Monad.return 0 }
   }"

text \<open>With the bytes read, which are printed.\<close>

definition cmd_qcspi_read_z :: "'w zapp_port \<Rightarrow> string list \<Rightarrow> (('w, 'z) zdemo_st_scheme, int \<times> bytes) state" where
  "cmd_qcspi_read_z A argv =
     (if length argv \<noteq> 3 then State_Monad.return (- EINVAL, [])
      else do {
        dev \<leftarrow> qcspi_transport_get_device;
        if \<not> dev then State_Monad.return (- ENODEV, [])
        else do {
          addr \<leftarrow> number argv 1;
          len \<leftarrow> number argv 2;
          if len = 0 \<or> unat len > MAX_BUFFER_SIZE then State_Monad.return (- EINVAL, [])
          else do {
            (r, d) \<leftarrow> ring_transport_read (zhost A) True addr len;
            State_Monad.return (if r < 0 then (r, []) else (0, d))
          }
        }
      })"

definition cmd_qcspi_write_z :: "'w zapp_port \<Rightarrow> string list \<Rightarrow> (('w, 'z) zdemo_st_scheme, int) state" where
  "cmd_qcspi_write_z A argv =
     (if length argv \<noteq> 3 then State_Monad.return (- EINVAL)
      else do {
        dev \<leftarrow> qcspi_transport_get_device;
        if \<not> dev then State_Monad.return (- ENODEV)
        else do {
          addr \<leftarrow> number argv 1;
          hex \<leftarrow> arg argv 2;
          let (len, bs) = hex_to_bytes EINVAL E2BIG hex MAX_BUFFER_SIZE;
          if len < 0 then State_Monad.return len
          else do {
            r \<leftarrow> ring_transport_write (zhost A) addr (Some bs) (of_int len);
            State_Monad.return (if r < 0 then r else 0)
          }
        }
      })"

definition cmd_qcspi_reg_read_z :: "'w zapp_port \<Rightarrow> string list \<Rightarrow> (('w, 'z) zdemo_st_scheme, int \<times> u32 option) state" where
  "cmd_qcspi_reg_read_z A argv =
     (if length argv \<noteq> 2 then State_Monad.return (- EINVAL, None)
      else do {
        dev \<leftarrow> qcspi_transport_get_device;
        if \<not> dev then State_Monad.return (- ENODEV, None)
        else do {
          a \<leftarrow> number argv 1;
          (r, v) \<leftarrow> ring_transport_reg_read (zhost A) True (ucast a);
          State_Monad.return (if r < 0 then (r, None) else (0, v))
        }
      })"

definition cmd_qcspi_reg_write_z :: "'w zapp_port \<Rightarrow> string list \<Rightarrow> (('w, 'z) zdemo_st_scheme, int) state" where
  "cmd_qcspi_reg_write_z A argv =
     (if length argv \<noteq> 3 then State_Monad.return (- EINVAL)
      else do {
        dev \<leftarrow> qcspi_transport_get_device;
        if \<not> dev then State_Monad.return (- ENODEV)
        else do {
          a \<leftarrow> number argv 1;
          reg_val \<leftarrow> number argv 2;
          r \<leftarrow> ring_transport_reg_write (zhost A) (ucast a) reg_val;
          State_Monad.return (if r < 0 then r else 0)
        }
      })"

definition cmd_qcspi_interrupt_z :: "'w zapp_port \<Rightarrow> string list \<Rightarrow> (('w, 'z) zdemo_st_scheme, int) state" where
  "cmd_qcspi_interrupt_z A argv = do {
     dev \<leftarrow> qcspi_transport_get_device;
     if \<not> dev then State_Monad.return (- ENODEV)
     else do { r \<leftarrow> ring_transport_interrupt (zhost A); State_Monad.return (if r < 0 then r else 0) }
   }"

definition cmd_qcspi_reset_z :: "'w zapp_port \<Rightarrow> string list \<Rightarrow> (('w, 'z) zdemo_st_scheme, int) state" where
  "cmd_qcspi_reset_z A argv = do {
     dev \<leftarrow> qcspi_transport_get_device;
     if \<not> dev then State_Monad.return (- ENODEV)
     else do { r \<leftarrow> ring_transport_reset (zhost A); State_Monad.return (if r < 0 then r else 0) }
   }"

definition cmd_qcspi_test_transfer_z :: "'w zapp_port \<Rightarrow> string list \<Rightarrow> (('w, 'z) zdemo_st_scheme, int) state" where
  "cmd_qcspi_test_transfer_z A argv =
     (if length argv \<noteq> 4 then State_Monad.return (- EINVAL)
      else do {
        dev \<leftarrow> qcspi_transport_get_device;
        if \<not> dev then State_Monad.return (- ENODEV)
        else do {
          addr \<leftarrow> number argv 1;
          sz \<leftarrow> number argv 2;
          count \<leftarrow> number argv 3;
          if sz = 0 \<or> sz > 2048 then State_Monad.return (- EINVAL)
          else if count = 0 \<or> count > 100000 then State_Monad.return (- EINVAL)
          else do {
            modify (\<lambda>s. s\<lparr>test_buffer := store (test_buffer s) (pattern (unat sz))\<rparr>);
            start_time \<leftarrow> zuptime A;
            c \<leftarrow> transfer_rounds (write_test_buffer (zhost A) addr sz) sz (unat count) no_packets;
            now \<leftarrow> zuptime A;
            transfer_result EIO (now - start_time) c
          }
        }
      })"

section \<open>Commands on the rings\<close>

definition cmd_ring_status_z :: "'w zapp_port \<Rightarrow> string list \<Rightarrow> (('w, 'z) zdemo_st_scheme, int \<times> status_line list) state" where
  "cmd_ring_status_z A argv = do {
     (ls, endless) \<leftarrow> ring_status_lines (zhost A) EINVAL;
     when_m endless (modify (\<lambda>s. s\<lparr>zdemo_stuck := True\<rparr>));
     State_Monad.return (0, ls)
   }"

definition cmd_ring_send_z :: "'w zapp_port \<Rightarrow> string list \<Rightarrow> (('w, 'z) zdemo_st_scheme, int) state" where
  "cmd_ring_send_z A argv =
     (if length argv < 3 then State_Monad.return (- EINVAL)
      else with_ring EINVAL argv (send_text (zhost A) (drop 2 argv)))"

definition cmd_ring_send_hex_z :: "'w zapp_port \<Rightarrow> string list \<Rightarrow> (('w, 'z) zdemo_st_scheme, int) state" where
  "cmd_ring_send_hex_z A argv =
     (if length argv \<noteq> 3 then State_Monad.return (- EINVAL)
      else with_ring EINVAL argv (send_hex (zhost A) EINVAL E2BIG argv))"

definition cmd_ring_send_pattern_z :: "'w zapp_port \<Rightarrow> string list \<Rightarrow> (('w, 'z) zdemo_st_scheme, int) state" where
  "cmd_ring_send_pattern_z A argv =
     (if length argv \<noteq> 3 then State_Monad.return (- EINVAL)
      else with_ring EINVAL argv (send_pattern (zhost A) EINVAL argv))"

section \<open>Received data\<close>

definition print_received_data_z :: "bytes \<Rightarrow> (('w, 'z) zdemo_st_scheme, unit) state" where
  "print_received_data_z data =
     modify (\<lambda>s. s\<lparr>zshown := zshown s @ [if is_printable data then Z_String data else Z_Hex data]\<rparr>)"

definition ring_host_rx_callback_z :: "'w zapp_port \<Rightarrow> nat \<Rightarrow> u8 \<Rightarrow> (('w, 'z) zdemo_st_scheme, unit) state" where
  "ring_host_rx_callback_z A n ring_id = do {
     x \<leftarrow> drain (recv_packet (zhost A) ring_id)
       (\<lambda>r. when_m (ring_id = RING_LOOPBACK) (do {
          b \<leftarrow> gets recv_buffer;
          print_received_data_z (take (nat r) b)
        }))
       (\<lambda>k. State_Monad.return ()) n 0;
     when_m (x = None) (modify (\<lambda>s. s\<lparr>zdemo_stuck := True\<rparr>))
   }"

definition ring_gpio_isr :: "'w zapp_port \<Rightarrow> (('w, 'z) zdemo_st_scheme, unit) state" where
  "ring_gpio_isr A = ring_rx_handler (zhost A)"

section \<open>The burst test\<close>

definition zset_running :: "bool \<Rightarrow> (('w, 'z) zdemo_st_scheme, unit) state" where
  "zset_running b = modify (\<lambda>s. s\<lparr>zburst := (zburst s)\<lparr>zb_running := b\<rparr>\<rparr>)"

text \<open>
  One packet: up to a hundred attempts while the result is Zephyr's \<open>-EAGAIN\<close>. A count of zero makes the
  size a duration. \<open>others\<close> is what the other threads do while this one yields.
\<close>

definition burst_attempt :: "'w zapp_port \<Rightarrow> u8 \<Rightarrow> u32 \<Rightarrow> (('w, 'z) zdemo_st_scheme, int) state" where
  "burst_attempt A ring_id sz = do {
     (r, retries) \<leftarrow> send_retrying (do { b \<leftarrow> gets send_buffer; ring_send (zhost A) ring_id (Some b) sz 10 })
       (zservice (\<lambda>w. app_usleep A w 10)) EAGAIN 100 0;
     State_Monad.return r
   }"

definition burst_test_thread_z ::
  "'w zapp_port \<Rightarrow> (('w, 'z) zdemo_st_scheme, unit) state \<Rightarrow> nat \<Rightarrow> (('w, 'z) zdemo_st_scheme, burst_counts option) state" where
  "burst_test_thread_z A others n = do {
     p \<leftarrow> gets zburst;
     start_time \<leftarrow> zuptime A;
     let time_based = (zb_count p = 0);
     let sz = (if time_based then 1500 else zb_size p);
     x \<leftarrow> burst_loop (gets (\<lambda>s. zb_running (zburst s)))
       (\<lambda>c. do { now \<leftarrow> zuptime A;
         State_Monad.return (if time_based then now - start_time \<ge> zb_size p else packet_index c \<ge> zb_count p) })
       (burst_attempt A (zb_ring_id p) sz) others sz n no_packets;
     case x of
       None \<Rightarrow> do { modify (\<lambda>s. s\<lparr>zdemo_stuck := True\<rparr>); State_Monad.return None }
     | Some c \<Rightarrow> do { zset_running False; zservice (completion_give A); State_Monad.return (Some c) }
   }"

text \<open>\<open>burst\<close> is what the new thread and all others do while the command waits for its end.\<close>

definition cmd_ring_send_burst_z ::
  "'w zapp_port \<Rightarrow> (('w, 'z) zdemo_st_scheme, unit) state \<Rightarrow> string list \<Rightarrow> (('w, 'z) zdemo_st_scheme, int) state" where
  "cmd_ring_send_burst_z A burst argv =
     (if length argv \<noteq> 4 then State_Monad.return (- EINVAL)
      else with_ring EINVAL argv (\<lambda>ring_id. do {
        count \<leftarrow> number argv 2;
        sz \<leftarrow> number argv 3;
        p \<leftarrow> gets zburst;
        if count = 0 \<and> (sz = 0 \<or> sz > 36000000) then State_Monad.return (- EINVAL)
        else if count > 100000 then State_Monad.return (- EINVAL)
        else if count \<noteq> 0 \<and> (sz = 0 \<or> sz > 1500) then State_Monad.return (- EINVAL)
        else if zb_running p then State_Monad.return (- EBUSY)
        else do {
          modify (\<lambda>s. s\<lparr>zburst := \<lparr>zb_ring_id = ring_id, zb_count = count, zb_size = sz, zb_running = True\<rparr>\<rparr>);
          zservice (completion_init A);
          ok \<leftarrow> below (thread_create A);
          if \<not> ok then do { zset_running False; State_Monad.return (- ENOMEM) }
          else do {
            burst;
            r \<leftarrow> below (\<lambda>w. completion_take A w (if count = 0 then sz div 1000 + 30 else 300));
            if r \<noteq> 0 then do {
              zset_running False;
              zservice (thread_abort A);
              State_Monad.return r
            } else State_Monad.return 0
          }
        }
      }))"

section \<open>Start\<close>

text \<open>The interrupt of the slave; failures are only logged.\<close>

definition setup_ring_gpio :: "'w zapp_port \<Rightarrow> (('w, 'z) zdemo_st_scheme, unit) state" where
  "setup_ring_gpio A = do {
     ready \<leftarrow> gets (\<lambda>s. ring_gpio_ready A (hw s));
     when_m ready (do {
       r \<leftarrow> below (ring_gpio_configure A);
       when_m (\<not> r < 0) (do {
         r \<leftarrow> below (ring_gpio_add_callback A);
         when_m (\<not> r < 0) (do { _ \<leftarrow> below (ring_gpio_interrupt_configure A); State_Monad.return () })
       })
     })
   }"

text \<open>
  \<open>main\<close> up to its endless loop: \<open>Some\<close> where it returns. \<open>gpio_is_ready_dt\<close> returns a \<open>bool\<close>, which is
  never negative, so that its result is not asked for.
\<close>

definition main_start_z :: "'w zapp_port \<Rightarrow> (('w, 'z) zdemo_st_scheme, int option) state" where
  "main_start_z A = do {
     modify (\<lambda>s. s\<lparr>spi_tx_buffer := replicate MAX_BUFFER_SIZE 0, spi_rx_buffer := replicate MAX_BUFFER_SIZE 0,
       led_state := False\<rparr>);
     r \<leftarrow> below (led_configure A);
     if r < 0 then State_Monad.return (Some r)
     else do {
       ready \<leftarrow> gets (\<lambda>s. spi1_ready A (hw s));
       if \<not> ready then State_Monad.return (Some (- ENODEV))
       else do {
         _ \<leftarrow> init_qring (zhost A);
         _ \<leftarrow> ring_register_callback True;
         setup_ring_gpio A;
         State_Monad.return None
       }
     }
   }"

definition main_turn_z :: "'w zapp_port \<Rightarrow> (('w, 'z) zdemo_st_scheme, unit) state" where
  "main_turn_z A = do {
     zservice (\<lambda>w. app_msleep A w 200);
     modify (\<lambda>s. s\<lparr>led_state := \<not> led_state s\<rparr>);
     b \<leftarrow> gets led_state;
     zservice (\<lambda>w. led_set A w b)
   }"

end
