(* ===== verification/Ring_Frame.thy ===== *)
theory Ring_Frame
  imports Ring_Service
begin

text \<open>
  What sending, receiving and asking for room leave alone: a predicate that depends neither on the world
  below, nor on the indices of the cached control block, nor on the statistics or the fault is kept by them.
\<close>

section \<open>The interface\<close>

locale ring_frame =
  fixes I :: "('w, 'z) ring_st_scheme \<Rightarrow> bool"
  assumes frame_hw: "I (s\<lparr>hw := w\<rparr>) = I s"
    and frame_rings: "I (s\<lparr>rings := rs\<rparr>) = I s"
    and frame_fault: "I (s\<lparr>ring_fault := b\<rparr>) = I s"
    and frame_cache: "I (s\<lparr>ctrl_cache := (ctrl_cache s)\<lparr>tx_rd_idx := xs\<rparr>\<rparr>) = I s"
      "I (s\<lparr>ctrl_cache := (ctrl_cache s)\<lparr>tx_wr_idx := xs\<rparr>\<rparr>) = I s"
      "I (s\<lparr>ctrl_cache := (ctrl_cache s)\<lparr>rx_rd_idx := xs\<rparr>\<rparr>) = I s"
begin

lemma keeps_below [keeps_intros]: "keeps I (below f)"
  by (unfold below_def Let_def, intro keeps_intros) (simp add: keeps_modify frame_hw)

lemma keeps_delays [keeps_intros]: "keeps I (delay_us P n)" "keeps I (delay_ms P n)"
  by (simp_all add: delay_us_def delay_ms_def keeps_modify frame_hw)

lemma keeps_locks [keeps_intros]: "keeps I (mutex_lock P m timeout)" "keeps I (mutex_unlock P m)"
  by (unfold mutex_lock_def mutex_unlock_def) (intro keeps_intros)+

lemma keeps_ub [keeps_intros]: "keeps I ub"
  by (simp add: ub_def keeps_modify frame_fault)

lemma keeps_stats [keeps_intros]: "keeps I (upd_stats i f)"
  by (simp add: upd_stats_def keeps_modify frame_rings)

lemma keeps_indices [keeps_intros]:
  "keeps I (upd_ctrl (\<lambda>c. c\<lparr>tx_rd_idx := f c\<rparr>))" "keeps I (upd_ctrl (\<lambda>c. c\<lparr>tx_wr_idx := f c\<rparr>))"
  "keeps I (upd_ctrl (\<lambda>c. c\<lparr>rx_rd_idx := f c\<rparr>))"
  by (simp_all add: upd_ctrl_def keeps_modify frame_cache)

section \<open>The link\<close>

lemma keeps_spi [keeps_intros]: "keeps I (spi_transceive P tx hold)" "keeps I (qcspi_transfer_sg P tx)" "keeps I (qcspi_transfer P tx)"
  by (unfold spi_transceive_def qcspi_transfer_sg_def qcspi_transfer_def) (intro keeps_intros)+

lemma keeps_registers [keeps_intros]: "keeps I (qcspi_RDSR P)" "keeps I (qcspi_IRR P reg)" "keeps I (qcspi_IRW P reg v)"
  by (unfold qcspi_RDSR_def qcspi_IRR_def qcspi_IRW_def) (intro keeps_intros)+

lemma keeps_wait [keeps_intros]: "keeps I (qcspi_wait P retry)"
  by (induction P retry rule: qcspi_wait.induct) (subst qcspi_wait.simps, intro keeps_intros, simp_all)

lemma keeps_words [keeps_intros]: "keeps I (qcspi_read P n a)" "keeps I (qcspi_write P n a bs)"
  by (unfold qcspi_read_def qcspi_write_def) (intro keeps_intros)+

lemma keeps_align [keeps_intros]: "keeps I (qcspi_read_addr_align P n a)" "keeps I (qcspi_write_addr_align P n a bs)"
  by (unfold qcspi_read_addr_align_def read_last_def qcspi_write_addr_align_def write_last_def Let_def) (intro keeps_intros)+

lemma keeps_interrupt [keeps_intros]: "keeps I (qcspi_interrupt P)"
  by (unfold qcspi_interrupt_def Let_def) (intro keeps_intros)

lemma keeps_transport [keeps_intros]:
  "keeps I (ring_transport_read P ptr a n)" "keeps I (ring_transport_write P a d n)" "keeps I (ring_transport_interrupt P)"
  by (unfold ring_transport_read_def qcspi_transport_read_def ring_transport_write_def qcspi_transport_write_def
      ring_transport_interrupt_def qcspi_transport_interrupt_def) (intro keeps_intros)+

section \<open>The service\<close>

lemma keeps_ring_check [keeps_intros]: "keeps I (ring_check i)"
  by (unfold ring_check_def) (intro keeps_intros)

lemma keeps_index [keeps_intros]: "keeps I (read_index P off i)" "keeps I (write_index P off i v)"
  by (unfold read_index_def write_index_def) (intro keeps_intros)+

lemma keeps_tx_parts [keeps_intros]:
  "keeps I (tx_done P i r)" "keeps I (tx_find_space P i)" "keeps I (tx_publish P i wr bs len)"
  by (unfold tx_done_def tx_find_space_def tx_publish_def Let_def) (intro keeps_intros)+

lemma keeps_ring_send: "keeps I (ring_send P i data len timeout)"
  by (unfold ring_send_def) (intro keeps_intros)

lemma keeps_rx_parts [keeps_intros]:
  "keeps I (rx_done P i r)" "keeps I (rx_error P i r)" "keeps I (rx_await P i timeout)"
  by (unfold rx_done_def rx_error_def rx_await_def Let_def) (intro keeps_intros)+

lemma keeps_rx_take [keeps_intros]: "keeps I (rx_take P i max_len rd)"
  by (unfold rx_take_def rx_release_def Let_def) (intro keeps_intros)

lemma keeps_ring_recv: "keeps I (ring_recv P i ptr max_len timeout)"
  by (unfold ring_recv_def) (intro keeps_intros)

end

section \<open>What stays the same\<close>

text \<open>The configuration of the rings and everything a program adds to the state of the service.\<close>

definition ring_rest :: "('w, 'z) ring_st_scheme \<Rightarrow> bool \<times> bool \<times> u32 \<times> u32 \<times> ring_control_block \<times> bool \<times> 'z" where
  "ring_rest s = (transport_initialized s, ring_initialized s, g_num_rings s, ctrl_block_addr s,
     (ctrl_cache s)\<lparr>tx_rd_idx := [], tx_wr_idx := [], rx_rd_idx := []\<rparr>, callback s, ring_st.more s)"

interpretation rest_frame: ring_frame "\<lambda>s :: ('w, 'z) ring_st_scheme. ring_rest s = x" for x
  by unfold_locales (simp_all add: ring_rest_def)

lemma wp_of_keeps: "keeps I m \<Longrightarrow> I s \<Longrightarrow> wp m (\<lambda>_. I) s"
  by (simp add: keeps_def wp_def split: prod.split) (metis snd_conv)

lemma send_keeps_rest: "wp (ring_send P i data len timeout) (\<lambda>_ t. ring_rest t = ring_rest s) s"
  by (rule wp_of_keeps [OF rest_frame.keeps_ring_send]) (rule refl)

lemma recv_keeps_rest: "wp (ring_recv P i ptr max_len timeout) (\<lambda>_ t. ring_rest t = ring_rest s) s"
  by (rule wp_of_keeps [OF rest_frame.keeps_ring_recv]) (rule refl)

end
