(* ===== verification/App_Ring_Proofs.thy ===== *)
theory App_Ring_Proofs
  imports App_Write_Proofs App_Common App_Zephyr Ring_Frame Ring_Rx_Channel
begin

text \<open>
  The loops of the demos over the rings: the callback for received data empties its ring, the burst test in
  packets ends after the packets it was asked for, and the retries of the Zephyr demo never happen.
\<close>

section \<open>What a call of the service leaves of a program's state\<close>

lemma same_demo:
  fixes s t :: "('w, 'z) demo_st_scheme"
  assumes "ring_st.more t = ring_st.more s"
  shows "burst_params t = burst_params s" "shown t = shown s" "demo_stuck t = demo_stuck s"
  using assms by (cases s, cases t, simp)+

lemma rest_demo:
  fixes s t :: "('w, 'z) demo_st_scheme"
  assumes "ring_rest t = ring_rest s"
  shows "burst_params t = burst_params s" "shown t = shown s" "demo_stuck t = demo_stuck s"
  using assms by (auto intro!: same_demo simp: ring_rest_def)

lemma rest_may_recv: "ring_rest t = ring_rest s \<Longrightarrow> may_recv t i n = may_recv s i n"
  by (auto simp: ring_rest_def may_recv_def dest: arg_cong [where f = ring_status])

section \<open>Received data\<close>

text \<open>A ring that holds the messages \<open>msgs\<close> and can be received from.\<close>

definition holds_msgs :: "('w \<Rightarrow> u32 \<Rightarrow> u8) \<Rightarrow> ('w \<Rightarrow> bool) \<Rightarrow> u8 \<Rightarrow> bytes list \<Rightarrow> ('w, 'z) ring_st_scheme \<Rightarrow> bool" where
  "holds_msgs mem idle i msgs s \<longleftrightarrow> idle (hw s) \<and> transport_initialized s \<and> may_recv s i 1500
     \<and> rx_inv (mem (hw s)) (ctrl_block_addr s) (ctrl_cache s) i
     \<and> rx_queue (mem (hw s)) (ctrl_block_addr s) (ctrl_cache s) i = msgs"

definition prompt_ring :: "'w host_port \<Rightarrow> ('w \<Rightarrow> u32 \<Rightarrow> u8) \<Rightarrow> ('w \<Rightarrow> bool) \<Rightarrow> bool" where
  "prompt_ring P mem idle \<longleftrightarrow> spi_slave P mem idle \<and> spi_prompt P \<and> locks_free P"

lemma rx_first_front:
  assumes "rx_inv m cb c i" "rx_queue m cb c i = msg # msgs"
  shows "rx_first m c i = msg"
  using assms(2) in_use_take [OF rx_inv_facts(4,5) [OF assms(1)]] rx_inv_facts(4) [OF assms(1)]
  by (auto simp: rx_first_def rx_queue_def ring_queue_def Cons_eq_map_conv upt_eq_Cons_conv)

lemma recv_front:
  assumes P: "prompt_ring P mem idle" and s: "holds_msgs mem idle i (msg # msgs) s" and msg: "msg \<noteq> []" "length msg \<le> 1500"
  shows "wp (ring_recv P i True 1500 0) (\<lambda>x t. x = (int (length msg), msg) \<and> holds_msgs mem idle i msgs t
    \<and> ring_rest t = ring_rest s) s"
proof (rule wp_mono [OF wp_conj [OF _ recv_keeps_rest]])
  note h = s [unfolded holds_msgs_def]
  show "wp (ring_recv P i True 1500 0) (recv_post P mem idle s i 1500) s"
    using wp_ring_recv [of P mem idle s i 0 1500] h P by (simp add: prompt_ring_def)
  fix x and t :: "('a, 'b) ring_st_scheme"
  assume t: "recv_post P mem idle s i 1500 x t \<and> ring_rest t = ring_rest s"
  have first: "rx_first (mem (hw s)) (ctrl_cache s) i = msg" using h rx_first_front by metis
  have cb: "ctrl_block_addr t = ctrl_block_addr s" using t by (simp add: ring_rest_def)
  have "fst x = int (length msg)"
    using t P h msg unfolding recv_post_def Let_def first prompt_ring_def by auto
  then show "x = (int (length msg), msg) \<and> holds_msgs mem idle i msgs t \<and> ring_rest t = ring_rest s"
    using t h cb rest_may_recv [of t s i 1500] unfolding recv_post_def Let_def first holds_msgs_def
    by (cases x) auto
qed

lemma recv_nothing:
  assumes P: "prompt_ring P mem idle" and s: "holds_msgs mem idle i [] s"
  shows "wp (ring_recv P i True 1500 0) (\<lambda>x t. \<not> 0 < fst x \<and> holds_msgs mem idle i [] t \<and> ring_rest t = ring_rest s) s"
proof (rule wp_mono [OF wp_conj [OF wp_ring_recv [of P mem idle s i 0 1500] recv_keeps_rest]], goal_cases)
  case (6 x t)
  then show ?case
    using s rest_may_recv [of t s i 1500] by (auto simp: holds_msgs_def ring_untouched_def)
qed (use P s in \<open>simp_all add: prompt_ring_def holds_msgs_def QC_OSAL_TIMEOUT_NO_WAIT_def\<close>)

text \<open>The turns of the loop around a receive.\<close>

definition displayed :: "u8 \<Rightarrow> bytes list \<Rightarrow> display list" where
  "displayed ring_id msgs = (if ring_id = RING_LOOPBACK
     then map (\<lambda>m. if is_printable m then As_String m else As_Hex m) msgs else [])"

lemma displayed_simps: "displayed i [] = []" "displayed i (m # ms) = displayed i [m] @ displayed i ms"
  by (simp_all add: displayed_def)

definition shows_msgs ::
  "('w \<Rightarrow> u32 \<Rightarrow> u8) \<Rightarrow> ('w \<Rightarrow> bool) \<Rightarrow> u8 \<Rightarrow> bytes list \<Rightarrow> display list \<Rightarrow> bool \<Rightarrow> ('w, 'z) demo_st_scheme \<Rightarrow> bool" where
  "shows_msgs mem idle i msgs ds stuck s \<longleftrightarrow> holds_msgs mem idle i msgs s \<and> shown s = ds \<and> demo_stuck s = stuck"

lemma shows_msgs_hw:
  "shows_msgs mem idle i msgs ds b s \<Longrightarrow> idle w \<Longrightarrow> mem w = mem (hw s) \<Longrightarrow> shows_msgs mem idle i msgs ds b (s\<lparr>hw := w\<rparr>)"
  by (simp add: shows_msgs_def holds_msgs_def may_recv_def)

lemma shows_msgs_shown:
  "shows_msgs mem idle i msgs ds b s \<Longrightarrow> shows_msgs mem idle i msgs (f ds) b (s\<lparr>shown := f (shown s)\<rparr>)"
  by (simp add: shows_msgs_def holds_msgs_def may_recv_def)

lemma shows_msgs_buffer:
  "shows_msgs mem idle i msgs ds b s \<Longrightarrow> shows_msgs mem idle i msgs ds b (s\<lparr>recv_buffer := bs\<rparr>)"
  by (simp add: shows_msgs_def holds_msgs_def may_recv_def)

lemma shows_after_recv:
  fixes s t :: "('w, 'z) demo_st_scheme"
  assumes "holds_msgs mem idle i msgs t" "ring_rest t = ring_rest s" "shows_msgs mem idle i msgs' ds b s"
  shows "shows_msgs mem idle i msgs ds b (t\<lparr>recv_buffer := bs\<rparr>)"
  using shows_msgs_buffer [of mem idle i msgs ds b t bs] assms(1,3) rest_demo [OF assms(2)] by (simp add: shows_msgs_def)

lemma wp_delay:
  fixes s :: "('w, 'z) demo_st_scheme"
  assumes "spi_slave P mem idle" "shows_msgs mem idle i msgs ds b s"
    and "\<And>w. shows_msgs mem idle i msgs ds b (s\<lparr>hw := w\<rparr>) \<Longrightarrow> Q () (s\<lparr>hw := w\<rparr>)"
  shows "wp (delay_ms P n) Q s"
  by (rule wp_quiet [OF quiet_services(4) [OF assms(1)]])
    (use assms(2,3) in \<open>auto simp: shows_msgs_def holds_msgs_def may_recv_def\<close>)

definition demo_turns :: "'w app_port \<Rightarrow> ('w \<Rightarrow> u32 \<Rightarrow> u8) \<Rightarrow> ('w \<Rightarrow> bool) \<Rightarrow> u8 \<Rightarrow> display list \<Rightarrow> bool \<Rightarrow>
    bytes list \<Rightarrow> bytes list \<Rightarrow> ('w, 'z) demo_st_scheme \<Rightarrow> bool" where
  "demo_turns A mem idle i ds b msgs got s \<longleftrightarrow> prompt_ring (host A) mem idle
     \<and> shows_msgs mem idle i msgs (ds @ displayed i got) b s"

lemma displayed_append: "displayed i (xs @ ys) = displayed i xs @ displayed i ys"
  by (simp add: displayed_def)

lemma prompt_slave: "prompt_ring P mem idle \<Longrightarrow> spi_slave P mem idle"
  by (simp add: prompt_ring_def)

lemma print_turns:
  fixes s :: "('w, 'z) demo_st_scheme"
  assumes "demo_turns A mem idle RING_LOOPBACK ds b ms got s"
  shows "wp (print_received_data_fr A m) (\<lambda>_. demo_turns A mem idle RING_LOOPBACK ds b ms (got @ [m])) s"
  unfolding print_received_data_fr_def wp_bind wp_modify
proof (rule wp_delay [OF prompt_slave])
  show "prompt_ring (host A) mem idle" "shows_msgs mem idle RING_LOOPBACK ms (ds @ displayed RING_LOOPBACK got) b s"
    using assms by (simp_all add: demo_turns_def)
  fix w
  assume "shows_msgs mem idle RING_LOOPBACK ms (ds @ displayed RING_LOOPBACK got) b (s\<lparr>hw := w\<rparr>)"
  from shows_msgs_shown [OF this, of "\<lambda>ds. ds @ displayed RING_LOOPBACK [m]"]
  show "demo_turns A mem idle RING_LOOPBACK ds b ms (got @ [m]) (s\<lparr>hw := w, shown := shown (s\<lparr>hw := w\<rparr>)
      @ [if is_printable m then As_String m else As_Hex m]\<rparr>)"
    using assms unfolding demo_turns_def displayed_append append_assoc by (simp only: displayed_def list.map if_True) simp
qed

interpretation demo_drain: drained "recv_packet (host A) i"
  "\<lambda>r. when_m (i = RING_LOOPBACK) (do { b \<leftarrow> gets recv_buffer; print_received_data_fr A (take (nat r) b) })"
  "\<lambda>k. when_m (k > 0 \<and> k mod 10 = 0) (delay_ms (host A) 3)"
  "demo_turns A mem idle i ds b"
  "\<lambda>m ms got r s. r = int (length m) \<and> take (length m) (recv_buffer s) = m \<and> demo_turns A mem idle i ds b ms got s"
  for A mem idle i ds b
proof (unfold_locales, goal_cases)
  case (1 m ms got s)
  then have "prompt_ring (host A) mem idle" "holds_msgs mem idle i (m # ms) s"
    by (simp_all add: demo_turns_def shows_msgs_def)
  note front = recv_front [OF this 1(2,3)]
  show ?case
    unfolding recv_packet_def wp_bind
    by (rule wp_mono [OF front])
      (use 1 in \<open>auto simp: wp_simps store_def demo_turns_def intro: shows_after_recv\<close>)
next
  case (2 got s)
  then have "prompt_ring (host A) mem idle" "holds_msgs mem idle i [] s"
    by (simp_all add: demo_turns_def shows_msgs_def)
  note none = recv_nothing [OF this]
  show ?case
    unfolding recv_packet_def wp_bind
    by (rule wp_mono [OF none])
      (use 2 in \<open>auto simp: wp_simps demo_turns_def intro: shows_after_recv\<close>)
next
  case (3 m ms got r s)
  then show ?case
    using print_turns [of A mem idle ds b ms got s m]
    by (cases "i = RING_LOOPBACK") (auto simp: wp_simps demo_turns_def displayed_append, simp add: displayed_def)
next
  case (4 ms got s k)
  then show ?case
    by (auto simp: wp_when_m demo_turns_def intro: wp_delay [OF prompt_slave])
qed

text \<open>
  C12: With a slave that answers, free locks and enough turns, the callback for received data takes every
  message out of its ring, each once and in order, shows those of the loopback ring as text or as
  hexadecimal digits, and ends.
\<close>

theorem rx_callback_drains:
  assumes "prompt_ring (host A) mem idle" and "holds_msgs mem idle ring_id msgs s"
    and "\<forall>m \<in> set msgs. m \<noteq> [] \<and> length m \<le> 1500" and "length msgs < n"
    and "run_state (ring_host_rx_callback_fr A n ring_id) s = ((), t)"
  shows "holds_msgs mem idle ring_id [] t \<and> shown t = shown s @ displayed ring_id msgs \<and> demo_stuck t = demo_stuck s"
proof -
  have "demo_turns A mem idle ring_id (shown s) (demo_stuck s) msgs [] s"
    using assms(1,2) by (simp add: demo_turns_def shows_msgs_def displayed_def)
  note ends = demo_drain.drain_ends [OF this assms(3,4)]
  have "wp (ring_host_rx_callback_fr A n ring_id)
      (\<lambda>_. demo_turns A mem idle ring_id (shown s) (demo_stuck s) [] ([] @ msgs)) s"
    unfolding ring_host_rx_callback_fr_def wp_bind
    by (rule wp_mono [OF ends]) (auto simp: wp_when_m)
  from wpD [OF this assms(5)] show ?thesis by (simp add: demo_turns_def shows_msgs_def)
qed

section \<open>The burst test\<close>

lemma send_keeps_burst: "wp (ring_send P i data len timeout) (\<lambda>_ t. burst_params t = burst_params s) s"
  for s :: "('w, 'z) demo_st_scheme"
  by (rule wp_mono [OF send_keeps_rest]) (rule rest_demo)

text \<open>
  C21: Started with a count of packets, the burst test of the FreeRTOS demo ends: unless another thread changes
  its parameters it sends exactly that many packets, whatever becomes of each, counts every one as a success
  or a failure and the bytes of the successes, and clears its flag.
\<close>

theorem burst_count_ends:
  assumes "bp_mode (burst_params s) = BURST_MODE_COUNT" and "bp_running (burst_params s)"
    and "fst (qc_osal_malloc A (hw s) (bp_size (burst_params s)))"
    and "\<And>u. burst_params (snd (run_state others u)) = burst_params u"
    and "unat (bp_value (burst_params s)) < n"
    and "run_state (burst_test_thread_fr A others n) s = (x, t)"
  shows "\<exists>c. x = Some c \<and> packet_index c = bp_value (burst_params s)
    \<and> unat (success_count c) + unat (fail_count c) = unat (bp_value (burst_params s))
    \<and> burst_bytes c = of_nat (unat (success_count c) * unat (bp_size (burst_params s))) \<and> \<not> bp_running (burst_params t)"
proof -
  define p where "p = burst_params s"
  have up: "wp (burst_loop (gets (\<lambda>s. bp_running (burst_params s))) (burst_over A e g)
      (ring_send (host A) (bp_ring_id p) (Some buf) sz 10) others sz n no_packets)
    (\<lambda>x u. burst_params u = p \<and> (\<exists>d. x = Some d \<and> counted sz (bp_value p) d \<and> packet_index d = bp_value p)) u"
    if "burst_params u = p" for e g buf sz and u :: "('a, 'b) demo_st_scheme"
  proof (rule burst_counts_up [where I = "\<lambda>u. burst_params u = p"], goal_cases)
    case (1 s)
    then show ?case using assms(2) by (simp add: wp_gets p_def)
  next
    case (2 c s)
    then show ?case using assms(1) by (simp add: burst_over_def wp_bind wp_gets wp_return wp_uptime p_def)
  next
    case (3 s)
    then show ?case using send_keeps_burst by metis
  next
    case (4 s)
    then show ?case using assms(4) [of s] by (simp add: wp_def split_beta)
  qed (use that assms(5) in \<open>simp_all add: counted_def no_packets_def p_def\<close>)
  have "wp (burst_test_thread_fr A others n) (\<lambda>x u. \<not> bp_running (burst_params u)
      \<and> (\<exists>d. x = Some d \<and> counted (bp_size p) (bp_value p) d \<and> packet_index d = bp_value p)) s"
    using assms(3)
    by (auto simp: burst_test_thread_fr_def wp_bind wp_gets wp_below wp_uptime Let_def split_beta p_def [symmetric] service_def
      set_running_def wp_modify wp_return intro!: wp_mono [OF up])
  from wpD [OF this assms(6)] show ?thesis by (auto simp: counted_def p_def)
qed

section \<open>Retries\<close>

text \<open>
  C26: The Zephyr demo means to send a packet again while the ring is full, but compares the result with
  Zephyr's own error number, which the ring service does not use: when the ring is full, the first attempt is
  the last.
\<close>

theorem full_ring_not_retried:
  assumes "spi_slave (zhost A) mem idle" and "spi_prompt (zhost A)" and "locks_free (zhost A)"
    and "idle (hw s)" and "transport_initialized s"
    and "tx_inv (mem (hw s)) (ctrl_block_addr s) (ctrl_cache s) i" and "unat sz \<le> length (send_buffer s)"
    and "may_send s i sz" and "tx_full mem s i"
  shows "run_state (burst_attempt A i sz) s = run_state (ring_send (zhost A) i (Some (send_buffer s)) sz 10) s
    \<and> fst (run_state (burst_attempt A i sz) s) = - QC_OSAL_EAGAIN"
proof -
  obtain r t where run: "run_state (ring_send (zhost A) i (Some (send_buffer s)) sz 10) s = (r, t)" by (rule prod.exhaust)
  have r: "r = - QC_OSAL_EAGAIN"
    using wpD [OF wp_ring_send [OF assms(1,4-7)] run] assms(2,3,8,9) by (simp add: send_post_def)
  show ?thesis
    using r run by (simp add: burst_attempt_def run_simps send_retrying_first QC_OSAL_EAGAIN_def EAGAIN_def)
qed

section \<open>Witnesses\<close>

lemma sim_prompt_ring: "prompt_ring slave_port smem slave_idle"
  by (simp add: prompt_ring_def slave_port_contract slave_port_prompt slave_locks_free)

lemma sim_holds: "holds_msgs smem slave_idle 0 [[7, 8, 9]] (demo_over sim_rx no_burst)"
  using sim_rx_inv sim_rx_queue by (simp add: holds_msgs_def may_recv_def sim_rx_def RING_STATUS_VALID_def)

lemma rx_callback_drains_witness:
  "\<exists>t. run_state (ring_host_rx_callback_fr sim_app 2 0) (demo_over sim_rx no_burst) = ((), t)
    \<and> rx_queue (smem (hw t)) (ctrl_block_addr t) (ctrl_cache t) 0 = [] \<and> \<not> demo_stuck t"
proof -
  obtain t where run: "run_state (ring_host_rx_callback_fr sim_app 2 0) (demo_over sim_rx no_burst) = ((), t)"
    by (metis prod.exhaust unit.exhaust)
  show ?thesis
    using rx_callback_drains [OF _ sim_holds _ _ run] run sim_prompt_ring by (simp add: holds_msgs_def)
qed

definition one_packet :: burst_test_params where
  "one_packet = \<lparr>bp_ring_id = 0, bp_mode = BURST_MODE_COUNT, bp_value = 1, bp_size = 3, bp_running = True\<rparr>"

lemma burst_count_ends_witness:
  "\<exists>c t. run_state (burst_test_thread_fr sim_app (State_Monad.return ()) 2) (demo_over sim_ring one_packet) = (Some c, t)
    \<and> packet_index c = 1 \<and> unat (success_count c) + unat (fail_count c) = 1"
proof -
  obtain x t where run: "run_state (burst_test_thread_fr sim_app (State_Monad.return ()) 2) (demo_over sim_ring one_packet) = (x, t)"
    by (rule prod.exhaust)
  then show ?thesis
    using burst_count_ends [OF _ _ _ _ _ run] by (auto simp: one_packet_def)
qed

text \<open>A ring of a single descriptor, which is always full, and the services of the Zephyr demo.\<close>

definition sim_full :: "slave_world buffers_st" where
  "sim_full = ring_st.extend (sim_ring\<lparr>ctrl_cache := sim_cache\<lparr>tx_desc_count := first_word 1\<rparr>\<rparr>)
     \<lparr>send_buffer = replicate 1500 0, recv_buffer = replicate 1500 0, test_buffer = replicate 1500 0\<rparr>"

definition sim_zdemo :: "slave_world zdemo_st" where
  "sim_zdemo = buffers_st.extend sim_full \<lparr>spi_tx_buffer = [], spi_rx_buffer = [], led_state = False, spi_cfg_frequency = 10000000,
     zburst = \<lparr>zb_ring_id = 0, zb_count = 1, zb_size = 3, zb_running = True\<rparr>, zshown = [], zdemo_stuck = False\<rparr>"

definition sim_zapp :: "slave_world zapp_port" where
  "sim_zapp = \<lparr>zhost = slave_port, app_uptime = \<lambda>w. 0, app_usleep = \<lambda>w n. w, app_msleep = \<lambda>w n. w, spi_mutex_lock = \<lambda>w. w,
     spi_mutex_unlock = \<lambda>w. w, bus_transceive = \<lambda>w f tx. ((0, tx), w), completion_init = \<lambda>w. w, completion_give = \<lambda>w. w,
     completion_take = \<lambda>w n. (0, w), thread_create = \<lambda>w. (True, w), thread_abort = \<lambda>w. w, led_configure = \<lambda>w. (0, w),
     led_set = \<lambda>w b. w, spi1_ready = \<lambda>w. True, ring_gpio_ready = \<lambda>w. True, ring_gpio_configure = \<lambda>w. (0, w),
     ring_gpio_add_callback = \<lambda>w. (0, w), ring_gpio_interrupt_configure = \<lambda>w. (0, w)\<rparr>"

lemma sim_zdemo_fields:
  "hw sim_zdemo = \<lparr>smem = \<lambda>_. 0, pending = None\<rparr>" "transport_initialized sim_zdemo" "ring_initialized sim_zdemo"
  "ctrl_block_addr sim_zdemo = CONFIG_RING_CTRL_BLOCK_ADDR" "ctrl_cache sim_zdemo = sim_cache\<lparr>tx_desc_count := first_word 1\<rparr>"
  "send_buffer sim_zdemo = replicate 1500 0"
  by (simp_all add: sim_zdemo_def sim_full_def ring_st.defs buffers_st.defs)

lemma full_ring_not_retried_witness: "fst (run_state (burst_attempt sim_zapp 0 3) sim_zdemo) = - 4"
proof -
  have inv: "tx_inv (\<lambda>_. 0) CONFIG_RING_CTRL_BLOCK_ADDR (sim_cache\<lparr>tx_desc_count := first_word 1\<rparr>) 0"
    by (simp add: tx_inv_def tx_layout_def Let_def ring_layout_def disjoint_ranges_def CONFIG_RING_CTRL_BLOCK_ADDR_def
        tx_head_def zero_index slots_ok_def in_use_def)
  have "tx_full smem sim_zdemo 0"
    by (simp add: tx_full_def sim_zdemo_fields tx_queue_def ring_queue_def in_use_def tx_head_def zero_index)
  moreover have "may_send sim_zdemo 0 3" by (simp add: may_send_def sim_zdemo_fields RING_STATUS_VALID_def)
  moreover have "zhost sim_zapp = slave_port" by (simp add: sim_zapp_def)
  ultimately show ?thesis
    using full_ring_not_retried [THEN conjunct2, of sim_zapp smem slave_idle sim_zdemo 0 3] inv
    by (simp add: sim_zdemo_fields slave_port_contract slave_port_prompt slave_locks_free QC_OSAL_EAGAIN_def)
qed

end
