(* ===== verification/App_Slave.thy ===== *)
theory App_Slave
  imports App_Common
begin

text \<open>
  The application on the QCC730 itself, \<open>src/qcspi_app/qcc730_slave/src/main.c\<close> (names that other programs
  have as well end in \<open>_s\<close>): the callback that echoes the loopback ring, the commands that send on a ring,
  the burst test, and the start. The slave's side of the ring service is not in the sources: its operations
  are parameters. What is only printed is left out.
\<close>

text \<open>The error numbers of Zephyr.\<close>

definition SLAVE_EINVAL :: int where "SLAVE_EINVAL = 22"
definition SLAVE_E2BIG :: int where "SLAVE_E2BIG = 7"
definition SLAVE_EAGAIN :: int where "SLAVE_EAGAIN = 11"
definition SLAVE_EBUSY :: int where "SLAVE_EBUSY = 16"
definition SLAVE_ENOMEM :: int where "SLAVE_ENOMEM = 12"
definition SLAVE_ENODEV :: int where "SLAVE_ENODEV = 19"

section \<open>State and services\<close>

text \<open>
  \<open>'w\<close> is the world below the application. \<open>sl_recv\<close> is given the ring and the room in the buffer and returns
  the status with the bytes; \<open>sl_send\<close> the ring and the bytes. Timeouts are in milliseconds.
\<close>

record 'w slave_app_port =
  sl_recv :: "'w \<Rightarrow> u8 \<Rightarrow> nat \<Rightarrow> (int \<times> bytes) \<times> 'w"
  sl_send :: "'w \<Rightarrow> u8 \<Rightarrow> bytes \<Rightarrow> nat \<Rightarrow> int \<times> 'w"
  sl_get_num :: "'w \<Rightarrow> int"
  sl_tx_available :: "'w \<Rightarrow> u8 \<Rightarrow> int \<times> 'w"
  sl_rx_available :: "'w \<Rightarrow> u8 \<Rightarrow> int \<times> 'w"
  sl_get_stats :: "'w \<Rightarrow> u8 \<Rightarrow> int \<times> ring_stats"
  sl_register_callback :: "'w \<Rightarrow> int \<times> 'w"
  sl_uptime :: "'w \<Rightarrow> u32"
  sl_usleep :: "'w \<Rightarrow> u32 \<Rightarrow> 'w"
  sl_completion_init :: "'w \<Rightarrow> 'w"
  sl_completion_give :: "'w \<Rightarrow> 'w"
  sl_completion_take :: "'w \<Rightarrow> u32 \<Rightarrow> int \<times> 'w"
  sl_thread_create :: "'w \<Rightarrow> bool \<times> 'w"
  sl_thread_abort :: "'w \<Rightarrow> 'w"
  sl_device_ready :: "'w \<Rightarrow> bool"

record sburst_params =
  sb_ring_id :: u8
  sb_count :: u32
  sb_size :: u32
  sb_running :: bool

text \<open>\<open>sl_fault\<close> is set where an argument behind the last one is read.\<close>

record 'w slave_st =
  sw :: 'w
  sl_send_buffer :: bytes
  sl_recv_buffer :: bytes
  sl_loop_buffer :: bytes
  sburst :: sburst_params
  sl_stuck :: bool
  sl_fault :: bool

definition sl_below :: "('w \<Rightarrow> 'a \<times> 'w) \<Rightarrow> (('w, 'z) slave_st_scheme, 'a) state" where
  "sl_below f = do {
     w \<leftarrow> gets sw;
     let (x, w') = f w;
     modify (\<lambda>s. s\<lparr>sw := w'\<rparr>);
     State_Monad.return x
   }"

definition sl_do :: "('w \<Rightarrow> 'w) \<Rightarrow> (('w, 'z) slave_st_scheme, unit) state" where
  "sl_do f = modify (\<lambda>s. s\<lparr>sw := f (sw s)\<rparr>)"

definition sl_ub :: "(('w, 'z) slave_st_scheme, unit) state" where
  "sl_ub = modify (\<lambda>s. s\<lparr>sl_fault := True\<rparr>)"

definition sl_arg :: "string list \<Rightarrow> nat \<Rightarrow> (('w, 'z) slave_st_scheme, string) state" where
  "sl_arg argv i = do {
     when_m (i \<ge> length argv) sl_ub;
     State_Monad.return (if i < length argv then argv ! i else [])
   }"

definition sl_number :: "string list \<Rightarrow> nat \<Rightarrow> (('w, 'z) slave_st_scheme, u32) state" where
  "sl_number argv i = do { a \<leftarrow> sl_arg argv i; State_Monad.return (fst (strtoul a 0)) }"

section \<open>The echo\<close>

definition sl_recv_packet :: "'w slave_app_port \<Rightarrow> u8 \<Rightarrow> (('w, 'z) slave_st_scheme, int) state" where
  "sl_recv_packet A ring_id = do {
     (r, d) \<leftarrow> sl_below (\<lambda>w. sl_recv A w ring_id 1500);
     modify (\<lambda>s. s\<lparr>sl_recv_buffer := store (sl_recv_buffer s) d\<rparr>);
     State_Monad.return r
   }"

text \<open>The result of sending a packet back is not looked at.\<close>

definition echo_packet :: "'w slave_app_port \<Rightarrow> u8 \<Rightarrow> int \<Rightarrow> (('w, 'z) slave_st_scheme, unit) state" where
  "echo_packet A ring_id r = do {
     modify (\<lambda>s. s\<lparr>sl_loop_buffer := store (sl_loop_buffer s) (take (nat r) (sl_recv_buffer s))\<rparr>);
     b \<leftarrow> gets sl_loop_buffer;
     _ \<leftarrow> sl_below (\<lambda>w. sl_send A w ring_id (take (nat r) b) 1000);
     State_Monad.return ()
   }"

definition ring_event_callback :: "'w slave_app_port \<Rightarrow> nat \<Rightarrow> u8 \<Rightarrow> (('w, 'z) slave_st_scheme, unit) state" where
  "ring_event_callback A n ring_id = do {
     x \<leftarrow> drain (sl_recv_packet A ring_id) (\<lambda>r. when_m (ring_id = RING_LOOPBACK) (echo_packet A ring_id r))
       (\<lambda>k. State_Monad.return ()) n 0;
     when_m (x = None) (modify (\<lambda>s. s\<lparr>sl_stuck := True\<rparr>))
   }"

section \<open>Commands\<close>

primrec sl_status_lines ::
  "'w slave_app_port \<Rightarrow> nat list \<Rightarrow> status_line list \<Rightarrow> (('w, 'z) slave_st_scheme, status_line list) state" where
  "sl_status_lines A [] ls = State_Monad.return ls"
| "sl_status_lines A (i # is) ls = do {
     tx_avail \<leftarrow> sl_below (\<lambda>w. sl_tx_available A w (of_nat i));
     rx_avail \<leftarrow> sl_below (\<lambda>w. sl_rx_available A w (of_nat i));
     if tx_avail = - SLAVE_EINVAL \<or> rx_avail = - SLAVE_EINVAL then sl_status_lines A is ls
     else do {
       (r, st) \<leftarrow> gets (\<lambda>s. sl_get_stats A (sw s) (of_nat i));
       sl_status_lines A is (ls @ [(of_nat i, tx_avail, rx_avail, if r = 0 then Some st else None)])
     }
   }"

definition cmd_ring_status_s :: "'w slave_app_port \<Rightarrow> string list \<Rightarrow> (('w, 'z) slave_st_scheme, int \<times> status_line list) state" where
  "cmd_ring_status_s A argv = do {
     ring_num \<leftarrow> gets (\<lambda>s. sl_get_num A (sw s));
     ls \<leftarrow> sl_status_lines A [0..<nat (min ring_num 256)] [];
     when_m (ring_num > 255) (modify (\<lambda>s. s\<lparr>sl_stuck := True\<rparr>));
     State_Monad.return (0, ls)
   }"

definition sl_send_out :: "'w slave_app_port \<Rightarrow> u8 \<Rightarrow> nat \<Rightarrow> (('w, 'z) slave_st_scheme, int) state" where
  "sl_send_out A ring_id len = do {
     b \<leftarrow> gets sl_send_buffer;
     r \<leftarrow> sl_below (\<lambda>w. sl_send A w ring_id (take len b) 1000);
     State_Monad.return (if r < 0 then r else 0)
   }"

definition sl_with_ring :: "string list \<Rightarrow> (u8 \<Rightarrow> (('w, 'z) slave_st_scheme, int) state) \<Rightarrow> (('w, 'z) slave_st_scheme, int) state" where
  "sl_with_ring argv f = do {
     n \<leftarrow> sl_number argv 1;
     let ring_id = (ucast n :: u8);
     if unat ring_id \<ge> MAX_RINGS then State_Monad.return (- SLAVE_EINVAL) else f ring_id
   }"

definition cmd_ring_send_s :: "'w slave_app_port \<Rightarrow> string list \<Rightarrow> (('w, 'z) slave_st_scheme, int) state" where
  "cmd_ring_send_s A argv =
     (if length argv < 3 then State_Monad.return (- SLAVE_EINVAL)
      else sl_with_ring argv (\<lambda>ring_id. do {
        let line = join_args True (drop 2 argv) [];
        modify (\<lambda>s. s\<lparr>sl_send_buffer := store (sl_send_buffer s) (chars line @ [0])\<rparr>);
        sl_send_out A ring_id (length line)
      }))"

definition cmd_ring_send_hex_s :: "'w slave_app_port \<Rightarrow> string list \<Rightarrow> (('w, 'z) slave_st_scheme, int) state" where
  "cmd_ring_send_hex_s A argv =
     (if length argv \<noteq> 3 then State_Monad.return (- SLAVE_EINVAL)
      else sl_with_ring argv (\<lambda>ring_id. do {
        hex \<leftarrow> sl_arg argv 2;
        let (byte_count, bs) = hex_to_bytes SLAVE_EINVAL SLAVE_E2BIG hex 1500;
        modify (\<lambda>s. s\<lparr>sl_send_buffer := store (sl_send_buffer s) bs\<rparr>);
        if byte_count < 0 then State_Monad.return byte_count
        else sl_send_out A ring_id (nat byte_count)
      }))"

definition cmd_ring_send_pattern_s :: "'w slave_app_port \<Rightarrow> string list \<Rightarrow> (('w, 'z) slave_st_scheme, int) state" where
  "cmd_ring_send_pattern_s A argv =
     (if length argv \<noteq> 3 then State_Monad.return (- SLAVE_EINVAL)
      else sl_with_ring argv (\<lambda>ring_id. do {
        len \<leftarrow> sl_number argv 2;
        if len = 0 \<or> len > 1500 then State_Monad.return (- SLAVE_EINVAL)
        else do {
          modify (\<lambda>s. s\<lparr>sl_send_buffer := store (sl_send_buffer s) (pattern (unat len))\<rparr>);
          sl_send_out A ring_id (unat len)
        }
      }))"

section \<open>The burst test\<close>

definition sl_set_running :: "bool \<Rightarrow> (('w, 'z) slave_st_scheme, unit) state" where
  "sl_set_running b = modify (\<lambda>s. s\<lparr>sburst := (sburst s)\<lparr>sb_running := b\<rparr>\<rparr>)"

definition sl_burst_attempt :: "'w slave_app_port \<Rightarrow> u8 \<Rightarrow> u32 \<Rightarrow> (('w, 'z) slave_st_scheme, int) state" where
  "sl_burst_attempt A ring_id sz = do {
     (r, retries) \<leftarrow> send_retrying
       (do { b \<leftarrow> gets sl_send_buffer; sl_below (\<lambda>w. sl_send A w ring_id (take (unat sz) b) 1000) })
       (sl_do (\<lambda>w. sl_usleep A w 10)) SLAVE_EAGAIN 100 0;
     State_Monad.return r
   }"

definition burst_test_thread_s ::
  "'w slave_app_port \<Rightarrow> (('w, 'z) slave_st_scheme, unit) state \<Rightarrow> nat \<Rightarrow> (('w, 'z) slave_st_scheme, burst_counts option) state" where
  "burst_test_thread_s A others n = do {
     p \<leftarrow> gets sburst;
     start_time \<leftarrow> gets (\<lambda>s. sl_uptime A (sw s));
     let time_based = (sb_count p = 0);
     let sz = (if time_based then 1500 else sb_size p);
     x \<leftarrow> burst_loop (gets (\<lambda>s. sb_running (sburst s)))
       (\<lambda>c. do { now \<leftarrow> gets (\<lambda>s. sl_uptime A (sw s));
         State_Monad.return (if time_based then now - start_time \<ge> sb_size p else packet_index c \<ge> sb_count p) })
       (sl_burst_attempt A (sb_ring_id p) sz) others sz n no_packets;
     case x of
       None \<Rightarrow> do { modify (\<lambda>s. s\<lparr>sl_stuck := True\<rparr>); State_Monad.return None }
     | Some c \<Rightarrow> do { sl_set_running False; sl_do (sl_completion_give A); State_Monad.return (Some c) }
   }"

definition cmd_ring_send_burst_s ::
  "'w slave_app_port \<Rightarrow> (('w, 'z) slave_st_scheme, unit) state \<Rightarrow> string list \<Rightarrow> (('w, 'z) slave_st_scheme, int) state" where
  "cmd_ring_send_burst_s A burst argv =
     (if length argv \<noteq> 4 then State_Monad.return (- SLAVE_EINVAL)
      else sl_with_ring argv (\<lambda>ring_id. do {
        count \<leftarrow> sl_number argv 2;
        sz \<leftarrow> sl_number argv 3;
        p \<leftarrow> gets sburst;
        if count = 0 \<and> (sz = 0 \<or> sz > 3600000) then State_Monad.return (- SLAVE_EINVAL)
        else if count > 100000 then State_Monad.return (- SLAVE_EINVAL)
        else if count \<noteq> 0 \<and> (sz = 0 \<or> sz > 1500) then State_Monad.return (- SLAVE_EINVAL)
        else if sb_running p then State_Monad.return (- SLAVE_EBUSY)
        else do {
          modify (\<lambda>s. s\<lparr>sburst := \<lparr>sb_ring_id = ring_id, sb_count = count, sb_size = sz, sb_running = True\<rparr>\<rparr>);
          sl_do (sl_completion_init A);
          ok \<leftarrow> sl_below (sl_thread_create A);
          if \<not> ok then do { sl_set_running False; State_Monad.return (- SLAVE_ENOMEM) }
          else do {
            burst;
            r \<leftarrow> sl_below (\<lambda>w. sl_completion_take A w (if count = 0 then sz div 1000 + 30 else 30));
            if r \<noteq> 0 then do {
              sl_set_running False;
              sl_do (sl_thread_abort A);
              State_Monad.return r
            } else State_Monad.return 0
          }
        }
      }))"

section \<open>Start\<close>

text \<open>\<open>main\<close> up to its endless loop, which only sleeps; a failure to register the callback is logged.\<close>

definition main_start_s :: "'w slave_app_port \<Rightarrow> (('w, 'z) slave_st_scheme, int option) state" where
  "main_start_s A = do {
     ready \<leftarrow> gets (\<lambda>s. sl_device_ready A (sw s));
     if \<not> ready then State_Monad.return (Some (- SLAVE_ENODEV))
     else do { _ \<leftarrow> sl_below (sl_register_callback A); State_Monad.return None }
   }"

end
