(* ===== verification/App_Slave_Proofs.thy ===== *)
theory App_Slave_Proofs
  imports App_Slave App_Common
begin

text \<open>
  The application on the slave echoes what it receives on the loopback ring, over a contract of the slave's
  ring service, which is not in the sources.
\<close>

section \<open>The ring service\<close>

text \<open>
  What the application sees of the two rings of the loopback channel: the messages waiting for it, those it has
  sent, the free slots of the ring it sends on, and the messages it could not send.
\<close>

record ring_ends =
  waiting :: "bytes list"
  sent :: "bytes list"
  free_slots :: nat
  lost :: "bytes list"

text \<open>
  A receive takes the message in front if it fits the buffer, and finds nothing in an empty ring. A send is
  accepted while there is a free slot; in a full ring it gives up with an error when its time is over. The host
  may take messages, and so free slots, at any time.
\<close>

definition received_one :: "ring_ends \<Rightarrow> int \<times> bytes \<Rightarrow> ring_ends \<Rightarrow> bool" where
  "received_one v x v' \<longleftrightarrow> sent v' = sent v \<and> lost v' = lost v \<and> free_slots v \<le> free_slots v'
     \<and> (case waiting v of
          [] \<Rightarrow> fst x = 0 \<and> waiting v' = []
        | m # ms \<Rightarrow> length m \<le> 1500 \<longrightarrow> x = (int (length m), m) \<and> waiting v' = ms)"

definition sent_one :: "bytes \<Rightarrow> ring_ends \<Rightarrow> int \<Rightarrow> ring_ends \<Rightarrow> bool" where
  "sent_one bs v r v' \<longleftrightarrow> waiting v' = waiting v
     \<and> (if 0 < free_slots v
        then r = 0 \<and> sent v' = sent v @ [bs] \<and> lost v' = lost v \<and> free_slots v \<le> Suc (free_slots v')
        else r < 0 \<and> sent v' = sent v \<and> lost v' = lost v @ [bs])"

definition echo_service :: "'w slave_app_port \<Rightarrow> ('w \<Rightarrow> ring_ends) \<Rightarrow> u8 \<Rightarrow> bool" where
  "echo_service A V i \<longleftrightarrow>
     (\<forall>w x w'. sl_recv A w i 1500 = (x, w') \<longrightarrow> received_one (V w) x (V w'))
     \<and> (\<forall>w bs r w'. sl_send A w i bs 1000 = (r, w') \<longrightarrow> sent_one bs (V w) r (V w'))"

lemma wp_sl_below: "wp (sl_below f) Q s = Q (fst (f (sw s))) (s\<lparr>sw := snd (f (sw s))\<rparr>)"
  by (simp add: sl_below_def wp_bind wp_gets wp_modify wp_return Let_def split: prod.split)

section \<open>Echoing\<close>

text \<open>
  From \<open>v\<close>, the messages \<open>got\<close> were taken: each was sent or lost, in order, and none of those the free slots were
  enough for was lost.
\<close>

definition echoed :: "ring_ends \<Rightarrow> bytes list \<Rightarrow> ring_ends \<Rightarrow> bool" where
  "echoed v got v' \<longleftrightarrow> (\<exists>ok bad. sent v' = sent v @ ok \<and> lost v' = lost v @ bad \<and> got \<in> shuffles ok bad
     \<and> (bad = [] \<or> free_slots v \<le> length ok \<and> take (free_slots v) ok = take (free_slots v) got))"

lemma shuffles_last: "ys @ [z] \<in> shuffles [z] ys"
  by (induction ys) (auto intro: Cons_in_shuffles_rightI)

lemma shuffles_snoc: "zs \<in> shuffles xs ys \<Longrightarrow> zs @ [z] \<in> shuffles (xs @ [z]) ys"
  by (induction xs ys arbitrary: zs rule: shuffles.induct) (auto simp: shuffles_last image_iff)

definition echo_turns :: "'w slave_app_port \<Rightarrow> ('w \<Rightarrow> ring_ends) \<Rightarrow> ring_ends \<Rightarrow> bool \<Rightarrow>
    bytes list \<Rightarrow> bytes list \<Rightarrow> ('w, 'z) slave_st_scheme \<Rightarrow> bool" where
  "echo_turns A V v b msgs got s \<longleftrightarrow>
     echo_service A V RING_LOOPBACK \<and> waiting (V (sw s)) = msgs \<and> echoed v got (V (sw s))
       \<and> (\<exists>ok. sent (V (sw s)) = sent v @ ok \<and> free_slots v \<le> length ok + free_slots (V (sw s))) \<and> sl_stuck s = b"

lemma echoed_recv:
  assumes "echoed v got u" "sent u' = sent u" "lost u' = lost u"
  shows "echoed v got u'"
  using assms by (simp add: echoed_def)

lemma echoed_send:
  assumes "echoed v got u" "sent_one m u r u'" "sent u = sent v @ ok" "free_slots v \<le> length ok + free_slots u"
  shows "echoed v (got @ [m]) u'" "\<exists>ok. sent u' = sent v @ ok \<and> free_slots v \<le> length ok + free_slots u'"
proof -
  obtain bad where e: "lost u = lost v @ bad" "got \<in> shuffles ok bad"
    "bad = [] \<or> free_slots v \<le> length ok \<and> take (free_slots v) ok = take (free_slots v) got"
    using assms(1,3) by (auto simp: echoed_def)
  have len: "length got = length ok + length bad"
    using e(2) by (rule length_shuffles)
  show "echoed v (got @ [m]) u'"
  proof (cases "0 < free_slots u")
    case True
    then show ?thesis
      using assms(2,3) e len shuffles_snoc [OF e(2), of m] by (auto simp: echoed_def sent_one_def)
  next
    case False
    then have "free_slots v \<le> length ok" "take (free_slots v) ok = take (free_slots v) got"
      using assms(4) e(2,3) by auto
    moreover have "got @ [m] \<in> shuffles ok (bad @ [m])"
      using shuffles_snoc [of got bad ok m] e(2) by (simp add: shuffles_commutes)
    ultimately show ?thesis
      using False assms(2,3) e(1) len by (auto simp: echoed_def sent_one_def)
  qed
  show "\<exists>ok. sent u' = sent v @ ok \<and> free_slots v \<le> length ok + free_slots u'"
  proof (cases "0 < free_slots u")
    case True
    then show ?thesis
      using assms(2-4) by (intro exI [of _ "ok @ [m]"]) (auto simp: sent_one_def)
  next
    case False
    then show ?thesis
      using assms(2-4) by (intro exI [of _ ok]) (auto simp: sent_one_def)
  qed
qed

interpretation echo_drain: drained "sl_recv_packet A RING_LOOPBACK"
  "\<lambda>r. when_m (RING_LOOPBACK = RING_LOOPBACK) (echo_packet A RING_LOOPBACK r)" "\<lambda>k. State_Monad.return ()"
  "echo_turns A V v b"
  "\<lambda>m ms got r s. r = int (length m) \<and> take (length m) (sl_recv_buffer s) = m \<and> echo_turns A V v b ms got s"
  for A V v b
proof (unfold_locales, goal_cases)
  case (1 m ms got s)
  obtain x w where x: "sl_recv A (sw s) RING_LOOPBACK 1500 = (x, w)"
    by (rule prod.exhaust)
  then have "received_one (V (sw s)) x (V w)"
    using 1 unfolding echo_turns_def echo_service_def by blast
  then have "x = (int (length m), m)" "waiting (V w) = ms" "sent (V w) = sent (V (sw s))" "lost (V w) = lost (V (sw s))"
    "free_slots (V (sw s)) \<le> free_slots (V w)"
    using 1 by (auto simp: received_one_def echo_turns_def)
  with 1 x show ?case
    by (auto simp: sl_recv_packet_def wp_simps wp_sl_below echo_turns_def store_def echoed_recv intro: le_trans)
next
  case (2 got s)
  obtain x w where x: "sl_recv A (sw s) RING_LOOPBACK 1500 = (x, w)"
    by (rule prod.exhaust)
  then have "received_one (V (sw s)) x (V w)"
    using 2 unfolding echo_turns_def echo_service_def by blast
  then have "fst x = 0" "waiting (V w) = []" "sent (V w) = sent (V (sw s))" "lost (V w) = lost (V (sw s))"
    "free_slots (V (sw s)) \<le> free_slots (V w)"
    using 2 by (auto simp: received_one_def echo_turns_def)
  with 2 x show ?case
    by (cases x) (auto simp: sl_recv_packet_def wp_simps wp_sl_below echo_turns_def echoed_recv intro: le_trans)
next
  case (3 m ms got r s)
  obtain x w where x: "sl_send A (sw s) RING_LOOPBACK m 1000 = (x, w)"
    by (rule prod.exhaust)
  then have one: "sent_one m (V (sw s)) x (V w)"
    using 3 unfolding echo_turns_def echo_service_def by blast
  then have "waiting (V w) = ms"
    using 3 by (simp add: sent_one_def echo_turns_def)
  moreover have "echoed v (got @ [m]) (V w)" "\<exists>ok. sent (V w) = sent v @ ok \<and> free_slots v \<le> length ok + free_slots (V w)"
    using 3 echoed_send [OF _ one] by (auto simp: echo_turns_def)
  ultimately show ?case
    using 3 x by (simp add: echo_packet_def wp_simps wp_sl_below echo_turns_def store_def)
next
  case (4 ms got s k)
  then show ?case by (simp add: wp_return)
qed

text \<open>
  C22: The callback of the slave takes every message of the loopback ring, each once and in order, and ends
  with the ring empty. Each message is sent back or, in a full ring, lost, in order; the first ones, as many as
  the ring has free slots, are sent back, and with room for all nothing is lost.
\<close>

theorem slave_echoes:
  assumes "echo_service A V RING_LOOPBACK" and "waiting (V (sw s)) = msgs"
    and "\<forall>m \<in> set msgs. m \<noteq> [] \<and> length m \<le> 1500" and "length msgs < n"
    and "run_state (ring_event_callback A n RING_LOOPBACK) s = ((), t)"
  shows "waiting (V (sw t)) = [] \<and> echoed (V (sw s)) msgs (V (sw t)) \<and> sl_stuck t = sl_stuck s
    \<and> (length msgs \<le> free_slots (V (sw s)) \<longrightarrow>
         sent (V (sw t)) = sent (V (sw s)) @ msgs \<and> lost (V (sw t)) = lost (V (sw s)))"
proof -
  let ?v = "V (sw s)"
  have "echo_turns A V ?v (sl_stuck s) msgs [] s"
    using assms(1,2) by (auto simp: echo_turns_def echoed_def)
  note ends = echo_drain.drain_ends [OF this assms(3,4)]
  have "wp (ring_event_callback A n RING_LOOPBACK) (\<lambda>_. echo_turns A V ?v (sl_stuck s) [] ([] @ msgs)) s"
    unfolding ring_event_callback_def wp_bind by (rule wp_mono [OF ends]) (auto simp: wp_when_m)
  from wpD [OF this assms(5)] have end_t: "waiting (V (sw t)) = []" "echoed ?v msgs (V (sw t))" "sl_stuck t = sl_stuck s"
    by (simp_all add: echo_turns_def)
  then obtain ok bad where e: "sent (V (sw t)) = sent ?v @ ok" "lost (V (sw t)) = lost ?v @ bad" "msgs \<in> shuffles ok bad"
    "bad = [] \<or> free_slots ?v \<le> length ok"
    by (auto simp: echoed_def)
  have "bad = [] \<and> ok = msgs" if "length msgs \<le> free_slots ?v"
  proof -
    have "length bad = 0 \<or> bad = []"
      using e(4) that length_shuffles [OF e(3)] by linarith
    then have "bad = []"
      by simp
    with e(3) show ?thesis
      by simp
  qed
  with end_t e(1,2) show ?thesis
    by auto
qed

section \<open>A witness\<close>

text \<open>A service whose ring has room for two messages, and three that wait to be echoed.\<close>

definition sim_slave_app :: "ring_ends slave_app_port" where
  "sim_slave_app = \<lparr>
     sl_recv = \<lambda>v i n. (case waiting v of [] \<Rightarrow> ((0, []), v) | m # ms \<Rightarrow> ((int (length m), m), v\<lparr>waiting := ms\<rparr>)),
     sl_send = \<lambda>v i bs t. (if 0 < free_slots v then (0, v\<lparr>sent := sent v @ [bs], free_slots := free_slots v - 1\<rparr>)
       else (- SLAVE_EINVAL, v\<lparr>lost := lost v @ [bs]\<rparr>)), sl_get_num = \<lambda>w. 1, sl_tx_available = \<lambda>w i. (1, w),
     sl_rx_available = \<lambda>w i. (1, w), sl_get_stats = \<lambda>w i. (0, zero_stats), sl_register_callback = \<lambda>w. (0, w),
     sl_uptime = \<lambda>w. 0, sl_usleep = \<lambda>w n. w, sl_completion_init = \<lambda>w. w, sl_completion_give = \<lambda>w. w,
     sl_completion_take = \<lambda>w n. (0, w), sl_thread_create = \<lambda>w. (True, w), sl_thread_abort = \<lambda>w. w,
     sl_device_ready = \<lambda>w. True\<rparr>"

definition sim_slave :: "ring_ends slave_st" where
  "sim_slave = \<lparr>sw = \<lparr>waiting = [[1, 2], [3], [4]], sent = [], free_slots = 2, lost = []\<rparr>,
     sl_send_buffer = replicate 1500 0, sl_recv_buffer = replicate 1500 0, sl_loop_buffer = replicate 1500 0,
     sburst = \<lparr>sb_ring_id = 0, sb_count = 0, sb_size = 0, sb_running = False\<rparr>, sl_stuck = False, sl_fault = False\<rparr>"

lemma slave_echoes_witness:
  "\<exists>t ok bad. run_state (ring_event_callback sim_slave_app 4 RING_LOOPBACK) sim_slave = ((), t)
    \<and> waiting (sw t) = [] \<and> sent (sw t) = ok \<and> lost (sw t) = bad \<and> [[1, 2], [3], [4]] \<in> shuffles ok bad
    \<and> (bad = [] \<or> take 2 ok = [[1, 2], [3]]) \<and> \<not> sl_stuck t"
proof -
  obtain t where run: "run_state (ring_event_callback sim_slave_app 4 RING_LOOPBACK) sim_slave = ((), t)"
    by (metis prod.exhaust unit.exhaust)
  have "echo_service sim_slave_app (\<lambda>w. w) RING_LOOPBACK"
    by (auto simp: echo_service_def received_one_def sent_one_def sim_slave_app_def SLAVE_EINVAL_def split: list.splits if_splits)
  from slave_echoes [OF this _ _ _ run] run show ?thesis
    by (auto simp: sim_slave_def echoed_def numeral_2_eq_2)
qed

end
