(* ===== verification/Sh_Types.thy ===== *)
theory Sh_Types
  imports C_Text
begin

text \<open>
  What the five command files of \<open>src/common/shell\<close> share: the state of a command, its arguments, the
  number parsers of Zephyr's shell, the table entries that register commands, and what is printed.
  A command is a function of \<open>argv\<close> (\<open>argc\<close> is its length) that returns an \<open>int\<close>.
\<close>

section \<open>Error numbers\<close>

definition SH_EIO :: int where "SH_EIO = 5"
definition SH_ENOEXEC :: int where "SH_ENOEXEC = 8"
definition SH_ENOMEM :: int where "SH_ENOMEM = 12"
definition SH_EFAULT :: int where "SH_EFAULT = 14"
definition SH_ENODEV :: int where "SH_ENODEV = 19"
definition SH_EINVAL :: int where "SH_EINVAL = 22"
definition SH_ENOTSUP :: int where "SH_ENOTSUP = 134"

lemmas sh_errors = SH_EIO_def SH_ENOEXEC_def SH_ENOMEM_def SH_EFAULT_def SH_ENODEV_def SH_EINVAL_def
  SH_ENOTSUP_def

section \<open>State\<close>

text \<open>
  Lines that carry values are recorded, with their label and the values in the order they are printed;
  usage texts and reports of success or failure are not.
\<close>

datatype sh_line = Line string "int list" | Hex string

text \<open>
  \<open>sh_world\<close> is what lies behind the services of Zephyr and the vendor. \<open>sh_fault\<close> says that something C
  leaves undefined has happened, and \<open>sh_blocks\<close> counts the blocks of the heap a command holds; both are
  ghosts.
\<close>

record 'w sh_st =
  sh_world :: 'w
  sh_fault :: bool
  sh_blocks :: nat
  sh_shown :: "sh_line list"

definition sh_ub :: "(('w, 'z) sh_st_scheme, unit) state" where
  "sh_ub = modify (\<lambda>s. s\<lparr>sh_fault := True\<rparr>)"

definition shows_line :: "sh_line \<Rightarrow> (('w, 'z) sh_st_scheme, unit) state" where
  "shows_line l = modify (\<lambda>s. s\<lparr>sh_shown := sh_shown s @ [l]\<rparr>)"

text \<open>A service with a result, one without, and one that only reads.\<close>

definition serve :: "('w \<Rightarrow> 'a \<times> 'w) \<Rightarrow> (('w, 'z) sh_st_scheme, 'a) state" where
  "serve f = do {
     w \<leftarrow> gets sh_world;
     modify (\<lambda>s. s\<lparr>sh_world := snd (f w)\<rparr>);
     State_Monad.return (fst (f w))
   }"

definition command :: "('w \<Rightarrow> 'w) \<Rightarrow> (('w, 'z) sh_st_scheme, unit) state" where
  "command f = modify (\<lambda>s. s\<lparr>sh_world := f (sh_world s)\<rparr>)"

definition ask :: "('w \<Rightarrow> 'a) \<Rightarrow> (('w, 'z) sh_st_scheme, 'a) state" where
  "ask f = gets (\<lambda>s. f (sh_world s))"

section \<open>Arguments\<close>

text \<open>
  Zephyr's parsers of a number in base 10: the value, and the error number they would store into \<open>*err\<close>,
  0 if they leave it as it is.
\<close>

record sh_lib =
  shell_strtoul :: "string \<Rightarrow> u32 \<times> int"
  shell_strtol :: "string \<Rightarrow> int \<times> int"

text \<open>\<open>argv[argc]\<close> is a null pointer, what lies behind it is no argument.\<close>

definition argv_at :: "string list \<Rightarrow> nat \<Rightarrow> (('w, 'z) sh_st_scheme, string) state" where
  "argv_at argv i =
     (if i < length argv then State_Monad.return (argv ! i) else do { sh_ub; State_Monad.return [] })"

definition arg_ulong :: "'q sh_lib_scheme \<Rightarrow> string list \<Rightarrow> nat \<Rightarrow> (('w, 'z) sh_st_scheme, u32 \<times> int) state" where
  "arg_ulong L argv i = do { a \<leftarrow> argv_at argv i; State_Monad.return (shell_strtoul L a) }"

definition arg_long :: "'q sh_lib_scheme \<Rightarrow> string list \<Rightarrow> nat \<Rightarrow> (('w, 'z) sh_st_scheme, int \<times> int) state" where
  "arg_long L argv i = do { a \<leftarrow> argv_at argv i; State_Monad.return (shell_strtol L a) }"

text \<open>
  The idiom of the commands: parse an argument, return the error if there is one, go on with the value.
  \<open>with_number\<close> returns \<open>-EINVAL\<close> instead of the error, \<open>with_long\<close> parses a signed number.
\<close>

definition with_ulong :: "'q sh_lib_scheme \<Rightarrow> string list \<Rightarrow> nat \<Rightarrow> (u32 \<Rightarrow> (('w, 'z) sh_st_scheme, int) state) \<Rightarrow>
    (('w, 'z) sh_st_scheme, int) state" where
  "with_ulong L argv i k = do {
     (v, err) \<leftarrow> arg_ulong L argv i;
     if err \<noteq> 0 then State_Monad.return err else k v
   }"

definition with_number :: "'q sh_lib_scheme \<Rightarrow> string list \<Rightarrow> nat \<Rightarrow> (u32 \<Rightarrow> (('w, 'z) sh_st_scheme, int) state) \<Rightarrow>
    (('w, 'z) sh_st_scheme, int) state" where
  "with_number L argv i k = do {
     (v, err) \<leftarrow> arg_ulong L argv i;
     if err \<noteq> 0 then State_Monad.return (- SH_EINVAL) else k v
   }"

definition with_long :: "'q sh_lib_scheme \<Rightarrow> string list \<Rightarrow> nat \<Rightarrow> (int \<Rightarrow> (('w, 'z) sh_st_scheme, int) state) \<Rightarrow>
    (('w, 'z) sh_st_scheme, int) state" where
  "with_long L argv i k = do {
     (v, err) \<leftarrow> arg_long L argv i;
     if err \<noteq> 0 then State_Monad.return err else k v
   }"

text \<open>\<open>atoi\<close> of the C library; the behaviour is undefined if the number is no \<open>int\<close>.\<close>

definition atoi_value :: "string \<Rightarrow> int" where
  "atoi_value s =
     (let s1 = dropWhile isspace s;
          s2 = (if s1 \<noteq> [] \<and> hd s1 \<in> {CHR ''-'', CHR ''+''} then tl s1 else s1);
          v = int (digits_value 10 0 (takeWhile (is_digit 10) s2))
      in if s1 \<noteq> [] \<and> hd s1 = CHR ''-'' then - v else v)"

definition atoi :: "string \<Rightarrow> (('w, 'z) sh_st_scheme, int) state" where
  "atoi s =
     (if - (2 ^ 31) \<le> atoi_value s \<and> atoi_value s < 2 ^ 31 then State_Monad.return (atoi_value s)
      else do { sh_ub; State_Monad.return 0 })"

section \<open>Tables of commands\<close>

text \<open>
  An entry of \<open>SHELL_STATIC_SUBCMD_SET_CREATE\<close>: Zephyr calls the handler only if the number of words, the
  name among them, is at least \<open>mandatory\<close> and at most \<open>mandatory + optional\<close>.
\<close>

record 's sh_cmd =
  cmd_name :: string
  cmd_handler :: "string list \<Rightarrow> ('s, int) state"
  cmd_mandatory :: nat
  cmd_optional :: nat

definition SHELL_CMD_ARG :: "string \<Rightarrow> (string list \<Rightarrow> ('s, int) state) \<Rightarrow> nat \<Rightarrow> nat \<Rightarrow> 's sh_cmd" where
  "SHELL_CMD_ARG n h m opt = \<lparr>cmd_name = n, cmd_handler = h, cmd_mandatory = m, cmd_optional = opt\<rparr>"

definition admits :: "'s sh_cmd \<Rightarrow> string list \<Rightarrow> bool" where
  "admits c argv \<longleftrightarrow> cmd_mandatory c \<le> length argv \<and> length argv \<le> cmd_mandatory c + cmd_optional c"

section \<open>Running the services\<close>

lemma run_sh_services [run_simps]:
  "run_state sh_ub s = ((), s\<lparr>sh_fault := True\<rparr>)"
  "run_state (shows_line l) s = ((), s\<lparr>sh_shown := sh_shown s @ [l]\<rparr>)"
  "run_state (serve f) s = (fst (f (sh_world s)), s\<lparr>sh_world := snd (f (sh_world s))\<rparr>)"
  "run_state (command c) s = ((), s\<lparr>sh_world := c (sh_world s)\<rparr>)"
  "run_state (ask g) s = (g (sh_world s), s)"
  by (simp_all add: sh_ub_def shows_line_def serve_def command_def ask_def run_simps)

lemma run_argv_at [run_simps]:
  "run_state (argv_at argv i) s = (if i < length argv then (argv ! i, s) else ([], s\<lparr>sh_fault := True\<rparr>))"
  by (simp add: argv_at_def run_simps)

lemma run_arg [run_simps]:
  "i < length argv \<Longrightarrow> run_state (arg_ulong L argv i) s = (shell_strtoul L (argv ! i), s)"
  "i < length argv \<Longrightarrow> run_state (arg_long L argv i) s = (shell_strtol L (argv ! i), s)"
  by (simp_all add: arg_ulong_def arg_long_def run_simps)

lemma run_with_ulong [run_simps]:
  "i < length argv \<Longrightarrow> run_state (with_ulong L argv i k) s =
     (case shell_strtoul L (argv ! i) of (v, e) \<Rightarrow> if e \<noteq> 0 then (e, s) else run_state (k v) s)"
  by (simp add: with_ulong_def run_simps split: prod.split)

lemma run_with_number [run_simps]:
  "i < length argv \<Longrightarrow> run_state (with_number L argv i k) s =
     (case shell_strtoul L (argv ! i) of (v, e) \<Rightarrow> if e \<noteq> 0 then (- SH_EINVAL, s) else run_state (k v) s)"
  by (simp add: with_number_def run_simps split: prod.split)

lemma run_with_long [run_simps]:
  "i < length argv \<Longrightarrow> run_state (with_long L argv i k) s =
     (case shell_strtol L (argv ! i) of (v, e) \<Rightarrow> if e \<noteq> 0 then (e, s) else run_state (k v) s)"
  by (simp add: with_long_def run_simps split: prod.split)

end
