(* ===== verification/Sh_Platform.thy ===== *)
theory Sh_Platform
  imports Sh_Types
begin

text \<open>
  \<open>src/common/shell/src/platform_shell.c\<close>: the log level of the vendor's logger, the debug loops, heap
  statistics, the reason of the last boot, and the reboot that leaves the network first.
\<close>

section \<open>State and services\<close>

datatype wifi_iface_state = Wifi_Associated | Wifi_Completed | Wifi_Other nat

datatype boot_reason = Cold_Boot | Dtim_Sleep | Deep_Sleep | Unknown_Boot u32

text \<open>
  Statistics of a heap are the free, the allocated and the most ever allocated bytes. The fields that start
  with \<open>cfg\<close> say which options the build has; a network interface is a number.
\<close>

type_synonym heap_stats = "nat \<times> nat \<times> nat"

record 'w platform_port = sh_lib +
  cfg_wifi :: bool
  cfg_heap_stats :: bool
  cfg_kernel_heap :: bool
  crm_number :: string
  pf_wifi_sta :: "'w \<Rightarrow> nat option"
  wifi_iface_status :: "nat \<Rightarrow> 'w \<Rightarrow> (int \<times> wifi_iface_state) \<times> 'w"
  wifi_disconnect :: "nat \<Rightarrow> 'w \<Rightarrow> int \<times> 'w"
  wifi_boot_reason :: "nat option \<Rightarrow> 'w \<Rightarrow> (int \<times> boot_reason) \<times> 'w"
  kernel_heap_stats :: "'w \<Rightarrow> int \<times> heap_stats"
  has_malloc_heap :: "'w \<Rightarrow> bool"
  malloc_heap_stats :: "'w \<Rightarrow> int \<times> heap_stats"
  pf_sleep_ms :: "u32 \<Rightarrow> 'w \<Rightarrow> 'w"
  nt_system_sw_reset :: "'w \<Rightarrow> 'w"

record 'w platform_st = "'w sh_st" +
  min_loglvl :: u8
  g32_dead_loop_1 :: u32
  g32_dead_loop_2 :: u32

section \<open>Commands\<close>

definition cmd_set_logger_lvl :: "'w platform_port \<Rightarrow> string list \<Rightarrow> (('w, 'z) platform_st_scheme, int) state" where
  "cmd_set_logger_lvl P argv =
     (if length argv < 2 then State_Monad.return (- SH_EINVAL)
      else with_long P argv 1 (\<lambda>rts_val.
        if rts_val < 0 \<or> rts_val > 3 then State_Monad.return (- SH_EINVAL)
        else do {
          modify (\<lambda>s. s\<lparr>min_loglvl := word_of_int rts_val\<rparr>);
          State_Monad.return 0
        }))"

definition wifi_is_connected :: "'w platform_port \<Rightarrow> nat option \<Rightarrow> (('w, 'z) platform_st_scheme, bool) state" where
  "wifi_is_connected P iface =
     (case iface of
        None \<Rightarrow> State_Monad.return False
      | Some i \<Rightarrow> do {
          (ret, st) \<leftarrow> serve (wifi_iface_status P i);
          State_Monad.return (ret = 0 \<and> (st = Wifi_Associated \<or> st = Wifi_Completed))
        })"

definition boot_text :: "boot_reason \<Rightarrow> sh_line" where
  "boot_text r =
     (case r of
        Cold_Boot \<Rightarrow> Line ''Boot from cold boot'' []
      | Dtim_Sleep \<Rightarrow> Line ''Boot from dtim sleep'' []
      | Deep_Sleep \<Rightarrow> Line ''Boot from deep sleep'' []
      | Unknown_Boot v \<Rightarrow> Line ''Unknown status'' [uint v])"

definition get_boot_reason :: "'w platform_port \<Rightarrow> (('w, 'z) platform_st_scheme, int) state" where
  "get_boot_reason P = do {
     iface \<leftarrow> ask (pf_wifi_sta P);
     (ret, reason) \<leftarrow> serve (wifi_boot_reason P iface);
     if ret \<noteq> 0 then State_Monad.return (- SH_ENOEXEC)
     else do { shows_line (boot_text reason); State_Monad.return 0 }
   }"

definition heap_line :: "string \<Rightarrow> heap_stats \<Rightarrow> sh_line" where
  "heap_line l st = (case st of (fr, alloc, peak) \<Rightarrow> Line l [int fr, int alloc, int peak])"

definition get_kernel_heap :: "'w platform_port \<Rightarrow> (('w, 'z) platform_st_scheme, int) state" where
  "get_kernel_heap P =
     (if \<not> (cfg_kernel_heap P \<and> cfg_heap_stats P) then State_Monad.return 0
      else do {
        (err, stats) \<leftarrow> ask (kernel_heap_stats P);
        if err \<noteq> 0 then State_Monad.return (- SH_ENOEXEC)
        else do { shows_line (heap_line ''sys heap'' stats); State_Monad.return 0 }
      })"

definition get_z_malloc_heap_statistics :: "'w platform_port \<Rightarrow> (('w, 'z) platform_st_scheme, int) state" where
  "get_z_malloc_heap_statistics P =
     (if \<not> cfg_heap_stats P then State_Monad.return (- SH_ENOTSUP)
      else do {
        there \<leftarrow> ask (has_malloc_heap P);
        if \<not> there then State_Monad.return (- SH_ENOEXEC)
        else do {
          (err, stats) \<leftarrow> ask (malloc_heap_stats P);
          if err \<noteq> 0 then State_Monad.return (- SH_ENOEXEC)
          else do { shows_line (heap_line ''c-library heap'' stats); State_Monad.return 0 }
        }
      })"

definition cmd_info_pf :: "'w platform_port \<Rightarrow> string list \<Rightarrow> (('w, 'z) platform_st_scheme, int) state" where
  "cmd_info_pf P argv = do {
     s \<leftarrow> State_Monad.get;
     shows_line (Line ''min_loglvl'' [uint (min_loglvl s)]);
     shows_line (Line ''g32_dead_loop_1'' [sint (g32_dead_loop_1 s)]);
     shows_line (Line ''g32_dead_loop_2'' [sint (g32_dead_loop_2 s)]);
     get_kernel_heap P;
     get_z_malloc_heap_statistics P;
     if cfg_wifi P then do { get_boot_reason P; State_Monad.return 0 } else State_Monad.return 0
   }"

definition cmd_version :: "'w platform_port \<Rightarrow> string list \<Rightarrow> (('w, 'z) platform_st_scheme, int) state" where
  "cmd_version P argv = do {
     shows_line (Line (''CRM Number: '' @ crm_number P) []);
     State_Monad.return 0
   }"

text \<open>The part before the reset, which is compiled with the Wi-Fi option only.\<close>

definition leave_network :: "'w platform_port \<Rightarrow> (('w, 'z) platform_st_scheme, unit) state" where
  "leave_network P = do {
     iface \<leftarrow> ask (pf_wifi_sta P);
     case iface of
       None \<Rightarrow> State_Monad.return ()
     | Some i \<Rightarrow> do {
         connected \<leftarrow> wifi_is_connected P iface;
         if connected then do {
           ret \<leftarrow> serve (wifi_disconnect P i);
           when_m (ret = 0) (command (pf_sleep_ms P 100))
         }
         else State_Monad.return ()
       }
   }"

definition cmd_reboot :: "'w platform_port \<Rightarrow> string list \<Rightarrow> (('w, 'z) platform_st_scheme, int) state" where
  "cmd_reboot P argv = do {
     when_m (cfg_wifi P) (leave_network P);
     command (nt_system_sw_reset P);
     State_Monad.return 0
   }"

definition cmd_setdbg :: "'w platform_port \<Rightarrow> string list \<Rightarrow> (('w, 'z) platform_st_scheme, int) state" where
  "cmd_setdbg P argv =
     (if length argv \<noteq> 3 then State_Monad.return (- SH_EINVAL)
      else with_ulong P argv 1 (\<lambda>dbg_type. with_ulong P argv 2 (\<lambda>dbg_value. do {
        when_m (dbg_type = 1) (modify (\<lambda>s. s\<lparr>g32_dead_loop_1 := dbg_value\<rparr>));
        when_m (dbg_type = 2) (modify (\<lambda>s. s\<lparr>g32_dead_loop_2 := dbg_value\<rparr>));
        State_Monad.return 0
      })))"

definition sub_uart_cmds :: "'w platform_port \<Rightarrow> ('w, 'z) platform_st_scheme sh_cmd list" where
  "sub_uart_cmds P =
     [SHELL_CMD_ARG ''version'' (cmd_version P) 1 0,
      SHELL_CMD_ARG ''setloglvl'' (cmd_set_logger_lvl P) 2 0,
      SHELL_CMD_ARG ''info'' (cmd_info_pf P) 1 0,
      SHELL_CMD_ARG ''reboot'' (cmd_reboot P) 1 0,
      SHELL_CMD_ARG ''setdbg'' (cmd_setdbg P) 3 0]"

end
