(* ===== verification/Sh_Power.thy ===== *)
theory Sh_Power
  imports Sh_Types
begin

text \<open>
  \<open>src/common/shell/src/qpower_shell.c\<close>: soft-off, the suspend-to-RAM demo with its timer, and the one-shot
  code of the core supply (ULP-SMPS2).
\<close>

section \<open>State and services\<close>

definition TEMPERATUREC_MIN :: int where "TEMPERATUREC_MIN = - 40"
definition TEMPERATUREC_MAX :: int where "TEMPERATUREC_MAX = 125"
definition VBATMV_MIN :: u32 where "VBATMV_MIN = 1600"
definition VBATMV_MAX :: u32 where "VBATMV_MAX = 3600"
definition CX_ONESHOT_MAX :: u32 where "CX_ONESHOT_MAX = 31"

text \<open>
  \<open>s2ram_start\<close> starts the timer with a delay and a period in milliseconds; \<open>s2ram_locked\<close>, \<open>s2ram_lock\<close>
  and \<open>s2ram_unlock\<close> are the policy lock of suspend-to-RAM. \<open>optimized_oneshot\<close> gives the code for a voltage
  and a temperature, the code of the fuses and the length of the one-shot. What \<open>getcx\<close> dumps besides its
  first line is left out.
\<close>

record 'w power_port = sh_lib +
  cfg_cpr :: bool
  softoff_duration :: "u32 \<Rightarrow> 'w \<Rightarrow> 'w"
  force_soft_off :: "'w \<Rightarrow> 'w"
  notifier_register :: "'w \<Rightarrow> 'w"
  s2ram_start :: "u32 \<Rightarrow> u32 \<Rightarrow> 'w \<Rightarrow> 'w"
  s2ram_stop :: "'w \<Rightarrow> 'w"
  s2ram_locked :: "'w \<Rightarrow> bool"
  s2ram_lock :: "'w \<Rightarrow> 'w"
  s2ram_unlock :: "'w \<Rightarrow> 'w"
  cpr_reenable :: "'w \<Rightarrow> 'w"
  cpr_disable :: "'w \<Rightarrow> 'w"
  get_oneshot :: "'w \<Rightarrow> u32"
  get_otp_oneshot :: "'w \<Rightarrow> u32"
  optimized_oneshot :: "u32 \<Rightarrow> int \<Rightarrow> 'w \<Rightarrow> (u32 \<times> u32 \<times> u32) \<times> 'w"
  set_oneshot :: "u32 \<Rightarrow> 'w \<Rightarrow> 'w"

text \<open>\<open>slp_count\<close> is an \<open>int\<close>: it is read signed.\<close>

record 'w power_st = "'w sh_st" +
  slp_count :: u32
  presleep_update_oneshot :: bool

section \<open>Sleep\<close>

definition cmd_set_softoff :: "'w power_port \<Rightarrow> string list \<Rightarrow> (('w, 'z) power_st_scheme, int) state" where
  "cmd_set_softoff P argv = with_ulong P argv 1 (\<lambda>slp_time_ms. do {
     command (softoff_duration P slp_time_ms);
     command (force_soft_off P);
     State_Monad.return 0
   })"

definition s2ram_timer_cb :: "'w power_port \<Rightarrow> (('w, 'z) power_st_scheme, unit) state" where
  "s2ram_timer_cb P = do {
     n \<leftarrow> gets slp_count;
     when_m (sint n > 0) (modify (\<lambda>s. s\<lparr>slp_count := slp_count s - 1\<rparr>));
     m \<leftarrow> gets slp_count;
     when_m (m = 0) (do {
       command (s2ram_stop P);
       command (s2ram_lock P)
     })
   }"

definition cmd_reg_cb :: "'w power_port \<Rightarrow> string list \<Rightarrow> (('w, 'z) power_st_scheme, int) state" where
  "cmd_reg_cb P argv = do { command (notifier_register P); State_Monad.return 0 }"

text \<open>
  Both numbers are parsed into one \<open>err\<close> before it is looked at, and \<open>slp_count\<close> has its new value by then.
\<close>

definition cmd_set_s2ram :: "'w power_port \<Rightarrow> string list \<Rightarrow> (('w, 'z) power_st_scheme, int) state" where
  "cmd_set_s2ram P argv = do {
     (slp_time_ms, err1) \<leftarrow> arg_ulong P argv 1;
     (n, err2) \<leftarrow> arg_ulong P argv 2;
     modify (\<lambda>s. s\<lparr>slp_count := n\<rparr>);
     let err = (if err2 \<noteq> 0 then err2 else err1);
     if err \<noteq> 0 then State_Monad.return err
     else do {
       when_m (slp_time_ms \<noteq> 0) (command (s2ram_start P slp_time_ms slp_time_ms));
       locked \<leftarrow> ask (s2ram_locked P);
       when_m locked (command (s2ram_unlock P));
       State_Monad.return 0
     }
   }"

definition cmd_set_cpr :: "'w power_port \<Rightarrow> string list \<Rightarrow> (('w, 'z) power_st_scheme, int) state" where
  "cmd_set_cpr P argv = with_ulong P argv 1 (\<lambda>enable. do {
     command (if enable \<noteq> 0 then cpr_reenable P else cpr_disable P);
     State_Monad.return 0
   })"

section \<open>The one-shot code\<close>

definition cmd_getcx :: "'w power_port \<Rightarrow> string list \<Rightarrow> (('w, 'z) power_st_scheme, int) state" where
  "cmd_getcx P argv = do {
     curr \<leftarrow> ask (get_oneshot P);
     otp \<leftarrow> ask (get_otp_oneshot P);
     shows_line (Line ''oneshot'' [uint curr, uint otp]);
     State_Monad.return 0
   }"

definition temp_in_range :: "int \<Rightarrow> bool" where
  "temp_in_range t \<longleftrightarrow> \<not> (t < TEMPERATUREC_MIN \<or> t > TEMPERATUREC_MAX)"

definition vbat_in_range :: "u32 \<Rightarrow> bool" where
  "vbat_in_range v \<longleftrightarrow> \<not> (v < VBATMV_MIN \<or> v > VBATMV_MAX)"

definition oneshot_line :: "u32 \<Rightarrow> int \<Rightarrow> u32 \<times> u32 \<times> u32 \<Rightarrow> sh_line" where
  "oneshot_line v t r = (case r of (code, otp, ns) \<Rightarrow> Line ''vbat'' [uint v, t, uint otp, uint ns, uint code])"

definition cmd_calcxoneshot :: "'w power_port \<Rightarrow> string list \<Rightarrow> (('w, 'z) power_st_scheme, int) state" where
  "cmd_calcxoneshot P argv =
     with_long P argv 1 (\<lambda>tempc. with_ulong P argv 2 (\<lambda>vbatmv.
       if \<not> temp_in_range tempc then State_Monad.return (- SH_EINVAL)
       else if \<not> vbat_in_range vbatmv then State_Monad.return (- SH_EINVAL)
       else do {
         r \<leftarrow> serve (optimized_oneshot P vbatmv tempc);
         shows_line (oneshot_line vbatmv tempc r);
         State_Monad.return 0
       }))"

text \<open>The code is set, and the update of it before each sleep is turned off.\<close>

definition fix_oneshot :: "'w power_port \<Rightarrow> u32 \<Rightarrow> (('w, 'z) power_st_scheme, int) state" where
  "fix_oneshot P code = do {
     command (set_oneshot P code);
     modify (\<lambda>s. s\<lparr>presleep_update_oneshot := False\<rparr>);
     State_Monad.return 0
   }"

definition cmd_setcxoneshot :: "'w power_port \<Rightarrow> string list \<Rightarrow> (('w, 'z) power_st_scheme, int) state" where
  "cmd_setcxoneshot P argv = with_ulong P argv 1 (\<lambda>code.
     if code \<ge> CX_ONESHOT_MAX then
       (if code = 255 then do {
          modify (\<lambda>s. s\<lparr>presleep_update_oneshot := True\<rparr>);
          State_Monad.return 0
        }
        else State_Monad.return (- SH_EINVAL))
     else if code \<noteq> 0 then fix_oneshot P code
     else with_long P argv 2 (\<lambda>temp.
       if \<not> temp_in_range temp then State_Monad.return (- SH_EINVAL)
       else with_ulong P argv 3 (\<lambda>vbat.
         if \<not> vbat_in_range vbat then State_Monad.return (- SH_EINVAL)
         else do {
           r \<leftarrow> serve (optimized_oneshot P vbat temp);
           shows_line (oneshot_line vbat temp r);
           fix_oneshot P (fst r)
         })))"

definition sub_pm_cmds_pw :: "'w power_port \<Rightarrow> ('w, 'z) power_st_scheme sh_cmd list" where
  "sub_pm_cmds_pw P =
     [SHELL_CMD_ARG ''softoff'' (cmd_set_softoff P) 2 0,
      SHELL_CMD_ARG ''s2ram'' (cmd_set_s2ram P) 2 1,
      SHELL_CMD_ARG ''reg_sleep_cb'' (cmd_reg_cb P) 1 0]
     @ (if cfg_cpr P then [SHELL_CMD_ARG ''cpr_set'' (cmd_set_cpr P) 2 0] else []) @
     [SHELL_CMD_ARG ''getcx'' (cmd_getcx P) 1 0,
      SHELL_CMD_ARG ''calcxoneshot'' (cmd_calcxoneshot P) 3 0,
      SHELL_CMD_ARG ''setcxoneshot'' (cmd_setcxoneshot P) 2 2]"

end
