(* ===== verification/Sh_Crypto.thy ===== *)
theory Sh_Crypto
  imports Sh_Types
begin

text \<open>
  \<open>src/common/shell/src/qcrypto_shell.c\<close>: hexadecimal arguments, the tests of the key derivation, of the
  public-key accelerator, of the ciphers and of the entropy source, the secure storage, and its password.
\<close>

section \<open>Hexadecimal text\<close>

definition hex2digit :: "char \<Rightarrow> int" where
  "hex2digit ch =
     (let c = of_char ch :: int
      in if 48 \<le> c \<and> c \<le> 57 then c - 48
         else if 97 \<le> c \<and> c \<le> 102 then c - 97 + 10
         else if 65 \<le> c \<and> c \<le> 70 then c - 65 + 10
         else - SH_EINVAL)"

text \<open>
  The loop over the characters from the last one, \<open>k\<close> counting up: the last pair goes into the first byte.
  What was stored before a character that is no digit stays.
\<close>

fun hexstr_loop :: "string \<Rightarrow> nat \<Rightarrow> bytes \<Rightarrow> int \<times> bytes" where
  "hexstr_loop [] k buf = (0, buf)"
| "hexstr_loop (c # cs) k buf =
     (let t = hex2digit c
      in if t < 0 then (- SH_EINVAL, buf)
         else hexstr_loop cs (k + 1)
           (buf[k div 2 := (if k mod 2 = 0 then word_of_int t else buf ! (k div 2) OR push_bit 4 (word_of_int t))]))"

text \<open>\<open>buf\<close> has room for \<open>n_buf\<close> bytes at every caller.\<close>

definition hexstr_to_digits :: "string \<Rightarrow> bytes \<Rightarrow> u32 \<Rightarrow> int \<times> bytes" where
  "hexstr_to_digits data buf n_buf =
     (if (of_nat (length data) :: u32) \<noteq> 2 * n_buf then (- SH_EINVAL, buf)
      else hexstr_loop (rev data) 0 buf)"

text \<open>The conversion \<open>x\<close> of a value, with leading zeros up to a width.\<close>

definition hex_char :: "nat \<Rightarrow> char" where
  "hex_char n = (if n < 10 then char_of (48 + n) else char_of (87 + n))"

definition hex_digits :: "nat \<Rightarrow> nat \<Rightarrow> string" where
  "hex_digits w v = map (\<lambda>i. hex_char (v div 16 ^ i mod 16)) (rev [0..<w])"

definition bytes_text :: "bytes \<Rightarrow> string" where
  "bytes_text bs = concat (map (\<lambda>b. hex_digits 2 (unat b)) (rev bs))"

text \<open>The index is an \<open>int\<close>, so that more than \<open>2 ^ 31\<close> bytes print nothing.\<close>

definition hexdump :: "bytes \<Rightarrow> u32 \<Rightarrow> (('w, 'z) sh_st_scheme, unit) state" where
  "hexdump buf n_buf =
     (let n = (if sint (n_buf - 1) < 0 then 0 else unat n_buf)
      in do {
        when_m (n > length buf) sh_ub;
        shows_line (Hex (bytes_text (take n buf)))
      })"

section \<open>State and services\<close>

datatype pka_test = Pka_MPI | Pka_RSA | Pka_DH | Pka_ECP | Pka_ECDSA

datatype qcc_module = Qcc_AES | Qcc_CCM | Qcc_SHA1 | Qcc_SHA256

text \<open>
  The services return what they store through their pointers. A cipher call is given the kind of the key
  (0 derives it in hardware), the key, the data and the room for its output. The fields that start with
  \<open>cfg\<close> are the options of the build. \<open>sh_malloc\<close> gives the contents of a new block, or none.
\<close>

record 'w crypto_port = sh_lib +
  cfg_mbedtls_test :: bool
  cfg_qcc :: "qcc_module \<Rightarrow> bool"
  cfg_entropy :: bool
  cfg_hw_entropy :: bool
  cfg_its :: bool
  its_max_data_size :: nat
  qapi_ok :: int
  qapi_error :: int
  sh_malloc :: "nat \<Rightarrow> 'w \<Rightarrow> (nat \<Rightarrow> u8) option \<times> 'w"
  hw_kdf :: "bytes \<Rightarrow> 'w \<Rightarrow> (int \<times> u32 list) \<times> 'w"
  ceml_encrypt :: "int \<Rightarrow> bytes \<Rightarrow> bytes \<Rightarrow> bytes \<Rightarrow> u32 \<Rightarrow> 'w \<Rightarrow> (int \<times> bytes \<times> u32) \<times> 'w"
  ceml_decrypt :: "int \<Rightarrow> bytes \<Rightarrow> bytes \<Rightarrow> u32 \<Rightarrow> 'w \<Rightarrow> (int \<times> bytes \<times> u32) \<times> 'w"
  pka_self_test :: "pka_test \<Rightarrow> int \<Rightarrow> 'w \<Rightarrow> int \<times> 'w"
  qcc_self_test :: "qcc_module \<Rightarrow> int \<Rightarrow> 'w \<Rightarrow> int \<times> 'w"
  entropy_self_test :: "int \<Rightarrow> 'w \<Rightarrow> int \<times> 'w"
  hardware_poll :: "u32 \<Rightarrow> 'w \<Rightarrow> (int \<times> bytes \<times> u32) \<times> 'w"
  its_set :: "u32 \<Rightarrow> bytes \<Rightarrow> 'w \<Rightarrow> int \<times> 'w"
  its_get :: "u32 \<Rightarrow> nat \<Rightarrow> nat \<Rightarrow> 'w \<Rightarrow> (int \<times> bytes \<times> nat) \<times> 'w"
  its_get_info :: "u32 \<Rightarrow> 'w \<Rightarrow> (int \<times> u32) \<times> 'w"
  its_remove :: "u32 \<Rightarrow> 'w \<Rightarrow> int \<times> 'w"

record 'w crypto_st = "'w sh_st" +
  g_securefs_password :: bytes

section \<open>Blocks of the heap\<close>

definition new_block :: "'w crypto_port \<Rightarrow> nat \<Rightarrow> (('w, 'z) crypto_st_scheme, bytes option) state" where
  "new_block P n = do {
     r \<leftarrow> serve (sh_malloc P n);
     case r of
       None \<Rightarrow> State_Monad.return None
     | Some f \<Rightarrow> do {
         modify (\<lambda>s. s\<lparr>sh_blocks := sh_blocks s + 1\<rparr>);
         State_Monad.return (Some (map f [0..<n]))
       }
   }"

definition free_block :: "(('w, 'z) crypto_st_scheme, unit) state" where
  "free_block = modify (\<lambda>s. s\<lparr>sh_blocks := sh_blocks s - 1\<rparr>)"

definition put_at :: "nat \<Rightarrow> bytes \<Rightarrow> bytes \<Rightarrow> bytes" where
  "put_at off bs buf = take off buf @ bs @ drop (off + length bs) buf"

text \<open>A service stores \<open>out\<close> at an offset of the block.\<close>

definition fill :: "nat \<Rightarrow> bytes \<Rightarrow> bytes \<Rightarrow> (('w, 'z) crypto_st_scheme, bytes) state" where
  "fill off out block = do {
     when_m (off + length out > length block) sh_ub;
     State_Monad.return (put_at off out block)
   }"

definition cipher :: "(u32 \<Rightarrow> 'w \<Rightarrow> (int \<times> bytes \<times> u32) \<times> 'w) \<Rightarrow> u32 \<Rightarrow> nat \<Rightarrow> bytes \<Rightarrow>
    (('w, 'z) crypto_st_scheme, int \<times> bytes \<times> u32) state" where
  "cipher f len off block = do {
     (ret, out, len') \<leftarrow> serve (f len);
     b \<leftarrow> fill off out block;
     State_Monad.return (ret, b, len')
   }"

text \<open>\<open>memcmp\<close> of \<open>n\<close> bytes at two offsets of the block, and what is printed of it.\<close>

definition shows_match :: "bytes \<Rightarrow> nat \<Rightarrow> nat \<Rightarrow> u32 \<Rightarrow> (('w, 'z) crypto_st_scheme, unit) state" where
  "shows_match block p q n = do {
     when_m (p + unat n > length block \<or> q + unat n > length block) sh_ub;
     shows_line (Line (if take (unat n) (drop p block) = take (unat n) (drop q block)
       then ''match'' else ''not match'') [])
   }"

section \<open>Key derivation\<close>

definition kdf_key_test_cmd :: "'w crypto_port \<Rightarrow> string list \<Rightarrow> (('w, 'z) crypto_st_scheme, int) state" where
  "kdf_key_test_cmd P argv = do {
     a \<leftarrow> argv_at argv 1;
     let (r, user_input) = hexstr_to_digits a (replicate 16 0) 16;
     if r \<noteq> 0 then State_Monad.return (- SH_EINVAL)
     else do {
       (e, out) \<leftarrow> serve (hw_kdf P user_input);
       if e \<noteq> 0 then State_Monad.return (- SH_EINVAL)
       else do {
         let result = take 4 (out @ replicate 4 0);
         shows_line (Hex (concat (map (\<lambda>w. hex_digits 8 (unat w)) (rev result))));
         State_Monad.return 0
       }
     }
   }"

text \<open>
  The part behind the allocation: the block has the data in front, 16 bytes, and twice 32 bytes of output.
  The length of the first output is the room given to the second call. A failure goes to the common exit.
\<close>

definition encrypt_both :: "'w crypto_port \<Rightarrow> bytes \<Rightarrow> bytes \<Rightarrow> bytes \<Rightarrow> (('w, 'z) crypto_st_scheme, int) state" where
  "encrypt_both P kdf_key derive_key block = do {
     let iv = replicate 16 0x5a;
     hexdump iv 16;
     hexdump block 16;
     (ret, b1, len1) \<leftarrow> cipher (ceml_encrypt P 0 kdf_key iv (take 16 block)) 32 16 block;
     if ret \<noteq> 0 then State_Monad.return ret
     else do {
       hexdump (drop 16 b1) len1;
       (ret2, b2, len2) \<leftarrow> cipher (ceml_encrypt P 1 derive_key iv (take 16 b1)) len1 48 b1;
       if ret2 \<noteq> 0 then State_Monad.return ret2
       else do {
         hexdump (drop 48 b2) len2;
         shows_match b2 16 48 len2;
         State_Monad.return (qapi_ok P)
       }
     }
   }"

definition kdf_encrypt_test_cmd :: "'w crypto_port \<Rightarrow> string list \<Rightarrow> (('w, 'z) crypto_st_scheme, int) state" where
  "kdf_encrypt_test_cmd P argv = do {
     a1 \<leftarrow> argv_at argv 1;
     let (r1, kdf_key) = hexstr_to_digits a1 (replicate 16 0) 16;
     if r1 \<noteq> 0 then State_Monad.return (- SH_EINVAL)
     else do {
       a2 \<leftarrow> argv_at argv 2;
       let (r2, derive_key) = hexstr_to_digits a2 (replicate 16 0) 16;
       if r2 \<noteq> 0 then State_Monad.return (- SH_EINVAL)
       else do {
         data_test \<leftarrow> new_block P 80;
         case data_test of
           None \<Rightarrow> State_Monad.return (qapi_error P)
         | Some b \<Rightarrow> do {
             a3 \<leftarrow> argv_at argv 3;
             let (r3, b0) = hexstr_to_digits a3 b 16;
             ret \<leftarrow> (if r3 \<noteq> 0 then State_Monad.return (qapi_error P) else encrypt_both P kdf_key derive_key b0);
             free_block;
             State_Monad.return ret
           }
       }
     }
   }"

text \<open>Here 32 bytes of data are followed by twice 16 bytes of output.\<close>

definition decrypt_both :: "'w crypto_port \<Rightarrow> bytes \<Rightarrow> bytes \<Rightarrow> bytes \<Rightarrow> (('w, 'z) crypto_st_scheme, int) state" where
  "decrypt_both P kdf_key derive_key block = do {
     hexdump block 32;
     (ret, b1, len1) \<leftarrow> cipher (ceml_decrypt P 0 kdf_key (take 32 block)) 16 32 block;
     if ret \<noteq> 0 then State_Monad.return ret
     else do {
       hexdump (drop 32 b1) len1;
       (ret2, b2, len2) \<leftarrow> cipher (ceml_decrypt P 1 derive_key (take 32 b1)) len1 48 b1;
       if ret2 \<noteq> 0 then State_Monad.return ret2
       else do {
         hexdump (drop 48 b2) len2;
         shows_match b2 32 48 len2;
         State_Monad.return (qapi_ok P)
       }
     }
   }"

definition kdf_decrypt_test_cmd :: "'w crypto_port \<Rightarrow> string list \<Rightarrow> (('w, 'z) crypto_st_scheme, int) state" where
  "kdf_decrypt_test_cmd P argv = do {
     a1 \<leftarrow> argv_at argv 1;
     let (r1, kdf_key) = hexstr_to_digits a1 (replicate 16 0) 16;
     if r1 \<noteq> 0 then State_Monad.return (- SH_EINVAL)
     else do {
       a2 \<leftarrow> argv_at argv 2;
       let (r2, derive_key) = hexstr_to_digits a2 (replicate 16 0) 16;
       if r2 \<noteq> 0 then State_Monad.return (- SH_EINVAL)
       else do {
         encrypted_data \<leftarrow> new_block P 64;
         case encrypted_data of
           None \<Rightarrow> State_Monad.return (qapi_error P)
         | Some b \<Rightarrow> do {
             a3 \<leftarrow> argv_at argv 3;
             let (r3, b0) = hexstr_to_digits a3 b 32;
             ret \<leftarrow> (if r3 \<noteq> 0 then State_Monad.return (qapi_error P) else decrypt_both P kdf_key derive_key b0);
             free_block;
             State_Monad.return ret
           }
       }
     }
   }"

section \<open>Self tests\<close>

definition shows_verdict :: "int \<Rightarrow> (('w, 'z) crypto_st_scheme, unit) state" where
  "shows_verdict rc = shows_line (Line (if rc \<noteq> 0 then ''Test Fail'' else ''Test Pass'') [])"

definition pka_run :: "'w crypto_port \<Rightarrow> int \<Rightarrow> pka_test \<Rightarrow> (('w, 'z) crypto_st_scheme, unit) state" where
  "pka_run P verbose t = do { rc \<leftarrow> serve (pka_self_test P t verbose); shows_verdict rc }"

definition cmd_pka_test :: "'w crypto_port \<Rightarrow> string list \<Rightarrow> (('w, 'z) crypto_st_scheme, int) state" where
  "cmd_pka_test P argv =
     (if length argv \<noteq> 3 then State_Monad.return (- SH_EINVAL)
      else with_ulong P argv 2 (\<lambda>verbose. do {
        let v = sint verbose;
        m \<leftarrow> argv_at argv 1;
        if m = ''all'' then do {
          pka_run P v Pka_MPI; pka_run P v Pka_RSA; pka_run P v Pka_DH; pka_run P v Pka_ECP; pka_run P v Pka_ECDSA;
          State_Monad.return 0
        }
        else if m = ''mpi'' then do { pka_run P v Pka_MPI; State_Monad.return 0 }
        else if m = ''rsa'' then do { pka_run P v Pka_RSA; State_Monad.return 0 }
        else if m = ''dh'' then do { pka_run P v Pka_DH; State_Monad.return 0 }
        else if m = ''ecp'' then do { pka_run P v Pka_ECP; State_Monad.return 0 }
        else if m = ''ecdsa'' then do { pka_run P v Pka_ECDSA; State_Monad.return 0 }
        else State_Monad.return (- SH_EINVAL)
      }))"

text \<open>
  One module of \<open>qcc_test\<close>, if the build has it and it was asked for; \<open>k\<close> goes on, told whether any module
  matched so far.
\<close>

definition qcc_try :: "'w crypto_port \<Rightarrow> string \<Rightarrow> int \<Rightarrow> string \<Rightarrow> qcc_module \<Rightarrow> bool \<Rightarrow>
    (bool \<Rightarrow> (('w, 'z) crypto_st_scheme, int) state) \<Rightarrow> (('w, 'z) crypto_st_scheme, int) state" where
  "qcc_try P m verbose name t matched k =
     (if cfg_qcc P t \<and> (m = ''all'' \<or> m = name) then do {
        rc \<leftarrow> serve (qcc_self_test P t verbose);
        shows_verdict rc;
        if m = name then State_Monad.return 0 else k True
      }
      else k matched)"

definition cmd_qcc_test :: "'w crypto_port \<Rightarrow> string list \<Rightarrow> (('w, 'z) crypto_st_scheme, int) state" where
  "cmd_qcc_test P argv =
     (if \<not> cfg_mbedtls_test P then State_Monad.return (- SH_EINVAL)
      else if length argv \<noteq> 3 then State_Monad.return (- SH_EINVAL)
      else with_number P argv 2 (\<lambda>verbose. do {
        m \<leftarrow> argv_at argv 1;
        let v = sint verbose;
        qcc_try P m v ''aes'' Qcc_AES False (\<lambda>b1.
        qcc_try P m v ''ccm'' Qcc_CCM b1 (\<lambda>b2.
        qcc_try P m v ''sha1'' Qcc_SHA1 b2 (\<lambda>b3.
        qcc_try P m v ''sha256'' Qcc_SHA256 b3 (\<lambda>b4.
          State_Monad.return (if b4 then 0 else - SH_EINVAL)))))
      }))"

section \<open>Entropy\<close>

definition cmd_entropy_test :: "'w crypto_port \<Rightarrow> string list \<Rightarrow> (('w, 'z) crypto_st_scheme, int) state" where
  "cmd_entropy_test P argv =
     (if \<not> cfg_entropy P then State_Monad.return (- SH_ENOTSUP)
      else if length argv \<noteq> 2 then State_Monad.return (- SH_EINVAL)
      else with_number P argv 1 (\<lambda>verbose. do {
        rc \<leftarrow> serve (entropy_self_test P (sint verbose));
        shows_verdict rc;
        State_Monad.return (if rc \<noteq> 0 then - SH_EFAULT else 0)
      }))"

definition cmd_entropy_hw_poll :: "'w crypto_port \<Rightarrow> string list \<Rightarrow> (('w, 'z) crypto_st_scheme, int) state" where
  "cmd_entropy_hw_poll P argv =
     (if \<not> cfg_hw_entropy P then State_Monad.return (- SH_ENOTSUP)
      else if length argv \<noteq> 2 then State_Monad.return (- SH_EINVAL)
      else do {
        (req, err) \<leftarrow> arg_ulong P argv 1;
        if err \<noteq> 0 \<or> req = 0 \<or> req > 1024 then State_Monad.return (- SH_EINVAL)
        else do {
          buf \<leftarrow> new_block P (unat req);
          case buf of
            None \<Rightarrow> State_Monad.return (- SH_ENOMEM)
          | Some b0 \<Rightarrow> do {
              (rc, out, olen) \<leftarrow> serve (hardware_poll P req);
              b \<leftarrow> fill 0 out b0;
              if rc \<noteq> 0 \<or> olen = 0 then do { free_block; State_Monad.return (- SH_EIO) }
              else do {
                shows_line (Line ''HW entropy bytes'' [uint req, uint olen]);
                hexdump b olen;
                free_block;
                State_Monad.return 0
              }
            }
        }
      })"

section \<open>Secure storage\<close>

definition its_length_ok :: "'w crypto_port \<Rightarrow> nat \<Rightarrow> bool" where
  "its_length_ok P n \<longleftrightarrow> \<not> (n \<le> 0 \<or> n > its_max_data_size P)"

text \<open>The end of \<open>cmd_secure_write\<close>, which gives the block back.\<close>

definition its_store :: "'w crypto_port \<Rightarrow> u32 \<Rightarrow> bytes \<Rightarrow> (('w, 'z) crypto_st_scheme, int) state" where
  "its_store P uid data_write = do {
     err \<leftarrow> serve (its_set P uid data_write);
     free_block;
     State_Monad.return (if err \<noteq> 0 then - 1 else 0)
   }"

text \<open>With two arguments the second is the data; text that is not hexadecimal returns without giving the block back.\<close>

definition secure_write_hex :: "'w crypto_port \<Rightarrow> u32 \<Rightarrow> string \<Rightarrow> (('w, 'z) crypto_st_scheme, int) state" where
  "secure_write_hex P uid hex_string =
     (let data_length = length hex_string div 2
      in if \<not> its_length_ok P data_length then State_Monad.return (- SH_EINVAL)
         else do {
           block \<leftarrow> new_block P data_length;
           case block of
             None \<Rightarrow> State_Monad.return (- SH_ENOMEM)
           | Some b \<Rightarrow>
               (case hexstr_to_digits hex_string b (of_nat data_length) of (r, data_write) \<Rightarrow>
                  if r \<noteq> 0 then State_Monad.return (- SH_EINVAL)
                  else its_store P uid data_write)
         })"

text \<open>With three, a single digit is repeated up to a length that is counted in digits.\<close>

definition secure_write_repeated :: "'w crypto_port \<Rightarrow> u32 \<Rightarrow> string \<Rightarrow> u32 \<Rightarrow> (('w, 'z) crypto_st_scheme, int) state" where
  "secure_write_repeated P uid dup_hex hex_data_length =
     (if unat hex_data_length mod 2 \<noteq> 0 then State_Monad.return (- SH_EINVAL)
      else
        let data_length = unat hex_data_length div 2
        in if \<not> its_length_ok P data_length then State_Monad.return (- SH_EINVAL)
           else if dup_hex = [] \<or> hex2digit (hd dup_hex) < 0 \<or> length dup_hex \<noteq> 1 then State_Monad.return (- SH_EINVAL)
           else do {
             block \<leftarrow> new_block P data_length;
             case block of
               None \<Rightarrow> State_Monad.return (- SH_ENOMEM)
             | Some b \<Rightarrow>
                 (let nibble = word_of_int (hex2digit (hd dup_hex)) :: u8
                  in its_store P uid (replicate data_length (push_bit 4 nibble OR nibble)))
           })"

definition cmd_secure_write :: "'w crypto_port \<Rightarrow> string list \<Rightarrow> (('w, 'z) crypto_st_scheme, int) state" where
  "cmd_secure_write P argv =
     (if length argv \<noteq> 3 \<and> length argv \<noteq> 4 then State_Monad.return (- SH_EINVAL)
      else with_ulong P argv 1 (\<lambda>uid. do {
        hex \<leftarrow> argv_at argv 2;
        if length argv = 3 then secure_write_hex P uid hex
        else with_ulong P argv 3 (secure_write_repeated P uid hex)
      }))"

definition cmd_secure_read :: "'w crypto_port \<Rightarrow> string list \<Rightarrow> (('w, 'z) crypto_st_scheme, int) state" where
  "cmd_secure_read P argv =
     (if length argv \<noteq> 3 then State_Monad.return (- SH_EINVAL)
      else with_ulong P argv 1 (\<lambda>uid. with_ulong P argv 2 (\<lambda>hex_data_length.
        let data_length = unat hex_data_length div 2
        in if \<not> its_length_ok P data_length then State_Monad.return (- SH_EINVAL)
           else do {
             block \<leftarrow> new_block P data_length;
             case block of
               None \<Rightarrow> State_Monad.return (- SH_ENOMEM)
             | Some b0 \<Rightarrow> do {
                 (err, out, actual_length) \<leftarrow> serve (its_get P uid 0 data_length);
                 b \<leftarrow> fill 0 out b0;
                 if err \<noteq> 0 then do { free_block; State_Monad.return (- 1) }
                 else do {
                   shows_line (Line ''Successfully read'' [int actual_length]);
                   hexdump b (of_nat actual_length);
                   free_block;
                   State_Monad.return 0
                 }
               }
           })))"

definition cmd_secure_get_info :: "'w crypto_port \<Rightarrow> string list \<Rightarrow> (('w, 'z) crypto_st_scheme, int) state" where
  "cmd_secure_get_info P argv =
     (if length argv \<noteq> 2 then State_Monad.return (- SH_EINVAL)
      else with_ulong P argv 1 (\<lambda>uid. do {
        (err, sz) \<leftarrow> serve (its_get_info P uid);
        if err \<noteq> 0 then State_Monad.return (- 1)
        else do { shows_line (Line ''size'' [sint sz]); State_Monad.return 0 }
      }))"

definition cmd_secure_remove :: "'w crypto_port \<Rightarrow> string list \<Rightarrow> (('w, 'z) crypto_st_scheme, int) state" where
  "cmd_secure_remove P argv =
     (if length argv \<noteq> 2 then State_Monad.return (- SH_EINVAL)
      else with_ulong P argv 1 (\<lambda>uid. do {
        err \<leftarrow> serve (its_remove P uid);
        State_Monad.return (if err \<noteq> 0 then - 1 else 0)
      }))"

section \<open>The password\<close>

definition hex_to_dec_nibble :: "char \<Rightarrow> int" where
  "hex_to_dec_nibble ch =
     (let c = of_char ch :: int
      in if c \<ge> 48 \<and> c \<le> 57 then c - 48
         else if c \<ge> 97 \<and> c \<le> 102 then c - 97 + 10
         else if c \<ge> 65 \<and> c \<le> 70 then c - 65 + 10
         else - 1)"

text \<open>The loop over the pairs, and the bytes it stored.\<close>

fun convert_pairs :: "string \<Rightarrow> int \<times> bytes" where
  "convert_pairs (a # b # r) =
     (let high = hex_to_dec_nibble a; low = hex_to_dec_nibble b
      in if high < 0 \<or> low < 0 then (- 1, [])
         else (case convert_pairs r of (rc, bs) \<Rightarrow>
           (rc, (push_bit 4 (word_of_int high) OR word_of_int low) # bs)))"
| "convert_pairs _ = (0, [])"

definition convert_data_in_hex_to_byte_array :: "string \<Rightarrow> u32 \<Rightarrow> int \<times> bytes" where
  "convert_data_in_hex_to_byte_array data_in_hex n =
     (if n > 0x7FFFFFFF then (- 1, [])
      else if 2 * n \<noteq> of_nat (length data_in_hex) then (- 1, [])
      else convert_pairs data_in_hex)"

definition cmd_secure_set_password :: "string list \<Rightarrow> (('w, 'z) crypto_st_scheme, int) state" where
  "cmd_secure_set_password argv =
     (if length argv \<noteq> 2 then State_Monad.return (- SH_EINVAL)
      else do {
        password_in_hex \<leftarrow> argv_at argv 1;
        let (status_code, user_password) = convert_data_in_hex_to_byte_array password_in_hex 16;
        if status_code \<noteq> 0 then State_Monad.return (- SH_EINVAL)
        else do {
          modify (\<lambda>s. s\<lparr>g_securefs_password := user_password\<rparr>);
          State_Monad.return 0
        }
      })"

definition sub_pm_cmds_cr :: "'w crypto_port \<Rightarrow> ('w, 'z) crypto_st_scheme sh_cmd list" where
  "sub_pm_cmds_cr P =
     [SHELL_CMD_ARG ''kdf_key'' (kdf_key_test_cmd P) 2 0,
      SHELL_CMD_ARG ''kdf_encrypt'' (kdf_encrypt_test_cmd P) 4 0,
      SHELL_CMD_ARG ''kdf_decrypt'' (kdf_decrypt_test_cmd P) 4 0,
      SHELL_CMD_ARG ''pka_test'' (cmd_pka_test P) 3 0,
      SHELL_CMD_ARG ''qcc_test'' (cmd_qcc_test P) 3 0,
      SHELL_CMD_ARG ''entropy_test'' (cmd_entropy_test P) 2 0,
      SHELL_CMD_ARG ''entropy_hw_poll'' (cmd_entropy_hw_poll P) 2 0]
     @ (if cfg_its P then
          [SHELL_CMD_ARG ''secure_write'' (cmd_secure_write P) 3 1,
           SHELL_CMD_ARG ''secure_read'' (cmd_secure_read P) 3 0,
           SHELL_CMD_ARG ''secure_get_info'' (cmd_secure_get_info P) 2 0,
           SHELL_CMD_ARG ''secure_remove'' (cmd_secure_remove P) 2 0,
           SHELL_CMD_ARG ''secure_set_password'' cmd_secure_set_password 2 0]
        else [])"

end
