(* ===== verification/Sh_Bmps.thy ===== *)
theory Sh_Bmps
  imports Sh_Types
begin

text \<open>
  \<open>src/common/shell/src/qbmps_shell.c\<close>: the commands on the power save of a Wi-Fi station (BMPS), the filter
  that decides which broadcast and multicast frames wake the system, and the timers.
\<close>

section \<open>State and services\<close>

definition WIFI_MAC_HEADER_LEN :: nat where "WIFI_MAC_HEADER_LEN = 24"
definition LLC_SNAP_HEADER_LEN :: nat where "LLC_SNAP_HEADER_LEN = 8"
definition UDP_WHITELIST_LEN :: nat where "UDP_WHITELIST_LEN = 4"

text \<open>The requests to the network manager, each with its parameters.\<close>

datatype bmps_request =
    Set_Rx_Filter u8 bool \<comment> \<open>enable, and whether the callback is set\<close>
  | Set_Bmps_Enable u8
  | Ps_Timeout u32
  | Ignore_Bc_Mc u8
  | Power_Optimization u8
  | Compress_Qos_Null u8

datatype wmi_command = Wmi_Bmps_Disable | Wmi_Dbg_Tsf

text \<open>An option that \<open>getopt_long\<close> returns for \<open>a:u:q\<close>, with its argument.\<close>

datatype bcmc_option = Opt_Adddel string | Opt_Udpport string | Opt_Querry | Opt_Invalid

text \<open>
  \<open>sh_getopt\<close> lists what the calls of \<open>getopt_long\<close> return until the end. \<open>gateway_of\<close> is the IPv4 gateway in
  dotted form; \<open>inet_pton_ok\<close> and \<open>udp_connect\<close> take it back. A device is absent, not ready or ready.
  \<open>stop_all_k_timers\<close> is \<open>pm_timer_stop_all_k_timers\<close> of the power service, which \<open>Pm_Timer\<close> models over the
  state of the kernel; here only its effect on the world counts.
\<close>

datatype device_state = No_Device | Not_Ready | Ready

record 'w bmps_port = sh_lib +
  cfg_pm :: bool
  sh_getopt :: "string list \<Rightarrow> bcmc_option list"
  bm_wifi_sta :: "'w \<Rightarrow> nat option"
  bm_net_mgmt :: "bmps_request \<Rightarrow> nat option \<Rightarrow> 'w \<Rightarrow> int \<times> 'w"
  wmi_cmd_send :: "wmi_command \<Rightarrow> 'w \<Rightarrow> 'w"
  hres_time_us :: "'w \<Rightarrow> u64"
  bmps_timer_start :: "u32 \<Rightarrow> 'w \<Rightarrow> 'w"
  bmps_timer_stop :: "'w \<Rightarrow> 'w"
  period_timer_start :: "u32 \<Rightarrow> 'w \<Rightarrow> 'w"
  udp_timer_init :: "'w \<Rightarrow> 'w"
  udp_timer_start :: "u32 \<Rightarrow> 'w \<Rightarrow> 'w"
  bm_locked :: "'w \<Rightarrow> bool"
  bm_lock :: "'w \<Rightarrow> 'w"
  bm_unlock :: "'w \<Rightarrow> 'w"
  wifi_device :: "'w \<Rightarrow> device_state"
  busy_set :: "'w \<Rightarrow> 'w"
  busy_clear :: "'w \<Rightarrow> 'w"
  stop_all_k_timers :: "'w \<Rightarrow> 'w"
  gateway_of :: "nat \<Rightarrow> 'w \<Rightarrow> string"
  udp_socket :: "'w \<Rightarrow> int \<times> 'w"
  inet_pton_ok :: "string \<Rightarrow> bool"
  udp_connect :: "int \<Rightarrow> string \<Rightarrow> 'w \<Rightarrow> int \<times> 'w"
  udp_send :: "int \<Rightarrow> string \<Rightarrow> 'w \<Rightarrow> 'w"
  udp_close :: "int \<Rightarrow> 'w \<Rightarrow> 'w"

record 'w bmps_st = "'w sh_st" +
  bmps_start :: u64
  bmps_duration :: u64
  udp_sock :: int
  udp_whitelist_arr :: "u32 list"

definition request :: "'w bmps_port \<Rightarrow> bmps_request \<Rightarrow> (('w, 'z) bmps_st_scheme, int) state" where
  "request P r = do { iface \<leftarrow> ask (bm_wifi_sta P); serve (bm_net_mgmt P r iface) }"

section \<open>Power save\<close>

definition bmps_timer_cb :: "'w bmps_port \<Rightarrow> (('w, 'z) bmps_st_scheme, unit) state" where
  "bmps_timer_cb P = do {
     command (wmi_cmd_send P Wmi_Bmps_Disable);
     command (bm_lock P);
     command (bmps_timer_stop P)
   }"

text \<open>
  The result of the first request is not kept: the \<open>err\<close> that is tested behind it is still the one of the
  parser, 0.
\<close>

definition cmd_bmps_enable :: "'w bmps_port \<Rightarrow> string list \<Rightarrow> (('w, 'z) bmps_st_scheme, int) state" where
  "cmd_bmps_enable P argv =
     with_ulong P argv 1 (\<lambda>v. with_ulong P argv 2 (\<lambda>time. do {
       let enable = (ucast v :: u8);
       when_m (time \<noteq> 0) (do {
         command (bmps_timer_start P time);
         now \<leftarrow> ask (hres_time_us P);
         modify (\<lambda>s. s\<lparr>bmps_start := now, bmps_duration := now + ucast time * 1000\<rparr>)
       });
       _ \<leftarrow> request P (Set_Rx_Filter enable False);
       err \<leftarrow> request P (Set_Bmps_Enable enable);
       if err \<noteq> 0 then State_Monad.return err
       else do {
         locked \<leftarrow> ask (bm_locked P);
         when_m (enable \<noteq> 0 \<and> locked) (command (bm_unlock P));
         State_Monad.return 0
       }
     }))"

definition cmd_bmps_idle_time :: "'w bmps_port \<Rightarrow> string list \<Rightarrow> (('w, 'z) bmps_st_scheme, int) state" where
  "cmd_bmps_idle_time P argv = with_ulong P argv 1 (\<lambda>idle_timeout.
     if idle_timeout \<noteq> 0 then do { _ \<leftarrow> request P (Ps_Timeout idle_timeout); State_Monad.return 0 }
     else State_Monad.return 0)"

definition cmd_bmps_ignore_bcmc :: "'w bmps_port \<Rightarrow> string list \<Rightarrow> (('w, 'z) bmps_st_scheme, int) state" where
  "cmd_bmps_ignore_bcmc P argv = with_ulong P argv 1 (\<lambda>v. do {
     _ \<leftarrow> request P (Ignore_Bc_Mc (ucast v));
     State_Monad.return 0
   })"

definition cmd_dbg_tsf :: "'w bmps_port \<Rightarrow> string list \<Rightarrow> (('w, 'z) bmps_st_scheme, int) state" where
  "cmd_dbg_tsf P argv = do { command (wmi_cmd_send P Wmi_Dbg_Tsf); State_Monad.return 0 }"

definition cmd_clear_busy :: "'w bmps_port \<Rightarrow> string list \<Rightarrow> (('w, 'z) bmps_st_scheme, int) state" where
  "cmd_clear_busy P argv = do {
     d \<leftarrow> ask (wifi_device P);
     if d = No_Device then State_Monad.return (- SH_ENODEV)
     else if d = Not_Ready then State_Monad.return (- SH_ENODEV)
     else do { command (busy_clear P); State_Monad.return 0 }
   }"

definition cmd_set_busy :: "'w bmps_port \<Rightarrow> string list \<Rightarrow> (('w, 'z) bmps_st_scheme, int) state" where
  "cmd_set_busy P argv = do {
     d \<leftarrow> ask (wifi_device P);
     if d = No_Device then State_Monad.return (- SH_ENODEV)
     else if d = Not_Ready then State_Monad.return (- SH_ENODEV)
     else do { command (busy_set P); State_Monad.return 0 }
   }"

section \<open>The filter\<close>

text \<open>A byte of the frame, which is as long as the memory behind its pointer.\<close>

definition frame_byte :: "bytes \<Rightarrow> nat \<Rightarrow> (('w, 'z) bmps_st_scheme, u8) state" where
  "frame_byte frame i = (if i < length frame then State_Monad.return (frame ! i) else do { sh_ub; State_Monad.return 0 })"

text \<open>A 16-bit field in the order of the network.\<close>

definition frame_u16 :: "bytes \<Rightarrow> nat \<Rightarrow> (('w, 'z) bmps_st_scheme, u16) state" where
  "frame_u16 frame i = do {
     hi \<leftarrow> frame_byte frame i;
     lo \<leftarrow> frame_byte frame (i + 1);
     State_Monad.return (push_bit 8 (ucast hi) OR ucast lo)
   }"

text \<open>
  Behind the two headers of the frame comes the IPv4 header, of which the protocol is byte 9 and which is taken
  to have 20 bytes; the UDP header starts with the two ports. Only the length of the first two is checked.
\<close>

definition wakeup_cb_bcmc_filter_dtim :: "bool \<Rightarrow> bytes \<Rightarrow> u16 \<Rightarrow> (('w, 'z) bmps_st_scheme, bool) state" where
  "wakeup_cb_bcmc_filter_dtim bm_cast frame len =
     (if \<not> bm_cast then State_Monad.return True
      else if unat len < WIFI_MAC_HEADER_LEN + LLC_SNAP_HEADER_LEN then State_Monad.return False
      else do {
        t6 \<leftarrow> frame_byte frame (WIFI_MAC_HEADER_LEN + 6);
        t7 \<leftarrow> (if t6 \<noteq> 0x08 then State_Monad.return 0 else frame_byte frame (WIFI_MAC_HEADER_LEN + 7));
        if t6 \<noteq> 0x08 \<or> t7 \<noteq> 0x00 then State_Monad.return True
        else do {
          let ip = WIFI_MAC_HEADER_LEN + LLC_SNAP_HEADER_LEN;
          proto \<leftarrow> frame_byte frame (ip + 9);
          if proto \<noteq> 17 then State_Monad.return True
          else do {
            src_port \<leftarrow> frame_u16 frame (ip + 20);
            dst_port \<leftarrow> frame_u16 frame (ip + 22);
            whitelist \<leftarrow> gets udp_whitelist_arr;
            State_Monad.return (\<exists>p \<in> set whitelist. p \<noteq> 0 \<and> ucast dst_port = p)
          }
        }
      })"

definition cmd_bcmc_enable :: "'w bmps_port \<Rightarrow> string list \<Rightarrow> (('w, 'z) bmps_st_scheme, int) state" where
  "cmd_bcmc_enable P argv = with_ulong P argv 1 (\<lambda>v. do {
     _ \<leftarrow> request P (Set_Rx_Filter (ucast v) True);
     State_Monad.return 0
   })"

definition cmd_bmps_power_optimization_enable :: "'w bmps_port \<Rightarrow> string list \<Rightarrow>
    (('w, 'z) bmps_st_scheme, int) state" where
  "cmd_bmps_power_optimization_enable P argv = with_ulong P argv 1 (\<lambda>v. do {
     _ \<leftarrow> request P (Power_Optimization (ucast v));
     State_Monad.return 0
   })"

definition cmd_compress_qos_null_enable :: "'w bmps_port \<Rightarrow> string list \<Rightarrow> (('w, 'z) bmps_st_scheme, int) state" where
  "cmd_compress_qos_null_enable P argv = with_ulong P argv 1 (\<lambda>v. do {
     _ \<leftarrow> request P (Compress_Qos_Null (ucast v));
     State_Monad.return 0
   })"

text \<open>The loop over the options: the last values of \<open>en\<close> and \<open>port\<close>, or none if an option is invalid.\<close>

fun bcmc_options :: "bcmc_option list \<Rightarrow> int \<Rightarrow> int \<Rightarrow>
    (('w, 'z) bmps_st_scheme, (int \<times> int) option) state" where
  "bcmc_options [] en port = State_Monad.return (Some (en, port))"
| "bcmc_options (Opt_Adddel a # os) en port = do { v \<leftarrow> atoi a; bcmc_options os v port }"
| "bcmc_options (Opt_Udpport a # os) en port = do { v \<leftarrow> atoi a; bcmc_options os en v }"
| "bcmc_options (Opt_Querry # os) en port = do {
     ps \<leftarrow> gets udp_whitelist_arr;
     shows_line (Line ''udp whitelist port'' (map sint ps));
     bcmc_options os en port
   }"
| "bcmc_options (Opt_Invalid # os) en port = State_Monad.return None"

text \<open>The first free entry takes the port; none may be left.\<close>

fun whitelist_add :: "u32 \<Rightarrow> u32 list \<Rightarrow> u32 list" where
  "whitelist_add port [] = []"
| "whitelist_add port (p # ps) = (if p = 0 then port # ps else p # whitelist_add port ps)"

definition whitelist_delete :: "u32 \<Rightarrow> u32 list \<Rightarrow> u32 list" where
  "whitelist_delete port ps = map (\<lambda>p. if p = port then 0 else p) ps"

definition cmd_set_bcmc_filter :: "'w bmps_port \<Rightarrow> string list \<Rightarrow> (('w, 'z) bmps_st_scheme, int) state" where
  "cmd_set_bcmc_filter P argv = do {
     r \<leftarrow> bcmc_options (sh_getopt P argv) 0 0;
     case r of
       None \<Rightarrow> State_Monad.return (- SH_ENOEXEC)
     | Some (en, port) \<Rightarrow> do {
         let p = word_of_int port;
         modify (\<lambda>s. s\<lparr>udp_whitelist_arr :=
           (if en \<noteq> 0 then whitelist_add p (udp_whitelist_arr s) else whitelist_delete p (udp_whitelist_arr s))\<rparr>);
         State_Monad.return 0
       }
   }"

section \<open>Timers\<close>

definition cmd_bmps_get_hres :: "'w bmps_port \<Rightarrow> string list \<Rightarrow> (('w, 'z) bmps_st_scheme, int) state" where
  "cmd_bmps_get_hres P argv = do {
     t \<leftarrow> ask (hres_time_us P);
     shows_line (Line ''curr_time_us'' [uint (ucast t :: u32)]);
     State_Monad.return 0
   }"

text \<open>The next command and two more of the table only dump, which has no effect in the model.\<close>

definition cmd_get_kt_stats :: "string list \<Rightarrow> (('w, 'z) bmps_st_scheme, int) state" where
  "cmd_get_kt_stats argv = State_Monad.return 0"

definition cmd_kill_all_kt :: "'w bmps_port \<Rightarrow> string list \<Rightarrow> (('w, 'z) bmps_st_scheme, int) state" where
  "cmd_kill_all_kt P argv = do { command (stop_all_k_timers P); State_Monad.return 0 }"

definition cmd_list_all_dev :: "string list \<Rightarrow> (('w, 'z) bmps_st_scheme, int) state" where
  "cmd_list_all_dev argv = State_Monad.return 0"

definition cmd_get_pm_kt :: "string list \<Rightarrow> (('w, 'z) bmps_st_scheme, int) state" where
  "cmd_get_pm_kt argv = State_Monad.return 0"

definition cmd_set_period_wakeup :: "'w bmps_port \<Rightarrow> string list \<Rightarrow> (('w, 'z) bmps_st_scheme, int) state" where
  "cmd_set_period_wakeup P argv = with_ulong P argv 1 (\<lambda>slp_time_ms. do {
     when_m (slp_time_ms \<noteq> 0) (command (period_timer_start P slp_time_ms));
     State_Monad.return 0
   })"

definition udp_timer_handler :: "'w bmps_port \<Rightarrow> (('w, 'z) bmps_st_scheme, unit) state" where
  "udp_timer_handler P = do {
     sock \<leftarrow> gets udp_sock;
     when_m (sock \<ge> 0) (command (udp_send P sock ''Hello Gateway''))
   }"

text \<open>A socket that is connected to port 12345 of the gateway; false if there is none, and then it is closed.\<close>

definition open_udp :: "'w bmps_port \<Rightarrow> string \<Rightarrow> (('w, 'z) bmps_st_scheme, bool) state" where
  "open_udp P gw_str = do {
     sock \<leftarrow> serve (udp_socket P);
     modify (\<lambda>s. s\<lparr>udp_sock := sock\<rparr>);
     if sock < 0 then State_Monad.return False
     else do {
       r \<leftarrow> (if \<not> inet_pton_ok P gw_str then State_Monad.return (- 1) else serve (udp_connect P sock gw_str));
       if r < 0 then do {
         command (udp_close P sock);
         modify (\<lambda>s. s\<lparr>udp_sock := - 1\<rparr>);
         State_Monad.return False
       }
       else State_Monad.return True
     }
   }"

text \<open>
  The number is parsed first, but its error is never looked at.
\<close>

definition cmd_start_udp_timer :: "'w bmps_port \<Rightarrow> string list \<Rightarrow> (('w, 'z) bmps_st_scheme, int) state" where
  "cmd_start_udp_timer P argv = do {
     (period_ms, err) \<leftarrow> arg_ulong P argv 1;
     iface \<leftarrow> ask (bm_wifi_sta P);
     case iface of
       None \<Rightarrow> State_Monad.return (- 1)
     | Some i \<Rightarrow> do {
         gw_str \<leftarrow> ask (gateway_of P i);
         sock \<leftarrow> gets udp_sock;
         up \<leftarrow> (if sock < 0 then open_udp P gw_str else State_Monad.return True);
         if \<not> up then State_Monad.return (- 1)
         else do {
          command (udp_timer_init P);
          command (udp_timer_start P period_ms);
          State_Monad.return 0
        }
       }
   }"

definition sub_bmps_cmds :: "'w bmps_port \<Rightarrow> ('w, 'z) bmps_st_scheme sh_cmd list" where
  "sub_bmps_cmds P =
     [SHELL_CMD_ARG ''enable'' (cmd_bmps_enable P) 3 0,
      SHELL_CMD_ARG ''idle_time'' (cmd_bmps_idle_time P) 2 0,
      SHELL_CMD_ARG ''ignore_bcmc'' (cmd_bmps_ignore_bcmc P) 2 0,
      SHELL_CMD_ARG ''dbgtsf'' (cmd_dbg_tsf P) 1 0,
      SHELL_CMD_ARG ''clear_busy'' (cmd_clear_busy P) 1 0,
      SHELL_CMD_ARG ''set_busy'' (cmd_set_busy P) 1 0,
      SHELL_CMD_ARG ''bcmc_enable'' (cmd_bcmc_enable P) 2 0,
      SHELL_CMD_ARG ''bcmc_list'' (cmd_set_bcmc_filter P) 2 3,
      SHELL_CMD_ARG ''bmps_power_optimization_enable'' (cmd_bmps_power_optimization_enable P) 2 0,
      SHELL_CMD_ARG ''compress_qos_null_enable'' (cmd_compress_qos_null_enable P) 2 0]
     @ (if cfg_pm P then
          [SHELL_CMD_ARG ''get_hres'' (cmd_bmps_get_hres P) 1 0,
           SHELL_CMD_ARG ''get_kt_stats'' cmd_get_kt_stats 1 0,
           SHELL_CMD_ARG ''kill_all_kt'' (cmd_kill_all_kt P) 1 0,
           SHELL_CMD_ARG ''list_all_dev'' cmd_list_all_dev 1 0,
           SHELL_CMD_ARG ''get_pm_kt'' cmd_get_pm_kt 1 0]
        else [])
     @ [SHELL_CMD_ARG ''set_period_wakeup'' (cmd_set_period_wakeup P) 2 0,
        SHELL_CMD_ARG ''start_udp_timer'' (cmd_start_udp_timer P) 2 0]"

end
