(* ===== verification/Sh_Wifi.thy ===== *)
theory Sh_Wifi
  imports Sh_Types
begin

text \<open>
  \<open>src/common/shell/src/qwifi_shell.c\<close>: the commands that set and get parameters of the Wi-Fi driver through
  requests to the network manager.
\<close>

section \<open>Requests\<close>

text \<open>Requests that set something, with the parameters the command stores into the request's structure.\<close>

datatype wifi_request =
    Set_Tx_Power u32 u32 \<comment> \<open>power, policy\<close>
  | Unit_Test u8 u8 u16 "u32 list" \<comment> \<open>device, module, number of arguments, the 16 arguments\<close>
  | Set_Rts_Cts u32
  | Set_Rts_Rate u32
  | Set_Edca u8 u8 u16 u16 u16 \<comment> \<open>queue, aifsn, least and greatest window, txop limit\<close>
  | Set_Threshold u32
  | Set_Ba_Win u16 u16 \<comment> \<open>timeout of the acknowledgement, delay\<close>
  | Set_Slot_Time u32
  | Set_Bmiss_Threshold u32
  | Set_Aggregation u8 u8
  | Set_Amsdu_Rx bool
  | Set_Phy_Mode u32
  | Set_Rate bool u32 u32 u32 u32 \<comment> \<open>automatic, station, primary, secondary and tertiary rate\<close>
  | Set_Sap_Csa u32 u32 u32 \<comment> \<open>mode, channel, count\<close>
  | Set_Operation_Mode string string \<comment> \<open>mode, hidden\<close>
  | Set_Device_Id u16

text \<open>Requests that read, and the fields of what they fill in.\<close>

datatype wifi_query =
    Get_Tx_Power | Get_Rts_Cts | Get_Rts_Rate | Get_Edca u8 | Get_Threshold | Get_Ba_Win | Get_Slot_Time
  | Get_Bmiss_Threshold | Get_Phy_Mode | Get_Rate u32 | Get_Power_Mode | Get_Mac_Address | Get_Concurrency_Mode
  | Get_Operation_Mode

datatype out_field =
    O_Enable | O_Rts_Rate | O_Qid | O_Aifsn | O_Cw_Min | O_Cw_Max | O_Txop | O_Threshold | O_Ack_Timeout | O_Delay
  | O_Slot_Time | O_Phy_Mode | O_P_Rate | O_S_Rate | O_T_Rate | O_Power_Mode | O_Mac nat | O_Conc_Mode | O_Opmode

text \<open>Fields of the vendor's structures into which a command stores a number without a cast.\<close>

datatype in_field = I_Txpower | I_Policy | I_Enable | I_Rts_Rate | I_Threshold | I_Slot_Time | I_Bmiss
  | I_Switch_Mode | I_New_Channel | I_Switch_Count

datatype phy = Phy_11A | Phy_11B | Phy_11G | Phy_11NG | Phy_11ABGN

datatype band = Band_2_4_GHz | Band_5_GHz

text \<open>
  The structures are not in the sources: \<open>kept f v\<close> is what the field \<open>f\<close> holds after \<open>v\<close> was assigned to it.
  A query that fails fills in nothing.
\<close>

record 'w wifi_port = sh_lib +
  kept :: "in_field \<Rightarrow> u32 \<Rightarrow> u32"
  policy_security :: u32
  phy_code :: "phy \<Rightarrow> u32"
  dev_mode_ap_sta :: u32
  dev_mode_station :: u32
  dev_mode_ap :: u32
  wf_sta :: "'w \<Rightarrow> nat option"
  wf_sap :: "'w \<Rightarrow> nat option"
  iface_by_index :: "u32 \<Rightarrow> 'w \<Rightarrow> nat option"
  validate_chan :: "band \<Rightarrow> u32 \<Rightarrow> bool"
  wifi_set :: "wifi_request \<Rightarrow> nat option \<Rightarrow> 'w \<Rightarrow> int \<times> 'w"
  wifi_get :: "wifi_query \<Rightarrow> nat option \<Rightarrow> 'w \<Rightarrow> (int \<times> (out_field \<Rightarrow> u32)) \<times> 'w"

text \<open>The common end of the commands: the request to the station's interface, and the error if it fails.\<close>

definition set_req :: "'w wifi_port \<Rightarrow> wifi_request \<Rightarrow> (('w, 'z) sh_st_scheme, int) state" where
  "set_req P r = do {
     iface \<leftarrow> ask (wf_sta P);
     ret \<leftarrow> serve (wifi_set P r iface);
     State_Monad.return (if ret \<noteq> 0 then - SH_ENOEXEC else 0)
   }"

text \<open>A query, the error if it fails, else the line it prints.\<close>

definition get_req :: "'w wifi_port \<Rightarrow> wifi_query \<Rightarrow> ((out_field \<Rightarrow> u32) \<Rightarrow> sh_line) \<Rightarrow>
    (('w, 'z) sh_st_scheme, int) state" where
  "get_req P q line = do {
     iface \<leftarrow> ask (wf_sta P);
     (ret, out) \<leftarrow> serve (wifi_get P q iface);
     if ret \<noteq> 0 then State_Monad.return (- SH_ENOEXEC)
     else do { shows_line (line out); State_Monad.return 0 }
   }"

section \<open>Power and unit tests\<close>

definition cmd_set_tx_power :: "'w wifi_port \<Rightarrow> string list \<Rightarrow> (('w, 'z) sh_st_scheme, int) state" where
  "cmd_set_tx_power P argv =
     (if length argv \<noteq> 3 then State_Monad.return (- SH_EINVAL)
      else with_ulong P argv 1 (\<lambda>v. with_ulong P argv 2 (\<lambda>w.
        let txpower = kept P I_Txpower v; policy = kept P I_Policy w
        in if txpower > 255 then State_Monad.return (- SH_ENOEXEC)
           else if policy > policy_security P then State_Monad.return (- SH_ENOEXEC)
           else set_req P (Set_Tx_Power txpower policy))))"

text \<open>The answer arrives as an event elsewhere.\<close>

definition cmd_get_tx_power :: "'w wifi_port \<Rightarrow> string list \<Rightarrow> (('w, 'z) sh_st_scheme, int) state" where
  "cmd_get_tx_power P argv = do {
     iface \<leftarrow> ask (wf_sta P);
     (ret, out) \<leftarrow> serve (wifi_get P Get_Tx_Power iface);
     State_Monad.return (if ret \<noteq> 0 then - SH_ENOEXEC else 0)
   }"

fun atoi_all :: "string list \<Rightarrow> (('w, 'z) sh_st_scheme, u32 list) state" where
  "atoi_all [] = State_Monad.return []"
| "atoi_all (a # as) = do {
     v \<leftarrow> atoi a;
     vs \<leftarrow> atoi_all as;
     State_Monad.return (word_of_int v # vs)
   }"

definition cmd_qwifi_unit_test :: "'w wifi_port \<Rightarrow> string list \<Rightarrow> (('w, 'z) sh_st_scheme, int) state" where
  "cmd_qwifi_unit_test P argv =
     (if length argv < 4 then State_Monad.return (- SH_EINVAL)
      else do {
        vdev \<leftarrow> atoi (argv ! 1);
        module \<leftarrow> atoi (argv ! 2);
        num \<leftarrow> atoi (argv ! 3);
        let num_args = (word_of_int num :: u16);
        if length argv \<noteq> 4 + unat num_args then State_Monad.return (- SH_EINVAL)
        else do {
          vs \<leftarrow> atoi_all (take 16 (drop 4 argv));
          set_req P (Unit_Test (word_of_int vdev) (word_of_int module) num_args (take 16 (vs @ replicate 16 0)))
        }
      })"

section \<open>Parameters of the MAC\<close>

definition cmd_set_rts_cts :: "'w wifi_port \<Rightarrow> string list \<Rightarrow> (('w, 'z) sh_st_scheme, int) state" where
  "cmd_set_rts_cts P argv =
     (if length argv \<noteq> 2 then State_Monad.return (- SH_EINVAL)
      else with_ulong P argv 1 (\<lambda>v.
        let enable = kept P I_Enable v
        in if enable \<noteq> 0 \<and> enable \<noteq> 1 then State_Monad.return (- SH_EINVAL)
           else set_req P (Set_Rts_Cts enable)))"

definition cmd_get_rts_cts :: "'w wifi_port \<Rightarrow> string list \<Rightarrow> (('w, 'z) sh_st_scheme, int) state" where
  "cmd_get_rts_cts P argv =
     get_req P Get_Rts_Cts (\<lambda>out. Line (if out O_Enable \<noteq> 0 then ''RTS/CTS: enabled'' else ''RTS/CTS: disabled'') [])"

definition cmd_set_rts_rate :: "'w wifi_port \<Rightarrow> string list \<Rightarrow> (('w, 'z) sh_st_scheme, int) state" where
  "cmd_set_rts_rate P argv =
     (if length argv \<noteq> 2 then State_Monad.return (- SH_EINVAL)
      else with_ulong P argv 1 (\<lambda>v.
        let rts_rate = kept P I_Rts_Rate v
        in if rts_rate > 2 then State_Monad.return (- SH_EINVAL)
           else set_req P (Set_Rts_Rate rts_rate)))"

definition rts_rate_index :: "u32 \<Rightarrow> u32" where
  "rts_rate_index r = (if r = 1 then 0 else if r = 6 then 1 else if r = 12 then 2 else 0xff)"

definition cmd_get_rts_rate :: "'w wifi_port \<Rightarrow> string list \<Rightarrow> (('w, 'z) sh_st_scheme, int) state" where
  "cmd_get_rts_rate P argv =
     get_req P Get_Rts_Rate (\<lambda>out. Line ''RTS rate'' [uint (rts_rate_index (out O_Rts_Rate))])"

text \<open>The numbers are cut to 8 and 16 bits before anything is checked.\<close>

definition cmd_set_edca_param_cfg :: "'w wifi_port \<Rightarrow> string list \<Rightarrow> (('w, 'z) sh_st_scheme, int) state" where
  "cmd_set_edca_param_cfg P argv =
     (if length argv \<noteq> 6 then State_Monad.return (- SH_EINVAL)
      else with_ulong P argv 1 (\<lambda>v.
        let qid = (ucast v :: u8)
        in if qid \<ge> 8 \<and> qid \<noteq> 0xFF then State_Monad.return (- SH_EINVAL)
           else with_ulong P argv 2 (\<lambda>aifsn. with_ulong P argv 3 (\<lambda>cw_min.
             with_ulong P argv 4 (\<lambda>cw_max. with_ulong P argv 5 (\<lambda>txop_limit.
               set_req P (Set_Edca qid (ucast aifsn) (ucast cw_min) (ucast cw_max) (ucast txop_limit))))))))"

definition cmd_get_edca_param_cfg :: "'w wifi_port \<Rightarrow> string list \<Rightarrow> (('w, 'z) sh_st_scheme, int) state" where
  "cmd_get_edca_param_cfg P argv =
     (let query = (\<lambda>qid. get_req P (Get_Edca qid)
            (\<lambda>out. Line ''EDCA'' [uint (out O_Qid), uint (out O_Aifsn), uint (out O_Cw_Min), uint (out O_Cw_Max),
              uint (out O_Txop)]))
      in if length argv = 2 then with_ulong P argv 1 (\<lambda>v. query (ucast v)) else query 0xFF)"

definition cmd_set_threshold :: "'w wifi_port \<Rightarrow> string list \<Rightarrow> (('w, 'z) sh_st_scheme, int) state" where
  "cmd_set_threshold P argv =
     (if length argv \<noteq> 2 then State_Monad.return (- SH_EINVAL)
      else with_ulong P argv 1 (\<lambda>v.
        let threshold = kept P I_Threshold v
        in if threshold > 100 then State_Monad.return (- SH_EINVAL)
           else set_req P (Set_Threshold threshold)))"

definition cmd_get_threshold :: "'w wifi_port \<Rightarrow> string list \<Rightarrow> (('w, 'z) sh_st_scheme, int) state" where
  "cmd_get_threshold P argv = get_req P Get_Threshold (\<lambda>out. Line ''PER threshold'' [uint (out O_Threshold)])"

definition cmd_set_ba_win_timing :: "'w wifi_port \<Rightarrow> string list \<Rightarrow> (('w, 'z) sh_st_scheme, int) state" where
  "cmd_set_ba_win_timing P argv =
     (if length argv \<noteq> 3 then State_Monad.return (- SH_EINVAL)
      else with_ulong P argv 1 (\<lambda>v. with_ulong P argv 2 (\<lambda>w.
        let ack_timeout = (ucast v :: u16); delay = (ucast w :: u16)
        in if ack_timeout > 4096 then State_Monad.return (- SH_EINVAL)
           else if delay > 64 then State_Monad.return (- SH_EINVAL)
           else set_req P (Set_Ba_Win ack_timeout delay))))"

definition cmd_get_ba_win_timing :: "'w wifi_port \<Rightarrow> string list \<Rightarrow> (('w, 'z) sh_st_scheme, int) state" where
  "cmd_get_ba_win_timing P argv =
     get_req P Get_Ba_Win (\<lambda>out. Line ''BA window'' [uint (out O_Ack_Timeout), uint (out O_Delay)])"

definition cmd_set_slot_time :: "'w wifi_port \<Rightarrow> string list \<Rightarrow> (('w, 'z) sh_st_scheme, int) state" where
  "cmd_set_slot_time P argv =
     (if length argv \<noteq> 2 then State_Monad.return (- SH_EINVAL)
      else with_ulong P argv 1 (\<lambda>v. set_req P (Set_Slot_Time (kept P I_Slot_Time v))))"

definition cmd_get_slot_time :: "'w wifi_port \<Rightarrow> string list \<Rightarrow> (('w, 'z) sh_st_scheme, int) state" where
  "cmd_get_slot_time P argv = get_req P Get_Slot_Time (\<lambda>out. Line ''Slot time'' [uint (out O_Slot_Time)])"

definition cmd_set_bmiss_threshold :: "'w wifi_port \<Rightarrow> string list \<Rightarrow> (('w, 'z) sh_st_scheme, int) state" where
  "cmd_set_bmiss_threshold P argv =
     (if length argv \<noteq> 2 then State_Monad.return (- SH_EINVAL)
      else with_ulong P argv 1 (\<lambda>v. set_req P (Set_Bmiss_Threshold (kept P I_Bmiss v))))"

definition cmd_get_bmiss_threshold :: "'w wifi_port \<Rightarrow> string list \<Rightarrow> (('w, 'z) sh_st_scheme, int) state" where
  "cmd_get_bmiss_threshold P argv =
     get_req P Get_Bmiss_Threshold (\<lambda>out. Line ''BMISS threshold'' [uint (out O_Threshold)])"

definition cmd_set_aggregation :: "'w wifi_port \<Rightarrow> string list \<Rightarrow> (('w, 'z) sh_st_scheme, int) state" where
  "cmd_set_aggregation P argv =
     (if length argv \<noteq> 3 then State_Monad.return (- SH_EINVAL)
      else with_ulong P argv 1 (\<lambda>tx. with_ulong P argv 2 (\<lambda>rx.
        if tx > 0xFF \<or> rx > 0xFF then State_Monad.return (- SH_EINVAL)
        else set_req P (Set_Aggregation (ucast tx) (ucast rx)))))"

definition cmd_set_amsdu_rx :: "'w wifi_port \<Rightarrow> string list \<Rightarrow> (('w, 'z) sh_st_scheme, int) state" where
  "cmd_set_amsdu_rx P argv =
     (if length argv \<noteq> 3 then State_Monad.return (- SH_EINVAL)
      else if argv ! 1 \<noteq> ''rx'' then State_Monad.return (- SH_EINVAL)
      else if argv ! 2 = ''enable'' then set_req P (Set_Amsdu_Rx True)
      else if argv ! 2 = ''disable'' then set_req P (Set_Amsdu_Rx False)
      else State_Monad.return (- SH_EINVAL))"

section \<open>Modes and rates\<close>

text \<open>The names are compared, and the codes looked for, in this order.\<close>

definition phy_modes :: "(string \<times> phy) list" where
  "phy_modes = [(''a'', Phy_11A), (''b'', Phy_11B), (''g'', Phy_11G), (''ng'', Phy_11NG), (''abgn'', Phy_11ABGN)]"

definition cmd_set_phy_mode :: "'w wifi_port \<Rightarrow> string list \<Rightarrow> (('w, 'z) sh_st_scheme, int) state" where
  "cmd_set_phy_mode P argv =
     (if length argv \<noteq> 2 then State_Monad.return (- SH_EINVAL)
      else case map_of phy_modes (argv ! 1) of
        None \<Rightarrow> State_Monad.return (- SH_EINVAL)
      | Some m \<Rightarrow> set_req P (Set_Phy_Mode (phy_code P m)))"

definition phy_name :: "'w wifi_port \<Rightarrow> u32 \<Rightarrow> string" where
  "phy_name P c = (case find (\<lambda>(n, m). phy_code P m = c) phy_modes of None \<Rightarrow> ''unknown'' | Some (n, m) \<Rightarrow> n)"

definition cmd_get_phy_mode :: "'w wifi_port \<Rightarrow> string list \<Rightarrow> (('w, 'z) sh_st_scheme, int) state" where
  "cmd_get_phy_mode P argv =
     get_req P Get_Phy_Mode (\<lambda>out. Line (''PHY mode: '' @ phy_name P (out O_Phy_Mode)) [uint (out O_Phy_Mode)])"

definition cmd_set_rate :: "'w wifi_port \<Rightarrow> string list \<Rightarrow> (('w, 'z) sh_st_scheme, int) state" where
  "cmd_set_rate P argv =
     (if length argv = 2 \<and> argv ! 1 = ''auto'' then set_req P (Set_Rate True 0 0 0 0)
      else if length argv = 5 then
        with_ulong P argv 1 (\<lambda>staid. with_ulong P argv 2 (\<lambda>p. with_ulong P argv 3 (\<lambda>s. with_ulong P argv 4 (\<lambda>t.
          set_req P (Set_Rate False staid p s t)))))
      else State_Monad.return (- SH_EINVAL))"

definition cmd_get_rate :: "'w wifi_port \<Rightarrow> string list \<Rightarrow> (('w, 'z) sh_st_scheme, int) state" where
  "cmd_get_rate P argv =
     (if length argv \<noteq> 2 then State_Monad.return (- SH_EINVAL)
      else with_ulong P argv 1 (\<lambda>staid. get_req P (Get_Rate staid)
        (\<lambda>out. Line ''Rate'' [sint (out O_P_Rate), sint (out O_S_Rate), sint (out O_T_Rate)])))"

text \<open>The text is built in 65 characters, the terminator among them.\<close>

definition power_mode_text :: "u32 \<Rightarrow> string" where
  "power_mode_text m =
     (if m = 0 then ''Max Perf''
      else take 64 (''Power Save '' @ (if m AND 1 = 1 then ''(bmps enabled) '' else []) @
        (if m AND 2 = 2 then ''(IMPS enabled) '' else []) @ (if m AND 4 = 4 then ''(WUR enabled) '' else []) @
        (if m AND 8 = 8 then ''(WNM enabled) '' else [])))"

definition get_wifi_power_mode :: "'w wifi_port \<Rightarrow> (('w, 'z) sh_st_scheme, int) state" where
  "get_wifi_power_mode P = get_req P Get_Power_Mode (\<lambda>out. Line (power_mode_text (out O_Power_Mode)) [])"

definition get_device_mac_address :: "'w wifi_port \<Rightarrow> (('w, 'z) sh_st_scheme, int) state" where
  "get_device_mac_address P =
     get_req P Get_Mac_Address (\<lambda>out. Line ''Mac Addr'' (map (\<lambda>i. uint (out (O_Mac i))) [0..<6]))"

definition op_mode_text :: "'w wifi_port \<Rightarrow> u32 \<Rightarrow> sh_line" where
  "op_mode_text P m =
     (if m = dev_mode_station P then Line ''Operation mode: station'' []
      else if m = dev_mode_ap P then Line ''Operation mode: softap'' []
      else Line ''Operation mode: unknown'' [uint m])"

definition get_op_mode :: "'w wifi_port \<Rightarrow> (('w, 'z) sh_st_scheme, int) state" where
  "get_op_mode P = do {
     iface \<leftarrow> ask (wf_sta P);
     (ret, out) \<leftarrow> serve (wifi_get P Get_Concurrency_Mode iface);
     if ret \<noteq> 0 then State_Monad.return (- SH_ENOEXEC)
     else do {
       when_m (out O_Conc_Mode = dev_mode_ap_sta P) (shows_line (Line ''concurrency mode'' []));
       (ret2, op) \<leftarrow> serve (wifi_get P Get_Operation_Mode iface);
       if ret2 \<noteq> 0 then State_Monad.return (- SH_ENOEXEC)
       else do { shows_line (op_mode_text P (op O_Opmode)); State_Monad.return 0 }
     }
   }"

definition csa_announce :: "'w wifi_port \<Rightarrow> u32 \<Rightarrow> u32 \<Rightarrow> u32 \<Rightarrow> nat option \<Rightarrow> (('w, 'z) sh_st_scheme, int) state" where
  "csa_announce P mode channel count iface =
     (case iface of
        None \<Rightarrow> State_Monad.return (- SH_EINVAL)
      | Some i \<Rightarrow> serve (wifi_set P (Set_Sap_Csa (kept P I_Switch_Mode mode) (kept P I_New_Channel channel)
          (kept P I_Switch_Count count)) (Some i)))"

text \<open>The announcement of a channel switch goes to the access point, or to the interface of the fourth argument.\<close>

definition cmd_csa :: "'w wifi_port \<Rightarrow> string list \<Rightarrow> (('w, 'z) sh_st_scheme, int) state" where
  "cmd_csa P argv = with_number P argv 1 (\<lambda>mode.
     if mode \<noteq> 0 \<and> mode \<noteq> 1 then State_Monad.return (- SH_EINVAL)
     else with_number P argv 2 (\<lambda>channel.
       if \<not> (validate_chan P Band_2_4_GHz channel \<or> validate_chan P Band_5_GHz channel) then
         State_Monad.return (- SH_EINVAL)
       else with_number P argv 3 (\<lambda>count.
         if count > 255 then State_Monad.return (- SH_EINVAL)
         else if length argv < 5 then do { iface \<leftarrow> ask (wf_sap P); csa_announce P mode channel count iface }
         else with_number P argv 4 (\<lambda>index. do {
           iface \<leftarrow> ask (iface_by_index P index);
           csa_announce P mode channel count iface
         }))))"

definition cmd_wifi_set_operation_mode :: "'w wifi_port \<Rightarrow> string list \<Rightarrow> (('w, 'z) sh_st_scheme, int) state" where
  "cmd_wifi_set_operation_mode P argv =
     (if length argv < 1 then State_Monad.return (- SH_EINVAL)
      else do {
        opmode \<leftarrow> argv_at argv 1;
        set_req P (Set_Operation_Mode opmode (if length argv \<ge> 3 then argv ! 2 else ''0''))
      })"

text \<open>
  The parser is given \<open>err\<close> itself, 0, instead of its address: an argument that is no number is written through
  a null pointer, and \<open>err\<close> never changes.
\<close>

definition cmd_wifi_set_active_device :: "'w wifi_port \<Rightarrow> string list \<Rightarrow> (('w, 'z) sh_st_scheme, int) state" where
  "cmd_wifi_set_active_device P argv =
     (if length argv \<noteq> 2 then State_Monad.return (- SH_EINVAL)
      else do {
        (v, e) \<leftarrow> arg_ulong P argv 1;
        when_m (e \<noteq> 0) sh_ub;
        let deviceId = (ucast v :: u16);
        if deviceId \<noteq> 0 \<and> deviceId \<noteq> 1 then State_Monad.return SH_EINVAL
        else set_req P (Set_Device_Id deviceId)
      })"

definition cmd_info_w :: "'w wifi_port \<Rightarrow> string list \<Rightarrow> (('w, 'z) sh_st_scheme, int) state" where
  "cmd_info_w P argv = do {
     _ \<leftarrow> get_device_mac_address P;
     _ \<leftarrow> get_wifi_power_mode P;
     _ \<leftarrow> cmd_get_phy_mode P argv;
     _ \<leftarrow> get_op_mode P;
     State_Monad.return 0
   }"

definition sub_qwifi_commands :: "'w wifi_port \<Rightarrow> ('w, 'z) sh_st_scheme sh_cmd list" where
  "sub_qwifi_commands P =
     [SHELL_CMD_ARG ''set_tx_power'' (cmd_set_tx_power P) 3 0,
      SHELL_CMD_ARG ''get_tx_power'' (cmd_get_tx_power P) 1 0,
      SHELL_CMD_ARG ''unit_test'' (cmd_qwifi_unit_test P) 4 20,
      SHELL_CMD_ARG ''set_operation_mode'' (cmd_wifi_set_operation_mode P) 2 1,
      SHELL_CMD_ARG ''set_device'' (cmd_wifi_set_active_device P) 2 0,
      SHELL_CMD_ARG ''set_rts'' (cmd_set_rts_cts P) 2 0,
      SHELL_CMD_ARG ''get_rts'' (cmd_get_rts_cts P) 1 0,
      SHELL_CMD_ARG ''set_rts_rate'' (cmd_set_rts_rate P) 2 0,
      SHELL_CMD_ARG ''get_rts_rate'' (cmd_get_rts_rate P) 1 0,
      SHELL_CMD_ARG ''set_edca_param'' (cmd_set_edca_param_cfg P) 6 0,
      SHELL_CMD_ARG ''get_edca_param'' (cmd_get_edca_param_cfg P) 1 1,
      SHELL_CMD_ARG ''set_threshold'' (cmd_set_threshold P) 2 0,
      SHELL_CMD_ARG ''get_threshold'' (cmd_get_threshold P) 1 0,
      SHELL_CMD_ARG ''set_ba_timing'' (cmd_set_ba_win_timing P) 3 0,
      SHELL_CMD_ARG ''get_ba_timing'' (cmd_get_ba_win_timing P) 1 0,
      SHELL_CMD_ARG ''set_slot_time'' (cmd_set_slot_time P) 2 0,
      SHELL_CMD_ARG ''get_slot_time'' (cmd_get_slot_time P) 1 0,
      SHELL_CMD_ARG ''set_bmiss_threshold'' (cmd_set_bmiss_threshold P) 2 0,
      SHELL_CMD_ARG ''get_bmiss_threshold'' (cmd_get_bmiss_threshold P) 1 0,
      SHELL_CMD_ARG ''set_aggregation'' (cmd_set_aggregation P) 3 0,
      SHELL_CMD_ARG ''set_amsdu'' (cmd_set_amsdu_rx P) 3 0,
      SHELL_CMD_ARG ''set_phy_mode'' (cmd_set_phy_mode P) 2 0,
      SHELL_CMD_ARG ''get_phy_mode'' (cmd_get_phy_mode P) 1 0,
      SHELL_CMD_ARG ''set_rate'' (cmd_set_rate P) 2 3,
      SHELL_CMD_ARG ''get_rate'' (cmd_get_rate P) 2 0,
      SHELL_CMD_ARG ''info'' (cmd_info_w P) 1 0,
      SHELL_CMD_ARG ''set_csa'' (cmd_csa P) 4 1]"

end
