(* ===== verification/Sh_Sim.thy ===== *)
theory Sh_Sim
  imports Sh_Platform Sh_Power Sh_Crypto Sh_Bmps Sh_Wifi
begin

text \<open>
  A board for the commands of \<open>src/common/shell\<close>: services that answer, each with a small world of its own. The
  numbers are parsed by the C library and refused unless they are used up.
\<close>

definition sim_ulong :: "string \<Rightarrow> u32 \<times> int" where
  "sim_ulong a = (case strtoul a 10 of (v, rest) \<Rightarrow> if a = [] \<or> rest \<noteq> [] then (0, - SH_EINVAL) else (v, 0))"

definition sim_long :: "string \<Rightarrow> int \<times> int" where
  "sim_long a = (case sim_ulong a of (v, e) \<Rightarrow> (sint v, e))"

definition platform_sim :: "nat platform_port" where
  "platform_sim = \<lparr>shell_strtoul = sim_ulong, shell_strtol = sim_long, cfg_wifi = True, cfg_heap_stats = True,
     cfg_kernel_heap = True, crm_number = ''1'', pf_wifi_sta = (\<lambda>w. Some 1),
     wifi_iface_status = (\<lambda>i w. ((0, Wifi_Completed), w)), wifi_disconnect = (\<lambda>i w. (0, w)),
     wifi_boot_reason = (\<lambda>i w. ((0, Cold_Boot), w)), kernel_heap_stats = (\<lambda>w. (0, (1, 2, 3))),
     has_malloc_heap = (\<lambda>w. True), malloc_heap_stats = (\<lambda>w. (0, (1, 2, 3))), pf_sleep_ms = (\<lambda>n w. w),
     nt_system_sw_reset = Suc\<rparr>"

text \<open>The world of the power services: whether the timer runs, whether the lock is held, and the one-shot code.\<close>

definition power_sim :: "(bool \<times> bool \<times> u32) power_port" where
  "power_sim = \<lparr>shell_strtoul = sim_ulong, shell_strtol = sim_long, cfg_cpr = True,
     softoff_duration = (\<lambda>v w. w), force_soft_off = (\<lambda>w. w), notifier_register = (\<lambda>w. w),
     s2ram_start = (\<lambda>d p (run, lck, c). (True, lck, c)), s2ram_stop = (\<lambda>(run, lck, c). (False, lck, c)),
     s2ram_locked = (\<lambda>(run, lck, c). lck), s2ram_lock = (\<lambda>(run, lck, c). (run, True, c)),
     s2ram_unlock = (\<lambda>(run, lck, c). (run, False, c)), cpr_reenable = (\<lambda>w. w), cpr_disable = (\<lambda>w. w),
     get_oneshot = (\<lambda>(run, lck, c). c), get_otp_oneshot = (\<lambda>w. 3), optimized_oneshot = (\<lambda>v t w. ((5, 3, 100), w)),
     set_oneshot = (\<lambda>v (run, lck, c). (run, lck, v))\<rparr>"

text \<open>The world of the crypto services: the entries of the secure storage.\<close>

definition crypto_sim :: "(u32 \<Rightarrow> bytes) crypto_port" where
  "crypto_sim = \<lparr>shell_strtoul = sim_ulong, shell_strtol = sim_long, cfg_mbedtls_test = True, cfg_qcc = (\<lambda>m. True),
     cfg_entropy = True, cfg_hw_entropy = True, cfg_its = True, its_max_data_size = 128, qapi_ok = 0,
     qapi_error = 1, sh_malloc = (\<lambda>n w. (Some (\<lambda>i. 0), w)), hw_kdf = (\<lambda>b w. ((0, [1, 2, 3, 4]), w)),
     ceml_encrypt = (\<lambda>kind key iv d room w. ((0, take (unat room) d, room), w)),
     ceml_decrypt = (\<lambda>kind key d room w. ((0, take (unat room) d, room), w)),
     pka_self_test = (\<lambda>t v w. (0, w)), qcc_self_test = (\<lambda>t v w. (0, w)), entropy_self_test = (\<lambda>v w. (0, w)),
     hardware_poll = (\<lambda>room w. ((0, [], room), w)), its_set = (\<lambda>uid d w. (0, w(uid := d))),
     its_get = (\<lambda>uid off room w. (if length (w uid) \<le> room then (0, w uid, length (w uid)) else (1, [], 0), w)),
     its_get_info = (\<lambda>uid w. ((0, of_nat (length (w uid))), w)), its_remove = (\<lambda>uid w. (0, w(uid := [])))\<rparr>"

definition bmps_sim :: "nat bmps_port" where
  "bmps_sim = \<lparr>shell_strtoul = sim_ulong, shell_strtol = sim_long, cfg_pm = True,
     sh_getopt = (\<lambda>argv. [Opt_Adddel (argv ! 2), Opt_Udpport (argv ! 4)]), bm_wifi_sta = (\<lambda>w. Some 1),
     bm_net_mgmt = (\<lambda>r i w. (0, w)), wmi_cmd_send = (\<lambda>c w. w), hres_time_us = (\<lambda>w. 0),
     bmps_timer_start = (\<lambda>t w. w), bmps_timer_stop = (\<lambda>w. w), period_timer_start = (\<lambda>t w. w),
     udp_timer_init = (\<lambda>w. w), udp_timer_start = (\<lambda>t w. w), bm_locked = (\<lambda>w. False), bm_lock = (\<lambda>w. w), bm_unlock = (\<lambda>w. w),
     wifi_device = (\<lambda>w. Ready), busy_set = (\<lambda>w. w), busy_clear = (\<lambda>w. w), stop_all_k_timers = (\<lambda>w. w),
     gateway_of = (\<lambda>i w. ''10.0.0.1''), udp_socket = (\<lambda>w. (3, w)), inet_pton_ok = (\<lambda>s. True),
     udp_connect = (\<lambda>s a w. (0, w)), udp_send = (\<lambda>s m w. w), udp_close = (\<lambda>s w. w)\<rparr>"

text \<open>The world of the Wi-Fi driver: the requests it was given.\<close>

definition wifi_sim :: "wifi_request list wifi_port" where
  "wifi_sim = \<lparr>shell_strtoul = sim_ulong, shell_strtol = sim_long, kept = (\<lambda>f v. v), policy_security = 2,
     phy_code = (\<lambda>m. case m of Phy_11A \<Rightarrow> 1 | Phy_11B \<Rightarrow> 2 | Phy_11G \<Rightarrow> 3 | Phy_11NG \<Rightarrow> 4 | Phy_11ABGN \<Rightarrow> 5),
     dev_mode_ap_sta = 3, dev_mode_station = 1, dev_mode_ap = 2, wf_sta = (\<lambda>w. Some 1), wf_sap = (\<lambda>w. Some 2),
     iface_by_index = (\<lambda>i w. None), validate_chan = (\<lambda>b v. v = 6), wifi_set = (\<lambda>r i w. (0, w @ [r])),
     wifi_get = (\<lambda>q i w. ((0, \<lambda>f. 0), w))\<rparr>"

definition sh_start :: "'w \<Rightarrow> 'w sh_st" where
  "sh_start w = \<lparr>sh_world = w, sh_fault = False, sh_blocks = 0, sh_shown = []\<rparr>"

definition power_start :: "(bool \<times> bool \<times> u32) power_st" where
  "power_start = sh_st.extend (sh_start (False, True, 3)) (power_st.fields 1 True)"

definition crypto_start :: "(u32 \<Rightarrow> bytes) crypto_st" where
  "crypto_start = sh_st.extend (sh_start (\<lambda>u. [])) (crypto_st.fields (replicate 16 0))"

definition bmps_start_state :: "nat bmps_st" where
  "bmps_start_state = sh_st.extend (sh_start 0) (bmps_st.fields 0 0 (- 1) [7777, 0, 0, 0])"

lemmas sh_sims = platform_sim_def power_sim_def crypto_sim_def bmps_sim_def wifi_sim_def sim_ulong_def sim_long_def

lemmas sh_starts = sh_start_def power_start_def crypto_start_def bmps_start_state_def sh_st.defs power_st.defs
  crypto_st.defs bmps_st.defs

lemma sim_numbers:
  "sim_ulong ''0'' = (0, 0)" "sim_ulong ''1'' = (1, 0)" "sim_ulong ''2'' = (2, 0)" "sim_ulong ''4'' = (4, 0)"
  "sim_ulong ''100'' = (100, 0)" "sim_ulong ''x'' = (0, - SH_EINVAL)"
  by (simp_all add: sim_ulong_def strtoul_def after_prefix_def is_digit_def digit_value_def isspace_def Let_def)

end
