(* ===== verification/Sh_Args_Proofs.thy ===== *)
theory Sh_Args_Proofs
  imports Sh_Sim
begin

text \<open>
  The commands against their tables: called with a number of words the table admits they do nothing undefined,
  four of them apart, and the Wi-Fi driver sees only parameters in range.
\<close>

section \<open>Preservation along the idioms of the commands\<close>

lemma keeps_argv_at [keeps_intros]: "i < length argv \<Longrightarrow> keeps I (argv_at argv i)"
  by (simp add: argv_at_def keeps_return)

lemma keeps_arg_ulong [keeps_intros]: "i < length argv \<Longrightarrow> keeps I (arg_ulong L argv i)"
  by (simp add: arg_ulong_def keeps_intros)

lemma keeps_arg_long [keeps_intros]: "i < length argv \<Longrightarrow> keeps I (arg_long L argv i)"
  by (simp add: arg_long_def keeps_intros)

lemma keeps_with_ulong [keeps_intros]:
  "i < length argv \<Longrightarrow> (\<And>v. keeps I (k v)) \<Longrightarrow> keeps I (with_ulong L argv i k)"
  unfolding with_ulong_def by (intro keeps_intros)

lemma keeps_with_number [keeps_intros]:
  "i < length argv \<Longrightarrow> (\<And>v. keeps I (k v)) \<Longrightarrow> keeps I (with_number L argv i k)"
  unfolding with_number_def by (intro keeps_intros)

lemma keeps_with_long [keeps_intros]:
  "i < length argv \<Longrightarrow> (\<And>v. keeps I (k v)) \<Longrightarrow> keeps I (with_long L argv i k)"
  unfolding with_long_def by (intro keeps_intros)

lemma keeps_ask [keeps_intros]: "keeps I (ask f)"
  by (simp add: ask_def keeps_gets)

text \<open>
  The contract between a command and the services behind it: a predicate that depends neither on the world nor
  on what is shown is kept by everything a command asks of a service and by every line it prints.
\<close>

locale service_frame =
  fixes I :: "('w, 'z) sh_st_scheme \<Rightarrow> bool"
  assumes world_apart: "I s \<Longrightarrow> I (s\<lparr>sh_world := w\<rparr>)"
    and shown_apart: "I s \<Longrightarrow> I (s\<lparr>sh_shown := ls\<rparr>)"
begin

lemma keeps_serve: "keeps I (serve f)"
  by (simp add: keeps_def run_simps world_apart)

lemma keeps_command: "keeps I (command c)"
  by (simp add: keeps_def run_simps world_apart)

lemma keeps_shows: "keeps I (shows_line l)"
  by (simp add: keeps_def run_simps shown_apart)

lemma keeps_set_req: "keeps I (set_req P r)"
  unfolding set_req_def by (intro keeps_intros keeps_serve)

lemma keeps_get_req: "keeps I (get_req P q l)"
  unfolding get_req_def by (intro keeps_intros keeps_serve keeps_shows)

lemmas service_keeps = keeps_serve keeps_command keeps_shows keeps_set_req keeps_get_req

end

interpretation no_fault: service_frame "\<lambda>s :: ('w, 'z) sh_st_scheme. \<not> sh_fault s"
  by unfold_locales simp_all

interpretation same_blocks: service_frame "\<lambda>s :: ('w, 'z) sh_st_scheme. sh_blocks s = n" for n
  by unfold_locales simp_all

named_theorems no_fault_intros \<open>operations that do nothing undefined\<close>

lemmas no_fault_services [no_fault_intros] = no_fault.service_keeps

lemma no_fault_modify [no_fault_intros]:
  "(\<And>s. sh_fault (f s) = sh_fault s) \<Longrightarrow> keeps (\<lambda>s. \<not> sh_fault s) (modify f)"
  by (simp add: keeps_def)

section \<open>What the tables admit\<close>

definition safe_command :: "('w, 'z) sh_st_scheme sh_cmd \<Rightarrow> string list \<Rightarrow> bool" where
  "safe_command c argv \<longleftrightarrow> keeps (\<lambda>s. \<not> sh_fault s) (cmd_handler c argv)"

lemma safe_platform:
  assumes "c \<in> set (sub_uart_cmds P)" and "admits c argv"
  shows "safe_command c argv"
proof -
  have "keeps (\<lambda>s. \<not> sh_fault s) (wifi_is_connected P i)" for i
    unfolding wifi_is_connected_def by (intro keeps_intros no_fault_intros)
  then have "keeps (\<lambda>s. \<not> sh_fault s) (leave_network P)"
    unfolding leave_network_def by (intro keeps_intros no_fault_intros)
  moreover have "keeps (\<lambda>s. \<not> sh_fault s) (get_boot_reason P)"
      "keeps (\<lambda>s. \<not> sh_fault s) (get_kernel_heap P)"
      "keeps (\<lambda>s. \<not> sh_fault s) (get_z_malloc_heap_statistics P)"
    unfolding get_boot_reason_def get_kernel_heap_def get_z_malloc_heap_statistics_def
    by (intro keeps_intros no_fault_intros)+
  ultimately show ?thesis
    using assms
    by (auto simp: sub_uart_cmds_def SHELL_CMD_ARG_def admits_def safe_command_def cmd_version_def
        cmd_set_logger_lvl_def cmd_info_pf_def cmd_reboot_def cmd_setdbg_def
        intro!: keeps_intros no_fault_intros)
qed

lemma safe_power:
  assumes "c \<in> set (sub_pm_cmds_pw P)" and "admits c argv" and "cmd_name c \<noteq> ''s2ram''" and "cmd_name c \<noteq> ''setcxoneshot''"
  shows "safe_command c argv"
  using assms
  by (auto simp: sub_pm_cmds_pw_def SHELL_CMD_ARG_def admits_def safe_command_def cmd_set_softoff_def cmd_reg_cb_def
      cmd_set_cpr_def cmd_getcx_def cmd_calcxoneshot_def split: if_splits
      intro!: keeps_intros no_fault_intros)

text \<open>Services that keep to the room they are given.\<close>

definition within_room :: "'w crypto_port \<Rightarrow> bool" where
  "within_room P \<longleftrightarrow>
     (\<forall>kind key iv data room w. case fst (ceml_encrypt P kind key iv data room w) of
        (ret, out, len) \<Rightarrow> length out \<le> unat room \<and> len \<le> room) \<and>
     (\<forall>kind key data room w. case fst (ceml_decrypt P kind key data room w) of
        (ret, out, len) \<Rightarrow> length out \<le> unat room \<and> len \<le> room) \<and>
     (\<forall>room w. case fst (hardware_poll P room w) of (rc, out, len) \<Rightarrow> length out \<le> unat room \<and> len \<le> room) \<and>
     (\<forall>uid off room w. case fst (its_get P uid off room w) of
        (err, out, len) \<Rightarrow> length out \<le> room \<and> len \<le> room)"

lemma length_hexstr_loop: "length (snd (hexstr_loop cs k buf)) = length buf"
  by (induction cs k buf rule: hexstr_loop.induct) (simp_all add: Let_def)

lemma length_hexstr_to_digits: "hexstr_to_digits d buf n = (r, b) \<Longrightarrow> length b = length buf"
  using length_hexstr_loop [of "rev d" 0 buf] by (auto simp: hexstr_to_digits_def split: if_splits)

lemma length_put_at [simp]: "off + length out \<le> length b \<Longrightarrow> length (put_at off out b) = length b"
  by (simp add: put_at_def)

lemma no_fault_hexdump [no_fault_intros]: "unat n \<le> length buf \<Longrightarrow> keeps (\<lambda>s. \<not> sh_fault s) (hexdump buf n)"
  by (simp add: keeps_def hexdump_def Let_def run_simps)

lemma no_fault_match [no_fault_intros]:
  "p + unat n \<le> length b \<Longrightarrow> q + unat n \<le> length b \<Longrightarrow> keeps (\<lambda>s. \<not> sh_fault s) (shows_match b p q n)"
  by (simp add: keeps_def shows_match_def run_simps)

text \<open>What follows a service may rely on the lengths it has returned.\<close>

lemma no_fault_bind_serve:
  assumes "\<And>r. (\<exists>w. r = fst (f w)) \<Longrightarrow> keeps (\<lambda>s. \<not> sh_fault s) (k r)"
  shows "keeps (\<lambda>s. \<not> sh_fault s) (State_Monad.bind (serve f) k)"
  unfolding keeps_def
proof (intro allI impI)
  fix s :: "('b, 'c) sh_st_scheme"
  assume "\<not> sh_fault s"
  moreover have "keeps (\<lambda>s. \<not> sh_fault s) (k (fst (f (sh_world s))))"
    by (rule assms) blast
  ultimately show "\<not> sh_fault (snd (run_state (State_Monad.bind (serve f) k) s))"
    by (simp add: keeps_def run_bind run_sh_services)
qed

lemma no_fault_bind_cipher:
  assumes fits: "\<And>w. case fst (f len w) of (ret, out, len') \<Rightarrow> length out \<le> unat len \<and> len' \<le> len"
    and room: "off + unat len \<le> length b"
    and rest: "\<And>ret b' len'. length b' = length b \<Longrightarrow> unat len' \<le> unat len \<Longrightarrow>
      keeps (\<lambda>s. \<not> sh_fault s) (k (ret, b', len'))"
  shows "keeps (\<lambda>s. \<not> sh_fault s) (State_Monad.bind (cipher f len off b) k)"
  unfolding keeps_def
proof (intro allI impI)
  fix s :: "('a, 'b) crypto_st_scheme"
  assume ok: "\<not> sh_fault s"
  obtain ret out len' w' where run: "f len (sh_world s) = ((ret, out, len'), w')"
    by (metis prod_cases3 surj_pair)
  have "length out \<le> unat len" and "unat len' \<le> unat len"
    using fits [of "sh_world s"] by (simp_all add: run word_le_nat_alt)
  then show "\<not> sh_fault (snd (run_state (State_Monad.bind (cipher f len off b) k) s))"
    using rest [of "put_at off out b" len' ret] room ok run
    by (simp add: keeps_def cipher_def fill_def run_simps)
qed

lemma safe_encrypt_both:
  assumes room: "within_room P" and size: "length b = 80"
  shows "keeps (\<lambda>s. \<not> sh_fault s) (encrypt_both P kdf_key derive_key b)"
proof -
  have fits: "case fst (ceml_encrypt P kind key iv data len w) of (ret, out, len') \<Rightarrow> length out \<le> unat len \<and> len' \<le> len"
    for kind key iv data len w
    using room by (simp add: within_room_def)
  show ?thesis
    unfolding encrypt_both_def Let_def
    by (rule no_fault_bind_cipher [where f = "ceml_encrypt P i j k l" for i j k l, OF fits] | rule keeps_intros
        | rule no_fault_intros | simp add: size)+
qed

lemma safe_decrypt_both:
  assumes room: "within_room P" and size: "length b = 64"
  shows "keeps (\<lambda>s. \<not> sh_fault s) (decrypt_both P kdf_key derive_key b)"
proof -
  have fits: "case fst (ceml_decrypt P kind key data len w) of (ret, out, len') \<Rightarrow> length out \<le> unat len \<and> len' \<le> len"
    for kind key data len w
    using room by (simp add: within_room_def)
  show ?thesis
    unfolding decrypt_both_def Let_def
    by (rule no_fault_bind_cipher [where f = "ceml_decrypt P i j k" for i j k, OF fits] | rule keeps_intros
        | rule no_fault_intros | simp add: size)+
qed

lemma no_fault_fill [no_fault_intros]:
  "off + length out \<le> length b \<Longrightarrow> keeps (\<lambda>s. \<not> sh_fault s) (fill off out b)"
  by (simp add: keeps_def fill_def run_simps)

lemma no_fault_bind_fill:
  "off + length out \<le> length b \<Longrightarrow> keeps (\<lambda>s. \<not> sh_fault s) (k (put_at off out b)) \<Longrightarrow>
   keeps (\<lambda>s. \<not> sh_fault s) (State_Monad.bind (fill off out b) k)"
  by (simp add: keeps_def fill_def run_simps)

lemma no_fault_bind_block:
  assumes "keeps (\<lambda>s. \<not> sh_fault s) (k None)"
    and "\<And>b. length b = n \<Longrightarrow> keeps (\<lambda>s. \<not> sh_fault s) (k (Some b))"
  shows "keeps (\<lambda>s. \<not> sh_fault s) (State_Monad.bind (new_block P n) k)"
  using assms by (simp add: keeps_def new_block_def run_simps split: option.split)

lemma no_fault_free [no_fault_intros]: "keeps (\<lambda>s. \<not> sh_fault s) free_block"
  by (simp add: free_block_def keeps_def)

lemma no_fault_qcc_try [no_fault_intros]:
  "(\<And>b. keeps (\<lambda>s. \<not> sh_fault s) (k b)) \<Longrightarrow> keeps (\<lambda>s. \<not> sh_fault s) (qcc_try P m v name t matched k)"
  unfolding qcc_try_def shows_verdict_def by (intro keeps_intros no_fault_intros)

lemma no_fault_pka_run [no_fault_intros]: "keeps (\<lambda>s. \<not> sh_fault s) (pka_run P v t)"
  unfolding pka_run_def shows_verdict_def by (intro keeps_intros no_fault_intros)

lemma no_fault_its_store [no_fault_intros]: "keeps (\<lambda>s. \<not> sh_fault s) (its_store P uid d)"
  unfolding its_store_def by (intro keeps_intros no_fault_intros)

lemma safe_kdf:
  assumes "within_room P" and "length argv = 4"
  shows "keeps (\<lambda>s. \<not> sh_fault s) (kdf_encrypt_test_cmd P argv)"
    and "keeps (\<lambda>s. \<not> sh_fault s) (kdf_decrypt_test_cmd P argv)"
  unfolding kdf_encrypt_test_cmd_def kdf_decrypt_test_cmd_def Let_def
  by (rule no_fault_bind_block | rule keeps_intros | rule no_fault_intros safe_encrypt_both safe_decrypt_both
      | simp add: assms length_hexstr_to_digits)+

lemma safe_poll:
  assumes "within_room P"
  shows "keeps (\<lambda>s. \<not> sh_fault s) (cmd_entropy_hw_poll P argv)"
proof -
  have fits: "length out \<le> unat room \<and> len \<le> room" if "\<exists>w. (rc, out, len) = fst (hardware_poll P room w)"
    for rc out len room
    using assms that unfolding within_room_def by (metis (no_types, lifting) case_prod_conv)
  show ?thesis
    unfolding cmd_entropy_hw_poll_def Let_def
    by (rule no_fault_bind_block no_fault_bind_serve no_fault_bind_fill | rule keeps_intros | rule no_fault_intros
        | use fits in \<open>simp add: word_le_nat_alt\<close>)+
qed

lemma safe_secure_read:
  assumes "within_room P" 
  shows "keeps (\<lambda>s. \<not> sh_fault s) (cmd_secure_read P argv)"
proof -
  have fits: "length out \<le> room \<and> unat (of_nat len :: u32) \<le> room" if "\<exists>w. (err, out, len) = fst (its_get P uid off room w)"
    for err out len uid off room
  proof -
    have "length out \<le> room \<and> len \<le> room"
      using assms that unfolding within_room_def by (metis (no_types, lifting) case_prod_conv)
    moreover have "unat (of_nat len :: u32) \<le> len"
      by (simp add: unat_of_nat)
    ultimately show ?thesis by linarith
  qed
  show ?thesis
    unfolding cmd_secure_read_def Let_def
    by (rule no_fault_bind_block no_fault_bind_serve no_fault_bind_fill | rule keeps_intros | rule no_fault_intros
        | use fits in simp)+
qed

lemma safe_crypto:
  assumes "c \<in> set (sub_pm_cmds_cr P)" and "admits c argv" and "within_room P"
  shows "safe_command c argv"
proof -
  have "keeps (\<lambda>s. \<not> sh_fault s) (secure_write_hex P u h)" "keeps (\<lambda>s. \<not> sh_fault s) (secure_write_repeated P u h n)" for u h n
    unfolding secure_write_hex_def secure_write_repeated_def Let_def
    by (rule no_fault_bind_block | rule keeps_intros | rule no_fault_intros | simp)+
  then have wr: "length argv \<le> 4 \<Longrightarrow> keeps (\<lambda>s. \<not> sh_fault s) (cmd_secure_write P argv)"
    unfolding cmd_secure_write_def by (auto intro!: keeps_intros no_fault_intros)
  have key: "1 < length argv \<Longrightarrow> keeps (\<lambda>s. \<not> sh_fault s) (kdf_key_test_cmd P argv)"
    unfolding kdf_key_test_cmd_def Let_def by (auto intro!: keeps_intros no_fault_intros)
  show ?thesis
    using assms key wr
    by (auto simp: sub_pm_cmds_cr_def SHELL_CMD_ARG_def admits_def safe_command_def safe_kdf safe_poll safe_secure_read
        cmd_pka_test_def cmd_qcc_test_def cmd_entropy_test_def cmd_secure_get_info_def
        cmd_secure_remove_def cmd_secure_set_password_def shows_verdict_def Let_def split: if_splits
        intro!: keeps_intros no_fault_intros)
qed

lemma safe_bmps:
  assumes "c \<in> set (sub_bmps_cmds P)" and "admits c argv" and "cmd_name c \<noteq> ''bcmc_list''"
  shows "safe_command c argv"
proof -
  have req: "keeps (\<lambda>s. \<not> sh_fault s) (request P r)" for r
    unfolding request_def by (intro keeps_intros no_fault_intros)
  have udp: "keeps (\<lambda>s. \<not> sh_fault s) (open_udp P g)" for g
    unfolding open_udp_def by (intro keeps_intros no_fault_intros) simp_all
  show ?thesis
    using assms
    by (auto simp: sub_bmps_cmds_def SHELL_CMD_ARG_def admits_def safe_command_def cmd_bmps_enable_def
        cmd_bmps_idle_time_def cmd_bmps_ignore_bcmc_def cmd_dbg_tsf_def cmd_clear_busy_def cmd_set_busy_def
        cmd_bcmc_enable_def cmd_bmps_power_optimization_enable_def cmd_compress_qos_null_enable_def
        cmd_bmps_get_hres_def cmd_get_kt_stats_def cmd_kill_all_kt_def cmd_list_all_dev_def cmd_get_pm_kt_def
        cmd_set_period_wakeup_def cmd_start_udp_timer_def Let_def split: if_splits
        intro!: keeps_intros no_fault_intros req udp)
qed

lemmas wifi_commands = cmd_set_tx_power_def cmd_get_tx_power_def cmd_set_rts_cts_def cmd_get_rts_cts_def
  cmd_set_rts_rate_def cmd_get_rts_rate_def cmd_set_edca_param_cfg_def cmd_get_edca_param_cfg_def
  cmd_set_threshold_def cmd_get_threshold_def cmd_set_ba_win_timing_def cmd_get_ba_win_timing_def
  cmd_set_slot_time_def cmd_get_slot_time_def cmd_set_bmiss_threshold_def cmd_get_bmiss_threshold_def
  cmd_set_aggregation_def cmd_set_amsdu_rx_def cmd_set_phy_mode_def cmd_get_phy_mode_def cmd_set_rate_def
  cmd_get_rate_def cmd_csa_def csa_announce_def cmd_wifi_set_operation_mode_def cmd_info_w_def
  get_wifi_power_mode_def get_device_mac_address_def get_op_mode_def

lemma safe_wifi:
  assumes "c \<in> set (sub_qwifi_commands P)" and "admits c argv" and "cmd_name c \<noteq> ''unit_test''"
    and "cmd_name c \<noteq> ''set_device''"
  shows "safe_command c argv"
  using assms
  by (auto simp: sub_qwifi_commands_def SHELL_CMD_ARG_def admits_def safe_command_def wifi_commands Let_def
      intro!: keeps_intros no_fault_intros)

section \<open>Requests in range\<close>

text \<open>
  What the driver's documentation in the usage texts promises of a request, for the numbers as its structures
  keep them.
\<close>

definition request_ok :: "'w wifi_port \<Rightarrow> wifi_request \<Rightarrow> bool" where
  "request_ok P r =
     (case r of
        Set_Tx_Power t p \<Rightarrow> t \<le> 255 \<and> p \<le> policy_security P
      | Unit_Test vdev mdl n args \<Rightarrow> unat n \<le> length args \<and> length args = 16
      | Set_Rts_Cts e \<Rightarrow> e = 0 \<or> e = 1
      | Set_Rts_Rate i \<Rightarrow> i \<le> 2
      | Set_Edca q aifsn lo hi txop \<Rightarrow> q < 8 \<or> q = 255
      | Set_Threshold t \<Rightarrow> t \<le> 100
      | Set_Ba_Win a d \<Rightarrow> a \<le> 4096 \<and> d \<le> 64
      | Set_Phy_Mode c \<Rightarrow> c \<in> range (phy_code P)
      | Set_Rate auto st a b c \<Rightarrow> auto \<longrightarrow> st = 0 \<and> a = 0 \<and> b = 0 \<and> c = 0
      | Set_Sap_Csa m ch n \<Rightarrow> m \<in> kept P I_Switch_Mode ` {0, 1} \<and>
          (\<exists>v b. validate_chan P b v \<and> ch = kept P I_New_Channel v) \<and> n \<in> kept P I_Switch_Count ` {..255}
      | Set_Device_Id d \<Rightarrow> d = 0 \<or> d = 1
      | Set_Operation_Mode m h \<Rightarrow> m \<in> {''ap'', ''station'', ''ap_sta''}
      | _ \<Rightarrow> True)"

text \<open>A predicate of the world that the driver's answers to good requests preserve.\<close>

lemma world_lines [no_fault_intros]:
  "keeps (\<lambda>s. I (sh_world s)) (shows_line l)"
  "keeps (\<lambda>s. I (sh_world s)) sh_ub"
  by (simp_all add: keeps_def run_simps)

lemma keeps_atoi [no_fault_intros]: "keeps (\<lambda>s. I (sh_world s)) (atoi a)"
  unfolding atoi_def by (intro keeps_intros no_fault_intros)

lemma keeps_atoi_all [no_fault_intros]: "keeps (\<lambda>s. I (sh_world s)) (atoi_all as)"
  by (induction as) (auto intro!: keeps_intros no_fault_intros)

lemma world_set_req:
  assumes "\<And>r i w. request_ok P r \<Longrightarrow> I w \<Longrightarrow> I (snd (wifi_set P r i w))" and "request_ok P r"
  shows "keeps (\<lambda>s. I (sh_world s)) (set_req P r)"
  using assms by (simp add: keeps_def set_req_def run_simps)

lemma world_get:
  assumes "\<And>q i w. I w \<Longrightarrow> I (snd (wifi_get P q i w))"
  shows "keeps (\<lambda>s. I (sh_world s)) (serve (wifi_get P q i))"
  using assms by (simp add: keeps_def run_simps)

lemma world_get_req:
  assumes "\<And>q i w. I w \<Longrightarrow> I (snd (wifi_get P q i w))"
  shows "keeps (\<lambda>s. I (sh_world s)) (get_req P q l)"
  unfolding get_req_def by (intro keeps_intros no_fault_intros world_get assms)

lemma world_csa:
  assumes "\<And>r i w. request_ok P r \<Longrightarrow> I w \<Longrightarrow> I (snd (wifi_set P r i w))"
    and "m = 0 \<or> m = 1" and "validate_chan P b ch" and "n \<le> 255"
  shows "keeps (\<lambda>s. I (sh_world s)) (csa_announce P m ch n iface)"
proof -
  have "request_ok P (Set_Sap_Csa (kept P I_Switch_Mode m) (kept P I_New_Channel ch) (kept P I_Switch_Count n))"
    using assms(2-4) by (auto simp: request_ok_def)
  then show ?thesis
    using assms(1) by (simp add: csa_announce_def keeps_def run_simps split: option.split)
qed

section \<open>Commands their tables do not protect\<close>

lemma s2ram_without_count: "sh_fault (snd (run_state (cmd_set_s2ram P [n, t]) s))"
  by (simp add: cmd_set_s2ram_def arg_ulong_def Let_def run_simps split: prod.split)

lemma setcxoneshot_without_values:
  "shell_strtoul P z = (0, 0) \<Longrightarrow> sh_fault (snd (run_state (cmd_setcxoneshot P [n, z]) s))"
  by (simp add: cmd_setcxoneshot_def CX_ONESHOT_MAX_def with_long_def arg_long_def with_ulong_def arg_ulong_def
      fix_oneshot_def run_simps split: prod.split)

lemma set_device_no_number:
  "snd (shell_strtoul P x) \<noteq> 0 \<Longrightarrow> sh_fault (snd (run_state (cmd_wifi_set_active_device P [n, x]) s))"
  by (auto simp: cmd_wifi_set_active_device_def set_req_def Let_def run_simps split: prod.split)

section \<open>The properties\<close>



text \<open>
  C15: Commands that are called as their tables admit do nothing undefined, in all five files: with a number of
  words the table of \<open>SHELL_CMD_ARG\<close> entries accepts, no command reads an argument that is not there or
  uses anything outside its arrays and buffers, whatever the words are and whatever the services answer. The
  ciphers, the entropy source and the secure storage have to keep to the room they are given, and five
  commands are not covered: \<open>s2ram\<close>, \<open>setcxoneshot\<close>, \<open>bcmc_list\<close>, \<open>unit_test\<close> and \<open>set_device\<close>.
\<close>

theorem admitted_calls_safe:
  assumes "within_room C"
  shows "(\<forall>c \<in> set (sub_uart_cmds F). admits c argv \<longrightarrow> safe_command c argv) \<and>
    (\<forall>c \<in> set (sub_pm_cmds_pw W). admits c argv \<longrightarrow>
       cmd_name c \<in> {''s2ram'', ''setcxoneshot''} \<or> safe_command c argv) \<and>
    (\<forall>c \<in> set (sub_pm_cmds_cr C). admits c argv \<longrightarrow> safe_command c argv) \<and>
    (\<forall>c \<in> set (sub_bmps_cmds B). admits c argv \<longrightarrow> cmd_name c = ''bcmc_list'' \<or> safe_command c argv) \<and>
    (\<forall>c \<in> set (sub_qwifi_commands Q). admits c argv \<longrightarrow>
       cmd_name c \<in> {''unit_test'', ''set_device''} \<or> safe_command c argv)"
  using assms by (blast intro: safe_platform safe_power safe_crypto safe_bmps safe_wifi)

lemma within_room_sim: "within_room crypto_sim"
  by (auto simp: within_room_def crypto_sim_def)

theorem admitted_calls_safe_witness:
  "safe_command (SHELL_CMD_ARG ''setdbg'' (cmd_setdbg platform_sim) 3 0 :: nat platform_st sh_cmd)
     [''setdbg'', ''1'', ''100''] \<and>
   safe_command (SHELL_CMD_ARG ''calcxoneshot'' (cmd_calcxoneshot power_sim) 3 0 :: (bool \<times> bool \<times> u32) power_st sh_cmd)
     [''setdbg'', ''1'', ''100''] \<and>
   safe_command (SHELL_CMD_ARG ''secure_read'' (cmd_secure_read crypto_sim) 3 0 :: (u32 \<Rightarrow> bytes) crypto_st sh_cmd)
     [''setdbg'', ''1'', ''100''] \<and>
   safe_command (SHELL_CMD_ARG ''enable'' (cmd_bmps_enable bmps_sim) 3 0 :: nat bmps_st sh_cmd)
     [''setdbg'', ''1'', ''100''] \<and>
   safe_command (SHELL_CMD_ARG ''set_aggregation'' (cmd_set_aggregation wifi_sim) 3 0 :: wifi_request list sh_st sh_cmd)
     [''setdbg'', ''1'', ''100'']"
proof -
  let ?argv = "[''setdbg'', ''1'', ''100'']"
  define c1 :: "nat platform_st sh_cmd" where "c1 = SHELL_CMD_ARG ''setdbg'' (cmd_setdbg platform_sim) 3 0"
  define c2 :: "(bool \<times> bool \<times> u32) power_st sh_cmd"
    where "c2 = SHELL_CMD_ARG ''calcxoneshot'' (cmd_calcxoneshot power_sim) 3 0"
  define c3 :: "(u32 \<Rightarrow> bytes) crypto_st sh_cmd"
    where "c3 = SHELL_CMD_ARG ''secure_read'' (cmd_secure_read crypto_sim) 3 0"
  define c4 :: "nat bmps_st sh_cmd" where "c4 = SHELL_CMD_ARG ''enable'' (cmd_bmps_enable bmps_sim) 3 0"
  define c5 :: "wifi_request list sh_st sh_cmd"
    where "c5 = SHELL_CMD_ARG ''set_aggregation'' (cmd_set_aggregation wifi_sim) 3 0"
  have "cfg_its crypto_sim"
    by (simp add: crypto_sim_def)
  then have tables: "c1 \<in> set (sub_uart_cmds platform_sim)" "c2 \<in> set (sub_pm_cmds_pw power_sim)"
      "c3 \<in> set (sub_pm_cmds_cr crypto_sim)" "c4 \<in> set (sub_bmps_cmds bmps_sim)" "c5 \<in> set (sub_qwifi_commands wifi_sim)"
    by (simp_all add: sub_uart_cmds_def sub_pm_cmds_pw_def sub_pm_cmds_cr_def sub_bmps_cmds_def sub_qwifi_commands_def
        c1_def c2_def c3_def c4_def c5_def)
  have called: "admits c1 ?argv" "admits c2 ?argv" "admits c3 ?argv" "admits c4 ?argv" "admits c5 ?argv"
    and names: "cmd_name c2 \<notin> {''s2ram'', ''setcxoneshot''}" "cmd_name c4 \<noteq> ''bcmc_list''"
      "cmd_name c5 \<notin> {''unit_test'', ''set_device''}"
    by (simp_all add: c1_def c2_def c3_def c4_def c5_def SHELL_CMD_ARG_def admits_def)
  have "safe_command c1 ?argv \<and> safe_command c2 ?argv \<and> safe_command c3 ?argv \<and> safe_command c4 ?argv \<and> safe_command c5 ?argv"
    using admitted_calls_safe [OF within_room_sim, of platform_sim ?argv power_sim bmps_sim wifi_sim] tables called names
    by blast
  then show ?thesis
    by (simp only: c1_def c2_def c3_def c4_def c5_def simp_thms)
qed

text \<open>
  C32: The power table admits what its handlers do not check: \<open>s2ram\<close> with one word behind it reads an argument
  that is not there, whatever the word is, and so does \<open>setcxoneshot\<close> when the code is 0; \<open>set_device\<close> of the
  Wi-Fi table writes through a null pointer when its argument is no number.
\<close>

theorem missing_words_read:
  assumes "shell_strtoul W z = (0, 0)" and "snd (shell_strtoul Q x) \<noteq> 0"
  shows "(\<exists>c \<in> set (sub_pm_cmds_pw W). cmd_name c = ''s2ram'' \<and> admits c [''s2ram'', t] \<and>
      sh_fault (snd (run_state (cmd_handler c [''s2ram'', t]) s))) \<and>
    (\<exists>c \<in> set (sub_pm_cmds_pw W). cmd_name c = ''setcxoneshot'' \<and> admits c [''setcxoneshot'', z] \<and>
      sh_fault (snd (run_state (cmd_handler c [''setcxoneshot'', z]) s))) \<and>
    (\<exists>c \<in> set (sub_qwifi_commands Q). cmd_name c = ''set_device'' \<and> admits c [''set_device'', x] \<and>
      sh_fault (snd (run_state (cmd_handler c [''set_device'', x]) u)))"
  using assms
  by (simp add: sub_pm_cmds_pw_def sub_qwifi_commands_def SHELL_CMD_ARG_def admits_def
      s2ram_without_count setcxoneshot_without_values set_device_no_number)

theorem missing_words_read_witness:
  "sh_fault (snd (run_state (cmd_setcxoneshot power_sim [''setcxoneshot'', ''0'']) power_start)) \<and> \<not> sh_fault power_start \<and>
   sh_fault (snd (run_state (cmd_wifi_set_active_device wifi_sim [''set_device'', ''x'']) (sh_start [])))"
proof -
  have "shell_strtoul power_sim ''0'' = (0, 0)" "snd (shell_strtoul wifi_sim ''x'') \<noteq> 0"
    by (simp_all add: power_sim_def wifi_sim_def sim_numbers SH_EINVAL_def)
  from missing_words_read [OF this, of "''100''" power_start "sh_start []"] show ?thesis
    by (auto simp: sub_pm_cmds_pw_def sub_qwifi_commands_def SHELL_CMD_ARG_def sh_starts split: if_splits)
qed



end
