(* ===== verification/Sh_Crypto_Proofs.thy ===== *)
theory Sh_Crypto_Proofs
  imports Sh_Args_Proofs
begin

text \<open>
  The commands on the secure storage: the hexadecimal text that goes in comes out again, the password is
  replaced as a whole or not at all, and blocks of the heap are given back.
\<close>

section \<open>Hexadecimal text\<close>

definition is_hex :: "char \<Rightarrow> bool" where
  "is_hex c \<longleftrightarrow> hex2digit c \<ge> 0"

definition lower :: "char \<Rightarrow> char" where
  "lower c = (if 65 \<le> (of_char c :: nat) \<and> (of_char c :: nat) \<le> 70 then char_of (of_char c + 32 :: nat) else c)"

lemma of_char_small:
  assumes "n < 256"
  shows "(of_char (char_of (n :: nat)) :: nat) = n" and "(of_char (char_of n) :: int) = int n"
  using assms of_nat_of_char [of "char_of n", where ?'a = int] by simp_all

lemma is_hex_cases:
  assumes "is_hex c"
  obtains k :: nat where "c = char_of (48 + k)" "k < 10" | k :: nat where "c = char_of (97 + k)" "k < 6"
    | k :: nat where "c = char_of (65 + k)" "k < 6"
proof -
  define n where "n = (of_char c :: nat)"
  have c: "c = char_of n"
    by (simp add: n_def)
  have i: "(of_char c :: int) = int n"
    unfolding n_def by (rule of_nat_of_char [symmetric])
  have "48 \<le> n \<and> n \<le> 57 \<or> 97 \<le> n \<and> n \<le> 102 \<or> 65 \<le> n \<and> n \<le> 70"
    using assms by (auto simp: is_hex_def hex2digit_def i Let_def SH_EINVAL_def split: if_splits)
  then have "n = 48 + (n - 48) \<and> n - 48 < 10 \<or> n = 97 + (n - 97) \<and> n - 97 < 6 \<or> n = 65 + (n - 65) \<and> n - 65 < 6"
    by linarith
  then show thesis
    using that c by metis
qed

lemma hex_char_digit:
  assumes "is_hex c"
  shows "hex_char (nat (hex2digit c)) = lower c" and "hex2digit c < 16"
  using assms
  by (cases c rule: is_hex_cases;
      simp add: hex_char_def hex2digit_def lower_def of_char_small Let_def nat_add_distrib algebra_simps)+

lemma nibbles:
  fixes h l :: int
  assumes "0 \<le> h" "h < 16" "0 \<le> l" "l < 16"
  shows "unat (push_bit 4 (word_of_int h) OR word_of_int l :: u8) = 16 * nat h + nat l"
proof -
  have "push_bit 4 (word_of_int h) OR word_of_int l = push_bit 4 (word_of_int h) + (word_of_int l :: u8)"
  proof (rule disjunctive_add [symmetric])
    fix n
    show "\<not> bit (push_bit 4 (word_of_int h :: u8)) n \<or> \<not> bit (word_of_int l :: u8) n"
    proof (cases "n < 4")
      case False
      have "l = take_bit 4 l"
        using assms by (simp add: take_bit_int_eq_self)
      then have "\<not> bit l n"
        using False by (metis bit_take_bit_iff)
      then show ?thesis by (simp add: bit_word_of_int_iff)
    qed (simp add: bit_push_bit_iff)
  qed
  also have "\<dots> = word_of_int (16 * h + l)"
    by (simp add: push_bit_eq_mult)
  finally have sum: "push_bit 4 (word_of_int h) OR word_of_int l = (word_of_int (16 * h + l) :: u8)" .
  have "unat (word_of_int z :: u8) = nat (z mod 256)" for z
    by (simp only: unat_eq_nat_uint uint_word_of_int) simp
  moreover have "(16 * h + l) mod 256 = 16 * h + l"
    using assms by (intro mod_pos_pos_trivial) auto
  ultimately show ?thesis
    using assms unfolding sum by (simp only: nat_add_distrib nat_mult_distrib) (simp add: nat_add_distrib nat_mult_distrib)
qed

lemma two_digits: "h < 16 \<Longrightarrow> l < 16 \<Longrightarrow> hex_digits 2 (16 * h + l) = [hex_char h, hex_char l]"
  by (simp add: hex_digits_def upt_conv_Cons numeral_2_eq_2)

lemma pair_text:
  assumes "is_hex a" "is_hex b"
  shows "hex_digits 2 (unat (push_bit 4 (word_of_int (hex2digit a)) OR word_of_int (hex2digit b) :: u8)) =
    [lower a, lower b]"
  using assms hex_char_digit [of a] hex_char_digit [of b]
  by (simp add: nibbles is_hex_def two_digits)

text \<open>What the loop of \<open>hexstr_to_digits\<close> stores for text of whole pairs.\<close>

fun pair_bytes :: "string \<Rightarrow> bytes" where
  "pair_bytes (l # h # r) = (push_bit 4 (word_of_int (hex2digit h)) OR word_of_int (hex2digit l)) # pair_bytes r"
| "pair_bytes _ = []"

lemma hexstr_loop_pairs:
  assumes "length cs = 2 * m" and "\<forall>c \<in> set cs. is_hex c" and "i + m \<le> length buf"
  shows "hexstr_loop cs (2 * i) buf = (0, take i buf @ pair_bytes cs @ drop (i + m) buf)"
  using assms
proof (induction cs arbitrary: i m buf rule: pair_bytes.induct)
  case (1 l h r)
  define b where "b = buf[i := word_of_int (hex2digit l) OR push_bit 4 (word_of_int (hex2digit h))]"
  obtain m' where m: "m = Suc m'" and len: "length r = 2 * m'"
    using "1.prems"(1) by (cases m) auto
  have i: "i < length buf" using "1.prems"(3) m by simp
  have "hexstr_loop (l # h # r) (2 * i) buf = hexstr_loop r (2 * Suc i) b"
    using "1.prems" i by (simp add: is_hex_def Let_def b_def)
  also have "\<dots> = (0, take (Suc i) b @ pair_bytes r @ drop (Suc i + m') b)"
    by (rule "1.IH") (use "1.prems" m len in \<open>simp_all add: b_def\<close>)
  also have "take (Suc i) b @ pair_bytes r @ drop (Suc i + m') b =
      take i buf @ pair_bytes (l # h # r) @ drop (i + m) buf"
    using i by (simp add: b_def m take_Suc_conv_app_nth or.commute)
  finally show ?case .
qed auto

lemma pair_bytes_text:
  assumes "even (length cs)" and "\<forall>c \<in> set cs. is_hex c"
  shows "bytes_text (pair_bytes cs) = map lower (rev cs)"
  using assms by (induction cs rule: pair_bytes.induct) (simp_all add: bytes_text_def pair_text)

lemma length_pair_bytes [simp]: "length (pair_bytes cs) = length cs div 2"
  by (induction cs rule: pair_bytes.induct) simp_all

lemma hexstr_to_digits_ok:
  assumes "length d = 2 * length buf" and "\<forall>c \<in> set d. is_hex c" and "n = of_nat (length buf)"
  shows "hexstr_to_digits d buf n = (0, pair_bytes (rev d))"
  using hexstr_loop_pairs [of "rev d" "length buf" 0 buf] assms by (simp add: hexstr_to_digits_def)

lemma convert_pairs_text:
  "convert_pairs s = (0, bs) \<Longrightarrow> even (length s) \<Longrightarrow>
   concat (map (\<lambda>b. hex_digits 2 (unat b)) bs) = map lower s \<and> length bs = length s div 2"
proof (induction s arbitrary: bs rule: convert_pairs.induct)
  case (1 a b r)
  have digit: "hex_to_dec_nibble c = hex2digit c \<and> is_hex c" if "hex_to_dec_nibble c \<ge> 0" for c
    using that by (auto simp: hex_to_dec_nibble_def hex2digit_def is_hex_def Let_def split: if_splits)
  obtain bs' where "hex_to_dec_nibble a \<ge> 0" "hex_to_dec_nibble b \<ge> 0" and r: "convert_pairs r = (0, bs')"
      and bs: "bs = (push_bit 4 (word_of_int (hex_to_dec_nibble a)) OR word_of_int (hex_to_dec_nibble b)) # bs'"
    using "1.prems"(1) by (auto simp: Let_def split: if_splits prod.splits)
  then show ?case
    using "1.IH" [OF refl refl _ r] "1.prems"(2) digit [of a] digit [of b] by (simp add: pair_text)
qed auto

lemma nibble_of_hex [simp]: "hex_to_dec_nibble c < 0 \<longleftrightarrow> \<not> is_hex c"
  by (auto simp: hex_to_dec_nibble_def hex2digit_def is_hex_def SH_EINVAL_def Let_def)

lemma convert_pairs_fails: "\<not> (\<forall>c \<in> set s. is_hex c) \<Longrightarrow> even (length s) \<Longrightarrow> fst (convert_pairs s) \<noteq> 0"
proof (induction s rule: convert_pairs.induct)
  case (1 a b r)
  then show ?case
    using "1.IH" [OF refl refl] by (auto simp: Let_def split: prod.splits)
qed simp_all

lemma convert_pairs_hex: "\<forall>c \<in> set s. is_hex c \<Longrightarrow> fst (convert_pairs s) = 0"
  by (induction s rule: convert_pairs.induct) (auto simp: Let_def split: prod.splits)

section \<open>Blocks of the heap\<close>

text \<open>\<open>moves i j m\<close>: a command that holds \<open>i\<close> blocks before \<open>m\<close> holds \<open>j\<close> behind it.\<close>

definition moves :: "nat \<Rightarrow> nat \<Rightarrow> (('w, 'z) sh_st_scheme, 'a) state \<Rightarrow> bool" where
  "moves i j m \<longleftrightarrow> (\<forall>s. sh_blocks s = i \<longrightarrow> sh_blocks (snd (run_state m s)) = j)"

named_theorems moves_intros \<open>how many blocks a command holds, by its shape\<close>

lemma moves_bind [moves_intros]:
  "keeps (\<lambda>s. sh_blocks s = i) m \<Longrightarrow> (\<And>x. moves i j (f x)) \<Longrightarrow> moves i j (State_Monad.bind m f)"
  by (simp add: moves_def keeps_def run_bind split: prod.split) (metis snd_conv)

lemma moves_free:
  "moves j k (f ()) \<Longrightarrow> moves (Suc j) k (State_Monad.bind free_block f)"
  by (simp add: moves_def free_block_def run_bind)

lemma moves_new:
  "moves i j (k None) \<Longrightarrow> (\<And>b. length b = n \<Longrightarrow> moves (Suc i) j (k (Some b))) \<Longrightarrow>
   moves i j (State_Monad.bind (new_block P n) k)"
  by (simp add: moves_def new_block_def run_simps split: option.split)

lemma moves_return: "moves i i (State_Monad.return x)"
  by (simp add: moves_def)

lemma moves_keeps: "keeps (\<lambda>s. sh_blocks s = i) m \<Longrightarrow> moves i i m"
  by (simp add: moves_def keeps_def)

lemma moves_shapes [moves_intros]:
  "(b \<Longrightarrow> moves i j m) \<Longrightarrow> (\<not> b \<Longrightarrow> moves i j n) \<Longrightarrow> moves i j (if b then m else n)"
  "(\<And>x y. z = (x, y) \<Longrightarrow> moves i j (g x y)) \<Longrightarrow> moves i j (case z of (x, y) \<Rightarrow> g x y)"
  by (auto split: prod.split)

lemma moves_option [moves_intros]:
  "(x = None \<Longrightarrow> moves i j m') \<Longrightarrow> (\<And>y. x = Some y \<Longrightarrow> moves i j (h y)) \<Longrightarrow>
   moves i j (case x of None \<Rightarrow> m' | Some y \<Rightarrow> h y)"
  by (cases x) simp_all

lemma moves_args [moves_intros]:
  "(\<And>v. moves i j (k v)) \<Longrightarrow> n < length argv \<Longrightarrow> i = j \<Longrightarrow> moves i j (with_ulong L argv n k)"
  "(\<And>v. moves i j (k v)) \<Longrightarrow> n < length argv \<Longrightarrow> i = j \<Longrightarrow> moves i j (with_number L argv n k)"
  by (auto simp: moves_def run_simps split: prod.split)

named_theorems same_blocks \<open>operations that leave the blocks alone\<close>

lemmas same_blocks_services [same_blocks] = same_blocks.service_keeps

lemma same_blocks_printing [same_blocks]:
  "keeps (\<lambda>s. sh_blocks s = n) (hexdump b m)"
  "keeps (\<lambda>s. sh_blocks s = n) (fill off out b)"
  "keeps (\<lambda>s. sh_blocks s = n) (shows_match b p q m)"
  by (simp_all add: keeps_def hexdump_def fill_def shows_match_def Let_def run_simps)

lemma same_blocks_cipher [same_blocks]: "keeps (\<lambda>s. sh_blocks s = n) (cipher f len off b)"
  unfolding cipher_def by (intro keeps_intros same_blocks)

lemma same_blocks_both [same_blocks]:
  "keeps (\<lambda>s. sh_blocks s = n) (encrypt_both P k d b)"
  "keeps (\<lambda>s. sh_blocks s = n) (decrypt_both P k d b)"
  unfolding encrypt_both_def decrypt_both_def Let_def by (intro keeps_intros same_blocks)+

lemma same_blocks_pka [same_blocks]: "keeps (\<lambda>s. sh_blocks s = n) (pka_run P v t)"
  unfolding pka_run_def shows_verdict_def by (intro keeps_intros same_blocks)

lemma same_blocks_qcc [same_blocks]:
  "(\<And>b. keeps (\<lambda>s. sh_blocks s = n) (k b)) \<Longrightarrow> keeps (\<lambda>s. sh_blocks s = n) (qcc_try P m v name t matched k)"
  unfolding qcc_try_def shows_verdict_def by (intro keeps_intros same_blocks)

lemma moves_its_store: "moves (Suc n) n (its_store P uid d)"
  by (simp add: moves_def its_store_def free_block_def run_simps)

lemma moves_allocating:
  assumes "length argv = 4"
  shows "moves n n (kdf_encrypt_test_cmd P argv)" and "moves n n (kdf_decrypt_test_cmd P argv)"
  unfolding kdf_encrypt_test_cmd_def kdf_decrypt_test_cmd_def Let_def
  by (rule moves_new moves_free moves_return | rule moves_intros | rule same_blocks | rule keeps_intros | simp add: assms)+

lemma moves_poll: "moves n n (cmd_entropy_hw_poll P argv)"
  unfolding cmd_entropy_hw_poll_def Let_def
  by (rule moves_new moves_free moves_return | rule moves_intros | rule same_blocks | rule keeps_intros | simp)+

lemma moves_read: "moves n n (cmd_secure_read P argv)"
  unfolding cmd_secure_read_def Let_def
  by (rule moves_new moves_free moves_return | rule moves_intros | rule same_blocks | rule keeps_intros | simp)+

lemma moves_write_hex:
  assumes "even (length hex)" and "\<forall>c \<in> set hex. is_hex c"
  shows "moves n n (secure_write_hex P uid hex)"
proof -
  have "hexstr_to_digits hex b (of_nat (length hex div 2)) = (0, pair_bytes (rev hex))"
    if "length b = length hex div 2" for b
    using assms that by (intro hexstr_to_digits_ok) simp_all
  then show ?thesis
    unfolding secure_write_hex_def Let_def
    by (intro moves_shapes(1) moves_return moves_new) (simp_all add: moves_return moves_its_store)
qed

text \<open>Text of the right length that is not hexadecimal keeps its block.\<close>

lemma secure_write_leaks:
  assumes "fst (sh_malloc P (length hex div 2) (sh_world s)) \<noteq> None" and "its_length_ok P (length hex div 2)"
    and "fst (hexstr_to_digits hex (map (the (fst (sh_malloc P (length hex div 2) (sh_world s)))) [0..<length hex div 2])
      (of_nat (length hex div 2))) \<noteq> 0"
  shows "sh_blocks (snd (run_state (secure_write_hex P uid hex) s)) = Suc (sh_blocks s)"
  using assms by (auto simp: secure_write_hex_def new_block_def Let_def run_simps split: prod.splits)

lemma moves_write_repeated: "moves n n (secure_write_repeated P uid hex v)"
  unfolding secure_write_repeated_def Let_def
  by (rule moves_new moves_its_store moves_return | rule moves_intros | simp)+

lemma moves_write:
  assumes "length argv = 3 \<Longrightarrow> even (length (argv ! 2)) \<and> (\<forall>c \<in> set (argv ! 2). is_hex c)"
  shows "moves n n (cmd_secure_write P argv)"
  using assms
  by (auto simp: cmd_secure_write_def argv_at_def moves_write_hex moves_write_repeated
      intro!: moves_intros moves_return keeps_intros)

section \<open>The secure storage\<close>

text \<open>
  What is documented of the storage: \<open>holds uid d w\<close> says that an entry has the data \<open>d\<close>. Storing data makes it
  so, allocating memory does not change it, and reading it with enough room returns the data.
\<close>

definition its_storage :: "'w crypto_port \<Rightarrow> (u32 \<Rightarrow> bytes \<Rightarrow> 'w \<Rightarrow> bool) \<Rightarrow> bool" where
  "its_storage P holds \<longleftrightarrow>
     (\<forall>uid d w. fst (its_set P uid d w) = 0 \<longrightarrow> holds uid d (snd (its_set P uid d w))) \<and>
     (\<forall>uid d n w. holds uid d w \<longrightarrow> holds uid d (snd (sh_malloc P n w))) \<and>
     (\<forall>uid d n w. holds uid d w \<longrightarrow> length d \<le> n \<longrightarrow> fst (its_get P uid 0 n w) = (0, d, length d))"

lemma secure_write_stores:
  assumes "its_storage P holds" and "shell_strtoul P a = (uid, 0)"
    and "even (length hex)" and "\<forall>c \<in> set hex. is_hex c"
    and "run_state (cmd_secure_write P [name, a, hex]) s = (0, t)"
  shows "holds uid (pair_bytes (rev hex)) (sh_world t) \<and> sh_shown t = sh_shown s \<and> sh_blocks t = sh_blocks s \<and>
    sh_fault t = sh_fault s"
proof -
  obtain f w where block: "sh_malloc P (length hex div 2) (sh_world s) = (Some f, w)"
    using assms(2,5) by (cases "sh_malloc P (length hex div 2) (sh_world s)" rule: prod.exhaust; cases "fst (sh_malloc P (length hex div 2) (sh_world s))")
      (auto simp: cmd_secure_write_def secure_write_hex_def new_block_def Let_def SH_EINVAL_def SH_ENOMEM_def run_simps
        split: if_splits)
  have "hexstr_to_digits hex (map f [0..<length hex div 2]) (of_nat (length hex div 2)) = (0, pair_bytes (rev hex))"
    using assms(3,4) by (intro hexstr_to_digits_ok) simp_all
  then show ?thesis
    using assms block
    by (auto simp: cmd_secure_write_def secure_write_hex_def new_block_def its_store_def free_block_def Let_def
        SH_EINVAL_def its_storage_def run_simps split: if_splits)
qed

lemma secure_read_shows:
  assumes "its_storage P holds" and "shell_strtoul P a = (uid, 0)" and "shell_strtoul P b = (of_nat (2 * length d), 0)"
    and "its_length_ok P (length d)" and "2 * length d < 2 ^ 31"
    and "\<And>n w. fst (sh_malloc P n w) \<noteq> None" and "holds uid d (sh_world s)"
  shows "wp (cmd_secure_read P [name, a, b]) (\<lambda>r t. r = 0 \<and>
      sh_shown t = sh_shown s @ [Line ''Successfully read'' [int (length d)], Hex (bytes_text d)] \<and>
      sh_blocks t = sh_blocks s \<and> sh_fault t = sh_fault s) s"
proof -
  obtain f w where block: "sh_malloc P (length d) (sh_world s) = (Some f, w)"
    using assms(6) by (metis option.exhaust surj_pair fst_conv)
  have "holds uid d w"
    using assms(1,7) block by (metis its_storage_def snd_conv)
  then obtain w' where get: "its_get P uid 0 (length d) w = ((0, d, length d), w')"
    using assms(1) unfolding its_storage_def by (metis le_refl prod.collapse)
  have small: "unat (of_nat n :: u32) = n" if "n < 2 ^ 32" for n
    using that by (simp add: unat_of_nat)
  have len: "unat (2 * of_nat (length d) :: u32) = 2 * length d" "unat (of_nat (length d) :: u32) = length d"
    using small [of "2 * length d"] small [of "length d"] assms(5) by simp_all
  have pos: "\<not> sint (of_nat (length d) - 1 :: u32) < 0"
  proof -
    have "of_nat (length d) - 1 = (of_nat (length d - 1) :: u32)"
      using assms(4) by (cases "length d") (simp_all add: its_length_ok_def)
    moreover have "sint (of_nat (length d - 1) :: u32) = int (length d - 1)"
      using assms(5) by (simp add: signed_of_nat signed_take_bit_int_eq_self)
    ultimately show ?thesis by simp
  qed
  show ?thesis
    using assms(2-4) len pos block get
    by (simp add: cmd_secure_read_def new_block_def fill_def hexdump_def free_block_def put_at_def Let_def wp_def run_simps)
qed

section \<open>The properties\<close>

text \<open>
  C16: Hexadecimal text that \<open>secure_write\<close> stores under an identifier is printed by a \<open>secure_read\<close> of the same
  identifier and length as it was typed, with letters in lower case, although both commands go through the
  bytes from the last to the first; no memory is lost on the way.
\<close>

theorem secure_store_round_trip:
  assumes "its_storage P holds" and "shell_strtoul P a = (uid, 0)" and "shell_strtoul P b = (of_nat (length hex), 0)"
    and "even (length hex)" and "\<forall>c \<in> set hex. is_hex c" and "length hex < 2 ^ 31"
    and "its_length_ok P (length hex div 2)" and "\<And>n w. fst (sh_malloc P n w) \<noteq> None"
    and "run_state (cmd_secure_write P [wr, a, hex]) s = (0, t)"
  shows "wp (cmd_secure_read P [rd, a, b]) (\<lambda>r u. r = 0 \<and>
      sh_shown u = sh_shown s @ [Line ''Successfully read'' [int (length hex div 2)], Hex (map lower hex)] \<and>
      sh_blocks u = sh_blocks s \<and> sh_fault u = sh_fault s) t"
  using secure_read_shows [of P holds a uid b "pair_bytes (rev hex)" t rd] secure_write_stores [OF assms(1,2,4,5,9)] assms
  by (simp add: pair_bytes_text)


text \<open>
  C30: Every command of \<open>qcrypto\<close> gives back the blocks of the heap it has allocated, on every path, except
  that \<open>secure_write\<close> with two arguments keeps its block when the data is not hexadecimal text of whole bytes.
\<close>

theorem crypto_blocks_given_back:
  assumes "c \<in> set (sub_pm_cmds_cr P)" and "admits c argv"
    and "cmd_name c = ''secure_write'' \<Longrightarrow> length argv = 3 \<Longrightarrow>
      even (length (argv ! 2)) \<and> (\<forall>ch \<in> set (argv ! 2). is_hex ch)"
  shows "sh_blocks (snd (run_state (cmd_handler c argv) s)) = sh_blocks s"
proof -
  have "moves (sh_blocks s) (sh_blocks s) (cmd_handler c argv)"
    using assms
    by (auto simp: sub_pm_cmds_cr_def SHELL_CMD_ARG_def admits_def moves_allocating moves_poll moves_read moves_write
        kdf_key_test_cmd_def cmd_pka_test_def cmd_qcc_test_def cmd_entropy_test_def cmd_secure_get_info_def
        cmd_secure_remove_def cmd_secure_set_password_def shows_verdict_def Let_def split: if_splits
        intro!: moves_intros moves_return moves_keeps [OF same_blocks_qcc] keeps_intros same_blocks keeps_modify)
  then show ?thesis by (simp add: moves_def)
qed

text \<open>
  C31: The password of the secure file system is replaced by exactly the 16 bytes named or stays as it is: the
  command succeeds if and only if its argument is 32 hexadecimal digits, then the password reads as the
  argument does, and otherwise nothing at all has changed.
\<close>

theorem password_replaced_whole:
  assumes "length x < 2 ^ 32" and "run_state (cmd_secure_set_password [name, x]) s = (r, t)"
  shows "(r = 0 \<longleftrightarrow> length x = 32 \<and> (\<forall>c \<in> set x. is_hex c)) \<and>
    (r = 0 \<longrightarrow> length (g_securefs_password t) = 16 \<and>
       concat (map (\<lambda>b. hex_digits 2 (unat b)) (g_securefs_password t)) = map lower x) \<and>
    (r \<noteq> 0 \<longrightarrow> t = s)"
proof (cases "length x = 32")
  case True
  then have conv: "convert_data_in_hex_to_byte_array x 16 = convert_pairs x"
    by (simp add: convert_data_in_hex_to_byte_array_def)
  obtain rc bs where p: "convert_pairs x = (rc, bs)" by force
  show ?thesis
    using assms(2) True convert_pairs_text [of x bs] convert_pairs_hex [of x] convert_pairs_fails [of x]
    by (auto simp: cmd_secure_set_password_def conv p Let_def SH_EINVAL_def run_simps split: if_splits)
next
  case False
  moreover have "unat (of_nat (length x) :: u32) = length x"
    using assms(1) by (simp add: unat_of_nat)
  ultimately have "(of_nat (length x) :: u32) \<noteq> 32"
    by force
  then show ?thesis
    using assms(2) False
    by (auto simp: cmd_secure_set_password_def convert_data_in_hex_to_byte_array_def Let_def SH_EINVAL_def run_simps)
qed

lemma its_storage_sim: "its_storage crypto_sim (\<lambda>uid d w. w uid = d)"
  by (simp add: its_storage_def crypto_sim_def)

lemma is_hex_sample: "\<forall>c \<in> set ''0A1b''. is_hex c"
  by (simp add: is_hex_def hex2digit_def Let_def)

lemma lower_sample: "lower CHR ''0'' = CHR ''0''" "lower CHR ''A'' = CHR ''a''" "lower CHR ''1'' = CHR ''1''"
  "lower CHR ''b'' = CHR ''b''"
  by code_simp+

theorem secure_store_round_trip_witness:
  "let (r, t) = run_state (cmd_secure_write crypto_sim [''secure_write'', ''1'', ''0A1b'']) crypto_start
   in r = 0 \<and> wp (cmd_secure_read crypto_sim [''secure_read'', ''1'', ''4'']) (\<lambda>r u. r = 0 \<and>
      sh_shown u = [Line ''Successfully read'' [2], Hex ''0a1b'']) t"
proof -
  have n: "shell_strtoul crypto_sim ''1'' = (1, 0)" "shell_strtoul crypto_sim ''4'' = (of_nat (length ''0A1b''), 0)"
    by (simp_all add: crypto_sim_def sim_numbers)
  obtain r t where run: "run_state (cmd_secure_write crypto_sim [''secure_write'', ''1'', ''0A1b'']) crypto_start = (r, t)"
    by force
  have "hexstr_to_digits ''0A1b'' [0, 0] 2 = (0, pair_bytes (rev ''0A1b''))"
    using is_hex_sample by (intro hexstr_to_digits_ok) simp_all
  then have r: "r = 0"
    using run by (auto simp: cmd_secure_write_def secure_write_hex_def its_length_ok_def new_block_def its_store_def
        free_block_def crypto_sim_def sim_numbers Let_def run_simps upt_rec split: if_splits)
  have "wp (cmd_secure_read crypto_sim [''secure_read'', ''1'', ''4'']) (\<lambda>r u. r = 0 \<and>
      sh_shown u = sh_shown crypto_start @ [Line ''Successfully read'' [int (length ''0A1b'' div 2)], Hex (map lower ''0A1b'')] \<and>
      sh_blocks u = sh_blocks crypto_start \<and> sh_fault u = sh_fault crypto_start) t"
    by (rule secure_store_round_trip [OF its_storage_sim n _ is_hex_sample _ _ _ run [unfolded r]])
      (simp_all add: its_length_ok_def crypto_sim_def)
  then have "wp (cmd_secure_read crypto_sim [''secure_read'', ''1'', ''4'']) (\<lambda>r u. r = 0 \<and>
      sh_shown u = [Line ''Successfully read'' [2], Hex ''0a1b'']) t"
    by (rule wp_mono) (simp add: lower_sample sh_starts)
  then show ?thesis
    by (simp only: run r Let_def case_prod_conv simp_thms)
qed

theorem crypto_blocks_given_back_witness:
  "sh_blocks (snd (run_state (cmd_secure_write crypto_sim [''secure_write'', ''1'', ''0A1b'']) crypto_start)) = 0"
proof -
  let ?c = "SHELL_CMD_ARG ''secure_write'' (cmd_secure_write crypto_sim) 3 1 :: (u32 \<Rightarrow> bytes) crypto_st sh_cmd"
  have "cfg_its crypto_sim"
    by (simp add: crypto_sim_def)
  then have "?c \<in> set (sub_pm_cmds_cr crypto_sim)" "admits ?c [''secure_write'', ''1'', ''0A1b'']"
    by (simp_all add: sub_pm_cmds_cr_def admits_def SHELL_CMD_ARG_def)
  from crypto_blocks_given_back [OF this] is_hex_sample show ?thesis
    by (simp add: SHELL_CMD_ARG_def sh_starts)
qed

theorem password_replaced_whole_witness:
  "length (g_securefs_password (snd (run_state
     (cmd_secure_set_password [''secure_set_password'', replicate 32 CHR ''f'']) crypto_start))) = 16"
proof -
  let ?x = "replicate 32 CHR ''f''"
  obtain r t where run: "run_state (cmd_secure_set_password [''secure_set_password'', ?x]) crypto_start = (r, t)"
    by force
  have "length ?x = 32" "\<forall>c \<in> set ?x. is_hex c"
    by (simp_all only: length_replicate set_replicate_conv_if) (simp add: is_hex_def hex2digit_def Let_def)
  then show ?thesis
    using password_replaced_whole [OF _ run] by (simp only: run snd_conv) simp
qed

end
