(* ===== verification/Sh_Sleep_Proofs.thy ===== *)
theory Sh_Sleep_Proofs
  imports Sh_Sim
begin

text \<open>
  The suspend-to-RAM demo ends after the number of sleeps it was given; the filter for broadcast and multicast
  frames refines a set of UDP ports.
\<close>

section \<open>Suspend to RAM\<close>

text \<open>The timer expires \<open>k\<close> times.\<close>

fun expiries :: "'w power_port \<Rightarrow> nat \<Rightarrow> (('w, 'z) power_st_scheme, unit) state" where
  "expiries P 0 = State_Monad.return ()"
| "expiries P (Suc k) = do { s2ram_timer_cb P; expiries P k }"

lemma sint_pos_u32:
  assumes "0 < n" and "n < 2 ^ 31"
  shows "sint (of_nat n :: u32) > 0" and "(of_nat n :: u32) \<noteq> 0"
proof -
  have "sint (of_nat n :: u32) = int n"
    using assms(2) by (simp add: signed_of_nat signed_take_bit_int_eq_self)
  then show "sint (of_nat n :: u32) > 0" "(of_nat n :: u32) \<noteq> 0"
    using assms(1) by auto
qed

lemma run_expiries:
  assumes "slp_count s = of_nat n" and "n < 2 ^ 31" and "k < max 1 n"
  shows "run_state (expiries P k) s = ((), s\<lparr>slp_count := of_nat (n - k)\<rparr>)"
  using assms
proof (induction k arbitrary: s n)
  case (Suc k)
  then obtain m where n: "n = Suc m" "0 < m"
    by (cases n) auto
  have "run_state (s2ram_timer_cb P) s = ((), s\<lparr>slp_count := of_nat m\<rparr>)"
    using Suc.prems n sint_pos_u32 [of n] sint_pos_u32 [of m] by (simp add: s2ram_timer_cb_def run_simps)
  then show ?case
    using Suc.IH [of "s\<lparr>slp_count := of_nat m\<rparr>" m] Suc.prems n by (simp add: run_simps)
qed simp

lemma run_last_expiry:
  assumes "slp_count s = of_nat n" and "n \<le> 1"
  shows "run_state (s2ram_timer_cb P) s =
    ((), s\<lparr>slp_count := 0, sh_world := s2ram_lock P (s2ram_stop P (sh_world s))\<rparr>)"
  using assms sint_pos_u32 [of n] by (cases n) (simp_all add: s2ram_timer_cb_def run_simps)

lemma run_expiries_Suc:
  "run_state (expiries P (Suc k)) s = run_state (s2ram_timer_cb P) (snd (run_state (expiries P k) s))"
proof (induction k arbitrary: s)
  case (Suc k)
  have "run_state (expiries P (Suc (Suc k))) s = run_state (expiries P (Suc k)) (snd (run_state (s2ram_timer_cb P) s))"
    by (simp only: expiries.simps(2) [of P "Suc k"] run_bind split_beta)
  also have "\<dots> = run_state (s2ram_timer_cb P) (snd (run_state (expiries P k) (snd (run_state (s2ram_timer_cb P) s))))"
    by (rule Suc.IH)
  also have "run_state (expiries P k) (snd (run_state (s2ram_timer_cb P) s)) = run_state (expiries P (Suc k)) s"
    by (simp add: run_bind split_beta)
  finally show ?case .
qed (simp add: run_simps split: prod.split)

text \<open>A count of \<open>2 ^ 31\<close> or more is negative, and then an expiry does nothing.\<close>

lemma negative_count_never_ends:
  assumes "sint (slp_count s) < 0"
  shows "run_state (expiries P k) s = ((), s)"
proof -
  have "slp_count s \<noteq> 0"
    using assms by auto
  then have "run_state (s2ram_timer_cb P) s = ((), s)"
    using assms by (simp add: s2ram_timer_cb_def run_simps)
  then show ?thesis
    by (induction k) (simp_all add: run_simps)
qed

section \<open>The filter\<close>

definition open_ports :: "('w, 'z) bmps_st_scheme \<Rightarrow> nat set" where
  "open_ports s = unat ` {p \<in> set (udp_whitelist_arr s). p \<noteq> 0}"

text \<open>A broadcast frame that carries a UDP datagram for a port, behind a header of 20 bytes.\<close>

definition udp_frame :: "bytes \<Rightarrow> nat \<Rightarrow> bool" where
  "udp_frame frame port \<longleftrightarrow> length frame \<ge> 56 \<and> frame ! 30 = 0x08 \<and> frame ! 31 = 0x00 \<and> frame ! 41 = 17 \<and>
     port = unat (push_bit 8 (ucast (frame ! 54)) OR ucast (frame ! 55) :: u16)"

lemmas filter_layout = WIFI_MAC_HEADER_LEN_def LLC_SNAP_HEADER_LEN_def frame_byte_def frame_u16_def

lemma ucast_port: "ucast (d :: u16) = (p :: u32) \<longleftrightarrow> unat d = unat p"
proof -
  have "unat (ucast d :: u32) = unat d"
  proof -
    have "unat d < 2 ^ 32"
      by (rule less_le_trans [OF unat_lt_u16]) simp
    then show ?thesis by (simp add: unsigned_ucast_eq take_bit_nat_eq_self)
  qed
  then show ?thesis
    by (metis word_unat_eq_iff)
qed

lemma filter_udp:
  assumes "udp_frame frame port" and "32 \<le> unat len"
  shows "run_state (wakeup_cb_bcmc_filter_dtim True frame len) s = (port \<in> open_ports s, s)"
  using assms
  by (auto simp: wakeup_cb_bcmc_filter_dtim_def udp_frame_def filter_layout open_ports_def ucast_port Let_def run_simps)

lemma run_atoi: "\<bar>atoi_value a\<bar> < 2 ^ 31 \<Longrightarrow> run_state (atoi a) s = (atoi_value a, s)"
  by (simp add: atoi_def abs_less_iff run_simps)

lemma ports_added:
  "0 \<in> set ps \<Longrightarrow> p \<noteq> 0 \<Longrightarrow>
   {q \<in> set (whitelist_add p ps). q \<noteq> 0} = insert p {q \<in> set ps. q \<noteq> 0} \<and> length (whitelist_add p ps) = length ps"
  by (induction ps) auto

lemma ports_full: "0 \<notin> set ps \<Longrightarrow> whitelist_add p ps = ps"
  by (induction ps) auto

lemma ports_deleted:
  "{q \<in> set (whitelist_delete p ps). q \<noteq> 0} = {q \<in> set ps. q \<noteq> 0} - {p}"
  by (auto simp: whitelist_delete_def)

section \<open>The properties\<close>

text \<open>
  C19: A suspend-to-RAM session of \<open>n\<close> sleeps ends: \<open>s2ram t n\<close> starts the timer with the period \<open>t\<close> and gives
  up the policy lock if it is held; the timer may expire less than \<open>max 1 n\<close> times without touching timer and
  lock, and then it is stopped and the lock taken back, once.
\<close>

theorem s2ram_ends:
  assumes "shell_strtoul P a = (t, 0)" and "t \<noteq> 0" and "shell_strtoul P b = (of_nat n, 0)" and "n < 2 ^ 31"
    and "run_state (cmd_set_s2ram P [name, a, b]) s = (r, u)"
  shows "r = 0 \<and>
    sh_world u = (let w = s2ram_start P t t (sh_world s) in if s2ram_locked P w then s2ram_unlock P w else w) \<and>
    (\<forall>k < max 1 n. sh_world (snd (run_state (expiries P k) u)) = sh_world u) \<and>
    sh_world (snd (run_state (expiries P (max 1 n)) u)) = s2ram_lock P (s2ram_stop P (sh_world u))"
proof -
  have start: "r = 0 \<and> slp_count u = of_nat n \<and>
      sh_world u = (let w = s2ram_start P t t (sh_world s) in if s2ram_locked P w then s2ram_unlock P w else w)"
    using assms by (auto simp: cmd_set_s2ram_def Let_def run_simps split: if_splits)
  define k where "k = max 1 n - 1"
  have k: "max 1 n = Suc k" "k < max 1 n" "n - k \<le> 1"
    by (simp_all add: k_def)
  have "run_state (expiries P (Suc k)) u = run_state (s2ram_timer_cb P) (u\<lparr>slp_count := of_nat (n - k)\<rparr>)"
    unfolding run_expiries_Suc using run_expiries [of u n k P] start assms(4) k(2) by simp
  then have "sh_world (snd (run_state (expiries P (Suc k)) u)) = s2ram_lock P (s2ram_stop P (sh_world u))"
    using run_last_expiry [of "u\<lparr>slp_count := of_nat (n - k)\<rparr>" "n - k" P] k(3) by simp
  then show ?thesis
    unfolding k(1) [symmetric] using start run_expiries [of u n _ P] assms(4) by simp
qed

theorem s2ram_ends_witness:
  "let u = snd (run_state (cmd_set_s2ram power_sim [''s2ram'', ''100'', ''2'']) power_start)
   in sh_world u = (True, False, 3) \<and>
      sh_world (snd (run_state (expiries power_sim 1) u)) = sh_world u \<and>
      sh_world (snd (run_state (expiries power_sim 2) u)) = (False, True, 3)"
proof -
  have p: "shell_strtoul power_sim ''100'' = (100, 0)" "shell_strtoul power_sim ''2'' = (of_nat 2, 0)"
    by (simp_all add: power_sim_def sim_numbers)
  obtain r u where run: "run_state (cmd_set_s2ram power_sim [''s2ram'', ''100'', ''2'']) power_start = (r, u)"
    by force
  have u: "sh_world u = (True, False, 3)" "\<forall>k < max 1 2. sh_world (snd (run_state (expiries power_sim k) u)) = sh_world u"
      "sh_world (snd (run_state (expiries power_sim (max 1 2)) u)) =
        s2ram_lock power_sim (s2ram_stop power_sim (sh_world u))"
    using s2ram_ends [OF p(1) _ p(2) _ run] by (simp_all add: power_sim_def sh_starts)
  have one: "sh_world (snd (run_state (expiries power_sim 1) u)) = sh_world u"
    using u(2) by (rule allE [where x = 1]) (simp only: max_def, simp)
  have two: "sh_world (snd (run_state (expiries power_sim 2) u)) = (False, True, 3)"
    using u(3) by (simp add: u(1) max_def) (simp add: power_sim_def)
  show ?thesis
    by (simp only: run Let_def snd_conv one two u(1) simp_thms)
qed

text \<open>
  C17: The filter for broadcast frames does what its command says, as far as its table of four ports goes:
  deleting a port, or adding one while an entry is free, changes the answer for UDP frames to exactly this port
  and for no other. Adding a port to a full table changes no answer, although the command reports success.
  Whether a frame wakes the system depends on the set of the listed ports only.
\<close>

theorem filter_follows_list:
  assumes "sh_getopt P argv = [Opt_Adddel a, Opt_Udpport b]" and "atoi_value a = en" and "\<bar>en\<bar> < 2 ^ 31"
    and "atoi_value b = int port" and "0 < port" and "port < 65536"
    and "run_state (cmd_set_bcmc_filter P argv) s = (r, t)"
    and "udp_frame frame dst" and "32 \<le> unat len"
  shows "r = 0 \<and> length (udp_whitelist_arr t) = length (udp_whitelist_arr s) \<and>
    open_ports t = (if en = 0 then open_ports s - {port}
      else if 0 \<in> set (udp_whitelist_arr s) then insert port (open_ports s) else open_ports s) \<and>
    fst (run_state (wakeup_cb_bcmc_filter_dtim True frame len) t) =
      (if dst = port \<and> (en = 0 \<or> 0 \<in> set (udp_whitelist_arr s)) then en \<noteq> 0
       else fst (run_state (wakeup_cb_bcmc_filter_dtim True frame len) s))"
proof -
  define p where "p = (of_nat port :: u32)"
  have p: "unat p = port" "p \<noteq> 0"
    using assms(5,6) by (auto simp: p_def unat_of_nat word_unat_eq_iff)
  have t: "r = 0" "udp_whitelist_arr t = (if en \<noteq> 0 then whitelist_add p (udp_whitelist_arr s)
      else whitelist_delete p (udp_whitelist_arr s))"
    using assms(1-4,6,7) by (auto simp: cmd_set_bcmc_filter_def run_atoi p_def Let_def run_bind)
  have minus: "unat ` (A - {p}) = unat ` A - {unat p}" for A :: "u32 set"
    by (auto simp: word_unat_eq_iff)
  have ports: "open_ports t = (if en = 0 then open_ports s - {port}
      else if 0 \<in> set (udp_whitelist_arr s) then insert port (open_ports s) else open_ports s)"
    using ports_added [of "udp_whitelist_arr s" p] ports_full [of "udp_whitelist_arr s" p] p minus
    by (simp add: open_ports_def t(2) ports_deleted)
  have "length (udp_whitelist_arr t) = length (udp_whitelist_arr s)"
    using ports_added [of "udp_whitelist_arr s" p] ports_full [of "udp_whitelist_arr s" p] p(2)
    by (cases "0 \<in> set (udp_whitelist_arr s)") (auto simp: t(2) whitelist_delete_def)
  then show ?thesis
    using t(1) ports by (auto simp: filter_udp [OF assms(8,9)])
qed

definition demo_frame :: bytes where
  "demo_frame = (replicate 56 0)[30 := 8, 41 := 17, 54 := 0x1F, 55 := 0x90]"

theorem filter_follows_list_witness:
  "let t = snd (run_state (cmd_set_bcmc_filter bmps_sim [''bcmc_list'', ''-a'', ''1'', ''-u'', ''8080'']) bmps_start_state)
   in fst (run_state (wakeup_cb_bcmc_filter_dtim True demo_frame 56) t)"
proof -
  let ?argv = "[''bcmc_list'', ''-a'', ''1'', ''-u'', ''8080'']"
  obtain r t where run: "run_state (cmd_set_bcmc_filter bmps_sim ?argv) bmps_start_state = (r, t)"
    by force
  have "udp_frame demo_frame 8080"
    by (simp add: udp_frame_def demo_frame_def)
  moreover have "sh_getopt bmps_sim ?argv = [Opt_Adddel ''1'', Opt_Udpport ''8080'']"
    by (simp add: bmps_sim_def)
  moreover have "atoi_value ''1'' = 1" "atoi_value ''8080'' = int 8080"
    by (simp_all add: atoi_value_def is_digit_def digit_value_def isspace_def Let_def)
  ultimately show ?thesis
    using filter_follows_list [of bmps_sim ?argv "''1''" "''8080''" 1 8080 bmps_start_state r t demo_frame 8080 56] run
    by (simp add: sh_starts)
qed

end
