(* ===== verification/Samples.thy ===== *)
theory Samples
  imports Sh_Types
begin

text \<open>
  Two samples of \<open>src/qcc730testing/samples/drivers\<close>: the shell that sends bytes over an SPI bus
  (\<open>spi/spi_shell\<close>, names ending in \<open>_sp\<close>) and the echo on a serial line (\<open>uart/simple_echo\<close>). Behind the
  models stand the loopback of the one and the line echo of the other, with the overrun of its buffer.
\<close>

section \<open>The SPI shell\<close>

definition SP_E2BIG :: int where "SP_E2BIG = 7"
definition MAX_BUFFER_SIZE_sp :: nat where "MAX_BUFFER_SIZE_sp = 256"

text \<open>A transfer is given the frequency and the bytes, and returns what was received.\<close>

record 'w bridge_port =
  br_lock :: "'w \<Rightarrow> 'w"
  br_unlock :: "'w \<Rightarrow> 'w"
  br_transceive :: "u32 \<Rightarrow> bytes \<Rightarrow> 'w \<Rightarrow> (int \<times> bytes) \<times> 'w"
  br_led_configure :: "'w \<Rightarrow> int \<times> 'w"
  br_led_set :: "bool \<Rightarrow> 'w \<Rightarrow> 'w"
  br_sleep_ms :: "u32 \<Rightarrow> 'w \<Rightarrow> 'w"

record 'w bridge_st = "'w sh_st" +
  br_tx_buffer :: bytes
  br_rx_buffer :: bytes
  br_led_state :: bool
  br_frequency :: u32

text \<open>The bytes of an argument, at most as many as a buffer holds. The parser has the text of the one of the host demo.\<close>

definition hex_string_to_bytes_sp :: "string \<Rightarrow> int \<times> bytes" where
  "hex_string_to_bytes_sp hex_str = hex_to_bytes SH_EINVAL SP_E2BIG hex_str MAX_BUFFER_SIZE_sp"

text \<open>The callers pass no more bytes than the buffers hold. The second component is what was received.\<close>

definition spi_tx_rx_sp :: "'w bridge_port \<Rightarrow> bytes \<Rightarrow> (('w, 'z) bridge_st_scheme, int \<times> bytes) state" where
  "spi_tx_rx_sp B tx = do {
     command (br_lock B);
     when_m (length tx > MAX_BUFFER_SIZE_sp) sh_ub;
     modify (\<lambda>s. s\<lparr>br_tx_buffer := store (br_tx_buffer s) tx,
       br_rx_buffer := store (br_rx_buffer s) (replicate (length tx) 0)\<rparr>);
     f \<leftarrow> gets br_frequency;
     (ret, rx) \<leftarrow> serve (br_transceive B f tx);
     modify (\<lambda>s. s\<lparr>br_rx_buffer := store (br_rx_buffer s) (take (length tx) rx)\<rparr>);
     buf \<leftarrow> gets br_rx_buffer;
     command (br_unlock B);
     State_Monad.return (if ret < 0 then (ret, []) else (0, take (length tx) buf))
   }"

definition ascii_text :: "bytes \<Rightarrow> string" where
  "ascii_text bs = map (\<lambda>b. if 32 \<le> b \<and> b \<le> 126 then char_of (unat b) else CHR ''.'') bs"

definition cmd_spi_send_hex_sp :: "'w bridge_port \<Rightarrow> string list \<Rightarrow> (('w, 'z) bridge_st_scheme, int) state" where
  "cmd_spi_send_hex_sp B argv =
     (if length argv \<noteq> 2 then State_Monad.return (- SH_EINVAL)
      else
        let (byte_count, tx) = hex_string_to_bytes_sp (argv ! 1)
        in if byte_count < 0 then State_Monad.return byte_count
           else do {
             (ret, rx) \<leftarrow> spi_tx_rx_sp B tx;
             if ret < 0 then State_Monad.return ret
             else do {
               shows_line (Line ''TX'' (map uint tx));
               shows_line (Line ''RX'' (map uint rx));
               shows_line (Line (ascii_text rx) []);
               State_Monad.return 0
             }
           })"

definition cmd_spi_config_freq_sp :: "string list \<Rightarrow> (('w, 'z) bridge_st_scheme, int) state" where
  "cmd_spi_config_freq_sp argv =
     (if length argv \<noteq> 2 then State_Monad.return (- SH_EINVAL)
      else
        let freq = fst (strtoul (argv ! 1) 10)
        in if freq = 0 \<or> freq > 20000000 then State_Monad.return (- SH_EINVAL)
           else do { modify (\<lambda>s. s\<lparr>br_frequency := freq\<rparr>); State_Monad.return 0 })"

definition cmd_spi_status_sp :: "string list \<Rightarrow> (('w, 'z) bridge_st_scheme, int) state" where
  "cmd_spi_status_sp argv = do {
     s \<leftarrow> State_Monad.get;
     shows_line (Line ''SPI Frequency'' [uint (br_frequency s)]);
     shows_line (Line (if br_led_state s then ''LED State: ON'' else ''LED State: OFF'') []);
     shows_line (Line ''Buffer Size'' [int MAX_BUFFER_SIZE_sp]);
     State_Monad.return 0
   }"

definition sub_spi_cmds_sp :: "'w bridge_port \<Rightarrow> (string \<times> (string list \<Rightarrow> (('w, 'z) bridge_st_scheme, int) state)) list" where
  "sub_spi_cmds_sp B =
     [(''send_hex'', cmd_spi_send_hex_sp B), (''config_freq'', cmd_spi_config_freq_sp), (''status'', cmd_spi_status_sp)]"

text \<open>
  The start, \<open>None\<close> if it goes on to the loop. The tests that the LED and the bus are ready compare a truth
  value with less than 0 and never fail.
\<close>

definition main_sp :: "'w bridge_port \<Rightarrow> (('w, 'z) bridge_st_scheme, int option) state" where
  "main_sp B = do {
     modify (\<lambda>s. s\<lparr>br_tx_buffer := replicate MAX_BUFFER_SIZE_sp 0, br_rx_buffer := replicate MAX_BUFFER_SIZE_sp 0,
       br_led_state := False\<rparr>);
     ret \<leftarrow> serve (br_led_configure B);
     State_Monad.return (if ret < 0 then Some ret else None)
   }"

definition blink_turn_sp :: "'w bridge_port \<Rightarrow> (('w, 'z) bridge_st_scheme, unit) state" where
  "blink_turn_sp B = do {
     command (br_sleep_ms B 200);
     modify (\<lambda>s. s\<lparr>br_led_state := \<not> br_led_state s\<rparr>);
     on \<leftarrow> gets br_led_state;
     command (br_led_set B on)
   }"

text \<open>On a bus that returns what it is sent, the text of up to 256 bytes is shown as sent and received.\<close>

lemma spi_loopback:
  assumes "length bs \<le> MAX_BUFFER_SIZE_sp" and "\<And>f tx w. fst (br_transceive B f tx w) = (0, tx)"
  shows "wp (cmd_spi_send_hex_sp B [name, ''0x'' @ hex_text bs]) (\<lambda>r t. r = 0 \<and> sh_fault t = sh_fault s \<and>
    sh_shown t = sh_shown s @ [Line ''TX'' (map uint bs), Line ''RX'' (map uint bs), Line (ascii_text bs) []]) s"
proof -
  have "hex_string_to_bytes_sp (''0x'' @ hex_text bs) = (int (length bs), bs)"
    unfolding hex_string_to_bytes_sp_def using assms(1) by (intro hex_round_trip) simp_all
  then show ?thesis
    using assms
    by (simp add: cmd_spi_send_hex_sp_def spi_tx_rx_sp_def wp_def store_def Let_def run_simps)
qed

section \<open>The echo\<close>

definition EC_ENODATA :: int where "EC_ENODATA = 61"

text \<open>\<open>recv_buf\<close> of \<open>main\<close>.\<close>

definition RECV_BUF_SIZE :: nat where "RECV_BUF_SIZE = 128"

text \<open>A poll for input returns a status and the character it stored, if it stored one.\<close>

record 'w echo_port =
  ec_configure :: "'w \<Rightarrow> int \<times> 'w"
  uart_poll_in :: "'w \<Rightarrow> (int \<times> char option) \<times> 'w"
  uart_poll_out :: "char \<Rightarrow> 'w \<Rightarrow> 'w"
  ec_sleep_ms :: "u32 \<Rightarrow> 'w \<Rightarrow> 'w"

fun send_chars :: "'w echo_port \<Rightarrow> string \<Rightarrow> (('w, 'z) sh_st_scheme, unit) state" where
  "send_chars E [] = State_Monad.return ()"
| "send_chars E (c # cs) = do { command (uart_poll_out E c); send_chars E cs }"

definition send_str :: "'w echo_port \<Rightarrow> string \<Rightarrow> (('w, 'z) sh_st_scheme, unit) state" where
  "send_str E str = send_chars E str"

text \<open>
  The two loops of \<open>recv_str\<close>, one poll in a turn, for a buffer of \<open>room\<close> characters; \<open>c\<close> is the variable the
  characters are polled into, without a value at first. The string without its terminator, or \<open>None\<close> when
  the turns run out. Nothing keeps the characters inside the buffer.
\<close>

fun recv_turns :: "'w echo_port \<Rightarrow> nat \<Rightarrow> nat \<Rightarrow> char option \<Rightarrow> string \<Rightarrow> (('w, 'z) sh_st_scheme, string option) state" where
  "recv_turns E room 0 c str = State_Monad.return None"
| "recv_turns E room (Suc n) c str = do {
     (ret, x) \<leftarrow> serve (uart_poll_in E);
     let c' = (case x of None \<Rightarrow> c | Some d \<Rightarrow> Some d);
     if ret = - EC_ENODATA then do { command (ec_sleep_ms E 1); recv_turns E room n c' str }
     else do {
       when_m (c' = None) sh_ub;
       let d = (case c' of None \<Rightarrow> NUL | Some d \<Rightarrow> d);
       when_m (length str + 1 > room) sh_ub;
       if d = CHR 0x0A \<or> d = CHR 0x0D then do {
         when_m (length str + 2 > room) sh_ub;
         State_Monad.return (Some (str @ [d]))
       }
       else recv_turns E room n c' (str @ [d])
     }
   }"

definition recv_str :: "'w echo_port \<Rightarrow> nat \<Rightarrow> (('w, 'z) sh_st_scheme, string option) state" where
  "recv_str E turns = recv_turns E RECV_BUF_SIZE turns None []"

text \<open>The start of \<open>main\<close>, \<open>None\<close> if it goes on to the loop. What goes to the console is left out.\<close>

definition main_se :: "'w echo_port \<Rightarrow> (('w, 'z) sh_st_scheme, int option) state" where
  "main_se E = do {
     rc \<leftarrow> serve (ec_configure E);
     State_Monad.return (if rc \<noteq> 0 then Some rc else None)
   }"

text \<open>A turn of the endless loop of \<open>main\<close>; whether the line ended within the turns.\<close>

definition echo_turn :: "'w echo_port \<Rightarrow> nat \<Rightarrow> (('w, 'z) sh_st_scheme, bool) state" where
  "echo_turn E turns = do {
     r \<leftarrow> recv_str E turns;
     case r of
       None \<Rightarrow> State_Monad.return False
     | Some str \<Rightarrow> do {
         send_str E (c_string str);
         command (ec_sleep_ms E 1);
         State_Monad.return True
       }
   }"

section \<open>Lines are echoed\<close>

text \<open>
  What a serial line promises: \<open>V w\<close> is what the polls will find, a character or nothing, and what was sent.
\<close>

definition serial_line :: "'w echo_port \<Rightarrow> ('w \<Rightarrow> char option list \<times> string) \<Rightarrow> bool" where
  "serial_line E V \<longleftrightarrow>
     (\<forall>w es out. V w = (None # es, out) \<longrightarrow>
        fst (uart_poll_in E w) = (- EC_ENODATA, None) \<and> V (snd (uart_poll_in E w)) = (es, out)) \<and>
     (\<forall>w c es out. V w = (Some c # es, out) \<longrightarrow>
        fst (uart_poll_in E w) = (0, Some c) \<and> V (snd (uart_poll_in E w)) = (es, out)) \<and>
     (\<forall>c w es out. V w = (es, out) \<longrightarrow> V (uart_poll_out E c w) = (es, out @ [c])) \<and>
     (\<forall>n w. V (ec_sleep_ms E n w) = V w)"

text \<open>Polls that find the characters of a line and, with the last of them, its end.\<close>

fun polls_line :: "char option list \<Rightarrow> string \<Rightarrow> bool" where
  "polls_line [] l \<longleftrightarrow> False"
| "polls_line (None # es) l \<longleftrightarrow> polls_line es l"
| "polls_line (Some c # es) [] \<longleftrightarrow> c = CHR 0x0A \<and> es = []"
| "polls_line (Some c # es) (d # l) \<longleftrightarrow> c = d \<and> c \<noteq> CHR 0x0A \<and> c \<noteq> CHR 0x0D \<and> polls_line es l"

lemma poll_nothing:
  assumes "serial_line E V" and "V w = (None # es, out)"
  obtains w' where "uart_poll_in E w = ((- EC_ENODATA, None), w')" and "V (ec_sleep_ms E 1 w') = (es, out)"
proof (cases "uart_poll_in E w")
  case (Pair r w')
  have "fst (uart_poll_in E w) = (- EC_ENODATA, None) \<and> V (snd (uart_poll_in E w)) = (es, out)"
    using assms unfolding serial_line_def by blast
  then show thesis using Pair that [of w'] assms(1) by (simp add: serial_line_def)
qed

lemma poll_char:
  assumes "serial_line E V" and "V w = (Some c # es, out)"
  obtains w' where "uart_poll_in E w = ((0, Some c), w')" and "V w' = (es, out)"
proof (cases "uart_poll_in E w")
  case (Pair r w')
  have "fst (uart_poll_in E w) = (0, Some c) \<and> V (snd (uart_poll_in E w)) = (es, out)"
    using assms unfolding serial_line_def by blast
  then show thesis using Pair that [of w'] assms(1) by (simp add: serial_line_def)
qed

lemma recv_line:
  assumes "serial_line E V" and "polls_line es l" and "V (sh_world s) = (es @ rest, out)" and "length es \<le> n"
  shows "wp (recv_turns E room n c str) (\<lambda>r t. r = Some (str @ l @ [CHR 0x0A]) \<and> V (sh_world t) = (rest, out) \<and>
      sh_fault t = (sh_fault s \<or> length str + length l + 2 > room)) s"
  using assms(2-4)
proof (induction es l arbitrary: n c str s rule: polls_line.induct)
  case (2 es l)
  obtain m where n: "n = Suc m" using "2.prems"(3) by (cases n) auto
  have "V (sh_world s) = (None # (es @ rest), out)"
    using "2.prems"(2) by simp
  then obtain w' where poll: "uart_poll_in E (sh_world s) = ((- EC_ENODATA, None), w')"
    and rest: "V (ec_sleep_ms E 1 w') = (es @ rest, out)"
    by (rule poll_nothing [OF assms(1)])
  have "wp (recv_turns E room m c str) (\<lambda>r t. r = Some (str @ l @ [CHR 0x0A]) \<and> V (sh_world t) = (rest, out) \<and>
      sh_fault t = (sh_fault s \<or> length str + length l + 2 > room)) (s\<lparr>sh_world := ec_sleep_ms E 1 w'\<rparr>)"
    using "2.IH" [of "s\<lparr>sh_world := ec_sleep_ms E 1 w'\<rparr>" m c str] "2.prems" rest n by simp
  then show ?case
    by (simp add: n wp_def run_simps poll)
next
  case (3 c' es)
  obtain m where n: "n = Suc m" using "3.prems"(3) by (cases n) auto
  have "V (sh_world s) = (Some (CHR 0x0A) # rest, out)"
    using "3.prems"(1,2) by simp
  then obtain w' where "uart_poll_in E (sh_world s) = ((0, Some (CHR 0x0A)), w')" and "V w' = (rest, out)"
    by (rule poll_char [OF assms(1)])
  then show ?case
    by (auto simp: n wp_def run_simps EC_ENODATA_def)
next
  case (4 c' es d l)
  obtain m where n: "n = Suc m" using "4.prems"(3) by (cases n) auto
  have d: "c' = d" "d \<noteq> CHR 0x0A" "d \<noteq> CHR 0x0D" "polls_line es l"
    using "4.prems"(1) by auto
  have "V (sh_world s) = (Some d # (es @ rest), out)"
    using "4.prems"(2) d(1) by simp
  then obtain w' where poll: "uart_poll_in E (sh_world s) = ((0, Some d), w')" and rest: "V w' = (es @ rest, out)"
    by (rule poll_char [OF assms(1)])
  define u where "u = s\<lparr>sh_world := w', sh_fault := sh_fault s \<or> length str + 1 > room\<rparr>"
  have "wp (recv_turns E room m (Some d) (str @ [d])) (\<lambda>r t. r = Some ((str @ [d]) @ l @ [CHR 0x0A]) \<and> V (sh_world t) = (rest, out) \<and>
      sh_fault t = (sh_fault u \<or> length (str @ [d]) + length l + 2 > room)) u"
    using "4.prems"(3) rest n by (intro "4.IH" d(4)) (auto simp: u_def)
  moreover have "run_state (recv_turns E room n c str) s = run_state (recv_turns E room m (Some d) (str @ [d])) u"
    using d by (simp add: n run_simps poll EC_ENODATA_def u_def)
  ultimately show ?case
    by (auto simp: wp_def u_def)
qed simp

lemma run_send:
  assumes "serial_line E V" and "V (sh_world s) = (es, out)"
  shows "wp (send_chars E str) (\<lambda>_ t. V (sh_world t) = (es, out @ str) \<and> sh_fault t = sh_fault s) s"
  using assms(2)
proof (induction str arbitrary: s out)
  case (Cons c str)
  have "V (sh_world (s\<lparr>sh_world := uart_poll_out E c (sh_world s)\<rparr>)) = (es, out @ [c])"
    using assms(1) Cons.prems by (simp add: serial_line_def)
  from Cons.IH [OF this] show ?case
    by (simp add: wp_def run_simps)
qed (simp add: wp_def)

text \<open>
  A line typed at the serial port is sent back with its end, whatever the pauses between its characters, if
  the turns are as many as the polls it takes. It overruns the buffer of 128 characters exactly if the line is
  longer than 126 characters, the end not counted.
\<close>

theorem line_echoed:
  assumes "serial_line E V" and "polls_line es l" and "NUL \<notin> set l" and "V (sh_world s) = (es @ rest, out)"
    and "length es \<le> turns" and "\<not> sh_fault s"
  shows "wp (echo_turn E turns) (\<lambda>r t. r \<and> V (sh_world t) = (rest, out @ l @ [CHR 0x0A]) \<and>
      (sh_fault t \<longleftrightarrow> length l > 126)) s"
proof -
  have cut: "c_string (l @ [CHR 0x0A]) = l @ [CHR 0x0A]"
    using assms(3) by (auto simp: c_string_def takeWhile_eq_all_conv)
  have send: "wp (send_str E (l @ [CHR 0x0A])) (\<lambda>_ u. V (sh_world u) = (rest, out @ l @ [CHR 0x0A]) \<and> sh_fault u = sh_fault t) t"
    if "V (sh_world t) = (rest, out)" for t
    using run_send [OF assms(1) that] by (simp add: send_str_def)
  have "wp (recv_str E turns) (\<lambda>r t. r = Some (l @ [CHR 0x0A]) \<and> V (sh_world t) = (rest, out) \<and>
      (sh_fault t \<longleftrightarrow> length l > 126)) s"
    unfolding recv_str_def
    by (rule wp_mono [OF recv_line [OF assms(1,2,4,5)]]) (use assms(6) in \<open>auto simp: RECV_BUF_SIZE_def\<close>)
  then show ?thesis
    unfolding echo_turn_def wp_bind
  proof (rule wp_mono, elim conjE, goal_cases)
    case (1 r t)
    have "wp (do { send_str E (l @ [CHR 0x0A]); command (ec_sleep_ms E 1); State_Monad.return True })
        (\<lambda>r t. r \<and> V (sh_world t) = (rest, out @ l @ [CHR 0x0A]) \<and> (sh_fault t \<longleftrightarrow> length l > 126)) t"
      unfolding wp_bind
      by (rule wp_mono [OF send [OF 1(3)]]) (use 1(4) assms(1) in \<open>simp add: command_def serial_line_def wp_bind wp_modify wp_return\<close>)
    then show ?case
      by (simp add: 1(2) cut)
  qed
qed

end
