(* ===== verification/Spec2Isabelle.thy ===== *)
theory Spec2Isabelle
  imports Fw_Select_Proofs Fw_Partition_Proofs Fw_Packet_Proofs Img_Mgmt_Proofs Ring_Init_Proofs Os_Proofs
    Stm32_Proofs Pm_Round_Proofs Pm_Stats_Proofs Shell_Proofs App_Ring_Proofs App_Slave_Proofs
    Sh_Crypto_Proofs Sh_Sleep_Proofs Samples
begin

text \<open>
  A model of the QCC730 application software and the theorems that make its core correct. Five parts of the
  sources are modelled, all that have logic of their own, and two samples.

  \<^bold>\<open>Firmware upgrade\<close> (\<open>src/common/mcumgr_qcom\<close>). An MCUmgr client uploads a configuration file and
  the images it announces; the session checks them, writes them into a trial region of the flash and
  asks the boot loader to try them. From the bottom up:

    \<^item> \<open>Flash_Adapter\<close> is \<open>flash_adapter.c\<close>: initialisation, erase, read and write over the flash driver.
    \<^item> \<open>Fw_Types\<close> and \<open>Fw_Codec\<close> hold the status codes and the packed structures of
      \<open>fw_upgrade_mem.c\<close> with their byte codecs: a firmware descriptor (FWD) of 512 bytes has a header
      and image entries.
    \<^item> \<open>Fw_Fdt\<close>: the boot table in RRAM, that is, the running descriptor, the trial of the second boot
      loader, and the forced boot.
    \<^item> \<open>Fw_Fwd\<close>: initialisation, erase of a descriptor, reading and writing its fields.
    \<^item> \<open>Fw_Partition\<close>: the pool of ten handles and the operations on partitions.
    \<^item> \<open>Fw_Trial\<close>: current and trial descriptor, acceptance and rejection of a trial, and the choice of
      the region of the next one.
    \<^item> \<open>Fw_Session_Types\<close>, \<open>Fw_Session\<close>, \<open>Fw_Config\<close>, \<open>Fw_Receive\<close> and \<open>Fw_Process\<close> are \<open>fw_upgrade.c\<close>: the
      context and the packed headers, the life of a session, the configuration file, the reception of
      an image, and the state machine with its loop.
    \<^item> \<open>Img_Mgmt\<close> is \<open>qcom_img_mgmt.c\<close>: the state, upload, confirm and erase handlers.

  \<^bold>\<open>QCSPI\<close> (\<open>src/qcspi_app\<close>). The host reaches the memory of the QCC730 over SPI, and exchanges messages
  with it through descriptor rings in that memory:

    \<^item> \<open>Qcspi\<close> is \<open>qcspi_driver.c\<close> with \<open>qcspi_protocol.h\<close>: register access, the wait for the slave, word
      transfers, and transfers of any alignment by reading and merging the first and last word.
    \<^item> \<open>Qcspi_Transport\<close> is \<open>qcspi_transport.c\<close>, which the ring service calls through a table.
    \<^item> \<open>Ring_Types\<close> and \<open>Ring_Service\<close> are \<open>ring_service_host.c\<close>: the control block, its cache, sending,
      receiving, notification, counts, and initialisation.
    \<^item> \<open>Os_Types\<close>, \<open>Os_Freertos\<close> and \<open>Os_Zephyr\<close> are the two ports of the OS layer of \<open>qc_osal.h\<close>: mutexes,
      semaphores, work queues, message queues, threads, time and heap.
    \<^item> \<open>Stm32\<close> is the platform layer under both systems, with the chip select and the wait for the DMA.
    \<^item> \<open>C_Text\<close> has what the programs use of the C library on text; \<open>App_Common\<close> the loops the demos share;
      \<open>Shell\<close> the command line of the FreeRTOS demo; \<open>App_Freertos\<close> and \<open>App_Zephyr\<close> the commands, callbacks
      and burst tests of the two host demos; \<open>App_Slave\<close> the application on the QCC730 (\<open>qcc730_slave\<close>).

  \<^bold>\<open>Power service\<close> (\<open>src/common/pm_service/src/pm_timer.c\<close>). \<open>Pm_Timer\<close>: the managed timers
  that are stopped before sleep and restarted after it, the table of system tasks that are suspended,
  the statistics of the kernel's timeouts, and initialisation.

  \<^bold>\<open>Shell commands\<close> (\<open>src/common/shell/src\<close>). \<open>Sh_Types\<close> has what the files share, the parsing of arguments
  and the tables of commands; \<open>Sh_Platform\<close>, \<open>Sh_Power\<close>, \<open>Sh_Crypto\<close>, \<open>Sh_Bmps\<close> and \<open>Sh_Wifi\<close> are
  \<open>platform_shell.c\<close>, \<open>qpower_shell.c\<close>, \<open>qcrypto_shell.c\<close>, \<open>qbmps_shell.c\<close> and \<open>qwifi_shell.c\<close>: every command
  with the table that registers it, the timer callbacks, and the filter for broadcast frames.

  \<^bold>\<open>How the C code is modelled.\<close> A function that works on globals is a value of the state monad over a
  record of these globals; \<open>Fw_Prelude\<close> has the monad's operations, the weakest preconditions \<open>wp\<close> and
  the preservation \<open>keeps\<close> of a predicate. Records extend each other as the files use each other: flash
  state, memory state, session state on the firmware side; host state, ring state and the state of a demo on
  the other. An output parameter is an option or a component of the result; a status code is a datatype on
  the firmware side and an \<open>int\<close> elsewhere. Integers have the width of the code, \<open>size_t\<close> 32 bits.
  What C leaves undefined, a null or dangling pointer, an index outside its array, a division by zero
  or the use of an uninitialised variable, sets a ghost field (\<open>faulted\<close>, \<open>ring_fault\<close>, \<open>os_fault\<close>,
  \<open>pm_fault\<close>, \<open>sh_fault\<close> and others). Locks are not contended: an operation runs to its end before the next
  one starts, and the slave's steps interleave between the operations of the host. What another thread does
  while a loop waits is a function on the state. Functions that exist in two programs have a suffix for the
  program: \<open>_fr\<close> for FreeRTOS, \<open>_z\<close> for Zephyr, \<open>_s\<close> for the slave, and \<open>_pf\<close>, \<open>_pw\<close>, \<open>_cr\<close>, \<open>_w\<close> among the
  shell commands.

  \<^bold>\<open>Parameters.\<close> What is not in the sources is an argument: \<open>platform\<close> has the Zephyr flash driver, the
  RRAM, the boot arguments, the allocator and SHA-256 (the digest context is the list of the bytes fed
  to it); \<open>host_port\<close> has the SPI transfer and the OS services of the board; \<open>freertos\<close> and \<open>zephyr\<close> are the
  kernels behind the OS layer, \<open>fr_board\<close> and \<open>z_board\<close> the drivers behind the platform layer; \<open>pm_kernel\<close> has
  the Zephyr kernel; \<open>app_port\<close>, \<open>zapp_port\<close> and \<open>slave_app_port\<close> what the demos call; \<open>platform_port\<close>,
  \<open>power_port\<close>, \<open>crypto_port\<close>, \<open>bmps_port\<close> and \<open>wifi_port\<close> the vendor libraries, the number parsers and the
  network manager of Zephyr behind the shell commands. Their documented behaviour is assumed by named
  predicates (\<open>flash_reliable\<close>, \<open>rram_memory\<close>, \<open>kernel_laws\<close>, \<open>its_storage\<close>, \<open>within_room\<close> and others). \<open>spi_slave\<close>
  is the slave for writes; for reads \<open>sized_slave\<close> makes it return memory only for transfers of the length
  its register announces. \<open>ticking\<close> reads the millisecond counter off a cycle counter, \<open>serves\<close> says what the
  handlers of a work queue leave alone, \<open>echo_service\<close> is the ring of the slave, of bounded room, and
  \<open>flash_apart\<close>, \<open>rram_apart\<close> and \<open>heap_never_full\<close> keep the memories of a board apart.
  Each theorem that needs one has a witness with a concrete instance: \<open>Fw_View\<close> simulates a board with NOR
  flash, \<open>Host_Link\<close> and \<open>Ring_Tx_Channel\<close> a slave with its memory and rings, \<open>Os_Sim\<close> and \<open>Pm_Round_Proofs\<close> kernels, \<open>Sh_Sim\<close>
  the services of the shell commands.

  \<^bold>\<open>Loops.\<close> A loop over an array is a recursion over its indices or over the list. A loop that the code
  bounds by data only takes fuel, with a ghost field (\<open>stuck\<close> and the like) or \<open>None\<close> when it runs out:

    \<^item> walks over blocks of a partition take \<open>block_fuel\<close>, the number of whole blocks and one more; the walk
      over images takes \<open>imageSet_fuel\<close>; the receive loop \<open>rx_fuel\<close>, the length of the buffer and 257, since
      each turn consumes bytes or finishes an image, of which there are at most 255; the session
      loop \<open>session_fuel\<close>, 64 and four times the length, since a state consumes bytes or is left.
      \<open>image_packets_stored\<close> and \<open>last_packet_decides\<close> are about complete runs that do not run out;
    \<^item> the poll of the SPI driver has its own bound in the code (\<open>qcspi_busy_timeout\<close>); the wait for a DMA
      transfer takes its turns as an argument, and \<open>spi_transfer_ends\<close> shows how many are enough;
    \<^item> the loops of the demos that empty a ring, run a burst or wait for a flag take their turns as an
      argument; \<open>rx_callback_drains\<close>, \<open>slave_echoes\<close> and \<open>burst_count_ends\<close> show how many are enough.

  \<^bold>\<open>Interfaces.\<close> Each locale is interpreted on the model's own definitions:

    \<^item> \<open>codec\<close> and \<open>bij_codec\<close> (\<open>Fw_Codec\<close>): a structure and its bytes; for every packed structure;
    \<^item> \<open>nor_device\<close> (\<open>Flash_Adapter\<close>): the contract of the flash operations; on the adapter;
    \<^item> \<open>handle_pool\<close> (\<open>Fw_Partition_Proofs\<close>): handles are given out once; on the table of handles;
    \<^item> \<open>mem_frame\<close> and \<open>session_frame\<close> (\<open>Fw_Frame\<close>, \<open>Fw_Session_Frame\<close>), \<open>ring_frame\<close> (\<open>Ring_Frame\<close>) and
      \<open>service_frame\<close> (\<open>Sh_Args_Proofs\<close>): what the operations of a layer leave alone, for the client above it;
    \<^item> \<open>remote_memory\<close> (\<open>Remote_Memory\<close>): a memory behind a link, what was written is read back and nothing
      else changes; on the driver in \<open>Host_Link\<close>;
    \<^item> \<open>fifo_channel\<close> (\<open>Ring_Queue\<close>): a queue with two ends that work at any order; on the transmit ring in
      \<open>Ring_Tx_Channel\<close> and on the receive ring in \<open>Ring_Rx_Channel\<close>;
    \<^item> \<open>osal_queue\<close> (\<open>Os_Queue\<close>): bounded message queues; on both ports in \<open>Os_Queue_Ports\<close>;
    \<^item> \<open>drained\<close> (\<open>App_Common\<close>): the loop that empties a source of packets; on the host's demo and the slave.

  \<^bold>\<open>What is shown.\<close>

    \<^item> \<open>Fw_Fdt_Proofs\<close>, \<open>Fw_Io_Proofs\<close>, \<open>Fw_Partition_Proofs\<close>: the boot table and
      descriptor operations change what they name and nothing else; a partition that was created is
      found again; a write or an erase stays inside its partition while the bounds arithmetic does not
      wrap, and what happens when it does; handles are given out once.
    \<^item> \<open>Fw_Trial_Proofs\<close>, \<open>Fw_Select_Proofs\<close>: accepting a trial changes two fields of the flash and nothing
      else; rejecting one; the region of the next trial is the half that does not run, and does not touch the
      images of the descriptor that must survive. \<open>Fw_View\<close> has the reading of the descriptor area these
      statements use.
    \<^item> \<open>Fw_Config_Proofs\<close>, \<open>Fw_Frame\<close>, \<open>Fw_Session_Frame\<close>, \<open>Fw_Gate_Proofs\<close>: no configuration file and
      no image gets past its digest; the images of an accepted file fit into the region.
    \<^item> \<open>Fw_Image_Proofs\<close>, \<open>Fw_Packet_Proofs\<close>: the packets of an image are stored in order in blocks erased
      ahead of them, whatever their sizes, and the last one decides by the digest of what is stored, and by
      whether the file system can be duplicated, which the flags of every session ask for (\<open>file_systems\<close>
      says which two partitions the active descriptor lists).
    \<^item> \<open>Img_Mgmt_Proofs\<close>: the session calls a list of upload requests leads to (\<open>session_calls\<close>) are those they
      ask for (\<open>passed_on\<close>), so that the session accepts every byte in order and once; the flags of
      the image slots agree with each other; two handlers test a status the wrong way round.
    \<^item> \<open>Qcspi_Proofs\<close>, \<open>Qcspi_Align_Proofs\<close>, \<open>Host_Link\<close>: transfers of any alignment and length are exact.
    \<^item> \<open>Ring_Layout\<close>, \<open>Ring_Tx_Proofs\<close>, \<open>Ring_Tx_Channel\<close>, \<open>Ring_Rx_Proofs\<close>,
      \<open>Ring_Rx_Channel\<close>, \<open>Ring_Init_Proofs\<close>: each ring refines a FIFO queue under every interleaving of
      host and slave; when sends succeed and how receives fail; initialisation.
    \<^item> \<open>Os_Contracts\<close>, \<open>Os_Queue\<close>, \<open>Os_Queue_Ports\<close>, \<open>Os_Proofs\<close>: the message queues of the two ports cannot be
      told apart; work items run in order, however submissions and turns of the task alternate; an initialisation
      that fails gives back what it took.
    \<^item> \<open>Stm32_Proofs\<close>: when the chip select stays asserted, and that a transfer ends.
    \<^item> \<open>C_Text\<close>, \<open>Shell_Proofs\<close>, \<open>App_Write_Proofs\<close>, \<open>App_Ring_Proofs\<close>, \<open>App_Slave_Proofs\<close>: hexadecimal
      text is parsed back; a typed line runs its command; what commands may write; the callbacks empty
      their rings, the slave echoes what its ring has room for, a burst ends.
    \<^item> \<open>Pm_Task_Proofs\<close>, \<open>Pm_Idle_Proofs\<close>, \<open>Pm_Round_Proofs\<close>, \<open>Pm_Stats_Proofs\<close>: a round of sleep restarts
      every timer it stopped; the list of managed timers stays sound in every reachable state, and nothing
      undefined happens unless the timer of the shell is removed (\<open>pm_reach\<close> counts this case); which
      tasks are suspended; the statistics are those of the expiry times.
    \<^item> \<open>Sh_Args_Proofs\<close>, \<open>Sh_Crypto_Proofs\<close>, \<open>Sh_Sleep_Proofs\<close>: commands called as their tables admit do
      nothing undefined, and which do; the Wi-Fi driver is asked for what is in range only, by all commands
      but two; the secure storage gives back the text that was stored, and memory is given back; a sleep
      session ends; the filter for broadcast frames follows its list of four ports.
    \<^item> \<open>Samples\<close> models two samples of \<open>qcc730testing\<close>, the SPI shell and the echo on a serial line: a
      loopback shows what was sent; a line is echoed, and overruns the buffer if it is long.

  \<^bold>\<open>Not modelled.\<close> The sample applications (\<open>bmps_app\<close>, \<open>ftm_app\<close>, \<open>power_app\<close>, \<open>qcli_app\<close>, \<open>wifi_app\<close>) are
  start-up code that prints. The driver tests and the other samples of \<open>qcc730testing\<close> exercise drivers that
  are not in the sources. The configuration of the FreeRTOS shell for AT commands calls functions that are not in the
  sources. Log and dump functions, and what is only printed for a user, have no effect in the model. Build
  files and patches are left out.
\<close>

end
